(* ===== verification/Prelude.thy ===== *)
theory Prelude
  imports Main "HOL-Library.Word"
begin

text \<open>
  Shared vocabulary of the development: the C integer types as words, the
  conversions the C code performs implicitly, and the generic lemmas on lists,
  options, sorted association lists and words that several components use.
  The collections \<open>key_simps\<close> (packing of the allocator's 64-bit keys),
  \<open>word_bounds\<close> (reading a word back after bounded arithmetic) and
  \<open>res_simps\<close> (sequencing of partial computations) are extended by the
  component theories.
\<close>

named_theorems key_simps \<open>packing and unpacking of 64-bit keys\<close>
named_theorems word_bounds \<open>unsigned readings of bounded word arithmetic\<close>
named_theorems res_simps \<open>sequencing of computations that may fault\<close>

unbundle bit_operations_syntax

section \<open>C integer types\<close>

type_synonym u8 = "8 word"
type_synonym u16 = "16 word"
type_synonym u32 = "32 word"
type_synonym u64 = "64 word"

text \<open>Conversion of an unsigned 64-bit value to a C \<open>int\<close>: the low 32 bits,
  read as a two's complement number.\<close>

definition int_of_u64 :: "u64 \<Rightarrow> int" where
  "int_of_u64 x = sint (ucast x :: u32)"

lemma sint_ucast_small:
  assumes "uint (x::u64) < 2^31"
  shows "sint (ucast x :: u32) = uint x"
proof -
  have "uint (ucast x :: u32) = uint x"
    using assms by (simp add: unsigned_ucast_eq take_bit_int_eq_self)
  then have "sint (ucast x :: u32) = signed_take_bit 31 (uint x)"
    by (simp add: sint_uint)
  also have "\<dots> = uint x"
    using assms by (intro signed_take_bit_int_eq_self) (auto intro: order_trans [OF _ uint_ge_0])
  finally show ?thesis .
qed

lemma int_of_u64_small [word_bounds]:
  "uint x < 2^31 \<Longrightarrow> int_of_u64 x = uint x"
  unfolding int_of_u64_def by (rule sint_ucast_small)

lemma uint_add_bounded [word_bounds]:
  fixes x y :: "'a::len word"
  assumes "uint x + uint y < 2 ^ LENGTH('a)"
  shows "uint (x + y) = uint x + uint y"
  using assms by (simp add: uint_add_lem)

lemma uint_of_int_small [word_bounds]:
  assumes "0 \<le> i" "i < 2 ^ LENGTH('a::len)"
  shows "uint (of_int i :: 'a word) = i"
  using assms by (simp add: unsigned_of_int take_bit_int_eq_self)

text \<open>Two digits of a number, and fields of a word put together by \<open>OR\<close>.\<close>

lemma digits:
  fixes m :: int
  assumes "x * m + y = x' * m + y'" "0 \<le> y" "y < m" "0 \<le> y'" "y' < m"
  shows "x = x' \<and> y = y'"
proof -
  have "(x * m + y) div m = x" "(x' * m + y') div m = x'" using assms(2-) by simp_all
  then have "x = x'" using assms(1) by simp
  then show ?thesis using assms(1) by simp
qed

lemma or_is_plus:
  fixes w a :: "'a::len word"
  assumes "uint a < 2 ^ n"
  shows "push_bit n w OR a = push_bit n w + a"
proof (rule disjunctive_add_eq_or[symmetric])
  have "take_bit n (uint a) = uint a" using assms by (simp add: take_bit_int_eq_self)
  then have "\<not> bit (uint a) k" if "n \<le> k" for k using that by (metis bit_take_bit_iff not_le)
  then have "\<not> bit a k" if "n \<le> k" for k using that by (auto simp: bit_uint_iff dest: bit_imp_le_length)
  then show "push_bit n w AND a = 0"
    by (auto simp: bit_eq_iff bit_simps not_le)
qed

section \<open>Computations that may fault\<close>

text \<open>A computation of type \<open>'a option\<close> is \<open>None\<close> when the C code does not
  return: a failed \<open>ASSERT\<close> loops forever, and a dereference of a null
  pointer stops the program.\<close>

lemmas [res_simps] = Option.bind_eq_Some_conv Option.bind.bind_lunit

section \<open>Lists sorted by key\<close>

type_synonym ('k, 'v) alist = "('k \<times> 'v) list"

abbreviation keys_sorted :: "('k::linorder, 'v) alist \<Rightarrow> bool" where
  "keys_sorted xs \<equiv> sorted (map fst xs)"

text \<open>Insertion behind every entry whose key is not larger.\<close>

definition ins_after :: "'k::linorder \<Rightarrow> 'v \<Rightarrow> ('k, 'v) alist \<Rightarrow> ('k, 'v) alist" where
  "ins_after k v xs =
     filter (\<lambda>e. fst e \<le> k) xs @ (k, v) # filter (\<lambda>e. k < fst e) xs"

lemma filter_none: "(\<And>x. x \<in> set xs \<Longrightarrow> \<not> P x) \<Longrightarrow> filter P xs = []"
  by (induction xs) auto

lemma filter_every: "(\<And>x. x \<in> set xs \<Longrightarrow> P x) \<Longrightarrow> filter P xs = xs"
  by (induction xs) auto

lemma keys_sorted_parts:
  assumes "keys_sorted (xs @ e # ys)"
  shows "keys_sorted xs" "keys_sorted ys"
    "\<And>x. x \<in> set xs \<Longrightarrow> fst x \<le> fst e" "\<And>y. y \<in> set ys \<Longrightarrow> fst e \<le> fst y"
    "\<And>x y. x \<in> set xs \<Longrightarrow> y \<in> set ys \<Longrightarrow> fst x \<le> fst y"
  using assms by (auto simp: sorted_append)

lemma ins_after_right:
  assumes "keys_sorted (xs @ e # ys)" "fst e \<le> k"
  shows "ins_after k v (xs @ e # ys) = xs @ e # ins_after k v ys"
proof -
  have le: "fst x \<le> k" if "x \<in> set xs" for x
    using keys_sorted_parts(3)[OF assms(1) that] assms(2) by simp
  have "filter (\<lambda>e. fst e \<le> k) xs = xs" by (rule filter_every) (rule le)
  moreover have "filter (\<lambda>e. k < fst e) xs = []"
    by (rule filter_none) (use le in \<open>auto simp: not_less\<close>)
  ultimately show ?thesis using assms(2) by (simp add: ins_after_def)
qed

lemma ins_after_left:
  assumes "keys_sorted (xs @ e # ys)" "k < fst e"
  shows "ins_after k v (xs @ e # ys) = ins_after k v xs @ e # ys"
proof -
  have gt: "k < fst y" if "y \<in> set ys" for y
    using keys_sorted_parts(4)[OF assms(1) that] assms(2) by simp
  have "filter (\<lambda>e. k < fst e) ys = ys" by (rule filter_every) (rule gt)
  moreover have "filter (\<lambda>e. fst e \<le> k) ys = []"
    by (rule filter_none) (use gt in \<open>auto simp: not_le\<close>)
  moreover have "\<not> fst e \<le> k" using assms(2) by simp
  ultimately show ?thesis using assms(2) by (simp add: ins_after_def)
qed

lemma set_ins_after [simp]: "set (ins_after k v xs) = insert (k, v) (set xs)"
  by (auto simp: ins_after_def)

lemma keys_sorted_ins_after:
  "keys_sorted xs \<Longrightarrow> keys_sorted (ins_after k v xs)"
  by (auto simp: ins_after_def sorted_append sorted_filter)

lemma distinct_ins_after:
  assumes "distinct (map fst xs)" "k \<notin> fst ` set xs"
  shows "distinct (map fst (ins_after k v xs))"
  using assms by (auto simp: ins_after_def distinct_map_filter)

lemma keys_sorted_drop_mid:
  "keys_sorted (xs @ e # ys) \<Longrightarrow> keys_sorted (xs @ ys)"
  by (auto simp: sorted_append)

text \<open>A loop over a list whose body may fault.\<close>

fun opt_fold :: "('b \<Rightarrow> 's \<Rightarrow> 's option) \<Rightarrow> 'b list \<Rightarrow> 's \<Rightarrow> 's option" where
  "opt_fold f [] s = Some s"
| "opt_fold f (x # xs) s = Option.bind (f x s) (opt_fold f xs)"

end
