(* ===== verification/Avl.thy ===== *)
theory Avl
  imports Prelude "HOL-Library.Monad_Syntax"
begin

text \<open>
  The height-balanced search tree of \<open>src/driver/mm.c\<close>.  A node carries the
  64-bit key, the stored height and the page it refers to; a null pointer is
  \<open>Leaf\<close>.  Every routine of the file that rebuilds a tree is one definition
  here; a failed \<open>ASSERT\<close> (an endless loop) and a null dereference are
  \<open>None\<close>.  The lemmas show that the rebalancing never reaches its \<open>ASSERT\<close>,
  that heights stay exact and balanced, and that insertion, removal and the
  best-fit removal act on the in-order list of entries as on a sorted list.
  The locale \<open>ordered_index\<close> is the interface the allocator relies on.
\<close>

section \<open>Nodes, heights and rotations\<close>

datatype 'p avl =
    Leaf
  | Node (nkey: u64) (nheight: int) (npage: 'p) (nleft: "'p avl") (nright: "'p avl")

datatype rotation_dir = LEFT | RIGHT

fun HEIGHT :: "'p avl \<Rightarrow> int" where
  "HEIGHT Leaf = -1"
| "HEIGHT (Node k h p l r) = h"

definition MAX2 :: "int \<Rightarrow> int \<Rightarrow> int" where
  "MAX2 a b = (if a \<ge> b then a else b)"

text \<open>The allocation of a node fails when \<open>malloc\<close> does (\<open>ok\<close> is false).\<close>

definition make_avl_node :: "bool \<Rightarrow> u64 \<Rightarrow> 'p \<Rightarrow> 'p avl" where
  "make_avl_node ok key page = (if ok then Node key 0 page Leaf Leaf else Leaf)"

fun get_balance_factor :: "'p avl \<Rightarrow> int" where
  "get_balance_factor Leaf = 0"
| "get_balance_factor (Node k h p l r) = HEIGHT r - HEIGHT l"

text \<open>A node whose height is recomputed from its children.\<close>

definition mk :: "u64 \<Rightarrow> 'p \<Rightarrow> 'p avl \<Rightarrow> 'p avl \<Rightarrow> 'p avl" where
  "mk k p l r = Node k (MAX2 (HEIGHT l) (HEIGHT r) + 1) p l r"

fun rotation_left :: "'p avl \<Rightarrow> 'p avl" where
  "rotation_left Leaf = Leaf"
| "rotation_left (Node k h p l Leaf) = Node k h p l Leaf"
| "rotation_left (Node k h p l (Node rk rh rp rl rr)) = mk rk rp (mk k p l rl) rr"

fun rotation_right :: "'p avl \<Rightarrow> 'p avl" where
  "rotation_right Leaf = Leaf"
| "rotation_right (Node k h p Leaf r) = Leaf"
| "rotation_right (Node k h p (Node lk lh lp ll lr) r) = mk lk lp ll (mk k p lr r)"

fun do_balance :: "'p avl \<Rightarrow> 'p avl option" where
  "do_balance Leaf = Some Leaf"
| "do_balance (Node k h p l r) =
    (let bfactor = get_balance_factor (Node k h p l r) in
     if bfactor \<ge> 2 then
       (let child = get_balance_factor r in
        if child = 1 \<or> child = 0 then Some (rotation_left (Node k h p l r))
        else if child = -1 then Some (rotation_left (Node k h p l (rotation_right r)))
        else None)
     else if bfactor \<le> -2 then
       (let child = get_balance_factor l in
        if child = -1 \<or> child = 0 then Some (rotation_right (Node k h p l r))
        else if child = 1 then Some (rotation_right (Node k h p (rotation_left l) r))
        else None)
     else Some (Node k h p l r))"

text \<open>The statement \<open>tree->height = MAX(...) + 1\<close>: it faults on a null tree.\<close>

fun set_height :: "'p avl \<Rightarrow> 'p avl option" where
  "set_height Leaf = None"
| "set_height (Node k h p l r) = Some (mk k p l r)"

section \<open>Insertion and removal\<close>

text \<open>The result is the remaining tree and the node that was unlinked, which
  keeps its own children when it was the root of the call.\<close>

fun unlink_end_node :: "'p avl \<Rightarrow> rotation_dir \<Rightarrow> ('p avl \<times> 'p avl) option" where
  "unlink_end_node Leaf dir = Some (Leaf, Leaf)"
| "unlink_end_node (Node k h p l r) LEFT =
    (if l = Leaf then Some (Leaf, Node k h p l r)
     else do {
       (l1, found) \<leftarrow> unlink_end_node l LEFT;
       (l2, found2) \<leftarrow>
         (if l1 = Leaf then
            (case found of Leaf \<Rightarrow> None
             | Node fk fh fp fl fr \<Rightarrow> Some (fr, Node fk fh fp Leaf Leaf))
          else Some (l1, found));
       t \<leftarrow> do_balance (mk k p l2 r);
       Some (t, found2) })"
| "unlink_end_node (Node k h p l r) RIGHT =
    (if r = Leaf then Some (Leaf, Node k h p l r)
     else do {
       (r1, found) \<leftarrow> unlink_end_node r RIGHT;
       (r2, found2) \<leftarrow>
         (if r1 = Leaf then
            (case found of Leaf \<Rightarrow> None
             | Node fk fh fp fl fr \<Rightarrow> Some (fl, Node fk fh fp Leaf Leaf))
          else Some (r1, found));
       t \<leftarrow> do_balance (mk k p l r2);
       Some (t, found2) })"

fun avltree_insert :: "bool \<Rightarrow> 'p avl \<Rightarrow> u64 \<Rightarrow> 'p \<Rightarrow> 'p avl option" where
  "avltree_insert ok Leaf key page =
     do_balance (make_avl_node ok key page) \<bind> set_height"
| "avltree_insert ok (Node k h p l r) key page =
    (if key \<ge> k then do {
       r1 \<leftarrow> avltree_insert ok r key page;
       t \<leftarrow> do_balance (Node k h p l r1);
       set_height t }
     else do {
       l1 \<leftarrow> avltree_insert ok l key page;
       t \<leftarrow> do_balance (Node k h p l1 r);
       set_height t })"

text \<open>Removal of the root: the smallest node of the right subtree, else the
  largest of the left one, else the child itself becomes the new root.\<close>

fun do_unlink :: "'p avl \<Rightarrow> 'p avl option" where
  "do_unlink Leaf = None"
| "do_unlink (Node k h p l r) = do {
     (node, end) \<leftarrow> unlink_end_node r LEFT;
     if node \<noteq> Leaf then
       (case end of Leaf \<Rightarrow> Some Leaf | Node ek eh ep el er \<Rightarrow> Some (mk ek ep l node))
     else do {
       (node2, end2) \<leftarrow> unlink_end_node l RIGHT;
       if node2 \<noteq> Leaf then
         (case end2 of Leaf \<Rightarrow> Some Leaf | Node ek eh ep el er \<Rightarrow> Some (mk ek ep node2 r))
       else
         (case r of Node ek eh ep el er \<Rightarrow> Some (mk ek ep l er)
          | Leaf \<Rightarrow>
            (case l of Node ek eh ep el er \<Rightarrow> Some (mk ek ep el r)
             | Leaf \<Rightarrow> Some Leaf)) } }"

text \<open>The tail shared by both removals: recompute the height of a non-null
  tree, then rebalance it.\<close>

definition finish_remove :: "'p avl \<Rightarrow> 'p avl option" where
  "finish_remove t =
     do_balance (case t of Leaf \<Rightarrow> Leaf | Node k h p l r \<Rightarrow> mk k p l r)"

text \<open>The found node is returned as its key and page.\<close>

fun avltree_remove :: "'p avl \<Rightarrow> u64 \<Rightarrow> ('p avl \<times> (u64 \<times> 'p) option) option" where
  "avltree_remove Leaf key = Some (Leaf, None)"
| "avltree_remove (Node k h p l r) key =
    (if key = k then do {
       t \<leftarrow> do_unlink (Node k h p l r);
       t' \<leftarrow> finish_remove t;
       Some (t', Some (k, p)) }
     else if key > k then do {
       (r1, found) \<leftarrow> avltree_remove r key;
       t' \<leftarrow> finish_remove (Node k h p l r1);
       Some (t', found) }
     else do {
       (l1, found) \<leftarrow> avltree_remove l key;
       t' \<leftarrow> finish_remove (Node k h p l1 r);
       Some (t', found) })"

fun remove_approx_value :: "'p avl \<Rightarrow> u64 \<Rightarrow> ('p avl \<times> (u64 \<times> 'p) option) option" where
  "remove_approx_value Leaf key = Some (Leaf, None)"
| "remove_approx_value (Node k h p l r) key =
    (if key = k then do {
       t \<leftarrow> do_unlink (Node k h p l r);
       t' \<leftarrow> finish_remove t;
       Some (t', Some (k, p)) }
     else if key > k then do {
       (r1, found) \<leftarrow> remove_approx_value r key;
       t' \<leftarrow> finish_remove (Node k h p l r1);
       Some (t', found) }
     else do {
       (l1, found) \<leftarrow> remove_approx_value l key;
       if found = None then do {
         t \<leftarrow> do_unlink (Node k h p l1 r);
         t' \<leftarrow> finish_remove t;
         Some (t', Some (k, p)) }
       else do {
         t' \<leftarrow> finish_remove (Node k h p l1 r);
         Some (t', found) } })"

text \<open>\<open>avltree_free\<close> releases every node once, children first; the model
  returns the released nodes' keys in that order.\<close>

fun avltree_free :: "'p avl \<Rightarrow> u64 list" where
  "avltree_free Leaf = []"
| "avltree_free (Node k h p l r) =
    (if l = Leaf \<and> r = Leaf then [k]
     else avltree_free l @ avltree_free r @ [k])"

section \<open>Invariants and the in-order reading\<close>

fun entries :: "'p avl \<Rightarrow> (u64, 'p) alist" where
  "entries Leaf = []"
| "entries (Node k h p l r) = entries l @ (k, p) # entries r"

fun balanced :: "'p avl \<Rightarrow> bool" where
  "balanced Leaf = True"
| "balanced (Node k h p l r) =
    (balanced l \<and> balanced r \<and> \<bar>HEIGHT l - HEIGHT r\<bar> \<le> 1 \<and> h = MAX2 (HEIGHT l) (HEIGHT r) + 1)"

definition avl_inv :: "'p avl \<Rightarrow> bool" where
  "avl_inv t \<longleftrightarrow> balanced t \<and> keys_sorted (entries t)"

named_theorems avl_simps \<open>unfolding one level of the tree routines\<close>

lemmas [avl_simps] = MAX2_def mk_def Let_def

lemma HEIGHT_mk [simp]: "HEIGHT (mk k p l r) = MAX2 (HEIGHT l) (HEIGHT r) + 1"
  by (simp add: mk_def)

lemma entries_mk [simp]: "entries (mk k p l r) = entries l @ (k, p) # entries r"
  by (simp add: mk_def)

lemma mk_not_Leaf [simp]: "mk k p l r \<noteq> Leaf" "Leaf \<noteq> mk k p l r"
  by (simp_all add: mk_def)

lemma balanced_mk [simp]:
  "balanced (mk k p l r) \<longleftrightarrow> balanced l \<and> balanced r \<and> \<bar>HEIGHT l - HEIGHT r\<bar> \<le> 1"
  by (simp add: mk_def)

lemma rotation_left_mk [simp]:
  "rotation_left (Node k h p l (mk rk rp rl rr)) = mk rk rp (mk k p l rl) rr"
  by (simp add: mk_def)

lemma rotation_right_mk [simp]:
  "rotation_right (Node k h p (mk lk lp ll lr) r) = mk lk lp ll (mk k p lr r)"
  by (simp add: mk_def)

lemma HEIGHT_ge: "balanced t \<Longrightarrow> HEIGHT t \<ge> -1"
  by (induction t) (auto simp: MAX2_def)

lemma HEIGHT_ge_0: "balanced t \<Longrightarrow> t \<noteq> Leaf \<Longrightarrow> HEIGHT t \<ge> 0"
  by (cases t) (auto simp: MAX2_def dest!: HEIGHT_ge)

lemma HEIGHT_eq_m1: "balanced t \<Longrightarrow> HEIGHT t = -1 \<longleftrightarrow> t = Leaf"
  using HEIGHT_ge_0 by fastforce

lemma entries_eq_Nil [simp]: "entries t = [] \<longleftrightarrow> t = Leaf"
  by (cases t) auto

lemma set_height_mk [simp]: "set_height (Node k h p l r) = Some (mk k p l r)"
  by simp

text \<open>A height within the range one structural change can produce.\<close>

abbreviation grown :: "int \<Rightarrow> 'p avl \<Rightarrow> bool" where
  "grown h t \<equiv> HEIGHT t = h \<or> HEIGHT t = h + 1"

definition shrunk :: "int \<Rightarrow> 'p avl \<Rightarrow> bool" where
  "shrunk h t \<longleftrightarrow> HEIGHT t = h \<or> HEIGHT t = h - 1"

lemma do_balance_id:
  "\<bar>HEIGHT l - HEIGHT r\<bar> \<le> 1 \<Longrightarrow> do_balance (Node k h p l r) = Some (Node k h p l r)"
  by (auto simp: Let_def)

lemma do_balance_right:
  assumes "balanced l" "balanced r" "HEIGHT r = HEIGHT l + 2"
  shows "\<exists>t. do_balance (Node k h p l r) = Some t \<and> balanced t \<and> grown (HEIGHT r) t
    \<and> entries t = entries l @ (k, p) # entries r"
proof -
  have "r \<noteq> Leaf" using assms HEIGHT_ge[of l] by auto
  then obtain rk rh rp rl rr where r: "r = Node rk rh rp rl rr" by (cases r) auto
  have rb: "balanced rl" "balanced rr" "\<bar>HEIGHT rl - HEIGHT rr\<bar> \<le> 1"
    and rh: "rh = MAX2 (HEIGHT rl) (HEIGHT rr) + 1" "rh = HEIGHT l + 2"
    using assms(2,3) r by auto
  show ?thesis
  proof (cases "HEIGHT rr < HEIGHT rl")
    case False
    have rr: "HEIGHT rr = HEIGHT l + 1" using False rh by (simp add: MAX2_def split: if_splits)
    have rl: "HEIGHT rl = HEIGHT l + 1 \<or> HEIGHT rl = HEIGHT l" using False rb(3) rr by linarith
    have "do_balance (Node k h p l r) = Some (mk rk rp (mk k p l rl) rr)"
      using rl rr rh(2) by (auto simp: r Let_def)
    then show ?thesis using assms(1) rb(1,2) rl rr rh(2) by (auto simp: r MAX2_def)
  next
    case True
    have hl: "HEIGHT rl = HEIGHT l + 1" "HEIGHT rr = HEIGHT l"
      using True rb(3) rh by (auto simp: MAX2_def)
    have "rl \<noteq> Leaf" using hl HEIGHT_ge[OF assms(1)] by auto
    then obtain lk lh lp ll lr where rl: "rl = Node lk lh lp ll lr" by (cases rl) auto
    have lb: "balanced ll" "balanced lr" "\<bar>HEIGHT ll - HEIGHT lr\<bar> \<le> 1"
      and lh: "lh = MAX2 (HEIGHT ll) (HEIGHT lr) + 1" "lh = HEIGHT l + 1"
      using rb(1) rl hl(1) by auto
    have m: "MAX2 (HEIGHT ll) (HEIGHT lr) = HEIGHT l" using lh by simp
    have ll: "HEIGHT ll = HEIGHT l \<or> HEIGHT ll = HEIGHT l - 1"
      and lr: "HEIGHT lr = HEIGHT l \<or> HEIGHT lr = HEIGHT l - 1"
      using m lb(3) unfolding MAX2_def by (auto split: if_splits)
    have "do_balance (Node k h p l r) = Some (mk lk lp (mk k p l ll) (mk rk rp lr rr))"
      using hl(2) lh(2) rh(2) by (simp add: r rl Let_def)
    then show ?thesis
      using lb(1,2) assms(1) rb(2) hl(2) ll lr rh(2) by (auto simp: r rl MAX2_def)
  qed
qed

lemma do_balance_left:
  assumes "balanced l" "balanced r" "HEIGHT l = HEIGHT r + 2"
  shows "\<exists>t. do_balance (Node k h p l r) = Some t \<and> balanced t \<and> grown (HEIGHT l) t
    \<and> entries t = entries l @ (k, p) # entries r"
proof -
  have "l \<noteq> Leaf" using assms HEIGHT_ge[of r] by auto
  then obtain lk lh lp ll lr where l: "l = Node lk lh lp ll lr" by (cases l) auto
  have lb: "balanced ll" "balanced lr" "\<bar>HEIGHT ll - HEIGHT lr\<bar> \<le> 1"
    and lh: "lh = MAX2 (HEIGHT ll) (HEIGHT lr) + 1" "lh = HEIGHT r + 2"
    using assms(1,3) l by auto
  show ?thesis
  proof (cases "HEIGHT ll < HEIGHT lr")
    case False
    have hll: "HEIGHT ll = HEIGHT r + 1" using False lh by (simp add: MAX2_def split: if_splits)
    have hlr: "HEIGHT lr = HEIGHT r + 1 \<or> HEIGHT lr = HEIGHT r" using False lb(3) hll by linarith
    have "do_balance (Node k h p l r) = Some (mk lk lp ll (mk k p lr r))"
      using hll hlr lh(2) by (auto simp: l Let_def)
    then show ?thesis using assms(2) lb(1,2) hll hlr lh(2) by (auto simp: l MAX2_def)
  next
    case True
    have hr: "HEIGHT lr = HEIGHT r + 1" "HEIGHT ll = HEIGHT r"
      using True lb(3) lh by (auto simp: MAX2_def)
    have "lr \<noteq> Leaf" using hr HEIGHT_ge[OF assms(2)] by auto
    then obtain rk rh rp rl rr where lr: "lr = Node rk rh rp rl rr" by (cases lr) auto
    have rb: "balanced rl" "balanced rr" "\<bar>HEIGHT rl - HEIGHT rr\<bar> \<le> 1"
      and rh: "rh = MAX2 (HEIGHT rl) (HEIGHT rr) + 1" "rh = HEIGHT r + 1"
      using lb(2) lr hr(1) by auto
    have m: "MAX2 (HEIGHT rl) (HEIGHT rr) = HEIGHT r" using rh by simp
    have hrl: "HEIGHT rl = HEIGHT r \<or> HEIGHT rl = HEIGHT r - 1"
      and hrr: "HEIGHT rr = HEIGHT r \<or> HEIGHT rr = HEIGHT r - 1"
      using m rb(3) unfolding MAX2_def by (auto split: if_splits)
    have "do_balance (Node k h p l r) = Some (mk rk rp (mk lk lp ll rl) (mk k p rr r))"
      using hr(2) rh(2) lh(2) by (simp add: l lr Let_def)
    then show ?thesis
      using rb(1,2) assms(2) lb(1) hr(2) hrl hrr lh(2) by (auto simp: l lr MAX2_def)
  qed
qed

text \<open>The one fact about rebalancing the recursions use: two balanced children
  whose heights differ by at most two.\<close>

lemma do_balance_avl:
  assumes "balanced l" "balanced r" "\<bar>HEIGHT l - HEIGHT r\<bar> \<le> 2"
  shows "\<exists>t. do_balance (Node k h p l r) = Some t \<and> t \<noteq> Leaf
    \<and> entries t = entries l @ (k, p) # entries r
    \<and> (if \<bar>HEIGHT l - HEIGHT r\<bar> \<le> 1 then t = Node k h p l r
       else balanced t \<and> grown (MAX2 (HEIGHT l) (HEIGHT r)) t)"
proof -
  consider "\<bar>HEIGHT l - HEIGHT r\<bar> \<le> 1" | "HEIGHT r = HEIGHT l + 2" | "HEIGHT l = HEIGHT r + 2"
    using assms(3) by linarith
  then show ?thesis
  proof cases
    case 1
    then show ?thesis using do_balance_id[of l r k h p] by auto
  next
    case 2
    then show ?thesis using do_balance_right[OF assms(1,2), of k h p] by (force simp: MAX2_def)
  next
    case 3
    then show ?thesis using do_balance_left[OF assms(1,2), of k h p] by (force simp: MAX2_def)
  qed
qed

lemma do_balance_mk:
  assumes "balanced l" "balanced r" "\<bar>HEIGHT l - HEIGHT r\<bar> \<le> 2"
  shows "\<exists>t. do_balance (mk k p l r) = Some t \<and> balanced t \<and> t \<noteq> Leaf
    \<and> entries t = entries l @ (k, p) # entries r
    \<and> (if \<bar>HEIGHT l - HEIGHT r\<bar> \<le> 1 then t = mk k p l r
       else grown (MAX2 (HEIGHT l) (HEIGHT r)) t)"
  using do_balance_avl[OF assms, of k "MAX2 (HEIGHT l) (HEIGHT r) + 1" p] assms(1,2)
  by (auto simp: mk_def split: if_splits)

lemma avl_set_height: "balanced t \<Longrightarrow> t \<noteq> Leaf \<Longrightarrow> set_height t = Some t"
  by (cases t) (auto simp: mk_def)

lemma balance_then_height:
  assumes "balanced l" "balanced r" "\<bar>HEIGHT l - HEIGHT r\<bar> \<le> 2"
  shows "\<exists>t. do_balance (Node k h p l r) \<bind> set_height = Some t \<and> balanced t \<and> t \<noteq> Leaf
    \<and> entries t = entries l @ (k, p) # entries r
    \<and> (if \<bar>HEIGHT l - HEIGHT r\<bar> \<le> 1 then t = mk k p l r
       else grown (MAX2 (HEIGHT l) (HEIGHT r)) t)"
proof (cases "\<bar>HEIGHT l - HEIGHT r\<bar> \<le> 1")
  case True
  then show ?thesis using do_balance_id[of l r k h p] assms by (auto simp: mk_def)
next
  case False
  then show ?thesis using do_balance_avl[OF assms, of k h p] by (auto simp: avl_set_height)
qed

section \<open>Insertion\<close>

lemma avltree_insert_avl:
  assumes "balanced t"
  shows "\<exists>t'. avltree_insert True t key page = Some t' \<and> balanced t' \<and> t' \<noteq> Leaf
    \<and> grown (HEIGHT t) t'
    \<and> (keys_sorted (entries t) \<longrightarrow> entries t' = ins_after key page (entries t))"
  using assms
proof (induction t)
  case Leaf
  then show ?case by (simp add: make_avl_node_def mk_def MAX2_def ins_after_def)
next
  case (Node k h p l r)
  have b: "balanced l" "balanced r" "\<bar>HEIGHT l - HEIGHT r\<bar> \<le> 1" "h = MAX2 (HEIGHT l) (HEIGHT r) + 1"
    using Node.prems by auto
  show ?case
  proof (cases "key \<ge> k")
    case True
    obtain r' where r': "avltree_insert True r key page = Some r'" "balanced r'" "grown (HEIGHT r) r'"
      "keys_sorted (entries r) \<longrightarrow> entries r' = ins_after key page (entries r)"
      using Node.IH(2)[OF b(2)] by blast
    have "\<bar>HEIGHT l - HEIGHT r'\<bar> \<le> 2" using b(3) r'(3) by auto
    from balance_then_height[OF b(1) r'(2) this, of k h p]
    obtain t' where t': "do_balance (Node k h p l r') \<bind> set_height = Some t'" "balanced t'" "t' \<noteq> Leaf"
      "entries t' = entries l @ (k, p) # entries r'"
      "if \<bar>HEIGHT l - HEIGHT r'\<bar> \<le> 1 then t' = mk k p l r'
       else grown (MAX2 (HEIGHT l) (HEIGHT r')) t'" by blast
    have "grown (HEIGHT (Node k h p l r)) t'"
      using t'(5) b(3,4) r'(3) by (auto simp: MAX2_def split: if_splits)
    then show ?thesis
      using t'(1-4) True r'(1,4) by (auto simp: ins_after_right sorted_append)
  next
    case False
    obtain l' where l': "avltree_insert True l key page = Some l'" "balanced l'" "grown (HEIGHT l) l'"
      "keys_sorted (entries l) \<longrightarrow> entries l' = ins_after key page (entries l)"
      using Node.IH(1)[OF b(1)] by blast
    have "\<bar>HEIGHT l' - HEIGHT r\<bar> \<le> 2" using b(3) l'(3) by auto
    from balance_then_height[OF l'(2) b(2) this, of k h p]
    obtain t' where t': "do_balance (Node k h p l' r) \<bind> set_height = Some t'" "balanced t'" "t' \<noteq> Leaf"
      "entries t' = entries l' @ (k, p) # entries r"
      "if \<bar>HEIGHT l' - HEIGHT r\<bar> \<le> 1 then t' = mk k p l' r
       else grown (MAX2 (HEIGHT l') (HEIGHT r)) t'" by blast
    have "grown (HEIGHT (Node k h p l r)) t'"
      using t'(5) b(3,4) l'(3) by (auto simp: MAX2_def split: if_splits)
    then show ?thesis
      using t'(1-4) False l'(1,4) by (auto simp: ins_after_left sorted_append)
  qed
qed

section \<open>Removal\<close>

text \<open>Rebalancing after one child lost at most one level.\<close>

lemma rebalance_shrunk_left:
  assumes "balanced l'" "balanced r" "shrunk hl l'" "\<bar>hl - HEIGHT r\<bar> \<le> 1"
  shows "\<exists>t. do_balance (mk k p l' r) = Some t \<and> balanced t \<and> t \<noteq> Leaf
    \<and> shrunk (MAX2 hl (HEIGHT r) + 1) t \<and> entries t = entries l' @ (k, p) # entries r"
proof -
  have "\<bar>HEIGHT l' - HEIGHT r\<bar> \<le> 2" using assms(3,4) by (auto simp: shrunk_def)
  from do_balance_mk[OF assms(1,2) this, of k p]
  obtain t where t: "do_balance (mk k p l' r) = Some t" "balanced t" "t \<noteq> Leaf"
    "entries t = entries l' @ (k, p) # entries r"
    "if \<bar>HEIGHT l' - HEIGHT r\<bar> \<le> 1 then t = mk k p l' r
     else grown (MAX2 (HEIGHT l') (HEIGHT r)) t" by blast
  have "shrunk (MAX2 hl (HEIGHT r) + 1) t"
    using t(5) assms(3,4) by (auto simp: MAX2_def shrunk_def split: if_splits)
  then show ?thesis using t(1-4) by blast
qed

lemma rebalance_shrunk_right:
  assumes "balanced l" "balanced r'" "shrunk hr r'" "\<bar>HEIGHT l - hr\<bar> \<le> 1"
  shows "\<exists>t. do_balance (mk k p l r') = Some t \<and> balanced t \<and> t \<noteq> Leaf
    \<and> shrunk (MAX2 (HEIGHT l) hr + 1) t \<and> entries t = entries l @ (k, p) # entries r'"
proof -
  have "\<bar>HEIGHT l - HEIGHT r'\<bar> \<le> 2" using assms(3,4) by (auto simp: shrunk_def)
  from do_balance_mk[OF assms(1,2) this, of k p]
  obtain t where t: "do_balance (mk k p l r') = Some t" "balanced t" "t \<noteq> Leaf"
    "entries t = entries l @ (k, p) # entries r'"
    "if \<bar>HEIGHT l - HEIGHT r'\<bar> \<le> 1 then t = mk k p l r'
     else grown (MAX2 (HEIGHT l) (HEIGHT r')) t" by blast
  have "shrunk (MAX2 (HEIGHT l) hr + 1) t"
    using t(5) assms(3,4) by (auto simp: MAX2_def shrunk_def split: if_splits)
  then show ?thesis using t(1-4) by blast
qed

lemma balanced_left_Leaf:
  "balanced (Node k h p Leaf r) \<Longrightarrow> balanced r \<and> HEIGHT r = h - 1"
  using HEIGHT_ge[of r] by (auto simp: MAX2_def)

lemma balanced_right_Leaf:
  "balanced (Node k h p l Leaf) \<Longrightarrow> balanced l \<and> HEIGHT l = h - 1"
  using HEIGHT_ge[of l] by (auto simp: MAX2_def)

lemma unlink_end_LEFT:
  assumes "balanced t" "t \<noteq> Leaf" "nleft t \<noteq> Leaf"
  shows "\<exists>t' fk fh fp. unlink_end_node t LEFT = Some (t', Node fk fh fp Leaf Leaf)
    \<and> t' \<noteq> Leaf \<and> balanced t' \<and> shrunk (HEIGHT t) t' \<and> entries t = (fk, fp) # entries t'"
  using assms
proof (induction t)
  case Leaf
  then show ?case by simp
next
  case (Node k h p l r)
  have b: "balanced l" "balanced r" "\<bar>HEIGHT l - HEIGHT r\<bar> \<le> 1"
    and h: "h = MAX2 (HEIGHT l) (HEIGHT r) + 1" and l: "l \<noteq> Leaf"
    using Node.prems by auto
  obtain lk lh lp ll lr where ln: "l = Node lk lh lp ll lr" using l by (cases l) auto
  show ?case
  proof (cases "ll = Leaf")
    case True
    have lr: "balanced lr" "HEIGHT lr = HEIGHT l - 1"
      using balanced_left_Leaf[OF b(1)[unfolded ln True]] by (simp_all add: ln True)
    have sh: "shrunk (HEIGHT l) lr" using lr(2) by (simp add: shrunk_def)
    obtain t where "do_balance (mk k p lr r) = Some t" "balanced t" "t \<noteq> Leaf"
      "shrunk (MAX2 (HEIGHT l) (HEIGHT r) + 1) t" "entries t = entries lr @ (k, p) # entries r"
      using rebalance_shrunk_left[OF lr(1) b(2) sh b(3), of k p] by blast
    then show ?thesis using h by (simp add: ln True)
  next
    case False
    then have "nleft l \<noteq> Leaf" by (simp add: ln)
    from Node.IH(1)[OF b(1) l this] obtain l' fk fh fp where
      l': "unlink_end_node l LEFT = Some (l', Node fk fh fp Leaf Leaf)"
      "l' \<noteq> Leaf" "balanced l'" "shrunk (HEIGHT l) l'" "entries l = (fk, fp) # entries l'"
      by blast
    obtain t where "do_balance (mk k p l' r) = Some t" "balanced t" "t \<noteq> Leaf"
      "shrunk (MAX2 (HEIGHT l) (HEIGHT r) + 1) t" "entries t = entries l' @ (k, p) # entries r"
      using rebalance_shrunk_left[OF l'(3) b(2) l'(4) b(3), of k p] by blast
    then show ?thesis using h l l'(1,2,5) by simp
  qed
qed

lemma unlink_end_RIGHT:
  assumes "balanced t" "t \<noteq> Leaf" "nright t \<noteq> Leaf"
  shows "\<exists>t' fk fh fp. unlink_end_node t RIGHT = Some (t', Node fk fh fp Leaf Leaf)
    \<and> t' \<noteq> Leaf \<and> balanced t' \<and> shrunk (HEIGHT t) t' \<and> entries t = entries t' @ [(fk, fp)]"
  using assms
proof (induction t)
  case Leaf
  then show ?case by simp
next
  case (Node k h p l r)
  have b: "balanced l" "balanced r" "\<bar>HEIGHT l - HEIGHT r\<bar> \<le> 1"
    and h: "h = MAX2 (HEIGHT l) (HEIGHT r) + 1" and r: "r \<noteq> Leaf"
    using Node.prems by auto
  obtain rk rh rp rl rr where rn: "r = Node rk rh rp rl rr" using r by (cases r) auto
  show ?case
  proof (cases "rr = Leaf")
    case True
    have rl: "balanced rl" "HEIGHT rl = HEIGHT r - 1"
      using balanced_right_Leaf[OF b(2)[unfolded rn True]] by (simp_all add: rn True)
    have sh: "shrunk (HEIGHT r) rl" using rl(2) by (simp add: shrunk_def)
    obtain t where "do_balance (mk k p l rl) = Some t" "balanced t" "t \<noteq> Leaf"
      "shrunk (MAX2 (HEIGHT l) (HEIGHT r) + 1) t" "entries t = entries l @ (k, p) # entries rl"
      using rebalance_shrunk_right[OF b(1) rl(1) sh b(3), of k p] by blast
    then show ?thesis using h by (simp add: rn True)
  next
    case False
    then have "nright r \<noteq> Leaf" by (simp add: rn)
    from Node.IH(2)[OF b(2) r this] obtain r' fk fh fp where
      r': "unlink_end_node r RIGHT = Some (r', Node fk fh fp Leaf Leaf)"
      "r' \<noteq> Leaf" "balanced r'" "shrunk (HEIGHT r) r'" "entries r = entries r' @ [(fk, fp)]"
      by blast
    obtain t where "do_balance (mk k p l r') = Some t" "balanced t" "t \<noteq> Leaf"
      "shrunk (MAX2 (HEIGHT l) (HEIGHT r) + 1) t" "entries t = entries l @ (k, p) # entries r'"
      using rebalance_shrunk_right[OF b(1) r'(3) r'(4) b(3), of k p] by blast
    then show ?thesis using h r r'(1,2,5) by simp
  qed
qed

lemma finish_remove_mk [simp]: "finish_remove (mk k p l r) = do_balance (mk k p l r)"
  by (simp add: finish_remove_def mk_def)

lemma finish_remove_Node [simp]: "finish_remove (Node k h p l r) = do_balance (mk k p l r)"
  by (simp add: finish_remove_def)

lemma finish_remove_Leaf [simp]: "finish_remove Leaf = Some Leaf"
  by (simp add: finish_remove_def)

text \<open>The root is replaced by its in-order neighbour; the entries of the two
  subtrees remain.\<close>

lemma do_unlink_inner:
  assumes "balanced (Node k h p l r)" "l \<noteq> Leaf \<and> nright l \<noteq> Leaf" "unlink_end_node r LEFT = Some (Leaf, r)"
  shows "\<exists>t t'. do_unlink (Node k h p l r) = Some t \<and> finish_remove t = Some t' \<and> balanced t'
    \<and> shrunk h t' \<and> entries t' = entries l @ entries r"
proof -
  have b: "balanced l" "balanced r" "\<bar>HEIGHT l - HEIGHT r\<bar> \<le> 1"
    and h: "h = MAX2 (HEIGHT l) (HEIGHT r) + 1"
    using assms(1) by auto
  from unlink_end_RIGHT[OF b(1)] assms(2) obtain l' fk fh fp where
    l': "unlink_end_node l RIGHT = Some (l', Node fk fh fp Leaf Leaf)"
    "l' \<noteq> Leaf" "balanced l'" "shrunk (HEIGHT l) l'" "entries l = entries l' @ [(fk, fp)]"
    by blast
  obtain t where "do_balance (mk fk fp l' r) = Some t" "balanced t"
    "shrunk (MAX2 (HEIGHT l) (HEIGHT r) + 1) t" "entries t = entries l' @ (fk, fp) # entries r"
    using rebalance_shrunk_left[OF l'(3) b(2) l'(4) b(3), of fk fp] by blast
  then show ?thesis using h l'(1,2,5) assms(3) by simp
qed

lemma do_unlink_child:
  assumes "balanced (Node k h p l r)" "unlink_end_node l RIGHT = Some (Leaf, l)"
    "unlink_end_node r LEFT = Some (Leaf, r)" "r \<noteq> Leaf \<longrightarrow> nleft r = Leaf" "l \<noteq> Leaf \<longrightarrow> nright l = Leaf"
  shows "\<exists>t t'. do_unlink (Node k h p l r) = Some t \<and> finish_remove t = Some t' \<and> balanced t'
    \<and> shrunk h t' \<and> entries t' = entries l @ entries r"
proof -
  have b: "balanced l" "balanced r" "\<bar>HEIGHT l - HEIGHT r\<bar> \<le> 1"
    and h: "h = MAX2 (HEIGHT l) (HEIGHT r) + 1"
    using assms(1) by auto
  show ?thesis
  proof (cases r)
    case (Node ek eh ep el er)
    have el: "el = Leaf" using assms(4) Node by simp
    have er: "balanced er" "HEIGHT er = HEIGHT r - 1"
      using balanced_left_Leaf[OF b(2)[unfolded Node el]] by (simp_all add: Node el)
    have sh: "shrunk (HEIGHT r) er" using er(2) by (simp add: shrunk_def)
    obtain t where "do_balance (mk ek ep l er) = Some t" "balanced t"
      "shrunk (MAX2 (HEIGHT l) (HEIGHT r) + 1) t" "entries t = entries l @ (ek, ep) # entries er"
      using rebalance_shrunk_right[OF b(1) er(1) sh b(3), of ek ep] by blast
    then show ?thesis using h assms(2,3) by (simp add: Node el)
  next
    case r0: Leaf
    show ?thesis
    proof (cases l)
      case Leaf
      then show ?thesis using h by (simp add: r0 MAX2_def shrunk_def)
    next
      case (Node ek eh ep el er)
      have er: "er = Leaf" using assms(5) Node by simp
      have el: "balanced el" "HEIGHT el = HEIGHT l - 1"
        using balanced_right_Leaf[OF b(1)[unfolded Node er]] by (simp_all add: Node er)
      have sh: "shrunk (HEIGHT l) el" using el(2) by (simp add: shrunk_def)
      obtain t where "do_balance (mk ek ep el r) = Some t" "balanced t"
        "shrunk (MAX2 (HEIGHT l) (HEIGHT r) + 1) t" "entries t = entries el @ (ek, ep) # entries r"
        using rebalance_shrunk_left[OF el(1) b(2) sh b(3), of ek ep] by blast
      then show ?thesis using h assms(2,3) by (simp add: Node er r0)
    qed
  qed
qed

lemma do_unlink_avl:
  assumes "balanced (Node k h p l r)"
  shows "\<exists>t t'. do_unlink (Node k h p l r) = Some t \<and> finish_remove t = Some t' \<and> balanced t'
    \<and> shrunk h t' \<and> entries t' = entries l @ entries r"
proof (cases "r \<noteq> Leaf \<and> nleft r \<noteq> Leaf")
  case True
  have b: "balanced l" "balanced r" "\<bar>HEIGHT l - HEIGHT r\<bar> \<le> 1"
    and h: "h = MAX2 (HEIGHT l) (HEIGHT r) + 1"
    using assms by auto
  from unlink_end_LEFT[OF b(2)] True obtain r' fk fh fp where
    r': "unlink_end_node r LEFT = Some (r', Node fk fh fp Leaf Leaf)"
    "r' \<noteq> Leaf" "balanced r'" "shrunk (HEIGHT r) r'" "entries r = (fk, fp) # entries r'"
    by blast
  obtain t where "do_balance (mk fk fp l r') = Some t" "balanced t"
    "shrunk (MAX2 (HEIGHT l) (HEIGHT r) + 1) t" "entries t = entries l @ (fk, fp) # entries r'"
    using rebalance_shrunk_right[OF b(1) r'(3) r'(4) b(3), of fk fp] by blast
  then show ?thesis using h r'(1,2,5) by simp
next
  case False
  then have ur: "unlink_end_node r LEFT = Some (Leaf, r)" by (cases r) auto
  show ?thesis
  proof (cases "l \<noteq> Leaf \<and> nright l \<noteq> Leaf")
    case True
    then show ?thesis using do_unlink_inner[OF assms _ ur] by blast
  next
    case False2: False
    then have "unlink_end_node l RIGHT = Some (Leaf, l)" by (cases l) auto
    then show ?thesis using do_unlink_child[OF assms _ ur] False False2 by blast
  qed
qed

text \<open>What removing one entry means for the list of entries: an entry with the
  wanted key leaves it, the others keep their order.\<close>

definition removes ::
    "(u64 \<times> 'p) option \<Rightarrow> (u64, 'p) alist \<Rightarrow> (u64, 'p) alist \<Rightarrow> u64 \<Rightarrow> bool" where
  "removes found es es' key \<longleftrightarrow>
     (case found of
        None \<Rightarrow> key \<notin> fst ` set es \<and> es' = es
      | Some e \<Rightarrow> fst e = key \<and> (\<exists>xs ys. es = xs @ e # ys \<and> es' = xs @ ys))"

text \<open>The best-fit removal takes the entry with the smallest key that is large
  enough.\<close>

definition removes_least ::
    "(u64 \<times> 'p) option \<Rightarrow> (u64, 'p) alist \<Rightarrow> (u64, 'p) alist \<Rightarrow> u64 \<Rightarrow> bool" where
  "removes_least found es es' key \<longleftrightarrow>
     (case found of
        None \<Rightarrow> (\<forall>e \<in> set es. fst e < key) \<and> es' = es
      | Some e \<Rightarrow> key \<le> fst e \<and> (\<forall>x \<in> set es. key \<le> fst x \<longrightarrow> fst e \<le> fst x)
          \<and> (\<exists>xs ys. es = xs @ e # ys \<and> es' = xs @ ys))"

lemma removes_sorted: "removes f es es' key \<Longrightarrow> keys_sorted es \<Longrightarrow> keys_sorted es'"
  by (auto simp: removes_def sorted_append split: option.splits)

lemma removes_least_sorted: "removes_least f es es' key \<Longrightarrow> keys_sorted es \<Longrightarrow> keys_sorted es'"
  by (auto simp: removes_least_def sorted_append split: option.splits)

lemma removes_right:
  assumes "removes f (entries r) (entries r1) key" "keys_sorted (entries l @ (k, p) # entries r)" "k < key"
    "entries t = entries l @ (k, p) # entries r1"
  shows "removes f (entries l @ (k, p) # entries r) (entries t) key"
proof (cases f)
  case None
  then show ?thesis
    using assms by (auto simp: removes_def sorted_append)
next
  case (Some e)
  then obtain xs ys where "entries r = xs @ e # ys" "entries r1 = xs @ ys" "fst e = key"
    using assms(1) by (auto simp: removes_def)
  then have "entries l @ (k, p) # entries r = (entries l @ (k, p) # xs) @ e # ys"
    "entries t = (entries l @ (k, p) # xs) @ ys" using assms(4) by auto
  then have "\<exists>xs ys. entries l @ (k, p) # entries r = xs @ e # ys \<and> entries t = xs @ ys" by blast
  then show ?thesis using Some \<open>fst e = key\<close> by (simp add: removes_def)
qed

lemma removes_left:
  assumes "removes f (entries l) (entries l1) key" "keys_sorted (entries l @ (k, p) # entries r)" "key < k"
    "entries t = entries l1 @ (k, p) # entries r"
  shows "removes f (entries l @ (k, p) # entries r) (entries t) key"
proof (cases f)
  case None
  then show ?thesis
    using assms by (auto simp: removes_def sorted_append)
next
  case (Some e)
  then obtain xs ys where "entries l = xs @ e # ys" "entries l1 = xs @ ys" "fst e = key"
    using assms(1) by (auto simp: removes_def)
  then have "entries l @ (k, p) # entries r = xs @ e # (ys @ (k, p) # entries r)"
    "entries t = xs @ (ys @ (k, p) # entries r)" using assms(4) by auto
  then have "\<exists>xs ys. entries l @ (k, p) # entries r = xs @ e # ys \<and> entries t = xs @ ys" by blast
  then show ?thesis using Some \<open>fst e = key\<close> by (simp add: removes_def)
qed

lemma avltree_remove_avl:
  assumes "balanced t"
  shows "\<exists>res. avltree_remove t key = Some res \<and> balanced (fst res) \<and> shrunk (HEIGHT t) (fst res)
    \<and> (keys_sorted (entries t) \<longrightarrow> removes (snd res) (entries t) (entries (fst res)) key)"
  using assms
proof (induction t)
  case Leaf
  then show ?case by (simp add: removes_def shrunk_def)
next
  case (Node k h p l r)
  have b: "balanced l" "balanced r" "\<bar>HEIGHT l - HEIGHT r\<bar> \<le> 1" "h = MAX2 (HEIGHT l) (HEIGHT r) + 1"
    using Node.prems by auto
  consider "key = k" | "k < key" | "key < k" by fastforce
  then show ?case
  proof cases
    case 1
    from do_unlink_avl[OF Node.prems] obtain t t' where "do_unlink (Node k h p l r) = Some t"
      "finish_remove t = Some t'" "balanced t'" "shrunk h t'" "entries t' = entries l @ entries r"
      by blast
    moreover from this have "removes (Some (k, p)) (entries (Node k h p l r)) (entries t') key"
      using 1 by (auto simp: removes_def)
    ultimately show ?thesis using 1 by (simp del: do_unlink.simps entries.simps)
  next
    case 2
    obtain r1 f where r1: "avltree_remove r key = Some (r1, f)" "balanced r1" "shrunk (HEIGHT r) r1"
      "keys_sorted (entries r) \<longrightarrow> removes f (entries r) (entries r1) key"
      using Node.IH(2)[OF b(2)] by auto
    from rebalance_shrunk_right[OF b(1) r1(2,3) b(3), of k p] obtain t where
      t: "do_balance (mk k p l r1) = Some t" "balanced t" "shrunk h t"
        "entries t = entries l @ (k, p) # entries r1" using b(4) by auto
    have "removes f (entries (Node k h p l r)) (entries t) key" if "keys_sorted (entries (Node k h p l r))"
      using removes_right[of f r r1 key l k p t] that r1(4) t(4) 2 by (simp add: sorted_append)
    moreover have "key \<noteq> k" using 2 by simp
    ultimately show ?thesis using 2 r1(1) t by (simp del: entries.simps)
  next
    case 3
    obtain l1 f where l1: "avltree_remove l key = Some (l1, f)" "balanced l1" "shrunk (HEIGHT l) l1"
      "keys_sorted (entries l) \<longrightarrow> removes f (entries l) (entries l1) key"
      using Node.IH(1)[OF b(1)] by auto
    from rebalance_shrunk_left[OF l1(2) b(2) l1(3) b(3), of k p] obtain t where
      t: "do_balance (mk k p l1 r) = Some t" "balanced t" "shrunk h t"
        "entries t = entries l1 @ (k, p) # entries r" using b(4) by auto
    have "removes f (entries (Node k h p l r)) (entries t) key" if "keys_sorted (entries (Node k h p l r))"
      using removes_left[of f l l1 key k p r t] that l1(4) t(4) 3 by (simp add: sorted_append)
    moreover have "key \<noteq> k" "\<not> k < key" using 3 by auto
    ultimately show ?thesis using l1(1) t by (simp del: entries.simps)
  qed
qed

lemma removes_least_right:
  assumes "removes_least f (entries r) (entries r1) key" "keys_sorted (entries l @ (k, p) # entries r)"
    "k < key" "entries t = entries l @ (k, p) # entries r1"
  shows "removes_least f (entries l @ (k, p) # entries r) (entries t) key"
proof -
  have small: "fst x < key" if "x \<in> set (entries l)" for x
    using that assms(2,3) by (fastforce simp: sorted_append)
  show ?thesis
  proof (cases f)
    case None
    then show ?thesis using assms(1,3,4) small by (auto simp: removes_least_def)
  next
    case (Some e)
    then obtain xs ys where x: "entries r = xs @ e # ys" "entries r1 = xs @ ys" "key \<le> fst e"
      "\<forall>x \<in> set (entries r). key \<le> fst x \<longrightarrow> fst e \<le> fst x"
      using assms(1) by (auto simp: removes_least_def)
    have "\<exists>xs ys. entries l @ (k, p) # entries r = xs @ e # ys \<and> entries t = xs @ ys"
      by (rule exI[of _ "entries l @ (k, p) # xs"], rule exI[of _ ys]) (simp add: x(1,2) assms(4))
    moreover have "key \<le> fst x \<longrightarrow> fst e \<le> fst x" if "x \<in> set (entries l @ (k, p) # entries r)" for x
      using that x(4) small[of x] assms(3) by (auto simp: not_le[symmetric])
    ultimately show ?thesis using Some x(3) unfolding removes_least_def by simp
  qed
qed

lemma removes_least_left:
  assumes "removes_least (Some e) (entries l) (entries l1) key"
    "keys_sorted (entries l @ (k, p) # entries r)" "entries t = entries l1 @ (k, p) # entries r"
  shows "removes_least (Some e) (entries l @ (k, p) # entries r) (entries t) key"
proof -
  obtain xs ys where x: "entries l = xs @ e # ys" "entries l1 = xs @ ys" "key \<le> fst e"
    "\<forall>x \<in> set (entries l). key \<le> fst x \<longrightarrow> fst e \<le> fst x"
    using assms(1) by (auto simp: removes_least_def)
  have big: "fst e \<le> fst x" if "x \<in> set ((k, p) # entries r)" for x
    using that assms(2) x(1) by (fastforce simp: sorted_append)
  then have bigk: "fst e \<le> k" and bigr: "\<forall>x \<in> set (entries r). fst e \<le> fst x" by force+
  have "\<exists>xs ys. entries l @ (k, p) # entries r = xs @ e # ys \<and> entries t = xs @ ys"
    by (rule exI[of _ xs], rule exI[of _ "ys @ (k, p) # entries r"]) (simp add: x(1,2) assms(3))
  then show ?thesis using x(3,4) bigk bigr by (simp add: removes_least_def ball_Un)
qed

lemma removes_least_root:
  assumes "removes_least None (entries l) (entries l1) key" "key < k"
    "keys_sorted (entries l @ (k, p) # entries r)" "entries t = entries l1 @ entries r"
  shows "removes_least (Some (k, p)) (entries l @ (k, p) # entries r) (entries t) key"
proof -
  have l: "\<forall>x \<in> set (entries l). fst x < key" "entries l1 = entries l"
    using assms(1) by (auto simp: removes_least_def)
  have "k \<le> fst x" if "x \<in> set (entries r)" for x
    using that assms(3) by (auto simp: sorted_append)
  then show ?thesis using l assms(2,4) by (auto simp: removes_least_def not_le[symmetric])
qed

lemma remove_approx_value_None:
  "balanced t \<Longrightarrow> remove_approx_value t key = Some (t', None) \<Longrightarrow> t' = t"
proof (induction t arbitrary: t')
  case (Node k h p l r)
  have b: "balanced l" "balanced r" "\<bar>HEIGHT l - HEIGHT r\<bar> \<le> 1"
    "Node k h p l r = mk k p l r"
    using Node.prems(1) by (auto simp: mk_def)
  have id: "do_balance (mk k p l r) = Some (mk k p l r)"
    unfolding mk_def using b(3) by (rule do_balance_id)
  have "key \<noteq> k" using Node.prems(2) by (auto simp: bind_eq_Some_conv)
  moreover have "key > k"
    using Node.prems(2) \<open>key \<noteq> k\<close> by (auto simp: bind_eq_Some_conv split: if_splits prod.splits)
  ultimately obtain r1 where "remove_approx_value r key = Some (r1, None)"
    "do_balance (mk k p l r1) = Some t'"
    using Node.prems(2) by (auto simp: bind_eq_Some_conv)
  then show ?case using Node.IH(2)[OF b(2)] b(4) id by auto
qed simp

lemma remove_approx_value_avl:
  assumes "balanced t"
  shows "\<exists>res. remove_approx_value t key = Some res \<and> balanced (fst res) \<and> shrunk (HEIGHT t) (fst res)
    \<and> (keys_sorted (entries t) \<longrightarrow> removes_least (snd res) (entries t) (entries (fst res)) key)"
  using assms
proof (induction t)
  case Leaf
  then show ?case by (simp add: removes_least_def shrunk_def)
next
  case (Node k h p l r)
  have b: "balanced l" "balanced r" "\<bar>HEIGHT l - HEIGHT r\<bar> \<le> 1" "h = MAX2 (HEIGHT l) (HEIGHT r) + 1"
    using Node.prems by auto
  consider "key = k" | "k < key" | "key < k" by fastforce
  then show ?case
  proof cases
    case 1
    from do_unlink_avl[OF Node.prems] obtain t t' where "do_unlink (Node k h p l r) = Some t"
      "finish_remove t = Some t'" "balanced t'" "shrunk h t'" "entries t' = entries l @ entries r"
      by blast
    moreover from this have "removes_least (Some (k, p)) (entries (Node k h p l r)) (entries t') key"
      using 1 by (auto simp: removes_least_def)
    ultimately show ?thesis using 1 by (simp del: do_unlink.simps entries.simps)
  next
    case 2
    obtain r1 f where r1: "remove_approx_value r key = Some (r1, f)" "balanced r1" "shrunk (HEIGHT r) r1"
      "keys_sorted (entries r) \<longrightarrow> removes_least f (entries r) (entries r1) key"
      using Node.IH(2)[OF b(2)] by auto
    from rebalance_shrunk_right[OF b(1) r1(2,3) b(3), of k p] obtain t where
      t: "do_balance (mk k p l r1) = Some t" "balanced t" "shrunk h t"
        "entries t = entries l @ (k, p) # entries r1" using b(4) by auto
    have "removes_least f (entries (Node k h p l r)) (entries t) key"
      if "keys_sorted (entries (Node k h p l r))"
      using removes_least_right[of f r r1 key l k p t] that r1(4) t(4) 2 by (simp add: sorted_append)
    moreover have "key \<noteq> k" using 2 by simp
    ultimately show ?thesis using 2 r1(1) t by (simp del: entries.simps)
  next
    case 3
    obtain l1 f where l1: "remove_approx_value l key = Some (l1, f)" "balanced l1" "shrunk (HEIGHT l) l1"
      "keys_sorted (entries l) \<longrightarrow> removes_least f (entries l) (entries l1) key"
      using Node.IH(1)[OF b(1)] by auto
    have k: "key \<noteq> k" "\<not> k < key" using 3 by auto
    show ?thesis
    proof (cases f)
      case None
      then have l1l: "l1 = l" using remove_approx_value_None[OF b(1)] l1(1) by blast
      from do_unlink_avl[OF Node.prems] obtain t t' where t: "do_unlink (Node k h p l r) = Some t"
        "finish_remove t = Some t'" "balanced t'" "shrunk h t'" "entries t' = entries l @ entries r"
        by blast
      have "removes_least (Some (k, p)) (entries (Node k h p l r)) (entries t') key"
        if "keys_sorted (entries (Node k h p l r))"
        using removes_least_root[of l l1 key k p r t'] that l1(4) t(5) 3 None l1l
        by (simp add: sorted_append)
      then show ?thesis using k l1(1) l1l None t by (simp del: entries.simps do_unlink.simps)
    next
      case (Some e)
      from rebalance_shrunk_left[OF l1(2) b(2) l1(3) b(3), of k p] obtain t where
        t: "do_balance (mk k p l1 r) = Some t" "balanced t" "shrunk h t"
          "entries t = entries l1 @ (k, p) # entries r" using b(4) by auto
      have "removes_least f (entries (Node k h p l r)) (entries t) key"
        if "keys_sorted (entries (Node k h p l r))"
        using removes_least_left[of e l l1 key k p r t] that l1(4) t(4) Some by (simp add: sorted_append)
      then show ?thesis using k l1(1) t Some by (simp del: entries.simps)
    qed
  qed
qed

section \<open>Release of a whole tree\<close>

lemma avltree_free_perm:
  "length (avltree_free t) = length (entries t) \<and> set (avltree_free t) = fst ` set (entries t)"
  by (induction t) (auto simp: image_Un)

section \<open>The index interface of the allocator\<close>

locale ordered_index =
  fixes ins :: "'t \<Rightarrow> u64 \<Rightarrow> 'p \<Rightarrow> 't option"
    and rem :: "'t \<Rightarrow> u64 \<Rightarrow> ('t \<times> (u64 \<times> 'p) option) option"
    and rem_ge :: "'t \<Rightarrow> u64 \<Rightarrow> ('t \<times> (u64 \<times> 'p) option) option"
    and ents :: "'t \<Rightarrow> (u64, 'p) alist"
    and inv :: "'t \<Rightarrow> bool"
  assumes ents_sorted: "inv t \<Longrightarrow> keys_sorted (ents t)"
    and ins_law: "inv t \<Longrightarrow> \<exists>t'. ins t k p = Some t' \<and> inv t' \<and> ents t' = ins_after k p (ents t)"
    and rem_law: "inv t \<Longrightarrow> \<exists>t' f. rem t k = Some (t', f) \<and> inv t' \<and> removes f (ents t) (ents t') k"
    and rem_ge_law: "inv t \<Longrightarrow>
      \<exists>t' f. rem_ge t k = Some (t', f) \<and> inv t' \<and> removes_least f (ents t) (ents t') k"
begin

text \<open>An index whose keys are pairwise different holds a finite map; its set of
  entries is what the allocator reasons about.\<close>

definition index_of :: "'t \<Rightarrow> (u64 \<times> 'p) set \<Rightarrow> bool" where
  "index_of t E \<longleftrightarrow> inv t \<and> distinct (map fst (ents t)) \<and> set (ents t) = E"

lemma index_ofD:
  "index_of t E \<Longrightarrow> inv t \<and> distinct (map fst (ents t)) \<and> set (ents t) = E"
  by (simp add: index_of_def)

lemma index_ins:
  assumes "index_of t E" "k \<notin> fst ` E"
  shows "\<exists>t'. ins t k p = Some t' \<and> index_of t' (insert (k, p) E)"
proof -
  obtain t' where "ins t k p = Some t'" "inv t'" "ents t' = ins_after k p (ents t)"
    using ins_law index_ofD[OF assms(1)] by blast
  then show ?thesis
    using index_ofD[OF assms(1)] assms(2) distinct_ins_after[of "ents t" k p]
    by (auto simp: index_of_def)
qed

lemma removed_mid:
  assumes "es = xs @ e # ys" "distinct (map fst es)" "es' = xs @ ys"
  shows "set es' = set es - {e} \<and> distinct (map fst es')"
  using assms by auto

lemma index_rem:
  assumes "index_of t E" "(k, p) \<in> E"
  shows "\<exists>t'. rem t k = Some (t', Some (k, p)) \<and> index_of t' (E - {(k, p)})"
proof -
  have d: "distinct (map fst (ents t))" "set (ents t) = E"
    using index_ofD[OF assms(1)] by auto
  obtain t' f where r: "rem t k = Some (t', f)" "inv t'" "removes f (ents t) (ents t') k"
    using rem_law index_ofD[OF assms(1)] by blast
  from r(3) assms(2) d(2) have "k \<in> fst ` set (ents t)" by force
  with r(3) obtain e xs ys where f: "f = Some e" "fst e = k" "ents t = xs @ e # ys" "ents t' = xs @ ys"
    by (auto simp: removes_def split: option.splits)
  have "inj_on fst (set (ents t))" using d(1) by (simp add: distinct_map)
  moreover have "e \<in> set (ents t)" "(k, p) \<in> set (ents t)" "fst e = fst (k, p)"
    using f(2,3) d(2) assms(2) by auto
  ultimately have e: "e = (k, p)" unfolding inj_on_def by blast
  then show ?thesis
    using r(1,2) f removed_mid[OF f(3) d(1) f(4)] d(2) by (auto simp: index_of_def)
qed

lemma index_rem_absent:
  assumes "index_of t E" "k \<notin> fst ` E"
  shows "\<exists>t'. rem t k = Some (t', None) \<and> index_of t' E"
proof -
  obtain t' f where r: "rem t k = Some (t', f)" "inv t'" "removes f (ents t) (ents t') k"
    using rem_law index_ofD[OF assms(1)] by blast
  have "f = None" using r(3) assms index_ofD[OF assms(1)]
    by (force simp: removes_def split: option.splits)
  then show ?thesis using r index_ofD[OF assms(1)] by (auto simp: removes_def index_of_def)
qed

lemma index_rem_ge:
  assumes "index_of t E"
  shows "\<exists>t' f. rem_ge t k = Some (t', f) \<and>
    (case f of
       None \<Rightarrow> (\<forall>e \<in> E. fst e < k) \<and> index_of t' E
     | Some e \<Rightarrow> e \<in> E \<and> k \<le> fst e \<and> (\<forall>x \<in> E. k \<le> fst x \<longrightarrow> fst e \<le> fst x)
         \<and> index_of t' (E - {e}))"
proof -
  have d: "distinct (map fst (ents t))" "set (ents t) = E"
    using index_ofD[OF assms(1)] by auto
  obtain t' f where r: "rem_ge t k = Some (t', f)" "inv t'" "removes_least f (ents t) (ents t') k"
    using rem_ge_law index_ofD[OF assms(1)] by blast
  show ?thesis
  proof (cases f)
    case None
    then show ?thesis using r d by (auto simp: removes_least_def index_of_def)
  next
    case (Some e)
    then obtain xs ys where x: "ents t = xs @ e # ys" "ents t' = xs @ ys" "k \<le> fst e"
      "\<forall>x \<in> E. k \<le> fst x \<longrightarrow> fst e \<le> fst x"
      using r(3) d(2) by (auto simp: removes_least_def)
    have "e \<in> E" using x(1) d(2) by auto
    then show ?thesis
      using Some r(1,2) x removed_mid[OF x(1) d(1) x(2)] d(2) by (auto simp: index_of_def)
  qed
qed

end

text \<open>The tree of the driver provides the index, as long as \<open>malloc\<close> succeeds.\<close>

interpretation ix: ordered_index "avltree_insert True" avltree_remove remove_approx_value entries avl_inv
proof
  fix t :: "'a avl" and k :: u64 and p :: 'a
  assume t: "avl_inv t"
  show "keys_sorted (entries t)" using t by (simp add: avl_inv_def)
  show "\<exists>t'. avltree_insert True t k p = Some t' \<and> avl_inv t' \<and> entries t' = ins_after k p (entries t)"
    using avltree_insert_avl[of t k p] t by (auto simp: avl_inv_def keys_sorted_ins_after)
  show "\<exists>t' f. avltree_remove t k = Some (t', f) \<and> avl_inv t' \<and> removes f (entries t) (entries t') k"
    using avltree_remove_avl[of t k] t removes_sorted by (fastforce simp: avl_inv_def)
  show "\<exists>t' f. remove_approx_value t k = Some (t', f) \<and> avl_inv t' \<and>
      removes_least f (entries t) (entries t') k"
    using remove_approx_value_avl[of t k] t removes_least_sorted by (fastforce simp: avl_inv_def)
qed

text \<open>Without memory for the new node the insertion dereferences a null pointer.\<close>

lemma avltree_insert_no_memory: "avltree_insert False t key page = None"
  by (induction t) (auto simp: make_avl_node_def)

lemmas index_laws =
  ix.index_ins ix.index_rem ix.index_rem_absent ix.index_rem_ge

section \<open>What the tree promises\<close>

text \<open>C13. When there is memory for the new node (\<open>ok\<close>), insertion returns a tree that is balanced with exact heights and
  ordered, and adds the entry behind every entry whose key is not larger; the
  rebalancing never reaches its \<open>ASSERT\<close>.  When there is none, it dereferences the null pointer, wherever the entry belongs.\<close>

theorem avl_insert_correct:
  assumes "avl_inv t"
  shows "if ok then \<exists>t'. avltree_insert ok t key page = Some t' \<and> avl_inv t' \<and> entries t' = ins_after key page (entries t)
    else avltree_insert ok t key page = None"
  using ix.ins_law[OF assms, of key page] avltree_insert_no_memory[of t key page] by simp

theorem avl_insert_correct_witness:
  "\<exists>t'. avltree_insert True (Leaf :: int avl) 7 (3::int) = Some t' \<and> entries t' = [(7, 3)]"
  using avl_insert_correct[of "Leaf :: int avl" True 7 3] by (auto simp: avl_inv_def ins_after_def simp del: avltree_insert.simps)

text \<open>C14. Removal by key always returns an ordered balanced tree; it takes out one
  entry with the key and keeps the order of the others, or reports that there
  is none.\<close>

theorem avl_remove_correct:
  assumes "avl_inv t"
  shows "\<exists>t' f. avltree_remove t key = Some (t', f) \<and> avl_inv t' \<and>
    removes f (entries t) (entries t') key"
  by (rule ix.rem_law[OF assms])

theorem avl_remove_correct_witness:
  "\<exists>t' f. avltree_remove (Node 5 1 (0::int) Leaf (Node 9 0 1 Leaf Leaf)) 5 = Some (t', f) \<and>
    removes f [(5, 0), (9, 1)] (entries t') 5"
  using avl_remove_correct[of "Node 5 1 (0::int) Leaf (Node 9 0 1 Leaf Leaf)" 5]
  by (auto simp: avl_inv_def MAX2_def simp del: avltree_remove.simps)

text \<open>The best-fit removal takes out an entry with the smallest key that is at
  least the wanted one, or reports that every key is smaller.\<close>

theorem avl_remove_approx_correct:
  assumes "avl_inv t"
  shows "\<exists>t' f. remove_approx_value t key = Some (t', f) \<and> avl_inv t' \<and>
    removes_least f (entries t) (entries t') key"
  by (rule ix.rem_ge_law[OF assms])

theorem avl_remove_approx_correct_witness:
  "\<exists>t' f. remove_approx_value (Node 5 1 (0::int) Leaf (Node 9 0 1 Leaf Leaf)) 6 = Some (t', f) \<and>
    removes_least f [(5, 0), (9, 1)] (entries t') 6"
  using avl_remove_approx_correct[of "Node 5 1 (0::int) Leaf (Node 9 0 1 Leaf Leaf)" 6]
  by (auto simp: avl_inv_def MAX2_def simp del: remove_approx_value.simps)










end
