(* ===== verification/Vmem.thy ===== *)
theory Vmem
  imports Avl
begin

text \<open>
  The page allocator of \<open>src/driver/mm.c\<close>: \<open>vmem_init\<close>, \<open>vmem_alloc\<close>,
  \<open>vmem_free\<close>, \<open>vmem_exit\<close> and \<open>vmem_get_info\<close> over a page array, a tree of
  free blocks keyed by size and first page, and a tree of allocated blocks
  keyed by address.  A page pointer is the index of the page in the array; an
  access outside the array, a null dereference and a failed \<open>ASSERT\<close> are
  \<open>None\<close>.  The abstract state is a set of blocks \<open>(first page, pages, used)\<close>
  that tiles the array; the lemmas show that allocation splits the best-fitting
  free block, that freeing merges with both free neighbours, and that the two
  trees, the page marks and the counters always describe that set.
\<close>

section \<open>Data\<close>

definition VMEM_PAGE_SIZE :: u64 where
  "VMEM_PAGE_SIZE = 16 * 1024"

definition MAKE_KEY :: "u64 \<Rightarrow> u64 \<Rightarrow> u64" where
  "MAKE_KEY a b = (push_bit 32 a) OR b"

definition KEY_TO_VALUE :: "u64 \<Rightarrow> u64" where
  "KEY_TO_VALUE key = drop_bit 32 key"

record page =
  pg_pageno :: int
  pg_addr :: u64
  pg_used :: int
  pg_alloc_pages :: int
  pg_first_pageno :: int

record video_mm =
  free_tree :: "int avl"
  alloc_tree :: "int avl"
  page_list :: "page list"
  num_pages :: int
  base_addr :: u64
  mem_size :: u64
  free_page_count :: int
  alloc_page_count :: int

record vmem_info =
  total_pages :: int
  alloc_pages :: int
  free_pages :: int
  page_size :: u64

section \<open>The page array\<close>

definition page_at :: "page list \<Rightarrow> int \<Rightarrow> page option" where
  "page_at ps i = (if 0 \<le> i \<and> i < int (length ps) then Some (ps ! nat i) else None)"

text \<open>A loop that updates the pages with the given indices, in order.\<close>

fun write_pages :: "int list \<Rightarrow> (page \<Rightarrow> page) \<Rightarrow> page list \<Rightarrow> page list option" where
  "write_pages [] f ps = Some ps"
| "write_pages (i # is) f ps =
    (case page_at ps i of
       None \<Rightarrow> None
     | Some p \<Rightarrow> write_pages is f (ps[nat i := f p]))"

definition mark_block :: "int \<Rightarrow> int \<Rightarrow> int \<Rightarrow> page list \<Rightarrow> page list option" where
  "mark_block u pageno npages ps = do {
     ps \<leftarrow> write_pages [pageno .. pageno + npages - 1]
       (\<lambda>p. p\<lparr>pg_used := u, pg_alloc_pages := 0, pg_first_pageno := -1\<rparr>) ps;
     ps \<leftarrow> write_pages [pageno] (\<lambda>p. p\<lparr>pg_alloc_pages := npages\<rparr>) ps;
     write_pages [pageno + npages - 1] (\<lambda>p. p\<lparr>pg_first_pageno := pageno\<rparr>) ps }"

definition set_blocks_free :: "bool \<Rightarrow> video_mm \<Rightarrow> int \<Rightarrow> int \<Rightarrow> video_mm option" where
  "set_blocks_free ok mm pageno npages =
    (let last_pageno = pageno + npages - 1 in
     if npages = 0 then None
     else if last_pageno \<ge> num_pages mm then None
     else do {
       ps \<leftarrow> mark_block 0 pageno npages (page_list mm);
       t \<leftarrow> avltree_insert ok (free_tree mm) (MAKE_KEY (of_int npages) (of_int pageno)) pageno;
       Some (mm\<lparr>page_list := ps, free_tree := t\<rparr>) })"

definition set_blocks_alloc :: "bool \<Rightarrow> video_mm \<Rightarrow> int \<Rightarrow> int \<Rightarrow> video_mm option" where
  "set_blocks_alloc ok mm pageno npages =
    (let last_pageno = pageno + npages - 1 in
     if last_pageno \<ge> num_pages mm then None
     else do {
       ps \<leftarrow> mark_block 1 pageno npages (page_list mm);
       page \<leftarrow> page_at ps pageno;
       t \<leftarrow> avltree_insert ok (alloc_tree mm) (MAKE_KEY (pg_addr page) 0) pageno;
       Some (mm\<lparr>page_list := ps, alloc_tree := t\<rparr>) })"

section \<open>The operations\<close>

text \<open>\<open>ok i\<close> tells whether the \<open>i\<close>-th call of \<open>malloc\<close> in the operation
  succeeds.  The size is rounded with the complement of the page size itself,
  as the code writes it.\<close>

definition vmem_init :: "(nat \<Rightarrow> bool) \<Rightarrow> u64 \<Rightarrow> u64 \<Rightarrow> (int \<times> video_mm) option" where
  "vmem_init ok addr sz =
    (let base = (addr + (VMEM_PAGE_SIZE - 1)) AND NOT (VMEM_PAGE_SIZE - 1);
         msize = sz AND NOT VMEM_PAGE_SIZE;
         n = int_of_u64 (msize div VMEM_PAGE_SIZE);
         ps = (if ok 0 then
                 map (\<lambda>i. \<lparr>pg_pageno = i, pg_addr = base + of_int i * VMEM_PAGE_SIZE,
                           pg_used = 0, pg_alloc_pages = 0, pg_first_pageno = -1\<rparr>) [0 .. n - 1]
               else []);
         mm = \<lparr>free_tree = Leaf, alloc_tree = Leaf, page_list = ps, num_pages = n,
               base_addr = base, mem_size = msize, free_page_count = n, alloc_page_count = 0\<rparr>
     in do {
       mm \<leftarrow> set_blocks_free (ok 1) mm 0 n;
       Some (0, mm) })"

text \<open>The null handle is \<open>None\<close>; the third component lists the keys of the
  nodes released.\<close>

definition vmem_exit :: "video_mm option \<Rightarrow> int \<times> video_mm option \<times> u64 list" where
  "vmem_exit mh =
    (case mh of
       None \<Rightarrow> (-1, None, [])
     | Some mm \<Rightarrow>
        (0, Some (mm\<lparr>free_tree := Leaf, alloc_tree := Leaf, page_list := []\<rparr>),
         avltree_free (free_tree mm) @ avltree_free (alloc_tree mm)))"

definition vmem_alloc ::
    "(nat \<Rightarrow> bool) \<Rightarrow> video_mm option \<Rightarrow> int \<Rightarrow> (u64 \<times> video_mm option) option" where
  "vmem_alloc ok mh sz =
    (case mh of
       None \<Rightarrow> Some (-1, None)
     | Some mm \<Rightarrow>
        if sz \<le> 0 then Some (-1, Some mm)
        else
          (let npages = int_of_u64 ((of_int sz + VMEM_PAGE_SIZE - 1) div VMEM_PAGE_SIZE) in
           do {
             (ft, node) \<leftarrow> remove_approx_value (free_tree mm) (MAKE_KEY (of_int npages) 0);
             let mm = mm\<lparr>free_tree := ft\<rparr>;
             (case node of
                None \<Rightarrow> Some (-1, Some mm)
              | Some (key, pg) \<Rightarrow> do {
                  free_page \<leftarrow> page_at (page_list mm) pg;
                  let free_size = int_of_u64 (KEY_TO_VALUE key);
                  let alloc_pageno = pg_pageno free_page;
                  mm \<leftarrow> set_blocks_alloc (ok 0) mm alloc_pageno npages;
                  mm \<leftarrow> (if npages \<noteq> free_size
                        then set_blocks_free (ok 1) mm (alloc_pageno + npages) (free_size - npages)
                        else Some mm);
                  p \<leftarrow> page_at (page_list mm) alloc_pageno;
                  Some (pg_addr p,
                    Some (mm\<lparr>alloc_page_count := alloc_page_count mm + npages,
                             free_page_count := free_page_count mm - npages\<rparr>)) }) }))"

text \<open>The search for free neighbours: the pair is the first page of the
  neighbour and its size, or a size of \<open>-1\<close>.\<close>

definition find_prev_free :: "page list \<Rightarrow> int \<Rightarrow> (int \<times> int) option" where
  "find_prev_free ps pageno =
    (let prev = pageno - 1 in
     if prev \<ge> 0 then do {
       p \<leftarrow> page_at ps prev;
       if pg_used p = 0 then do {
         q \<leftarrow> page_at ps (pg_first_pageno p);
         Some (pg_first_pageno p, pg_alloc_pages q) }
       else Some (prev, -1) }
     else Some (prev, -1))"

definition find_next_free :: "video_mm \<Rightarrow> int \<Rightarrow> int \<Rightarrow> (int \<times> int) option" where
  "find_next_free mm pageno n =
    (let next = (if pageno + n = num_pages mm then -1 else pageno + n) in
     if next \<ge> 0 then do {
       p \<leftarrow> page_at (page_list mm) next;
       Some (next, if pg_used p = 0 then pg_alloc_pages p else -1) }
     else Some (next, -1))"

text \<open>Removal of a neighbour from the free tree: the failing \<open>ASSERT\<close> when it
  is not found, its page otherwise.\<close>

definition take_neighbour :: "int avl \<Rightarrow> page list \<Rightarrow> int \<Rightarrow> int \<Rightarrow> (int avl \<times> page option) option" where
  "take_neighbour t ps sz pageno =
    (if sz \<ge> 0 then do {
       (t, found) \<leftarrow> avltree_remove t (MAKE_KEY (of_int sz) (of_int pageno));
       (case found of
          None \<Rightarrow> None
        | Some (key, pg) \<Rightarrow> do {
            p \<leftarrow> page_at ps pg;
            Some (t, Some p) }) }
     else Some (t, None))"

definition vmem_free ::
    "bool \<Rightarrow> video_mm option \<Rightarrow> u64 \<Rightarrow> (int \<times> video_mm option) option" where
  "vmem_free ok mh ptr =
    (case mh of
       None \<Rightarrow> Some (-1, None)
     | Some mm \<Rightarrow> do {
         (at, found) \<leftarrow> avltree_remove (alloc_tree mm) (MAKE_KEY ptr 0);
         let mm = mm\<lparr>alloc_tree := at\<rparr>;
         (case found of
            None \<Rightarrow> Some (-1, Some mm)
          | Some (key, pg) \<Rightarrow> do {
              page \<leftarrow> page_at (page_list mm) pg;
              let pageno = pg_pageno page;
              let free_page_size = pg_alloc_pages page;
              (prev_no, prev_size) \<leftarrow> find_prev_free (page_list mm) pageno;
              (next_no, next_size) \<leftarrow> find_next_free mm pageno (pg_alloc_pages page);
              (ft, prev) \<leftarrow> take_neighbour (free_tree mm) (page_list mm) prev_size prev_no;
              (ft, next) \<leftarrow> take_neighbour ft (page_list mm) next_size next_no;
              let merge_page_no = (case prev of None \<Rightarrow> pageno | Some p \<Rightarrow> pg_pageno p);
              let merge_page_size = pg_alloc_pages page
                + (case prev of None \<Rightarrow> 0 | Some p \<Rightarrow> pg_alloc_pages p)
                + (case next of None \<Rightarrow> 0 | Some p \<Rightarrow> pg_alloc_pages p);
              ps \<leftarrow> write_pages [pg] (\<lambda>p. p\<lparr>pg_alloc_pages := 0, pg_first_pageno := -1\<rparr>) (page_list mm);
              mm \<leftarrow> set_blocks_free ok (mm\<lparr>free_tree := ft, page_list := ps\<rparr>) merge_page_no merge_page_size;
              Some (0, Some (mm\<lparr>alloc_page_count := alloc_page_count mm - free_page_size,
                                free_page_count := free_page_count mm + free_page_size\<rparr>)) }) })"

text \<open>Null arguments are \<open>None\<close>; the information is returned with the code 0.\<close>

definition vmem_get_info :: "video_mm option \<Rightarrow> bool \<Rightarrow> int \<times> vmem_info option" where
  "vmem_get_info mh info_given =
    (case mh of
       None \<Rightarrow> (-1, None)
     | Some mm \<Rightarrow>
        if \<not> info_given then (-1, None)
        else (0, Some \<lparr>total_pages = num_pages mm, alloc_pages = alloc_page_count mm,
                       free_pages = free_page_count mm, page_size = VMEM_PAGE_SIZE\<rparr>))"

section \<open>Keys\<close>

lemma uint_MAKE_KEY:
  assumes "uint b < 2^32"
  shows "uint (MAKE_KEY a b) = (uint a mod 2^32) * 2^32 + uint b"
proof -
  have "uint (push_bit 32 a) = push_bit 32 (take_bit 32 (uint a))"
    by (simp add: unsigned_push_bit_eq take_bit_push_bit)
  then have "uint (MAKE_KEY a b) = concat_bit 32 (uint b) (take_bit 32 (uint a))"
    using assms by (simp add: MAKE_KEY_def concat_bit_def take_bit_int_eq_self unsigned_or_eq or.commute)
  also have "\<dots> = uint b + take_bit 32 (uint a) * 2^32"
    using assms by (simp add: concat_bit_eq take_bit_int_eq_self push_bit_eq_mult)
  finally show ?thesis by (simp add: take_bit_eq_mod)
qed

lemma uint_size_key [key_simps]:
  assumes "0 \<le> n" "n < 2^31" "0 \<le> s" "s < 2^31"
  shows "uint (MAKE_KEY (of_int n) (of_int s)) = n * 2^32 + s"
proof -
  have "uint (of_int n :: u64) = n" "uint (of_int s :: u64) = s"
    using assms by (auto intro!: uint_of_int_small)
  then show ?thesis using uint_MAKE_KEY[of "of_int s" "of_int n"] assms by simp
qed

lemma size_key_le:
  assumes "0 \<le> n" "n < 2^31" "0 \<le> s" "s < 2^31" "0 \<le> n'" "n' < 2^31" "0 \<le> s'" "s' < 2^31"
  shows "MAKE_KEY (of_int n) (of_int s) \<le> MAKE_KEY (of_int n') (of_int s')
    \<longleftrightarrow> n < n' \<or> n = n' \<and> s \<le> s'"
proof -
  have "MAKE_KEY (of_int n) (of_int s) \<le> MAKE_KEY (of_int n') (of_int s')
    \<longleftrightarrow> n * 4294967296 + s \<le> n' * 4294967296 + s'"
    using assms by (simp add: word_le_def key_simps)
  also have "\<dots> \<longleftrightarrow> n < n' \<or> n = n' \<and> s \<le> s'"
  proof -
    consider (lt) "n < n'" | (eq) "n = n'" | (gt) "n' < n" by linarith
    then show ?thesis
    proof cases
      case lt
      then have "n * 4294967296 + s < n' * 4294967296 + s'" using assms(3,4,7,8) by simp
      then show ?thesis using lt by linarith
    next
      case eq
      then show ?thesis by simp
    next
      case gt
      then have "n' * 4294967296 + s' < n * 4294967296 + s" using assms(3,4,7,8) by simp
      then show ?thesis using gt by linarith
    qed
  qed
  finally show ?thesis .
qed

lemma size_key_eq:
  assumes "0 \<le> n" "n < 2^31" "0 \<le> s" "s < 2^31" "0 \<le> n'" "n' < 2^31" "0 \<le> s'" "s' < 2^31"
  shows "MAKE_KEY (of_int n) (of_int s) = MAKE_KEY (of_int n') (of_int s') \<longleftrightarrow> n = n' \<and> s = s'"
proof
  assume eq: "MAKE_KEY (of_int n) (of_int s) = MAKE_KEY (of_int n') (of_int s')"
  have "n < n' \<or> n = n' \<and> s \<le> s'"
    using size_key_le[OF assms] eq by simp
  moreover have "n' < n \<or> n' = n \<and> s' \<le> s"
    using size_key_le[OF assms(5-8) assms(1-4)] eq by simp
  ultimately show "n = n' \<and> s = s'" by linarith
qed simp

lemma size_key_value [key_simps]:
  assumes "0 \<le> n" "n < 2^31" "0 \<le> s" "s < 2^31"
  shows "int_of_u64 (KEY_TO_VALUE (MAKE_KEY (of_int n) (of_int s))) = n"
proof -
  have "uint (KEY_TO_VALUE (MAKE_KEY (of_int n) (of_int s))) = n"
    unfolding KEY_TO_VALUE_def unsigned_drop_bit_eq using assms
    by (simp add: key_simps take_bit_int_eq_self drop_bit_eq_div)
  then show ?thesis using assms by (simp add: word_bounds)
qed

text \<open>The address keys keep only the low half of the address: they are
  distinct for the pages of a pool of at most 4 GB.\<close>

definition page_address :: "u64 \<Rightarrow> int \<Rightarrow> u64" where
  "page_address base i = base + of_int i * VMEM_PAGE_SIZE"

definition POOL_LIMIT :: int where
  "POOL_LIMIT = 2^18"

lemma uint_addr_key: "uint (MAKE_KEY a 0) = (uint a mod 2^32) * 2^32"
  by (simp add: uint_MAKE_KEY)

lemma uint_page_address: "uint (page_address base i) mod 2^32 = (uint base + i * 16384) mod 2^32"
proof -
  have "uint (page_address base i) = (uint base + i * 16384) mod 2^64"
    by (simp add: page_address_def VMEM_PAGE_SIZE_def uint_word_ariths unsigned_of_int take_bit_eq_mod mod_simps)
  then show ?thesis by (simp add: mod_mod_cancel)
qed

lemma addr_key_eq:
  assumes "0 \<le> i" "i < POOL_LIMIT" "0 \<le> j" "j < POOL_LIMIT"
  shows "MAKE_KEY (page_address base i) 0 = MAKE_KEY (page_address base j) 0 \<longleftrightarrow> i = j"
proof
  assume "MAKE_KEY (page_address base i) 0 = MAKE_KEY (page_address base j) 0"
  then have "uint (MAKE_KEY (page_address base i) 0) = uint (MAKE_KEY (page_address base j) 0)" by simp
  then have "(uint base + i * 16384) mod 2^32 = (uint base + j * 16384) mod 2^32"
    unfolding uint_addr_key uint_page_address by simp
  then have "(2::int)^32 dvd (i - j) * 16384"
    by (simp add: mod_eq_dvd_iff algebra_simps)
  then have "(262144::int) * 16384 dvd (i - j) * 16384" by simp
  then have "(262144::int) dvd i - j" by (subst (asm) dvd_mult_cancel_right) simp
  moreover have "\<bar>i - j\<bar> < 262144" using assms by (auto simp: POOL_LIMIT_def)
  ultimately show "i = j" using zdvd_imp_le[of 262144 "\<bar>i - j\<bar>"] by auto
qed simp

section \<open>Marking pages\<close>

abbreviation pg :: "page list \<Rightarrow> int \<Rightarrow> page" where
  "pg ps i \<equiv> ps ! nat i"

lemma page_at_Some [simp]: "0 \<le> i \<Longrightarrow> i < int (length ps) \<Longrightarrow> page_at ps i = Some (pg ps i)"
  by (simp add: page_at_def)

lemma write_pages_Some:
  assumes "distinct is" "\<And>i. i \<in> set is \<Longrightarrow> 0 \<le> i \<and> i < int (length ps)"
  shows "\<exists>ps'. write_pages is f ps = Some ps' \<and> length ps' = length ps \<and>
    (\<forall>i. 0 \<le> i \<longrightarrow> i < int (length ps) \<longrightarrow> pg ps' i = (if i \<in> set is then f (pg ps i) else pg ps i))"
  using assms
proof (induction "is" arbitrary: ps)
  case (Cons j js)
  let ?ps = "ps[nat j := f (pg ps j)]"
  have j: "0 \<le> j" "j < int (length ps)" using Cons.prems(2)[of j] by auto
  obtain ps' where ps': "write_pages js f ?ps = Some ps'" "length ps' = length ps"
    "\<forall>i. 0 \<le> i \<longrightarrow> i < int (length ps) \<longrightarrow> pg ps' i = (if i \<in> set js then f (pg ?ps i) else pg ?ps i)"
    using Cons.IH[of ?ps] Cons.prems by auto
  have "pg ps' i = (if i \<in> set (j # js) then f (pg ps i) else pg ps i)"
    if "0 \<le> i" "i < int (length ps)" for i
    using ps'(3) that j Cons.prems(1) by (cases "i = j") (auto simp: nth_list_update)
  then show ?case using ps'(1,2) j by auto
qed simp

text \<open>The effect of marking one block.\<close>

definition marked :: "int \<Rightarrow> int \<Rightarrow> int \<Rightarrow> page list \<Rightarrow> page list \<Rightarrow> bool" where
  "marked u s n ps ps' \<longleftrightarrow> length ps' = length ps \<and>
    (\<forall>i. 0 \<le> i \<longrightarrow> i < int (length ps) \<longrightarrow>
       pg_pageno (pg ps' i) = pg_pageno (pg ps i) \<and> pg_addr (pg ps' i) = pg_addr (pg ps i) \<and>
       (if s \<le> i \<and> i < s + n
        then pg_used (pg ps' i) = u \<and> (i = s \<longrightarrow> pg_alloc_pages (pg ps' i) = n) \<and>
             (i = s + n - 1 \<longrightarrow> pg_first_pageno (pg ps' i) = s)
        else pg ps' i = pg ps i))"

lemma mark_block_Some:
  assumes "0 \<le> s" "0 < n" "s + n \<le> int (length ps)"
  shows "\<exists>ps'. mark_block u s n ps = Some ps' \<and> marked u s n ps ps'"
proof -
  let ?f = "\<lambda>p. p\<lparr>pg_used := u, pg_alloc_pages := 0, pg_first_pageno := -1\<rparr>"
  obtain p1 where p1: "write_pages [s .. s + n - 1] ?f ps = Some p1" "length p1 = length ps"
    "\<forall>i. 0 \<le> i \<longrightarrow> i < int (length ps) \<longrightarrow>
      pg p1 i = (if i \<in> set [s .. s + n - 1] then ?f (pg ps i) else pg ps i)"
    using write_pages_Some[of "[s .. s + n - 1]" ps ?f] assms by auto
  obtain p2 where p2: "write_pages [s] (\<lambda>p. p\<lparr>pg_alloc_pages := n\<rparr>) p1 = Some p2" "length p2 = length ps"
    "\<forall>i. 0 \<le> i \<longrightarrow> i < int (length ps) \<longrightarrow>
      pg p2 i = (if i = s then (pg p1 i)\<lparr>pg_alloc_pages := n\<rparr> else pg p1 i)"
    using write_pages_Some[of "[s]" p1 "\<lambda>p. p\<lparr>pg_alloc_pages := n\<rparr>"] assms p1(2) by auto
  obtain p3 where p3: "write_pages [s + n - 1] (\<lambda>p. p\<lparr>pg_first_pageno := s\<rparr>) p2 = Some p3"
    "length p3 = length ps"
    "\<forall>i. 0 \<le> i \<longrightarrow> i < int (length ps) \<longrightarrow>
      pg p3 i = (if i = s + n - 1 then (pg p2 i)\<lparr>pg_first_pageno := s\<rparr> else pg p2 i)"
    using write_pages_Some[of "[s + n - 1]" p2 "\<lambda>p. p\<lparr>pg_first_pageno := s\<rparr>"] assms p2(2) by auto
  have "pg_pageno (pg p3 i) = pg_pageno (pg ps i) \<and> pg_addr (pg p3 i) = pg_addr (pg ps i) \<and>
       (if s \<le> i \<and> i < s + n
        then pg_used (pg p3 i) = u \<and> (i = s \<longrightarrow> pg_alloc_pages (pg p3 i) = n) \<and>
             (i = s + n - 1 \<longrightarrow> pg_first_pageno (pg p3 i) = s)
        else pg p3 i = pg ps i)" if "0 \<le> i" "i < int (length ps)" for i
  proof -
    have e1: "pg p1 i = (if s \<le> i \<and> i < s + n then ?f (pg ps i) else pg ps i)"
      using p1(3) that by simp
    have e2: "pg p2 i = (if i = s then (pg p1 i)\<lparr>pg_alloc_pages := n\<rparr> else pg p1 i)"
      using p2(3) that by blast
    have e3: "pg p3 i = (if i = s + n - 1 then (pg p2 i)\<lparr>pg_first_pageno := s\<rparr> else pg p2 i)"
      using p3(3) that by blast
    show ?thesis unfolding e3 e2 e1 using assms(2) by auto
  qed
  then have "marked u s n ps p3" unfolding marked_def using p3(2) by blast
  then show ?thesis using p1(1) p2(1) p3(1) by (auto simp: mark_block_def)
qed

section \<open>The abstract state: a tiling of the page array\<close>

type_synonym block = "int \<times> int \<times> bool"

definition blocks_ok :: "int \<Rightarrow> block set \<Rightarrow> bool" where
  "blocks_ok N B \<longleftrightarrow>
     (\<forall>s n u. (s, n, u) \<in> B \<longrightarrow> 0 \<le> s \<and> 0 < n \<and> s + n \<le> N) \<and>
     (\<forall>i. 0 \<le> i \<longrightarrow> i < N \<longrightarrow> (\<exists>s n u. (s, n, u) \<in> B \<and> s \<le> i \<and> i < s + n)) \<and>
     (\<forall>s n u s' n' u'. (s, n, u) \<in> B \<longrightarrow> (s', n', u') \<in> B \<longrightarrow>
        (s, n, u) = (s', n', u') \<or> s + n \<le> s' \<or> s' + n' \<le> s) \<and>
     (\<forall>s n m. (s, n, False) \<in> B \<longrightarrow> (s + n, m, False) \<notin> B)"

lemma blocks_okD:
  assumes "blocks_ok N B"
  shows "(s, n, u) \<in> B \<Longrightarrow> 0 \<le> s \<and> 0 < n \<and> s + n \<le> N"
    and "0 \<le> i \<Longrightarrow> i < N \<Longrightarrow> \<exists>s n u. (s, n, u) \<in> B \<and> s \<le> i \<and> i < s + n"
    and "(s, n, u) \<in> B \<Longrightarrow> (s', n', u') \<in> B \<Longrightarrow>
      (s, n, u) = (s', n', u') \<or> s + n \<le> s' \<or> s' + n' \<le> s"
    and "(s, n, False) \<in> B \<Longrightarrow> (s + n, m, False) \<notin> B"
  using assms unfolding blocks_ok_def by blast+

lemma blocks_okI:
  assumes "\<And>s n u. (s, n, u) \<in> B \<Longrightarrow> 0 \<le> s \<and> 0 < n \<and> s + n \<le> N"
    and "\<And>i. 0 \<le> i \<Longrightarrow> i < N \<Longrightarrow> \<exists>s n u. (s, n, u) \<in> B \<and> s \<le> i \<and> i < s + n"
    and "\<And>s n u s' n' u'. (s, n, u) \<in> B \<Longrightarrow> (s', n', u') \<in> B \<Longrightarrow>
      (s, n, u) = (s', n', u') \<or> s + n \<le> s' \<or> s' + n' \<le> s"
    and "\<And>s n m. (s, n, False) \<in> B \<Longrightarrow> (s + n, m, False) \<in> B \<Longrightarrow> False"
  shows "blocks_ok N B"
  using assms unfolding blocks_ok_def by blast

text \<open>The marks a block leaves in the page array.\<close>

definition page_blk :: "page list \<Rightarrow> int \<Rightarrow> int \<Rightarrow> bool \<Rightarrow> bool" where
  "page_blk ps s n u \<longleftrightarrow>
     (\<forall>i. s \<le> i \<longrightarrow> i < s + n \<longrightarrow> pg_used (pg ps i) = (if u then 1 else 0)) \<and>
     pg_alloc_pages (pg ps s) = n \<and> pg_first_pageno (pg ps (s + n - 1)) = s"

definition free_entries :: "block set \<Rightarrow> (u64 \<times> int) set" where
  "free_entries B = {(MAKE_KEY (of_int n) (of_int s), s) | s n. (s, n, False) \<in> B}"

definition used_entries :: "u64 \<Rightarrow> block set \<Rightarrow> (u64 \<times> int) set" where
  "used_entries base B = {(MAKE_KEY (page_address base s) 0, s) | s n. (s, n, True) \<in> B}"

definition used_pages :: "block set \<Rightarrow> int" where
  "used_pages B = (\<Sum>(s, n, u) \<in> B. if u then n else 0)"

definition pages_ok :: "u64 \<Rightarrow> int \<Rightarrow> page list \<Rightarrow> bool" where
  "pages_ok base N ps \<longleftrightarrow> int (length ps) = N \<and>
     (\<forall>i. 0 \<le> i \<longrightarrow> i < N \<longrightarrow> pg_pageno (pg ps i) = i \<and> pg_addr (pg ps i) = page_address base i)"

definition mm_rep :: "video_mm \<Rightarrow> block set \<Rightarrow> bool" where
  "mm_rep mm B \<longleftrightarrow>
     0 < num_pages mm \<and> num_pages mm \<le> POOL_LIMIT \<and>
     pages_ok (base_addr mm) (num_pages mm) (page_list mm) \<and>
     finite B \<and> blocks_ok (num_pages mm) B \<and>
     (\<forall>s n u. (s, n, u) \<in> B \<longrightarrow> page_blk (page_list mm) s n u) \<and>
     ix.index_of (free_tree mm) (free_entries B) \<and>
     ix.index_of (alloc_tree mm) (used_entries (base_addr mm) B) \<and>
     alloc_page_count mm = used_pages B \<and>
     free_page_count mm = num_pages mm - used_pages B"

lemma mm_repD:
  assumes "mm_rep mm B"
  shows "0 < num_pages mm" "num_pages mm \<le> POOL_LIMIT"
    "pages_ok (base_addr mm) (num_pages mm) (page_list mm)"
    "finite B" "blocks_ok (num_pages mm) B"
    "\<And>s n u. (s, n, u) \<in> B \<Longrightarrow> page_blk (page_list mm) s n u"
    "ix.index_of (free_tree mm) (free_entries B)"
    "ix.index_of (alloc_tree mm) (used_entries (base_addr mm) B)"
    "alloc_page_count mm = used_pages B" "free_page_count mm = num_pages mm - used_pages B"
  using assms unfolding mm_rep_def by blast+

lemma marked_page_blk:
  assumes "marked (if u then 1 else 0) s n ps ps'" "0 \<le> s" "0 < n" "s + n \<le> int (length ps)"
  shows "page_blk ps' s n u"
proof -
  have "pg_used (pg ps' i) = (if u then 1 else 0)" if "s \<le> i" "i < s + n" for i
    using assms that unfolding marked_def by auto
  moreover have "pg_alloc_pages (pg ps' s) = n" "pg_first_pageno (pg ps' (s + n - 1)) = s"
    using assms unfolding marked_def by auto
  ultimately show ?thesis unfolding page_blk_def by blast
qed

lemma marked_other_blk:
  assumes "marked m s n ps ps'" "page_blk ps s' n' u" "s + n \<le> s' \<or> s' + n' \<le> s"
    "0 \<le> s'" "0 < n'" "s' + n' \<le> int (length ps)"
  shows "page_blk ps' s' n' u"
proof -
  have same: "pg ps' i = pg ps i" if "s' \<le> i" "i < s' + n'" for i
  proof -
    have "0 \<le> i" "i < int (length ps)" "\<not> (s \<le> i \<and> i < s + n)"
      using that assms(3-6) by linarith+
    then show ?thesis using assms(1) unfolding marked_def by presburger
  qed
  have "pg ps' s' = pg ps s'" "pg ps' (s' + n' - 1) = pg ps (s' + n' - 1)"
    using same[of s'] same[of "s' + n' - 1"] assms(5) by auto
  then show ?thesis using assms(2) same unfolding page_blk_def by auto
qed

lemma marked_pages_ok:
  "marked m s n ps ps' \<Longrightarrow> pages_ok base N ps \<Longrightarrow> pages_ok base N ps'"
  unfolding marked_def pages_ok_def by auto

lemma free_entries_mem: "(k, s) \<in> free_entries B \<longleftrightarrow> (\<exists>n. (s, n, False) \<in> B \<and> k = MAKE_KEY (of_int n) (of_int s))"
  by (auto simp: free_entries_def)

lemma used_entries_mem: "(k, s) \<in> used_entries base B \<longleftrightarrow> (\<exists>n. (s, n, True) \<in> B \<and> k = MAKE_KEY (page_address base s) 0)"
  by (auto simp: used_entries_def)

text \<open>Bounds of a block inside a pool: every number fits a C \<open>int\<close>.\<close>

lemma block_bounds:
  assumes "blocks_ok N B" "N \<le> POOL_LIMIT" "(s, n, u) \<in> B"
  shows "0 \<le> s" "s < POOL_LIMIT" "0 < n" "n \<le> POOL_LIMIT" "s + n \<le> N" "s < 2^31" "n < 2^31"
  using blocks_okD(1)[OF assms(1,3)] assms(2) by (auto simp: POOL_LIMIT_def)

lemma free_key_eq:
  assumes "blocks_ok N B" "N \<le> POOL_LIMIT" "(s, n, u) \<in> B" "0 \<le> s'" "0 < n'" "s' + n' \<le> N"
    "MAKE_KEY (of_int n) (of_int s) = MAKE_KEY (of_int n') (of_int s')"
  shows "n = n' \<and> s = s'"
proof -
  note b = block_bounds[OF assms(1-3)]
  have "s' < 2^31" "n' < 2^31" using assms(2,4-6) by (auto simp: POOL_LIMIT_def)
  then show ?thesis using size_key_eq[of n s n' s'] b assms(4,5,7) by auto
qed

section \<open>The two block writers\<close>

lemma set_blocks_free_Some:
  assumes "int (length (page_list mm)) = num_pages mm" "0 \<le> s" "0 < n" "s + n \<le> num_pages mm"
    "ix.index_of (free_tree mm) E" "MAKE_KEY (of_int n) (of_int s) \<notin> fst ` E"
  shows "\<exists>ps' ft'. set_blocks_free True mm s n = Some (mm\<lparr>page_list := ps', free_tree := ft'\<rparr>)
    \<and> marked 0 s n (page_list mm) ps'
    \<and> ix.index_of ft' (insert (MAKE_KEY (of_int n) (of_int s), s) E)"
proof -
  obtain ps' where ps': "mark_block 0 s n (page_list mm) = Some ps'" "marked 0 s n (page_list mm) ps'"
    using mark_block_Some[of s n "page_list mm" 0] assms(1-4) by auto
  obtain ft' where "avltree_insert True (free_tree mm) (MAKE_KEY (of_int n) (of_int s)) s = Some ft'"
    "ix.index_of ft' (insert (MAKE_KEY (of_int n) (of_int s), s) E)"
    using ix.index_ins[OF assms(5,6)] by blast
  then show ?thesis
    using ps' assms(3,4) by (auto simp: set_blocks_free_def Let_def)
qed

lemma set_blocks_alloc_Some:
  assumes "pages_ok base (num_pages mm) (page_list mm)" "0 \<le> s" "0 < n" "s + n \<le> num_pages mm"
    "ix.index_of (alloc_tree mm) E" "MAKE_KEY (page_address base s) 0 \<notin> fst ` E"
  shows "\<exists>ps' at'. set_blocks_alloc True mm s n = Some (mm\<lparr>page_list := ps', alloc_tree := at'\<rparr>)
    \<and> marked 1 s n (page_list mm) ps'
    \<and> ix.index_of at' (insert (MAKE_KEY (page_address base s) 0, s) E)"
proof -
  have len: "int (length (page_list mm)) = num_pages mm" using assms(1) by (simp add: pages_ok_def)
  obtain ps' where ps': "mark_block 1 s n (page_list mm) = Some ps'" "marked 1 s n (page_list mm) ps'"
    using mark_block_Some[of s n "page_list mm" 1] len assms(2-4) by auto
  have "pages_ok base (num_pages mm) ps'" using marked_pages_ok[OF ps'(2) assms(1)] .
  then have pa: "page_at ps' s = Some (pg ps' s)" "pg_addr (pg ps' s) = page_address base s"
    using assms(2-4) by (auto simp: pages_ok_def)
  obtain at' where "avltree_insert True (alloc_tree mm) (MAKE_KEY (page_address base s) 0) s = Some at'"
    "ix.index_of at' (insert (MAKE_KEY (page_address base s) 0, s) E)"
    using ix.index_ins[OF assms(5,6)] by blast
  then show ?thesis
    using ps' pa assms(4) by (auto simp: set_blocks_alloc_def Let_def)
qed

section \<open>Allocation splits the best-fitting free block\<close>

definition split_block :: "int \<Rightarrow> int \<Rightarrow> int \<Rightarrow> block set \<Rightarrow> block set" where
  "split_block s f n B =
     (B - {(s, f, False)}) \<union> {(s, n, True)} \<union> (if n < f then {(s + n, f - n, False)} else {})"

text \<open>The pages a request of \<open>sz\<close> bytes takes.\<close>

definition pages_for :: "int \<Rightarrow> int" where
  "pages_for sz = (sz + 16383) div 16384"

lemma alloc_pages_for:
  assumes "0 < sz" "sz < 2^31"
  shows "int_of_u64 ((of_int sz + VMEM_PAGE_SIZE - 1) div VMEM_PAGE_SIZE) = pages_for sz"
    "0 < pages_for sz" "pages_for sz < 2^31"
proof -
  have eq: "(of_int sz + VMEM_PAGE_SIZE - 1 :: u64) = of_int (sz + 16383)"
    by (simp add: VMEM_PAGE_SIZE_def)
  have "uint (of_int (sz + 16383) :: u64) = sz + 16383"
    using assms by (intro uint_of_int_small) auto
  then have h: "uint (of_int sz + VMEM_PAGE_SIZE - 1 :: u64) = sz + 16383" by (simp only: eq)
  have "uint ((of_int sz + VMEM_PAGE_SIZE - 1) div VMEM_PAGE_SIZE) = pages_for sz"
    by (simp only: uint_div h pages_for_def) (simp add: VMEM_PAGE_SIZE_def)
  moreover show "0 < pages_for sz" "pages_for sz < 2^31"
    using assms by (auto simp: pages_for_def)
  ultimately show "int_of_u64 ((of_int sz + VMEM_PAGE_SIZE - 1) div VMEM_PAGE_SIZE) = pages_for sz"
    by (simp add: word_bounds)
qed

lemma split_mem:
  "(s', n', u) \<in> split_block s f n B \<longleftrightarrow>
     (s', n', u) \<in> B \<and> (s', n', u) \<noteq> (s, f, False) \<or> (s', n', u) = (s, n, True) \<or>
     n < f \<and> (s', n', u) = (s + n, f - n, False)"
  by (auto simp: split_block_def)

lemma blocks_ok_split:
  assumes B: "blocks_ok N B" and m: "(s, f, False) \<in> B" and n: "0 < n" "n \<le> f"
  shows "blocks_ok N (split_block s f n B)"
proof (rule blocks_okI)
  note bd = blocks_okD(1)[OF B m]
  have apart: "s' + n' \<le> s \<or> s + f \<le> s'" if "(s', n', u) \<in> B" "(s', n', u) \<noteq> (s, f, False)" for s' n' u
    using blocks_okD(3)[OF B that(1) m] that(2) by auto
  show "0 \<le> s' \<and> 0 < n' \<and> s' + n' \<le> N" if "(s', n', u) \<in> split_block s f n B" for s' n' u
    using that blocks_okD(1)[OF B, of s' n' u] bd n unfolding split_mem by auto
  show "\<exists>s' n' u. (s', n', u) \<in> split_block s f n B \<and> s' \<le> i \<and> i < s' + n'" if i: "0 \<le> i" "i < N" for i
  proof -
    obtain s' n' u where b: "(s', n', u) \<in> B" "s' \<le> i" "i < s' + n'"
      using blocks_okD(2)[OF B i] by blast
    show ?thesis
    proof (cases "(s', n', u) = (s, f, False)")
      case False
      then show ?thesis using b unfolding split_mem by blast
    next
      case True
      show ?thesis
      proof (cases "i < s + n")
        case True
        then show ?thesis using b \<open>(s', n', u) = (s, f, False)\<close>
          by (intro exI[of _ s] exI[of _ n] exI[of _ True]) (auto simp: split_mem)
      next
        case False
        then show ?thesis using b \<open>(s', n', u) = (s, f, False)\<close>
          by (intro exI[of _ "s + n"] exI[of _ "f - n"] exI[of _ False]) (auto simp: split_mem)
      qed
    qed
  qed
  show "(s1, n1, u1) = (s2, n2, u2) \<or> s1 + n1 \<le> s2 \<or> s2 + n2 \<le> s1"
    if "(s1, n1, u1) \<in> split_block s f n B" "(s2, n2, u2) \<in> split_block s f n B" for s1 n1 u1 s2 n2 u2
    using that apart[of s1 n1 u1] apart[of s2 n2 u2] blocks_okD(3)[OF B, of s1 n1 u1 s2 n2 u2] n
    unfolding split_mem by (elim disjE conjE) (simp_all, linarith+)
  show False if "(s1, n1, False) \<in> split_block s f n B" "(s1 + n1, m1, False) \<in> split_block s f n B" for s1 n1 m1
  proof -
    have "(s1, n1, False) \<in> B \<and> (s1, n1, False) \<noteq> (s, f, False) \<or> n < f \<and> s1 = s + n \<and> n1 = f - n"
      using that(1) unfolding split_mem by simp
    moreover have "(s1 + n1, m1, False) \<in> B \<or> n < f \<and> s1 + n1 = s + n"
      using that(2) unfolding split_mem by auto
    ultimately consider "(s1, n1, False) \<in> B" "(s1, n1, False) \<noteq> (s, f, False)" "(s1 + n1, m1, False) \<in> B"
      | "(s1, n1, False) \<in> B" "(s1, n1, False) \<noteq> (s, f, False)" "s1 + n1 = s + n" "n < f"
      | "s1 = s + n" "n1 = f - n" "(s1 + n1, m1, False) \<in> B"
      | "s1 = s + n" "n1 = f - n" "s1 + n1 = s + n" "n < f"
      by blast
    then show False
    proof cases
      case 1
      then show False using blocks_okD(4)[OF B] by blast
    next
      case 2
      then show False using apart[of s1 n1 False] blocks_okD(1)[OF B 2(1)] n by linarith
    next
      case 3
      then show False using blocks_okD(4)[OF B m] by simp
    next
      case 4
      then show False by linarith
    qed
  qed
qed

lemma used_pages_split:
  assumes B: "blocks_ok N B" "finite B" and m: "(s, f, False) \<in> B" and n: "0 < n" "n \<le> f"
  shows "used_pages (split_block s f n B) = used_pages B + n"
proof -
  let ?w = "\<lambda>(s, n, u). if u then n else (0::int)"
  have new: "(s, n, True) \<notin> B" "n < f \<longrightarrow> (s + n, f - n, False) \<notin> B - {(s, f, False)}"
    using blocks_okD(3)[OF B(1) m, of s n True] blocks_okD(3)[OF B(1) m, of "s + n" "f - n" False] n by auto
  have "used_pages (B - {(s, f, False)}) = used_pages B"
    using sum_diff1[OF B(2), of ?w "(s, f, False)"] m by (simp add: used_pages_def)
  then show ?thesis
    using new B(2) by (auto simp: split_block_def used_pages_def)
qed

lemma free_entries_split:
  assumes B: "blocks_ok N B" "N \<le> POOL_LIMIT" and m: "(s, f, False) \<in> B"
  shows "free_entries (split_block s f n B) =
     (if n < f then insert (MAKE_KEY (of_int (f - n)) (of_int (s + n)), s + n) else id)
       (free_entries B - {(MAKE_KEY (of_int f) (of_int s), s)})"
proof -
  have "(MAKE_KEY (of_int n') (of_int s'), s') = (MAKE_KEY (of_int f) (of_int s), s) \<longleftrightarrow> (s', n') = (s, f)"
    if "(s', n', False) \<in> B" for s' n'
    using free_key_eq[OF B that, of s f] blocks_okD(1)[OF B(1) m] by auto
  then show ?thesis
    unfolding free_entries_def by (auto simp: split_mem simp del: of_int_diff of_int_add)
qed

lemma used_entries_split:
  assumes "blocks_ok N B" "(s, f, False) \<in> B"
  shows "used_entries base (split_block s f n B) =
     insert (MAKE_KEY (page_address base s) 0, s) (used_entries base B)"
  unfolding used_entries_def by (auto simp: split_mem)

lemma used_key_fresh:
  assumes B: "blocks_ok N B" "N \<le> POOL_LIMIT" and m: "(s, f, False) \<in> B"
  shows "MAKE_KEY (page_address base s) 0 \<notin> fst ` used_entries base B"
proof
  assume "MAKE_KEY (page_address base s) 0 \<in> fst ` used_entries base B"
  then obtain s' n' where b: "(s', n', True) \<in> B"
    "MAKE_KEY (page_address base s) 0 = MAKE_KEY (page_address base s') 0"
    by (auto simp: used_entries_def)
  have "s = s'" using addr_key_eq[of s s' base] b(2) block_bounds[OF B m] block_bounds[OF B b(1)] by auto
  then show False
    using blocks_okD(3)[OF B(1) m b(1)] block_bounds[OF B m] block_bounds[OF B b(1)] by auto
qed

lemma free_key_fresh:
  assumes B: "blocks_ok N B" "N \<le> POOL_LIMIT" and m: "(s, f, False) \<in> B" and n: "0 < n" "n < f"
  shows "MAKE_KEY (of_int (f - n)) (of_int (s + n)) \<notin> fst ` (free_entries B - {(MAKE_KEY (of_int f) (of_int s), s)})"
proof
  assume "MAKE_KEY (of_int (f - n)) (of_int (s + n)) \<in> fst ` (free_entries B - {(MAKE_KEY (of_int f) (of_int s), s)})"
  then have "MAKE_KEY (of_int (f - n)) (of_int (s + n)) \<in> fst ` free_entries B" by blast
  then obtain s' n' where b: "(s', n', False) \<in> B"
    "MAKE_KEY (of_int n') (of_int s') = MAKE_KEY (of_int (f - n)) (of_int (s + n))"
    by (auto simp: free_entries_def simp del: of_int_diff of_int_add)
  have "n' = f - n \<and> s' = s + n"
    using free_key_eq[OF B b(1) _ _ _ b(2)] blocks_okD(1)[OF B(1) m] n by auto
  then show False using blocks_okD(3)[OF B(1) m b(1)] n by auto
qed

text \<open>The least key that is large enough is the smallest free block that holds
  the request, the one at the lowest page among equals.\<close>

definition best_fit :: "int \<Rightarrow> block set \<Rightarrow> int \<Rightarrow> int \<Rightarrow> bool" where
  "best_fit n B s f \<longleftrightarrow> (s, f, False) \<in> B \<and> n \<le> f \<and>
     (\<forall>s' f'. (s', f', False) \<in> B \<longrightarrow> n \<le> f' \<longrightarrow> f < f' \<or> f = f' \<and> s \<le> s')"

lemma best_fit_key:
  assumes B: "blocks_ok N B" "N \<le> POOL_LIMIT" and n: "0 < n" "n < 2^31"
    and e: "e \<in> free_entries B" "MAKE_KEY (of_int n) 0 \<le> fst e"
      "\<forall>x \<in> free_entries B. MAKE_KEY (of_int n) 0 \<le> fst x \<longrightarrow> fst e \<le> fst x"
  shows "\<exists>s f. e = (MAKE_KEY (of_int f) (of_int s), s) \<and> best_fit n B s f"
proof -
  obtain s f where sf: "e = (MAKE_KEY (of_int f) (of_int s), s)" "(s, f, False) \<in> B"
    using e(1) by (auto simp: free_entries_def)
  have large: "MAKE_KEY (of_int n) 0 \<le> MAKE_KEY (of_int f') (of_int s') \<longleftrightarrow> n \<le> f'"
    if "(s', f', False) \<in> B" for s' f'
    using size_key_le[of n 0 f' s'] n block_bounds[OF B that] by auto
  have "f < f' \<or> f = f' \<and> s \<le> s'" if "(s', f', False) \<in> B" "n \<le> f'" for s' f'
  proof -
    have "(MAKE_KEY (of_int f') (of_int s'), s') \<in> free_entries B"
      using that(1) by (auto simp: free_entries_def)
    then have "fst e \<le> MAKE_KEY (of_int f') (of_int s')"
      using e(3) large[OF that(1)] that(2) by force
    then show ?thesis
      using size_key_le[of f s f' s'] block_bounds[OF B that(1)] block_bounds[OF B sf(2)] sf(1) by auto
  qed
  then show ?thesis using sf e(2) large[OF sf(2)] by (auto simp: best_fit_def)
qed

lemma no_fit_key:
  assumes B: "blocks_ok N B" "N \<le> POOL_LIMIT" and n: "0 < n" "n < 2^31"
    and none: "\<forall>e \<in> free_entries B. fst e < MAKE_KEY (of_int n) 0" and m: "(s, f, False) \<in> B"
  shows "f < n"
proof -
  have "MAKE_KEY (of_int f) (of_int s) < MAKE_KEY (of_int n) 0"
    using none m by (force simp: free_entries_def)
  then show ?thesis
    using size_key_le[of n 0 f s] n block_bounds[OF B m] by (auto simp: not_le[symmetric])
qed

text \<open>The block writers applied to the chosen block.\<close>

lemma alloc_writes:
  assumes R: "mm_rep mm B" and m: "(s, f, False) \<in> B" and n: "0 < n" "n \<le> f"
    and ft: "ix.index_of ft (free_entries B - {(MAKE_KEY (of_int f) (of_int s), s)})"
  shows "\<exists>mm1 mm2. set_blocks_alloc True (mm\<lparr>free_tree := ft\<rparr>) s n = Some mm1 \<and>
     (if n \<noteq> f then set_blocks_free True mm1 (s + n) (f - n) else Some mm1) = Some mm2 \<and>
     page_at (page_list mm2) s = Some (pg (page_list mm2) s) \<and>
     pg_addr (pg (page_list mm2) s) = page_address (base_addr mm) s \<and>
     num_pages mm2 = num_pages mm \<and> base_addr mm2 = base_addr mm \<and>
     mm_rep (mm2\<lparr>alloc_page_count := alloc_page_count mm2 + n, free_page_count := free_page_count mm2 - n\<rparr>)
       (split_block s f n B)"
proof -
  let ?N = "num_pages mm" and ?base = "base_addr mm"
  note r = mm_repD[OF R]
  note bb = block_bounds[OF r(5,2) m]
  have len: "int (length (page_list mm)) = ?N" using r(3) by (simp add: pages_ok_def)
  have "s + n \<le> ?N" using bb n by linarith
  then obtain p1 at1 where a: "set_blocks_alloc True (mm\<lparr>free_tree := ft\<rparr>) s n =
      Some (mm\<lparr>free_tree := ft, page_list := p1, alloc_tree := at1\<rparr>)"
    "marked 1 s n (page_list mm) p1"
    "ix.index_of at1 (insert (MAKE_KEY (page_address ?base s) 0, s) (used_entries ?base B))"
    using set_blocks_alloc_Some[of ?base "mm\<lparr>free_tree := ft\<rparr>" s n "used_entries ?base B"]
      r(3,8) bb n used_key_fresh[OF r(5,2) m, of ?base] by auto
  let ?mm1 = "mm\<lparr>free_tree := ft, page_list := p1, alloc_tree := at1\<rparr>"
  have p1: "pages_ok ?base ?N p1" by (rule marked_pages_ok[OF a(2) r(3)])
  have l1: "int (length p1) = ?N" using p1 by (simp add: pages_ok_def)
  let ?B = "split_block s f n B"
  obtain p2 f2 where b: "(if n \<noteq> f then set_blocks_free True ?mm1 (s + n) (f - n) else Some ?mm1) =
      Some (mm\<lparr>free_tree := f2, page_list := p2, alloc_tree := at1\<rparr>)"
    "if n \<noteq> f then marked 0 (s + n) (f - n) p1 p2 else p2 = p1"
    "ix.index_of f2 (free_entries ?B)"
  proof (cases "n = f")
    case True
    then show ?thesis
      using that[of p1 ft] ft free_entries_split[OF r(5,2) m, of n] by simp
  next
    case False
    then have lt: "n < f" using n by simp
    obtain p2 f2 where "set_blocks_free True ?mm1 (s + n) (f - n) =
        Some (?mm1\<lparr>page_list := p2, free_tree := f2\<rparr>)"
      "marked 0 (s + n) (f - n) p1 p2"
      "ix.index_of f2 (insert (MAKE_KEY (of_int (f - n)) (of_int (s + n)), s + n)
        (free_entries B - {(MAKE_KEY (of_int f) (of_int s), s)}))"
      using set_blocks_free_Some[of ?mm1 "s + n" "f - n"
          "free_entries B - {(MAKE_KEY (of_int f) (of_int s), s)}"]
        free_key_fresh[OF r(5,2) m n(1) lt] ft l1 bb n lt by auto
    then show ?thesis
      using that[of p2 f2] False lt free_entries_split[OF r(5,2) m, of n] by simp
  qed
  have p2: "pages_ok ?base ?N p2"
    using b(2) p1 marked_pages_ok by (cases "n = f") auto
  have blk: "page_blk p2 s' n' u" if sp: "(s', n', u) \<in> ?B" for s' n' u
  proof -
    have bd: "0 \<le> s'" "0 < n'" "s' + n' \<le> ?N"
      using blocks_okD(1)[OF blocks_ok_split[OF r(5) m n] sp] by auto
    consider (old) "(s', n', u) \<in> B" "s' + n' \<le> s \<or> s + f \<le> s'"
      | (new) "s' = s" "n' = n" "u" | (rest) "n \<noteq> f" "s' = s + n" "n' = f - n" "\<not> u"
      using sp blocks_okD(3)[OF r(5) _ m, of s' n' u] unfolding split_mem by fastforce
    then show ?thesis
    proof cases
      case old
      have "page_blk p1 s' n' u"
        using marked_other_blk[OF a(2) r(6)[OF old(1)]] old(2) bd n len by auto
      then show ?thesis
        using b(2) marked_other_blk[of 0 "s + n" "f - n" p1 p2 s' n' u] old(2) bd n l1 by (auto split: if_splits)
    next
      case new
      have "page_blk p1 s n True"
        using marked_page_blk[of True s n "page_list mm" p1] a(2) bd n len new by auto
      then show ?thesis
        using b(2) marked_other_blk[of 0 "s + n" "f - n" p1 p2 s n True] bd n l1 new by (auto split: if_splits)
    next
      case rest
      then show ?thesis
        using b(2) marked_page_blk[of False "s + n" "f - n" p1 p2] bd n l1 by auto
    qed
  qed
  have "mm_rep (mm\<lparr>free_tree := f2, page_list := p2, alloc_tree := at1,
      alloc_page_count := alloc_page_count mm + n, free_page_count := free_page_count mm - n\<rparr>) ?B"
    unfolding mm_rep_def
    using r(1,2,4,9,10) p2 blk blocks_ok_split[OF r(5) m n] b(3) a(3)
      used_entries_split[OF r(5) m, of ?base n] used_pages_split[OF r(5,4) m n]
    by (auto simp: split_block_def[of s f n B])
  moreover have "page_at p2 s = Some (pg p2 s)" "pg_addr (pg p2 s) = page_address ?base s"
    using p2 bb by (auto simp: pages_ok_def)
  ultimately show ?thesis using a(1) b(1) by auto
qed

lemma vmem_alloc_refines:
  assumes R: "mm_rep mm B" and sz: "0 < sz" "sz < 2^31" and ok: "ok 0" "ok 1"
  shows "(\<exists>s f mm'. best_fit (pages_for sz) B s f \<and>
      vmem_alloc ok (Some mm) sz = Some (page_address (base_addr mm) s, Some mm') \<and>
      num_pages mm' = num_pages mm \<and> base_addr mm' = base_addr mm \<and>
      mm_rep mm' (split_block s f (pages_for sz) B)) \<or>
    ((\<forall>s f. (s, f, False) \<in> B \<longrightarrow> f < pages_for sz) \<and>
      (\<exists>ft. vmem_alloc ok (Some mm) sz = Some (-1, Some (mm\<lparr>free_tree := ft\<rparr>)) \<and>
        mm_rep (mm\<lparr>free_tree := ft\<rparr>) B))"
proof -
  let ?n = "pages_for sz"
  note r = mm_repD[OF R]
  note np = alloc_pages_for[OF sz]
  obtain ft e where e: "remove_approx_value (free_tree mm) (MAKE_KEY (of_int ?n) 0) = Some (ft, e)"
    "case e of None \<Rightarrow> (\<forall>x \<in> free_entries B. fst x < MAKE_KEY (of_int ?n) 0) \<and> ix.index_of ft (free_entries B)
     | Some e \<Rightarrow> e \<in> free_entries B \<and> MAKE_KEY (of_int ?n) 0 \<le> fst e \<and>
        (\<forall>x \<in> free_entries B. MAKE_KEY (of_int ?n) 0 \<le> fst x \<longrightarrow> fst e \<le> fst x) \<and>
        ix.index_of ft (free_entries B - {e})"
    using ix.index_rem_ge[OF r(7)] by blast
  show ?thesis
  proof (cases e)
    case None
    have "\<forall>s f. (s, f, False) \<in> B \<longrightarrow> f < ?n"
      using no_fit_key[OF r(5,2) np(2,3)] e(2) None by auto
    moreover have "vmem_alloc ok (Some mm) sz = Some (-1, Some (mm\<lparr>free_tree := ft\<rparr>))"
      using sz e(1) None np(1) by (simp add: vmem_alloc_def Let_def)
    moreover have "mm_rep (mm\<lparr>free_tree := ft\<rparr>) B" using R e(2) None by (simp add: mm_rep_def)
    ultimately show ?thesis by blast
  next
    case (Some x)
    then obtain s f where x: "x = (MAKE_KEY (of_int f) (of_int s), s)" and bf: "best_fit ?n B s f"
      using best_fit_key[OF r(5,2) np(2,3), of x] e(2) by auto
    have m: "(s, f, False) \<in> B" "?n \<le> f" using bf by (auto simp: best_fit_def)
    note bb = block_bounds[OF r(5,2) m(1)]
    obtain mm1 mm2 where w: "set_blocks_alloc True (mm\<lparr>free_tree := ft\<rparr>) s ?n = Some mm1"
      "(if ?n \<noteq> f then set_blocks_free True mm1 (s + ?n) (f - ?n) else Some mm1) = Some mm2"
      "page_at (page_list mm2) s = Some (pg (page_list mm2) s)"
      "pg_addr (pg (page_list mm2) s) = page_address (base_addr mm) s"
      "num_pages mm2 = num_pages mm" "base_addr mm2 = base_addr mm"
      "mm_rep (mm2\<lparr>alloc_page_count := alloc_page_count mm2 + ?n, free_page_count := free_page_count mm2 - ?n\<rparr>)
        (split_block s f ?n B)"
      using alloc_writes[OF R m(1) np(2) m(2), of ft] e(2) Some x by auto
    have "page_at (page_list mm) s = Some (pg (page_list mm) s)" "pg_pageno (pg (page_list mm) s) = s"
      using r(3) bb by (auto simp: pages_ok_def)
    moreover have "int_of_u64 (KEY_TO_VALUE (MAKE_KEY (of_int f) (of_int s))) = f"
      using size_key_value[of f s] bb by simp
    ultimately have "vmem_alloc ok (Some mm) sz = Some (page_address (base_addr mm) s,
      Some (mm2\<lparr>alloc_page_count := alloc_page_count mm2 + ?n, free_page_count := free_page_count mm2 - ?n\<rparr>))"
      using sz ok e(1) Some x np(1) w(1-4) by (cases "?n = f") (simp_all add: vmem_alloc_def Let_def)
    then show ?thesis using bf w(5-7) by (intro disjI1 exI[of _ s] exI[of _ f]) auto
  qed
qed

section \<open>Freeing merges a block with its free neighbours\<close>

text \<open>\<open>pl\<close> and \<open>nl\<close> are the sizes of the free blocks directly before and after
  the block at \<open>s\<close>, or 0.\<close>

definition neighbours :: "int \<Rightarrow> int \<Rightarrow> int \<Rightarrow> int \<Rightarrow> block set \<Rightarrow> bool" where
  "neighbours s n pl nl B \<longleftrightarrow>
     (pl = 0 \<and> (\<forall>s' n'. (s', n', False) \<in> B \<longrightarrow> s' + n' \<noteq> s) \<or> 0 < pl \<and> (s - pl, pl, False) \<in> B) \<and>
     (nl = 0 \<and> (\<forall>m. (s + n, m, False) \<notin> B) \<or> 0 < nl \<and> (s + n, nl, False) \<in> B)"

definition merge_block :: "int \<Rightarrow> int \<Rightarrow> int \<Rightarrow> int \<Rightarrow> block set \<Rightarrow> block set" where
  "merge_block s n pl nl B =
     insert (s - pl, pl + n + nl, False)
       (B - {(s, n, True), (s - pl, pl, False), (s + n, nl, False)})"

lemma merge_mem:
  "(s', n', u) \<in> merge_block s n pl nl B \<longleftrightarrow>
     (s', n', u) = (s - pl, pl + n + nl, False) \<or>
     (s', n', u) \<in> B \<and> (s', n', u) \<noteq> (s, n, True) \<and> (s', n', u) \<noteq> (s - pl, pl, False) \<and>
       (s', n', u) \<noteq> (s + n, nl, False)"
  by (auto simp: merge_block_def)

lemma neighbours_bounds:
  assumes B: "blocks_ok N B" and m: "(s, n, True) \<in> B" and nb: "neighbours s n pl nl B"
  shows "0 \<le> s - pl" "0 < n" "0 \<le> pl" "0 \<le> nl" "s + n + nl \<le> N"
  using nb blocks_okD(1)[OF B m] blocks_okD(1)[OF B, of "s - pl" pl False]
    blocks_okD(1)[OF B, of "s + n" nl False]
  unfolding neighbours_def by auto

text \<open>Every other block lies outside the merged one.\<close>

lemma merge_apart:
  assumes B: "blocks_ok N B" and m: "(s, n, True) \<in> B" and nb: "neighbours s n pl nl B"
    and b: "(s', n', u) \<in> B" "(s', n', u) \<noteq> (s, n, True)" "(s', n', u) \<noteq> (s - pl, pl, False)"
      "(s', n', u) \<noteq> (s + n, nl, False)"
  shows "s' + n' \<le> s - pl \<or> s + n + nl \<le> s'"
proof -
  have 0: "s' + n' \<le> s \<or> s + n \<le> s'" using blocks_okD(3)[OF B b(1) m] b(2) by auto
  have 1: "pl = 0 \<or> s' + n' \<le> s - pl \<or> s \<le> s'"
    using nb blocks_okD(3)[OF B b(1), of "s - pl" pl False] b(3) unfolding neighbours_def by auto
  have 2: "nl = 0 \<or> s' + n' \<le> s + n \<or> s + n + nl \<le> s'"
    using nb blocks_okD(3)[OF B b(1), of "s + n" nl False] b(4) unfolding neighbours_def by auto
  show ?thesis
    using 0 1 2 neighbours_bounds[OF B m nb] blocks_okD(1)[OF B b(1)] by linarith
qed

lemma blocks_ok_merge:
  assumes B: "blocks_ok N B" and m: "(s, n, True) \<in> B" and nb: "neighbours s n pl nl B"
  shows "blocks_ok N (merge_block s n pl nl B)"
proof (rule blocks_okI)
  note nbb = neighbours_bounds[OF B m nb]
  note apart = merge_apart[OF B m nb]
  show "0 \<le> s' \<and> 0 < n' \<and> s' + n' \<le> N" if "(s', n', u) \<in> merge_block s n pl nl B" for s' n' u
    using that blocks_okD(1)[OF B, of s' n' u] nbb unfolding merge_mem by auto
  show "\<exists>s' n' u. (s', n', u) \<in> merge_block s n pl nl B \<and> s' \<le> i \<and> i < s' + n'"
    if i: "0 \<le> i" "i < N" for i
  proof -
    obtain s' n' u where b: "(s', n', u) \<in> B" "s' \<le> i" "i < s' + n'"
      using blocks_okD(2)[OF B i] by blast
    show ?thesis
    proof (cases "s - pl \<le> i \<and> i < s + n + nl")
      case True
      then show ?thesis
        by (intro exI[of _ "s - pl"] exI[of _ "pl + n + nl"] exI[of _ False]) (simp add: merge_mem)
    next
      case False
      then have "(s', n', u) \<noteq> (s, n, True)" "(s', n', u) \<noteq> (s - pl, pl, False)"
        "(s', n', u) \<noteq> (s + n, nl, False)" using b nbb by auto
      then show ?thesis using b unfolding merge_mem by blast
    qed
  qed
  show "(s1, n1, u1) = (s2, n2, u2) \<or> s1 + n1 \<le> s2 \<or> s2 + n2 \<le> s1"
    if "(s1, n1, u1) \<in> merge_block s n pl nl B" "(s2, n2, u2) \<in> merge_block s n pl nl B"
    for s1 n1 u1 s2 n2 u2
  proof -
    have "(s1, n1, u1) = (s - pl, pl + n + nl, False) \<or>
        (s1, n1, u1) \<in> B \<and> (s1 + n1 \<le> s - pl \<or> s + n + nl \<le> s1)"
      "(s2, n2, u2) = (s - pl, pl + n + nl, False) \<or>
        (s2, n2, u2) \<in> B \<and> (s2 + n2 \<le> s - pl \<or> s + n + nl \<le> s2)"
      using that apart unfolding merge_mem by blast+
    then show ?thesis
      using blocks_okD(3)[OF B, of s1 n1 u1 s2 n2 u2] by (elim disjE conjE) simp_all
  qed
  show False if t: "(s1, n1, False) \<in> merge_block s n pl nl B" "(s1 + n1, m1, False) \<in> merge_block s n pl nl B"
    for s1 n1 m1
  proof -
    have a: "s1 = s - pl \<and> n1 = pl + n + nl \<or> (s1, n1, False) \<in> B \<and>
        (s1, n1, False) \<noteq> (s - pl, pl, False) \<and> (s1, n1, False) \<noteq> (s + n, nl, False)"
      using t(1) unfolding merge_mem by blast
    have b: "s1 + n1 = s - pl \<or> (s1 + n1, m1, False) \<in> B \<and>
        (s1 + n1, m1, False) \<noteq> (s + n, nl, False)"
      using t(2) unfolding merge_mem by blast
    have after: "(s + n + nl, m1, False) \<notin> B"
      using nb blocks_okD(4)[OF B, of "s + n" nl m1] unfolding neighbours_def by auto
    have before: "s1 + n1 \<noteq> s - pl" if "(s1, n1, False) \<in> B"
      using nb that blocks_okD(4)[OF B, of s1 n1 pl] unfolding neighbours_def by auto
    show False using a b after before nbb blocks_okD(4)[OF B, of s1 n1 m1]
      by (elim disjE conjE) (auto simp: algebra_simps)
  qed
qed

lemma used_pages_merge:
  assumes B: "blocks_ok N B" "finite B" and m: "(s, n, True) \<in> B" and nb: "neighbours s n pl nl B"
  shows "used_pages (merge_block s n pl nl B) = used_pages B - n"
proof -
  let ?w = "\<lambda>(s, n, u). if u then n else (0::int)"
  let ?C = "B - {(s, n, True)} - {(s - pl, pl, False)} - {(s + n, nl, False)}"
  have "used_pages (B - {(s, n, True)}) = used_pages B - n"
    using sum_diff1[OF B(2), of ?w "(s, n, True)"] m by (simp add: used_pages_def)
  moreover have "used_pages (A - {(x, y, False)}) = used_pages A" if "finite A" for A x y
    using sum_diff1[OF that, of ?w "(x, y, False)"] by (simp add: used_pages_def)
  ultimately have c: "used_pages ?C = used_pages B - n" using B(2) by simp
  have "used_pages (insert (x, y, False) A) = used_pages A" if "finite A" for A x y
    using that by (cases "(x, y, False) \<in> A") (simp_all add: used_pages_def insert_absorb)
  then have "used_pages (insert (s - pl, pl + n + nl, False) ?C) = used_pages B - n"
    using B(2) c by simp
  moreover have "merge_block s n pl nl B = insert (s - pl, pl + n + nl, False) ?C"
    by (auto simp: merge_block_def)
  ultimately show ?thesis by simp
qed

lemma used_entries_merge:
  assumes B: "blocks_ok N B" and m: "(s, n, True) \<in> B"
  shows "used_entries base (merge_block s n pl nl B) =
    used_entries base B - {(MAKE_KEY (page_address base s) 0, s)}"
proof -
  have "s' = s \<longleftrightarrow> (s', n', True) = (s, n, True)" if "(s', n', True) \<in> B" for s' n'
    using blocks_okD(3)[OF B that m] blocks_okD(1)[OF B that] blocks_okD(1)[OF B m] by auto
  then show ?thesis unfolding used_entries_def by (auto simp: merge_mem)
qed

abbreviation free_entry :: "int \<Rightarrow> int \<Rightarrow> u64 \<times> int" where
  "free_entry s n \<equiv> (MAKE_KEY (of_int n) (of_int s), s)"

lemma free_entries_merge:
  assumes B: "blocks_ok N B" "N \<le> POOL_LIMIT" and m: "(s, n, True) \<in> B" and nb: "neighbours s n pl nl B"
  shows "free_entries (merge_block s n pl nl B) =
    insert (free_entry (s - pl) (pl + n + nl))
      (free_entries B - (if 0 < pl then {free_entry (s - pl) pl} else {})
         - (if 0 < nl then {free_entry (s + n) nl} else {}))"
proof -
  note nbb = neighbours_bounds[OF B(1) m nb]
  have eq: "free_entry s' n' = free_entry s0 n0 \<longleftrightarrow> s' = s0 \<and> n' = n0"
    if "(s', n', False) \<in> B" "(s0, n0, False) \<in> B" for s' n' s0 n0
    using free_key_eq[OF B that(1), of s0 n0] blocks_okD(1)[OF B(1) that(2)] by auto
  have pl: "0 < pl \<Longrightarrow> (s - pl, pl, False) \<in> B" and nl: "0 < nl \<Longrightarrow> (s + n, nl, False) \<in> B"
    using nb unfolding neighbours_def by auto
  have pl0: "(x, pl, False) \<notin> B" if "\<not> 0 < pl" for x using blocks_okD(1)[OF B(1)] that by blast
  have nl0: "(x, nl, False) \<notin> B" if "\<not> 0 < nl" for x using blocks_okD(1)[OF B(1)] that by blast
  have "(s', n', False) \<in> merge_block s n pl nl B \<longleftrightarrow> (s', n') = (s - pl, pl + n + nl) \<or>
      (s', n', False) \<in> B \<and> \<not> (0 < pl \<and> free_entry s' n' = free_entry (s - pl) pl) \<and>
      \<not> (0 < nl \<and> free_entry s' n' = free_entry (s + n) nl)" for s' n'
    using eq[OF _ pl, of s' n'] eq[OF _ nl, of s' n'] pl0 nl0 unfolding merge_mem by blast
  then show ?thesis
    unfolding free_entries_def by (auto simp del: of_int_diff of_int_add)
qed

text \<open>The neighbour searches find exactly the adjacent free blocks.\<close>

lemma find_prev_free_spec:
  assumes R: "mm_rep mm B" and m: "(s, n, True) \<in> B"
  shows "\<exists>p sz. find_prev_free (page_list mm) s = Some (p, sz) \<and>
    (sz = -1 \<and> (\<forall>s' n'. (s', n', False) \<in> B \<longrightarrow> s' + n' \<noteq> s) \<or>
     0 < sz \<and> p = s - sz \<and> (s - sz, sz, False) \<in> B)"
proof -
  note r = mm_repD[OF R]
  note bb = block_bounds[OF r(5,2) m]
  have len: "int (length (page_list mm)) = num_pages mm" using r(3) by (simp add: pages_ok_def)
  show ?thesis
  proof (cases "s = 0")
    case True
    have "s' + n' \<noteq> s" if "(s', n', False) \<in> B" for s' n'
      using blocks_okD(1)[OF r(5) that] True by auto
    then show ?thesis using True by (simp add: find_prev_free_def Let_def)
  next
    case False
    then obtain s0 n0 u0 where b: "(s0, n0, u0) \<in> B" "s0 \<le> s - 1" "s - 1 < s0 + n0"
      using blocks_okD(2)[OF r(5), of "s - 1"] bb by auto
    have e: "s0 + n0 = s" using blocks_okD(3)[OF r(5) b(1) m] b bb by auto
    note b0 = block_bounds[OF r(5,2) b(1)]
    have pb: "page_blk (page_list mm) s0 n0 u0" by (rule r(6)[OF b(1)])
    then have f: "pg_used (pg (page_list mm) (s - 1)) = (if u0 then 1 else 0)"
      "pg_first_pageno (pg (page_list mm) (s - 1)) = s0" "pg_alloc_pages (pg (page_list mm) s0) = n0"
      using b e unfolding page_blk_def by auto
    show ?thesis
    proof (cases u0)
      case True
      have "s' + n' \<noteq> s" if "(s', n', False) \<in> B" for s' n'
        using blocks_okD(3)[OF r(5) b(1) that] True e b0 blocks_okD(1)[OF r(5) that] by auto
      then show ?thesis using f True False bb len by (simp add: find_prev_free_def Let_def)
    next
      case F: False
      have "find_prev_free (page_list mm) s = Some (s0, n0)"
        using f F False b0 bb len by (simp add: find_prev_free_def Let_def)
      then show ?thesis using b(1) F e b0 by auto
    qed
  qed
qed

lemma find_next_free_spec:
  assumes R: "mm_rep mm B" and m: "(s, n, True) \<in> B"
  shows "\<exists>p sz. find_next_free (mm\<lparr>alloc_tree := at\<rparr>) s n = Some (p, sz) \<and>
    (sz = -1 \<and> (\<forall>k. (s + n, k, False) \<notin> B) \<or> 0 < sz \<and> p = s + n \<and> (s + n, sz, False) \<in> B)"
proof -
  note r = mm_repD[OF R]
  note bb = block_bounds[OF r(5,2) m]
  have len: "int (length (page_list mm)) = num_pages mm" using r(3) by (simp add: pages_ok_def)
  show ?thesis
  proof (cases "s + n = num_pages mm")
    case True
    have "(s + n, k, False) \<notin> B" for k
      using blocks_okD(1)[OF r(5), of "s + n" k False] True by auto
    then show ?thesis using True by (simp add: find_next_free_def Let_def)
  next
    case False
    then obtain s0 n0 u0 where b: "(s0, n0, u0) \<in> B" "s0 \<le> s + n" "s + n < s0 + n0"
      using blocks_okD(2)[OF r(5), of "s + n"] bb by auto
    have e: "s0 = s + n" using blocks_okD(3)[OF r(5) b(1) m] b bb by auto
    note b0 = block_bounds[OF r(5,2) b(1)]
    have f: "pg_used (pg (page_list mm) (s + n)) = (if u0 then 1 else 0)"
      "pg_alloc_pages (pg (page_list mm) (s + n)) = n0"
      using r(6)[OF b(1)] b e unfolding page_blk_def by auto
    have "find_next_free (mm\<lparr>alloc_tree := at\<rparr>) s n = Some (s + n, if u0 then -1 else n0)"
      using f False b0 bb len e by (simp add: find_next_free_def Let_def)
    moreover have "(s + n, k, False) \<notin> B" if u0 for k
      using blocks_okD(3)[OF r(5) b(1), of "s + n" k False] blocks_okD(1)[OF r(5), of "s + n" k False] e that b0
      by auto
    ultimately show ?thesis using b(1) e b0 by (cases u0) auto
  qed
qed

text \<open>Taking a neighbour out of the free tree never fails its \<open>ASSERT\<close>.\<close>

lemma take_neighbour_Some:
  assumes t: "ix.index_of t E" and c: "sz = -1 \<or> 0 < sz \<and> free_entry p sz \<in> E"
    and pg: "0 < sz \<longrightarrow> 0 \<le> p \<and> p < int (length ps)"
  shows "\<exists>t'. take_neighbour t ps sz p = Some (t', if 0 < sz then Some (pg ps p) else None) \<and>
    ix.index_of t' (E - (if 0 < sz then {free_entry p sz} else {}))"
proof (cases "0 < sz")
  case True
  then have "free_entry p sz \<in> E" using c by auto
  from ix.index_rem[OF t this] obtain t' where
    "avltree_remove t (MAKE_KEY (of_int sz) (of_int p)) = Some (t', Some (MAKE_KEY (of_int sz) (of_int p), p))"
    "ix.index_of t' (E - {free_entry p sz})" by blast
  then show ?thesis using True pg by (simp add: take_neighbour_def)
next
  case False
  then show ?thesis using t c by (simp add: take_neighbour_def)
qed

lemma marked_after_reset:
  assumes w: "write_pages [i] (\<lambda>p. p\<lparr>pg_alloc_pages := 0, pg_first_pageno := -1\<rparr>) ps = Some p1"
    and i: "0 \<le> i" "i < int (length ps)" "s \<le> i" "i < s + n" and m: "marked u s n p1 p2"
  shows "marked u s n ps p2"
proof -
  have p1: "p1 = ps[nat i := (pg ps i)\<lparr>pg_alloc_pages := 0, pg_first_pageno := -1\<rparr>]"
    using w i by simp
  have "pg_pageno (pg p1 j) = pg_pageno (pg ps j) \<and> pg_addr (pg p1 j) = pg_addr (pg ps j) \<and>
      (j \<noteq> i \<longrightarrow> pg p1 j = pg ps j)" if "0 \<le> j" "j < int (length ps)" for j
    using i(1,2) that by (cases "j = i") (auto simp: p1 nth_list_update)
  then show ?thesis using m i unfolding marked_def by (auto simp: p1)
qed

lemma vmem_free_refines:
  assumes R: "mm_rep mm B" and m: "(s, n, True) \<in> B"
  shows "\<exists>pl nl mm'. neighbours s n pl nl B \<and>
    vmem_free True (Some mm) (page_address (base_addr mm) s) = Some (0, Some mm') \<and>
    num_pages mm' = num_pages mm \<and> base_addr mm' = base_addr mm \<and>
    mm_rep mm' (merge_block s n pl nl B)"
proof -
  let ?N = "num_pages mm" and ?base = "base_addr mm" and ?ps = "page_list mm"
  note r = mm_repD[OF R]
  note bb = block_bounds[OF r(5,2) m]
  have len: "int (length ?ps) = ?N" using r(3) by (simp add: pages_ok_def)
  have "(MAKE_KEY (page_address ?base s) 0, s) \<in> used_entries ?base B" using m by (auto simp: used_entries_def)
  from ix.index_rem[OF r(8) this] obtain at where
    at: "avltree_remove (alloc_tree mm) (MAKE_KEY (page_address ?base s) 0) =
        Some (at, Some (MAKE_KEY (page_address ?base s) 0, s))"
      "ix.index_of at (used_entries ?base B - {(MAKE_KEY (page_address ?base s) 0, s)})" by blast
  obtain p sz where p: "find_prev_free ?ps s = Some (p, sz)"
    "sz = -1 \<and> (\<forall>s' n'. (s', n', False) \<in> B \<longrightarrow> s' + n' \<noteq> s) \<or>
     0 < sz \<and> p = s - sz \<and> (s - sz, sz, False) \<in> B"
    using find_prev_free_spec[OF R m] by blast
  obtain q nz where q: "find_next_free (mm\<lparr>alloc_tree := at\<rparr>) s n = Some (q, nz)"
    "nz = -1 \<and> (\<forall>k. (s + n, k, False) \<notin> B) \<or> 0 < nz \<and> q = s + n \<and> (s + n, nz, False) \<in> B"
    using find_next_free_spec[OF R m] by blast
  define pl where "pl = (if 0 < sz then sz else 0)"
  define nl where "nl = (if 0 < nz then nz else 0)"
  define P where "P = (if 0 < sz then Some (pg ?ps p) else None)"
  define Q where "Q = (if 0 < nz then Some (pg ?ps q) else None)"
  have nb: "neighbours s n pl nl B" using p(2) q(2) by (auto simp: neighbours_def pl_def nl_def)
  note nbb = neighbours_bounds[OF r(5) m nb]
  have pf: "pg_pageno (pg ?ps i) = i" if "0 \<le> i" "i < ?N" for i using r(3) that by (simp add: pages_ok_def)
  obtain t1 where t1: "take_neighbour (free_tree mm) ?ps sz p = Some (t1, P)"
    "ix.index_of t1 (free_entries B - (if 0 < pl then {free_entry (s - pl) pl} else {}))"
    using take_neighbour_Some[OF r(7), of sz p ?ps] p(2) bb len blocks_okD(1)[OF r(5), of "s - sz" sz False]
    by (force simp: pl_def P_def free_entries_mem)
  have nmem: "free_entry (s + n) nz \<in> free_entries B - (if 0 < pl then {free_entry (s - pl) pl} else {})"
    if "0 < nz" using that q(2) bb nbb by (auto simp: free_entries_mem simp del: of_int_add of_int_diff)
  obtain t2 where t2: "take_neighbour t1 ?ps nz q = Some (t2, Q)"
    "ix.index_of t2 (free_entries B - (if 0 < pl then {free_entry (s - pl) pl} else {})
        - (if 0 < nl then {free_entry (s + n) nl} else {}))"
    using take_neighbour_Some[OF t1(2), of nz q ?ps] q(2) nmem bb len blocks_okD(1)[OF r(5), of "s + n" nz False]
    by (force simp: nl_def Q_def)
  obtain p1 where p1: "write_pages [s] (\<lambda>p. p\<lparr>pg_alloc_pages := 0, pg_first_pageno := -1\<rparr>) ?ps = Some p1"
    "length p1 = length ?ps"
    using write_pages_Some[of "[s]" ?ps "\<lambda>p. p\<lparr>pg_alloc_pages := 0, pg_first_pageno := -1\<rparr>"] bb len by auto
  let ?s = "s - pl" and ?n = "pl + n + nl"
  let ?E = "free_entries B - (if 0 < pl then {free_entry (s - pl) pl} else {})
        - (if 0 < nl then {free_entry (s + n) nl} else {})"
  have fresh: "MAKE_KEY (of_int ?n) (of_int ?s) \<notin> fst ` ?E"
  proof
    assume "MAKE_KEY (of_int ?n) (of_int ?s) \<in> fst ` ?E"
    then have "MAKE_KEY (of_int ?n) (of_int ?s) \<in> fst ` free_entries B" by blast
    then obtain s' n' where b: "(s', n', False) \<in> B"
      "MAKE_KEY (of_int n') (of_int s') = MAKE_KEY (of_int ?n) (of_int ?s)"
      by (auto simp: free_entries_def simp del: of_int_diff of_int_add)
    have "n' = ?n \<and> s' = ?s" using free_key_eq[OF r(5,2) b(1) _ _ _ b(2)] nbb by auto
    then show False using blocks_okD(3)[OF r(5) b(1) m] nbb by auto
  qed
  let ?mm = "mm\<lparr>alloc_tree := at, free_tree := t2, page_list := p1\<rparr>"
  obtain p2 t3 where w: "set_blocks_free True ?mm ?s ?n = Some (?mm\<lparr>page_list := p2, free_tree := t3\<rparr>)"
    "marked 0 ?s ?n p1 p2" "ix.index_of t3 (insert (free_entry ?s ?n) ?E)"
    using set_blocks_free_Some[of ?mm ?s ?n ?E] t2(2) fresh p1(2) len nbb by auto
  have mk: "marked 0 ?s ?n ?ps p2" using marked_after_reset[OF p1(1) _ _ _ _ w(2)] bb len nbb by auto
  have merge_no: "(case P of None \<Rightarrow> s | Some p \<Rightarrow> pg_pageno p) = ?s"
    using p(2) pf[of p] blocks_okD(1)[OF r(5), of "s - sz" sz False] bb by (auto simp: pl_def P_def)
  have ap: "pg_alloc_pages (pg ?ps s') = n'" if "(s', n', u) \<in> B" for s' n' u
    using r(6)[OF that] by (simp add: page_blk_def)
  have merge_sz: "n + (case P of None \<Rightarrow> 0 | Some p \<Rightarrow> pg_alloc_pages p)
      + (case Q of None \<Rightarrow> 0 | Some p \<Rightarrow> pg_alloc_pages p) = ?n"
    using p(2) q(2) ap by (auto simp: pl_def nl_def P_def Q_def)
  let ?mm' = "mm\<lparr>alloc_tree := at, free_tree := t3, page_list := p2,
      alloc_page_count := alloc_page_count mm - n, free_page_count := free_page_count mm + n\<rparr>"
  have ps: "pg_pageno (pg ?ps s) = s" using pf[of s] bb by simp
  have step: "set_blocks_free True ?mm (case P of None \<Rightarrow> pg_pageno (pg ?ps s) | Some p \<Rightarrow> pg_pageno p)
      (n + (case P of None \<Rightarrow> 0 | Some p \<Rightarrow> pg_alloc_pages p)
         + (case Q of None \<Rightarrow> 0 | Some p \<Rightarrow> pg_alloc_pages p)) =
      Some (?mm\<lparr>page_list := p2, free_tree := t3\<rparr>)"
    unfolding ps merge_no merge_sz by (rule w(1))
  have run: "vmem_free True (Some mm) (page_address ?base s) = Some (0, Some ?mm')"
    using at(1) p(1) q(1) t1(1) t2(1) p1(1) step ap[OF m] pf[of s] bb len
    by (simp add: vmem_free_def Let_def)
  have blk: "page_blk p2 s' n' u" if sp: "(s', n', u) \<in> merge_block s n pl nl B" for s' n' u
  proof (cases "(s', n', u) = (?s, ?n, False)")
    case True
    then show ?thesis using marked_page_blk[of False ?s ?n ?ps p2] mk nbb len by auto
  next
    case False
    then have b: "(s', n', u) \<in> B" "s' + n' \<le> ?s \<or> s + n + nl \<le> s'"
      using sp merge_apart[OF r(5) m nb, of s' n' u] unfolding merge_mem by auto
    show ?thesis
      using marked_other_blk[OF mk r(6)[OF b(1)]] b(2) blocks_okD(1)[OF r(5) b(1)] len by auto
  qed
  have "mm_rep ?mm' (merge_block s n pl nl B)"
    unfolding mm_rep_def
    using r(1,2,4,9,10) marked_pages_ok[OF mk r(3)] blk blocks_ok_merge[OF r(5) m nb] w(3) at(2)
      used_entries_merge[OF r(5) m, of ?base pl nl] free_entries_merge[OF r(5,2) m nb]
      used_pages_merge[OF r(5,4) m nb]
    by (auto simp: merge_block_def[of s n pl nl B])
  then show ?thesis using nb run by (intro exI[of _ pl] exI[of _ nl] exI[of _ ?mm']) simp
qed

end
