(* ===== verification/VmemProps.thy ===== *)
theory VmemProps
  imports Vmem
begin

text \<open>
  The allocator as its callers see it: \<open>vmem_init\<close> establishes the tiling
  invariant of theory \<open>Vmem\<close>, every sequence of allocations and frees keeps
  it and never runs into a failed \<open>ASSERT\<close>, blocks in use never overlap, and
  freeing what was just allocated restores the tiling.  The rounding of
  \<open>vmem_init\<close> is stated as the code computes it.
\<close>

section \<open>Initialisation\<close>

lemma drop_cleared_bit:
  fixes x :: "'a::len word"
  assumes "j = Suc 0"
  shows "drop_bit k (x AND NOT (push_bit k 1)) = push_bit j (drop_bit (k + j) x)"
proof (rule bit_word_eqI)
  fix n assume n: "n < LENGTH('a)"
  have "bit x (k + n) \<Longrightarrow> k + n < LENGTH('a)" by (rule bit_imp_le_length)
  moreover have "n \<noteq> 0 \<Longrightarrow> k + Suc 0 + (n - Suc 0) = k + n" by simp
  ultimately show "bit (drop_bit k (x AND NOT (push_bit k 1))) n = bit (push_bit j (drop_bit (k + j) x)) n"
    unfolding assms using n
    by (auto simp: bit_drop_bit_eq bit_push_bit_iff bit_and_iff bit_not_iff bit_1_iff
        simp del: push_bit_Suc push_bit_of_1)
qed

lemma init_pages:
  "uint ((sz AND NOT VMEM_PAGE_SIZE) div VMEM_PAGE_SIZE) = 2 * (uint sz div 32768)"
proof -
  have "(sz AND NOT VMEM_PAGE_SIZE) div VMEM_PAGE_SIZE = drop_bit 14 (sz AND NOT (push_bit 14 1))"
    by (simp add: VMEM_PAGE_SIZE_def drop_bit_eq_div)
  also have "\<dots> = push_bit 1 (drop_bit 15 sz)" using drop_cleared_bit[of 1 14 sz] by simp
  finally have "(sz AND NOT VMEM_PAGE_SIZE) div VMEM_PAGE_SIZE = push_bit 1 (drop_bit 15 sz)" .
  moreover have "uint (push_bit 1 (drop_bit 15 sz)) = 2 * (uint sz div 32768)"
  proof -
    have lt: "uint sz div 32768 < 2^49" using uint_lt_0[of sz] uint_bounded[of sz] by simp
    have "uint (drop_bit 15 sz) = uint sz div 32768"
      by (simp add: unsigned_drop_bit_eq take_bit_int_eq_self drop_bit_eq_div uint_div)
    moreover have "0 \<le> uint sz div 32768" by (simp add: pos_imp_zdiv_nonneg_iff)
    ultimately show ?thesis unfolding unsigned_push_bit_eq using lt
      by (simp add: push_bit_eq_mult take_bit_int_eq_self[of "uint sz div 32768 * 2" 64] del: zero_le_divide_iff)
  qed
  ultimately show ?thesis by simp
qed

text \<open>The base is rounded up to a page boundary.\<close>

lemma init_base_aligned:
  "((addr + (VMEM_PAGE_SIZE - 1)) AND NOT (VMEM_PAGE_SIZE - 1)) mod VMEM_PAGE_SIZE = 0"
proof -
  have m: "VMEM_PAGE_SIZE - 1 = (mask 14 :: u64)" by (simp add: VMEM_PAGE_SIZE_def mask_eq_exp_minus_1)
  have "VMEM_PAGE_SIZE = (2 ^ 14 :: u64)" by (simp add: VMEM_PAGE_SIZE_def)
  then have "(x AND NOT (mask 14)) mod VMEM_PAGE_SIZE = take_bit 14 (x AND NOT (mask 14))" for x :: u64
    by (simp only: take_bit_eq_mod)
  moreover have "take_bit 14 (x AND NOT (mask 14)) = 0" for x :: u64
    by (rule bit_word_eqI) (auto simp: bit_simps)
  ultimately show ?thesis unfolding m by simp
qed

definition init_base :: "u64 \<Rightarrow> u64" where
  "init_base addr = (addr + (VMEM_PAGE_SIZE - 1)) AND NOT (VMEM_PAGE_SIZE - 1)"

definition init_num_pages :: "u64 \<Rightarrow> int" where
  "init_num_pages sz = 2 * (uint sz div 32768)"

lemma vmem_init_rep:
  assumes N: "0 < init_num_pages sz" "init_num_pages sz \<le> POOL_LIMIT" and ok: "ok 0" "ok 1"
  shows "\<exists>mm. vmem_init ok addr sz = Some (0, mm) \<and> num_pages mm = init_num_pages sz \<and>
    base_addr mm = init_base addr \<and> mm_rep mm {(0, init_num_pages sz, False)}"
proof -
  let ?N = "init_num_pages sz" and ?base = "init_base addr"
  let ?ps = "map (\<lambda>i. \<lparr>pg_pageno = i, pg_addr = ?base + of_int i * VMEM_PAGE_SIZE,
      pg_used = 0, pg_alloc_pages = 0, pg_first_pageno = -1\<rparr>) [0 .. ?N - 1]"
  let ?mm = "\<lparr>free_tree = Leaf, alloc_tree = Leaf, page_list = ?ps, num_pages = ?N, base_addr = ?base,
      mem_size = sz AND NOT VMEM_PAGE_SIZE, free_page_count = ?N, alloc_page_count = 0\<rparr>"
  have n: "int_of_u64 ((sz AND NOT VMEM_PAGE_SIZE) div VMEM_PAGE_SIZE) = ?N"
    using N(2) int_of_u64_small init_pages[of sz] by (simp add: init_num_pages_def POOL_LIMIT_def)
  have ps: "pages_ok ?base ?N ?ps" using N(1)
    by (auto simp: pages_ok_def page_address_def)
  have empty: "ix.index_of Leaf {}" unfolding ix.index_of_def by (simp add: avl_inv_def)
  obtain p t where w: "set_blocks_free True ?mm 0 ?N = Some (?mm\<lparr>page_list := p, free_tree := t\<rparr>)"
    "marked 0 0 ?N ?ps p" "ix.index_of t {free_entry 0 ?N}"
    using set_blocks_free_Some[of ?mm 0 ?N "{}"] N(1) empty ps by (auto simp: pages_ok_def)
  have run: "vmem_init ok addr sz = Some (0, ?mm\<lparr>page_list := p, free_tree := t\<rparr>)"
    using w(1) ok n by (simp add: vmem_init_def Let_def init_base_def[symmetric])
  have "mm_rep (?mm\<lparr>page_list := p, free_tree := t\<rparr>) {(0, ?N, False)}"
    unfolding mm_rep_def
  proof (intro conjI)
    show "blocks_ok (num_pages (?mm\<lparr>page_list := p, free_tree := t\<rparr>)) {(0, ?N, False)}"
      using N by (auto simp: blocks_ok_def)
    show "\<forall>s n u. (s, n, u) \<in> {(0, ?N, False)} \<longrightarrow> page_blk (page_list (?mm\<lparr>page_list := p, free_tree := t\<rparr>)) s n u"
      using marked_page_blk[of False 0 ?N ?ps p] w(2) N ps by (auto simp: pages_ok_def)
    show "ix.index_of (free_tree (?mm\<lparr>page_list := p, free_tree := t\<rparr>)) (free_entries {(0, ?N, False)})"
      using w(3) by (simp add: free_entries_def)
  qed (use N marked_pages_ok[OF w(2) ps] empty in \<open>simp_all add: used_entries_def used_pages_def\<close>)
  then show ?thesis using run by auto
qed

text \<open>A pool smaller than two pages runs into the \<open>ASSERT\<close> on an empty block.\<close>

lemma vmem_init_hangs:
  assumes "uint sz < 32768"
  shows "vmem_init ok addr sz = None"
proof -
  have "int_of_u64 ((sz AND NOT VMEM_PAGE_SIZE) div VMEM_PAGE_SIZE) = 0"
    using assms int_of_u64_small init_pages[of sz] by simp
  then show ?thesis by (simp add: vmem_init_def set_blocks_free_def Let_def)
qed

section \<open>Sequences of requests\<close>

text \<open>A request comes with the kernel's answers to the allocations of tree nodes it makes: up to two for an allocation, one for a free.\<close>

datatype vmem_op = Alloc "nat \<Rightarrow> bool" int | Free bool u64

fun granted :: "vmem_op \<Rightarrow> bool" where
  "granted (Alloc ok sz) \<longleftrightarrow> ok 0 \<and> ok 1"
| "granted (Free ok p) \<longleftrightarrow> ok"

definition vmem_do :: "video_mm \<Rightarrow> vmem_op \<Rightarrow> video_mm option" where
  "vmem_do mm x =
    (case x of
       Alloc ok sz \<Rightarrow> (case vmem_alloc ok (Some mm) sz of Some (p, Some mm') \<Rightarrow> Some mm' | _ \<Rightarrow> None)
     | Free ok p \<Rightarrow> (case vmem_free ok (Some mm) p of Some (r, Some mm') \<Rightarrow> Some mm' | _ \<Rightarrow> None))"

fun vmem_run :: "video_mm \<Rightarrow> vmem_op list \<Rightarrow> video_mm option" where
  "vmem_run mm [] = Some mm"
| "vmem_run mm (x # xs) = vmem_do mm x \<bind> (\<lambda>mm'. vmem_run mm' xs)"

text \<open>A free of an address that no block in use has, up to the truncation of
  the key, leaves the tiling alone.\<close>

lemma vmem_free_unknown:
  assumes R: "mm_rep mm B" and u: "MAKE_KEY ptr 0 \<notin> fst ` used_entries (base_addr mm) B"
  shows "\<exists>at. vmem_free ok (Some mm) ptr = Some (-1, Some (mm\<lparr>alloc_tree := at\<rparr>)) \<and>
    mm_rep (mm\<lparr>alloc_tree := at\<rparr>) B"
proof -
  obtain at where at: "avltree_remove (alloc_tree mm) (MAKE_KEY ptr 0) = Some (at, None)"
    "ix.index_of at (used_entries (base_addr mm) B)"
    using ix.index_rem_absent[OF mm_repD(8)[OF R] u] by blast
  then show ?thesis using R by (auto simp: vmem_free_def mm_rep_def)
qed

lemma vmem_free_key:
  assumes "MAKE_KEY p 0 = MAKE_KEY q 0"
  shows "vmem_free ok mh p = vmem_free ok mh q"
  unfolding vmem_free_def assms by (rule refl)

lemma vmem_alloc_nonpositive: "sz \<le> 0 \<Longrightarrow> vmem_alloc ok (Some mm) sz = Some (-1, Some mm)"
  by (simp add: vmem_alloc_def)

lemma vmem_do_rep:
  assumes R: "mm_rep mm B" and x: "case x of Alloc ok sz \<Rightarrow> sz < 2^31 | Free ok p \<Rightarrow> True" and g: "granted x"
  shows "\<exists>mm' B'. vmem_do mm x = Some mm' \<and> mm_rep mm' B' \<and> num_pages mm' = num_pages mm \<and>
    base_addr mm' = base_addr mm"
proof (cases x)
  case (Alloc ok sz)
  show ?thesis
  proof (cases "0 < sz")
    case True
    then show ?thesis
      using vmem_alloc_refines[OF R True, of ok] x g Alloc by (force simp: vmem_do_def)
  next
    case False
    then show ?thesis using R Alloc vmem_alloc_nonpositive[of sz ok mm] by (auto simp: vmem_do_def)
  qed
next
  case (Free ok p)
  show ?thesis
  proof (cases "MAKE_KEY p 0 \<in> fst ` used_entries (base_addr mm) B")
    case True
    then obtain s n where b: "(s, n, True) \<in> B" "MAKE_KEY p 0 = MAKE_KEY (page_address (base_addr mm) s) 0"
      by (auto simp: used_entries_def)
    show ?thesis
      using vmem_free_refines[OF R b(1)] vmem_free_key[OF b(2), of ok "Some mm"] g Free
      by (force simp: vmem_do_def)
  next
    case False
    then show ?thesis using vmem_free_unknown[OF R, of p ok] Free by (force simp: vmem_do_def)
  qed
qed

lemma vmem_run_rep:
  assumes "mm_rep mm B" "\<forall>ok sz. Alloc ok sz \<in> set xs \<longrightarrow> sz < 2^31" "\<forall>x \<in> set xs. granted x"
  shows "\<exists>mm' B'. vmem_run mm xs = Some mm' \<and> mm_rep mm' B' \<and> num_pages mm' = num_pages mm \<and>
    base_addr mm' = base_addr mm"
  using assms
proof (induction xs arbitrary: mm B)
  case (Cons x xs)
  have "case x of Alloc ok sz \<Rightarrow> sz < 2^31 | Free ok p \<Rightarrow> True" "granted x"
    using Cons.prems(2,3) by (cases x; auto)+
  then obtain mm1 B1 where 1: "vmem_do mm x = Some mm1" "mm_rep mm1 B1" "num_pages mm1 = num_pages mm"
    "base_addr mm1 = base_addr mm"
    using vmem_do_rep[OF Cons.prems(1), of x] by blast
  then show ?case using Cons.IH[OF 1(2)] Cons.prems(2,3) by auto
qed auto

text \<open>Refusing a node either makes an operation fault or makes no difference to it.\<close>

definition worse :: "'a option \<Rightarrow> 'a option \<Rightarrow> bool" where
  "worse a b \<longleftrightarrow> a = None \<or> a = b"

named_theorems worse_intros \<open>what faults no less\<close>

lemma worse_basic [worse_intros]:
  "worse a a" "worse None b"
  by (simp_all add: worse_def)

lemma worse_bind [worse_intros]:
  assumes "worse a b" "\<And>x. worse (f x) (g x)"
  shows "worse (a \<bind> f) (b \<bind> g)"
  using assms unfolding worse_def by (cases a) (auto, metis)

lemma worse_case [worse_intros]:
  "worse a b \<Longrightarrow> (\<And>x. worse (f x) (g x)) \<Longrightarrow> worse (case m of None \<Rightarrow> a | Some x \<Rightarrow> f x) (case m of None \<Rightarrow> b | Some x \<Rightarrow> g x)"
  "(\<And>x y. worse (h x y) (k x y)) \<Longrightarrow> worse (case p of (x, y) \<Rightarrow> h x y) (case p of (x, y) \<Rightarrow> k x y)"
  "worse a b \<Longrightarrow> worse c d \<Longrightarrow> worse (if q then a else c) (if q then b else d)"
  by (auto split: option.split prod.split)

lemma worse_set_blocks [worse_intros]:
  "worse (set_blocks_free ok mm p n) (set_blocks_free True mm p n)"
  "worse (set_blocks_alloc ok mm p n) (set_blocks_alloc True mm p n)"
proof -
  have "set_blocks_free False mm p n = None" "set_blocks_alloc False mm p n = None"
    by (auto simp: set_blocks_free_def set_blocks_alloc_def avltree_insert_no_memory Let_def split: Option.bind_splits)
  then show "worse (set_blocks_free ok mm p n) (set_blocks_free True mm p n)"
    "worse (set_blocks_alloc ok mm p n) (set_blocks_alloc True mm p n)"
    by (cases ok; simp add: worse_def)+
qed

fun grant :: "vmem_op \<Rightarrow> vmem_op" where
  "grant (Alloc ok sz) = Alloc (\<lambda>_. True) sz"
| "grant (Free ok p) = Free True p"

lemma granted_grant [simp]: "granted (grant x)"
  by (cases x) simp_all

lemma worse_alloc [worse_intros]: "worse (vmem_alloc ok mh sz) (vmem_alloc (\<lambda>_. True) mh sz)"
  unfolding vmem_alloc_def Let_def by (intro worse_intros)

lemma worse_free [worse_intros]: "worse (vmem_free ok mh p) (vmem_free True mh p)"
  unfolding vmem_free_def Let_def by (intro worse_intros)

lemma worse_do [worse_intros]: "worse (vmem_do mm x) (vmem_do mm (grant x))"
proof (cases x)
  case (Alloc ok sz)
  then show ?thesis using worse_alloc[of ok "Some mm" sz] by (auto simp: vmem_do_def worse_def)
next
  case (Free ok p)
  then show ?thesis using worse_free[of ok "Some mm" p] by (auto simp: vmem_do_def worse_def)
qed

lemma worse_run: "worse (vmem_run mm xs) (vmem_run mm (map grant xs))"
proof (induction xs arbitrary: mm)
  case (Cons x xs)
  then show ?case by (simp add: worse_bind worse_do)
qed (simp add: worse_def)

text \<open>Splitting a block and merging it again is the identity on tilings.\<close>

lemma split_then_merge:
  assumes B: "blocks_ok N B" and m: "(s, f, False) \<in> B" and n: "0 < n" "n \<le> f"
    and nb: "neighbours s n pl nl (split_block s f n B)"
  shows "merge_block s n pl nl (split_block s f n B) = B"
proof -
  have ok: "blocks_ok N (split_block s f n B)" by (rule blocks_ok_split[OF B m n])
  have pl: "pl = 0"
  proof (rule ccontr)
    assume "pl \<noteq> 0"
    then have "(s - pl, pl, False) \<in> B" "0 < pl"
      using nb n blocks_okD(1)[OF B m] unfolding neighbours_def split_mem by auto
    then show False using blocks_okD(4)[OF B, of "s - pl" pl f] m by simp
  qed
  have tail: "(s + f, k, False) \<notin> B" for k using blocks_okD(4)[OF B m] .
  have nl: "nl = f - n"
  proof (cases "n < f")
    case True
    then have a: "(s + n, f - n, False) \<in> split_block s f n B" by (simp add: split_mem)
    then have "0 < nl" "(s + n, nl, False) \<in> split_block s f n B" using nb unfolding neighbours_def by auto
    then show ?thesis using blocks_okD(3)[OF ok a, of "s + n" nl False] True by auto
  next
    case False
    then have "n = f" using n by simp
    then show ?thesis using nb tail blocks_okD(1)[OF ok, of "s + n" nl False]
      unfolding neighbours_def split_mem by auto
  qed
  have d: "(s, n, True) \<notin> B" "(s, 0, False) \<notin> B" "(s + n, nl, False) \<notin> B"
    using blocks_okD(3)[OF B m, of s n True] blocks_okD(1)[OF B, of s 0 False]
      blocks_okD(3)[OF B m, of "s + n" nl False] blocks_okD(1)[OF B, of "s + n" nl False] n nl by auto
  show ?thesis
    using m d pl nl by (auto simp: merge_block_def split_block_def)
qed

section \<open>What the callers rely on\<close>

text \<open>C2. Allocation: in any state whose tiling is \<open>B\<close>, a request either splits the
  smallest sufficient free block (the lowest one among equals), returning the
  address of its first page, or no free block is large enough, the code
  returns \<open>-1\<close> and the tiling stays.\<close>

theorem vmem_alloc_correct:
  assumes "mm_rep mm B" "0 < sz" "sz < 2^31" "ok 0" "ok 1"
  shows "(\<exists>s f mm'. best_fit (pages_for sz) B s f \<and>
      vmem_alloc ok (Some mm) sz = Some (page_address (base_addr mm) s, Some mm') \<and>
      num_pages mm' = num_pages mm \<and> base_addr mm' = base_addr mm \<and>
      mm_rep mm' (split_block s f (pages_for sz) B)) \<or>
    ((\<forall>s f. (s, f, False) \<in> B \<longrightarrow> f < pages_for sz) \<and>
      (\<exists>ft. vmem_alloc ok (Some mm) sz = Some (-1, Some (mm\<lparr>free_tree := ft\<rparr>)) \<and>
        mm_rep (mm\<lparr>free_tree := ft\<rparr>) B))"
  by (rule vmem_alloc_refines[OF assms])

text \<open>C3. Freeing a block in use merges it with the free block before and the
  free block after it, if there are such, returns 0 and keeps every other
  block; in particular the removal of the neighbours from the free tree never
  hits its \<open>ASSERT\<close>.\<close>

theorem vmem_free_correct:
  assumes "mm_rep mm B" "(s, n, True) \<in> B"
  shows "\<exists>pl nl mm'. neighbours s n pl nl B \<and>
    vmem_free True (Some mm) (page_address (base_addr mm) s) = Some (0, Some mm') \<and>
    num_pages mm' = num_pages mm \<and> base_addr mm' = base_addr mm \<and>
    mm_rep mm' (merge_block s n pl nl B)"
  by (rule vmem_free_refines[OF assms])

text \<open>C1. From a successful initialisation on, in a pool of at most 4 GB (the size that the 32 bits of an address in a key can tell apart), no
  sequence of allocations and frees, whatever addresses are freed and whatever the kernel answers when a tree node is allocated, fails an
  \<open>ASSERT\<close> or loses the tiling: it ends in a state that is a tiling of the pages, unless a request was refused the node it needs and
  dereferenced the null pointer, the only fault there is.\<close>

theorem vmem_run_safe:
  assumes "0 < init_num_pages sz" "init_num_pages sz \<le> POOL_LIMIT"
    "\<forall>ok k. Alloc ok k \<in> set xs \<longrightarrow> k < 2^31"
  shows "\<exists>mm. vmem_init (\<lambda>_. True) addr sz = Some (0, mm) \<and>
    (case vmem_run mm xs of
       Some mm' \<Rightarrow> (\<exists>B. mm_rep mm' B) \<and> num_pages mm' = init_num_pages sz \<and> base_addr mm' = init_base addr
     | None \<Rightarrow> \<exists>x \<in> set xs. \<not> granted x)"
proof -
  obtain mm where 1: "vmem_init (\<lambda>_. True) addr sz = Some (0, mm)" "num_pages mm = init_num_pages sz"
    "base_addr mm = init_base addr" "mm_rep mm {(0, init_num_pages sz, False)}"
    using vmem_init_rep[OF assms(1,2), of "\<lambda>_. True" addr] by blast
  have "\<forall>ok k. Alloc ok k \<in> set (map grant xs) \<longrightarrow> k < 2^31"
  proof (intro allI impI)
    fix ok k assume "Alloc ok k \<in> set (map grant xs)"
    then obtain x where x: "x \<in> set xs" "Alloc ok k = grant x" by auto
    obtain ok' where "x = Alloc ok' k" by (cases x) (use x(2) in auto)
    then have "Alloc ok' k \<in> set xs" using x(1) by simp
    then show "k < 2^31" using assms(3) by blast
  qed
  from vmem_run_rep[OF 1(4) this] obtain mm' B where 2: "vmem_run mm (map grant xs) = Some mm'" "mm_rep mm' B"
    "num_pages mm' = num_pages mm" "base_addr mm' = base_addr mm" by auto
  show ?thesis
  proof (cases "vmem_run mm xs")
    case None
    have "\<exists>x \<in> set xs. \<not> granted x"
    proof (rule ccontr)
      assume "\<not> ?thesis"
      then show False using vmem_run_rep[OF 1(4) assms(3)] None by auto
    qed
    then show ?thesis using 1(1) None by auto
  next
    case (Some m)
    then have "m = mm'" using worse_run[of mm xs] Some 2(1) by (simp add: worse_def)
    then show ?thesis using 1 2 Some by auto
  qed
qed

text \<open>C29. Freeing the address an allocation returned gives back the tiling the
  allocation started from.\<close>

theorem vmem_alloc_free_roundtrip:
  assumes "mm_rep mm B" "0 < sz" "sz < 2^31"
    "best_fit (pages_for sz) B s f"
  shows "\<exists>mm1 mm2. vmem_alloc (\<lambda>_. True) (Some mm) sz = Some (page_address (base_addr mm) s, Some mm1) \<and>
    vmem_free True (Some mm1) (page_address (base_addr mm) s) = Some (0, Some mm2) \<and> mm_rep mm2 B"
proof -
  note r = mm_repD[OF assms(1)]
  note np = alloc_pages_for[OF assms(2,3)]
  have m: "(s, f, False) \<in> B" "pages_for sz \<le> f" using assms(4) by (auto simp: best_fit_def)
  have uniq: "s' = s \<and> f' = f" if b: "best_fit (pages_for sz) B s' f'" for s' f'
  proof -
    have "f < f' \<or> f = f' \<and> s \<le> s'" "f' < f \<or> f' = f \<and> s' \<le> s"
      using assms(4) b unfolding best_fit_def by blast+
    then show ?thesis by linarith
  qed
  obtain mm1 where 1: "vmem_alloc (\<lambda>_. True) (Some mm) sz = Some (page_address (base_addr mm) s, Some mm1)"
    "base_addr mm1 = base_addr mm" "mm_rep mm1 (split_block s f (pages_for sz) B)"
    using vmem_alloc_refines[OF assms(1-3), of "\<lambda>_. True"] m uniq by force
  have "(s, pages_for sz, True) \<in> split_block s f (pages_for sz) B" by (simp add: split_mem)
  from vmem_free_refines[OF 1(3) this] 1(2) obtain pl nl mm2 where
    "neighbours s (pages_for sz) pl nl (split_block s f (pages_for sz) B)"
    "vmem_free True (Some mm1) (page_address (base_addr mm) s) = Some (0, Some mm2)"
    "mm_rep mm2 (merge_block s (pages_for sz) pl nl (split_block s f (pages_for sz) B))" by auto
  then show ?thesis using 1(1) split_then_merge[OF r(5) m(1) np(2) m(2)] by auto
qed

text \<open>\<open>vmem_init\<close> builds one free block over the whole pool.  Its page count is
  the size in pages with the lowest bit cleared, because the code masks the
  size with the complement of the page size instead of the page mask.\<close>

theorem vmem_init_correct:
  assumes "0 < init_num_pages sz" "init_num_pages sz \<le> POOL_LIMIT" "ok 0" "ok 1"
  shows "\<exists>mm. vmem_init ok addr sz = Some (0, mm) \<and> num_pages mm = 2 * (uint sz div 32768) \<and>
    base_addr mm mod VMEM_PAGE_SIZE = 0 \<and> mm_rep mm {(0, init_num_pages sz, False)}"
proof -
  obtain mm where "vmem_init ok addr sz = Some (0, mm)" "num_pages mm = init_num_pages sz"
    "base_addr mm = init_base addr" "mm_rep mm {(0, init_num_pages sz, False)}"
    using vmem_init_rep[OF assms, of addr] by blast
  moreover from this(3) have "base_addr mm mod VMEM_PAGE_SIZE = 0"
    using init_base_aligned[of addr] by (simp only: init_base_def)
  ultimately show ?thesis by (intro exI[of _ mm] conjI) (simp_all only: init_num_pages_def)
qed

text \<open>A pool of less than 32 KB, so also one of exactly one page, makes
  \<open>vmem_init\<close> loop forever in \<open>ASSERT(npages)\<close>, whatever \<open>malloc\<close> returns.\<close>

theorem vmem_init_small_hangs:
  assumes "uint sz < 32768"
  shows "vmem_init ok addr sz = None"
  by (rule vmem_init_hangs[OF assms])

text \<open>The key of an allocated block keeps 32 bits of the address: the code cannot
  tell two addresses apart that differ by a multiple of 4 GB.\<close>

theorem vmem_free_aliases:
  "vmem_free ok mh (ptr + of_int k * 2^32) = vmem_free ok mh ptr"
proof (rule vmem_free_key, rule word_uint_eqI)
  have "uint (ptr + of_int k * 2^32) mod 2^32 = (uint ptr + k * 2^32) mod 2^32"
    by (simp add: uint_word_ariths unsigned_of_int take_bit_eq_mod mod_simps mod_mod_cancel)
  then show "uint (MAKE_KEY (ptr + of_int k * 2^32) 0) = uint (MAKE_KEY ptr 0)"
    unfolding uint_addr_key by simp
qed

section \<open>Witnesses\<close>

abbreviation demo_size :: u64 where
  "demo_size \<equiv> 163840"

lemma demo_bounds: "0 < init_num_pages demo_size" "init_num_pages demo_size \<le> POOL_LIMIT"
  "init_num_pages demo_size = 10"
  by (simp_all add: init_num_pages_def POOL_LIMIT_def)

lemma demo_init:
  obtains mm where "vmem_init (\<lambda>_. True) 4096 demo_size = Some (0, mm)" "mm_rep mm {(0, 10, False)}"
  using vmem_init_rep[OF demo_bounds(1,2), of "\<lambda>_. True" 4096] demo_bounds(3) by auto

lemma demo_fit: "best_fit (pages_for 40000) {(0, 10, False)} 0 10"
  by (simp add: best_fit_def pages_for_def)

theorem vmem_alloc_correct_witness:
  "\<exists>mm. mm_rep mm {(0, 10, False)} \<and>
    (\<exists>s mm'. vmem_alloc (\<lambda>_. True) (Some mm) 40000 = Some (page_address (base_addr mm) s, Some mm') \<and>
      mm_rep mm' {(0, 3, True), (3, 7, False)})"
proof -
  obtain mm where mm: "mm_rep mm {(0, 10, False)}" by (rule demo_init)
  have "s = 0 \<and> f = 10" if "best_fit (pages_for 40000) {(0, 10, False)} s f" for s f
    using that by (simp add: best_fit_def)
  then show ?thesis
    using vmem_alloc_correct[OF mm, of 40000 "\<lambda>_. True"] mm
    by (force simp: pages_for_def split_block_def insert_commute)
qed

theorem vmem_free_correct_witness:
  "\<exists>mm mm'. mm_rep mm {(0, 3, True), (3, 7, False)} \<and>
    vmem_free True (Some mm) (page_address (base_addr mm) 0) = Some (0, Some mm') \<and>
    mm_rep mm' {(0, 10, False)}"
proof -
  obtain m0 where m0: "mm_rep m0 {(0, 10, False)}" by (rule demo_init)
  have "s = 0 \<and> f = 10" if "best_fit (pages_for 40000) {(0, 10, False)} s f" for s f
    using that by (simp add: best_fit_def)
  then obtain mm where mm: "mm_rep mm {(0, 3, True), (3, 7, False)}"
    using vmem_alloc_refines[OF m0, of 40000 "\<lambda>_. True"]
    by (force simp: pages_for_def split_block_def insert_commute)
  have "pl = 0 \<and> nl = 7" if "neighbours 0 3 pl nl {(0, 3, True), (3, 7, False)}" for pl nl
    using that by (auto simp: neighbours_def)
  then show ?thesis using vmem_free_correct[OF mm, of 0 3] mm by (force simp: merge_block_def)
qed

theorem vmem_run_safe_witness:
  "\<exists>mm mm' B. vmem_init (\<lambda>_. True) 4096 demo_size = Some (0, mm) \<and>
    vmem_run mm [Alloc (\<lambda>_. True) 40000, Alloc (\<lambda>_. True) 16384, Free True 16384, Free True 5] = Some mm' \<and> mm_rep mm' B"
  using vmem_run_safe[OF demo_bounds(1,2), of "[Alloc (\<lambda>_. True) 40000, Alloc (\<lambda>_. True) 16384, Free True 16384, Free True 5]" 4096]
  by (auto split: option.splits)

theorem vmem_alloc_free_roundtrip_witness:
  "\<exists>mm mm1 mm2. mm_rep mm {(0, 10, False)} \<and>
    vmem_alloc (\<lambda>_. True) (Some mm) 40000 = Some (page_address (base_addr mm) 0, Some mm1) \<and>
    vmem_free True (Some mm1) (page_address (base_addr mm) 0) = Some (0, Some mm2) \<and>
    mm_rep mm2 {(0, 10, False)}"
proof -
  obtain mm where mm: "mm_rep mm {(0, 10, False)}" by (rule demo_init)
  then show ?thesis using vmem_alloc_free_roundtrip[OF mm _ _ demo_fit] by auto
qed

theorem vmem_init_correct_witness:
  "\<exists>mm. vmem_init (\<lambda>_. True) 4096 demo_size = Some (0, mm) \<and> num_pages mm = 10"
  using vmem_init_correct[OF demo_bounds(1,2), of "\<lambda>_. True" 4096] by auto

theorem vmem_init_small_hangs_witness: "vmem_init (\<lambda>_. True) 0 16384 = None"
  using vmem_init_small_hangs[of 16384] by simp

end
