(* ===== verification/Mmio.thy ===== *)
theory Mmio
  imports Prelude "HOL-Library.State_Monad"
begin

text \<open>
  Memory-mapped accesses.  A mapped region is named by a number (the BAR, or a
  buffer of system memory) and an address is an offset into it.  The driver's
  accesses are recorded in order in a trace; the value a read returns is not
  the driver's doing, so it is given by a parameter \<open>hw\<close> that may depend on
  everything done before.  \<open>readl\<close> and \<open>writel\<close> are the only primitives; the
  driver's \<open>sreg_u32\<close>, \<open>greg_u32\<close>, \<open>SET_CH_32\<close>, \<open>GET_CH_32\<close>, \<open>SET_LL_32\<close> and
  \<open>SET_COMM_32\<close> macros of \<open>src/driver/mt-emu.h\<close> and
  \<open>src/driver/mt-emu-mtdma-bare.h\<close> are expressed by them.  The memory a trace
  leaves behind (the last value written to each address) is what the device
  finds there.  Where a mutex is taken and given back between accesses, the trace says so too.
\<close>

named_theorems mmio_simps \<open>running register programs\<close>

type_synonym ioaddr = "nat \<times> u64"

datatype access = Rd ioaddr u32 | Wr ioaddr u32 | MutexLock ioaddr | MutexUnlock ioaddr

type_synonym trace = "access list"
type_synonym hardware = "trace \<Rightarrow> ioaddr \<Rightarrow> u32"
type_synonym 'a io = "(trace, 'a) state"
type_synonym mem = "ioaddr \<Rightarrow> u32"

definition io_off :: "ioaddr \<Rightarrow> u64 \<Rightarrow> ioaddr" where
  "io_off p x = (fst p, snd p + x)"

definition readl :: "hardware \<Rightarrow> ioaddr \<Rightarrow> u32 io" where
  "readl hw a = State (\<lambda>t. (hw t a, t @ [Rd a (hw t a)]))"

definition writel :: "u32 \<Rightarrow> ioaddr \<Rightarrow> unit io" where
  "writel v a = State (\<lambda>t. ((), t @ [Wr a v]))"

definition mutex_lock :: "ioaddr \<Rightarrow> unit io" where
  "mutex_lock a = State (\<lambda>t. ((), t @ [MutexLock a]))"

definition mutex_unlock :: "ioaddr \<Rightarrow> unit io" where
  "mutex_unlock a = State (\<lambda>t. ((), t @ [MutexUnlock a]))"

text \<open>A C loop over a list of indices whose body only performs accesses.\<close>

fun for_io :: "'i list \<Rightarrow> ('i \<Rightarrow> unit io) \<Rightarrow> unit io" where
  "for_io [] f = State_Monad.return ()"
| "for_io (i # is) f = State_Monad.bind (f i) (\<lambda>_. for_io is f)"

definition exec :: "'a io \<Rightarrow> trace \<Rightarrow> trace" where
  "exec m t = snd (run_state m t)"

definition result_of :: "'a io \<Rightarrow> trace \<Rightarrow> 'a" where
  "result_of m t = fst (run_state m t)"

lemma run_readl [mmio_simps]: "run_state (readl hw a) t = (hw t a, t @ [Rd a (hw t a)])"
  by (simp add: readl_def)

lemma run_writel [mmio_simps]: "run_state (writel v a) t = ((), t @ [Wr a v])"
  by (simp add: writel_def)

lemma run_mutex [mmio_simps]: "run_state (mutex_lock a) t = ((), t @ [MutexLock a])" "run_state (mutex_unlock a) t = ((), t @ [MutexUnlock a])"
  by (simp_all add: mutex_lock_def mutex_unlock_def)

lemmas [mmio_simps] = run_state_bind run_state_return exec_def result_of_def split_beta

lemma run_split: "run_state m t = (result_of m t, exec m t)"
  by (simp add: exec_def result_of_def)

text \<open>Results and traces of a program, step by step.\<close>

lemma run_steps:
  "result_of (State_Monad.bind m f) t = result_of (f (result_of m t)) (exec m t)"
  "exec (State_Monad.bind m f) t = exec (f (result_of m t)) (exec m t)"
  "result_of (State_Monad.return x) t = x" "exec (State_Monad.return x) t = t"
  "result_of (readl hw a) t = hw t a" "exec (readl hw a) t = t @ [Rd a (hw t a)]"
  "exec (writel v a) t = t @ [Wr a v]"
  "exec (mutex_lock a) t = t @ [MutexLock a]" "exec (mutex_unlock a) t = t @ [MutexUnlock a]"
  by (simp_all add: result_of_def exec_def run_state_bind run_state_return run_readl run_writel run_mutex split_beta)

section \<open>The memory behind a trace\<close>

fun mem_step :: "access \<Rightarrow> mem \<Rightarrow> mem" where
  "mem_step (Rd a v) m = m"
| "mem_step (Wr a v) m = m(a := v)"
| "mem_step (MutexLock a) m = m"
| "mem_step (MutexUnlock a) m = m"

definition mem_after :: "trace \<Rightarrow> mem \<Rightarrow> mem" where
  "mem_after t m = fold mem_step t m"

lemma mem_after_simps [simp]:
  "mem_after [] m = m"
  "mem_after (x # t) m = mem_after t (mem_step x m)"
  "mem_after (s @ t) m = mem_after t (mem_after s m)"
  by (simp_all add: mem_after_def)

definition written :: "trace \<Rightarrow> ioaddr set" where
  "written t = {a. \<exists>v. Wr a v \<in> set t}"

lemma written_simps [simp]:
  "written [] = {}"
  "written (Rd a v # t) = written t"
  "written (Wr a v # t) = insert a (written t)"
  "written (MutexLock a # t) = written t"
  "written (MutexUnlock a # t) = written t"
  "written (s @ t) = written s \<union> written t"
  by (auto simp: written_def)

lemma mem_after_frame: "a \<notin> written t \<Longrightarrow> mem_after t m a = m a"
proof (induction t arbitrary: m)
  case (Cons x t)
  then show ?case by (cases x) auto
qed simp

text \<open>The sequence of writes of a trace, in order.\<close>

fun writes :: "trace \<Rightarrow> (ioaddr \<times> u32) list" where
  "writes [] = []"
| "writes (Wr a v # t) = (a, v) # writes t"
| "writes (Rd a v # t) = writes t"
| "writes (MutexLock a # t) = writes t"
| "writes (MutexUnlock a # t) = writes t"

lemma writes_append [simp]: "writes (s @ t) = writes s @ writes t"
  by (induction s rule: writes.induct) auto

text \<open>The memory depends on the writes alone; \<open>emits m ws\<close> says that the program
  \<open>m\<close> performs the writes \<open>ws\<close>, whatever its reads return.\<close>

definition wmem :: "(ioaddr \<times> u32) list \<Rightarrow> mem \<Rightarrow> mem" where
  "wmem ws m = fold (\<lambda>(a, v) m. m(a := v)) ws m"

lemma wmem_simps [simp]:
  "wmem [] m = m" "wmem ((a, v) # ws) m = wmem ws (m(a := v))" "wmem (ws @ vs) m = wmem vs (wmem ws m)"
  by (simp_all add: wmem_def)

lemma mem_after_writes: "mem_after t m = wmem (writes t) m"
  by (induction t arbitrary: m rule: writes.induct) simp_all

lemma wmem_frame: "a \<notin> fst ` set ws \<Longrightarrow> wmem ws m a = m a"
  by (induction ws arbitrary: m) auto

definition emits :: "'a io \<Rightarrow> (ioaddr \<times> u32) list \<Rightarrow> bool" where
  "emits m ws \<longleftrightarrow> (\<forall>t. writes (exec m t) = writes t @ ws)"

named_theorems emits_intros \<open>writes of a program, by its structure\<close>

lemma emitsD: "emits m ws \<Longrightarrow> writes (exec m t) = writes t @ ws"
  by (simp add: emits_def)

lemma emits_bind [emits_intros]:
  assumes "emits m ws" "\<And>x. emits (f x) vs"
  shows "emits (State_Monad.bind m f) (ws @ vs)"
  using assms by (simp add: emits_def mmio_simps)

lemma emits_return [emits_intros]: "emits (State_Monad.return x) []"
  by (simp add: emits_def mmio_simps)

lemma emits_writel [emits_intros]: "emits (writel v a) [(a, v)]"
  by (simp add: emits_def mmio_simps)

lemma emits_readl [emits_intros]: "emits (readl hw a) []"
  by (simp add: emits_def mmio_simps)

lemma emits_if [emits_intros]: "emits m ws \<Longrightarrow> emits n vs \<Longrightarrow> emits (if b then m else n) (if b then ws else vs)"
  by simp

lemma emits_for [emits_intros]:
  assumes "\<And>i. i \<in> set is \<Longrightarrow> emits (f i) (g i)"
  shows "emits (for_io is f) (concat (map g is))"
  using assms by (induction "is") (auto intro!: emits_intros)

lemma emits_conv: "emits m ws \<Longrightarrow> ws = vs \<Longrightarrow> emits m vs"
  by simp

lemma mem_emits: "emits m ws \<Longrightarrow> mem_after (exec m []) mem0 = wmem ws mem0"
  by (simp add: mem_after_writes emits_def)

text \<open>The writes of a counting loop: the last round that touches an address decides.\<close>

lemma wmem_rounds:
  assumes "i < n" "\<And>j. i < j \<Longrightarrow> j < n \<Longrightarrow> a \<notin> fst ` set (g j)"
  shows "wmem (concat (map g [0..<n])) m a = wmem (g i) (wmem (concat (map g [0..<i])) m) a"
proof -
  have "[0..<n] = [0..<i] @ i # [Suc i..<n]" using assms(1)
    by (metis le_add1 le_add_same_cancel1 less_imp_add_positive upt_add_eq_append upt_conv_Cons)
  then have "concat (map g [0..<n]) = concat (map g [0..<i]) @ g i @ concat (map g [Suc i..<n])" by simp
  moreover have "fst ` set (concat (map g [Suc i..<n])) = (\<Union>j \<in> {Suc i..<n}. fst ` set (g j))"
    by (simp add: image_UN)
  then have "a \<notin> fst ` set (concat (map g [Suc i..<n]))" using assms(2) by simp
  ultimately show ?thesis by (simp add: wmem_frame)
qed

section \<open>Programs without a mutex\<close>

text \<open>\<open>plain_io m\<close> says that the program \<open>m\<close> performs only reads and writes.\<close>

fun plain :: "access \<Rightarrow> bool" where
  "plain (Rd a v) = True"
| "plain (Wr a v) = True"
| "plain _ = False"

definition plain_io :: "'a io \<Rightarrow> bool" where
  "plain_io m \<longleftrightarrow> (\<forall>t. \<exists>u. exec m t = t @ u \<and> list_all plain u)"

named_theorems plain_intros \<open>programs that only read and write, by their structure\<close>

lemma plain_bind [plain_intros]:
  assumes "plain_io m" "\<And>x. plain_io (f x)"
  shows "plain_io (State_Monad.bind m f)"
  unfolding plain_io_def
proof
  fix t
  obtain u where u: "exec m t = t @ u" "list_all plain u" using assms(1) by (auto simp: plain_io_def)
  obtain v where "exec (f (result_of m t)) (t @ u) = (t @ u) @ v" "list_all plain v"
    using assms(2)[of "result_of m t"] unfolding plain_io_def by blast
  then show "\<exists>u. exec (State_Monad.bind m f) t = t @ u \<and> list_all plain u"
    using u by (intro exI[of _ "u @ v"]) (simp add: run_steps)
qed

lemma plain_basic [plain_intros]:
  "plain_io (State_Monad.return x)" "plain_io (readl hw a)" "plain_io (writel v a)"
  by (simp_all add: plain_io_def run_steps)

lemma plain_if [plain_intros]: "plain_io m \<Longrightarrow> plain_io n \<Longrightarrow> plain_io (if b then m else n)"
  by simp

lemma plain_let [plain_intros]: "plain_io (f x) \<Longrightarrow> plain_io (let y = x in f y)"
  by simp

lemma plain_prod [plain_intros]: "(\<And>a b. plain_io (f a b)) \<Longrightarrow> plain_io (case p of (a, b) \<Rightarrow> f a b)"
  by (cases p) simp

lemma plain_for [plain_intros]: "(\<And>i. plain_io (f i)) \<Longrightarrow> plain_io (for_io is f)"
  by (induction "is") (auto intro!: plain_intros)

section \<open>Halves of a 64-bit value\<close>

definition lower_32_bits :: "u64 \<Rightarrow> u32" where
  "lower_32_bits x = ucast x"

definition upper_32_bits :: "u64 \<Rightarrow> u32" where
  "upper_32_bits x = ucast (drop_bit 32 x)"

definition join_32 :: "u32 \<Rightarrow> u32 \<Rightarrow> u64" where
  "join_32 hi lo = push_bit 32 (ucast hi) OR ucast lo"

lemma join_halves [simp]: "join_32 (upper_32_bits x) (lower_32_bits x) = x"
proof (rule bit_word_eqI)
  fix n assume n: "n < LENGTH(64)"
  show "bit (join_32 (upper_32_bits x) (lower_32_bits x)) n = bit x n"
    using n by (auto simp: join_32_def upper_32_bits_def lower_32_bits_def bit_simps)
qed

end
