(* ===== verification/DmaRegs.thy ===== *)
theory DmaRegs
  imports Mmio
begin

text \<open>
  What the two MTDMA drivers share: the register offsets and bits of
  \<open>src/driver/mt-emu-mtdma-bare.h\<close>, the channel description
  \<open>mtdma_chan_info\<close> of \<open>src/driver/mt-emu-mtdma-core.h\<close>, the layout of a
  hardware descriptor and the transfer directions.  The walk over a chain of
  descriptors in memory is the specification of what the device fetches.
\<close>

definition REG_DMA_CHAN_BASE :: u64 where "REG_DMA_CHAN_BASE = 0x383000"
definition REG_DMA_COMM_BASE :: u64 where "REG_DMA_COMM_BASE = 0x380000"

section \<open>Common registers\<close>

definition REG_DMA_COMM_BASIC_PARAM :: u64 where "REG_DMA_COMM_BASIC_PARAM = 0x000"
definition REG_DMA_COMM_CH_OSID :: "u64 \<Rightarrow> u64" where "REG_DMA_COMM_CH_OSID i = 0x020 + 4 * i"
definition REG_DMA_COMM_CH_NUM :: u64 where "REG_DMA_COMM_CH_NUM = 0x400"
definition REG_DMA_COMM_MST0_BLEN :: u64 where "REG_DMA_COMM_MST0_BLEN = 0x408"
definition REG_DMA_COMM_MST1_BLEN :: u64 where "REG_DMA_COMM_MST1_BLEN = 0x608"
definition REG_DMA_COMM_COMM_ALARM_IMSK :: u64 where "REG_DMA_COMM_COMM_ALARM_IMSK = 0xC00"
definition REG_DMA_COMM_RD_MRG_PF0_IMSK_C32 :: u64 where "REG_DMA_COMM_RD_MRG_PF0_IMSK_C32 = 0xC20"
definition REG_DMA_COMM_RD_MRG_PF0_IMSK_C64 :: u64 where "REG_DMA_COMM_RD_MRG_PF0_IMSK_C64 = 0xC24"
definition REG_DMA_COMM_RD_MRG_PF0_STS_C32 :: u64 where "REG_DMA_COMM_RD_MRG_PF0_STS_C32 = 0xC30"
definition REG_DMA_COMM_RD_MRG_PF0_STS_C64 :: u64 where "REG_DMA_COMM_RD_MRG_PF0_STS_C64 = 0xC34"
definition REG_DMA_COMM_WR_MRG_PF0_IMSK_C32 :: u64 where "REG_DMA_COMM_WR_MRG_PF0_IMSK_C32 = 0xC40"
definition REG_DMA_COMM_WR_MRG_PF0_IMSK_C64 :: u64 where "REG_DMA_COMM_WR_MRG_PF0_IMSK_C64 = 0xC44"
definition REG_DMA_COMM_WR_MRG_PF0_STS_C32 :: u64 where "REG_DMA_COMM_WR_MRG_PF0_STS_C32 = 0xC50"
definition REG_DMA_COMM_WR_MRG_PF0_STS_C64 :: u64 where "REG_DMA_COMM_WR_MRG_PF0_STS_C64 = 0xC54"
definition REG_DMA_COMM_MRG_PF0_STS :: u64 where "REG_DMA_COMM_MRG_PF0_STS = 0xC74"
definition REG_DMA_COMM_WORK_STS :: u64 where "REG_DMA_COMM_WORK_STS = 0xd00"

section \<open>Channel registers\<close>

definition REG_DMA_CH_ENABLE :: u64 where "REG_DMA_CH_ENABLE = 0x000"
definition REG_DMA_CH_DIRECTION :: u64 where "REG_DMA_CH_DIRECTION = 0x004"
definition REG_DUMMY_CH_ADDR_L :: u64 where "REG_DUMMY_CH_ADDR_L = 0x008"
definition REG_DUMMY_CH_ADDR_H :: u64 where "REG_DUMMY_CH_ADDR_H = 0x00C"
definition REG_DMA_CH_MMU_ADDR_TYPE :: u64 where "REG_DMA_CH_MMU_ADDR_TYPE = 0x010"
definition REG_DMA_CH_FC :: u64 where "REG_DMA_CH_FC = 0x020"
definition REG_DMA_CH_INTR_IMSK :: u64 where "REG_DMA_CH_INTR_IMSK = 0x0C4"
definition REG_DMA_CH_INTR_RAW :: u64 where "REG_DMA_CH_INTR_RAW = 0x0C8"
definition REG_DMA_CH_STATUS :: u64 where "REG_DMA_CH_STATUS = 0x0D0"
definition REG_DMA_CH_LBAR_BASIC :: u64 where "REG_DMA_CH_LBAR_BASIC = 0x0D4"
definition REG_DMA_CH_DESC_OPT :: u64 where "REG_DMA_CH_DESC_OPT = 0x400"

definition DMA_CH_STATUS_BUSY :: u32 where "DMA_CH_STATUS_BUSY = 1"
definition DMA_CH_INTR_BIT_DONE :: u32 where "DMA_CH_INTR_BIT_DONE = 1"
definition DMA_CH_INTR_BIT_ERR_DATA :: u32 where "DMA_CH_INTR_BIT_ERR_DATA = 2"
definition DMA_CH_INTR_BIT_ERR_DESC_READ :: u32 where "DMA_CH_INTR_BIT_ERR_DESC_READ = 4"
definition DMA_CH_INTR_BIT_ERR_CFG :: u32 where "DMA_CH_INTR_BIT_ERR_CFG = 8"
definition DMA_CH_INTR_BIT_ERR_DUMMY_READ :: u32 where "DMA_CH_INTR_BIT_ERR_DUMMY_READ = 16"
definition DMA_CH_EN_BIT_ENABLE :: u32 where "DMA_CH_EN_BIT_ENABLE = 1"
definition DMA_CH_EN_BIT_DESC_MST1 :: u32 where "DMA_CH_EN_BIT_DESC_MST1 = 1"
definition DMA_CH_DESC_BIT_INTR_EN :: u32 where "DMA_CH_DESC_BIT_INTR_EN = 1"
definition DMA_CH_DESC_BIT_CHAIN_EN :: u32 where "DMA_CH_DESC_BIT_CHAIN_EN = 2"
definition DMA_CH_EN_BIT_NOCROSS :: u32 where "DMA_CH_EN_BIT_NOCROSS = 2"
definition DMA_CH_EN_BIT_DUMMY :: u32 where "DMA_CH_EN_BIT_DUMMY = 4"
definition MST0_ARLEN :: u32 where "MST0_ARLEN = 4"
definition MST0_AWLEN :: u32 where "MST0_AWLEN = 4"
definition MST1_ARLEN :: u32 where "MST1_ARLEN = 4"
definition MST1_AWLEN :: u32 where "MST1_AWLEN = 4"
definition WCH_FC_THLD :: u32 where "WCH_FC_THLD = 0x10"

section \<open>Channels and descriptors\<close>

record mtdma_chan_info =
  rg_vaddr :: ioaddr
  ll_vaddr :: ioaddr
  ll_laddr :: u64
  ll_vaddr_system :: ioaddr
  ll_laddr_system :: u64
  ll_max :: u32

text \<open>Byte offsets of the fields of \<open>struct dma_ch_desc\<close> (packed, 32 bytes).\<close>

definition DESC_OP :: u64 where "DESC_OP = 0"
definition DESC_CNT :: u64 where "DESC_CNT = 4"
definition DESC_SAR_L :: u64 where "DESC_SAR_L = 8"
definition DESC_SAR_H :: u64 where "DESC_SAR_H = 12"
definition DESC_DAR_L :: u64 where "DESC_DAR_L = 16"
definition DESC_DAR_H :: u64 where "DESC_DAR_H = 20"
definition DESC_LAR_L :: u64 where "DESC_LAR_L = 24"
definition DESC_LAR_H :: u64 where "DESC_LAR_H = 28"

lemmas desc_offsets = DESC_OP_def DESC_CNT_def DESC_SAR_L_def DESC_SAR_H_def DESC_DAR_L_def
  DESC_DAR_H_def DESC_LAR_L_def DESC_LAR_H_def

definition SET_CH_32 :: "mtdma_chan_info \<Rightarrow> u64 \<Rightarrow> u32 \<Rightarrow> unit io" where
  "SET_CH_32 info reg v = writel v (io_off (rg_vaddr info) reg)"

definition GET_CH_32 :: "hardware \<Rightarrow> mtdma_chan_info \<Rightarrow> u64 \<Rightarrow> u32 io" where
  "GET_CH_32 hw info reg = readl hw (io_off (rg_vaddr info) reg)"

definition SET_LL_32 :: "ioaddr \<Rightarrow> u64 \<Rightarrow> u32 \<Rightarrow> unit io" where
  "SET_LL_32 lli field v = writel v (io_off lli field)"

definition GET_LL_32 :: "hardware \<Rightarrow> ioaddr \<Rightarrow> u64 \<Rightarrow> u32 io" where
  "GET_LL_32 hw lli field = readl hw (io_off lli field)"

definition SET_COMM_32 :: "ioaddr \<Rightarrow> u64 \<Rightarrow> u32 \<Rightarrow> unit io" where
  "SET_COMM_32 comm reg v = writel v (io_off comm reg)"

definition GET_COMM_32 :: "hardware \<Rightarrow> ioaddr \<Rightarrow> u64 \<Rightarrow> u32 io" where
  "GET_COMM_32 hw comm reg = readl hw (io_off comm reg)"

lemmas [mmio_simps] = SET_CH_32_def GET_CH_32_def SET_LL_32_def GET_LL_32_def SET_COMM_32_def
  GET_COMM_32_def

datatype dma_direction = DMA_MEM_TO_MEM | DMA_MEM_TO_DEV | DMA_DEV_TO_MEM | DMA_DEV_TO_DEV

section \<open>Chains of descriptors in memory\<close>

text \<open>Where the driver places descriptor \<open>i\<close>: the first one in the registers of the
  channel, descriptor \<open>i\<close> at entry \<open>i - 1\<close> of the list memory.\<close>

definition lli_at :: "ioaddr \<Rightarrow> ioaddr \<Rightarrow> nat \<Rightarrow> ioaddr" where
  "lli_at rg ll i = (if i = 0 then io_off rg REG_DMA_CH_DESC_OPT else io_off ll (of_nat (i - 1) * 32))"

definition read64 :: "mem \<Rightarrow> ioaddr \<Rightarrow> u64 \<Rightarrow> u64 \<Rightarrow> u64" where
  "read64 m lli hi lo = join_32 (m (io_off lli hi)) (m (io_off lli lo))"

text \<open>The transfer a descriptor in memory asks for: source, destination, bytes.\<close>

definition desc_xfer :: "mem \<Rightarrow> ioaddr \<Rightarrow> u64 \<times> u64 \<times> u32" where
  "desc_xfer m lli = (read64 m lli DESC_SAR_H DESC_SAR_L, read64 m lli DESC_DAR_H DESC_DAR_L,
     m (io_off lli DESC_CNT) + 1)"

text \<open>Following the chain: list memory at device address \<open>la\<close> is mapped at \<open>ll\<close>; a
  descriptor continues while \<open>cont\<close> holds of its operation word.  A chain longer
  than the fuel is \<open>None\<close>.\<close>

fun walk :: "(u32 \<Rightarrow> bool) \<Rightarrow> mem \<Rightarrow> ioaddr \<Rightarrow> u64 \<Rightarrow> nat \<Rightarrow> ioaddr \<Rightarrow> (u64 \<times> u64 \<times> u32) list option" where
  "walk cont m ll la 0 lli = None"
| "walk cont m ll la (Suc n) lli =
    (if cont (m (io_off lli DESC_OP))
     then map_option (Cons (desc_xfer m lli))
            (walk cont m ll la n (io_off ll (read64 m lli DESC_LAR_H DESC_LAR_L - la)))
     else Some [desc_xfer m lli])"

text \<open>Descriptors at different places do not overlap.\<close>

definition desc_fields :: "u64 set" where
  "desc_fields = {DESC_OP, DESC_CNT, DESC_SAR_L, DESC_SAR_H, DESC_DAR_L, DESC_DAR_H, DESC_LAR_L, DESC_LAR_H}"

lemma desc_field_bound: "f \<in> desc_fields \<Longrightarrow> uint f < 32"
  by (auto simp: desc_fields_def desc_offsets)

lemma lli_apart:
  assumes "fst rg \<noteq> fst ll" "i \<noteq> j" "i < 2^32" "j < 2^32" "f \<in> desc_fields" "g \<in> desc_fields"
  shows "io_off (lli_at rg ll i) f \<noteq> io_off (lli_at rg ll j) g"
proof (cases "i = 0 \<or> j = 0")
  case True
  then show ?thesis using assms(1,2) by (auto simp: lli_at_def io_off_def)
next
  case False
  show ?thesis
  proof
    assume eq: "io_off (lli_at rg ll i) f = io_off (lli_at rg ll j) g"
    then have "snd ll + of_nat (i - 1) * 32 + f = snd ll + of_nat (j - 1) * 32 + g"
      using False by (simp add: lli_at_def io_off_def)
    then have "of_nat (i - 1) * 32 + f = of_nat (j - 1) * 32 + g"
      by (simp add: add.assoc)
    then have "uint (of_nat (i - 1) * 32 + f) = uint (of_nat (j - 1) * 32 + g)" by simp
    moreover have "uint (of_nat (k - 1) * 32 + h :: u64) = int (k - 1) * 32 + uint h"
      if "k < 2^32" "uint h < 32" for k and h :: u64
    proof -
      have "(of_nat (k - 1) * 32 :: u64) = of_nat ((k - 1) * 32)" by simp
      moreover have "(k - 1) * 32 < 2^64" using that(1) by simp
      moreover have "uint (of_nat m :: u64) = int m" if "m < 2^64" for m
        using that by (simp add: unsigned_of_nat take_bit_nat_eq_self)
      ultimately have "uint (of_nat (k - 1) * 32 :: u64) = int (k - 1) * 32"
        by (metis of_nat_mult of_nat_numeral)
      moreover have "int (k - 1) * 32 < 2^37" using that(1) by simp
      ultimately show ?thesis using that(2) uint_add_bounded[of "of_nat (k - 1) * 32 :: u64" h] by simp
    qed
    ultimately have "int (i - 1) * 32 + uint f = int (j - 1) * 32 + uint g"
      using assms(3-6) desc_field_bound by simp
    moreover have "0 \<le> uint f" "uint f < 32" "0 \<le> uint g" "uint g < 32"
      using assms(5,6) desc_field_bound by auto
    ultimately have "i - 1 = j - 1" by linarith
    then show False using False assms(2) by linarith
  qed
qed

end
