(* ===== verification/VirtDma.thy ===== *)
theory VirtDma
  imports Prelude
begin

text \<open>
  The virtual DMA channel of \<open>src/driver/virt-dma.c\<close> and
  \<open>src/driver/virt-dma.h\<close> with the cookie rules of
  \<open>src/driver/dmaengine.h\<close>.  A descriptor is named by a number (its address);
  the channel keeps five lists of descriptors, the store of their contents,
  the descriptors handed to \<open>desc_free\<close> and the client callbacks invoked, in
  order.  A \<open>BUG_ON\<close> that fires is \<open>None\<close>.  The pointer \<open>desc_free\<close> of the channel, through which the driver frees a
  descriptor, is the parameter \<open>df\<close> of the operations that call it.  Whether a cookie counts as
  complete is decided by \<open>dma_async_is_complete\<close> of the kernel and is a
  parameter.  The locale \<open>desc_queue\<close> is the contract the MTDMA driver uses;
  its client lemma is that descriptors complete in the order of submission.
\<close>

section \<open>Data\<close>

record desc_callback =
  cb_callback :: "nat option"
  cb_callback_result :: "nat option"
  cb_param :: "nat option"

record dma_result =
  res_code :: int
  res_residue :: u32

text \<open>The control flags of a transfer; the driver itself tests only the reuse flag.\<close>

datatype dma_ctrl_flag = DMA_PREP_INTERRUPT | DMA_CTRL_ACK | DMA_CTRL_REUSE | OtherFlag nat

record virt_dma_desc =
  tx_cookie :: u32
  tx_flags :: "dma_ctrl_flag set"
  tx_cb :: desc_callback
  tx_result :: dma_result

text \<open>What a client callback is called with.\<close>

datatype cb_event = Call nat "nat option" | CallResult nat "nat option" dma_result

record virt_dma_chan =
  chan_cookie :: u32
  completed_cookie :: u32
  desc_allocated :: "nat list"
  desc_submitted :: "nat list"
  desc_issued :: "nat list"
  desc_completed :: "nat list"
  desc_terminated :: "nat list"
  cyclic :: "nat option"
  task_scheduled :: bool
  vd_store :: "nat \<Rightarrow> virt_dma_desc"
  freed :: "nat list"
  called :: "cb_event list"

definition DMA_MIN_COOKIE :: u32 where
  "DMA_MIN_COOKIE = 1"

definition DMA_TRANS_NOERROR :: int where
  "DMA_TRANS_NOERROR = 0"

abbreviation cookie_of :: "'a virt_dma_chan_scheme \<Rightarrow> nat \<Rightarrow> u32" where
  "cookie_of vc d \<equiv> tx_cookie (vd_store vc d)"

definition vd_update :: "nat \<Rightarrow> (virt_dma_desc \<Rightarrow> virt_dma_desc) \<Rightarrow>
    'a virt_dma_chan_scheme \<Rightarrow> 'a virt_dma_chan_scheme" where
  "vd_update d f vc = vc\<lparr>vd_store := (vd_store vc)(d := f (vd_store vc d))\<rparr>"

section \<open>Cookies\<close>

definition dma_cookie_init :: "'a virt_dma_chan_scheme \<Rightarrow> 'a virt_dma_chan_scheme" where
  "dma_cookie_init vc = vc\<lparr>chan_cookie := DMA_MIN_COOKIE, completed_cookie := DMA_MIN_COOKIE\<rparr>"

text \<open>A cookie is a signed 32-bit number; the increment wraps.\<close>

definition dma_cookie_assign :: "nat \<Rightarrow> 'a virt_dma_chan_scheme \<Rightarrow> u32 \<times> 'a virt_dma_chan_scheme" where
  "dma_cookie_assign d vc =
    (let cookie = chan_cookie vc + 1;
         cookie = (if sint cookie < sint DMA_MIN_COOKIE then DMA_MIN_COOKIE else cookie)
     in (cookie, vd_update d (\<lambda>v. v\<lparr>tx_cookie := cookie\<rparr>) (vc\<lparr>chan_cookie := cookie\<rparr>)))"

definition dma_cookie_complete :: "nat \<Rightarrow> 'a virt_dma_chan_scheme \<Rightarrow> 'a virt_dma_chan_scheme option" where
  "dma_cookie_complete d vc =
    (if sint (cookie_of vc d) < sint DMA_MIN_COOKIE then None
     else Some (vd_update d (\<lambda>v. v\<lparr>tx_cookie := 0\<rparr>) (vc\<lparr>completed_cookie := cookie_of vc d\<rparr>)))"

datatype dma_status = DMA_COMPLETE | DMA_IN_PROGRESS | DMA_PAUSED

record dma_tx_state =
  st_last :: u32
  st_used :: u32
  st_residue :: u32

text \<open>\<open>is_complete cookie complete used\<close> is the kernel's \<open>dma_async_is_complete\<close>; the
  state structure is only filled in when the caller gives one.\<close>

definition dma_cookie_status ::
    "(u32 \<Rightarrow> u32 \<Rightarrow> u32 \<Rightarrow> dma_status) \<Rightarrow> 'a virt_dma_chan_scheme \<Rightarrow> u32 \<Rightarrow> bool \<Rightarrow>
     dma_status \<times> dma_tx_state option" where
  "dma_cookie_status is_complete vc cookie has_state =
    (let used = chan_cookie vc; complete = completed_cookie vc in
     (is_complete cookie complete used,
      if has_state then Some \<lparr>st_last = complete, st_used = used, st_residue = 0\<rparr> else None))"

definition dma_set_residue :: "dma_tx_state option \<Rightarrow> u32 \<Rightarrow> dma_tx_state option" where
  "dma_set_residue st r = map_option (\<lambda>s. s\<lparr>st_residue := r\<rparr>) st"

section \<open>Callbacks\<close>

definition dmaengine_desc_get_callback :: "virt_dma_desc \<Rightarrow> desc_callback" where
  "dmaengine_desc_get_callback v =
     \<lparr>cb_callback = cb_callback (tx_cb v), cb_callback_result = cb_callback_result (tx_cb v),
      cb_param = cb_param (tx_cb v)\<rparr>"

definition dmaengine_desc_callback_invoke :: "desc_callback \<Rightarrow> dma_result option \<Rightarrow> cb_event list" where
  "dmaengine_desc_callback_invoke cb result =
    (case cb_callback_result cb of
       Some f \<Rightarrow>
         [CallResult f (cb_param cb)
           (case result of None \<Rightarrow> \<lparr>res_code = DMA_TRANS_NOERROR, res_residue = 0\<rparr> | Some r \<Rightarrow> r)]
     | None \<Rightarrow> (case cb_callback cb of Some f \<Rightarrow> [Call f (cb_param cb)] | None \<Rightarrow> []))"

definition dmaengine_desc_get_callback_invoke :: "virt_dma_desc \<Rightarrow> dma_result option \<Rightarrow> cb_event list" where
  "dmaengine_desc_get_callback_invoke v result =
     dmaengine_desc_callback_invoke (dmaengine_desc_get_callback v) result"

definition dmaengine_desc_callback_valid :: "desc_callback \<Rightarrow> bool" where
  "dmaengine_desc_callback_valid cb \<longleftrightarrow> cb_callback cb \<noteq> None \<or> cb_callback_result cb \<noteq> None"

section \<open>Channel operations\<close>

text \<open>\<open>list_del\<close> of a descriptor's node takes it off whichever list it is on.\<close>

definition list_del :: "nat \<Rightarrow> 'a virt_dma_chan_scheme \<Rightarrow> 'a virt_dma_chan_scheme" where
  "list_del d vc = vc\<lparr>desc_allocated := remove1 d (desc_allocated vc),
     desc_submitted := remove1 d (desc_submitted vc), desc_issued := remove1 d (desc_issued vc),
     desc_completed := remove1 d (desc_completed vc), desc_terminated := remove1 d (desc_terminated vc)\<rparr>"

definition vchan_tx_submit :: "nat \<Rightarrow> 'a virt_dma_chan_scheme \<Rightarrow> u32 \<times> 'a virt_dma_chan_scheme" where
  "vchan_tx_submit d vc =
    (let (cookie, vc) = dma_cookie_assign d vc; vc = list_del d vc in
     (cookie, vc\<lparr>desc_submitted := desc_submitted vc @ [d]\<rparr>))"

text \<open>The driver's \<open>desc_free\<close> acts on the channel and may fault.\<close>

type_synonym 'c desc_free = "nat \<Rightarrow> 'c \<Rightarrow> 'c option"

definition vchan_tx_desc_free ::
    "'a virt_dma_chan_scheme desc_free \<Rightarrow> nat \<Rightarrow> 'a virt_dma_chan_scheme \<Rightarrow> (int \<times> 'a virt_dma_chan_scheme) option" where
  "vchan_tx_desc_free df d vc =
    (let vc = list_del d vc in map_option (Pair 0) (df d (vc\<lparr>freed := freed vc @ [d]\<rparr>)))"

definition vchan_find_desc :: "'a virt_dma_chan_scheme \<Rightarrow> u32 \<Rightarrow> nat option" where
  "vchan_find_desc vc cookie = find (\<lambda>d. cookie_of vc d = cookie) (desc_issued vc)"

definition vchan_tx_prep :: "nat \<Rightarrow> dma_ctrl_flag set \<Rightarrow> 'a virt_dma_chan_scheme \<Rightarrow> 'a virt_dma_chan_scheme" where
  "vchan_tx_prep d fl vc =
    (let vc = vd_update d (\<lambda>v. v\<lparr>tx_flags := fl,
           tx_result := \<lparr>res_code = DMA_TRANS_NOERROR, res_residue = 0\<rparr>\<rparr>) vc in
     vc\<lparr>desc_allocated := desc_allocated vc @ [d]\<rparr>)"

definition vchan_issue_pending :: "'a virt_dma_chan_scheme \<Rightarrow> bool \<times> 'a virt_dma_chan_scheme" where
  "vchan_issue_pending vc =
    (let vc = vc\<lparr>desc_issued := desc_issued vc @ desc_submitted vc, desc_submitted := []\<rparr> in
     (desc_issued vc \<noteq> [], vc))"

definition vchan_cookie_complete :: "nat \<Rightarrow> 'a virt_dma_chan_scheme \<Rightarrow> 'a virt_dma_chan_scheme option" where
  "vchan_cookie_complete d vc =
    map_option (\<lambda>vc. vc\<lparr>desc_completed := desc_completed vc @ [d], task_scheduled := True\<rparr>)
      (dma_cookie_complete d vc)"

definition vchan_vdesc_fini ::
    "'a virt_dma_chan_scheme desc_free \<Rightarrow> nat \<Rightarrow> 'a virt_dma_chan_scheme \<Rightarrow> 'a virt_dma_chan_scheme option" where
  "vchan_vdesc_fini df d vc =
    (if DMA_CTRL_REUSE \<in> tx_flags (vd_store vc d) then Some (vc\<lparr>desc_allocated := d # desc_allocated vc\<rparr>)
     else df d (vc\<lparr>freed := freed vc @ [d]\<rparr>))"

definition vchan_cyclic_callback :: "nat \<Rightarrow> 'a virt_dma_chan_scheme \<Rightarrow> 'a virt_dma_chan_scheme" where
  "vchan_cyclic_callback d vc = vc\<lparr>cyclic := Some d, task_scheduled := True\<rparr>"

definition vchan_terminate_vdesc :: "nat \<Rightarrow> 'a virt_dma_chan_scheme \<Rightarrow> 'a virt_dma_chan_scheme" where
  "vchan_terminate_vdesc d vc =
    (let vc = vc\<lparr>desc_terminated := desc_terminated vc @ [d]\<rparr> in
     if cyclic vc = Some d then vc\<lparr>cyclic := None\<rparr> else vc)"

definition vchan_next_desc :: "'a virt_dma_chan_scheme \<Rightarrow> nat option" where
  "vchan_next_desc vc = (case desc_issued vc of [] \<Rightarrow> None | d # ds \<Rightarrow> Some d)"

definition vchan_get_all_descriptors :: "'a virt_dma_chan_scheme \<Rightarrow> nat list \<times> 'a virt_dma_chan_scheme" where
  "vchan_get_all_descriptors vc =
    (desc_allocated vc @ desc_submitted vc @ desc_issued vc @ desc_completed vc @ desc_terminated vc,
     vc\<lparr>desc_allocated := [], desc_submitted := [], desc_issued := [], desc_completed := [],
        desc_terminated := []\<rparr>)"

definition vchan_dma_desc_free_list ::
    "'a virt_dma_chan_scheme desc_free \<Rightarrow> nat list \<Rightarrow> 'a virt_dma_chan_scheme \<Rightarrow> 'a virt_dma_chan_scheme option" where
  "vchan_dma_desc_free_list df head vc = opt_fold (vchan_vdesc_fini df) head vc"

definition vchan_free_chan_resources ::
    "'a virt_dma_chan_scheme desc_free \<Rightarrow> 'a virt_dma_chan_scheme \<Rightarrow> 'a virt_dma_chan_scheme option" where
  "vchan_free_chan_resources df vc =
    (let (head, vc) = vchan_get_all_descriptors vc;
         vc = fold (\<lambda>d. vd_update d (\<lambda>v. v\<lparr>tx_flags := tx_flags v - {DMA_CTRL_REUSE}\<rparr>)) head vc
     in vchan_dma_desc_free_list df head vc)"

text \<open>\<open>tasklet_kill\<close> lets a scheduled tasklet finish; \<open>vchan_complete\<close> is that
  tasklet.\<close>

definition vchan_complete_one ::
    "'a virt_dma_chan_scheme desc_free \<Rightarrow> nat \<Rightarrow> 'a virt_dma_chan_scheme \<Rightarrow> 'a virt_dma_chan_scheme option" where
  "vchan_complete_one df d vc =
    vchan_vdesc_fini df d
      (vc\<lparr>called := called vc @
        dmaengine_desc_callback_invoke (dmaengine_desc_get_callback (vd_store vc d))
          (Some (tx_result (vd_store vc d)))\<rparr>)"

definition vchan_complete ::
    "'a virt_dma_chan_scheme desc_free \<Rightarrow> 'a virt_dma_chan_scheme \<Rightarrow> 'a virt_dma_chan_scheme option" where
  "vchan_complete df vc =
    (let head = desc_completed vc;
         vc = vc\<lparr>desc_completed := [], task_scheduled := False\<rparr>;
         vc = (case cyclic vc of
                 Some d \<Rightarrow> vc\<lparr>cyclic := None, called := called vc @
                     dmaengine_desc_callback_invoke (dmaengine_desc_get_callback (vd_store vc d))
                       (Some (tx_result (vd_store vc d)))\<rparr>
               | None \<Rightarrow> vc)
     in opt_fold (vchan_complete_one df) head vc)"

definition vchan_synchronize ::
    "'a virt_dma_chan_scheme desc_free \<Rightarrow> 'a virt_dma_chan_scheme \<Rightarrow> 'a virt_dma_chan_scheme option" where
  "vchan_synchronize df vc =
    Option.bind (if task_scheduled vc then vchan_complete df vc else Some vc)
      (\<lambda>vc. vchan_dma_desc_free_list df (desc_terminated vc) (vc\<lparr>desc_terminated := []\<rparr>))"

definition vchan_init :: "'a virt_dma_chan_scheme \<Rightarrow> 'a virt_dma_chan_scheme" where
  "vchan_init vc =
    (dma_cookie_init vc)\<lparr>desc_allocated := [], desc_submitted := [], desc_issued := [],
       desc_completed := [], desc_terminated := [], task_scheduled := False\<rparr>"

text \<open>The step the MTDMA interrupt handlers perform on the descriptor at the head
  of the issued list: unlink it and mark it complete.\<close>

definition vchan_finish_next :: "'a virt_dma_chan_scheme \<Rightarrow> 'a virt_dma_chan_scheme option" where
  "vchan_finish_next vc =
    (case vchan_next_desc vc of
       None \<Rightarrow> Some vc
     | Some d \<Rightarrow> vchan_cookie_complete d (list_del d vc))"

section \<open>The channel invariant\<close>

named_theorems vchan_defs \<open>channel operations to unfold\<close>

lemmas [vchan_defs] =
  dma_cookie_assign_def dma_cookie_complete_def vchan_tx_submit_def vchan_tx_prep_def
  vchan_issue_pending_def vchan_cookie_complete_def vchan_next_desc_def list_del_def
  vchan_finish_next_def vd_update_def Let_def

text \<open>The lists that hold a descriptor, and those on which it waits for the hardware.\<close>

definition all_descs :: "'a virt_dma_chan_scheme \<Rightarrow> nat list" where
  "all_descs vc = desc_allocated vc @ desc_submitted vc @ desc_issued vc @ desc_completed vc @
     desc_terminated vc"

definition pending :: "'a virt_dma_chan_scheme \<Rightarrow> nat list" where
  "pending vc = desc_issued vc @ desc_submitted vc"

definition vchan_inv :: "'a virt_dma_chan_scheme \<Rightarrow> bool" where
  "vchan_inv vc \<longleftrightarrow> distinct (all_descs vc) \<and>
     (\<forall>d \<in> set (pending vc). 1 \<le> sint (cookie_of vc d)) \<and> 1 \<le> sint (chan_cookie vc) \<and>
     1 \<le> sint (completed_cookie vc)"

lemma sint_min_cookie [simp]: "sint DMA_MIN_COOKIE = 1"
  by (simp add: DMA_MIN_COOKIE_def)

lemma assigned_cookie_positive: "1 \<le> sint (fst (dma_cookie_assign d vc))"
  by (simp add: vchan_defs)

lemma vchan_init_inv: "vchan_inv (vchan_init vc)"
  by (simp add: vchan_inv_def vchan_init_def dma_cookie_init_def all_descs_def pending_def)

lemma vchan_prep_inv:
  assumes "vchan_inv vc" "d \<notin> set (all_descs vc)"
  shows "vchan_inv (vchan_tx_prep d fl vc)" "pending (vchan_tx_prep d fl vc) = pending vc"
    "d \<in> set (desc_allocated (vchan_tx_prep d fl vc))"
  using assms by (auto simp: vchan_defs vchan_inv_def all_descs_def pending_def)

lemma remove1_id: "d \<notin> set xs \<Longrightarrow> remove1 d xs = xs"
  by (rule remove1_idem)

lemma vchan_submit_inv:
  assumes "vchan_inv vc" "d \<in> set (desc_allocated vc)"
  shows "vchan_inv (snd (vchan_tx_submit d vc))" "pending (snd (vchan_tx_submit d vc)) = pending vc @ [d]"
proof -
  have d: "d \<notin> set (desc_submitted vc)" "d \<notin> set (desc_issued vc)" "d \<notin> set (desc_completed vc)"
    "d \<notin> set (desc_terminated vc)"
    using assms by (auto simp: vchan_inv_def all_descs_def)
  have lists: "snd (vchan_tx_submit d vc) = (snd (vchan_tx_submit d vc))\<lparr>
      desc_allocated := remove1 d (desc_allocated vc), desc_submitted := desc_submitted vc @ [d],
      desc_issued := desc_issued vc, desc_completed := desc_completed vc,
      desc_terminated := desc_terminated vc\<rparr>"
    using d by (simp add: vchan_defs remove1_id)
  show "pending (snd (vchan_tx_submit d vc)) = pending vc @ [d]"
    by (subst lists) (simp add: pending_def)
  have "distinct (all_descs (snd (vchan_tx_submit d vc)))"
    by (subst lists) (use assms(1) d in \<open>auto simp: vchan_inv_def all_descs_def distinct_remove1 dest: notin_set_remove1\<close>)
  then show "vchan_inv (snd (vchan_tx_submit d vc))"
    using assms(1) d by (auto simp: vchan_inv_def pending_def vchan_defs)
qed

lemma vchan_issue_inv:
  assumes "vchan_inv vc"
  shows "vchan_inv (snd (vchan_issue_pending vc))" "pending (snd (vchan_issue_pending vc)) = pending vc"
    "fst (vchan_issue_pending vc) \<longleftrightarrow> pending vc \<noteq> []"
  using assms by (auto simp: vchan_defs vchan_inv_def all_descs_def pending_def)

lemma vchan_finish_inv:
  assumes "vchan_inv vc" "vchan_next_desc vc = Some d"
  shows "\<exists>vc'. vchan_finish_next vc = Some vc' \<and> vchan_inv vc' \<and> pending vc = d # pending vc' \<and>
    completed_cookie vc' = cookie_of vc d \<and> desc_completed vc' = desc_completed vc @ [d]"
proof -
  obtain ds where iss: "desc_issued vc = d # ds"
    using assms(2) by (cases "desc_issued vc") (auto simp: vchan_next_desc_def)
  have d: "d \<notin> set (desc_allocated vc)" "d \<notin> set (desc_submitted vc)" "d \<notin> set ds"
    "d \<notin> set (desc_completed vc)" "d \<notin> set (desc_terminated vc)"
    using assms(1) iss by (auto simp: vchan_inv_def all_descs_def)
  have c: "1 \<le> sint (cookie_of vc d)" using assms(1) iss by (auto simp: vchan_inv_def pending_def)
  let ?vc' = "vd_update d (\<lambda>v. v\<lparr>tx_cookie := 0\<rparr>) (vc\<lparr>desc_issued := ds,
      desc_completed := desc_completed vc @ [d], completed_cookie := cookie_of vc d, task_scheduled := True\<rparr>)"
  have "vchan_finish_next vc = Some ?vc'"
    using iss d c by (simp add: vchan_defs remove1_id)
  moreover have "vchan_inv ?vc'" "pending vc = d # pending ?vc'"
    using assms(1) iss d c by (auto simp: vchan_inv_def all_descs_def pending_def vd_update_def)
  ultimately show ?thesis by (auto simp: vd_update_def)
qed

section \<open>The queue contract\<close>

locale desc_queue =
  fixes inv :: "'s \<Rightarrow> bool"
    and waiting :: "'s \<Rightarrow> nat set"
    and queue :: "'s \<Rightarrow> nat list"
    and front :: "'s \<Rightarrow> nat option"
    and fresh :: "nat \<Rightarrow> 's \<Rightarrow> bool"
    and prepare :: "nat \<Rightarrow> 'f \<Rightarrow> 's \<Rightarrow> 's"
    and enqueue :: "nat \<Rightarrow> 's \<Rightarrow> 's"
    and issue :: "'s \<Rightarrow> 's"
    and finish :: "'s \<Rightarrow> 's option"
  assumes prepare_law: "inv s \<Longrightarrow> fresh d s \<Longrightarrow> inv (prepare d f s) \<and> queue (prepare d f s) = queue s"
    and enqueue_law: "inv s \<Longrightarrow> d \<in> waiting s \<Longrightarrow> inv (enqueue d s) \<and> queue (enqueue d s) = queue s @ [d]"
    and issue_law: "inv s \<Longrightarrow> inv (issue s) \<and> queue (issue s) = queue s"
    and finish_law: "inv s \<Longrightarrow> front s = Some d \<Longrightarrow>
      \<exists>s'. finish s = Some s' \<and> inv s' \<and> queue s = d # queue s'"
begin

text \<open>Runs of the queue, with the descriptors submitted and finished so far.\<close>

inductive qrun :: "'s \<Rightarrow> nat list \<Rightarrow> nat list \<Rightarrow> 's \<Rightarrow> bool" for s0 where
  start: "qrun s0 [] [] s0"
| prepare: "qrun s0 subs fins s \<Longrightarrow> fresh d s \<Longrightarrow> qrun s0 subs fins (prepare d f s)"
| submit: "qrun s0 subs fins s \<Longrightarrow> d \<in> waiting s \<Longrightarrow> qrun s0 (subs @ [d]) fins (enqueue d s)"
| issue: "qrun s0 subs fins s \<Longrightarrow> qrun s0 subs fins (issue s)"
| finish: "qrun s0 subs fins s \<Longrightarrow> front s = Some d \<Longrightarrow> finish s = Some s' \<Longrightarrow> qrun s0 subs (fins @ [d]) s'"

lemma qrun_fifo:
  assumes "qrun s0 subs fins s" "inv s0"
  shows "inv s \<and> queue s0 @ subs = fins @ queue s"
  using assms
proof (induction rule: qrun.induct)
  case (prepare subs fins s d f)
  then show ?case using prepare_law[of s d f] by simp
next
  case (submit subs fins s d)
  then show ?case using enqueue_law[of s d] by simp
next
  case (issue subs fins s)
  then show ?case using issue_law[of s] by simp
next
  case (finish subs fins s d s')
  then show ?case using finish_law[of s d] by auto
qed simp

text \<open>Whoever enters an empty queue first leaves it first.\<close>

lemma qrun_prefix:
  assumes "qrun s0 subs fins s" "inv s0" "queue s0 = []"
  shows "fins = take (length fins) subs"
  using qrun_fifo[OF assms(1,2)] assms(3) by simp

end

interpretation vq: desc_queue vchan_inv "\<lambda>vc. set (desc_allocated vc)" pending vchan_next_desc
  "\<lambda>d vc. d \<notin> set (all_descs vc)" vchan_tx_prep
  "\<lambda>d vc. snd (vchan_tx_submit d vc)" "\<lambda>vc. snd (vchan_issue_pending vc)" vchan_finish_next
proof
  fix s :: "'a virt_dma_chan_scheme" and d fl
  assume s: "vchan_inv s"
  show "d \<notin> set (all_descs s) \<Longrightarrow> vchan_inv (vchan_tx_prep d fl s) \<and> pending (vchan_tx_prep d fl s) = pending s"
    using vchan_prep_inv[OF s] by blast
  show "d \<in> set (desc_allocated s) \<Longrightarrow> vchan_inv (snd (vchan_tx_submit d s)) \<and>
      pending (snd (vchan_tx_submit d s)) = pending s @ [d]"
    using vchan_submit_inv[OF s] by blast
  show "vchan_inv (snd (vchan_issue_pending s)) \<and> pending (snd (vchan_issue_pending s)) = pending s"
    using vchan_issue_inv[OF s] by blast
  show "vchan_next_desc s = Some d \<Longrightarrow>
      \<exists>s'. vchan_finish_next s = Some s' \<and> vchan_inv s' \<and> pending s = d # pending s'"
    using vchan_finish_inv[OF s] by blast
qed

text \<open>Releasing a channel returns every descriptor to \<open>desc_free\<close> exactly once, as long as that does not touch the lists.\<close>

lemma fini_fold_no_reuse:
  assumes "\<forall>d \<in> set ds. DMA_CTRL_REUSE \<notin> tx_flags (vd_store vc d)" "\<And>d vc. df d vc = Some vc"
  shows "opt_fold (vchan_vdesc_fini df) ds vc = Some (vc\<lparr>freed := freed vc @ ds\<rparr>)"
  using assms by (induction ds arbitrary: vc) (auto simp: vchan_vdesc_fini_def)

lemma clear_reuse_fold:
  "fold (\<lambda>d. vd_update d (\<lambda>v. v\<lparr>tx_flags := tx_flags v - {DMA_CTRL_REUSE}\<rparr>)) ds vc =
   vc\<lparr>vd_store := (\<lambda>d. if d \<in> set ds then (vd_store vc d)\<lparr>tx_flags := tx_flags (vd_store vc d) - {DMA_CTRL_REUSE}\<rparr>
                      else vd_store vc d)\<rparr>"
proof (induction ds arbitrary: vc)
  case (Cons d ds)
  show ?case
    unfolding fold_Cons comp_def Cons.IH
    by (simp add: vd_update_def) (rule arg_cong[where f = "\<lambda>f. vc\<lparr>vd_store := f\<rparr>"], auto simp: fun_eq_iff vd_update_def)
qed simp

lemma vchan_release_frees_all:
  assumes "\<And>d vc. df d vc = Some vc"
  shows "\<exists>vc'. vchan_free_chan_resources df vc = Some vc' \<and> freed vc' = freed vc @ all_descs vc \<and> all_descs vc' = []"
  by (simp add: vchan_free_chan_resources_def vchan_get_all_descriptors_def vchan_dma_desc_free_list_def
      clear_reuse_fold fini_fold_no_reuse[OF _ assms] all_descs_def)

section \<open>What the channel promises\<close>

text \<open>C24. Descriptors complete in the order in which they were submitted, however many are outstanding: take any run of preparations,
  submissions (in whatever order), issues and completions from an initialised channel.  The completed descriptors followed by those that wait are the submitted ones, in their
  order, so what completes is an initial part of what was submitted.\<close>

theorem vchan_completes_in_order:
  assumes "desc_queue.qrun (\<lambda>vc. set (desc_allocated vc)) vchan_next_desc (\<lambda>d vc. d \<notin> set (all_descs vc)) vchan_tx_prep
      (\<lambda>d vc. snd (vchan_tx_submit d vc)) (\<lambda>vc. snd (vchan_issue_pending vc)) vchan_finish_next
      (vchan_init vc) subs fins s"
  shows "subs = fins @ desc_issued s @ desc_submitted s \<and> fins = take (length fins) subs \<and> vchan_inv s"
proof -
  have i: "vchan_inv (vchan_init vc)" "pending (vchan_init vc) = []"
    by (simp_all add: vchan_init_inv) (simp add: pending_def vchan_init_def dma_cookie_init_def)
  show ?thesis using vq.qrun_fifo[OF assms i(1)] vq.qrun_prefix[OF assms i] i(2) by (simp add: pending_def)
qed

definition empty_desc :: virt_dma_desc where
  "empty_desc = \<lparr>tx_cookie = 0, tx_flags = {},
     tx_cb = \<lparr>cb_callback = None, cb_callback_result = None, cb_param = None\<rparr>,
     tx_result = \<lparr>res_code = 0, res_residue = 0\<rparr>\<rparr>"

definition empty_chan :: virt_dma_chan where
  "empty_chan = \<lparr>chan_cookie = 0, completed_cookie = 0, desc_allocated = [], desc_submitted = [],
     desc_issued = [], desc_completed = [], desc_terminated = [], cyclic = None, task_scheduled = False,
     vd_store = (\<lambda>_. empty_desc), freed = [], called = []\<rparr>"

text \<open>Three descriptors are prepared and submitted in another order, all of them issued, and two complete.\<close>

theorem vchan_completes_in_order_witness:
  "\<exists>s :: virt_dma_chan. [7, 9] = take 2 [7, 9, 8] \<and> [7, 9, 8] = [7, 9] @ desc_issued s @ desc_submitted s \<and> desc_completed s = [7, 9]"
proof -
  let ?sub = "\<lambda>d vc. snd (vchan_tx_submit d vc)"
  let ?p = "vchan_tx_prep 9 {} (vchan_tx_prep 8 {} (vchan_tx_prep 7 {} (vchan_init empty_chan)))"
  let ?s = "snd (vchan_issue_pending (?sub 8 (?sub 9 (?sub 7 ?p))))"
  note e = vchan_defs vchan_init_def dma_cookie_init_def empty_chan_def all_descs_def DMA_MIN_COOKIE_def
  have p: "vq.qrun (vchan_init empty_chan) [] [] ?p"
    by (intro vq.qrun.prepare vq.qrun.start) (simp_all add: e)
  have s: "vq.qrun (vchan_init empty_chan) [7, 9, 8] [] ?s"
    using vq.qrun.issue[OF vq.qrun.submit[OF vq.qrun.submit[OF vq.qrun.submit[OF p, of 7], of 9], of 8]] by (simp add: e)
  obtain s1 where s1: "vchan_next_desc ?s = Some 7" "vchan_finish_next ?s = Some s1" "vchan_next_desc s1 = Some 9" "desc_completed s1 = [7]"
    by (simp add: e)
  obtain s2 where s2: "vchan_finish_next s1 = Some s2" "desc_completed s2 = [7, 9]"
    using vchan_finish_inv[of s1 9] s1 vq.qrun_fifo[OF vq.qrun.finish[OF s s1(1,2)] vchan_init_inv] by auto
  from vchan_completes_in_order[OF vq.qrun.finish[OF vq.qrun.finish[OF s s1(1,2)] s1(3) s2(1)]] s2(2)
  show ?thesis by auto
qed

text \<open>The cookie a submission returns is a positive signed number, also when the
  32-bit counter wraps, and it becomes the last cookie of the channel and the
  cookie of the descriptor.\<close>

theorem dma_cookie_assign_positive:
  "1 \<le> sint (fst (dma_cookie_assign d vc)) \<and>
   chan_cookie (snd (dma_cookie_assign d vc)) = fst (dma_cookie_assign d vc) \<and>
   cookie_of (snd (dma_cookie_assign d vc)) d = fst (dma_cookie_assign d vc)"
  by (simp add: vchan_defs)

end
