(* ===== verification/MtdmaCore.thy ===== *)
theory MtdmaCore
  imports DmaRegs VirtDma "HOL-Library.Monad_Syntax"
begin

text \<open>
  The MTDMA driver of \<open>src/driver/mt-emu-mtdma-core.c\<close> on top of the virtual
  channel: descriptors built from a scatter list in chunks of bursts, the
  programming of one chunk, the channel's state machine (request, status), the
  interrupt handlers, channel setup, probe and remove.  A null dereference and
  a write through the uninitialised descriptor pointer are \<open>None\<close>.
  \<open>mem n\<close> tells whether the \<open>n\<close>-th allocation of an operation succeeds; how many structures a channel has allocated
  and not yet freed is counted in its field \<open>ch_live\<close>.
\<close>

section \<open>Data\<close>

datatype mtdma_request = MTDMA_REQ_NONE | MTDMA_REQ_STOP | MTDMA_REQ_PAUSE

datatype mtdma_status = MTDMA_ST_IDLE | MTDMA_ST_PAUSE | MTDMA_ST_BUSY

record mtdma_burst =
  b_sar :: u64
  b_dar :: u64
  b_sz :: u32

text \<open>\<open>ck_bursts\<close> is \<open>None\<close> before the list head is allocated.\<close>

record mtdma_chunk =
  ck_bursts :: "mtdma_burst list option"
  ck_bursts_alloc :: u32
  ck_paddr :: u64
  ck_vaddr :: ioaddr
  ck_sz :: u32

record mtdma_desc =
  md_chunks :: "mtdma_chunk list option"
  md_chunks_alloc :: u32
  md_alloc_sz :: u32
  md_xfer_sz :: u32

record mtdma_chan = virt_dma_chan +
  ch_id :: nat
  ch_dir :: dma_direction
  ch_info :: mtdma_chan_info
  ch_request :: mtdma_request
  ch_status :: mtdma_status
  ch_configured :: bool
  ch_src_addr :: u64
  ch_dst_addr :: u64
  ch_descs :: "nat \<Rightarrow> mtdma_desc"
  ch_live :: int
  ch_trace :: trace

definition EPERM :: int where "EPERM = 1"
definition EBUSY :: int where "EBUSY = 16"
definition EINVAL :: int where "EINVAL = 22"

text \<open>Register accesses of a channel are appended to its trace.\<close>

definition ch_do :: "'a io \<Rightarrow> mtdma_chan \<Rightarrow> 'a \<times> mtdma_chan" where
  "ch_do m ch = (result_of m (ch_trace ch), ch\<lparr>ch_trace := exec m (ch_trace ch)\<rparr>)"

section \<open>Programming the hardware\<close>

definition mtdma_v0_core_ch_status :: "hardware \<Rightarrow> mtdma_chan \<Rightarrow> dma_status \<times> mtdma_chan" where
  "mtdma_v0_core_ch_status hw ch =
    (let (tmp, ch) = ch_do (GET_CH_32 hw (ch_info ch) REG_DMA_CH_STATUS) ch in
     (if tmp AND DMA_CH_STATUS_BUSY \<noteq> 0 then DMA_IN_PROGRESS else DMA_COMPLETE, ch))"

definition lli_of :: "mtdma_chan_info \<Rightarrow> nat \<Rightarrow> ioaddr" where
  "lli_of info i = lli_at (rg_vaddr info) (ll_vaddr info) i"

fun write_bursts :: "mtdma_chan_info \<Rightarrow> nat \<Rightarrow> mtdma_burst list \<Rightarrow> unit io" where
  "write_bursts info i [] = State_Monad.return ()"
| "write_bursts info i (child # rest) =
    (let lli = lli_of info i; lar = ll_laddr info + of_nat i * 32 in do {
       _ \<leftarrow> SET_LL_32 lli DESC_OP DMA_CH_DESC_BIT_CHAIN_EN;
       _ \<leftarrow> SET_LL_32 lli DESC_CNT (b_sz child - 1);
       _ \<leftarrow> SET_LL_32 lli DESC_SAR_L (lower_32_bits (b_sar child));
       _ \<leftarrow> SET_LL_32 lli DESC_SAR_H (upper_32_bits (b_sar child));
       _ \<leftarrow> SET_LL_32 lli DESC_DAR_L (lower_32_bits (b_dar child));
       _ \<leftarrow> SET_LL_32 lli DESC_DAR_H (upper_32_bits (b_dar child));
       _ \<leftarrow> SET_LL_32 lli DESC_LAR_L (lower_32_bits lar);
       _ \<leftarrow> SET_LL_32 lli DESC_LAR_H (upper_32_bits lar);
       write_bursts info (i + 1) rest })"

text \<open>The last store goes through the pointer the loop left behind, which is
  uninitialised when there is no burst.\<close>

definition mtdma_v0_core_write_chunk :: "mtdma_chan_info \<Rightarrow> mtdma_chunk \<Rightarrow> unit io option" where
  "mtdma_v0_core_write_chunk info chunk =
    (case ck_bursts chunk of
       None \<Rightarrow> None
     | Some [] \<Rightarrow> None
     | Some bs \<Rightarrow> Some (do {
         _ \<leftarrow> write_bursts info 0 bs;
         SET_LL_32 (lli_of info (length bs - 1)) DESC_OP DMA_CH_DESC_BIT_INTR_EN }))"

definition mtdma_v0_core_start ::
    "hardware \<Rightarrow> dma_direction \<Rightarrow> mtdma_chan_info \<Rightarrow> mtdma_chunk \<Rightarrow> unit io option" where
  "mtdma_v0_core_start hw dir info chunk =
    (case mtdma_v0_core_write_chunk info chunk of
       None \<Rightarrow> None
     | Some wr \<Rightarrow>
        (let ch_en = (if dir = DMA_MEM_TO_DEV then DMA_CH_EN_BIT_DESC_MST1 else 0) in
         Some (do {
           _ \<leftarrow> wr;
           _ \<leftarrow> SET_CH_32 info REG_DMA_CH_ENABLE ch_en;
           _ \<leftarrow> SET_CH_32 info REG_DMA_CH_FC (1 OR push_bit 1 WCH_FC_THLD);
           _ \<leftarrow> SET_CH_32 info REG_DMA_CH_INTR_IMSK 0;
           raw \<leftarrow> GET_CH_32 hw info REG_DMA_CH_INTR_RAW;
           _ \<leftarrow> SET_CH_32 info REG_DMA_CH_INTR_RAW raw;
           _ \<leftarrow> GET_CH_32 hw info REG_DMA_CH_ENABLE;
           SET_CH_32 info REG_DMA_CH_ENABLE (ch_en OR DMA_CH_EN_BIT_ENABLE) })))"

definition mtdma_v0_core_device_config :: "mtdma_chan \<Rightarrow> int" where
  "mtdma_v0_core_device_config ch = 0"

section \<open>Building and freeing descriptors\<close>

text \<open>The allocator: the number of calls of \<open>kzalloc\<close>, and of the structures that are allocated.\<close>

record kheap =
  kh_calls :: nat
  kh_live :: int

definition kzalloc :: "(nat \<Rightarrow> bool) \<Rightarrow> kheap \<Rightarrow> bool \<times> kheap" where
  "kzalloc mem h =
    (if mem (kh_calls h) then (True, h\<lparr>kh_calls := kh_calls h + 1, kh_live := kh_live h + 1\<rparr>)
     else (False, h\<lparr>kh_calls := kh_calls h + 1\<rparr>))"

definition kfree :: "kheap \<Rightarrow> kheap" where
  "kfree h = h\<lparr>kh_live := kh_live h - 1\<rparr>"

text \<open>The result is the new state of the structure, or \<open>None\<close> when \<open>kzalloc\<close> fails.  The first call for a chunk
  allocates the list head of its bursts.\<close>

definition mtdma_alloc_burst ::
    "(nat \<Rightarrow> bool) \<Rightarrow> kheap \<Rightarrow> mtdma_chunk \<Rightarrow> mtdma_chunk option \<times> kheap" where
  "mtdma_alloc_burst mem h chunk =
    (let (ok, h) = kzalloc mem h in
     if \<not> ok then (None, h)
     else
       (let burst = \<lparr>b_sar = 0, b_dar = 0, b_sz = 0\<rparr> in
        case ck_bursts chunk of
          Some bs \<Rightarrow> (Some (chunk\<lparr>ck_bursts_alloc := ck_bursts_alloc chunk + 1,
                                    ck_bursts := Some (bs @ [burst])\<rparr>), h)
        | None \<Rightarrow> (Some (chunk\<lparr>ck_bursts_alloc := 0, ck_bursts := Some []\<rparr>), h)))"

text \<open>The first call for a descriptor creates the list head of its chunks, every
  other call a chunk at the end of the list.\<close>

definition mtdma_alloc_chunk ::
    "(nat \<Rightarrow> bool) \<Rightarrow> kheap \<Rightarrow> mtdma_chan_info \<Rightarrow> mtdma_desc \<Rightarrow> mtdma_desc option \<times> kheap" where
  "mtdma_alloc_chunk mem h info desc =
    (let (ok, h) = kzalloc mem h in
     if \<not> ok then (None, h)
     else
       (let chunk = \<lparr>ck_bursts = None, ck_bursts_alloc = 0, ck_paddr = ll_laddr info,
                     ck_vaddr = ll_vaddr info, ck_sz = 0\<rparr> in
        case md_chunks desc of
          Some cs \<Rightarrow>
            (case mtdma_alloc_burst mem h chunk of
               (None, h) \<Rightarrow> (None, kfree h)
             | (Some chunk, h) \<Rightarrow>
                 (Some (desc\<lparr>md_chunks_alloc := md_chunks_alloc desc + 1,
                             md_chunks := Some (cs @ [chunk])\<rparr>), h))
        | None \<Rightarrow> (Some (desc\<lparr>md_chunks_alloc := 0, md_chunks := Some []\<rparr>), h)))"

definition zero_desc :: mtdma_desc where
  "zero_desc = \<lparr>md_chunks = None, md_chunks_alloc = 0, md_alloc_sz = 0, md_xfer_sz = 0\<rparr>"

definition mtdma_alloc_desc ::
    "(nat \<Rightarrow> bool) \<Rightarrow> kheap \<Rightarrow> mtdma_chan_info \<Rightarrow> mtdma_desc option \<times> kheap" where
  "mtdma_alloc_desc mem h info =
    (let (ok, h) = kzalloc mem h in
     if \<not> ok then (None, h)
     else (case mtdma_alloc_chunk mem h info zero_desc of
             (None, h) \<Rightarrow> (None, kfree h)
           | (Some desc, h) \<Rightarrow> (Some desc, h)))"

text \<open>Freeing takes the elements off the list one by one and then frees the head.\<close>

fun free_burst_list :: "mtdma_burst list \<Rightarrow> mtdma_chunk \<Rightarrow> kheap \<Rightarrow> mtdma_chunk \<times> kheap" where
  "free_burst_list [] chunk h = (chunk, h)"
| "free_burst_list (b # bs) chunk h =
    free_burst_list bs (chunk\<lparr>ck_bursts := Some bs, ck_bursts_alloc := ck_bursts_alloc chunk - 1\<rparr>) (kfree h)"

definition mtdma_free_burst :: "mtdma_chunk \<Rightarrow> kheap \<Rightarrow> (mtdma_chunk \<times> kheap) option" where
  "mtdma_free_burst chunk h =
    (case ck_bursts chunk of
       None \<Rightarrow> None
     | Some bs \<Rightarrow> (let (chunk, h) = free_burst_list bs chunk h in Some (chunk\<lparr>ck_bursts := None\<rparr>, kfree h)))"

fun free_chunk_list :: "mtdma_chunk list \<Rightarrow> mtdma_desc \<Rightarrow> kheap \<Rightarrow> (mtdma_desc \<times> kheap) option" where
  "free_chunk_list [] desc h = Some (desc, h)"
| "free_chunk_list (c # cs) desc h =
    (case mtdma_free_burst c h of
       None \<Rightarrow> None
     | Some (c, h) \<Rightarrow>
         free_chunk_list cs (desc\<lparr>md_chunks := Some cs, md_chunks_alloc := md_chunks_alloc desc - 1\<rparr>) (kfree h))"

definition mtdma_free_chunk :: "mtdma_desc \<Rightarrow> kheap \<Rightarrow> (mtdma_desc \<times> kheap) option" where
  "mtdma_free_chunk desc h =
    (case md_chunks desc of
       None \<Rightarrow> Some (desc, h)
     | Some cs \<Rightarrow> map_option (\<lambda>(d, h). (d\<lparr>md_chunks := None\<rparr>, kfree h)) (free_chunk_list cs desc h))"

definition mtdma_free_desc :: "mtdma_desc \<Rightarrow> kheap \<Rightarrow> (mtdma_desc \<times> kheap) option" where
  "mtdma_free_desc desc h = map_option (\<lambda>(d, h). (d, kfree h)) (mtdma_free_chunk desc h)"

definition heap_of :: "mtdma_chan \<Rightarrow> kheap" where
  "heap_of ch = \<lparr>kh_calls = 0, kh_live = ch_live ch\<rparr>"

definition vchan_free_desc :: "nat \<Rightarrow> mtdma_chan \<Rightarrow> mtdma_chan option" where
  "vchan_free_desc d ch =
    map_option (\<lambda>(m, h). ch\<lparr>ch_descs := (ch_descs ch)(d := m), ch_live := kh_live h\<rparr>)
      (mtdma_free_desc (ch_descs ch d) (heap_of ch))"

section \<open>Starting and preparing transfers\<close>

definition mtdma_start_transfer :: "hardware \<Rightarrow> mtdma_chan \<Rightarrow> mtdma_chan option" where
  "mtdma_start_transfer hw ch =
    (case vchan_next_desc ch of
       None \<Rightarrow> Some ch
     | Some vd \<Rightarrow>
        (let desc = ch_descs ch vd in
         case md_chunks desc of
           None \<Rightarrow> None
         | Some [] \<Rightarrow> Some ch
         | Some (child # rest) \<Rightarrow>
            (case mtdma_v0_core_start hw (ch_dir ch) (ch_info ch) child of
               None \<Rightarrow> None
             | Some start \<Rightarrow>
                (let ch = snd (ch_do start ch);
                     desc = desc\<lparr>md_xfer_sz := md_xfer_sz desc + ck_sz child\<rparr> in do {
                   (child, h) \<leftarrow> mtdma_free_burst child (heap_of ch);
                   let desc = desc\<lparr>md_chunks := Some rest, md_chunks_alloc := md_chunks_alloc desc - 1\<rparr>;
                   Some (ch\<lparr>ch_descs := (ch_descs ch)(vd := desc), ch_live := kh_live (kfree h)\<rparr>) }))))"

definition mtdma_device_config :: "u64 \<Rightarrow> u64 \<Rightarrow> mtdma_chan \<Rightarrow> int \<times> mtdma_chan" where
  "mtdma_device_config src dst ch = (0, ch\<lparr>ch_src_addr := src, ch_dst_addr := dst, ch_configured := True\<rparr>)"

definition request_level :: "mtdma_request \<Rightarrow> nat" where
  "request_level r = (case r of MTDMA_REQ_NONE \<Rightarrow> 0 | MTDMA_REQ_STOP \<Rightarrow> 1 | MTDMA_REQ_PAUSE \<Rightarrow> 2)"

definition mtdma_device_terminate_all :: "hardware \<Rightarrow> mtdma_chan \<Rightarrow> int \<times> mtdma_chan" where
  "mtdma_device_terminate_all hw ch =
    (if \<not> ch_configured ch then (0, ch)
     else if ch_status ch = MTDMA_ST_PAUSE then (0, ch\<lparr>ch_status := MTDMA_ST_IDLE, ch_configured := False\<rparr>)
     else if ch_status ch = MTDMA_ST_IDLE then (0, ch\<lparr>ch_configured := False\<rparr>)
     else
       (let (st, ch) = mtdma_v0_core_ch_status hw ch in
        if st = DMA_COMPLETE then (0, ch\<lparr>ch_status := MTDMA_ST_IDLE, ch_configured := False\<rparr>)
        else if request_level (ch_request ch) > request_level MTDMA_REQ_PAUSE then (- EPERM, ch)
        else (0, ch\<lparr>ch_request := MTDMA_REQ_STOP\<rparr>)))"

text \<open>The issued list is only extended when the three flags allow it: the condition
  is evaluated from left to right.\<close>

definition mtdma_device_issue_pending :: "hardware \<Rightarrow> mtdma_chan \<Rightarrow> mtdma_chan option" where
  "mtdma_device_issue_pending hw ch =
    (if ch_configured ch \<and> ch_request ch = MTDMA_REQ_NONE \<and> ch_status ch = MTDMA_ST_IDLE
     then
       (let (any, ch) = vchan_issue_pending ch in
        if any then mtdma_start_transfer hw (ch\<lparr>ch_status := MTDMA_ST_BUSY\<rparr>) else Some ch)
     else Some ch)"

definition mtdma_device_tx_status ::
    "(u32 \<Rightarrow> u32 \<Rightarrow> u32 \<Rightarrow> dma_status) \<Rightarrow> mtdma_chan \<Rightarrow> u32 \<Rightarrow> bool \<Rightarrow> dma_status \<times> dma_tx_state option" where
  "mtdma_device_tx_status is_complete ch cookie has_state =
    (let (ret, st) = dma_cookie_status is_complete ch cookie has_state in
     if ret = DMA_COMPLETE then (ret, st)
     else
       (let ret = (if ret = DMA_IN_PROGRESS \<and> ch_status ch = MTDMA_ST_PAUSE then DMA_PAUSED else ret);
            residue = (if \<not> has_state then 0
                       else (case vchan_find_desc ch cookie of
                               Some d \<Rightarrow> md_alloc_sz (ch_descs ch d) - md_xfer_sz (ch_descs ch d)
                             | None \<Rightarrow> 0))
        in (ret, dma_set_residue st residue)))"

text \<open>One entry of the mapped scatter list: bus address and length.\<close>

type_synonym sg_entry = "u64 \<times> u32"

text \<open>The chunk the loop works on is the last one of the descriptor.\<close>

definition last_chunk :: "mtdma_desc \<Rightarrow> mtdma_chunk" where
  "last_chunk desc = last (the (md_chunks desc))"

definition set_last_chunk :: "mtdma_chunk \<Rightarrow> mtdma_desc \<Rightarrow> mtdma_desc" where
  "set_last_chunk c desc = desc\<lparr>md_chunks := Some (butlast (the (md_chunks desc)) @ [c])\<rparr>"

definition set_last_burst :: "mtdma_burst \<Rightarrow> mtdma_chunk \<Rightarrow> mtdma_chunk" where
  "set_last_burst b c = c\<lparr>ck_bursts := Some (butlast (the (ck_bursts c)) @ [b])\<rparr>"

text \<open>The loop over the scatter list.  The boolean tells whether it reached the end
  or stopped at a failed allocation.\<close>

fun transfer_loop ::
    "(nat \<Rightarrow> bool) \<Rightarrow> mtdma_chan_info \<Rightarrow> dma_direction \<Rightarrow> kheap \<Rightarrow> mtdma_desc \<Rightarrow> u64 \<Rightarrow> u64 \<Rightarrow>
     sg_entry list \<Rightarrow> bool \<times> mtdma_desc \<times> kheap" where
  "transfer_loop mem info dir h desc src dst [] = (True, desc, h)"
| "transfer_loop mem info dir h desc src dst ((addr, len) # sgs) =
    (case (if ck_bursts_alloc (last_chunk desc) = ll_max info then mtdma_alloc_chunk mem h info desc
           else (Some desc, h)) of
       (None, h) \<Rightarrow> (False, desc, h)
     | (Some desc, h) \<Rightarrow>
        (case mtdma_alloc_burst mem h (last_chunk desc) of
           (None, h) \<Rightarrow> (False, desc, h)
         | (Some chunk, h) \<Rightarrow>
            (let burst = (if dir = DMA_MEM_TO_DEV then \<lparr>b_sar = addr, b_dar = dst, b_sz = len\<rparr>
                          else \<lparr>b_sar = src, b_dar = addr, b_sz = len\<rparr>);
                 chunk = (set_last_burst burst chunk)\<lparr>ck_sz := ck_sz chunk + len\<rparr>;
                 desc = (set_last_chunk chunk desc)\<lparr>md_alloc_sz := md_alloc_sz desc + len\<rparr>
             in transfer_loop mem info dir h desc
                  (if dir = DMA_MEM_TO_DEV then src else src + ucast len)
                  (if dir = DMA_MEM_TO_DEV then dst + ucast len else dst) sgs)))"

text \<open>The label \<open>err_alloc\<close>: a descriptor that was begun is freed.\<close>

definition err_alloc :: "mtdma_chan \<Rightarrow> mtdma_desc option \<Rightarrow> kheap \<Rightarrow> (nat option \<times> mtdma_chan) option" where
  "err_alloc ch desc h =
    (case desc of
       None \<Rightarrow> Some (None, ch\<lparr>ch_live := kh_live h\<rparr>)
     | Some desc \<Rightarrow> map_option (\<lambda>(d, h). (None, ch\<lparr>ch_live := kh_live h\<rparr>)) (mtdma_free_desc desc h))"

text \<open>The new descriptor has the address \<open>d\<close>.  The scatter list may end before
  \<open>len\<close> entries.\<close>

definition mtdma_device_transfer ::
    "(nat \<Rightarrow> bool) \<Rightarrow> nat \<Rightarrow> sg_entry list \<Rightarrow> u32 \<Rightarrow> dma_ctrl_flag set \<Rightarrow> mtdma_chan \<Rightarrow>
     (nat option \<times> mtdma_chan) option" where
  "mtdma_device_transfer mem d sgl len fl ch =
    (if \<not> ch_configured ch then Some (None, ch)
     else if len < 1 then Some (None, ch)
     else
       (case mtdma_alloc_desc mem (heap_of ch) (ch_info ch) of
          (None, h) \<Rightarrow> err_alloc ch None h
        | (Some desc, h) \<Rightarrow>
           (case mtdma_alloc_chunk mem h (ch_info ch) desc of
              (None, h) \<Rightarrow> err_alloc ch (Some desc) h
            | (Some desc, h) \<Rightarrow>
               (case transfer_loop mem (ch_info ch) (ch_dir ch) h desc (ch_src_addr ch) (ch_dst_addr ch)
                       (take (unat len) sgl) of
                  (False, desc, h) \<Rightarrow> err_alloc ch (Some desc) h
                | (True, desc, h) \<Rightarrow>
                   Some (Some d, vchan_tx_prep d fl
                     (ch\<lparr>ch_descs := (ch_descs ch)(d := desc), ch_live := kh_live h,
                         vd_store := (vd_store ch)(d := empty_desc)\<rparr>))))))"

definition mtdma_device_prep_slave_sg ::
    "(nat \<Rightarrow> bool) \<Rightarrow> nat \<Rightarrow> sg_entry list \<Rightarrow> u32 \<Rightarrow> dma_direction \<Rightarrow> dma_ctrl_flag set \<Rightarrow> mtdma_chan \<Rightarrow>
     (nat option \<times> mtdma_chan) option" where
  "mtdma_device_prep_slave_sg mem d sgl len dir fl ch = mtdma_device_transfer mem d sgl len fl ch"

section \<open>Interrupts\<close>

definition mtdma_done_interrupt :: "hardware \<Rightarrow> mtdma_chan \<Rightarrow> mtdma_chan option" where
  "mtdma_done_interrupt hw ch =
    (case vchan_next_desc ch of
       None \<Rightarrow> Some ch
     | Some vd \<Rightarrow>
        (case ch_request ch of
           MTDMA_REQ_NONE \<Rightarrow>
             if md_chunks_alloc (ch_descs ch vd) \<noteq> 0
             then mtdma_start_transfer hw (ch\<lparr>ch_status := MTDMA_ST_BUSY\<rparr>)
             else map_option (\<lambda>ch. ch\<lparr>ch_status := MTDMA_ST_IDLE\<rparr>) (vchan_cookie_complete vd (list_del vd ch))
         | MTDMA_REQ_STOP \<Rightarrow>
             map_option (\<lambda>ch. ch\<lparr>ch_request := MTDMA_REQ_NONE, ch_status := MTDMA_ST_IDLE\<rparr>)
               (vchan_cookie_complete vd (list_del vd ch))
         | MTDMA_REQ_PAUSE \<Rightarrow> Some (ch\<lparr>ch_request := MTDMA_REQ_NONE, ch_status := MTDMA_ST_PAUSE\<rparr>)))"

definition mtdma_abort_interrupt :: "mtdma_chan \<Rightarrow> mtdma_chan option" where
  "mtdma_abort_interrupt ch =
    map_option (\<lambda>ch. ch\<lparr>ch_request := MTDMA_REQ_NONE, ch_status := MTDMA_ST_IDLE\<rparr>)
      (case vchan_next_desc ch of
         None \<Rightarrow> Some ch
       | Some vd \<Rightarrow> vchan_cookie_complete vd (list_del vd ch))"

definition ERR_BITS :: u32 where
  "ERR_BITS = DMA_CH_INTR_BIT_ERR_DATA OR DMA_CH_INTR_BIT_ERR_DESC_READ OR DMA_CH_INTR_BIT_ERR_CFG"

definition mtdma_isr :: "hardware \<Rightarrow> mtdma_chan \<Rightarrow> mtdma_chan option" where
  "mtdma_isr hw ch =
    (let (status, ch) = ch_do (GET_CH_32 hw (ch_info ch) REG_DMA_CH_INTR_RAW) ch;
         ch = snd (ch_do (SET_CH_32 (ch_info ch) REG_DMA_CH_INTR_RAW status) ch);
         ch = snd (ch_do (GET_CH_32 hw (ch_info ch) REG_DMA_CH_INTR_RAW) ch)
     in do {
       ch \<leftarrow> (if status AND DMA_CH_INTR_BIT_DONE \<noteq> 0 then mtdma_done_interrupt hw ch else Some ch);
       if status AND ERR_BITS \<noteq> 0 then mtdma_abort_interrupt ch else Some ch })"

section \<open>Channel resources\<close>

definition mtdma_alloc_chan_resources :: "mtdma_chan \<Rightarrow> int" where
  "mtdma_alloc_chan_resources ch = (if ch_status ch \<noteq> MTDMA_ST_IDLE then - EBUSY else 0)"

text \<open>The clock is the list of answers to "is it before the timeout"; when it is
  exhausted the timeout has passed.  The boolean tells whether the power
  reference is dropped.\<close>

fun mtdma_free_chan_resources :: "hardware \<Rightarrow> bool list \<Rightarrow> mtdma_chan \<Rightarrow> bool \<times> mtdma_chan" where
  "mtdma_free_chan_resources hw [] ch = (True, ch)"
| "mtdma_free_chan_resources hw (before # clock) ch =
    (if \<not> before then (True, ch)
     else
       (let (ret, ch) = mtdma_device_terminate_all hw ch in
        if ret = 0 then (True, ch)
        else (case clock of
                [] \<Rightarrow> (False, ch)
              | before2 # clock' \<Rightarrow>
                  if \<not> before2 then (False, ch) else mtdma_free_chan_resources hw clock' ch)))"

section \<open>Probe and remove\<close>

record mtdma =
  wr_ch_cnt :: u16
  rd_ch_cnt :: u16
  wr_chan :: "mtdma_chan list"
  rd_chan :: "mtdma_chan list"
  isr_set :: bool

definition MTDMA_MAX_WR_CH :: u16 where "MTDMA_MAX_WR_CH = 64"
definition MTDMA_MAX_RD_CH :: u16 where "MTDMA_MAX_RD_CH = 64"

definition map_first :: "nat \<Rightarrow> ('a \<Rightarrow> 'a) \<Rightarrow> 'a list \<Rightarrow> 'a list" where
  "map_first n f xs = map f (take n xs) @ drop n xs"

definition disable_chan :: "mtdma_chan \<Rightarrow> mtdma_chan" where
  "disable_chan ch = snd (ch_do (SET_CH_32 (ch_info ch) REG_DMA_CH_ENABLE 0) ch)"

definition mtdma_v0_core_off :: "mtdma \<Rightarrow> mtdma" where
  "mtdma_v0_core_off md =
     md\<lparr>wr_chan := map_first (unat (wr_ch_cnt md)) disable_chan (wr_chan md),
        rd_chan := map_first (unat (rd_ch_cnt md)) disable_chan (rd_chan md)\<rparr>"

definition setup_chan :: "dma_direction \<Rightarrow> nat \<Rightarrow> mtdma_chan \<Rightarrow> mtdma_chan" where
  "setup_chan dir i ch =
     vchan_init (ch\<lparr>ch_id := i, ch_dir := dir, ch_configured := False,
       ch_request := MTDMA_REQ_NONE, ch_status := MTDMA_ST_IDLE\<rparr>)"

definition setup_chans :: "dma_direction \<Rightarrow> nat \<Rightarrow> mtdma_chan list \<Rightarrow> mtdma_chan list" where
  "setup_chans dir cnt chs =
     map (\<lambda>(i, ch). setup_chan dir i ch) (zip [0..<cnt] (take cnt chs)) @ drop cnt chs"

text \<open>\<open>reg j\<close> is the result of registering the write (0) and the read (1) device with
  the kernel; both are registered, and the result is that of the last call.\<close>

definition mtdma_channel_setup :: "(nat \<Rightarrow> int) \<Rightarrow> mtdma \<Rightarrow> int \<times> mtdma" where
  "mtdma_channel_setup reg md =
    (let md = md\<lparr>wr_chan := setup_chans DMA_DEV_TO_MEM (unat (wr_ch_cnt md)) (wr_chan md)\<rparr>;
         err = reg 0;
         md = md\<lparr>rd_chan := setup_chans DMA_MEM_TO_DEV (unat (rd_ch_cnt md)) (rd_chan md)\<rparr>;
         err = reg 1
     in (err, md))"

text \<open>The chip, its device and its controller structure may be null: \<open>chip_ok\<close> and
  \<open>dev_ok\<close> are false, or the controller is \<open>None\<close>.\<close>

definition mtdma_probe :: "(nat \<Rightarrow> int) \<Rightarrow> bool \<Rightarrow> bool \<Rightarrow> mtdma option \<Rightarrow> int \<times> mtdma option" where
  "mtdma_probe reg chip_ok dev_ok mdo =
    (if \<not> chip_ok then (- EINVAL, mdo)
     else if \<not> dev_ok then (- EINVAL, mdo)
     else
       (case mdo of
          None \<Rightarrow> (- EINVAL, None)
        | Some md \<Rightarrow>
           (let md = md\<lparr>wr_ch_cnt := min (wr_ch_cnt md) MTDMA_MAX_WR_CH\<rparr>;
                md = md\<lparr>rd_ch_cnt := min (rd_ch_cnt md) MTDMA_MAX_RD_CH\<rparr>
            in if wr_ch_cnt md = 0 \<and> rd_ch_cnt md = 0 then (- EINVAL, Some md)
               else
                 (let (err, md) = mtdma_channel_setup reg (mtdma_v0_core_off md) in
                  if err \<noteq> 0 then (err, Some md) else (0, Some (md\<lparr>isr_set := True\<rparr>))))))"

text \<open>Removal disables every channel and kills the tasklets of all of them.\<close>

definition kill_tasklet :: "mtdma_chan \<Rightarrow> mtdma_chan option" where
  "kill_tasklet ch = (if task_scheduled ch then vchan_complete vchan_free_desc ch else Some ch)"

fun kill_tasklets :: "mtdma_chan list \<Rightarrow> mtdma_chan list option" where
  "kill_tasklets [] = Some []"
| "kill_tasklets (ch # chs) = do { ch \<leftarrow> kill_tasklet ch; chs \<leftarrow> kill_tasklets chs; Some (ch # chs) }"

definition mtdma_remove :: "mtdma \<Rightarrow> (int \<times> mtdma) option" where
  "mtdma_remove md =
    (let md = mtdma_v0_core_off md; w = unat (wr_ch_cnt md); r = unat (rd_ch_cnt md) in do {
       wr \<leftarrow> kill_tasklets (take w (wr_chan md));
       rd \<leftarrow> kill_tasklets (take r (rd_chan md));
       Some (0, md\<lparr>wr_chan := wr @ drop w (wr_chan md), rd_chan := rd @ drop r (rd_chan md)\<rparr>) })"

end
