(* ===== verification/DmaTest.thy ===== *)
theory DmaTest
  imports MtdmaCore
begin

text \<open>
  The DMA test of the driver, from \<open>src/driver/mt-emu-mtdma-test.c\<close>: a user buffer
  is cut into a scatter list of its pages, mapped, and transferred by the engine
  driver as often as asked, each time waiting for the completion that the callback
  of the descriptor signals.  What the kernel answers is a record \<open>rw_env\<close>; the
  resources taken and released are a log.  A null or error pointer that is
  dereferenced, and an index beyond an array, is \<open>None\<close>.
\<close>

section \<open>State\<close>

text \<open>\<open>em_md\<close> is the controller behind \<open>mtdma_chip\<close>, \<open>None\<close> while the chip is null; the
  completions are counters.\<close>

record emu_mtdma =
  em_md :: "mtdma option"
  sem_rd :: "nat list"
  sem_wr :: "nat list"
  done_rd :: "nat list"
  done_wr :: "nat list"

record mtdma_rw =
  rw_laddr :: u64
  rw_size :: u64
  rw_timeout_ms :: u32
  test_cnt :: u32
  rw_ch :: u32
  rw_dir :: u32

definition TEST_CH_NUM :: nat where "TEST_CH_NUM = 64"

definition md_chans :: "bool \<Rightarrow> mtdma \<Rightarrow> mtdma_chan list" where
  "md_chans rd md = (if rd then rd_chan md else wr_chan md)"

definition set_md_chan :: "bool \<Rightarrow> nat \<Rightarrow> mtdma_chan \<Rightarrow> mtdma \<Rightarrow> mtdma" where
  "set_md_chan rd i ch md =
    (if rd then md\<lparr>rd_chan := (rd_chan md)[i := ch]\<rparr> else md\<lparr>wr_chan := (wr_chan md)[i := ch]\<rparr>)"

text \<open>The completion of a write (device to memory) or read channel.\<close>

definition done_of :: "bool \<Rightarrow> nat \<Rightarrow> emu_mtdma \<Rightarrow> nat" where
  "done_of wr c em = (if wr then done_wr em else done_rd em) ! c"

definition set_done :: "bool \<Rightarrow> nat \<Rightarrow> nat \<Rightarrow> emu_mtdma \<Rightarrow> emu_mtdma" where
  "set_done wr c n em =
    (if wr then em\<lparr>done_wr := (done_wr em)[c := n]\<rparr> else em\<lparr>done_rd := (done_rd em)[c := n]\<rparr>)"

section \<open>Initialisation and interrupts\<close>

text \<open>A channel in zeroed memory.\<close>

definition zero_chan :: mtdma_chan where
  "zero_chan = \<lparr>chan_cookie = 0, completed_cookie = 0, desc_allocated = [], desc_submitted = [], desc_issued = [],
     desc_completed = [], desc_terminated = [], cyclic = None, task_scheduled = False, vd_store = (\<lambda>d. empty_desc),
     freed = [], called = [], ch_id = 0, ch_dir = DMA_MEM_TO_MEM,
     ch_info = \<lparr>rg_vaddr = (0, 0), ll_vaddr = (0, 0), ll_laddr = 0, ll_vaddr_system = (0, 0), ll_laddr_system = 0, ll_max = 0\<rparr>,
     ch_request = MTDMA_REQ_NONE, ch_status = MTDMA_ST_IDLE, ch_configured = False, ch_src_addr = 0, ch_dst_addr = 0,
     ch_descs = (\<lambda>d. zero_desc), ch_live = 0, ch_trace = []\<rparr>"

definition init_infos :: "mtdma_chan_info list \<Rightarrow> nat \<Rightarrow> mtdma_chan list" where
  "init_infos infos cnt =
    map (\<lambda>i. if i < cnt then zero_chan\<lparr>ch_info := infos ! i\<rparr> else zero_chan) [0..<TEST_CH_NUM]"

text \<open>\<open>chip_ok\<close> and \<open>md_ok\<close> tell whether the two allocations succeed.  Counts beyond the
  arrays are \<open>None\<close>.\<close>

definition emu_mtdma_init ::
    "bool \<Rightarrow> bool \<Rightarrow> mtdma_chan_info list \<times> nat \<Rightarrow> mtdma_chan_info list \<times> nat \<Rightarrow> emu_mtdma \<Rightarrow> (int \<times> emu_mtdma) option" where
  "emu_mtdma_init chip_ok md_ok wr rd em =
    (if \<not> chip_ok then Some (-1, em)
     else if \<not> md_ok then Some (-1, em)
     else if TEST_CH_NUM < snd wr \<or> TEST_CH_NUM < snd rd then None
     else Some (0, em\<lparr>
       em_md := Some \<lparr>wr_ch_cnt = of_nat (snd wr), rd_ch_cnt = of_nat (snd rd), wr_chan = init_infos (fst wr) (snd wr),
         rd_chan = init_infos (fst rd) (snd rd), isr_set = False\<rparr>,
       done_wr := replicate TEST_CH_NUM 0, sem_wr := replicate TEST_CH_NUM 1,
       done_rd := replicate TEST_CH_NUM 0, sem_rd := replicate TEST_CH_NUM 1\<rparr>))"

definition emu_mtdma_isr :: "hardware \<Rightarrow> bool \<Rightarrow> nat \<Rightarrow> emu_mtdma \<Rightarrow> emu_mtdma option" where
  "emu_mtdma_isr hw rd i em =
    (case em_md em of
       None \<Rightarrow> None
     | Some md \<Rightarrow>
        if \<not> isr_set md \<or> length (md_chans rd md) \<le> i then None
        else map_option (\<lambda>ch. em\<lparr>em_md := Some (set_md_chan rd i ch md)\<rparr>) (mtdma_isr hw (md_chans rd md ! i)))"

text \<open>\<open>mtdma_test_callback\<close> gets the address of the completion, which is a number here.\<close>

definition TEST_CALLBACK :: nat where "TEST_CALLBACK = 0"

definition done_id :: "bool \<Rightarrow> nat \<Rightarrow> nat" where
  "done_id wr c = 2 * c + (if wr then 1 else 0)"

definition mtdma_test_callback :: "nat \<Rightarrow> emu_mtdma \<Rightarrow> emu_mtdma" where
  "mtdma_test_callback p em = set_done (odd p) (p div 2) (done_of (odd p) (p div 2) em + 1) em"

fun run_callbacks :: "cb_event list \<Rightarrow> emu_mtdma \<Rightarrow> emu_mtdma" where
  "run_callbacks [] em = em"
| "run_callbacks (Call f (Some p) # es) em =
    run_callbacks es (if f = TEST_CALLBACK then mtdma_test_callback p em else em)"
| "run_callbacks (e # es) em = run_callbacks es em"

text \<open>The tasklet of a channel, when it is scheduled.\<close>

definition run_tasklet :: "bool \<Rightarrow> nat \<Rightarrow> emu_mtdma \<Rightarrow> emu_mtdma option" where
  "run_tasklet rd i em =
    (case em_md em of
       None \<Rightarrow> Some em
     | Some md \<Rightarrow>
        (let ch = md_chans rd md ! i in
         if task_scheduled ch
         then map_option (\<lambda>ch'. run_callbacks (drop (length (called ch)) (called ch')) (em\<lparr>em_md := Some (set_md_chan rd i ch' md)\<rparr>))
                (vchan_complete vchan_free_desc ch)
         else Some em))"

fun wait_irqs :: "hardware \<Rightarrow> nat \<Rightarrow> bool \<Rightarrow> nat \<Rightarrow> emu_mtdma \<Rightarrow> emu_mtdma option" where
  "wait_irqs hw 0 rd i em = Some em"
| "wait_irqs hw (Suc n) rd i em =
    Option.bind (Option.bind (emu_mtdma_isr hw rd i em) (run_tasklet rd i)) (wait_irqs hw n rd i)"

section \<open>The scatter list of a buffer\<close>

definition sg_count :: "u64 \<Rightarrow> u64 \<Rightarrow> u64" where
  "sg_count off sz = (off + sz + 4096 - 1) div 4096"

text \<open>Length and offset of each entry; only the first page has an offset.\<close>

fun build_sg :: "nat \<Rightarrow> u64 \<Rightarrow> u64 \<Rightarrow> (u32 \<times> u32) list" where
  "build_sg 0 off left = []"
| "build_sg (Suc n) off left =
    (let len = (if 4096 < left then 4096 else left);
         len = (if 4096 < off + len then 4096 - off else len)
     in (ucast len, ucast off) # build_sg n 0 (left - len))"

text \<open>The bus address of page \<open>i\<close> is \<open>bus i\<close>.\<close>

definition mapped_sg :: "(nat \<Rightarrow> u64) \<Rightarrow> (u32 \<times> u32) list \<Rightarrow> sg_entry list" where
  "mapped_sg bus segs = map (\<lambda>(i, len, off). (bus i + ucast off, len)) (zip [0..<length segs] segs)"

section \<open>One transfer\<close>

definition dir_of :: "u32 \<Rightarrow> dma_direction" where
  "dir_of d = (if d = 1 then DMA_MEM_TO_DEV else if d = 2 then DMA_DEV_TO_MEM else if d = 0 then DMA_MEM_TO_MEM else DMA_DEV_TO_DEV)"

text \<open>\<open>mem\<close> are the answers of the allocations, \<open>d\<close> the address of the new descriptor, \<open>junk\<close>
  the uninitialised address of the configuration.\<close>

definition mtdma_xfer ::
    "hardware \<Rightarrow> (nat \<Rightarrow> bool) \<Rightarrow> nat \<Rightarrow> u64 \<Rightarrow> nat \<Rightarrow> u32 \<Rightarrow> u64 \<Rightarrow> sg_entry list \<Rightarrow> mtdma_chan \<Rightarrow> (int \<times> mtdma_chan) option" where
  "mtdma_xfer hw mem d junk done_p dir laddr sgl ch =
    (let ch = snd (if dir = 2 then mtdma_device_config laddr junk ch else mtdma_device_config junk laddr ch) in
     case mtdma_device_prep_slave_sg mem d sgl (of_nat (length sgl)) (dir_of dir) {DMA_PREP_INTERRUPT} ch of
       None \<Rightarrow> None
     | Some (None, ch) \<Rightarrow> Some (-1, ch)
     | Some (Some d, ch) \<Rightarrow>
        (let ch = vd_update d (\<lambda>v. v\<lparr>tx_cb := (tx_cb v)\<lparr>cb_callback := Some TEST_CALLBACK, cb_param := Some done_p\<rparr>\<rparr>) ch;
             (cookie, ch) = vchan_tx_submit d ch;
             ret = (if sint cookie < 0 then sint cookie else 0)
         in if ret \<noteq> 0 then Some (ret, ch)
            else map_option (\<lambda>ch. (ret, ch)) (mtdma_device_issue_pending hw ch)))"

section \<open>The whole test\<close>

datatype chan_answer = ChNull | ChErr | ChOk bool nat

text \<open>\<open>dma_map_sg\<close> returns 0 when it fails, and otherwise the number of entries it made, which is smaller than that of the list
  when it joins neighbours; only then a mapping is taken.\<close>

datatype rw_event = ReqChan | AllocPages | PinPages nat | AllocTable | MapSg | DownSem | UpSem | UnmapSg | FreeTable | FreePages | ReleaseChan

record rw_env =
  chan_ans :: chan_answer
  pages_ok :: bool
  gup_ret :: "u64 \<Rightarrow> int"
  table_ret :: int
  map_ret :: "u64 \<Rightarrow> int"
  down_ret :: int
  bus_addr :: "nat \<Rightarrow> u64"
  cfg_junk :: u64
  mem_ok :: "nat \<Rightarrow> nat \<Rightarrow> bool"
  new_desc :: "nat \<Rightarrow> nat"
  irq_cnt :: "nat \<Rightarrow> nat"

text \<open>One round: the result is the new \<open>ret\<close>.  \<open>irq_cnt i\<close> interrupts of the channel
  arrive before the timeout of round \<open>i\<close>.\<close>

definition rw_round ::
    "hardware \<Rightarrow> rw_env \<Rightarrow> mtdma_rw \<Rightarrow> bool \<Rightarrow> nat \<Rightarrow> sg_entry list \<Rightarrow> nat \<Rightarrow> emu_mtdma \<Rightarrow> (int \<times> emu_mtdma) option" where
  "rw_round hw env ti rd i sgl k em =
    (let wr = (rw_dir ti = 2); c = unat (rw_ch ti); em = set_done wr c 0 em in
     case em_md em of
       None \<Rightarrow> None
     | Some md \<Rightarrow>
        if length (md_chans rd md) \<le> i then None
        else do {
          (ret, ch) \<leftarrow> mtdma_xfer hw (mem_ok env k) (new_desc env k) (cfg_junk env) (done_id wr c) (rw_dir ti) (rw_laddr ti) sgl
             (md_chans rd md ! i);
          let em = em\<lparr>em_md := Some (set_md_chan rd i ch md)\<rparr>;
          (ret, em) \<leftarrow>
            (if ret = 0
             then map_option (\<lambda>em. if done_of wr c em = 0 then (0, em) else (1, set_done wr c (done_of wr c em - 1) em))
               (wait_irqs hw (irq_cnt env k) rd i em)
             else Some (ret, em));
          md \<leftarrow> em_md em;
          let ch = snd (mtdma_device_terminate_all hw (md_chans rd md ! i));
          Some (if ret = 0 then -1 else 0, em\<lparr>em_md := Some (set_md_chan rd i ch md)\<rparr>) })"

fun rw_rounds ::
    "hardware \<Rightarrow> rw_env \<Rightarrow> mtdma_rw \<Rightarrow> bool \<Rightarrow> nat \<Rightarrow> sg_entry list \<Rightarrow> nat list \<Rightarrow> int \<Rightarrow> emu_mtdma \<Rightarrow> (int \<times> emu_mtdma) option" where
  "rw_rounds hw env ti rd i sgl [] ret em = Some (ret, em)"
| "rw_rounds hw env ti rd i sgl (k # ks) ret em =
    Option.bind (rw_round hw env ti rd i sgl k em) (\<lambda>(ret, em). rw_rounds hw env ti rd i sgl ks ret em)"

definition emu_dma_rw :: "hardware \<Rightarrow> rw_env \<Rightarrow> mtdma_rw \<Rightarrow> u64 \<Rightarrow> emu_mtdma \<Rightarrow> (int \<times> emu_mtdma \<times> rw_event list) option" where
  "emu_dma_rw hw env ti userbuf em =
    (if em_md em = None \<or> TEST_CH_NUM \<le> unat (rw_ch ti) then None
     else case chan_ans env of
       ChNull \<Rightarrow> Some (-1, em, [])
     | ChErr \<Rightarrow> None
     | ChOk rd i \<Rightarrow>
        (let off = userbuf AND 0xfff; sgs = sg_count off (rw_size ti) in
         if \<not> pages_ok env then Some (-12, em, [ReqChan, ReleaseChan])
         else (let ret = gup_ret env sgs; l1 = [ReqChan, AllocPages, PinPages (nat ret)] in
         if of_int ret \<noteq> sgs then Some (ret, em, l1 @ [FreePages, ReleaseChan])
         else (let ret = table_ret env in
         if ret \<noteq> 0 then Some (ret, em, l1 @ [FreePages, ReleaseChan])
         else (let sgl = mapped_sg (bus_addr env) (build_sg (unat sgs) off (rw_size ti)); ret = map_ret env sgs;
                   l2 = l1 @ [AllocTable] @ (if ret = 0 then [] else [MapSg]) in
         if of_int ret \<noteq> sgs then Some (ret, em, l2 @ [FreeTable, FreePages, ReleaseChan])
         else if down_ret env \<noteq> 0 then Some (-512, em, l2 @ [UnmapSg, FreeTable, FreePages, ReleaseChan])
         else map_option (\<lambda>(ret, em). (ret, em, l2 @ [DownSem, UpSem, UnmapSg, FreeTable, FreePages, ReleaseChan]))
           (rw_rounds hw env ti rd i sgl [0..<unat (test_cnt ti)] ret em))))))"

end
