(* ===== verification/MtdmaProps.thy ===== *)
theory MtdmaProps
  imports MtdmaCore
begin

text \<open>
  What the MTDMA driver of theory \<open>MtdmaCore\<close> promises.  The programmed chunk is a
  chain the device can follow burst by burst; a prepared descriptor holds
  exactly the bursts of the scatter list, in chunks of at most \<open>ll_max\<close>; from
  channel setup on no sequence of client calls, interrupts and tasklet runs
  dereferences a null pointer, fires the \<open>BUG_ON\<close> or writes through the
  uninitialised descriptor pointer.
\<close>

section \<open>The programmed chain\<close>

text \<open>The eight stores of one descriptor, and those of a run of descriptors.\<close>

definition burst_trace :: "mtdma_chan_info \<Rightarrow> nat \<Rightarrow> mtdma_burst \<Rightarrow> trace" where
  "burst_trace info i b =
    (let lar = ll_laddr info + of_nat i * 32; lli = lli_of info i in
     [Wr (io_off lli DESC_OP) DMA_CH_DESC_BIT_CHAIN_EN, Wr (io_off lli DESC_CNT) (b_sz b - 1),
      Wr (io_off lli DESC_SAR_L) (lower_32_bits (b_sar b)), Wr (io_off lli DESC_SAR_H) (upper_32_bits (b_sar b)),
      Wr (io_off lli DESC_DAR_L) (lower_32_bits (b_dar b)), Wr (io_off lli DESC_DAR_H) (upper_32_bits (b_dar b)),
      Wr (io_off lli DESC_LAR_L) (lower_32_bits lar), Wr (io_off lli DESC_LAR_H) (upper_32_bits lar)])"

fun chain_trace :: "mtdma_chan_info \<Rightarrow> nat \<Rightarrow> mtdma_burst list \<Rightarrow> trace" where
  "chain_trace info i [] = []"
| "chain_trace info i (b # bs) = burst_trace info i b @ chain_trace info (i + 1) bs"

lemma run_write_bursts: "run_state (write_bursts info i bs) t = ((), t @ chain_trace info i bs)"
proof (induction bs arbitrary: i t)
  case (Cons b bs)
  show ?case by (simp add: mmio_simps Let_def burst_trace_def Cons.IH)
qed (simp add: mmio_simps)

lemma run_write_chunk:
  assumes "ck_bursts chunk = Some bs" "bs \<noteq> []"
  shows "\<exists>m. mtdma_v0_core_write_chunk info chunk = Some m \<and>
    (\<forall>t. run_state m t = ((), t @ chain_trace info 0 bs @
      [Wr (io_off (lli_of info (length bs - 1)) DESC_OP) DMA_CH_DESC_BIT_INTR_EN]))"
  using assms by (cases bs) (simp_all add: mtdma_v0_core_write_chunk_def mmio_simps run_write_bursts
    del: write_bursts.simps chain_trace.simps)

lemma written_burst: "written (burst_trace info i b) = (\<lambda>f. io_off (lli_of info i) f) ` desc_fields"
  by (auto simp: burst_trace_def Let_def desc_fields_def)

lemma written_chain:
  "written (chain_trace info i bs) = (\<Union>j \<in> {i..<i + length bs}. io_off (lli_of info j) ` desc_fields)"
proof (induction bs arbitrary: i)
  case (Cons b bs)
  have "{i..<i + length (b # bs)} = insert i {Suc i..<Suc i + length bs}" by auto
  then show ?case using Cons.IH[of "Suc i"] by (simp add: written_burst)
qed simp

lemma field_distinct: "distinct [DESC_OP, DESC_CNT, DESC_SAR_L, DESC_SAR_H, DESC_DAR_L, DESC_DAR_H, DESC_LAR_L, DESC_LAR_H]"
  by (simp add: desc_offsets)

lemma io_off_eq [simp]: "io_off p x = io_off p y \<longleftrightarrow> x = y"
  by (simp add: io_off_def)

lemma mem_burst:
  assumes "m' = mem_after (burst_trace info i b) m"
  shows "m' (io_off (lli_of info i) DESC_OP) = DMA_CH_DESC_BIT_CHAIN_EN"
    "desc_xfer m' (lli_of info i) = (b_sar b, b_dar b, b_sz b)"
    "read64 m' (lli_of info i) DESC_LAR_H DESC_LAR_L = ll_laddr info + of_nat i * 32"
  using field_distinct unfolding assms burst_trace_def
  by (simp_all add: Let_def desc_xfer_def read64_def)

text \<open>The device follows the link of a descriptor while its chain bit is set.\<close>

definition chained :: "u32 \<Rightarrow> bool" where
  "chained op \<longleftrightarrow> op AND DMA_CH_DESC_BIT_CHAIN_EN \<noteq> 0"

lemma chained_bits [simp]: "chained DMA_CH_DESC_BIT_CHAIN_EN" "\<not> chained DMA_CH_DESC_BIT_INTR_EN"
  by (simp_all add: chained_def DMA_CH_DESC_BIT_CHAIN_EN_def DMA_CH_DESC_BIT_INTR_EN_def)

abbreviation burst_xfer :: "mtdma_burst \<Rightarrow> u64 \<times> u64 \<times> u32" where
  "burst_xfer b \<equiv> (b_sar b, b_dar b, b_sz b)"

lemma desc_xfer_cong:
  assumes "\<And>f. f \<in> desc_fields - {DESC_OP} \<Longrightarrow> m (io_off lli f) = m' (io_off lli f)"
  shows "desc_xfer m lli = desc_xfer m' lli" "read64 m lli DESC_LAR_H DESC_LAR_L = read64 m' lli DESC_LAR_H DESC_LAR_L"
  using assms by (simp_all add: desc_xfer_def read64_def desc_fields_def desc_offsets)

lemma lli_of_apart:
  assumes "fst (rg_vaddr info) \<noteq> fst (ll_vaddr info)" "i \<noteq> j" "i < 2^32" "j < 2^32" "f \<in> desc_fields" "g \<in> desc_fields"
  shows "io_off (lli_of info i) f \<noteq> io_off (lli_of info j) g"
  unfolding lli_of_def by (rule lli_apart[OF assms])

lemma lli_of_Suc: "io_off (ll_vaddr info) (ll_laddr info + of_nat i * 32 - ll_laddr info) = lli_of info (Suc i)"
  by (simp add: lli_of_def lli_at_def io_off_def)

lemma walk_chain:
  assumes sep: "fst (rg_vaddr info) \<noteq> fst (ll_vaddr info)" and "bs \<noteq> []" "i + length bs < 2^32"
    and m': "m' = mem_after (chain_trace info i bs @
      [Wr (io_off (lli_of info (i + length bs - 1)) DESC_OP) DMA_CH_DESC_BIT_INTR_EN]) m"
  shows "walk chained m' (ll_vaddr info) (ll_laddr info) (length bs) (lli_of info i) = Some (map burst_xfer bs)"
  using assms(2-) 
proof (induction bs arbitrary: i m)
  case (Cons b bs)
  let ?m1 = "mem_after (burst_trace info i b) m"
  note mb = mem_burst[of ?m1 info i b m, OF refl]
  show ?case
  proof (cases "bs = []")
    case True
    then have "chain_trace info i (b # bs) = burst_trace info i b" "i + length (b # bs) - 1 = i" by simp_all
    then have m': "m' = ?m1(io_off (lli_of info i) DESC_OP := DMA_CH_DESC_BIT_INTR_EN)"
      unfolding Cons.prems(3) by (simp only: mem_after_simps mem_step.simps)
    have "desc_xfer m' (lli_of info i) = desc_xfer ?m1 (lli_of info i)"
      by (rule desc_xfer_cong) (auto simp: m')
    moreover have "m' (io_off (lli_of info i) DESC_OP) = DMA_CH_DESC_BIT_INTR_EN" by (simp add: m')
    ultimately show ?thesis using mb(2) True by simp
  next
    case False
    have m': "m' = mem_after (chain_trace info (Suc i) bs @
        [Wr (io_off (lli_of info (Suc i + length bs - 1)) DESC_OP) DMA_CH_DESC_BIT_INTR_EN]) ?m1"
    proof -
      have "i + length (b # bs) - 1 = Suc i + length bs - 1" by simp
      then show ?thesis
        unfolding Cons.prems(3) by (simp only: chain_trace.simps append_assoc mem_after_simps Suc_eq_plus1)
    qed
    have IH: "walk chained m' (ll_vaddr info) (ll_laddr info) (length bs) (lli_of info (Suc i)) = Some (map burst_xfer bs)"
      using Cons.IH[OF False _ m'] Cons.prems(2) by simp
    have frame: "m' (io_off (lli_of info i) f) = ?m1 (io_off (lli_of info i) f)" if f: "f \<in> desc_fields" for f
      unfolding m'
    proof (rule mem_after_frame)
      have "io_off (lli_of info i) f \<noteq> io_off (lli_of info j) g" if "Suc i \<le> j" "j < Suc i + length bs" "g \<in> desc_fields" for j g
        using lli_of_apart[OF sep _ _ _ f that(3)] that(1,2) Cons.prems(2) by simp
      note apart = this
      have "io_off (lli_of info i) f \<noteq> io_off (lli_of info (Suc i + length bs - 1)) DESC_OP"
        using apart[of "Suc i + length bs - 1" DESC_OP] False by (cases bs) (simp_all add: desc_fields_def)
      then show "io_off (lli_of info i) f \<notin> written (chain_trace info (Suc i) bs @
          [Wr (io_off (lli_of info (Suc i + length bs - 1)) DESC_OP) DMA_CH_DESC_BIT_INTR_EN])"
      proof (simp add: written_chain image_iff, intro ballI)
        fix j g assume "j \<in> {Suc i..<Suc (i + length bs)}" "g \<in> desc_fields"
        then show "io_off (lli_of info i) f \<noteq> io_off (lli_of info j) g" using apart[of j g] by simp
      qed
    qed
    have "desc_xfer m' (lli_of info i) = burst_xfer b" "m' (io_off (lli_of info i) DESC_OP) = DMA_CH_DESC_BIT_CHAIN_EN"
      "read64 m' (lli_of info i) DESC_LAR_H DESC_LAR_L = ll_laddr info + of_nat i * 32"
      using desc_xfer_cong[of m' "lli_of info i" ?m1] frame mb by (auto simp: desc_fields_def)
    then show ?thesis using IH lli_of_Suc[of info i] by simp
  qed
qed simp

section \<open>The prepared descriptor\<close>

text \<open>The bursts a scatter list asks for: one per entry, the device address advancing
  by the length of the entry.\<close>

fun sg_bursts :: "dma_direction \<Rightarrow> u64 \<Rightarrow> u64 \<Rightarrow> sg_entry list \<Rightarrow> mtdma_burst list" where
  "sg_bursts dir src dst [] = []"
| "sg_bursts dir src dst ((addr, len) # sgs) =
    (if dir = DMA_MEM_TO_DEV
     then \<lparr>b_sar = addr, b_dar = dst, b_sz = len\<rparr> # sg_bursts dir src (dst + ucast len) sgs
     else \<lparr>b_sar = src, b_dar = addr, b_sz = len\<rparr> # sg_bursts dir (src + ucast len) dst sgs)"

definition chunk_bursts :: "mtdma_chunk \<Rightarrow> mtdma_burst list" where
  "chunk_bursts c = the (ck_bursts c)"

definition desc_chunks :: "mtdma_desc \<Rightarrow> mtdma_chunk list" where
  "desc_chunks desc = the (md_chunks desc)"

definition desc_bursts :: "mtdma_desc \<Rightarrow> mtdma_burst list" where
  "desc_bursts desc = concat (map chunk_bursts (desc_chunks desc))"

definition chunk_wf :: "u32 \<Rightarrow> mtdma_chunk \<Rightarrow> bool" where
  "chunk_wf lmax c \<longleftrightarrow> (\<exists>bs. ck_bursts c = Some bs \<and> ck_bursts_alloc c = of_nat (length bs) \<and> length bs \<le> unat lmax)"

text \<open>Every chunk but the last is full.\<close>

definition desc_wf :: "u32 \<Rightarrow> mtdma_desc \<Rightarrow> bool" where
  "desc_wf lmax desc \<longleftrightarrow> (\<exists>cs c. md_chunks desc = Some (cs @ [c]) \<and> chunk_wf lmax c \<and>
     (\<forall>d \<in> set cs. chunk_wf lmax d \<and> length (chunk_bursts d) = unat lmax) \<and>
     md_chunks_alloc desc = of_nat (length cs + 1))"

lemma chunk_full_iff:
  assumes "chunk_wf lmax c"
  shows "ck_bursts_alloc c = lmax \<longleftrightarrow> length (chunk_bursts c) = unat lmax"
proof -
  obtain bs where bs: "ck_bursts c = Some bs" "ck_bursts_alloc c = of_nat (length bs)" "length bs \<le> unat lmax"
    using assms by (auto simp: chunk_wf_def)
  have "unat (of_nat (length bs) :: u32) = length bs"
    using bs(3) unsigned_less[of lmax, where ?'a = nat] by (simp add: unsigned_of_nat take_bit_nat_eq_self)
  then show ?thesis using bs by (auto simp: chunk_bursts_def word_unat_eq_iff)
qed

lemmas alloc_defs = mtdma_alloc_desc_def mtdma_alloc_chunk_def mtdma_alloc_burst_def kzalloc_def Let_def

text \<open>One round of the loop appends one burst, in a new chunk when the last is full.\<close>

lemma next_chunk_wf:
  assumes wf: "desc_wf lmax desc" and l: "lmax = ll_max info" "0 < lmax"
    and r: "(if ck_bursts_alloc (last_chunk desc) = ll_max info then mtdma_alloc_chunk mem h info desc
           else (Some desc, h)) = (Some desc', h')"
  shows "desc_wf lmax desc' \<and> desc_bursts desc' = desc_bursts desc \<and> md_alloc_sz desc' = md_alloc_sz desc \<and>
    md_xfer_sz desc' = md_xfer_sz desc \<and> length (chunk_bursts (last_chunk desc')) < unat lmax"
proof -
  obtain cs c where d: "md_chunks desc = Some (cs @ [c])" "chunk_wf lmax c"
    "\<forall>d \<in> set cs. chunk_wf lmax d \<and> length (chunk_bursts d) = unat lmax"
    "md_chunks_alloc desc = of_nat (length cs + 1)"
    using wf by (auto simp: desc_wf_def)
  have lc: "last_chunk desc = c" using d(1) by (simp add: last_chunk_def)
  have pos: "0 < unat lmax" using l(2) by (simp add: word_less_nat_alt)
  show ?thesis
  proof (cases "ck_bursts_alloc c = lmax")
    case False
    then have "length (chunk_bursts c) \<noteq> unat lmax" using chunk_full_iff[OF d(2)] by simp
    moreover have "length (chunk_bursts c) \<le> unat lmax" using d(2) by (auto simp: chunk_wf_def chunk_bursts_def)
    moreover have "desc' = desc" using r False lc l by simp
    ultimately show ?thesis using wf lc by simp
  next
    case True
    let ?c = "\<lparr>ck_bursts = Some [], ck_bursts_alloc = 0, ck_paddr = ll_laddr info,
        ck_vaddr = ll_vaddr info, ck_sz = 0\<rparr>"
    have full: "length (chunk_bursts c) = unat lmax" using chunk_full_iff[OF d(2)] True by simp
    have d': "desc' = desc\<lparr>md_chunks_alloc := md_chunks_alloc desc + 1, md_chunks := Some ((cs @ [c]) @ [?c])\<rparr>"
      using r True lc l d(1)
      by (auto simp: alloc_defs split: if_splits)
    have "desc_wf lmax desc'"
      unfolding desc_wf_def
      by (intro exI[of _ "cs @ [c]"] exI[of _ ?c]) (use d full in \<open>auto simp: d' chunk_wf_def\<close>)
    then show ?thesis using d(1) pos
      by (simp add: d' desc_bursts_def desc_chunks_def last_chunk_def chunk_bursts_def)
  qed
qed

lemma add_burst_wf:
  assumes wf: "desc_wf lmax desc" and room: "length (chunk_bursts (last_chunk desc)) < unat lmax"
    and r: "mtdma_alloc_burst mem h (last_chunk desc) = (Some chunk, h')"
    and c': "desc' = (set_last_chunk ((set_last_burst b chunk)\<lparr>ck_sz := z\<rparr>) desc)\<lparr>md_alloc_sz := a\<rparr>"
  shows "desc_wf lmax desc' \<and> desc_bursts desc' = desc_bursts desc @ [b] \<and> chunk_bursts (last_chunk desc') \<noteq> []
    \<and> md_alloc_sz desc' = a \<and> md_xfer_sz desc' = md_xfer_sz desc"
proof -
  obtain cs c where d: "md_chunks desc = Some (cs @ [c])" "chunk_wf lmax c"
    "\<forall>d \<in> set cs. chunk_wf lmax d \<and> length (chunk_bursts d) = unat lmax"
    "md_chunks_alloc desc = of_nat (length cs + 1)"
    using wf by (auto simp: desc_wf_def)
  obtain bs where bs: "ck_bursts c = Some bs" "ck_bursts_alloc c = of_nat (length bs)"
    using d(2) by (auto simp: chunk_wf_def)
  have lc: "last_chunk desc = c" using d(1) by (simp add: last_chunk_def)
  let ?c = "c\<lparr>ck_bursts_alloc := ck_bursts_alloc c + 1, ck_bursts := Some (bs @ [b]), ck_sz := z\<rparr>"
  have e: "(set_last_burst b chunk)\<lparr>ck_sz := z\<rparr> = ?c"
    using r lc bs(1) by (auto simp: alloc_defs set_last_burst_def split: if_splits)
  have d': "desc' = desc\<lparr>md_chunks := Some (cs @ [?c]), md_alloc_sz := a\<rparr>"
    unfolding c' e using d(1) by (simp add: set_last_chunk_def)
  have "chunk_wf lmax ?c" using bs room lc by (simp add: chunk_wf_def chunk_bursts_def)
  then have "desc_wf lmax desc'"
    unfolding desc_wf_def
    by (intro exI[of _ cs] exI[of _ ?c]) (use d in \<open>auto simp: d'\<close>)
  then show ?thesis using d(1) bs(1)
    by (simp add: d' desc_bursts_def desc_chunks_def last_chunk_def chunk_bursts_def)
qed

lemma transfer_loop_wf:
  assumes "transfer_loop mem info dir h desc src dst sgl = (True, desc', h')"
    "desc_wf (ll_max info) desc" "0 < ll_max info"
  shows "desc_wf (ll_max info) desc' \<and> desc_bursts desc' = desc_bursts desc @ sg_bursts dir src dst sgl \<and>
    md_alloc_sz desc' = md_alloc_sz desc + sum_list (map snd sgl) \<and> md_xfer_sz desc' = md_xfer_sz desc \<and>
    (sgl \<noteq> [] \<longrightarrow> chunk_bursts (last_chunk desc') \<noteq> [])"
  using assms(1,2)
proof (induction sgl arbitrary: h desc src dst)
  case Nil
  then show ?case by simp
next
  case (Cons sg sgl)
  obtain addr len where sg: "sg = (addr, len)" by (cases sg)
  obtain d1 n1 where 1: "(if ck_bursts_alloc (last_chunk desc) = ll_max info then mtdma_alloc_chunk mem h info desc
           else (Some desc, h)) = (Some d1, n1)"
    using Cons.prems(1) sg by (auto split: prod.splits option.splits if_splits)
  note n1 = next_chunk_wf[OF Cons.prems(2) refl assms(3) 1]
  obtain c n2 where 2: "mtdma_alloc_burst mem n1 (last_chunk d1) = (Some c, n2)"
    using Cons.prems(1) sg 1 by (auto simp del: if_split split: prod.splits option.splits)
  let ?b = "if dir = DMA_MEM_TO_DEV then \<lparr>b_sar = addr, b_dar = dst, b_sz = len\<rparr>
      else \<lparr>b_sar = src, b_dar = addr, b_sz = len\<rparr>"
  let ?d2 = "(set_last_chunk ((set_last_burst ?b c)\<lparr>ck_sz := ck_sz c + len\<rparr>) d1)\<lparr>md_alloc_sz := md_alloc_sz d1 + len\<rparr>"
  have loop: "transfer_loop mem info dir n2 ?d2 (if dir = DMA_MEM_TO_DEV then src else src + ucast len)
      (if dir = DMA_MEM_TO_DEV then dst + ucast len else dst) sgl = (True, desc', h')"
    using Cons.prems(1) unfolding sg transfer_loop.simps 1 using 2 by (simp add: Let_def)
  note w2 = add_burst_wf[OF conjunct1[OF n1] _ 2 refl,
      where b = ?b and z = "ck_sz c + len" and a = "md_alloc_sz d1 + len"]
  have w2: "desc_wf (ll_max info) ?d2" "desc_bursts ?d2 = desc_bursts desc @ [?b]"
    "chunk_bursts (last_chunk ?d2) \<noteq> []" "md_alloc_sz ?d2 = md_alloc_sz desc + len" "md_xfer_sz ?d2 = md_xfer_sz desc"
    using w2 n1 by auto
  show ?case
  proof (cases "sgl = []")
    case True
    then show ?thesis using loop w2 sg by auto
  next
    case False
    then show ?thesis using Cons.IH[OF loop w2(1)] w2 sg by (auto simp: add.assoc)
  qed
qed

text \<open>Nothing fails while \<open>kzalloc\<close> succeeds.\<close>

lemma alloc_burst_succeeds:
  "\<forall>n. mem n \<Longrightarrow> \<exists>c' h'. mtdma_alloc_burst mem h c = (Some c', h')"
  by (cases "ck_bursts c") (simp_all add: alloc_defs)

lemma alloc_chunk_succeeds:
  "\<forall>n. mem n \<Longrightarrow> md_chunks m \<noteq> None \<Longrightarrow> \<exists>m' h'. mtdma_alloc_chunk mem h info m = (Some m', h') \<and> md_chunks m' \<noteq> None"
  by (auto simp: alloc_defs)

lemma transfer_loop_succeeds:
  "\<forall>n. mem n \<Longrightarrow> md_chunks desc \<noteq> None \<Longrightarrow> fst (transfer_loop mem info dir h desc src dst sgl)"
proof (induction sgl arbitrary: h desc src dst)
  case (Cons sg sgl)
  obtain addr len where sg: "sg = (addr, len)" by (cases sg)
  obtain d1 h1 where 1: "(if ck_bursts_alloc (last_chunk desc) = ll_max info then mtdma_alloc_chunk mem h info desc
      else (Some desc, h)) = (Some d1, h1)" "md_chunks d1 \<noteq> None"
  proof (cases "ck_bursts_alloc (last_chunk desc) = ll_max info")
    case True
    then show ?thesis using that alloc_chunk_succeeds[OF Cons.prems, of h info] by auto
  qed (use that Cons.prems(2) in simp)
  obtain c h2 where 2: "mtdma_alloc_burst mem h1 (last_chunk d1) = (Some c, h2)"
    using alloc_burst_succeeds[OF Cons.prems(1)] by blast
  show ?case unfolding sg transfer_loop.simps 1(1) using 2 by (simp add: Let_def Cons.IH[OF Cons.prems(1)] set_last_chunk_def)
qed simp

section \<open>Memory\<close>

text \<open>The number of structures that make up a chunk and a descriptor: the structure itself, the heads of its lists, and what is on them.\<close>

definition chunk_size :: "mtdma_chunk \<Rightarrow> int" where
  "chunk_size c = 1 + (case ck_bursts c of None \<Rightarrow> 0 | Some bs \<Rightarrow> 1 + int (length bs))"

definition desc_size :: "mtdma_desc \<Rightarrow> int" where
  "desc_size m = 1 + (case md_chunks m of None \<Rightarrow> 0 | Some cs \<Rightarrow> 1 + sum_list (map chunk_size cs))"

text \<open>Every chunk on the list of a descriptor has the head of its bursts.\<close>

definition freeable :: "mtdma_desc \<Rightarrow> bool" where
  "freeable m \<longleftrightarrow> (\<exists>cs. md_chunks m = Some cs \<and> (\<forall>c \<in> set cs. ck_bursts c \<noteq> None))"

lemma free_burst_list_live: "kh_live (snd (free_burst_list bs c h)) = kh_live h - int (length bs)"
  by (induction bs c h rule: free_burst_list.induct) (simp_all add: kfree_def)

lemma free_burst_ok:
  assumes "ck_bursts c \<noteq> None"
  shows "\<exists>c' h'. mtdma_free_burst c h = Some (c', h') \<and> kh_live h' = kh_live h - (chunk_size c - 1)"
  using assms free_burst_list_live[of _ c h]
  by (auto simp: mtdma_free_burst_def chunk_size_def split_beta kfree_def)

lemma free_chunk_list_ok:
  "\<forall>c \<in> set cs. ck_bursts c \<noteq> None \<Longrightarrow>
    \<exists>m' h'. free_chunk_list cs m h = Some (m', h') \<and> kh_live h' = kh_live h - sum_list (map chunk_size cs)"
proof (induction cs arbitrary: m h)
  case (Cons c cs)
  obtain c' h1 where "mtdma_free_burst c h = Some (c', h1)" "kh_live h1 = kh_live h - (chunk_size c - 1)"
    using free_burst_ok[of c h] Cons.prems by auto
  then show ?case
    using Cons.IH[of "m\<lparr>md_chunks := Some cs, md_chunks_alloc := md_chunks_alloc m - 1\<rparr>" "kfree h1"] Cons.prems
    by (auto simp: kfree_def)
qed simp

text \<open>Freeing a descriptor frees exactly what it consists of.\<close>

lemma free_desc_ok:
  assumes "freeable m"
  shows "\<exists>m' h'. mtdma_free_desc m h = Some (m', h') \<and> kh_live h' = kh_live h - desc_size m"
proof -
  obtain cs where cs: "md_chunks m = Some cs" "\<forall>c \<in> set cs. ck_bursts c \<noteq> None" using assms by (auto simp: freeable_def)
  obtain m' h' where "free_chunk_list cs m h = Some (m', h')" "kh_live h' = kh_live h - sum_list (map chunk_size cs)"
    using free_chunk_list_ok[OF cs(2), of m h] by blast
  then show ?thesis using cs(1) by (auto simp: mtdma_free_desc_def mtdma_free_chunk_def desc_size_def kfree_def)
qed

text \<open>What an allocating step adds to the structure it has allocated, whether it succeeds or fails.\<close>

lemma alloc_burst_live:
  assumes "mtdma_alloc_burst mem h c = (r, h')"
  shows "case r of None \<Rightarrow> kh_live h' = kh_live h
    | Some c' \<Rightarrow> kh_live h' - kh_live h = chunk_size c' - chunk_size c \<and> ck_bursts c' \<noteq> None"
  using assms by (auto simp: alloc_defs chunk_size_def split: if_splits option.splits)

lemma alloc_chunk_live:
  assumes "mtdma_alloc_chunk mem h info m = (r, h')" "freeable m"
  shows "case r of None \<Rightarrow> kh_live h' = kh_live h
    | Some m' \<Rightarrow> kh_live h' - kh_live h = desc_size m' - desc_size m \<and> freeable m' \<and> md_chunks m' \<noteq> Some []"
  using assms by (auto simp: alloc_defs kfree_def chunk_size_def desc_size_def freeable_def split: if_splits option.splits)

lemma sum_list_last: "cs \<noteq> [] \<Longrightarrow> sum_list (map f (butlast cs @ [c])) = sum_list (map f cs) - f (last cs) + f (c :: 'c) " for f :: "'c \<Rightarrow> int"
  by (induction cs) auto

lemma put_burst_live:
  assumes "freeable m" "md_chunks m \<noteq> Some []" "mtdma_alloc_burst mem h (last_chunk m) = (Some c, h')"
    "m' = (set_last_chunk ((set_last_burst b c)\<lparr>ck_sz := z\<rparr>) m)\<lparr>md_alloc_sz := a\<rparr>"
  shows "kh_live h' - kh_live h = desc_size m' - desc_size m \<and> freeable m' \<and> md_chunks m' \<noteq> Some []"
proof -
  obtain cs where cs: "md_chunks m = Some cs" "\<forall>c \<in> set cs. ck_bursts c \<noteq> None" "cs \<noteq> []"
    using assms(1,2) by (auto simp: freeable_def)
  have lc: "last_chunk m = last cs" "last cs \<in> set cs" using cs by (simp_all add: last_chunk_def)
  then obtain bs where bs: "ck_bursts (last cs) = Some bs" using cs(2) by blast
  let ?c = "(set_last_burst b c)\<lparr>ck_sz := z\<rparr>"
  have c: "kh_live h' - kh_live h = 1" "ck_bursts c = Some (bs @ [\<lparr>b_sar = 0, b_dar = 0, b_sz = 0\<rparr>])"
    using assms(3) bs lc(1) by (auto simp: alloc_defs split: if_splits)
  then have "chunk_size ?c = chunk_size (last cs) + 1" "ck_bursts ?c \<noteq> None"
    using bs by (simp_all add: chunk_size_def set_last_burst_def)
  moreover have "md_chunks m' = Some (butlast cs @ [?c])" unfolding assms(4) using cs(1) by (simp add: set_last_chunk_def)
  moreover have "\<forall>c \<in> set (butlast cs). ck_bursts c \<noteq> None" using cs(2) by (auto dest: in_set_butlastD)
  ultimately show ?thesis using c(1) cs sum_list_last[OF cs(3), of chunk_size ?c] by (simp add: desc_size_def freeable_def)
qed

lemma transfer_loop_live:
  assumes "transfer_loop mem info dir h m src dst sgl = (ok, m', h')" "freeable m" "md_chunks m \<noteq> Some []"
  shows "kh_live h' - kh_live h = desc_size m' - desc_size m \<and> freeable m'"
  using assms
proof (induction sgl arbitrary: h m src dst)
  case (Cons sg sgl)
  obtain addr len where sg: "sg = (addr, len)" by (cases sg)
  let ?first = "if ck_bursts_alloc (last_chunk m) = ll_max info then mtdma_alloc_chunk mem h info m else (Some m, h)"
  obtain r1 h1 where 1: "?first = (r1, h1)" by (cases ?first)
  have f1: "case r1 of None \<Rightarrow> kh_live h1 = kh_live h
      | Some m1 \<Rightarrow> kh_live h1 - kh_live h = desc_size m1 - desc_size m \<and> freeable m1 \<and> md_chunks m1 \<noteq> Some []"
    using 1 alloc_chunk_live[of mem h info m r1 h1] Cons.prems(2,3) by (auto split: if_splits option.splits)
  show ?case
  proof (cases r1)
    case None
    then show ?thesis using Cons.prems f1 1 unfolding sg transfer_loop.simps by simp
  next
    case (Some m1)
    obtain r2 h2 where 2: "mtdma_alloc_burst mem h1 (last_chunk m1) = (r2, h2)" by (cases "mtdma_alloc_burst mem h1 (last_chunk m1)")
    have m1: "kh_live h1 - kh_live h = desc_size m1 - desc_size m" "freeable m1" "md_chunks m1 \<noteq> Some []" using f1 Some by simp_all
    show ?thesis
    proof (cases r2)
      case None
      then have "m' = m1" "h' = h2" using Cons.prems(1) 1 2 Some unfolding sg transfer_loop.simps by simp_all
      then show ?thesis using m1 alloc_burst_live[OF 2] None by simp
    next
      case c: (Some c)
      let ?b = "if dir = DMA_MEM_TO_DEV then \<lparr>b_sar = addr, b_dar = dst, b_sz = len\<rparr> else \<lparr>b_sar = src, b_dar = addr, b_sz = len\<rparr>"
      let ?m2 = "(set_last_chunk ((set_last_burst ?b c)\<lparr>ck_sz := ck_sz c + len\<rparr>) m1)\<lparr>md_alloc_sz := md_alloc_sz m1 + len\<rparr>"
      have loop: "transfer_loop mem info dir h2 ?m2 (if dir = DMA_MEM_TO_DEV then src else src + ucast len)
          (if dir = DMA_MEM_TO_DEV then dst + ucast len else dst) sgl = (ok, m', h')"
        using Cons.prems(1) unfolding sg transfer_loop.simps 1 Some using 2 c by (simp add: Let_def)
      have "kh_live h2 - kh_live h1 = desc_size ?m2 - desc_size m1 \<and> freeable ?m2 \<and> md_chunks ?m2 \<noteq> Some []"
        by (rule put_burst_live[OF m1(2,3) _ refl]) (use 2 c in simp)
      then show ?thesis using Cons.IH[OF loop] m1(1) by simp
    qed
  qed
qed simp

section \<open>The channel invariant\<close>

definition desc_ok :: "mtdma_desc \<Rightarrow> bool" where
  "desc_ok desc \<longleftrightarrow> (\<exists>cs. md_chunks desc = Some cs \<and> (\<forall>c \<in> set cs. \<exists>bs. ck_bursts c = Some bs \<and> bs \<noteq> [] \<and> length bs < 2^32) \<and>
     md_chunks_alloc desc = of_nat (length cs) \<and> length cs < 2^32)"

lemma desc_ok_freeable: "desc_ok m \<Longrightarrow> freeable m"
  by (fastforce simp: desc_ok_def freeable_def)

text \<open>The memory of a channel: exactly the descriptors on its lists are allocated.\<close>

definition live_descs :: "mtdma_chan \<Rightarrow> int" where
  "live_descs ch = (\<Sum>d \<in> set (all_descs ch). desc_size (ch_descs ch d))"

definition chan_inv :: "mtdma_chan \<Rightarrow> bool" where
  "chan_inv ch \<longleftrightarrow> vchan_inv ch \<and> (\<forall>d \<in> set (all_descs ch). desc_ok (ch_descs ch d)) \<and> 0 < ll_max (ch_info ch) \<and>
     ch_live ch = live_descs ch"

text \<open>The virtual channel part of an MTDMA channel.\<close>

definition same_vchan :: "mtdma_chan \<Rightarrow> mtdma_chan \<Rightarrow> bool" where
  "same_vchan ch ch' \<longleftrightarrow> virt_dma_chan.truncate ch' = virt_dma_chan.truncate ch \<and> ch_info ch' = ch_info ch"

lemma vchan_inv_truncate: "vchan_inv (virt_dma_chan.truncate ch) = vchan_inv ch"
  "all_descs (virt_dma_chan.truncate ch) = all_descs ch" "pending (virt_dma_chan.truncate ch) = pending ch"
  "vchan_next_desc (virt_dma_chan.truncate ch) = vchan_next_desc ch"
  by (simp_all add: vchan_inv_def all_descs_def pending_def virt_dma_chan.truncate_def vchan_next_desc_def)

lemma same_vchanD:
  assumes "same_vchan ch ch'"
  shows "vchan_inv ch' = vchan_inv ch" "all_descs ch' = all_descs ch" "pending ch' = pending ch"
    "vchan_next_desc ch' = vchan_next_desc ch" "ch_info ch' = ch_info ch"
  using assms vchan_inv_truncate[of ch] vchan_inv_truncate[of ch'] by (simp_all add: same_vchan_def)

lemma same_vchan_refl [simp]: "same_vchan ch ch" by (simp add: same_vchan_def)

lemma same_vchan_upd [simp]:
  "same_vchan ch (ch'\<lparr>ch_status := x\<rparr>) = same_vchan ch ch'" "same_vchan ch (ch'\<lparr>ch_request := y\<rparr>) = same_vchan ch ch'"
  "same_vchan ch (ch'\<lparr>ch_configured := z\<rparr>) = same_vchan ch ch'" "same_vchan ch (ch'\<lparr>ch_trace := t\<rparr>) = same_vchan ch ch'"
  "same_vchan ch (ch'\<lparr>ch_descs := ds\<rparr>) = same_vchan ch ch'" "same_vchan ch (ch'\<lparr>ch_live := n\<rparr>) = same_vchan ch ch'"
  "same_vchan ch (ch'\<lparr>ch_src_addr := a\<rparr>) = same_vchan ch ch'" "same_vchan ch (ch'\<lparr>ch_dst_addr := a\<rparr>) = same_vchan ch ch'"
  by (simp_all add: same_vchan_def virt_dma_chan.truncate_def)

lemma same_vchan_do [simp]: "same_vchan ch (snd (ch_do m ch')) = same_vchan ch ch'"
  by (simp add: ch_do_def)

lemma ch_do_descs [simp]: "ch_descs (snd (ch_do m ch)) = ch_descs ch" "ch_request (snd (ch_do m ch)) = ch_request ch"
  "ch_status (snd (ch_do m ch)) = ch_status ch" "ch_configured (snd (ch_do m ch)) = ch_configured ch"
  "ch_live (snd (ch_do m ch)) = ch_live ch"
  by (simp_all add: ch_do_def)

lemma chan_inv_same:
  assumes "chan_inv ch" "same_vchan ch ch'" "\<And>d. d \<in> set (all_descs ch) \<Longrightarrow> desc_ok (ch_descs ch' d)"
    "ch_live ch' - ch_live ch = live_descs ch' - live_descs ch"
  shows "chan_inv ch'"
  using assms same_vchanD[OF assms(2)] by (auto simp: chan_inv_def)

lemma live_descs_upd:
  assumes "d \<in> set (all_descs ch)" "ch_descs ch' = (ch_descs ch)(d := m)" "all_descs ch' = all_descs ch"
  shows "live_descs ch' = live_descs ch - desc_size (ch_descs ch d) + desc_size m"
proof -
  let ?A = "set (all_descs ch)"
  have "(\<Sum>e \<in> ?A - {d}. desc_size (((ch_descs ch)(d := m)) e)) = (\<Sum>e \<in> ?A - {d}. desc_size (ch_descs ch e))"
    by (rule sum.cong) auto
  then show ?thesis
    using sum.remove[of ?A d "\<lambda>e. desc_size (ch_descs ch e)"] sum.remove[of ?A d "\<lambda>e. desc_size (((ch_descs ch)(d := m)) e)"] assms
    by (simp add: live_descs_def)
qed

text \<open>Starting the next chunk never faults, keeps the queues and consumes one chunk.\<close>

lemma start_transfer_ok:
  assumes "chan_inv ch"
  shows "\<exists>ch'. mtdma_start_transfer hw ch = Some ch' \<and> chan_inv ch' \<and> same_vchan ch ch' \<and>
    ch_status ch' = ch_status ch \<and> ch_request ch' = ch_request ch"
proof (cases "vchan_next_desc ch")
  case None
  then show ?thesis using assms by (auto simp: mtdma_start_transfer_def)
next
  case (Some d)
  then have d: "d \<in> set (all_descs ch)"
    by (auto simp: vchan_next_desc_def all_descs_def split: list.splits)
  then have "desc_ok (ch_descs ch d)" using assms by (simp add: chan_inv_def)
  then obtain cs where cs: "md_chunks (ch_descs ch d) = Some cs" "\<forall>c \<in> set cs. \<exists>bs. ck_bursts c = Some bs \<and> bs \<noteq> [] \<and> length bs < 2^32"
    "md_chunks_alloc (ch_descs ch d) = of_nat (length cs)" "length cs < 2^32"
    by (auto simp: desc_ok_def)
  show ?thesis
  proof (cases cs)
    case Nil
    then show ?thesis using assms Some cs(1) by (auto simp: mtdma_start_transfer_def)
  next
    case (Cons c rest)
    then obtain bs where "ck_bursts c = Some bs" "bs \<noteq> []" using cs(2) by auto
    then obtain m where st: "mtdma_v0_core_start hw (ch_dir ch) (ch_info ch) c = Some m"
      using run_write_chunk[of c bs "ch_info ch"] by (auto simp: mtdma_v0_core_start_def Let_def)
    let ?desc = "(ch_descs ch d)\<lparr>md_xfer_sz := md_xfer_sz (ch_descs ch d) + ck_sz c, md_chunks := Some rest,
        md_chunks_alloc := md_chunks_alloc (ch_descs ch d) - 1\<rparr>"
    obtain c' h' where fr: "mtdma_free_burst c (heap_of (snd (ch_do m ch))) = Some (c', h')"
      "kh_live h' = ch_live ch - (chunk_size c - 1)"
      using free_burst_ok[of c "heap_of (snd (ch_do m ch))"] \<open>ck_bursts c = Some bs\<close> by (auto simp: heap_of_def)
    let ?ch = "(snd (ch_do m ch))\<lparr>ch_descs := (ch_descs (snd (ch_do m ch)))(d := ?desc), ch_live := ch_live ch - chunk_size c\<rparr>"
    have run: "mtdma_start_transfer hw ch = Some ?ch"
      using Some cs(1) Cons st fr by (simp add: mtdma_start_transfer_def Let_def kfree_def)
    have "desc_ok ?desc" using cs Cons by (auto simp: desc_ok_def)
    moreover have "all_descs ?ch = all_descs ch" by (simp add: ch_do_def all_descs_def)
    then have "live_descs ?ch = live_descs ch - desc_size (ch_descs ch d) + desc_size ?desc"
      by (rule live_descs_upd[OF d, rotated]) simp
    then have "ch_live ?ch - ch_live ch = live_descs ?ch - live_descs ch"
      using cs(1) Cons by (simp add: desc_size_def)
    ultimately have "chan_inv ?ch"
      using assms by (intro chan_inv_same[OF assms]) (auto simp: chan_inv_def)
    then show ?thesis using run by (intro exI[of _ ?ch]) simp
  qed
qed

text \<open>A step of the virtual channel that moves descriptors between the lists, and neither makes nor frees one, keeps the invariant.\<close>

lemma chan_inv_moved:
  assumes "chan_inv ch" "vchan_inv ch'" "ch_descs ch' = ch_descs ch" "ch_info ch' = ch_info ch" "ch_live ch' = ch_live ch"
    "set (all_descs ch') = set (all_descs ch)"
  shows "chan_inv ch'"
  using assms by (simp add: chan_inv_def live_descs_def)

lemma remove1_insert: "d \<in> set xs \<Longrightarrow> insert d (set (remove1 d xs)) = set xs"
  by (induction xs) auto

lemma vchan_finish_descs:
  assumes "vchan_finish_next (ch :: mtdma_chan) = Some ch'" "vchan_inv ch"
  shows "ch_descs ch' = ch_descs ch" "ch_info ch' = ch_info ch" "ch_live ch' = ch_live ch" "set (all_descs ch') = set (all_descs ch)"
proof -
  show "ch_descs ch' = ch_descs ch" "ch_info ch' = ch_info ch" "ch_live ch' = ch_live ch"
    using assms by (auto simp: vchan_defs split: option.splits list.splits if_splits)
  show "set (all_descs ch') = set (all_descs ch)"
  proof (cases "desc_issued ch")
    case (Cons d ds)
    then have "d \<notin> set (desc_allocated ch)" "d \<notin> set (desc_submitted ch)" "d \<notin> set ds" "d \<notin> set (desc_completed ch)" "d \<notin> set (desc_terminated ch)"
      using assms(2) by (auto simp: vchan_inv_def all_descs_def)
    then show ?thesis using assms(1) Cons by (auto simp: vchan_defs all_descs_def remove1_id split: if_splits)
  qed (use assms(1) in \<open>simp add: vchan_finish_next_def vchan_next_desc_def\<close>)
qed

lemma finish_chan_inv:
  assumes "chan_inv ch" "vchan_next_desc ch = Some d"
  shows "\<exists>ch'. vchan_finish_next ch = Some ch' \<and> chan_inv ch'"
proof -
  have v: "vchan_inv ch" using assms(1) by (simp add: chan_inv_def)
  obtain ch' where f: "vchan_finish_next ch = Some ch'" "vchan_inv ch'" using vchan_finish_inv[OF v assms(2)] by blast
  then show ?thesis using chan_inv_moved[OF assms(1) f(2)] vchan_finish_descs[OF f(1) v] by blast
qed

lemma chan_inv_status [simp]:
  "chan_inv (ch\<lparr>ch_status := x\<rparr>) = chan_inv ch" "chan_inv (ch\<lparr>ch_request := y\<rparr>) = chan_inv ch"
  "chan_inv (ch\<lparr>ch_configured := z\<rparr>) = chan_inv ch" "chan_inv (ch\<lparr>ch_trace := t\<rparr>) = chan_inv ch"
  "chan_inv (ch\<lparr>ch_src_addr := a\<rparr>) = chan_inv ch" "chan_inv (ch\<lparr>ch_dst_addr := a\<rparr>) = chan_inv ch"
  by (simp_all add: chan_inv_def vchan_inv_def live_descs_def all_descs_def pending_def)

lemma chan_inv_do [simp]: "chan_inv (snd (ch_do m ch)) = chan_inv ch"
  by (simp add: ch_do_def)

lemma issued_inv:
  assumes "chan_inv ch"
  shows "chan_inv (snd (vchan_issue_pending ch))"
proof (rule chan_inv_moved[OF assms])
  show "vchan_inv (snd (vchan_issue_pending ch))" using assms vchan_issue_inv[of ch] by (simp add: chan_inv_def)
qed (auto simp: vchan_issue_pending_def all_descs_def Let_def)

lemma issue_pending_ok:
  assumes "chan_inv ch"
  shows "\<exists>ch'. mtdma_device_issue_pending hw ch = Some ch' \<and> chan_inv ch'"
proof -
  let ?ch1 = "snd (vchan_issue_pending ch)"
  have "chan_inv ?ch1" by (rule issued_inv[OF assms])
  then show ?thesis
    using start_transfer_ok[of "?ch1\<lparr>ch_status := MTDMA_ST_BUSY\<rparr>" hw] assms
    by (auto simp: mtdma_device_issue_pending_def split_beta Let_def)
qed

lemma done_interrupt_ok:
  assumes "chan_inv ch"
  shows "\<exists>ch'. mtdma_done_interrupt hw ch = Some ch' \<and> chan_inv ch'"
proof (cases "vchan_next_desc ch")
  case None
  then show ?thesis using assms by (simp add: mtdma_done_interrupt_def)
next
  case (Some d)
  obtain ch1 where f: "vchan_cookie_complete d (list_del d ch) = Some ch1" "chan_inv ch1"
    using finish_chan_inv[OF assms Some] Some by (auto simp: vchan_finish_next_def)
  then show ?thesis
    using start_transfer_ok[of "ch\<lparr>ch_status := MTDMA_ST_BUSY\<rparr>" hw] assms Some
    by (auto simp: mtdma_done_interrupt_def split: mtdma_request.splits)
qed

lemma abort_interrupt_ok:
  assumes "chan_inv ch"
  shows "\<exists>ch'. mtdma_abort_interrupt ch = Some ch' \<and> chan_inv ch'"
  using finish_chan_inv[OF assms] assms
  by (auto simp: mtdma_abort_interrupt_def vchan_finish_next_def split: option.splits)

lemma isr_ok:
  assumes "chan_inv ch"
  shows "\<exists>ch'. mtdma_isr hw ch = Some ch' \<and> chan_inv ch'"
proof -
  define c3 where "c3 = (let (status, ch) = ch_do (GET_CH_32 hw (ch_info ch) REG_DMA_CH_INTR_RAW) ch;
         ch = snd (ch_do (SET_CH_32 (ch_info ch) REG_DMA_CH_INTR_RAW status) ch)
     in snd (ch_do (GET_CH_32 hw (ch_info ch) REG_DMA_CH_INTR_RAW) ch))"
  have c3: "chan_inv c3" using assms by (simp add: c3_def Let_def split_beta)
  obtain c4 where "mtdma_done_interrupt hw c3 = Some c4" "chan_inv c4" using done_interrupt_ok[OF c3] by blast
  then show ?thesis
    using c3 abort_interrupt_ok[of c4] abort_interrupt_ok[OF c3]
    by (auto simp: mtdma_isr_def c3_def Let_def split_beta)
qed

lemma terminate_ok: "chan_inv ch \<Longrightarrow> chan_inv (snd (mtdma_device_terminate_all hw ch))"
  by (auto simp: mtdma_device_terminate_all_def mtdma_v0_core_ch_status_def Let_def split_beta)

text \<open>Running the tasklet: completed descriptors return to the client or are freed.\<close>

abbreviation reused :: "mtdma_chan \<Rightarrow> nat \<Rightarrow> bool" where
  "reused ch d \<equiv> DMA_CTRL_REUSE \<in> tx_flags (vd_store ch d)"

abbreviation calls_of :: "mtdma_chan \<Rightarrow> nat \<Rightarrow> cb_event list" where
  "calls_of ch d \<equiv> dmaengine_desc_callback_invoke (dmaengine_desc_get_callback (vd_store ch d)) (Some (tx_result (vd_store ch d)))"

lemma complete_fold:
  assumes "distinct ds" "\<forall>d \<in> set ds. freeable (ch_descs ch d)"
  shows "\<exists>f l. opt_fold (vchan_complete_one vchan_free_desc) ds ch = Some (ch\<lparr>
      desc_allocated := rev (filter (reused ch) ds) @ desc_allocated ch, freed := freed ch @ filter (\<lambda>d. \<not> reused ch d) ds,
      called := called ch @ concat (map (calls_of ch) ds), ch_descs := f, ch_live := l\<rparr>) \<and>
    (\<forall>d. d \<notin> set ds \<or> reused ch d \<longrightarrow> f d = ch_descs ch d) \<and>
    l = ch_live ch - sum_list (map (\<lambda>d. desc_size (ch_descs ch d)) (filter (\<lambda>d. \<not> reused ch d) ds))"
  using assms
proof (induction ds arbitrary: ch)
  case Nil
  then show ?case by (intro exI[of _ "ch_descs ch"] exI[of _ "ch_live ch"]) simp
next
  case (Cons d ds)
  show ?case
  proof (cases "reused ch d")
    case True
    let ?ch = "ch\<lparr>called := called ch @ calls_of ch d, desc_allocated := d # desc_allocated ch\<rparr>"
    have one: "vchan_complete_one vchan_free_desc d ch = Some ?ch" using True by (simp add: vchan_complete_one_def vchan_vdesc_fini_def)
    obtain f l where "opt_fold (vchan_complete_one vchan_free_desc) ds ?ch = Some (?ch\<lparr>
        desc_allocated := rev (filter (reused ?ch) ds) @ desc_allocated ?ch, freed := freed ?ch @ filter (\<lambda>d. \<not> reused ?ch d) ds,
        called := called ?ch @ concat (map (calls_of ?ch) ds), ch_descs := f, ch_live := l\<rparr>)"
      "\<forall>d. d \<notin> set ds \<or> reused ?ch d \<longrightarrow> f d = ch_descs ?ch d"
      "l = ch_live ?ch - sum_list (map (\<lambda>d. desc_size (ch_descs ?ch d)) (filter (\<lambda>d. \<not> reused ?ch d) ds))"
      using Cons.IH[of ?ch] Cons.prems by auto
    then show ?thesis using one True by (intro exI[of _ f] exI[of _ l]) simp
  next
    case False
    obtain m h where m: "mtdma_free_desc (ch_descs ch d) (heap_of ch) = Some (m, h)" "kh_live h = ch_live ch - desc_size (ch_descs ch d)"
      using free_desc_ok[of "ch_descs ch d" "heap_of ch"] Cons.prems(2) by (auto simp: heap_of_def)
    let ?ch = "ch\<lparr>called := called ch @ calls_of ch d, freed := freed ch @ [d], ch_descs := (ch_descs ch)(d := m), ch_live := kh_live h\<rparr>"
    have one: "vchan_complete_one vchan_free_desc d ch = Some ?ch"
      using False m(1) by (simp add: vchan_complete_one_def vchan_vdesc_fini_def vchan_free_desc_def heap_of_def)
    have e: "\<forall>x \<in> set ds. ch_descs ?ch x = ch_descs ch x" using Cons.prems(1) by auto
    obtain f l where r: "opt_fold (vchan_complete_one vchan_free_desc) ds ?ch = Some (?ch\<lparr>
        desc_allocated := rev (filter (reused ?ch) ds) @ desc_allocated ?ch, freed := freed ?ch @ filter (\<lambda>d. \<not> reused ?ch d) ds,
        called := called ?ch @ concat (map (calls_of ?ch) ds), ch_descs := f, ch_live := l\<rparr>)"
      "\<forall>d. d \<notin> set ds \<or> reused ?ch d \<longrightarrow> f d = ch_descs ?ch d"
      "l = ch_live ?ch - sum_list (map (\<lambda>d. desc_size (ch_descs ?ch d)) (filter (\<lambda>d. \<not> reused ?ch d) ds))"
      using Cons.IH[of ?ch] Cons.prems e by auto
    have "opt_fold (vchan_complete_one vchan_free_desc) (d # ds) ch = Some (ch\<lparr>
        desc_allocated := rev (filter (reused ch) (d # ds)) @ desc_allocated ch, freed := freed ch @ filter (\<lambda>d. \<not> reused ch d) (d # ds),
        called := called ch @ concat (map (calls_of ch) (d # ds)), ch_descs := f, ch_live := l\<rparr>)"
      using one r(1) False by simp
    moreover have sizes: "map (\<lambda>d. desc_size (ch_descs ?ch d)) (filter (\<lambda>d. \<not> reused ?ch d) ds) =
        map (\<lambda>d. desc_size (ch_descs ch d)) (filter (\<lambda>d. \<not> reused ch d) ds)" using e by simp
    have "l = ch_live ch - sum_list (map (\<lambda>d. desc_size (ch_descs ch d)) (filter (\<lambda>d. \<not> reused ch d) (d # ds)))"
      using False m(2) r(3)[unfolded sizes] by simp
    moreover have "\<forall>x. x \<notin> set (d # ds) \<or> reused ch x \<longrightarrow> f x = ch_descs ch x" using r(2) False by auto
    ultimately show ?thesis by blast
  qed
qed

text \<open>What the tasklet leaves alone, and what it does to the lists.\<close>

definition tasklet_done :: "mtdma_chan \<Rightarrow> mtdma_chan \<Rightarrow> bool" where
  "tasklet_done ch ch' \<longleftrightarrow> ch_info ch' = ch_info ch \<and> ch_dir ch' = ch_dir ch \<and> ch_trace ch' = ch_trace ch \<and> ch_request ch' = ch_request ch \<and>
     ch_status ch' = ch_status ch \<and> ch_configured ch' = ch_configured ch \<and> vd_store ch' = vd_store ch \<and> cyclic ch' = None \<and> \<not> task_scheduled ch' \<and>
     desc_allocated ch' = rev (filter (reused ch) (desc_completed ch)) @ desc_allocated ch \<and> desc_submitted ch' = desc_submitted ch \<and>
     desc_issued ch' = desc_issued ch \<and> desc_completed ch' = [] \<and> desc_terminated ch' = desc_terminated ch \<and>
     freed ch' = freed ch @ filter (\<lambda>d. \<not> reused ch d) (desc_completed ch) \<and>
     called ch' = called ch @ (case cyclic ch of None \<Rightarrow> [] | Some d \<Rightarrow> calls_of ch d) @ concat (map (calls_of ch) (desc_completed ch))"

lemma tasklet_ok:
  assumes "chan_inv ch"
  shows "\<exists>ch'. vchan_complete vchan_free_desc ch = Some ch' \<and> chan_inv ch' \<and> tasklet_done ch ch'"
proof -
  let ?ds = "desc_completed ch"
  let ?cy = "case cyclic ch of None \<Rightarrow> [] | Some d \<Rightarrow> calls_of ch d"
  let ?ch = "ch\<lparr>desc_completed := [], task_scheduled := False, cyclic := None, called := called ch @ ?cy\<rparr>"
  have v: "vchan_inv ch" "\<forall>d \<in> set (all_descs ch). desc_ok (ch_descs ch d)" "ch_live ch = live_descs ch" using assms by (simp_all add: chan_inv_def)
  then have ds: "distinct ?ds" "\<forall>d \<in> set ?ds. freeable (ch_descs ?ch d)"
    by (auto simp: vchan_inv_def all_descs_def intro: desc_ok_freeable)
  from complete_fold[OF ds] obtain f l where f: "opt_fold (vchan_complete_one vchan_free_desc) ?ds ?ch = Some (?ch\<lparr>
      desc_allocated := rev (filter (reused ch) ?ds) @ desc_allocated ch, freed := freed ch @ filter (\<lambda>d. \<not> reused ch d) ?ds,
      called := called ch @ ?cy @ concat (map (calls_of ch) ?ds), ch_descs := f, ch_live := l\<rparr>)"
    "\<forall>d. d \<notin> set ?ds \<or> reused ch d \<longrightarrow> f d = ch_descs ch d"
    "l = ch_live ch - sum_list (map (\<lambda>d. desc_size (ch_descs ch d)) (filter (\<lambda>d. \<not> reused ch d) ?ds))" by auto
  define ch' where "ch' = ?ch\<lparr>desc_allocated := rev (filter (reused ch) ?ds) @ desc_allocated ch,
      freed := freed ch @ filter (\<lambda>d. \<not> reused ch d) ?ds, called := called ch @ ?cy @ concat (map (calls_of ch) ?ds), ch_descs := f, ch_live := l\<rparr>"
  have none: "ch\<lparr>desc_completed := [], task_scheduled := False\<rparr> = ?ch" if "cyclic ch = None" using that by (cases ch) simp
  have run: "vchan_complete vchan_free_desc ch = Some ch'"
  proof (cases "cyclic ch")
    case None
    then have "vchan_complete vchan_free_desc ch = opt_fold (vchan_complete_one vchan_free_desc) ?ds (ch\<lparr>desc_completed := [], task_scheduled := False\<rparr>)"
      by (simp add: vchan_complete_def Let_def)
    then show ?thesis using f(1) none[OF None] by (simp only: ch'_def)
  next
    case (Some d)
    then show ?thesis using f(1) by (simp add: vchan_complete_def Let_def ch'_def)
  qed
  have all: "set (all_descs ch') = set (all_descs ch) - set (filter (\<lambda>d. \<not> reused ch d) ?ds)"
    using v(1) by (auto simp: ch'_def all_descs_def vchan_inv_def)
  have fr: "f d = ch_descs ch d" if "d \<in> set (all_descs ch')" for d using that f(2) all by auto
  have "live_descs ch' = (\<Sum>d \<in> set (all_descs ch'). desc_size (ch_descs ch d))"
    unfolding live_descs_def by (rule sum.cong) (simp_all add: fr ch'_def)
  also have "\<dots> = live_descs ch - (\<Sum>d \<in> set (filter (\<lambda>d. \<not> reused ch d) ?ds). desc_size (ch_descs ch d))"
    unfolding all live_descs_def by (rule sum_diff) (auto simp: all_descs_def)
  also have "(\<Sum>d \<in> set (filter (\<lambda>d. \<not> reused ch d) ?ds). desc_size (ch_descs ch d)) =
      sum_list (map (\<lambda>d. desc_size (ch_descs ch d)) (filter (\<lambda>d. \<not> reused ch d) ?ds))"
    using ds(1) by (simp add: sum_list_distinct_conv_sum_set)
  finally have live: "ch_live ch' = live_descs ch'" using f(3) v(3) by (simp add: ch'_def)
  have "vchan_inv ch'" using v(1) by (auto simp: ch'_def vchan_inv_def all_descs_def pending_def)
  moreover have "\<forall>d \<in> set (all_descs ch'). desc_ok (ch_descs ch' d)" using v(2) all fr by (auto simp: ch'_def)
  moreover have "0 < ll_max (ch_info ch')" using assms by (simp add: chan_inv_def ch'_def)
  ultimately have "chan_inv ch'" using live by (simp add: chan_inv_def)
  moreover have "tasklet_done ch ch'" by (simp add: tasklet_done_def ch'_def)
  ultimately show ?thesis using run by blast
qed

lemma submit_ok:
  assumes "chan_inv ch" "d \<in> set (desc_allocated ch)"
  shows "chan_inv (snd (vchan_tx_submit d ch))"
proof (rule chan_inv_moved[OF assms(1)])
  show "vchan_inv (snd (vchan_tx_submit d ch))" using assms vchan_submit_inv[of ch d] by (simp add: chan_inv_def)
  have "d \<notin> set (desc_submitted ch)" "d \<notin> set (desc_issued ch)" "d \<notin> set (desc_completed ch)" "d \<notin> set (desc_terminated ch)"
    using assms by (auto simp: chan_inv_def vchan_inv_def all_descs_def)
  then show "set (all_descs (snd (vchan_tx_submit d ch))) = set (all_descs ch)"
    using remove1_insert[OF assms(2)] by (auto simp: vchan_defs all_descs_def remove1_id)
qed (simp_all add: vchan_defs)

lemma desc_wf_ok:
  assumes "desc_wf lmax desc" "chunk_bursts (last_chunk desc) \<noteq> []" "0 < lmax" "length (desc_bursts desc) < 2^32"
  shows "desc_ok desc"
proof -
  obtain cs c where d: "md_chunks desc = Some (cs @ [c])" "chunk_wf lmax c"
    "\<forall>d \<in> set cs. chunk_wf lmax d \<and> length (chunk_bursts d) = unat lmax"
    "md_chunks_alloc desc = of_nat (length cs + 1)"
    using assms(1) by (auto simp: desc_wf_def)
  have pos: "0 < unat lmax" using assms(3) by (simp add: word_less_nat_alt)
  have lm: "k < 2^32" if "k \<le> unat lmax" for k :: nat
    using that unsigned_less[of lmax, where ?'a = nat] by simp
  have ne: "\<exists>bs. ck_bursts x = Some bs \<and> bs \<noteq> [] \<and> length bs < 2^32" if "x \<in> set (cs @ [c])" for x
  proof (cases "x \<in> set cs")
    case True
    then have "chunk_wf lmax x" "length (chunk_bursts x) = unat lmax" using d(3) by auto
    then show ?thesis using pos lm by (auto simp: chunk_wf_def chunk_bursts_def)
  next
    case False
    then show ?thesis using that d(1,2) assms(2) lm by (auto simp: chunk_wf_def chunk_bursts_def last_chunk_def)
  qed
  have "length xs \<le> length (concat (map chunk_bursts xs))" if "\<forall>x \<in> set xs. \<exists>bs. ck_bursts x = Some bs \<and> bs \<noteq> []" for xs
    using that by (induction xs) (auto simp: chunk_bursts_def Suc_le_eq add_strict_increasing neq_Nil_conv)
  then have "length (cs @ [c]) \<le> length (concat (map chunk_bursts (cs @ [c])))" using ne by blast
  then have "length (cs @ [c]) \<le> length (desc_bursts desc)"
    using d(1) by (simp add: desc_bursts_def desc_chunks_def)
  then show ?thesis using d ne assms(4) unfolding desc_ok_def by auto
qed

lemma length_sg_bursts [simp]: "length (sg_bursts dir src dst sgl) = length sgl"
  by (induction sgl arbitrary: src dst) auto

text \<open>What the first two allocations make, and the memory they take.\<close>

lemma alloc_desc_live:
  assumes "mtdma_alloc_desc mem h info = (r, h')"
  shows "case r of None \<Rightarrow> kh_live h' = kh_live h | Some m \<Rightarrow> m = zero_desc\<lparr>md_chunks := Some []\<rparr> \<and> kh_live h' = kh_live h + desc_size m"
  using assms by (auto simp: alloc_defs kfree_def zero_desc_def desc_size_def split: if_splits)

lemma first_chunk:
  assumes "mtdma_alloc_chunk mem h info (zero_desc\<lparr>md_chunks := Some []\<rparr>) = (Some m, h')"
  shows "m = zero_desc\<lparr>md_chunks := Some [\<lparr>ck_bursts = Some [], ck_bursts_alloc = 0, ck_paddr = ll_laddr info, ck_vaddr = ll_vaddr info, ck_sz = 0\<rparr>],
    md_chunks_alloc := 1\<rparr>"
  using assms by (auto simp: alloc_defs zero_desc_def split: if_splits)

text \<open>Failing, at whichever allocation, gives back all that was allocated; succeeding, the memory of the descriptor is added.\<close>

lemma err_alloc_ok:
  assumes "freeable m" "kh_live h = ch_live ch + desc_size m"
  shows "err_alloc ch (Some m) h = Some (None, ch)"
  using free_desc_ok[OF assms(1), of h] assms(2) by (auto simp: err_alloc_def)

lemma prep_result:
  assumes "0 < ll_max (ch_info ch)" "sgl \<noteq> []"
  shows "mtdma_device_transfer mem d sgl len fl ch = Some (None, ch) \<or>
    (\<exists>desc. mtdma_device_transfer mem d sgl len fl ch = Some (Some d, vchan_tx_prep d fl (ch\<lparr>ch_descs := (ch_descs ch)(d := desc),
        ch_live := ch_live ch + desc_size desc, vd_store := (vd_store ch)(d := empty_desc)\<rparr>)) \<and>
      desc_wf (ll_max (ch_info ch)) desc \<and> desc_ok desc \<and>
      desc_bursts desc = sg_bursts (ch_dir ch) (ch_src_addr ch) (ch_dst_addr ch) (take (unat len) sgl) \<and>
      md_alloc_sz desc = sum_list (map snd (take (unat len) sgl)) \<and> md_xfer_sz desc = 0)"
proof (cases "ch_configured ch \<and> \<not> len < 1")
  case False
  then show ?thesis by (auto simp: mtdma_device_transfer_def)
next
  case True
  let ?info = "ch_info ch" and ?sgl = "take (unat len) sgl"
  obtain r0 h0 where 0: "mtdma_alloc_desc mem (heap_of ch) ?info = (r0, h0)" by (cases "mtdma_alloc_desc mem (heap_of ch) ?info")
  note a0 = alloc_desc_live[OF 0]
  show ?thesis
  proof (cases r0)
    case None
    then show ?thesis using True 0 a0 by (simp add: mtdma_device_transfer_def err_alloc_def heap_of_def)
  next
    case m0: (Some m0)
    then have m0': "m0 = zero_desc\<lparr>md_chunks := Some []\<rparr>" "kh_live h0 = ch_live ch + desc_size m0" using a0 by (simp_all add: heap_of_def)
    have f0: "freeable m0" by (simp add: m0' freeable_def)
    obtain r1 h1 where 1: "mtdma_alloc_chunk mem h0 ?info m0 = (r1, h1)" by (cases "mtdma_alloc_chunk mem h0 ?info m0")
    note a1 = alloc_chunk_live[OF 1 f0]
    show ?thesis
    proof (cases r1)
      case None
      then show ?thesis using True 0 m0 1 a1 err_alloc_ok[OF f0, of h1 ch] m0'(2) by (simp add: mtdma_device_transfer_def)
    next
      case m1: (Some m1)
      then have m1': "kh_live h1 = ch_live ch + desc_size m1" "freeable m1" "md_chunks m1 \<noteq> Some []" using a1 m0'(2) by auto
      have e1: "m1 = zero_desc\<lparr>md_chunks := Some [\<lparr>ck_bursts = Some [], ck_bursts_alloc = 0, ck_paddr = ll_laddr ?info,
          ck_vaddr = ll_vaddr ?info, ck_sz = 0\<rparr>], md_chunks_alloc := 1\<rparr>"
        using first_chunk[of mem h0 ?info m1 h1] 1 m1 m0'(1) by simp
      obtain ok m2 h2 where 2: "transfer_loop mem ?info (ch_dir ch) h1 m1 (ch_src_addr ch) (ch_dst_addr ch) ?sgl = (ok, m2, h2)"
        by (cases "transfer_loop mem ?info (ch_dir ch) h1 m1 (ch_src_addr ch) (ch_dst_addr ch) ?sgl")
      have a2: "kh_live h2 = ch_live ch + desc_size m2" "freeable m2" using transfer_loop_live[OF 2 m1'(2,3)] m1'(1) by simp_all
      show ?thesis
      proof (cases ok)
        case False
        then show ?thesis using True 0 m0 1 m1 2 err_alloc_ok[OF a2(2,1)] by (simp add: mtdma_device_transfer_def)
      next
        case ok: True
        have "desc_wf (ll_max ?info) m1"
          unfolding desc_wf_def by (rule exI[of _ "[]"]) (simp add: e1 chunk_wf_def)
        from transfer_loop_wf[OF 2[unfolded ok[THEN eqTrueI]] this assms(1)] have
          w: "desc_wf (ll_max ?info) m2" "desc_bursts m2 = sg_bursts (ch_dir ch) (ch_src_addr ch) (ch_dst_addr ch) ?sgl"
          "md_alloc_sz m2 = sum_list (map snd ?sgl)" "md_xfer_sz m2 = 0" "?sgl \<noteq> [] \<longrightarrow> chunk_bursts (last_chunk m2) \<noteq> []"
          by (simp_all add: e1 zero_desc_def desc_bursts_def desc_chunks_def chunk_bursts_def)
        have "?sgl \<noteq> []" using assms(2) True by (auto simp: word_less_nat_alt)
        moreover have "length ?sgl < 2^32" using unsigned_less[of len, where ?'a = nat] by simp
        ultimately have "desc_ok m2" using desc_wf_ok[OF w(1) _ assms(1)] w(2,5) by simp
        then show ?thesis using True 0 m0 1 m1 2 ok w a2(1) by (intro disjI2 exI[of _ m2]) (simp add: mtdma_device_transfer_def)
      qed
    qed
  qed
qed

lemma prepared_inv:
  assumes "chan_inv ch" "d \<notin> set (all_descs ch)" "desc_ok desc"
    "ch' = vchan_tx_prep d fl (ch\<lparr>ch_descs := (ch_descs ch)(d := desc), ch_live := ch_live ch + desc_size desc,
        vd_store := (vd_store ch)(d := empty_desc)\<rparr>)"
  shows "chan_inv ch'"
proof -
  let ?c = "ch\<lparr>ch_descs := (ch_descs ch)(d := desc), ch_live := ch_live ch + desc_size desc, vd_store := (vd_store ch)(d := empty_desc)\<rparr>"
  have "vchan_inv ?c" "d \<notin> set (all_descs ?c)"
    using assms(1,2) by (auto simp: chan_inv_def vchan_inv_def all_descs_def pending_def)
  then have "vchan_inv ch'" using vchan_prep_inv(1)[of ?c d fl] assms(4) by simp
  moreover have e: "ch_descs ch' = (ch_descs ch)(d := desc)" "ch_info ch' = ch_info ch" "ch_live ch' = ch_live ch + desc_size desc"
    "set (all_descs ch') = insert d (set (all_descs ch))"
    by (auto simp: assms(4) vchan_tx_prep_def vd_update_def Let_def all_descs_def)
  moreover have "live_descs ch' = desc_size desc + (\<Sum>x \<in> set (all_descs ch). desc_size (ch_descs ch' x))"
    unfolding live_descs_def e(4) using assms(2) by (simp add: e(1))
  moreover have "(\<Sum>x \<in> set (all_descs ch). desc_size (ch_descs ch' x)) = live_descs ch"
    unfolding live_descs_def by (rule sum.cong) (use assms(2) e(1) in auto)
  ultimately show ?thesis using assms(1,3) by (auto simp: chan_inv_def)
qed

lemma prep_ok:
  assumes "chan_inv ch" "d \<notin> set (all_descs ch)" "sgl \<noteq> []"
  shows "\<exists>r ch'. mtdma_device_transfer mem d sgl len fl ch = Some (r, ch') \<and> chan_inv ch'"
proof -
  have "0 < ll_max (ch_info ch)" using assms(1) by (simp add: chan_inv_def)
  from prep_result[OF this assms(3), of mem d len fl] show ?thesis
    using assms(1) prepared_inv[OF assms(1,2) _ refl] by blast
qed

section \<open>The state machine\<close>

text \<open>What a client, the interrupt line and the tasklet can do to a channel.  A
  client prepares a non-empty list under a fresh address and submits what it
  prepared; the first field of \<open>Prep\<close> says which allocations succeed.\<close>

datatype mtdma_event =
    Config u64 u64
  | Prep "nat \<Rightarrow> bool" nat "sg_entry list" u32 "dma_ctrl_flag set"
  | Submit nat
  | IssuePending
  | Interrupt
  | TerminateAll
  | Tasklet

fun enabled :: "mtdma_event \<Rightarrow> mtdma_chan \<Rightarrow> bool" where
  "enabled (Prep mem d sgl len fl) ch \<longleftrightarrow> d \<notin> set (all_descs ch) \<and> sgl \<noteq> []"
| "enabled (Submit d) ch \<longleftrightarrow> d \<in> set (desc_allocated ch)"
| "enabled _ ch \<longleftrightarrow> True"

fun mtdma_apply :: "hardware \<Rightarrow> mtdma_event \<Rightarrow> mtdma_chan \<Rightarrow> mtdma_chan option" where
  "mtdma_apply hw (Config s d) ch = Some (snd (mtdma_device_config s d ch))"
| "mtdma_apply hw (Prep mem d sgl len fl) ch = map_option snd (mtdma_device_prep_slave_sg mem d sgl len (ch_dir ch) fl ch)"
| "mtdma_apply hw (Submit d) ch = Some (snd (vchan_tx_submit d ch))"
| "mtdma_apply hw IssuePending ch = mtdma_device_issue_pending hw ch"
| "mtdma_apply hw Interrupt ch = mtdma_isr hw ch"
| "mtdma_apply hw TerminateAll ch = Some (snd (mtdma_device_terminate_all hw ch))"
| "mtdma_apply hw Tasklet ch = kill_tasklet ch"

inductive mtdma_reach :: "hardware \<Rightarrow> mtdma_chan \<Rightarrow> bool" for hw where
  fresh: "0 < ll_max (ch_info ch) \<Longrightarrow> ch_live ch = 0 \<Longrightarrow> mtdma_reach hw (setup_chan dir i ch)"
| step: "mtdma_reach hw ch \<Longrightarrow> enabled ev ch \<Longrightarrow> mtdma_apply hw ev ch = Some ch' \<Longrightarrow> mtdma_reach hw ch'"

inductive_cases mtdma_reachE: "mtdma_reach hw ch"

lemma setup_chan_inv:
  assumes "0 < ll_max (ch_info ch)" "ch_live ch = 0"
  shows "chan_inv (setup_chan dir i ch)"
  using assms vchan_init_inv[of "ch\<lparr>ch_id := i, ch_dir := dir, ch_configured := False,
       ch_request := MTDMA_REQ_NONE, ch_status := MTDMA_ST_IDLE\<rparr>"]
  by (auto simp: setup_chan_def chan_inv_def live_descs_def all_descs_def vchan_init_def dma_cookie_init_def)

lemma apply_ok:
  assumes "chan_inv ch" "enabled ev ch"
  shows "\<exists>ch'. mtdma_apply hw ev ch = Some ch' \<and> chan_inv ch'"
proof (cases ev)
  case (Config s d)
  then show ?thesis using assms(1) by (simp add: mtdma_device_config_def)
next
  case (Prep mem d sgl len fl)
  then show ?thesis using prep_ok[OF assms(1), of d sgl mem len fl] assms(2) by (auto simp: mtdma_device_prep_slave_sg_def)
next
  case (Submit d)
  then show ?thesis using submit_ok[OF assms(1)] assms(2) by simp
next
  case IssuePending
  then show ?thesis using issue_pending_ok[OF assms(1)] by simp
next
  case Interrupt
  then show ?thesis using isr_ok[OF assms(1)] by simp
next
  case TerminateAll
  then show ?thesis using terminate_ok[OF assms(1)] by simp
next
  case Tasklet
  then show ?thesis using tasklet_ok[OF assms(1)] assms(1) by (auto simp: kill_tasklet_def)
qed

lemma reach_inv: "mtdma_reach hw ch \<Longrightarrow> chan_inv ch"
proof (induction rule: mtdma_reach.induct)
  case (fresh ch dir i)
  then show ?case by (rule setup_chan_inv)
next
  case (step ch ev ch')
  then show ?case using apply_ok[of ch ev hw] by auto
qed

section \<open>What the driver promises\<close>

text \<open>C9. The stores of one chunk leave in memory a chain of descriptors that the
  device, following the links while the chain bit is set, reads as exactly
  the bursts of the chunk in order: source, destination and byte count.\<close>

theorem write_chunk_chain:
  assumes "fst (rg_vaddr info) \<noteq> fst (ll_vaddr info)" "ck_bursts chunk = Some bs" "bs \<noteq> []" "length bs < 2^32"
  shows "\<exists>m. mtdma_v0_core_write_chunk info chunk = Some m \<and>
    walk chained (mem_after (exec m []) mem0) (ll_vaddr info) (ll_laddr info) (length bs)
      (io_off (rg_vaddr info) REG_DMA_CH_DESC_OPT) = Some (map (\<lambda>b. (b_sar b, b_dar b, b_sz b)) bs)"
proof -
  obtain m where m: "mtdma_v0_core_write_chunk info chunk = Some m"
    "\<forall>t. run_state m t = ((), t @ chain_trace info 0 bs @
      [Wr (io_off (lli_of info (length bs - 1)) DESC_OP) DMA_CH_DESC_BIT_INTR_EN])"
    using run_write_chunk[OF assms(2,3)] by blast
  have "exec m [] = chain_trace info 0 bs @ [Wr (io_off (lli_of info (0 + length bs - 1)) DESC_OP) DMA_CH_DESC_BIT_INTR_EN]"
    using m(2) by (simp add: exec_def)
  from walk_chain[OF assms(1,3) _ refl, of 0, unfolded this[symmetric]] show ?thesis
    using m(1) assms(4) by (simp add: lli_of_def lli_at_def)
qed

lemma transfer_succeeds:
  assumes "ch_configured ch" "len \<noteq> 0" "\<forall>n. mem n"
  shows "mtdma_device_transfer mem d sgl len fl ch \<noteq> Some (None, ch)"
proof -
  note mem = assms(3)
  have len: "\<not> len < 1" using assms(2) by simp
  obtain m0 h0 where 0: "mtdma_alloc_desc mem (heap_of ch) (ch_info ch) = (Some m0, h0)" "md_chunks m0 \<noteq> None"
    using assms(3) by (auto simp: alloc_defs zero_desc_def)
  obtain m1 h1 where 1: "mtdma_alloc_chunk mem h0 (ch_info ch) m0 = (Some m1, h1)" "md_chunks m1 \<noteq> None"
    using alloc_chunk_succeeds[OF mem 0(2)] by blast
  show ?thesis
    using assms(1) len 0(1) 1(1) transfer_loop_succeeds[OF mem 1(2), of "ch_info ch" "ch_dir ch" h1 "ch_src_addr ch" "ch_dst_addr ch" "take (unat len) sgl"]
    by (auto simp: mtdma_device_transfer_def split: prod.splits bool.splits)
qed

lemma prep_succeeds:
  assumes "ch_configured ch" "len \<noteq> 0" "\<forall>n. mem n" "0 < ll_max (ch_info ch)" "sgl \<noteq> []"
  shows "\<exists>desc. mtdma_device_transfer mem d sgl len fl ch = Some (Some d, vchan_tx_prep d fl (ch\<lparr>ch_descs := (ch_descs ch)(d := desc),
        ch_live := ch_live ch + desc_size desc, vd_store := (vd_store ch)(d := empty_desc)\<rparr>)) \<and>
      desc_wf (ll_max (ch_info ch)) desc \<and> desc_ok desc \<and>
      desc_bursts desc = sg_bursts (ch_dir ch) (ch_src_addr ch) (ch_dst_addr ch) (take (unat len) sgl) \<and>
      md_alloc_sz desc = sum_list (map snd (take (unat len) sgl)) \<and> md_xfer_sz desc = 0"
  using prep_result[OF assms(4,5), of mem d len fl] transfer_succeeds[OF assms(1-3), of d sgl fl] by blast

text \<open>C8. A prepared descriptor holds one burst per entry of the scatter list, with
  the device address advancing by the lengths, in chunks of at most \<open>ll_max\<close>
  bursts of which all but the last are full; its size is the sum of the lengths
  modulo 2^32 and nothing counts as transferred.  Preparing fails only for an
  unconfigured channel, an empty list or an allocation failure.\<close>

theorem prep_slave_sg_correct:
  assumes "ch_configured ch" "len \<noteq> 0" "sgl \<noteq> []" "0 < ll_max (ch_info ch)" "\<And>n. mem n"
  shows "\<exists>ch' desc. mtdma_device_prep_slave_sg mem d sgl len dir fl ch = Some (Some d, ch') \<and> ch_descs ch' d = desc \<and>
    desc_wf (ll_max (ch_info ch)) desc \<and>
    desc_bursts desc = sg_bursts (ch_dir ch) (ch_src_addr ch) (ch_dst_addr ch) (take (unat len) sgl) \<and>
    md_alloc_sz desc = sum_list (map snd (take (unat len) sgl)) \<and> md_xfer_sz desc = 0 \<and>
    d \<in> set (desc_allocated ch')"
proof -
  obtain desc where r: "mtdma_device_transfer mem d sgl len fl ch = Some (Some d, vchan_tx_prep d fl (ch\<lparr>ch_descs := (ch_descs ch)(d := desc),
        ch_live := ch_live ch + desc_size desc, vd_store := (vd_store ch)(d := empty_desc)\<rparr>))" "desc_wf (ll_max (ch_info ch)) desc"
    "desc_bursts desc = sg_bursts (ch_dir ch) (ch_src_addr ch) (ch_dst_addr ch) (take (unat len) sgl)"
    "md_alloc_sz desc = sum_list (map snd (take (unat len) sgl))" "md_xfer_sz desc = 0"
    using prep_succeeds[OF assms(1,2) _ assms(4,3), of mem d fl] assms(5) by blast
  then show ?thesis by (auto simp: mtdma_device_prep_slave_sg_def vchan_tx_prep_def vd_update_def Let_def)
qed

text \<open>C4. A channel stays sound: take any sequence of configurations, preparations, submissions, issues, terminations, interrupts and tasklet runs
  from channel setup on, whatever the hardware returns and whichever allocations fail, in which the client keeps its side (a list to prepare is
  not empty, a new descriptor has a fresh address, and only what was prepared is submitted).  Every further
  such step completes without a null dereference, also in the routines that free bursts, chunks and descriptors, without a \<open>BUG_ON\<close> or a store through the
  uninitialised descriptor pointer; no descriptor is on two lists, every
  waiting descriptor has a positive cookie, and the structures allocated and not yet freed are exactly those of the descriptors on the lists: nothing is leaked or freed twice.\<close>

theorem mtdma_channel_safe:
  assumes "mtdma_reach hw ch" "enabled ev ch"
  shows "\<exists>ch'. mtdma_apply hw ev ch = Some ch' \<and> mtdma_reach hw ch' \<and> distinct (all_descs ch') \<and>
    (\<forall>d \<in> set (pending ch'). 1 \<le> sint (cookie_of ch' d)) \<and>
    ch_live ch' = (\<Sum>d \<in> set (all_descs ch'). desc_size (ch_descs ch' d))"
proof -
  obtain ch' where ch': "mtdma_apply hw ev ch = Some ch'" "chan_inv ch'"
    using apply_ok[OF reach_inv[OF assms(1)] assms(2)] by blast
  then show ?thesis using mtdma_reach.step[OF assms ch'(1)] by (auto simp: chan_inv_def vchan_inv_def live_descs_def)
qed

text \<open>The register sequence that starts a chunk.  For a transfer to the device the
  very first store to the enable register already sets bit 0, the enable bit,
  before flow control and interrupt mask are programmed: the code writes
  \<open>DMA_CH_EN_BIT_DESC_MST1\<close>, a bit of the direction register, there.\<close>

theorem core_start_sequence:
  assumes "ck_bursts chunk = Some bs" "bs \<noteq> []"
  shows "\<exists>m raw en ws. mtdma_v0_core_start hw dir info chunk = Some m \<and>
    exec m t = t @ ws @
      [Wr (io_off (rg_vaddr info) REG_DMA_CH_ENABLE) (if dir = DMA_MEM_TO_DEV then DMA_CH_EN_BIT_ENABLE else 0),
       Wr (io_off (rg_vaddr info) REG_DMA_CH_FC) 0x21,
       Wr (io_off (rg_vaddr info) REG_DMA_CH_INTR_IMSK) 0,
       Rd (io_off (rg_vaddr info) REG_DMA_CH_INTR_RAW) raw,
       Wr (io_off (rg_vaddr info) REG_DMA_CH_INTR_RAW) raw,
       Rd (io_off (rg_vaddr info) REG_DMA_CH_ENABLE) en,
       Wr (io_off (rg_vaddr info) REG_DMA_CH_ENABLE) DMA_CH_EN_BIT_ENABLE]"
proof -
  obtain w where w: "mtdma_v0_core_write_chunk info chunk = Some w"
    "\<And>t. run_state w t = ((), t @ chain_trace info 0 bs @
      [Wr (io_off (lli_of info (length bs - 1)) DESC_OP) DMA_CH_DESC_BIT_INTR_EN])"
    using run_write_chunk[OF assms] by blast
  then show ?thesis
    by (simp add: mtdma_v0_core_start_def mmio_simps Let_def DMA_CH_EN_BIT_ENABLE_def DMA_CH_EN_BIT_DESC_MST1_def
        WCH_FC_THLD_def)
qed

text \<open>When the last chunk of a descriptor is done the channel goes idle and the
  next issued descriptor is not started: no register is touched, so without a
  further \<open>issue_pending\<close> of the client it never runs.\<close>

theorem done_leaves_next_waiting:
  assumes "desc_issued ch = d # e # rest" "ch_request ch = MTDMA_REQ_NONE" "md_chunks_alloc (ch_descs ch d) = 0"
    "1 \<le> sint (cookie_of ch d)"
  shows "\<exists>ch'. mtdma_done_interrupt hw ch = Some ch' \<and> ch_status ch' = MTDMA_ST_IDLE \<and>
    desc_issued ch' = e # rest \<and> ch_trace ch' = ch_trace ch \<and> completed_cookie ch' = cookie_of ch d"
  using assms by (simp add: mtdma_done_interrupt_def vchan_defs)

text \<open>Issuing while the descriptor at the head has no chunk left, as after a
  termination that found the channel complete but its interrupt lost, marks the
  channel busy without touching the hardware; nothing will ever complete it.\<close>

theorem issue_pending_busy_without_start:
  assumes "ch_configured ch" "ch_request ch = MTDMA_REQ_NONE" "ch_status ch = MTDMA_ST_IDLE"
    "pending ch = d # ds" "md_chunks (ch_descs ch d) = Some []"
  shows "\<exists>ch'. mtdma_device_issue_pending hw ch = Some ch' \<and> ch_status ch' = MTDMA_ST_BUSY \<and>
    ch_trace ch' = ch_trace ch \<and> desc_issued ch' = d # ds"
  using assms
  by (auto simp: mtdma_device_issue_pending_def vchan_issue_pending_def pending_def Let_def
      mtdma_start_transfer_def vchan_next_desc_def split: list.splits)

text \<open>C35. Terminating always returns 0, and so releasing a channel is a single round, whatever the clock and the hardware say: unless the timeout
  has passed before it begins, the channel is terminated exactly once, nothing else is done to it, and the power reference is dropped.\<close>

theorem terminate_release_ends:
  "fst (mtdma_device_terminate_all hw ch) = 0 \<and>
   mtdma_free_chan_resources hw clock ch =
     (True, if clock \<noteq> [] \<and> hd clock then snd (mtdma_device_terminate_all hw ch) else ch)"
proof -
  have 0: "fst (mtdma_device_terminate_all hw ch) = 0"
    by (cases "ch_request ch")
      (auto simp: mtdma_device_terminate_all_def mtdma_v0_core_ch_status_def request_level_def Let_def split_beta ch_do_def)
  then show ?thesis by (cases clock) (auto simp: split_beta Let_def)
qed

text \<open>The residue of a transfer still in progress is what was allocated minus what
  was handed to the hardware, for the issued descriptor with the cookie; a
  complete or unknown cookie reports none.\<close>

theorem tx_status_residue:
  assumes "is_complete c (completed_cookie ch) (chan_cookie ch) = DMA_IN_PROGRESS"
  shows "mtdma_device_tx_status is_complete ch c True =
    (if ch_status ch = MTDMA_ST_PAUSE then DMA_PAUSED else DMA_IN_PROGRESS,
     Some \<lparr>st_last = completed_cookie ch, st_used = chan_cookie ch,
       st_residue = (case find (\<lambda>d. cookie_of ch d = c) (desc_issued ch) of
          Some d \<Rightarrow> md_alloc_sz (ch_descs ch d) - md_xfer_sz (ch_descs ch d) | None \<Rightarrow> 0)\<rparr>)"
  using assms
  by (auto simp: mtdma_device_tx_status_def dma_cookie_status_def dma_set_residue_def vchan_find_desc_def Let_def
      split: option.splits)

text \<open>A failure to register the write-side device goes unnoticed: probing reports
  success, and installs the interrupt handler, whenever the read side registers.\<close>

theorem probe_ignores_write_registration:
  assumes "wr_ch_cnt md \<noteq> 0 \<or> rd_ch_cnt md \<noteq> 0" "reg 1 = 0"
  shows "\<exists>md'. mtdma_probe reg True True (Some md) = (0, Some md') \<and> isr_set md' \<and>
    wr_ch_cnt md' \<le> 64 \<and> rd_ch_cnt md' \<le> 64"
proof -
  have "min a (64::u16) = 0 \<longleftrightarrow> a = 0" for a by (cases "a = 0") (simp_all add: min_def)
  then show ?thesis using assms
    by (auto simp: mtdma_probe_def mtdma_channel_setup_def mtdma_v0_core_off_def MTDMA_MAX_WR_CH_def
        MTDMA_MAX_RD_CH_def Let_def)
qed

section \<open>Witnesses\<close>

definition demo_info :: mtdma_chan_info where
  "demo_info = \<lparr>rg_vaddr = (0, 0x383000), ll_vaddr = (2, 0x80000000), ll_laddr = 0x80000000,
     ll_vaddr_system = (9, 0), ll_laddr_system = 0, ll_max = 2\<rparr>"

definition demo_chan :: mtdma_chan where
  "demo_chan = virt_dma_chan.extend empty_chan
     \<lparr>ch_id = 0, ch_dir = DMA_MEM_TO_DEV, ch_info = demo_info, ch_request = MTDMA_REQ_NONE,
      ch_status = MTDMA_ST_IDLE, ch_configured = True, ch_src_addr = 0, ch_dst_addr = 0x1000,
      ch_descs = (\<lambda>_. zero_desc), ch_live = 0, ch_trace = []\<rparr>"

definition demo_chunk :: mtdma_chunk where
  "demo_chunk = \<lparr>ck_bursts = Some [\<lparr>b_sar = 0x100, b_dar = 0x1000, b_sz = 64\<rparr>, \<lparr>b_sar = 0x9000, b_dar = 0x1040, b_sz = 32\<rparr>],
     ck_bursts_alloc = 2, ck_paddr = 0x80000000, ck_vaddr = (2, 0x80000000), ck_sz = 96\<rparr>"

lemmas demo_defs = demo_info_def demo_chan_def demo_chunk_def empty_chan_def virt_dma_chan.extend_def

theorem write_chunk_chain_witness:
  "\<exists>m. mtdma_v0_core_write_chunk demo_info demo_chunk = Some m \<and>
    walk chained (mem_after (exec m []) (\<lambda>_. 0)) (2, 0x80000000) 0x80000000 2 (0, 0x383400) =
      Some [(0x100, 0x1000, 64), (0x9000, 0x1040, 32)]"
proof -
  let ?bs = "[\<lparr>b_sar = 0x100, b_dar = 0x1000, b_sz = 64\<rparr>, \<lparr>b_sar = 0x9000, b_dar = 0x1040, b_sz = 32\<rparr>]"
  have "fst (rg_vaddr demo_info) \<noteq> fst (ll_vaddr demo_info)" "ck_bursts demo_chunk = Some ?bs" "length ?bs = 2"
    "io_off (rg_vaddr demo_info) REG_DMA_CH_DESC_OPT = (0, 0x383400)" "ll_vaddr demo_info = (2, 0x80000000)"
    "ll_laddr demo_info = 0x80000000"
    by (simp_all add: demo_info_def demo_chunk_def io_off_def REG_DMA_CH_DESC_OPT_def)
  then show ?thesis using write_chunk_chain[of demo_info demo_chunk ?bs "\<lambda>_. 0"]
    by (simp del: walk.simps list.size add: list.map)
qed

theorem prep_slave_sg_correct_witness:
  "\<exists>ch'. mtdma_device_prep_slave_sg (\<lambda>_. True) 5 [(0x100, 64), (0x9000, 32), (0xA000, 8)] 3 DMA_MEM_TO_DEV {} demo_chan
    = Some (Some 5, ch') \<and> md_alloc_sz (ch_descs ch' 5) = 104"
  using prep_slave_sg_correct[of demo_chan 3 "[(0x100, 64), (0x9000, 32), (0xA000, 8)]" "\<lambda>_. True" 5 DMA_MEM_TO_DEV "{}"]
  by (auto simp: demo_defs)

theorem mtdma_channel_safe_witness:
  "\<exists>ch'. mtdma_apply (\<lambda>t a. 0) (Prep (\<lambda>_. True) 5 [(0x100, 64)] 1 {}) (setup_chan DMA_MEM_TO_DEV 0 demo_chan) = Some ch' \<and>
    distinct (all_descs ch')"
proof -
  have "mtdma_reach (\<lambda>t a. 0) (setup_chan DMA_MEM_TO_DEV 0 demo_chan)"
    by (rule mtdma_reach.fresh) (simp_all add: demo_defs)
  moreover have "enabled (Prep (\<lambda>_. True) 5 [(0x100, 64)] 1 {}) (setup_chan DMA_MEM_TO_DEV 0 demo_chan)"
    by (simp add: setup_chan_def vchan_init_def dma_cookie_init_def all_descs_def)
  ultimately show ?thesis using mtdma_channel_safe by blast
qed

theorem core_start_sequence_witness:
  "\<exists>m ws. mtdma_v0_core_start (\<lambda>t a. 0) DMA_MEM_TO_DEV demo_info demo_chunk = Some m \<and>
    Wr (0, 0x383000) 1 \<in> set (exec m [])"
proof -
  let ?bs = "[\<lparr>b_sar = 0x100, b_dar = 0x1000, b_sz = 64\<rparr>, \<lparr>b_sar = 0x9000, b_dar = 0x1040, b_sz = 32\<rparr>]"
  have "ck_bursts demo_chunk = Some ?bs" "io_off (rg_vaddr demo_info) REG_DMA_CH_ENABLE = (0, 0x383000)"
    by (simp_all add: demo_chunk_def demo_info_def io_off_def REG_DMA_CH_ENABLE_def)
  then show ?thesis
    using core_start_sequence[of demo_chunk ?bs "\<lambda>t a. 0" DMA_MEM_TO_DEV demo_info "[]"]
    by (auto simp: DMA_CH_EN_BIT_ENABLE_def)
qed

definition queued_chan :: mtdma_chan where
  "queued_chan = demo_chan\<lparr>desc_issued := [1, 2], ch_status := MTDMA_ST_BUSY,
     vd_store := (\<lambda>_. empty_desc\<lparr>tx_cookie := 2\<rparr>),
     ch_descs := (\<lambda>_. zero_desc\<lparr>md_chunks := Some []\<rparr>)\<rparr>"

theorem done_leaves_next_waiting_witness:
  "\<exists>ch'. mtdma_done_interrupt (\<lambda>t a. 0) queued_chan = Some ch' \<and> ch_status ch' = MTDMA_ST_IDLE \<and>
    desc_issued ch' = [2] \<and> ch_trace ch' = []"
  using done_leaves_next_waiting[of queued_chan 1 2 "[]" "\<lambda>t a. 0"]
  by (auto simp: queued_chan_def demo_defs zero_desc_def)

theorem issue_pending_busy_without_start_witness:
  "\<exists>ch'. mtdma_device_issue_pending (\<lambda>t a. 0) (queued_chan\<lparr>ch_status := MTDMA_ST_IDLE\<rparr>) = Some ch' \<and>
    ch_status ch' = MTDMA_ST_BUSY \<and> ch_trace ch' = []"
  using issue_pending_busy_without_start[of "queued_chan\<lparr>ch_status := MTDMA_ST_IDLE\<rparr>" 1 "[2]" "\<lambda>t a. 0"]
  by (auto simp: queued_chan_def demo_defs pending_def)

theorem tx_status_residue_witness:
  "st_residue (the (snd (mtdma_device_tx_status (\<lambda>_ _ _. DMA_IN_PROGRESS)
     (queued_chan\<lparr>ch_descs := (\<lambda>_. zero_desc\<lparr>md_alloc_sz := 100, md_xfer_sz := 60\<rparr>)\<rparr>) 2 True))) = 40"
  using tx_status_residue[of "\<lambda>_ _ _. DMA_IN_PROGRESS" 2
      "queued_chan\<lparr>ch_descs := (\<lambda>_. zero_desc\<lparr>md_alloc_sz := 100, md_xfer_sz := 60\<rparr>)\<rparr>"]
  by (simp add: queued_chan_def demo_defs)

theorem probe_ignores_write_registration_witness:
  "fst (mtdma_probe (\<lambda>j. if j = 0 then -12 else 0) True True
     (Some \<lparr>wr_ch_cnt = 1, rd_ch_cnt = 1, wr_chan = [demo_chan], rd_chan = [demo_chan], isr_set = False\<rparr>)) = 0"
  using probe_ignores_write_registration[of
      "\<lparr>wr_ch_cnt = 1, rd_ch_cnt = 1, wr_chan = [demo_chan], rd_chan = [demo_chan], isr_set = False\<rparr>"
      "\<lambda>j. if j = 0 then -12 else 0"] by auto

end
