(* ===== verification/DmaDevice.thy ===== *)
theory DmaDevice
  imports MtdmaProps
begin

text \<open>
  What a channel's register trace makes the device do.  The device executes the stores of
  the trace in order; a store that sets the enable bit of the channel makes it follow
  the chain of descriptors it then finds and copy what they ask for, from one memory to the
  other.  Whether a channel that is enabled twice copies twice is not decided: the result is
  stated through the set of bytes that were copied and holds in both cases.  The lemmas give
  that set for every operation of the driver that touches the registers.
\<close>

section \<open>Copying\<close>

type_synonym bytes = "u64 \<Rightarrow> u8"

text \<open>The pairs of source and destination addresses of a transfer.\<close>

definition pairs :: "u64 \<times> u64 \<times> u32 \<Rightarrow> (u64 \<times> u64) list" where
  "pairs x = (case x of (s, d, n) \<Rightarrow> map (\<lambda>j. (s + of_nat j, d + of_nat j)) [0..<unat n])"

definition copy :: "bytes \<Rightarrow> (u64 \<times> u64) list \<Rightarrow> bytes \<Rightarrow> bytes" where
  "copy src ps = fold (\<lambda>(s, d) b. b(d := src s)) ps"

lemma copy_simps [simp]:
  "copy src [] b = b" "copy src ((s, d) # ps) b = copy src ps (b(d := src s))"
  "copy src (ps @ qs) b = copy src qs (copy src ps b)"
  by (simp_all add: copy_def)

text \<open>When every destination has one source, order and repetition do not matter.\<close>

lemma copy_result:
  assumes "\<And>s d. (s, d) \<in> set ps \<Longrightarrow> s = g d"
  shows "copy src ps b a = (if a \<in> snd ` set ps then src (g a) else b a)"
  using assms
proof (induction ps arbitrary: b)
  case (Cons p ps)
  obtain s d where p: "p = (s, d)" by (cases p)
  have sd: "s = g d" using Cons.prems p by simp
  have IH: "copy src ps (b(d := src s)) a = (if a \<in> snd ` set ps then src (g a) else (b(d := src s)) a)"
    using Cons.prems by (intro Cons.IH) simp
  show ?case unfolding p copy_simps IH using sd by auto
qed simp

section \<open>The device\<close>

definition enables :: "mtdma_chan_info \<Rightarrow> access \<Rightarrow> bool" where
  "enables info x = (case x of
       Wr a v \<Rightarrow> a = io_off (rg_vaddr info) REG_DMA_CH_ENABLE \<and> v AND DMA_CH_EN_BIT_ENABLE \<noteq> 0
     | _ \<Rightarrow> False)"

definition fetch :: "mtdma_chan_info \<Rightarrow> mem \<Rightarrow> (u64 \<times> u64 \<times> u32) list option" where
  "fetch info m = walk chained m (ll_vaddr info) (ll_laddr info) (2 ^ 32) (lli_of info 0)"

text \<open>The device's view of the registers and descriptors, and the memory that is written.  \<open>None\<close>:
  a chain that does not end.\<close>

fun device :: "mtdma_chan_info \<Rightarrow> bytes \<Rightarrow> trace \<Rightarrow> mem \<times> bytes \<Rightarrow> (mem \<times> bytes) option" where
  "device info src [] (m, b) = Some (m, b)"
| "device info src (x # t) (m, b) =
    (let m = mem_step x m in
     if enables info x then (case fetch info m of None \<Rightarrow> None | Some xs \<Rightarrow> device info src t (m, copy src (concat (map pairs xs)) b))
     else device info src t (m, b))"

lemma device_append:
  "device info src (s @ t) mb = Option.bind (device info src s mb) (device info src t)"
proof (induction s arbitrary: mb)
  case Nil
  show ?case by (cases mb) simp
next
  case (Cons x s)
  obtain m b where "mb = (m, b)" by (cases mb)
  then show ?case using Cons.IH by (auto simp: Let_def split: option.splits)
qed

lemma device_quiet: "(\<And>x. x \<in> set t \<Longrightarrow> \<not> enables info x) \<Longrightarrow> device info src t (m, b) = Some (mem_after t m, b)"
  by (induction t arbitrary: m) (simp_all add: Let_def)

text \<open>What a piece of trace copies, in any memory.\<close>

definition copies :: "mtdma_chan_info \<Rightarrow> trace \<Rightarrow> (u64 \<times> u64) set \<Rightarrow> bool" where
  "copies info t X \<longleftrightarrow> (\<forall>src m b. \<exists>m' ps. device info src t (m, b) = Some (m', copy src ps b) \<and> set ps = X)"

lemma copies_append: "copies info s X \<Longrightarrow> copies info t Y \<Longrightarrow> copies info (s @ t) (X \<union> Y)"
  unfolding copies_def
proof (intro allI)
  fix src m b
  assume s: "\<forall>src m b. \<exists>m' ps. device info src s (m, b) = Some (m', copy src ps b) \<and> set ps = X"
    and t: "\<forall>src m b. \<exists>m' ps. device info src t (m, b) = Some (m', copy src ps b) \<and> set ps = Y"
  obtain m1 ps where 1: "device info src s (m, b) = Some (m1, copy src ps b)" "set ps = X" using s by blast
  obtain m2 qs where 2: "device info src t (m1, copy src ps b) = Some (m2, copy src qs (copy src ps b))" "set qs = Y" using t by blast
  show "\<exists>m' ps. device info src (s @ t) (m, b) = Some (m', copy src ps b) \<and> set ps = X \<union> Y"
    using 1 2 by (intro exI[of _ m2] exI[of _ "ps @ qs"]) (simp add: device_append)
qed

lemma copies_quiet: "(\<And>x. x \<in> set t \<Longrightarrow> \<not> enables info x) \<Longrightarrow> copies info t {}"
  unfolding copies_def using device_quiet[of t info] by (intro allI exI[of _ "mem_after t _"] exI[of _ "[]"]) simp

section \<open>Starting a chunk\<close>

lemma walk_mono: "walk cont m ll la n lli = Some xs \<Longrightarrow> n \<le> k \<Longrightarrow> walk cont m ll la k lli = Some xs"
proof (induction n arbitrary: k lli xs)
  case (Suc n)
  then obtain j where j: "k = Suc j" "n \<le> j" by (cases k) auto
  show ?case
  proof (cases "cont (m (io_off lli DESC_OP))")
    case True
    then obtain ys where "walk cont m ll la n (io_off ll (read64 m lli DESC_LAR_H DESC_LAR_L - la)) = Some ys" "xs = desc_xfer m lli # ys"
      using Suc.prems(1) by auto
    then show ?thesis using Suc.IH[OF _ j(2)] j(1) True by simp
  next
    case False
    then show ?thesis using Suc.prems(1) j(1) by simp
  qed
qed simp

lemma walk_cong:
  assumes "\<And>a. fst a = fst ll \<Longrightarrow> m a = m' a" "\<And>f. f \<in> desc_fields \<Longrightarrow> m (io_off lli f) = m' (io_off lli f)"
  shows "walk cont m ll la n lli = walk cont m' ll la n lli"
  using assms(2)
proof (induction n arbitrary: lli)
  case (Suc n)
  have e: "desc_xfer m lli = desc_xfer m' lli" "read64 m lli DESC_LAR_H DESC_LAR_L = read64 m' lli DESC_LAR_H DESC_LAR_L"
    "m (io_off lli DESC_OP) = m' (io_off lli DESC_OP)"
    using Suc.prems by (simp_all add: desc_xfer_def read64_def desc_fields_def)
  have "m (io_off (io_off ll x) f) = m' (io_off (io_off ll x) f)" for x f
    using assms(1) by (simp add: io_off_def)
  then show ?case using Suc.IH e by simp
qed simp

text \<open>The control registers of a channel are no descriptors.\<close>

definition ctrl_reg :: "mtdma_chan_info \<Rightarrow> ioaddr \<Rightarrow> bool" where
  "ctrl_reg info a \<longleftrightarrow> a \<in> io_off (rg_vaddr info) ` {REG_DMA_CH_ENABLE, REG_DMA_CH_FC, REG_DMA_CH_INTR_IMSK, REG_DMA_CH_INTR_RAW}"

abbreviation apart :: "mtdma_chan_info \<Rightarrow> bool" where
  "apart info \<equiv> fst (rg_vaddr info) \<noteq> fst (ll_vaddr info)"

lemma io_off_off: "io_off (io_off p x) y = io_off p (x + y)"
  by (simp add: io_off_def add.assoc)

lemma ctrl_reg_lli:
  assumes "ctrl_reg info a" "f \<in> desc_fields"
  shows "a \<noteq> io_off (lli_of info 0) f"
  using assms by (auto simp: ctrl_reg_def lli_of_def lli_at_def io_off_off desc_fields_def desc_offsets REG_DMA_CH_ENABLE_def
      REG_DMA_CH_FC_def REG_DMA_CH_INTR_IMSK_def REG_DMA_CH_INTR_RAW_def REG_DMA_CH_DESC_OPT_def)

lemma fetch_ctrl:
  assumes "apart info" "\<And>a v. x = Wr a v \<Longrightarrow> ctrl_reg info a"
  shows "fetch info (mem_step x m) = fetch info m"
  unfolding fetch_def
proof (rule walk_cong)
  show "mem_step x m a = m a" if "fst a = fst (ll_vaddr info)" for a
    using assms that by (cases x) (auto simp: ctrl_reg_def io_off_def)
  show "mem_step x m (io_off (lli_of info 0) f) = m (io_off (lli_of info 0) f)" if f: "f \<in> desc_fields" for f
  proof (cases x)
    case (Wr a v)
    then show ?thesis using ctrl_reg_lli[OF assms(2)[OF Wr] f] by simp
  qed simp_all
qed

text \<open>After the chain is written, every store to the control registers that enables copies the chunk.\<close>

lemma device_ctrl:
  assumes "apart info" "\<forall>a v. Wr a v \<in> set t \<longrightarrow> ctrl_reg info a" "fetch info m = Some xs"
  shows "\<exists>m' ps. device info src t (m, b) = Some (m', copy src ps b) \<and> set ps \<subseteq> set (concat (map pairs xs)) \<and>
    ((\<exists>x \<in> set t. enables info x) \<longrightarrow> set ps = set (concat (map pairs xs)))"
  using assms(2,3)
proof (induction t arbitrary: m b)
  case Nil
  then show ?case by (intro exI[of _ m] exI[of _ "[]"]) simp
next
  case (Cons x t)
  have f: "fetch info (mem_step x m) = Some xs" using fetch_ctrl[OF assms(1), of x m] Cons.prems by auto
  let ?b = "if enables info x then copy src (concat (map pairs xs)) b else b"
  obtain m' ps where r: "device info src t (mem_step x m, ?b) = Some (m', copy src ps ?b)" "set ps \<subseteq> set (concat (map pairs xs))"
      "(\<exists>x \<in> set t. enables info x) \<longrightarrow> set ps = set (concat (map pairs xs))"
    using Cons.IH[OF _ f, of ?b] Cons.prems(1) by (metis list.set_intros(2))
  let ?ps = "(if enables info x then concat (map pairs xs) else []) @ ps"
  have d: "device info src (x # t) (m, b) = Some (m', copy src ?ps b)" using r(1) f by (auto simp: Let_def)
  show ?case
  proof (intro exI conjI)
    show "device info src (x # t) (m, b) = Some (m', copy src ?ps b)" by (rule d)
    show "set ?ps \<subseteq> set (concat (map pairs xs))" using r(2) by auto
    show "(\<exists>x \<in> set (x # t). enables info x) \<longrightarrow> set ?ps = set (concat (map pairs xs))" using r(2,3) by auto
  qed
qed

lemma chain_then_ctrl:
  assumes "apart info" "\<And>x. x \<in> set chain \<Longrightarrow> \<not> enables info x" "\<And>m. fetch info (mem_after chain m) = Some xs"
    "\<forall>a v. Wr a v \<in> set t \<longrightarrow> ctrl_reg info a" "\<exists>x \<in> set t. enables info x"
  shows "copies info (chain @ t) (set (concat (map pairs xs)))"
  unfolding copies_def
proof (intro allI)
  fix src m b
  obtain m' ps where "device info src t (mem_after chain m, b) = Some (m', copy src ps b)" "set ps = set (concat (map pairs xs))"
    using device_ctrl[OF assms(1,4) assms(3), of src m b] assms(5) by blast
  then show "\<exists>m' ps. device info src (chain @ t) (m, b) = Some (m', copy src ps b) \<and> set ps = set (concat (map pairs xs))"
    using device_quiet[of chain info src m b] assms(2) by (auto simp: device_append)
qed

definition chunk_pairs :: "mtdma_burst list \<Rightarrow> (u64 \<times> u64) set" where
  "chunk_pairs bs = (\<Union>b \<in> set bs. set (pairs (burst_xfer b)))"

text \<open>What writing a chunk leaves for the device, and the stores that follow.\<close>

abbreviation chunk_trace :: "mtdma_chan_info \<Rightarrow> mtdma_burst list \<Rightarrow> trace" where
  "chunk_trace info bs \<equiv> chain_trace info 0 bs @ [Wr (io_off (lli_of info (length bs - 1)) DESC_OP) DMA_CH_DESC_BIT_INTR_EN]"

lemma chunk_trace_quiet:
  assumes "apart info" "bs \<noteq> []" "x \<in> set (chunk_trace info bs)"
  shows "\<not> enables info x"
proof -
  have "io_off (rg_vaddr info) REG_DMA_CH_ENABLE \<noteq> io_off (lli_of info j) f" if "f \<in> desc_fields" for j f
    using that assms(1) ctrl_reg_lli[of info "io_off (rg_vaddr info) REG_DMA_CH_ENABLE" f]
    by (cases j) (auto simp: ctrl_reg_def lli_of_def lli_at_def io_off_def)
  then have "io_off (rg_vaddr info) REG_DMA_CH_ENABLE \<notin> written (chunk_trace info bs)"
    by (auto simp: written_chain desc_fields_def)
  then show ?thesis using assms(3) by (cases x) (auto simp: enables_def written_def)
qed

lemma fetch_chunk:
  assumes "apart info" "bs \<noteq> []" "length bs < 2^32"
  shows "fetch info (mem_after (chunk_trace info bs) m) = Some (map burst_xfer bs)"
proof -
  have "walk chained (mem_after (chunk_trace info bs) m) (ll_vaddr info) (ll_laddr info) (length bs) (lli_of info 0) = Some (map burst_xfer bs)"
    using walk_chain[OF assms(1,2), of 0 "mem_after (chunk_trace info bs) m" m] assms(3) by (simp only: add_0)
  then show ?thesis unfolding fetch_def using assms(3) by (rule walk_mono[OF _ less_imp_le])
qed

lemma start_copies:
  assumes "apart info" "ck_bursts chunk = Some bs" "bs \<noteq> []" "length bs < 2^32"
  shows "\<exists>m. mtdma_v0_core_start hw dir info chunk = Some m \<and> (\<forall>t. \<exists>u. exec m t = t @ u \<and> copies info u (chunk_pairs bs))"
proof -
  obtain w where w: "mtdma_v0_core_write_chunk info chunk = Some w" "\<And>t. run_state w t = ((), t @ chunk_trace info bs)"
    using run_write_chunk[OF assms(2,3)] by blast
  obtain m where m: "mtdma_v0_core_start hw dir info chunk = Some m" using w by (simp add: mtdma_v0_core_start_def Let_def)
  have "\<exists>u. exec m t = t @ u \<and> copies info u (chunk_pairs bs)" for t
  proof -
    let ?ch_en = "if dir = DMA_MEM_TO_DEV then DMA_CH_EN_BIT_DESC_MST1 else 0"
    obtain raw en where e: "exec m t = t @ chunk_trace info bs @
      [Wr (io_off (rg_vaddr info) REG_DMA_CH_ENABLE) ?ch_en,
       Wr (io_off (rg_vaddr info) REG_DMA_CH_FC) (1 OR push_bit 1 WCH_FC_THLD), Wr (io_off (rg_vaddr info) REG_DMA_CH_INTR_IMSK) 0,
       Rd (io_off (rg_vaddr info) REG_DMA_CH_INTR_RAW) raw, Wr (io_off (rg_vaddr info) REG_DMA_CH_INTR_RAW) raw,
       Rd (io_off (rg_vaddr info) REG_DMA_CH_ENABLE) en, Wr (io_off (rg_vaddr info) REG_DMA_CH_ENABLE) (?ch_en OR DMA_CH_EN_BIT_ENABLE)]"
      (is "_ = t @ _ @ ?regs")
      using m w(1) by (auto simp: mtdma_v0_core_start_def mmio_simps Let_def w(2))
    have "copies info (chunk_trace info bs @ ?regs) (set (concat (map pairs (map burst_xfer bs))))"
    proof (rule chain_then_ctrl[OF assms(1) chunk_trace_quiet[OF assms(1,3)] fetch_chunk[OF assms(1,3,4)]])
      show "\<forall>a v. Wr a v \<in> set ?regs \<longrightarrow> ctrl_reg info a" by (auto simp: ctrl_reg_def)
      show "\<exists>x \<in> set ?regs. enables info x"
        by (simp add: enables_def DMA_CH_EN_BIT_ENABLE_def DMA_CH_EN_BIT_DESC_MST1_def)
    qed
    moreover have "set (concat (map pairs (map burst_xfer bs))) = chunk_pairs bs" by (auto simp: chunk_pairs_def)
    ultimately show ?thesis using e by auto
  qed
  then show ?thesis using m by blast
qed

end
