(* ===== verification/DmaTestProps.thy ===== *)
theory DmaTestProps
  imports DmaTest DmaDevice
begin

text \<open>
  Properties of the DMA test: the scatter list covers the user buffer byte by byte,
  resources are released in the reverse order, a transfer whose interrupts arrive
  completes and its callback runs, and the failures the return value hides.
\<close>

section \<open>The scatter list\<close>

text \<open>The bytes of the user's pages that the segments from page \<open>i\<close> on denote.\<close>

fun seg_bytes :: "nat \<Rightarrow> (u32 \<times> u32) list \<Rightarrow> nat list" where
  "seg_bytes i [] = []"
| "seg_bytes i ((len, off) # segs) = [4096 * i + unat off ..< 4096 * i + unat off + unat len] @ seg_bytes (Suc i) segs"

lemma seg_len:
  assumes "unat (off :: u64) < 4096"
  shows "unat (if 4096 < off + (if 4096 < left then 4096 else left) then 4096 - off else if 4096 < left then 4096 else left) =
    min (unat left) (4096 - unat off)"
proof -
  have a: "unat (4096 - off) = 4096 - unat off"
    using assms by (simp add: unat_sub word_le_nat_alt)
  have b: "unat (off + x) = unat off + unat x" if "unat x \<le> 4096" for x :: u64
    using assms that by (intro unat_add_lem[THEN iffD1]) simp
  show ?thesis using a b[of 4096] b[of left] assms by (auto simp: word_less_nat_alt not_less)
qed

lemma upt_join: "a \<le> b \<Longrightarrow> b \<le> c \<Longrightarrow> [a..<b] @ [b..<c] = [a..<c :: nat]"
  by (metis le_Suc_ex upt_add_eq_append)

lemma build_sg_bytes:
  assumes "unat off < 4096" "unat off + unat left \<le> 4096 * n"
  shows "seg_bytes i (build_sg n off left) = [4096 * i + unat off ..< 4096 * i + unat off + unat left] \<and>
    (\<forall>(l, p) \<in> set (build_sg n off left). unat p + unat l \<le> 4096)"
  using assms
proof (induction n arbitrary: i off left)
  case (Suc n)
  define len where "len = (if 4096 < off + (if 4096 < left then 4096 else left) then 4096 - off else if 4096 < left then 4096 else left)"
  have len: "unat len = min (unat left) (4096 - unat off)" unfolding len_def by (rule seg_len[OF Suc.prems(1)])
  then have left: "unat (left - len) = unat left - unat len" by (simp add: unat_sub word_le_nat_alt)
  have u: "unat (ucast len :: u32) = unat len" "unat (ucast off :: u32) = unat off"
    using len Suc.prems(1) by (simp_all add: unsigned_ucast_eq take_bit_nat_eq_self)
  have b: "build_sg (Suc n) off left = (ucast len, ucast off) # build_sg n 0 (left - len)"
    by (simp add: Let_def len_def)
  have IH: "seg_bytes (Suc i) (build_sg n 0 (left - len)) = [4096 * Suc i ..< 4096 * Suc i + (unat left - unat len)] \<and>
      (\<forall>(l, p) \<in> set (build_sg n 0 (left - len)). unat p + unat l \<le> 4096)"
    using Suc.IH[of 0 "left - len" "Suc i"] Suc.prems left len by simp
  have "[4096 * i + unat off ..< 4096 * i + unat off + unat len] @ [4096 * Suc i ..< 4096 * Suc i + (unat left - unat len)] =
      [4096 * i + unat off ..< 4096 * i + unat off + unat left]"
  proof (cases "unat left \<le> 4096 - unat off")
    case False
    then have l: "unat len = 4096 - unat off" using len by simp
    then have e: "4096 * Suc i = 4096 * i + unat off + unat len" using Suc.prems(1) by simp
    have le: "unat len \<le> unat left" using l False by simp
    show ?thesis unfolding e using le by (subst upt_join) (simp_all add: add.assoc)
  qed (simp add: len)
  then have 1: "seg_bytes i (build_sg (Suc n) off left) = [4096 * i + unat off ..< 4096 * i + unat off + unat left]"
    unfolding b seg_bytes.simps u using IH by simp
  have "unat (ucast off :: u32) + unat (ucast len :: u32) \<le> 4096" using u len Suc.prems(1) by simp
  then show ?case using 1 IH unfolding b by simp
qed simp

lemma round_up: "m \<le> 4096 * ((m + 4095) div 4096)" for m :: nat
  using mult_div_mod_eq[of 4096 "m + 4095"] mod_less_divisor[of 4096 "m + 4095"] by linarith

text \<open>The scatter list built for a user buffer denotes exactly the bytes of the buffer, in order
  and each once, and no segment leaves its page: the bytes are numbered from the start of
  the first page, of which the buffer begins at offset \<open>off\<close>.\<close>

theorem build_sg_covers:
  assumes "unat off < 4096" "unat off + unat sz + 4095 < 2 ^ 64"
  shows "seg_bytes 0 (build_sg (unat (sg_count off sz)) off sz) = [unat off ..< unat off + unat sz] \<and>
    (\<forall>(l, p) \<in> set (build_sg (unat (sg_count off sz)) off sz). unat p + unat l \<le> 4096)"
proof -
  have "unat (off + sz + 4096 - 1) = unat off + unat sz + 4095"
  proof -
    have "off + sz + 4096 - 1 = of_nat (unat off + unat sz + 4095)" by simp
    then show ?thesis using assms(2) by (simp add: unsigned_of_nat take_bit_nat_eq_self del: of_nat_add)
  qed
  then have "unat (sg_count off sz) = (unat off + unat sz + 4095) div 4096" by (simp add: sg_count_def unat_div)
  moreover have "unat off + unat sz \<le> 4096 * ((unat off + unat sz + 4095) div 4096)" by (rule round_up)
  ultimately show ?thesis using build_sg_bytes[OF assms(1), of sz "unat (sg_count off sz)" 0] by simp
qed

theorem build_sg_covers_witness:
  "seg_bytes 0 (build_sg (unat (sg_count 0xf00 0x1300)) 0xf00 0x1300) =
    [unat (0xf00 :: u64) ..< unat (0xf00 :: u64) + unat (0x1300 :: u64)]"
  by (rule conjunct1[OF build_sg_covers]) simp_all

section \<open>Resources\<close>

text \<open>Every resource is given back, the last one taken first; the pinned pages are not: there is no
  call that would release them.\<close>

fun closes :: "rw_event \<Rightarrow> rw_event option" where
  "closes UpSem = Some DownSem"
| "closes UnmapSg = Some MapSg"
| "closes FreeTable = Some AllocTable"
| "closes FreePages = Some AllocPages"
| "closes ReleaseChan = Some ReqChan"
| "closes e = None"

fun nested :: "rw_event list \<Rightarrow> rw_event list \<Rightarrow> bool" where
  "nested st [] = (st = [])"
| "nested st (PinPages n # es) = nested st es"
| "nested st (e # es) =
    (case closes e of None \<Rightarrow> nested (e # st) es | Some y \<Rightarrow> (case st of [] \<Rightarrow> False | x # st \<Rightarrow> x = y \<and> nested st es))"

text \<open>C23. On every path through the test that returns, whatever fails, the channel, the page array, the
  scatter table, the mapping and the semaphore are released exactly as often as they were
  taken and in the reverse order, with one exception, which is exact: when \<open>dma_map_sg\<close> has mapped the list but joined entries, so that it returns a
  number smaller than that of the pages, the test takes this for a failure and returns without unmapping what is mapped.\<close>

theorem dma_rw_releases:
  assumes "emu_dma_rw hw env ti userbuf em = Some (ret, em', log)" "sgs = sg_count (userbuf AND 0xfff) (rw_size ti)" "sgs \<noteq> 0"
  shows "nested [] (if of_int (map_ret env sgs) = sgs then log else removeAll MapSg log) \<and>
    (MapSg \<in> set log \<longrightarrow> (UnmapSg \<in> set log \<longleftrightarrow> of_int (map_ret env sgs) = sgs))"
  using assms(1,3) unfolding emu_dma_rw_def Let_def assms(2)[symmetric]
  by (auto split: chan_answer.splits if_splits)

section \<open>A transfer completes\<close>

text \<open>The channel reports that it is done, and no error.\<close>

definition reports_done :: "hardware \<Rightarrow> mtdma_chan_info \<Rightarrow> bool" where
  "reports_done hw info \<longleftrightarrow> (\<forall>t. let v = hw t (io_off (rg_vaddr info) REG_DMA_CH_INTR_RAW) in
     v AND DMA_CH_INTR_BIT_DONE \<noteq> 0 \<and> v AND ERR_BITS = 0)"

text \<open>A step of the channel keeps its direction and makes the device copy the bytes \<open>X\<close>.\<close>

definition moved :: "mtdma_chan_info \<Rightarrow> (u64 \<times> u64) set \<Rightarrow> mtdma_chan \<Rightarrow> mtdma_chan \<Rightarrow> bool" where
  "moved info X ch ch' \<longleftrightarrow> ch_dir ch' = ch_dir ch \<and> (apart info \<longrightarrow> (\<exists>u. ch_trace ch' = ch_trace ch @ u \<and> copies info u X))"

lemma moved_nothing: "ch_dir ch' = ch_dir ch \<Longrightarrow> ch_trace ch' = ch_trace ch \<Longrightarrow> moved info {} ch ch'"
  using copies_quiet[of "[]" info] by (auto simp: moved_def)

lemma moved_trans: "moved info X ch ch' \<Longrightarrow> moved info Y ch' ch'' \<Longrightarrow> moved info (X \<union> Y) ch ch''"
  unfolding moved_def by (metis append.assoc copies_append)

lemma moved_upd [simp]:
  "moved info X ch (ch'\<lparr>ch_status := s\<rparr>) = moved info X ch ch'" "moved info X (ch\<lparr>ch_status := s\<rparr>) ch' = moved info X ch ch'"
  "moved info X ch (ch'\<lparr>ch_request := r\<rparr>) = moved info X ch ch'" "moved info X ch (ch'\<lparr>ch_configured := c\<rparr>) = moved info X ch ch'"
  by (simp_all add: moved_def)

lemma isr_done:
  assumes "reports_done hw (ch_info ch)"
  shows "\<exists>t. mtdma_isr hw ch = mtdma_done_interrupt hw (ch\<lparr>ch_trace := t\<rparr>) \<and> moved (ch_info ch) {} ch (ch\<lparr>ch_trace := t\<rparr>)"
proof -
  let ?a = "io_off (rg_vaddr (ch_info ch)) REG_DMA_CH_INTR_RAW"
  let ?v = "hw (ch_trace ch) ?a"
  have v: "?v AND DMA_CH_INTR_BIT_DONE \<noteq> 0" "?v AND ERR_BITS = 0" using assms by (simp_all add: reports_done_def Let_def)
  let ?t = "ch_trace ch @ [Rd ?a ?v, Wr ?a ?v]"
  have "mtdma_isr hw ch = mtdma_done_interrupt hw (ch\<lparr>ch_trace := ?t @ [Rd ?a (hw ?t ?a)]\<rparr>)"
    using v by (simp add: mtdma_isr_def ch_do_def mmio_simps Let_def)
  moreover have "copies (ch_info ch) [Rd ?a ?v, Wr ?a ?v, Rd ?a (hw ?t ?a)] {}"
    by (rule copies_quiet) (auto simp: enables_def REG_DMA_CH_ENABLE_def REG_DMA_CH_INTR_RAW_def)
  ultimately show ?thesis by (intro exI[of _ "?t @ [Rd ?a (hw ?t ?a)]"]) (simp add: moved_def)
qed

text \<open>What starting a chunk makes the device copy.\<close>

lemma start_moves:
  assumes "chan_inv ch" "vchan_next_desc ch = Some d" "md_chunks (ch_descs ch d) = Some (c # rest)" "mtdma_start_transfer hw ch = Some ch'"
  shows "moved (ch_info ch) (chunk_pairs (chunk_bursts c)) ch ch'"
proof (cases "apart (ch_info ch)")
  case True
  have "d \<in> set (all_descs ch)" using assms(2) by (auto simp: vchan_next_desc_def all_descs_def split: list.splits)
  then have "desc_ok (ch_descs ch d)" using assms(1) by (simp add: chan_inv_def)
  then obtain bs where bs: "ck_bursts c = Some bs" "bs \<noteq> []" "length bs < 2 ^ 32" using assms(3) by (auto simp: desc_ok_def)
  obtain m where m: "mtdma_v0_core_start hw (ch_dir ch) (ch_info ch) c = Some m"
      "\<exists>u. exec m (ch_trace ch) = ch_trace ch @ u \<and> copies (ch_info ch) u (chunk_pairs bs)"
    using start_copies[OF True bs] by blast
  then show ?thesis using assms(2-4) bs(1)
    by (auto simp: mtdma_start_transfer_def moved_def chunk_bursts_def ch_do_def Let_def split: bind_splits)
next
  case False
  then show ?thesis using assms(2-4)
    by (auto simp: mtdma_start_transfer_def moved_def ch_do_def Let_def split: option.splits bind_splits)
qed

lemma start_step:
  assumes "chan_inv ch" "vchan_next_desc ch = Some d" "md_chunks (ch_descs ch d) = Some (c # rest)"
  shows "\<exists>ch'. mtdma_start_transfer hw ch = Some ch' \<and> chan_inv ch' \<and> same_vchan ch ch' \<and>
    ch_status ch' = ch_status ch \<and> ch_request ch' = ch_request ch \<and> md_chunks (ch_descs ch' d) = Some rest \<and>
    moved (ch_info ch) (chunk_pairs (chunk_bursts c)) ch ch'"
  using start_transfer_ok[OF assms(1), of hw] start_moves[OF assms, of hw] assms(2,3)
  by (auto simp: mtdma_start_transfer_def Let_def split: option.splits bind_splits)

text \<open>The only descriptor is with the hardware; \<open>rest\<close> are the chunks still to start.\<close>

definition in_flight :: "nat \<Rightarrow> mtdma_chunk list \<Rightarrow> virt_dma_chan \<Rightarrow> mtdma_chan_info \<Rightarrow> mtdma_chan \<Rightarrow> bool" where
  "in_flight d rest vc info ch \<longleftrightarrow> chan_inv ch \<and> ch_info ch = info \<and> virt_dma_chan.truncate ch = vc \<and> all_descs vc = [d] \<and>
     desc_issued vc = [d] \<and> ch_request ch = MTDMA_REQ_NONE \<and> md_chunks (ch_descs ch d) = Some rest"

lemma in_flight_step:
  assumes "in_flight d (c # rest) vc info ch" "reports_done hw info"
  shows "\<exists>ch'. mtdma_isr hw ch = Some ch' \<and> in_flight d rest vc info ch' \<and> moved info (chunk_pairs (chunk_bursts c)) ch ch'"
proof -
  note f = assms(1)[unfolded in_flight_def]
  obtain t where t: "mtdma_isr hw ch = mtdma_done_interrupt hw (ch\<lparr>ch_trace := t\<rparr>)" "moved info {} ch (ch\<lparr>ch_trace := t\<rparr>)"
    using isr_done[of hw ch] assms(2) f by auto
  let ?ch = "ch\<lparr>ch_trace := t, ch_status := MTDMA_ST_BUSY\<rparr>"
  have n: "vchan_next_desc ch = Some d" using f by (auto simp: vchan_next_desc_def virt_dma_chan.truncate_def)
  have "desc_ok (ch_descs ch d)" using f by (auto simp: chan_inv_def virt_dma_chan.truncate_def all_descs_def)
  then obtain n where "md_chunks_alloc (ch_descs ch d) = of_nat (Suc n)" "Suc n < 2 ^ 32"
    using f by (auto simp: desc_ok_def)
  then have a: "md_chunks_alloc (ch_descs ch d) \<noteq> 0"
    by (simp add: word_unat_eq_iff unsigned_of_nat take_bit_nat_eq_self del: of_nat_Suc)
  have "vchan_next_desc ?ch = Some d" using n by (simp add: vchan_next_desc_def)
  then obtain ch' where "mtdma_start_transfer hw ?ch = Some ch'" "chan_inv ch'" "same_vchan ?ch ch'"
      "ch_request ch' = ch_request ch" "md_chunks (ch_descs ch' d) = Some rest"
      "moved info (chunk_pairs (chunk_bursts c)) (ch\<lparr>ch_trace := t\<rparr>) ch'"
    using start_step[of ?ch d c rest hw] f by auto
  moreover from moved_trans[OF t(2) this(6)] have "moved info (chunk_pairs (chunk_bursts c)) ch ch'" by simp
  ultimately show ?thesis using t(1) f n a
    by (auto simp: mtdma_done_interrupt_def vchan_next_desc_def in_flight_def same_vchan_def virt_dma_chan.truncate_def)
qed

text \<open>Nothing is queued on the channel.\<close>

definition quiet :: "mtdma_chan_info \<Rightarrow> mtdma_chan \<Rightarrow> bool" where
  "quiet info ch \<longleftrightarrow> chan_inv ch \<and> ch_info ch = info \<and> all_descs ch = [] \<and> cyclic ch = None \<and> \<not> task_scheduled ch \<and>
     ch_request ch = MTDMA_REQ_NONE \<and> ch_status ch = MTDMA_ST_IDLE"

definition test_call :: "nat \<Rightarrow> cb_event" where "test_call p = Call TEST_CALLBACK (Some p)"

definition test_desc :: "nat \<Rightarrow> nat \<Rightarrow> virt_dma_chan \<Rightarrow> bool" where
  "test_desc p d vc \<longleftrightarrow> cb_callback (tx_cb (vd_store vc d)) = Some TEST_CALLBACK \<and> cb_callback_result (tx_cb (vd_store vc d)) = None \<and>
     cb_param (tx_cb (vd_store vc d)) = Some p \<and> DMA_CTRL_REUSE \<notin> tx_flags (vd_store vc d) \<and> cyclic vc = None \<and> \<not> task_scheduled vc"

lemma in_flight_done:
  assumes "in_flight d [] vc info ch" "test_desc p d vc" "reports_done hw info"
  shows "\<exists>ch'. mtdma_isr hw ch = Some ch' \<and> task_scheduled ch' \<and> called ch' = called vc \<and>
    (\<exists>ch''. vchan_complete vchan_free_desc ch' = Some ch'' \<and> quiet info ch'' \<and> called ch'' = called vc @ [test_call p] \<and> moved info {} ch ch'')"
proof -
  note f = assms(1)[unfolded in_flight_def]
  obtain t where t: "mtdma_isr hw ch = mtdma_done_interrupt hw (ch\<lparr>ch_trace := t\<rparr>)" "moved info {} ch (ch\<lparr>ch_trace := t\<rparr>)"
    using isr_done[of hw ch] assms(3) f by auto
  let ?ch = "ch\<lparr>ch_trace := t\<rparr>"
  have inv: "chan_inv ?ch" using f by simp
  have l: "desc_issued ch = [d]" "desc_allocated ch = []" "desc_submitted ch = []" "desc_completed ch = []" "desc_terminated ch = []"
      "called vc = called ch" "vd_store vc = vd_store ch" "cyclic vc = cyclic ch" "task_scheduled vc = task_scheduled ch"
    using f by (auto simp: virt_dma_chan.truncate_def all_descs_def append_eq_Cons_conv)
  then have n: "vchan_next_desc ?ch = Some d" by (simp add: vchan_next_desc_def)
  have "desc_ok (ch_descs ch d)" using f l by (auto simp: chan_inv_def all_descs_def)
  then have a: "md_chunks_alloc (ch_descs ch d) = 0" using f by (auto simp: desc_ok_def)
  obtain ch1 where c: "vchan_cookie_complete d (list_del d ?ch) = Some ch1" "chan_inv ch1"
    using finish_chan_inv[OF inv n] n by (auto simp: vchan_finish_next_def)
  let ?c = "ch1\<lparr>ch_status := MTDMA_ST_IDLE\<rparr>"
  have r: "mtdma_isr hw ch = Some ?c" using t(1) n f a c by (simp add: mtdma_done_interrupt_def)
  have fields: "desc_allocated ch1 = []" "desc_submitted ch1 = []" "desc_issued ch1 = []" "desc_completed ch1 = [d]" "desc_terminated ch1 = []"
      "called ch1 = called vc" "tx_cb (vd_store ch1 d) = tx_cb (vd_store vc d)" "tx_flags (vd_store ch1 d) = tx_flags (vd_store vc d)" "cyclic ch1 = None" "task_scheduled ch1"
      "ch_request ch1 = MTDMA_REQ_NONE" "ch_info ch1 = info"
    using c(1) l f assms(2) by (auto simp: vchan_defs test_desc_def split: if_splits)
  obtain ch2 where k: "vchan_complete vchan_free_desc ?c = Some ch2" "chan_inv ch2" "tasklet_done ?c ch2" using tasklet_ok[of ?c] c(2) by auto
  then have "quiet info ch2" "called ch2 = called vc @ [test_call p]"
    using fields assms(2)
    by (simp_all add: quiet_def tasklet_done_def all_descs_def test_desc_def test_call_def
        dmaengine_desc_callback_invoke_def dmaengine_desc_get_callback_def)
  moreover have "moved info {} ch ch2"
  proof -
    have "ch_trace ch1 = t" "ch_dir ch1 = ch_dir ch" using c(1) by (auto simp: vchan_defs split: if_splits)
    then have "moved info {} (ch\<lparr>ch_trace := t\<rparr>) ch2" using k(3) by (intro moved_nothing) (simp_all add: tasklet_done_def)
    then show ?thesis using moved_trans[OF t(2)] by fastforce
  qed
  ultimately show ?thesis using r fields k(1) by auto
qed

text \<open>What the chunks still to start will copy.\<close>

definition rest_pairs :: "mtdma_chunk list \<Rightarrow> (u64 \<times> u64) set" where
  "rest_pairs cs = (\<Union>c \<in> set cs. chunk_pairs (chunk_bursts c))"

lemma rest_pairs_simps [simp]:
  "rest_pairs [] = {}" "rest_pairs (c # cs) = chunk_pairs (chunk_bursts c) \<union> rest_pairs cs"
  by (simp_all add: rest_pairs_def)

lemma rest_pairs_bursts: "md_chunks desc = Some cs \<Longrightarrow> rest_pairs cs = chunk_pairs (desc_bursts desc)"
  by (simp add: rest_pairs_def desc_bursts_def desc_chunks_def chunk_pairs_def)

text \<open>The bursts of one transfer of the test: the address of the configuration that the direction does not
  use is \<open>junk\<close>.\<close>

definition test_bursts :: "dma_direction \<Rightarrow> u32 \<Rightarrow> u64 \<Rightarrow> u64 \<Rightarrow> sg_entry list \<Rightarrow> mtdma_burst list" where
  "test_bursts cd dir laddr junk sgl = sg_bursts cd (if dir = 2 then laddr else junk) (if dir = 2 then junk else laddr) sgl"

text \<open>The number of chunks a list of \<open>n\<close> segments takes, each the work of one interrupt.\<close>

definition chunk_cnt :: "nat \<Rightarrow> nat \<Rightarrow> nat" where
  "chunk_cnt lmax n = (n + lmax - 1) div lmax"

lemma chunk_cnt_eq:
  assumes "0 < r" "r \<le> l" "n = k * l + r"
  shows "chunk_cnt l n = k + 1"
proof -
  have "n + l - 1 = (r - 1) + (k + 1) * l" using assms by simp
  moreover have "((r - 1) + (k + 1) * l) div l = k + 1 + (r - 1) div l" using assms by (intro div_mult_self1) simp
  ultimately show ?thesis using assms by (simp add: chunk_cnt_def)
qed

lemma desc_wf_chunks:
  assumes "desc_wf lmax desc" "desc_ok desc"
  shows "length (desc_chunks desc) = chunk_cnt (unat lmax) (length (desc_bursts desc))"
proof -
  obtain cs c where d: "md_chunks desc = Some (cs @ [c])" "chunk_wf lmax c" "\<forall>d \<in> set cs. length (chunk_bursts d) = unat lmax"
    using assms(1) by (auto simp: desc_wf_def)
  have "chunk_bursts c \<noteq> []" using assms(2) d(1) by (auto simp: desc_ok_def chunk_bursts_def)
  then have c: "0 < length (chunk_bursts c)" "length (chunk_bursts c) \<le> unat lmax" using d(2) by (auto simp: chunk_wf_def chunk_bursts_def)
  have "length (concat (map chunk_bursts cs)) = length cs * unat lmax" using d(3) by (induction cs) auto
  then have "length (desc_bursts desc) = length cs * unat lmax + length (chunk_bursts c)"
    by (simp add: desc_bursts_def desc_chunks_def d(1))
  then show ?thesis using chunk_cnt_eq[OF c] by (simp add: desc_chunks_def d(1))
qed

lemma xfer_starts:
  assumes "quiet info ch" "sgl \<noteq> []" "length sgl < 2 ^ 32" "\<And>n. mem n"
  shows "\<exists>ch' rest. mtdma_xfer hw mem d junk p dir laddr sgl ch = Some (0, ch') \<and> called ch' = called ch \<and>
    in_flight d rest (virt_dma_chan.truncate ch') info ch' \<and> test_desc p d (virt_dma_chan.truncate ch') \<and>
    length rest + 1 = chunk_cnt (unat (ll_max info)) (length sgl) \<and>
    (\<exists>Y. moved info Y ch ch' \<and> Y \<union> rest_pairs rest = chunk_pairs (test_bursts (ch_dir ch) dir laddr junk sgl))"
proof -
  note q = assms(1)[unfolded quiet_def]
  define ch0 where "ch0 = snd (if dir = 2 then mtdma_device_config laddr junk ch else mtdma_device_config junk laddr ch)"
  have ch0: "quiet info ch0" "ch_configured ch0" "called ch0 = called ch" "ch_dir ch0 = ch_dir ch" "ch_trace ch0 = ch_trace ch"
      "ch_src_addr ch0 = (if dir = 2 then laddr else junk)" "ch_dst_addr ch0 = (if dir = 2 then junk else laddr)"
    using q by (auto simp: ch0_def mtdma_device_config_def quiet_def all_descs_def)
  note q0 = ch0(1)[unfolded quiet_def]
  have pos: "0 < ll_max info" using q0 by (auto simp: chan_inv_def)
  have len: "unat (of_nat (length sgl) :: u32) = length sgl" using assms(3) by (simp add: unsigned_of_nat take_bit_nat_eq_self)
  then have nz: "(of_nat (length sgl) :: u32) \<noteq> 0" using assms(2) by (metis length_0_conv unsigned_0)
  have pos0: "0 < ll_max (ch_info ch0)" using pos q0 by simp
  define ch1 where "ch1 = (\<lambda>desc. vchan_tx_prep d {DMA_PREP_INTERRUPT} (ch0\<lparr>ch_descs := (ch_descs ch0)(d := desc),
      ch_live := ch_live ch0 + desc_size desc, vd_store := (vd_store ch0)(d := empty_desc)\<rparr>))"
  obtain desc where t: "mtdma_device_transfer mem d sgl (of_nat (length sgl)) {DMA_PREP_INTERRUPT} ch0 = Some (Some d, ch1 desc)"
      and r: "desc_wf (ll_max info) desc" "desc_ok desc" "desc_bursts desc = sg_bursts (ch_dir ch0) (ch_src_addr ch0) (ch_dst_addr ch0) sgl"
    using prep_succeeds[OF ch0(2) nz _ pos0 assms(2), of mem d "{DMA_PREP_INTERRUPT}"] assms(4) q0 len by (auto simp: ch1_def)
  have inv1: "chan_inv (ch1 desc)" using prepared_inv[of ch0 d desc _ "{DMA_PREP_INTERRUPT}", OF _ _ r(2) refl] q0 by (simp add: ch1_def)
  have "length (desc_chunks desc) = chunk_cnt (unat (ll_max info)) (length sgl)"
    using desc_wf_chunks[OF r(1,2)] r(3) by simp
  moreover obtain c rest where c: "desc_chunks desc = c # rest" using r(1) by (cases "desc_chunks desc") (auto simp: desc_wf_def desc_chunks_def)
  ultimately have cnt: "length rest + 1 = chunk_cnt (unat (ll_max info)) (length sgl)" by simp
  have cs: "md_chunks desc = Some (c # rest)" using r(2) c by (auto simp: desc_ok_def desc_chunks_def)
  define ch2 where "ch2 = vd_update d (\<lambda>v. v\<lparr>tx_cb := (tx_cb v)\<lparr>cb_callback := Some TEST_CALLBACK, cb_param := Some p\<rparr>\<rparr>) (ch1 desc)"
  have inv2: "chan_inv ch2" using inv1 by (auto simp: ch2_def vd_update_def chan_inv_def live_descs_def vchan_inv_def all_descs_def pending_def)
  have a2: "d \<in> set (desc_allocated ch2)" by (simp add: ch2_def ch1_def vchan_tx_prep_def vd_update_def Let_def)
  define ch3 where "ch3 = snd (vchan_tx_submit d ch2)"
  have inv3: "chan_inv ch3" unfolding ch3_def by (rule submit_ok[OF inv2 a2])
  have ck: "0 \<le> sint (fst (vchan_tx_submit d ch2))"
    using dma_cookie_assign_positive[of d ch2] by (simp add: vchan_tx_submit_def Let_def split_beta)
  have l3: "desc_submitted ch3 = [d]" "desc_issued ch3 = []" "desc_allocated ch3 = []" "desc_completed ch3 = []" "desc_terminated ch3 = []"
      "ch_configured ch3" "ch_request ch3 = MTDMA_REQ_NONE" "ch_status ch3 = MTDMA_ST_IDLE" "ch_descs ch3 d = desc" "ch_info ch3 = info"
      "called ch3 = called ch" "test_desc p d (virt_dma_chan.truncate ch3)" "ch_dir ch3 = ch_dir ch" "ch_trace ch3 = ch_trace ch"
    using q0 ch0(2-5) unfolding ch3_def ch2_def ch1_def
    by (auto simp: vchan_defs all_descs_def test_desc_def virt_dma_chan.truncate_def empty_desc_def Let_def split_beta)
  let ?ch4 = "(snd (vchan_issue_pending ch3))\<lparr>ch_status := MTDMA_ST_BUSY\<rparr>"
  have inv4: "chan_inv ?ch4" using issued_inv[OF inv3] by simp
  have n4: "vchan_next_desc ?ch4 = Some d" "md_chunks (ch_descs ?ch4 d) = Some (c # rest)"
    using l3 cs by (simp_all add: vchan_issue_pending_def vchan_next_desc_def Let_def)
  obtain ch5 where s5: "mtdma_start_transfer hw ?ch4 = Some ch5" "chan_inv ch5" "same_vchan ?ch4 ch5"
      "ch_request ch5 = MTDMA_REQ_NONE" "md_chunks (ch_descs ch5 d) = Some rest"
      "moved info (chunk_pairs (chunk_bursts c)) ?ch4 ch5"
    using start_step[OF inv4 n4, of hw] l3 by (auto simp: vchan_issue_pending_def Let_def)
  have "mtdma_device_issue_pending hw ch3 = Some ch5"
    using s5(1) l3 by (simp add: mtdma_device_issue_pending_def vchan_issue_pending_def Let_def)
  then have run: "mtdma_xfer hw mem d junk p dir laddr sgl ch = Some (0, ch5)"
    using t ck unfolding mtdma_xfer_def Let_def mtdma_device_prep_slave_sg_def ch0_def[symmetric]
    by (simp add: ch2_def[symmetric] ch3_def split_beta)
  have tr: "virt_dma_chan.truncate ch5 = virt_dma_chan.truncate ?ch4" using s5(3) by (simp add: same_vchan_def)
  have "in_flight d rest (virt_dma_chan.truncate ch5) info ch5" "test_desc p d (virt_dma_chan.truncate ch5)"
    using s5 l3 unfolding tr
    by (auto simp: in_flight_def tr same_vchan_def virt_dma_chan.truncate_def vchan_issue_pending_def all_descs_def test_desc_def Let_def)
  moreover have "called ch5 = called ch" using arg_cong[OF tr, of called] l3 by (simp add: virt_dma_chan.truncate_def vchan_issue_pending_def Let_def)
  moreover have "moved info (chunk_pairs (chunk_bursts c)) ch ch5"
  proof -
    have "moved info {} ch ?ch4" using l3 by (intro moved_nothing) (simp_all add: vchan_issue_pending_def Let_def)
    then show ?thesis using moved_trans[OF _ s5(6)] by fastforce
  qed
  moreover have "chunk_pairs (chunk_bursts c) \<union> rest_pairs rest = chunk_pairs (test_bursts (ch_dir ch) dir laddr junk sgl)"
    using rest_pairs_bursts[OF cs] unfolding r(3) ch0(4,6,7) test_bursts_def by simp
  ultimately show ?thesis using run cnt by blast
qed

section \<open>Waiting and rounds\<close>

lemma set_md_chan_simps [simp]:
  "isr_set (set_md_chan rd i ch md) = isr_set md"
  "set_md_chan rd i ch' (set_md_chan rd i ch md) = set_md_chan rd i ch' md"
  "md_chans rd (set_md_chan rd i ch md) = (md_chans rd md)[i := ch]"
  by (simp_all add: set_md_chan_def md_chans_def)

lemma callback_md [simp]:
  "em_md (mtdma_test_callback p em) = em_md em"
  "mtdma_test_callback p (em\<lparr>em_md := x\<rparr>) = (mtdma_test_callback p em)\<lparr>em_md := x\<rparr>"
  by (simp_all add: mtdma_test_callback_def set_done_def done_of_def)

text \<open>Interrupts on a quiet channel change nothing but the trace.\<close>

lemma quiet_isr:
  assumes "quiet info ch" "reports_done hw info"
  shows "\<exists>ch'. mtdma_isr hw ch = Some ch' \<and> quiet info ch' \<and> called ch' = called ch \<and> moved info {} ch ch'"
proof -
  obtain t where "mtdma_isr hw ch = mtdma_done_interrupt hw (ch\<lparr>ch_trace := t\<rparr>)" "moved info {} ch (ch\<lparr>ch_trace := t\<rparr>)"
    using isr_done[of hw ch] assms by (auto simp: quiet_def)
  then show ?thesis using assms(1)
    by (auto simp: mtdma_done_interrupt_def vchan_next_desc_def quiet_def all_descs_def)
qed

lemma wait_quiet:
  assumes "em_md em = Some md" "isr_set md" "i < length (md_chans rd md)" "quiet info (md_chans rd md ! i)" "reports_done hw info"
  shows "\<exists>ch'. wait_irqs hw n rd i em = Some (em\<lparr>em_md := Some (set_md_chan rd i ch' md)\<rparr>) \<and> quiet info ch' \<and>
    called ch' = called (md_chans rd md ! i) \<and> moved info {} (md_chans rd md ! i) ch'"
  using assms(1-4)
proof (induction n arbitrary: em md)
  case 0
  then have "set_md_chan rd i (md_chans rd md ! i) md = md" by (auto simp: set_md_chan_def md_chans_def)
  then show ?case using 0 moved_nothing by (intro exI[of _ "md_chans rd md ! i"]) simp
next
  case (Suc n)
  obtain ch' where c: "mtdma_isr hw (md_chans rd md ! i) = Some ch'" "quiet info ch'" "called ch' = called (md_chans rd md ! i)"
      "moved info {} (md_chans rd md ! i) ch'"
    using quiet_isr[OF Suc.prems(4) assms(5)] by blast
  let ?md = "set_md_chan rd i ch' md" and ?em = "em\<lparr>em_md := Some (set_md_chan rd i ch' md)\<rparr>"
  have "emu_mtdma_isr hw rd i em = Some ?em" using Suc.prems c(1) by (simp add: emu_mtdma_isr_def)
  moreover have "run_tasklet rd i ?em = Some ?em" using Suc.prems(3) c(2) by (simp add: run_tasklet_def quiet_def Let_def)
  ultimately show ?case using Suc.IH[of ?em ?md] Suc.prems c moved_trans[OF c(4)] by fastforce
qed

lemma wait_done_irq:
  assumes "em_md em = Some md" "isr_set md" "i < length (md_chans rd md)" "in_flight d rest vc info (md_chans rd md ! i)"
    "test_desc p d vc" "reports_done hw info" "length rest < n"
  shows "\<exists>ch'. wait_irqs hw n rd i em = Some ((mtdma_test_callback p em)\<lparr>em_md := Some (set_md_chan rd i ch' md)\<rparr>) \<and> quiet info ch' \<and>
    called ch' = called vc @ [test_call p] \<and> moved info (rest_pairs rest) (md_chans rd md ! i) ch'"
  using assms(1-4,7)
proof (induction rest arbitrary: em md n)
  case Nil
  then obtain k where n: "n = Suc k" by (cases n) auto
  obtain ch' ch2 where c: "mtdma_isr hw (md_chans rd md ! i) = Some ch'" "task_scheduled ch'" "called ch' = called vc"
      "quiet info ch2" "called ch2 = called vc @ [test_call p]"
      "moved info {} (md_chans rd md ! i) ch2" "vchan_complete vchan_free_desc ch' = Some ch2"
    using in_flight_done[OF Nil.prems(4) assms(5,6)] by blast
  let ?md = "set_md_chan rd i ch' md" and ?md2 = "set_md_chan rd i ch2 md"
  have "emu_mtdma_isr hw rd i em = Some (em\<lparr>em_md := Some ?md\<rparr>)" using Nil.prems c(1) by (simp add: emu_mtdma_isr_def)
  moreover have "run_tasklet rd i (em\<lparr>em_md := Some ?md\<rparr>) = Some ((mtdma_test_callback p em)\<lparr>em_md := Some ?md2\<rparr>)"
    using Nil.prems(3) c by (simp add: run_tasklet_def Let_def test_call_def)
  ultimately show ?case
    using wait_quiet[of "(mtdma_test_callback p em)\<lparr>em_md := Some ?md2\<rparr>" ?md2 i rd info hw k] Nil.prems c(4,5) assms(6) moved_trans[OF c(6)]
    by (fastforce simp: n)
next
  case (Cons c rest)
  then obtain k where n: "n = Suc k" by (cases n) auto
  obtain ch' where c: "mtdma_isr hw (md_chans rd md ! i) = Some ch'" "in_flight d rest vc info ch'"
      "moved info (chunk_pairs (chunk_bursts c)) (md_chans rd md ! i) ch'"
    using in_flight_step[OF Cons.prems(4) assms(6)] by blast
  let ?md = "set_md_chan rd i ch' md" and ?em = "em\<lparr>em_md := Some (set_md_chan rd i ch' md)\<rparr>"
  have "emu_mtdma_isr hw rd i em = Some ?em" using Cons.prems c(1) by (simp add: emu_mtdma_isr_def)
  moreover have "\<not> task_scheduled ch'"
    using c(2) assms(5) by (auto simp: in_flight_def test_desc_def virt_dma_chan.truncate_def)
  then have "run_tasklet rd i ?em = Some ?em" using Cons.prems(3) by (simp add: run_tasklet_def Let_def)
  ultimately show ?case using Cons.IH[of ?em ?md k] Cons.prems c moved_trans[OF c(3)] by (fastforce simp: n)
qed

lemma terminate_quiet:
  assumes "quiet info ch"
  shows "quiet info (snd (mtdma_device_terminate_all hw ch))" "called (snd (mtdma_device_terminate_all hw ch)) = called ch"
    "moved info {} ch (snd (mtdma_device_terminate_all hw ch))"
  using assms moved_nothing[of ch ch] by (simp_all add: mtdma_device_terminate_all_def quiet_def all_descs_def)

text \<open>The counters of the completions have the length of their arrays.\<close>

definition counters_ok :: "emu_mtdma \<Rightarrow> bool" where
  "counters_ok em \<longleftrightarrow> length (done_rd em) = TEST_CH_NUM \<and> length (done_wr em) = TEST_CH_NUM"

lemma done_callback:
  assumes "counters_ok em" "c < TEST_CH_NUM"
  shows "done_of wr c (mtdma_test_callback (done_id wr c) (set_done wr c n em)) = n + 1"
    "counters_ok (mtdma_test_callback p em)" "counters_ok (set_done wr c n em)"
  using assms by (auto simp: mtdma_test_callback_def done_id_def set_done_def done_of_def counters_ok_def)

lemma counters_md [simp]: "counters_ok (em\<lparr>em_md := x\<rparr>) = counters_ok em" "done_of wr c (em\<lparr>em_md := x\<rparr>) = done_of wr c em"
    "em_md (set_done wr c n em) = em_md em"
  by (simp_all add: counters_ok_def done_of_def set_done_def)

lemma round_ok:
  assumes "em_md em = Some md" "isr_set md" "i < length (md_chans rd md)" "quiet info (md_chans rd md ! i)" "reports_done hw info"
    "counters_ok em" "unat (rw_ch ti) < TEST_CH_NUM" "sgl \<noteq> []" "length sgl < 2 ^ 32" "\<And>n. mem_ok env k n"
    "chunk_cnt (unat (ll_max info)) (length sgl) \<le> irq_cnt env k"
  shows "\<exists>em' ch'. rw_round hw env ti rd i sgl k em = Some (0, em') \<and> em_md em' = Some (set_md_chan rd i ch' md) \<and> counters_ok em' \<and>
    quiet info ch' \<and> called ch' = called (md_chans rd md ! i) @ [test_call (done_id (rw_dir ti = 2) (unat (rw_ch ti)))] \<and>
    moved info (chunk_pairs (test_bursts (ch_dir (md_chans rd md ! i)) (rw_dir ti) (rw_laddr ti) (cfg_junk env) sgl)) (md_chans rd md ! i) ch'"
proof -
  let ?c = "unat (rw_ch ti)" and ?wr = "rw_dir ti = 2"
  let ?p = "done_id ?wr ?c" and ?em0 = "set_done ?wr ?c 0 em"
  let ?P = "chunk_pairs (test_bursts (ch_dir (md_chans rd md ! i)) (rw_dir ti) (rw_laddr ti) (cfg_junk env) sgl)"
  obtain ch1 rest Y where x: "mtdma_xfer hw (mem_ok env k) (new_desc env k) (cfg_junk env) ?p (rw_dir ti) (rw_laddr ti) sgl (md_chans rd md ! i) = Some (0, ch1)"
      "called ch1 = called (md_chans rd md ! i)" "in_flight (new_desc env k) rest (virt_dma_chan.truncate ch1) info ch1"
      "test_desc ?p (new_desc env k) (virt_dma_chan.truncate ch1)" "length rest + 1 = chunk_cnt (unat (ll_max info)) (length sgl)"
      "moved info Y (md_chans rd md ! i) ch1" "Y \<union> rest_pairs rest = ?P"
    using xfer_starts[OF assms(4,8,9), of "mem_ok env k" hw "new_desc env k" "cfg_junk env" ?p "rw_dir ti" "rw_laddr ti"] assms(10) by blast
  let ?md1 = "set_md_chan rd i ch1 md" and ?em1 = "?em0\<lparr>em_md := Some (set_md_chan rd i ch1 md)\<rparr>"
  obtain ch2 where w: "wait_irqs hw (irq_cnt env k) rd i ?em1 = Some ((mtdma_test_callback ?p ?em1)\<lparr>em_md := Some (set_md_chan rd i ch2 md)\<rparr>)"
      "quiet info ch2" "called ch2 = called (virt_dma_chan.truncate ch1) @ [test_call ?p]" "moved info (rest_pairs rest) ch1 ch2"
    using wait_done_irq[of ?em1 ?md1 i rd "new_desc env k" rest _ info ?p hw "irq_cnt env k"] x assms(2,3,5,11) by auto
  have d: "done_of ?wr ?c (mtdma_test_callback ?p ?em0) = 1" using done_callback(1)[OF assms(6,7), of ?wr 0] by simp
  let ?ch3 = "snd (mtdma_device_terminate_all hw ch2)"
  have "rw_round hw env ti rd i sgl k em = Some (0, (set_done ?wr ?c 0 ((mtdma_test_callback ?p ?em0)\<lparr>em_md := Some (set_md_chan rd i ch2 md)\<rparr>))\<lparr>em_md := Some (set_md_chan rd i ?ch3 md)\<rparr>)"
    using assms(1,3) x(1) w(1) d by (simp add: rw_round_def Let_def)
  moreover have "called ?ch3 = called (md_chans rd md ! i) @ [test_call ?p]"
    using terminate_quiet(2)[OF w(2), of hw] w(3) x(2) by (simp add: virt_dma_chan.truncate_def)
  moreover have "moved info ?P (md_chans rd md ! i) ?ch3"
    using moved_trans[OF moved_trans[OF x(6) w(4)] terminate_quiet(3)[OF w(2), of hw]] x(7) by simp
  ultimately show ?thesis using terminate_quiet(1)[OF w(2), of hw] done_callback(2,3)[OF _ assms(7)] assms(6)
    by (intro exI[of _ "(set_done ?wr ?c 0 ((mtdma_test_callback ?p ?em0)\<lparr>em_md := Some (set_md_chan rd i ch2 md)\<rparr>))\<lparr>em_md := Some (set_md_chan rd i ?ch3 md)\<rparr>"] exI[of _ ?ch3]) simp
qed

lemma rounds_ok:
  assumes "em_md em = Some md" "isr_set md" "i < length (md_chans rd md)" "quiet info (md_chans rd md ! i)" "reports_done hw info"
    "counters_ok em" "unat (rw_ch ti) < TEST_CH_NUM" "sgl \<noteq> []" "length sgl < 2 ^ 32" "\<And>k n. mem_ok env k n"
    "\<forall>k \<in> set ks. chunk_cnt (unat (ll_max info)) (length sgl) \<le> irq_cnt env k"
  shows "\<exists>em' ch'. rw_rounds hw env ti rd i sgl ks ret em = Some (if ks = [] then ret else 0, em') \<and>
    em_md em' = Some (set_md_chan rd i ch' md) \<and> quiet info ch' \<and>
    called ch' = called (md_chans rd md ! i) @ replicate (length ks) (test_call (done_id (rw_dir ti = 2) (unat (rw_ch ti)))) \<and>
    moved info (if ks = [] then {} else chunk_pairs (test_bursts (ch_dir (md_chans rd md ! i)) (rw_dir ti) (rw_laddr ti) (cfg_junk env) sgl))
      (md_chans rd md ! i) ch'"
  using assms(1-4,6,11)
proof (induction ks arbitrary: em md ret)
  case Nil
  then have "set_md_chan rd i (md_chans rd md ! i) md = md" by (auto simp: set_md_chan_def md_chans_def)
  then show ?case using Nil moved_nothing by (intro exI[of _ em] exI[of _ "md_chans rd md ! i"]) simp
next
  case (Cons k ks)
  obtain em1 ch1 where r: "rw_round hw env ti rd i sgl k em = Some (0, em1)" "em_md em1 = Some (set_md_chan rd i ch1 md)" "counters_ok em1"
      "quiet info ch1" "called ch1 = called (md_chans rd md ! i) @ [test_call (done_id (rw_dir ti = 2) (unat (rw_ch ti)))]"
      "moved info (chunk_pairs (test_bursts (ch_dir (md_chans rd md ! i)) (rw_dir ti) (rw_laddr ti) (cfg_junk env) sgl)) (md_chans rd md ! i) ch1"
    using round_ok[where k = k and env = env, OF Cons.prems(1-4) assms(5) Cons.prems(5) assms(7-10)] Cons.prems(6) by auto
  let ?P = "chunk_pairs (test_bursts (ch_dir (md_chans rd md ! i)) (rw_dir ti) (rw_laddr ti) (cfg_junk env) sgl)"
  have d: "ch_dir ch1 = ch_dir (md_chans rd md ! i)" using r(6) by (simp add: moved_def)
  have e: "md_chans rd (set_md_chan rd i ch1 md) ! i = ch1" using Cons.prems(3) by simp
  obtain em' ch' where I: "rw_rounds hw env ti rd i sgl ks 0 em1 = Some (0, em')" "em_md em' = Some (set_md_chan rd i ch' md)" "quiet info ch'"
      "called ch' = called ch1 @ replicate (length ks) (test_call (done_id (rw_dir ti = 2) (unat (rw_ch ti))))"
      "moved info (if ks = [] then {} else ?P) ch1 ch'"
    using Cons.IH[OF r(2), of 0, unfolded e d] r(3,4) Cons.prems by auto
  have "moved info ?P (md_chans rd md ! i) ch'" using moved_trans[OF r(6) I(5)] by (simp split: if_splits)
  then show ?case using I r(1,5) by (auto simp: replicate_append_same replicate_app_Cons_same)
qed

text \<open>All services of the kernel succeed for a buffer of \<open>sgs\<close> pages.\<close>

definition kernel_ok :: "rw_env \<Rightarrow> u64 \<Rightarrow> bool" where
  "kernel_ok env sgs \<longleftrightarrow> pages_ok env \<and> gup_ret env sgs = int (unat sgs) \<and> table_ret env = 0 \<and> map_ret env sgs = int (unat sgs) \<and>
     down_ret env = 0 \<and> (\<forall>k n. mem_ok env k n)"

lemma length_mapped [simp]: "length (mapped_sg bus segs) = length segs"
  by (simp add: mapped_sg_def)

lemma length_build [simp]: "length (build_sg n off left) = n"
  by (induction n arbitrary: off left) (simp_all add: Let_def)

lemma dma_rw_run:
  assumes "em_md em = Some md" "isr_set md" "i < length (md_chans rd md)" "quiet info (md_chans rd md ! i)" "reports_done hw info"
    "counters_ok em" "unat (rw_ch ti) < TEST_CH_NUM" "chan_ans env = ChOk rd i"
    "sgs = sg_count (userbuf AND 0xfff) (rw_size ti)" "0 < unat sgs" "unat sgs < 2 ^ 32" "kernel_ok env sgs" "test_cnt ti \<noteq> 0"
    "\<forall>k < unat (test_cnt ti). chunk_cnt (unat (ll_max info)) (unat sgs) \<le> irq_cnt env k"
  shows "\<exists>em' log ch'. emu_dma_rw hw env ti userbuf em = Some (0, em', log) \<and> em_md em' = Some (set_md_chan rd i ch' md) \<and> quiet info ch' \<and>
    called ch' = called (md_chans rd md ! i) @ replicate (unat (test_cnt ti)) (test_call (done_id (rw_dir ti = 2) (unat (rw_ch ti)))) \<and>
    moved info (chunk_pairs (test_bursts (ch_dir (md_chans rd md ! i)) (rw_dir ti) (rw_laddr ti) (cfg_junk env)
      (mapped_sg (bus_addr env) (build_sg (unat sgs) (userbuf AND 0xfff) (rw_size ti))))) (md_chans rd md ! i) ch'"
proof -
  let ?sgl = "mapped_sg (bus_addr env) (build_sg (unat sgs) (userbuf AND 0xfff) (rw_size ti))"
  have sgl: "?sgl \<noteq> []" "length ?sgl < 2 ^ 32" "length ?sgl = unat sgs" using assms(10,11) by (auto simp flip: length_greater_0_conv)
  have n: "[0..<unat (test_cnt ti)] \<noteq> []" using assms(13) by (simp add: unat_gt_0)
  have mem: "mem_ok env k n" for k n using assms(12) by (simp add: kernel_ok_def)
  obtain em' ch' where "rw_rounds hw env ti rd i ?sgl [0..<unat (test_cnt ti)] (map_ret env sgs) em = Some (0, em')"
      "em_md em' = Some (set_md_chan rd i ch' md)" "quiet info ch'"
      "called ch' = called (md_chans rd md ! i) @ replicate (unat (test_cnt ti)) (test_call (done_id (rw_dir ti = 2) (unat (rw_ch ti))))"
      "moved info (chunk_pairs (test_bursts (ch_dir (md_chans rd md ! i)) (rw_dir ti) (rw_laddr ti) (cfg_junk env) ?sgl)) (md_chans rd md ! i) ch'"
    using rounds_ok[of em md i rd info hw ti ?sgl env "[0..<unat (test_cnt ti)]" "map_ret env sgs", OF assms(1-7) sgl(1,2) mem] assms(14) sgl(3) n by auto
  moreover from this(1) have "\<exists>log. emu_dma_rw hw env ti userbuf em = Some (0, em', log)"
    using assms(1,7,8,12) unfolding kernel_ok_def by (simp add: emu_dma_rw_def Let_def assms(9)[symmetric] not_le)
  ultimately show ?thesis by blast
qed

text \<open>C7. A transfer whose interrupts arrive completes: with an idle channel, all services of the kernel
  available and the channel reporting done, without error, at least once per chunk before
  each timeout, the test returns 0, the completion callback has run once per round, and the
  channel is idle with nothing queued.\<close>

theorem dma_rw_completes:
  assumes "em_md em = Some md" "isr_set md" "i < length (md_chans rd md)" "quiet info (md_chans rd md ! i)" "reports_done hw info"
    "counters_ok em" "unat (rw_ch ti) < TEST_CH_NUM" "chan_ans env = ChOk rd i"
    "sgs = sg_count (userbuf AND 0xfff) (rw_size ti)" "0 < unat sgs" "unat sgs < 2 ^ 32" "kernel_ok env sgs" "test_cnt ti \<noteq> 0"
    "\<forall>k < unat (test_cnt ti). chunk_cnt (unat (ll_max info)) (unat sgs) \<le> irq_cnt env k"
  shows "\<exists>em' log ch'. emu_dma_rw hw env ti userbuf em = Some (0, em', log) \<and> em_md em' = Some (set_md_chan rd i ch' md) \<and> quiet info ch' \<and>
    called ch' = called (md_chans rd md ! i) @ replicate (unat (test_cnt ti)) (test_call (done_id (rw_dir ti = 2) (unat (rw_ch ti))))"
  using dma_rw_run[OF assms] by blast

section \<open>Failures that are reported as success\<close>

text \<open>A failure to map the scatter list is reported as success: \<open>dma_map_sg\<close> returns 0 then, which is
  not the number of segments but is what the test returns; no transfer is started and the
  caller, which takes 0 for success, is told that the data was moved.\<close>

theorem dma_rw_map_failure_is_success:
  assumes "em_md em \<noteq> None" "unat (rw_ch ti) < TEST_CH_NUM" "chan_ans env = ChOk rd i"
    "sgs = sg_count (userbuf AND 0xfff) (rw_size ti)" "sgs \<noteq> 0" "pages_ok env" "gup_ret env sgs = int (unat sgs)" "table_ret env = 0"
    "map_ret env sgs = 0"
  shows "emu_dma_rw hw env ti userbuf em =
    Some (0, em, [ReqChan, AllocPages, PinPages (unat sgs), AllocTable, FreeTable, FreePages, ReleaseChan])"
  using assms by (auto simp: emu_dma_rw_def Let_def)

text \<open>A transfer that could not be prepared is reported as success: when the allocation of the
  descriptor fails, or the channel refuses the list, \<open>mtdma_xfer\<close> returns a negative
  number, the wait is skipped, and any number but 0 is turned into 0, the success of the round;
  nothing was queued on the channel.\<close>

theorem dma_rw_prep_failure_is_success:
  assumes "em_md em = Some md" "i < length (md_chans rd md)" "\<not> mem_ok env k 0"
  shows "\<exists>em' ch'. rw_round hw env ti rd i sgl k em = Some (0, em') \<and> em_md em' = Some (set_md_chan rd i ch' md) \<and>
    all_descs ch' = all_descs (md_chans rd md ! i)"
proof -
  let ?ch = "md_chans rd md ! i"
  have p: "mtdma_device_prep_slave_sg mem d sgl len dir fl ch = Some (None, ch)" if "\<not> mem 0" for mem d len dir fl ch
    using that by (auto simp: mtdma_device_prep_slave_sg_def mtdma_device_transfer_def mtdma_alloc_desc_def kzalloc_def heap_of_def err_alloc_def Let_def)
  let ?c = "snd (if rw_dir ti = 2 then mtdma_device_config (rw_laddr ti) (cfg_junk env) ?ch else mtdma_device_config (cfg_junk env) (rw_laddr ti) ?ch)"
  have x: "mtdma_xfer hw (mem_ok env k) d j dp (rw_dir ti) (rw_laddr ti) sgl ?ch = Some (-1, ?c)" if "j = cfg_junk env" for d j dp
    using p[of "mem_ok env k"] assms(3) that by (simp add: mtdma_xfer_def Let_def)
  have "all_descs ?c = all_descs ?ch" by (simp add: mtdma_device_config_def all_descs_def)
  moreover have "all_descs (snd (mtdma_device_terminate_all hw ch)) = all_descs ch" for ch
    by (auto simp: mtdma_device_terminate_all_def mtdma_v0_core_ch_status_def ch_do_def all_descs_def Let_def)
  ultimately have "rw_round hw env ti rd i sgl k em =
      Some (0, (set_done (rw_dir ti = 2) (unat (rw_ch ti)) 0 em)\<lparr>em_md := Some (set_md_chan rd i (snd (mtdma_device_terminate_all hw ?c)) md)\<rparr>)"
      "all_descs (snd (mtdma_device_terminate_all hw ?c)) = all_descs ?ch"
    using assms(1,2) x[OF refl] by (simp_all add: rw_round_def Let_def)
  then show ?thesis by (intro exI[of _ "(set_done (rw_dir ti = 2) (unat (rw_ch ti)) 0 em)\<lparr>em_md := Some (set_md_chan rd i (snd (mtdma_device_terminate_all hw ?c)) md)\<rparr>"]
    exI[of _ "snd (mtdma_device_terminate_all hw ?c)"]) simp
qed

section \<open>Witnesses\<close>

definition demo_md :: mtdma where
  "demo_md = \<lparr>wr_ch_cnt = 0, rd_ch_cnt = 1, wr_chan = [], rd_chan = [setup_chan DMA_MEM_TO_DEV 0 demo_chan], isr_set = True\<rparr>"

definition demo_em :: emu_mtdma where
  "demo_em = \<lparr>em_md = Some demo_md, sem_rd = replicate 64 1, sem_wr = replicate 64 1, done_rd = replicate 64 0, done_wr = replicate 64 0\<rparr>"

definition demo_rw :: mtdma_rw where
  "demo_rw = \<lparr>rw_laddr = 0x100000, rw_size = 0x4000, rw_timeout_ms = 1000, test_cnt = 3, rw_ch = 0, rw_dir = 1\<rparr>"

definition demo_env :: rw_env where
  "demo_env = \<lparr>chan_ans = ChOk True 0, pages_ok = True, gup_ret = (\<lambda>n. int (unat n)), table_ret = 0, map_ret = (\<lambda>n. int (unat n)), down_ret = 0,
     bus_addr = (\<lambda>i. 0x1000000 + of_nat i * 0x1000), cfg_junk = 0, mem_ok = (\<lambda>k n. True), new_desc = (\<lambda>k. k), irq_cnt = (\<lambda>k. 3)\<rparr>"

lemma demo_quiet: "quiet demo_info (setup_chan DMA_MEM_TO_DEV 0 demo_chan)"
proof -
  have "chan_inv (setup_chan DMA_MEM_TO_DEV 0 demo_chan)" by (rule setup_chan_inv) (simp_all add: demo_defs)
  then show ?thesis
    by (simp add: quiet_def setup_chan_def vchan_init_def dma_cookie_init_def all_descs_def demo_defs)
qed

theorem dma_rw_completes_witness:
  "\<exists>em' log. emu_dma_rw (\<lambda>t a. 1) demo_env demo_rw 0x1000 demo_em = Some (0, em', log)"
proof -
  have "reports_done (\<lambda>t a. 1) demo_info"
    by (simp add: reports_done_def DMA_CH_INTR_BIT_DONE_def ERR_BITS_def DMA_CH_INTR_BIT_ERR_DATA_def DMA_CH_INTR_BIT_ERR_DESC_READ_def DMA_CH_INTR_BIT_ERR_CFG_def)
  then show ?thesis
    using dma_rw_completes[of demo_em demo_md 0 True demo_info "\<lambda>t a. 1" demo_rw demo_env "sg_count (0x1000 AND 0xfff) 0x4000" "0x1000"] demo_quiet
    by (auto simp: demo_em_def demo_md_def demo_rw_def demo_env_def md_chans_def counters_ok_def TEST_CH_NUM_def kernel_ok_def
        sg_count_def chunk_cnt_def demo_info_def)
qed

theorem dma_rw_map_failure_is_success_witness:
  "emu_dma_rw (\<lambda>t a. 1) (demo_env\<lparr>map_ret := \<lambda>n. 0\<rparr>) demo_rw 0x1000 demo_em =
    Some (0, demo_em, [ReqChan, AllocPages, PinPages (unat (4 :: u64)), AllocTable, FreeTable, FreePages, ReleaseChan])"
  by (rule dma_rw_map_failure_is_success)
    (simp_all add: demo_em_def demo_rw_def demo_env_def TEST_CH_NUM_def sg_count_def)

theorem dma_rw_prep_failure_is_success_witness:
  "\<exists>em'. rw_round (\<lambda>t a. 1) (demo_env\<lparr>mem_ok := \<lambda>k n. False\<rparr>) demo_rw True 0 [(0x1000, 64)] 0 demo_em = Some (0, em')"
  using dma_rw_prep_failure_is_success[of demo_em demo_md 0 True "demo_env\<lparr>mem_ok := \<lambda>k n. False\<rparr>" 0 "\<lambda>t a. 1" demo_rw "[(0x1000, 64)]"]
  by (auto simp: demo_em_def demo_md_def md_chans_def)

text \<open>Two of the four entries are joined: the mapping is not given back.\<close>

theorem dma_rw_releases_witness:
  "\<exists>log em'. emu_dma_rw (\<lambda>t a. 1) (demo_env\<lparr>map_ret := \<lambda>n. 3\<rparr>) demo_rw 0x1000 demo_em = Some (3, em', log) \<and>
    nested [] (removeAll MapSg log) \<and> MapSg \<in> set log \<and> UnmapSg \<notin> set log"
proof -
  let ?log = "[ReqChan, AllocPages, PinPages 4, AllocTable, MapSg, FreeTable, FreePages, ReleaseChan]"
  have c: "sg_count (0x1000 AND 0xfff) 0x4000 = 4" by (simp add: sg_count_def)
  have r: "emu_dma_rw (\<lambda>t a. 1) (demo_env\<lparr>map_ret := \<lambda>n. 3\<rparr>) demo_rw 0x1000 demo_em = Some (3, demo_em, ?log)"
    by (simp add: emu_dma_rw_def demo_em_def demo_rw_def demo_env_def TEST_CH_NUM_def sg_count_def Let_def)
  from dma_rw_releases[OF r refl] show ?thesis using r by (simp add: demo_rw_def demo_env_def sg_count_def)
qed

end
