(* ===== verification/DmaEndToEnd.thy ===== *)
theory DmaEndToEnd
  imports DmaTestProps
begin

text \<open>
  The transfer of a user buffer from the system call to the bytes: the composition of the scatter
  list of \<open>DmaTest\<close>, the descriptors and the state machine of \<open>MtdmaCore\<close> and the device of
  \<open>DmaDevice\<close>.  A successful test in either direction leaves exactly the bytes of
  the buffer at the other end, each at its place, and changes nothing else.
\<close>

section \<open>The bytes of the scatter list\<close>

text \<open>The bus address of byte \<open>k\<close> of a buffer that begins \<open>off\<close> bytes into its first page.\<close>

definition buf_addr :: "(nat \<Rightarrow> u64) \<Rightarrow> nat \<Rightarrow> nat \<Rightarrow> u64" where
  "buf_addr bus off k = bus ((off + k) div 4096) + of_nat ((off + k) mod 4096)"

lemma chunk_pairs_simps [simp]:
  "chunk_pairs [] = {}" "chunk_pairs (b # bs) = set (pairs (burst_xfer b)) \<union> chunk_pairs bs"
  by (simp_all add: chunk_pairs_def)

lemma set_pairs: "set (pairs (s, d, n)) = (\<lambda>j. (s + of_nat j, d + of_nat j)) ` {..<unat n}"
  by (auto simp: pairs_def)

abbreviation seg_list :: "(nat \<Rightarrow> u64) \<Rightarrow> nat \<Rightarrow> (u32 \<times> u32) list \<Rightarrow> sg_entry list" where
  "seg_list bus i segs \<equiv> map (\<lambda>(i, len, off). (bus i + ucast off, len)) (zip [i..<i + length segs] segs)"

lemma lessThan_split:
  assumes "a \<le> b"
  shows "{..<b :: nat} = {..<a} \<union> (\<lambda>j. a + j) ` {..<b - a}"
proof (intro equalityI subsetI)
  fix k assume "k \<in> {..<b}"
  then show "k \<in> {..<a} \<union> (\<lambda>j. a + j) ` {..<b - a}"
    by (cases "k < a") (auto intro!: image_eqI[of k _ "k - a"])
qed (use assms in auto)

lemma seg_pairs:
  assumes "unat off < 4096" "unat off + unat left \<le> 4096 * n"
  shows "chunk_pairs (sg_bursts DMA_MEM_TO_DEV src dst (seg_list bus i (build_sg n off left))) =
    (\<lambda>k. (buf_addr bus (4096 * i + unat off) k, dst + of_nat k)) ` {..<unat left}"
  using assms
proof (induction n arbitrary: i off left dst)
  case 0
  then show ?case by simp
next
  case (Suc n)
  define len where "len = (if 4096 < off + (if 4096 < left then 4096 else left) then 4096 - off else if 4096 < left then 4096 else left)"
  have len: "unat len = min (unat left) (4096 - unat off)" unfolding len_def by (rule seg_len[OF Suc.prems(1)])
  then have left: "unat (left - len) = unat left - unat len" by (simp add: unat_sub word_le_nat_alt)
  have small: "unat (ucast x :: u32) = unat x" "(ucast (ucast x :: u32) :: u64) = x" if "unat x < 2 ^ 32" for x :: u64
  proof -
    show *: "unat (ucast x :: u32) = unat x" using that by (simp add: unsigned_ucast_eq take_bit_nat_eq_self)
    have "unat (ucast (ucast x :: u32) :: u64) = take_bit LENGTH(64) (unat (ucast x :: u32))" by (rule unsigned_ucast_eq)
    then have "unat (ucast (ucast x :: u32) :: u64) = unat x" unfolding * using that by (simp add: take_bit_nat_eq_self)
    then show "(ucast (ucast x :: u32) :: u64) = x" by (rule word_unat_eq_iff[THEN iffD2])
  qed
  have "unat len < 2 ^ 32" "unat off < 2 ^ 32" using len Suc.prems(1) by simp_all
  note u = small(1)[OF this(1)] small(2)[OF this(2)] small(2)[OF this(1)]
  let ?f = "\<lambda>k. (buf_addr bus (4096 * i + unat off) k, dst + of_nat k)"
  have b: "build_sg (Suc n) off left = (ucast len, ucast off) # build_sg n 0 (left - len)"
    by (simp add: Let_def len_def)
  have first: "(\<lambda>j. (bus i + off + of_nat j, dst + of_nat j)) ` {..<unat len} = ?f ` {..<unat len}"
  proof (rule image_cong[OF refl])
    fix j assume "j \<in> {..<unat len}"
    then have "j < 4096 - unat off" using len by simp
    then have "unat off + j < 4096" by linarith
    moreover have "4096 * i + unat off + j = unat off + j + i * 4096" by simp
    ultimately have "(4096 * i + unat off + j) div 4096 = i" "(4096 * i + unat off + j) mod 4096 = unat off + j"
      by (simp_all only: div_mult_self1 mod_mult_self1 div_less mod_less)
    then show "(bus i + off + of_nat j, dst + of_nat j) = ?f j" by (simp add: buf_addr_def add.assoc)
  qed
  have IH: "chunk_pairs (sg_bursts DMA_MEM_TO_DEV src (dst + len) (seg_list bus (Suc i) (build_sg n 0 (left - len)))) =
      (\<lambda>k. (buf_addr bus (4096 * Suc i) k, dst + len + of_nat k)) ` {..<unat left - unat len}"
    using Suc.IH[of 0 "left - len" "dst + len" "Suc i"] Suc.prems left len by simp
  have rest: "(\<lambda>k. (buf_addr bus (4096 * Suc i) k, dst + len + of_nat k)) ` {..<unat left - unat len} =
      ?f ` (\<lambda>j. unat len + j) ` {..<unat left - unat len}"
    unfolding image_image
  proof (rule image_cong[OF refl])
    fix k assume "k \<in> {..<unat left - unat len}"
    then have "unat len = 4096 - unat off" using len by auto
    then have e: "4096 * i + unat off + (unat len + k) = 4096 * Suc i + k" using Suc.prems(1) by simp
    show "(buf_addr bus (4096 * Suc i) k, dst + len + of_nat k) = ?f (unat len + k)"
      unfolding buf_addr_def e by (simp add: add.assoc)
  qed
  have "unat len \<le> unat left" using len by simp
  then have "?f ` {..<unat left} = ?f ` {..<unat len} \<union> ?f ` (\<lambda>j. unat len + j) ` {..<unat left - unat len}"
    by (simp only: lessThan_split[of "unat len" "unat left"] image_Un)
  moreover have "seg_list bus i (build_sg (Suc n) off left) = (bus i + ucast (ucast off :: u32), ucast len) # seg_list bus (Suc i) (build_sg n 0 (left - len))"
    unfolding b by (simp add: upt_conv_Cons del: upt_Suc build_sg.simps length_build)
  ultimately show ?case by (simp add: u set_pairs IH[unfolded rest] first del: upt_Suc build_sg.simps length_build add_Suc)
qed

text \<open>In the other direction source and destination are exchanged.\<close>

lemma sg_pairs_swap:
  assumes "dir \<noteq> DMA_MEM_TO_DEV"
  shows "chunk_pairs (sg_bursts dir src dst sgl) = prod.swap ` chunk_pairs (sg_bursts DMA_MEM_TO_DEV x src sgl)"
proof (induction sgl arbitrary: src)
  case (Cons sg sgl)
  then show ?case using assms by (cases sg) (simp add: image_Un set_pairs image_image)
qed simp

section \<open>The transfer\<close>

text \<open>What a test of \<open>sgs\<close> pages needs to complete: an idle channel \<open>i\<close> whose descriptors are not in
  its register region, a channel that reports done without error, the services of the kernel, and an
  interrupt for each chunk in every round.\<close>

definition test_ready :: "hardware \<Rightarrow> rw_env \<Rightarrow> mtdma_rw \<Rightarrow> bool \<Rightarrow> nat \<Rightarrow> u64 \<Rightarrow> mtdma \<Rightarrow> emu_mtdma \<Rightarrow> bool" where
  "test_ready hw env ti rd i off md em \<longleftrightarrow>
    (let info = ch_info (md_chans rd md ! i); sgs = sg_count off (rw_size ti) in
     em_md em = Some md \<and> isr_set md \<and> i < length (md_chans rd md) \<and> quiet info (md_chans rd md ! i) \<and> apart info \<and>
     reports_done hw info \<and> counters_ok em \<and> unat (rw_ch ti) < TEST_CH_NUM \<and> chan_ans env = ChOk rd i \<and>
     0 < rw_size ti \<and> unat off + unat (rw_size ti) + 4095 < 2 ^ 44 \<and> kernel_ok env sgs \<and> test_cnt ti \<noteq> 0 \<and>
     (\<forall>k < unat (test_cnt ti). chunk_cnt (unat (ll_max info)) (unat sgs) \<le> irq_cnt env k))"

lemma sg_count_nat:
  assumes "unat off + unat sz + 4095 < 2 ^ 64"
  shows "unat (sg_count off sz) = (unat off + unat sz + 4095) div 4096"
proof -
  have "off + sz + 4096 - 1 = of_nat (unat off + unat sz + 4095)" by simp
  then have "unat (off + sz + 4096 - 1) = unat off + unat sz + 4095"
    using assms by (simp add: unsigned_of_nat take_bit_nat_eq_self del: of_nat_add)
  then show ?thesis by (simp add: sg_count_def unat_div)
qed

text \<open>The run of a test and the trace it adds to the channel.\<close>

lemma test_moves:
  assumes "test_ready hw env ti rd i (userbuf AND 0xfff) md em"
  shows "\<exists>em' log ch' u. emu_dma_rw hw env ti userbuf em = Some (0, em', log) \<and> em_md em' = Some (set_md_chan rd i ch' md) \<and>
    ch_trace ch' = ch_trace (md_chans rd md ! i) @ u \<and>
    copies (ch_info (md_chans rd md ! i)) u (chunk_pairs (test_bursts (ch_dir (md_chans rd md ! i)) (rw_dir ti) (rw_laddr ti) (cfg_junk env)
      (seg_list (bus_addr env) 0 (build_sg (unat (sg_count (userbuf AND 0xfff) (rw_size ti))) (userbuf AND 0xfff) (rw_size ti)))))"
proof -
  let ?off = "userbuf AND 0xfff" and ?ch = "md_chans rd md ! i"
  let ?sgs = "sg_count ?off (rw_size ti)"
  note r = assms[unfolded test_ready_def Let_def]
  have n: "unat ?sgs = (unat ?off + unat (rw_size ti) + 4095) div 4096" using r by (intro sg_count_nat) simp
  have "0 < unat (rw_size ti)" using r by (simp add: word_less_nat_alt)
  then have s: "0 < unat ?sgs" using n by simp
  have "unat ?off + unat (rw_size ti) + 4095 < 4294967296 * 4096" using r by simp
  then have "unat ?sgs < 2 ^ 32" unfolding n by (simp only: less_mult_imp_div_less power_numeral) simp
  note s = s this
  obtain em' log ch' where t: "emu_dma_rw hw env ti userbuf em = Some (0, em', log)" "em_md em' = Some (set_md_chan rd i ch' md)"
      "moved (ch_info ?ch) (chunk_pairs (test_bursts (ch_dir ?ch) (rw_dir ti) (rw_laddr ti) (cfg_junk env)
        (mapped_sg (bus_addr env) (build_sg (unat ?sgs) ?off (rw_size ti))))) ?ch ch'"
    using dma_rw_run[of em md i rd "ch_info ?ch" hw ti env ?sgs userbuf] r s by blast
  then show ?thesis using r by (auto simp: moved_def mapped_sg_def)
qed

lemma page_off: "unat (userbuf AND 0xfff :: u64) < 4096"
proof -
  have "userbuf AND 0xfff \<le> 0xfff" by (rule word_and_le1)
  then show ?thesis by (simp add: word_le_nat_alt)
qed

lemma sg_fits:
  assumes "unat off + unat sz + 4095 < 2 ^ 64"
  shows "unat off + unat sz \<le> 4096 * unat (sg_count off sz)"
  using sg_count_nat[OF assms] round_up[of "unat off + unat sz"] by simp

text \<open>C5. A transfer to the device delivers the buffer: when nothing fails, the test returns 0 and what it wrote to the
  registers of the channel makes the device leave byte \<open>k\<close> of the user's buffer, wherever
  its page is in memory, at the address asked for plus \<open>k\<close>, and nothing else, in however many chunks and rounds.\<close>

theorem dma_rw_delivers:
  assumes "test_ready hw env ti rd i off md em" "off = userbuf AND 0xfff" "ch_dir (md_chans rd md ! i) = DMA_MEM_TO_DEV" "rw_dir ti \<noteq> 2"
  shows "\<exists>em' log ch' u. emu_dma_rw hw env ti userbuf em = Some (0, em', log) \<and> em_md em' = Some (set_md_chan rd i ch' md) \<and>
    ch_trace ch' = ch_trace (md_chans rd md ! i) @ u \<and>
    (\<forall>host m dev. \<exists>m' dev'. device (ch_info (md_chans rd md ! i)) host u (m, dev) = Some (m', dev') \<and>
      (\<forall>a. dev' a = (if a - rw_laddr ti < rw_size ti
        then host (buf_addr (bus_addr env) (unat off) (unat (a - rw_laddr ti))) else dev a)))"
proof -
  let ?f = "\<lambda>k. (buf_addr (bus_addr env) (unat off) k, rw_laddr ti + of_nat k)"
  have o: "unat off < 4096" unfolding assms(2) by (rule page_off)
  have fits: "unat off + unat (rw_size ti) \<le> 4096 * unat (sg_count off (rw_size ti))"
    using assms(1) by (intro sg_fits) (simp add: test_ready_def Let_def)
  obtain em' log ch' u where t: "emu_dma_rw hw env ti userbuf em = Some (0, em', log)" "em_md em' = Some (set_md_chan rd i ch' md)"
      "ch_trace ch' = ch_trace (md_chans rd md ! i) @ u"
      "copies (ch_info (md_chans rd md ! i)) u (?f ` {..<unat (rw_size ti)})"
    using test_moves[OF assms(1)[unfolded assms(2)]] seg_pairs[OF o fits, where src = "cfg_junk env" and bus = "bus_addr env" and i = 0 and dst = "rw_laddr ti"] assms(2-4)
    by (auto simp: test_bursts_def)
  have "\<exists>m' dev'. device (ch_info (md_chans rd md ! i)) host u (m, dev) = Some (m', dev') \<and>
      (\<forall>a. dev' a = (if a - rw_laddr ti < rw_size ti then host (buf_addr (bus_addr env) (unat off) (unat (a - rw_laddr ti))) else dev a))"
    for host m dev
  proof -
    obtain m' ps where d: "device (ch_info (md_chans rd md ! i)) host u (m, dev) = Some (m', copy host ps dev)"
        "set ps = ?f ` {..<unat (rw_size ti)}"
      using t(4) unfolding copies_def by blast
    have offs: "unat (rw_laddr ti + of_nat k - rw_laddr ti) = k" if "k < unat (rw_size ti)" for k
      using that unsigned_less[of "rw_size ti", where ?'a = nat] by (simp add: unsigned_of_nat take_bit_nat_eq_self)
    have "s = buf_addr (bus_addr env) (unat off) (unat (a - rw_laddr ti))" if "(s, a) \<in> set ps" for s a
      using that offs unfolding d(2) by auto
    note res = copy_result[OF this, where src = host and b = dev]
    have "a \<in> snd ` set ps \<longleftrightarrow> a - rw_laddr ti < rw_size ti" for a
    proof -
      have "snd ` set ps = (\<lambda>k. rw_laddr ti + of_nat k) ` {..<unat (rw_size ti)}" unfolding d(2) image_image by simp
      moreover have "a \<in> (\<lambda>k. rw_laddr ti + of_nat k) ` {..<unat (rw_size ti)}" if "a - rw_laddr ti < rw_size ti"
        using that by (intro image_eqI[of _ _ "unat (a - rw_laddr ti)"]) (simp_all add: word_less_nat_alt)
      moreover have "rw_laddr ti + of_nat k - rw_laddr ti < rw_size ti" if "k < unat (rw_size ti)" for k
        using offs[OF that] that by (simp only: word_less_nat_alt)
      ultimately show ?thesis by auto
    qed
    then show ?thesis using d(1) res by (intro exI[of _ m'] exI[of _ "copy host ps dev"]) simp
  qed
  then show ?thesis using t(1-3) by blast
qed

text \<open>C6. A transfer from the device fills the buffer: when nothing fails and the pages of the buffer do not overlap, the
  test returns 0 and the device leaves the byte at the address asked for plus \<open>k\<close> in byte \<open>k\<close> of the user's buffer,
  and changes nothing outside the buffer.\<close>

theorem dma_rw_fetches:
  assumes "test_ready hw env ti rd i off md em" "off = userbuf AND 0xfff" "ch_dir (md_chans rd md ! i) = DMA_DEV_TO_MEM" "rw_dir ti = 2"
    "inj_on (buf_addr (bus_addr env) (unat off)) {..<unat (rw_size ti)}"
  shows "\<exists>em' log ch' u. emu_dma_rw hw env ti userbuf em = Some (0, em', log) \<and> em_md em' = Some (set_md_chan rd i ch' md) \<and>
    ch_trace ch' = ch_trace (md_chans rd md ! i) @ u \<and>
    (\<forall>dev m host. \<exists>m' host'. device (ch_info (md_chans rd md ! i)) dev u (m, host) = Some (m', host') \<and>
      (\<forall>k < unat (rw_size ti). host' (buf_addr (bus_addr env) (unat off) k) = dev (rw_laddr ti + of_nat k)) \<and>
      (\<forall>a. a \<notin> buf_addr (bus_addr env) (unat off) ` {..<unat (rw_size ti)} \<longrightarrow> host' a = host a))"
proof -
  let ?B = "buf_addr (bus_addr env) (unat off)" and ?K = "{..<unat (rw_size ti)}"
  let ?f = "\<lambda>k. (rw_laddr ti + of_nat k, ?B k)"
  have o: "unat off < 4096" unfolding assms(2) by (rule page_off)
  have fits: "unat off + unat (rw_size ti) \<le> 4096 * unat (sg_count off (rw_size ti))"
    using assms(1) by (intro sg_fits) (simp add: test_ready_def Let_def)
  obtain em' log ch' u where t: "emu_dma_rw hw env ti userbuf em = Some (0, em', log)" "em_md em' = Some (set_md_chan rd i ch' md)"
      "ch_trace ch' = ch_trace (md_chans rd md ! i) @ u" "copies (ch_info (md_chans rd md ! i)) u (?f ` ?K)"
    using test_moves[OF assms(1)[unfolded assms(2)]] seg_pairs[OF o fits, where src = 0 and bus = "bus_addr env" and i = 0 and dst = "rw_laddr ti"] assms(2-4)
    by (auto simp: test_bursts_def sg_pairs_swap[where x = 0] image_image)
  have "\<exists>m' host'. device (ch_info (md_chans rd md ! i)) dev u (m, host) = Some (m', host') \<and>
      (\<forall>k < unat (rw_size ti). host' (?B k) = dev (rw_laddr ti + of_nat k)) \<and> (\<forall>a. a \<notin> ?B ` ?K \<longrightarrow> host' a = host a)" for dev m host
  proof -
    obtain m' ps where d: "device (ch_info (md_chans rd md ! i)) dev u (m, host) = Some (m', copy dev ps host)" "set ps = ?f ` ?K"
      using t(4) unfolding copies_def by blast
    have "s = rw_laddr ti + of_nat (the_inv_into ?K ?B a)" if "(s, a) \<in> set ps" for s a
      using that assms(5) unfolding d(2) by (auto simp: the_inv_into_f_f)
    note res = copy_result[OF this, where src = dev and b = host]
    have "snd ` set ps = ?B ` ?K" unfolding d(2) image_image by simp
    then show ?thesis using d(1) res assms(5) by (intro exI[of _ m'] exI[of _ "copy dev ps host"]) (simp add: the_inv_into_f_f)
  qed
  then show ?thesis using t(1-3) by blast
qed

section \<open>The empty transfer\<close>

text \<open>A transfer of no bytes from an address inside a page is not empty: it has one segment, of length 0, and the
  count written to its descriptor, which is the length less one, is the largest there is.\<close>

theorem empty_transfer_counts_4g:
  assumes "0 < unat off" "unat off < 4096"
  shows "build_sg (unat (sg_count off 0)) off 0 = [(0, ucast off)] \<and>
    (\<forall>info i s d t. Wr (io_off (lli_of info i) DESC_CNT) 0xffffffff \<in> set (exec (write_bursts info i [\<lparr>b_sar = s, b_dar = d, b_sz = 0\<rparr>]) t))"
proof -
  have "unat (sg_count off 0) = (unat off + 4095) div 4096" using sg_count_nat[of off 0] assms by simp
  also have "\<dots> = 1" using assms by simp
  finally have n: "unat (sg_count off 0) = 1" .
  have "build_sg 1 off 0 = [(0, ucast off)]" using assms by (simp add: Let_def word_less_nat_alt)
  then show ?thesis by (simp add: n mmio_simps Let_def)
qed

section \<open>Witnesses\<close>

lemma demo_reports: "reports_done (\<lambda>t a. 1) info"
  by (simp add: reports_done_def DMA_CH_INTR_BIT_DONE_def ERR_BITS_def DMA_CH_INTR_BIT_ERR_DATA_def DMA_CH_INTR_BIT_ERR_DESC_READ_def DMA_CH_INTR_BIT_ERR_CFG_def)

definition demo_write :: mtdma where
  "demo_write = \<lparr>wr_ch_cnt = 1, rd_ch_cnt = 0, wr_chan = [setup_chan DMA_DEV_TO_MEM 0 demo_chan], rd_chan = [], isr_set = True\<rparr>"

lemma demo_quiet_write: "quiet demo_info (setup_chan DMA_DEV_TO_MEM 0 demo_chan)"
proof -
  have "chan_inv (setup_chan DMA_DEV_TO_MEM 0 demo_chan)" by (rule setup_chan_inv) (simp_all add: demo_defs)
  then show ?thesis
    by (simp add: quiet_def setup_chan_def vchan_init_def dma_cookie_init_def all_descs_def demo_defs)
qed

lemmas demo_test_defs = demo_em_def demo_md_def demo_write_def demo_rw_def demo_env_def md_chans_def counters_ok_def TEST_CH_NUM_def
  kernel_ok_def sg_count_def chunk_cnt_def demo_info_def

text \<open>The buffer begins in the middle of a page and is moved in three rounds.\<close>

theorem dma_rw_delivers_witness:
  "\<exists>em' log. emu_dma_rw (\<lambda>t a. 1) demo_env demo_rw 0x1f00 demo_em = Some (0, em', log)"
proof -
  have "test_ready (\<lambda>t a. 1) demo_env demo_rw True 0 0xf00 demo_md demo_em"
    using demo_quiet by (simp add: test_ready_def Let_def demo_reports demo_test_defs setup_chan_def vchan_init_def dma_cookie_init_def demo_defs)
  moreover have "ch_dir (md_chans True demo_md ! 0) = DMA_MEM_TO_DEV" by (simp add: demo_md_def md_chans_def setup_chan_def vchan_init_def dma_cookie_init_def)
  ultimately show ?thesis using dma_rw_delivers[where userbuf = "0x1f00" and off = "0xf00"] by (fastforce simp: demo_rw_def)
qed

lemma buf_addr_contiguous: "buf_addr (\<lambda>i. b + of_nat i * 0x1000) off k = b + of_nat (off + k)"
proof -
  have "(of_nat (off + k) :: u64) = of_nat ((off + k) div 4096 * 4096 + (off + k) mod 4096)" by simp
  also have "\<dots> = of_nat ((off + k) div 4096) * 0x1000 + of_nat ((off + k) mod 4096)" by (simp only: of_nat_add of_nat_mult) simp
  finally show ?thesis by (simp add: buf_addr_def)
qed

lemma inj_contiguous:
  assumes "n \<le> 2 ^ 64"
  shows "inj_on (buf_addr (\<lambda>i. b + of_nat i * 0x1000) off) {..<n}"
proof (rule inj_onI)
  fix j k assume "j \<in> {..<n}" "k \<in> {..<n}" "buf_addr (\<lambda>i. b + of_nat i * 0x1000) off j = buf_addr (\<lambda>i. b + of_nat i * 0x1000) off k"
  then have "(of_nat j :: u64) = of_nat k" "j < 2 ^ 64" "k < 2 ^ 64" using assms by (simp_all add: buf_addr_contiguous)
  then show "j = k" by (simp add: word_of_nat_eq_iff take_bit_nat_eq_self)
qed

theorem dma_rw_fetches_witness:
  "\<exists>em' log. emu_dma_rw (\<lambda>t a. 1) (demo_env\<lparr>chan_ans := ChOk False 0\<rparr>) (demo_rw\<lparr>rw_dir := 2\<rparr>) 0x1f00 (demo_em\<lparr>em_md := Some demo_write\<rparr>) =
    Some (0, em', log)"
proof -
  have "test_ready (\<lambda>t a. 1) (demo_env\<lparr>chan_ans := ChOk False 0\<rparr>) (demo_rw\<lparr>rw_dir := 2\<rparr>) False 0 0xf00 demo_write (demo_em\<lparr>em_md := Some demo_write\<rparr>)"
    using demo_quiet_write by (simp add: test_ready_def Let_def demo_reports demo_test_defs setup_chan_def vchan_init_def dma_cookie_init_def demo_defs)
  moreover have "ch_dir (md_chans False demo_write ! 0) = DMA_DEV_TO_MEM"
    by (simp add: demo_write_def md_chans_def setup_chan_def vchan_init_def dma_cookie_init_def)
  moreover have "inj_on (buf_addr (bus_addr (demo_env\<lparr>chan_ans := ChOk False 0\<rparr>)) (unat (0xf00 :: u64))) {..<unat (rw_size (demo_rw\<lparr>rw_dir := 2\<rparr>))}"
    using inj_contiguous[of "unat (rw_size demo_rw)" "0x1000000" "unat (0xf00 :: u64)"] by (simp add: demo_env_def demo_rw_def)
  ultimately show ?thesis using dma_rw_fetches[where userbuf = "0x1f00" and off = "0xf00"] by fastforce
qed

theorem empty_transfer_counts_4g_witness:
  "build_sg (unat (sg_count 0x10 0)) 0x10 0 = [(0, ucast (0x10 :: u64))]"
  by (rule conjunct1[OF empty_transfer_counts_4g]) simp_all

end
