(* ===== verification/MtdmaBare.thy ===== *)
theory MtdmaBare
  imports DmaRegs
begin

text \<open>
  The bare DMA engine of \<open>src/driver/mt-emu-mtdma-bare.c\<close>, used without the DMA
  framework of the kernel: layout of the channels, initialisation, the interrupt
  handler, and \<open>dma_bare_xfer\<close> with its three modes (one descriptor, a chain, a
  sequence of blocks).  Register accesses are programs of the trace monad.  What
  the code leaves undefined (an uninitialised pointer or count, a store past the
  buffer of random sizes) is \<open>None\<close>.  \<open>MTDMA_MMU\<close> is 0 in
  \<open>src/driver/mt-emu-drv.h\<close>, so the stores to the MMU register are not compiled.
\<close>

section \<open>Data\<close>

definition PCIE_DMA_CH_NUM :: nat where "PCIE_DMA_CH_NUM = 64"
definition DMA_DESC_IN_DEVICE :: u32 where "DMA_DESC_IN_DEVICE = 0"
definition DMA_DESC_IN_HOST :: u32 where "DMA_DESC_IN_HOST = 1"

record mtdma_info =
  wr_ch_info :: "mtdma_chan_info list"
  rd_ch_info :: "mtdma_chan_info list"
  mi_wr_ch_cnt :: u8
  mi_rd_ch_cnt :: u8

text \<open>The completion is the count of its \<open>complete\<close> calls; the mutex \<open>int_mutex\<close> is named by the
  address of the channel's registers.\<close>

record dma_bare_ch =
  bc_info :: mtdma_chan_info
  int_done :: nat
  int_error :: u8
  chan_id :: u32

record dma_bare =
  db_wr_ch_cnt :: u8
  db_rd_ch_cnt :: u8
  wr_ch :: "dma_bare_ch list"
  rd_ch :: "dma_bare_ch list"

abbreviation pass :: "unit io" where
  "pass \<equiv> State_Monad.return ()"

section \<open>Initialisation\<close>

text \<open>The stores for one virtual function: its operating-system id and its slot in
  the map behind the common registers.\<close>

definition init_osid :: "ioaddr \<Rightarrow> nat \<Rightarrow> unit io" where
  "init_osid comm i = do {
     _ \<leftarrow> SET_COMM_32 comm (REG_DMA_COMM_CH_OSID (of_nat i)) 0x1;
     SET_COMM_32 (io_off comm 0x2000) (0x4 * of_nat i) (of_nat i) }"

text \<open>\<open>1ull << vf_num\<close> is only defined below 64; the mask of 64 channels is the
  result the shift gives on the machine when its amount is taken modulo 64.\<close>

definition dma_mask :: "nat \<Rightarrow> u64" where
  "dma_mask vf_num = push_bit (vf_num mod 64) 1 - 1"

definition mtdma_comm_init :: "hardware \<Rightarrow> ioaddr \<Rightarrow> nat \<Rightarrow> unit io" where
  "mtdma_comm_init hw comm vf_num =
    (let c32 = lower_32_bits (dma_mask vf_num); c64 = upper_32_bits (dma_mask vf_num) in do {
     _ \<leftarrow> GET_COMM_32 hw comm REG_DMA_COMM_BASIC_PARAM;
     _ \<leftarrow> SET_COMM_32 comm REG_DMA_COMM_COMM_ALARM_IMSK 0;
     _ \<leftarrow> SET_COMM_32 comm REG_DMA_COMM_CH_NUM (of_nat (PCIE_DMA_CH_NUM - 1));
     _ \<leftarrow> SET_COMM_32 comm REG_DMA_COMM_MST0_BLEN (push_bit 4 MST0_ARLEN OR MST0_AWLEN);
     _ \<leftarrow> SET_COMM_32 comm REG_DMA_COMM_MST1_BLEN (push_bit 4 MST1_ARLEN OR MST1_AWLEN);
     _ \<leftarrow> for_io [0..<vf_num] (init_osid comm);
     _ \<leftarrow> SET_COMM_32 comm REG_DMA_COMM_RD_MRG_PF0_IMSK_C32 c32;
     _ \<leftarrow> SET_COMM_32 comm REG_DMA_COMM_RD_MRG_PF0_IMSK_C64 c64;
     _ \<leftarrow> SET_COMM_32 comm REG_DMA_COMM_WR_MRG_PF0_IMSK_C32 c32;
     _ \<leftarrow> SET_COMM_32 comm REG_DMA_COMM_WR_MRG_PF0_IMSK_C64 c64;
     _ \<leftarrow> GET_COMM_32 hw comm REG_DMA_COMM_WORK_STS;
     pass })"

text \<open>Every channel has room for 65536 descriptors of 32 bytes.\<close>

definition LL_SZ :: u32 where "LL_SZ = 65536 * 32"

definition chan_at :: "ioaddr \<Rightarrow> ioaddr \<Rightarrow> ioaddr \<Rightarrow> u64 \<Rightarrow> u64 \<Rightarrow> u64 \<Rightarrow> nat \<Rightarrow> mtdma_chan_info" where
  "chan_at sys ll rg off off_system rg_off i =
    (let laddr = ucast (LL_SZ * of_nat i) + off in
     \<lparr>rg_vaddr = io_off rg rg_off,
      ll_vaddr = io_off ll laddr,
      ll_laddr = laddr,
      ll_vaddr_system = io_off sys (off_system + ucast (LL_SZ * of_nat i)),
      ll_laddr_system = off_system + ucast (LL_SZ * of_nat i),
      ll_max = 65536\<rparr>)"

text \<open>\<open>j\<close> is 0 for the write channels and 1 for the read channels.\<close>

definition build_chan :: "ioaddr \<Rightarrow> ioaddr \<Rightarrow> ioaddr \<Rightarrow> u8 \<Rightarrow> nat \<Rightarrow> nat \<Rightarrow> mtdma_chan_info" where
  "build_chan sys ll rg wr_cnt j i =
    (if j = 0
     then chan_at sys ll rg 0x80000000 0 (0x383000 + 0x1000 * of_nat i + 0x800) i
     else chan_at sys ll rg (0x80000000 + ucast wr_cnt * 65536 * 32) (ucast wr_cnt * 65536 * 32)
            (0x383000 + 0x1000 * of_nat i) i)"

text \<open>The arrays have \<open>PCIE_DMA_CH_NUM\<close> entries: a larger count writes past them.\<close>

definition build_dma_info ::
    "ioaddr \<Rightarrow> ioaddr \<Rightarrow> ioaddr \<Rightarrow> u8 \<Rightarrow> u8 \<Rightarrow> mtdma_info \<Rightarrow> mtdma_info option" where
  "build_dma_info mtdma_vaddr rg ll wr_cnt rd_cnt info =
    (if length (wr_ch_info info) < unat wr_cnt \<or> length (rd_ch_info info) < unat rd_cnt then None
     else Some \<lparr>
       wr_ch_info = map (build_chan mtdma_vaddr ll rg wr_cnt 0) [0..<unat wr_cnt] @ drop (unat wr_cnt) (wr_ch_info info),
       rd_ch_info = map (build_chan mtdma_vaddr ll rg wr_cnt 1) [0..<unat rd_cnt] @ drop (unat rd_cnt) (rd_ch_info info),
       mi_wr_ch_cnt = wr_cnt, mi_rd_ch_cnt = rd_cnt\<rparr>)"

text \<open>For a virtual function only its own entry, number \<open>devfn - 2\<close>, is filled in.\<close>

definition build_dma_info_vf ::
    "ioaddr \<Rightarrow> ioaddr \<Rightarrow> ioaddr \<Rightarrow> int \<Rightarrow> mtdma_info \<Rightarrow> mtdma_info option" where
  "build_dma_info_vf mtdma_vaddr rg ll devfn info =
    (let ch = nat (devfn - 2) in
     if devfn < 2 \<or> length (wr_ch_info info) \<le> ch \<or> length (rd_ch_info info) \<le> ch then None
     else Some \<lparr>
       wr_ch_info = (wr_ch_info info)[ch := chan_at mtdma_vaddr ll rg 0x80000000 0 (0x3000 + 0x800) ch],
       rd_ch_info = (rd_ch_info info)[ch := chan_at mtdma_vaddr ll rg
          (0x80000000 + of_nat PCIE_DMA_CH_NUM * 65536 * 32) (65536 * 32) 0x3000 ch],
       mi_wr_ch_cnt = 1, mi_rd_ch_cnt = 1\<rparr>)"

text \<open>Initialising a channel clears the interrupts pending from before.\<close>

definition init_ch :: "hardware \<Rightarrow> mtdma_chan_info \<Rightarrow> dma_bare_ch \<Rightarrow> dma_bare_ch io" where
  "init_ch hw info ch =
    (let ch = ch\<lparr>bc_info := info, int_done := 0\<rparr> in do {
     raw \<leftarrow> GET_CH_32 hw info REG_DMA_CH_INTR_RAW;
     _ \<leftarrow> (if raw \<noteq> 0 then do {
             raw \<leftarrow> GET_CH_32 hw info REG_DMA_CH_INTR_RAW;
             SET_CH_32 info REG_DMA_CH_INTR_RAW raw } else pass);
     State_Monad.return ch })"

fun init_chs :: "hardware \<Rightarrow> (mtdma_chan_info \<times> dma_bare_ch) list \<Rightarrow> dma_bare_ch list io" where
  "init_chs hw [] = State_Monad.return []"
| "init_chs hw ((info, ch) # rest) = do {
     ch \<leftarrow> init_ch hw info ch;
     chs \<leftarrow> init_chs hw rest;
     State_Monad.return (ch # chs) }"

definition mtdma_bare_init :: "hardware \<Rightarrow> dma_bare \<Rightarrow> mtdma_info \<Rightarrow> dma_bare io option" where
  "mtdma_bare_init hw db info =
    (let w = unat (mi_wr_ch_cnt info); r = unat (mi_rd_ch_cnt info) in
     if length (wr_ch_info info) < w \<or> length (rd_ch_info info) < r \<or> length (wr_ch db) < w \<or> length (rd_ch db) < r
     then None
     else Some (do {
       ws \<leftarrow> init_chs hw (zip (take w (wr_ch_info info)) (take w (wr_ch db)));
       rs \<leftarrow> init_chs hw (zip (take r (rd_ch_info info)) (take r (rd_ch db)));
       State_Monad.return \<lparr>db_wr_ch_cnt = mi_wr_ch_cnt info, db_rd_ch_cnt = mi_rd_ch_cnt info,
         wr_ch = ws @ drop w (wr_ch db), rd_ch = rs @ drop r (rd_ch db)\<rparr> }))"

definition mtdma_bare_init_vf :: "hardware \<Rightarrow> dma_bare \<Rightarrow> mtdma_info \<Rightarrow> int \<Rightarrow> dma_bare io option" where
  "mtdma_bare_init_vf hw db info devfn =
    (let ch = nat (devfn - 2) in
     if devfn < 2 \<or> length (wr_ch_info info) \<le> ch \<or> length (rd_ch_info info) \<le> ch \<or> wr_ch db = [] \<or> rd_ch db = []
     then None
     else Some (do {
       w \<leftarrow> init_ch hw (wr_ch_info info ! ch) (hd (wr_ch db));
       r \<leftarrow> init_ch hw (rd_ch_info info ! ch) (hd (rd_ch db));
       State_Monad.return \<lparr>db_wr_ch_cnt = mi_wr_ch_cnt info, db_rd_ch_cnt = mi_rd_ch_cnt info,
         wr_ch = w # tl (wr_ch db), rd_ch = r # tl (rd_ch db)\<rparr> }))"

section \<open>The interrupt handler\<close>

definition BARE_ERR_BITS :: u32 where
  "BARE_ERR_BITS = DMA_CH_INTR_BIT_ERR_DATA OR DMA_CH_INTR_BIT_ERR_DESC_READ OR DMA_CH_INTR_BIT_ERR_CFG OR
     DMA_CH_INTR_BIT_ERR_DUMMY_READ"

definition dma_bare_isr :: "hardware \<Rightarrow> dma_bare_ch \<Rightarrow> (int \<times> dma_bare_ch) io" where
  "dma_bare_isr hw ch = do {
     val \<leftarrow> GET_CH_32 hw (bc_info ch) REG_DMA_CH_INTR_RAW;
     let ch = (if val AND DMA_CH_INTR_BIT_DONE \<noteq> 0 then ch\<lparr>int_error := 0\<rparr>
               else if val AND BARE_ERR_BITS \<noteq> 0 then ch\<lparr>int_error := 1\<rparr>
               else ch);
     _ \<leftarrow> SET_CH_32 (bc_info ch) REG_DMA_CH_INTR_RAW val;
     _ \<leftarrow> GET_CH_32 hw (bc_info ch) REG_DMA_CH_INTR_RAW;
     let ch = ch\<lparr>int_done := int_done ch + 1\<rparr>;
     State_Monad.return (if int_error ch \<noteq> 0 then -1 else 0, ch) }"

text \<open>The debugging dump reads descriptor 0 from the registers of the channel and the
  \<open>lli_num\<close> others from the places given.\<close>

definition read_fields :: "hardware \<Rightarrow> ioaddr \<Rightarrow> u64 list \<Rightarrow> unit io" where
  "read_fields hw lli fs = for_io fs (\<lambda>f. do { _ \<leftarrow> GET_LL_32 hw lli f; pass })"

definition ALL_FIELDS :: "u64 list" where
  "ALL_FIELDS = [DESC_OP, DESC_CNT, DESC_SAR_L, DESC_SAR_H, DESC_DAR_L, DESC_DAR_H, DESC_LAR_L, DESC_LAR_H]"

definition dma_desc_dump :: "hardware \<Rightarrow> dma_bare_ch \<Rightarrow> ioaddr list \<Rightarrow> nat \<Rightarrow> unit io" where
  "dma_desc_dump hw ch lli_rw lli_num =
    for_io [0..<lli_num + 1] (\<lambda>i.
      read_fields hw (if i = 0 then io_off (rg_vaddr (bc_info ch)) REG_DMA_CH_DESC_OPT else lli_rw ! (i - 1)) ALL_FIELDS)"

section \<open>The direction of a transfer\<close>

text \<open>The numbers of \<open>enum dma_transfer_direction\<close>.\<close>

definition direction_of :: "u32 \<Rightarrow> dma_direction option" where
  "direction_of d =
    (if d = 0 then Some DMA_MEM_TO_MEM else if d = 1 then Some DMA_MEM_TO_DEV
     else if d = 2 then Some DMA_DEV_TO_MEM else if d = 3 then Some DMA_DEV_TO_DEV else None)"

fun base_direction :: "dma_direction \<Rightarrow> u32" where
  "base_direction DMA_MEM_TO_MEM = DMA_CH_EN_BIT_NOCROSS OR DMA_CH_EN_BIT_DUMMY"
| "base_direction DMA_MEM_TO_DEV = 0"
| "base_direction DMA_DEV_TO_MEM = DMA_CH_EN_BIT_DUMMY"
| "base_direction DMA_DEV_TO_DEV = DMA_CH_EN_BIT_NOCROSS"

definition bare_direction :: "u32 \<Rightarrow> dma_direction \<Rightarrow> u32" where
  "bare_direction desc_direction d =
    (if desc_direction = DMA_DESC_IN_DEVICE \<and> (d = DMA_MEM_TO_DEV \<or> d = DMA_MEM_TO_MEM)
     then base_direction d OR DMA_CH_EN_BIT_DESC_MST1
     else if desc_direction \<noteq> DMA_DESC_IN_DEVICE \<and> (d = DMA_DEV_TO_DEV \<or> d = DMA_DEV_TO_MEM)
     then base_direction d OR DMA_CH_EN_BIT_DESC_MST1
     else base_direction d)"

section \<open>One descriptor\<close>

definition set_xfer :: "ioaddr \<Rightarrow> u32 \<Rightarrow> u64 \<Rightarrow> u64 \<Rightarrow> unit io" where
  "set_xfer lli cnt sar dar = do {
     _ \<leftarrow> SET_LL_32 lli DESC_CNT (cnt - 1);
     _ \<leftarrow> SET_LL_32 lli DESC_SAR_L (lower_32_bits sar);
     _ \<leftarrow> SET_LL_32 lli DESC_SAR_H (upper_32_bits sar);
     _ \<leftarrow> SET_LL_32 lli DESC_DAR_L (lower_32_bits dar);
     SET_LL_32 lli DESC_DAR_H (upper_32_bits dar) }"

definition set_desc :: "ioaddr \<Rightarrow> u32 \<Rightarrow> u32 \<Rightarrow> u64 \<Rightarrow> u64 \<Rightarrow> u64 \<Rightarrow> unit io" where
  "set_desc lli op cnt sar dar lar = do {
     _ \<leftarrow> SET_LL_32 lli DESC_OP op;
     _ \<leftarrow> set_xfer lli cnt sar dar;
     _ \<leftarrow> SET_LL_32 lli DESC_LAR_L (lower_32_bits lar);
     SET_LL_32 lli DESC_LAR_H (upper_32_bits lar) }"

definition read_dummy :: "hardware \<Rightarrow> mtdma_chan_info \<Rightarrow> u32 \<Rightarrow> unit io" where
  "read_dummy hw info direction =
    (if direction > 3 then do {
       _ \<leftarrow> GET_CH_32 hw info REG_DUMMY_CH_ADDR_H;
       _ \<leftarrow> GET_CH_32 hw info REG_DUMMY_CH_ADDR_L;
       pass } else pass)"

text \<open>The mode with one descriptor tests the local variable \<open>i\<close> before anything is
  assigned to it and sets the pointer to the descriptor only when it is 0: \<open>i0\<close>
  is the value it happens to have.\<close>

definition single_mode :: "hardware \<Rightarrow> mtdma_chan_info \<Rightarrow> int \<Rightarrow> u32 \<Rightarrow> u64 \<Rightarrow> u64 \<Rightarrow> u32 \<Rightarrow> unit io option" where
  "single_mode hw info i0 direction sar dar sz =
    (if i0 \<noteq> 0 then None
     else Some (do {
       _ \<leftarrow> SET_CH_32 info REG_DMA_CH_LBAR_BASIC 0;
       _ \<leftarrow> set_xfer (io_off (rg_vaddr info) REG_DMA_CH_DESC_OPT) sz sar dar;
       read_dummy hw info direction }))"

section \<open>A chain of descriptors\<close>

text \<open>Random sizes between 4 KB and 64 KB that add up to the whole.\<close>

definition size_rand :: "u64 \<Rightarrow> u32" where
  "size_rand r = ucast (r mod (64 * 1024 - 4 * 1024) + 4 * 1024)"

lemma size_rand_bounds: "4096 \<le> size_rand r" "size_rand r < 65536"
proof -
  have m: "r mod 61440 < 61440" by (simp add: word_mod_less_divisor)
  have "uint (r mod 61440 + 4096) = uint (r mod 61440) + 4096"
    using m uint_add_bounded[of "r mod 61440" 4096] by (simp add: word_less_def)
  moreover have "0 \<le> uint (r mod 61440)" "uint (r mod 61440) < 61440" using m by (simp_all add: word_less_def)
  ultimately have "uint (size_rand r) = uint (r mod 61440) + 4096"
    by (simp add: size_rand_def unsigned_ucast_eq take_bit_int_eq_self)
  then show "4096 \<le> size_rand r" "size_rand r < 65536"
    using \<open>0 \<le> uint (r mod 61440)\<close> \<open>uint (r mod 61440) < 61440\<close> by (simp_all add: word_le_def word_less_def)
qed

function rand_sizes :: "(nat \<Rightarrow> u64) \<Rightarrow> nat \<Rightarrow> u32 \<Rightarrow> u32 list" where
  "rand_sizes rnd i sz =
    (if sz = 0 then []
     else (let x = (if size_rand (rnd i) > sz then sz else size_rand (rnd i)) in
           x # rand_sizes rnd (i + 1) (sz - x)))"
  by pat_completeness auto
termination
proof (relation "measure (\<lambda>(rnd, i, sz). unat sz)", simp)
  fix rnd :: "nat \<Rightarrow> u64" and i :: nat and sz x :: u32
  assume sz: "sz \<noteq> 0" and x: "x = (if size_rand (rnd i) > sz then sz else size_rand (rnd i))"
  have "0 < size_rand (rnd i)" using size_rand_bounds(1)[of "rnd i"] by (simp add: word_less_nat_alt word_le_nat_alt)
  then have "x \<le> sz" "0 < x" using x sz by (auto simp: word_neq_0_conv)
  then have "unat x \<le> unat sz" "0 < unat x" by (simp_all add: word_le_nat_alt word_less_nat_alt)
  then show "((rnd, i + 1, sz - x), rnd, i, sz) \<in> measure (\<lambda>(rnd, i, sz). unat sz)"
    by (simp add: unat_sub word_le_nat_alt)
qed

declare rand_sizes.simps [simp del]

text \<open>Where a descriptor of the list is written, and its address for the device.\<close>

definition ll_base :: "mtdma_chan_info \<Rightarrow> u32 \<Rightarrow> ioaddr" where
  "ll_base info dd = (if dd = DMA_DESC_IN_DEVICE then ll_vaddr info else ll_vaddr_system info)"

definition la_base :: "mtdma_chan_info \<Rightarrow> u32 \<Rightarrow> u64" where
  "la_base info dd = (if dd = DMA_DESC_IN_DEVICE then ll_laddr info else ll_laddr_system info)"

definition bare_lli :: "mtdma_chan_info \<Rightarrow> u32 \<Rightarrow> nat \<Rightarrow> ioaddr" where
  "bare_lli info dd i = lli_at (rg_vaddr info) (ll_base info dd) i"

definition desc_elm :: "u32 list option \<Rightarrow> u32 \<Rightarrow> nat \<Rightarrow> u32" where
  "desc_elm rs elm i = (case rs of Some xs \<Rightarrow> xs ! i | None \<Rightarrow> elm)"

definition desc_cnt_of :: "u32 list option \<Rightarrow> u32 \<Rightarrow> bool \<Rightarrow> u32 \<Rightarrow> nat \<Rightarrow> u32" where
  "desc_cnt_of rs elm is_last left i =
    (case rs of Some xs \<Rightarrow> xs ! i | None \<Rightarrow> if is_last then left else elm)"

definition lbar_basic :: "nat \<Rightarrow> u32" where
  "lbar_basic n = push_bit 16 (of_nat n) OR 1"

text \<open>The loop writes the descriptors \<open>is\<close> of \<open>0 .. n\<close>; \<open>rs\<close> are the random sizes.\<close>

fun chain_loop ::
    "hardware \<Rightarrow> mtdma_chan_info \<Rightarrow> u32 \<Rightarrow> u32 list option \<Rightarrow> u32 \<Rightarrow> nat \<Rightarrow> nat list \<Rightarrow> u64 \<Rightarrow> u64 \<Rightarrow> u32 \<Rightarrow> unit io" where
  "chain_loop hw info dd rs elm n [] sar dar left = pass"
| "chain_loop hw info dd rs elm n (i # is) sar dar left =
    (let cnt = desc_cnt_of rs elm (i = n) left i;
         lar = la_base info dd + of_nat i * 32 in do {
     _ \<leftarrow> (if i = 0 then SET_CH_32 info REG_DMA_CH_LBAR_BASIC (lbar_basic n) else pass);
     _ \<leftarrow> set_desc (bare_lli info dd i) 0 cnt sar dar lar;
     _ \<leftarrow> read_fields hw (bare_lli info dd i) ALL_FIELDS;
     chain_loop hw info dd rs elm n is (sar + ucast (desc_elm rs elm i)) (dar + ucast (desc_elm rs elm i)) (left - cnt) })"

text \<open>The sizes and the number of the last descriptor: \<open>cap\<close> entries fit the buffer of
  sizes, which is only written to in the random mode.\<close>

definition split_sizes ::
    "bool \<Rightarrow> nat \<Rightarrow> (nat \<Rightarrow> u64) \<Rightarrow> u32 \<Rightarrow> u32 \<Rightarrow> (u32 list option \<times> nat) option" where
  "split_sizes kmalloc_ok cap rnd desc_cnt sz =
    (if drop_bit 31 desc_cnt = 1
     then (let xs = rand_sizes rnd 0 sz in
           if xs = [] \<or> \<not> kmalloc_ok \<or> length xs > cap then None else Some (Some xs, length xs - 1))
     else Some (None, unat desc_cnt))"

definition chain_mode ::
    "hardware \<Rightarrow> mtdma_chan_info \<Rightarrow> bool \<Rightarrow> (nat \<Rightarrow> u64) \<Rightarrow> u32 \<Rightarrow> u32 \<Rightarrow> u32 \<Rightarrow> u64 \<Rightarrow> u64 \<Rightarrow> u32 \<Rightarrow> unit io option" where
  "chain_mode hw info kmalloc_ok rnd direction dd desc_cnt sar dar sz =
    (case split_sizes kmalloc_ok (256 * 1024) rnd desc_cnt sz of
       None \<Rightarrow> None
     | Some (rs, n) \<Rightarrow>
        (let elm = sz div (of_nat n + 1); left = (if rs = None then sz else 0) in
         Some (do {
           _ \<leftarrow> chain_loop hw info dd rs elm n [0..<n + 1] sar dar left;
           read_dummy hw info direction })))"

section \<open>A sequence of blocks\<close>

text \<open>The last descriptor of a block links to the next multiple of 1024 bytes, and
  \<open>offset\<close>, in descriptors, moves on to there.\<close>

definition close_block :: "u64 \<Rightarrow> u32 \<Rightarrow> u64 \<times> u32" where
  "close_block lar offset = (lar + (1024 - lar mod 1024), offset + ucast (32 - lar mod 1024 div 32))"

definition block_op :: "bool \<Rightarrow> nat \<Rightarrow> u32" where
  "block_op goes_on n = (if goes_on then of_nat n * 65536 + 1 else 0)"

text \<open>The first block, descriptors \<open>0 .. n\<close>.  Unlike the other loops this one does not
  advance the addresses nor count down the size.\<close>

fun block0_loop ::
    "hardware \<Rightarrow> mtdma_chan_info \<Rightarrow> u32 \<Rightarrow> u32 list option \<Rightarrow> u32 \<Rightarrow> nat \<Rightarrow> bool \<Rightarrow> u64 \<Rightarrow> u64 \<Rightarrow> u32 \<Rightarrow>
     nat list \<Rightarrow> u32 \<Rightarrow> u32 io" where
  "block0_loop hw info dd rs elm n goes_on sar dar left [] offset = State_Monad.return offset"
| "block0_loop hw info dd rs elm n goes_on sar dar left (i # is) offset =
    (let cnt = desc_cnt_of rs elm (i = n) left i;
         lar = la_base info dd + of_nat i * 32 + ucast (offset * 32);
         (lar, offset) = (if i = n then close_block lar offset else (lar, offset)) in do {
     _ \<leftarrow> (if i = 0 then SET_CH_32 info REG_DMA_CH_LBAR_BASIC (lbar_basic n) else pass);
     _ \<leftarrow> set_desc (bare_lli info dd i) (block_op (i = n \<and> goes_on) n) cnt sar dar lar;
     _ \<leftarrow> read_fields hw (bare_lli info dd i) (tl ALL_FIELDS);
     block0_loop hw info dd rs elm n goes_on sar dar left is offset })"

text \<open>The index of descriptor \<open>i\<close> of a later block \<open>j\<close> in the list memory, before the
  offset is added: only the random mode on the device counts the descriptors.\<close>

definition block_index :: "u32 \<Rightarrow> bool \<Rightarrow> u32 \<Rightarrow> nat \<Rightarrow> nat \<Rightarrow> nat \<Rightarrow> u32" where
  "block_index dd rand tot j n i =
    (if dd = DMA_DESC_IN_DEVICE \<and> rand then of_nat i + tot else of_nat i + of_nat j * of_nat n)"

fun block_loop ::
    "hardware \<Rightarrow> mtdma_chan_info \<Rightarrow> u32 \<Rightarrow> u32 list option \<Rightarrow> u32 \<Rightarrow> nat \<Rightarrow> bool \<Rightarrow> u32 \<Rightarrow> nat \<Rightarrow>
     nat list \<Rightarrow> u64 \<Rightarrow> u64 \<Rightarrow> u32 \<Rightarrow> u32 \<Rightarrow> u32 io" where
  "block_loop hw info dd rs elm n goes_on tot j [] sar dar left offset = State_Monad.return offset"
| "block_loop hw info dd rs elm n goes_on tot j (i # is) sar dar left offset =
    (let cnt = desc_cnt_of rs elm (i = n - 1) left i;
         idx = block_index dd (rs \<noteq> None) tot j n i;
         lli = io_off (ll_base info dd) (ucast (idx + offset) * 32);
         lar = la_base info dd + ucast (idx + 1) * 32 + ucast (offset * 32);
         (lar, offset) = (if i = n - 1 then close_block lar offset else (lar, offset)) in do {
     _ \<leftarrow> set_desc lli (block_op (i = n - 1 \<and> goes_on) n) cnt sar dar lar;
     _ \<leftarrow> SET_LL_32 lli DESC_CNT (cnt - 1);
     _ \<leftarrow> read_fields hw lli (drop 3 ALL_FIELDS);
     block_loop hw info dd rs elm n goes_on tot j is (sar + ucast (desc_elm rs elm i))
       (dar + ucast (desc_elm rs elm i)) (left - cnt) offset })"

text \<open>One round of the loop over the blocks; in the random mode \<open>desc_cnt_tmp\<close> is the
  number of the last descriptor in block 0 and the number of descriptors after.\<close>

definition one_block ::
    "hardware \<Rightarrow> mtdma_chan_info \<Rightarrow> u32 \<Rightarrow> u32 \<Rightarrow> u32 list option \<Rightarrow> nat \<Rightarrow> u64 \<Rightarrow> u64 \<Rightarrow> u32 \<Rightarrow> nat \<Rightarrow> nat \<Rightarrow>
     u32 \<Rightarrow> u32 \<Rightarrow> (u32 \<times> u32) io" where
  "one_block hw info direction dd rs n0 sar dar sz block_cnt j offset tot =
    (let n = (if rs \<noteq> None \<and> j \<noteq> 0 then n0 + 1 else n0);
         left = (if rs = None then sz else 0);
         goes_on = (j \<noteq> block_cnt - 1) in do {
     offset \<leftarrow>
       (if j = 0 then block0_loop hw info dd rs (left div (of_nat n + 1)) n goes_on sar dar left [0..<n + 1] offset
        else block_loop hw info dd rs (left div of_nat n) n goes_on tot j [0..<n]
               (sar + ucast (of_nat j * sz)) (dar + ucast (of_nat j * sz)) left offset);
     _ \<leftarrow> read_dummy hw info direction;
     State_Monad.return (offset, tot + of_nat n) })"

fun block_loops ::
    "hardware \<Rightarrow> mtdma_chan_info \<Rightarrow> u32 \<Rightarrow> u32 \<Rightarrow> u64 \<Rightarrow> u64 \<Rightarrow> u32 \<Rightarrow> nat \<Rightarrow>
     (nat \<times> u32 list option \<times> nat) list \<Rightarrow> u32 \<Rightarrow> u32 \<Rightarrow> unit io" where
  "block_loops hw info direction dd sar dar sz block_cnt [] offset tot = pass"
| "block_loops hw info direction dd sar dar sz block_cnt ((j, rs, n) # blocks) offset tot = do {
     r \<leftarrow> one_block hw info direction dd rs n sar dar sz block_cnt j offset tot;
     block_loops hw info direction dd sar dar sz block_cnt blocks (fst r) (snd r) }"

text \<open>Every block draws its own sizes, \<open>rnd j\<close>.\<close>

definition block_mode ::
    "hardware \<Rightarrow> mtdma_chan_info \<Rightarrow> bool \<Rightarrow> (nat \<Rightarrow> nat \<Rightarrow> u64) \<Rightarrow> u32 \<Rightarrow> u32 \<Rightarrow> u32 \<Rightarrow> nat \<Rightarrow> u64 \<Rightarrow> u64 \<Rightarrow> u32 \<Rightarrow>
     unit io option" where
  "block_mode hw info kmalloc_ok rnd direction dd desc_cnt block_cnt sar dar sz =
    (let splits = map (\<lambda>j. split_sizes kmalloc_ok 25000 (rnd j) desc_cnt sz) [0..<block_cnt] in
     if None \<in> set splits then None
     else Some (block_loops hw info direction dd sar dar sz block_cnt (zip [0..<block_cnt] (map the splits)) 0 0))"

section \<open>The transfer\<close>

text \<open>While the caller waits, the handler runs \<open>irqs\<close> times: no time at all is the
  timeout.\<close>

fun serve_irqs :: "hardware \<Rightarrow> nat \<Rightarrow> dma_bare_ch \<Rightarrow> dma_bare_ch io" where
  "serve_irqs hw 0 ch = State_Monad.return ch"
| "serve_irqs hw (Suc n) ch = do {
     r \<leftarrow> dma_bare_isr hw ch;
     serve_irqs hw n (snd r) }"

definition wait_done :: "hardware \<Rightarrow> nat \<Rightarrow> dma_bare_ch \<Rightarrow> (int \<times> dma_bare_ch) io" where
  "wait_done hw irqs ch = do {
     ch \<leftarrow> serve_irqs hw irqs ch;
     State_Monad.return
       (if int_done ch = 0 then (0, ch)
        else (if int_error ch \<noteq> 0 then 2 else 1, ch\<lparr>int_done := int_done ch - 1\<rparr>)) }"

definition program_mode ::
    "hardware \<Rightarrow> mtdma_chan_info \<Rightarrow> int \<Rightarrow> bool \<Rightarrow> (nat \<Rightarrow> nat \<Rightarrow> u64) \<Rightarrow> u32 \<Rightarrow> u32 \<Rightarrow> u32 \<Rightarrow> u32 \<Rightarrow> u64 \<Rightarrow> u64 \<Rightarrow> u32 \<Rightarrow>
     unit io option" where
  "program_mode hw info i0 kmalloc_ok rnd direction dd desc_cnt block_cnt sar dar sz =
    (if desc_cnt = 0 then single_mode hw info i0 direction sar dar sz
     else if block_cnt = 0 then chain_mode hw info kmalloc_ok (rnd 0) direction dd desc_cnt sar dar sz
     else block_mode hw info kmalloc_ok rnd direction dd desc_cnt (unat block_cnt) sar dar sz)"

definition start_channel :: "hardware \<Rightarrow> mtdma_chan_info \<Rightarrow> u32 \<Rightarrow> unit io" where
  "start_channel hw info direction = do {
     _ \<leftarrow> SET_CH_32 info REG_DMA_CH_INTR_IMSK 0;
     _ \<leftarrow> SET_CH_32 info REG_DMA_CH_DIRECTION direction;
     _ \<leftarrow> SET_CH_32 info REG_DMA_CH_ENABLE DMA_CH_EN_BIT_ENABLE;
     _ \<leftarrow> GET_CH_32 hw info REG_DMA_CH_INTR_IMSK;
     _ \<leftarrow> GET_CH_32 hw info REG_DMA_CH_MMU_ADDR_TYPE;
     pass }"

definition dma_bare_xfer ::
    "hardware \<Rightarrow> int \<Rightarrow> bool \<Rightarrow> (nat \<Rightarrow> nat \<Rightarrow> u64) \<Rightarrow> nat \<Rightarrow> dma_bare_ch \<Rightarrow>
     u32 \<Rightarrow> u32 \<Rightarrow> u32 \<Rightarrow> u32 \<Rightarrow> u64 \<Rightarrow> u64 \<Rightarrow> u32 \<Rightarrow> (int \<times> dma_bare_ch) io option" where
  "dma_bare_xfer hw i0 kmalloc_ok rnd irqs ch data_direction desc_direction desc_cnt block_cnt sar dar sz =
    (case direction_of data_direction of
       None \<Rightarrow> Some (State_Monad.return (-1, ch))
     | Some d \<Rightarrow>
        (let direction = bare_direction desc_direction d;
             ch = ch\<lparr>int_done := 0, int_error := 0\<rparr> in
         case program_mode hw (bc_info ch) i0 kmalloc_ok rnd direction desc_direction desc_cnt block_cnt sar dar sz of
           None \<Rightarrow> None
         | Some prog \<Rightarrow> Some (do {
             _ \<leftarrow> mutex_lock (rg_vaddr (bc_info ch));
             _ \<leftarrow> prog;
             _ \<leftarrow> start_channel hw (bc_info ch) direction;
             r \<leftarrow> wait_done hw irqs ch;
             _ \<leftarrow> mutex_unlock (rg_vaddr (bc_info ch));
             State_Monad.return r })))"

end
