(* ===== verification/MtdmaBareProps.thy ===== *)
theory MtdmaBareProps
  imports MtdmaBare
begin

text \<open>
  Properties of the bare DMA engine: the descriptors that chain and block mode
  leave in memory, the sizes of the random mode, the links between blocks, the
  layout of the channels, the interrupt masks and the result of a transfer.
\<close>

section \<open>The writes of the programs\<close>

definition xfer_writes :: "ioaddr \<Rightarrow> u32 \<Rightarrow> u64 \<Rightarrow> u64 \<Rightarrow> (ioaddr \<times> u32) list" where
  "xfer_writes lli cnt sar dar =
     [(io_off lli DESC_CNT, cnt - 1), (io_off lli DESC_SAR_L, lower_32_bits sar), (io_off lli DESC_SAR_H, upper_32_bits sar),
      (io_off lli DESC_DAR_L, lower_32_bits dar), (io_off lli DESC_DAR_H, upper_32_bits dar)]"

definition desc_writes :: "ioaddr \<Rightarrow> u32 \<Rightarrow> u32 \<Rightarrow> u64 \<Rightarrow> u64 \<Rightarrow> u64 \<Rightarrow> (ioaddr \<times> u32) list" where
  "desc_writes lli op cnt sar dar lar =
     (io_off lli DESC_OP, op) # xfer_writes lli cnt sar dar @
     [(io_off lli DESC_LAR_L, lower_32_bits lar), (io_off lli DESC_LAR_H, upper_32_bits lar)]"

lemma emits_set_xfer [emits_intros]: "emits (set_xfer lli cnt sar dar) (xfer_writes lli cnt sar dar)"
  by (simp add: emits_def set_xfer_def xfer_writes_def mmio_simps)

lemma emits_set_desc [emits_intros]: "emits (set_desc lli op cnt sar dar lar) (desc_writes lli op cnt sar dar lar)"
  by (simp add: emits_def set_desc_def set_xfer_def desc_writes_def xfer_writes_def mmio_simps)

lemma emits_SET_CH [emits_intros]: "emits (SET_CH_32 info r v) [(io_off (rg_vaddr info) r, v)]"
  by (simp add: emits_def mmio_simps)

lemma emits_SET_LL [emits_intros]: "emits (SET_LL_32 lli f v) [(io_off lli f, v)]"
  by (simp add: emits_def mmio_simps)

lemma emits_read_fields [emits_intros]: "emits (read_fields hw lli fs) []"
proof -
  have "emits (for_io fs (\<lambda>f. do { _ \<leftarrow> GET_LL_32 hw lli f; pass })) (concat (map (\<lambda>_. []) fs))"
    by (rule emits_for) (simp add: emits_def mmio_simps)
  then show ?thesis by (simp add: read_fields_def map_replicate_const)
qed

lemma emits_read_dummy [emits_intros]: "emits (read_dummy hw info direction) []"
  by (simp add: emits_def read_dummy_def mmio_simps)

text \<open>The writes of the loops, with the addresses of descriptor \<open>i\<close> in closed form.\<close>

definition adv :: "(nat \<Rightarrow> u32) \<Rightarrow> nat \<Rightarrow> u64" where
  "adv e i = (\<Sum>k<i. ucast (e k))"

lemma adv_simps [simp]: "adv e 0 = 0" "adv e (Suc i) = adv e i + ucast (e i)"
  by (simp_all add: adv_def)

definition lbar_write :: "mtdma_chan_info \<Rightarrow> nat \<Rightarrow> (ioaddr \<times> u32) list" where
  "lbar_write info n = [(io_off (rg_vaddr info) REG_DMA_CH_LBAR_BASIC, lbar_basic n)]"

definition chain_writes ::
    "mtdma_chan_info \<Rightarrow> u32 \<Rightarrow> nat list \<Rightarrow> (nat \<Rightarrow> u32) \<Rightarrow> (nat \<Rightarrow> u64) \<Rightarrow> (nat \<Rightarrow> u64) \<Rightarrow> (nat \<Rightarrow> u32) \<Rightarrow> (nat \<Rightarrow> u64) \<Rightarrow>
     (ioaddr \<times> u32) list" where
  "chain_writes info dd is op s d c l =
     concat (map (\<lambda>i. desc_writes (bare_lli info dd i) (op i) (c i) (s i) (d i) (l i)) is)"

lemma chain_writes_simps [simp]:
  "chain_writes info dd [] op s d c l = []"
  "chain_writes info dd (i # is) op s d c l =
     desc_writes (bare_lli info dd i) (op i) (c i) (s i) (d i) (l i) @ chain_writes info dd is op s d c l"
  by (simp_all add: chain_writes_def)

definition cnt_at :: "u32 list option \<Rightarrow> u32 \<Rightarrow> nat \<Rightarrow> u32 \<Rightarrow> nat \<Rightarrow> u32" where
  "cnt_at rs elm n left i = desc_cnt_of rs elm (i = n) (left - of_nat i * elm) i"

lemma emits_chain_loop_from:
  assumes "0 < i"
  shows "emits (chain_loop hw info dd rs elm n [i..<Suc n] (s + adv (desc_elm rs elm) i) (d + adv (desc_elm rs elm) i)
      (if rs = None then left - of_nat i * elm else x))
    (chain_writes info dd [i..<Suc n] (\<lambda>_. 0) (\<lambda>i. s + adv (desc_elm rs elm) i) (\<lambda>i. d + adv (desc_elm rs elm) i)
      (cnt_at rs elm n left) (\<lambda>i. la_base info dd + of_nat i * 32))"
  using assms
proof (induction "Suc n - i" arbitrary: i x)
  case 0
  then show ?case by (simp add: emits_return)
next
  case (Suc k)
  let ?l = "if rs = None then left - of_nat i * elm else x"
  have il1: "i \<le> n" using Suc.hyps(2) by linarith
  then have il: "i \<le> n" "[i..<Suc n] = i # [Suc i..<Suc n]" by (simp_all add: upt_conv_Cons del: upt_Suc)
  have c: "desc_cnt_of rs elm (i = n) ?l i = cnt_at rs elm n left i"
    by (cases rs) (simp_all add: cnt_at_def desc_cnt_of_def)
  obtain y where y: "i < n \<Longrightarrow> ?l - cnt_at rs elm n left i = (if rs = None then left - of_nat (Suc i) * elm else y)"
  proof (cases rs)
    case None
    then show ?thesis using that by (simp add: cnt_at_def desc_cnt_of_def algebra_simps)
  next
    case (Some xs)
    then show ?thesis using that[of "x - cnt_at rs elm n left i"] by simp
  qed
  have rest: "emits (chain_loop hw info dd rs elm n [Suc i..<Suc n] (s + adv (desc_elm rs elm) i + ucast (desc_elm rs elm i))
      (d + adv (desc_elm rs elm) i + ucast (desc_elm rs elm i)) (?l - cnt_at rs elm n left i))
    (chain_writes info dd [Suc i..<Suc n] (\<lambda>_. 0) (\<lambda>i. s + adv (desc_elm rs elm) i) (\<lambda>i. d + adv (desc_elm rs elm) i)
      (cnt_at rs elm n left) (\<lambda>i. la_base info dd + of_nat i * 32))"
  proof (cases "i = n")
    case True
    then show ?thesis by (simp add: emits_return)
  next
    case False
    then show ?thesis using Suc.hyps(1)[of "Suc i" y] Suc.hyps(2) y il(1) by (simp add: add.assoc)
  qed
  show ?case
    unfolding il(2) chain_loop.simps Let_def c
    by (rule emits_conv, (rule emits_intros rest)+) (use Suc.prems in simp)
qed

lemma emits_chain_loop:
  "emits (chain_loop hw info dd rs elm n [0..<Suc n] s d (if rs = None then left else x))
    (lbar_write info n @ chain_writes info dd [0..<Suc n] (\<lambda>_. 0) (\<lambda>i. s + adv (desc_elm rs elm) i)
      (\<lambda>i. d + adv (desc_elm rs elm) i) (cnt_at rs elm n left) (\<lambda>i. la_base info dd + of_nat i * 32))"
proof -
  let ?l = "if rs = None then left else x"
  have il: "[0..<Suc n] = 0 # [Suc 0..<Suc n]" by (simp add: upt_conv_Cons del: upt_Suc)
  have c: "desc_cnt_of rs elm (0 = n) ?l 0 = cnt_at rs elm n left 0"
    by (cases rs) (simp_all add: cnt_at_def desc_cnt_of_def)
  let ?m = "chain_loop hw info dd rs elm n [Suc 0..<Suc n] (s + ucast (desc_elm rs elm 0)) (d + ucast (desc_elm rs elm 0))
    (?l - cnt_at rs elm n left 0)"
  have rest: "emits ?m
    (chain_writes info dd [Suc 0..<Suc n] (\<lambda>_. 0) (\<lambda>i. s + adv (desc_elm rs elm) i) (\<lambda>i. d + adv (desc_elm rs elm) i)
      (cnt_at rs elm n left) (\<lambda>i. la_base info dd + of_nat i * 32))"
  proof (cases "n = 0")
    case True
    then show ?thesis by (simp add: emits_return)
  next
    case False
    then have "?l - cnt_at rs elm n left 0 = (if rs = None then left - of_nat (Suc 0) * elm else x - cnt_at rs elm n left 0)"
      by (auto simp: cnt_at_def desc_cnt_of_def)
    then show ?thesis
      using emits_chain_loop_from[of "Suc 0" hw info dd rs elm n s d left "x - cnt_at rs elm n left 0"] by simp
  qed
  show ?thesis
    unfolding il chain_loop.simps Let_def c
    by (rule emits_conv, (rule emits_intros rest)+) (simp add: lbar_write_def)
qed

section \<open>Descriptors in memory\<close>

lemma desc_fields_distinct [simp]:
  "distinct [DESC_OP, DESC_CNT, DESC_SAR_L, DESC_SAR_H, DESC_DAR_L, DESC_DAR_H, DESC_LAR_L, DESC_LAR_H]"
  by (simp add: desc_offsets)

lemma io_off_inj [simp]: "io_off p x = io_off p y \<longleftrightarrow> x = y"
  by (simp add: io_off_def)

lemma desc_mem:
  assumes "m' = wmem (desc_writes lli op c s d l) m"
  shows "m' (io_off lli DESC_OP) = op" "desc_xfer m' lli = (s, d, c)" "read64 m' lli DESC_LAR_H DESC_LAR_L = l"
  using desc_fields_distinct unfolding assms desc_writes_def xfer_writes_def
  by (simp_all add: desc_xfer_def read64_def)

lemma desc_writes_addrs: "fst ` set (desc_writes lli op c s d l) = io_off lli ` desc_fields"
  by (auto simp: desc_writes_def xfer_writes_def desc_fields_def)

definition regions_apart :: "mtdma_chan_info \<Rightarrow> u32 \<Rightarrow> bool" where
  "regions_apart info dd \<longleftrightarrow> fst (rg_vaddr info) \<noteq> fst (ll_base info dd)"

lemma bare_lli_apart:
  assumes "regions_apart info dd" "i \<noteq> j" "i < 2^32" "j < 2^32" "f \<in> desc_fields" "g \<in> desc_fields"
  shows "io_off (bare_lli info dd i) f \<noteq> io_off (bare_lli info dd j) g"
  using assms lli_apart[of "rg_vaddr info" "ll_base info dd" i j f g] by (simp add: bare_lli_def regions_apart_def)

lemma chain_writes_addrs:
  "fst ` set (chain_writes info dd is op s d c l) = (\<Union>i \<in> set is. io_off (bare_lli info dd i) ` desc_fields)"
  by (induction "is") (simp_all add: desc_writes_addrs image_Un)

lemma chain_mem_field:
  assumes "regions_apart info dd" "j < b" "b \<le> 2^32" "f \<in> desc_fields"
  shows "wmem (chain_writes info dd [0..<b] op s d c l) m (io_off (bare_lli info dd j) f) =
    wmem (desc_writes (bare_lli info dd j) (op j) (c j) (s j) (d j) (l j))
      (wmem (chain_writes info dd [0..<j] op s d c l) m) (io_off (bare_lli info dd j) f)"
proof -
  have "[0..<b] = [0..<j] @ j # [Suc j..<b]" using assms(2)
    by (metis le_add1 le_add_same_cancel1 less_imp_add_positive upt_add_eq_append upt_conv_Cons)
  then have "chain_writes info dd [0..<b] op s d c l = chain_writes info dd [0..<j] op s d c l @
      desc_writes (bare_lli info dd j) (op j) (c j) (s j) (d j) (l j) @ chain_writes info dd [Suc j..<b] op s d c l"
    by (simp add: chain_writes_def)
  moreover have "io_off (bare_lli info dd j) f \<notin> fst ` set (chain_writes info dd [Suc j..<b] op s d c l)"
  proof (simp add: chain_writes_addrs image_iff, intro ballI)
    fix i g assume "i \<in> {Suc j..<b}" "g \<in> desc_fields"
    then show "io_off (bare_lli info dd j) f \<noteq> io_off (bare_lli info dd i) g"
      using bare_lli_apart[OF assms(1), of j i f g] assms(2,3,4) by simp
  qed
  ultimately show ?thesis by (simp add: wmem_frame)
qed

lemma chain_mem:
  assumes "regions_apart info dd" "j < b" "b \<le> 2^32" and m': "m' = wmem (chain_writes info dd [0..<b] op s d c l) m"
  shows "m' (io_off (bare_lli info dd j) DESC_OP) = op j" "desc_xfer m' (bare_lli info dd j) = (s j, d j, c j)"
    "read64 m' (bare_lli info dd j) DESC_LAR_H DESC_LAR_L = l j"
proof -
  note f = chain_mem_field[OF assms(1-3), of _ op s d c l m, folded m']
  note dm = desc_mem[OF refl, of "bare_lli info dd j" "op j" "c j" "s j" "d j" "l j" "wmem (chain_writes info dd [0..<j] op s d c l) m"]
  show "m' (io_off (bare_lli info dd j) DESC_OP) = op j" using dm(1) by (simp add: f desc_fields_def)
  show "desc_xfer m' (bare_lli info dd j) = (s j, d j, c j)" using dm(2) by (simp add: desc_xfer_def read64_def f desc_fields_def)
  show "read64 m' (bare_lli info dd j) DESC_LAR_H DESC_LAR_L = l j" using dm(3) by (simp add: read64_def f desc_fields_def)
qed

text \<open>The device reads a block by count: the number in the base register, or in the
  operation word of the block before, tells how many links to follow.\<close>

fun walk_n :: "mem \<Rightarrow> ioaddr \<Rightarrow> u64 \<Rightarrow> nat \<Rightarrow> ioaddr \<Rightarrow> (u64 \<times> u64 \<times> u32) list" where
  "walk_n m ll la 0 lli = [desc_xfer m lli]"
| "walk_n m ll la (Suc n) lli = desc_xfer m lli # walk_n m ll la n (io_off ll (read64 m lli DESC_LAR_H DESC_LAR_L - la))"

lemma bare_lli_Suc: "io_off (ll_base info dd) (la_base info dd + of_nat i * 32 - la_base info dd) = bare_lli info dd (Suc i)"
  by (simp add: bare_lli_def lli_at_def io_off_def)

lemma walk_n_chain:
  assumes "regions_apart info dd" "n < 2^32" "m' = wmem (chain_writes info dd [0..<Suc n] op s d c l) m"
    "\<And>i. i < n \<Longrightarrow> l i = la_base info dd + of_nat i * 32"
  shows "walk_n m' (ll_base info dd) (la_base info dd) n (bare_lli info dd 0) = map (\<lambda>i. (s i, d i, c i)) [0..<Suc n]"
proof -
  have "walk_n m' (ll_base info dd) (la_base info dd) (n - i) (bare_lli info dd i) = map (\<lambda>i. (s i, d i, c i)) [i..<Suc n]"
    if "i \<le> n" for i
    using that
  proof (induction "n - i" arbitrary: i)
    case 0
    then have "i = n" by simp
    then show ?case using chain_mem(2)[OF assms(1) _ _ assms(3), of n] assms(2) by simp
  next
    case (Suc k)
    have i: "i < n" "n - i = Suc (n - Suc i)" "[i..<Suc n] = i # [Suc i..<Suc n]" using Suc.hyps(2)
      by (simp_all add: upt_conv_Cons Suc_diff_Suc del: upt_Suc)
    note cm = chain_mem[OF assms(1) _ _ assms(3), of i]
    have "read64 m' (bare_lli info dd i) DESC_LAR_H DESC_LAR_L = la_base info dd + of_nat i * 32"
      using cm(3) assms(2,4) i(1) by simp
    then show ?case
      using Suc.hyps(1)[of "Suc i"] Suc.hyps(2) cm(2) assms(2) i(1) unfolding i(2,3)
      by (simp only: walk_n.simps bare_lli_Suc list.map)
  qed
  from this[of 0] show ?thesis by simp
qed

section \<open>Chain mode\<close>

fun pieces :: "u64 \<Rightarrow> u64 \<Rightarrow> u32 list \<Rightarrow> (u64 \<times> u64 \<times> u32) list" where
  "pieces sar dar [] = []"
| "pieces sar dar (c # cs) = (sar, dar, c) # pieces (sar + ucast c) (dar + ucast c) cs"

lemma pieces_map:
  "map (\<lambda>i. (s + adv e i, d + adv e i, c i)) [i..<n] = pieces (s + adv e i) (d + adv e i) (map c [i..<n])"
  if "\<And>k. k + 1 < n \<Longrightarrow> c k = e k"
proof (induction "n - i" arbitrary: i)
  case (Suc k)
  have i: "[i..<n] = i # [Suc i..<n]" using Suc.hyps(2) by (simp add: upt_conv_Cons)
  show ?case
  proof (cases "Suc i < n")
    case True
    then show ?thesis using Suc.hyps(1)[of "Suc i"] Suc.hyps(2) that[of i] unfolding i by (simp add: add.assoc)
  next
    case False
    then show ?thesis unfolding i by simp
  qed
qed simp

text \<open>The sizes of the descriptors: equal ones with the rest in the last, or the random
  ones when bit 31 of the count is set.\<close>

definition chain_sizes :: "(nat \<Rightarrow> u64) \<Rightarrow> u32 \<Rightarrow> u32 \<Rightarrow> u32 list" where
  "chain_sizes rnd desc_cnt sz =
    (if drop_bit 31 desc_cnt = 1 then rand_sizes rnd 0 sz
     else (let elm = sz div (desc_cnt + 1) in replicate (unat desc_cnt) elm @ [sz - desc_cnt * elm]))"

lemma split_sizes_Some:
  assumes "split_sizes ok cap rnd desc_cnt sz = Some (rs, n)"
  shows "chain_sizes rnd desc_cnt sz = map (cnt_at rs (sz div (of_nat n + 1)) n sz) [0..<Suc n]"
    "\<And>i. i < n \<Longrightarrow> cnt_at rs elm n sz i = desc_elm rs elm i" "n \<le> cap \<or> n = unat desc_cnt"
proof -
  show "cnt_at rs elm n sz i = desc_elm rs elm i" if "i < n" for i
    using that by (cases rs) (simp_all add: cnt_at_def desc_cnt_of_def desc_elm_def)
  show "chain_sizes rnd desc_cnt sz = map (cnt_at rs (sz div (of_nat n + 1)) n sz) [0..<Suc n]"
  proof (cases "drop_bit 31 desc_cnt = 1")
    case True
    then have "rs = Some (rand_sizes rnd 0 sz)" "rand_sizes rnd 0 sz \<noteq> []" "n = length (rand_sizes rnd 0 sz) - 1"
      using assms by (auto simp: split_sizes_def Let_def split: if_splits)
    then have r: "rs = Some (rand_sizes rnd 0 sz)" "Suc n = length (rand_sizes rnd 0 sz)" by (cases "rand_sizes rnd 0 sz", auto)+
    have "map ((!) (rand_sizes rnd 0 sz)) [0..<Suc n] = rand_sizes rnd 0 sz" unfolding r(2) by (rule map_nth)
    moreover have "cnt_at (Some xs) e k l = (!) xs" for xs e k l by (rule ext) (simp add: cnt_at_def desc_cnt_of_def)
    ultimately show ?thesis using True r(1) by (simp add: chain_sizes_def)
  next
    case False
    then have r: "rs = None" "n = unat desc_cnt" using assms by (auto simp: split_sizes_def)
    then show ?thesis using False
      by (simp add: chain_sizes_def cnt_at_def desc_cnt_of_def Let_def map_replicate_const[symmetric] cong: map_cong)
        (simp add: list_eq_iff_nth_eq)
  qed
  show "n \<le> cap \<or> n = unat desc_cnt"
    using assms by (auto simp: split_sizes_def Let_def split: if_splits)
qed

lemma emits_chain_mode:
  assumes "chain_mode hw info ok rnd direction dd desc_cnt sar dar sz = Some m"
  obtains rs n where "split_sizes ok (256 * 1024) rnd desc_cnt sz = Some (rs, n)"
    "emits m (lbar_write info n @ chain_writes info dd [0..<Suc n] (\<lambda>_. 0)
        (\<lambda>i. sar + adv (desc_elm rs (sz div (of_nat n + 1))) i) (\<lambda>i. dar + adv (desc_elm rs (sz div (of_nat n + 1))) i)
        (cnt_at rs (sz div (of_nat n + 1)) n sz) (\<lambda>i. la_base info dd + of_nat i * 32))"
proof -
  obtain rs n where r: "split_sizes ok (256 * 1024) rnd desc_cnt sz = Some (rs, n)"
    "m = do { _ \<leftarrow> chain_loop hw info dd rs (sz div (of_nat n + 1)) n [0..<Suc n] sar dar (if rs = None then sz else 0);
              read_dummy hw info direction }"
    using assms by (auto simp: chain_mode_def Let_def split: option.splits)
  show ?thesis
    by (rule that[OF r(1)], unfold r(2), rule emits_conv, (rule emits_intros emits_chain_loop)+) simp
qed

lemma lbar_apart:
  assumes "regions_apart info dd"
  shows "wmem (chain_writes info dd is op s d c l) m (io_off (rg_vaddr info) REG_DMA_CH_LBAR_BASIC) =
    m (io_off (rg_vaddr info) REG_DMA_CH_LBAR_BASIC)"
proof (rule wmem_frame, simp add: chain_writes_addrs image_iff, intro ballI)
  fix i f assume f: "f \<in> desc_fields"
  show "io_off (rg_vaddr info) REG_DMA_CH_LBAR_BASIC \<noteq> io_off (bare_lli info dd i) f"
  proof (cases "i = 0")
    case True
    show ?thesis using f by (auto simp: True bare_lli_def lli_at_def io_off_def desc_fields_def desc_offsets add.assoc
        REG_DMA_CH_LBAR_BASIC_def REG_DMA_CH_DESC_OPT_def)
  next
    case False
    then show ?thesis using assms by (auto simp: bare_lli_def lli_at_def io_off_def regions_apart_def)
  qed
qed

lemma rand_sizes_props:
  "sum_list (map unat (rand_sizes rnd i sz)) = unat sz"
  "c \<in> set (rand_sizes rnd i sz) \<Longrightarrow> 0 < c \<and> c < 65536"
  "c \<in> set (butlast (rand_sizes rnd i sz)) \<Longrightarrow> 4096 \<le> c"
proof (induction rnd i sz rule: rand_sizes.induct)
  case (1 rnd i sz)
  define x where "x = (if size_rand (rnd i) > sz then sz else size_rand (rnd i))"
  note b = size_rand_bounds[of "rnd i"]
  have x: "x \<le> sz" "sz \<noteq> 0 \<Longrightarrow> 0 < x" "x < 65536"
    using b by (auto simp: x_def word_neq_0_conv word_less_nat_alt word_le_nat_alt)
  have eq: "rand_sizes rnd i sz = (if sz = 0 then [] else x # rand_sizes rnd (i + 1) (sz - x))"
    by (subst rand_sizes.simps) (simp add: x_def Let_def)
  have big: "4096 \<le> x" if "rand_sizes rnd (i + 1) (sz - x) \<noteq> []"
  proof -
    have "sz - x \<noteq> 0" using that by (auto simp: rand_sizes.simps)
    then show ?thesis using b by (auto simp: x_def)
  qed
  { case 1
    show ?case using "1.IH"(1)[OF _ x_def] x(1) by (simp add: eq unat_sub word_le_nat_alt) }
  { case 2
    then show ?case using "1.IH"(2)[OF _ x_def] x(2,3) by (auto simp: eq split: if_splits) }
  { case 3
    then show ?case using "1.IH"(3)[OF _ x_def] big by (auto simp: eq split: if_splits) }
qed

lemma equal_sizes_total:
  fixes sz k :: u32
  assumes "k < 2^31"
  shows "sum_list (map unat (replicate (unat k) (sz div (k + 1)) @ [sz - k * (sz div (k + 1))])) = unat sz"
proof -
  have k1: "unat (k + 1) = unat k + 1"
    using assms by (simp add: unat_word_ariths word_less_nat_alt)
  have "unat k * (unat sz div (unat k + 1)) \<le> unat sz"
    by (metis add.commute div_times_less_eq_dividend le_add2 mult.commute mult_le_mono1 order_trans)
  moreover have "unat (k * (sz div (k + 1))) = unat k * (unat sz div (unat k + 1))"
  proof -
    have "unat k * (unat sz div (unat k + 1)) < 2^32"
      using calculation unsigned_less[of sz, where ?'a = nat] by simp
    moreover have "unat (sz div (k + 1)) = unat sz div (unat k + 1)" by (simp only: unat_div k1)
    ultimately show ?thesis by (simp only: unat_word_ariths) simp
  qed
  ultimately show ?thesis
    by (simp add: sum_list_replicate unat_sub word_le_nat_alt unat_div k1 del: unat_of_nat)
qed

section \<open>Block mode\<close>

text \<open>The link of the last descriptor of a block.\<close>

definition last_link :: "mtdma_chan_info \<Rightarrow> u32 \<Rightarrow> u32 \<Rightarrow> u32 \<Rightarrow> u64 \<times> u32" where
  "last_link info dd idx offset = close_block (la_base info dd + ucast idx * 32 + ucast (offset * 32)) offset"

lemma close_link:
  assumes "la_base info dd mod 32 = 0" "uint idx + uint offset + 64 < 2^27"
  shows "fst (last_link info dd idx offset) = la_base info dd + ucast (idx + snd (last_link info dd idx offset)) * 32"
proof -
  define la where "la = la_base info dd"
  define L where "L = la + ucast idx * 32 + ucast (offset * 32)"
  define k where "k = L mod 1024 div 32"
  have nn: "0 \<le> uint idx" "0 \<le> uint offset" by simp_all
  have a: "uint idx + uint offset + 64 < 134217728" using assms(2) by simp
  have io: "uint idx < 134217664" "uint offset < 134217664" using a nn by linarith+
  have L: "L = la + (ucast idx + ucast offset) * 32"
  proof -
    have "0 \<le> uint offset * 32" "uint offset * 32 < 2^32" using io nn by simp_all
    then have "uint (offset * 32) = uint offset * 32" by (simp add: uint_word_ariths)
    then have "(ucast (offset * 32) :: u64) = ucast offset * 32"
      by (simp add: word_uint_eq_iff uint_word_ariths unsigned_ucast_eq take_bit_eq_mod)
    then show ?thesis by (simp add: L_def algebra_simps)
  qed
  have "uint L mod 32 = 0"
  proof -
    have w: "uint (la + w * 32) = (uint la + uint w * 32) mod 2^64" for w :: u64
      by (simp add: uint_word_ariths mod_simps)
    then have "uint L mod 32 = (uint la + uint (ucast idx + ucast offset :: u64) * 32) mod 2^64 mod 32"
      unfolding L w by simp
    then have "uint L mod 32 = (uint la + uint (ucast idx + ucast offset :: u64) * 32) mod 32"
      by (simp add: mod_mod_cancel)
    moreover have "uint la mod 32 = 0" using assms(1) by (simp add: la_def word_uint_eq_iff uint_mod)
    ultimately show ?thesis by (simp add: mod_add_eq[symmetric])
  qed
  moreover have "x = 32 * (x div 32) \<and> x div 32 < 32" if "x mod 32 = 0" "x < 1024" for x :: int
    using that by presburger
  ultimately have q: "uint L mod 1024 = 32 * (uint L mod 1024 div 32) \<and> uint L mod 1024 div 32 < 32"
    by (simp add: mod_mod_cancel)
  have "uint (L mod 1024) = uint L mod 1024" "uint k = uint L mod 1024 div 32"
    by (simp_all add: k_def uint_mod uint_div)
  then have "uint (L mod 1024) = 32 * uint k" and k: "uint k < 32" using q by simp_all
  then have "L mod 1024 = 32 * k" by (simp add: word_uint_eq_iff uint_word_ariths)
  then have lar: "L + (1024 - L mod 1024) = la + (ucast idx + ucast offset + (32 - k)) * 32"
    by (simp add: L algebra_simps)
  have "uint (ucast (32 - k) :: u32) = 32 - uint k" "uint (32 - k) = 32 - uint k"
  proof -
    have "(32 - x) mod 18446744073709551616 = 32 - x" "(32 - x) mod 4294967296 = 32 - x" if "0 \<le> x" "x < 32" for x :: int
      using that by simp_all
    from this[OF uint_ge_0 k] show "uint (ucast (32 - k) :: u32) = 32 - uint k" "uint (32 - k) = 32 - uint k"
      using k by (simp_all add: unsigned_ucast_eq take_bit_eq_mod uint_word_ariths)
  qed
  then have "(ucast (idx + (offset + ucast (32 - k))) :: u64) = ucast idx + ucast offset + (32 - k)"
  proof -
    have "(i + (j + (32 - x)) mod 4294967296) mod 4294967296 = i + j + (32 - x)"
      "(i + j) mod 18446744073709551616 = i + j"
      "(i + j + (32 - x)) mod 18446744073709551616 = i + j + (32 - x)"
      if "0 \<le> i" "0 \<le> j" "i < 134217664" "j < 134217664" "0 \<le> x" "x < 32" for i j x :: int
      using that by simp_all
    from this[OF nn io uint_ge_0 k] show ?thesis using \<open>uint (ucast (32 - k) :: u32) = 32 - uint k\<close>
        \<open>uint (32 - k) = 32 - uint k\<close>
      by (simp add: word_uint_eq_iff unsigned_ucast_eq take_bit_eq_mod uint_word_ariths mod_simps)
  qed
  then show ?thesis using lar
    by (simp add: last_link_def close_block_def la_def[symmetric] L_def[symmetric] k_def[symmetric])
qed

definition block0_lar :: "mtdma_chan_info \<Rightarrow> u32 \<Rightarrow> nat \<Rightarrow> u32 \<Rightarrow> nat \<Rightarrow> u64" where
  "block0_lar info dd n offset i =
    (if i = n then fst (last_link info dd (of_nat n) offset) else la_base info dd + of_nat i * 32 + ucast (offset * 32))"

lemma ucast_of_nat_small:
  assumes "n < 2^32"
  shows "(ucast (of_nat n :: u32) :: u64) = of_nat n"
  using assms by (simp add: word_uint_eq_iff unsigned_ucast_eq unsigned_of_nat take_bit_nat_eq_self take_bit_int_eq_self
      uint_nat[symmetric])

lemma block0_loop_from:
  assumes "0 < i" "i \<le> n" "n < 2^32"
  shows "emits (block0_loop hw info dd rs elm n g s d left [i..<Suc n] off)
      (chain_writes info dd [i..<Suc n] (\<lambda>i. block_op (i = n \<and> g) n) (\<lambda>_. s) (\<lambda>_. d)
        (\<lambda>i. desc_cnt_of rs elm (i = n) left i) (block0_lar info dd n off))"
    "result_of (block0_loop hw info dd rs elm n g s d left [i..<Suc n] off) t = snd (last_link info dd (of_nat n) off)"
  using assms
proof (induction "n - i" arbitrary: i t)
  case 0
  { case 1
    then have i: "i = n" using 0 by simp
    show ?case unfolding i using 1 ucast_of_nat_small[of n]
      by (simp add: Let_def split_beta block0_lar_def last_link_def)
        (rule emits_conv, (rule emits_intros)+, simp) }
  { case 2
    then have i: "i = n" using 0 by simp
    show ?case unfolding i using 2 ucast_of_nat_small[of n] by (simp add: Let_def mmio_simps last_link_def) }
next
  case (Suc k)
  have il: "[i..<Suc n] = i # [Suc i..<Suc n]" "i \<noteq> n" "Suc i \<le> n" using Suc.hyps(3)
    by (simp_all add: upt_conv_Cons del: upt_Suc)
  { case 1
    have IH: "emits (block0_loop hw info dd rs elm n g s d left [Suc i..<Suc n] off)
      (chain_writes info dd [Suc i..<Suc n] (\<lambda>i. block_op (i = n \<and> g) n) (\<lambda>_. s) (\<lambda>_. d)
        (\<lambda>i. desc_cnt_of rs elm (i = n) left i) (block0_lar info dd n off))"
      using Suc.hyps(1)[of "Suc i"] Suc.hyps(3) 1 il(3) by simp
    show ?case unfolding il(1) using il(2) 1
      by (simp add: Let_def split_beta block0_lar_def[of _ _ _ _ i] del: upt_Suc)
        (rule emits_conv, (rule emits_intros IH)+, simp) }
  { case 2
    have IH: "\<And>t. result_of (block0_loop hw info dd rs elm n g s d left [Suc i..<Suc n] off) t =
        snd (last_link info dd (of_nat n) off)"
      using Suc.hyps(2)[of "Suc i"] Suc.hyps(3) 2 il(3) by simp
    show ?case unfolding il(1) using il(2) 2 IH by (simp add: Let_def mmio_simps del: upt_Suc) }
qed

lemma block0_loop_all:
  assumes "0 < n" "n < 2^32"
  shows "emits (block0_loop hw info dd rs elm n g s d left [0..<Suc n] off)
      (lbar_write info n @ chain_writes info dd [0..<Suc n] (\<lambda>i. block_op (i = n \<and> g) n) (\<lambda>_. s) (\<lambda>_. d)
        (\<lambda>i. desc_cnt_of rs elm (i = n) left i) (block0_lar info dd n off))"
    "result_of (block0_loop hw info dd rs elm n g s d left [0..<Suc n] off) t = snd (last_link info dd (of_nat n) off)"
proof -
  have il: "[0..<Suc n] = 0 # [Suc 0..<Suc n]" by (simp add: upt_conv_Cons del: upt_Suc)
  note from1 = block0_loop_from[of "Suc 0" n, OF _ _ assms(2)]
  have IH: "emits (block0_loop hw info dd rs elm n g s d left [Suc 0..<Suc n] off)
      (chain_writes info dd [Suc 0..<Suc n] (\<lambda>i. block_op (i = n \<and> g) n) (\<lambda>_. s) (\<lambda>_. d)
        (\<lambda>i. desc_cnt_of rs elm (i = n) left i) (block0_lar info dd n off))"
    using from1(1) assms(1) by simp
  show "emits (block0_loop hw info dd rs elm n g s d left [0..<Suc n] off)
      (lbar_write info n @ chain_writes info dd [0..<Suc n] (\<lambda>i. block_op (i = n \<and> g) n) (\<lambda>_. s) (\<lambda>_. d)
        (\<lambda>i. desc_cnt_of rs elm (i = n) left i) (block0_lar info dd n off))"
    unfolding il using assms(1)
    by (simp add: Let_def split_beta block0_lar_def[of _ _ _ _ 0] del: upt_Suc)
      (rule emits_conv, (rule emits_intros IH)+, simp add: lbar_write_def)
  show "result_of (block0_loop hw info dd rs elm n g s d left [0..<Suc n] off) t = snd (last_link info dd (of_nat n) off)"
    unfolding il using assms(1) from1(2) by (simp add: Let_def mmio_simps del: upt_Suc)
qed

lemma block_loop_last:
  assumes "i < n"
  shows "\<exists>ws op c s' d'. emits (block_loop hw info dd rs elm n g tot j [i..<n] s d left off)
      (ws @ desc_writes (io_off (ll_base info dd) (ucast (block_index dd (rs \<noteq> None) tot j n (n - 1) + off) * 32)) op c s' d'
         (fst (last_link info dd (block_index dd (rs \<noteq> None) tot j n (n - 1) + 1) off)) @
       [(io_off (io_off (ll_base info dd) (ucast (block_index dd (rs \<noteq> None) tot j n (n - 1) + off) * 32)) DESC_CNT, c - 1)])"
    "result_of (block_loop hw info dd rs elm n g tot j [i..<n] s d left off) t =
      snd (last_link info dd (block_index dd (rs \<noteq> None) tot j n (n - 1) + 1) off)"
  using assms
proof (induction "n - i" arbitrary: i s d left t)
  case 0
  { case 1 then show ?case using 0 by simp }
  { case 2 then show ?case using 0 by simp }
next
  case (Suc k)
  have il: "[i..<n] = i # [Suc i..<n]" using Suc.hyps(3) by (simp add: upt_conv_Cons)
  let ?lli = "io_off (ll_base info dd) (ucast (block_index dd (rs \<noteq> None) tot j n (n - 1) + off) * 32)"
  { case 1
    show ?case
    proof (cases "Suc i = n")
      case True
      then have i: "i = n - 1" by simp
      have "emits (block_loop hw info dd rs elm n g tot j [i..<n] s d left off)
        ([] @ desc_writes ?lli (block_op g n) (desc_cnt_of rs elm True left i) s d
           (fst (last_link info dd (block_index dd (rs \<noteq> None) tot j n (n - 1) + 1) off)) @
         [(io_off ?lli DESC_CNT, desc_cnt_of rs elm True left i - 1)])"
        unfolding il using True
        by (simp add: i Let_def split_beta last_link_def)
          (rule emits_conv, (rule emits_intros)+, simp)
      then show ?thesis by blast
    next
      case False
      then have lt: "k = n - Suc i" "Suc i < n" "i \<noteq> n - 1" using Suc.hyps(3) 1 by simp_all
      let ?c = "desc_cnt_of rs elm False left i"
      obtain ws op c s' d' where IH:
        "emits (block_loop hw info dd rs elm n g tot j [Suc i..<n] (s + ucast (desc_elm rs elm i))
            (d + ucast (desc_elm rs elm i)) (left - ?c) off)
          (ws @ desc_writes ?lli op c s' d' (fst (last_link info dd (block_index dd (rs \<noteq> None) tot j n (n - 1) + 1) off)) @
           [(io_off ?lli DESC_CNT, c - 1)])"
        using Suc.hyps(1)[OF lt(1,2)] by blast
      have "\<exists>vs. emits (block_loop hw info dd rs elm n g tot j [i..<n] s d left off)
          (vs @ (ws @ desc_writes ?lli op c s' d' (fst (last_link info dd (block_index dd (rs \<noteq> None) tot j n (n - 1) + 1) off)) @
           [(io_off ?lli DESC_CNT, c - 1)]))"
        unfolding il using lt(3)
        by (simp add: Let_def del: append_assoc)
          (rule exI, rule emits_conv, (rule emits_intros IH)+, simp add: append_assoc[symmetric] del: append_assoc)
      then show ?thesis by (metis append.assoc)
    qed }
  { case 2
    show ?case
    proof (cases "Suc i = n")
      case True
      then have i: "i = n - 1" by simp
      show ?thesis unfolding il using True by (simp add: i Let_def mmio_simps last_link_def)
    next
      case False
      then have lt: "k = n - Suc i" "Suc i < n" "i \<noteq> n - 1" using Suc.hyps(3) 2 by simp_all
      show ?thesis unfolding il using lt(3) Suc.hyps(2)[OF lt(1,2)] by (simp add: Let_def mmio_simps)
    qed }
qed

lemma serve_irqs_result:
  assumes "\<forall>t. hw t (io_off (rg_vaddr (bc_info ch)) REG_DMA_CH_INTR_RAW) = v" "int_error ch = 0 \<or> v AND DMA_CH_INTR_BIT_DONE \<noteq> 0 \<or> v AND BARE_ERR_BITS \<noteq> 0"
  shows "int_done (result_of (serve_irqs hw n ch) t) = int_done ch + n"
    "int_error (result_of (serve_irqs hw n ch) t) =
      (if n = 0 then int_error ch else if v AND DMA_CH_INTR_BIT_DONE = 0 \<and> v AND BARE_ERR_BITS \<noteq> 0 then 1 else 0)"
  using assms
proof (induction n arbitrary: ch t)
  case (Suc n)
  { case 1
    then show ?case using Suc.IH(1) by (auto simp: dma_bare_isr_def mmio_simps Let_def) }
  { case 2
    then show ?case using Suc.IH(2) by (cases "n = 0") (auto simp: dma_bare_isr_def mmio_simps Let_def) }
qed (simp_all add: mmio_simps)

section \<open>The layout of the channels\<close>

lemma build_chan_laddr:
  assumes "i < 256"
  shows "uint (ll_laddr (build_chan sys ll rg wr j i)) = 0x80000000 + (int i + (if j = 0 then 0 else uint wr)) * 0x200000"
    "uint (ll_laddr_system (build_chan sys ll rg wr j i)) = (int i + (if j = 0 then 0 else uint wr)) * 0x200000"
proof -
  have "uint (of_nat i :: u32) = int i" using assms by (simp add: unsigned_of_nat take_bit_nat_eq_self)
  then have l: "uint (ucast (LL_SZ * of_nat i :: u32) :: u64) = int i * 0x200000"
    using assms by (simp add: LL_SZ_def unsigned_ucast_eq uint_word_ariths take_bit_eq_mod)
  have "uint wr < 256" using unsigned_less[of wr, where ?'a = int] by simp
  then have w: "uint (ucast wr * 65536 * 32 :: u64) = uint wr * 0x200000"
    by (simp add: uint_word_ariths unsigned_ucast_eq take_bit_eq_mod)
  have i: "int i < 256" using assms by simp
  let ?x = "ucast (LL_SZ * of_nat i :: u32) :: u64" and ?y = "ucast wr * 65536 * 32 :: u64"
  have w': "uint (0x80000000 + ?y) = 0x80000000 + uint wr * 0x200000"
    using uint_add_bounded[of "0x80000000" ?y] w \<open>uint wr < 256\<close> by simp
  have "uint (?x + 0x80000000) = int i * 0x200000 + 0x80000000"
    using uint_add_bounded[of ?x "0x80000000"] l i by simp
  moreover have "uint (?x + (0x80000000 + ?y)) = int i * 0x200000 + (0x80000000 + uint wr * 0x200000)"
    using uint_add_bounded[of ?x "0x80000000 + ?y"] l w' i \<open>uint wr < 256\<close> by simp
  ultimately show "uint (ll_laddr (build_chan sys ll rg wr j i)) = 0x80000000 + (int i + (if j = 0 then 0 else uint wr)) * 0x200000"
    by (cases "j = 0") (simp_all only: build_chan_def chan_at_def Let_def mtdma_chan_info.simps if_True if_False, simp_all)
  have "uint (?y + ?x) = uint wr * 0x200000 + int i * 0x200000"
    using uint_add_bounded[of ?y ?x] l w i \<open>uint wr < 256\<close> by simp
  then show "uint (ll_laddr_system (build_chan sys ll rg wr j i)) = (int i + (if j = 0 then 0 else uint wr)) * 0x200000"
    using l by (cases "j = 0") (simp_all only: build_chan_def chan_at_def Let_def mtdma_chan_info.simps if_True if_False, simp_all)
qed

section \<open>Programs without a mutex\<close>

lemma plain_macros [plain_intros]:
  "plain_io (SET_CH_32 info r v)" "plain_io (GET_CH_32 hw info r)" "plain_io (SET_LL_32 lli f v)" "plain_io (GET_LL_32 hw lli f)"
  by (simp_all add: SET_CH_32_def GET_CH_32_def SET_LL_32_def GET_LL_32_def plain_intros)

lemma plain_parts [plain_intros]:
  "plain_io (set_desc lli op cnt sar dar lar)" "plain_io (set_xfer lli cnt sar dar)" "plain_io (read_fields hw lli fs)" "plain_io (read_dummy hw info direction)"
  by (auto simp: set_desc_def set_xfer_def read_fields_def read_dummy_def intro!: plain_intros)

lemma plain_chain [plain_intros]: "plain_io (chain_loop hw info dd rs elm n is sar dar left)"
  by (induction "is" arbitrary: sar dar left) (simp_all add: Let_def plain_intros)

lemma plain_block0 [plain_intros]: "plain_io (block0_loop hw info dd rs elm n goes_on sar dar left is offset)"
  by (induction "is" arbitrary: offset) (simp_all add: Let_def plain_intros split_beta del: split_paired_All)

lemma plain_block [plain_intros]: "plain_io (block_loop hw info dd rs elm n goes_on tot j is sar dar left offset)"
  by (induction "is" arbitrary: sar dar left offset) (simp_all add: Let_def plain_intros split_beta)

lemma plain_one_block [plain_intros]: "plain_io (one_block hw info direction dd rs n0 sar dar sz block_cnt j offset tot)"
  by (auto simp: one_block_def Let_def intro!: plain_intros)

lemma plain_blocks [plain_intros]: "plain_io (block_loops hw info direction dd sar dar sz block_cnt blocks offset tot)"
  by (induction hw info direction dd sar dar sz block_cnt blocks offset tot rule: block_loops.induct) (auto intro!: plain_intros)

lemma plain_program:
  assumes "program_mode hw info i0 ok rnd direction dd desc_cnt block_cnt sar dar sz = Some prog"
  shows "plain_io prog"
  using assms
  by (auto simp: program_mode_def single_mode_def chain_mode_def block_mode_def Let_def split: if_splits option.splits intro!: plain_intros)

lemma plain_start: "plain_io (start_channel hw info direction)"
  by (auto simp: start_channel_def intro!: plain_intros)

lemma plain_isr [plain_intros]: "plain_io (dma_bare_isr hw ch)"
  by (auto simp: dma_bare_isr_def Let_def intro!: plain_intros)

lemma plain_wait: "plain_io (wait_done hw irqs ch)"
proof -
  have "plain_io (serve_irqs hw irqs ch)" by (induction irqs arbitrary: ch) (auto intro!: plain_intros)
  then show ?thesis by (auto simp: wait_done_def intro!: plain_intros)
qed

section \<open>Properties\<close>

text \<open>Following fewer links gives the beginning of the list.\<close>

lemma walk_n_take: "k \<le> n \<Longrightarrow> walk_n m ll la k lli = take (Suc k) (walk_n m ll la n lli)"
proof (induction k arbitrary: n lli)
  case 0
  then show ?case by (cases n) simp_all
next
  case (Suc k)
  then obtain n' where "n = Suc n'" "k \<le> n'" by (cases n) auto
  then show ?case using Suc.IH[of n'] by simp
qed

text \<open>The field of the base register for the number of links has 16 bits.\<close>

lemma lbar_links: "unat (drop_bit 16 (lbar_basic n)) = n mod 65536"
proof -
  have "drop_bit 16 (lbar_basic n) = take_bit 16 (of_nat n)"
    by (rule bit_word_eqI) (auto simp: lbar_basic_def bit_simps)
  then have "unat (drop_bit 16 (lbar_basic n)) = take_bit 16 (take_bit 32 n)"
    by (simp add: unsigned_take_bit_eq unsigned_of_nat)
  then show ?thesis by (simp add: take_bit_eq_mod mod_mod_cancel)
qed

text \<open>C25. Chain mode writes descriptors that the device, following as many links as the
  base register tells, reads as consecutive pieces of the transfer: the source
  and the destination of each are those of the previous one advanced by its size.  The register has 16 bits for the number of links, so a list
  of more than 65536 pieces is cut to one more than the remainder of the number of links by 65536; up to 65536 pieces, which is what the list memory of a channel holds, the
  device reads all of them.\<close>

theorem bare_chain_correct:
  assumes "fst (rg_vaddr info) \<noteq> fst (ll_base info dd)"
    "chain_mode hw info ok rnd direction dd desc_cnt sar dar sz = Some m"
    "mem' = mem_after (exec m []) mem0" "links = unat (drop_bit 16 (mem' (io_off (rg_vaddr info) REG_DMA_CH_LBAR_BASIC)))"
  shows "links = (length (chain_sizes rnd desc_cnt sz) - 1) mod 65536 \<and>
    walk_n mem' (ll_base info dd) (la_base info dd) links (io_off (rg_vaddr info) REG_DMA_CH_DESC_OPT) =
      take (links + 1) (pieces sar dar (chain_sizes rnd desc_cnt sz)) \<and>
    (length (chain_sizes rnd desc_cnt sz) \<le> 65536 \<longrightarrow>
      walk_n mem' (ll_base info dd) (la_base info dd) links (io_off (rg_vaddr info) REG_DMA_CH_DESC_OPT) =
        pieces sar dar (chain_sizes rnd desc_cnt sz))"
proof -
  obtain rs n where r: "split_sizes ok (256 * 1024) rnd desc_cnt sz = Some (rs, n)"
    "emits m (lbar_write info n @ chain_writes info dd [0..<Suc n] (\<lambda>_. 0)
        (\<lambda>i. sar + adv (desc_elm rs (sz div (of_nat n + 1))) i) (\<lambda>i. dar + adv (desc_elm rs (sz div (of_nat n + 1))) i)
        (cnt_at rs (sz div (of_nat n + 1)) n sz) (\<lambda>i. la_base info dd + of_nat i * 32))"
    by (rule emits_chain_mode[OF assms(2)])
  note sp = split_sizes_Some[OF r(1)]
  have apart: "regions_apart info dd" using assms(1) by (simp add: regions_apart_def)
  have n: "n < 2^32" using sp(3) unsigned_less[of desc_cnt, where ?'a = nat] by auto
  have len: "length (chain_sizes rnd desc_cnt sz) = Suc n" unfolding sp(1) by simp
  have z: "io_off (rg_vaddr info) REG_DMA_CH_DESC_OPT = bare_lli info dd 0" by (simp add: bare_lli_def lli_at_def)
  have all: "walk_n mem' (ll_base info dd) (la_base info dd) n (io_off (rg_vaddr info) REG_DMA_CH_DESC_OPT) =
      pieces sar dar (chain_sizes rnd desc_cnt sz)"
    unfolding assms(3) mem_emits[OF r(2)] wmem_simps(3) z
    by (subst walk_n_chain[OF apart n refl], simp) (use pieces_map[where i = 0 and n = "Suc n" and e = "desc_elm rs (sz div (of_nat n + 1))"
        and c = "cnt_at rs (sz div (of_nat n + 1)) n sz" and s = sar and d = dar] sp(2) in \<open>simp add: sp(1) del: upt_Suc\<close>)
  have "mem' (io_off (rg_vaddr info) REG_DMA_CH_LBAR_BASIC) = lbar_basic n"
    unfolding assms(3) mem_emits[OF r(2)] wmem_simps(3) lbar_apart[OF apart] by (simp add: lbar_write_def)
  then have links: "links = n mod 65536" using assms(4) lbar_links[of n] by simp
  then have "links \<le> n" by simp
  then have "walk_n mem' (ll_base info dd) (la_base info dd) links (io_off (rg_vaddr info) REG_DMA_CH_DESC_OPT) =
      take (links + 1) (pieces sar dar (chain_sizes rnd desc_cnt sz))"
    using walk_n_take[of links n] all by simp
  moreover have "links = n" if "length (chain_sizes rnd desc_cnt sz) \<le> 65536" using that links len by simp
  ultimately show ?thesis using links all len by auto
qed

text \<open>The sizes of the descriptors of a chain add up to the size of the transfer,
  in the equal and in the random mode; random sizes are below 64 KB, none is 0
  and all but the last are at least 4 KB.\<close>

theorem bare_sizes_total:
  "sum_list (map unat (chain_sizes rnd desc_cnt sz)) = unat sz \<and>
   (drop_bit 31 desc_cnt = 1 \<longrightarrow>
     (\<forall>c \<in> set (chain_sizes rnd desc_cnt sz). 0 < c \<and> c < 65536) \<and>
     (\<forall>c \<in> set (butlast (chain_sizes rnd desc_cnt sz)). 4096 \<le> c))"
proof
  show "sum_list (map unat (chain_sizes rnd desc_cnt sz)) = unat sz"
  proof (cases "drop_bit 31 desc_cnt = 1")
    case False
    have "desc_cnt < 2^31"
    proof -
      have "uint desc_cnt div 2^31 = 0 \<or> uint desc_cnt div 2^31 = 1"
        using unsigned_less[of desc_cnt, where ?'a = int] unsigned_greater_eq[of desc_cnt, where ?'a = int] by auto
      then have "uint desc_cnt div 2^31 = 0" using False by (auto simp: word_uint_eq_iff uint_div drop_bit_eq_div)
      then show ?thesis by (simp add: word_less_def div_eq_0_iff)
    qed
    then show ?thesis using False equal_sizes_total[of desc_cnt sz] by (simp add: chain_sizes_def Let_def)
  qed (simp add: chain_sizes_def rand_sizes_props)
qed (auto simp: chain_sizes_def dest: rand_sizes_props(2,3))

text \<open>In block mode the first block does not advance: with a single block every
  descriptor asks for the same source and destination, and the last one for the
  whole size, so that only the beginning of the buffer is ever transferred by the
  others.\<close>

theorem bare_block0_repeats:
  assumes "fst (rg_vaddr info) \<noteq> fst (ll_base info dd)" "desc_cnt \<noteq> 0" "drop_bit 31 desc_cnt \<noteq> 1"
    "block_mode hw info ok rnd direction dd desc_cnt 1 sar dar sz = Some m" "mem' = mem_after (exec m []) mem0"
  shows "map (desc_xfer mem') (map (bare_lli info dd) [0..<unat desc_cnt + 1]) =
    replicate (unat desc_cnt) (sar, dar, sz div (desc_cnt + 1)) @ [(sar, dar, sz)]"
proof -
  let ?n = "unat desc_cnt" and ?e = "sz div (desc_cnt + 1)"
  have apart: "regions_apart info dd" using assms(1) by (simp add: regions_apart_def)
  have n: "0 < ?n" "?n < 2^32" using assms(2) unsigned_less[of desc_cnt, where ?'a = nat] by (simp_all add: unat_gt_0)
  have m: "m = block_loops hw info direction dd sar dar sz 1 [(0, None, ?n)] 0 0"
    using assms(3,4) by (auto simp: block_mode_def split_sizes_def Let_def split: if_splits)
  let ?ws = "lbar_write info ?n @ chain_writes info dd [0..<Suc ?n] (\<lambda>i. block_op (i = ?n \<and> False) ?n) (\<lambda>_. sar) (\<lambda>_. dar)
        (\<lambda>i. desc_cnt_of None ?e (i = ?n) sz i) (block0_lar info dd ?n 0)"
  let ?p = "block0_loop hw info dd None ?e ?n False sar dar sz [0..<Suc ?n] 0"
  have m': "m = State_Monad.bind (State_Monad.bind ?p (\<lambda>off. State_Monad.bind (read_dummy hw info direction)
      (\<lambda>_. State_Monad.return (off, 0 + of_nat ?n)))) (\<lambda>r. pass)"
    unfolding m by (simp add: one_block_def Let_def del: upt_Suc block0_loop.simps)
  note b0 = block0_loop_all(1)[OF n, of hw info dd None ?e False sar dar sz 0]
  have "emits m ((?ws @ [] @ []) @ [])"
    by (subst m') (rule emits_bind[OF emits_bind[OF b0 emits_bind[OF emits_read_dummy emits_return]] emits_return])
  then have mem: "mem' = wmem ?ws mem0" using assms(5) mem_emits by fastforce
  have "desc_xfer mem' (bare_lli info dd i) = (sar, dar, if i = ?n then sz else ?e)" if "i < Suc ?n" for i
    using chain_mem(2)[OF apart that _ mem[unfolded wmem_simps(3)]] n(2) by (simp add: desc_cnt_of_def)
  then have "map (desc_xfer mem') (map (bare_lli info dd) [0..<Suc ?n]) =
      map (\<lambda>i. (sar, dar, if i = ?n then sz else ?e)) [0..<Suc ?n]" by (simp del: upt_Suc)
  also have "\<dots> = replicate ?n (sar, dar, ?e) @ [(sar, dar, sz)]"
    by (simp add: map_replicate_const[symmetric] cong: map_cong) (simp add: list_eq_iff_nth_eq)
  finally show ?thesis by (simp del: upt_Suc)
qed

text \<open>The blocks are linked: the last descriptor of a block points, for the device, at
  the place where the code then writes the first descriptor of the next block,
  which is rounded up to the next multiple of 1024 bytes.\<close>

theorem bare_blocks_linked:
  assumes "fst (rg_vaddr info) \<noteq> fst (ll_base info dd)" "la_base info dd mod 32 = 0" "0 < n"
    "(j + 1) * n + unat offset + 64 < 2^27"
    "m = one_block hw info direction dd None n sar dar sz block_cnt j offset tot"
    "lli = (if j = 0 then bare_lli info dd n
             else io_off (ll_base info dd) (ucast (block_index dd False tot j n (n - 1) + offset) * 32))"
  shows "read64 (mem_after (exec m []) mem0) lli DESC_LAR_H DESC_LAR_L =
    la_base info dd + ucast (block_index dd False (snd (result_of m [])) (j + 1) n 0 + fst (result_of m [])) * 32"
proof -
  have n: "n < 2^32" "j * n + n + unat offset + 64 < 2^27" using assms(4) by (simp_all add: algebra_simps)
  have apart: "regions_apart info dd" using assms(1) by (simp add: regions_apart_def)
  define idx where "idx = (of_nat ((j + 1) * n) :: u32)"
  have idx: "block_index dd False t (j + 1) n 0 = idx" for t by (simp add: block_index_def idx_def distrib_right)
  have "uint (of_nat N :: u32) = int N" if "N < 2^32" for N using that by (simp add: unsigned_of_nat take_bit_nat_eq_self)
  moreover have "(j + 1) * n < 2^32"
  proof -
    have "(j + 1) * n < 2^27" using assms(4) by linarith
    then show ?thesis by (rule less_trans) simp
  qed
  ultimately have "uint idx = int ((j + 1) * n)" unfolding idx_def by blast
  then have "uint idx + uint offset + 64 = int ((j + 1) * n + unat offset + 64)" by simp
  also have "\<dots> < int (2^27)" using assms(4) unfolding of_nat_less_iff .
  also have "int (2^27) = 2^27" by simp
  finally have b: "uint idx + uint offset + 64 < 2^27" .
  let ?left = "if (None :: u32 list option) = None then sz else 0"
  show ?thesis
  proof (cases "j = 0")
    case True
    have i: "idx = of_nat n" by (simp add: idx_def True)
    let ?p = "block0_loop hw info dd None (sz div (of_nat n + 1)) n (j \<noteq> block_cnt - 1) sar dar sz [0..<Suc n] offset"
    note b0 = block0_loop_all[OF assms(3) n(1), of hw info dd None "sz div (of_nat n + 1)" "j \<noteq> block_cnt - 1" sar dar sz offset]
    have m: "m = do { offset \<leftarrow> ?p; _ \<leftarrow> read_dummy hw info direction; State_Monad.return (offset, tot + of_nat n) }"
      unfolding assms(5) one_block_def using True by (simp del: upt_Suc)
    have r: "fst (result_of m []) = snd (last_link info dd idx offset)"
      unfolding m i using b0(2)[of "[]"] by (simp add: mmio_simps del: upt_Suc block0_loop.simps)
    have em: "emits m ((lbar_write info n @ chain_writes info dd [0..<Suc n] (\<lambda>i. block_op (i = n \<and> j \<noteq> block_cnt - 1) n)
        (\<lambda>_. sar) (\<lambda>_. dar) (\<lambda>i. desc_cnt_of None (sz div (of_nat n + 1)) (i = n) sz i) (block0_lar info dd n offset)) @ [] @ [])"
      by (subst m) (rule emits_bind[OF b0(1) emits_bind[OF emits_read_dummy emits_return]])
    show ?thesis
      using chain_mem(3)[OF apart _ _ refl, of n "Suc n"] n(1) True
      unfolding idx r mem_emits[OF em] assms(6) wmem_simps close_link[OF assms(2) b, symmetric]
      by (simp add: block0_lar_def i del: upt_Suc)
  next
    case False
    let ?p = "block_loop hw info dd None (sz div of_nat n) n (j \<noteq> block_cnt - 1) tot j [0..<n]
        (sar + ucast (of_nat j * sz)) (dar + ucast (of_nat j * sz)) sz offset"
    have m: "m = do { offset \<leftarrow> ?p; _ \<leftarrow> read_dummy hw info direction; State_Monad.return (offset, tot + of_nat n) }"
      unfolding assms(5) one_block_def using False by simp
    have i: "block_index dd False tot j n (n - 1) + 1 = idx"
      using assms(3) by (simp add: block_index_def idx_def of_nat_diff algebra_simps)
    have l: "lli = io_off (ll_base info dd) (ucast (block_index dd False tot j n (n - 1) + offset) * 32)"
      using False assms(6) by simp
    note bl = block_loop_last[OF assms(3), where rs = None, simplified, of hw info dd "sz div of_nat n" "j \<noteq> block_cnt - 1" tot j
        "sar + ucast (of_nat j * sz)" "dar + ucast (of_nat j * sz)" sz offset]
    obtain ws op c s' d' where em: "emits ?p (ws @ desc_writes lli op c s' d' (fst (last_link info dd idx offset)) @
        [(io_off lli DESC_CNT, c - 1)])"
      using bl(1) unfolding l[symmetric] i[symmetric] by (auto simp: l i)
    have r: "fst (result_of m []) = snd (last_link info dd idx offset)"
      unfolding m using bl(2)[of "[]"] i by (simp add: mmio_simps)
    have em': "emits m ((ws @ desc_writes lli op c s' d' (fst (last_link info dd idx offset)) @
        [(io_off lli DESC_CNT, c - 1)]) @ [] @ [])"
      by (subst m) (rule emits_bind[OF em emits_bind[OF emits_read_dummy emits_return]])
    show ?thesis
      unfolding idx r mem_emits[OF em'] wmem_simps close_link[OF assms(2) b, symmetric]
      using desc_mem(3)[OF refl, of lli op c s' d' "fst (last_link info dd idx offset)" "wmem ws mem0"]
      by (simp add: read64_def desc_offsets)
  qed
qed

text \<open>The result of a transfer: 0 when no interrupt came in time, 2 when the interrupt
  status shows an error and no completion, and 1, success, in every other case:
  also for an interrupt that shows neither.\<close>

theorem bare_xfer_result:
  assumes "dma_bare_xfer hw i0 ok rnd irqs ch dir dd desc_cnt block_cnt sar dar sz = Some m"
    "direction_of dir \<noteq> None" "\<forall>t. hw t (io_off (rg_vaddr (bc_info ch)) REG_DMA_CH_INTR_RAW) = v"
  shows "fst (result_of m t) =
    (if irqs = 0 then 0
     else if v AND DMA_CH_INTR_BIT_DONE = 0 \<and> v AND BARE_ERR_BITS \<noteq> 0 then 2 else 1)"
proof -
  obtain d where d: "direction_of dir = Some d" using assms(2) by blast
  let ?ch = "ch\<lparr>int_done := 0, int_error := 0\<rparr>"
  obtain prog where p: "program_mode hw (bc_info ch) i0 ok rnd (bare_direction dd d) dd desc_cnt block_cnt sar dar sz = Some prog"
    using assms(1) d by (cases "program_mode hw (bc_info ch) i0 ok rnd (bare_direction dd d) dd desc_cnt block_cnt sar dar sz")
      (auto simp: dma_bare_xfer_def Let_def)
  have m: "m = do { _ \<leftarrow> mutex_lock (rg_vaddr (bc_info ch)); _ \<leftarrow> prog; _ \<leftarrow> start_channel hw (bc_info ch) (bare_direction dd d);
      r \<leftarrow> wait_done hw irqs ?ch; _ \<leftarrow> mutex_unlock (rg_vaddr (bc_info ch)); State_Monad.return r }"
    using assms(1) d p by (simp add: dma_bare_xfer_def Let_def)
  have "\<forall>t. hw t (io_off (rg_vaddr (bc_info ?ch)) REG_DMA_CH_INTR_RAW) = v" using assms(3) by simp
  note sr = serve_irqs_result[where ch = ?ch and n = irqs and hw = hw and v = v, OF this]
  have w: "fst (result_of (wait_done hw irqs ?ch) t) =
    (if irqs = 0 then 0 else if v AND DMA_CH_INTR_BIT_DONE = 0 \<and> v AND BARE_ERR_BITS \<noteq> 0 then 2 else 1)" for t
    using sr[of t] by (auto simp: wait_done_def mmio_simps)
  have "\<exists>t'. result_of m t = result_of (wait_done hw irqs ?ch) t'"
    unfolding m by (auto simp: mmio_simps start_channel_def)
  then show ?thesis using w by metis
qed

text \<open>The list areas of the channels: the write channels and then the read channels
  take consecutive areas of 2 MB, one per channel, from 2 GB on for the device and
  from 0 on in host memory, so no two channels share a descriptor; each area has
  room for the \<open>ll_max\<close> descriptors of 32 bytes.\<close>

theorem build_dma_info_layout:
  assumes "build_dma_info sys rg ll wr rd info = Some info'"
    "chs = take (unat wr) (wr_ch_info info') @ take (unat rd) (rd_ch_info info')"
  shows "map (\<lambda>c. uint (ll_laddr c)) chs = map (\<lambda>k. 0x80000000 + int k * 0x200000) [0..<unat wr + unat rd] \<and>
    map (\<lambda>c. uint (ll_laddr_system c)) chs = map (\<lambda>k. int k * 0x200000) [0..<unat wr + unat rd] \<and>
    (\<forall>c \<in> set chs. ll_max c * 32 = 0x200000)"
proof -
  have chs: "chs = map (build_chan sys ll rg wr 0) [0..<unat wr] @ map (build_chan sys ll rg wr 1) [0..<unat rd]"
    using assms by (auto simp: build_dma_info_def split: if_splits)
  have b: "i < 256" if "i < unat w" for i and w :: u8 using that unsigned_less[of w, where ?'a = nat] by simp
  have "[0..<a + b] = [0..<a] @ map (\<lambda>i. i + a) [0..<b]" for a b :: nat
    unfolding map_add_upt add.commute[of b a] by (rule upt_add_eq_append) simp
  note up = this[of "unat wr" "unat rd"]
  have l0: "uint (ll_laddr (build_chan sys ll rg wr 0 i)) = 0x80000000 + int i * 0x200000"
    "uint (ll_laddr_system (build_chan sys ll rg wr 0 i)) = int i * 0x200000" if "i < unat wr" for i
    using build_chan_laddr[OF b[OF that], of sys ll rg wr 0] by simp_all
  have l1: "uint (ll_laddr (build_chan sys ll rg wr 1 i)) = 0x80000000 + int (i + unat wr) * 0x200000"
    "uint (ll_laddr_system (build_chan sys ll rg wr 1 i)) = int (i + unat wr) * 0x200000" if "i < unat rd" for i
    using build_chan_laddr[OF b[OF that], of sys ll rg wr 1] by simp_all
  have ch: "ll_max (build_chan sys ll rg wr j i) * 32 = 0x200000" for j i by (simp add: build_chan_def chan_at_def Let_def)
  have "map (\<lambda>c. uint (ll_laddr c)) chs = map (\<lambda>k. 0x80000000 + int k * 0x200000) [0..<unat wr + unat rd]"
    unfolding chs up map_append map_map o_def
    by (intro arg_cong2[where f = append] map_cong refl) (simp_all only: l0 l1 set_upt atLeastLessThan_iff)
  moreover have "map (\<lambda>c. uint (ll_laddr_system c)) chs = map (\<lambda>k. int k * 0x200000) [0..<unat wr + unat rd]"
    unfolding chs up map_append map_map o_def
    by (intro arg_cong2[where f = append] map_cong refl) (simp_all only: l0 l1 set_upt atLeastLessThan_iff)
  moreover have "\<forall>c \<in> set chs. ll_max c * 32 = 0x200000" unfolding chs using ch by (simp add: ball_Un)
  ultimately show ?thesis by blast
qed

section \<open>Witnesses\<close>

definition demo_bare :: mtdma_chan_info where
  "demo_bare = build_chan (3, 0) (2, 0) (0, 0) 64 0 0"

lemma upto_two: "[0..<2] = [0, 1 :: nat]"
  by (simp add: upt_rec)

lemma demo_bare_regions [simp]:
  "fst (rg_vaddr demo_bare) \<noteq> fst (ll_base demo_bare dd)" "la_base demo_bare 0 = 0x80000000"
  by (simp_all add: demo_bare_def build_chan_def chan_at_def io_off_def ll_base_def la_base_def
      DMA_DESC_IN_DEVICE_def LL_SZ_def)

theorem bare_chain_correct_witness:
  "\<exists>m. chain_mode (\<lambda>_ _. 0) demo_bare True (\<lambda>_. 0) 1 0 2 0x1000 0x9000 100 = Some m \<and>
    walk_n (mem_after (exec m []) (\<lambda>_. 0)) (ll_base demo_bare 0) 0x80000000 (Suc (Suc 0))
      (io_off (rg_vaddr demo_bare) REG_DMA_CH_DESC_OPT) =
    [(0x1000, 0x9000, 33), (0x1021, 0x9021, 33), (0x1042, 0x9042, 34)]"
proof -
  obtain m where m: "chain_mode (\<lambda>_ _. 0) demo_bare True (\<lambda>_. 0) 1 0 2 0x1000 0x9000 100 = Some m"
    by (simp add: chain_mode_def split_sizes_def drop_bit_eq_div Let_def)
  have c: "chain_sizes (\<lambda>_. 0) 2 100 = [33, 33, 34]"
  proof -
    have "replicate 2 x = [x, x]" for x :: u32 by (simp add: numeral_2_eq_2)
    then show ?thesis by (simp add: chain_sizes_def Let_def drop_bit_eq_div)
  qed
  let ?links = "unat (drop_bit 16 (mem_after (exec m []) (\<lambda>_. 0) (io_off (rg_vaddr demo_bare) REG_DMA_CH_LBAR_BASIC)))"
  note t = bare_chain_correct[OF demo_bare_regions(1) m refl refl, of "\<lambda>_. 0", unfolded c]
  have l: "?links = Suc (Suc 0)" using conjunct1[OF t] by simp
  have "walk_n (mem_after (exec m []) (\<lambda>_. 0)) (ll_base demo_bare 0) (la_base demo_bare 0) ?links (io_off (rg_vaddr demo_bare) REG_DMA_CH_DESC_OPT) =
      pieces 0x1000 0x9000 [33, 33, 34]"
    using conjunct2[OF conjunct2[OF t]] by simp
  then show ?thesis using m unfolding l by (simp del: walk_n.simps)
qed

text \<open>A list of 65537 pieces is cut to the first one.\<close>

lemma bare_chain_too_long:
  assumes "fst (rg_vaddr info) \<noteq> fst (ll_base info dd)" "chain_mode hw info ok rnd direction dd 0x10000 sar dar sz = Some m"
  shows "unat (drop_bit 16 (mem_after (exec m []) mem0 (io_off (rg_vaddr info) REG_DMA_CH_LBAR_BASIC))) = 0"
proof -
  obtain rs n where r: "split_sizes ok (256 * 1024) rnd 0x10000 sz = Some (rs, n)"
    "emits m (lbar_write info n @ chain_writes info dd [0..<Suc n] (\<lambda>_. 0)
        (\<lambda>i. sar + adv (desc_elm rs (sz div (of_nat n + 1))) i) (\<lambda>i. dar + adv (desc_elm rs (sz div (of_nat n + 1))) i)
        (cnt_at rs (sz div (of_nat n + 1)) n sz) (\<lambda>i. la_base info dd + of_nat i * 32))"
    by (rule emits_chain_mode[OF assms(2)])
  have n: "n = 0x10000" using r(1) by (simp add: split_sizes_def drop_bit_eq_div)
  have apart: "regions_apart info dd" using assms(1) by (simp add: regions_apart_def)
  have "mem_after (exec m []) mem0 (io_off (rg_vaddr info) REG_DMA_CH_LBAR_BASIC) = lbar_basic n"
    unfolding mem_emits[OF r(2)] wmem_simps(3) lbar_apart[OF apart] by (simp add: lbar_write_def)
  then show ?thesis using lbar_links[of n] n by simp
qed

theorem bare_sizes_total_witness:
  "list_all (\<lambda>c. 0 < c \<and> c < 65536) (chain_sizes (\<lambda>_. 7) 0x80000000 10000)"
  using bare_sizes_total[of "\<lambda>_. 7" "0x80000000" 10000] by (simp add: drop_bit_eq_div list_all_iff)

theorem bare_block0_repeats_witness:
  "\<exists>m. block_mode (\<lambda>_ _. 0) demo_bare True (\<lambda>_ _. 0) 1 0 1 1 0x1000 0x9000 100 = Some m \<and>
    map (desc_xfer (mem_after (exec m []) (\<lambda>_. 0))) (map (bare_lli demo_bare 0) [0..<2]) =
      [(0x1000, 0x9000, 50), (0x1000, 0x9000, 100)]"
proof -
  obtain m where m: "block_mode (\<lambda>_ _. 0) demo_bare True (\<lambda>_ _. 0) 1 0 1 1 0x1000 0x9000 100 = Some m"
    by (simp add: block_mode_def split_sizes_def drop_bit_eq_div Let_def)
  show ?thesis
    using bare_block0_repeats[OF demo_bare_regions(1) _ _ m refl, of "\<lambda>_. 0"] m
    by (simp add: drop_bit_eq_div upto_two)
qed

theorem bare_blocks_linked_witness:
  "\<exists>m. m = one_block (\<lambda>_ _. 0) demo_bare 1 0 None 3 0x1000 0x9000 300 2 0 0 0 \<and>
    read64 (mem_after (exec m []) (\<lambda>_. 0)) (bare_lli demo_bare 0 3) DESC_LAR_H DESC_LAR_L =
    0x80000000 + ucast (block_index 0 False (snd (result_of m [])) 1 3 0 + fst (result_of m [])) * 32"
  using bare_blocks_linked[where info = demo_bare and dd = 0 and n = 3 and j = 0 and offset = 0 and tot = 0 and hw = "\<lambda>_ _. 0"
      and direction = 1 and sar = "0x1000" and dar = "0x9000" and sz = 300 and block_cnt = 2 and ?mem0.0 = "\<lambda>_. 0",
      OF demo_bare_regions(1) _ _ _ refl refl] by simp

theorem bare_xfer_result_witness:
  "\<exists>m. dma_bare_xfer (\<lambda>_ _. 0) 0 True (\<lambda>_ _. 0) 1 \<lparr>bc_info = demo_bare, int_done = 0, int_error = 0, chan_id = 0\<rparr>
      1 0 0 0 0x1000 0x9000 100 = Some m \<and> fst (result_of m []) = 1"
proof -
  obtain m where m: "dma_bare_xfer (\<lambda>_ _. 0) 0 True (\<lambda>_ _. 0) 1
      \<lparr>bc_info = demo_bare, int_done = 0, int_error = 0, chan_id = 0\<rparr> 1 0 0 0 0x1000 0x9000 100 = Some m"
    by (simp add: dma_bare_xfer_def direction_of_def program_mode_def single_mode_def Let_def)
  then show ?thesis using bare_xfer_result[OF m, of 0 "[]"] by (simp add: direction_of_def)
qed

theorem build_dma_info_layout_witness:
  "\<exists>info'. build_dma_info (3, 0) (0, 0) (2, 0) 2 1
      \<lparr>wr_ch_info = [demo_bare, demo_bare], rd_ch_info = [demo_bare], mi_wr_ch_cnt = 0, mi_rd_ch_cnt = 0\<rparr> = Some info' \<and>
    map (\<lambda>c. uint (ll_laddr c)) (take 2 (wr_ch_info info') @ take 1 (rd_ch_info info')) =
      [0x80000000, 0x80200000, 0x80400000]"
proof -
  obtain info' where i: "build_dma_info (3, 0) (0, 0) (2, 0) 2 1
      \<lparr>wr_ch_info = [demo_bare, demo_bare], rd_ch_info = [demo_bare], mi_wr_ch_cnt = 0, mi_rd_ch_cnt = 0\<rparr> = Some info'"
    by (simp add: build_dma_info_def)
  show ?thesis using build_dma_info_layout[OF i refl] i by (simp add: upt_rec)
qed

end
