(* ===== verification/Mmu.thy ===== *)
theory Mmu
  imports Mmio
begin

text \<open>
  The page tables of the memory management unit, from
  \<open>src/driver/mmu_init_pagetable.c\<close> and \<open>mmu_init_pagetable.h\<close>: the pools of
  virtual pages, table pages and physical pages, the descriptors of the four
  levels (PC, PR, PD, PT), and \<open>gen_page_desc\<close>, which enters one page.  The global
  arrays are functions of their two indices, the table memory a function from byte
  offsets to 64-bit entries; all entries are 8-byte aligned.  \<open>gen_page_desc\<close> is
  \<open>None\<close> for a context beyond the arrays.
\<close>

section \<open>Constants and descriptors\<close>

definition MMU_MAX_CTXT_NUM :: nat where "MMU_MAX_CTXT_NUM = 1"
definition MMU_MAX_VA_POOL_NUM :: nat where "MMU_MAX_VA_POOL_NUM = 0x4000"
definition MMU_VA_BASE_ADDR :: u64 where "MMU_VA_BASE_ADDR = 0"
definition MMU_PA_BASE_ADDR :: u64 where "MMU_PA_BASE_ADDR = 0x400000000"
definition MMU_PAGE_SIZE :: u8 where "MMU_PAGE_SIZE = 0"
definition MMU_MAX_PA_POOL_NUM :: nat where "MMU_MAX_PA_POOL_NUM = MMU_MAX_VA_POOL_NUM * 4"
definition MMU_PC_BASE_ADDR :: u64 where "MMU_PC_BASE_ADDR = 0x800000000"
definition MMU_PR_BASE_ADDR :: u64 where "MMU_PR_BASE_ADDR = 0x802000000"
definition MMU_PD_BASE_ADDR :: u64 where "MMU_PD_BASE_ADDR = 0x804000000"
definition MMU_PT_BASE_ADDR :: u64 where "MMU_PT_BASE_ADDR = 0x806000000"

lemmas mmu_consts = MMU_MAX_CTXT_NUM_def MMU_MAX_VA_POOL_NUM_def MMU_VA_BASE_ADDR_def MMU_PA_BASE_ADDR_def
  MMU_PAGE_SIZE_def MMU_MAX_PA_POOL_NUM_def MMU_PC_BASE_ADDR_def MMU_PR_BASE_ADDR_def MMU_PD_BASE_ADDR_def MMU_PT_BASE_ADDR_def

record pc_desc_s =
  pc_valid :: u64
  pc_unmap_flag :: u64
  pc_reserved0 :: u64
  page_size_flag :: u64
  pr_base_addr :: u64
  pc_reserved1 :: u64

record pr_desc_s =
  pr_valid :: u64
  pr_unmap_flag :: u64
  pr_reserved0 :: u64
  pd_base_addr :: u64
  pr_reserved1 :: u64

record pd_desc_s =
  pd_valid :: u64
  pd_unmap_flag :: u64
  pd_reserved0 :: u64
  pd_page_size :: u64
  pt_base_addr :: u64
  pd_reserved1 :: u64

record pt_desc_s =
  pt_valid :: u64
  pt_unmap_flag :: u64
  read_only :: u64
  cache_coherency :: u64
  continuous_length :: u64
  atomic_disable :: u64
  pt_reserved0 :: u64
  physical_page :: u64
  pt_reserved1 :: u64
  axcache :: u64
  meta_protect :: u64
  pt_reserved2 :: u64

definition pc_context :: "pc_desc_s \<Rightarrow> u64" where
  "pc_context d = (pc_valid d AND 0x1) OR push_bit 1 (pc_unmap_flag d AND 0x1) OR push_bit 2 (pc_reserved0 d AND 0x7f)
     OR push_bit 9 (page_size_flag d AND 0x7) OR push_bit 12 (pr_base_addr d AND 0xfffffffff)
     OR push_bit 48 (pc_reserved1 d AND 0xffff)"

definition pr_context :: "pr_desc_s \<Rightarrow> u64" where
  "pr_context d = (pr_valid d AND 0x1) OR push_bit 1 (pr_unmap_flag d AND 0x1) OR push_bit 2 (pr_reserved0 d AND 0x3ff)
     OR push_bit 12 (pd_base_addr d AND 0xfffffffff) OR push_bit 48 (pr_reserved1 d AND 0xffff)"

definition pd_context :: "pd_desc_s \<Rightarrow> u64" where
  "pd_context d = (pd_valid d AND 0x1) OR push_bit 1 (pd_unmap_flag d AND 0x1) OR push_bit 2 (pd_reserved0 d AND 0x7f)
     OR push_bit 9 (pd_page_size d AND 0x7) OR push_bit 12 (pt_base_addr d AND 0xfffffffff)
     OR push_bit 48 (pd_reserved1 d AND 0xffff)"

text \<open>The reserved bits of a page entry are taken from the descriptor of the level above.\<close>

definition pt_context :: "pt_desc_s \<Rightarrow> pd_desc_s \<Rightarrow> u64" where
  "pt_context d pd = (pt_valid d AND 0x1) OR push_bit 1 (pt_unmap_flag d AND 0x1) OR push_bit 2 (read_only d AND 0x1)
     OR push_bit 3 (cache_coherency d AND 0x1) OR push_bit 4 (continuous_length d AND 0x3) OR push_bit 6 (atomic_disable d AND 0x1)
     OR push_bit 7 (pt_reserved0 d AND 0x1f) OR push_bit 12 (physical_page d AND 0xfffffffff)
     OR push_bit 48 (pd_reserved1 pd AND 0x3ff) OR push_bit 58 (axcache d AND 0xf)"

section \<open>State and pools\<close>

record mmu_state =
  va_pool :: "nat \<Rightarrow> nat \<Rightarrow> u64"
  va_page_size :: "nat \<Rightarrow> nat \<Rightarrow> u8"
  pa_pool :: "nat \<Rightarrow> nat \<Rightarrow> u64"
  pr_base_ass :: "nat \<Rightarrow> nat \<Rightarrow> u64"
  pd_base_ass :: "nat \<Rightarrow> nat \<Rightarrow> u64"
  pt_base_ass :: "nat \<Rightarrow> nat \<Rightarrow> u64"
  pa_page_ass :: "nat \<Rightarrow> nat \<Rightarrow> u64"
  pc_addr_ass :: "nat \<Rightarrow> nat \<Rightarrow> u64"
  pr_addr_ass :: "nat \<Rightarrow> nat \<Rightarrow> u64"
  pd_addr_ass :: "nat \<Rightarrow> nat \<Rightarrow> u64"
  pt_addr_ass :: "nat \<Rightarrow> nat \<Rightarrow> u64"
  tables :: "u64 \<Rightarrow> u64"

definition upd2 :: "('a \<Rightarrow> 'b \<Rightarrow> 'c) \<Rightarrow> 'a \<Rightarrow> 'b \<Rightarrow> 'c \<Rightarrow> 'a \<Rightarrow> 'b \<Rightarrow> 'c" where
  "upd2 f i j x = f(i := (f i)(j := x))"

lemma upd2_apply: "upd2 f i j x i' j' = (if i' = i \<and> j' = j then x else f i' j')"
  by (simp add: upd2_def)

text \<open>The number of 4 KB pages of a page of the given size class.\<close>

definition pages_of :: "u64 \<Rightarrow> u64" where
  "pages_of va_size =
    (if va_size = 0 then 1 else if va_size = 1 then 2 else if va_size = 2 then 4 else if va_size = 3 then 16
     else if va_size = 4 then 64 else if va_size = 5 then 512 else if va_size = 6 then 8192
     else if va_size = 7 then 131072 else 1)"

text \<open>\<open>gen_va_pool\<close> subtracts the page size from its local \<open>va_size\<close> instead of assigning it:
  the statement has no effect and the variable stays uninitialised, the argument \<open>va_size\<close> here.\<close>

definition gen_va_pool :: "u64 \<Rightarrow> mmu_state \<Rightarrow> mmu_state" where
  "gen_va_pool va_size s = s\<lparr>va_pool := fold (\<lambda>i pool.
     snd (fold (\<lambda>j (temp_addr, pool). (temp_addr + pages_of va_size, upd2 pool i j temp_addr))
       [0..<MMU_MAX_VA_POOL_NUM] (drop_bit 12 MMU_VA_BASE_ADDR, pool))) [0..<MMU_MAX_CTXT_NUM] (va_pool s)\<rparr>"

definition gen_va_page_size :: "mmu_state \<Rightarrow> mmu_state" where
  "gen_va_page_size s = s\<lparr>va_page_size := fold (\<lambda>i sz. fold (\<lambda>j sz. upd2 sz i j MMU_PAGE_SIZE)
     [0..<MMU_MAX_VA_POOL_NUM] sz) [0..<MMU_MAX_CTXT_NUM] (va_page_size s)\<rparr>"

definition pa_entry :: "mmu_state \<Rightarrow> nat \<Rightarrow> nat \<Rightarrow> u64 \<times> (nat \<Rightarrow> nat \<Rightarrow> u64) \<Rightarrow> u64 \<times> (nat \<Rightarrow> nat \<Rightarrow> u64)" where
  "pa_entry s i j st = (let pa_temp_addr = fst st; pool = snd st in
    (if j mod 4 = 0 then (pa_temp_addr, upd2 pool i j (drop_bit 12 MMU_PR_BASE_ADDR + of_nat i * 0x80000 + of_nat j))
     else if j mod 4 = 1 then (pa_temp_addr, upd2 pool i j (drop_bit 12 MMU_PD_BASE_ADDR + of_nat i * 0x80000 + of_nat j))
     else if j mod 4 = 2 then (pa_temp_addr, upd2 pool i j (drop_bit 12 MMU_PT_BASE_ADDR + of_nat i * 0x80000 + of_nat j))
     else (pa_temp_addr + pages_of (ucast (va_page_size s i (j div 4))), upd2 pool i j pa_temp_addr)))"

definition gen_pa_pool :: "mmu_state \<Rightarrow> mmu_state" where
  "gen_pa_pool s = s\<lparr>pa_pool := fold (\<lambda>i pool.
     snd (fold (pa_entry s i) [0..<MMU_MAX_PA_POOL_NUM] (drop_bit 12 MMU_PA_BASE_ADDR, pool)))
       [0..<MMU_MAX_CTXT_NUM] (pa_pool s)\<rparr>"

section \<open>Entering a page\<close>

definition pr_index_of :: "u8 \<Rightarrow> u64 \<Rightarrow> u64" where
  "pr_index_of sz va_page = (if sz < 5 then drop_bit 18 va_page AND 0x1ff else drop_bit 27 va_page AND 0x1ff)"

definition pd_index_of :: "u8 \<Rightarrow> u64 \<Rightarrow> u64" where
  "pd_index_of sz va_page = (if sz < 5 then drop_bit 9 va_page AND 0x1ff else drop_bit 18 va_page AND 0x1ff)"

definition pt_index_of :: "u8 \<Rightarrow> u64 \<Rightarrow> u64" where
  "pt_index_of sz va_page =
    (if sz = 0 then va_page AND 0x1ff
     else if sz = 1 then drop_bit 1 va_page AND 0xff
     else if sz = 2 then drop_bit 2 va_page AND 0x7f
     else if sz = 3 then drop_bit 4 va_page AND 0x1f
     else if sz = 4 then drop_bit 6 va_page AND 0x7
     else if sz = 5 then drop_bit 9 va_page AND 0x1ff
     else if sz = 6 then drop_bit 13 va_page AND 0x1f
     else if sz = 7 then drop_bit 17 va_page AND 0x1
     else va_page AND 0x1ff)"

definition entry_addr :: "u64 \<Rightarrow> u64 \<Rightarrow> u64" where
  "entry_addr base idx = push_bit 12 base + push_bit 3 idx"

text \<open>The search for an entry that was assigned before.\<close>

definition find_addr :: "(nat \<Rightarrow> nat \<Rightarrow> u64) \<Rightarrow> nat \<Rightarrow> nat \<Rightarrow> u64 \<Rightarrow> (nat \<times> nat) option" where
  "find_addr ass c v a = find (\<lambda>p. ass (fst p) (snd p) = a) (List.product [0..<c + 1] [0..<v + 1])"

text \<open>Each level yields the base of the next table, whether its entry was assigned before, and the state.\<close>

definition pc_level :: "nat \<Rightarrow> nat \<Rightarrow> u64 \<Rightarrow> mmu_state \<Rightarrow> u64 \<times> bool \<times> mmu_state" where
  "pc_level c v pc_addr s = (case find_addr (pc_addr_ass s) c v pc_addr of
      Some p \<Rightarrow> (pr_base_ass s (fst p) (snd p), True, s)
    | None \<Rightarrow> (let pr_base = pa_pool s c (v * 4) in
        (pr_base, False, s\<lparr>pc_addr_ass := upd2 (pc_addr_ass s) c v pc_addr, pr_base_ass := upd2 (pr_base_ass s) c v pr_base\<rparr>)))"

text \<open>When no entry is found at the second level, the address of the first level is recorded.\<close>

definition pr_level :: "nat \<Rightarrow> nat \<Rightarrow> u64 \<Rightarrow> u64 \<Rightarrow> mmu_state \<Rightarrow> u64 \<times> bool \<times> mmu_state" where
  "pr_level c v pc_addr pr_addr s = (case find_addr (pr_addr_ass s) c v pr_addr of
      Some p \<Rightarrow> (pd_base_ass s (fst p) (snd p), True, s)
    | None \<Rightarrow> (let pd_base = pa_pool s c (v * 4 + 1) in
        (pd_base, False, s\<lparr>pr_addr_ass := upd2 (pr_addr_ass s) c v pc_addr, pd_base_ass := upd2 (pd_base_ass s) c v pd_base\<rparr>)))"

definition pd_level :: "nat \<Rightarrow> nat \<Rightarrow> u64 \<Rightarrow> mmu_state \<Rightarrow> u64 \<times> bool \<times> mmu_state" where
  "pd_level c v pd_addr s = (case find_addr (pd_addr_ass s) c v pd_addr of
      Some p \<Rightarrow> (pt_base_ass s (fst p) (snd p), True, s)
    | None \<Rightarrow> (let pt_base = pa_pool s c (v * 4 + 2) in
        (pt_base, False, s\<lparr>pd_addr_ass := upd2 (pd_addr_ass s) c v pd_addr, pt_base_ass := upd2 (pt_base_ass s) c v pt_base\<rparr>)))"

definition pt_level :: "nat \<Rightarrow> nat \<Rightarrow> u64 \<Rightarrow> mmu_state \<Rightarrow> u64 \<times> bool \<times> mmu_state" where
  "pt_level c v pt_addr s = (case find_addr (pt_addr_ass s) c v pt_addr of
      Some p \<Rightarrow> (pa_page_ass s (fst p) (snd p), True, s)
    | None \<Rightarrow> (let pa_page = pa_pool s c (v * 4 + 3) in
        (pa_page, False, s\<lparr>pt_addr_ass := upd2 (pt_addr_ass s) c v pt_addr, pa_page_ass := upd2 (pa_page_ass s) c v pa_page\<rparr>)))"

text \<open>\<open>pcie_memcpy\<close> of one entry, unless it was assigned before and stays valid.\<close>

definition put_entry :: "bool \<Rightarrow> u8 \<Rightarrow> u64 \<Rightarrow> u64 \<Rightarrow> (u64 \<Rightarrow> u64) \<Rightarrow> u64 \<Rightarrow> u64" where
  "put_entry found entry_valid addr w m = (if \<not> found \<or> entry_valid = 0 then m(addr := w) else m)"

definition mk_pc :: "u8 \<Rightarrow> u8 \<Rightarrow> u64 \<Rightarrow> u64 \<Rightarrow> u64" where
  "mk_pc entry_valid sz pr_base pd_base = pc_context \<lparr>pc_valid = ucast entry_valid, pc_unmap_flag = 0, pc_reserved0 = 0,
     page_size_flag = (if 5 \<le> sz then 1 else 0), pr_base_addr = (if 5 \<le> sz then pd_base else pr_base), pc_reserved1 = 0\<rparr>"

definition mk_pr :: "u8 \<Rightarrow> u64 \<Rightarrow> u64" where
  "mk_pr entry_valid pd_base = pr_context \<lparr>pr_valid = ucast entry_valid, pr_unmap_flag = 0, pr_reserved0 = 0,
     pd_base_addr = pd_base, pr_reserved1 = 0\<rparr>"

definition pd_desc :: "u8 \<Rightarrow> u8 \<Rightarrow> u64 \<Rightarrow> pd_desc_s" where
  "pd_desc entry_valid sz pt_base = \<lparr>pd_valid = ucast entry_valid, pd_unmap_flag = 0, pd_reserved0 = 0,
     pd_page_size = ucast sz, pt_base_addr = pt_base, pd_reserved1 = 0\<rparr>"

definition mk_pt :: "u8 \<Rightarrow> u8 \<Rightarrow> u64 \<Rightarrow> u64 \<Rightarrow> u64" where
  "mk_pt entry_valid sz pt_base pa_page = pt_context \<lparr>pt_valid = ucast entry_valid, pt_unmap_flag = 0, read_only = 0,
     cache_coherency = 0, continuous_length = 0, atomic_disable = 0, pt_reserved0 = 0, physical_page = pa_page,
     pt_reserved1 = 0, axcache = 0, meta_protect = 0, pt_reserved2 = 0\<rparr> (pd_desc entry_valid sz pt_base)"

definition gen_page_desc :: "u64 \<Rightarrow> u8 \<Rightarrow> u8 \<Rightarrow> u8 \<Rightarrow> u8 \<Rightarrow> mmu_state \<Rightarrow> mmu_state option" where
  "gen_page_desc vpage ctxt_id va_pool_index page_size entry_valid s =
    (if MMU_MAX_CTXT_NUM \<le> unat ctxt_id then None
     else let c = unat ctxt_id; v = unat va_pool_index;
       pc_base = drop_bit 12 MMU_PC_BASE_ADDR + ucast ctxt_id;
       pc_addr = entry_addr pc_base (drop_bit 27 vpage AND 0x1ff);
       (pr_base, pc_found, s) = pc_level c v pc_addr s;
       pr_addr = entry_addr pr_base (pr_index_of page_size vpage);
       (pd_base, pr_found, s) = pr_level c v pc_addr pr_addr s;
       pd_addr = entry_addr pd_base (pd_index_of page_size vpage);
       (pt_base, pd_found, s) = pd_level c v pd_addr s;
       pt_addr = entry_addr pt_base (pt_index_of page_size vpage);
       (pa_page, pt_found, s) = pt_level c v pt_addr s;
       m = put_entry pc_found entry_valid pc_addr (mk_pc entry_valid page_size pr_base pd_base) (tables s);
       m = (if page_size < 5 then put_entry pr_found entry_valid pr_addr (mk_pr entry_valid pd_base) m else m);
       m = put_entry pd_found entry_valid pd_addr (pd_context (pd_desc entry_valid page_size pt_base)) m;
       m = put_entry pt_found entry_valid pt_addr (mk_pt entry_valid page_size pt_base pa_page) m
     in Some (s\<lparr>tables := m\<rparr>))"

section \<open>Setting up the tables\<close>

definition clear_ass :: "(nat \<Rightarrow> nat \<Rightarrow> u64) \<Rightarrow> nat \<Rightarrow> nat \<Rightarrow> u64" where
  "clear_ass ass = fold (\<lambda>i a. fold (\<lambda>j a. upd2 a i j 0x8000000000000000) [0..<MMU_MAX_VA_POOL_NUM] a) [0..<MMU_MAX_CTXT_NUM] ass"

text \<open>The pool index is passed as a \<open>uint8_t\<close>.\<close>

fun gen_pages :: "nat \<Rightarrow> nat list \<Rightarrow> mmu_state \<Rightarrow> mmu_state option" where
  "gen_pages i [] s = Some s"
| "gen_pages i (j # js) s =
    Option.bind (gen_page_desc (va_pool s i j) (of_nat i) (of_nat j) (va_page_size s i j) 1 s) (gen_pages i js)"

fun gen_ctxts :: "nat list \<Rightarrow> mmu_state \<Rightarrow> mmu_state option" where
  "gen_ctxts [] s = Some s"
| "gen_ctxts (i # is) s = Option.bind (gen_pages i [0..<MMU_MAX_VA_POOL_NUM] s) (gen_ctxts is)"

definition setup_page_desc :: "mmu_state \<Rightarrow> mmu_state option" where
  "setup_page_desc s = (let a = clear_ass (pc_addr_ass s) in
     gen_ctxts [0..<MMU_MAX_CTXT_NUM] (s\<lparr>pc_addr_ass := a, pr_addr_ass := a, pd_addr_ass := a, pt_addr_ass := a\<rparr>))"

definition mmu_init_pagetable :: "u64 \<Rightarrow> mmu_state \<Rightarrow> mmu_state option" where
  "mmu_init_pagetable va_size s = setup_page_desc (gen_pa_pool (gen_va_pool va_size (gen_va_page_size s)))"

definition pcie_mmu_cfg_init :: "u8 \<Rightarrow> ioaddr \<Rightarrow> unit io" where
  "pcie_mmu_cfg_init ctxt_id vaddr =
    (let pc_base = drop_bit 12 MMU_PC_BASE_ADDR + ucast ctxt_id;
         wdata = push_bit 63 0 OR push_bit 48 1 OR pc_base in do {
     _ \<leftarrow> writel (ucast (wdata AND 0xffffffff)) (io_off vaddr 0x2c0400);
     writel (ucast (drop_bit 32 wdata)) (io_off vaddr 0x2c0404) })"

definition pcie_mmu_init :: "u64 \<Rightarrow> ioaddr \<Rightarrow> mmu_state \<Rightarrow> (mmu_state option) io" where
  "pcie_mmu_init va_size reg_vaddr s = (let r = mmu_init_pagetable va_size s in
     (case r of None \<Rightarrow> State_Monad.return None
      | Some s' \<Rightarrow> do { _ \<leftarrow> pcie_mmu_cfg_init 0 reg_vaddr; State_Monad.return (Some s') }))"

end
