(* ===== verification/MmuProps.thy ===== *)
theory MmuProps
  imports Mmu
begin

text \<open>
  What the page tables translate.  \<open>mmu_walk\<close> reads the tables by the layout of
  the descriptors; one page entered into empty tables is translated to its
  physical page for every page size; after the whole set-up only 64 of the 16384
  pages are translated, all to one physical page.
\<close>

section \<open>Walking the tables\<close>

definition base_of :: "u64 \<Rightarrow> u64" where
  "base_of w = drop_bit 12 w AND 0xfffffffff"

definition mmu_walk :: "(u64 \<Rightarrow> u64) \<Rightarrow> u8 \<Rightarrow> u64 \<Rightarrow> u64 option" where
  "mmu_walk m ctxt vp =
    (let pc = m (entry_addr (drop_bit 12 MMU_PC_BASE_ADDR + ucast ctxt) (drop_bit 27 vp AND 0x1ff));
         big = drop_bit 9 pc AND 7 \<noteq> 0; pr = m (entry_addr (base_of pc) (pr_index_of 0 vp));
         pdb = (if big then base_of pc else base_of pr);
         pd = m (entry_addr pdb (pd_index_of (if big then 5 else 0) vp));
         pt = m (entry_addr (base_of pd) (pt_index_of (ucast (drop_bit 9 pd AND 7)) vp))
     in if bit pc 0 \<and> (big \<or> bit pr 0) \<and> bit pd 0 \<and> bit pt 0 then Some (base_of pt) else None)"

section \<open>Fields of the descriptors\<close>

lemma and_masks: "(w :: u64) AND 0x1 = take_bit 1 w" "w AND 0x7 = take_bit 3 w" "w AND 0xfffffffff = take_bit 36 w"
proof -
  have "(0x7 :: u64) = mask 3" "(0xfffffffff :: u64) = mask 36" "(1 :: u64) = mask 1" by (simp_all add: mask_eq_exp_minus_1)
  then show "w AND 0x1 = take_bit 1 w" "w AND 0x7 = take_bit 3 w" "w AND 0xfffffffff = take_bit 36 w"
    by (simp_all only: take_bit_eq_mask)
qed

lemma mk_fields:
  "base_of (mk_pc 1 sz r d) = take_bit 36 (if 5 \<le> sz then d else r)" "bit (mk_pc 1 sz r d) 0"
  "drop_bit 9 (mk_pc 1 sz r d) AND 7 = (if 5 \<le> sz then 1 else 0)"
  "base_of (mk_pr 1 d) = take_bit 36 d" "bit (mk_pr 1 d) 0"
  "base_of (pd_context (pd_desc 1 sz t)) = take_bit 36 t" "bit (pd_context (pd_desc 1 sz t)) 0"
  "drop_bit 9 (pd_context (pd_desc 1 sz t)) AND 7 = take_bit 3 (ucast sz)"
  "base_of (mk_pt 1 sz t p) = take_bit 36 p" "bit (mk_pt 1 sz t p) 0"
  unfolding base_of_def mk_pc_def pc_context_def mk_pr_def pr_context_def pd_context_def pd_desc_def mk_pt_def pt_context_def
  by (auto intro!: bit_word_eqI simp: and_masks bit_simps bit_1_iff)

section \<open>Addresses of entries\<close>

lemma uint_less_64: "uint (w :: u64) < 18446744073709551616"
  using unsigned_less[of w, where ?'a = int] by simp

lemma uint_entry_addr:
  assumes "b < 0x1000000000" "k < 0x200"
  shows "uint (entry_addr b k) = uint b * 4096 + uint k * 8"
proof -
  have "uint b < 0x1000000000" "uint k < 0x200" using assms by (simp_all add: word_less_def)
  moreover have "0 \<le> uint b" "0 \<le> uint k" by simp_all
  ultimately show ?thesis by (simp add: entry_addr_def push_bit_eq_mult uint_word_ariths)
qed

lemma entry_addr_eq:
  assumes "b < 0x1000000000" "k < 0x200" "b' < 0x1000000000" "k' < 0x200"
  shows "entry_addr b k = entry_addr b' k' \<longleftrightarrow> b = b' \<and> k = k'"
proof
  assume "entry_addr b k = entry_addr b' k'"
  then have "uint b * 4096 + uint k * 8 = uint b' * 4096 + uint k' * 8"
    using uint_entry_addr[OF assms(1,2)] uint_entry_addr[OF assms(3,4)] by simp
  moreover have "uint k < 0x200" "uint k' < 0x200" using assms by (simp_all add: word_less_def)
  moreover have "0 \<le> uint k" "0 \<le> uint k'" by simp_all
  ultimately have "uint b = uint b' \<and> uint k * 8 = uint k' * 8" by (intro digits[where m = 4096]) linarith+
  then show "b = b' \<and> k = k'" by (simp add: word_uint_eq_iff)
qed simp

definition UNASSIGNED :: u64 where "UNASSIGNED = 0x8000000000000000"

lemma entry_not_unassigned:
  assumes "b < 0x1000000000" "k < 0x200"
  shows "entry_addr b k \<noteq> UNASSIGNED"
proof
  assume "entry_addr b k = UNASSIGNED"
  then have "uint b * 4096 + uint k * 8 = 0x8000000000000000" using uint_entry_addr[OF assms] by (simp add: UNASSIGNED_def)
  moreover have "uint b < 0x1000000000" "uint k < 0x200" using assms by (simp_all add: word_less_def)
  ultimately show False by simp
qed

lemma and_small: "(w :: u64) AND 0x1ff < 0x200" "(w :: u64) AND 0xff < 0x200" "(w :: u64) AND 0x7f < 0x200"
  "(w :: u64) AND 0x1f < 0x200" "(w :: u64) AND 0x7 < 0x200" "(w :: u64) AND 0x1 < 0x200"
  by (rule order.strict_trans1[OF word_and_le1], simp)+

lemma index_small [simp]: "pr_index_of sz w < 0x200" "pd_index_of sz w < 0x200" "pt_index_of sz w < 0x200"
  using and_small by (simp_all add: pr_index_of_def pd_index_of_def pt_index_of_def)

section \<open>One page into empty tables\<close>

text \<open>No entry has been assigned.\<close>

definition unassigned :: "mmu_state \<Rightarrow> bool" where
  "unassigned s \<longleftrightarrow> (\<forall>i j. pc_addr_ass s i j = UNASSIGNED \<and> pr_addr_ass s i j = UNASSIGNED \<and>
     pd_addr_ass s i j = UNASSIGNED \<and> pt_addr_ass s i j = UNASSIGNED)"

lemma find_addr_none: "(\<And>i j. i \<le> c \<Longrightarrow> j \<le> v \<Longrightarrow> ass i j \<noteq> a) \<Longrightarrow> find_addr ass c v a = None"
  by (simp add: find_addr_def find_None_iff less_Suc_eq_le del: upt_Suc)

lemma put_unfound [simp]: "put_entry False ev a w m = m(a := w)"
  by (simp add: put_entry_def)

lemma take_bit_36: "(b :: u64) < 0x1000000000 \<Longrightarrow> take_bit 36 b = b"
  by (simp add: word_uint_eq_iff unsigned_take_bit_eq take_bit_eq_mod uint_mod word_less_def)

lemma size_field: "sz < 8 \<Longrightarrow> ucast (take_bit 3 (ucast sz :: u64)) = (sz :: u8)"
proof -
  assume "sz < 8"
  then have "uint sz < 8" by (simp add: word_less_def)
  then show ?thesis by (simp add: word_uint_eq_iff unsigned_ucast_eq uint_mod take_bit_eq_mod)
qed

text \<open>C16. A page entered into tables in which nothing is assigned yet is found by walking the tables: for every
  virtual page and every one of the eight page sizes, the walk ends at the physical page of
  the pool, provided the three tables taken from the pool are different pages of 36 bits.\<close>

theorem gen_page_desc_maps_page:
  assumes "unassigned s" "sz < 8"
    and "p0 = pa_pool s 0 (unat v * 4)" "p1 = pa_pool s 0 (unat v * 4 + 1)" "p2 = pa_pool s 0 (unat v * 4 + 2)"
    and "distinct [0x800000, p0, p1, p2]" "p0 < 0x1000000000" "p1 < 0x1000000000" "p2 < 0x1000000000"
  shows "\<exists>s'. gen_page_desc vp 0 v sz 1 s = Some s' \<and> mmu_walk (tables s') 0 vp = Some (take_bit 36 (pa_pool s 0 (unat v * 4 + 3)))"
proof -
  let ?a0 = "entry_addr 0x800000 (drop_bit 27 vp AND 0x1ff)" and ?a1 = "entry_addr p0 (pr_index_of sz vp)"
    and ?a2 = "entry_addr p1 (pd_index_of sz vp)" and ?a3 = "entry_addr p2 (pt_index_of sz vp)"
    and ?m = "tables s" and ?p3 = "pa_pool s 0 (unat v * 4 + 3)"
  have none: "find_addr ass c w a = None" if "\<forall>i j. ass i j = UNASSIGNED" "a \<noteq> UNASSIGNED" for ass c w a
    by (rule find_addr_none) (use that in simp)
  have u: "\<forall>i j. pc_addr_ass s i j = UNASSIGNED" "\<forall>i j. pr_addr_ass s i j = UNASSIGNED"
    "\<forall>i j. pd_addr_ass s i j = UNASSIGNED" "\<forall>i j. pt_addr_ass s i j = UNASSIGNED"
    using assms(1) by (simp_all add: unassigned_def)
  have ne: "?a0 \<noteq> UNASSIGNED" "?a1 \<noteq> UNASSIGNED" "?a2 \<noteq> UNASSIGNED" "?a3 \<noteq> UNASSIGNED"
    using assms(7-9) and_small by (intro entry_not_unassigned; simp)+
  define m' where "m' = ((if sz < 5 then (?m(?a0 := mk_pc 1 sz p0 p1))(?a1 := mk_pr 1 p1) else ?m(?a0 := mk_pc 1 sz p0 p1))
      (?a2 := pd_context (pd_desc 1 sz p2)))(?a3 := mk_pt 1 sz p2 ?p3)"
  obtain s' where s': "gen_page_desc vp 0 v sz 1 s = Some s'" "tables s' = m'"
    using none[OF u(1) ne(1)] none[OF u(2) ne(2)] none[OF u(3) ne(3)] none[OF u(4) ne(4)]
    by (simp add: gen_page_desc_def pc_level_def pr_level_def pd_level_def pt_level_def Let_def mmu_consts
        assms(3-5) m'_def)
  have apart: "entry_addr b k \<noteq> entry_addr b' k'"
    if "b \<noteq> b'" "b \<in> {0x800000, p0, p1, p2}" "b' \<in> {0x800000, p0, p1, p2}" "k < 0x200" "k' < 0x200" for b k b' k'
    using entry_addr_eq[of b k b' k'] that assms(7-9) by auto
  have d: "p0 \<noteq> 0x800000" "p1 \<noteq> 0x800000" "p2 \<noteq> 0x800000" "p0 \<noteq> p1" "p0 \<noteq> p2" "p1 \<noteq> p2" using assms(6) by auto
  have ne': "?a0 \<noteq> ?a1" "?a0 \<noteq> ?a2" "?a0 \<noteq> ?a3" "?a1 \<noteq> ?a2" "?a1 \<noteq> ?a3" "?a2 \<noteq> ?a3"
    using d d[symmetric] and_small by (intro apart; simp)+
  have m0: "m' ?a0 = mk_pc 1 sz p0 p1" and m2: "m' ?a2 = pd_context (pd_desc 1 sz p2)" and m3: "m' ?a3 = mk_pt 1 sz p2 ?p3"
    and m1: "sz < 5 \<Longrightarrow> m' ?a1 = mk_pr 1 p1"
    using ne' by (simp_all add: m'_def)
  have i: "pr_index_of 0 vp = pr_index_of sz vp" "pd_index_of 0 vp = pd_index_of sz vp" if "sz < 5"
    using that by (simp_all add: pr_index_of_def pd_index_of_def)
  have i5: "pd_index_of 5 vp = pd_index_of sz vp" if "5 \<le> sz" using that by (simp add: pd_index_of_def not_less)
  have "mmu_walk m' 0 vp = Some (take_bit 36 ?p3)"
  proof (cases "sz < 5")
    case True
    then have "\<not> 5 \<le> sz" by simp
    then show ?thesis using m0 m1[OF True] m2 m3 i[OF True]
      by (simp add: mmu_walk_def Let_def mmu_consts mk_fields take_bit_36 assms(7-9) size_field[OF assms(2)])
  next
    case False
    then have "5 \<le> sz" by simp
    then show ?thesis using m0 m2 m3 i5
      by (simp add: mmu_walk_def Let_def mmu_consts mk_fields take_bit_36 assms(7-9) size_field[OF assms(2)])
  qed
  then show ?thesis using s' by simp
qed

definition demo_mmu :: mmu_state where
  "demo_mmu = \<lparr>va_pool = (\<lambda>i j. 0), va_page_size = (\<lambda>i j. 0), pa_pool = (\<lambda>i j. 0x900000 + of_nat j),
     pr_base_ass = (\<lambda>i j. 0), pd_base_ass = (\<lambda>i j. 0), pt_base_ass = (\<lambda>i j. 0), pa_page_ass = (\<lambda>i j. 0),
     pc_addr_ass = (\<lambda>i j. UNASSIGNED), pr_addr_ass = (\<lambda>i j. UNASSIGNED), pd_addr_ass = (\<lambda>i j. UNASSIGNED),
     pt_addr_ass = (\<lambda>i j. UNASSIGNED), tables = (\<lambda>a. 0)\<rparr>"

theorem gen_page_desc_maps_page_witness:
  "\<exists>s'. gen_page_desc 0x123456789 0 1 3 1 demo_mmu = Some s' \<and> mmu_walk (tables s') 0 0x123456789 = Some 0x900007"
  using gen_page_desc_maps_page[of demo_mmu 3 "0x900004" 1 "0x900005" "0x900006" "0x123456789"]
  by (simp add: unassigned_def demo_mmu_def)

section \<open>The pools\<close>

text \<open>Pages \<open>0x802000 + 4v\<close> and following of the pool serve pool index \<open>v\<close>.\<close>

definition pool_entry :: "nat \<Rightarrow> u64" where
  "pool_entry j = (if j mod 4 = 0 then 0x802000 + of_nat j else if j mod 4 = 1 then 0x804000 + of_nat j
     else if j mod 4 = 2 then 0x806000 + of_nat j else 0x400000 + of_nat (j div 4))"

lemma va_pool_fill:
  "fold (\<lambda>j (a, pool). (a + 1, upd2 pool 0 j a)) [0..<n] (a0, pool) =
    (a0 + of_nat n, \<lambda>i j. if i = 0 \<and> j < n then a0 + of_nat j else (pool i j :: u64))"
  by (induction n) (auto simp: fun_eq_iff upd2_apply less_Suc_eq ac_simps)

lemma size_fill: "fold (\<lambda>j sz. upd2 sz 0 j x) [0..<n] sz = (\<lambda>i j. if i = 0 \<and> j < n then x else sz i j)"
  by (induction n) (auto simp: fun_eq_iff upd2_apply less_Suc_eq)

lemma pa_pool_fill:
  assumes "\<And>j. j < n \<Longrightarrow> va_page_size s 0 (j div 4) = 0"
  shows "fold (pa_entry s 0) [0..<n] (0x400000, pool) =
    (0x400000 + of_nat (n div 4), \<lambda>i j. if i = 0 \<and> j < n then pool_entry j else pool i j)"
  using assms
proof (induction n)
  case (Suc n)
  have m: "n mod 4 = 0 \<or> n mod 4 = 1 \<or> n mod 4 = 2 \<or> n mod 4 = 3" by linarith
  have sz: "va_page_size s 0 (n div 4) = 0" using Suc.prems by simp
  have d: "Suc n div 4 = (if n mod 4 = 3 then Suc (n div 4) else n div 4)"
    by (simp add: div_Suc) presburger
  show ?case using Suc m
    by (auto simp: pa_entry_def Let_def pages_of_def pool_entry_def sz d mmu_consts fun_eq_iff upd2_apply less_Suc_eq)
qed simp

text \<open>The state in which the pages are entered.  The uninitialised variable of
  \<open>gen_va_pool\<close> is taken to select the step of 4 KB pages.\<close>

definition pools_ready :: "mmu_state \<Rightarrow> bool" where
  "pools_ready s \<longleftrightarrow> (\<forall>j < 0x4000. va_pool s 0 j = of_nat j \<and> va_page_size s 0 j = 0) \<and> (\<forall>j < 0x10000. pa_pool s 0 j = pool_entry j)"

lemma pools:
  assumes "pages_of va_size = 1"
  shows "pools_ready (gen_pa_pool (gen_va_pool va_size (gen_va_page_size s)))"
proof -
  let ?s = "gen_va_pool va_size (gen_va_page_size s)"
  have sz: "va_page_size ?s 0 j = 0" if "j < 0x4000" for j
    using that by (simp add: gen_va_pool_def gen_va_page_size_def mmu_consts size_fill)
  have va: "va_pool ?s 0 j = of_nat j" if "j < 0x4000" for j
    using that by (simp add: gen_va_pool_def mmu_consts assms va_pool_fill)
  have "pa_pool (gen_pa_pool ?s) 0 j = pool_entry j" if "j < 0x10000" for j
    using that sz by (simp add: gen_pa_pool_def mmu_consts pa_pool_fill)
  then show ?thesis using sz va by (simp add: pools_ready_def gen_pa_pool_def)
qed

section \<open>Entering all pages\<close>

definition PDB :: "nat \<Rightarrow> u64" where "PDB v = 0x804001 + of_nat (4 * v)"
definition PTB :: "nat \<Rightarrow> u64" where "PTB v = 0x806002 + of_nat (4 * v)"
definition PPN :: "nat \<Rightarrow> u64" where "PPN v = 0x400000 + of_nat v"
definition PC_ADDR :: u64 where "PC_ADDR = entry_addr 0x800000 0"
definition PR_ADDR :: u64 where "PR_ADDR = entry_addr 0x802000 0"
definition PD_ADDR :: "nat \<Rightarrow> nat \<Rightarrow> u64" where "PD_ADDR v k = entry_addr (PDB v) (of_nat k)"
definition PT_ADDR :: "nat \<Rightarrow> nat \<Rightarrow> u64" where "PT_ADDR v k = entry_addr (PTB v) (of_nat k)"
definition PD_WORD :: "nat \<Rightarrow> u64" where "PD_WORD v = pd_context (pd_desc 1 0 (PTB v))"
definition PT_WORD :: "nat \<Rightarrow> u64" where "PT_WORD v = mk_pt 1 0 (PTB v) (PPN v)"

lemma uint_bases:
  assumes "v < 256"
  shows "uint (PDB v) = 0x804001 + 4 * int v" "uint (PTB v) = 0x806002 + 4 * int v"
  using assms by (simp_all add: PDB_def PTB_def uint_word_ariths unsigned_of_nat take_bit_nat_eq_self)

lemma small_bases: "v < 256 \<Longrightarrow> PDB v < 0x1000000000" "v < 256 \<Longrightarrow> PTB v < 0x1000000000"
  using uint_bases[of v] by (simp_all add: word_less_def)

lemma base_eqs:
  assumes "v < 256" "v' < 256"
  shows "PDB v = PDB v' \<longleftrightarrow> v = v'" "PTB v = PTB v' \<longleftrightarrow> v = v'" "PDB v \<noteq> PTB v'" "PTB v \<noteq> PDB v'"
    "PDB v \<noteq> 0x800000" "PDB v \<noteq> 0x802000" "PTB v \<noteq> 0x800000" "PTB v \<noteq> 0x802000"
    "0x800000 \<noteq> PDB v" "0x802000 \<noteq> PDB v" "0x800000 \<noteq> PTB v" "0x802000 \<noteq> PTB v"
  using uint_bases[OF assms(1)] uint_bases[OF assms(2)] assms by (auto simp: word_uint_eq_iff)

lemma index_eq: "k < 512 \<Longrightarrow> k' < 512 \<Longrightarrow> (of_nat k :: u64) = of_nat k' \<longleftrightarrow> k = k'"
  by (simp add: word_unat_eq_iff unsigned_of_nat take_bit_nat_eq_self)

lemma index_less: "k < 512 \<Longrightarrow> (of_nat k :: u64) < 0x200"
  by (simp add: word_less_nat_alt unsigned_of_nat take_bit_nat_eq_self)

lemma addr_eqs:
  assumes "v < 256" "v' < 256" "k < 512" "k' < 512"
  shows "PD_ADDR v k = PD_ADDR v' k' \<longleftrightarrow> v = v' \<and> k = k'" "PT_ADDR v k = PT_ADDR v' k' \<longleftrightarrow> v = v' \<and> k = k'"
    "PD_ADDR v k \<noteq> PT_ADDR v' k'" "PT_ADDR v' k' \<noteq> PD_ADDR v k"
    "PD_ADDR v k \<noteq> PC_ADDR" "PD_ADDR v k \<noteq> PR_ADDR" "PT_ADDR v k \<noteq> PC_ADDR" "PT_ADDR v k \<noteq> PR_ADDR"
    "PC_ADDR \<noteq> PR_ADDR" "PD_ADDR v k \<noteq> UNASSIGNED" "PT_ADDR v k \<noteq> UNASSIGNED" "PC_ADDR \<noteq> UNASSIGNED" "PR_ADDR \<noteq> UNASSIGNED"
  using assms small_bases base_eqs index_less index_eq
  by (simp_all add: PD_ADDR_def PT_ADDR_def PC_ADDR_def PR_ADDR_def entry_addr_eq entry_not_unassigned)

text \<open>The memory after the first \<open>n\<close> pages.\<close>

fun mem_of :: "(u64 \<Rightarrow> u64) \<Rightarrow> nat \<Rightarrow> u64 \<Rightarrow> u64" where
  "mem_of m 0 = m"
| "mem_of m (Suc n) = (let v = n mod 256 in
    (mem_of m n)(PC_ADDR := mk_pc 1 0 0x802000 (PDB 0), PR_ADDR := mk_pr 1 (PDB v),
      PD_ADDR v (n div 512) := PD_WORD v, PT_ADDR v (n mod 512) := PT_WORD v))"

lemma mem_pd:
  assumes "v < 256" "k < 512" "n \<le> 0x4000"
  shows "mem_of m n (PD_ADDR v k) = (if \<exists>j < n. j mod 256 = v \<and> j div 512 = k then PD_WORD v else m (PD_ADDR v k))"
  using assms(3)
proof (induction n)
  case (Suc n)
  then have "n div 512 < 512" "n mod 512 < 512" "n mod 256 < 256" by simp_all
  then show ?case using Suc assms(1,2) by (auto simp: Let_def addr_eqs less_Suc_eq)
qed simp

lemma mem_pt:
  assumes "v < 256" "k < 512" "n \<le> 0x4000"
  shows "mem_of m n (PT_ADDR v k) = (if \<exists>j < n. j mod 256 = v \<and> j mod 512 = k then PT_WORD v else m (PT_ADDR v k))"
  using assms(3)
proof (induction n)
  case (Suc n)
  then have "n div 512 < 512" "n mod 512 < 512" "n mod 256 < 256" by simp_all
  then show ?case using Suc assms(1,2) by (auto simp: Let_def addr_eqs less_Suc_eq)
qed simp

lemma mem_pc_pr:
  assumes "0 < n" "n \<le> 0x4000"
  shows "mem_of m n PC_ADDR = mk_pc 1 0 0x802000 (PDB 0)" "mem_of m n PR_ADDR = mk_pr 1 (PDB ((n - 1) mod 256))"
proof -
  obtain k where k: "n = Suc k" using assms(1) gr0_implies_Suc by blast
  then have "k div 512 < 512" "k mod 512 < 512" "k mod 256 < 256" using assms(2) by simp_all
  then show "mem_of m n PC_ADDR = mk_pc 1 0 0x802000 (PDB 0)" "mem_of m n PR_ADDR = mk_pr 1 (PDB ((n - 1) mod 256))"
    using addr_eqs[of "k mod 256" 0 "k div 512" 0] addr_eqs[of "k mod 256" 0 "k mod 512" 0] by (simp_all add: k Let_def)
qed

lemma find_app: "find P (xs @ ys) = (case find P xs of None \<Rightarrow> find P ys | Some x \<Rightarrow> Some x)"
  by (induction xs) auto

lemma find_addr_last:
  assumes "\<And>w. w < v \<Longrightarrow> ass 0 w \<noteq> a"
  shows "find_addr ass 0 v a = (if ass 0 v = a then Some (0, v) else None)"
proof -
  have "find (\<lambda>p. ass (fst p) (snd p) = a) (map (Pair 0) [0..<v]) = None"
    using assms by (auto simp: find_None_iff)
  moreover have "List.product [0..<0 + 1] [0..<v + 1] = map (Pair 0) [0..<v] @ [(0, v)]" by simp
  ultimately show ?thesis by (simp add: find_addr_def find_app)
qed

lemma find_addr_first: "ass 0 0 = a \<Longrightarrow> find_addr ass 0 v a = Some (0, 0)"
  by (simp add: find_addr_def upt_conv_Cons del: upt_Suc)

text \<open>The two lower levels remember, for each pool index, the entry of the last page entered
  with it.  What they rely on: the entries of different indices and positions have different
  addresses, none of which is the mark of an unassigned one.\<close>

locale table_level =
  fixes addr :: "nat \<Rightarrow> nat \<Rightarrow> u64" and val :: "nat \<Rightarrow> u64" and idx :: "nat \<Rightarrow> nat"
  assumes addr_inj: "v < 256 \<Longrightarrow> v' < 256 \<Longrightarrow> k < 512 \<Longrightarrow> k' < 512 \<Longrightarrow> addr v k = addr v' k' \<longleftrightarrow> v = v' \<and> k = k'"
    and addr_assigned: "v < 256 \<Longrightarrow> k < 512 \<Longrightarrow> addr v k \<noteq> UNASSIGNED"
    and idx_small: "j < 0x4000 \<Longrightarrow> idx j < 512"
begin

definition known :: "nat \<Rightarrow> (nat \<Rightarrow> nat \<Rightarrow> u64) \<Rightarrow> (nat \<Rightarrow> nat \<Rightarrow> u64) \<Rightarrow> nat \<Rightarrow> bool" where
  "known n ass vals v \<longleftrightarrow> ass 0 v = UNASSIGNED \<or> (\<exists>j < n. j mod 256 = v \<and> ass 0 v = addr v (idx j) \<and> vals 0 v = val v)"

lemma known_Suc: "known n ass vals v \<Longrightarrow> known (Suc n) ass vals v"
  by (auto simp: known_def intro: less_SucI)

lemma known_assign: "known (Suc n) (upd2 ass 0 (n mod 256) (addr (n mod 256) (idx n))) (upd2 vals 0 (n mod 256) (val (n mod 256))) v \<longleftrightarrow>
    v = n mod 256 \<or> known (Suc n) ass vals v"
  by (auto simp: known_def upd2_apply)

lemma known_other:
  assumes "known n ass vals w" "w < 256" "v < 256" "w \<noteq> v" "k < 512" "n \<le> 0x4000"
  shows "ass 0 w \<noteq> addr v k"
  using assms(1) unfolding known_def
proof (elim disjE exE conjE)
  assume "ass 0 w = UNASSIGNED"
  then show ?thesis using addr_assigned[OF assms(3,5)] by simp
next
  fix j assume "j < n" "ass 0 w = addr w (idx j)"
  then show ?thesis using addr_inj[OF assms(2,3) idx_small assms(5)] assms(4,6) by simp
qed

lemma find_known:
  assumes "\<forall>w < 256. known n ass vals w" "n < 0x4000" "v = n mod 256"
  shows "find_addr ass 0 v (addr v (idx n)) = Some (0, v) \<and> vals 0 v = val v \<and> (\<exists>j < n. j mod 256 = v \<and> idx j = idx n) \<or>
    find_addr ass 0 v (addr v (idx n)) = None"
proof -
  have v: "v < 256" using assms(3) by simp
  note k = idx_small[OF assms(2)]
  have f: "find_addr ass 0 v (addr v (idx n)) = (if ass 0 v = addr v (idx n) then Some (0, v) else None)"
  proof (rule find_addr_last)
    fix w assume "w < v"
    then show "ass 0 w \<noteq> addr v (idx n)"
      using known_other[OF assms(1)[rule_format, of w] _ v _ k] v assms(2) by simp
  qed
  have "vals 0 v = val v \<and> (\<exists>j < n. j mod 256 = v \<and> idx j = idx n)" if e: "ass 0 v = addr v (idx n)"
  proof -
    have "ass 0 v \<noteq> UNASSIGNED" using e addr_assigned[OF v k] by simp
    then obtain j where j: "j < n" "j mod 256 = v" "ass 0 v = addr v (idx j)" "vals 0 v = val v"
      using assms(1) v by (auto simp: known_def)
    then have "idx j = idx n" using e addr_inj[OF v v idx_small k, of j] assms(2) by simp
    then show ?thesis using j by auto
  qed
  then show ?thesis using f by simp
qed

end

interpretation pd: table_level PD_ADDR PTB "\<lambda>j. j div 512"
  by unfold_locales (simp_all add: addr_eqs)

interpretation pt: table_level PT_ADDR PPN "\<lambda>j. j mod 512"
  by unfold_locales (simp_all add: addr_eqs)

text \<open>What holds between two pages.\<close>

definition mmu_inv :: "(u64 \<Rightarrow> u64) \<Rightarrow> nat \<Rightarrow> mmu_state \<Rightarrow> bool" where
  "mmu_inv m n s \<longleftrightarrow> pools_ready s \<and> tables s = mem_of m n \<and> n \<le> 0x4000 \<and>
     pc_addr_ass s 0 0 = (if n = 0 then UNASSIGNED else PC_ADDR) \<and> (0 < n \<longrightarrow> pr_base_ass s 0 0 = 0x802000) \<and>
     (\<forall>v < 256. pr_addr_ass s 0 v \<in> {UNASSIGNED, PC_ADDR}) \<and>
     (\<forall>v < 256. pd.known n (pd_addr_ass s) (pt_base_ass s) v) \<and> (\<forall>v < 256. pt.known n (pt_addr_ass s) (pa_page_ass s) v)"

lemma pool_bases:
  assumes "pools_ready s" "v < 256"
  shows "pa_pool s 0 (v * 4 + 1) = PDB v" "pa_pool s 0 (v * 4 + 2) = PTB v" "pa_pool s 0 (v * 4 + 3) = PPN v" "pa_pool s 0 0 = 0x802000"
proof -
  have "pool_entry (v * 4 + 1) = PDB v" "pool_entry (v * 4 + 2) = PTB v" "pool_entry (v * 4 + 3) = PPN v" "pool_entry 0 = 0x802000"
    by (simp_all add: pool_entry_def PDB_def PTB_def PPN_def mod_Suc mult.commute)
  then show "pa_pool s 0 (v * 4 + 1) = PDB v" "pa_pool s 0 (v * 4 + 2) = PTB v" "pa_pool s 0 (v * 4 + 3) = PPN v" "pa_pool s 0 0 = 0x802000"
    using assms by (simp_all add: pools_ready_def)
qed

lemma indices:
  assumes "n < 0x4000"
  shows "drop_bit 27 (of_nat n :: u64) AND 0x1ff = 0" "pr_index_of 0 (of_nat n) = 0"
    "pd_index_of 0 (of_nat n) = of_nat (n div 512)" "pt_index_of 0 (of_nat n) = of_nat (n mod 512)"
proof -
  have u: "uint (of_nat n :: u64) = int n" using assms by (simp add: unsigned_of_nat take_bit_nat_eq_self)
  have m: "(w :: u64) AND 0x1ff = take_bit 9 w" for w
    by (simp add: take_bit_eq_mask mask_eq_exp_minus_1)
  have "uint (of_nat k :: u64) = int k" if "k < 0x4000" for k using that by (simp add: unsigned_of_nat take_bit_nat_eq_self)
  then show "drop_bit 27 (of_nat n :: u64) AND 0x1ff = 0" "pr_index_of 0 (of_nat n) = 0"
    "pd_index_of 0 (of_nat n) = of_nat (n div 512)" "pt_index_of 0 (of_nat n) = of_nat (n mod 512)"
    using assms u
    by (simp_all add: pr_index_of_def pd_index_of_def pt_index_of_def m word_uint_eq_iff drop_bit_eq_div take_bit_eq_mod uint_div uint_mod
        zdiv_int zmod_int div_pos_pos_trivial)
qed

lemma put_known: "(found \<Longrightarrow> m a = w) \<Longrightarrow> put_entry found 1 a w m = m(a := w)"
  by (auto simp: put_entry_def)

lemma pc_step:
  assumes "mmu_inv m n s" "n < 0x4000"
  shows "\<exists>b s1. pc_level 0 (n mod 256) PC_ADDR s = (0x802000, b, s1) \<and> (b \<longrightarrow> 0 < n) \<and>
    s1 = s\<lparr>pc_addr_ass := pc_addr_ass s1, pr_base_ass := pr_base_ass s1\<rparr> \<and> pc_addr_ass s1 0 0 = PC_ADDR \<and> pr_base_ass s1 0 0 = 0x802000"
proof (cases "n = 0")
  case True
  then have "find_addr (pc_addr_ass s) 0 0 PC_ADDR = None"
    using assms(1) addr_eqs(12)[of 0 0 0 0] by (subst find_addr_last) (auto simp: mmu_inv_def)
  moreover have "pa_pool s 0 0 = 0x802000" using assms(1) pool_bases(4)[of s 0] by (simp add: mmu_inv_def)
  ultimately show ?thesis using True by (auto simp: pc_level_def Let_def upd2_apply)
next
  case False
  then have "find_addr (pc_addr_ass s) 0 (n mod 256) PC_ADDR = Some (0, 0)" "pr_base_ass s 0 0 = 0x802000" "pc_addr_ass s 0 0 = PC_ADDR"
    using assms(1) by (auto simp: mmu_inv_def intro!: find_addr_first)
  then show ?thesis using False by (auto simp: pc_level_def)
qed

lemma pr_step:
  assumes "pools_ready s" "\<forall>v < 256. pr_addr_ass s 0 v \<in> {UNASSIGNED, PC_ADDR}" "v < 256"
  shows "pr_level 0 v PC_ADDR PR_ADDR s =
    (PDB v, False, s\<lparr>pr_addr_ass := upd2 (pr_addr_ass s) 0 v PC_ADDR, pd_base_ass := upd2 (pd_base_ass s) 0 v (PDB v)\<rparr>)"
proof -
  have "pr_addr_ass s 0 w \<noteq> PR_ADDR" if "w \<le> v" for w
    using assms(2)[rule_format, of w] assms(3) that addr_eqs(9,13)[of 0 0 0 0] by auto
  then have "find_addr (pr_addr_ass s) 0 v PR_ADDR = None" by (subst find_addr_last) auto
  then show ?thesis using pool_bases(1)[OF assms(1,3)] by (simp add: pr_level_def Let_def)
qed

lemma pd_step:
  assumes "pools_ready s" "\<forall>w < 256. pd.known n (pd_addr_ass s) (pt_base_ass s) w" "n < 0x4000" "v = n mod 256"
  shows "\<exists>b s1. pd_level 0 v (PD_ADDR v (n div 512)) s = (PTB v, b, s1) \<and>
    (b \<longrightarrow> (\<exists>j < n. j mod 256 = v \<and> j div 512 = n div 512)) \<and>
    s1 = s\<lparr>pd_addr_ass := pd_addr_ass s1, pt_base_ass := pt_base_ass s1\<rparr> \<and>
    (\<forall>w < 256. pd.known (Suc n) (pd_addr_ass s1) (pt_base_ass s1) w)"
  using pd.find_known[OF assms(2-4)]
proof
  assume "find_addr (pd_addr_ass s) 0 v (PD_ADDR v (n div 512)) = Some (0, v) \<and> pt_base_ass s 0 v = PTB v \<and> (\<exists>j < n. j mod 256 = v \<and> j div 512 = n div 512)"
  then show ?thesis using assms(2) pd.known_Suc by (auto simp: pd_level_def)
next
  assume "find_addr (pd_addr_ass s) 0 v (PD_ADDR v (n div 512)) = None"
  then have "pd_level 0 v (PD_ADDR v (n div 512)) s = (PTB v, False,
      s\<lparr>pd_addr_ass := upd2 (pd_addr_ass s) 0 v (PD_ADDR v (n div 512)), pt_base_ass := upd2 (pt_base_ass s) 0 v (PTB v)\<rparr>)"
    using pool_bases(2)[OF assms(1), of v] assms(4) by (simp add: pd_level_def Let_def)
  moreover have "pd.known (Suc n) (upd2 (pd_addr_ass s) 0 v (PD_ADDR v (n div 512))) (upd2 (pt_base_ass s) 0 v (PTB v)) w" if "w < 256" for w
    unfolding assms(4) pd.known_assign using assms(2) that pd.known_Suc by simp
  ultimately show ?thesis by auto
qed

lemma pt_step:
  assumes "pools_ready s" "\<forall>w < 256. pt.known n (pt_addr_ass s) (pa_page_ass s) w" "n < 0x4000" "v = n mod 256"
  shows "\<exists>b s1. pt_level 0 v (PT_ADDR v (n mod 512)) s = (PPN v, b, s1) \<and>
    (b \<longrightarrow> (\<exists>j < n. j mod 256 = v \<and> j mod 512 = n mod 512)) \<and>
    s1 = s\<lparr>pt_addr_ass := pt_addr_ass s1, pa_page_ass := pa_page_ass s1\<rparr> \<and>
    (\<forall>w < 256. pt.known (Suc n) (pt_addr_ass s1) (pa_page_ass s1) w)"
  using pt.find_known[OF assms(2-4)]
proof
  assume "find_addr (pt_addr_ass s) 0 v (PT_ADDR v (n mod 512)) = Some (0, v) \<and> pa_page_ass s 0 v = PPN v \<and> (\<exists>j < n. j mod 256 = v \<and> j mod 512 = n mod 512)"
  then show ?thesis using assms(2) pt.known_Suc by (auto simp: pt_level_def)
next
  assume "find_addr (pt_addr_ass s) 0 v (PT_ADDR v (n mod 512)) = None"
  then have "pt_level 0 v (PT_ADDR v (n mod 512)) s = (PPN v, False,
      s\<lparr>pt_addr_ass := upd2 (pt_addr_ass s) 0 v (PT_ADDR v (n mod 512)), pa_page_ass := upd2 (pa_page_ass s) 0 v (PPN v)\<rparr>)"
    using pool_bases(3)[OF assms(1), of v] assms(4) by (simp add: pt_level_def Let_def)
  moreover have "pt.known (Suc n) (upd2 (pt_addr_ass s) 0 v (PT_ADDR v (n mod 512))) (upd2 (pa_page_ass s) 0 v (PPN v)) w" if "w < 256" for w
    unfolding assms(4) pt.known_assign using assms(2) that pt.known_Suc by simp
  ultimately show ?thesis by auto
qed

lemma mk_pc_small: "mk_pc 1 0 r d = mk_pc 1 0 r d'"
  by (simp add: mk_pc_def)

lemma page_step:
  assumes "mmu_inv m n s" "n < 0x4000"
  shows "\<exists>s'. gen_page_desc (va_pool s 0 n) 0 (of_nat n) (va_page_size s 0 n) 1 s = Some s' \<and> mmu_inv m (Suc n) s'"
proof -
  define v where "v = n mod 256"
  have v: "v < 256" "n div 512 < 512" "n mod 512 < 512" using assms(2) by (simp_all add: v_def)
  note inv = assms(1)[unfolded mmu_inv_def]
  have pools: "pools_ready s" "va_pool s 0 n = of_nat n" "va_page_size s 0 n = 0"
    using inv assms(2) by (simp_all add: pools_ready_def)
  have u: "unat (of_nat n :: u8) = v" by (simp add: v_def unsigned_of_nat take_bit_eq_mod)
  obtain b1 x1 y1 where 1: "pc_level 0 v PC_ADDR s = (0x802000, b1, s\<lparr>pc_addr_ass := x1, pr_base_ass := y1\<rparr>)"
      "b1 \<longrightarrow> 0 < n" "x1 0 0 = PC_ADDR" "y1 0 0 = 0x802000"
    using pc_step[OF assms] unfolding v_def by metis
  let ?s1 = "s\<lparr>pc_addr_ass := x1, pr_base_ass := y1\<rparr>"
  have r1: "pools_ready ?s1" using pools(1) by (simp add: pools_ready_def)
  let ?s2 = "?s1\<lparr>pr_addr_ass := upd2 (pr_addr_ass s) 0 v PC_ADDR, pd_base_ass := upd2 (pd_base_ass s) 0 v (PDB v)\<rparr>"
  have 2: "pr_level 0 v PC_ADDR PR_ADDR ?s1 = (PDB v, False, ?s2)"
    using pr_step[OF r1 _ v(1)] inv by simp
  have r2: "pools_ready ?s2" using r1 by (simp add: pools_ready_def)
  obtain b3 x3 y3 where 3: "pd_level 0 v (PD_ADDR v (n div 512)) ?s2 = (PTB v, b3, ?s2\<lparr>pd_addr_ass := x3, pt_base_ass := y3\<rparr>)"
      "b3 \<longrightarrow> (\<exists>j < n. j mod 256 = v \<and> j div 512 = n div 512)" "\<forall>w < 256. pd.known (Suc n) x3 y3 w"
    using pd_step[OF r2 _ assms(2) v_def] inv by simp metis
  let ?s3 = "?s2\<lparr>pd_addr_ass := x3, pt_base_ass := y3\<rparr>"
  have r3: "pools_ready ?s3" using r2 by (simp add: pools_ready_def)
  obtain b4 x4 y4 where 4: "pt_level 0 v (PT_ADDR v (n mod 512)) ?s3 = (PPN v, b4, ?s3\<lparr>pt_addr_ass := x4, pa_page_ass := y4\<rparr>)"
      "b4 \<longrightarrow> (\<exists>j < n. j mod 256 = v \<and> j mod 512 = n mod 512)" "\<forall>w < 256. pt.known (Suc n) x4 y4 w"
    using pt_step[OF r3 _ assms(2) v_def] inv by simp metis
  let ?m = "tables s" and ?pd = "PD_ADDR v (n div 512)" and ?pt = "PT_ADDR v (n mod 512)"
  have mem: "?m = mem_of m n" "n \<le> 0x4000" using inv by simp_all
  have e1: "put_entry b1 1 PC_ADDR (mk_pc 1 0 0x802000 (PDB v)) ?m = ?m(PC_ADDR := mk_pc 1 0 0x802000 (PDB 0))"
    using put_known[of b1 ?m PC_ADDR "mk_pc 1 0 0x802000 (PDB 0)"] 1(2) mem_pc_pr(1)[OF _ mem(2)] mk_pc_small[of "0x802000" "PDB v" "PDB 0"]
    by (simp add: mem(1))
  have e3: "put_entry b3 1 ?pd (PD_WORD v) (?m(PC_ADDR := a, PR_ADDR := b)) = ?m(PC_ADDR := a, PR_ADDR := b, ?pd := PD_WORD v)" for a b
    using 3(2) mem_pd[OF v(1,2) mem(2), of m] addr_eqs(5,6)[OF v(1) v(1) v(2) v(2)] by (intro put_known) (auto simp: mem(1))
  have e4: "put_entry b4 1 ?pt (PT_WORD v) (?m(PC_ADDR := a, PR_ADDR := b, ?pd := c)) = ?m(PC_ADDR := a, PR_ADDR := b, ?pd := c, ?pt := PT_WORD v)" for a b c
    using 4(2) mem_pt[OF v(1,3) mem(2), of m] addr_eqs(7,8)[OF v(1) v(1) v(3) v(3)] addr_eqs(4)[OF v(1) v(1) v(2) v(3)]
    by (intro put_known) (auto simp: mem(1))
  let ?s4 = "?s3\<lparr>pt_addr_ass := x4, pa_page_ass := y4\<rparr>"
  have "gen_page_desc (of_nat n) 0 (of_nat n) 0 1 s = Some (?s4\<lparr>tables := mem_of m (Suc n)\<rparr>)"
    using indices[OF assms(2)] 1(1) 2 3(1) 4(1) e1 e3 e4
    by (simp add: gen_page_desc_def mmu_consts u Let_def mem(1) v_def[symmetric]
        flip: PC_ADDR_def PR_ADDR_def PD_ADDR_def PT_ADDR_def PD_WORD_def PT_WORD_def)
  moreover have "mmu_inv m (Suc n) (?s4\<lparr>tables := mem_of m (Suc n)\<rparr>)"
    using r3 inv 1(3,4) 3(3) 4(3) assms(2) by (simp add: mmu_inv_def pools_ready_def upd2_apply del: mem_of.simps)
  ultimately show ?thesis using pools by auto
qed

lemma pages_run:
  assumes "mmu_inv m n s" "n \<le> 0x4000"
  shows "\<exists>s'. gen_pages 0 [n..<0x4000] s = Some s' \<and> mmu_inv m 0x4000 s'"
  using assms
proof (induction "0x4000 - n" arbitrary: n s)
  case 0
  then show ?case by simp
next
  case (Suc d)
  then have n: "n < 0x4000" "[n..<0x4000] = n # [Suc n..<0x4000]" by (simp_all add: upt_conv_Cons)
  have d: "d = 0x4000 - Suc n" using Suc.hyps(2) by simp
  obtain s1 where "gen_page_desc (va_pool s 0 n) 0 (of_nat n) (va_page_size s 0 n) 1 s = Some s1" "mmu_inv m (Suc n) s1"
    using page_step[OF Suc.prems(1) n(1)] by blast
  moreover from this obtain s2 where "gen_pages 0 [Suc n..<0x4000] s1 = Some s2" "mmu_inv m 0x4000 s2"
    using Suc.hyps(1)[OF d calculation(2)] n(1) by auto
  ultimately show ?case unfolding n(2) by simp
qed

lemma clear_ass_eq: "j < 0x4000 \<Longrightarrow> clear_ass ass 0 j = UNASSIGNED"
  by (simp add: clear_ass_def mmu_consts size_fill UNASSIGNED_def)

lemma init_run:
  assumes "pages_of va_size = 1"
  shows "\<exists>s'. mmu_init_pagetable va_size s = Some s' \<and> mmu_inv (tables s) 0x4000 s'"
proof -
  let ?s = "gen_pa_pool (gen_va_pool va_size (gen_va_page_size s))"
  let ?a = "clear_ass (pc_addr_ass ?s)"
  let ?s0 = "?s\<lparr>pc_addr_ass := ?a, pr_addr_ass := ?a, pd_addr_ass := ?a, pt_addr_ass := ?a\<rparr>"
  have t: "tables ?s = tables s" by (simp add: gen_pa_pool_def gen_va_pool_def gen_va_page_size_def)
  have "mmu_inv (tables s) 0 ?s0"
    using pools[OF assms, of s] by (simp add: mmu_inv_def pools_ready_def t clear_ass_eq pd.known_def pt.known_def)
  then obtain s' where "gen_pages 0 [0..<0x4000] ?s0 = Some s'" "mmu_inv (tables s) 0x4000 s'"
    using pages_run[of "tables s" 0 ?s0] by auto
  then show ?thesis by (simp add: mmu_init_pagetable_def setup_page_desc_def Let_def mmu_consts)
qed

lemma mem_frame:
  assumes "a \<noteq> PC_ADDR" "a \<noteq> PR_ADDR" "\<And>v k. v < 256 \<Longrightarrow> k < 512 \<Longrightarrow> a \<noteq> PD_ADDR v k \<and> a \<noteq> PT_ADDR v k" "n \<le> 0x4000"
  shows "mem_of m n a = m a"
  using assms(4)
proof (induction n)
  case (Suc n)
  then have "n div 512 < 512" "n mod 512 < 512" "n mod 256 < 256" by simp_all
  then show ?case using Suc assms(1,2) assms(3)[of "n mod 256" "n div 512"] assms(3)[of "n mod 256" "n mod 512"] by (simp add: Let_def)
qed simp

lemma mem_other_table:
  assumes "b \<in> {0x800000, 0x802000}" "k < 0x200" "k \<noteq> 0" "n \<le> 0x4000"
  shows "mem_of m n (entry_addr b k) = m (entry_addr b k)"
proof (rule mem_frame[OF _ _ _ assms(4)])
  have b: "b < 0x1000000000" using assms(1) by auto
  show "entry_addr b k \<noteq> PC_ADDR" "entry_addr b k \<noteq> PR_ADDR"
    using entry_addr_eq[OF b assms(2)] assms(3) by (simp_all add: PC_ADDR_def PR_ADDR_def)
  fix v j :: nat assume v: "v < 256" and j: "j < 512"
  then show "entry_addr b k \<noteq> PD_ADDR v j \<and> entry_addr b k \<noteq> PT_ADDR v j"
    using entry_addr_eq[OF b assms(2) small_bases(1)[OF v] index_less[OF j]] entry_addr_eq[OF b assms(2) small_bases(2)[OF v] index_less[OF j]]
      base_eqs[OF v v] assms(1)
    by (auto simp: PD_ADDR_def PT_ADDR_def)
qed

text \<open>The indices of the walk, as numbers.\<close>

lemma walk_indices:
  fixes vp :: u64
  shows "unat (drop_bit 27 vp AND 0x1ff) = unat vp div 0x8000000 mod 512" "unat (pr_index_of 0 vp) = unat vp div 0x40000 mod 512"
    "unat (pd_index_of 0 vp) = unat vp div 512 mod 512" "unat (pt_index_of 0 vp) = unat vp mod 512"
proof -
  have m: "(w :: u64) AND 0x1ff = take_bit 9 w" for w by (simp add: take_bit_eq_mask mask_eq_exp_minus_1)
  show "unat (drop_bit 27 vp AND 0x1ff) = unat vp div 0x8000000 mod 512" "unat (pr_index_of 0 vp) = unat vp div 0x40000 mod 512"
    "unat (pd_index_of 0 vp) = unat vp div 512 mod 512" "unat (pt_index_of 0 vp) = unat vp mod 512"
    by (simp_all add: m pr_index_of_def pd_index_of_def pt_index_of_def drop_bit_eq_div take_bit_eq_mod unat_div unat_mod)
qed

lemma low_byte: "k < 512 \<Longrightarrow> k mod 256 = 255 \<Longrightarrow> k = 255 \<or> k = (511 :: nat)"
  by (cases "k < 256") (auto simp: mod_if[of k] split: if_splits)

lemma walk_iff:
  assumes "n < (0x1000000000 :: nat)"
  shows "n < 0x4000 \<and> n mod 256 = 255 \<longleftrightarrow>
    n div 0x8000000 mod 512 = 0 \<and> n div 0x40000 mod 512 = 0 \<and> n div 512 mod 512 < 32 \<and> (n mod 512 = 255 \<or> n mod 512 = 511)"
proof
  assume a: "n < 0x4000 \<and> n mod 256 = 255"
  then have "n div 0x8000000 = 0" "n div 0x40000 = 0" "n div 512 < 32" by (simp_all add: less_mult_imp_div_less)
  moreover have "n mod 512 mod 256 = 255" using a by (subst mod_mod_cancel) simp_all
  then have "n mod 512 = 255 \<or> n mod 512 = 511" using low_byte[of "n mod 512"] by simp
  ultimately show "n div 0x8000000 mod 512 = 0 \<and> n div 0x40000 mod 512 = 0 \<and> n div 512 mod 512 < 32 \<and> (n mod 512 = 255 \<or> n mod 512 = 511)"
    by simp
next
  assume r: "n div 0x8000000 mod 512 = 0 \<and> n div 0x40000 mod 512 = 0 \<and> n div 512 mod 512 < 32 \<and> (n mod 512 = 255 \<or> n mod 512 = 511)"
  have lt: "n < q * k" if "n div q = i" "i < k" "0 < q" for q k i :: nat
    using that div_less_iff_less_mult[of q n k] by (simp add: mult.commute)
  have "n div 0x8000000 < 512" using assms by (simp add: less_mult_imp_div_less)
  then have 1: "n < 0x8000000 * 1" using r by (intro lt) auto
  then have "n div 0x40000 < 512" by (simp add: less_mult_imp_div_less)
  then have "n < 0x40000 * 1" using r by (intro lt) auto
  then have "n div 512 < 512" by (simp add: less_mult_imp_div_less)
  then have "n < 512 * 32" using r by (intro lt) auto
  then have "n < 0x4000" by simp
  moreover have "n mod 512 mod 256 = n mod 256" by (rule mod_mod_cancel) simp
  ultimately show "n < 0x4000 \<and> n mod 256 = 255" using r by auto
qed

text \<open>\<open>mmu_init_pagetable\<close> is meant to map the 16384 virtual pages from 0 to the
  physical pages from \<open>0x400000\<close>.  On cleared table memory it ends with tables that translate
  only the virtual pages below 16384 whose low eight bits are all ones, 64 pages, and all of
  them to the physical page \<open>0x4000ff\<close>: the pool index is passed as a byte, so each of its
  256 values is used 64 times; and because the second level records the address of the first
  level, its entry is never found again and every page replaces it by a table of its own.\<close>

theorem mmu_init_maps_one_page:
  assumes "pages_of va_size = 1" "tables s = (\<lambda>a. 0)"
  shows "\<exists>s'. mmu_init_pagetable va_size s = Some s' \<and>
    (\<forall>vp < 0x1000000000. mmu_walk (tables s') 0 vp = (if vp < 0x4000 \<and> vp mod 256 = 255 then Some 0x4000ff else None))"
proof -
  obtain s' where s': "mmu_init_pagetable va_size s = Some s'" "mmu_inv (\<lambda>a. 0) 0x4000 s'"
    using init_run[OF assms(1), of s] assms(2) by auto
  let ?m = "mem_of (\<lambda>a. 0) 0x4000"
  have t: "tables s' = ?m" using s'(2) by (simp add: mmu_inv_def)
  have pc: "?m PC_ADDR = mk_pc 1 0 0x802000 (PDB 0)" and pr: "?m PR_ADDR = mk_pr 1 (PDB 255)"
    using mem_pc_pr(1)[of "0x4000" "\<lambda>a. 0"] mem_pc_pr(2)[of "0x4000" "\<lambda>a. 0"] by (simp_all del: mem_of.simps)
  have other: "?m (entry_addr b k) = 0" if "b \<in> {0x800000, 0x802000}" "k < 0x200" "k \<noteq> 0" for b k
    using mem_other_table[OF that] by simp
  have ex: "(\<exists>j < 0x4000. j mod 256 = 255 \<and> j div 512 = k) \<longleftrightarrow> k < 32" for k :: nat
  proof
    assume "k < 32"
    then show "\<exists>j < 0x4000. j mod 256 = 255 \<and> j div 512 = k" by (intro exI[of _ "k * 512 + 255"]) (simp add: mod_add_left_eq[of "k * 512" 256, symmetric] mod_mult_right_eq)
  qed auto
  have ex': "(\<exists>j < 0x4000. j mod 256 = 255 \<and> j mod 512 = k) \<longleftrightarrow> k = 255 \<or> k = 511" if "k < 512" for k :: nat
  proof
    assume "\<exists>j < 0x4000. j mod 256 = 255 \<and> j mod 512 = k"
    then obtain j where j: "j mod 256 = 255" "j mod 512 = k" by blast
    then have "k mod 256 = 255" using mod_mod_cancel[of 256 512 j] by simp
    then show "k = 255 \<or> k = 511" by (rule low_byte[OF that])
  next
    assume "k = 255 \<or> k = 511"
    then show "\<exists>j < 0x4000. j mod 256 = 255 \<and> j mod 512 = k" by (intro exI[of _ k]) auto
  qed
  have pd: "?m (PD_ADDR 255 k) = (if k < 32 then PD_WORD 255 else 0)" if "k < 512" for k
    using mem_pd[of 255 k "0x4000" "\<lambda>a. 0"] ex[of k] that by simp
  have pt: "?m (PT_ADDR 255 k) = (if k = 255 \<or> k = 511 then PT_WORD 255 else 0)" if "k < 512" for k
    using mem_pt[of 255 k "0x4000" "\<lambda>a. 0"] ex'[OF that] that by simp
  have "mmu_walk ?m 0 vp = (if vp < 0x4000 \<and> vp mod 256 = 255 then Some 0x4000ff else None)" if vp: "vp < 0x1000000000" for vp
  proof -
    let ?n = "unat vp" and ?i0 = "drop_bit 27 vp AND 0x1ff"
    have u: "?n < 0x1000000000" using vp by (simp add: word_less_nat_alt)
    have goal: "vp < 0x4000 \<and> vp mod 256 = 255 \<longleftrightarrow> ?n < 0x4000 \<and> ?n mod 256 = 255"
      by (simp add: word_less_nat_alt word_unat_eq_iff unat_mod)
    have z: "w = 0 \<longleftrightarrow> unat w = 0" for w :: u64 by (simp add: word_unat_eq_iff)
    have k: "unat (pd_index_of 0 vp) < 512" "unat (pt_index_of 0 vp) < 512" using walk_indices(3,4)[of vp] by simp_all
    have pd': "?m (entry_addr (PDB 255) (pd_index_of 0 vp)) = (if unat (pd_index_of 0 vp) < 32 then PD_WORD 255 else 0)"
      using pd[OF k(1)] by (simp add: PD_ADDR_def)
    have pt': "?m (entry_addr (PTB 255) (pt_index_of 0 vp)) = (if unat (pt_index_of 0 vp) = 255 \<or> unat (pt_index_of 0 vp) = 511 then PT_WORD 255 else 0)"
      using pt[OF k(2)] by (simp add: PT_ADDR_def)
    have PC0: "?m (entry_addr 0x800000 ?i0) = (if ?i0 = 0 then mk_pc 1 0 0x802000 (PDB 0) else 0)"
      using other[of "0x800000" ?i0] pc and_small(1) by (auto simp: PC_ADDR_def)
    have PR0: "?m (entry_addr 0x802000 (pr_index_of 0 vp)) = (if pr_index_of 0 vp = 0 then mk_pr 1 (PDB 255) else 0)"
      using other[of "0x802000" "pr_index_of 0 vp"] pr by (auto simp: PR_ADDR_def)
    have b: "take_bit 36 (PDB 255) = PDB 255" "take_bit 36 (PTB 255) = PTB 255" "take_bit 36 (0x802000 :: u64) = 0x802000"
      using small_bases[of 255] by (simp_all add: take_bit_36)
    have "mmu_walk ?m 0 vp = (if ?i0 = 0 \<and> pr_index_of 0 vp = 0 \<and> unat (pd_index_of 0 vp) < 32 \<and>
        (unat (pt_index_of 0 vp) = 255 \<or> unat (pt_index_of 0 vp) = 511) then Some 0x4000ff else None)"
    proof (cases "?i0 = 0 \<and> pr_index_of 0 vp = 0")
      case True
      then have i: "?i0 = 0" "pr_index_of 0 vp = 0" by simp_all
      show ?thesis
        by (simp add: mmu_walk_def mmu_consts Let_def i PC0[unfolded i] PR0[unfolded i] mk_fields b pd' PD_WORD_def pt' PT_WORD_def del: mem_of.simps)
          (simp add: PPN_def take_bit_36)
    next
      case False
      then show ?thesis by (auto simp: mmu_walk_def mmu_consts Let_def PC0 PR0 mk_fields b simp del: mem_of.simps)
    qed
    then show ?thesis unfolding goal walk_iff[OF u] z by (simp only: walk_indices)
  qed
  then show ?thesis using s'(1) t by auto
qed

theorem mmu_init_maps_one_page_witness:
  "\<exists>s'. mmu_init_pagetable 0 demo_mmu = Some s' \<and> mmu_walk (tables s') 0 0 = None \<and> mmu_walk (tables s') 0 0x1ff = Some 0x4000ff"
proof -
  have "pages_of 0 = 1" "tables demo_mmu = (\<lambda>a. 0)" by (simp_all add: pages_of_def demo_mmu_def)
  from mmu_init_maps_one_page[OF this] show ?thesis by auto
qed

end
