(* ===== verification/Pcie.thy ===== *)
theory Pcie
  imports MtdmaBare
begin

text \<open>
  The state of a PCIe function (\<open>struct emu_pcie\<close> of \<open>src/driver/mt-emu.h\<close>), the
  programming of the address-translation unit (\<open>pcie_prog_inbound_atu\<close> and the
  others of \<open>mt-emu.h\<close>), and the address-translation tables of the virtual
  functions (\<open>src/driver/eata_api.c\<close>).  Registers are reached through BAR 0.
\<close>

section \<open>State\<close>

definition MT_EMU_TYPE_GPU :: u32 where "MT_EMU_TYPE_GPU = 0"
definition MT_EMU_TYPE_APU :: u32 where "MT_EMU_TYPE_APU = 1"
definition MT_EMU_TYPE_VGPU :: u32 where "MT_EMU_TYPE_VGPU = 2"

lemmas emu_types = MT_EMU_TYPE_GPU_def MT_EMU_TYPE_APU_def MT_EMU_TYPE_VGPU_def

record emu_region =
  rg_paddr :: u64
  rg_base :: ioaddr
  rg_size :: u64

text \<open>The completions are counters; the mutexes and spin locks are not modelled, a
  handler or system call being one step.\<close>

record emu_pcie =
  ep_type :: u32
  devfn :: u32
  vf_num :: int
  ep_bare :: dma_bare
  region :: "emu_region list"
  mtdma_comm_vaddr :: ioaddr
  irq_type :: u32
  irq_test_mode :: u32
  vec_num :: u32
  irq_vector :: int
  isr_dmabare :: bool
  irq_allocated :: "bool list"
  ep_int_done :: "nat list"

definition bar_addr :: "emu_pcie \<Rightarrow> nat \<Rightarrow> ioaddr" where
  "bar_addr ep b = rg_base (region ep ! b)"

definition sreg_u32 :: "emu_pcie \<Rightarrow> u64 \<Rightarrow> u32 \<Rightarrow> unit io" where
  "sreg_u32 ep addr v = writel v (io_off (bar_addr ep 0) addr)"

definition greg_u32 :: "hardware \<Rightarrow> emu_pcie \<Rightarrow> u64 \<Rightarrow> u32 io" where
  "greg_u32 hw ep addr = readl hw (io_off (bar_addr ep 0) addr)"

lemmas [mmio_simps] = sreg_u32_def greg_u32_def

lemma emits_sreg [emits_intros]: "emits (sreg_u32 ep a v) [(io_off (bar_addr ep 0) a, v)]"
  by (simp add: emits_def mmio_simps)

lemma emits_greg [emits_intros]: "emits (greg_u32 hw ep a) []"
  by (simp add: emits_def mmio_simps)

section \<open>The address-translation unit\<close>

definition PCIE_CTRL_CFG_BASE :: u64 where "PCIE_CTRL_CFG_BASE = 0x200000"
definition REG_PCIE_IP_IATU :: "u8 \<Rightarrow> u64 \<Rightarrow> u64 \<Rightarrow> u64" where
  "REG_PCIE_IP_IATU rgn inb addr = PCIE_CTRL_CFG_BASE + 0x1e0000 + (push_bit 9 (ucast rgn) OR push_bit 8 inb OR addr)"

definition PCIE_ATU_INCREASE_REGION_SIZE :: u32 where "PCIE_ATU_INCREASE_REGION_SIZE = 0x2000"
definition PCIE_ATU_ENABLE :: u32 where "PCIE_ATU_ENABLE = 0x80000000"
definition PCIE_ATU_BAR_MODE_ENABLE :: u32 where "PCIE_ATU_BAR_MODE_ENABLE = 0x40000000"
definition PCIE_ATU_DMA_BYPASS :: u32 where "PCIE_ATU_DMA_BYPASS = 0x8000000"
definition PCIE_ATU_VFBAR_MODE_ENABLE :: u32 where "PCIE_ATU_VFBAR_MODE_ENABLE = 0x4000000"
definition PCIE_ATU_VFMATCH_ENABLE :: u32 where "PCIE_ATU_VFMATCH_ENABLE = 0x100000"
definition PCIE_ATU_FUNC_NUM_MATCH_EN :: u32 where "PCIE_ATU_FUNC_NUM_MATCH_EN = 0x80000"
definition PCIE_ATU_UNR_REGION_CTRL1 :: u64 where "PCIE_ATU_UNR_REGION_CTRL1 = 0x00"
definition PCIE_ATU_UNR_REGION_CTRL2 :: u64 where "PCIE_ATU_UNR_REGION_CTRL2 = 0x04"
definition PCIE_ATU_UNR_LOWER_BASE :: u64 where "PCIE_ATU_UNR_LOWER_BASE = 0x08"
definition PCIE_ATU_UNR_UPPER_BASE :: u64 where "PCIE_ATU_UNR_UPPER_BASE = 0x0C"
definition PCIE_ATU_UNR_LOWER_LIMIT :: u64 where "PCIE_ATU_UNR_LOWER_LIMIT = 0x10"
definition PCIE_ATU_UNR_LOWER_TARGET :: u64 where "PCIE_ATU_UNR_LOWER_TARGET = 0x14"
definition PCIE_ATU_UNR_UPPER_TARGET :: u64 where "PCIE_ATU_UNR_UPPER_TARGET = 0x18"
definition PCIE_ATU_UNR_REGION_CTRL3 :: u64 where "PCIE_ATU_UNR_REGION_CTRL3 = 0x1C"
definition PCIE_ATU_UNR_UPPER_LIMIT :: u64 where "PCIE_ATU_UNR_UPPER_LIMIT = 0x20"

lemmas atu_regs = PCIE_ATU_UNR_REGION_CTRL1_def PCIE_ATU_UNR_REGION_CTRL2_def PCIE_ATU_UNR_LOWER_BASE_def
  PCIE_ATU_UNR_UPPER_BASE_def PCIE_ATU_UNR_LOWER_LIMIT_def PCIE_ATU_UNR_LOWER_TARGET_def
  PCIE_ATU_UNR_UPPER_TARGET_def PCIE_ATU_UNR_REGION_CTRL3_def PCIE_ATU_UNR_UPPER_LIMIT_def

definition pcie_prog_inbound_atu :: "hardware \<Rightarrow> emu_pcie \<Rightarrow> u8 \<Rightarrow> u8 \<Rightarrow> u8 \<Rightarrow> u64 \<Rightarrow> unit io" where
  "pcie_prog_inbound_atu hw ep index func bar local_addr = do {
     _ \<leftarrow> sreg_u32 ep (REG_PCIE_IP_IATU index 1 PCIE_ATU_UNR_LOWER_TARGET) (lower_32_bits local_addr);
     _ \<leftarrow> sreg_u32 ep (REG_PCIE_IP_IATU index 1 PCIE_ATU_UNR_UPPER_TARGET) (upper_32_bits local_addr);
     _ \<leftarrow> sreg_u32 ep (REG_PCIE_IP_IATU index 1 PCIE_ATU_UNR_REGION_CTRL1)
            (PCIE_ATU_INCREASE_REGION_SIZE OR push_bit 20 (ucast func));
     _ \<leftarrow> sreg_u32 ep (REG_PCIE_IP_IATU index 1 PCIE_ATU_UNR_REGION_CTRL2)
            (PCIE_ATU_ENABLE OR PCIE_ATU_BAR_MODE_ENABLE OR PCIE_ATU_FUNC_NUM_MATCH_EN OR push_bit 8 (ucast bar));
     _ \<leftarrow> greg_u32 hw ep (REG_PCIE_IP_IATU index 1 PCIE_ATU_UNR_REGION_CTRL2);
     pass }"

definition pcie_prog_inbound_atu_vf :: "hardware \<Rightarrow> emu_pcie \<Rightarrow> u8 \<Rightarrow> u8 \<Rightarrow> u8 \<Rightarrow> u64 \<Rightarrow> unit io" where
  "pcie_prog_inbound_atu_vf hw ep index func bar local_addr = do {
     _ \<leftarrow> sreg_u32 ep (REG_PCIE_IP_IATU index 1 PCIE_ATU_UNR_LOWER_TARGET) (lower_32_bits local_addr);
     _ \<leftarrow> sreg_u32 ep (REG_PCIE_IP_IATU index 1 PCIE_ATU_UNR_UPPER_TARGET) (upper_32_bits local_addr);
     _ \<leftarrow> sreg_u32 ep (REG_PCIE_IP_IATU index 1 PCIE_ATU_UNR_REGION_CTRL1) 0;
     _ \<leftarrow> sreg_u32 ep (REG_PCIE_IP_IATU index 1 PCIE_ATU_UNR_REGION_CTRL3) (ucast func);
     _ \<leftarrow> sreg_u32 ep (REG_PCIE_IP_IATU index 1 PCIE_ATU_UNR_REGION_CTRL2)
            (PCIE_ATU_ENABLE OR PCIE_ATU_VFBAR_MODE_ENABLE OR PCIE_ATU_VFMATCH_ENABLE OR push_bit 8 (ucast bar));
     _ \<leftarrow> greg_u32 hw ep (REG_PCIE_IP_IATU index 1 PCIE_ATU_UNR_REGION_CTRL2);
     pass }"

definition pcie_prog_inbound_atu_vf_seperate :: "hardware \<Rightarrow> emu_pcie \<Rightarrow> u8 \<Rightarrow> u8 \<Rightarrow> u8 \<Rightarrow> u64 \<Rightarrow> unit io" where
  "pcie_prog_inbound_atu_vf_seperate hw ep index func bar local_addr = do {
     _ \<leftarrow> sreg_u32 ep (REG_PCIE_IP_IATU index 1 PCIE_ATU_UNR_LOWER_TARGET) (lower_32_bits local_addr);
     _ \<leftarrow> sreg_u32 ep (REG_PCIE_IP_IATU index 1 PCIE_ATU_UNR_UPPER_TARGET) (upper_32_bits local_addr);
     _ \<leftarrow> sreg_u32 ep (REG_PCIE_IP_IATU index 1 PCIE_ATU_UNR_REGION_CTRL1) PCIE_ATU_INCREASE_REGION_SIZE;
     _ \<leftarrow> sreg_u32 ep (REG_PCIE_IP_IATU index 1 PCIE_ATU_UNR_REGION_CTRL3) (ucast func);
     _ \<leftarrow> sreg_u32 ep (REG_PCIE_IP_IATU index 1 PCIE_ATU_UNR_REGION_CTRL2)
            (PCIE_ATU_ENABLE OR PCIE_ATU_BAR_MODE_ENABLE OR PCIE_ATU_VFMATCH_ENABLE OR PCIE_ATU_FUNC_NUM_MATCH_EN
             OR push_bit 8 (ucast bar));
     _ \<leftarrow> greg_u32 hw ep (REG_PCIE_IP_IATU index 1 PCIE_ATU_UNR_REGION_CTRL2);
     pass }"

definition pcie_prog_outbound_atu :: "hardware \<Rightarrow> emu_pcie \<Rightarrow> u8 \<Rightarrow> u8 \<Rightarrow> u64 \<Rightarrow> u64 \<Rightarrow> u64 \<Rightarrow> unit io" where
  "pcie_prog_outbound_atu hw ep index func local_addr remote_addr sz =
    (let limit_addr = local_addr + sz - 1 in do {
     _ \<leftarrow> sreg_u32 ep (REG_PCIE_IP_IATU index 0 PCIE_ATU_UNR_LOWER_BASE) (lower_32_bits local_addr);
     _ \<leftarrow> sreg_u32 ep (REG_PCIE_IP_IATU index 0 PCIE_ATU_UNR_UPPER_BASE) (upper_32_bits local_addr);
     _ \<leftarrow> sreg_u32 ep (REG_PCIE_IP_IATU index 0 PCIE_ATU_UNR_LOWER_LIMIT) (lower_32_bits limit_addr);
     _ \<leftarrow> sreg_u32 ep (REG_PCIE_IP_IATU index 0 PCIE_ATU_UNR_UPPER_LIMIT) (upper_32_bits limit_addr);
     _ \<leftarrow> sreg_u32 ep (REG_PCIE_IP_IATU index 0 PCIE_ATU_UNR_LOWER_TARGET) (lower_32_bits remote_addr);
     _ \<leftarrow> sreg_u32 ep (REG_PCIE_IP_IATU index 0 PCIE_ATU_UNR_UPPER_TARGET) (upper_32_bits remote_addr);
     _ \<leftarrow> sreg_u32 ep (REG_PCIE_IP_IATU index 0 PCIE_ATU_UNR_REGION_CTRL1)
            (PCIE_ATU_INCREASE_REGION_SIZE OR push_bit 20 (ucast func));
     _ \<leftarrow> sreg_u32 ep (REG_PCIE_IP_IATU index 0 PCIE_ATU_UNR_REGION_CTRL2) (PCIE_ATU_ENABLE OR PCIE_ATU_DMA_BYPASS);
     _ \<leftarrow> greg_u32 hw ep (REG_PCIE_IP_IATU index 0 PCIE_ATU_UNR_REGION_CTRL2);
     pass })"

definition pcie_disable_inbound_atu :: "emu_pcie \<Rightarrow> u8 \<Rightarrow> unit io" where
  "pcie_disable_inbound_atu ep index = sreg_u32 ep (REG_PCIE_IP_IATU index 1 PCIE_ATU_UNR_REGION_CTRL2) 0"

definition pcie_disable_outbound_atu :: "emu_pcie \<Rightarrow> u8 \<Rightarrow> unit io" where
  "pcie_disable_outbound_atu ep index = sreg_u32 ep (REG_PCIE_IP_IATU index 0 PCIE_ATU_UNR_REGION_CTRL2) 0"

section \<open>The translation tables of the virtual functions\<close>

definition EATA_VF_NUM :: nat where "EATA_VF_NUM = 48"
definition EATA_DESC_NUM :: nat where "EATA_DESC_NUM = 48"
definition EATA_VF_NUM_PER_GPU :: nat where "EATA_VF_NUM_PER_GPU = 6"
definition EATA_DESC_VALID :: u64 where "EATA_DESC_VALID = 1"
definition EATA_DESC_SIZE :: u64 where "EATA_DESC_SIZE = push_bit 3 0xe"
definition EATA_DESC_DEST_ADDR :: "u64 \<Rightarrow> u64" where "EATA_DESC_DEST_ADDR dest = push_bit 22 (drop_bit 30 dest)"
definition EATA_DESC_IDX :: "u64 \<Rightarrow> u64" where "EATA_DESC_IDX src = drop_bit 30 src"
definition EATA_REG_OF_DESCx_VMn :: "u64 \<Rightarrow> nat \<Rightarrow> u64" where "EATA_REG_OF_DESCx_VMn base vm = base + of_nat vm * 0x100"

definition PCIE_DMA_EATA_TF_CFG_BASE :: u64 where "PCIE_DMA_EATA_TF_CFG_BASE = 0x880000"
definition PCIE_DMA_EATA_GC_CFG_BASE :: u64 where "PCIE_DMA_EATA_GC_CFG_BASE = 0x881000"
definition PCIE_DMA_EATA_DS_CFG_BASE :: u64 where "PCIE_DMA_EATA_DS_CFG_BASE = 0x884000"

definition VID_SS_EATA_TF_CFG_BASE :: "int \<Rightarrow> u64" where
  "VID_SS_EATA_TF_CFG_BASE i = (if i = 0 then 0x00a3a000 else if i = 1 then 0x00a42000 else 0)"

definition VID_SS_EATA_GC_CFG_BASE :: "int \<Rightarrow> u64" where
  "VID_SS_EATA_GC_CFG_BASE i = (if i = 0 then 0x00a3b000 else if i = 1 then 0x00a43000 else 0)"

definition VID_SS_EATA_DS_CFG_BASE :: "int \<Rightarrow> u64" where
  "VID_SS_EATA_DS_CFG_BASE i = (if i = 0 then 0x00a3c000 else if i = 1 then 0x00a44000 else 0)"

definition GPU_EATA_TF_CFG_BASE :: "int \<Rightarrow> u64" where
  "GPU_EATA_TF_CFG_BASE i =
    (if i = 0 then 0x00b02000 else if i = 1 then 0x00b0a000 else if i = 2 then 0x00b12000 else if i = 3 then 0x00b1a000 else 
     if i = 4 then 0x00b22000 else if i = 5 then 0x00b2a000 else if i = 6 then 0x00b32000 else 0x00b3a000)"

definition GPU_EATA_GC_CFG_BASE :: "int \<Rightarrow> u64" where
  "GPU_EATA_GC_CFG_BASE i =
    (if i = 0 then 0x00b03000 else if i = 1 then 0x00b0b000 else if i = 2 then 0x00b13000 else if i = 3 then 0x00b1b000 else 
     if i = 4 then 0x00b23000 else if i = 5 then 0x00b2b000 else if i = 6 then 0x00b33000 else 0x00b3b000)"

definition GPU_EATA_DS_CFG_BASE :: "int \<Rightarrow> u64" where
  "GPU_EATA_DS_CFG_BASE i =
    (if i = 0 then 0x00b03800 else if i = 1 then 0x00b0b800 else if i = 2 then 0x00b13800 else if i = 3 then 0x00b1b800 else 
     if i = 4 then 0x00b23800 else if i = 5 then 0x00b2b800 else if i = 6 then 0x00b33800 else 0x00b3b800)"

text \<open>The three kinds of translation unit (graphics, video, DMA) have the same
  registers and are programmed the same way at their own bases.\<close>

definition eata_tzc_init :: "emu_pcie \<Rightarrow> u64 \<Rightarrow> unit io" where
  "eata_tzc_init ep base = do {
     _ \<leftarrow> sreg_u32 ep (base + 0x008) 0x0000000F;
     _ \<leftarrow> sreg_u32 ep (base + 0x00C) 0x3;
     _ \<leftarrow> sreg_u32 ep (base + 0x108) 0xFFFFFFFF;
     _ \<leftarrow> sreg_u32 ep (base + 0x10C) 0xFFFFFFFF;
     _ \<leftarrow> sreg_u32 ep (base + 0x110) 0xC000000F;
     _ \<leftarrow> sreg_u32 ep (base + 0x114) 0xFFFFFFFF;
     _ \<leftarrow> sreg_u32 ep (base + 0x118) 0xFFFFFFFF;
     _ \<leftarrow> sreg_u32 ep (base + 0x11c) 0xFFFFFFFF;
     sreg_u32 ep (base + 0x120) 0xFFFFFFFF }"

definition gpu_eata_tzc_init :: "emu_pcie \<Rightarrow> int \<Rightarrow> unit io" where
  "gpu_eata_tzc_init ep gpu_idx = eata_tzc_init ep (GPU_EATA_TF_CFG_BASE gpu_idx)"

definition vid_eata_tzc_init :: "emu_pcie \<Rightarrow> int \<Rightarrow> unit io" where
  "vid_eata_tzc_init ep vid_idx = eata_tzc_init ep (VID_SS_EATA_TF_CFG_BASE vid_idx)"

definition mtdma_eata_tzc_init :: "emu_pcie \<Rightarrow> unit io" where
  "mtdma_eata_tzc_init ep = eata_tzc_init ep PCIE_DMA_EATA_TF_CFG_BASE"

definition eata_common_init :: "emu_pcie \<Rightarrow> u64 \<Rightarrow> unit io" where
  "eata_common_init ep base = do {
     _ \<leftarrow> sreg_u32 ep (base + 0x000) 0x7;
     _ \<leftarrow> sreg_u32 ep (base + 0x020) 0xFFFFFFFF;
     _ \<leftarrow> sreg_u32 ep (base + 0x024) 0x0000FFFF;
     sreg_u32 ep (base + 0x000) 0x800007 }"

definition gpu_eata_common_init :: "emu_pcie \<Rightarrow> int \<Rightarrow> unit io" where
  "gpu_eata_common_init ep gpu_idx = do {
     _ \<leftarrow> eata_common_init ep (GPU_EATA_GC_CFG_BASE gpu_idx);
     _ \<leftarrow> sreg_u32 ep (GPU_EATA_GC_CFG_BASE gpu_idx + 0x034) 0x1;
     for_io [0..<EATA_VF_NUM_PER_GPU] (\<lambda>x.
       sreg_u32 ep (GPU_EATA_GC_CFG_BASE gpu_idx + 0x038 + of_nat x * 4)
         (of_int (gpu_idx * int EATA_VF_NUM_PER_GPU + int x))) }"

definition vid_eata_common_init :: "emu_pcie \<Rightarrow> int \<Rightarrow> unit io" where
  "vid_eata_common_init ep vid_idx = eata_common_init ep (VID_SS_EATA_GC_CFG_BASE vid_idx)"

definition mtdma_eata_common_init :: "emu_pcie \<Rightarrow> unit io" where
  "mtdma_eata_common_init ep = eata_common_init ep PCIE_DMA_EATA_GC_CFG_BASE"

definition eata_desc_init :: "emu_pcie \<Rightarrow> u64 \<Rightarrow> nat \<Rightarrow> unit io" where
  "eata_desc_init ep base vfs =
    for_io [0..<vfs] (\<lambda>x. for_io [0..<EATA_DESC_NUM] (\<lambda>y.
      sreg_u32 ep (EATA_REG_OF_DESCx_VMn base x + 0x004 * of_nat y) 0x0))"

definition mtdma_eata_desc_init :: "emu_pcie \<Rightarrow> unit io" where
  "mtdma_eata_desc_init ep = eata_desc_init ep PCIE_DMA_EATA_DS_CFG_BASE EATA_VF_NUM"

definition vid_eata_desc_init :: "emu_pcie \<Rightarrow> int \<Rightarrow> unit io" where
  "vid_eata_desc_init ep vid_idx = eata_desc_init ep (VID_SS_EATA_DS_CFG_BASE vid_idx) EATA_VF_NUM"

definition gpu_eata_desc_init :: "emu_pcie \<Rightarrow> int \<Rightarrow> unit io" where
  "gpu_eata_desc_init ep gpu_idx = eata_desc_init ep (GPU_EATA_DS_CFG_BASE gpu_idx) EATA_VF_NUM_PER_GPU"

definition eata_desc_en :: "emu_pcie \<Rightarrow> u64 \<Rightarrow> nat \<Rightarrow> u64 \<Rightarrow> u64 \<Rightarrow> unit io" where
  "eata_desc_en ep base vf src dest =
    sreg_u32 ep (EATA_REG_OF_DESCx_VMn base vf + 0x004 * EATA_DESC_IDX src)
      (ucast (EATA_DESC_DEST_ADDR dest OR EATA_DESC_SIZE OR EATA_DESC_VALID))"

definition eata_desc_dis :: "emu_pcie \<Rightarrow> u64 \<Rightarrow> nat \<Rightarrow> u64 \<Rightarrow> unit io" where
  "eata_desc_dis ep base vf src = sreg_u32 ep (EATA_REG_OF_DESCx_VMn base vf + 0x004 * EATA_DESC_IDX src) 0x0"

definition mtdma_eata_desc_en :: "emu_pcie \<Rightarrow> nat \<Rightarrow> u64 \<Rightarrow> u64 \<Rightarrow> unit io" where
  "mtdma_eata_desc_en ep vf src dest = eata_desc_en ep PCIE_DMA_EATA_DS_CFG_BASE vf src dest"

definition vid_eata_desc_en :: "emu_pcie \<Rightarrow> int \<Rightarrow> nat \<Rightarrow> u64 \<Rightarrow> u64 \<Rightarrow> unit io" where
  "vid_eata_desc_en ep idx vf src dest = eata_desc_en ep (VID_SS_EATA_DS_CFG_BASE idx) vf src dest"

definition gpu_eata_desc_en :: "emu_pcie \<Rightarrow> int \<Rightarrow> nat \<Rightarrow> u64 \<Rightarrow> u64 \<Rightarrow> unit io" where
  "gpu_eata_desc_en ep idx vf src dest = eata_desc_en ep (GPU_EATA_DS_CFG_BASE idx) vf src dest"

definition mtdma_eata_desc_dis :: "emu_pcie \<Rightarrow> nat \<Rightarrow> u64 \<Rightarrow> unit io" where
  "mtdma_eata_desc_dis ep vf src = eata_desc_dis ep PCIE_DMA_EATA_DS_CFG_BASE vf src"

definition vid_eata_desc_dis :: "emu_pcie \<Rightarrow> int \<Rightarrow> nat \<Rightarrow> u64 \<Rightarrow> unit io" where
  "vid_eata_desc_dis ep idx vf src = eata_desc_dis ep (VID_SS_EATA_DS_CFG_BASE idx) vf src"

definition gpu_eata_desc_dis :: "emu_pcie \<Rightarrow> int \<Rightarrow> nat \<Rightarrow> u64 \<Rightarrow> unit io" where
  "gpu_eata_desc_dis ep idx vf src = eata_desc_dis ep (GPU_EATA_DS_CFG_BASE idx) vf src"

definition gpu_eata_init :: "emu_pcie \<Rightarrow> int \<Rightarrow> unit io" where
  "gpu_eata_init ep gpu_idx = do {
     _ \<leftarrow> gpu_eata_common_init ep gpu_idx;
     _ \<leftarrow> gpu_eata_tzc_init ep gpu_idx;
     gpu_eata_desc_init ep gpu_idx }"

definition vid_eata_init :: "emu_pcie \<Rightarrow> int \<Rightarrow> unit io" where
  "vid_eata_init ep vid_idx = do {
     _ \<leftarrow> vid_eata_common_init ep vid_idx;
     _ \<leftarrow> vid_eata_tzc_init ep vid_idx;
     vid_eata_desc_init ep vid_idx }"

definition mtdma_eata_init :: "emu_pcie \<Rightarrow> unit io" where
  "mtdma_eata_init ep = do {
     _ \<leftarrow> mtdma_eata_common_init ep;
     _ \<leftarrow> mtdma_eata_tzc_init ep;
     mtdma_eata_desc_init ep }"

section \<open>The memory of the device, as the graphics function maps it\<close>

definition IATU_NUM :: nat where "IATU_NUM = 50"
definition VF_NUM :: nat where "VF_NUM = 60"
definition DDR_SZ :: u64 where "DDR_SZ = 0x40000000 * 48"
definition DDR_SZ_RESV :: u64 where "DDR_SZ_RESV = 0x40000000"
definition LADDR_APU :: u64 where "LADDR_APU = DDR_SZ - DDR_SZ_RESV"
definition SIZE_OUTBOUND :: u64 where "SIZE_OUTBOUND = 0x8000000000"
definition SIZE_VGPU_DDR :: u64 where "SIZE_VGPU_DDR = 0x40000000"
definition P2P_OUTB_SIZE :: u64 where "P2P_OUTB_SIZE = 0x40000000"
definition LADDR_P2P :: u64 where "LADDR_P2P = SIZE_OUTBOUND - P2P_OUTB_SIZE"
definition LADDR_VGPU_BASE :: u64 where "LADDR_VGPU_BASE = 0"
definition LADDR_VGPU :: "nat \<Rightarrow> u64" where "LADDR_VGPU vf = LADDR_VGPU_BASE + SIZE_VGPU_DDR * of_nat vf"

text \<open>\<open>iatu_init\<close> of \<open>src/driver/mt-emu-gpu.c\<close>.\<close>

definition iatu_init :: "hardware \<Rightarrow> emu_pcie \<Rightarrow> unit io" where
  "iatu_init hw ep = do {
     _ \<leftarrow> pcie_prog_inbound_atu hw ep (of_nat IATU_NUM - 1) 0 2 0x0;
     _ \<leftarrow> pcie_prog_inbound_atu hw ep (of_nat IATU_NUM - 2) 1 2 LADDR_APU;
     _ \<leftarrow> pcie_prog_outbound_atu hw ep 0 0 0x0 0x0 (SIZE_OUTBOUND - P2P_OUTB_SIZE);
     _ \<leftarrow> pcie_prog_outbound_atu hw ep 1 0 LADDR_P2P 0x5fc10000000 P2P_OUTB_SIZE;
     _ \<leftarrow> mtdma_eata_desc_init ep;
     for_io [0..<VF_NUM] (\<lambda>i. do {
       _ \<leftarrow> pcie_prog_inbound_atu_vf hw ep (of_nat i) (of_nat i) 2 LADDR_VGPU_BASE;
       mtdma_eata_desc_en ep i 0 (LADDR_VGPU i) }) }"

end
