(* ===== verification/Irq.thy ===== *)
theory Irq
  imports Pcie
begin

text \<open>
  Interrupts of a function, from \<open>src/driver/mt-emu-ioctl.c\<close>: the registers of
  the interrupt multiplexer, allocation and release of the vectors (\<open>irq_init\<close>,
  \<open>qy_free_irq\<close>), the handlers of the three kinds of function, and the dispatch
  of DMA interrupts to the channels (\<open>emu_dma_isr\<close>).  A handler is a register
  program that returns the new state of the function, or \<open>None\<close> when it signals
  a completion outside the array of completions.  The kernel's interrupt
  services are the results they return and a log of the calls.
\<close>

section \<open>Registers and constants\<close>

definition PF_INT_MUX_BASE :: u64 where "PF_INT_MUX_BASE = 0x2c8000"
definition PF_SRC_SOFT :: "int \<Rightarrow> u64" where "PF_SRC_SOFT i = PF_INT_MUX_BASE + 0x000 + of_int i * 4"
definition PF_TARGET_SOFT :: "int \<Rightarrow> u64" where "PF_TARGET_SOFT i = PF_INT_MUX_BASE + 0x410 + of_int i * 4"
definition PF_TARGET_MASK :: "int \<Rightarrow> u64" where "PF_TARGET_MASK i = PF_INT_MUX_BASE + 0x412 + of_int i * 4"
definition PF_INT_ENABLE :: "int \<Rightarrow> u64" where "PF_INT_ENABLE i = PF_INT_MUX_BASE + 0x494 + of_int i * 4"
definition PF_TARGET_CLAIM :: "int \<Rightarrow> u64" where "PF_TARGET_CLAIM i = PF_INT_MUX_BASE + 0x938 + of_int i * 4"

definition APU_INT_MUX_BASE :: u64 where "APU_INT_MUX_BASE = 0x2c8000"
definition APU_SRC_SOFT :: "int \<Rightarrow> u64" where "APU_SRC_SOFT i = APU_INT_MUX_BASE + 0x000 + of_int i * 4"
definition APU_TARGET_SOFT :: "int \<Rightarrow> u64" where "APU_TARGET_SOFT i = APU_INT_MUX_BASE + 0x410 + of_int i * 4"
definition APU_TARGET_CLAIM :: "int \<Rightarrow> u64" where "APU_TARGET_CLAIM i = APU_INT_MUX_BASE + 0x938 + of_int i * 4"

definition VF_SRC_SOFT :: "int \<Rightarrow> u64" where "VF_SRC_SOFT i = 0x2080 + of_int i * 4"
definition VF_TARGET_SOFT :: "int \<Rightarrow> u64" where "VF_TARGET_SOFT i = 0x2098 + of_int i * 4"
definition VF_INT_ENABLE :: "int \<Rightarrow> u64" where "VF_INT_ENABLE i = 0x20b8 + of_int i * 4"
definition VF_TARGET_CLAIM :: "int \<Rightarrow> u64" where "VF_TARGET_CLAIM i = 0x20d8 + of_int i * 4"

definition REG_DMA_CH_INTR_STATUS :: u64 where "REG_DMA_CH_INTR_STATUS = 0x0CC"
definition REG_DMA_COMM_MRG_PF0_IMSK :: u64 where "REG_DMA_COMM_MRG_PF0_IMSK = 0xC70"

definition IRQ_DISABLE :: int where "IRQ_DISABLE = 0"
definition IRQ_LEGACY :: int where "IRQ_LEGACY = 1"
definition IRQ_MSI :: int where "IRQ_MSI = 2"
definition IRQ_MSIX :: int where "IRQ_MSIX = 4"

lemmas irq_kinds = IRQ_DISABLE_def IRQ_LEGACY_def IRQ_MSI_def IRQ_MSIX_def

definition QY_INT_SRC_MAX_NUM :: nat where "QY_INT_SRC_MAX_NUM = 32"
definition QY_GPU_VECTORS :: nat where "QY_GPU_VECTORS = 32"
definition QY_AUD_VECTORS :: nat where "QY_AUD_VECTORS = 1"
definition QY_VPU_VECTORS :: nat where "QY_VPU_VECTORS = 8"

lemmas qy_vectors = QY_GPU_VECTORS_def QY_AUD_VECTORS_def QY_VPU_VECTORS_def

text \<open>Arrays of the C structure have their declared length.\<close>

definition ep_wf :: "emu_pcie \<Rightarrow> bool" where
  "ep_wf ep \<longleftrightarrow> length (irq_allocated ep) = QY_GPU_VECTORS \<and> length (ep_int_done ep) = QY_INT_SRC_MAX_NUM \<and>
     length (rd_ch (ep_bare ep)) = PCIE_DMA_CH_NUM \<and> length (wr_ch (ep_bare ep)) = PCIE_DMA_CH_NUM"

text \<open>\<open>complete(&int_done[irq])\<close>.\<close>

definition complete_int :: "int \<Rightarrow> emu_pcie \<Rightarrow> emu_pcie option" where
  "complete_int irq ep =
    (if 0 \<le> irq \<and> irq < int QY_INT_SRC_MAX_NUM
     then Some (ep\<lparr>ep_int_done := (ep_int_done ep)[nat irq := ep_int_done ep ! nat irq + 1]\<rparr>)
     else None)"

section \<open>Dispatch of DMA interrupts\<close>

text \<open>The channels of a direction: \<open>wr\<close> is the write side.\<close>

definition bare_chs :: "bool \<Rightarrow> emu_pcie \<Rightarrow> dma_bare_ch list" where
  "bare_chs wr ep = (if wr then wr_ch (ep_bare ep) else rd_ch (ep_bare ep))"

definition set_chs :: "bool \<Rightarrow> dma_bare_ch list \<Rightarrow> emu_pcie \<Rightarrow> emu_pcie" where
  "set_chs wr chs ep = ep\<lparr>ep_bare := (if wr then (ep_bare ep)\<lparr>wr_ch := chs\<rparr> else (ep_bare ep)\<lparr>rd_ch := chs\<rparr>)\<rparr>"

definition intr_status_at :: "emu_pcie \<Rightarrow> bool \<Rightarrow> nat \<Rightarrow> ioaddr" where
  "intr_status_at ep wr i =
    io_off (bar_addr ep 0) (REG_DMA_CHAN_BASE + REG_DMA_CH_INTR_STATUS + (if wr then 0x800 else 0) + of_nat i * 0x1000)"

text \<open>\<open>dma_bare_isr\<close> on channel \<open>i\<close> of the function.\<close>

definition serve_ch :: "hardware \<Rightarrow> bool \<Rightarrow> nat \<Rightarrow> emu_pcie \<Rightarrow> emu_pcie io" where
  "serve_ch hw wr i ep = do {
     r \<leftarrow> dma_bare_isr hw (bare_chs wr ep ! i);
     State_Monad.return (set_chs wr ((bare_chs wr ep)[i := snd r]) ep) }"

text \<open>The loops over the channels whose bit is set in the merged status.\<close>

fun chan_scan :: "hardware \<Rightarrow> bool \<Rightarrow> u64 \<Rightarrow> nat list \<Rightarrow> emu_pcie \<Rightarrow> emu_pcie io" where
  "chan_scan hw wr sts [] ep = State_Monad.return ep"
| "chan_scan hw wr sts (i # is) ep =
    (if bit sts i then do {
       rdata \<leftarrow> readl hw (intr_status_at ep wr i);
       ep \<leftarrow> (if rdata AND 1 = 1 then serve_ch hw wr i ep else State_Monad.return ep);
       chan_scan hw wr sts is ep }
     else chan_scan hw wr sts is ep)"

definition set_imsk :: "hardware \<Rightarrow> emu_pcie \<Rightarrow> u32 \<Rightarrow> unit io" where
  "set_imsk hw ep b = do {
     val \<leftarrow> GET_COMM_32 hw (mtdma_comm_vaddr ep) REG_DMA_COMM_MRG_PF0_IMSK;
     SET_COMM_32 (mtdma_comm_vaddr ep) REG_DMA_COMM_MRG_PF0_IMSK (val OR b) }"

definition clear_imsk :: "hardware \<Rightarrow> emu_pcie \<Rightarrow> u32 \<Rightarrow> unit io" where
  "clear_imsk hw ep b = do {
     val \<leftarrow> GET_COMM_32 hw (mtdma_comm_vaddr ep) REG_DMA_COMM_MRG_PF0_IMSK;
     SET_COMM_32 (mtdma_comm_vaddr ep) REG_DMA_COMM_MRG_PF0_IMSK (val AND NOT b) }"

definition emu_dma_isr_pf :: "hardware \<Rightarrow> emu_pcie \<Rightarrow> emu_pcie io" where
  "emu_dma_isr_pf hw ep = do {
     mrg_sts \<leftarrow> GET_COMM_32 hw (mtdma_comm_vaddr ep) REG_DMA_COMM_MRG_PF0_STS;
     (if bit mrg_sts 0 then do {
        _ \<leftarrow> set_imsk hw ep 1;
        sts_c32 \<leftarrow> GET_COMM_32 hw (mtdma_comm_vaddr ep) REG_DMA_COMM_RD_MRG_PF0_STS_C32;
        sts_c64 \<leftarrow> GET_COMM_32 hw (mtdma_comm_vaddr ep) REG_DMA_COMM_RD_MRG_PF0_STS_C64;
        ep \<leftarrow> chan_scan hw False (join_32 sts_c64 sts_c32) [0..<PCIE_DMA_CH_NUM] ep;
        _ \<leftarrow> clear_imsk hw ep 1;
        State_Monad.return ep }
      else if bit mrg_sts 16 then do {
        _ \<leftarrow> set_imsk hw ep 0x10000;
        sts_c32 \<leftarrow> GET_COMM_32 hw (mtdma_comm_vaddr ep) REG_DMA_COMM_WR_MRG_PF0_STS_C32;
        sts_c64 \<leftarrow> GET_COMM_32 hw (mtdma_comm_vaddr ep) REG_DMA_COMM_WR_MRG_PF0_STS_C64;
        ep \<leftarrow> chan_scan hw True (join_32 sts_c64 sts_c32) [0..<PCIE_DMA_CH_NUM] ep;
        _ \<leftarrow> clear_imsk hw ep 0x10000;
        State_Monad.return ep }
      else State_Monad.return ep) }"

definition emu_dma_isr_vf :: "hardware \<Rightarrow> emu_pcie \<Rightarrow> emu_pcie io" where
  "emu_dma_isr_vf hw ep = do {
     val_rd \<leftarrow> readl hw (io_off (bar_addr ep 0) (0x3000 + REG_DMA_CH_INTR_STATUS));
     ep \<leftarrow> (if bit val_rd 0 then serve_ch hw False 0 ep else State_Monad.return ep);
     val_wr \<leftarrow> readl hw (io_off (bar_addr ep 0) (0x3800 + REG_DMA_CH_INTR_STATUS));
     (if bit val_wr 0 then serve_ch hw True 0 ep else State_Monad.return ep) }"

definition emu_dma_isr :: "hardware \<Rightarrow> emu_pcie \<Rightarrow> emu_pcie io" where
  "emu_dma_isr hw ep = (if devfn ep < 2 then emu_dma_isr_pf hw ep else emu_dma_isr_vf hw ep)"

section \<open>Handlers\<close>

text \<open>\<open>rl\<close> and \<open>wl\<close> are \<open>readl\<close> and \<open>writel\<close> through BAR 0.\<close>

definition rl :: "hardware \<Rightarrow> emu_pcie \<Rightarrow> u64 \<Rightarrow> u32 io" where
  "rl hw ep a = readl hw (io_off (bar_addr ep 0) a)"

definition wl :: "emu_pcie \<Rightarrow> u64 \<Rightarrow> u32 \<Rightarrow> unit io" where
  "wl ep a v = writel v (io_off (bar_addr ep 0) a)"

lemmas [mmio_simps] = rl_def wl_def

definition pcie_apu_th :: "hardware \<Rightarrow> int \<Rightarrow> emu_pcie \<Rightarrow> emu_pcie option io" where
  "pcie_apu_th hw irq ep =
    (if irq_test_mode ep = 0 then State_Monad.return (Some ep)
     else do {
       rdata \<leftarrow> rl hw ep (APU_TARGET_SOFT 32);
       (if rdata \<noteq> 0 then do {
          _ \<leftarrow> wl ep (APU_TARGET_SOFT 32) (0xfffffffe AND rdata);
          _ \<leftarrow> rl hw ep (APU_TARGET_SOFT 32);
          State_Monad.return (complete_int irq ep) }
        else do {
          int_reg \<leftarrow> rl hw ep (APU_TARGET_SOFT 32);
          _ \<leftarrow> wl ep (APU_TARGET_SOFT 32) (0x10000 OR int_reg);
          _ \<leftarrow> rl hw ep (APU_TARGET_SOFT 32);
          (if 1 \<le> irq then State_Monad.return (Some ep)
           else do {
             claim \<leftarrow> rl hw ep (APU_TARGET_CLAIM 32);
             let src = uint (claim AND 0x1ff);
             (if 256 \<le> src then State_Monad.return (Some ep)
              else do {
                rdata \<leftarrow> rl hw ep (APU_SRC_SOFT src);
                _ \<leftarrow> wl ep (APU_SRC_SOFT src) (0xfffffffe AND rdata);
                _ \<leftarrow> rl hw ep (APU_SRC_SOFT src);
                _ \<leftarrow> wl ep (APU_TARGET_SOFT 32) int_reg;
                _ \<leftarrow> rl hw ep (APU_TARGET_SOFT 32);
                State_Monad.return (complete_int irq ep) }) }) }) })"

text \<open>The part of \<open>pcie_gpu_th\<close> between masking and unmasking the target; \<open>False\<close> is an
  early return, which leaves it masked.\<close>

definition gpu_test_part :: "hardware \<Rightarrow> int \<Rightarrow> emu_pcie \<Rightarrow> bool io" where
  "gpu_test_part hw irq ep = do {
     rdata \<leftarrow> rl hw ep (PF_TARGET_SOFT irq);
     (if 1 AND rdata = 1 then do {
        _ \<leftarrow> wl ep (PF_TARGET_SOFT irq) (0xfffffffe AND rdata);
        _ \<leftarrow> rl hw ep (PF_TARGET_SOFT irq);
        State_Monad.return True }
      else do {
        int_reg \<leftarrow> rl hw ep (PF_TARGET_SOFT irq);
        _ \<leftarrow> wl ep (PF_TARGET_SOFT irq) (0x10000 OR int_reg);
        _ \<leftarrow> rl hw ep (PF_TARGET_SOFT irq);
        (if 32 \<le> irq then State_Monad.return False
         else do {
           claim \<leftarrow> rl hw ep (PF_TARGET_CLAIM irq);
           let src = uint (claim AND 0x1ff);
           (if 256 \<le> src then State_Monad.return False
            else do {
              rdata \<leftarrow> rl hw ep (PF_SRC_SOFT src);
              _ \<leftarrow> wl ep (PF_SRC_SOFT src) (0xfffffffe AND rdata);
              _ \<leftarrow> rl hw ep (PF_SRC_SOFT src);
              _ \<leftarrow> wl ep (PF_TARGET_SOFT irq) int_reg;
              _ \<leftarrow> rl hw ep (PF_TARGET_SOFT irq);
              State_Monad.return True }) }) }) }"

definition gpu_work_part :: "hardware \<Rightarrow> int \<Rightarrow> emu_pcie \<Rightarrow> emu_pcie io" where
  "gpu_work_part hw irq ep = do {
     int_reg \<leftarrow> rl hw ep (PF_TARGET_SOFT irq);
     _ \<leftarrow> wl ep (PF_TARGET_SOFT irq) (0x10000 OR int_reg);
     _ \<leftarrow> rl hw ep (PF_TARGET_CLAIM irq);
     ep \<leftarrow> emu_dma_isr hw ep;
     _ \<leftarrow> wl ep (PF_TARGET_SOFT irq) int_reg;
     _ \<leftarrow> rl hw ep (PF_TARGET_SOFT irq);
     State_Monad.return ep }"

definition gpu_unmask :: "hardware \<Rightarrow> int \<Rightarrow> u32 \<Rightarrow> emu_pcie \<Rightarrow> emu_pcie option io" where
  "gpu_unmask hw irq msk ep = do {
     _ \<leftarrow> wl ep (PF_TARGET_MASK irq) (msk AND NOT 0x10000);
     _ \<leftarrow> rl hw ep (PF_TARGET_MASK irq);
     State_Monad.return (Some ep) }"

definition pcie_gpu_th :: "hardware \<Rightarrow> int \<Rightarrow> emu_pcie \<Rightarrow> emu_pcie option io" where
  "pcie_gpu_th hw irq ep = do {
     msk \<leftarrow> rl hw ep (PF_TARGET_MASK irq);
     _ \<leftarrow> wl ep (PF_TARGET_MASK irq) (msk OR 0x10000);
     _ \<leftarrow> rl hw ep (PF_TARGET_MASK irq);
     (if irq_test_mode ep \<noteq> 0 then do {
        go \<leftarrow> gpu_test_part hw irq ep;
        (if go then (case complete_int irq ep of
            None \<Rightarrow> State_Monad.return None
          | Some ep \<Rightarrow> gpu_unmask hw irq msk ep)
         else State_Monad.return (Some ep)) }
      else do {
        ep \<leftarrow> gpu_work_part hw irq ep;
        gpu_unmask hw irq msk ep }) }"

definition pcie_vgpu_th :: "hardware \<Rightarrow> int \<Rightarrow> emu_pcie \<Rightarrow> emu_pcie option io" where
  "pcie_vgpu_th hw irq ep =
    (if irq_test_mode ep \<noteq> 0 then do {
       rdata \<leftarrow> rl hw ep (VF_TARGET_SOFT irq);
       (if 1 AND rdata \<noteq> 0 then do {
          _ \<leftarrow> wl ep (VF_TARGET_SOFT irq) (0xfffffffe AND rdata);
          _ \<leftarrow> rl hw ep (VF_TARGET_SOFT irq);
          State_Monad.return (complete_int irq ep) }
        else do {
          int_reg \<leftarrow> rl hw ep (VF_TARGET_SOFT irq);
          _ \<leftarrow> wl ep (VF_TARGET_SOFT irq) (int_reg OR 0x10000);
          _ \<leftarrow> rl hw ep (VF_TARGET_SOFT irq);
          claim \<leftarrow> rl hw ep (VF_TARGET_CLAIM irq);
          let src = uint (claim AND 0x7);
          rdata \<leftarrow> rl hw ep (VF_SRC_SOFT src);
          _ \<leftarrow> wl ep (VF_SRC_SOFT src) (0xfffffffe AND rdata);
          _ \<leftarrow> rl hw ep (VF_SRC_SOFT src);
          _ \<leftarrow> wl ep (VF_TARGET_SOFT irq) int_reg;
          _ \<leftarrow> rl hw ep (VF_TARGET_SOFT irq);
          State_Monad.return (if 8 \<le> irq \<or> 6 \<le> src then Some ep else complete_int irq ep) }) }
     else if irq = 3 \<or> irq = 2 then do {
       ep \<leftarrow> emu_dma_isr hw ep;
       State_Monad.return (Some ep) }
     else State_Monad.return (Some ep))"

definition pcie_th :: "hardware \<Rightarrow> int \<Rightarrow> emu_pcie \<Rightarrow> emu_pcie option io" where
  "pcie_th hw irq_nr ep = (let irq = irq_nr - irq_vector ep in
    if ep_type ep = MT_EMU_TYPE_APU then pcie_apu_th hw irq ep
    else if ep_type ep = MT_EMU_TYPE_VGPU then pcie_vgpu_th hw irq ep
    else if ep_type ep = MT_EMU_TYPE_GPU then pcie_gpu_th hw irq ep
    else State_Monad.return (Some ep))"

section \<open>Vectors\<close>

datatype irq_call = AllocVectors nat | FreeVectors | RequestIrq nat | FreeIrq nat

text \<open>The kernel's answers: the number of vectors it allocates, the number of a vector, and
  the result of installing a handler on it.\<close>

record irq_env =
  alloc_ret :: "nat \<Rightarrow> int"
  pci_irq_vector :: "nat \<Rightarrow> int"
  request_ret :: "nat \<Rightarrow> int"

fun free_irqs :: "nat list \<Rightarrow> emu_pcie \<Rightarrow> emu_pcie \<times> irq_call list" where
  "free_irqs [] ep = (ep, [])"
| "free_irqs (i # is) ep =
    (if irq_allocated ep ! i
     then (let r = free_irqs is (ep\<lparr>irq_allocated := (irq_allocated ep)[i := False]\<rparr>) in (fst r, FreeIrq i # snd r))
     else free_irqs is ep)"

definition qy_free_irq :: "emu_pcie \<Rightarrow> emu_pcie \<times> irq_call list" where
  "qy_free_irq ep =
    (let n = unat (vec_num ep); r = free_irqs [0..<n] ep;
         log = snd r @ (if 0 < vec_num ep then [FreeVectors] else [])
     in ((fst r)\<lparr>vec_num := 0, irq_type := 0\<rparr>, log))"

text \<open>The loop that installs the handlers: the result, the state and the calls.\<close>

fun request_irqs :: "irq_env \<Rightarrow> nat list \<Rightarrow> emu_pcie \<Rightarrow> int \<times> emu_pcie \<times> irq_call list" where
  "request_irqs env [] ep = (0, ep, [])"
| "request_irqs env (i # is) ep =
    (if request_ret env i \<noteq> 0 then (request_ret env i, ep, [])
     else (let r = request_irqs env is (ep\<lparr>irq_allocated := (irq_allocated ep)[i := True]\<rparr>)
           in (fst r, fst (snd r), RequestIrq i # snd (snd r))))"

fun irq_regs_init :: "emu_pcie \<Rightarrow> int \<Rightarrow> unit io" where
  "irq_regs_init ep ret =
    (if ep_type ep = MT_EMU_TYPE_VGPU then do {
       _ \<leftarrow> for_io [0..<4] (\<lambda>i. wl ep (VF_SRC_SOFT (int i)) 0);
       _ \<leftarrow> for_io [0..<8] (\<lambda>i. wl ep (VF_TARGET_SOFT (int i)) 0);
       _ \<leftarrow> wl ep (VF_INT_ENABLE 0) 0x1;
       _ \<leftarrow> wl ep (VF_INT_ENABLE 1) 0x2;
       _ \<leftarrow> wl ep (VF_INT_ENABLE 2) 0x4;
       _ \<leftarrow> wl ep (VF_INT_ENABLE 3) 0x8;
       _ \<leftarrow> wl ep (VF_INT_ENABLE 4) 0x10;
       _ \<leftarrow> wl ep (VF_INT_ENABLE 5) 0x20;
       _ \<leftarrow> wl ep (VF_INT_ENABLE 6) 0x0;
       wl ep (VF_INT_ENABLE 7) 0x0 }
     else if ep_type ep = MT_EMU_TYPE_GPU then do {
       _ \<leftarrow> for_io [0..<256] (\<lambda>i. wl ep (PF_SRC_SOFT (int i)) 0);
       _ \<leftarrow> for_io [0..<32] (\<lambda>i. wl ep (PF_TARGET_SOFT (int i)) 0);
       _ \<leftarrow> for_io [0..<8] (\<lambda>i. wl ep (PF_INT_ENABLE (int i)) 0xffffffff);
       for_io [8..<nat ret * 8] (\<lambda>i. wl ep (PF_INT_ENABLE (int i)) 0) }
     else pass)"

definition max_vectors :: "u32 \<Rightarrow> int \<Rightarrow> nat" where
  "max_vectors t ty =
    (if ty = IRQ_LEGACY then 1 else if t = MT_EMU_TYPE_GPU then QY_GPU_VECTORS
     else if t = MT_EMU_TYPE_APU then QY_AUD_VECTORS else QY_VPU_VECTORS)"

text \<open>\<open>irq_init\<close> on a function of one of the three types (the type is set once, by the probe
  functions).\<close>

definition irq_init :: "irq_env \<Rightarrow> emu_pcie \<Rightarrow> int \<Rightarrow> int \<Rightarrow> (int \<times> emu_pcie \<times> irq_call list) io" where
  "irq_init env ep ty test_mode =
    (let f = qy_free_irq ep; ep = fst f; log = snd f in
     if ty = IRQ_DISABLE then State_Monad.return (0, ep, log)
     else if ty \<noteq> IRQ_LEGACY \<and> ty \<noteq> IRQ_MSI \<and> ty \<noteq> IRQ_MSIX then State_Monad.return (-1, ep, log)
     else if ep_type ep = MT_EMU_TYPE_VGPU \<and> ty = IRQ_LEGACY then State_Monad.return (-1, ep, log)
     else (let mx = max_vectors (ep_type ep) ty; ret = alloc_ret env mx;
               log = log @ (if 0 < ret then [AllocVectors (nat ret)] else []) in
       if ret < 1 \<or> int mx < ret then State_Monad.return (ret, ep, log)
       else (let ep = ep\<lparr>irq_test_mode := of_int test_mode, irq_type := of_int ty, vec_num := of_int ret\<rparr> in do {
         _ \<leftarrow> irq_regs_init ep ret;
         let ep = ep\<lparr>irq_vector := pci_irq_vector env 0\<rparr>;
         let r = request_irqs env [0..<nat ret] ep;
         (if fst r \<noteq> 0 then State_Monad.return (fst r, fst (snd r), log @ snd (snd r))
          else State_Monad.return (0,
            (fst (snd r))\<lparr>ep_int_done := replicate mx 0 @ drop mx (ep_int_done ep)\<rparr>,
            log @ snd (snd r))) })))"

end
