(* ===== verification/Protocol.thy ===== *)
theory Protocol
  imports Prelude
begin

text \<open>
  Protocols of the kernel's interfaces.  What the driver may take from the kernel and give
  back, and in which order, is stated by automata that run over the log of its calls: the
  vectors and handlers of a function (\<open>IrqProps\<close>), the resources of a probe (\<open>Dmabuf\<close>,
  \<open>ProbeProps\<close>) and the locks of a system call (\<open>IoctlProps\<close>).  The locale is the
  interface they share; a call that the state does not allow is \<open>None\<close>.
\<close>

locale protocol =
  fixes step :: "'e \<Rightarrow> 's \<Rightarrow> 's option" and run :: "'e list \<Rightarrow> 's \<Rightarrow> 's option"
  assumes run_Nil: "run [] s = Some s"
    and run_Cons: "run (e # es) s = Option.bind (step e s) (run es)"
begin

lemma run_append: "run (xs @ ys) s = Option.bind (run xs s) (run ys)"
  by (induction xs arbitrary: s) (auto simp: run_Nil run_Cons split: Option.bind_splits)

text \<open>Calls that change nothing.\<close>

lemma run_neutral: "(\<And>e. e \<in> set es \<Longrightarrow> step e s = Some s) \<Longrightarrow> run es s = Some s"
  by (induction es) (auto simp: run_Nil run_Cons)

text \<open>What every allowed call keeps, a run keeps.\<close>

lemma run_invariant:
  assumes "\<And>e s s'. step e s = Some s' \<Longrightarrow> I s \<Longrightarrow> I s'" "run es s = Some s'" "I s"
  shows "I s'"
  using assms(2,3)
proof (induction es arbitrary: s)
  case (Cons e es)
  then obtain u where "step e s = Some u" "run es u = Some s'" by (auto simp: run_Cons bind_eq_Some_conv)
  then show ?case using Cons assms(1) by blast
qed (simp add: run_Nil)

end

end
