(* ===== verification/Dmabuf.thy ===== *)
theory Dmabuf
  imports Protocol
begin

text \<open>
  The DMA buffer device, from \<open>src/driver/mt-emu-dmabuf.c\<close>: reading, writing,
  seeking and mapping the reserved buffer, and setting it up and taking it down.  The
  content of the buffer is a function of the offset; a file position and a size are
  64-bit words, as the comparisons of the code take them.  What is taken from and given
  back to the kernel is a list of events that the probe functions of the devices share.
\<close>

section \<open>Resources\<close>

datatype resource = Device | Regions | DevState | Misc | BufRegion | BufMap | BufMisc | Rom | WrDma | RdDma

text \<open>Taking, giving back and using a resource; setting the driver data, disabling the ROM and setting
  the number of virtual functions.\<close>

datatype pev = Take resource | Give resource | Use resource | SetDrv bool | RomOff | Sriov nat

text \<open>The resources that are held.  Nothing is taken twice, and only what is held is used or given back.\<close>

fun res_step :: "pev \<Rightarrow> resource set \<Rightarrow> resource set option" where
  "res_step (Take r) S = (if r \<in> S then None else Some (insert r S))"
| "res_step (Give r) S = (if r \<in> S then Some (S - {r}) else None)"
| "res_step (Use r) S = (if r \<in> S then Some S else None)"
| "res_step (SetDrv b) S = Some S"
| "res_step RomOff S = Some S"
| "res_step (Sriov n) S = Some S"

fun res_run :: "pev list \<Rightarrow> resource set \<Rightarrow> resource set option" where
  "res_run [] S = Some S"
| "res_run (e # es) S = Option.bind (res_step e S) (res_run es)"

interpretation resources: protocol res_step res_run
  by unfold_locales simp_all

lemma res_run_append [simp]: "res_run (xs @ ys) S = Option.bind (res_run xs S) (res_run ys)"
  by (rule resources.run_append)

section \<open>The buffer\<close>

record emu_dmabuf =
  db_vaddr :: bool
  db_paddr :: u64
  db_size :: u64
  db_mem :: "nat \<Rightarrow> u8"

definition MTDMA_BUF_ST :: u64 where "MTDMA_BUF_ST = 0x400000000"
definition MTDMA_BUF_SIZE :: u64 where "MTDMA_BUF_SIZE = 0x800000000"

datatype whence = SEEK_SET | SEEK_CUR | SEEK_END

definition emu_dmabuf_llseek :: "u64 \<Rightarrow> u64 \<Rightarrow> whence \<Rightarrow> u64" where
  "emu_dmabuf_llseek f_pos off w = (case w of SEEK_SET \<Rightarrow> off | SEEK_CUR \<Rightarrow> f_pos + off | SEEK_END \<Rightarrow> f_pos)"

text \<open>The count that is transferred, and the transfer: the result, the bytes for the user, and the
  position, which the code does not change.\<close>

definition rw_count :: "emu_dmabuf \<Rightarrow> u64 \<Rightarrow> u64 \<Rightarrow> u64" where
  "rw_count db count ppos = (if db_size db < ppos + count then db_size db - ppos else count)"

definition emu_dmabuf_read :: "bool \<Rightarrow> emu_dmabuf \<Rightarrow> u64 \<Rightarrow> u64 \<Rightarrow> int \<times> u8 list \<times> u64" where
  "emu_dmabuf_read copy_fails db count ppos =
    (if db_size db \<le> ppos then (0, [], ppos)
     else (let count = rw_count db count ppos in
       if copy_fails then (-14, [], ppos)
       else (sint count, map (db_mem db) [unat ppos ..< unat ppos + unat count], ppos)))"

definition emu_dmabuf_write :: "bool \<Rightarrow> emu_dmabuf \<Rightarrow> (nat \<Rightarrow> u8) \<Rightarrow> u64 \<Rightarrow> u64 \<Rightarrow> int \<times> emu_dmabuf \<times> u64" where
  "emu_dmabuf_write copy_fails db buf count ppos =
    (if db_size db \<le> ppos then (0, db, ppos)
     else (let count = rw_count db count ppos in
       if copy_fails then (-14, db, ppos)
       else (sint count, db\<lparr>db_mem := \<lambda>i. if unat ppos \<le> i \<and> i < unat ppos + unat count then buf (i - unat ppos) else db_mem db i\<rparr>, ppos)))"

text \<open>The error, or the start address, page frame and length of \<open>remap_pfn_range\<close>.\<close>

definition emu_dmabuf_mmap :: "emu_dmabuf \<Rightarrow> u64 \<Rightarrow> u64 \<Rightarrow> u64 \<Rightarrow> int + (u64 \<times> u64 \<times> u64)" where
  "emu_dmabuf_mmap db pgoff vm_start vm_end =
    (if \<not> db_vaddr db then Inl (-14)
     else (let requested_pages = drop_bit 12 (vm_end - vm_start) in
       if db_size db < push_bit 12 (requested_pages + pgoff) then Inl (-14)
       else Inr (vm_start, drop_bit 12 (db_paddr db) + pgoff, vm_end - vm_start)))"

text \<open>Every command is unknown.\<close>

definition emu_dmabuf_ioctl :: "bool \<Rightarrow> nat \<Rightarrow> int" where
  "emu_dmabuf_ioctl param_fails cmd = (if param_fails then -14 else -14)"

section \<open>Setting up and taking down\<close>

record dbuf_env =
  db_alloc_ok :: bool
  db_region_ok :: bool
  db_remap_ok :: bool
  db_misc_ret :: int
  db_content :: "nat \<Rightarrow> u8"

text \<open>The reserved memory (\<open>DMA_RESV_MEM\<close> is set).  The first eight bytes are set for a test.\<close>

definition emu_dmabuf_probe :: "dbuf_env \<Rightarrow> emu_dmabuf option \<times> pev list" where
  "emu_dmabuf_probe env =
    (if \<not> db_alloc_ok env then (None, [])
     else if \<not> db_region_ok env then (None, [])
     else if \<not> db_remap_ok env then (None, [Take BufRegion])
     else if db_misc_ret env \<noteq> 0 then (None, [Take BufRegion, Take BufMap, Give BufMap, Give BufRegion])
     else (Some \<lparr>db_vaddr = True, db_paddr = MTDMA_BUF_ST, db_size = MTDMA_BUF_SIZE,
             db_mem = (\<lambda>i. if i < 8 then 0x88 else db_content env i)\<rparr>, [Take BufRegion, Take BufMap, Take BufMisc]))"

definition emu_dmabuf_remove :: "emu_dmabuf \<Rightarrow> emu_dmabuf \<times> pev list" where
  "emu_dmabuf_remove db =
    (if db_vaddr db then (db\<lparr>db_vaddr := False\<rparr>, [Give BufMisc, Give BufMap, Give BufRegion]) else (db, [Give BufMisc]))"

section \<open>What the file operations do\<close>

lemma unat_less: "a < b \<Longrightarrow> unat a < unat (b :: u64)"
  by (simp add: word_less_nat_alt)

lemma rw_count_exact:
  assumes "ppos < db_size db" "unat ppos + unat count < 2 ^ 64"
  shows "unat (rw_count db count ppos) = min (unat count) (unat (db_size db) - unat ppos)"
proof -
  have "unat (ppos + count) = unat ppos + unat count" using assms(2) by (intro unat_add_lem[THEN iffD1]) simp
  moreover have "unat (db_size db - ppos) = unat (db_size db) - unat ppos"
    using assms(1) by (intro unat_sub) (simp add: order_less_imp_le)
  ultimately show ?thesis using unat_less[OF assms(1)] by (simp add: rw_count_def word_less_nat_alt)
qed

lemma sint_small:
  assumes "unat (c :: u64) < 2 ^ 63"
  shows "sint c = int (unat c)"
proof -
  have "int (unat c) < int (2 ^ 63)" using assms by (simp only: of_nat_less_iff)
  then have "uint c < 2 ^ 63" by simp
  then have "signed_take_bit 63 (uint c) = uint c"
    by (intro signed_take_bit_int_eq_self) (use uint_ge_0[of c] in linarith)+
  then show ?thesis by (simp add: sint_uint)
qed

text \<open>Reading and writing the buffer stay inside it and agree: a write of \<open>count\<close> bytes stores as many as
  fit between the position and the end and leaves every other byte alone, a read at the same
  position returns exactly those bytes and their number; beyond the end both do nothing.\<close>

theorem dmabuf_write_read:
  assumes "unat ppos + unat count < 2 ^ 63"
  shows "(let w = emu_dmabuf_write False db buf count ppos; db' = fst (snd w); n = min (unat count) (unat (db_size db) - unat ppos) in
    fst w = int n \<and> fst (emu_dmabuf_read False db' count ppos) = int n \<and>
    fst (snd (emu_dmabuf_read False db' count ppos)) = map buf [0..<n] \<and>
    (\<forall>i. i < unat ppos \<or> unat ppos + n \<le> i \<longrightarrow> db_mem db' i = db_mem db i) \<and> (0 < n \<longrightarrow> unat ppos + n \<le> unat (db_size db)))"
proof (cases "db_size db \<le> ppos")
  case True
  then show ?thesis by (simp add: emu_dmabuf_write_def emu_dmabuf_read_def Let_def word_le_nat_alt)
next
  case False
  then have lt: "ppos < db_size db" by simp
  note nle = False
  let ?c = "rw_count db count ppos"
  define n where "n = min (unat count) (unat (db_size db) - unat ppos)"
  have c: "unat ?c = n" using rw_count_exact[OF lt] assms by (simp add: n_def)
  have s: "sint ?c = int n" using sint_small[of ?c] c assms by (simp add: n_def)
  have r: "rw_count (db\<lparr>db_mem := m\<rparr>) count ppos = ?c" for m by (simp add: rw_count_def)
  have m: "map (\<lambda>i. if unat ppos \<le> i \<and> i < unat ppos + n then buf (i - unat ppos) else db_mem db i) [unat ppos..<unat ppos + n] =
      map buf [0..<n]"
    by (rule nth_equalityI) simp_all
  have "unat ppos + n \<le> unat (db_size db)" using unat_less[OF lt] by (simp add: n_def)
  then show ?thesis using nle
    by (simp add: emu_dmabuf_write_def emu_dmabuf_read_def Let_def r c s m flip: n_def)
qed

text \<open>The position of the file is not advanced: every read at a position inside the buffer returns the same bytes and
  leaves the position, so a program that reads until it is told 0 bytes never ends.\<close>

theorem dmabuf_reader_never_ends:
  assumes "ppos < db_size db" "0 < count" "unat ppos + unat count < 2 ^ 63"
  shows "(\<exists>r. ((\<lambda>pos. snd (snd (emu_dmabuf_read False db count pos))) ^^ n) ppos = r \<and> 0 < fst (emu_dmabuf_read False db count r)) \<and>
    emu_dmabuf_read False db count (((\<lambda>pos. snd (snd (emu_dmabuf_read False db count pos))) ^^ n) ppos) = emu_dmabuf_read False db count ppos"
proof -
  have p: "snd (snd (emu_dmabuf_read False db count q)) = q" for q by (simp add: emu_dmabuf_read_def Let_def)
  have it: "((\<lambda>pos. snd (snd (emu_dmabuf_read False db count pos))) ^^ n) ppos = ppos" unfolding p by (induction n) simp_all
  let ?c = "rw_count db count ppos"
  have c: "unat ?c = min (unat count) (unat (db_size db) - unat ppos)" using rw_count_exact[OF assms(1)] assms(3) by simp
  have "0 < unat count" using assms(2) by (simp add: word_less_nat_alt)
  then have pos: "0 < unat ?c" using c unat_less[OF assms(1)] by simp
  have "unat ?c < 2 ^ 63" using c assms(3) by simp
  then have "sint ?c = int (unat ?c)" by (rule sint_small)
  then have "fst (emu_dmabuf_read False db count ppos) = int (unat ?c)" using assms(1) \<open>sint ?c = _\<close> by (auto simp: emu_dmabuf_read_def Let_def)
  then have "0 < fst (emu_dmabuf_read False db count ppos)" using pos by linarith
  then show ?thesis unfolding it by simp
qed

text \<open>A mapping of the buffer that is granted lies inside it, when the page offset and the number of pages
  do not overflow together (the kernel rejects such a request before): the frames are those of the
  buffer from the requested page on.\<close>

theorem dmabuf_mmap_within:
  assumes "emu_dmabuf_mmap db pgoff s e = Inr (s', pfn, len)" "unat pgoff + unat (drop_bit 12 (e - s)) < 2 ^ 52" "(e - s) AND 0xfff = 0"
  shows "unat pgoff * 4096 + unat len \<le> unat (db_size db) \<and> pfn = drop_bit 12 (db_paddr db) + pgoff \<and> s' = s"
proof -
  let ?n = "drop_bit 12 (e - s)"
  have c: "s' = s" "pfn = drop_bit 12 (db_paddr db) + pgoff" "len = e - s" "push_bit 12 (?n + pgoff) \<le> db_size db"
    using assms(1) by (auto simp: emu_dmabuf_mmap_def Let_def split: if_splits)
  have m: "w AND 0xfff = w mod 4096" for w :: u64
    using take_bit_eq_mask[of 12 w] take_bit_eq_mod[of 12 w] by (simp add: mask_eq_exp_minus_1)
  have "unat (?n + pgoff) = unat ?n + unat pgoff" using assms(2) by (intro unat_add_lem[THEN iffD1]) simp
  moreover have "unat (push_bit 12 (?n + pgoff)) = unat (?n + pgoff) * 4096"
    using assms(2) calculation by (simp add: push_bit_eq_mult unat_word_ariths)
  ultimately have "unat pgoff * 4096 + unat ?n * 4096 \<le> unat (db_size db)" using c(4) by (simp add: word_le_nat_alt)
  moreover have "unat (e - s) mod 4096 = unat ((e - s) mod 4096)" by (simp add: unat_mod)
  then have "unat (e - s) mod 4096 = 0" using assms(3) m[of "e - s"] by simp
  then have "unat len = unat ?n * 4096" using c(3) div_mult_mod_eq[of "unat (e - s)" 4096] by (simp add: drop_bit_eq_div unat_div)
  ultimately show ?thesis using c by simp
qed

text \<open>A buffer of 16 bytes, for the examples.\<close>

definition demo_db :: emu_dmabuf where
  "demo_db = \<lparr>db_vaddr = True, db_paddr = MTDMA_BUF_ST, db_size = 16, db_mem = \<lambda>i. 0\<rparr>"

theorem dmabuf_write_read_witness:
  "fst (emu_dmabuf_write False demo_db of_nat 8 12) = 4 \<and>
   fst (snd (emu_dmabuf_read False (fst (snd (emu_dmabuf_write False demo_db of_nat 8 12))) 8 12)) = map of_nat [0..<4]"
  using dmabuf_write_read[of 12 8 demo_db of_nat] by (simp add: demo_db_def Let_def)

theorem dmabuf_reader_never_ends_witness:
  "fst (emu_dmabuf_read False demo_db 4 (((\<lambda>pos. snd (snd (emu_dmabuf_read False demo_db 4 pos))) ^^ 1000) 8)) =
    fst (emu_dmabuf_read False demo_db 4 8)"
  using dmabuf_reader_never_ends[of 8 demo_db 4 1000] by (simp add: demo_db_def)

theorem dmabuf_mmap_within_witness:
  "unat (2 :: u64) * 4096 + unat (0x3000 :: u64) \<le> unat MTDMA_BUF_SIZE"
  using dmabuf_mmap_within[of "demo_db\<lparr>db_size := MTDMA_BUF_SIZE\<rparr>" 2 "0x1000" "0x4000" "0x1000" "0x400002" "0x3000"]
  by (simp add: emu_dmabuf_mmap_def demo_db_def MTDMA_BUF_SIZE_def MTDMA_BUF_ST_def drop_bit_eq_div push_bit_eq_mult)

end
