(* ===== verification/Probe.thy ===== *)
theory Probe
  imports DmaTest Irq Dmabuf
begin

text \<open>
  Probing and removal of the three PCIe functions and their error handlers, from
  \<open>src/driver/mt-emu-gpu.c\<close>, \<open>src/driver/mt-emu-apu.c\<close> and \<open>src/driver/mt-emu-vgpu.c\<close>.  A
  probe function composes the operations of the other theories; what the kernel answers is a
  record \<open>probe_env\<close>, register accesses are the trace of the \<open>io\<close> monad, and what is taken from
  the kernel and given back is a log.  An index beyond an array is \<open>None\<close>.
\<close>

section \<open>State\<close>

text \<open>\<open>pe_map\<close> and \<open>pe_bar\<close> are address, bus address and length of a region; \<open>pe_info\<close> is the
  uninitialised \<open>dma_info\<close> on the stack; \<open>pe_sys\<close> is the address of the mapped DMA buffer.\<close>

record probe_env =
  pe_enable :: int
  pe_regions :: int
  pe_alloc :: bool
  pe_devfn :: u32
  pe_bar :: "nat \<Rightarrow> emu_region"
  pe_irq :: irq_env
  pe_misc :: int
  pe_dbuf :: dbuf_env
  pe_sys :: ioaddr
  pe_info :: mtdma_info
  pe_chip :: bool
  pe_md :: bool
  pe_reg :: "nat \<Rightarrow> int"

text \<open>\<open>pd_ep\<close> is the driver data, \<open>pd_rom\<close> tells whether region 6 is mapped.\<close>

record pci_drv =
  pd_ep :: "emu_pcie option"
  pd_rom :: bool
  pd_priv :: "emu_dmabuf option"
  pd_em :: emu_mtdma
  pd_log :: "pev list"
  pd_irqs :: "irq_call list"

definition ENOMEM :: int where "ENOMEM = 12"

definition pd_note :: "pev list \<Rightarrow> pci_drv \<Rightarrow> pci_drv" where
  "pd_note es s = s\<lparr>pd_log := pd_log s @ es\<rparr>"

text \<open>The zeroed structure, with the completions initialised.\<close>

definition zero_info :: mtdma_chan_info where
  "zero_info = \<lparr>rg_vaddr = (0, 0), ll_vaddr = (0, 0), ll_laddr = 0, ll_vaddr_system = (0, 0), ll_laddr_system = 0, ll_max = 0\<rparr>"

definition zero_bare :: dma_bare where
  "zero_bare = (let chs = replicate PCIE_DMA_CH_NUM \<lparr>bc_info = zero_info, int_done = 0, int_error = 0, chan_id = 0\<rparr> in
    \<lparr>db_wr_ch_cnt = 0, db_rd_ch_cnt = 0, wr_ch = chs, rd_ch = chs\<rparr>)"

definition zero_em :: emu_mtdma where
  "zero_em = \<lparr>em_md = None, sem_rd = replicate TEST_CH_NUM 0, sem_wr = replicate TEST_CH_NUM 0,
     done_rd = replicate TEST_CH_NUM 0, done_wr = replicate TEST_CH_NUM 0\<rparr>"

definition new_ep :: "u32 \<Rightarrow> u32 \<Rightarrow> emu_pcie" where
  "new_ep ty fn = \<lparr>ep_type = ty, devfn = fn, vf_num = 0, ep_bare = zero_bare,
     region = replicate 7 \<lparr>rg_paddr = 0, rg_base = (0, 0), rg_size = 0\<rparr>, mtdma_comm_vaddr = (0, 0),
     irq_type = 0, irq_test_mode = 0, vec_num = 0, irq_vector = 0, isr_dmabare = False,
     irq_allocated = replicate QY_GPU_VECTORS False, ep_int_done = replicate QY_INT_SRC_MAX_NUM 0\<rparr>"

text \<open>The loop that records the first \<open>n\<close> regions.\<close>

definition fill_regions :: "nat \<Rightarrow> probe_env \<Rightarrow> emu_pcie \<Rightarrow> emu_pcie" where
  "fill_regions n env ep = ep\<lparr>region := map (pe_bar env) [0..<n] @ drop n (region ep)\<rparr>"

text \<open>\<open>irq_init\<close> on the new structure, which is the driver data by then.\<close>

definition probe_irq :: "probe_env \<Rightarrow> int \<Rightarrow> emu_pcie \<Rightarrow> pci_drv \<Rightarrow> (int \<times> emu_pcie \<times> pci_drv) io" where
  "probe_irq env ty ep s = do {
     r \<leftarrow> irq_init (pe_irq env) ep ty 0;
     State_Monad.return (fst r, fst (snd r), s\<lparr>pd_ep := Some (fst (snd r)), pd_irqs := pd_irqs s @ snd (snd r)\<rparr>) }"

section \<open>The graphics function\<close>

definition mt_emu_vf_enable :: "emu_pcie \<Rightarrow> nat \<Rightarrow> pci_drv \<Rightarrow> emu_pcie \<times> pci_drv" where
  "mt_emu_vf_enable ep num s = (ep\<lparr>vf_num := int num\<rparr>, pd_note [Sriov num] s)"

text \<open>Every access to the structure is noted as a use of it.\<close>

definition pcie_emu_gpu_free :: "pci_drv \<Rightarrow> pci_drv" where
  "pcie_emu_gpu_free s =
    (case pd_ep s of
       None \<Rightarrow> s
     | Some ep \<Rightarrow>
        (let f = qy_free_irq ep;
             s = pd_note [Use DevState] (s\<lparr>pd_irqs := pd_irqs s @ snd f\<rparr>);
             s = (case pd_priv s of
                    None \<Rightarrow> s
                  | Some db \<Rightarrow> (let r = emu_dmabuf_remove db in pd_note (snd r) (s\<lparr>pd_priv := Some (fst r)\<rparr>)));
             s = pd_note [SetDrv False] (s\<lparr>pd_ep := None\<rparr>);
             s = (if pd_rom s then pd_note [Give Rom] s else s)
         in pd_note [Use DevState, Give Misc, Give Regions, RomOff, Give Device] s))"

definition gpu_error :: "int \<Rightarrow> pci_drv \<Rightarrow> (int \<times> pci_drv) option" where
  "gpu_error ret s = Some (ret, pcie_emu_gpu_free s)"

text \<open>The part after the registration of the device, which left \<open>ret\<close> at 0.\<close>

definition gpu_probe_dma :: "hardware \<Rightarrow> probe_env \<Rightarrow> emu_pcie \<Rightarrow> pci_drv \<Rightarrow> (int \<times> pci_drv) option io" where
  "gpu_probe_dma hw env ep s =
    (let ep = ep\<lparr>mtdma_comm_vaddr := io_off (bar_addr ep 0) REG_DMA_COMM_BASE\<rparr> in do {
       _ \<leftarrow> mtdma_comm_init hw (mtdma_comm_vaddr ep) VF_NUM;
       let b = emu_dmabuf_probe (pe_dbuf env);
       let s = pd_note (snd b) (s\<lparr>pd_ep := Some ep, pd_priv := fst b\<rparr>);
       (case fst b of
          None \<Rightarrow> State_Monad.return (gpu_error 0 s)
        | Some db \<Rightarrow>
           (case build_dma_info (pe_sys env) (bar_addr ep 0) (bar_addr ep 2) 64 64 (pe_info env) of
              None \<Rightarrow> State_Monad.return None
            | Some info \<Rightarrow>
               (case mtdma_bare_init hw (ep_bare ep) info of
                  None \<Rightarrow> State_Monad.return None
                | Some init \<Rightarrow> do {
                    bare \<leftarrow> init;
                    let ep = ep\<lparr>ep_bare := bare\<rparr>;
                    let s = s\<lparr>pd_ep := Some ep\<rparr>;
                    State_Monad.return
                      (case emu_mtdma_init (pe_chip env) (pe_md env) (wr_ch_info info, unat (mi_wr_ch_cnt info))
                              (rd_ch_info info, unat (mi_rd_ch_cnt info)) (pd_em s) of
                         None \<Rightarrow> None
                       | Some (r, em) \<Rightarrow>
                          if r \<noteq> 0 then gpu_error 0 (s\<lparr>pd_em := em\<lparr>em_md := None\<rparr>\<rparr>)
                          else (let v = mt_emu_vf_enable ep VF_NUM (s\<lparr>pd_em := em\<rparr>)
                                in Some (0, (snd v)\<lparr>pd_ep := Some (fst v)\<rparr>))) }))) })"

definition pcie_emu_gpu_probe :: "hardware \<Rightarrow> probe_env \<Rightarrow> pci_drv \<Rightarrow> (int \<times> pci_drv) option io" where
  "pcie_emu_gpu_probe hw env s =
    (if pe_enable env \<noteq> 0 then State_Monad.return (Some (pe_enable env, s))
     else if pe_regions env \<noteq> 0 then State_Monad.return (Some (pe_regions env, pd_note [Take Device] s))
     else if \<not> pe_alloc env then State_Monad.return (gpu_error (- ENOMEM) (pd_note [Take Device, Take Regions] s))
     else (let ep = fill_regions 7 env (new_ep MT_EMU_TYPE_GPU (pe_devfn env));
               s = pd_note [Take Device, Take Regions, Take DevState, SetDrv True]
                     (s\<lparr>pd_ep := Some ep, pd_rom := False, pd_priv := None, pd_em := zero_em\<rparr>) in do {
       _ \<leftarrow> writel 0x4 (io_off (bar_addr ep 0) 0x71c018);
       r \<leftarrow> probe_irq env IRQ_MSI ep s;
       let ret = fst r; let ep = fst (snd r); let s = snd (snd r);
       (if ret \<noteq> 0 then State_Monad.return (gpu_error ret s)
        else if pe_misc env \<noteq> 0 then State_Monad.return (gpu_error (pe_misc env) s)
        else gpu_probe_dma hw env ep (pd_note [Take Misc] s)) }))"

definition pcie_emu_gpu_remove :: "pci_drv \<Rightarrow> pci_drv" where
  "pcie_emu_gpu_remove s = pcie_emu_gpu_free (pd_note [Sriov 0] s)"

section \<open>The audio function\<close>

text \<open>The structure is freed before the device in it is deregistered.\<close>

definition pcie_qy_free :: "pci_drv \<Rightarrow> pci_drv" where
  "pcie_qy_free s =
    (case pd_ep s of
       None \<Rightarrow> s
     | Some ep \<Rightarrow>
        (let f = qy_free_irq ep
         in pd_note [Use DevState, Give DevState, SetDrv False, Use DevState, Give Misc, Give Regions, Give Device]
              (s\<lparr>pd_irqs := pd_irqs s @ snd f, pd_ep := None\<rparr>)))"

definition pcie_apu_probe :: "probe_env \<Rightarrow> pci_drv \<Rightarrow> (int \<times> pci_drv) io" where
  "pcie_apu_probe env s =
    (if pe_enable env \<noteq> 0 then State_Monad.return (pe_enable env, pcie_qy_free s)
     else if pe_regions env \<noteq> 0 then State_Monad.return (pe_regions env, pcie_qy_free (pd_note [Take Device] s))
     else if \<not> pe_alloc env then State_Monad.return (- ENOMEM, pcie_qy_free (pd_note [Take Device, Take Regions] s))
     else (let ep = fill_regions 6 env (new_ep MT_EMU_TYPE_APU (pe_devfn env));
               s = pd_note [Take Device, Take Regions, Take DevState, SetDrv True]
                     (s\<lparr>pd_ep := Some ep, pd_rom := False, pd_priv := None, pd_em := zero_em\<rparr>) in do {
       r \<leftarrow> probe_irq env IRQ_MSI ep s;
       let ret = fst r; let s = snd (snd r);
       (if ret \<noteq> 0 then State_Monad.return (ret, pcie_qy_free s)
        else if pe_misc env \<noteq> 0 then State_Monad.return (pe_misc env, pcie_qy_free s)
        else State_Monad.return (0, pd_note [Take Misc] s)) }))"

definition pcie_apu_remove :: "pci_drv \<Rightarrow> pci_drv" where
  "pcie_apu_remove s = pcie_qy_free s"

section \<open>Virtual functions\<close>

definition pcie_emu_vgpu_free :: "pci_drv \<Rightarrow> pci_drv" where
  "pcie_emu_vgpu_free s =
    (case pd_ep s of
       None \<Rightarrow> s
     | Some ep \<Rightarrow>
        (let f = qy_free_irq ep
         in pd_note [Use DevState, SetDrv False, Use DevState, Give Misc] (s\<lparr>pd_irqs := pd_irqs s @ snd f, pd_ep := None\<rparr>)))"

text \<open>The registrations \<open>mtdma_probe\<close> makes; with one channel of each kind it gets there.\<close>

definition dma_registered :: "(nat \<Rightarrow> int) \<Rightarrow> pev list" where
  "dma_registered reg = (if reg 0 = 0 then [Take WrDma] else []) @ (if reg 1 = 0 then [Take RdDma] else [])"

definition vgpu_probe_dma :: "hardware \<Rightarrow> probe_env \<Rightarrow> emu_pcie \<Rightarrow> pci_drv \<Rightarrow> (int \<times> pci_drv) option io" where
  "vgpu_probe_dma hw env ep s =
    (case build_dma_info_vf (0, 0) (bar_addr ep 0) (bar_addr ep 2) (uint (pe_devfn env)) (pe_info env) of
       None \<Rightarrow> State_Monad.return None
     | Some info \<Rightarrow>
        (case mtdma_bare_init_vf hw (ep_bare ep) info (uint (pe_devfn env)) of
           None \<Rightarrow> State_Monad.return None
         | Some init \<Rightarrow> do {
             bare \<leftarrow> init;
             let s = s\<lparr>pd_ep := Some (ep\<lparr>ep_bare := bare\<rparr>)\<rparr>;
             State_Monad.return
               (case emu_mtdma_init (pe_chip env) (pe_md env) (wr_ch_info info, unat (mi_wr_ch_cnt info))
                       (rd_ch_info info, unat (mi_rd_ch_cnt info)) (pd_em s) of
                  None \<Rightarrow> None
                | Some (r, em) \<Rightarrow>
                   if r \<noteq> 0 then Some (0, pcie_emu_vgpu_free (s\<lparr>pd_em := em\<lparr>em_md := None\<rparr>\<rparr>))
                   else (let (ret, md) = mtdma_probe (pe_reg env) True True (em_md em);
                             s = pd_note (dma_registered (pe_reg env)) s in
                     if ret \<noteq> 0 then Some (ret, pcie_emu_vgpu_free (s\<lparr>pd_em := em\<lparr>em_md := None\<rparr>\<rparr>))
                     else Some (0, s\<lparr>pd_em := em\<lparr>em_md := md\<rparr>\<rparr>))) }))"

definition pcie_emu_vgpu_probe :: "hardware \<Rightarrow> probe_env \<Rightarrow> pci_drv \<Rightarrow> (int \<times> pci_drv) option io" where
  "pcie_emu_vgpu_probe hw env s =
    (if pe_enable env \<noteq> 0 then State_Monad.return (Some (pe_enable env, s))
     else if pe_regions env \<noteq> 0 then State_Monad.return (Some (pe_regions env, pd_note [Take Device] s))
     else if \<not> pe_alloc env then State_Monad.return (Some (- ENOMEM, pd_note [Take Device, Take Regions] s))
     else (let ep = fill_regions 6 env (new_ep MT_EMU_TYPE_VGPU (pe_devfn env));
               s = pd_note [Take Device, Take Regions, Take DevState, SetDrv True]
                     (s\<lparr>pd_ep := Some ep, pd_rom := False, pd_priv := None, pd_em := zero_em\<rparr>) in do {
       r \<leftarrow> probe_irq env IRQ_MSIX ep s;
       let ret = fst r; let ep = fst (snd r); let s = snd (snd r);
       (if ret \<noteq> 0 then State_Monad.return (Some (ret, pcie_emu_vgpu_free s))
        else if pe_misc env \<noteq> 0 then State_Monad.return (Some (pe_misc env, pcie_emu_vgpu_free s))
        else vgpu_probe_dma hw env ep (pd_note [Take Misc] s)) }))"

definition pcie_emu_vgpu_remove :: "pci_drv \<Rightarrow> pci_drv" where
  "pcie_emu_vgpu_remove s = pcie_emu_vgpu_free s"

section \<open>Error recovery\<close>

datatype channel_state = IoNormal | IoFrozen | IoPermFailure | IoOther nat

datatype ers_result = CanRecover | NeedReset | Disconnect | Recovered

text \<open>The result, and whether the configuration space is saved or restored; the same in the three drivers.\<close>

definition emu_gpu_error_detected :: "channel_state \<Rightarrow> ers_result \<times> bool" where
  "emu_gpu_error_detected st =
    (case st of IoNormal \<Rightarrow> (CanRecover, False) | IoFrozen \<Rightarrow> (NeedReset, True)
      | IoPermFailure \<Rightarrow> (Disconnect, False) | IoOther n \<Rightarrow> (NeedReset, False))"

definition emu_gpu_slot_reset :: "ers_result \<times> bool" where
  "emu_gpu_slot_reset = (Recovered, True)"

definition emu_apu_error_detected :: "channel_state \<Rightarrow> ers_result \<times> bool" where
  "emu_apu_error_detected st =
    (case st of IoNormal \<Rightarrow> (CanRecover, False) | IoFrozen \<Rightarrow> (NeedReset, True)
      | IoPermFailure \<Rightarrow> (Disconnect, False) | IoOther n \<Rightarrow> (NeedReset, False))"

definition emu_apu_slot_reset :: "ers_result \<times> bool" where
  "emu_apu_slot_reset = (Recovered, True)"

definition emu_vgpu_error_detected :: "channel_state \<Rightarrow> ers_result \<times> bool" where
  "emu_vgpu_error_detected st =
    (case st of IoNormal \<Rightarrow> (CanRecover, False) | IoFrozen \<Rightarrow> (NeedReset, True)
      | IoPermFailure \<Rightarrow> (Disconnect, False) | IoOther n \<Rightarrow> (NeedReset, False))"

definition emu_vgpu_slot_reset :: "ers_result \<times> bool" where
  "emu_vgpu_slot_reset = (Recovered, True)"

end
