(* ===== verification/PcieProps.thy ===== *)
theory PcieProps
  imports Pcie
begin

text \<open>
  Properties of the address translation set up by the driver: the registers of
  the translation unit hold what was asked for and different regions do not
  interfere; the table of every virtual function maps its first gigabyte, and
  nothing else, to a gigabyte of its own; the regions of the physical functions
  are overwritten.
\<close>

section \<open>Register addresses\<close>

lemma uint_iatu:
  assumes "y < 2" "b < 0x100"
  shows "uint (REG_PCIE_IP_IATU j y b) = 0x3e0000 + uint j * 512 + uint y * 256 + uint b"
proof -
  have j: "0 \<le> uint j" "uint j < 256" using unsigned_less[of j, where ?'a = int] by simp_all
  have y: "0 \<le> uint y" "uint y < 2" and b: "0 \<le> uint b" "uint b < 256"
    using assms by (simp_all add: word_less_def)
  have e: "uint (push_bit 8 y + b) = uint y * 256 + uint b"
    using y b by (simp add: push_bit_eq_mult uint_word_ariths)
  then have "uint (push_bit 8 y + b) < 2 ^ 9" using y b by simp
  then have "push_bit 9 (ucast j) OR push_bit 8 y OR b = push_bit 9 (ucast j) + (push_bit 8 y + b)"
    using or_is_plus[of b 8 y] or_is_plus[of "push_bit 8 y + b" 9 "ucast j"] b by (simp add: or.assoc)
  moreover have "uint (push_bit 9 (ucast j) :: u64) = uint j * 512"
    using j by (simp add: push_bit_eq_mult uint_word_ariths unsigned_ucast_eq take_bit_eq_mod)
  ultimately show ?thesis using e j y b
    by (simp add: REG_PCIE_IP_IATU_def PCIE_CTRL_CFG_BASE_def uint_word_ariths)
qed

lemma iatu_inj:
  assumes "y < 2" "b < 0x100" "y' < 2" "b' < 0x100"
  shows "REG_PCIE_IP_IATU j y b = REG_PCIE_IP_IATU j' y' b' \<longleftrightarrow> j = j' \<and> y = y' \<and> b = b'"
proof
  assume "REG_PCIE_IP_IATU j y b = REG_PCIE_IP_IATU j' y' b'"
  then have "0x3e0000 + uint j * 512 + uint y * 256 + uint b = 0x3e0000 + uint j' * 512 + uint y' * 256 + uint b'"
    using uint_iatu[OF assms(1,2)] uint_iatu[OF assms(3,4)] by metis
  moreover have "0 \<le> uint y" "uint y < 2" "0 \<le> uint b" "uint b < 256" "0 \<le> uint y'" "uint y' < 2" "0 \<le> uint b'" "uint b' < 256"
    using assms by (simp_all add: word_less_def)
  moreover from this have "0 \<le> uint y * 256 + uint b" "uint y * 256 + uint b < 512"
    "0 \<le> uint y' * 256 + uint b'" "uint y' * 256 + uint b' < 512" by simp_all
  ultimately have "uint j = uint j' \<and> uint y * 256 + uint b = uint y' * 256 + uint b'"
    "uint y = uint y' \<and> uint b = uint b' \<or> uint y * 256 + uint b \<noteq> uint y' * 256 + uint b'"
    using digits[of "uint j" 512 "uint y * 256 + uint b" "uint j'" "uint y' * 256 + uint b'"]
      digits[of "uint y" 256 "uint b" "uint y'" "uint b'"] by simp_all
  then show "j = j' \<and> y = y' \<and> b = b'" by (simp add: word_uint_eq_iff)
qed simp

definition iatu_at :: "emu_pcie \<Rightarrow> u8 \<Rightarrow> u64 \<Rightarrow> u64 \<Rightarrow> ioaddr" where
  "iatu_at ep j y b = io_off (bar_addr ep 0) (REG_PCIE_IP_IATU j y b)"

lemma iatu_at_eq:
  assumes "y < 2" "b < 0x100" "y' < 2" "b' < 0x100"
  shows "iatu_at ep j y b = iatu_at ep j' y' b' \<longleftrightarrow> j = j' \<and> y = y' \<and> b = b'"
  using iatu_inj[OF assms] by (simp add: iatu_at_def io_off_def)

lemma atu_regs_small: "PCIE_ATU_UNR_REGION_CTRL1 < 0x100" "PCIE_ATU_UNR_REGION_CTRL2 < 0x100" "PCIE_ATU_UNR_LOWER_BASE < 0x100"
  "PCIE_ATU_UNR_UPPER_BASE < 0x100" "PCIE_ATU_UNR_LOWER_LIMIT < 0x100" "PCIE_ATU_UNR_LOWER_TARGET < 0x100"
  "PCIE_ATU_UNR_UPPER_TARGET < 0x100" "PCIE_ATU_UNR_REGION_CTRL3 < 0x100" "PCIE_ATU_UNR_UPPER_LIMIT < 0x100"
  by (simp_all add: atu_regs)

definition outbound_writes :: "emu_pcie \<Rightarrow> u8 \<Rightarrow> u8 \<Rightarrow> u64 \<Rightarrow> u64 \<Rightarrow> u64 \<Rightarrow> (ioaddr \<times> u32) list" where
  "outbound_writes ep j f l r sz =
    [(iatu_at ep j 0 PCIE_ATU_UNR_LOWER_BASE, lower_32_bits l), (iatu_at ep j 0 PCIE_ATU_UNR_UPPER_BASE, upper_32_bits l),
     (iatu_at ep j 0 PCIE_ATU_UNR_LOWER_LIMIT, lower_32_bits (l + sz - 1)), (iatu_at ep j 0 PCIE_ATU_UNR_UPPER_LIMIT, upper_32_bits (l + sz - 1)),
     (iatu_at ep j 0 PCIE_ATU_UNR_LOWER_TARGET, lower_32_bits r), (iatu_at ep j 0 PCIE_ATU_UNR_UPPER_TARGET, upper_32_bits r),
     (iatu_at ep j 0 PCIE_ATU_UNR_REGION_CTRL1, PCIE_ATU_INCREASE_REGION_SIZE OR push_bit 20 (ucast f)),
     (iatu_at ep j 0 PCIE_ATU_UNR_REGION_CTRL2, PCIE_ATU_ENABLE OR PCIE_ATU_DMA_BYPASS)]"

lemma emits_outbound: "emits (pcie_prog_outbound_atu hw ep j f l r sz) (outbound_writes ep j f l r sz)"
  by (simp add: emits_def pcie_prog_outbound_atu_def outbound_writes_def iatu_at_def mmio_simps Let_def)

definition inbound_vf_writes :: "emu_pcie \<Rightarrow> u8 \<Rightarrow> u8 \<Rightarrow> u8 \<Rightarrow> u64 \<Rightarrow> (ioaddr \<times> u32) list" where
  "inbound_vf_writes ep j f bar l =
    [(iatu_at ep j 1 PCIE_ATU_UNR_LOWER_TARGET, lower_32_bits l), (iatu_at ep j 1 PCIE_ATU_UNR_UPPER_TARGET, upper_32_bits l),
     (iatu_at ep j 1 PCIE_ATU_UNR_REGION_CTRL1, 0), (iatu_at ep j 1 PCIE_ATU_UNR_REGION_CTRL3, ucast f),
     (iatu_at ep j 1 PCIE_ATU_UNR_REGION_CTRL2,
       PCIE_ATU_ENABLE OR PCIE_ATU_VFBAR_MODE_ENABLE OR PCIE_ATU_VFMATCH_ENABLE OR push_bit 8 (ucast bar))]"

lemma emits_inbound_vf: "emits (pcie_prog_inbound_atu_vf hw ep j f bar l) (inbound_vf_writes ep j f bar l)"
  by (simp add: emits_def pcie_prog_inbound_atu_vf_def inbound_vf_writes_def iatu_at_def mmio_simps)

section \<open>Table addresses\<close>

definition eata_at :: "emu_pcie \<Rightarrow> nat \<Rightarrow> u64 \<Rightarrow> ioaddr" where
  "eata_at ep vm y = io_off (bar_addr ep 0) (EATA_REG_OF_DESCx_VMn PCIE_DMA_EATA_DS_CFG_BASE vm + 4 * y)"

lemma uint_eata:
  assumes "vm < 64" "y < 64"
  shows "uint (EATA_REG_OF_DESCx_VMn PCIE_DMA_EATA_DS_CFG_BASE vm + 4 * y) = 0x884000 + int vm * 256 + 4 * uint y"
proof -
  have y: "0 \<le> uint y" "uint y < 64" using assms(2) by (simp_all add: word_less_def)
  have "uint (of_nat vm :: u64) = int vm" using assms(1) by (simp add: unsigned_of_nat take_bit_nat_eq_self)
  then show ?thesis using y assms(1)
    by (simp add: EATA_REG_OF_DESCx_VMn_def PCIE_DMA_EATA_DS_CFG_BASE_def uint_word_ariths)
qed

lemma eata_at_eq:
  assumes "vm < 64" "y < 64" "vm' < 64" "y' < 64"
  shows "eata_at ep vm y = eata_at ep vm' y' \<longleftrightarrow> vm = vm' \<and> y = y'"
proof
  assume "eata_at ep vm y = eata_at ep vm' y'"
  then have "0x884000 + int vm * 256 + 4 * uint y = 0x884000 + int vm' * 256 + 4 * uint y'"
    using uint_eata[OF assms(1,2)] uint_eata[OF assms(3,4)] by (simp add: eata_at_def io_off_def)
  moreover have "0 \<le> uint y" "uint y < 64" "0 \<le> uint y'" "uint y' < 64" using assms by (simp_all add: word_less_def)
  ultimately have "int vm = int vm' \<and> uint y = uint y'"
    using digits[of "int vm" 256 "4 * uint y" "int vm'" "4 * uint y'"] by simp
  then show "vm = vm' \<and> y = y'" by (simp add: word_uint_eq_iff)
qed simp

lemma eata_iatu_apart:
  assumes "vm < 64" "y < 64" "z < 2" "b < 0x100"
  shows "eata_at ep vm y \<noteq> iatu_at ep j z b"
proof
  assume "eata_at ep vm y = iatu_at ep j z b"
  then have "0x884000 + int vm * 256 + 4 * uint y = 0x3e0000 + uint j * 512 + uint z * 256 + uint b"
    using uint_eata[OF assms(1,2)] uint_iatu[OF assms(3,4), of j] by (simp add: eata_at_def iatu_at_def io_off_def)
  moreover have "uint j < 256" "uint z < 2" "uint b < 256" "0 \<le> uint y"
    using unsigned_less[of j, where ?'a = int] assms by (simp_all add: word_less_def)
  ultimately show False by linarith
qed

section \<open>What \<open>iatu_init\<close> leaves behind\<close>

definition inbound_writes :: "emu_pcie \<Rightarrow> u8 \<Rightarrow> u8 \<Rightarrow> u8 \<Rightarrow> u64 \<Rightarrow> (ioaddr \<times> u32) list" where
  "inbound_writes ep j f bar l =
    [(iatu_at ep j 1 PCIE_ATU_UNR_LOWER_TARGET, lower_32_bits l), (iatu_at ep j 1 PCIE_ATU_UNR_UPPER_TARGET, upper_32_bits l),
     (iatu_at ep j 1 PCIE_ATU_UNR_REGION_CTRL1, PCIE_ATU_INCREASE_REGION_SIZE OR push_bit 20 (ucast f)),
     (iatu_at ep j 1 PCIE_ATU_UNR_REGION_CTRL2,
       PCIE_ATU_ENABLE OR PCIE_ATU_BAR_MODE_ENABLE OR PCIE_ATU_FUNC_NUM_MATCH_EN OR push_bit 8 (ucast bar))]"

lemma emits_inbound: "emits (pcie_prog_inbound_atu hw ep j f bar l) (inbound_writes ep j f bar l)"
  by (simp add: emits_def pcie_prog_inbound_atu_def inbound_writes_def iatu_at_def mmio_simps)

definition desc_word :: "u64 \<Rightarrow> u32" where
  "desc_word dest = ucast (EATA_DESC_DEST_ADDR dest OR EATA_DESC_SIZE OR EATA_DESC_VALID)"

definition clear_writes :: "emu_pcie \<Rightarrow> nat \<Rightarrow> (ioaddr \<times> u32) list" where
  "clear_writes ep x = concat (map (\<lambda>y. [(eata_at ep x (of_nat y), 0)]) [0..<EATA_DESC_NUM])"

definition vf_writes :: "emu_pcie \<Rightarrow> nat \<Rightarrow> (ioaddr \<times> u32) list" where
  "vf_writes ep i = inbound_vf_writes ep (of_nat i) (of_nat i) 2 LADDR_VGPU_BASE @ [(eata_at ep i 0, desc_word (LADDR_VGPU i))]"

definition iatu_init_writes :: "emu_pcie \<Rightarrow> (ioaddr \<times> u32) list" where
  "iatu_init_writes ep =
     inbound_writes ep (of_nat IATU_NUM - 1) 0 2 0 @ inbound_writes ep (of_nat IATU_NUM - 2) 1 2 LADDR_APU @
     outbound_writes ep 0 0 0 0 (SIZE_OUTBOUND - P2P_OUTB_SIZE) @ outbound_writes ep 1 0 LADDR_P2P 0x5fc10000000 P2P_OUTB_SIZE @
     concat (map (clear_writes ep) [0..<EATA_VF_NUM]) @ concat (map (vf_writes ep) [0..<VF_NUM])"

lemma emits_desc_en: "emits (mtdma_eata_desc_en ep i 0 dest) [(eata_at ep i 0, desc_word dest)]"
  by (simp add: emits_def mtdma_eata_desc_en_def eata_desc_en_def eata_at_def desc_word_def EATA_DESC_IDX_def mmio_simps)

lemma emits_desc_init: "emits (mtdma_eata_desc_init ep) (concat (map (clear_writes ep) [0..<EATA_VF_NUM]))"
  unfolding mtdma_eata_desc_init_def eata_desc_init_def clear_writes_def eata_at_def
  by (intro emits_for emits_sreg)

lemma emits_iatu_init: "emits (iatu_init hw ep) (iatu_init_writes ep)"
proof -
  have "emits (pcie_prog_inbound_atu_vf hw ep (of_nat i) (of_nat i) 2 LADDR_VGPU_BASE \<bind>
      (\<lambda>_. mtdma_eata_desc_en ep i 0 (LADDR_VGPU i))) (vf_writes ep i)" for i
    unfolding vf_writes_def by (rule emits_bind[OF emits_inbound_vf emits_desc_en])
  then show ?thesis
    unfolding iatu_init_def iatu_init_writes_def
    by (intro emits_bind emits_inbound emits_outbound emits_desc_init emits_for)
qed

lemma vf_writes_addrs:
  "fst ` set (vf_writes ep j) = insert (eata_at ep j 0) ((\<lambda>b. iatu_at ep (of_nat j) 1 b) `
     {PCIE_ATU_UNR_LOWER_TARGET, PCIE_ATU_UNR_UPPER_TARGET, PCIE_ATU_UNR_REGION_CTRL1, PCIE_ATU_UNR_REGION_CTRL3, PCIE_ATU_UNR_REGION_CTRL2})"
  by (auto simp: vf_writes_def inbound_vf_writes_def)

lemma of_nat_u8_eq: "i < 256 \<Longrightarrow> j < 256 \<Longrightarrow> (of_nat i :: u8) = of_nat j \<longleftrightarrow> i = j"
  by (simp add: word_unat_eq_iff unsigned_of_nat take_bit_nat_eq_self)

text \<open>The registers of inbound region \<open>i\<close> are those of the last program for it.\<close>

lemma iatu_init_region:
  assumes "i < VF_NUM" "m = mem_after (exec (iatu_init hw ep) []) mem0"
  shows "m (iatu_at ep (of_nat i) 1 PCIE_ATU_UNR_REGION_CTRL2) = PCIE_ATU_ENABLE OR PCIE_ATU_VFBAR_MODE_ENABLE OR PCIE_ATU_VFMATCH_ENABLE OR push_bit 8 2"
    "m (iatu_at ep (of_nat i) 1 PCIE_ATU_UNR_REGION_CTRL3) = ucast (of_nat i :: u8)"
    "m (iatu_at ep (of_nat i) 1 PCIE_ATU_UNR_LOWER_TARGET) = 0" "m (iatu_at ep (of_nat i) 1 PCIE_ATU_UNR_UPPER_TARGET) = 0"
proof -
  have i: "i < 60" using assms(1) by (simp add: VF_NUM_def)
  have val: "m (iatu_at ep (of_nat i) 1 b) = wmem (vf_writes ep i) m' (iatu_at ep (of_nat i) 1 b)"
    if "b < 0x100" "m' = wmem (concat (map (vf_writes ep) [0..<i])) (wmem (concat (map (clear_writes ep) [0..<EATA_VF_NUM]))
      (wmem (outbound_writes ep 1 0 LADDR_P2P 0x5fc10000000 P2P_OUTB_SIZE) (wmem (outbound_writes ep 0 0 0 0 (SIZE_OUTBOUND - P2P_OUTB_SIZE))
      (wmem (inbound_writes ep (of_nat IATU_NUM - 2) 1 2 LADDR_APU) (wmem (inbound_writes ep (of_nat IATU_NUM - 1) 0 2 0) mem0)))))" for b m'
    unfolding assms(2) mem_emits[OF emits_iatu_init] iatu_init_writes_def wmem_simps that(2)
  proof (rule wmem_rounds[OF assms(1)])
    fix j assume j: "i < j" "j < VF_NUM"
    then have "j < 60" by (simp add: VF_NUM_def)
    then have "iatu_at ep (of_nat i) 1 b \<noteq> eata_at ep j 0"
      using eata_iatu_apart[of j 0 1 b ep "of_nat i"] that(1) by simp
    moreover have "iatu_at ep (of_nat i) 1 b \<noteq> iatu_at ep (of_nat j) 1 b'" if "b' < 0x100" for b'
      using iatu_at_eq[of 1 b 1 b'] \<open>b < 0x100\<close> that i \<open>j < 60\<close> j(1) of_nat_u8_eq[of i j] by simp
    ultimately show "iatu_at ep (of_nat i) 1 b \<notin> fst ` set (vf_writes ep j)"
      unfolding vf_writes_addrs using atu_regs_small by auto
  qed
  have e: "iatu_at ep (of_nat i) 1 b \<noteq> eata_at ep i 0" if "b < 0x100" for b
    using eata_iatu_apart[of i 0 1 b ep "of_nat i"] that i by simp
  note [simp] = val[OF _ refl] vf_writes_def inbound_vf_writes_def iatu_at_eq atu_regs e
  show "m (iatu_at ep (of_nat i) 1 PCIE_ATU_UNR_REGION_CTRL2) = PCIE_ATU_ENABLE OR PCIE_ATU_VFBAR_MODE_ENABLE OR PCIE_ATU_VFMATCH_ENABLE OR push_bit 8 2"
    by simp
  show "m (iatu_at ep (of_nat i) 1 PCIE_ATU_UNR_REGION_CTRL3) = ucast (of_nat i :: u8)"
    by simp
  show "m (iatu_at ep (of_nat i) 1 PCIE_ATU_UNR_LOWER_TARGET) = 0"
    by (simp add: LADDR_VGPU_BASE_def lower_32_bits_def)
  show "m (iatu_at ep (of_nat i) 1 PCIE_ATU_UNR_UPPER_TARGET) = 0"
    by (simp add: LADDR_VGPU_BASE_def upper_32_bits_def)
qed

section \<open>Properties\<close>

text \<open>A memory read by the translation unit: outbound region \<open>j\<close> as (enabled, base,
  limit, target).\<close>

definition outbound_region :: "emu_pcie \<Rightarrow> mem \<Rightarrow> u8 \<Rightarrow> bool \<times> u64 \<times> u64 \<times> u64" where
  "outbound_region ep m j = (let r = (\<lambda>b. m (iatu_at ep j 0 b)) in
    (bit (r PCIE_ATU_UNR_REGION_CTRL2) 31,
     join_32 (r PCIE_ATU_UNR_UPPER_BASE) (r PCIE_ATU_UNR_LOWER_BASE),
     join_32 (r PCIE_ATU_UNR_UPPER_LIMIT) (r PCIE_ATU_UNR_LOWER_LIMIT),
     join_32 (r PCIE_ATU_UNR_UPPER_TARGET) (r PCIE_ATU_UNR_LOWER_TARGET)))"

text \<open>A concrete function, for the examples.\<close>

definition demo_pcie :: emu_pcie where
  "demo_pcie = \<lparr>ep_type = MT_EMU_TYPE_GPU, devfn = 0, vf_num = 0, ep_bare = \<lparr>db_wr_ch_cnt = 0, db_rd_ch_cnt = 0, wr_ch = [], rd_ch = []\<rparr>,
     region = [\<lparr>rg_paddr = 0, rg_base = (0, 0), rg_size = 0x2000000\<rparr>], mtdma_comm_vaddr = (0, 0x380000), irq_type = 0,
     irq_test_mode = 0, vec_num = 0, irq_vector = 0, isr_dmabare = True, irq_allocated = [], ep_int_done = []\<rparr>"

text \<open>Programming an outbound region leaves it enabled with the base, the limit
  (base plus size minus one) and the target asked for, all 64 bits of each, and changes no
  other outbound region and no inbound region; disabling it afterwards clears its enable
  bit and keeps the rest.\<close>

theorem outbound_atu_correct:
  assumes "m = (\<lambda>j f l r sz. mem_after (exec (pcie_prog_outbound_atu hw ep j f l r sz) []) mem0)"
  shows "outbound_region ep (m j f l r sz) j = (True, l, l + sz - 1, r) \<and>
    (\<forall>j' y b. y < 2 \<and> b < 0x100 \<and> \<not> (j' = j \<and> y = 0) \<longrightarrow> m j f l r sz (iatu_at ep j' y b) = mem0 (iatu_at ep j' y b)) \<and>
    outbound_region ep (mem_after (exec (pcie_disable_outbound_atu ep j) []) (m j f l r sz)) j = (False, l, l + sz - 1, r)"
proof -
  have m: "m j f l r sz = wmem (outbound_writes ep j f l r sz) mem0"
    unfolding assms by (rule mem_emits[OF emits_outbound])
  have r: "outbound_region ep (m j f l r sz) j = (True, l, l + sz - 1, r)"
    unfolding m by (simp add: outbound_region_def outbound_writes_def Let_def iatu_at_eq atu_regs
        PCIE_ATU_ENABLE_def PCIE_ATU_DMA_BYPASS_def bit_simps)
  have f: "m j f l r sz (iatu_at ep j' y b) = mem0 (iatu_at ep j' y b)"
    if "y < 2" "b < 0x100" "\<not> (j' = j \<and> y = 0)" for j' y b
    unfolding m by (rule wmem_frame) (use that iatu_at_eq[of y b 0] in \<open>auto simp: outbound_writes_def atu_regs_small\<close>)
  have d: "mem_after (exec (pcie_disable_outbound_atu ep j) []) mm = mm(iatu_at ep j 0 PCIE_ATU_UNR_REGION_CTRL2 := 0)" for mm
    by (simp add: pcie_disable_outbound_atu_def iatu_at_def mmio_simps)
  show ?thesis using r f
    unfolding d by (simp add: outbound_region_def Let_def iatu_at_eq atu_regs)
qed

theorem outbound_atu_correct_witness:
  "mem_after (exec (pcie_prog_outbound_atu (\<lambda>t a. 0) demo_pcie 3 0 0x1000 0x20000 0x400) []) (\<lambda>a. 7) (iatu_at demo_pcie 2 0 8) = 7"
  using outbound_atu_correct[OF refl, where hw = "\<lambda>t a. 0" and ep = demo_pcie and ?mem0.0 = "\<lambda>a. 7" and j = 3 and f = 0 and l = "0x1000" and r = "0x20000" and sz = "0x400"] by simp

text \<open>\<open>iatu_init\<close> gives the last two inbound regions, 49 and 48, to the physical
  functions 0 and 1, and then programs one region per virtual function for 60 virtual functions
  although there are 50 regions: both regions end up in virtual-function mode, matching
  virtual functions 49 and 48, with target 0, so neither physical function has a translation
  for its memory BAR.\<close>

theorem iatu_init_clobbers_pf_regions:
  "let m = mem_after (exec (iatu_init hw ep) []) mem0;
       taken = (\<lambda>i :: u8. m (iatu_at ep i 1 PCIE_ATU_UNR_REGION_CTRL3) = ucast i \<and>
         bit (m (iatu_at ep i 1 PCIE_ATU_UNR_REGION_CTRL2)) 26 \<and> \<not> bit (m (iatu_at ep i 1 PCIE_ATU_UNR_REGION_CTRL2)) 30 \<and>
         join_32 (m (iatu_at ep i 1 PCIE_ATU_UNR_UPPER_TARGET)) (m (iatu_at ep i 1 PCIE_ATU_UNR_LOWER_TARGET)) = 0)
   in IATU_NUM < VF_NUM \<and> taken (of_nat IATU_NUM - 1) \<and> taken (of_nat IATU_NUM - 2)"
  using iatu_init_region[of 49 _ hw ep, OF _ refl] iatu_init_region[of 48 _ hw ep, OF _ refl]
  by (simp add: Let_def IATU_NUM_def VF_NUM_def PCIE_ATU_ENABLE_def PCIE_ATU_VFBAR_MODE_ENABLE_def
      PCIE_ATU_VFMATCH_ENABLE_def bit_simps join_32_def)

lemma u64_index: "i < 48 \<Longrightarrow> (of_nat i :: u64) < 64"
  by (simp add: word_less_nat_alt unsigned_of_nat take_bit_nat_eq_self)

lemma iatu_init_table:
  assumes "vm < EATA_VF_NUM" "y < of_nat EATA_DESC_NUM" "m = mem_after (exec (iatu_init hw ep) []) mem0"
  shows "m (eata_at ep vm y) = (if y = 0 then desc_word (LADDR_VGPU vm) else 0)"
proof -
  have vm: "vm < 48" and y: "y < 48" using assms by (simp_all add: EATA_VF_NUM_def EATA_DESC_NUM_def)
  have y64: "y < 64" using y by (simp add: word_less_def)
  have apart: "eata_at ep vm y \<noteq> iatu_at ep j z b" if "z < 2" "b < 0x100" for j z b
    using eata_iatu_apart[of vm y z b] that vm y64 by simp
  define m0 where "m0 = wmem (outbound_writes ep 1 0 LADDR_P2P 0x5fc10000000 P2P_OUTB_SIZE) (wmem (outbound_writes ep 0 0 0 0 (SIZE_OUTBOUND - P2P_OUTB_SIZE))
      (wmem (inbound_writes ep (of_nat IATU_NUM - 2) 1 2 LADDR_APU) (wmem (inbound_writes ep (of_nat IATU_NUM - 1) 0 2 0) mem0)))"
  have m: "m = wmem (concat (map (vf_writes ep) [0..<VF_NUM])) (wmem (concat (map (clear_writes ep) [0..<EATA_VF_NUM])) m0)"
    unfolding assms(3) mem_emits[OF emits_iatu_init] iatu_init_writes_def wmem_simps m0_def ..
  have other: "eata_at ep vm y \<notin> fst ` set (vf_writes ep j)" if "j < VF_NUM" "j \<noteq> vm \<or> y \<noteq> 0" for j
    unfolding vf_writes_addrs using that apart atu_regs_small eata_at_eq[of vm y j 0 ep] vm y64
    by (auto simp: VF_NUM_def)
  show ?thesis
  proof (cases "y = 0")
    case True
    have "m (eata_at ep vm y) = wmem (vf_writes ep vm) (wmem (concat (map (vf_writes ep) [0..<vm])) (wmem (concat (map (clear_writes ep) [0..<EATA_VF_NUM])) m0)) (eata_at ep vm y)"
      unfolding m by (rule wmem_rounds) (use vm other in \<open>auto simp: VF_NUM_def\<close>)
    then show ?thesis using True by (simp add: vf_writes_def)
  next
    case False
    have "m (eata_at ep vm y) = wmem (concat (map (clear_writes ep) [0..<EATA_VF_NUM])) m0 (eata_at ep vm y)"
      unfolding m by (rule wmem_frame) (use other False in \<open>simp add: image_UN\<close>)
    also have "\<dots> = wmem (clear_writes ep vm) (wmem (concat (map (clear_writes ep) [0..<vm])) m0) (eata_at ep vm y)"
    proof (rule wmem_rounds[OF assms(1)])
      fix j assume j: "vm < j" "j < EATA_VF_NUM"
      have "eata_at ep vm y \<noteq> eata_at ep j (of_nat i)" if "i < EATA_DESC_NUM" for i
        using eata_at_eq[OF _ y64 _ u64_index[of i], of vm j ep] that j vm by (simp add: EATA_VF_NUM_def EATA_DESC_NUM_def)
      then show "eata_at ep vm y \<notin> fst ` set (clear_writes ep j)" 
        by (simp add: clear_writes_def image_image image_UN image_iff Ball_def)
    qed
    also have "\<dots> = 0"
    proof -
      have u: "unat y < EATA_DESC_NUM" using y by (simp add: EATA_DESC_NUM_def word_less_nat_alt)
      have "wmem (clear_writes ep vm) m' (eata_at ep vm y) = 0" for m'
        unfolding clear_writes_def
      proof (subst wmem_rounds[OF u])
        fix j assume j: "unat y < j" "j < EATA_DESC_NUM"
        then have "unat (of_nat j :: u64) = j" by (simp add: EATA_DESC_NUM_def unsigned_of_nat take_bit_nat_eq_self)
        then have "y \<noteq> of_nat j" "(of_nat j :: u64) < 64" using j by (auto simp: EATA_DESC_NUM_def word_less_nat_alt)
        then show "eata_at ep vm y \<notin> fst ` set [(eata_at ep vm (of_nat j), 0 :: u32)]"
          using eata_at_eq[of vm y vm "of_nat j" ep] vm y64 by simp
      qed simp
      then show ?thesis .
    qed
    finally show ?thesis using False by simp
  qed
qed

lemma uint_LADDR_VGPU: "vm < 64 \<Longrightarrow> uint (LADDR_VGPU vm) = int vm * 2 ^ 30"
  by (simp add: LADDR_VGPU_def LADDR_VGPU_BASE_def SIZE_VGPU_DDR_def uint_word_ariths unsigned_of_nat take_bit_nat_eq_self)

lemma uint_desc_word_vgpu:
  assumes "vm < 48"
  shows "uint (desc_word (LADDR_VGPU vm)) = int vm * 2 ^ 22 + 0x71"
proof -
  have "uint (drop_bit 30 (LADDR_VGPU vm)) = int vm"
    using assms by (simp add: drop_bit_eq_div uint_div uint_LADDR_VGPU)
  then have "uint (push_bit 22 (drop_bit 30 (LADDR_VGPU vm)) + 0x71) = int vm * 2 ^ 22 + 0x71"
    using assms by (simp add: push_bit_eq_mult uint_word_ariths)
  moreover have "EATA_DESC_DEST_ADDR d OR EATA_DESC_SIZE OR EATA_DESC_VALID = push_bit 22 (drop_bit 30 d) + 0x71" for d
    using or_is_plus[of "0x71 :: u64" 22 "drop_bit 30 d"]
    by (simp add: EATA_DESC_DEST_ADDR_def EATA_DESC_SIZE_def EATA_DESC_VALID_def or.assoc)
  ultimately show ?thesis using assms by (simp add: desc_word_def unsigned_ucast_eq take_bit_eq_mod)
qed

lemma desc_word_vgpu:
  assumes "vm < 48"
  shows "bit (desc_word (LADDR_VGPU vm)) 0 \<and> push_bit 30 (drop_bit 22 (ucast (desc_word (LADDR_VGPU vm)))) = LADDR_VGPU vm"
proof
  note u = uint_desc_word_vgpu[OF assms]
  have "bit (uint (desc_word (LADDR_VGPU vm))) 0" unfolding u by (simp add: bit_0)
  then show "bit (desc_word (LADDR_VGPU vm)) 0" by (simp only: bit_uint_iff)
  have "uint (drop_bit 22 (ucast (desc_word (LADDR_VGPU vm))) :: u64) = int vm"
    using assms by (simp add: drop_bit_eq_div uint_div unsigned_ucast_eq take_bit_eq_mod u)
  then have "uint (push_bit 30 (drop_bit 22 (ucast (desc_word (LADDR_VGPU vm)))) :: u64) = int vm * 2 ^ 30"
    using assms by (simp add: push_bit_eq_mult uint_word_ariths)
  then show "push_bit 30 (drop_bit 22 (ucast (desc_word (LADDR_VGPU vm)))) = LADDR_VGPU vm"
    using assms by (simp add: word_uint_eq_iff uint_LADDR_VGPU)
qed

text \<open>Reading an entry back by the layout the \<open>EATA_DESC\<close> macros give it: bit 0 says
  it is valid, the bits from 22 up are the destination in gigabytes.\<close>

definition eata_lookup :: "emu_pcie \<Rightarrow> mem \<Rightarrow> nat \<Rightarrow> u64 \<Rightarrow> u64 option" where
  "eata_lookup ep m vm a = (let w = m (eata_at ep vm (EATA_DESC_IDX a)) in
     if bit w 0 then Some (push_bit 30 (drop_bit 22 (ucast w)) + take_bit 30 a) else None)"

text \<open>C17. After \<open>iatu_init\<close> the DMA table of each of the 48 virtual functions that have one
  translates every address of the first gigabyte into the gigabyte reserved for that function
  and nothing else of its 48 gigabytes, whatever the tables held before; the gigabytes of
  different functions do not meet.\<close>

theorem vf_memory_isolated:
  assumes "m = mem_after (exec (iatu_init hw ep) []) mem0" "vm < EATA_VF_NUM" "a < of_nat EATA_DESC_NUM * 0x40000000"
  shows "eata_lookup ep m vm a = (if a < SIZE_VGPU_DDR then Some (LADDR_VGPU vm + a) else None) \<and>
    (a < SIZE_VGPU_DDR \<longrightarrow> (\<forall>vm' < EATA_VF_NUM. \<forall>a' < SIZE_VGPU_DDR. LADDR_VGPU vm + a = LADDR_VGPU vm' + a' \<longrightarrow> vm = vm' \<and> a = a'))"
proof -
  have a: "uint a < 48 * 2 ^ 30" using assms(3) by (simp add: EATA_DESC_NUM_def word_less_def)
  have vm: "vm < 48" using assms(2) by (simp add: EATA_VF_NUM_def)
  have idx: "uint (EATA_DESC_IDX a) = uint a div 2 ^ 30"
    by (simp add: EATA_DESC_IDX_def drop_bit_eq_div uint_div)
  then have "EATA_DESC_IDX a < of_nat EATA_DESC_NUM" using a by (simp add: word_less_def EATA_DESC_NUM_def)
  note tab = iatu_init_table[OF assms(2) this assms(1)]
  have small: "a < SIZE_VGPU_DDR \<longleftrightarrow> EATA_DESC_IDX a = 0"
    using zdiv_eq_0_iff[of "uint a" "2 ^ 30"] by (auto simp: SIZE_VGPU_DDR_def word_less_def word_uint_eq_iff idx)
  have "eata_lookup ep m vm a = Some (LADDR_VGPU vm + a)" if s: "a < SIZE_VGPU_DDR"
  proof -
    have "take_bit 30 a = a" using s by (simp add: SIZE_VGPU_DDR_def word_less_def word_uint_eq_iff uint_mod take_bit_eq_mod)
    then show ?thesis using tab s small desc_word_vgpu[OF vm] by (simp add: eata_lookup_def)
  qed
  moreover have "vm = vm' \<and> a = a'" if "a < SIZE_VGPU_DDR" "vm' < EATA_VF_NUM" "a' < SIZE_VGPU_DDR" "LADDR_VGPU vm + a = LADDR_VGPU vm' + a'" for vm' a'
  proof -
    have "uint a < 2 ^ 30" "uint a' < 2 ^ 30" "vm' < 48" using that by (simp_all add: SIZE_VGPU_DDR_def word_less_def EATA_VF_NUM_def)
    moreover from this have "int vm * 2 ^ 30 + uint a = int vm' * 2 ^ 30 + uint a'"
      using arg_cong[OF that(4), of uint] vm by (simp add: uint_word_ariths uint_LADDR_VGPU)
    ultimately show ?thesis using digits[of "int vm" "2 ^ 30" "uint a" "int vm'" "uint a'"] by (simp add: word_uint_eq_iff)
  qed
  moreover have "eata_lookup ep m vm a = None" if "\<not> a < SIZE_VGPU_DDR"
    using that tab small by (simp add: eata_lookup_def)
  ultimately show ?thesis by (simp del: not_less)
qed

theorem vf_memory_isolated_witness:
  "eata_lookup demo_pcie (mem_after (exec (iatu_init (\<lambda>t a. 0) demo_pcie) []) (\<lambda>a. 0xffffffff)) 5 0x1234 = Some 0x140001234 \<and>
   eata_lookup demo_pcie (mem_after (exec (iatu_init (\<lambda>t a. 0) demo_pcie) []) (\<lambda>a. 0xffffffff)) 5 0x40001234 = None"
  using vf_memory_isolated[OF refl, where hw = "\<lambda>t a. 0" and ep = demo_pcie and ?mem0.0 = "\<lambda>a. 0xffffffff" and vm = 5 and a = "0x1234"]
    vf_memory_isolated[OF refl, where hw = "\<lambda>t a. 0" and ep = demo_pcie and ?mem0.0 = "\<lambda>a. 0xffffffff" and vm = 5 and a = "0x40001234"]
  by (simp add: EATA_VF_NUM_def EATA_DESC_NUM_def SIZE_VGPU_DDR_def LADDR_VGPU_def LADDR_VGPU_BASE_def)

end
