(* ===== verification/IrqProps.thy ===== *)
theory IrqProps
  imports Irq PcieProps Protocol
begin

text \<open>
  Properties of the interrupt code: the calls to the kernel follow the protocol
  the kernel asks for (an automaton on the calls, which the driver refines), the
  dispatch of DMA interrupts serves exactly the channels that report a finished
  transfer, the handlers bracket their work by masking and unmasking, and the
  ways an interrupt is lost.
\<close>

section \<open>The protocol of vectors and handlers\<close>

text \<open>The state is the set of vectors with a handler and the number of vectors.  Vectors
  are allocated when there are none, a handler is installed once on an allocated vector,
  only an installed handler is freed, and vectors are freed when no handler is left.\<close>

fun irq_proto :: "irq_call \<Rightarrow> nat set \<times> nat \<Rightarrow> (nat set \<times> nat) option" where
  "irq_proto (AllocVectors n) (S, m) = (if S = {} \<and> m = 0 \<and> 0 < n then Some ({}, n) else None)"
| "irq_proto FreeVectors (S, m) = (if S = {} \<and> 0 < m then Some ({}, 0) else None)"
| "irq_proto (RequestIrq i) (S, m) = (if i < m \<and> i \<notin> S then Some (insert i S, m) else None)"
| "irq_proto (FreeIrq i) (S, m) = (if i \<in> S then Some (S - {i}, m) else None)"

fun irq_run :: "irq_call list \<Rightarrow> nat set \<times> nat \<Rightarrow> (nat set \<times> nat) option" where
  "irq_run [] s = Some s"
| "irq_run (c # cs) s = Option.bind (irq_proto c s) (irq_run cs)"

interpretation irqs: protocol irq_proto irq_run
  by unfold_locales simp_all

lemmas irq_run_append = irqs.run_append

text \<open>Whatever the protocol allows, handlers are only on vectors that are allocated.\<close>

lemma irq_run_sub: "irq_run log (S, m) = Some (S', m') \<Longrightarrow> S \<subseteq> {..<m} \<Longrightarrow> S' \<subseteq> {..<m'}"
proof -
  have step: "case s' of (S', m') \<Rightarrow> S' \<subseteq> {..<m'}" if "irq_proto e s = Some s'" "case s of (S, m) \<Rightarrow> S \<subseteq> {..<m}" for e s s'
    using that by (cases e; cases s) (auto split: if_splits)
  show "irq_run log (S, m) = Some (S', m') \<Longrightarrow> S \<subseteq> {..<m} \<Longrightarrow> S' \<subseteq> {..<m'}"
    using irqs.run_invariant[where I = "\<lambda>(S, m). S \<subseteq> {..<m}", where es = log and s = "(S, m)" and s' = "(S', m')", OF step] by simp
qed

definition installed :: "emu_pcie \<Rightarrow> nat set" where
  "installed ep = {i. i < length (irq_allocated ep) \<and> irq_allocated ep ! i}"

definition irq_abs :: "emu_pcie \<Rightarrow> nat set \<times> nat" where
  "irq_abs ep = (installed ep, unat (vec_num ep))"

definition irq_inv :: "emu_pcie \<Rightarrow> bool" where
  "irq_inv ep \<longleftrightarrow> ep_wf ep \<and> unat (vec_num ep) \<le> QY_GPU_VECTORS \<and> installed ep \<subseteq> {..<unat (vec_num ep)}"

lemma installed_upd:
  "i < length (irq_allocated ep) \<Longrightarrow> installed (ep\<lparr>irq_allocated := (irq_allocated ep)[i := b]\<rparr>) = (if b then insert i (installed ep) else installed ep - {i})"
  by (auto simp: installed_def nth_list_update)

lemma installed_simps [simp]:
  "installed (ep\<lparr>vec_num := n\<rparr>) = installed ep" "installed (ep\<lparr>irq_type := y\<rparr>) = installed ep"
  "installed (ep\<lparr>irq_test_mode := n\<rparr>) = installed ep" "installed (ep\<lparr>irq_vector := z\<rparr>) = installed ep"
  "installed (ep\<lparr>ep_int_done := d\<rparr>) = installed ep"
  by (simp_all add: installed_def)

lemma free_irqs_spec:
  assumes "set is \<subseteq> {..<length (irq_allocated ep)}"
  shows "irq_run (snd (free_irqs is ep)) (installed ep, m) = Some (installed ep - set is, m) \<and>
    installed (fst (free_irqs is ep)) = installed ep - set is \<and>
    (\<exists>al. length al = length (irq_allocated ep) \<and> fst (free_irqs is ep) = ep\<lparr>irq_allocated := al\<rparr>)"
  using assms
proof (induction "is" arbitrary: ep)
  case Nil
  then show ?case by (auto intro!: exI[of _ "irq_allocated ep"])
next
  case (Cons i "is")
  show ?case
  proof (cases "irq_allocated ep ! i")
    case True
    let ?ep = "ep\<lparr>irq_allocated := (irq_allocated ep)[i := False]\<rparr>"
    have i: "i \<in> installed ep" using True Cons.prems by (simp add: installed_def)
    have s: "installed ?ep = installed ep - {i}" using Cons.prems by (simp add: installed_upd)
    have "set is \<subseteq> {..<length (irq_allocated ?ep)}" using Cons.prems by simp
    note IH = Cons.IH[OF this, unfolded s]
    obtain al where al: "length al = length (irq_allocated ?ep)" "fst (free_irqs is ?ep) = ?ep\<lparr>irq_allocated := al\<rparr>"
      using IH by blast
    then have "fst (free_irqs is ?ep) = ep\<lparr>irq_allocated := al\<rparr>" by simp
    moreover have "length al = length (irq_allocated ep)" using al(1) by simp
    moreover have "free_irqs (i # is) ep = (fst (free_irqs is ?ep), FreeIrq i # snd (free_irqs is ?ep))"
      using True by (simp add: Let_def)
    moreover have "irq_run (FreeIrq i # snd (free_irqs is ?ep)) (installed ep, m) = Some (installed ep - {i} - set is, m)"
      using IH i by simp
    moreover have "installed ep - {i} - set is = installed ep - set (i # is)" by auto
    ultimately show ?thesis using IH by (metis fst_conv snd_conv)
  next
    case False
    then have "i \<notin> installed ep" by (simp add: installed_def)
    then show ?thesis using Cons.IH[of ep] Cons.prems False by (simp add: Diff_insert0)
  qed
qed

lemma qy_free_irq_spec:
  assumes "irq_inv ep" "qy_free_irq ep = (ep', log)"
  shows "irq_run log (irq_abs ep) = Some ({}, 0)" "irq_abs ep' = ({}, 0)" "irq_inv ep'" "ep_type ep' = ep_type ep"
proof -
  let ?n = "unat (vec_num ep)"
  have len: "length (irq_allocated ep) = 32" and n: "?n \<le> 32" and sub: "installed ep \<subseteq> {..<?n}"
    using assms(1) by (simp_all add: irq_inv_def ep_wf_def QY_GPU_VECTORS_def)
  have e: "installed ep - set [0..<?n] = {}" using sub by auto
  have rng: "set [0..<?n] \<subseteq> {..<length (irq_allocated ep)}" using len n by auto
  note spec = free_irqs_spec[OF rng, of ?n, unfolded e]
  have run: "irq_run (snd (free_irqs [0..<?n] ep)) (installed ep, ?n) = Some ({}, ?n)"
    and ins: "installed (fst (free_irqs [0..<?n] ep)) = {}"
    and ex: "\<exists>al. length al = length (irq_allocated ep) \<and> fst (free_irqs [0..<?n] ep) = ep\<lparr>irq_allocated := al\<rparr>"
    using spec by simp_all
  then obtain al where al: "length al = 32" "fst (free_irqs [0..<?n] ep) = ep\<lparr>irq_allocated := al\<rparr>"
    unfolding len by blast
  have r: "ep' = ep\<lparr>irq_allocated := al, vec_num := 0, irq_type := 0\<rparr>"
    "log = snd (free_irqs [0..<?n] ep) @ (if 0 < vec_num ep then [FreeVectors] else [])"
    using assms(2) al(2) by (simp_all add: qy_free_irq_def Let_def)
  show "irq_run log (irq_abs ep) = Some ({}, 0)"
    using run unfolding r(2) irq_run_append irq_abs_def by (cases "vec_num ep = 0") (simp_all add: word_neq_0_conv unat_gt_0)
  show "irq_abs ep' = ({}, 0)" using ins unfolding al(2) r(1) by (simp add: irq_abs_def installed_def)
  then show "irq_inv ep'" using assms(1) al(1) by (simp add: irq_inv_def ep_wf_def irq_abs_def r(1) QY_GPU_VECTORS_def)
  show "ep_type ep' = ep_type ep" by (simp add: r(1))
qed

lemma request_irqs_spec:
  assumes "k \<le> n" "n \<le> length (irq_allocated ep)" "installed ep = {..<k}" "request_irqs env [k..<n] ep = (r, ep', log)"
  shows "irq_run log ({..<k}, n) = Some (installed ep', n) \<and> installed ep' \<subseteq> {..<n} \<and> (r = 0 \<longrightarrow> installed ep' = {..<n}) \<and>
    (\<exists>al. length al = length (irq_allocated ep) \<and> ep' = ep\<lparr>irq_allocated := al\<rparr>)"
  using assms
proof (induction "n - k" arbitrary: k ep r ep' log)
  case 0
  then have e: "k = n" "r = 0" "ep' = ep" "log = []" by simp_all
  have "installed ep = {..<n}" using 0 e(1) by simp
  then show ?case by (simp add: e) (rule exI[of _ "irq_allocated ep"], simp)
next
  case (Suc d)
  then have k: "k < n" "[k..<n] = k # [Suc k..<n]" by (simp_all add: upt_conv_Cons)
  show ?case
  proof (cases "request_ret env k \<noteq> 0")
    case True
    then have e: "r \<noteq> 0" "ep' = ep" "log = []" using Suc.prems(4) k by auto
    have "{..<k} \<subseteq> {..<n}" using k by simp
    then show ?thesis unfolding e(2,3) Suc.prems(3) using e(1) by simp (rule exI[of _ "irq_allocated ep"], simp)
  next
    case False
    let ?ep = "ep\<lparr>irq_allocated := (irq_allocated ep)[k := True]\<rparr>"
    obtain r2 e2 l2 where f: "request_irqs env [Suc k..<n] ?ep = (r2, e2, l2)" by (cases "request_irqs env [Suc k..<n] ?ep") auto
    have eq: "r = r2" "ep' = e2" "log = RequestIrq k # l2" using Suc.prems(4) False f by (simp_all add: k(2))
    have i: "installed ?ep = {..<Suc k}" using Suc.prems k by (simp add: installed_upd lessThan_Suc)
    have "irq_run l2 ({..<Suc k}, n) = Some (installed e2, n) \<and> installed e2 \<subseteq> {..<n} \<and> (r2 = 0 \<longrightarrow> installed e2 = {..<n}) \<and>
        (\<exists>al. length al = length (irq_allocated ?ep) \<and> e2 = ?ep\<lparr>irq_allocated := al\<rparr>)"
      by (rule Suc.hyps(1)[OF _ _ _ i f]) (use Suc.hyps Suc.prems k in auto)
    then show ?thesis using k by (auto simp: eq lessThan_Suc)
  qed
qed

text \<open>The kernel allocates at least one and at most the number of vectors asked for, or
  reports an error as a negative number.\<close>

definition alloc_ok :: "irq_env \<Rightarrow> bool" where
  "alloc_ok env \<longleftrightarrow> (\<forall>mx. alloc_ret env mx \<le> int mx \<and> alloc_ret env mx \<noteq> 0)"

lemma irq_init_spec:
  assumes "irq_inv ep" "alloc_ok env" "result_of (irq_init env ep ty tm) t = (r, ep', log)"
  shows "irq_run log (irq_abs ep) = Some (irq_abs ep') \<and> irq_inv ep' \<and>
    (ty \<noteq> IRQ_DISABLE \<and> r = 0 \<longrightarrow> ty \<in> {IRQ_LEGACY, IRQ_MSI, IRQ_MSIX} \<and> \<not> (ep_type ep = MT_EMU_TYPE_VGPU \<and> ty = IRQ_LEGACY) \<and>
      (let n = alloc_ret env (max_vectors (ep_type ep) ty) in 0 < n \<and> irq_abs ep' = ({..<nat n}, nat n))) \<and>
    (ty \<in> {IRQ_LEGACY, IRQ_MSI, IRQ_MSIX} \<and> \<not> (ep_type ep = MT_EMU_TYPE_VGPU \<and> ty = IRQ_LEGACY) \<and>
      alloc_ret env (max_vectors (ep_type ep) ty) < 0 \<longrightarrow> r = alloc_ret env (max_vectors (ep_type ep) ty) \<and> irq_abs ep' = ({}, 0))"
proof -
  obtain ep1 log1 where f: "qy_free_irq ep = (ep1, log1)" by fastforce
  note q = qy_free_irq_spec[OF assms(1) f]
  define mx where "mx = max_vectors (ep_type ep1) ty"
  define ret where "ret = alloc_ret env mx"
  have mx: "mx \<le> 32" by (simp add: mx_def max_vectors_def qy_vectors)
  have ret: "ret \<le> int mx" "ret \<noteq> 0" using assms(2) by (simp_all add: ret_def alloc_ok_def)
  have wf: "ep_wf ep1" "installed ep1 = {}" using q(2,3) by (simp_all add: irq_inv_def irq_abs_def)
  show ?thesis
  proof (cases "ty = IRQ_DISABLE \<or> ty \<noteq> IRQ_LEGACY \<and> ty \<noteq> IRQ_MSI \<and> ty \<noteq> IRQ_MSIX \<or> ep_type ep1 = MT_EMU_TYPE_VGPU \<and> ty = IRQ_LEGACY \<or> ret < 1")
    case True
    note run = assms(3)[unfolded irq_init_def f Let_def fst_conv snd_conv mx_def[symmetric] ret_def[symmetric]]
    have "ep' = ep1 \<and> log = log1 \<and> (ty \<noteq> IRQ_DISABLE \<longrightarrow> r \<noteq> 0) \<and>
        (ty \<in> {IRQ_LEGACY, IRQ_MSI, IRQ_MSIX} \<and> \<not> (ep_type ep1 = MT_EMU_TYPE_VGPU \<and> ty = IRQ_LEGACY) \<longrightarrow> r = ret)"
    proof (cases "ty \<in> {IRQ_LEGACY, IRQ_MSI, IRQ_MSIX} \<and> \<not> (ep_type ep1 = MT_EMU_TYPE_VGPU \<and> ty = IRQ_LEGACY)")
      case ok: True
      then have "ty \<noteq> IRQ_DISABLE" by (auto simp: irq_kinds)
      moreover have "ret < 1" using True ok calculation by blast
      moreover have "\<not> 0 < ret" using calculation(2) ret by simp
      moreover from calculation have "(r, ep', log) = (ret, ep1, log1)"
        using run ok by (simp add: result_of_def run_state_return split: if_splits)
      ultimately show ?thesis using ret by simp
    next
      case bad: False
      show ?thesis
      proof (cases "ty = IRQ_DISABLE")
        case True
        then show ?thesis using run by (simp add: result_of_def run_state_return irq_kinds)
      next
        case False
        then have "(r, ep', log) = (-1, ep1, log1)"
          using run bad by (simp add: result_of_def run_state_return split: if_splits)
        then show ?thesis using bad by auto
      qed
    qed
    then show ?thesis using q by (auto simp: Let_def ret_def mx_def)
  next
    case False
    let ?ep = "ep1\<lparr>irq_test_mode := of_int tm, irq_type := of_int ty, vec_num := of_int ret, irq_vector := pci_irq_vector env 0\<rparr>"
    obtain r2 e2 l2 where g: "request_irqs env [0..<nat ret] ?ep = (r2, e2, l2)" by (cases "request_irqs env [0..<nat ret] ?ep") auto
    have i: "installed ?ep = {..<0}" using wf(2) by simp
    have len: "length (irq_allocated ep1) = 32" using wf by (simp add: ep_wf_def QY_GPU_VECTORS_def)
    have rq: "irq_run l2 ({..<0}, nat ret) = Some (installed e2, nat ret) \<and> installed e2 \<subseteq> {..<nat ret} \<and> (r2 = 0 \<longrightarrow> installed e2 = {..<nat ret}) \<and>
        (\<exists>al. length al = length (irq_allocated ?ep) \<and> e2 = ?ep\<lparr>irq_allocated := al\<rparr>)"
      by (rule request_irqs_spec[OF _ _ i g]) (use ret mx len in simp_all)
    then obtain al where al: "length al = 32" "e2 = ?ep\<lparr>irq_allocated := al\<rparr>" using len by auto
    have n: "unat (vec_num e2) = nat ret" using ret mx False by (simp add: al unsigned_of_int nat_take_bit_eq[symmetric] take_bit_int_eq_self)
    have res: "r = r2" "log = log1 @ AllocVectors (nat ret) # l2"
      "ep' = (if r2 \<noteq> 0 then e2 else e2\<lparr>ep_int_done := replicate mx 0 @ drop mx (ep_int_done ep1)\<rparr>)"
      using assms(3) False ret g unfolding irq_init_def f
      by (auto simp: Let_def mmio_simps mx_def[symmetric] ret_def[symmetric] simp del: irq_regs_init.simps split: if_splits)
    have "installed ep' = installed e2" "vec_num ep' = vec_num e2" by (simp_all add: res(3))
    then have abs: "irq_abs ep' = (installed e2, nat ret)" using n by (simp add: irq_abs_def)
    have "ep_wf ep'" using wf mx al by (simp add: res(3) ep_wf_def QY_INT_SRC_MAX_NUM_def QY_GPU_VECTORS_def)
    then have "irq_inv ep'" using abs rq ret mx by (simp add: irq_inv_def irq_abs_def QY_GPU_VECTORS_def)
    then show ?thesis using abs rq q(1) False ret by (auto simp: res(1,2) irq_run_append q(4)[symmetric] mx_def[symmetric] ret_def[symmetric])
  qed
qed

text \<open>A sequence of calls, each with the kernel's answers and the arguments.\<close>

fun irq_inits :: "(irq_env \<times> int \<times> int) list \<Rightarrow> emu_pcie \<Rightarrow> (int \<times> int) list \<times> emu_pcie \<times> irq_call list" where
  "irq_inits [] ep = ([], ep, [])"
| "irq_inits ((env, ty, tm) # cs) ep =
    (let r = result_of (irq_init env ep ty tm) []; rest = irq_inits cs (fst (snd r))
     in ((ty, fst r) # fst rest, fst (snd rest), snd (snd r) @ snd (snd rest)))"

lemma irq_inits_spec:
  assumes "irq_inv ep" "\<forall>c \<in> set cs. alloc_ok (fst c)" "irq_inits cs ep = (rs, ep', log)"
  shows "irq_run log (irq_abs ep) = Some (irq_abs ep') \<and> irq_inv ep'"
  using assms
proof (induction cs ep arbitrary: rs ep' log rule: irq_inits.induct)
  case (2 env ty tm cs ep)
  obtain r ep1 log1 where f: "result_of (irq_init env ep ty tm) [] = (r, ep1, log1)" by (metis prod_cases3)
  obtain rs2 ep2 log2 where g: "irq_inits cs ep1 = (rs2, ep2, log2)" by (metis prod_cases3)
  have a: "alloc_ok env" using "2.prems" by simp
  have "irq_run log1 (irq_abs ep) = Some (irq_abs ep1)" "irq_inv ep1"
    using irq_init_spec[OF "2.prems"(1) a f] by blast+
  moreover have "irq_run log2 (irq_abs ep1) = Some (irq_abs ep2) \<and> irq_inv ep2"
    using "2.IH"[OF refl, of rs2 ep2 log2] "2.prems"(2) calculation(2) g unfolding f by simp
  moreover have "log = log1 @ log2" "ep' = ep2"
    using "2.prems"(3) unfolding irq_inits.simps f Let_def fst_conv snd_conv g by simp_all
  ultimately show ?case by (simp add: irq_run_append)
qed simp

text \<open>C18. Any sequence of \<open>irq_init\<close> calls, with any types and whatever the kernel
  answers, failures included, followed by \<open>qy_free_irq\<close>, respects the protocol and
  ends without a handler and without a vector: no handler is installed twice or freed twice,
  and vectors are never freed under a handler.\<close>

theorem irq_lifetime_protocol:
  assumes "irq_inv ep" "irq_abs ep = ({}, 0)" "\<forall>c \<in> set cs. alloc_ok (fst c)"
    and "irq_inits cs ep = (rs, ep1, log1)" "qy_free_irq ep1 = (ep2, log2)"
  shows "irq_run (log1 @ log2) ({}, 0) = Some ({}, 0) \<and> irq_abs ep2 = ({}, 0) \<and> irq_inv ep2"
proof -
  have a: "irq_run log1 ({}, 0) = Some (irq_abs ep1)" "irq_inv ep1"
    using irq_inits_spec[OF assms(1,3,4)] unfolding assms(2) by blast+
  show ?thesis using a(1) qy_free_irq_spec[OF a(2) assms(5)] by (simp add: irq_run_append)
qed

definition demo_chan :: mtdma_chan_info where
  "demo_chan = build_chan (3, 0) (2, 0) (0, 0) 64 0 0"

definition demo_fn :: emu_pcie where
  "demo_fn = demo_pcie\<lparr>irq_allocated := replicate 32 False, ep_int_done := replicate 32 0,
     ep_bare := \<lparr>db_wr_ch_cnt = 64, db_rd_ch_cnt = 64, wr_ch = replicate 64 \<lparr>bc_info = demo_chan, int_done = 0, int_error = 0, chan_id = 0\<rparr>,
       rd_ch = replicate 64 \<lparr>bc_info = demo_chan, int_done = 0, int_error = 0, chan_id = 0\<rparr>\<rparr>\<rparr>"

lemma demo_fn_wf: "ep_wf demo_fn" "irq_inv demo_fn" "irq_abs demo_fn = ({}, 0)"
  by (simp_all add: demo_fn_def demo_pcie_def ep_wf_def irq_inv_def irq_abs_def installed_def
      QY_GPU_VECTORS_def QY_INT_SRC_MAX_NUM_def PCIE_DMA_CH_NUM_def)

text \<open>Two calls: MSI with two vectors, the handler of the second refused, then legacy.\<close>

definition demo_calls :: "(irq_env \<times> int \<times> int) list" where
  "demo_calls =
    [(\<lparr>alloc_ret = (\<lambda>mx. min 2 (int mx) - (if mx = 0 then 1 else 0)), pci_irq_vector = (\<lambda>i. 40 + int i), request_ret = (\<lambda>i. if i = 1 then -16 else 0)\<rparr>, 2, 0),
     (\<lparr>alloc_ret = (\<lambda>mx. min 2 (int mx) - (if mx = 0 then 1 else 0)), pci_irq_vector = (\<lambda>i. 40 + int i), request_ret = (\<lambda>i. 0)\<rparr>, 1, 0)]"

lemma demo_calls_ok: "\<forall>c \<in> set demo_calls. alloc_ok (fst c)"
  by (auto simp: demo_calls_def alloc_ok_def)

theorem irq_lifetime_protocol_witness:
  "let r = irq_inits demo_calls demo_fn in irq_run (snd (snd r) @ snd (qy_free_irq (fst (snd r)))) ({}, 0) = Some ({}, 0)"
proof -
  let ?r = "irq_inits demo_calls demo_fn"
  have "?r = (fst ?r, fst (snd ?r), snd (snd ?r))" by simp
  moreover have "qy_free_irq (fst (snd ?r)) = (fst (qy_free_irq (fst (snd ?r))), snd (qy_free_irq (fst (snd ?r))))" by simp
  ultimately show ?thesis unfolding Let_def
    using irq_lifetime_protocol[OF demo_fn_wf(2,3) demo_calls_ok] by blast
qed

text \<open>When \<open>irq_init\<close> returns 0 for a type other than \<open>IRQ_DISABLE\<close>, the type is one
  of the three, a virtual function did not ask for the legacy type, and a handler is
  installed on each of the vectors the kernel allocated; when the kernel has no vector for a
  request that is allowed, its error is returned and no handler or vector is left.\<close>

theorem irq_init_result:
  assumes "irq_inv ep" "alloc_ok env" "ty \<noteq> IRQ_DISABLE" "result_of (irq_init env ep ty tm) t = (r, ep', log)"
  shows "(r = 0 \<longrightarrow> ty \<in> {IRQ_LEGACY, IRQ_MSI, IRQ_MSIX} \<and> \<not> (ep_type ep = MT_EMU_TYPE_VGPU \<and> ty = IRQ_LEGACY) \<and>
      (let n = alloc_ret env (max_vectors (ep_type ep) ty) in 0 < n \<and> irq_abs ep' = ({..<nat n}, nat n))) \<and>
    (ty \<in> {IRQ_LEGACY, IRQ_MSI, IRQ_MSIX} \<and> \<not> (ep_type ep = MT_EMU_TYPE_VGPU \<and> ty = IRQ_LEGACY) \<and>
      alloc_ret env (max_vectors (ep_type ep) ty) < 0 \<longrightarrow> r = alloc_ret env (max_vectors (ep_type ep) ty) \<and> irq_abs ep' = ({}, 0))"
  using irq_init_spec[OF assms(1,2,4)] assms(3) by blast

definition demo_env :: irq_env where
  "demo_env = \<lparr>alloc_ret = (\<lambda>mx. -28), pci_irq_vector = (\<lambda>i. 40 + int i), request_ret = (\<lambda>i. 0)\<rparr>"

theorem irq_init_result_witness:
  "fst (result_of (irq_init demo_env demo_fn 4 0) []) = -28 \<and> irq_abs (fst (snd (result_of (irq_init demo_env demo_fn 4 0) []))) = ({}, 0)"
proof -
  have "alloc_ok demo_env" by (simp add: alloc_ok_def demo_env_def)
  from irq_init_result[OF demo_fn_wf(2) this, of 4 0 "[]" "fst (result_of (irq_init demo_env demo_fn 4 0) [])"
      "fst (snd (result_of (irq_init demo_env demo_fn 4 0) []))" "snd (snd (result_of (irq_init demo_env demo_fn 4 0) []))"]
  show ?thesis by (simp add: irq_kinds demo_env_def)
qed

section \<open>Dispatch of DMA interrupts\<close>

text \<open>What \<open>dma_bare_isr\<close> makes of a channel when its raw interrupt register reads \<open>val\<close>.\<close>

definition isr_channel :: "(ioaddr \<Rightarrow> u32) \<Rightarrow> dma_bare_ch \<Rightarrow> dma_bare_ch" where
  "isr_channel v ch = (let val = v (io_off (rg_vaddr (bc_info ch)) REG_DMA_CH_INTR_RAW) in
     (if val AND DMA_CH_INTR_BIT_DONE \<noteq> 0 then ch\<lparr>int_error := 0\<rparr>
      else if val AND BARE_ERR_BITS \<noteq> 0 then ch\<lparr>int_error := 1\<rparr> else ch)\<lparr>int_done := int_done ch + 1\<rparr>)"

lemma result_dma_bare_isr: "snd (result_of (dma_bare_isr (\<lambda>_. v) ch) t) = isr_channel v ch"
  by (simp add: dma_bare_isr_def isr_channel_def mmio_simps Let_def)

text \<open>The interrupt status of the channel's registers says that a transfer has finished.\<close>

definition pending_ch :: "(ioaddr \<Rightarrow> u32) \<Rightarrow> emu_pcie \<Rightarrow> bool \<Rightarrow> nat \<Rightarrow> bool" where
  "pending_ch v ep wr i \<longleftrightarrow> v (intr_status_at ep wr i) AND 1 = 1"

text \<open>The channels of a list after those that satisfy \<open>P\<close> were served.\<close>

definition served :: "(ioaddr \<Rightarrow> u32) \<Rightarrow> (nat \<Rightarrow> bool) \<Rightarrow> dma_bare_ch list \<Rightarrow> dma_bare_ch list" where
  "served v P chs = map (\<lambda>i. if P i then isr_channel v (chs ! i) else chs ! i) [0..<length chs]"

lemma served_none: "(\<And>i. i < length chs \<Longrightarrow> \<not> P i) \<Longrightarrow> served v P chs = chs"
  by (rule nth_equalityI) (simp_all add: served_def)

lemma served_upd:
  "i < length chs \<Longrightarrow> \<not> P i \<Longrightarrow> served v P (chs[i := isr_channel v (chs ! i)]) = served v (\<lambda>k. k = i \<or> P k) chs"
  by (rule nth_equalityI) (auto simp: served_def nth_list_update)

lemma served_cong: "(\<And>i. i < length chs \<Longrightarrow> P i \<longleftrightarrow> Q i) \<Longrightarrow> served v P chs = served v Q chs"
  by (simp add: served_def)

lemma set_chs_simps [simp]:
  "bar_addr (set_chs wr chs ep) b = bar_addr ep b" "mtdma_comm_vaddr (set_chs wr chs ep) = mtdma_comm_vaddr ep"
  "bare_chs wr (set_chs wr' chs ep) = (if wr = wr' then chs else bare_chs wr ep)"
  "set_chs wr chs (set_chs wr chs' ep) = set_chs wr chs ep" "set_chs wr (bare_chs wr ep) ep = ep"
  "intr_status_at (set_chs wr chs ep) = intr_status_at ep"
  by (auto simp: bar_addr_def set_chs_def bare_chs_def intr_status_at_def fun_eq_iff)

lemma result_serve_ch:
  "result_of (serve_ch (\<lambda>_. v) wr i ep) t = set_chs wr ((bare_chs wr ep)[i := isr_channel v (bare_chs wr ep ! i)]) ep"
  by (simp add: serve_ch_def run_steps result_dma_bare_isr)

lemma chan_scan_result:
  assumes "distinct is" "set is \<subseteq> {..<length (bare_chs wr ep)}"
  shows "result_of (chan_scan (\<lambda>_. v) wr sts is ep) t =
    set_chs wr (served v (\<lambda>i. i \<in> set is \<and> bit sts i \<and> pending_ch v ep wr i) (bare_chs wr ep)) ep"
  using assms
proof (induction "is" arbitrary: ep t)
  case Nil
  then show ?case by (simp add: run_steps served_none)
next
  case (Cons i "is")
  show ?case
  proof (cases "bit sts i \<and> pending_ch v ep wr i")
    case True
    let ?chs = "(bare_chs wr ep)[i := isr_channel v (bare_chs wr ep ! i)]"
    obtain t' where "result_of (chan_scan (\<lambda>_. v) wr sts (i # is) ep) t = result_of (chan_scan (\<lambda>_. v) wr sts is (set_chs wr ?chs ep)) t'"
      using True by (simp add: pending_ch_def run_steps result_serve_ch)
    also have "\<dots> = set_chs wr (served v (\<lambda>k. k \<in> set is \<and> bit sts k \<and> pending_ch v ep wr k) ?chs) ep"
      using Cons.IH[of "set_chs wr ?chs ep"] Cons.prems by (simp add: pending_ch_def)
    also have "served v (\<lambda>k. k \<in> set is \<and> bit sts k \<and> pending_ch v ep wr k) ?chs =
        served v (\<lambda>k. k \<in> set (i # is) \<and> bit sts k \<and> pending_ch v ep wr k) (bare_chs wr ep)"
      using Cons.prems True by (subst served_upd) (auto intro!: served_cong)
    finally show ?thesis .
  next
    case False
    obtain t' where "result_of (chan_scan (\<lambda>_. v) wr sts (i # is) ep) t = result_of (chan_scan (\<lambda>_. v) wr sts is ep) t'"
      using False by (cases "bit sts i") (simp_all add: pending_ch_def run_steps)
    also have "\<dots> = set_chs wr (served v (\<lambda>k. k \<in> set (i # is) \<and> bit sts k \<and> pending_ch v ep wr k) (bare_chs wr ep)) ep"
      using Cons False by (auto intro!: arg_cong[where f = "\<lambda>c. set_chs wr c ep"] served_cong)
    finally show ?thesis .
  qed
qed

text \<open>The merged status of a direction, as the handler assembles it.\<close>

definition mrg_status :: "(ioaddr \<Rightarrow> u32) \<Rightarrow> emu_pcie \<Rightarrow> bool \<Rightarrow> u64" where
  "mrg_status v ep wr = (let r = (\<lambda>a. v (io_off (mtdma_comm_vaddr ep) a)) in
    (if wr then join_32 (r REG_DMA_COMM_WR_MRG_PF0_STS_C64) (r REG_DMA_COMM_WR_MRG_PF0_STS_C32)
     else join_32 (r REG_DMA_COMM_RD_MRG_PF0_STS_C64) (r REG_DMA_COMM_RD_MRG_PF0_STS_C32)))"

text \<open>C19. On a physical function a DMA interrupt serves exactly the channels of one
  direction whose bit is set in the merged status and whose interrupt status has its done bit
  set: reads when bit 0 of the summary is set, writes only when it is not and bit 16 is.  A
  served channel gets one completion and the error flag its raw register calls for; every
  other channel, and all else of the function, is unchanged.\<close>

theorem dma_isr_serves_pending:
  assumes "ep_wf ep" "devfn ep < 2" "sts = v (io_off (mtdma_comm_vaddr ep) REG_DMA_COMM_MRG_PF0_STS)"
  shows "result_of (emu_dma_isr (\<lambda>_. v) ep) t =
    (if bit sts 0 then set_chs False (served v (\<lambda>i. bit (mrg_status v ep False) i \<and> pending_ch v ep False i) (bare_chs False ep)) ep
     else if bit sts 16 then set_chs True (served v (\<lambda>i. bit (mrg_status v ep True) i \<and> pending_ch v ep True i) (bare_chs True ep)) ep
     else ep)"
proof -
  have len: "length (bare_chs wr ep) = PCIE_DMA_CH_NUM" for wr using assms(1) by (simp add: ep_wf_def bare_chs_def)
  have scan: "result_of (chan_scan (\<lambda>_. v) wr s [0..<PCIE_DMA_CH_NUM] ep) t' =
      set_chs wr (served v (\<lambda>i. bit s i \<and> pending_ch v ep wr i) (bare_chs wr ep)) ep" for wr s t'
    by (subst chan_scan_result) (auto simp: len intro!: arg_cong[where f = "\<lambda>c. set_chs wr c ep"] served_cong)
  show ?thesis using assms(2,3)
    by (simp add: emu_dma_isr_def emu_dma_isr_pf_def GET_COMM_32_def run_steps scan mrg_status_def)
qed

theorem dma_isr_serves_pending_witness:
  "result_of (emu_dma_isr (\<lambda>_ _. 1) demo_fn) [] =
    set_chs False (served (\<lambda>_. 1) (\<lambda>i. i < 64 \<and> bit (0x100000001 :: int) i) (bare_chs False demo_fn)) demo_fn"
proof -
  have "devfn demo_fn < 2" by (simp add: demo_fn_def demo_pcie_def)
  moreover have "join_32 1 1 = 0x100000001" by (simp add: join_32_def)
  ultimately show ?thesis
    using dma_isr_serves_pending[OF demo_fn_wf(1), of "1" "\<lambda>_. 1" "[]"]
    by (simp add: mrg_status_def pending_ch_def del: of_nat_numeral)
qed

section \<open>Which registers a handler writes\<close>

definition writes_in :: "ioaddr set \<Rightarrow> 'a io \<Rightarrow> bool" where
  "writes_in A m \<longleftrightarrow> (\<forall>t. \<exists>ws. writes (exec m t) = writes t @ ws \<and> fst ` set ws \<subseteq> A)"

lemma writes_inD: "writes_in A m \<Longrightarrow> \<exists>ws. writes (exec m t) = writes t @ ws \<and> fst ` set ws \<subseteq> A"
  by (simp add: writes_in_def)

lemma writes_in_bind:
  assumes "writes_in A m" "\<And>t. writes_in A (f (result_of m t))"
  shows "writes_in A (State_Monad.bind m f)"
  unfolding writes_in_def
proof
  fix t
  obtain ws where "writes (exec m t) = writes t @ ws" "fst ` set ws \<subseteq> A"
    using assms(1) writes_inD by blast
  moreover obtain vs where "writes (exec (f (result_of m t)) (exec m t)) = writes (exec m t) @ vs" "fst ` set vs \<subseteq> A"
    using assms(2) writes_inD by blast
  ultimately show "\<exists>ws. writes (exec (State_Monad.bind m f) t) = writes t @ ws \<and> fst ` set ws \<subseteq> A"
    by (intro exI[of _ "ws @ vs"]) (simp add: run_steps image_Un)
qed

lemma writes_in_prims:
  "writes_in A (State_Monad.return x)" "writes_in A (readl hw a)" "a \<in> A \<Longrightarrow> writes_in A (writel w a)"
  by (simp_all add: writes_in_def run_steps)

lemma writes_in_mono: "writes_in A m \<Longrightarrow> A \<subseteq> B \<Longrightarrow> writes_in B m"
  unfolding writes_in_def by (meson order_trans)

text \<open>The registers the DMA interrupt may write: the mask of the common block and the raw
  interrupt register of every channel.\<close>

definition imsk_at :: "emu_pcie \<Rightarrow> ioaddr" where
  "imsk_at ep = io_off (mtdma_comm_vaddr ep) REG_DMA_COMM_MRG_PF0_IMSK"

definition raw_at :: "dma_bare_ch \<Rightarrow> ioaddr" where
  "raw_at ch = io_off (rg_vaddr (bc_info ch)) REG_DMA_CH_INTR_RAW"

definition isr_regs :: "emu_pcie \<Rightarrow> ioaddr set" where
  "isr_regs ep = insert (imsk_at ep) (\<Union>wr. raw_at ` set (bare_chs wr ep))"

lemma imsk_writes:
  "imsk_at ep \<in> A \<Longrightarrow> writes_in A (set_imsk hw ep b)" "imsk_at ep \<in> A \<Longrightarrow> writes_in A (clear_imsk hw ep b)"
  by (simp_all add: set_imsk_def clear_imsk_def GET_COMM_32_def SET_COMM_32_def imsk_at_def writes_in_bind writes_in_prims)

lemma bare_isr_writes: "raw_at ch \<in> A \<Longrightarrow> writes_in A (dma_bare_isr hw ch)"
  by (simp add: dma_bare_isr_def Let_def GET_CH_32_def SET_CH_32_def raw_at_def writes_in_bind writes_in_prims)

lemma bare_isr_info: "bc_info (snd (result_of (dma_bare_isr hw ch) t)) = bc_info ch"
  by (simp add: dma_bare_isr_def mmio_simps Let_def)

text \<open>The channels keep their number and their registers while they are served.\<close>

definition same_regs :: "emu_pcie \<Rightarrow> emu_pcie \<Rightarrow> bool" where
  "same_regs ep ep' \<longleftrightarrow> (\<forall>wr. map bc_info (bare_chs wr ep') = map bc_info (bare_chs wr ep)) \<and>
     mtdma_comm_vaddr ep' = mtdma_comm_vaddr ep \<and> (\<forall>b. bar_addr ep' b = bar_addr ep b) \<and>
     ep_int_done ep' = ep_int_done ep"

lemma raw_at_regs:
  assumes "map bc_info xs = map bc_info ys"
  shows "raw_at ` set xs = raw_at ` set ys"
proof -
  have e: "raw_at ` set zs = (\<lambda>i. io_off (rg_vaddr i) REG_DMA_CH_INTR_RAW) ` set (map bc_info zs)" for zs
    by (simp add: raw_at_def image_image)
  show ?thesis unfolding e[of xs] e[of ys] assms ..
qed

lemma same_regs_isr: "same_regs ep ep' \<Longrightarrow> isr_regs ep' = isr_regs ep"
  using raw_at_regs[of "bare_chs _ ep'" "bare_chs _ ep"] by (simp add: same_regs_def isr_regs_def imsk_at_def)

lemma same_regs_refl [simp]: "same_regs ep ep"
  by (simp add: same_regs_def)

lemma same_regs_trans: "same_regs a b \<Longrightarrow> same_regs b c \<Longrightarrow> same_regs a c"
  by (simp add: same_regs_def)

lemma same_regs_length: "same_regs ep ep' \<Longrightarrow> length (bare_chs wr ep') = length (bare_chs wr ep)"
  unfolding same_regs_def by (metis length_map)

lemma serve_ch_same: "same_regs ep (result_of (serve_ch hw wr i ep) t)"
proof -
  let ?c = "snd (result_of (dma_bare_isr hw (bare_chs wr ep ! i)) t)"
  have "map bc_info ((bare_chs wr ep)[i := ?c]) = map bc_info (bare_chs wr ep)"
  proof (cases "i < length (bare_chs wr ep)")
    case True
    then show ?thesis by (simp add: map_update bare_isr_info) (metis list_update_id map_update)
  qed (simp add: list_update_beyond)
  then show ?thesis by (simp add: serve_ch_def run_steps same_regs_def) (simp add: set_chs_def)
qed

lemma serve_ch_writes:
  assumes "i < length (bare_chs wr ep)" "isr_regs ep \<subseteq> A"
  shows "writes_in A (serve_ch hw wr i ep)"
proof -
  have "raw_at (bare_chs wr ep ! i) \<in> isr_regs ep"
    using nth_mem[OF assms(1)] by (auto simp: isr_regs_def)
  then show ?thesis unfolding serve_ch_def using assms(2) by (intro writes_in_bind bare_isr_writes writes_in_prims) auto
qed

lemma chan_scan_writes:
  assumes "set is \<subseteq> {..<length (bare_chs wr ep)}" "isr_regs ep \<subseteq> A"
  shows "writes_in A (chan_scan hw wr sts is ep) \<and> (\<forall>t. same_regs ep (result_of (chan_scan hw wr sts is ep) t))"
  using assms
proof (induction "is" arbitrary: ep)
  case Nil
  then show ?case by (simp add: run_steps writes_in_prims)
next
  case (Cons i "is")
  let ?st = "\<lambda>w :: u32. if w AND 1 = 1 then serve_ch hw wr i ep else State_Monad.return ep"
  have st: "same_regs ep (result_of (?st w) t)" for w t by (simp add: serve_ch_same run_steps)
  have IH: "writes_in A (chan_scan hw wr sts is (result_of (?st w) t)) \<and>
      (\<forall>u. same_regs (result_of (?st w) t) (result_of (chan_scan hw wr sts is (result_of (?st w) t)) u))" for w t
    by (rule Cons.IH) (use Cons.prems same_regs_isr[OF st] same_regs_length[OF st] in simp_all)
  have "writes_in A (?st w)" for w using Cons.prems serve_ch_writes by (simp add: writes_in_prims)
  then have "writes_in A (readl hw (intr_status_at ep wr i) \<bind> (\<lambda>w. ?st w \<bind> chan_scan hw wr sts is))"
    using IH by (intro writes_in_bind writes_in_prims) blast+
  moreover have "same_regs ep (result_of (readl hw (intr_status_at ep wr i) \<bind> (\<lambda>w. ?st w \<bind> chan_scan hw wr sts is)) t)" for t
    using IH st same_regs_trans unfolding run_steps by blast
  ultimately show ?case using Cons.IH[of ep] Cons.prems by simp
qed

lemma emu_dma_isr_writes:
  assumes "ep_wf ep" "isr_regs ep \<subseteq> A"
  shows "writes_in A (emu_dma_isr hw ep)" "same_regs ep (result_of (emu_dma_isr hw ep) t)"
proof -
  have len: "length (bare_chs wr ep) = 64" for wr using assms(1) by (simp add: ep_wf_def bare_chs_def PCIE_DMA_CH_NUM_def)
  have rng: "set [0..<PCIE_DMA_CH_NUM] \<subseteq> {..<length (bare_chs wr ep)}" for wr by (auto simp: len PCIE_DMA_CH_NUM_def)
  have scan: "writes_in A (chan_scan hw wr sts [0..<PCIE_DMA_CH_NUM] ep)"
    "same_regs ep (result_of (chan_scan hw wr sts [0..<PCIE_DMA_CH_NUM] ep) u)" for wr sts u
    using chan_scan_writes[OF rng assms(2)] by blast+
  have im: "imsk_at ep \<in> A" using assms(2) by (auto simp: isr_regs_def)
  have im': "imsk_at ep' = imsk_at ep" if "same_regs ep ep'" for ep' using that by (simp add: same_regs_def imsk_at_def)
  have pf: "writes_in A (emu_dma_isr_pf hw ep)"
    unfolding emu_dma_isr_pf_def GET_COMM_32_def
    by (auto intro!: writes_in_bind writes_in_prims imsk_writes im scan simp: im'[OF scan(2)])
  have pf2: "same_regs ep (result_of (emu_dma_isr_pf hw ep) t)"
    by (simp add: emu_dma_isr_pf_def GET_COMM_32_def run_steps scan)
  define f where "f = (\<lambda>wr (w::u32) ep. if bit w 0 then serve_ch hw wr 0 ep else State_Monad.return ep)"
  have f1: "same_regs ep' (result_of (f wr w ep') u)" for ep' wr w u by (simp add: f_def serve_ch_same run_steps)
  have f2: "writes_in A (f wr w ep')" if "same_regs ep ep'" for wr w ep'
    unfolding f_def using serve_ch_writes[of 0 wr ep' A hw] same_regs_isr[OF that] same_regs_length[OF that] assms(2) len
    by (simp add: writes_in_prims)
  have vf: "writes_in A (emu_dma_isr_vf hw ep)"
    unfolding emu_dma_isr_vf_def f_def[symmetric, THEN fun_cong, THEN fun_cong, THEN fun_cong]
    by (intro writes_in_bind writes_in_prims f2 f1 same_regs_refl)
  have vf2: "same_regs ep (result_of (emu_dma_isr_vf hw ep) t)"
    unfolding emu_dma_isr_vf_def f_def[symmetric, THEN fun_cong, THEN fun_cong, THEN fun_cong] run_steps
    by (rule same_regs_trans[OF f1 f1])
  show "writes_in A (emu_dma_isr hw ep)" using pf vf by (simp add: emu_dma_isr_def)
  show "same_regs ep (result_of (emu_dma_isr hw ep) t)" using pf2 vf2 by (simp add: emu_dma_isr_def)
qed

text \<open>Registers of the interrupt multiplexer, through BAR 0.\<close>

definition bar0 :: "emu_pcie \<Rightarrow> u64 \<Rightarrow> ioaddr" where
  "bar0 ep a = io_off (bar_addr ep 0) a"

text \<open>Outside test mode the handler of the graphics function brackets its work: it
  masks the target, sets the hold bit of the target's software register, serves the DMA
  channels (writing only the mask of the DMA block and the raw interrupt registers of the
  channels), puts the software register back to what it read, and unmasks the target.  It
  unmasks whatever the mask was before, and never fails.\<close>

theorem gpu_th_brackets:
  assumes "ep_wf ep" "irq_test_mode ep = 0"
  shows "\<exists>r ws ep'. result_of (pcie_gpu_th hw irq ep) t = Some ep' \<and> fst ` set ws \<subseteq> isr_regs ep \<and>
    writes (exec (pcie_gpu_th hw irq ep) t) = writes t @
      [(bar0 ep (PF_TARGET_MASK irq), hw t (bar0 ep (PF_TARGET_MASK irq)) OR 0x10000), (bar0 ep (PF_TARGET_SOFT irq), 0x10000 OR r)] @ ws @
      [(bar0 ep (PF_TARGET_SOFT irq), r), (bar0 ep (PF_TARGET_MASK irq), hw t (bar0 ep (PF_TARGET_MASK irq)) AND NOT 0x10000)]"
proof -
  let ?soft = "bar0 ep (PF_TARGET_SOFT irq)" and ?mask = "bar0 ep (PF_TARGET_MASK irq)"
  let ?m = "hw t ?mask"
  define t0 where "t0 = (t @ [Rd ?mask ?m]) @ [Wr ?mask (?m OR 0x10000)]"
  define t1 where "t1 = t0 @ [Rd ?mask (hw t0 ?mask)]"
  define r where "r = hw t1 ?soft"
  define u where "u = (t1 @ [Rd ?soft r]) @ [Wr ?soft (0x10000 OR r)]"
  define t2 where "t2 = u @ [Rd (bar0 ep (PF_TARGET_CLAIM irq)) (hw u (bar0 ep (PF_TARGET_CLAIM irq)))]"
  define ep' where "ep' = result_of (emu_dma_isr hw ep) t2"
  have same: "bar0 ep' a = bar0 ep a" for a
    using emu_dma_isr_writes(2)[OF assms(1) order_refl, of hw t2] by (simp add: ep'_def same_regs_def bar0_def)
  obtain ws where ws: "writes (exec (emu_dma_isr hw ep) t2) = writes t2 @ ws" "fst ` set ws \<subseteq> isr_regs ep"
    using writes_inD[OF emu_dma_isr_writes(1)[OF assms(1) order_refl]] by blast
  have "result_of (pcie_gpu_th hw irq ep) t = Some ep'"
    "writes (exec (pcie_gpu_th hw irq ep) t) = writes (exec (emu_dma_isr hw ep) t2) @ [(?soft, r), (?mask, ?m AND NOT 0x10000)]"
    using assms(2) same
    by (simp_all add: pcie_gpu_th_def gpu_work_part_def gpu_unmask_def rl_def wl_def run_steps
        ep'_def[symmetric] t2_def[symmetric] u_def[symmetric] r_def[symmetric] t1_def[symmetric] t0_def[symmetric]
        flip: bar0_def del: append_assoc)
  moreover have "writes t2 = writes t @ [(?mask, ?m OR 0x10000), (?soft, 0x10000 OR r)]" by (simp add: t2_def u_def t1_def t0_def)
  ultimately show ?thesis using ws by (intro exI[of _ r] exI[of _ ws] exI[of _ ep']) simp
qed

theorem gpu_th_brackets_witness:
  "\<exists>r ws ep'. result_of (pcie_gpu_th (\<lambda>_ _. 0) 3 demo_fn) [] = Some ep' \<and> fst ` set ws \<subseteq> isr_regs demo_fn \<and>
    writes (exec (pcie_gpu_th (\<lambda>_ _. 0) 3 demo_fn) []) =
      [(bar0 demo_fn (PF_TARGET_MASK 3), 0x10000), (bar0 demo_fn (PF_TARGET_SOFT 3), 0x10000 OR r)] @ ws @
      [(bar0 demo_fn (PF_TARGET_SOFT 3), r), (bar0 demo_fn (PF_TARGET_MASK 3), 0)]"
proof -
  have "irq_test_mode demo_fn = 0" by (simp add: demo_fn_def demo_pcie_def)
  from gpu_th_brackets[OF demo_fn_wf(1) this, of "\<lambda>_ _. 0" 3 "[]"] show ?thesis by simp
qed

text \<open>The DMA interrupt looks only at the done bit of a channel's interrupt status: when
  the done bits read 0, a physical function changes no channel and acknowledges nothing,
  whatever error bits are set, so the error branch of \<open>dma_bare_isr\<close> is not reached for a
  transfer that fails without finishing, and the waiting caller runs into its timeout.\<close>

theorem dma_isr_ignores_errors:
  assumes "devfn ep < 2" "\<And>t wr i. hw t (intr_status_at ep wr i) AND 1 = 0"
  shows "result_of (emu_dma_isr hw ep) t = ep \<and> writes_in {imsk_at ep} (emu_dma_isr hw ep)"
proof -
  have scan: "result_of (chan_scan hw wr sts is ep) u = ep \<and> writes_in {imsk_at ep} (chan_scan hw wr sts is ep)" for wr sts "is" u
  proof (induction "is" arbitrary: u)
    case (Cons i "is")
    have "writes_in {imsk_at ep} (readl hw (intr_status_at ep wr i) \<bind> (\<lambda>rdata.
        (if rdata AND 1 = 1 then serve_ch hw wr i ep else State_Monad.return ep) \<bind> chan_scan hw wr sts is))"
      by (rule writes_in_bind) (use Cons assms(2) in \<open>simp_all add: writes_in_prims run_steps writes_in_bind\<close>)
    then show ?case using Cons assms(2) by (simp add: run_steps)
  qed (simp add: run_steps writes_in_prims)
  show ?thesis using assms(1) scan
    by (auto simp: emu_dma_isr_def emu_dma_isr_pf_def GET_COMM_32_def run_steps writes_in_prims
        intro!: writes_in_bind imsk_writes)
qed

theorem dma_isr_ignores_errors_witness:
  "result_of (emu_dma_isr (\<lambda>_ _. 0xfffffffe) demo_fn) [] = demo_fn \<and> writes_in {imsk_at demo_fn} (emu_dma_isr (\<lambda>_ _. 0xfffffffe) demo_fn)"
proof -
  have "devfn demo_fn < 2" by (simp add: demo_fn_def demo_pcie_def)
  then show ?thesis by (rule dma_isr_ignores_errors) simp
qed

text \<open>In test mode, an interrupt of the graphics function on a target beyond 32, or
  whose claim names a source beyond 255, returns early: the target stays masked and its
  hold bit set, no source is cleared and no completion is signalled, so that target is dead
  until the interrupts are initialised again.\<close>

theorem gpu_th_early_return_masked:
  assumes "irq_test_mode ep \<noteq> 0" "even (v (bar0 ep (PF_TARGET_SOFT irq)))"
    and "32 \<le> irq \<or> bit (v (bar0 ep (PF_TARGET_CLAIM irq))) 8"
  shows "result_of (pcie_gpu_th (\<lambda>_. v) irq ep) t = Some ep \<and>
    writes (exec (pcie_gpu_th (\<lambda>_. v) irq ep) t) = writes t @
      [(bar0 ep (PF_TARGET_MASK irq), v (bar0 ep (PF_TARGET_MASK irq)) OR 0x10000),
       (bar0 ep (PF_TARGET_SOFT irq), 0x10000 OR v (bar0 ep (PF_TARGET_SOFT irq)))]"
proof -
  have soft: "1 AND v (bar0 ep (PF_TARGET_SOFT irq)) = 0"
    using assms(2) by (simp only: one_and_eq even_iff_mod_2_eq_zero)
  have "256 \<le> uint (w AND 0x1ff)" if "bit w 8" for w :: u32
  proof -
    have "bit (uint (w AND 0x1ff)) 8" using that by (simp add: bit_simps bit_uint_iff)
    moreover have "\<not> bit n 8" if "0 \<le> n" "n < 256" for n :: int
      using that bit_take_bit_iff[of 8 n 8] take_bit_int_eq_self[of n 8] by simp
    ultimately show ?thesis by (meson not_le uint_ge_0)
  qed
  then show ?thesis using assms(1,3)
    by (auto simp: pcie_gpu_th_def gpu_test_part_def rl_def wl_def run_steps soft Let_def simp flip: bar0_def)
qed

theorem gpu_th_early_return_masked_witness:
  "result_of (pcie_gpu_th (\<lambda>_ _. 0) 32 (demo_fn\<lparr>irq_test_mode := 1\<rparr>)) [] = Some (demo_fn\<lparr>irq_test_mode := 1\<rparr>)"
  using gpu_th_early_return_masked[of "demo_fn\<lparr>irq_test_mode := 1\<rparr>" "\<lambda>_. 0" 32 "[]"] by simp

lemma clear_bit0:
  assumes "\<not> bit w 0"
  shows "0xfffffffe AND w = (w :: u32)"
proof -
  have "(0xfffffffe :: u32) = NOT 1" by simp
  moreover have "NOT 1 AND w = w"
  proof (rule bit_word_eqI)
    fix n assume "n < LENGTH(32)"
    then show "bit (NOT 1 AND w) n \<longleftrightarrow> bit w n" using assms by (cases "n = 0") (simp_all add: bit_simps bit_1_iff)
  qed
  ultimately show ?thesis by (simp only:)
qed

text \<open>The audio handler tests \<open>0x1&rdata!=0\<close>, which C reads as \<open>0x1&(rdata!=0)\<close>: when
  the software register of target 32 reads non-zero with bit 0 clear (a priority or the
  hold bit), the handler takes the interrupt for a software one, signals the completion and
  clears no source, where the handler of the graphics function claims and clears it.\<close>

theorem apu_th_soft_misread:
  assumes "irq_test_mode ep \<noteq> 0" "v (bar0 ep (APU_TARGET_SOFT 32)) \<noteq> 0" "even (v (bar0 ep (APU_TARGET_SOFT 32)))"
  shows "result_of (pcie_apu_th (\<lambda>_. v) 0 ep) t = complete_int 0 ep \<and>
    writes (exec (pcie_apu_th (\<lambda>_. v) 0 ep) t) = writes t @ [(bar0 ep (APU_TARGET_SOFT 32), v (bar0 ep (APU_TARGET_SOFT 32)))]"
proof -
  have "\<not> bit (v (bar0 ep (APU_TARGET_SOFT 32))) 0" using assms(3) by (simp add: bit_0)
  then have "0xfffffffe AND v (bar0 ep (APU_TARGET_SOFT 32)) = v (bar0 ep (APU_TARGET_SOFT 32))"
    by (rule clear_bit0)
  then show ?thesis using assms
    by (simp add: pcie_apu_th_def rl_def wl_def run_steps flip: bar0_def)
qed

theorem apu_th_soft_misread_witness:
  "writes (exec (pcie_apu_th (\<lambda>_ _. 0x10000) 0 (demo_fn\<lparr>irq_test_mode := 1\<rparr>)) []) = [(bar0 (demo_fn\<lparr>irq_test_mode := 1\<rparr>) (APU_TARGET_SOFT 32), 0x10000)]"
  using apu_th_soft_misread[of "demo_fn\<lparr>irq_test_mode := 1\<rparr>" "\<lambda>_. 0x10000" "[]"] by simp

text \<open>A virtual function whose claim names source 6 or 7, which do not exist, is
  refused its completion, but the handler still clears bit 0 of the source's register, and
  the addresses of these two registers are those of the software registers of targets 0 and 1.\<close>

theorem vgpu_th_bad_source_hits_target:
  assumes "irq_test_mode ep \<noteq> 0" "even (v (bar0 ep (VF_TARGET_SOFT irq)))"
    and "src = uint (v (bar0 ep (VF_TARGET_CLAIM irq)) AND 7)" "6 \<le> src"
  shows "result_of (pcie_vgpu_th (\<lambda>_. v) irq ep) t = Some ep \<and> VF_SRC_SOFT src = VF_TARGET_SOFT (src - 6) \<and>
    (bar0 ep (VF_TARGET_SOFT (src - 6)), 0xfffffffe AND v (bar0 ep (VF_TARGET_SOFT (src - 6)))) \<in> set (writes (exec (pcie_vgpu_th (\<lambda>_. v) irq ep) t))"
proof -
  have soft: "1 AND v (bar0 ep (VF_TARGET_SOFT irq)) = 0" using assms(2) by (simp only: one_and_eq even_iff_mod_2_eq_zero)
  have "of_int src * 4 + 0x2080 = (0x2098 + of_int (src - 6) * 4 :: u64)" by simp
  then have "VF_SRC_SOFT src = VF_TARGET_SOFT (src - 6)" by (simp add: VF_SRC_SOFT_def VF_TARGET_SOFT_def add.commute)
  then show ?thesis using assms(1,4) unfolding assms(3)
    by (simp add: pcie_vgpu_th_def rl_def wl_def run_steps soft Let_def flip: bar0_def)
qed

theorem vgpu_th_bad_source_hits_target_witness:
  "(bar0 (demo_fn\<lparr>irq_test_mode := 1\<rparr>) (VF_TARGET_SOFT 0), 6) \<in> set (writes (exec (pcie_vgpu_th (\<lambda>_ _. 6) 2 (demo_fn\<lparr>irq_test_mode := 1\<rparr>)) []))"
  using vgpu_th_bad_source_hits_target[of "demo_fn\<lparr>irq_test_mode := 1\<rparr>" "\<lambda>_. 6" 2 6 "[]"] by simp

end
