(* ===== verification/ProbeProps.thy ===== *)
theory ProbeProps
  imports Probe IrqProps
begin

text \<open>
  Properties of probing and removing the functions: what a device owns after a probe that
  succeeds and after its removal, and what the error paths leave behind.  The log of
  resources is run by the automaton of \<open>Dmabuf\<close>, that of vectors and handlers by the one of
  \<open>IrqProps\<close>.
\<close>

definition held :: "pci_drv \<Rightarrow> resource set option" where
  "held s = res_run (pd_log s) {}"

definition vectors :: "pci_drv \<Rightarrow> (nat set \<times> nat) option" where
  "vectors s = irq_run (pd_irqs s) ({}, 0)"

text \<open>A device that is not bound, and the result of \<open>irq_init\<close> on the new structure.\<close>

definition fresh :: "pci_drv \<Rightarrow> bool" where
  "fresh s \<longleftrightarrow> pd_ep s = None \<and> pd_log s = [] \<and> pd_irqs s = []"

definition irq_ret :: "probe_env \<Rightarrow> nat \<Rightarrow> u32 \<Rightarrow> int \<Rightarrow> int" where
  "irq_ret env n ty kind = fst (result_of (irq_init (pe_irq env) (fill_regions n env (new_ep ty (pe_devfn env))) kind 0) [])"

text \<open>What the first part of a probe needs to get to \<open>irq_init\<close>, and the arrays of the stack.\<close>

definition begins :: "probe_env \<Rightarrow> bool" where
  "begins env \<longleftrightarrow> pe_enable env = 0 \<and> pe_regions env = 0 \<and> pe_alloc env \<and> alloc_ok (pe_irq env) \<and>
     length (wr_ch_info (pe_info env)) = PCIE_DMA_CH_NUM \<and> length (rd_ch_info (pe_info env)) = PCIE_DMA_CH_NUM"

lemma held_note: "held (pd_note es s) = Option.bind (held s) (res_run es)"
  by (simp add: held_def pd_note_def)

lemma note_simps [simp]:
  "pd_ep (pd_note es s) = pd_ep s" "pd_rom (pd_note es s) = pd_rom s" "pd_priv (pd_note es s) = pd_priv s"
  "pd_em (pd_note es s) = pd_em s" "pd_irqs (pd_note es s) = pd_irqs s"
  by (simp_all add: pd_note_def)

lemma held_upd [simp]:
  "held (s\<lparr>pd_ep := a\<rparr>) = held s" "held (s\<lparr>pd_priv := b\<rparr>) = held s" "held (s\<lparr>pd_em := c\<rparr>) = held s"
  "held (s\<lparr>pd_irqs := d\<rparr>) = held s" "held (s\<lparr>pd_rom := e\<rparr>) = held s"
  by (simp_all add: held_def)

lemma vectors_upd [simp]:
  "vectors (pd_note es s) = vectors s" "vectors (s\<lparr>pd_ep := a\<rparr>) = vectors s" "vectors (s\<lparr>pd_priv := b\<rparr>) = vectors s"
  "vectors (s\<lparr>pd_em := c\<rparr>) = vectors s" "vectors (s\<lparr>pd_rom := e\<rparr>) = vectors s"
  by (simp_all add: vectors_def pd_note_def)

lemma fresh_simps: "fresh s \<Longrightarrow> held s = Some {} \<and> vectors s = Some ({}, 0) \<and> pd_ep s = None"
  by (simp add: fresh_def held_def vectors_def)

section \<open>Vectors\<close>

lemma irq_init_trace: "result_of (irq_init env ep ty tm) t = result_of (irq_init env ep ty tm) []"
  unfolding irq_init_def Let_def by (simp only: run_steps split: if_split) blast

lemma new_ep_irq: "irq_inv (fill_regions n env (new_ep ty fn))" "irq_abs (fill_regions n env (new_ep ty fn)) = ({}, 0)"
  by (simp_all add: irq_inv_def irq_abs_def ep_wf_def fill_regions_def new_ep_def installed_def zero_bare_def Let_def)

text \<open>The vectors in use are those of the driver data.\<close>

definition vec_ok :: "pci_drv \<Rightarrow> bool" where
  "vec_ok s \<longleftrightarrow> (case pd_ep s of None \<Rightarrow> vectors s = Some ({}, 0) | Some ep \<Rightarrow> irq_inv ep \<and> vectors s = Some (irq_abs ep))"

lemma qy_free_vectors:
  assumes "vec_ok s" "pd_ep s = Some ep"
  shows "vectors (s\<lparr>pd_irqs := pd_irqs s @ snd (qy_free_irq ep)\<rparr>) = Some ({}, 0)"
  using assms qy_free_irq_spec(1)[of ep "fst (qy_free_irq ep)" "snd (qy_free_irq ep)"]
  by (simp add: vec_ok_def vectors_def irq_run_append)

lemma gpu_free_vectors: "vec_ok s \<Longrightarrow> vec_ok (pcie_emu_gpu_free s)"
  using qy_free_vectors[of s]
  by (cases "pd_ep s"; cases "pd_priv s") (simp_all add: pcie_emu_gpu_free_def vec_ok_def Let_def vectors_def pd_note_def)

lemma qy_free_vec_ok: "vec_ok s \<Longrightarrow> vec_ok (pcie_qy_free s)"
  using qy_free_vectors[of s]
  by (simp add: pcie_qy_free_def vec_ok_def Let_def vectors_def pd_note_def split: option.splits)

lemma vgpu_free_vec_ok: "vec_ok s \<Longrightarrow> vec_ok (pcie_emu_vgpu_free s)"
  using qy_free_vectors[of s]
  by (simp add: pcie_emu_vgpu_free_def vec_ok_def Let_def vectors_def pd_note_def split: option.splits)

lemma probe_irq_spec:
  assumes "irq_inv ep" "irq_abs ep = ({}, 0)" "alloc_ok (pe_irq env)" "vectors s = Some ({}, 0)"
  shows "\<exists>ep'. result_of (probe_irq env kind ep s) t =
      (fst (result_of (irq_init (pe_irq env) ep kind 0) []), ep',
       s\<lparr>pd_ep := Some ep', pd_irqs := pd_irqs s @ snd (snd (result_of (irq_init (pe_irq env) ep kind 0) []))\<rparr>) \<and>
    vec_ok (s\<lparr>pd_ep := Some ep', pd_irqs := pd_irqs s @ snd (snd (result_of (irq_init (pe_irq env) ep kind 0) []))\<rparr>)"
proof -
  obtain r ep' log where i: "result_of (irq_init (pe_irq env) ep kind 0) [] = (r, ep', log)" by (metis prod_cases3)
  have "irq_run log ({}, 0) = Some (irq_abs ep')" "irq_inv ep'" using irq_init_spec[OF assms(1,3) i] unfolding assms(2) by blast+
  then have "vec_ok (s\<lparr>pd_ep := Some ep', pd_irqs := pd_irqs s @ log\<rparr>)"
    using assms(4) by (simp add: vec_ok_def vectors_def irq_run_append)
  moreover have "result_of (irq_init (pe_irq env) ep kind 0) t = (r, ep', log)" using i irq_init_trace by metis
  ultimately show ?thesis by (simp add: probe_irq_def run_steps i)
qed

section \<open>The graphics function\<close>

lemma length_init_chs [simp]: "length (result_of (init_chs hw l) t) = length l"
  by (induction l arbitrary: t rule: init_chs.induct) (simp_all add: run_steps)

lemma irq_inv_bare:
  "irq_inv (ep\<lparr>mtdma_comm_vaddr := a\<rparr>) = irq_inv ep" "irq_abs (ep\<lparr>mtdma_comm_vaddr := a\<rparr>) = irq_abs ep"
  "irq_inv (ep\<lparr>vf_num := n\<rparr>) = irq_inv ep" "irq_abs (ep\<lparr>vf_num := n\<rparr>) = irq_abs ep"
  "irq_abs (ep\<lparr>ep_bare := b\<rparr>) = irq_abs ep"
  "irq_inv ep \<Longrightarrow> length (wr_ch b) = PCIE_DMA_CH_NUM \<Longrightarrow> length (rd_ch b) = PCIE_DMA_CH_NUM \<Longrightarrow> irq_inv (ep\<lparr>ep_bare := b\<rparr>)"
  by (auto simp: irq_inv_def irq_abs_def ep_wf_def installed_def)

lemma vec_ok_ep: "vec_ok s \<Longrightarrow> pd_ep s = Some ep \<Longrightarrow> irq_inv ep' \<Longrightarrow> irq_abs ep' = irq_abs ep \<Longrightarrow> vec_ok (s\<lparr>pd_ep := Some ep'\<rparr>)"
  by (simp add: vec_ok_def)

lemma vec_ok_upd [simp]:
  "vec_ok (pd_note es s) = vec_ok s" "vec_ok (s\<lparr>pd_priv := b\<rparr>) = vec_ok s" "vec_ok (s\<lparr>pd_em := c\<rparr>) = vec_ok s"
  by (cases "pd_ep s"; simp add: vec_ok_def)+

definition buf_ok :: "probe_env \<Rightarrow> bool" where
  "buf_ok env \<longleftrightarrow> fst (emu_dmabuf_probe (pe_dbuf env)) \<noteq> None"

text \<open>The bare engine of the graphics function is initialised within its arrays.\<close>

lemma gpu_bare_init:
  assumes "irq_inv ep" "length (wr_ch_info (pe_info env)) = PCIE_DMA_CH_NUM" "length (rd_ch_info (pe_info env)) = PCIE_DMA_CH_NUM"
  shows "\<exists>info init. build_dma_info sys rg ll 64 64 (pe_info env) = Some info \<and> mi_wr_ch_cnt info = 64 \<and> mi_rd_ch_cnt info = 64 \<and>
    mtdma_bare_init hw (ep_bare ep) info = Some init \<and>
    (\<forall>t. irq_inv (ep\<lparr>ep_bare := result_of init t\<rparr>))"
proof -
  have l: "length (wr_ch (ep_bare ep)) = 64" "length (rd_ch (ep_bare ep)) = 64"
    using assms(1) by (simp_all add: irq_inv_def ep_wf_def PCIE_DMA_CH_NUM_def)
  obtain info where i: "build_dma_info sys rg ll 64 64 (pe_info env) = Some info" "mi_wr_ch_cnt info = 64" "mi_rd_ch_cnt info = 64"
      "length (wr_ch_info info) = 64" "length (rd_ch_info info) = 64"
    using assms(2,3) by (simp add: build_dma_info_def PCIE_DMA_CH_NUM_def)
  obtain init where m: "mtdma_bare_init hw (ep_bare ep) info = Some init"
    using i l by (simp add: mtdma_bare_init_def Let_def)
  have "length (wr_ch (result_of init t)) = PCIE_DMA_CH_NUM \<and> length (rd_ch (result_of init t)) = PCIE_DMA_CH_NUM" for t
    using m i l by (auto simp: mtdma_bare_init_def Let_def run_steps PCIE_DMA_CH_NUM_def)
  then have "irq_inv (ep\<lparr>ep_bare := result_of init t\<rparr>)" for t using irq_inv_bare(6)[OF assms(1)] by blast
  then show ?thesis using i(1,2,3) m by blast
qed

text \<open>The second part of the probe: success, or the release of everything with the result 0.\<close>

lemma gpu_probe_dma_spec:
  assumes "vec_ok s" "pd_ep s = Some ep" "begins env"
  shows "\<exists>s'. result_of (gpu_probe_dma hw env ep s) t =
      (if buf_ok env \<and> pe_chip env \<and> pe_md env then Some (0, s') else gpu_error 0 s') \<and> vec_ok s' \<and>
    pd_ep s' \<noteq> None \<and> pd_rom s' = pd_rom s \<and> pd_priv s' = fst (emu_dmabuf_probe (pe_dbuf env)) \<and>
    pd_log s' = pd_log s @ snd (emu_dmabuf_probe (pe_dbuf env)) @ (if buf_ok env \<and> pe_chip env \<and> pe_md env then [Sriov VF_NUM] else []) \<and>
    (buf_ok env \<and> pe_chip env \<and> pe_md env \<longrightarrow> vf_num (the (pd_ep s')) = int VF_NUM \<and> em_md (pd_em s') \<noteq> None)"
proof -
  let ?b = "emu_dmabuf_probe (pe_dbuf env)"
  define ep1 where "ep1 = ep\<lparr>mtdma_comm_vaddr := io_off (bar_addr ep 0) REG_DMA_COMM_BASE\<rparr>"
  define s1 where "s1 = pd_note (snd ?b) (s\<lparr>pd_ep := Some ep1, pd_priv := fst ?b\<rparr>)"
  have inv: "irq_inv ep1" "irq_abs ep1 = irq_abs ep" using assms(1,2) by (simp_all add: ep1_def irq_inv_bare vec_ok_def)
  have s1: "vec_ok s1" "pd_ep s1 = Some ep1" "pd_rom s1 = pd_rom s" "pd_priv s1 = fst ?b" "pd_log s1 = pd_log s @ snd ?b"
    using vec_ok_ep[OF assms(1,2) inv] by (simp_all add: s1_def) (simp add: pd_note_def)
  show ?thesis
  proof (cases "fst ?b")
    case None
    then have "result_of (gpu_probe_dma hw env ep s) t = gpu_error 0 s1"
      by (simp add: gpu_probe_dma_def Let_def run_steps s1_def ep1_def)
    then show ?thesis using s1 None by (auto simp: buf_ok_def)
  next
    case (Some db)
    obtain info init where g: "build_dma_info (pe_sys env) (bar_addr ep1 0) (bar_addr ep1 2) 64 64 (pe_info env) = Some info"
        "mi_wr_ch_cnt info = 64" "mi_rd_ch_cnt info = 64" "mtdma_bare_init hw (ep_bare ep1) info = Some init"
        "\<And>t. irq_inv (ep1\<lparr>ep_bare := result_of init t\<rparr>)"
      using gpu_bare_init[OF inv(1), of env "pe_sys env" "bar_addr ep1 0" "bar_addr ep1 2" hw] assms(3) unfolding begins_def by blast
    define u where "u = exec (mtdma_comm_init hw (mtdma_comm_vaddr ep1) VF_NUM) t"
    define ep2 where "ep2 = ep1\<lparr>ep_bare := result_of init u\<rparr>"
    define s2 where "s2 = s1\<lparr>pd_ep := Some ep2\<rparr>"
    have s2: "vec_ok s2" unfolding s2_def using g(5) by (intro vec_ok_ep[OF s1(1,2)]) (simp_all add: ep2_def irq_inv_bare)
    have run: "result_of (gpu_probe_dma hw env ep s) t =
      (case emu_mtdma_init (pe_chip env) (pe_md env) (wr_ch_info info, 64) (rd_ch_info info, 64) (pd_em s2) of
         None \<Rightarrow> None
       | Some (r, em) \<Rightarrow>
          if r \<noteq> 0 then gpu_error 0 (s2\<lparr>pd_em := em\<lparr>em_md := None\<rparr>\<rparr>)
          else (let v = mt_emu_vf_enable ep2 VF_NUM (s2\<lparr>pd_em := em\<rparr>) in Some (0, (snd v)\<lparr>pd_ep := Some (fst v)\<rparr>)))"
      using Some g(1-4) unfolding gpu_probe_dma_def ep1_def[symmetric] Let_def s2_def ep2_def u_def s1_def
      by (simp add: run_steps cong: option.case_cong prod.case_cong)
    show ?thesis
    proof (cases "pe_chip env \<and> pe_md env")
      case True
      then show ?thesis using Some s1 s2 g(5) assms(3)
        by (auto simp: run emu_mtdma_init_def TEST_CH_NUM_def mt_emu_vf_enable_def Let_def buf_ok_def s2_def irq_inv_bare vec_ok_def ep2_def
            pd_note_def vectors_def)
    next
      case False
      then have "result_of (gpu_probe_dma hw env ep s) t = gpu_error 0 (s2\<lparr>pd_em := (pd_em s2)\<lparr>em_md := None\<rparr>\<rparr>)"
        by (auto simp: run emu_mtdma_init_def)
      then show ?thesis using False s1 s2 by (auto simp: s2_def)
    qed
  qed
qed

lemma gpu_free_spec:
  assumes "pd_ep s = Some ep" "\<not> pd_rom s"
  shows "held (pcie_emu_gpu_free s) = Option.bind (held s) (res_run
      ([Use DevState] @ (case pd_priv s of None \<Rightarrow> [] | Some db \<Rightarrow> snd (emu_dmabuf_remove db)) @
       [SetDrv False, Use DevState, Give Misc, Give Regions, RomOff, Give Device])) \<and>
    pd_ep (pcie_emu_gpu_free s) = None"
  using assms by (cases "held s"; cases "pd_priv s") (auto simp: pcie_emu_gpu_free_def Let_def held_note split: Option.bind_split)

lemma gpu_probe_spec:
  assumes "fresh s" "begins env"
  shows "\<exists>s1 ep t1. pd_ep s1 = Some ep \<and> vec_ok s1 \<and> pd_priv s1 = None \<and> \<not> pd_rom s1 \<and>
    held s1 = Some {Device, Regions, DevState} \<and>
    result_of (pcie_emu_gpu_probe hw env s) t =
      (if irq_ret env 7 MT_EMU_TYPE_GPU IRQ_MSI \<noteq> 0 then gpu_error (irq_ret env 7 MT_EMU_TYPE_GPU IRQ_MSI) s1
       else if pe_misc env \<noteq> 0 then gpu_error (pe_misc env) s1
       else result_of (gpu_probe_dma hw env ep (pd_note [Take Misc] s1)) t1)"
proof -
  define ep0 where "ep0 = fill_regions 7 env (new_ep MT_EMU_TYPE_GPU (pe_devfn env))"
  define s0 where "s0 = pd_note [Take Device, Take Regions, Take DevState, SetDrv True]
      (s\<lparr>pd_ep := Some ep0, pd_rom := False, pd_priv := None, pd_em := zero_em\<rparr>)"
  define t0 where "t0 = exec (writel 4 (io_off (bar_addr ep0 0) 0x71c018)) t"
  have f: "held s = Some {}" "vectors s = Some ({}, 0)" using fresh_simps[OF assms(1)] by blast+
  have h0: "held s0 = Some {Device, Regions, DevState}" "vectors s0 = Some ({}, 0)"
    using f by (auto simp: s0_def held_note)
  have a: "alloc_ok (pe_irq env)" using assms(2) by (simp add: begins_def)
  obtain ep' log where r: "result_of (probe_irq env IRQ_MSI ep0 s0) t0 =
        (irq_ret env 7 MT_EMU_TYPE_GPU IRQ_MSI, ep', s0\<lparr>pd_ep := Some ep', pd_irqs := pd_irqs s0 @ log\<rparr>)"
      "vec_ok (s0\<lparr>pd_ep := Some ep', pd_irqs := pd_irqs s0 @ log\<rparr>)"
    using probe_irq_spec[OF new_ep_irq[of 7 env MT_EMU_TYPE_GPU "pe_devfn env"] a h0(2), where kind = IRQ_MSI and t = t0]
    unfolding ep0_def[symmetric] irq_ret_def by blast
  let ?s1 = "s0\<lparr>pd_ep := Some ep', pd_irqs := pd_irqs s0 @ log\<rparr>"
  have run: "result_of (pcie_emu_gpu_probe hw env s) t =
      (if irq_ret env 7 MT_EMU_TYPE_GPU IRQ_MSI \<noteq> 0 then gpu_error (irq_ret env 7 MT_EMU_TYPE_GPU IRQ_MSI) ?s1
       else if pe_misc env \<noteq> 0 then gpu_error (pe_misc env) ?s1
       else result_of (gpu_probe_dma hw env ep' (pd_note [Take Misc] ?s1)) (exec (probe_irq env IRQ_MSI ep0 s0) t0))"
    using assms(2) r(1) unfolding pcie_emu_gpu_probe_def Let_def ep0_def[symmetric] s0_def[symmetric] begins_def
    by (simp add: run_steps(1) t0_def[symmetric]) (simp add: run_steps)
  have "pd_priv ?s1 = None" "\<not> pd_rom ?s1" "held ?s1 = Some {Device, Regions, DevState}" "pd_ep ?s1 = Some ep'"
    using h0(1) by (simp_all add: s0_def)
  then show ?thesis using r(2) run by blast
qed

text \<open>C12. A probe of the graphics function in which nothing fails binds the device: it returns 0, owns
  exactly the device, its regions, its structure, both device files and the DMA buffer, and
  has enabled the virtual functions; its removal then gives everything back, in an order in
  which nothing is used after it was given back, and leaves no handler and no vector; the
  structure itself is freed by the kernel, which manages it.\<close>

theorem gpu_probe_remove:
  assumes "fresh s" "begins env" "irq_ret env 7 MT_EMU_TYPE_GPU IRQ_MSI = 0" "pe_misc env = 0" "buf_ok env" "pe_chip env" "pe_md env"
  shows "\<exists>s'. result_of (pcie_emu_gpu_probe hw env s) t = Some (0, s') \<and>
    held s' = Some {Device, Regions, DevState, Misc, BufRegion, BufMap, BufMisc} \<and> vf_num (the (pd_ep s')) = 60 \<and>
    (let u = pcie_emu_gpu_remove s' in pd_ep u = None \<and> held u = Some {DevState} \<and> vectors u = Some ({}, 0))"
proof -
  obtain s1 ep t1 where p: "pd_ep s1 = Some ep" "vec_ok s1" "\<not> pd_rom s1" "held s1 = Some {Device, Regions, DevState}"
      "result_of (pcie_emu_gpu_probe hw env s) t = result_of (gpu_probe_dma hw env ep (pd_note [Take Misc] s1)) t1"
    using gpu_probe_spec[OF assms(1,2), of hw t] assms(3,4) by auto
  obtain s' where d: "result_of (gpu_probe_dma hw env ep (pd_note [Take Misc] s1)) t1 = Some (0, s')" "vec_ok s'" "pd_ep s' \<noteq> None"
      "\<not> pd_rom s'" "pd_priv s' = fst (emu_dmabuf_probe (pe_dbuf env))" "vf_num (the (pd_ep s')) = int VF_NUM"
      "pd_log s' = pd_log (pd_note [Take Misc] s1) @ snd (emu_dmabuf_probe (pe_dbuf env)) @ [Sriov VF_NUM]"
    using gpu_probe_dma_spec[of "pd_note [Take Misc] s1" ep env hw t1] p assms(2,5,6,7) by auto
  have b: "emu_dmabuf_probe (pe_dbuf env) = (Some (the (fst (emu_dmabuf_probe (pe_dbuf env)))), [Take BufRegion, Take BufMap, Take BufMisc])"
      "db_vaddr (the (fst (emu_dmabuf_probe (pe_dbuf env))))"
    using assms(5) by (auto simp: buf_ok_def emu_dmabuf_probe_def split: if_splits)
  have "held s' = Option.bind (held s1) (res_run ([Take Misc] @ snd (emu_dmabuf_probe (pe_dbuf env)) @ [Sriov VF_NUM]))"
    using d(7) by (simp add: held_def pd_note_def split: Option.bind_split)
  then have h: "held s' = Some {Device, Regions, DevState, Misc, BufRegion, BufMap, BufMisc}"
    by (subst (asm) b(1)) (auto simp: p(4))
  obtain ep' where e: "pd_ep s' = Some ep'" using d(3) by blast
  have f: "held (pcie_emu_gpu_remove s') = Option.bind (held s') (res_run
      ([Sriov 0, Use DevState] @ snd (emu_dmabuf_remove (the (pd_priv s'))) @
       [SetDrv False, Use DevState, Give Misc, Give Regions, RomOff, Give Device]))" "pd_ep (pcie_emu_gpu_remove s') = None"
    using gpu_free_spec[of "pd_note [Sriov 0] s'" ep'] e d(4,5) b(1)
    by (auto simp: pcie_emu_gpu_remove_def held_note split: Option.bind_split option.splits)
  have "emu_dmabuf_remove (the (pd_priv s')) = (the (pd_priv s')\<lparr>db_vaddr := False\<rparr>, [Give BufMisc, Give BufMap, Give BufRegion])"
    using b(2) by (simp add: emu_dmabuf_remove_def d(5))
  then have "held (pcie_emu_gpu_remove s') = Some {DevState}" using f(1) h by (simp add: insert_Diff_if)
  moreover have "vec_ok (pcie_emu_gpu_remove s')" using d(2) by (simp add: pcie_emu_gpu_remove_def gpu_free_vectors)
  ultimately show ?thesis using p(5) d(1,6) h f(2) by (simp add: VF_NUM_def vec_ok_def)
qed

text \<open>What the error path does: without a buffer it gives back what was taken, if the device file
  was registered, and fails otherwise.\<close>

lemma gpu_error_held:
  assumes "pd_ep s = Some ep" "\<not> pd_rom s" "pd_priv s = None" "vec_ok s"
  shows "\<exists>s'. gpu_error ret s = Some (ret, s') \<and> pd_ep s' = None \<and> vectors s' = Some ({}, 0) \<and>
    held s' = Option.bind (held s) (res_run [Use DevState, Give Misc, Give Regions, Give Device])"
  using gpu_free_spec[OF assms(1,2)] gpu_free_vectors[OF assms(4)] assms(3)
  by (cases "held s") (auto simp: gpu_error_def vec_ok_def split: Option.bind_split)

text \<open>When \<open>irq_init\<close> or the registration of the device file fails, the error path of the probe of the graphics
  function deregisters the device file, which is not registered: the probe reports the error, the handlers and
  vectors are given back, but the log of resources is not one the kernel allows.\<close>

theorem gpu_probe_deregisters_unregistered:
  assumes "fresh s" "begins env" "irq_ret env 7 MT_EMU_TYPE_GPU IRQ_MSI \<noteq> 0 \<or> pe_misc env \<noteq> 0"
  shows "\<exists>ret s'. result_of (pcie_emu_gpu_probe hw env s) t = Some (ret, s') \<and> ret \<noteq> 0 \<and> pd_ep s' = None \<and>
    vectors s' = Some ({}, 0) \<and> held s' = None"
proof -
  obtain s1 ep t1 where p: "pd_ep s1 = Some ep" "vec_ok s1" "pd_priv s1 = None" "\<not> pd_rom s1" "held s1 = Some {Device, Regions, DevState}"
      "result_of (pcie_emu_gpu_probe hw env s) t =
        (if irq_ret env 7 MT_EMU_TYPE_GPU IRQ_MSI \<noteq> 0 then gpu_error (irq_ret env 7 MT_EMU_TYPE_GPU IRQ_MSI) s1
         else if pe_misc env \<noteq> 0 then gpu_error (pe_misc env) s1
         else result_of (gpu_probe_dma hw env ep (pd_note [Take Misc] s1)) t1)"
    using gpu_probe_spec[OF assms(1,2), of hw t] by blast
  then obtain ret where r: "ret \<noteq> 0" "result_of (pcie_emu_gpu_probe hw env s) t = gpu_error ret s1"
    using assms(3) by (metis (no_types))
  obtain s' where "gpu_error ret s1 = Some (ret, s')" "pd_ep s' = None" "vectors s' = Some ({}, 0)"
      "held s' = Option.bind (held s1) (res_run [Use DevState, Give Misc, Give Regions, Give Device])"
    using gpu_error_held[OF p(1,4,3,2), of ret] by blast
  then show ?thesis using r p(5) by auto
qed

text \<open>When the DMA buffer or the controller cannot be set up, the probe of the graphics function reports success
  and leaves nothing behind it that works: \<open>ret\<close> is still 0 from the registration of the device
  file, the driver data is null and the device file, the regions and the device are given back.
  The reserved memory is lost when it could not be mapped.\<close>

theorem gpu_probe_false_success:
  assumes "fresh s" "begins env" "irq_ret env 7 MT_EMU_TYPE_GPU IRQ_MSI = 0" "pe_misc env = 0" "\<not> (buf_ok env \<and> pe_chip env \<and> pe_md env)"
  shows "\<exists>s' S. result_of (pcie_emu_gpu_probe hw env s) t = Some (0, s') \<and> pd_ep s' = None \<and> vectors s' = Some ({}, 0) \<and>
    held s' = Some S \<and> S \<inter> {Device, Regions, Misc} = {} \<and>
    (BufRegion \<in> S \<longleftrightarrow> db_alloc_ok (pe_dbuf env) \<and> db_region_ok (pe_dbuf env) \<and> \<not> db_remap_ok (pe_dbuf env))"
proof -
  obtain s1 ep t1 where p: "pd_ep s1 = Some ep" "vec_ok s1" "\<not> pd_rom s1" "held s1 = Some {Device, Regions, DevState}"
      "result_of (pcie_emu_gpu_probe hw env s) t = result_of (gpu_probe_dma hw env ep (pd_note [Take Misc] s1)) t1"
    using gpu_probe_spec[OF assms(1,2), of hw t] assms(3,4) by auto
  obtain s' where d: "result_of (gpu_probe_dma hw env ep (pd_note [Take Misc] s1)) t1 = gpu_error 0 s'" "vec_ok s'" "pd_ep s' \<noteq> None"
      "\<not> pd_rom s'" "pd_priv s' = fst (emu_dmabuf_probe (pe_dbuf env))"
      "pd_log s' = pd_log (pd_note [Take Misc] s1) @ snd (emu_dmabuf_probe (pe_dbuf env))"
    using gpu_probe_dma_spec[of "pd_note [Take Misc] s1" ep env hw t1] p(1-3) assms(2,5) by auto
  obtain ep' where e: "pd_ep s' = Some ep'" using d(3) by blast
  have h: "held s' = Option.bind (held s1) (res_run ([Take Misc] @ snd (emu_dmabuf_probe (pe_dbuf env))))"
    using d(6) by (simp add: held_def pd_note_def split: Option.bind_split)
  have f: "held (pcie_emu_gpu_free s') = Option.bind (held s') (res_run
      ([Use DevState] @ (case fst (emu_dmabuf_probe (pe_dbuf env)) of None \<Rightarrow> [] | Some db \<Rightarrow> snd (emu_dmabuf_remove db)) @
       [SetDrv False, Use DevState, Give Misc, Give Regions, RomOff, Give Device]))" "pd_ep (pcie_emu_gpu_free s') = None"
    using gpu_free_spec[OF e d(4)] d(5) by auto
  have v: "vectors (pcie_emu_gpu_free s') = Some ({}, 0)" using gpu_free_vectors[OF d(2)] f(2) by (simp add: vec_ok_def)
  have "\<exists>S. held (pcie_emu_gpu_free s') = Some S \<and> S \<inter> {Device, Regions, Misc} = {} \<and>
      (BufRegion \<in> S \<longleftrightarrow> db_alloc_ok (pe_dbuf env) \<and> db_region_ok (pe_dbuf env) \<and> \<not> db_remap_ok (pe_dbuf env))"
    unfolding f(1) h p(4) by (auto simp: emu_dmabuf_probe_def emu_dmabuf_remove_def)
  then show ?thesis using p(5) d(1) f(2) v by (auto simp: gpu_error_def)
qed

section \<open>The audio function\<close>

lemma apu_probe_spec:
  assumes "fresh s" "begins env"
  shows "\<exists>s1. pd_ep s1 \<noteq> None \<and> vec_ok s1 \<and> held s1 = Some {Device, Regions, DevState} \<and>
    result_of (pcie_apu_probe env s) t =
      (if irq_ret env 6 MT_EMU_TYPE_APU IRQ_MSI \<noteq> 0 then (irq_ret env 6 MT_EMU_TYPE_APU IRQ_MSI, pcie_qy_free s1)
       else if pe_misc env \<noteq> 0 then (pe_misc env, pcie_qy_free s1)
       else (0, pd_note [Take Misc] s1))"
proof -
  define ep0 where "ep0 = fill_regions 6 env (new_ep MT_EMU_TYPE_APU (pe_devfn env))"
  define s0 where "s0 = pd_note [Take Device, Take Regions, Take DevState, SetDrv True]
      (s\<lparr>pd_ep := Some ep0, pd_rom := False, pd_priv := None, pd_em := zero_em\<rparr>)"
  have f: "held s = Some {}" "vectors s = Some ({}, 0)" using fresh_simps[OF assms(1)] by blast+
  have h0: "held s0 = Some {Device, Regions, DevState}" "vectors s0 = Some ({}, 0)"
    using f by (auto simp: s0_def held_note)
  have a: "alloc_ok (pe_irq env)" using assms(2) by (simp add: begins_def)
  obtain ep' log where r: "result_of (probe_irq env IRQ_MSI ep0 s0) t =
        (irq_ret env 6 MT_EMU_TYPE_APU IRQ_MSI, ep', s0\<lparr>pd_ep := Some ep', pd_irqs := pd_irqs s0 @ log\<rparr>)"
      "vec_ok (s0\<lparr>pd_ep := Some ep', pd_irqs := pd_irqs s0 @ log\<rparr>)"
    using probe_irq_spec[OF new_ep_irq[of 6 env MT_EMU_TYPE_APU "pe_devfn env"] a h0(2), where kind = IRQ_MSI and t = t]
    unfolding ep0_def[symmetric] irq_ret_def by blast
  let ?s1 = "s0\<lparr>pd_ep := Some ep', pd_irqs := pd_irqs s0 @ log\<rparr>"
  have "result_of (pcie_apu_probe env s) t =
      (if irq_ret env 6 MT_EMU_TYPE_APU IRQ_MSI \<noteq> 0 then (irq_ret env 6 MT_EMU_TYPE_APU IRQ_MSI, pcie_qy_free ?s1)
       else if pe_misc env \<noteq> 0 then (pe_misc env, pcie_qy_free ?s1) else (0, pd_note [Take Misc] ?s1))"
    using assms(2) r(1) unfolding pcie_apu_probe_def Let_def ep0_def[symmetric] s0_def[symmetric] begins_def
    by (simp add: run_steps)
  moreover have "held ?s1 = Some {Device, Regions, DevState}" "pd_ep ?s1 \<noteq> None" using h0(1) by simp_all
  ultimately show ?thesis using r(2) by blast
qed

text \<open>The removal of the audio function uses freed memory: after any successful probe it frees the structure of the device
  and then deregisters the device file that is part of it.  The probe itself loses the enabled device when the regions
  cannot be mapped: the error path does nothing while there is no driver data, and the
  device was enabled without management.\<close>

theorem apu_remove_uses_freed:
  assumes "fresh s" "begins env" "irq_ret env 6 MT_EMU_TYPE_APU IRQ_MSI = 0" "pe_misc env = 0" "bad \<noteq> 0"
  shows "(\<exists>s'. result_of (pcie_apu_probe env s) t = (0, s') \<and> held s' = Some {Device, Regions, DevState, Misc} \<and>
      held (pcie_apu_remove s') = None \<and> vectors (pcie_apu_remove s') = Some ({}, 0)) \<and>
    (\<exists>s'. result_of (pcie_apu_probe (env\<lparr>pe_regions := bad\<rparr>) s) t = (bad, s') \<and> held s' = Some {Device})"
proof -
  obtain s1 where p: "pd_ep s1 \<noteq> None" "vec_ok s1" "held s1 = Some {Device, Regions, DevState}"
      "result_of (pcie_apu_probe env s) t = (0, pd_note [Take Misc] s1)"
    using apu_probe_spec[OF assms(1,2), of t] assms(3,4) by auto
  obtain ep where e: "pd_ep s1 = Some ep" using p(1) by blast
  have h: "held (pd_note [Take Misc] s1) = Some {Device, Regions, DevState, Misc}" using p(3) by (auto simp: held_note)
  then have "held (pcie_apu_remove (pd_note [Take Misc] s1)) = None"
    using e p(3) by (simp add: pcie_apu_remove_def pcie_qy_free_def held_note)
  moreover have "vec_ok (pcie_apu_remove (pd_note [Take Misc] s1))" using p(2) by (simp add: pcie_apu_remove_def qy_free_vec_ok)
  moreover have "pd_ep (pcie_apu_remove (pd_note [Take Misc] s1)) = None" by (simp add: pcie_apu_remove_def pcie_qy_free_def e)
  moreover have "result_of (pcie_apu_probe (env\<lparr>pe_regions := bad\<rparr>) s) t = (bad, pd_note [Take Device] s)"
    using assms(1,2,5) by (simp add: pcie_apu_probe_def begins_def run_steps pcie_qy_free_def fresh_def)
  moreover have "held (pd_note [Take Device] s) = Some {Device}" using fresh_simps[OF assms(1)] by (simp add: held_note)
  ultimately show ?thesis using p(4) h by (simp add: vec_ok_def)
qed

section \<open>Virtual functions\<close>

text \<open>The controller after the probe: its first channel of each direction.\<close>

definition first_chan :: "bool \<Rightarrow> pci_drv \<Rightarrow> mtdma_chan" where
  "first_chan rd s = md_chans rd (the (em_md (pd_em s))) ! 0"

lemma first_setup:
  assumes "chs \<noteq> []" "0 < n"
  shows "ch_info (setup_chans dir n (map_first m f chs) ! 0) = ch_info (map_first m f chs ! 0) \<and>
    ch_trace (setup_chans dir n (map_first m f chs) ! 0) = ch_trace (map_first m f chs ! 0)"
proof -
  have l: "map_first m f chs \<noteq> []" using assms(1) by (auto simp: map_first_def)
  obtain x xs where c: "map_first m f chs = x # xs" using l by (cases "map_first m f chs") auto
  obtain k where n: "n = Suc k" using assms(2) by (cases n) auto
  have "setup_chans dir n (x # xs) ! 0 = setup_chan dir 0 x"
    by (simp add: setup_chans_def n upt_conv_Cons del: upt_Suc)
  then show ?thesis by (simp add: c setup_chan_def vchan_init_def dma_cookie_init_def)
qed

lemma vgpu_probe_spec:
  assumes "fresh s" "begins env" "irq_ret env 6 MT_EMU_TYPE_VGPU IRQ_MSIX = 0" "pe_misc env = 0"
  shows "\<exists>s1 ep t1. pd_ep s1 = Some ep \<and> vec_ok s1 \<and> held s1 = Some {Device, Regions, DevState, Misc} \<and>
    result_of (pcie_emu_vgpu_probe hw env s) t = result_of (vgpu_probe_dma hw env ep s1) t1"
proof -
  define ep0 where "ep0 = fill_regions 6 env (new_ep MT_EMU_TYPE_VGPU (pe_devfn env))"
  define s0 where "s0 = pd_note [Take Device, Take Regions, Take DevState, SetDrv True]
      (s\<lparr>pd_ep := Some ep0, pd_rom := False, pd_priv := None, pd_em := zero_em\<rparr>)"
  have f: "held s = Some {}" "vectors s = Some ({}, 0)" using fresh_simps[OF assms(1)] by blast+
  have h0: "held s0 = Some {Device, Regions, DevState}" "vectors s0 = Some ({}, 0)"
    using f by (auto simp: s0_def held_note)
  have a: "alloc_ok (pe_irq env)" using assms(2) by (simp add: begins_def)
  obtain ep' log where r: "result_of (probe_irq env IRQ_MSIX ep0 s0) t = (0, ep', s0\<lparr>pd_ep := Some ep', pd_irqs := pd_irqs s0 @ log\<rparr>)"
      "vec_ok (s0\<lparr>pd_ep := Some ep', pd_irqs := pd_irqs s0 @ log\<rparr>)"
    using probe_irq_spec[OF new_ep_irq[of 6 env MT_EMU_TYPE_VGPU "pe_devfn env"] a h0(2), where kind = IRQ_MSIX and t = t] assms(3)
    unfolding ep0_def[symmetric] irq_ret_def by fastforce
  let ?s1 = "pd_note [Take Misc] (s0\<lparr>pd_ep := Some ep', pd_irqs := pd_irqs s0 @ log\<rparr>)"
  have "result_of (pcie_emu_vgpu_probe hw env s) t =
      result_of (vgpu_probe_dma hw env ep' ?s1) (exec (probe_irq env IRQ_MSIX ep0 s0) t)"
    using assms(2,4) r(1) unfolding pcie_emu_vgpu_probe_def Let_def ep0_def[symmetric] s0_def[symmetric] begins_def
    by (simp add: run_steps)
  moreover have "held ?s1 = Some {Device, Regions, DevState, Misc}" "pd_ep ?s1 = Some ep'" using h0(1) by (auto simp: held_note)
  ultimately show ?thesis using r(2) vec_ok_upd(1) by metis
qed

lemma init_infos_first: "0 < n \<Longrightarrow> init_infos infos n ! 0 = zero_chan\<lparr>ch_info := infos ! 0\<rparr>" "init_infos infos n \<noteq> []"
  by (simp_all add: init_infos_def TEST_CH_NUM_def)

text \<open>The controller that \<open>emu_mtdma_init\<close> and \<open>mtdma_probe\<close> make of the information about one channel of each kind.\<close>

lemma vgpu_controller:
  assumes "reg 1 = 0"
  shows "\<exists>md. mtdma_probe reg True True (Some \<lparr>wr_ch_cnt = 1, rd_ch_cnt = 1, wr_chan = init_infos ws 1,
      rd_chan = init_infos rs 1, isr_set = False\<rparr>) = (0, Some md) \<and>
    (\<forall>rd. ch_info (md_chans rd md ! 0) = (if rd then rs else ws) ! 0 \<and>
      ch_trace (md_chans rd md ! 0) = [Wr (io_off (rg_vaddr ((if rd then rs else ws) ! 0)) REG_DMA_CH_ENABLE) 0])"
proof -
  have d: "ch_info (map_first 1 disable_chan (init_infos infos 1) ! 0) = infos ! 0 \<and>
      ch_trace (map_first 1 disable_chan (init_infos infos 1) ! 0) = [Wr (io_off (rg_vaddr (infos ! 0)) REG_DMA_CH_ENABLE) 0]" for infos
  proof -
    obtain x xs where c: "init_infos infos 1 = x # xs" using init_infos_first(2)[of infos 1] by (cases "init_infos infos 1") auto
    then have "x = zero_chan\<lparr>ch_info := infos ! 0\<rparr>" using init_infos_first(1)[of 1 infos] by simp
    moreover have "map_first 1 disable_chan (x # xs) ! 0 = disable_chan x" by (simp add: map_first_def)
    ultimately show ?thesis unfolding c by (simp add: disable_chan_def ch_do_def SET_CH_32_def run_steps zero_chan_def)
  qed
  note e = first_setup[OF init_infos_first(2), of 1]
  show ?thesis using assms d e
    by (auto simp: mtdma_probe_def mtdma_channel_setup_def mtdma_v0_core_off_def MTDMA_MAX_WR_CH_def MTDMA_MAX_RD_CH_def Let_def md_chans_def)
qed

lemma vgpu_probe_dma_spec:
  assumes "vec_ok s" "pd_ep s = Some ep" "begins env" "2 \<le> uint (pe_devfn env)" "uint (pe_devfn env) < 66" "pe_chip env" "pe_md env" "pe_reg env 1 = 0"
  shows "\<exists>s' ep' rg. result_of (vgpu_probe_dma hw env ep s) t = Some (0, s') \<and> vec_ok s' \<and> pd_ep s' = Some ep' \<and>
    pd_log s' = pd_log s @ dma_registered (pe_reg env) \<and>
    (\<forall>rd. ch_info (first_chan rd s') = (let ch = nat (uint (pe_devfn env) - 2) in
        if ch = 0 then rg rd else (if rd then rd_ch_info (pe_info env) else wr_ch_info (pe_info env)) ! 0) \<and>
      ll_max (rg rd) = 65536 \<and>
      ch_trace (first_chan rd s') = [Wr (io_off (rg_vaddr (ch_info (first_chan rd s'))) REG_DMA_CH_ENABLE) 0])"
proof -
  define ch where "ch = nat (uint (pe_devfn env) - 2)"
  have ch: "ch < 64" using assms(5) by (simp add: ch_def)
  have l: "length (wr_ch (ep_bare ep)) = 64" "length (rd_ch (ep_bare ep)) = 64"
    using assms(1,2) by (simp_all add: vec_ok_def irq_inv_def ep_wf_def PCIE_DMA_CH_NUM_def)
  have li: "length (wr_ch_info (pe_info env)) = 64" "length (rd_ch_info (pe_info env)) = 64"
    using assms(3) by (simp_all add: begins_def PCIE_DMA_CH_NUM_def)
  obtain cw cr info where i: "build_dma_info_vf (0, 0) (bar_addr ep 0) (bar_addr ep 2) (uint (pe_devfn env)) (pe_info env) = Some info"
      "info = \<lparr>wr_ch_info = (wr_ch_info (pe_info env))[ch := cw], rd_ch_info = (rd_ch_info (pe_info env))[ch := cr], mi_wr_ch_cnt = 1, mi_rd_ch_cnt = 1\<rparr>"
      "ll_max cw = 65536" "ll_max cr = 65536"
    using assms(4) ch li by (simp add: build_dma_info_vf_def Let_def ch_def chan_at_def)
  have ne: "wr_ch (ep_bare ep) \<noteq> []" "rd_ch (ep_bare ep) \<noteq> []" using l by auto
  obtain init where m: "mtdma_bare_init_vf hw (ep_bare ep) info (uint (pe_devfn env)) = Some init"
    using assms(4) ch li ne i(2) by (simp add: mtdma_bare_init_vf_def Let_def ch_def[symmetric])
  have "length (wr_ch (result_of init u)) = PCIE_DMA_CH_NUM \<and> length (rd_ch (result_of init u)) = PCIE_DMA_CH_NUM" for u
    using m assms(4) ch li ne l i(2) by (auto simp: mtdma_bare_init_vf_def Let_def ch_def[symmetric] run_steps PCIE_DMA_CH_NUM_def)
  then have inv: "irq_inv (ep\<lparr>ep_bare := result_of init u\<rparr>)" for u
    using irq_inv_bare(6) assms(1,2) by (simp add: vec_ok_def)
  define s1 where "s1 = s\<lparr>pd_ep := Some (ep\<lparr>ep_bare := result_of init t\<rparr>)\<rparr>"
  have s1: "vec_ok s1" unfolding s1_def by (rule vec_ok_ep[OF assms(1,2) inv]) (simp add: irq_inv_bare)
  obtain md where md: "mtdma_probe (pe_reg env) True True (Some \<lparr>wr_ch_cnt = 1, rd_ch_cnt = 1, wr_chan = init_infos (wr_ch_info info) 1,
        rd_chan = init_infos (rd_ch_info info) 1, isr_set = False\<rparr>) = (0, Some md)"
      "\<And>rd. ch_info (md_chans rd md ! 0) = (if rd then rd_ch_info info else wr_ch_info info) ! 0"
      "\<And>rd. ch_trace (md_chans rd md ! 0) = [Wr (io_off (rg_vaddr ((if rd then rd_ch_info info else wr_ch_info info) ! 0)) REG_DMA_CH_ENABLE) 0]"
    using vgpu_controller[where reg = "pe_reg env" and ws = "wr_ch_info info" and rs = "rd_ch_info info"] assms(8) by blast
  obtain em where em: "emu_mtdma_init (pe_chip env) (pe_md env) (wr_ch_info info, unat (mi_wr_ch_cnt info)) (rd_ch_info info, unat (mi_rd_ch_cnt info)) (pd_em s1) = Some (0, em)"
      "em_md em = Some \<lparr>wr_ch_cnt = 1, rd_ch_cnt = 1, wr_chan = init_infos (wr_ch_info info) 1, rd_chan = init_infos (rd_ch_info info) 1, isr_set = False\<rparr>"
    using assms(6,7) i(2) by (simp add: emu_mtdma_init_def TEST_CH_NUM_def)
  have run: "result_of (vgpu_probe_dma hw env ep s) t = Some (0, (pd_note (dma_registered (pe_reg env)) s1)\<lparr>pd_em := em\<lparr>em_md := Some md\<rparr>\<rparr>)"
    using i(1) m em md(1) unfolding vgpu_probe_dma_def Let_def s1_def by (simp add: run_steps)
  have first: "first_chan rd ((pd_note (dma_registered (pe_reg env)) s1)\<lparr>pd_em := em\<lparr>em_md := Some md\<rparr>\<rparr>) = md_chans rd md ! 0" for rd
    by (simp add: first_chan_def)
  have inf: "(if rd then rd_ch_info info else wr_ch_info info) ! 0 =
      (if ch = 0 then (if rd then cr else cw) else (if rd then rd_ch_info (pe_info env) else wr_ch_info (pe_info env)) ! 0)" for rd
    using li by (simp add: i(2))
  show ?thesis
    apply (rule exI[of _ "(pd_note (dma_registered (pe_reg env)) s1)\<lparr>pd_em := em\<lparr>em_md := Some md\<rparr>\<rparr>"],
      rule exI[of _ "ep\<lparr>ep_bare := result_of init t\<rparr>"], rule exI[of _ "\<lambda>rd. if rd then cr else cw"])
    using run s1 i(3,4) unfolding first Let_def ch_def[symmetric] md(2,3) inf
    by (simp add: s1_def pd_note_def vec_ok_def vectors_def)
qed

text \<open>What a probe of a virtual function needs to succeed.\<close>

definition vgpu_ok :: "probe_env \<Rightarrow> bool" where
  "vgpu_ok env \<longleftrightarrow> begins env \<and> irq_ret env 6 MT_EMU_TYPE_VGPU IRQ_MSIX = 0 \<and> pe_misc env = 0 \<and> pe_chip env \<and> pe_md env \<and>
     pe_reg env 1 = 0 \<and> 2 \<le> uint (pe_devfn env) \<and> uint (pe_devfn env) < 66"

lemma vgpu_ok_spec:
  assumes "fresh s" "vgpu_ok env"
  shows "\<exists>s' ep' rg. result_of (pcie_emu_vgpu_probe hw env s) t = Some (0, s') \<and> vec_ok s' \<and> pd_ep s' = Some ep' \<and>
    held s' = Option.bind (Some {Device, Regions, DevState, Misc}) (res_run (dma_registered (pe_reg env))) \<and>
    (\<forall>rd. ch_info (first_chan rd s') = (let ch = nat (uint (pe_devfn env) - 2) in
        if ch = 0 then rg rd else (if rd then rd_ch_info (pe_info env) else wr_ch_info (pe_info env)) ! 0) \<and>
      ll_max (rg rd) = 65536 \<and>
      ch_trace (first_chan rd s') = [Wr (io_off (rg_vaddr (ch_info (first_chan rd s'))) REG_DMA_CH_ENABLE) 0])"
proof -
  have b: "begins env" "irq_ret env 6 MT_EMU_TYPE_VGPU IRQ_MSIX = 0" "pe_misc env = 0" "pe_chip env" "pe_md env"
     "pe_reg env 1 = 0" "2 \<le> uint (pe_devfn env)" "uint (pe_devfn env) < 66" using assms(2) by (simp_all add: vgpu_ok_def)
  obtain s1 ep t1 where p: "pd_ep s1 = Some ep" "vec_ok s1" "held s1 = Some {Device, Regions, DevState, Misc}"
      "result_of (pcie_emu_vgpu_probe hw env s) t = result_of (vgpu_probe_dma hw env ep s1) t1"
    using vgpu_probe_spec[OF assms(1) b(1-3), of hw t] by blast
  show ?thesis
    using vgpu_probe_dma_spec[OF p(2,1) b(1,7,8,4,5,6), of hw t1] p(3,4) unfolding held_def by fastforce
qed

text \<open>The removal of a virtual function leaves its DMA devices registered: the driver never calls \<open>mtdma_remove\<close>, so after a
  successful probe and the removal the kernel still has the device for reads, and that for writes if it could be
  registered, whose channels are in memory that is freed with the device.\<close>

theorem vgpu_remove_keeps_dma:
  assumes "fresh s" "vgpu_ok env"
  shows "\<exists>s'. result_of (pcie_emu_vgpu_probe hw env s) t = Some (0, s') \<and>
    (let u = pcie_emu_vgpu_remove s' in pd_ep u = None \<and> vectors u = Some ({}, 0) \<and>
      held u = Some ({Device, Regions, DevState, RdDma} \<union> (if pe_reg env 0 = 0 then {WrDma} else {})))"
proof -
  obtain s' ep' where p: "result_of (pcie_emu_vgpu_probe hw env s) t = Some (0, s')" "vec_ok s'" "pd_ep s' = Some ep'"
      "held s' = Option.bind (Some {Device, Regions, DevState, Misc}) (res_run (dma_registered (pe_reg env)))"
    using vgpu_ok_spec[OF assms, of hw t] by blast
  have "vec_ok (pcie_emu_vgpu_remove s')" using p(2) by (simp add: pcie_emu_vgpu_remove_def vgpu_free_vec_ok)
  moreover have "pd_ep (pcie_emu_vgpu_remove s') = None" by (simp add: pcie_emu_vgpu_remove_def pcie_emu_vgpu_free_def p(3))
  moreover have "held (pcie_emu_vgpu_remove s') = Option.bind (held s') (res_run [Use DevState, SetDrv False, Use DevState, Give Misc])"
    by (simp add: pcie_emu_vgpu_remove_def pcie_emu_vgpu_free_def p(3) held_note)
  moreover have "Option.bind (held s') (res_run [Use DevState, SetDrv False, Use DevState, Give Misc]) =
      Some ({Device, Regions, DevState, RdDma} \<union> (if pe_reg env 0 = 0 then {WrDma} else {}))"
    using assms(2) unfolding p(4) by (auto simp: dma_registered_def vgpu_ok_def)
  ultimately show ?thesis using p(1) by (simp add: vec_ok_def Let_def)
qed

text \<open>C39. The engine of a virtual function is set up with memory that was never initialised: \<open>build_dma_info_vf\<close> fills in the entry
  of the function's number, \<open>emu_mtdma_init\<close> copies the entries below the count, which is 1.  So
  the first channel of either direction gets entry 0 as the stack left it, for every
  virtual function but the first, and \<open>mtdma_probe\<close> writes to the register address found there.\<close>

theorem vgpu_channel_uninitialised:
  assumes "fresh s" "vgpu_ok env"
  shows "\<exists>s'. result_of (pcie_emu_vgpu_probe hw env s) t = Some (0, s') \<and>
    (\<forall>rd. (2 < uint (pe_devfn env) \<longrightarrow> ch_info (first_chan rd s') = (if rd then rd_ch_info (pe_info env) else wr_ch_info (pe_info env)) ! 0) \<and>
      (uint (pe_devfn env) = 2 \<longrightarrow> ll_max (ch_info (first_chan rd s')) = 65536) \<and>
      Wr (io_off (rg_vaddr (ch_info (first_chan rd s'))) REG_DMA_CH_ENABLE) 0 \<in> set (ch_trace (first_chan rd s')))"
proof -
  obtain s' rg where p: "result_of (pcie_emu_vgpu_probe hw env s) t = Some (0, s')"
      "\<And>rd. ch_info (first_chan rd s') = (let ch = nat (uint (pe_devfn env) - 2) in
        if ch = 0 then rg rd else (if rd then rd_ch_info (pe_info env) else wr_ch_info (pe_info env)) ! 0)"
      "\<And>rd :: bool. ll_max (rg rd) = 65536"
      "\<And>rd. ch_trace (first_chan rd s') = [Wr (io_off (rg_vaddr (ch_info (first_chan rd s'))) REG_DMA_CH_ENABLE) 0]"
    using vgpu_ok_spec[OF assms, of hw t] by blast
  show ?thesis using p by (intro exI[of _ s']) (auto simp: Let_def)
qed

section \<open>Examples\<close>

text \<open>A kernel that gives everything that is asked for, with one vector.\<close>

definition demo_probe :: probe_env where
  "demo_probe = \<lparr>pe_enable = 0, pe_regions = 0, pe_alloc = True, pe_devfn = 3,
     pe_bar = (\<lambda>i. \<lparr>rg_paddr = 0, rg_base = (i, 0), rg_size = 0x1000000\<rparr>),
     pe_irq = \<lparr>alloc_ret = (\<lambda>mx. if mx = 0 then -28 else 1), pci_irq_vector = (\<lambda>i. 40 + int i), request_ret = (\<lambda>i. 0)\<rparr>,
     pe_misc = 0, pe_dbuf = \<lparr>db_alloc_ok = True, db_region_ok = True, db_remap_ok = True, db_misc_ret = 0, db_content = (\<lambda>i. 0)\<rparr>,
     pe_sys = (9, 0), pe_info = \<lparr>wr_ch_info = replicate 64 zero_info, rd_ch_info = replicate 64 zero_info, mi_wr_ch_cnt = 0, mi_rd_ch_cnt = 0\<rparr>,
     pe_chip = True, pe_md = True, pe_reg = (\<lambda>j. 0)\<rparr>"

definition unbound :: pci_drv where
  "unbound = \<lparr>pd_ep = None, pd_rom = False, pd_priv = None, pd_em = zero_em, pd_log = [], pd_irqs = []\<rparr>"

lemma demo_probe_ok:
  "fresh unbound" "begins demo_probe" "buf_ok demo_probe" "pe_chip demo_probe" "pe_md demo_probe" "pe_misc demo_probe = 0"
  by (simp_all add: fresh_def unbound_def begins_def demo_probe_def alloc_ok_def buf_ok_def emu_dmabuf_probe_def PCIE_DMA_CH_NUM_def)

lemma demo_irq:
  assumes "ty \<in> {MT_EMU_TYPE_GPU, MT_EMU_TYPE_APU, MT_EMU_TYPE_VGPU}" "kind \<in> {IRQ_MSI, IRQ_MSIX}"
  shows "irq_ret demo_probe n ty kind = 0"
proof -
  let ?env = "pe_irq demo_probe"
  let ?ep = "fst (qy_free_irq (fill_regions n demo_probe (new_ep ty (pe_devfn demo_probe))))"
  have t: "ep_type ?ep = ty" by (simp add: qy_free_irq_def fill_regions_def new_ep_def Let_def)
  have a: "alloc_ret ?env (max_vectors ty kind) = 1"
    using assms by (auto simp: demo_probe_def max_vectors_def qy_vectors)
  have m: "1 \<le> int (max_vectors ty kind)" by (simp add: max_vectors_def qy_vectors)
  have r: "fst (request_irqs ?env [0..<1] ep) = 0" for ep by (simp add: demo_probe_def)
  show ?thesis using assms(2) t a m r
    by (auto simp: irq_ret_def irq_init_def Let_def run_steps irq_kinds simp del: irq_regs_init.simps)
qed

theorem gpu_probe_remove_witness:
  "\<exists>s'. result_of (pcie_emu_gpu_probe (\<lambda>t a. 0) demo_probe unbound) [] = Some (0, s') \<and> held (pcie_emu_gpu_remove s') = Some {DevState}"
proof -
  have "irq_ret demo_probe 7 MT_EMU_TYPE_GPU IRQ_MSI = 0" by (rule demo_irq) simp_all
  from gpu_probe_remove[OF demo_probe_ok(1,2) this demo_probe_ok(6,3,4,5), of "\<lambda>t a. 0" "[]"] show ?thesis by (auto simp: Let_def)
qed

theorem gpu_probe_deregisters_unregistered_witness:
  "\<exists>ret s'. result_of (pcie_emu_gpu_probe (\<lambda>t a. 0) (demo_probe\<lparr>pe_misc := -16\<rparr>) unbound) [] = Some (ret, s') \<and> held s' = None"
proof -
  have "begins (demo_probe\<lparr>pe_misc := -16\<rparr>)" using demo_probe_ok(2) by (simp add: begins_def)
  from gpu_probe_deregisters_unregistered[OF demo_probe_ok(1) this, of "\<lambda>t a. 0" "[]"] show ?thesis by fastforce
qed

theorem gpu_probe_false_success_witness:
  "\<exists>s' S. result_of (pcie_emu_gpu_probe (\<lambda>t a. 0) (demo_probe\<lparr>pe_md := False\<rparr>) unbound) [] = Some (0, s') \<and> pd_ep s' = None"
proof -
  have b: "begins (demo_probe\<lparr>pe_md := False\<rparr>)" using demo_probe_ok(2) by (simp add: begins_def)
  have "irq_ret demo_probe 7 MT_EMU_TYPE_GPU IRQ_MSI = 0" by (rule demo_irq) simp_all
  then have "irq_ret (demo_probe\<lparr>pe_md := False\<rparr>) 7 MT_EMU_TYPE_GPU IRQ_MSI = 0" by (simp add: irq_ret_def fill_regions_def)
  from gpu_probe_false_success[OF demo_probe_ok(1) b this, of "\<lambda>t a. 0" "[]"] demo_probe_ok(6) show ?thesis by auto
qed

theorem apu_remove_uses_freed_witness:
  "\<exists>s'. result_of (pcie_apu_probe demo_probe unbound) [] = (0, s') \<and> held (pcie_apu_remove s') = None"
proof -
  have "irq_ret demo_probe 6 MT_EMU_TYPE_APU IRQ_MSI = 0" by (rule demo_irq) simp_all
  from apu_remove_uses_freed[OF demo_probe_ok(1,2) this demo_probe_ok(6), of 1 "[]"] show ?thesis by auto
qed

lemma demo_vgpu: "vgpu_ok demo_probe"
proof -
  have "irq_ret demo_probe 6 MT_EMU_TYPE_VGPU IRQ_MSIX = 0" by (rule demo_irq) simp_all
  then show ?thesis using demo_probe_ok by (simp add: vgpu_ok_def) (simp add: demo_probe_def)
qed

theorem vgpu_remove_keeps_dma_witness:
  "\<exists>s'. result_of (pcie_emu_vgpu_probe (\<lambda>t a. 0) demo_probe unbound) [] = Some (0, s') \<and>
    held (pcie_emu_vgpu_remove s') = Some {Device, Regions, DevState, RdDma, WrDma}"
proof -
  have "pe_reg demo_probe 0 = 0" by (simp add: demo_probe_def)
  then show ?thesis using vgpu_remove_keeps_dma[OF demo_probe_ok(1) demo_vgpu, of "\<lambda>t a. 0" "[]"]
    by (auto simp: Let_def insert_commute)
qed

theorem vgpu_channel_uninitialised_witness:
  "\<exists>s'. result_of (pcie_emu_vgpu_probe (\<lambda>t a. 0) demo_probe unbound) [] = Some (0, s') \<and>
    ch_info (first_chan True s') = rd_ch_info (pe_info demo_probe) ! 0"
proof -
  have "2 < uint (pe_devfn demo_probe)" by (simp add: demo_probe_def)
  then show ?thesis using vgpu_channel_uninitialised[OF demo_probe_ok(1) demo_vgpu, of "\<lambda>t a. 0" "[]"] by fastforce
qed

end
