(* ===== verification/Ioctl.thy ===== *)
theory Ioctl
  imports Irq DmaTest
begin

text \<open>
  The system calls on the device file, from \<open>src/driver/mt-emu-ioctl.c\<close>:
  \<open>mt_test_ioctl\<close> with all its commands, the mapping of a region into a user
  process, and the mapping of the expansion ROM.  A command is a program over a log
  of register accesses, configuration accesses and kernel calls in their order.  The
  answers of the kernel and what the user's memory holds are a record \<open>kenv\<close>.
  A command is \<open>None\<close> when it reads or writes outside its buffer.
\<close>

section \<open>Parameters, log and environment\<close>

record mt_emu_param =
  p_b0 :: u8
  p_b1 :: u8
  p_b2 :: u8
  p_b3 :: u8
  p_w0 :: u16
  p_w1 :: u16
  p_d0 :: u32
  p_d1 :: u32
  p_l0 :: u64
  p_l1 :: u64

record dma_bare_rw =
  br_sar :: u64
  br_dar :: u64
  br_data_direction :: u32
  br_desc_direction :: u32
  br_desc_cnt :: u32
  br_block_cnt :: u32
  br_size :: u32
  br_ch_num :: u32
  br_timeout_ms :: u32

datatype ioctl_cmd =
    MT_IOCTL_BAR_RW | MT_IOCTL_CFG_RW | MT_IOCTL_READ_ROM | MT_IOCTL_SUSPEND | MT_IOCTL_RESUME | MT_IOCTL_GET_POWER
  | MT_IOCTL_WAIT_INT | MT_IOCTL_IPC | MT_IOCTL_IRQ_INIT | MT_IOCTL_MTDMA_BARE_RW | MT_IOCTL_MTDMA_RW
  | MT_IOCTL_DMAISR_SET | MT_IOCTL_TRIG_INT | MT_IOCTL_OTHER nat

datatype lock = IoMutex | IrqLock | IntMutex nat

text \<open>\<open>CopyParamIn\<close> and \<open>CopyDataIn\<close> are the calls of \<open>copy_from_user\<close>, whether they succeed or not.\<close>

datatype kcall =
    Kmalloc u32 | Kfree | Lock lock | Unlock lock | SaveState | RestoreState | SetPower u32
  | CopyParamIn | CopyDataIn | CopyParam mt_emu_param | CopyData "u8 list" | ReinitDone nat | WaitDone nat u32
  | AssignRom | EnableRom | DisableRom | MapRom | UnmapRom

text \<open>Accesses to BAR memory of less than 32 bits and to the configuration space: whether
  it is a write, the width in bytes, the address and the value.\<close>

datatype kev = Acc access | Narrow bool nat ioaddr u32 | Cfg bool nat u32 u32 | Kc kcall | IrqEv irq_call | DmaEv rw_event

type_synonym 'a kio = "(kev list, 'a) state"

record kenv =
  k_hw :: hardware
  k_narrow :: "kev list \<Rightarrow> nat \<Rightarrow> ioaddr \<Rightarrow> u32"
  k_cfg :: "kev list \<Rightarrow> nat \<Rightarrow> u32 \<Rightarrow> u32"
  param_fails :: bool
  data_fails :: bool
  param_left :: int
  data_left :: int
  kmalloc_ok :: bool
  user_byte :: "nat \<Rightarrow> u8"
  junk_byte :: "nat \<Rightarrow> u8"
  int_arrivals :: nat
  current_state :: u32
  k_irq :: irq_env
  user_bare :: dma_bare_rw
  bare_i0 :: int
  bare_kmalloc :: bool
  bare_rnd :: "nat \<Rightarrow> nat \<Rightarrow> u64"
  bare_irqs :: nat
  user_rw :: mtdma_rw
  k_rw :: rw_env
  rom_assign :: int
  rom_len :: u64
  rom_enable :: int
  rom_mapped :: bool
  rom_flag :: bool

text \<open>The function and its DMA test.\<close>

record mt_dev =
  d_ep :: emu_pcie
  d_em :: emu_mtdma

definition EFAULT :: int where "EFAULT = 14"
definition EIO :: int where "EIO = 5"
definition QY_MAX_RW :: u32 where "QY_MAX_RW = 2 * 1024 * 1024"
definition BAR_RD :: u8 where "BAR_RD = 1"
definition MTDMA_BUF_START :: u64 where "MTDMA_BUF_START = 4096"
definition PCI_D0 :: u32 where "PCI_D0 = 0"

definition kc :: "kcall \<Rightarrow> unit kio" where
  "kc c = State (\<lambda>l. ((), l @ [Kc c]))"

text \<open>The register accesses of the log, and running a register program on it.\<close>

fun accs :: "kev list \<Rightarrow> trace" where
  "accs [] = []"
| "accs (Acc a # es) = a # accs es"
| "accs (e # es) = accs es"

definition lift_io :: "'a io \<Rightarrow> 'a kio" where
  "lift_io m = State (\<lambda>l. let t = accs l; r = run_state m t in (fst r, l @ map Acc (drop (length t) (snd r))))"

definition note_calls :: "kev list \<Rightarrow> unit kio" where
  "note_calls es = State (\<lambda>l. ((), l @ es))"

text \<open>\<open>copy_to_user\<close> of the parameter and of the buffer: the number of bytes not copied.\<close>

definition copy_param :: "kenv \<Rightarrow> mt_emu_param \<Rightarrow> int kio" where
  "copy_param k p = do { _ \<leftarrow> kc (CopyParam p); State_Monad.return (param_left k) }"

definition copy_data :: "kenv \<Rightarrow> u8 list \<Rightarrow> int kio" where
  "copy_data k d = do { _ \<leftarrow> kc (CopyData d); State_Monad.return (data_left k) }"

section \<open>Buffers\<close>

text \<open>Little-endian access to a buffer.\<close>

definition le_bytes :: "nat \<Rightarrow> u32 \<Rightarrow> u8 list" where
  "le_bytes w v = map (\<lambda>k. ucast (drop_bit (8 * k) v)) [0..<w]"

fun of_le :: "u8 list \<Rightarrow> u32" where
  "of_le [] = 0"
| "of_le (b # bs) = ucast b OR push_bit 8 (of_le bs)"

definition put_bytes :: "nat \<Rightarrow> nat \<Rightarrow> u32 \<Rightarrow> u8 list \<Rightarrow> u8 list option" where
  "put_bytes w i v data =
    (if i + w \<le> length data then Some (take i data @ le_bytes w v @ drop (i + w) data) else None)"

definition get_bytes :: "nat \<Rightarrow> nat \<Rightarrow> u8 list \<Rightarrow> u32 option" where
  "get_bytes w i data = (if i + w \<le> length data then Some (of_le (take w (drop i data))) else None)"

text \<open>The loop over the 32-bit words: the offsets, and the index after it.\<close>

function dword_loop :: "nat \<Rightarrow> nat \<Rightarrow> nat list \<times> nat" where
  "dword_loop i sz = (if i < sz then (let r = dword_loop (i + 4) sz in (i # fst r, snd r)) else ([], i))"
  by auto
termination by (relation "measure (\<lambda>(i, sz). sz - i)") auto

declare dword_loop.simps [simp del]

text \<open>Width and offset of every access, in order; \<open>le\<close> is the test \<open>i <= size\<close> before the last byte.\<close>

definition rw_plan :: "bool \<Rightarrow> nat \<Rightarrow> (nat \<times> nat) list" where
  "rw_plan le sz =
    (let (dwords, i) = dword_loop 0 sz;
         (word, i) = (if i + 2 \<le> sz then ([(2, i)], i + 2) else ([], i));
         byte = (if i < sz \<or> le \<and> i = sz then [(1, i)] else [])
     in map (Pair 4) dwords @ word @ byte)"

fun read_plan :: "(nat \<Rightarrow> nat \<Rightarrow> u32 kio) \<Rightarrow> (nat \<times> nat) list \<Rightarrow> u8 list \<Rightarrow> u8 list option kio" where
  "read_plan rd [] data = State_Monad.return (Some data)"
| "read_plan rd ((w, i) # ps) data = do {
     v \<leftarrow> rd w i;
     (case put_bytes w i v data of
        None \<Rightarrow> State_Monad.return None
      | Some data \<Rightarrow> read_plan rd ps data) }"

fun write_plan :: "(nat \<Rightarrow> nat \<Rightarrow> u32 \<Rightarrow> unit kio) \<Rightarrow> (nat \<times> nat) list \<Rightarrow> u8 list \<Rightarrow> unit option kio" where
  "write_plan wr [] data = State_Monad.return (Some ())"
| "write_plan wr ((w, i) # ps) data =
    (case get_bytes w i data of
       None \<Rightarrow> State_Monad.return None
     | Some v \<Rightarrow> do { _ \<leftarrow> wr w i v; write_plan wr ps data })"

definition bar_rd :: "kenv \<Rightarrow> ioaddr \<Rightarrow> nat \<Rightarrow> nat \<Rightarrow> u32 kio" where
  "bar_rd k base w i = (let a = io_off base (of_nat i) in
    if w = 4 then lift_io (readl (k_hw k) a)
    else State (\<lambda>l. let v = k_narrow k l w a in (v, l @ [Narrow False w a v])))"

definition bar_wr :: "ioaddr \<Rightarrow> nat \<Rightarrow> nat \<Rightarrow> u32 \<Rightarrow> unit kio" where
  "bar_wr base w i v = (let a = io_off base (of_nat i) in
    if w = 4 then lift_io (writel v a) else State (\<lambda>l. ((), l @ [Narrow True w a v])))"

definition cfg_rd :: "kenv \<Rightarrow> u64 \<Rightarrow> nat \<Rightarrow> nat \<Rightarrow> u32 kio" where
  "cfg_rd k offset w i = (let a = ucast (offset + of_nat i) in
    State (\<lambda>l. let v = k_cfg k l w a in (v, l @ [Cfg False w a v])))"

definition cfg_wr :: "u64 \<Rightarrow> nat \<Rightarrow> nat \<Rightarrow> u32 \<Rightarrow> unit kio" where
  "cfg_wr offset w i v = State (\<lambda>l. ((), l @ [Cfg True w (ucast (offset + of_nat i)) v]))"

section \<open>Transfers through a kernel buffer\<close>

text \<open>The part the two commands share: check of the size, buffer, and the accesses.  The
  buffer is not freed when the user's data cannot be copied: the call of \<open>kfree\<close> stands
  after the \<open>return\<close>.\<close>

definition rw_buffer ::
    "kenv \<Rightarrow> (nat \<Rightarrow> nat \<Rightarrow> u32 kio) \<Rightarrow> (nat \<Rightarrow> nat \<Rightarrow> u32 \<Rightarrow> unit kio) \<Rightarrow> bool \<Rightarrow> u8 \<Rightarrow> u32 \<Rightarrow> mt_emu_param \<Rightarrow>
     (int + int) option kio" where
  "rw_buffer k rd wr le rw sz p =
    (if sz = 0 \<or> QY_MAX_RW < sz then State_Monad.return (Some (Inl (- EFAULT)))
     else if \<not> kmalloc_ok k then State_Monad.return (Some (Inl (- EFAULT)))
     else do {
       _ \<leftarrow> kc (Kmalloc sz);
       (if rw = BAR_RD then do {
          d \<leftarrow> read_plan rd (rw_plan le (unat sz)) (map (junk_byte k) [0..<unat sz]);
          (case d of
             None \<Rightarrow> State_Monad.return None
           | Some data \<Rightarrow> do {
               ret \<leftarrow> copy_param k p;
               ret \<leftarrow> (if ret = 0 then copy_data k data else State_Monad.return ret);
               _ \<leftarrow> kc Kfree;
               State_Monad.return (Some (Inr ret)) }) }
        else do {
          _ \<leftarrow> kc CopyDataIn;
          (if data_fails k then State_Monad.return (Some (Inl (- EFAULT)))
           else do {
             r \<leftarrow> write_plan wr (rw_plan False (unat sz)) (map (user_byte k) [0..<unat sz]);
             (case r of
                None \<Rightarrow> State_Monad.return None
              | Some _ \<Rightarrow> do { _ \<leftarrow> kc Kfree; State_Monad.return (Some (Inr 0)) }) }) }) })"

text \<open>\<open>Inl\<close> is a return with an error, \<open>Inr\<close> the end of the case with the value of \<open>ret\<close>.\<close>

definition ioctl_bar_rw :: "kenv \<Rightarrow> emu_pcie \<Rightarrow> u8 \<Rightarrow> u8 \<Rightarrow> u64 \<Rightarrow> u32 \<Rightarrow> mt_emu_param \<Rightarrow> int option kio" where
  "ioctl_bar_rw k ep bar rw offset sz p =
    (if bar \<noteq> 0 \<and> bar \<noteq> 2 then State_Monad.return (Some (- EFAULT))
     else (let base = io_off (bar_addr ep (unat bar)) offset in do {
       r \<leftarrow> rw_buffer k (bar_rd k base) (bar_wr base) False rw sz p;
       State_Monad.return (map_option (case_sum id id) r) }))"

definition ioctl_suspend :: "kenv \<Rightarrow> u32 \<Rightarrow> unit kio" where
  "ioctl_suspend k sz = do {
     _ \<leftarrow> kc (Lock IoMutex);
     _ \<leftarrow> kc SaveState;
     _ \<leftarrow> kc (SetPower sz);
     kc (Unlock IoMutex) }"

text \<open>The case of \<open>MT_IOCTL_CFG_RW\<close> has no \<open>break\<close>: it goes on with that of \<open>MT_IOCTL_SUSPEND\<close>.\<close>

definition ioctl_cfg_rw :: "kenv \<Rightarrow> u8 \<Rightarrow> u64 \<Rightarrow> u32 \<Rightarrow> mt_emu_param \<Rightarrow> int option kio" where
  "ioctl_cfg_rw k rw offset sz p = do {
     r \<leftarrow> rw_buffer k (cfg_rd k offset) (cfg_wr offset) True rw sz p;
     (case r of
        None \<Rightarrow> State_Monad.return None
      | Some (Inl e) \<Rightarrow> State_Monad.return (Some e)
      | Some (Inr ret) \<Rightarrow> do { _ \<leftarrow> ioctl_suspend k sz; State_Monad.return (Some ret) }) }"

section \<open>Power and interrupts\<close>

definition ioctl_resume :: "kenv \<Rightarrow> unit kio" where
  "ioctl_resume k = do {
     _ \<leftarrow> kc (Lock IoMutex);
     _ \<leftarrow> kc (SetPower PCI_D0);
     _ \<leftarrow> kc RestoreState;
     kc (Unlock IoMutex) }"

definition ioctl_get_power :: "kenv \<Rightarrow> mt_emu_param \<Rightarrow> int kio" where
  "ioctl_get_power k p = do {
     _ \<leftarrow> kc (Lock IoMutex);
     _ \<leftarrow> kc (Unlock IoMutex);
     copy_param k (p\<lparr>p_d0 := current_state k\<rparr>) }"

text \<open>\<open>wait_for_completion_timeout\<close>: \<open>n\<close> completions arrive before the timeout; the boolean tells
  whether one was taken.\<close>

definition wait_int :: "nat \<Rightarrow> nat \<Rightarrow> emu_pcie \<Rightarrow> bool \<times> emu_pcie" where
  "wait_int n idx ep = (let c = ep_int_done ep ! idx + n in
    if c = 0 then (False, ep) else (True, ep\<lparr>ep_int_done := (ep_int_done ep)[idx := c - 1]\<rparr>))"

definition ioctl_wait_int :: "kenv \<Rightarrow> u8 \<Rightarrow> u32 \<Rightarrow> mt_emu_param \<Rightarrow> emu_pcie \<Rightarrow> (int \<times> emu_pcie) kio" where
  "ioctl_wait_int k bar sz p ep =
    (if QY_INT_SRC_MAX_NUM \<le> unat bar then State_Monad.return (- EFAULT, ep)
     else (let (ok, ep) = wait_int (int_arrivals k) (unat bar) ep in do {
       _ \<leftarrow> kc (WaitDone (unat bar) sz);
       ret \<leftarrow> copy_param k (p\<lparr>p_b0 := if ok then 1 else 0\<rparr>);
       State_Monad.return (ret, ep) }))"

text \<open>Setting the software bit of a source, unless it is set: the new \<open>b0\<close>.\<close>

definition trig_src :: "kenv \<Rightarrow> emu_pcie \<Rightarrow> u64 \<Rightarrow> u8 kio" where
  "trig_src k ep reg = lift_io (do {
     rdata \<leftarrow> rl (k_hw k) ep reg;
     (if 1 AND rdata = 0 then do {
        _ \<leftarrow> wl ep reg (1 OR rdata);
        _ \<leftarrow> rl (k_hw k) ep reg;
        State_Monad.return 1 }
      else State_Monad.return 0) })"

definition ioctl_trig_int :: "kenv \<Rightarrow> u8 \<Rightarrow> mt_emu_param \<Rightarrow> emu_pcie \<Rightarrow> int kio" where
  "ioctl_trig_int k bar p ep =
    (if 32 \<le> unat bar \<and> ep_type ep = MT_EMU_TYPE_VGPU then State_Monad.return (- EFAULT)
     else if 256 \<le> unat bar \<and> ep_type ep = MT_EMU_TYPE_GPU then State_Monad.return (- EFAULT)
     else if 256 \<le> unat bar \<and> ep_type ep = MT_EMU_TYPE_APU then State_Monad.return (- EFAULT)
     else do {
       _ \<leftarrow> kc (Lock IrqLock);
       b0 \<leftarrow> (if ep_type ep = MT_EMU_TYPE_GPU then trig_src k ep (PF_SRC_SOFT (uint bar)) else State_Monad.return (p_b0 p));
       b0 \<leftarrow> (if ep_type ep = MT_EMU_TYPE_VGPU then trig_src k ep (VF_SRC_SOFT (uint bar)) else State_Monad.return b0);
       _ \<leftarrow> kc (Unlock IrqLock);
       copy_param k (p\<lparr>p_b0 := b0\<rparr>) })"

definition REG_NS_MBOX_TO_FEC_INTR_SET :: u64 where "REG_NS_MBOX_TO_FEC_INTR_SET = 0x29400 + 0x1c"
definition REG_NS_MBOX_TO_SMC_INTR_SET :: u64 where "REG_NS_MBOX_TO_SMC_INTR_SET = 0x29400 + 0x3c"

definition PCIEF_TGT_DSP :: u8 where "PCIEF_TGT_DSP = 0"
definition PCIEF_TGT_FEC :: u8 where "PCIEF_TGT_FEC = 1"
definition PCIEF_TGT_SMC :: u8 where "PCIEF_TGT_SMC = 2"

text \<open>The source of the answer and the register of the mailbox (\<open>PCIE_USE_MBOX\<close> is defined;
  there is none for the DSP).\<close>

definition ipc_target :: "u8 \<Rightarrow> nat \<times> u64 option" where
  "ipc_target bar =
    (if bar = PCIEF_TGT_SMC then (2, Some REG_NS_MBOX_TO_SMC_INTR_SET)
     else if bar = PCIEF_TGT_FEC then (1, Some REG_NS_MBOX_TO_FEC_INTR_SET)
     else (0, None))"

definition ioctl_ipc :: "kenv \<Rightarrow> u8 \<Rightarrow> u32 \<Rightarrow> mt_emu_param \<Rightarrow> emu_pcie \<Rightarrow> (int \<times> emu_pcie) kio" where
  "ioctl_ipc k bar sz p ep =
    (if 3 \<le> bar then State_Monad.return (- EFAULT, ep)
     else (let (idx, reg) = ipc_target bar;
               (ok, ep') = wait_int (int_arrivals k) idx (ep\<lparr>ep_int_done := (ep_int_done ep)[idx := 0]\<rparr>) in do {
       _ \<leftarrow> (case reg of Some r \<Rightarrow> lift_io (wl ep r 1) | None \<Rightarrow> State_Monad.return ());
       _ \<leftarrow> kc (Lock (IntMutex idx));
       _ \<leftarrow> kc (ReinitDone idx);
       _ \<leftarrow> kc (WaitDone idx sz);
       _ \<leftarrow> kc (Unlock (IntMutex idx));
       ret \<leftarrow> copy_param k (p\<lparr>p_b0 := if ok then 1 else 0\<rparr>);
       State_Monad.return (ret, ep') }))"

text \<open>The kernel calls of \<open>irq_init\<close> are noted after its register accesses.\<close>

definition ioctl_irq_init :: "kenv \<Rightarrow> mt_emu_param \<Rightarrow> emu_pcie \<Rightarrow> (int \<times> emu_pcie) kio" where
  "ioctl_irq_init k p ep = do {
     _ \<leftarrow> kc (Lock IoMutex);
     r \<leftarrow> lift_io (irq_init (k_irq k) ep (uint (p_b0 p)) (uint (p_b1 p)));
     _ \<leftarrow> note_calls (map IrqEv (snd (snd r)));
     _ \<leftarrow> kc (Unlock IoMutex);
     ret \<leftarrow> copy_param k (p\<lparr>p_b0 := if fst r \<noteq> 0 then 1 else 0\<rparr>);
     State_Monad.return (ret, fst (snd r)) }"

section \<open>The expansion ROM\<close>

text \<open>A failure to assign the resource is only printed.\<close>

definition map_exp_rom :: "kenv \<Rightarrow> bool kio" where
  "map_exp_rom k = do {
     _ \<leftarrow> kc AssignRom;
     (if rom_len k = 0 then State_Monad.return False
      else do {
        _ \<leftarrow> kc EnableRom;
        (if rom_enable k \<noteq> 0 then State_Monad.return False
         else do {
           _ \<leftarrow> kc MapRom;
           (if rom_mapped k then State_Monad.return True
            else if rom_flag k then State_Monad.return False
            else do { _ \<leftarrow> kc DisableRom; State_Monad.return False }) }) }) }"

definition unmap_exp_rom :: "kenv \<Rightarrow> unit kio" where
  "unmap_exp_rom k = do {
     _ \<leftarrow> kc UnmapRom;
     (if rom_flag k then State_Monad.return () else kc DisableRom) }"

definition ioctl_read_rom :: "kenv \<Rightarrow> int kio" where
  "ioctl_read_rom k = do {
     rom \<leftarrow> map_exp_rom k;
     (if \<not> rom then State_Monad.return (- EFAULT)
      else do { _ \<leftarrow> unmap_exp_rom k; State_Monad.return 0 }) }"

section \<open>DMA\<close>

definition SIZEOF_DMA_BARE_RW :: nat where "SIZEOF_DMA_BARE_RW = 44"
definition SIZEOF_MTDMA_RW :: nat where "SIZEOF_MTDMA_RW = 32"

text \<open>With virtual functions configured, channel 0 of the direction is used whatever
  channel the user names.\<close>

definition ioctl_bare_rw :: "kenv \<Rightarrow> u32 \<Rightarrow> mt_emu_param \<Rightarrow> emu_pcie \<Rightarrow> (int \<times> emu_pcie) option kio" where
  "ioctl_bare_rw k sz p ep =
    (if unat sz \<noteq> SIZEOF_DMA_BARE_RW then State_Monad.return (Some (- EFAULT, ep))
     else do {
       _ \<leftarrow> kc CopyDataIn;
       (if data_fails k then State_Monad.return (Some (- EFAULT, ep))
        else (let ti = user_bare k;
                  wr = \<not> (br_data_direction ti = 0 \<or> br_data_direction ti = 1);
                  i = (if 0 < VF_NUM then 0 else unat (br_ch_num ti));
                  ch = (bare_chs wr ep ! i)\<lparr>chan_id := br_ch_num ti\<rparr> in
          case dma_bare_xfer (k_hw k) (bare_i0 k) (bare_kmalloc k) (bare_rnd k) (bare_irqs k) ch (br_data_direction ti)
                 (br_desc_direction ti) (br_desc_cnt ti) (br_block_cnt ti) (br_sar ti) (br_dar ti) (br_size ti) of
            None \<Rightarrow> State_Monad.return None
          | Some prog \<Rightarrow> do {
              r \<leftarrow> lift_io prog;
              ret \<leftarrow> copy_param k (p\<lparr>p_b0 := of_int (fst r)\<rparr>);
              State_Monad.return (Some (ret, set_chs wr ((bare_chs wr ep)[i := snd r]) ep)) })) })"

definition ioctl_mtdma_rw :: "kenv \<Rightarrow> u64 \<Rightarrow> u32 \<Rightarrow> mt_emu_param \<Rightarrow> emu_mtdma \<Rightarrow> (int \<times> emu_mtdma) option kio" where
  "ioctl_mtdma_rw k arg sz p em =
    (if unat sz < SIZEOF_MTDMA_RW then State_Monad.return (Some (- EFAULT, em))
     else do {
       _ \<leftarrow> kc CopyDataIn;
       (if data_fails k then State_Monad.return (Some (- EFAULT, em))
        else if ucast sz \<noteq> of_nat SIZEOF_MTDMA_RW + rw_size (user_rw k) then State_Monad.return (Some (- EFAULT, em))
        else (case emu_dma_rw (k_hw k) (k_rw k) (user_rw k) (arg + MTDMA_BUF_START) em of
            None \<Rightarrow> State_Monad.return None
          | Some (ret, em, es) \<Rightarrow> do {
              _ \<leftarrow> note_calls (map DmaEv es);
              ret \<leftarrow> copy_param k (p\<lparr>p_b0 := if ret \<noteq> 0 then 0 else 1\<rparr>);
              State_Monad.return (Some (ret, em)) })) })"

section \<open>The dispatcher\<close>

definition with_ep :: "mt_dev \<Rightarrow> (int \<times> emu_pcie) kio \<Rightarrow> (int \<times> mt_dev) option kio" where
  "with_ep dv m = do { r \<leftarrow> m; State_Monad.return (Some (fst r, dv\<lparr>d_ep := snd r\<rparr>)) }"

definition with_ret :: "mt_dev \<Rightarrow> int kio \<Rightarrow> (int \<times> mt_dev) option kio" where
  "with_ret dv m = do { r \<leftarrow> m; State_Monad.return (Some (r, dv)) }"

definition mt_test_ioctl :: "kenv \<Rightarrow> ioctl_cmd \<Rightarrow> u64 \<Rightarrow> mt_emu_param \<Rightarrow> mt_dev \<Rightarrow> (int \<times> mt_dev) option kio" where
  "mt_test_ioctl k cmd arg p dv = do {
     _ \<leftarrow> kc CopyParamIn;
     (if param_fails k then State_Monad.return (Some (- EFAULT, dv))
      else (let ep = d_ep dv; bar = p_b0 p; rw = p_b1 p; offset = p_l0 p; sz = p_d0 p in
       case cmd of
         MT_IOCTL_BAR_RW \<Rightarrow> do { r \<leftarrow> ioctl_bar_rw k ep bar rw offset sz p; State_Monad.return (map_option (\<lambda>ret. (ret, dv)) r) }
       | MT_IOCTL_CFG_RW \<Rightarrow> do { r \<leftarrow> ioctl_cfg_rw k rw offset sz p; State_Monad.return (map_option (\<lambda>ret. (ret, dv)) r) }
       | MT_IOCTL_SUSPEND \<Rightarrow> do { _ \<leftarrow> ioctl_suspend k sz; State_Monad.return (Some (0, dv)) }
       | MT_IOCTL_RESUME \<Rightarrow> do { _ \<leftarrow> ioctl_resume k; State_Monad.return (Some (0, dv)) }
       | MT_IOCTL_GET_POWER \<Rightarrow> with_ret dv (ioctl_get_power k p)
       | MT_IOCTL_WAIT_INT \<Rightarrow> with_ep dv (ioctl_wait_int k bar sz p ep)
       | MT_IOCTL_TRIG_INT \<Rightarrow> with_ret dv (ioctl_trig_int k bar p ep)
       | MT_IOCTL_IPC \<Rightarrow> with_ep dv (ioctl_ipc k bar sz p ep)
       | MT_IOCTL_IRQ_INIT \<Rightarrow> with_ep dv (ioctl_irq_init k p ep)
       | MT_IOCTL_READ_ROM \<Rightarrow> with_ret dv (ioctl_read_rom k)
       | MT_IOCTL_MTDMA_BARE_RW \<Rightarrow> do {
           r \<leftarrow> ioctl_bare_rw k sz p ep;
           State_Monad.return (map_option (\<lambda>(ret, ep). (ret, dv\<lparr>d_ep := ep\<rparr>)) r) }
       | MT_IOCTL_MTDMA_RW \<Rightarrow> do {
           r \<leftarrow> ioctl_mtdma_rw k arg sz p (d_em dv);
           State_Monad.return (map_option (\<lambda>(ret, em). (ret, dv\<lparr>d_em := em\<rparr>)) r) }
       | MT_IOCTL_DMAISR_SET \<Rightarrow> State_Monad.return (Some (0, dv\<lparr>d_ep := ep\<lparr>isr_dmabare := p_b0 p \<noteq> 0\<rparr>\<rparr>))
       | MT_IOCTL_OTHER n \<Rightarrow> State_Monad.return (Some (- EFAULT, dv)))) }"

section \<open>Mapping a region into a process\<close>

text \<open>The error, or the arguments of \<open>remap_pfn_range\<close>: start address, page frame and length.\<close>

definition mt_test_mmap :: "emu_pcie \<Rightarrow> nat \<Rightarrow> u64 \<Rightarrow> u64 \<Rightarrow> int + (u64 \<times> u64 \<times> u64)" where
  "mt_test_mmap ep pgoff vm_start vm_end =
    (if pgoff \<noteq> 0 \<and> pgoff \<noteq> 2 \<and> pgoff \<noteq> 4 \<and> pgoff \<noteq> 6 then Inl (- EIO)
     else (let requested_pages = drop_bit 12 (vm_end - vm_start);
               actual_pages = drop_bit 12 (rg_size (region ep ! pgoff) + 4096 - 1) in
       if actual_pages < requested_pages then Inl (- EINVAL)
       else Inr (vm_start, drop_bit 12 (rg_paddr (region ep ! pgoff)), vm_end - vm_start)))"

end
