(* ===== verification/IoctlProps.thy ===== *)
theory IoctlProps
  imports Ioctl DmaTestProps MtdmaBareProps IrqProps Protocol
begin

text \<open>
  Properties of the system calls: what the transfers through BAR memory do and that
  a read returns what was written, the sizes at which they leave their buffer, the
  missing \<open>break\<close> of the configuration transfer, the discipline of the locks, the
  arguments that are rejected, the sources a virtual function must not trigger, and
  the bounds of a mapping.
\<close>

section \<open>Running programs over the log\<close>

lemma accs_append [simp]: "accs (xs @ ys) = accs xs @ accs ys"
  by (induction xs rule: accs.induct) simp_all

lemma accs_Acc [simp]: "accs (map Acc xs) = xs"
  by (induction xs) simp_all

lemma run_kc [mmio_simps]: "run_state (kc c) l = ((), l @ [Kc c])"
  by (simp add: kc_def)

lemma run_note [mmio_simps]: "run_state (note_calls es) l = ((), l @ es)"
  by (simp add: note_calls_def)

lemma run_lift_readl [mmio_simps]: "run_state (lift_io (readl hw a)) l = (hw (accs l) a, l @ [Acc (Rd a (hw (accs l) a))])"
  by (simp add: lift_io_def run_readl Let_def)

lemma run_lift_writel [mmio_simps]: "run_state (lift_io (writel v a)) l = ((), l @ [Acc (Wr a v)])"
  by (simp add: lift_io_def run_writel Let_def)

lemmas [mmio_simps] = copy_param_def copy_data_def

section \<open>Buffers and plans\<close>

lemma length_le_bytes [simp]: "length (le_bytes w v) = w"
  by (simp add: le_bytes_def)

lemma le_bytes_4: "le_bytes 4 v = [ucast v, ucast (drop_bit 8 v), ucast (drop_bit 16 v), ucast (drop_bit 24 v)]"
  by (simp add: le_bytes_def upt_conv_Cons)

lemma byte_high: "8 \<le> m \<Longrightarrow> \<not> bit (a :: u8) m"
  using bit_imp_le_length[of a m] by auto

lemma le_of_le:
  assumes "length bs = 4"
  shows "le_bytes 4 (of_le bs) = bs"
proof -
  obtain a b c d where bs: "bs = [a, b, c, d]" using assms by (auto simp: numeral_eq_Suc length_Suc_conv)
  show ?thesis unfolding bs le_bytes_4 of_le.simps
    by (auto intro!: bit_word_eqI simp: bit_simps byte_high)
qed

lemma put_bytes_length: "put_bytes w i v data = Some data' \<Longrightarrow> length data' = length data"
  by (auto simp: put_bytes_def split: if_splits)

lemma dword_loop_closed: "i \<le> sz + 3 \<Longrightarrow> dword_loop i sz = (map (\<lambda>j. i + 4 * j) [0..<(sz + 3 - i) div 4], i + 4 * ((sz + 3 - i) div 4))"
proof (induction i sz rule: dword_loop.induct)
  case (1 i sz)
  show ?case
  proof (cases "i < sz")
    case True
    then have "(sz + 3 - i) div 4 = Suc ((sz + 3 - (i + 4)) div 4)" by (simp add: le_div_geq)
    then show ?thesis using True 1 by (subst dword_loop.simps) (simp add: Let_def upt_conv_Cons map_Suc_upt[symmetric] comp_def algebra_simps del: upt_Suc)
  next
    case False
    then have "(sz + 3 - i) div 4 = 0" using 1(2) by simp
    then show ?thesis using False by (subst dword_loop.simps) simp
  qed
qed

lemma rw_plan_words: "rw_plan le (4 * n) = map (\<lambda>j. (4, 4 * j)) [0..<n] @ (if le then [(1, 4 * n)] else [])"
proof -
  have "dword_loop 0 (4 * n) = (map (\<lambda>j. 4 * j) [0..<n], 4 * n)" using dword_loop_closed[of 0 "4 * n"] by simp
  then show ?thesis by (simp add: rw_plan_def Let_def)
qed

lemma rw_plan_overrun:
  assumes "sz mod 4 \<noteq> 0"
  shows "(4, 4 * (sz div 4)) \<in> set (rw_plan le sz)" "sz < 4 * (sz div 4) + 4"
proof -
  have m: "sz = 4 * (sz div 4) + sz mod 4" "sz mod 4 < 4" by simp_all
  then have d: "(sz + 3) div 4 = Suc (sz div 4)" using assms by linarith
  then have "dword_loop 0 sz = (map (\<lambda>j. 4 * j) [0..<Suc (sz div 4)], 4 * Suc (sz div 4))" using dword_loop_closed[of 0 sz] by (simp del: upt_Suc)
  then show "(4, 4 * (sz div 4)) \<in> set (rw_plan le sz)" by (auto simp: rw_plan_def Let_def simp del: upt_Suc)
  show "sz < 4 * (sz div 4) + 4" using m by linarith
qed

text \<open>An access beyond the buffer is met in any case.\<close>

lemma read_plan_overrun:
  assumes "(w, i) \<in> set ps" "length data < i + w"
  shows "fst (run_state (read_plan rd ps data) l) = None"
  using assms
proof (induction ps arbitrary: data l)
  case (Cons p ps)
  obtain w' i' where p: "p = (w', i')" by (cases p)
  show ?case
  proof (cases "put_bytes w' i' (fst (run_state (rd w' i') l)) data")
    case None
    then show ?thesis by (simp add: p mmio_simps)
  next
    case (Some data')
    then have "(w, i) \<in> set ps" using Cons.prems by (auto simp: p put_bytes_def split: if_splits)
    then show ?thesis using Cons.IH[of data'] Cons.prems(2) Some put_bytes_length[OF Some] by (simp add: p mmio_simps)
  qed
qed simp

lemma write_plan_overrun:
  assumes "(w, i) \<in> set ps" "length data < i + w"
  shows "fst (run_state (write_plan wr ps data) l) = None"
  using assms by (induction ps arbitrary: l) (auto simp: mmio_simps get_bytes_def)

section \<open>Transfers of whole words\<close>

text \<open>A device whose registers do not change while they are only read.\<close>

definition stable :: "hardware \<Rightarrow> trace \<Rightarrow> (ioaddr \<Rightarrow> u32) \<Rightarrow> bool" where
  "stable hw t v \<longleftrightarrow> (\<forall>rs. (\<forall>x \<in> set rs. \<exists>a c. x = Rd a c) \<longrightarrow> hw (t @ rs) = v)"

lemma stableD: "stable hw t v \<Longrightarrow> hw t = v"
  by (metis append_Nil2 list.set(1) empty_iff stable_def)

lemma stable_read: "stable hw t v \<Longrightarrow> stable hw (t @ [Rd a c]) v"
  unfolding stable_def by (metis append.assoc append_Cons append_Nil list.set_intros(1) set_ConsD)

definition word_at :: "ioaddr \<Rightarrow> nat \<Rightarrow> ioaddr" where
  "word_at base j = io_off base (of_nat (4 * j))"

lemma read_words:
  assumes "length data = 4 * n" "m \<le> n" "stable (k_hw k) (accs l) v"
  shows "run_state (read_plan (bar_rd k base) (map (\<lambda>j. (4, 4 * j)) [m..<n]) data) l =
    (Some (take (4 * m) data @ concat (map (\<lambda>j. le_bytes 4 (v (word_at base j))) [m..<n])),
     l @ map (\<lambda>j. Acc (Rd (word_at base j) (v (word_at base j)))) [m..<n])"
  using assms
proof (induction "n - m" arbitrary: m data l)
  case (Suc d)
  then have m: "m < n" "[m..<n] = m # [Suc m..<n]" "d = n - Suc m" by (simp_all add: upt_conv_Cons)
  let ?a = "word_at base m"
  let ?data = "take (4 * m) data @ le_bytes 4 (v ?a) @ drop (4 * m + 4) data"
  have r: "run_state (bar_rd k base 4 (4 * m)) l = (v ?a, l @ [Acc (Rd ?a (v ?a))])"
    using stableD[OF Suc.prems(3)] by (simp add: bar_rd_def mmio_simps Let_def word_at_def)
  have p: "put_bytes 4 (4 * m) (v ?a) data = Some ?data" using m(1) Suc.prems(1) by (simp add: put_bytes_def)
  have "length ?data = 4 * n" using m(1) Suc.prems(1) by simp
  from Suc.hyps(1)[OF m(3) this, of "l @ [Acc (Rd ?a (v ?a))]"]
  have "run_state (read_plan (bar_rd k base) (map (\<lambda>j. (4, 4 * j)) [Suc m..<n]) ?data) (l @ [Acc (Rd ?a (v ?a))]) =
    (Some (take (4 * Suc m) ?data @ concat (map (\<lambda>j. le_bytes 4 (v (word_at base j))) [Suc m..<n])),
     (l @ [Acc (Rd ?a (v ?a))]) @ map (\<lambda>j. Acc (Rd (word_at base j) (v (word_at base j)))) [Suc m..<n])"
    using m(1) stable_read[OF Suc.prems(3)] by simp
  moreover have "take (4 * Suc m) ?data = take (4 * m) data @ le_bytes 4 (v ?a)" using m(1) Suc.prems(1) by simp
  ultimately show ?case unfolding m(2) using r p by (simp add: mmio_simps)
qed simp

lemma write_words:
  assumes "\<forall>j \<in> set js. 4 * j + 4 \<le> length data"
  shows "run_state (write_plan (bar_wr base) (map (\<lambda>j. (4, 4 * j)) js) data) l =
    (Some (), l @ map (\<lambda>j. Acc (Wr (word_at base j) (of_le (take 4 (drop (4 * j) data))))) js)"
  using assms
  by (induction js arbitrary: l) (simp_all add: get_bytes_def bar_wr_def mmio_simps Let_def word_at_def)

text \<open>The arguments with which a transfer goes ahead.\<close>

definition rw_args :: "kenv \<Rightarrow> u32 \<Rightarrow> bool" where
  "rw_args k sz \<longleftrightarrow> sz \<noteq> 0 \<and> sz \<le> QY_MAX_RW \<and> kmalloc_ok k"

lemma rw_argsD: "rw_args k sz \<Longrightarrow> sz \<noteq> 0 \<and> \<not> QY_MAX_RW < sz \<and> kmalloc_ok k"
  by (auto simp: rw_args_def)

definition bar_base :: "emu_pcie \<Rightarrow> u8 \<Rightarrow> u64 \<Rightarrow> ioaddr" where
  "bar_base ep bar offset = io_off (bar_addr ep (unat bar)) offset"

lemma run_bar_read:
  assumes "rw_args k sz" "unat sz = 4 * n" "bar = 0 \<or> bar = 2" "stable (k_hw k) (accs l) v" "param_left k = 0"
  shows "run_state (ioctl_bar_rw k ep bar BAR_RD offset sz p) l =
    (Some (data_left k), l @ [Kc (Kmalloc sz)] @
       map (\<lambda>j. Acc (Rd (word_at (bar_base ep bar offset) j) (v (word_at (bar_base ep bar offset) j)))) [0..<n] @
       [Kc (CopyParam p), Kc (CopyData (concat (map (\<lambda>j. le_bytes 4 (v (word_at (bar_base ep bar offset) j))) [0..<n]))), Kc Kfree])"
proof -
  note a = rw_argsD[OF assms(1)]
  have "stable (k_hw k) (accs (l @ [Kc (Kmalloc sz)])) v" using assms(4) by simp
  from read_words[OF _ _ this, of "map (junk_byte k) [0..<4 * n]" n 0 "bar_base ep bar offset"] show ?thesis
    using a assms(3,5) by (auto simp: ioctl_bar_rw_def rw_buffer_def assms(2) rw_plan_words mmio_simps bar_base_def Let_def)
qed

lemma run_bar_write:
  assumes "rw_args k sz" "unat sz = 4 * n" "bar = 0 \<or> bar = 2" "rw \<noteq> BAR_RD" "\<not> data_fails k"
  shows "run_state (ioctl_bar_rw k ep bar rw offset sz p) l =
    (Some 0, l @ [Kc (Kmalloc sz), Kc CopyDataIn] @
       map (\<lambda>j. Acc (Wr (word_at (bar_base ep bar offset) j) (of_le (map (user_byte k) [4 * j..<4 * j + 4])))) [0..<n] @ [Kc Kfree])"
proof -
  note a = rw_argsD[OF assms(1)]
  have t: "take 4 (drop (4 * j) (map (user_byte k) [0..<4 * n])) = map (user_byte k) [4 * j..<4 * j + 4]" if "j < n" for j
    using that by (simp add: take_map drop_map)
  have "run_state (write_plan (bar_wr (bar_base ep bar offset)) (map (\<lambda>j. (4, 4 * j)) [0..<n]) (map (user_byte k) [0..<4 * n])) (l @ [Kc (Kmalloc sz), Kc CopyDataIn]) =
      (Some (), (l @ [Kc (Kmalloc sz), Kc CopyDataIn]) @
        map (\<lambda>j. Acc (Wr (word_at (bar_base ep bar offset) j) (of_le (map (user_byte k) [4 * j..<4 * j + 4])))) [0..<n])"
    by (subst write_words) (auto simp: t)
  then show ?thesis
    using a assms(3,4,5) by (auto simp: ioctl_bar_rw_def rw_buffer_def assms(2) rw_plan_words mmio_simps bar_base_def Let_def)
qed

text \<open>A transfer through BAR memory of a size that is a multiple of 4: reading issues exactly one 32-bit
  read per word, in ascending order, and hands the user the values in little-endian order;
  writing issues exactly one 32-bit write per word with the user's bytes; the buffer is
  allocated before and freed after, and the parameter is copied back first.\<close>

theorem bar_rw_correct:
  assumes "rw_args k sz" "unat sz = 4 * n" "bar = 0 \<or> bar = 2" "stable (k_hw k) (accs l) v" "param_left k = 0" "\<not> data_fails k"
  shows "(let a = word_at (bar_base ep bar offset) in
    run_state (ioctl_bar_rw k ep bar 1 offset sz p) l = (Some (data_left k),
      l @ [Kc (Kmalloc sz)] @ map (\<lambda>j. Acc (Rd (a j) (v (a j)))) [0..<n] @
        [Kc (CopyParam p), Kc (CopyData (concat (map (\<lambda>j. le_bytes 4 (v (a j))) [0..<n]))), Kc Kfree]) \<and>
    run_state (ioctl_bar_rw k ep bar 0 offset sz p) l = (Some 0,
      l @ [Kc (Kmalloc sz), Kc CopyDataIn] @ map (\<lambda>j. Acc (Wr (a j) (of_le (map (user_byte k) [4 * j..<4 * j + 4])))) [0..<n] @ [Kc Kfree]))"
  using run_bar_read[OF assms(1-5)] run_bar_write[OF assms(1-3) _ assms(6), of 0] by (simp add: BAR_RD_def Let_def)

lemma word_at_eq:
  assumes "i < 0x80000" "j < 0x80000"
  shows "word_at b i = word_at b j \<longleftrightarrow> i = j"
proof -
  have "(of_nat (4 * i) :: u64) = of_nat (4 * j) \<longleftrightarrow> 4 * i = 4 * j"
    using assms by (simp add: word_unat_eq_iff unsigned_of_nat take_bit_nat_eq_self del: of_nat_mult)
  then show ?thesis by (simp add: word_at_def io_off_def del: of_nat_mult)
qed

text \<open>The memory after the words of a transfer.\<close>

lemma mem_after_words:
  assumes "j < n" "n \<le> 0x80000"
  shows "mem_after (map (\<lambda>j. Wr (word_at b j) (f j)) [0..<n]) m (word_at b j) = f j"
  using assms
proof (induction n)
  case (Suc n)
  then show ?case using word_at_eq[of j n b] by (auto simp: less_Suc_eq)
qed simp

lemma bytes_of_words: "concat (map (\<lambda>j. le_bytes 4 (of_le (map f [4 * j..<4 * j + 4]))) [0..<n]) = map f [0..<4 * n]"
proof (induction n)
  case (Suc n)
  have "[0..<4 * Suc n] = [0..<4 * n] @ [4 * n..<4 * n + 4]" using upt_add_eq_append[of 0 "4 * n" 4] by (simp add: add.commute)
  then show ?case using Suc by (simp add: le_of_le)
qed simp

text \<open>What is written to BAR memory is read back: on a device that keeps what was stored, writing a
  range and then reading it gives the user exactly the bytes that were written.\<close>

theorem bar_rw_roundtrip:
  assumes "rw_args k sz" "unat sz = 4 * n" "bar = 0 \<or> bar = 2" "\<And>t. k_hw k t = mem_after t m" "param_left k = 0" "\<not> data_fails k"
  shows "\<exists>l1 l2. run_state (ioctl_bar_rw k ep bar 0 offset sz p) l = (Some 0, l1) \<and>
    run_state (ioctl_bar_rw k ep bar 1 offset sz p) l1 = (Some (data_left k), l1 @ l2) \<and>
    Kc (CopyData (map (user_byte k) [0..<unat sz])) \<in> set l2"
proof -
  let ?a = "word_at (bar_base ep bar offset)" and ?f = "\<lambda>j. of_le (map (user_byte k) [4 * j..<4 * j + 4])"
  let ?ws = "map (\<lambda>j. Wr (?a j) (?f j)) [0..<n]"
  let ?l1 = "l @ [Kc (Kmalloc sz), Kc CopyDataIn] @ map (\<lambda>j. Acc (Wr (?a j) (?f j))) [0..<n] @ [Kc Kfree]"
  have n: "n \<le> 0x80000" using assms(1,2) by (simp add: rw_args_def QY_MAX_RW_def word_le_nat_alt)
  have w: "run_state (ioctl_bar_rw k ep bar 0 offset sz p) l = (Some 0, ?l1)"
    using run_bar_write[OF assms(1-3) _ assms(6), of 0 ep offset p l] by (simp add: BAR_RD_def)
  have acc: "accs ?l1 = accs l @ ?ws" using accs_Acc[of ?ws] by (simp add: comp_def)
  have reads: "mem_after rs m' = m'" if "\<forall>x \<in> set rs. \<exists>a c. x = Rd a c" for rs m'
    using that by (induction rs) auto
  define v where "v = mem_after (accs ?l1) m"
  have "stable (k_hw k) (accs ?l1) v" using reads unfolding stable_def assms(4) v_def by simp
  note r = run_bar_read[OF assms(1-3) this assms(5), of ep offset p]
  have "v (?a j) = ?f j" if "j < n" for j
    unfolding v_def acc using mem_after_words[OF that n] by simp
  then have e: "map (\<lambda>j. le_bytes 4 (v (?a j))) [0..<n] = map (\<lambda>j. le_bytes 4 (?f j)) [0..<n]" by simp
  have d: "concat (map (\<lambda>j. le_bytes 4 (v (?a j))) [0..<n]) = map (user_byte k) [0..<unat sz]"
    unfolding e assms(2) by (rule bytes_of_words)
  show ?thesis using w r unfolding d BAR_RD_def by (intro exI[of _ ?l1] exI conjI) (assumption, simp, simp)
qed

section \<open>Transfers that leave their buffer\<close>

lemma fst_bind_None:
  "fst (run_state m l) = None \<Longrightarrow>
    fst (run_state (State_Monad.bind m (\<lambda>r. case r of None \<Rightarrow> State_Monad.return None | Some x \<Rightarrow> f x)) l) = None"
  by (simp add: run_state_bind split_beta run_state_return)

lemma rw_buffer_overrun:
  assumes "rw_args k sz" "(w, i) \<in> set (rw_plan (le \<and> rw = BAR_RD) (unat sz))" "unat sz < i + w" "\<not> data_fails k"
  shows "fst (run_state (rw_buffer k rd wr le rw sz p) l) = None"
proof -
  note a = rw_argsD[OF assms(1)]
  show ?thesis
  proof (cases "rw = BAR_RD")
    case True
    then have "fst (run_state (read_plan rd (rw_plan le (unat sz)) (map (junk_byte k) [0..<unat sz])) l') = None" for l'
      using assms(2,3) by (intro read_plan_overrun[of w i]) simp_all
    then show ?thesis using a True by (simp add: rw_buffer_def run_state_bind run_kc split_beta run_state_return)
  next
    case False
    then have "fst (run_state (write_plan wr (rw_plan False (unat sz)) (map (user_byte k) [0..<unat sz])) l') = None" for l'
      using assms(2,3) by (intro write_plan_overrun[of w i]) simp_all
    then show ?thesis using a False assms(4) by (simp add: rw_buffer_def run_state_bind run_kc split_beta run_state_return)
  qed
qed

text \<open>A transfer of whole words stays in its buffer.\<close>

lemma plans_of_words:
  assumes "\<forall>j \<in> set js. 4 * j + 4 \<le> length data"
  shows "fst (run_state (read_plan rd (map (\<lambda>j. (4, 4 * j)) js) data) l) \<noteq> None"
    "fst (run_state (write_plan wr (map (\<lambda>j. (4, 4 * j)) js) data) l) \<noteq> None"
  using assms
  by (induction js arbitrary: data l) (auto simp: put_bytes_def get_bytes_def run_state_bind split_beta run_state_return)

lemma rw_buffer_words:
  assumes "unat sz mod 4 = 0" "le \<longrightarrow> rw \<noteq> BAR_RD"
  shows "fst (run_state (rw_buffer k rd wr le rw sz p) l) \<noteq> None"
proof -
  obtain n where n: "unat sz = 4 * n" using assms(1) by auto
  show ?thesis
    using assms(2) plans_of_words(1)[of "[0..<n]" "map (junk_byte k) [0..<4 * n]" rd "l @ [Kc (Kmalloc sz)]"]
      plans_of_words(2)[of "[0..<n]" "map (user_byte k) [0..<4 * n]" wr "l @ [Kc (Kmalloc sz), Kc CopyDataIn]"]
    by (auto simp: rw_buffer_def n rw_plan_words run_state_bind run_kc split_beta run_state_return split: option.split)
qed

text \<open>A transfer through BAR memory of a size that is not a multiple of 4 leaves its buffer, in both directions: the
  loop over the words runs while \<open>i < size\<close>, so the last 32-bit access goes up to three bytes beyond the
  end, and the branches for the last 16 and 8 bits are never reached.  With a multiple of 4 it does not.\<close>

theorem bar_rw_overruns:
  assumes "rw_args k sz" "bar = 0 \<or> bar = 2" "\<not> data_fails k"
  shows "fst (run_state (ioctl_bar_rw k ep bar rw offset sz p) l) = None \<longleftrightarrow> unat sz mod 4 \<noteq> 0"
proof (cases "unat sz mod 4 = 0")
  case False
  have "fst (run_state (rw_buffer k rd wr False rw sz p) l) = None" for rd wr
    using rw_buffer_overrun[OF assms(1) _ _ assms(3), where w = 4 and i = "4 * (unat sz div 4)" and le = False and rw = rw] rw_plan_overrun[OF False] by simp
  then show ?thesis using False assms(2) by (auto simp: ioctl_bar_rw_def Let_def run_state_bind split_beta run_state_return)
next
  case True
  then have "fst (run_state (rw_buffer k rd1 wr1 False rw sz p) l) \<noteq> None" for rd1 wr1 by (rule rw_buffer_words) simp
  then show ?thesis using True assms(2) by (auto simp: ioctl_bar_rw_def Let_def run_state_bind split_beta run_state_return)
qed

text \<open>Reading configuration space leaves the buffer for every size: a multiple of 4 because the last byte is read when
  \<open>i <= size\<close>, one byte past the end, and any other size because of the loop over the words.\<close>

theorem cfg_read_always_overruns:
  assumes "rw_args k sz" "\<not> data_fails k"
  shows "fst (run_state (ioctl_cfg_rw k 1 offset sz p) l) = None"
proof -
  have "\<exists>w i. (w, i) \<in> set (rw_plan True (unat sz)) \<and> unat sz < i + w"
  proof (cases "unat sz mod 4 = 0")
    case True
    then obtain n where "unat sz = 4 * n" by auto
    then show ?thesis by (intro exI[of _ 1] exI[of _ "4 * n"]) (simp add: rw_plan_words)
  next
    case False
    then show ?thesis using rw_plan_overrun(1)[OF False, of True] rw_plan_overrun(2)[OF False] by blast
  qed
  then obtain w i where "(w, i) \<in> set (rw_plan True (unat sz))" "unat sz < i + w" by blast
  then have "fst (run_state (rw_buffer k rd wr True 1 sz p) l) = None" for rd wr
    using rw_buffer_overrun[OF assms(1) _ _ assms(2), where w = w and i = i and le = True and rw = 1] by (simp add: BAR_RD_def)
  then show ?thesis by (simp add: ioctl_cfg_rw_def run_state_bind split_beta run_state_return)
qed

text \<open>A write to configuration space also suspends the device: the case falls through into the one that saves the
  state and sets the power state, to the number of bytes that were written.\<close>

theorem cfg_write_suspends:
  assumes "rw_args k sz" "unat sz = 4 * n" "rw \<noteq> 1" "\<not> data_fails k"
  shows "run_state (ioctl_cfg_rw k rw offset sz p) l = (Some 0,
    l @ [Kc (Kmalloc sz), Kc CopyDataIn] @ map (\<lambda>j. Cfg True 4 (ucast (offset + of_nat (4 * j))) (of_le (map (user_byte k) [4 * j..<4 * j + 4]))) [0..<n] @
      [Kc Kfree, Kc (Lock IoMutex), Kc SaveState, Kc (SetPower sz), Kc (Unlock IoMutex)])"
proof -
  note a = rw_argsD[OF assms(1)]
  have "run_state (write_plan (cfg_wr offset) (map (\<lambda>j. (4, 4 * j)) js) data) l' =
      (Some (), l' @ map (\<lambda>j. Cfg True 4 (ucast (offset + of_nat (4 * j))) (of_le (take 4 (drop (4 * j) data)))) js)"
    if "\<forall>j \<in> set js. 4 * j + 4 \<le> length data" for js data l'
    using that by (induction js arbitrary: l') (simp_all add: get_bytes_def cfg_wr_def mmio_simps)
  moreover have "take 4 (drop (4 * j) (map (user_byte k) [0..<4 * n])) = map (user_byte k) [4 * j..<4 * j + 4]" if "j < n" for j
    using that by (simp add: take_map drop_map)
  ultimately have "run_state (write_plan (cfg_wr offset) (map (\<lambda>j. (4, 4 * j)) [0..<n]) (map (user_byte k) [0..<4 * n])) (l @ [Kc (Kmalloc sz), Kc CopyDataIn]) =
      (Some (), (l @ [Kc (Kmalloc sz), Kc CopyDataIn]) @
        map (\<lambda>j. Cfg True 4 (ucast (offset + of_nat (4 * j))) (of_le (map (user_byte k) [4 * j..<4 * j + 4]))) [0..<n])" by auto
  then show ?thesis using a assms(3,4)
    by (simp add: ioctl_cfg_rw_def rw_buffer_def assms(2) rw_plan_words mmio_simps BAR_RD_def ioctl_suspend_def)
qed

text \<open>The buffer of a transfer is lost when the user's data cannot be copied: the call that frees it stands
  after the \<open>return\<close>.\<close>

theorem rw_leaks_buffer:
  assumes "rw_args k sz" "bar = 0 \<or> bar = 2" "rw \<noteq> 1" "data_fails k"
  shows "run_state (ioctl_bar_rw k ep bar rw offset sz p) l = (Some (- EFAULT), l @ [Kc (Kmalloc sz), Kc CopyDataIn]) \<and>
    run_state (ioctl_cfg_rw k rw offset sz p) l = (Some (- EFAULT), l @ [Kc (Kmalloc sz), Kc CopyDataIn])"
  using rw_argsD[OF assms(1)] assms(2-4)
  by (auto simp: ioctl_bar_rw_def ioctl_cfg_rw_def rw_buffer_def mmio_simps BAR_RD_def Let_def)

section \<open>Locks\<close>

text \<open>The locks of a system call: those of the function, the mutex of a bare channel, which is named by the address of its registers, and the semaphore of the DMA test.\<close>

datatype held = Fn lock | ChanMutex ioaddr | TestSem

text \<open>What may sleep must not happen under the spin lock: copying from and to the user, allocating, waiting, requesting and freeing
  interrupts, and taking a mutex or a semaphore.\<close>

fun sleeps :: "kcall \<Rightarrow> bool" where
  "sleeps (Kmalloc n) = True"
| "sleeps CopyParamIn = True"
| "sleeps CopyDataIn = True"
| "sleeps (CopyParam p) = True"
| "sleeps (CopyData d) = True"
| "sleeps (WaitDone i n) = True"
| "sleeps c = False"

definition take_lock :: "held \<Rightarrow> held list \<Rightarrow> held list option" where
  "take_lock x H = (if x \<in> set H \<or> Fn IrqLock \<in> set H then None else Some (x # H))"

definition drop_lock :: "held \<Rightarrow> held list \<Rightarrow> held list option" where
  "drop_lock x H = (case H of [] \<Rightarrow> None | y # H \<Rightarrow> if y = x then Some H else None)"

text \<open>The locks that are held, the last one taken first.  A lock is not taken twice, locks are released in the
  reverse order, and nothing that may sleep happens under the spin lock.\<close>

fun lock_step :: "kev \<Rightarrow> held list \<Rightarrow> held list option" where
  "lock_step (Kc (Lock x)) H = take_lock (Fn x) H"
| "lock_step (Kc (Unlock x)) H = drop_lock (Fn x) H"
| "lock_step (Acc (MutexLock a)) H = take_lock (ChanMutex a) H"
| "lock_step (Acc (MutexUnlock a)) H = drop_lock (ChanMutex a) H"
| "lock_step (DmaEv DownSem) H = take_lock TestSem H"
| "lock_step (DmaEv UpSem) H = drop_lock TestSem H"
| "lock_step (DmaEv e) H = (if Fn IrqLock \<in> set H then None else Some H)"
| "lock_step (IrqEv c) H = (if Fn IrqLock \<in> set H then None else Some H)"
| "lock_step (Kc c) H = (if sleeps c \<and> Fn IrqLock \<in> set H then None else Some H)"
| "lock_step e H = Some H"

fun lock_run :: "kev list \<Rightarrow> held list \<Rightarrow> held list option" where
  "lock_run [] H = Some H"
| "lock_run (e # es) H = Option.bind (lock_step e H) (lock_run es)"

interpretation locks: protocol lock_step lock_run
  by unfold_locales simp_all

lemma lock_run_append [simp]: "lock_run (xs @ ys) H = Option.bind (lock_run xs H) (lock_run ys)"
  by (rule locks.run_append)

lemma lock_run_plain: "list_all plain as \<Longrightarrow> lock_run (map Acc as) H = Some H"
proof (rule locks.run_neutral)
  fix e assume "list_all plain as" "e \<in> set (map Acc as)"
  then obtain a where "e = Acc a" "plain a" by (auto simp: list_all_iff)
  then show "lock_step e H = Some H" by (cases a) simp_all
qed

lemma lock_run_irqs: "Fn IrqLock \<notin> set H \<Longrightarrow> lock_run (map IrqEv cs) H = Some H"
  by (rule locks.run_neutral) auto

lemmas lock_simps [simp] = take_lock_def drop_lock_def

definition locks_kept :: "'a kio \<Rightarrow> bool" where
  "locks_kept m \<longleftrightarrow> (\<forall>l. \<exists>es. snd (run_state m l) = l @ es \<and> lock_run es [] = Some [])"

named_theorems lock_intros \<open>programs that leave no lock behind\<close>

lemma locks_bind [lock_intros]:
  assumes "locks_kept m" "\<And>x. locks_kept (f x)"
  shows "locks_kept (State_Monad.bind m f)"
  unfolding locks_kept_def
proof
  fix l
  obtain es where e: "snd (run_state m l) = l @ es" "lock_run es [] = Some []" using assms(1) by (auto simp: locks_kept_def)
  obtain fs where f: "snd (run_state (f (fst (run_state m l))) (l @ es)) = (l @ es) @ fs" "lock_run fs [] = Some []"
    using assms(2) unfolding locks_kept_def by blast
  have "snd (run_state (State_Monad.bind m f) l) = snd (run_state (f (fst (run_state m l))) (snd (run_state m l)))"
    by (simp add: run_state_bind split_beta)
  then show "\<exists>gs. snd (run_state (State_Monad.bind m f) l) = l @ gs \<and> lock_run gs [] = Some []"
    using e f by (intro exI[of _ "es @ fs"]) simp
qed

lemma locks_return [lock_intros]: "locks_kept (State_Monad.return x)"
  by (simp add: locks_kept_def mmio_simps)

lemma locks_if [lock_intros]: "locks_kept m \<Longrightarrow> locks_kept n \<Longrightarrow> locks_kept (if b then m else n)"
  by simp

lemma locks_plain [lock_intros]:
  assumes "plain_io m"
  shows "locks_kept (lift_io m)"
  unfolding locks_kept_def
proof
  fix l
  obtain u where "exec m (accs l) = accs l @ u" "list_all plain u" using assms unfolding plain_io_def by blast
  then show "\<exists>es. snd (run_state (lift_io m) l) = l @ es \<and> lock_run es [] = Some []"
    by (intro exI[of _ "map Acc u"]) (simp add: lift_io_def Let_def exec_def lock_run_plain)
qed

lemma locks_prims [lock_intros]:
  "locks_kept (kc (Kmalloc sz))" "locks_kept (kc Kfree)" "locks_kept (kc CopyParamIn)" "locks_kept (kc CopyDataIn)"
  "locks_kept (copy_param k p)" "locks_kept (copy_data k d)"
  "locks_kept (kc (WaitDone i n))" "locks_kept (kc AssignRom)" "locks_kept (kc EnableRom)" "locks_kept (kc DisableRom)"
  "locks_kept (kc MapRom)" "locks_kept (kc UnmapRom)"
  "locks_kept (bar_rd k base w i)" "locks_kept (bar_wr base w i v)" "locks_kept (cfg_rd k offset w i)" "locks_kept (cfg_wr offset w i v)"
  by (auto simp: locks_kept_def mmio_simps bar_rd_def bar_wr_def cfg_rd_def cfg_wr_def Let_def)

lemma locks_plans [lock_intros]:
  "(\<And>w i. locks_kept (rd w i)) \<Longrightarrow> locks_kept (read_plan rd ps data)"
  "(\<And>w i v. locks_kept (wr w i v)) \<Longrightarrow> locks_kept (write_plan wr ps data)"
  by (induction ps arbitrary: data) (auto intro!: lock_intros split: option.split)

lemma locks_buffer [lock_intros]:
  "(\<And>w i. locks_kept (rd w i)) \<Longrightarrow> (\<And>w i v. locks_kept (wr w i v)) \<Longrightarrow> locks_kept (rw_buffer k rd wr le rw sz p)"
  by (auto simp: rw_buffer_def intro!: lock_intros split: option.split)

lemma locks_power [lock_intros]: "locks_kept (ioctl_suspend k sz)" "locks_kept (ioctl_resume k)" "locks_kept (ioctl_get_power k p)"
  by (simp_all add: locks_kept_def ioctl_suspend_def ioctl_resume_def ioctl_get_power_def mmio_simps)

lemma snd_lift: "snd (run_state (lift_io m) l) = l @ map Acc (drop (length (accs l)) (snd (run_state m (accs l))))"
  by (simp add: lift_io_def Let_def)

text \<open>A register program that only reads and writes, under locks.\<close>

lemma lift_plain:
  assumes "plain_io m"
  shows "\<exists>r u. run_state (lift_io m) l = (r, l @ map Acc u) \<and> list_all plain u"
proof -
  obtain u where "exec m (accs l) = accs l @ u" "list_all plain u" using assms unfolding plain_io_def by blast
  then show ?thesis by (auto simp: lift_io_def Let_def exec_def)
qed

lemma plain_regs [plain_intros]: "plain_io (rl hw ep a)" "plain_io (wl ep a v)"
  by (simp_all add: rl_def wl_def plain_intros)

lemma plain_irq_init: "plain_io (irq_init env ep ty tm)"
proof -
  have "plain_io (irq_regs_init ep n)" for ep n
    unfolding irq_regs_init.simps by (intro plain_if plain_bind plain_for plain_regs plain_basic)
  then show ?thesis unfolding irq_init_def Let_def by (intro plain_if plain_bind plain_basic)
qed

lemma plain_trig: "plain_io (do { rdata \<leftarrow> rl hw ep reg;
    (if 1 AND rdata = 0 then do { _ \<leftarrow> wl ep reg (1 OR rdata); _ \<leftarrow> rl hw ep reg; State_Monad.return (1 :: u8) } else State_Monad.return 0) })"
  by (auto intro!: plain_intros)

lemma run_trig: "\<exists>r u. run_state (trig_src k ep reg) l = (r, l @ map Acc u) \<and> list_all plain u"
  unfolding trig_src_def by (rule lift_plain[OF plain_trig])

lemma locks_trig [lock_intros]: "locks_kept (ioctl_trig_int k bar p ep)"
  unfolding locks_kept_def
proof
  fix l
  obtain r u where u: "run_state (trig_src k ep (PF_SRC_SOFT (uint bar))) (l @ [Kc (Lock IrqLock)]) = (r, (l @ [Kc (Lock IrqLock)]) @ map Acc u)"
      "list_all plain u" using run_trig by blast
  obtain r' v where v: "run_state (trig_src k ep (VF_SRC_SOFT (uint bar))) (l @ [Kc (Lock IrqLock)]) = (r', (l @ [Kc (Lock IrqLock)]) @ map Acc v)"
      "list_all plain v" using run_trig by blast
  show "\<exists>es. snd (run_state (ioctl_trig_int k bar p ep) l) = l @ es \<and> lock_run es [] = Some []"
    using u v lock_run_plain[OF u(2)] lock_run_plain[OF v(2)]
    by (cases "ep_type ep") (auto simp: ioctl_trig_int_def run_state_bind run_state_return run_kc copy_param_def split_beta emu_types)
qed

lemma locks_ipc [lock_intros]: "locks_kept (ioctl_ipc k bar sz p ep)"
  by (auto simp: locks_kept_def ioctl_ipc_def ipc_target_def mmio_simps wl_def Let_def split: prod.split)

lemma locks_irq_init [lock_intros]: "locks_kept (ioctl_irq_init k p ep)"
  unfolding locks_kept_def
proof
  fix l
  obtain r u where "run_state (lift_io (irq_init (k_irq k) ep (uint (p_b0 p)) (uint (p_b1 p)))) (l @ [Kc (Lock IoMutex)]) =
      (r, (l @ [Kc (Lock IoMutex)]) @ map Acc u)" "list_all plain u"
    using lift_plain[OF plain_irq_init] by blast
  then show "\<exists>gs. snd (run_state (ioctl_irq_init k p ep) l) = l @ gs \<and> lock_run gs [] = Some []"
    using lock_run_plain[of u "[Fn IoMutex]"] lock_run_irqs[of "[Fn IoMutex]"]
    by (auto simp: ioctl_irq_init_def mmio_simps)
qed

text \<open>A bare transfer takes the mutex of its channel and gives it back, and only reads and writes in between.\<close>

lemma locks_bare:
  assumes "dma_bare_xfer hw i0 ok rnd irqs ch dir dd desc_cnt block_cnt sar dar sz = Some m"
  shows "locks_kept (lift_io m)"
  unfolding locks_kept_def
proof
  fix l
  have "\<exists>es. exec m t = t @ es \<and> lock_run (map Acc es) [] = Some []" for t
  proof (cases "direction_of dir")
    case None
    then show ?thesis using assms by (auto simp: dma_bare_xfer_def run_steps)
  next
    case (Some d)
    let ?a = "rg_vaddr (bc_info ch)" and ?ch = "ch\<lparr>int_done := 0, int_error := 0\<rparr>"
    obtain prog where p: "program_mode hw (bc_info ch) i0 ok rnd (bare_direction dd d) dd desc_cnt block_cnt sar dar sz = Some prog"
      "m = do { _ \<leftarrow> mutex_lock ?a; _ \<leftarrow> prog; _ \<leftarrow> start_channel hw (bc_info ch) (bare_direction dd d);
        r \<leftarrow> wait_done hw irqs ?ch; _ \<leftarrow> mutex_unlock ?a; State_Monad.return r }"
      using assms Some by (auto simp: dma_bare_xfer_def Let_def split: option.splits)
    have "plain_io (do { _ \<leftarrow> prog; _ \<leftarrow> start_channel hw (bc_info ch) (bare_direction dd d); wait_done hw irqs ?ch })"
      by (intro plain_bind plain_program[OF p(1)] plain_start plain_wait)
    then obtain u where u: "exec (do { _ \<leftarrow> prog; _ \<leftarrow> start_channel hw (bc_info ch) (bare_direction dd d); wait_done hw irqs ?ch }) (t @ [MutexLock ?a]) =
        (t @ [MutexLock ?a]) @ u" "list_all plain u" unfolding plain_io_def by blast
    have "exec m t = t @ [MutexLock ?a] @ u @ [MutexUnlock ?a]" using u(1) by (simp add: p(2) run_steps)
    then show ?thesis using lock_run_plain[OF u(2)] by (intro exI[of _ "[MutexLock ?a] @ u @ [MutexUnlock ?a]"]) simp
  qed
  then obtain es where "exec m (accs l) = accs l @ es" "lock_run (map Acc es) [] = Some []" by blast
  then show "\<exists>es. snd (run_state (lift_io m) l) = l @ es \<and> lock_run es [] = Some []"
    by (intro exI[of _ "map Acc es"]) (simp add: lift_io_def Let_def exec_def)
qed

text \<open>The DMA test gives its semaphore back on every path.\<close>

lemma locks_test:
  assumes "emu_dma_rw hw env ti userbuf em = Some (ret, em', es)"
  shows "locks_kept (note_calls (map DmaEv es))"
  using assms by (auto simp: locks_kept_def mmio_simps emu_dma_rw_def Let_def split: chan_answer.splits if_splits)

lemma locks_bare_rw [lock_intros]: "locks_kept (ioctl_bare_rw k sz p ep)"
proof -
  have b: "locks_kept (case x of None \<Rightarrow> State_Monad.return None | Some m \<Rightarrow> State_Monad.bind (lift_io m) (f m))"
    if "\<And>m. x = Some m \<Longrightarrow> locks_kept (lift_io m)" "\<And>m r. locks_kept (f m r)" for x :: "'b io option" and f :: "'b io \<Rightarrow> 'b \<Rightarrow> 'c option kio"
    using that by (cases x) (auto intro!: locks_return locks_bind)
  show ?thesis unfolding ioctl_bare_rw_def Let_def
    by (intro locks_if locks_bind locks_return locks_prims b) (erule locks_bare)
qed

lemma locks_mtdma_rw [lock_intros]: "locks_kept (ioctl_mtdma_rw k arg sz p em)"
proof (cases "emu_dma_rw (k_hw k) (k_rw k) (user_rw k) (arg + MTDMA_BUF_START) em")
  case None
  then show ?thesis by (auto simp: ioctl_mtdma_rw_def intro!: lock_intros)
next
  case (Some x)
  obtain ret em' es where x: "x = (ret, em', es)" by (cases x)
  note t = locks_test[OF Some[unfolded x]]
  show ?thesis using Some t by (auto simp: ioctl_mtdma_rw_def x intro!: lock_intros)
qed

text \<open>C20. Every system call that returns or leaves an array, with whatever arguments and answers of the kernel, leaves no lock held, releases locks in the reverse
  order and never takes a lock twice: the mutex and the spin lock of the function, the mutexes of its sources, the mutex of the bare channel it transfers on and the
  semaphore of the DMA test.  While it holds the spin lock it neither copies from or to the user, nor allocates, waits, requests or frees an interrupt or takes another lock.\<close>

theorem ioctl_locks:
  "\<exists>es. snd (run_state (mt_test_ioctl k cmd arg p dv) l) = l @ es \<and> lock_run es [] = Some []"
proof -
  have "locks_kept (mt_test_ioctl k cmd arg p dv)"
    by (cases cmd)
      (auto simp: mt_test_ioctl_def Let_def with_ep_def with_ret_def ioctl_bar_rw_def ioctl_cfg_rw_def ioctl_wait_int_def
        ioctl_read_rom_def map_exp_rom_def unmap_exp_rom_def
        intro!: lock_intros split: option.split sum.split prod.split)
  then show ?thesis by (simp add: locks_kept_def)
qed

section \<open>Arguments that are rejected\<close>

text \<open>The commands whose arguments fail the checks.\<close>

fun bad_args :: "kenv \<Rightarrow> mt_emu_param \<Rightarrow> mt_dev \<Rightarrow> ioctl_cmd \<Rightarrow> bool" where
  "bad_args k p dv MT_IOCTL_BAR_RW \<longleftrightarrow> p_b0 p \<notin> {0, 2} \<or> p_d0 p = 0 \<or> 0x200000 < p_d0 p"
| "bad_args k p dv MT_IOCTL_CFG_RW \<longleftrightarrow> p_d0 p = 0 \<or> 0x200000 < p_d0 p"
| "bad_args k p dv MT_IOCTL_WAIT_INT \<longleftrightarrow> 32 \<le> p_b0 p"
| "bad_args k p dv MT_IOCTL_TRIG_INT \<longleftrightarrow> 32 \<le> p_b0 p \<and> ep_type (d_ep dv) = MT_EMU_TYPE_VGPU"
| "bad_args k p dv MT_IOCTL_IPC \<longleftrightarrow> 3 \<le> p_b0 p"
| "bad_args k p dv MT_IOCTL_MTDMA_BARE_RW \<longleftrightarrow> p_d0 p \<noteq> 44"
| "bad_args k p dv MT_IOCTL_MTDMA_RW \<longleftrightarrow> p_d0 p < 32 \<or> ucast (p_d0 p) \<noteq> 32 + rw_size (user_rw k)"
| "bad_args k p dv (MT_IOCTL_OTHER n) \<longleftrightarrow> True"
| "bad_args k p dv c \<longleftrightarrow> False"

text \<open>Arguments out of range are rejected before anything happens: the call returns \<open>-EFAULT\<close>, no register or
  configuration access and no call of the kernel but \<open>copy_from_user\<close> is made, and the device is as before.  The same
  holds when the parameter cannot be read.\<close>

theorem ioctl_rejects:
  assumes "param_fails k \<or> bad_args k p dv cmd"
  shows "\<exists>es. run_state (mt_test_ioctl k cmd arg p dv) l = (Some (-14, dv), l @ es) \<and> set es \<subseteq> {Kc CopyParamIn, Kc CopyDataIn}"
proof -
  have e: "of_nat n + x = 32 + x" if "n = 32" for n and x :: u64 using that by simp
  show ?thesis using assms
    by (cases cmd)
      (auto simp: mt_test_ioctl_def Let_def EFAULT_def ioctl_bar_rw_def ioctl_cfg_rw_def rw_buffer_def QY_MAX_RW_def ioctl_wait_int_def
        QY_INT_SRC_MAX_NUM_def word_le_nat_alt word_less_nat_alt ioctl_trig_int_def ioctl_ipc_def ioctl_bare_rw_def ioctl_mtdma_rw_def
        SIZEOF_DMA_BARE_RW_def SIZEOF_MTDMA_RW_def word_unat_eq_iff[of "p_d0 p" 44] with_ep_def with_ret_def run_state_bind run_state_return run_kc)
qed

section \<open>Sources of a virtual function\<close>

text \<open>Triggering an interrupt of a virtual function is limited to sources below 32, but only six source registers
  come before the other registers of the multiplexer: source \<open>6 + i\<close> is the software register of
  target \<open>i\<close>, source \<open>14 + i\<close> its enable register and source \<open>22 + i\<close> its claim register, and
  the call sets the lowest bit of that register, here for an enable register.\<close>

theorem vf_trigger_hits_registers:
  assumes "ep_type ep = MT_EMU_TYPE_VGPU" "i < 8" "v = k_hw k (accs l) (bar0 ep (VF_INT_ENABLE (int i)))" "v AND 1 = 0"
  shows "VF_SRC_SOFT (6 + int i) = VF_TARGET_SOFT (int i) \<and> VF_SRC_SOFT (14 + int i) = VF_INT_ENABLE (int i) \<and>
    VF_SRC_SOFT (22 + int i) = VF_TARGET_CLAIM (int i) \<and>
    Acc (Wr (bar0 ep (VF_INT_ENABLE (int i))) (1 OR v)) \<in> set (snd (run_state (ioctl_trig_int k (of_nat (14 + i)) p ep) l))"
proof -
  have r: "VF_SRC_SOFT (6 + int i) = VF_TARGET_SOFT (int i)" "VF_SRC_SOFT (14 + int i) = VF_INT_ENABLE (int i)"
    "VF_SRC_SOFT (22 + int i) = VF_TARGET_CLAIM (int i)"
    by (simp_all add: VF_SRC_SOFT_def VF_TARGET_SOFT_def VF_INT_ENABLE_def VF_TARGET_CLAIM_def)
  have u: "unat (of_nat (14 + i) :: u8) = 14 + i" using assms(2) by (simp add: unsigned_of_nat take_bit_nat_eq_self del: of_nat_add)
  then have n: "uint (of_nat (14 + i) :: u8) = 14 + int i" by (metis of_nat_add of_nat_numeral uint_nat)
  have v: "1 AND v = 0" using assms(4) by (simp add: and.commute)
  have "Acc (Wr (bar0 ep (VF_INT_ENABLE (int i))) (1 OR v)) \<in> set (snd (run_state (trig_src k ep (VF_INT_ENABLE (int i))) (l @ [Kc (Lock IrqLock)])))"
    using v assms(3) by (simp add: trig_src_def snd_lift mmio_simps bar0_def)
  then show ?thesis using r u n assms(1,2)
    by (simp add: ioctl_trig_int_def run_state_bind run_state_return run_kc copy_param_def split_beta emu_types del: of_nat_add)
qed

section \<open>Mappings\<close>

text \<open>A mapping that is granted stays within its region rounded up to pages: only BAR 0, 2, 4 or the ROM is mapped, from
  the region's first page on, no further than its last page, and nothing of an absent (empty) region.\<close>

theorem mmap_within_region:
  assumes "mt_test_mmap ep pgoff s e = Inr (s', pfn, len)" "rg_paddr (region ep ! pgoff) AND 0xfff = 0" "(e - s) AND 0xfff = 0"
    "unat (rg_size (region ep ! pgoff)) + 4095 < 2 ^ 64"
  shows "pgoff \<in> {0, 2, 4, 6} \<and> s' = s \<and> pfn * 4096 = rg_paddr (region ep ! pgoff) \<and>
    unat len \<le> 4096 * ((unat (rg_size (region ep ! pgoff)) + 4095) div 4096)"
proof -
  let ?r = "region ep ! pgoff"
  have m: "w AND 0xfff = w mod 4096" for w :: u64
    using take_bit_eq_mask[of 12 w] take_bit_eq_mod[of 12 w] by (simp add: mask_eq_exp_minus_1)
  have c: "pgoff \<in> {0, 2, 4, 6}" "s' = s" "pfn = drop_bit 12 (rg_paddr ?r)" "len = e - s"
    "drop_bit 12 (e - s) \<le> drop_bit 12 (rg_size ?r + 4096 - 1)"
    using assms(1) by (auto simp: mt_test_mmap_def Let_def split: if_splits)
  have "unat (rg_size ?r + 4096 - 1) = unat (rg_size ?r) + 4095"
  proof -
    have "rg_size ?r + 4096 - 1 = of_nat (unat (rg_size ?r) + 4095)" by simp
    then show ?thesis using assms(4) by (simp add: unsigned_of_nat take_bit_nat_eq_self del: of_nat_add)
  qed
  then have "unat len div 4096 \<le> (unat (rg_size ?r) + 4095) div 4096"
    using c(4,5) by (simp add: word_le_nat_alt drop_bit_eq_div unat_div)
  moreover have "unat len mod 4096 = unat (len mod 4096)" by (simp add: unat_mod)
  then have "unat len mod 4096 = 0" using assms(3) c(4) m[of len] by simp
  then have "unat len = 4096 * (unat len div 4096)" using mult_div_mod_eq[of 4096 "unat len"] by linarith
  ultimately have "unat len \<le> 4096 * ((unat (rg_size ?r) + 4095) div 4096)" by linarith
  moreover have "pfn * 4096 = rg_paddr ?r"
    using assms(2) div_mult_mod_eq[of "rg_paddr ?r" 4096] unfolding c(3) m by (simp add: drop_bit_eq_div)
  ultimately show ?thesis using c by simp
qed

section \<open>Witnesses\<close>

definition demo_k :: kenv where
  "demo_k = \<lparr>k_hw = (\<lambda>t. mem_after t (\<lambda>a. 0)), k_narrow = (\<lambda>l w a. 0), k_cfg = (\<lambda>l w a. 0), param_fails = False, data_fails = False,
     param_left = 0, data_left = 0, kmalloc_ok = True, user_byte = of_nat, junk_byte = (\<lambda>i. 0), int_arrivals = 0, current_state = 0,
     k_irq = IrqProps.demo_env,
     user_bare = \<lparr>br_sar = 0, br_dar = 0, br_data_direction = 0, br_desc_direction = 0, br_desc_cnt = 0, br_block_cnt = 0, br_size = 0, br_ch_num = 0, br_timeout_ms = 0\<rparr>,
     bare_i0 = 0, bare_kmalloc = True, bare_rnd = (\<lambda>i j. 0), bare_irqs = 0, user_rw = demo_rw, k_rw = DmaTestProps.demo_env,
     rom_assign = 0, rom_len = 0, rom_enable = 0, rom_mapped = False, rom_flag = False\<rparr>"

definition demo_p :: mt_emu_param where
  "demo_p = \<lparr>p_b0 = 2, p_b1 = 0, p_b2 = 0, p_b3 = 0, p_w0 = 0, p_w1 = 0, p_d0 = 8, p_d1 = 0, p_l0 = 0x100, p_l1 = 0\<rparr>"

lemma demo_args: "rw_args demo_k 8" "rw_args demo_k 6" "unat (8 :: u32) = 4 * 2"
  by (simp_all add: rw_args_def QY_MAX_RW_def demo_k_def)

theorem bar_rw_correct_witness:
  "run_state (ioctl_bar_rw (demo_k\<lparr>k_hw := \<lambda>t a. 7\<rparr>) demo_fn 2 0 0x100 8 demo_p) [] = (Some 0,
    [Kc (Kmalloc 8), Kc CopyDataIn] @ map (\<lambda>j. Acc (Wr (word_at (bar_base demo_fn 2 0x100) j) (of_le (map of_nat [4 * j..<4 * j + 4])))) [0..<2] @ [Kc Kfree])"
proof -
  have "rw_args (demo_k\<lparr>k_hw := \<lambda>t a. 7\<rparr>) 8" using demo_args(1) by (simp add: rw_args_def)
  from bar_rw_correct[OF this demo_args(3), of 2 "[]" "\<lambda>a. 7" demo_fn "0x100" demo_p] show ?thesis
    by (simp add: stable_def demo_k_def Let_def upt_conv_Cons)
qed

theorem bar_rw_roundtrip_witness:
  "\<exists>l1 l2. run_state (ioctl_bar_rw demo_k demo_fn 2 0 0x100 8 demo_p) [] = (Some 0, l1) \<and>
    Kc (CopyData (map of_nat [0..<unat (8 :: u32)])) \<in> set l2 \<and>
    run_state (ioctl_bar_rw demo_k demo_fn 2 1 0x100 8 demo_p) l1 = (Some 0, l1 @ l2)"
  using bar_rw_roundtrip[OF demo_args(1,3), of 2 "\<lambda>a. 0" demo_fn "0x100" demo_p "[]"]
  by (auto simp: demo_k_def)

theorem bar_rw_overruns_witness:
  "fst (run_state (ioctl_bar_rw demo_k demo_fn 2 1 0x100 6 demo_p) []) = None \<and>
    fst (run_state (ioctl_bar_rw demo_k demo_fn 2 0 0x100 8 demo_p) []) \<noteq> None"
proof -
  have "\<not> data_fails demo_k" by (simp add: demo_k_def)
  then show ?thesis
    using bar_rw_overruns[OF demo_args(2), of 2 demo_fn 1 "0x100" demo_p "[]"] bar_rw_overruns[OF demo_args(1), of 2 demo_fn 0 "0x100" demo_p "[]"] by simp
qed

theorem cfg_read_always_overruns_witness:
  "fst (run_state (ioctl_cfg_rw demo_k 1 0 8 demo_p) []) = None"
  by (rule cfg_read_always_overruns[OF demo_args(1)]) (simp add: demo_k_def)

theorem cfg_write_suspends_witness:
  "\<exists>es. run_state (ioctl_cfg_rw demo_k 0 0 8 demo_p) [] = (Some 0, es @ [Kc Kfree, Kc (Lock IoMutex), Kc SaveState, Kc (SetPower 8), Kc (Unlock IoMutex)])"
  using cfg_write_suspends[OF demo_args(1,3), of 0 0 demo_p "[]"] by (auto simp: demo_k_def)

theorem rw_leaks_buffer_witness:
  "run_state (ioctl_bar_rw (demo_k\<lparr>data_fails := True\<rparr>) demo_fn 2 0 0x100 8 demo_p) [] = (Some (-14), [Kc (Kmalloc 8), Kc CopyDataIn])"
  using rw_leaks_buffer[of "demo_k\<lparr>data_fails := True\<rparr>" 8 2 0 demo_fn "0x100" demo_p "[]"]
  by (simp add: rw_args_def demo_k_def QY_MAX_RW_def EFAULT_def)

definition demo_dev :: mt_dev where
  "demo_dev = \<lparr>d_ep = demo_fn, d_em = demo_em\<rparr>"

theorem ioctl_rejects_witness:
  "\<exists>es. run_state (mt_test_ioctl demo_k MT_IOCTL_BAR_RW 0 (demo_p\<lparr>p_d0 := 0\<rparr>) demo_dev) [] = (Some (-14, demo_dev), es) \<and>
    set es \<subseteq> {Kc CopyParamIn, Kc CopyDataIn}"
  using ioctl_rejects[of demo_k "demo_p\<lparr>p_d0 := 0\<rparr>" demo_dev MT_IOCTL_BAR_RW 0 "[]"] by simp

theorem vf_trigger_hits_registers_witness:
  "Acc (Wr (bar0 (demo_fn\<lparr>ep_type := MT_EMU_TYPE_VGPU\<rparr>) (VF_INT_ENABLE (int 0))) 1) \<in>
    set (snd (run_state (ioctl_trig_int demo_k (of_nat (14 + 0)) demo_p (demo_fn\<lparr>ep_type := MT_EMU_TYPE_VGPU\<rparr>)) []))"
proof -
  have "(0 :: u32) = k_hw demo_k (accs []) (bar0 (demo_fn\<lparr>ep_type := MT_EMU_TYPE_VGPU\<rparr>) (VF_INT_ENABLE (int 0)))" by (simp add: demo_k_def)
  from vf_trigger_hits_registers[OF _ _ this, of demo_p] show ?thesis by simp
qed

theorem mmap_within_region_witness:
  "let ep = demo_fn\<lparr>region := [\<lparr>rg_paddr = 0x10000000, rg_base = (0, 0), rg_size = 0x1800\<rparr>]\<rparr> in
    mt_test_mmap ep 0 0x7000000 0x7002000 = Inr (0x7000000, 0x10000, 0x2000) \<and> (0x10000 :: u64) * 4096 = 0x10000000"
proof -
  let ?ep = "demo_fn\<lparr>region := [\<lparr>rg_paddr = 0x10000000, rg_base = (0, 0), rg_size = 0x1800\<rparr>]\<rparr>"
  have m: "mt_test_mmap ?ep 0 0x7000000 0x7002000 = Inr (0x7000000, 0x10000, 0x2000)"
    by (simp add: mt_test_mmap_def Let_def)
  from mmap_within_region[OF m] have "(0x10000 :: u64) * 4096 = rg_paddr (region ?ep ! 0)" by simp
  then show ?thesis using m by (simp add: Let_def)
qed

end
