(* ===== verification/System.thy ===== *)
theory System
  imports IoctlProps IrqProps
begin

text \<open>
  A function in use: system calls of \<open>mt_test_ioctl\<close> and interrupts of \<open>pcie_th\<close> as steps of
  a transition system, in any order and with any arguments and any answers of the kernel and the
  device.  The numbers under which the kernel delivers the vectors are part of the state: they are what \<open>pci_irq_vector\<close> returned when the handlers were
  installed, and need not be consecutive.  A call or an interrupt in which the code leaves an array has no successor; which these are is part of the theorems.
\<close>

datatype sys_event = SysCall ioctl_cmd | Interrupt nat

record sys_state =
  s_dev :: mt_dev
  s_nums :: "nat \<Rightarrow> int"

text \<open>The numbers change when a call gets as far as \<open>irq_init\<close>.\<close>

definition nums_after :: "kenv \<Rightarrow> ioctl_cmd \<Rightarrow> (nat \<Rightarrow> int) \<Rightarrow> nat \<Rightarrow> int" where
  "nums_after k cmd nums = (if cmd = MT_IOCTL_IRQ_INIT \<and> \<not> param_fails k then pci_irq_vector (k_irq k) else nums)"

inductive sys_step :: "sys_state \<Rightarrow> sys_event \<Rightarrow> sys_state \<Rightarrow> bool" where
  call: "\<lbrakk>alloc_ok (k_irq k); fst (run_state (mt_test_ioctl k cmd arg p (s_dev s)) l) = Some (ret, dv')\<rbrakk>
    \<Longrightarrow> sys_step s (SysCall cmd) \<lparr>s_dev = dv', s_nums = nums_after k cmd (s_nums s)\<rparr>"
| irq: "\<lbrakk>i \<in> installed (d_ep (s_dev s)); result_of (pcie_th hw (s_nums s i) (d_ep (s_dev s))) t = Some ep'\<rbrakk>
    \<Longrightarrow> sys_step s (Interrupt i) (s\<lparr>s_dev := (s_dev s)\<lparr>d_ep := ep'\<rparr>\<rparr>)"

inductive_cases sys_callE: "sys_step s (SysCall c) s'"
inductive_cases sys_irqE: "sys_step s (Interrupt i) s'"

inductive sys_reach :: "sys_state \<Rightarrow> sys_state \<Rightarrow> bool" for s0 where
  start: "sys_reach s0 s0"
| step: "\<lbrakk>sys_reach s0 s; sys_step s e s'\<rbrakk> \<Longrightarrow> sys_reach s0 s'"

section \<open>What stays\<close>

text \<open>What identifies the function and where its registers are.\<close>

definition same_fn :: "emu_pcie \<Rightarrow> emu_pcie \<Rightarrow> bool" where
  "same_fn ep ep' \<longleftrightarrow> ep_type ep' = ep_type ep \<and> devfn ep' = devfn ep \<and> region ep' = region ep \<and>
     mtdma_comm_vaddr ep' = mtdma_comm_vaddr ep \<and> vf_num ep' = vf_num ep"

text \<open>A step that also keeps the vectors and the sizes of the arrays.\<close>

definition keeps :: "emu_pcie \<Rightarrow> emu_pcie \<Rightarrow> bool" where
  "keeps ep ep' \<longleftrightarrow> same_fn ep ep' \<and> irq_allocated ep' = irq_allocated ep \<and> vec_num ep' = vec_num ep \<and>
     irq_vector ep' = irq_vector ep \<and> length (ep_int_done ep') = length (ep_int_done ep) \<and>
     (\<forall>wr. length (bare_chs wr ep') = length (bare_chs wr ep))"

lemma keeps_refl [simp]: "keeps ep ep" "same_fn ep ep"
  by (simp_all add: keeps_def same_fn_def)

lemma same_fn_trans: "same_fn a b \<Longrightarrow> same_fn b c \<Longrightarrow> same_fn a c"
  by (simp add: same_fn_def)

lemma keeps_trans: "keeps a b \<Longrightarrow> keeps b c \<Longrightarrow> keeps a c"
  by (auto simp: keeps_def same_fn_def)

lemma keeps_inv:
  assumes "keeps ep ep'" "irq_inv ep"
  shows "irq_inv ep'"
proof -
  have "length (rd_ch (ep_bare ep')) = length (rd_ch (ep_bare ep))" "length (wr_ch (ep_bare ep')) = length (wr_ch (ep_bare ep))"
    using assms(1) unfolding keeps_def bare_chs_def by (metis (full_types))+
  moreover have "installed ep' = installed ep" using assms(1) by (simp add: keeps_def installed_def)
  ultimately show ?thesis using assms by (simp add: irq_inv_def ep_wf_def keeps_def)
qed

lemma keeps_set_chs: "length chs = length (bare_chs wr ep) \<Longrightarrow> keeps ep (set_chs wr chs ep)"
  by (simp add: keeps_def same_fn_def set_chs_def bare_chs_def)

lemma keeps_int_done: "keeps ep (ep\<lparr>ep_int_done := (ep_int_done ep)[i := n]\<rparr>)"
  by (simp add: keeps_def same_fn_def bare_chs_def)

lemma keeps_dmabare: "keeps ep (ep\<lparr>isr_dmabare := b\<rparr>)"
  by (simp add: keeps_def same_fn_def bare_chs_def)

lemma keeps_complete: "complete_int n ep = Some ep' \<Longrightarrow> keeps ep ep'"
  by (auto simp: complete_int_def keeps_int_done split: if_splits)

section \<open>Interrupts\<close>

lemma keeps_serve: "keeps ep (result_of (serve_ch hw wr i ep) t)"
  by (simp add: serve_ch_def run_steps keeps_set_chs)

lemma keeps_scan: "keeps ep (result_of (chan_scan hw wr sts is ep) t)"
proof (induction hw wr sts "is" ep arbitrary: t rule: chan_scan.induct)
  case (2 hw wr sts i "is" ep)
  show ?case using "2.IH" keeps_serve keeps_trans by (simp only: chan_scan.simps run_steps keeps_refl split: if_split) blast
qed (simp add: run_steps)

lemma keeps_dma_isr: "keeps ep (result_of (emu_dma_isr hw ep) t)"
proof -
  have "keeps ep (result_of (emu_dma_isr_pf hw ep) t)"
    by (simp add: emu_dma_isr_pf_def run_steps keeps_scan split: if_split)
  moreover have "keeps ep (result_of (emu_dma_isr_vf hw ep) t)"
    using keeps_serve keeps_trans unfolding emu_dma_isr_vf_def by (simp only: run_steps keeps_refl split: if_split) blast
  ultimately show ?thesis by (simp add: emu_dma_isr_def)
qed

text \<open>In test mode a handler counts the completion of its number, which must be that of a source; in the mode of normal operation it counts none.\<close>

definition served_ok :: "emu_pcie \<Rightarrow> emu_pcie option \<Rightarrow> bool" where
  "served_ok ep r \<longleftrightarrow> (\<exists>ep'. r = Some ep' \<and> keeps ep ep')"

lemma served_some: "served_ok ep (Some ep') = keeps ep ep'"
  by (simp add: served_ok_def)

lemma served_complete: "0 \<le> n \<Longrightarrow> n < 32 \<Longrightarrow> served_ok ep (complete_int n ep)"
  by (simp add: served_ok_def complete_int_def QY_INT_SRC_MAX_NUM_def keeps_int_done)

lemma th_some:
  assumes "0 \<le> n" "n < 32"
  shows "served_ok ep (result_of (pcie_apu_th hw n ep) t)"
    "served_ok ep (result_of (pcie_vgpu_th hw n ep) t)"
    "served_ok ep (result_of (pcie_gpu_th hw n ep) t)"
proof -
  note c = served_complete[OF assms]
  show "served_ok ep (result_of (pcie_apu_th hw n ep) t)"
    unfolding pcie_apu_th_def Let_def by (simp only: run_steps served_some c keeps_refl if_True if_False split: if_split) simp
  show "served_ok ep (result_of (pcie_vgpu_th hw n ep) t)"
    unfolding pcie_vgpu_th_def Let_def by (simp only: run_steps served_some c keeps_refl keeps_dma_isr split: if_split) simp
  obtain e1 where e: "complete_int n ep = Some e1" "keeps ep e1" using c[of ep] by (auto simp: served_ok_def)
  show "served_ok ep (result_of (pcie_gpu_th hw n ep) t)"
    unfolding pcie_gpu_th_def gpu_work_part_def gpu_unmask_def
    by (simp only: run_steps e option.case served_some keeps_refl keeps_dma_isr split: if_split) (simp add: e)
qed

lemma th_normal:
  assumes "irq_test_mode ep = 0"
  shows "served_ok ep (result_of (pcie_apu_th hw n ep) t)"
    "served_ok ep (result_of (pcie_vgpu_th hw n ep) t)"
    "served_ok ep (result_of (pcie_gpu_th hw n ep) t)"
proof -
  show "served_ok ep (result_of (pcie_apu_th hw n ep) t)" using assms by (simp add: pcie_apu_th_def run_steps served_some)
  show "served_ok ep (result_of (pcie_vgpu_th hw n ep) t)"
    unfolding pcie_vgpu_th_def assms by (simp only: run_steps served_some keeps_refl keeps_dma_isr split: if_split) simp
  show "served_ok ep (result_of (pcie_gpu_th hw n ep) t)"
    unfolding pcie_gpu_th_def gpu_work_part_def gpu_unmask_def assms
    by (simp only: run_steps served_some keeps_refl keeps_dma_isr split: if_split) simp
qed

text \<open>Whatever the number, a handler that returns keeps the vectors and the arrays.\<close>

definition serves :: "emu_pcie \<Rightarrow> emu_pcie option \<Rightarrow> bool" where
  "serves ep r \<longleftrightarrow> (\<forall>ep'. r = Some ep' \<longrightarrow> keeps ep ep')"

lemma serves_some: "serves ep (Some ep') = keeps ep ep'"
  by (simp add: serves_def)

lemma pcie_th_keeps:
  assumes "result_of (pcie_th hw nr ep) t = Some ep'"
  shows "keeps ep ep'"
proof -
  let ?n = "nr - irq_vector ep"
  have c: "serves ep (complete_int ?n ep)" using keeps_complete by (simp add: serves_def)
  have a: "serves ep (result_of (pcie_apu_th hw ?n ep) t)"
    unfolding pcie_apu_th_def Let_def by (simp only: run_steps serves_some c keeps_refl if_True if_False split: if_split) simp
  have v: "serves ep (result_of (pcie_vgpu_th hw ?n ep) t)"
    unfolding pcie_vgpu_th_def Let_def by (simp only: run_steps serves_some c keeps_refl keeps_dma_isr split: if_split) simp
  have g: "serves ep (result_of (pcie_gpu_th hw ?n ep) t)"
  proof (cases "complete_int ?n ep")
    case None
    show ?thesis
      unfolding pcie_gpu_th_def gpu_work_part_def gpu_unmask_def
      by (simp only: run_steps None option.case serves_some keeps_refl keeps_dma_isr split: if_split) (simp add: serves_def run_steps)
  next
    case (Some e1)
    then have e: "keeps ep e1" by (rule keeps_complete)
    show ?thesis
      unfolding pcie_gpu_th_def gpu_work_part_def gpu_unmask_def
      by (simp only: run_steps Some option.case serves_some keeps_refl keeps_dma_isr split: if_split) (simp add: e)
  qed
  have "serves ep (result_of (pcie_th hw nr ep) t)" using a v g by (simp add: pcie_th_def Let_def run_steps serves_some)
  then show ?thesis using assms by (simp add: serves_def)
qed

definition known_type :: "emu_pcie \<Rightarrow> bool" where
  "known_type ep \<longleftrightarrow> ep_type ep \<in> {MT_EMU_TYPE_APU, MT_EMU_TYPE_GPU, MT_EMU_TYPE_VGPU}"

lemma pcie_th_some:
  assumes "irq_test_mode ep = 0 \<or> 0 \<le> nr - irq_vector ep \<and> nr - irq_vector ep < 32 \<or> \<not> known_type ep"
  shows "served_ok ep (result_of (pcie_th hw nr ep) t)"
  using assms th_some[of "nr - irq_vector ep" ep hw t] th_normal[of ep hw "nr - irq_vector ep" t]
  by (auto simp: pcie_th_def Let_def run_steps served_some known_type_def)

text \<open>In test mode a number that is none of a source makes the handler leave the array: when all registers read as 1, for one.\<close>

lemma pcie_th_leaves:
  assumes "irq_test_mode ep \<noteq> 0" "nr - irq_vector ep < 0 \<or> 32 \<le> nr - irq_vector ep" "known_type ep"
  shows "result_of (pcie_th (\<lambda>t a. 1) nr ep) t = None"
proof -
  have c: "complete_int (nr - irq_vector ep) ep = None" using assms(2) by (auto simp: complete_int_def QY_INT_SRC_MAX_NUM_def)
  have a: "result_of (pcie_apu_th (\<lambda>t a. 1) (nr - irq_vector ep) ep) t = None"
    using assms(1) by (simp add: pcie_apu_th_def mmio_simps c)
  have v: "result_of (pcie_vgpu_th (\<lambda>t a. 1) (nr - irq_vector ep) ep) t = None"
    using assms(1) by (simp add: pcie_vgpu_th_def mmio_simps c)
  have g: "result_of (pcie_gpu_th (\<lambda>t a. 1) (nr - irq_vector ep) ep) t = None"
    using assms(1) by (simp add: pcie_gpu_th_def gpu_test_part_def mmio_simps c)
  show ?thesis using assms(3) a v g by (auto simp: pcie_th_def Let_def known_type_def)
qed

section \<open>System calls\<close>

text \<open>Identity and invariant are kept; the vectors may change.\<close>

definition safe_change :: "emu_pcie \<Rightarrow> emu_pcie \<Rightarrow> bool" where
  "safe_change ep ep' \<longleftrightarrow> same_fn ep ep' \<and> (irq_inv ep \<longrightarrow> irq_inv ep')"

lemma safe_keeps: "keeps ep ep' \<Longrightarrow> safe_change ep ep'"
  by (simp add: safe_change_def keeps_inv) (simp add: keeps_def)

lemma keeps_wait_int: "keeps ep (snd (wait_int n idx ep))"
  by (simp add: wait_int_def Let_def keeps_int_done)

lemma fst_wait_int: "keeps ep (snd (fst (run_state (ioctl_wait_int k bar sz p ep) l)))"
  using keeps_wait_int by (simp add: ioctl_wait_int_def mmio_simps)

lemma fst_ipc: "keeps ep (snd (fst (run_state (ioctl_ipc k bar sz p ep) l)))"
  using keeps_wait_int keeps_int_done keeps_trans
  by (simp add: ioctl_ipc_def mmio_simps) blast

lemma same_free_irqs: "same_fn ep (fst (free_irqs is ep))"
  by (induction "is" ep rule: free_irqs.induct) (auto simp: Let_def same_fn_def)

lemma same_request_irqs: "same_fn ep (fst (snd (request_irqs env is ep)))"
  by (induction env "is" ep rule: request_irqs.induct) (auto simp: Let_def same_fn_def)

lemma same_irq_init: "same_fn ep (fst (snd (result_of (irq_init env ep ty tm) t)))"
proof -
  have q: "same_fn ep (fst (qy_free_irq ep))" using same_free_irqs[of ep] by (simp add: qy_free_irq_def Let_def same_fn_def)
  have r: "same_fn ep (fst (snd (request_irqs env is (ep\<lparr>irq_test_mode := a, irq_type := b, vec_num := c, irq_vector := d\<rparr>))))" for ep "is" a b c d
    using same_request_irqs[of "ep\<lparr>irq_test_mode := a, irq_type := b, vec_num := c, irq_vector := d\<rparr>" env "is"] by (simp add: same_fn_def)
  show ?thesis using q same_fn_trans[OF q r]
    unfolding irq_init_def Let_def by (simp only: run_steps fst_conv snd_conv split: if_split) (simp add: same_fn_def)
qed

lemma safe_irq_init:
  assumes "alloc_ok (k_irq k)"
  shows "safe_change ep (snd (fst (run_state (ioctl_irq_init k p ep) l)))"
proof -
  obtain r ep' log where i: "result_of (irq_init (k_irq k) ep (uint (p_b0 p)) (uint (p_b1 p))) (accs (l @ [Kc (Lock IoMutex)])) = (r, ep', log)"
    by (metis prod_cases3)
  have "snd (fst (run_state (ioctl_irq_init k p ep) l)) = ep'"
    using i by (simp add: ioctl_irq_init_def lift_io_def Let_def mmio_simps del: accs_append)
  moreover have "same_fn ep ep'" using same_irq_init[of ep "k_irq k" "uint (p_b0 p)" "uint (p_b1 p)" "accs (l @ [Kc (Lock IoMutex)])"] i by simp
  moreover have "irq_inv ep \<Longrightarrow> irq_inv ep'" using irq_init_spec[OF _ assms i] by blast
  ultimately show ?thesis by (simp add: safe_change_def)
qed

lemma fst_bare_rw: "fst (run_state (ioctl_bare_rw k sz p ep) l) = Some (ret, ep') \<Longrightarrow> keeps ep ep'"
  by (auto simp: ioctl_bare_rw_def Let_def mmio_simps keeps_set_chs split: if_splits option.splits)

lemma safe_ioctl:
  assumes "alloc_ok (k_irq k)" "fst (run_state (mt_test_ioctl k cmd arg p dv) l) = Some (ret, dv')"
  shows "safe_change (d_ep dv) (d_ep dv')"
proof (cases "param_fails k")
  case True
  then show ?thesis using assms(2) by (simp add: mt_test_ioctl_def mmio_simps safe_keeps)
next
  case False
  then show ?thesis using assms(2) fst_bare_rw[of k _ p "d_ep dv" "l @ [Kc CopyParamIn]"] safe_irq_init[OF assms(1), of "d_ep dv" p "l @ [Kc CopyParamIn]"]
    fst_wait_int[of "d_ep dv" k _ _ p "l @ [Kc CopyParamIn]"] fst_ipc[of "d_ep dv" k _ _ p "l @ [Kc CopyParamIn]"]
    by (cases cmd) (auto simp: mt_test_ioctl_def Let_def with_ep_def with_ret_def run_state_bind run_kc run_state_return split_beta
      safe_keeps keeps_dmabare)
qed

text \<open>\<open>irq_init\<close> leaves no handler, or notes the number of the first vector.\<close>

lemma vector_request_irqs: "irq_vector (fst (snd (request_irqs env is ep))) = irq_vector ep"
  by (induction env "is" ep rule: request_irqs.induct) (auto simp: Let_def)

lemma irq_init_vector:
  assumes "irq_inv ep" "result_of (irq_init env ep ty tm) t = (r, ep', log)"
  shows "installed ep' = {} \<or> irq_vector ep' = pci_irq_vector env 0"
proof -
  obtain ep1 log1 where f: "qy_free_irq ep = (ep1, log1)" by fastforce
  have n: "installed ep1 = {}" using qy_free_irq_spec[OF assms(1) f] by (simp add: irq_abs_def)
  have v: "irq_vector (fst (snd (request_irqs env is (x\<lparr>irq_vector := pci_irq_vector env 0\<rparr>)))) = pci_irq_vector env 0" for "is" x
    by (simp add: vector_request_irqs)
  define r2 where "r2 = (\<lambda>is x. request_irqs env is (x\<lparr>irq_vector := pci_irq_vector env 0\<rparr>))"
  have "installed (fst (snd (result_of (irq_init env ep ty tm) t))) = {} \<or>
      irq_vector (fst (snd (result_of (irq_init env ep ty tm) t))) = pci_irq_vector env 0"
    unfolding irq_init_def f Let_def r2_def[symmetric]
    by (simp only: run_steps fst_conv snd_conv n split: if_split) (simp add: r2_def vector_request_irqs)
  then show ?thesis using assms(2) by simp
qed

section \<open>Calls that return\<close>

text \<open>The calls that leave no array: transfers of whole words, not a read of configuration space, and every command but the two DMA transfers, of which
  theories \<open>MtdmaBareProps\<close> and \<open>DmaTestProps\<close> treat.\<close>

fun tame_call :: "ioctl_cmd \<Rightarrow> mt_emu_param \<Rightarrow> bool" where
  "tame_call MT_IOCTL_BAR_RW p \<longleftrightarrow> unat (p_d0 p) mod 4 = 0"
| "tame_call MT_IOCTL_CFG_RW p \<longleftrightarrow> unat (p_d0 p) mod 4 = 0 \<and> p_b1 p \<noteq> BAR_RD"
| "tame_call MT_IOCTL_MTDMA_BARE_RW p \<longleftrightarrow> False"
| "tame_call MT_IOCTL_MTDMA_RW p \<longleftrightarrow> False"
| "tame_call c p \<longleftrightarrow> True"

lemma tame_returns:
  assumes "tame_call cmd p"
  shows "fst (run_state (mt_test_ioctl k cmd arg p dv) l) \<noteq> None"
proof (cases "param_fails k")
  case True
  then show ?thesis by (simp add: mt_test_ioctl_def run_state_bind run_state_return split_beta)
next
  case False
  note rb = rw_buffer_words[of "p_d0 p"]
  show ?thesis using assms False rb
    by (cases cmd)
      (auto simp: mt_test_ioctl_def Let_def with_ep_def with_ret_def run_state_bind run_state_return split_beta ioctl_bar_rw_def ioctl_cfg_rw_def
        split: option.split sum.split)
qed

section \<open>Reachable states\<close>

text \<open>The number the handlers subtract is that of the first vector.\<close>

definition sys_inv :: "sys_state \<Rightarrow> bool" where
  "sys_inv s \<longleftrightarrow> irq_inv (d_ep (s_dev s)) \<and> (installed (d_ep (s_dev s)) \<noteq> {} \<longrightarrow> irq_vector (d_ep (s_dev s)) = s_nums s 0)"

lemma keeps_vector: "keeps ep ep' \<Longrightarrow> installed ep' = installed ep \<and> irq_vector ep' = irq_vector ep"
  by (simp add: keeps_def installed_def)

lemma call_vector:
  assumes "irq_inv (d_ep dv)" "fst (run_state (mt_test_ioctl k cmd arg p dv) l) = Some (ret, dv')"
  shows "(if cmd = MT_IOCTL_IRQ_INIT \<and> \<not> param_fails k then installed (d_ep dv') = {} \<or> irq_vector (d_ep dv') = pci_irq_vector (k_irq k) 0
    else keeps (d_ep dv) (d_ep dv'))"
proof (cases "param_fails k")
  case True
  then show ?thesis using assms(2) by (simp add: mt_test_ioctl_def mmio_simps)
next
  case False
  show ?thesis
  proof (cases "cmd = MT_IOCTL_IRQ_INIT")
    case True
    obtain r ep' log where i: "result_of (irq_init (k_irq k) (d_ep dv) (uint (p_b0 p)) (uint (p_b1 p))) (accs (l @ [Kc CopyParamIn, Kc (Lock IoMutex)])) = (r, ep', log)"
      by (metis prod_cases3)
    have "d_ep dv' = ep'" using i assms(2) False True
      by (auto simp: mt_test_ioctl_def with_ep_def ioctl_irq_init_def lift_io_def Let_def mmio_simps simp del: accs_append)
    then show ?thesis using irq_init_vector[OF assms(1) i] True False by simp
  next
    case other: False
    then show ?thesis using assms(2) False fst_bare_rw[of k _ p "d_ep dv" "l @ [Kc CopyParamIn]"]
      fst_wait_int[of "d_ep dv" k _ _ p "l @ [Kc CopyParamIn]"] fst_ipc[of "d_ep dv" k _ _ p "l @ [Kc CopyParamIn]"]
      by (cases cmd) (auto simp: mt_test_ioctl_def Let_def with_ep_def with_ret_def run_state_bind run_kc run_state_return split_beta keeps_dmabare)
  qed
qed

lemma safe_step: "sys_step s e s' \<Longrightarrow> sys_inv s \<Longrightarrow> sys_inv s' \<and> same_fn (d_ep (s_dev s)) (d_ep (s_dev s'))"
proof (induction rule: sys_step.induct)
  case (call k cmd arg p s l ret dv')
  have i: "irq_inv (d_ep (s_dev s))" using call.prems by (simp add: sys_inv_def)
  have c: "safe_change (d_ep (s_dev s)) (d_ep dv')" using call.hyps by (rule safe_ioctl)
  note v = call_vector[OF i call.hyps(2)]
  show ?case using c v call.prems keeps_vector[of "d_ep (s_dev s)" "d_ep dv'"]
    by (auto simp: safe_change_def sys_inv_def nums_after_def split: if_splits)
next
  case (irq i s hw t ep')
  have n: "irq_vector (d_ep (s_dev s)) = s_nums s 0" using irq.prems irq.hyps(1) by (auto simp: sys_inv_def)
  have k: "keeps (d_ep (s_dev s)) ep'"
    using irq.hyps(2) pcie_th_keeps by blast
  then show ?case using irq.prems n keeps_inv[OF k] keeps_vector[OF k] by (auto simp: sys_inv_def keeps_def)
qed

lemma sys_reach_inv: "sys_reach s0 s \<Longrightarrow> sys_inv s0 \<Longrightarrow> sys_inv s \<and> same_fn (d_ep (s_dev s0)) (d_ep (s_dev s))"
proof (induction rule: sys_reach.induct)
  case (step s e s')
  then show ?case using safe_step same_fn_trans by blast
qed simp

text \<open>C10. The state of a function stays well formed in every sequence of system calls and interrupts, in whatever order and with whatever arguments
  and answers of the kernel, which only never grants more vectors than are asked for: every array keeps its declared length, there are at most as many vectors as the array of
  installed handlers has entries, handlers are installed only on vectors that are
  allocated, and the type of the function, its number, its regions and the address of
  its registers never change.  In every such state the next call returns and leads to another such state, unless it is a transfer whose size is not a
  multiple of 4 or a read of configuration space, which leave their buffer, or one of the two DMA transfers.\<close>

theorem function_well_formed:
  assumes "sys_reach s0 s" "sys_inv s0"
  shows "(let ep = d_ep (s_dev s); ep0 = d_ep (s_dev s0) in ep_wf ep \<and> unat (vec_num ep) \<le> 32 \<and> installed ep \<subseteq> {..<unat (vec_num ep)} \<and>
      ep_type ep = ep_type ep0 \<and> devfn ep = devfn ep0 \<and> region ep = region ep0 \<and> mtdma_comm_vaddr ep = mtdma_comm_vaddr ep0) \<and>
    (alloc_ok (k_irq k) \<and> tame_call cmd p \<longrightarrow>
      (\<exists>ret dv'. fst (run_state (mt_test_ioctl k cmd arg p (s_dev s)) l) = Some (ret, dv') \<and>
        sys_reach s0 \<lparr>s_dev = dv', s_nums = nums_after k cmd (s_nums s)\<rparr>))"
proof -
  have "\<exists>ret dv'. fst (run_state (mt_test_ioctl k cmd arg p (s_dev s)) l) = Some (ret, dv') \<and>
      sys_reach s0 \<lparr>s_dev = dv', s_nums = nums_after k cmd (s_nums s)\<rparr>" if a: "alloc_ok (k_irq k)" and b: "tame_call cmd p"
  proof -
    obtain ret dv' where "fst (run_state (mt_test_ioctl k cmd arg p (s_dev s)) l) = Some (ret, dv')"
      using tame_returns[OF b, of k arg "s_dev s" l] by fastforce
    then show ?thesis using sys_reach.step[OF assms(1) sys_step.call[OF a]] by blast
  qed
  then show ?thesis using sys_reach_inv[OF assms] by (simp add: sys_inv_def irq_inv_def same_fn_def QY_GPU_VECTORS_def Let_def)
qed

text \<open>C11. In every reachable state, an interrupt on any vector that has a
  handler is served to the end by the handler of the function's type, whatever the registers
  read, and leaves the vectors and handlers as they were, exactly if the function is not in test mode or the number the kernel delivers it under is one of the 32 from that of the
  first vector on.  Numbers given one after the other, as for MSI, are; the driver relies on it: with others, in test mode, it counts a completion beyond
  its array.\<close>

theorem interrupts_are_served:
  assumes "sys_reach s0 s" "sys_inv s0" "i \<in> installed (d_ep (s_dev s))" "known_type (d_ep (s_dev s))" "n = s_nums s i - s_nums s 0"
  shows "(\<forall>hw t. \<exists>ep'. result_of (pcie_th hw (s_nums s i) (d_ep (s_dev s))) t = Some ep' \<and>
      sys_reach s0 (s\<lparr>s_dev := (s_dev s)\<lparr>d_ep := ep'\<rparr>\<rparr>) \<and> irq_abs ep' = irq_abs (d_ep (s_dev s))) \<longleftrightarrow>
    irq_test_mode (d_ep (s_dev s)) = 0 \<or> 0 \<le> n \<and> n < 32"
proof
  have v: "irq_vector (d_ep (s_dev s)) = s_nums s 0" using sys_reach_inv[OF assms(1,2)] assms(3) by (auto simp: sys_inv_def)
  {
    assume served: "\<forall>hw t. \<exists>ep'. result_of (pcie_th hw (s_nums s i) (d_ep (s_dev s))) t = Some ep' \<and>
      sys_reach s0 (s\<lparr>s_dev := (s_dev s)\<lparr>d_ep := ep'\<rparr>\<rparr>) \<and> irq_abs ep' = irq_abs (d_ep (s_dev s))"
    show "irq_test_mode (d_ep (s_dev s)) = 0 \<or> 0 \<le> n \<and> n < 32"
    proof (rule ccontr)
      assume "\<not> (irq_test_mode (d_ep (s_dev s)) = 0 \<or> 0 \<le> n \<and> n < 32)"
      then have "result_of (pcie_th (\<lambda>t a. 1) (s_nums s i) (d_ep (s_dev s))) [] = None"
        using assms(4,5) v by (intro pcie_th_leaves) auto
      then show False using spec[OF spec[OF served, of "\<lambda>t a. 1"], of "[]"] by simp
    qed
  next
    assume r: "irq_test_mode (d_ep (s_dev s)) = 0 \<or> 0 \<le> n \<and> n < 32"
    show "\<forall>hw t. \<exists>ep'. result_of (pcie_th hw (s_nums s i) (d_ep (s_dev s))) t = Some ep' \<and>
      sys_reach s0 (s\<lparr>s_dev := (s_dev s)\<lparr>d_ep := ep'\<rparr>\<rparr>) \<and> irq_abs ep' = irq_abs (d_ep (s_dev s))"
    proof (intro allI)
      fix hw t
      obtain ep' where e: "result_of (pcie_th hw (s_nums s i) (d_ep (s_dev s))) t = Some ep'" "keeps (d_ep (s_dev s)) ep'"
        using pcie_th_some[of "d_ep (s_dev s)" "s_nums s i" hw t] r v assms(5) by (auto simp: served_ok_def)
      have "sys_reach s0 (s\<lparr>s_dev := (s_dev s)\<lparr>d_ep := ep'\<rparr>\<rparr>)" using sys_reach.step[OF assms(1) sys_step.irq[OF assms(3) e(1)]] .
      then show "\<exists>ep'. result_of (pcie_th hw (s_nums s i) (d_ep (s_dev s))) t = Some ep' \<and>
          sys_reach s0 (s\<lparr>s_dev := (s_dev s)\<lparr>d_ep := ep'\<rparr>\<rparr>) \<and> irq_abs ep' = irq_abs (d_ep (s_dev s))"
        using e by (auto simp: keeps_def irq_abs_def installed_def)
    qed
  }
qed

section \<open>An example\<close>

text \<open>A function with a handler on one vector, in test mode, after one system call.\<close>

definition demo_sys :: sys_state where
  "demo_sys = \<lparr>s_dev = \<lparr>d_ep = demo_fn\<lparr>vec_num := 1, irq_allocated := True # replicate 31 False, irq_vector := 40, irq_test_mode := 1\<rparr>,
     d_em = \<lparr>em_md = None, sem_rd = [], sem_wr = [], done_rd = [], done_wr = []\<rparr>\<rparr>, s_nums = (\<lambda>i. 40 + 100 * int i)\<rparr>"

definition demo_sys' :: sys_state where
  "demo_sys' = \<lparr>s_dev = (s_dev demo_sys)\<lparr>d_ep := (d_ep (s_dev demo_sys))\<lparr>isr_dmabare := True\<rparr>\<rparr>, s_nums = s_nums demo_sys\<rparr>"

lemma demo_installed: "installed (d_ep (s_dev demo_sys)) = {0}"
proof -
  have "(True # replicate 31 False) ! i \<longleftrightarrow> i = 0" if "i < 32" for i
    using that by (cases i) simp_all
  then show ?thesis by (auto simp: installed_def demo_sys_def)
qed

lemma demo_sys_inv: "sys_inv demo_sys"
  using demo_fn_wf(1) demo_installed by (simp add: sys_inv_def irq_inv_def ep_wf_def QY_GPU_VECTORS_def) (simp add: demo_sys_def)

lemma demo_sys_reach: "sys_reach demo_sys demo_sys'"
proof -
  let ?k = "demo_k\<lparr>k_irq := demo_env, param_fails := False\<rparr>"
  let ?p = "\<lparr>p_b0 = 1, p_b1 = 0, p_b2 = 0, p_b3 = 0, p_w0 = 0, p_w1 = 0, p_d0 = 0, p_d1 = 0, p_l0 = 0, p_l1 = 0\<rparr>"
  have a: "alloc_ok (k_irq ?k)" by (simp add: alloc_ok_def demo_env_def)
  have "fst (run_state (mt_test_ioctl ?k MT_IOCTL_DMAISR_SET 0 ?p (s_dev demo_sys)) []) = Some (0, s_dev demo_sys')"
    by (simp add: mt_test_ioctl_def Let_def run_state_bind run_state_return run_kc demo_sys'_def)
  from sys_reach.step[OF sys_reach.start sys_step.call[OF a this]] show ?thesis
    by (simp add: nums_after_def demo_sys'_def)
qed

theorem function_well_formed_witness:
  "ep_wf (d_ep (s_dev demo_sys')) \<and> (\<exists>ret dv'. fst (run_state (mt_test_ioctl demo_k MT_IOCTL_BAR_RW 0 demo_p (s_dev demo_sys')) []) = Some (ret, dv'))"
proof -
  have "alloc_ok (k_irq demo_k)" "tame_call MT_IOCTL_BAR_RW demo_p" by (simp_all add: alloc_ok_def demo_env_def demo_k_def demo_p_def)
  then show ?thesis using function_well_formed[OF demo_sys_reach demo_sys_inv, of demo_k MT_IOCTL_BAR_RW demo_p 0 "[]"] by (auto simp: Let_def)
qed

theorem interrupts_are_served_witness:
  "\<exists>ep'. result_of (pcie_th (\<lambda>t a. 0xffffffff) 40 (d_ep (s_dev demo_sys'))) [] = Some ep'"
proof -
  have i: "0 \<in> installed (d_ep (s_dev demo_sys'))" using demo_installed by (simp add: demo_sys'_def installed_def)
  have k: "known_type (d_ep (s_dev demo_sys'))" by (simp add: known_type_def demo_sys'_def demo_sys_def demo_fn_def demo_pcie_def)
  from interrupts_are_served[OF demo_sys_reach demo_sys_inv i k refl]
  have "\<exists>ep'. result_of (pcie_th (\<lambda>t a. 0xffffffff) (s_nums demo_sys' 0) (d_ep (s_dev demo_sys'))) [] = Some ep'" by auto
  then show ?thesis by (simp add: demo_sys'_def demo_sys_def)
qed

end
