(* ===== verification/Intr.thy ===== *)
theory Intr
  imports Pcie
begin

text \<open>
  The interrupt distributors and controllers of the chip, from
  \<open>src/driver/mt-emu-intr.c\<close> (routing the sources of the two dies to the host),
  \<open>src/driver/qy_intd.h\<close> (the interrupt distributor) and \<open>src/driver/qy_plic.h\<close> (the
  platform-level interrupt controller), as register programs.
\<close>

section \<open>Routing to the host\<close>

definition PH_BD_INTD_CFG_BASE :: u64 where "PH_BD_INTD_CFG_BASE = 0xc00000 - 0x4000"
definition PH_BD_INTGRP_MUX_BASE :: u64 where "PH_BD_INTGRP_MUX_BASE = PH_BD_INTD_CFG_BASE + 0x1000"
definition PH_CD_INTD_CFG_BASE :: u64 where "PH_CD_INTD_CFG_BASE = PH_BD_INTD_CFG_BASE + 0x2000"
definition PH_CD_INTGRP_MUX_BASE :: u64 where "PH_CD_INTGRP_MUX_BASE = PH_BD_INTD_CFG_BASE + 0x3000"

definition PH_REG_INTD_SPIC :: "u32 \<Rightarrow> u64" where "PH_REG_INTD_SPIC i = ucast (0x800 + i * 4)"
definition PH_BD_REG_INTMUX_SRCGRP_EN :: "u64 \<Rightarrow> u64" where "PH_BD_REG_INTMUX_SRCGRP_EN i = PH_BD_INTGRP_MUX_BASE + 0x10 + i * 4"
definition PH_CD_REG_INTMUX_SRCGRP_EN :: "u64 \<Rightarrow> u64" where "PH_CD_REG_INTMUX_SRCGRP_EN i = PH_CD_INTGRP_MUX_BASE + 0x10 + i * 4"
definition PH_BD_REG_INTMUX_SRC_MUX :: "u64 \<Rightarrow> u64" where "PH_BD_REG_INTMUX_SRC_MUX i = PH_BD_INTGRP_MUX_BASE + 0x200 + i * 4"
definition PH_CD_REG_INTMUX_SRC_MUX :: "u64 \<Rightarrow> u64" where "PH_CD_REG_INTMUX_SRC_MUX i = PH_CD_INTGRP_MUX_BASE + 0x200 + i * 4"

definition SMC :: nat where "SMC = 1"
definition HOST :: nat where "HOST = 4"

definition host_bd_int_table :: "u32 list" where
  "host_bd_int_table = 0xffff # map of_nat [0..<251] @ replicate 4 0xffff"

definition host_cd_int_table :: "u32 list" where
  "host_cd_int_table = replicate 6 0xffff @ map of_nat [0..<79] @ replicate 15 0xffff"

text \<open>The entry is compared as an unsigned short.  An index beyond the table is \<open>None\<close>.\<close>

definition set_spi :: "emu_pcie \<Rightarrow> u32 list \<Rightarrow> u64 \<Rightarrow> u32 \<Rightarrow> nat \<Rightarrow> unit io option" where
  "set_spi ep table base v int_no =
    (if length table \<le> int_no then None
     else if ucast (table ! int_no) \<noteq> (0xffff :: u16)
     then Some (sreg_u32 ep (base + PH_REG_INTD_SPIC (table ! int_no)) v)
     else Some (State_Monad.return ()))"

definition pcie_bd_set_spi :: "emu_pcie \<Rightarrow> nat \<Rightarrow> unit io option" where
  "pcie_bd_set_spi ep int_no =
    set_spi ep host_bd_int_table PH_BD_INTD_CFG_BASE (push_bit 16 (push_bit HOST 1) OR push_bit 8 (push_bit HOST 1) OR 1) int_no"

definition pcie_cd_set_spi :: "emu_pcie \<Rightarrow> nat \<Rightarrow> unit io option" where
  "pcie_cd_set_spi ep int_no =
    set_spi ep host_cd_int_table PH_CD_INTD_CFG_BASE (push_bit 16 (push_bit HOST 1) OR push_bit 8 2 OR 1) int_no"

definition set_bd_intmux_grp_en :: "emu_pcie \<Rightarrow> u32 \<Rightarrow> unit io" where
  "set_bd_intmux_grp_en ep wdata = sreg_u32 ep (PH_BD_REG_INTMUX_SRCGRP_EN 0) wdata"

definition set_bd_intmux_mux_en :: "emu_pcie \<Rightarrow> u32 \<Rightarrow> u32 \<Rightarrow> unit io" where
  "set_bd_intmux_mux_en ep reg_idx wdata = sreg_u32 ep (PH_BD_REG_INTMUX_SRC_MUX (ucast reg_idx)) wdata"

definition set_cd_intmux_grp_en :: "emu_pcie \<Rightarrow> u32 \<Rightarrow> unit io" where
  "set_cd_intmux_grp_en ep wdata = sreg_u32 ep (PH_CD_REG_INTMUX_SRCGRP_EN 0) wdata"

definition set_cd_intmux_mux_en :: "emu_pcie \<Rightarrow> u32 \<Rightarrow> u32 \<Rightarrow> unit io" where
  "set_cd_intmux_mux_en ep reg_idx wdata = sreg_u32 ep (PH_CD_REG_INTMUX_SRC_MUX (ucast reg_idx)) wdata"

text \<open>A sequence of calls, any of which may leave its table.\<close>

fun calls :: "unit io option list \<Rightarrow> unit io option" where
  "calls [] = Some (State_Monad.return ())"
| "calls (c # cs) =
    (case c of
       None \<Rightarrow> None
     | Some m \<Rightarrow> map_option (\<lambda>n. State_Monad.bind m (\<lambda>_. n)) (calls cs))"

definition pcie_bd_intr_init :: "emu_pcie \<Rightarrow> unit io option" where
  "pcie_bd_intr_init ep = calls (map (pcie_bd_set_spi ep) ([12..<20] @ [48..<57] @ [69..<85]))"

definition pcie_cd_intr_init :: "emu_pcie \<Rightarrow> unit io option" where
  "pcie_cd_intr_init ep = calls (map (pcie_cd_set_spi ep) ([12..<20] @ [48..<57] @ [69..<85]))"

definition pcie_intr_init :: "emu_pcie \<Rightarrow> unit io option" where
  "pcie_intr_init ep = calls [pcie_bd_intr_init ep, pcie_cd_intr_init ep]"

section \<open>The interrupt distributor\<close>

definition REG_BASE :: u64 where "REG_BASE = 0"
definition INTD_CFG_BASE :: u64 where "INTD_CFG_BASE = REG_BASE + 0x97000"
definition REG_INTD_CTRL :: u64 where "REG_INTD_CTRL = INTD_CFG_BASE + 0x000"
definition REG_INTD_SGIRAW :: u64 where "REG_INTD_SGIRAW = INTD_CFG_BASE + 0x040"
definition REG_INTD_SPIRAW :: "int \<Rightarrow> u64" where "REG_INTD_SPIRAW i = INTD_CFG_BASE + 0x050 + of_int i * 4"
definition REG_INTD_TST :: "int \<Rightarrow> int \<Rightarrow> u64" where "REG_INTD_TST i j = INTD_CFG_BASE + 0x070 + of_int i * 0x20 + of_int j * 4"
definition REG_INTD_ERRIN :: "int \<Rightarrow> u64" where "REG_INTD_ERRIN i = INTD_CFG_BASE + 0x0F0 + of_int i * 4"
definition REG_INTD_ERRC :: u64 where "REG_INTD_ERRC = INTD_CFG_BASE + 0x1FC"
definition REG_INTD_SGIC :: "int \<Rightarrow> u64" where "REG_INTD_SGIC i = INTD_CFG_BASE + 0x200 + of_int i * 4"
definition REG_INTD_SPIC :: "int \<Rightarrow> u64" where "REG_INTD_SPIC i = INTD_CFG_BASE + 0x220 + of_int i * 4"

definition INTD_PLC :: "nat \<Rightarrow> u8" where "INTD_PLC x = push_bit x 1"
definition INTD_PLC_PCIE :: u8 where "INTD_PLC_PCIE = INTD_PLC 2"

definition intd_ctrl :: "ioaddr \<Rightarrow> u32 \<Rightarrow> unit io" where
  "intd_ctrl base glb_enable = writel glb_enable (io_off base REG_INTD_CTRL)"

definition intd_rd_sgi_sts :: "hardware \<Rightarrow> ioaddr \<Rightarrow> u32 io" where
  "intd_rd_sgi_sts hw base = readl hw (io_off base REG_INTD_SGIRAW)"

definition intd_rd_spi_sts :: "hardware \<Rightarrow> ioaddr \<Rightarrow> int \<Rightarrow> u32 io" where
  "intd_rd_spi_sts hw base i = readl hw (io_off base (REG_INTD_SPIRAW i))"

definition intd_rd_target_sts :: "hardware \<Rightarrow> ioaddr \<Rightarrow> int \<Rightarrow> int \<Rightarrow> u32 io" where
  "intd_rd_target_sts hw base i j = readl hw (io_off base (REG_INTD_TST i j))"

definition intd_rd_error_sts :: "hardware \<Rightarrow> ioaddr \<Rightarrow> int \<Rightarrow> u32 io" where
  "intd_rd_error_sts hw base i = readl hw (io_off base (REG_INTD_ERRIN i))"

definition intd_rd_target_error_sts :: "hardware \<Rightarrow> ioaddr \<Rightarrow> u32 io" where
  "intd_rd_target_error_sts hw base = do { v \<leftarrow> readl hw (io_off base REG_INTD_ERRC); State_Monad.return (drop_bit 8 v) }"

definition intd_en_target_error :: "ioaddr \<Rightarrow> u8 \<Rightarrow> unit io" where
  "intd_en_target_error base targets = writel (ucast targets) (io_off base REG_INTD_ERRC)"

text \<open>The configuration word of a source: the shifts are those of the 32-bit value.\<close>

definition intd_word :: "u8 \<Rightarrow> u8 \<Rightarrow> u8 \<Rightarrow> u8 \<Rightarrow> u8 \<Rightarrow> u32" where
  "intd_word lock key_p key plc target =
    push_bit 31 (ucast lock) OR push_bit 30 (ucast key_p) OR push_bit 24 (ucast key) OR push_bit 16 (ucast plc) OR push_bit 8 (ucast target)"

definition intd_set_sgi :: "hardware \<Rightarrow> ioaddr \<Rightarrow> int \<Rightarrow> u8 \<Rightarrow> u8 \<Rightarrow> u8 \<Rightarrow> u8 \<Rightarrow> u8 \<Rightarrow> u8 \<Rightarrow> u8 \<Rightarrow> unit io" where
  "intd_set_sgi hw base i lock key_p key plc target event en = do {
     _ \<leftarrow> writel (intd_word lock key_p key plc target OR push_bit 1 (ucast event) OR ucast en) (io_off base (REG_INTD_SGIC i));
     _ \<leftarrow> readl hw (io_off base (REG_INTD_SGIC i));
     State_Monad.return () }"

definition intd_pcie_set_sgi_simple :: "hardware \<Rightarrow> ioaddr \<Rightarrow> int \<Rightarrow> u8 \<Rightarrow> u8 \<Rightarrow> unit io" where
  "intd_pcie_set_sgi_simple hw base i target en = intd_set_sgi hw base i 0 0 0 INTD_PLC_PCIE target 0 en"

definition intd_set_spi :: "ioaddr \<Rightarrow> int \<Rightarrow> u8 \<Rightarrow> u8 \<Rightarrow> u8 \<Rightarrow> u8 \<Rightarrow> u8 \<Rightarrow> u8 \<Rightarrow> unit io" where
  "intd_set_spi base i lock key_p key plc target en =
     writel (intd_word lock key_p key plc target OR ucast en) (io_off base (REG_INTD_SPIC i))"

definition intd_pcie_set_spi_simple :: "ioaddr \<Rightarrow> int \<Rightarrow> u8 \<Rightarrow> u8 \<Rightarrow> unit io" where
  "intd_pcie_set_spi_simple base i target en = intd_set_spi base i 0 0 0 INTD_PLC_PCIE target en"

section \<open>The platform-level interrupt controller\<close>

definition REG_BASE_PCIe_INTC :: u64 where "REG_BASE_PCIe_INTC = 0x400000"
definition PLIC_PRIORITY_OFFSET :: u64 where "PLIC_PRIORITY_OFFSET = 0"
definition PLIC_PENDING_OFFSET :: u64 where "PLIC_PENDING_OFFSET = 0x1000"
definition PLIC_ENABLE_OFFSET :: u64 where "PLIC_ENABLE_OFFSET = 0x2000"
definition PLIC_THRESHOLD_OFFSET :: u64 where "PLIC_THRESHOLD_OFFSET = 0x200000"
definition PLIC_CLAIM_OFFSET :: u64 where "PLIC_CLAIM_OFFSET = 0x200004"

text \<open>The word and the bit of a source; the enable words of a target.\<close>

definition word_off :: "u32 \<Rightarrow> u64" where "word_off source = ucast (push_bit 2 (drop_bit 5 source))"
definition bit_of :: "u32 \<Rightarrow> u32" where "bit_of source = push_bit (unat (source AND 0x1F)) 1"

definition enable_at :: "ioaddr \<Rightarrow> u32 \<Rightarrow> u32 \<Rightarrow> ioaddr" where
  "enable_at base source target =
     io_off base (REG_BASE_PCIe_INTC + PLIC_ENABLE_OFFSET + ucast (push_bit 7 target) + word_off source)"

definition plic_set_feature :: "ioaddr \<Rightarrow> u32 \<Rightarrow> unit io" where
  "plic_set_feature base feature = writel feature (io_off base REG_BASE_PCIe_INTC)"

definition plic_set_threshold :: "ioaddr \<Rightarrow> u32 \<Rightarrow> u32 \<Rightarrow> unit io" where
  "plic_set_threshold base threshold target =
     writel threshold (io_off base (REG_BASE_PCIe_INTC + PLIC_THRESHOLD_OFFSET + ucast (push_bit 12 target)))"

definition plic_set_priority :: "ioaddr \<Rightarrow> u32 \<Rightarrow> u32 \<Rightarrow> unit io" where
  "plic_set_priority base source priority =
     writel priority (io_off base (REG_BASE_PCIe_INTC + PLIC_PRIORITY_OFFSET + ucast (push_bit 2 source)))"

definition plic_set_pending :: "ioaddr \<Rightarrow> u32 \<Rightarrow> unit io" where
  "plic_set_pending base source =
     writel (bit_of source) (io_off base (REG_BASE_PCIe_INTC + PLIC_PENDING_OFFSET + word_off source))"

definition plic_enable_interrupt :: "hardware \<Rightarrow> ioaddr \<Rightarrow> u32 \<Rightarrow> u32 \<Rightarrow> unit io" where
  "plic_enable_interrupt hw base source target = do {
     v \<leftarrow> readl hw (enable_at base source target);
     writel (v OR bit_of source) (enable_at base source target) }"

definition plic_disable_interrupt :: "hardware \<Rightarrow> ioaddr \<Rightarrow> u32 \<Rightarrow> u32 \<Rightarrow> unit io" where
  "plic_disable_interrupt hw base source target = do {
     v \<leftarrow> readl hw (enable_at base source target);
     writel (v AND NOT (bit_of source)) (enable_at base source target) }"

definition plic_claim_interrupt :: "hardware \<Rightarrow> ioaddr \<Rightarrow> u32 \<Rightarrow> u32 io" where
  "plic_claim_interrupt hw base target =
     readl hw (io_off base (REG_BASE_PCIe_INTC + PLIC_CLAIM_OFFSET + ucast (push_bit 12 target)))"

definition plic_complete_interrupt :: "ioaddr \<Rightarrow> u32 \<Rightarrow> u32 \<Rightarrow> unit io" where
  "plic_complete_interrupt base source target =
     writel source (io_off base (REG_BASE_PCIe_INTC + PLIC_CLAIM_OFFSET + ucast (push_bit 12 target)))"

end
