(* ===== verification/IntrProps.thy ===== *)
theory IntrProps
  imports Intr
begin

text \<open>
  Properties of the interrupt distributors and of the platform-level controller: the registers
  that the routing programs, in order and each once, the fields of a source's configuration, and
  that enabling or disabling one source for one target leaves every other alone.
\<close>

section \<open>Routing to the host\<close>

text \<open>The sources that are routed.\<close>

definition routed :: "nat list" where
  "routed = [12..<20] @ [48..<57] @ [69..<85]"

lemma routed_range: "i \<in> set routed \<Longrightarrow> 12 \<le> i \<and> i < 85"
  by (auto simp: routed_def)

lemma calls_emits:
  assumes "\<And>i. i \<in> set is \<Longrightarrow> \<exists>m. f i = Some m \<and> emits m (g i)"
  shows "\<exists>m. calls (map f is) = Some m \<and> emits m (concat (map g is))"
  using assms
proof (induction "is")
  case Nil
  then show ?case by (simp add: emits_def mmio_simps)
next
  case (Cons i "is")
  obtain m where m: "f i = Some m" "emits m (g i)" using Cons.prems by auto
  obtain n where n: "calls (map f is) = Some n" "emits n (concat (map g is))" using Cons by auto
  have "emits (m \<bind> (\<lambda>_. n)) (g i @ concat (map g is))" using m(2) n(2) by (rule emits_bind)
  then show ?case using m(1) n(1) by simp
qed

lemma table_entry:
  "12 \<le> i \<Longrightarrow> i < 85 \<Longrightarrow> host_bd_int_table ! i = of_nat (i - 1)"
  "12 \<le> i \<Longrightarrow> i < 85 \<Longrightarrow> host_cd_int_table ! i = of_nat (i - 6)"
  "length host_bd_int_table = 256" "length host_cd_int_table = 100"
  by (auto simp: host_bd_int_table_def host_cd_int_table_def nth_append nth_Cons' simp del: upt_Suc)

lemma small_entry: "n < 100 \<Longrightarrow> ucast (of_nat n :: u32) \<noteq> (0xffff :: u16)"
proof -
  have "\<forall>n \<in> set [0..<100]. ucast (of_nat n :: u32) \<noteq> (0xffff :: u16)" by code_simp
  then show "n < 100 \<Longrightarrow> ?thesis" by simp
qed

definition bd_reg :: "emu_pcie \<Rightarrow> nat \<Rightarrow> ioaddr" where
  "bd_reg ep i = io_off (bar_addr ep 0) (0xbfc800 + 4 * of_nat (i - 1))"

definition cd_reg :: "emu_pcie \<Rightarrow> nat \<Rightarrow> ioaddr" where
  "cd_reg ep i = io_off (bar_addr ep 0) (0xbfe800 + 4 * of_nat (i - 6))"

lemma spic_of_nat: "n < 100 \<Longrightarrow> PH_REG_INTD_SPIC (of_nat n) = 0x800 + 4 * of_nat n"
proof -
  have "\<forall>n \<in> set [0..<100]. PH_REG_INTD_SPIC (of_nat n) = 0x800 + 4 * of_nat n" unfolding PH_REG_INTD_SPIC_def by code_simp
  then show "n < 100 \<Longrightarrow> ?thesis" by simp
qed

lemma bd_spi:
  assumes "i \<in> set routed"
  shows "\<exists>m. pcie_bd_set_spi ep i = Some m \<and> emits m [(bd_reg ep i, 0x101001)]"
proof -
  have r: "12 \<le> i" "i < 85" "i - 1 < 100" using routed_range[OF assms] by linarith+
  show ?thesis using r small_entry[OF r(3)] spic_of_nat[OF r(3)]
    by (auto simp: pcie_bd_set_spi_def set_spi_def table_entry HOST_def PH_BD_INTD_CFG_BASE_def bd_reg_def algebra_simps
        simp del: of_nat_diff intro!: emits_conv[OF emits_sreg])
qed

lemma cd_spi:
  assumes "i \<in> set routed"
  shows "\<exists>m. pcie_cd_set_spi ep i = Some m \<and> emits m [(cd_reg ep i, 0x100201)]"
proof -
  have r: "12 \<le> i" "i < 85" "i - 6 < 100" using routed_range[OF assms] by linarith+
  show ?thesis using r small_entry[OF r(3)] spic_of_nat[OF r(3)]
    by (auto simp: pcie_cd_set_spi_def set_spi_def table_entry HOST_def PH_CD_INTD_CFG_BASE_def PH_BD_INTD_CFG_BASE_def cd_reg_def algebra_simps
        simp del: of_nat_diff intro!: emits_conv[OF emits_sreg])
qed

lemma distinct_io_off: "distinct (map (io_off b) xs) = distinct xs"
  by (simp add: distinct_map inj_on_def io_off_def)

lemma unat_reg: "n < 100 \<Longrightarrow> b < 0x1000000 \<Longrightarrow> unat (of_nat b + 4 * of_nat n :: u64) = b + 4 * n"
  by (simp add: unat_word_ariths unat_of_nat take_bit_nat_eq_self)

lemma distinct_regs: "distinct (map (bd_reg ep) routed @ map (cd_reg ep) routed)"
proof -
  let ?b = "\<lambda>i. of_nat 0xbfc800 + 4 * of_nat (i - 1) :: u64"
  let ?c = "\<lambda>i. of_nat 0xbfe800 + 4 * of_nat (i - 6) :: u64"
  have "map unat (map ?b routed @ map ?c routed) = map (\<lambda>i. 0xbfc800 + 4 * (i - 1)) routed @ map (\<lambda>i. 0xbfe800 + 4 * (i - 6)) routed"
  proof -
    have "i - 1 < 100 \<and> i - 6 < 100" if "i \<in> set routed" for i using routed_range[OF that] by linarith
    then show ?thesis unfolding map_append list.map_comp comp_def using unat_reg by (auto simp del: of_nat_numeral of_nat_diff)
  qed
  moreover have "distinct (map (\<lambda>i. 0xbfc800 + 4 * (i - 1)) routed @ map (\<lambda>i. 0xbfe800 + 4 * (i - 6)) routed :: nat list)"
    by (simp add: routed_def)
  ultimately have "distinct (map unat (map ?b routed @ map ?c routed))" by (simp only:)
  then have "distinct (map ?b routed @ map ?c routed)" unfolding distinct_map by blast
  then have "distinct (map (io_off (bar_addr ep 0)) (map ?b routed @ map ?c routed))"
    unfolding distinct_io_off .
  moreover have "bd_reg ep = io_off (bar_addr ep 0) \<circ> ?b" "cd_reg ep = io_off (bar_addr ep 0) \<circ> ?c"
    by (simp_all add: fun_eq_iff bd_reg_def cd_reg_def)
  ultimately show ?thesis unfolding map_append list.map_comp by (simp only:)
qed

text \<open>The routing of interrupts programs exactly the registers of the routed sources, each once and in order: on the first
  die the register of source \<open>i\<close> is number \<open>i - 1\<close> of its distributor, on the second die
  number \<open>i - 6\<close>; the two distributors do not overlap and no table is left.\<close>

theorem intr_init_routes:
  "\<exists>m. pcie_intr_init ep = Some m \<and>
    emits m (map (\<lambda>i. (bd_reg ep i, 0x101001)) routed @ map (\<lambda>i. (cd_reg ep i, 0x100201)) routed) \<and>
    distinct (map (bd_reg ep) routed @ map (cd_reg ep) routed)"
proof -
  obtain b where b: "pcie_bd_intr_init ep = Some b" "emits b (map (\<lambda>i. (bd_reg ep i, 0x101001)) routed)"
    using calls_emits[of routed "pcie_bd_set_spi ep" "\<lambda>i. [(bd_reg ep i, 0x101001)]", OF bd_spi]
    unfolding pcie_bd_intr_init_def routed_def[symmetric] by auto
  obtain c where c: "pcie_cd_intr_init ep = Some c" "emits c (map (\<lambda>i. (cd_reg ep i, 0x100201)) routed)"
    using calls_emits[of routed "pcie_cd_set_spi ep" "\<lambda>i. [(cd_reg ep i, 0x100201)]", OF cd_spi]
    unfolding pcie_cd_intr_init_def routed_def[symmetric] by auto
  have "pcie_intr_init ep = Some (b \<bind> (\<lambda>_. c \<bind> (\<lambda>_. State_Monad.return ())))"
    using b(1) c(1) by (simp add: pcie_intr_init_def)
  moreover have "emits (b \<bind> (\<lambda>_. c \<bind> (\<lambda>_. State_Monad.return ())))
      (map (\<lambda>i. (bd_reg ep i, 0x101001)) routed @ map (\<lambda>i. (cd_reg ep i, 0x100201)) routed)"
    using emits_bind[OF b(2) emits_bind[OF c(2) emits_return[of "()"]]] by (simp only: append_Nil2)
  ultimately show ?thesis using distinct_regs by blast
qed

section \<open>Enabling a source\<close>

definition plic_enabled :: "mem \<Rightarrow> ioaddr \<Rightarrow> u32 \<Rightarrow> u32 \<Rightarrow> bool" where
  "plic_enabled m base source target = bit (m (enable_at base source target)) (unat (source AND 0x1F))"

lemma unat_word_off: "unat source < 1024 \<Longrightarrow> unat (word_off source) = unat source div 32 * 4"
proof -
  assume a: "unat source < 1024"
  have "unat (drop_bit 5 source) = unat source div 32" by (simp add: drop_bit_eq_div unat_div)
  then have "unat (push_bit 2 (drop_bit 5 source)) = unat source div 32 * 4"
    using a by (simp add: push_bit_eq_mult unat_word_ariths)
  then show ?thesis using a by (simp add: word_off_def unsigned_ucast_eq take_bit_nat_eq_self)
qed

lemma words_differ:
  fixes a b a' b' :: nat
  assumes "b < 32" "b' < 32"
  shows "0x402000 + a * 128 + b * 4 = 0x402000 + a' * 128 + b' * 4 \<longleftrightarrow> a = a' \<and> b = b'"
proof
  assume e: "0x402000 + a * 128 + b * 4 = 0x402000 + a' * 128 + b' * 4"
  have "\<not> a < a'" "\<not> a' < a" using e assms by linarith+
  then show "a = a' \<and> b = b'" using e by simp
qed simp

lemma enable_at_eq:
  assumes "unat s < 1024" "unat s' < 1024" "unat t < 0x3fc0" "unat t' < 0x3fc0"
  shows "enable_at base s t = enable_at base s' t' \<longleftrightarrow> t = t' \<and> unat s div 32 = unat s' div 32"
proof -
  have u: "unat (ucast (push_bit 7 x) :: u64) = unat x * 128" if "unat x < 0x3fc0" for x :: u32
    using that by (simp add: unsigned_ucast_eq take_bit_nat_eq_self push_bit_eq_mult unat_word_ariths)
  let ?o = "\<lambda>s t. REG_BASE_PCIe_INTC + PLIC_ENABLE_OFFSET + ucast (push_bit 7 t) + word_off s"
  have o: "unat (?o x y) = 0x402000 + unat y * 128 + unat x div 32 * 4" if "unat x < 1024" "unat y < 0x3fc0" for x y :: u32
    using that u[OF that(2)] unat_word_off[OF that(1)] by (simp add: unat_word_ariths REG_BASE_PCIe_INTC_def PLIC_ENABLE_OFFSET_def)
  have "enable_at base s t = enable_at base s' t' \<longleftrightarrow> unat (?o s t) = unat (?o s' t')"
    unfolding word_unat_eq_iff[symmetric] by (simp only: enable_at_def io_off_def prod.inject add_left_cancel simp_thms)
  also have "\<dots> \<longleftrightarrow> unat t = unat t' \<and> unat s div 32 = unat s' div 32"
  proof -
    have "unat s div 32 < 32" "unat s' div 32 < 32" using assms(1,2) by auto
    then show ?thesis unfolding o[OF assms(1,3)] o[OF assms(2,4)] by (rule words_differ)
  qed
  finally show ?thesis by (simp only: word_unat_eq_iff[of t t'])
qed

lemma low_bits: "unat (x AND 0x1F) = unat x mod 32" for x :: u32
proof -
  have "x AND 0x1F = take_bit 5 x" using take_bit_eq_mask[of 5 x] by (simp add: mask_eq_exp_minus_1)
  then have "unat (x AND 0x1F) = take_bit 5 (unat x)" by (simp only: unsigned_take_bit_eq)
  then show ?thesis by (simp add: take_bit_eq_mod)
qed

lemma source_split:
  assumes "unat (s :: u32) div 32 = unat s' div 32"
  shows "unat (s AND 0x1F) = unat (s' AND 0x1F) \<longleftrightarrow> s = s'"
proof -
  have "unat s mod 32 = unat s' mod 32 \<longleftrightarrow> unat s = unat s'" using assms by (metis div_mult_mod_eq)
  then show ?thesis by (simp only: low_bits word_unat_eq_iff)
qed

lemma bit_bit_of: "n < 32 \<Longrightarrow> bit (bit_of s) n \<longleftrightarrow> n = unat (s AND 0x1F)"
  using low_bits[of s] by (auto simp: bit_of_def push_bit_eq_mult bit_exp_iff)

text \<open>Enabling or disabling a source for a target changes that alone: on a controller that stores what is written, after the
  call the one source is enabled (or not) for the one target, and whether any other source is enabled for any
  target is as before; for sources below 1024, which are all that fit the words of a target, and
  targets whose words come before the thresholds.\<close>

theorem plic_enable_isolated:
  assumes "unat s < 1024" "unat s' < 1024" "unat t < 0x3fc0" "unat t' < 0x3fc0"
  shows "(plic_enabled (mem_after (exec (plic_enable_interrupt (\<lambda>u. mem_after u m) base s t) []) m) base s' t' \<longleftrightarrow>
      s' = s \<and> t' = t \<or> plic_enabled m base s' t') \<and>
    (plic_enabled (mem_after (exec (plic_disable_interrupt (\<lambda>u. mem_after u m) base s t) []) m) base s' t' \<longleftrightarrow>
      \<not> (s' = s \<and> t' = t) \<and> plic_enabled m base s' t')"
proof -
  have e: "mem_after (exec (plic_enable_interrupt (\<lambda>u. mem_after u m) base s t) []) m =
      m(enable_at base s t := m (enable_at base s t) OR bit_of s)"
    "mem_after (exec (plic_disable_interrupt (\<lambda>u. mem_after u m) base s t) []) m =
      m(enable_at base s t := m (enable_at base s t) AND NOT (bit_of s))"
    by (simp_all add: plic_enable_interrupt_def plic_disable_interrupt_def run_steps)
  show ?thesis
  proof (cases "t = t' \<and> unat s div 32 = unat s' div 32")
    case True
    then have a: "enable_at base s' t' = enable_at base s t" using enable_at_eq[OF assms, of base] by simp
    have "unat (s' AND 0x1F) = unat (s AND 0x1F) \<longleftrightarrow> s' = s" using source_split[of s' s] True by simp
    then show ?thesis using True low_bits[of s'] mod_less_divisor[of 32 "unat s'"] unfolding plic_enabled_def e a
      by (auto simp: bit_or_iff bit_and_iff bit_not_iff bit_bit_of)
  next
    case False
    then have a: "enable_at base s' t' \<noteq> enable_at base s t" using enable_at_eq[OF assms, of base] by auto
    then show ?thesis using False unfolding plic_enabled_def e by auto
  qed
qed

theorem plic_enable_isolated_witness:
  "plic_enabled (mem_after (exec (plic_enable_interrupt (\<lambda>u. mem_after u (\<lambda>a. 0)) (0, 0) 37 2) []) (\<lambda>a. 0)) (0, 0) 37 2 \<and>
   \<not> plic_enabled (mem_after (exec (plic_enable_interrupt (\<lambda>u. mem_after u (\<lambda>a. 0)) (0, 0) 37 2) []) (\<lambda>a. 0)) (0, 0) 5 2"
  using plic_enable_isolated[of 37 37 2 2 "\<lambda>a. 0" "(0, 0)"] plic_enable_isolated[of 37 5 2 2 "\<lambda>a. 0" "(0, 0)"]
  by (simp add: plic_enabled_def)

end
