(* ===== verification/PciBar.thy ===== *)
theory PciBar
  imports Protocol "HOL-Library.Monad_Syntax" "HOL-Library.Log_Nat"
begin

text \<open>
  The routines of \<open>src/driver/mt-emu-gpu.c\<close> that deal with the PCI resources of the graphics
  function itself: resizing BAR 2, mapping the expansion ROM, finding a vendor capability and
  the debug buffer.  The probe calls none of them as the source is configured.  The kernel's
  logarithms, its lists of capabilities and the results of its services are parameters; a
  null dereference and an index beyond an array are \<open>None\<close>, and so is a search that does not end.
  The lemmas say which size index is asked for, that the resources below a bridge
  are all released with their sizes kept, what a failure leaves behind, and that mapping and
  unmapping the ROM are balanced.
\<close>

section \<open>The resources below a bridge\<close>

text \<open>A resource with its name, its range and what lies in it.\<close>

datatype pci_res = PciRes (res_id: nat) (res_start: u64) (res_end: u64) (res_child: "pci_res list")

definition resource_size :: "pci_res \<Rightarrow> u64" where
  "resource_size r = res_end r - res_start r + 1"

definition reset_range :: "pci_res \<Rightarrow> pci_res" where
  "reset_range tmp = (let sz = resource_size tmp in PciRes (res_id tmp) 0 (sz - 1) (res_child tmp))"

text \<open>The resource that is left, and the resources taken out of it in the order in which the code is done with them.\<close>

fun release_child_resources :: "pci_res \<Rightarrow> pci_res \<times> pci_res list" where
  "release_child_resources (PciRes n s e cs) =
    (PciRes n s e [], concat (map (\<lambda>tmp. case release_child_resources tmp of (tmp', out) \<Rightarrow> out @ [reset_range tmp']) cs))"

fun release_windows :: "nat list \<Rightarrow> pci_res list \<Rightarrow> (pci_res list \<times> pci_res list) option" where
  "release_windows [] ws = Some (ws, [])"
| "release_windows (i # is) ws =
    (if length ws \<le> i then None
     else (case release_child_resources (ws ! i) of (w, out) \<Rightarrow>
       do { (ws', outs) \<leftarrow> release_windows is (ws[i := w]); Some (ws', out @ outs) }))"

section \<open>Resizing a BAR\<close>

datatype bar_call = WriteCommand u16 | ReleaseResource nat | ResizeResource nat int | AssignUnassigned

text \<open>What the kernel answers: the position of the capability, the command register, whether BAR 2 is a memory
  resource, the first window of the bridge and the end of the loop over them, the results of resizing, and
  whether the BAR is unset afterwards; the binary logarithms rounded down and up and the rounding to a power of two.\<close>

record bar_env =
  be_pos :: u32
  be_cmd :: u16
  be_mem :: bool
  be_windows :: "nat \<times> nat"
  be_resize :: "int \<Rightarrow> int"
  be_unset :: bool
  be_ilog2 :: "u64 \<Rightarrow> int"
  be_order_base_2 :: "u64 \<Rightarrow> int"
  be_roundup :: "u64 \<Rightarrow> u64"

text \<open>\<open>bd_bridge\<close> is the resource array of the bridge above, \<open>None\<close> when there is no bridge.\<close>

record bar_dev =
  bd_bridge :: "pci_res list option"
  bd_released :: "pci_res list"
  bd_log :: "bar_call list"

definition TARGET_BAR :: nat where "TARGET_BAR = 2"
definition PCI_COMMAND_MEMORY :: u16 where "PCI_COMMAND_MEMORY = 2"
definition ENODEV :: int where "ENODEV = 19"

definition bar_note :: "bar_call list \<Rightarrow> bar_dev \<Rightarrow> bar_dev" where
  "bar_note es d = d\<lparr>bd_log := bd_log d @ es\<rparr>"

definition pci_rebar_bytes_to_size1 :: "bar_env \<Rightarrow> u64 \<Rightarrow> int" where
  "pci_rebar_bytes_to_size1 env bytes = (let bytes = be_roundup env bytes in max (be_ilog2 env bytes) 20 - 20)"

definition rbar_index :: "bar_env \<Rightarrow> u64 \<Rightarrow> int" where
  "rbar_index env new_size = be_order_base_2 env (drop_bit 20 new_size OR 1) - 1"

definition release_bridge :: "bar_env \<Rightarrow> bar_dev \<Rightarrow> bar_dev option" where
  "release_bridge env d =
    (case be_windows env of (b, e) \<Rightarrow>
      if e \<le> b then Some d
      else (case bd_bridge d of None \<Rightarrow> None
       | Some ws \<Rightarrow> do { (ws', out) \<leftarrow> release_windows [b..<e] ws; Some (d\<lparr>bd_bridge := Some ws', bd_released := bd_released d @ out\<rparr>) }))"

definition resize_pcie_bar :: "bar_env \<Rightarrow> u64 \<Rightarrow> bar_dev \<Rightarrow> (int \<times> bar_dev) option" where
  "resize_pcie_bar env new_size d =
    (if be_pos env = 0 then Some (- ENODEV, d)
     else (let rbar_size = rbar_index env new_size;
               d = bar_note [WriteCommand (be_cmd env AND NOT PCI_COMMAND_MEMORY)] d;
               d = (if be_mem env then bar_note [ReleaseResource TARGET_BAR] d else d)
       in do {
         d \<leftarrow> release_bridge env d;
         let ret = be_resize env rbar_size;
         let d = bar_note [ResizeResource TARGET_BAR rbar_size, AssignUnassigned] d;
         if ret \<noteq> 0 \<or> be_unset env then Some (- ENODEV, d)
         else Some (0, bar_note [WriteCommand (be_cmd env)] d) }))"

definition resize_fb_bar :: "bar_env \<Rightarrow> u64 \<Rightarrow> bar_dev \<Rightarrow> (int \<times> bar_dev) option" where
  "resize_fb_bar env sz d =
    (let rbar_size = pci_rebar_bytes_to_size1 env sz;
         d = bar_note [WriteCommand (be_cmd env AND NOT PCI_COMMAND_MEMORY), ReleaseResource 2] d
     in do {
       d \<leftarrow> release_bridge env d;
       Some (0, bar_note [ResizeResource 2 rbar_size, WriteCommand (be_cmd env)] d) })"

section \<open>The expansion ROM\<close>

datatype rom_call = EnableDevice | EnableRom | MapRom u64 | UnmapRom | DisableRom | DisableDevice

record rom_env =
  re_device :: int
  re_rom :: int
  re_base :: u64
  re_len :: u64
  re_map :: bool

text \<open>Whether an address is returned, and the calls that succeeded.\<close>

definition map_pci_rom_bar :: "rom_env \<Rightarrow> bool \<times> rom_call list" where
  "map_pci_rom_bar env =
    (if re_device env \<noteq> 0 then (False, [])
     else if re_rom env \<noteq> 0 then (False, [EnableDevice, DisableDevice])
     else if re_base env = 0 then (False, [EnableDevice, EnableRom, DisableRom, DisableDevice])
     else if \<not> re_map env then (False, [EnableDevice, EnableRom, DisableRom, DisableDevice])
     else (True, [EnableDevice, EnableRom, MapRom (re_len env)]))"

definition unmap_pci_rom_bar :: "bool \<Rightarrow> rom_call list" where
  "unmap_pci_rom_bar addr = (if addr then [UnmapRom] else []) @ [DisableRom, DisableDevice]"

section \<open>Vendor capabilities\<close>

text \<open>\<open>nxt\<close> is \<open>pci_find_next_ext_capability\<close> for vendor capabilities, 0 at the end of the list; \<open>hdr\<close> reads a
  word of configuration space, \<open>None\<close> when that fails.\<close>

definition vsec_match :: "(u16 \<Rightarrow> u32 option) \<Rightarrow> int \<Rightarrow> u16 \<Rightarrow> bool" where
  "vsec_match hdr cap vsec = (case hdr (vsec + 4) of None \<Rightarrow> False | Some header \<Rightarrow> uint (header AND 0xffff) = cap)"

partial_function (option) vsec_loop :: "(u16 \<Rightarrow> u16) \<Rightarrow> (u16 \<Rightarrow> u32 option) \<Rightarrow> int \<Rightarrow> u16 \<Rightarrow> u16 option" where
  "vsec_loop nxt hdr cap vsec =
    (let vsec = nxt vsec in
     if vsec = 0 then Some 0 else if vsec_match hdr cap vsec then Some vsec else vsec_loop nxt hdr cap vsec)"

definition mt_pci_find_vsec_capability :: "u16 \<Rightarrow> (u16 \<Rightarrow> u16) \<Rightarrow> (u16 \<Rightarrow> u32 option) \<Rightarrow> u16 \<Rightarrow> int \<Rightarrow> u16 option" where
  "mt_pci_find_vsec_capability dev_vendor nxt hdr vendor cap =
    (if vendor \<noteq> dev_vendor then Some 0 else vsec_loop nxt hdr cap 0)"

section \<open>The debug buffer\<close>

datatype ob_call = KMalloc u64 | DmaAlloc u64 u64 | IommuMap u64 u64 u64 | DmaFree u64 u64 | IommuUnmap u64 u64 | KFree u64

definition OB_IOVA :: u64 where "OB_IOVA = 0x8000000000 - 0x100000"
definition OB_LEN :: u64 where "OB_LEN = 0x400000"

text \<open>\<open>p\<close> is what \<open>kmalloc\<close> returns and \<open>va\<close> what \<open>dma_alloc_coherent\<close> does; the first result is
  \<open>debug_buf_dma_addr\<close>, which holds the pointer and not the address of the buffer.\<close>

definition init_debug_ob :: "u64 \<Rightarrow> u64 \<Rightarrow> (u64 \<Rightarrow> u64) \<Rightarrow> u64 \<times> ob_call list" where
  "init_debug_ob p va virt_to_phys = (p, [KMalloc p, DmaAlloc va p, IommuMap OB_IOVA (virt_to_phys va) OB_LEN])"

definition free_debug_ob :: "u64 \<Rightarrow> u64 \<Rightarrow> ob_call list" where
  "free_debug_ob p debug_buf_dma_addr =
    [KMalloc p, DmaFree p debug_buf_dma_addr, IommuUnmap OB_IOVA OB_LEN, KFree p, KFree debug_buf_dma_addr]"

section \<open>Releasing the resources below a bridge\<close>

text \<open>Everything below a resource, children after what they contain.\<close>

fun descendants :: "pci_res \<Rightarrow> pci_res list" where
  "descendants (PciRes n s e cs) = concat (map (\<lambda>c. descendants c @ [c]) cs)"

definition detached :: "pci_res \<Rightarrow> pci_res" where
  "detached r = PciRes (res_id r) 0 (res_end r - res_start r) []"

lemma detached_size: "resource_size (detached r) = resource_size r"
  by (simp add: resource_size_def detached_def)

text \<open>Releasing takes everything below the resource out of it, each once, without children, moved to 0
  and with its size kept; the resource itself stays where it is.\<close>

theorem release_child_resources_spec:
  "release_child_resources r = (PciRes (res_id r) (res_start r) (res_end r) [], map detached (descendants r))"
proof (induction r rule: release_child_resources.induct)
  case (1 n s e cs)
  have "(case release_child_resources c of (c', out) \<Rightarrow> out @ [reset_range c']) = map detached (descendants c @ [c])"
    if "c \<in> set cs" for c
    using 1[OF that] by (simp add: reset_range_def resource_size_def detached_def)
  then show ?case by (simp add: map_concat o_def cong: map_cong)
qed

lemma release_windows_total:
  assumes "\<And>i. i \<in> set is \<Longrightarrow> i < length ws" "distinct is"
  shows "\<exists>ws'. release_windows is ws = Some (ws', concat (map (\<lambda>i. map detached (descendants (ws ! i))) is)) \<and> length ws' = length ws \<and>
    (\<forall>i < length ws. ws' ! i = (if i \<in> set is then fst (release_child_resources (ws ! i)) else ws ! i))"
  using assms
proof (induction "is" arbitrary: ws)
  case (Cons i "is")
  let ?w = "fst (release_child_resources (ws ! i))"
  obtain ws' where w: "release_windows is (ws[i := ?w]) =
        Some (ws', concat (map (\<lambda>j. map detached (descendants (ws[i := ?w] ! j))) is))"
      "length ws' = length ws"
      "\<forall>j < length ws. ws' ! j = (if j \<in> set is then fst (release_child_resources (ws[i := ?w] ! j)) else ws[i := ?w] ! j)"
    using Cons.IH[of "ws[i := ?w]"] Cons.prems by auto
  have "ws[i := ?w] ! j = ws ! j" if "j \<in> set is" for j using that Cons.prems(2) by (cases "i = j") auto
  then have m: "map (\<lambda>j. map detached (descendants (ws[i := ?w] ! j))) is = map (\<lambda>j. map detached (descendants (ws ! j))) is"
    by (intro map_cong) auto
  have "release_windows (i # is) ws = Some (ws', concat (map (\<lambda>j. map detached (descendants (ws ! j))) (i # is)))"
    using w(1)[unfolded m] Cons.prems(1)[of i] by (simp add: release_child_resources_spec)
  then show ?case using w(2,3) Cons.prems by (auto simp: nth_list_update)
qed simp

section \<open>What a resize does\<close>

text \<open>The documented behaviour of the kernel's logarithms.\<close>

definition log2_ok :: "bar_env \<Rightarrow> bool" where
  "log2_ok env \<longleftrightarrow>
    (\<forall>x > 0. 0 \<le> be_ilog2 env x \<and> 2 ^ nat (be_ilog2 env x) \<le> unat x \<and> unat x < 2 * 2 ^ nat (be_ilog2 env x)) \<and>
    (\<forall>x > 0. 0 \<le> be_order_base_2 env x \<and> unat x \<le> 2 ^ nat (be_order_base_2 env x) \<and>
       (0 < be_order_base_2 env x \<longrightarrow> 2 ^ (nat (be_order_base_2 env x) - 1) < unat x)) \<and>
    (\<forall>x > 0. unat x \<le> 2 ^ 63 \<longrightarrow> (\<exists>k. unat (be_roundup env x) = 2 ^ k \<and> unat x \<le> 2 ^ k \<and> (0 < k \<longrightarrow> 2 ^ (k - 1) < unat x)))"

lemma unat_or_1: "unat ((x :: u64) OR 1) = (if even (unat x) then unat x + 1 else unat x)"
proof -
  have "unat (x OR 1) = unat x OR 1" by (simp only: unsigned_or_eq unsigned_1)
  then show ?thesis by (simp only: or_one_eq of_bool_def split: if_split) simp
qed

lemma power_bracket:
  assumes "(2::nat) ^ a \<le> n" "n < 2 ^ Suc a" "2 ^ b \<le> n" "n < 2 ^ Suc b"
  shows "a = b"
proof -
  have "(2::nat) ^ a < 2 ^ Suc b" "(2::nat) ^ b < 2 ^ Suc a"
    using le_less_trans[OF assms(1,4)] le_less_trans[OF assms(3,2)] by blast+
  then have "a < Suc b \<and> b < Suc a" by (simp only: power_strict_increasing_iff one_less_numeral_iff semiring_norm)
  then show ?thesis by linarith
qed

text \<open>The index of a size: the largest power of two, in megabytes, that is not above the size; from 2
  megabytes on.  Below, it is -1.\<close>

theorem rbar_index_rounds_down:
  assumes "log2_ok env"
  shows "if unat sz < 2 ^ 21 then rbar_index env sz = - 1
    else (\<exists>k. rbar_index env sz = int k \<and> 2 ^ k * 2 ^ 20 \<le> unat sz \<and> unat sz < 2 * 2 ^ k * 2 ^ 20)"
proof -
  let ?x = "unat sz div 2 ^ 20" and ?v = "drop_bit 20 sz OR 1"
  have x: "unat (drop_bit 20 sz) = ?x" by (metis unat_drop_bit_eq drop_bit_eq_div)
  have v: "unat ?v = (if even ?x then ?x + 1 else ?x)" "odd (unat ?v)" by (simp_all add: unat_or_1 x)
  have pos: "0 < ?v" using v(2) by (metis even_zero unat_0 word_gt_0)
  define n where "n = nat (be_order_base_2 env ?v)"
  have n: "be_order_base_2 env ?v = int n" "unat ?v \<le> 2 ^ n" "0 < n \<Longrightarrow> 2 ^ (n - 1) < unat ?v"
    using assms pos by (simp_all add: log2_ok_def n_def)
  show ?thesis
  proof (cases "unat sz < 2 ^ 21")
    case True
    then have "?x \<le> 1" by simp
    then have "unat ?v = 1" using v(1) by (cases "?x = 0") (auto simp: le_Suc_eq)
    then have "n = 0" using n(3) by (cases n) auto
    then show ?thesis using True n(1) by (simp add: rbar_index_def)
  next
    case False
    then have "2 \<le> ?x" by simp
    then have "3 \<le> unat ?v" using v by (cases "?x = 2") auto
    then obtain k where k: "n = Suc k" using n(2) by (cases n) auto
    have "unat ?v \<noteq> 2 ^ n" using v(2) k by (metis power_Suc dvd_triv_left)
    then have "2 ^ k \<le> ?x" "?x < 2 * 2 ^ k" using n(2) n(3) k v(1) by (auto split: if_splits)
    then have "2 ^ k * 2 ^ 20 \<le> unat sz" "unat sz < 2 * 2 ^ k * 2 ^ 20"
      by (simp_all add: less_eq_div_iff_mult_less_eq div_less_iff_less_mult)
    then show ?thesis using False n(1) k by (auto simp: rbar_index_def)
  qed
qed

text \<open>The two routines agree on the powers of two from 2 megabytes on.\<close>

theorem rebar_indices_agree:
  assumes "log2_ok env" "unat sz = 2 ^ k" "21 \<le> k"
  shows "pci_rebar_bytes_to_size1 env sz = int k - 20 \<and> rbar_index env sz = int k - 20"
proof -
  have k: "k < 64" using assms(2) unsigned_less[of sz, where ?'a = nat] power_less_imp_less_exp[of "2::nat" k 64] by simp
  have "(2::nat) ^ k \<le> 2 ^ 63" using k by (intro power_increasing) simp_all
  then have pos: "0 < sz" "unat sz \<le> 2 ^ 63" using assms(2) by (auto simp: word_gt_0)
  obtain r where r: "unat (be_roundup env sz) = 2 ^ r" "2 ^ k \<le> (2::nat) ^ r" "0 < r \<Longrightarrow> 2 ^ (r - 1) < (2::nat) ^ k"
    using assms(1) pos unfolding log2_ok_def assms(2)[symmetric] by metis
  have "k \<le> r" using r(2) by simp
  moreover have "r \<le> k" using r(3) power_less_imp_less_exp[of "2::nat" "r - 1" k] by (cases r) auto
  ultimately have rk: "r = k" by simp
  then have rp: "0 < be_roundup env sz" using r(1) by (auto simp: word_gt_0)
  define l where "l = be_ilog2 env (be_roundup env sz)"
  have l: "0 \<le> l" "2 ^ nat l \<le> (2::nat) ^ k" "(2::nat) ^ k < 2 ^ Suc (nat l)"
    using assms(1) rp r(1) rk unfolding log2_ok_def l_def by (metis power_Suc)+
  then have "nat l = k" using power_bracket[of "nat l" "2 ^ k" k] by simp
  then have fst: "pci_rebar_bytes_to_size1 env sz = int k - 20"
    using l(1) assms(3) by (auto simp: pci_rebar_bytes_to_size1_def l_def[symmetric] Let_def)
  have "(2::nat) ^ 21 \<le> 2 ^ k" using assms(3) by (intro power_increasing) auto
  then obtain j where j: "rbar_index env sz = int j" "2 ^ j * 2 ^ 20 \<le> (2::nat) ^ k" "(2::nat) ^ k < 2 * 2 ^ j * 2 ^ 20"
    using rbar_index_rounds_down[OF assms(1), of sz] unfolding assms(2) by (metis not_less)
  then have "j + 20 = k" using power_bracket[of "j + 20" "2 ^ k" k] by (simp add: power_add)
  then show ?thesis using fst j(1) by simp
qed

text \<open>The writes to the command register.\<close>

fun commands :: "bar_call list \<Rightarrow> u16 list" where
  "commands [] = []"
| "commands (WriteCommand c # es) = c # commands es"
| "commands (e # es) = commands es"

lemma commands_append [simp]: "commands (xs @ ys) = commands xs @ commands ys"
  by (induction xs rule: commands.induct) simp_all

definition bridge_ok :: "bar_env \<Rightarrow> bar_dev \<Rightarrow> bool" where
  "bridge_ok env d \<longleftrightarrow> (case bd_bridge d of None \<Rightarrow> snd (be_windows env) \<le> fst (be_windows env) | Some ws \<Rightarrow> snd (be_windows env) \<le> length ws)"

text \<open>The windows of the bridge lose what lies in them and nothing else happens.\<close>

lemma release_bridge_spec:
  assumes "bridge_ok env d"
  shows "\<exists>d'. release_bridge env d = Some d' \<and> bd_log d' = bd_log d"
proof (cases "snd (be_windows env) \<le> fst (be_windows env)")
  case False
  then obtain ws where ws: "bd_bridge d = Some ws" "snd (be_windows env) \<le> length ws"
    using assms by (auto simp: bridge_ok_def split: option.splits)
  obtain ws' out where "release_windows [fst (be_windows env)..<snd (be_windows env)] ws = Some (ws', out)"
    using release_windows_total[of "[fst (be_windows env)..<snd (be_windows env)]" ws] ws(2) by fastforce
  then show ?thesis using False ws(1) by (simp add: release_bridge_def split_beta)
qed (simp add: release_bridge_def split_beta)

text \<open>Resizing BAR 2: without the capability nothing happens; otherwise decoding of memory is switched off, and
  only when the resize succeeds is it what it was.\<close>

theorem resize_failure_leaves_memory_off:
  assumes "bridge_ok env d" "bd_log d = []"
  shows "\<exists>ret d'. resize_pcie_bar env sz d = Some (ret, d') \<and>
    (if be_pos env = 0 then ret = - ENODEV \<and> d' = d
     else if be_resize env (rbar_index env sz) = 0 \<and> \<not> be_unset env then ret = 0 \<and> commands (bd_log d') = [be_cmd env AND NOT 2, be_cmd env]
     else ret = - ENODEV \<and> commands (bd_log d') = [be_cmd env AND NOT 2])"
proof -
  define d1 where "d1 = bar_note (WriteCommand (be_cmd env AND NOT PCI_COMMAND_MEMORY) #
      (if be_mem env then [ReleaseResource TARGET_BAR] else [])) d"
  have "bridge_ok env d1" using assms(1) by (simp add: bridge_ok_def d1_def bar_note_def)
  then obtain d2 where d2: "release_bridge env d1 = Some d2" "bd_log d2 = bd_log d1" using release_bridge_spec by blast
  have e: "(if be_mem env then bar_note [ReleaseResource TARGET_BAR] (bar_note [WriteCommand (be_cmd env AND NOT PCI_COMMAND_MEMORY)] d)
      else bar_note [WriteCommand (be_cmd env AND NOT PCI_COMMAND_MEMORY)] d) = d1"
    by (simp add: d1_def bar_note_def)
  show ?thesis unfolding resize_pcie_bar_def Let_def e
    using d2 assms(2) by (simp add: bar_note_def d1_def PCI_COMMAND_MEMORY_def)
qed

text \<open>The other routine reports success whatever the resize returned.\<close>

theorem resize_fb_bar_never_fails:
  assumes "bridge_ok env d" "bd_log d = []"
  shows "\<exists>d'. resize_fb_bar env sz d = Some (0, d') \<and> commands (bd_log d') = [be_cmd env AND NOT 2, be_cmd env]"
proof -
  define d1 where "d1 = bar_note [WriteCommand (be_cmd env AND NOT PCI_COMMAND_MEMORY), ReleaseResource 2] d"
  have "bridge_ok env d1" using assms(1) by (simp add: bridge_ok_def d1_def bar_note_def)
  then obtain d2 where "release_bridge env d1 = Some d2" "bd_log d2 = bd_log d1" using release_bridge_spec by blast
  then show ?thesis using assms(2)
    by (simp add: resize_fb_bar_def Let_def d1_def[symmetric]) (simp add: bar_note_def d1_def PCI_COMMAND_MEMORY_def)
qed

section \<open>The ROM, capabilities and the debug buffer\<close>

text \<open>The device is enabled, then the ROM, then it is mapped, and back in the reverse order.\<close>

fun rom_step :: "rom_call \<Rightarrow> nat \<Rightarrow> nat option" where
  "rom_step EnableDevice n = (if n = 0 then Some 1 else None)"
| "rom_step EnableRom n = (if n = 1 then Some 2 else None)"
| "rom_step (MapRom len) n = (if n = 2 then Some 3 else None)"
| "rom_step UnmapRom n = (if n = 3 then Some 2 else None)"
| "rom_step DisableRom n = (if n = 2 then Some 1 else None)"
| "rom_step DisableDevice n = (if n = 1 then Some 0 else None)"

fun rom_run :: "rom_call list \<Rightarrow> nat \<Rightarrow> nat option" where
  "rom_run [] n = Some n"
| "rom_run (e # es) n = Option.bind (rom_step e n) (rom_run es)"

interpretation rom: protocol rom_step rom_run
  by unfold_locales simp_all

text \<open>Mapping either fails and leaves nothing enabled, or unmapping undoes it.\<close>

theorem rom_map_unmap:
  "if fst (map_pci_rom_bar env) then rom_run (snd (map_pci_rom_bar env) @ unmap_pci_rom_bar True) 0 = Some 0
    else rom_run (snd (map_pci_rom_bar env)) 0 = Some 0"
  by (simp add: map_pci_rom_bar_def unmap_pci_rom_bar_def rom.run_append)

text \<open>A search ends when the list of capabilities does, with a capability that matches or 0 ...\<close>

theorem vsec_returns:
  "(nxt ^^ Suc n) v = 0 \<Longrightarrow> \<exists>r. vsec_loop nxt hdr cap v = Some r \<and> (r = 0 \<or> vsec_match hdr cap r)"
proof (induction n arbitrary: v)
  case (Suc n)
  have "(nxt ^^ Suc n) (nxt v) = 0" using Suc.prems by (simp add: funpow_swap1)
  from Suc.IH[OF this] show ?case by (subst vsec_loop.simps) (simp add: Let_def)
qed (simp add: vsec_loop.simps)

text \<open>... and does not end in a list that goes in a circle and has no match.\<close>

theorem vsec_circle_never_ends:
  assumes "\<And>k. (nxt ^^ Suc k) v \<noteq> 0 \<and> \<not> vsec_match hdr cap ((nxt ^^ Suc k) v)"
  shows "vsec_loop nxt hdr cap v = None"
proof -
  have "\<exists>k. (nxt ^^ Suc k) v = 0 \<or> vsec_match hdr cap ((nxt ^^ Suc k) v)" if "vsec_loop nxt hdr cap v = Some r" for r
    using that
  proof (rule vsec_loop.raw_induct[rotated])
    fix loop nxt hdr cap v r
    assume IH: "\<And>nxt hdr cap v r. loop nxt hdr cap v = Some r \<Longrightarrow> \<exists>k. (nxt ^^ Suc k) v = 0 \<or> vsec_match hdr cap ((nxt ^^ Suc k) v)"
      and eq: "(let vsec = nxt v in if vsec = 0 then Some 0 else if vsec_match hdr cap vsec then Some vsec else loop nxt hdr cap vsec) = Some r"
    show "\<exists>k. (nxt ^^ Suc k) v = 0 \<or> vsec_match hdr cap ((nxt ^^ Suc k) v)"
    proof (cases "nxt v = 0 \<or> vsec_match hdr cap (nxt v)")
      case True
      then show ?thesis by (intro exI[of _ 0]) simp
    next
      case False
      then have "loop nxt hdr cap (nxt v) = Some r" using eq by (simp add: Let_def)
      then obtain k where "(nxt ^^ Suc k) (nxt v) = 0 \<or> vsec_match hdr cap ((nxt ^^ Suc k) (nxt v))" using IH by blast
      then show ?thesis by (intro exI[of _ "Suc k"]) (simp add: funpow_swap1)
    qed
  qed
  then show ?thesis using assms by (cases "vsec_loop nxt hdr cap v") blast+
qed

text \<open>The buffer that \<open>init_debug_ob\<close> allocated is not the one that \<open>free_debug_ob\<close> gives back.\<close>

theorem debug_buffer_lost:
  assumes "q \<noteq> va"
  shows "\<exists>h. DmaAlloc va h \<in> set (snd (init_debug_ob p va phys)) \<and> (\<forall>g. DmaFree va g \<notin> set (free_debug_ob q (fst (init_debug_ob p va phys))))"
  using assms by (auto simp: init_debug_ob_def free_debug_ob_def)

section \<open>A kernel with these logarithms\<close>

definition demo_bar_env :: bar_env where
  "demo_bar_env = \<lparr>be_pos = 256, be_cmd = 7, be_mem = True, be_windows = (0, 1), be_resize = (\<lambda>n. 0), be_unset = False,
    be_ilog2 = (\<lambda>x. int (floorlog 2 (unat x)) - 1),
    be_order_base_2 = (\<lambda>x. int (floorlog 2 (unat x - 1))),
    be_roundup = (\<lambda>x. word_of_nat (2 ^ floorlog 2 (unat x - 1)))\<rparr>"

lemma floorlog_up:
  assumes "0 < n"
  shows "n \<le> 2 ^ floorlog 2 (n - 1) \<and> (0 < floorlog 2 (n - 1) \<longrightarrow> 2 ^ (floorlog 2 (n - 1) - 1) < n)"
proof (cases "n = 1")
  case False
  then show ?thesis using assms floorlog_bounds[of "n - 1" 2] by auto
qed (simp add: floorlog_def)

lemma demo_log2: "log2_ok demo_bar_env"
  unfolding log2_ok_def
proof (intro conjI allI impI)
  fix x :: u64 assume "0 < x"
  then have pos: "0 < unat x" by (simp add: unat_gt_0 word_gt_0)
  let ?l = "floorlog 2 (unat x)" and ?o = "floorlog 2 (unat x - 1)"
  have l: "0 < ?l" "2 ^ (?l - 1) \<le> unat x" "unat x < 2 ^ ?l"
    using pos floorlog_bounds[of "unat x" 2] by (simp_all add: floorlog_def)
  have e: "nat (be_ilog2 demo_bar_env x) = ?l - 1" by (simp add: demo_bar_env_def)
  show "0 \<le> be_ilog2 demo_bar_env x" using l(1) by (simp add: demo_bar_env_def)
  show "2 ^ nat (be_ilog2 demo_bar_env x) \<le> unat x" using l(2) e by simp
  show "unat x < 2 * 2 ^ nat (be_ilog2 demo_bar_env x)" using l(1,3) unfolding e by (cases ?l) simp_all
  show "0 \<le> be_order_base_2 demo_bar_env x" by (simp add: demo_bar_env_def)
  show "unat x \<le> 2 ^ nat (be_order_base_2 demo_bar_env x)" using floorlog_up[OF pos] by (simp add: demo_bar_env_def)
  show "2 ^ (nat (be_order_base_2 demo_bar_env x) - 1) < unat x" if "0 < be_order_base_2 demo_bar_env x"
    using floorlog_up[OF pos] that by (simp add: demo_bar_env_def)
  assume b: "unat x \<le> 2 ^ 63"
  have "?o \<le> 63"
  proof (rule ccontr)
    assume "\<not> ?o \<le> 63"
    then have "0 < ?o" "(2::nat) ^ 63 \<le> 2 ^ (?o - 1)" by (linarith, intro power_increasing) simp_all
    then show False using floorlog_up[OF pos] b by linarith
  qed
  then have "(2::nat) ^ ?o < 2 ^ 64" by (intro power_strict_increasing) simp_all
  moreover have "unat (be_roundup demo_bar_env x) = take_bit 64 (2 ^ ?o)"
    unfolding demo_bar_env_def bar_env.select_convs by (subst unsigned_of_nat) simp
  ultimately have "unat (be_roundup demo_bar_env x) = 2 ^ ?o" by (simp only: take_bit_nat_eq_self)
  then show "\<exists>k. unat (be_roundup demo_bar_env x) = 2 ^ k \<and> unat x \<le> 2 ^ k \<and> (0 < k \<longrightarrow> 2 ^ (k - 1) < unat x)"
    using floorlog_up[OF pos] by (intro exI[of _ ?o]) simp
qed

lemma rebar_indices_agree_witness:
  "pci_rebar_bytes_to_size1 demo_bar_env 0x2000000000 = 17 \<and> rbar_index demo_bar_env 0x2000000000 = 17"
  using rebar_indices_agree[OF demo_log2, where sz = "0x2000000000" and k = 37] by simp

lemma rbar_index_rounds_down_witness: "rbar_index demo_bar_env 0x100000 = - 1"
  using rbar_index_rounds_down[OF demo_log2, where sz = "0x100000"] by simp

definition demo_bar_dev :: bar_dev where
  "demo_bar_dev = \<lparr>bd_bridge = Some [PciRes 0 0 0xfff [PciRes 1 0x100 0x1ff []]], bd_released = [], bd_log = []\<rparr>"

lemma resize_failure_leaves_memory_off_witness:
  "\<exists>ret d'. resize_pcie_bar (demo_bar_env\<lparr>be_resize := (\<lambda>n. - 28)\<rparr>) 0x2000000000 demo_bar_dev = Some (ret, d') \<and>
    ret = - ENODEV \<and> commands (bd_log d') = [5]"
  using resize_failure_leaves_memory_off[of "demo_bar_env\<lparr>be_resize := (\<lambda>n. - 28)\<rparr>" demo_bar_dev "0x2000000000"]
  by (simp add: bridge_ok_def demo_bar_env_def demo_bar_dev_def)

end
