(* ===== verification/RegDump.thy ===== *)
theory RegDump
  imports DmaDevice MtdmaBare "HOL-Library.Monad_Syntax"
begin

text \<open>
  The tools of \<open>src/scripts\<close> that look at the DMA engine from user space:
  \<open>mtdma_reg_dump_pf0.c\<close> and \<open>mtdma_reg_dump_vf.c\<close> print the registers of a channel (the first
  can clear them instead), \<open>dump_desc.c\<close> prints the descriptors in the list memory, \<open>devmem.c\<close> reads or
  writes 64 words of physical memory.  They map a piece of \<open>/dev/mem\<close> and use no
  definition of the driver: the numbers are written out again, so the lemmas say where they agree with
  the driver's and where they do not.
\<close>

section \<open>Mapped physical memory\<close>

text \<open>What is printed: a fixed text, a title with numbers, a register with the offset the text names, a numbered value.\<close>

datatype line = Text string | Title string "int list" | Entry string u64 u32 | Item string int u32

record dump =
  dm_trace :: trace
  dm_lines :: "line list"

definition say :: "line \<Rightarrow> dump \<Rightarrow> dump" where
  "say l s = s\<lparr>dm_lines := dm_lines s @ [l]\<rparr>"

text \<open>What the tools find: whether \<open>/dev/mem\<close> opens, whether it can be mapped, and the number of the region that is
  physical memory.\<close>

record tool_env =
  open_ok :: bool
  mmap_ok :: bool
  phys :: nat

record mapping =
  mp_base :: ioaddr
  mp_size :: int

text \<open>The address given to \<open>mmap\<close> is rounded down to a page.  The result is not checked: with \<open>MAP_FAILED\<close> no
  access is possible, which is a mapping of size 0.\<close>

definition mmap_mem :: "tool_env \<Rightarrow> int \<Rightarrow> u64 \<Rightarrow> mapping" where
  "mmap_mem env sz base = \<lparr>mp_base = (phys env, base AND NOT 4095), mp_size = (if mmap_ok env then sz else 0)\<rparr>"

definition reg_at :: "mapping \<Rightarrow> int \<Rightarrow> ioaddr" where
  "reg_at mp x = io_off (mp_base mp) (word_of_int x)"

text \<open>\<open>None\<close>: the program is stopped, by an access outside the mapping or by an overflow of an \<open>int\<close>.\<close>

definition peek :: "hardware \<Rightarrow> mapping \<Rightarrow> int \<Rightarrow> dump \<Rightarrow> (u32 \<times> dump) option" where
  "peek hw mp x s =
    (if 0 \<le> x \<and> x + 4 \<le> mp_size mp
     then Some (hw (dm_trace s) (reg_at mp x), s\<lparr>dm_trace := dm_trace s @ [Rd (reg_at mp x) (hw (dm_trace s) (reg_at mp x))]\<rparr>)
     else None)"

definition poke :: "mapping \<Rightarrow> u32 \<Rightarrow> int \<Rightarrow> dump \<Rightarrow> dump option" where
  "poke mp v x s =
    (if 0 \<le> x \<and> x + 4 \<le> mp_size mp then Some (s\<lparr>dm_trace := dm_trace s @ [Wr (reg_at mp x) v]\<rparr>) else None)"

fun each :: "('i \<Rightarrow> dump \<Rightarrow> dump option) \<Rightarrow> 'i list \<Rightarrow> dump \<Rightarrow> dump option" where
  "each f [] s = Some s"
| "each f (i # is) s = Option.bind (f i s) (each f is)"

text \<open>\<open>for (i = lo; i < hi; i += 4)\<close>\<close>

definition words :: "int \<Rightarrow> int \<Rightarrow> int list" where
  "words lo hi = map (\<lambda>k. lo + 4 * int k) [0..<nat ((hi - lo + 3) div 4)]"

section \<open>Arguments\<close>

text \<open>\<open>strtol\<close> to base 16: white space, a sign, an optional \<open>0x\<close>, digits; the value is cut to the range of \<open>long\<close>.\<close>

definition hex_digit :: "char \<Rightarrow> int option" where
  "hex_digit c = (let n = of_char c :: int in
     if 48 \<le> n \<and> n \<le> 57 then Some (n - 48) else if 97 \<le> n \<and> n \<le> 102 then Some (n - 87)
     else if 65 \<le> n \<and> n \<le> 70 then Some (n - 55) else None)"

fun hex_digits :: "string \<Rightarrow> int \<Rightarrow> int" where
  "hex_digits [] n = n"
| "hex_digits (c # cs) n = (case hex_digit c of None \<Rightarrow> n | Some d \<Rightarrow> hex_digits cs (16 * n + d))"

definition hex_number :: "string \<Rightarrow> int" where
  "hex_number s = (case s of c # x # d # _ \<Rightarrow>
     if c = CHR ''0'' \<and> (x = CHR ''x'' \<or> x = CHR ''X'') \<and> hex_digit d \<noteq> None then hex_digits (drop 2 s) 0 else hex_digits s 0
   | _ \<Rightarrow> hex_digits s 0)"

definition strtol16 :: "string \<Rightarrow> int" where
  "strtol16 s =
    (let s = dropWhile (\<lambda>c. of_char c \<in> {9, 10, 11, 12, 13, 32 :: nat}) s;
         v = (case s of [] \<Rightarrow> 0 | c # cs \<Rightarrow>
           if c = CHR ''-'' then - hex_number cs else if c = CHR ''+'' then hex_number cs else hex_number s) in
     max (- (2 ^ 63)) (min (2 ^ 63 - 1) v))"

text \<open>The conversion of a \<open>long\<close> to \<open>int\<close>, and the product of two \<open>int\<close> values.\<close>

definition c_int :: "int \<Rightarrow> int" where "c_int x = sint (word_of_int x :: u32)"

definition c_mul :: "int \<Rightarrow> int \<Rightarrow> int option" where
  "c_mul x y = (if - (2 ^ 31) \<le> x * y \<and> x * y < 2 ^ 31 then Some (x * y) else None)"

section \<open>Registers of the physical function\<close>

text \<open>A line of these functions: the name, the offset in the text, the offset that is read.\<close>

definition PCIE_MT_DMA_COMM :: int where "PCIE_MT_DMA_COMM = 0x380000"
definition PCIE_MT_DMA_CH :: int where "PCIE_MT_DMA_CH = 0x383000"

definition print_regs :: "hardware \<Rightarrow> mapping \<Rightarrow> int \<Rightarrow> (string \<times> u64 \<times> int) list \<Rightarrow> dump \<Rightarrow> dump option" where
  "print_regs hw mp base = each (\<lambda>(name, shown, x) s. do { (v, s) \<leftarrow> peek hw mp (base + x) s; Some (say (Entry name shown v) s) })"

definition wr_regs :: "(string \<times> u64 \<times> int) list" where
  "wr_regs =
    [(''dma_wch_enable'', 0x0800, 0x0800),
     (''dma_wch_direction'', 0x0804, 0x0804),
     (''dma_wch_dummy_rd_addr_l'', 0x0808, 0x0808),
     (''dma_wch_dummy_rd_addr_h'', 0x080c, 0x080c),
     (''dma_wch_mmu_addr_type'', 0x0810, 0x0810),
     (''dma_wch_mmu_pagefault'', 0x0850, 0x0850),
     (''dma_wch_pagefault_imsk'', 0x0854, 0x0854),
     (''dma_wch_pagefault_sts'', 0x0858, 0x0858),
     (''dma_wch_pagefault_vpage_h'', 0x085c, 0x085c),
     (''dma_wch_pagefalut_vpage_l'', 0x0860, 0x0860),
     (''dma_wch_intr_imsk'', 0x08c4, 0x08c4),
     (''dma_wch_intr_raw'', 0x08c8, 0x08c8),
     (''dma_wch_intr_status'', 0x08cc, 0x08cc),
     (''dma_wch_status'', 0x08d0, 0x08d0),
     (''dma_wch_lbar_cfg'', 0x08d4, 0x08d4),
     (''dma_wch_desc_opt'', 0x0c00, 0x0c00),
     (''dma_wch_acnt'', 0x0c04, 0x0c04),
     (''dma_wch_sar_l'', 0x0c08, 0x0c08),
     (''dma_wch_sar_h'', 0x0c0c, 0x0c0c),
     (''dma_wch_dar_l'', 0x0c10, 0x0c10),
     (''dma_wch_dar_h'', 0x0c14, 0x0c14),
     (''dma_wch_lbr_l'', 0x0c18, 0x0c18),
     (''dma_wch_lbr_h'', 0x0c1c, 0x0c1c)]"

definition print_channel_reg_wr :: "hardware \<Rightarrow> mapping \<Rightarrow> int \<Rightarrow> int \<Rightarrow> dump \<Rightarrow> dump option" where
  "print_channel_reg_wr hw mp ch_base ch s = do {
     s \<leftarrow> print_regs hw mp ch_base wr_regs (say (Title ''channel reg for write start'' [ch]) s);
     Some (say (Title ''channel reg for write end'' [ch]) s) }"

definition rd_regs :: "(string \<times> u64 \<times> int) list" where
  "rd_regs =
    [(''dma_rch_enable'', 0x0000, 0x0000),
     (''dma_rch_direction'', 0x0004, 0x0004),
     (''dma_rch_dummy_rd_addr_l'', 0x0008, 0x0008),
     (''dma_rch_dummy_rd_addr_h'', 0x000c, 0x000c),
     (''dma_rch_mmu_addr_type'', 0x0010, 0x0010),
     (''dma_rch_pagefault_raw'', 0x0050, 0x0050),
     (''dma_rch_pagefault_imsk'', 0x0054, 0x0054),
     (''dma_rch_pagefault_sts'', 0x0058, 0x0058),
     (''dma_rch_pagefault_vpage_h'', 0x005c, 0x005c),
     (''dma_rch_pagefault_vpage_l'', 0x0060, 0x0060),
     (''dma_rch_intr_msk'', 0x00c4, 0x00c4),
     (''dma_rch_intr_raw'', 0x00c8, 0x00c8),
     (''dma_rch_intr_status'', 0x00cc, 0x00cc),
     (''dma_rch_status'', 0x00d0, 0x00d0),
     (''dma_rch_lbar_basic'', 0x00d4, 0x00d4),
     (''dma_rch_desc_opt'', 0x0400, 0x0400),
     (''dma_rch_acnt'', 0x0404, 0x0404),
     (''dma_rch_sar_l'', 0x0408, 0x0408),
     (''dma_rch_sar_h'', 0x040c, 0x040c),
     (''dma_rch_dar_l'', 0x0410, 0x0410),
     (''dma_rch_dar_h'', 0x0414, 0x0414),
     (''dma_rch_lbr_l'', 0x0418, 0x0418),
     (''dma_rch_lbr_h'', 0x041c, 0x041c)]"

definition print_channel_reg_rd :: "hardware \<Rightarrow> mapping \<Rightarrow> int \<Rightarrow> int \<Rightarrow> dump \<Rightarrow> dump option" where
  "print_channel_reg_rd hw mp ch_base ch s = do {
     s \<leftarrow> print_regs hw mp ch_base rd_regs (say (Title ''channel reg for read start'' [ch]) s);
     Some (say (Title ''channel reg for read end'' [ch]) s) }"

definition comm_regs :: "int \<Rightarrow> (string \<times> u64 \<times> int) list" where
  "comm_regs ch =
    [(''dma_basic_param'', 0x0000, 0x0000),
     (''dma_comm_enable'', 0x0010, 0x0010),
     (''dma_osid_super'', 0x0014, 0x014),
     (''dma_ccmode_disable'', 0x0018, 0x0018),
     (''dma_ch_secure'', 0x0020, 0x0020 + 4 * ch),
     (''dma_ch_num'', 0x0400, 0x0400),
     (''dma_mst0_blen'', 0x0408, 0x0408),
     (''dma_mst0_cache'', 0x0420, 0x0420),
     (''dma_mst0_prot'', 0x0424, 0x0424),
     (''dma_mst2_cache'', 0x0428, 0x0428),
     (''dma_mst1_blen'', 0x0608, 0x0608),
     (''dma_mst1_cache'', 0x0620, 0x0620),
     (''dma_mst1_prot'', 0x0624, 0x0624),
     (''dma_mst3_cache'', 0x0628, 0x0628),
     (''dma_comm_alarm_imsk'', 0x0c00, 0x0c00),
     (''dma_comm_alarm_raw'', 0x0c04, 0x0c04),
     (''dma_comm_alarm_status'', 0x0c08, 0x0c08),
     (''dma_rch_mrg_imsk_c32'', 0x0c20, 0x0c20),
     (''dma_rch_mrg_imsk_c64'', 0x0c24, 0x0c24),
     (''dma_rch_mrg_imsk_c96'', 0x0c28, 0x0c28),
     (''dma_rch_mrg_imsk_c128'', 0x0c2c, 0x0c2c),
     (''dma_rch_mrg_sts_c32'', 0x0c30, 0x0c30),
     (''dma_rch_mrg_sts_c64'', 0x0c34, 0x0c34),
     (''dma_rch_mrg_sts_c96'', 0x0c38, 0x0c38),
     (''dma_rch_mrg_sts_c128'', 0x0c3c, 0x0c3c),
     (''dma_wch_mrg_imsk_c32'', 0x0c40, 0x0c40),
     (''dma_wch_mrg_imsk_c64'', 0x0c44, 0x0c44),
     (''dma_wch_mrg_imsk c96'', 0x0c48, 0x0c48),
     (''dma_wch_mrg_imsk c128'', 0x0c48, 0x0c4c),
     (''dma_wch_mrg_sts_c32'', 0x0c50, 0x0c50),
     (''dma_wch_mrg_sts_c64'', 0x0c54, 0x0c54),
     (''dma_wch_mrg_sts_c96'', 0x0c58, 0x0c58),
     (''dma_wch_mrg_sts_c128'', 0x0c5c, 0x0c5c),
     (''dma_mrg_imsk'', 0x0c70, 0x0c70),
     (''dma_mrg_sts'', 0x0c74, 0x0c74),
     (''dma_work_sts'', 0x0d00, 0x0d00),
     (''dma_rch_fc'', 0x1000, 0x1000 + 4 * ch),
     (''dma_wch_fc'', 0x1800, 0x1800 + 4 * ch),
     (''dma_ch_osid'', 0x1800, 0x2000 + 4 * ch),
     (''dma_ch_context_id'', 0x1800, 0x2800 + 4 * ch)]"

definition print_comm_reg :: "hardware \<Rightarrow> mapping \<Rightarrow> int \<Rightarrow> int \<Rightarrow> dump \<Rightarrow> dump option" where
  "print_comm_reg hw mp common_base ch s = do {
     s \<leftarrow> print_regs hw mp common_base (comm_regs ch) (say (Text ''common register start'') s);
     Some (say (Text ''common register end'') s) }"

definition print_comm_ch_secure :: "hardware \<Rightarrow> mapping \<Rightarrow> int \<Rightarrow> dump \<Rightarrow> dump option" where
  "print_comm_ch_secure hw mp common_base =
    each (\<lambda>i s. do { (v, s) \<leftarrow> peek hw mp (common_base + 0x20 + i) s; Some (say (Item ''ch_secure'' (i div 4) v) s) }) (words 0 (64 * 4))"

definition print_ch_osid :: "hardware \<Rightarrow> mapping \<Rightarrow> int \<Rightarrow> dump \<Rightarrow> dump option" where
  "print_ch_osid hw mp common_base =
    each (\<lambda>i s. do { (v, s) \<leftarrow> peek hw mp (common_base + 0x2000 + i) s; Some (say (Item ''ch_osid'' (i div 4) v) s) }) (words 0 (64 * 4))"

definition mtmda_reg_clean :: "mapping \<Rightarrow> int \<Rightarrow> dump \<Rightarrow> dump option" where
  "mtmda_reg_clean mp ch s = do {
     x \<leftarrow> c_mul ch 0x1000;
     let ch_base = PCIE_MT_DMA_CH + x;
     let common_base = PCIE_MT_DMA_COMM;
     s \<leftarrow> each (\<lambda>i. poke mp 0 (common_base + i)) (words 0 0x0c74) (say (Text ''clean common and ch register start'') s);
     s \<leftarrow> each (\<lambda>i. poke mp 0 (ch_base + i)) (words 0 0x041c) s;
     s \<leftarrow> each (\<lambda>i. poke mp 0 (ch_base + i)) (words 0x800 0xc1c) s;
     Some (say (Text ''clean common and ch register end'') s) }"

definition pf0_main :: "hardware \<Rightarrow> tool_env \<Rightarrow> string list \<Rightarrow> dump \<Rightarrow> (int \<times> dump) option" where
  "pf0_main hw env argv s =
    (if length argv \<noteq> 4 then Some (-1, say (Text ''usage : ./a.out  0x10000000 0x1 0x1'') s)
     else
       (let bar0_base = word_of_int (strtol16 (argv ! 1)) :: u64;
            clean = c_int (strtol16 (argv ! 2));
            ch = c_int (strtol16 (argv ! 3));
            s = say (Title ''pcie bar0, ch num'' [uint bar0_base, ch]) s in
        if \<not> open_ok env then Some (-1, say (Text ''open'') s)
        else
          (let mp = mmap_mem env 0x2000000 bar0_base in do {
             x \<leftarrow> c_mul ch 0x1000;
             let ch_base = PCIE_MT_DMA_CH + x;
             let common_base = PCIE_MT_DMA_COMM;
             s \<leftarrow> (if clean \<noteq> 0 then mtmda_reg_clean mp ch s
                  else do {
                    s \<leftarrow> print_comm_reg hw mp common_base ch s;
                    s \<leftarrow> print_comm_ch_secure hw mp common_base s;
                    s \<leftarrow> print_ch_osid hw mp common_base s;
                    s \<leftarrow> print_channel_reg_rd hw mp ch_base ch s;
                    print_channel_reg_wr hw mp ch_base ch s });
             Some (0, s) })))"

section \<open>Registers of a virtual function\<close>

text \<open>The two printing functions are the same text as in the other tool.  The channel number only appears in the titles, and the mapping is
  one page.\<close>

definition vf_print_channel_reg_wr :: "hardware \<Rightarrow> mapping \<Rightarrow> int \<Rightarrow> int \<Rightarrow> dump \<Rightarrow> dump option" where
  "vf_print_channel_reg_wr = print_channel_reg_wr"

definition vf_print_channel_reg_rd :: "hardware \<Rightarrow> mapping \<Rightarrow> int \<Rightarrow> int \<Rightarrow> dump \<Rightarrow> dump option" where
  "vf_print_channel_reg_rd = print_channel_reg_rd"

definition vf_main :: "hardware \<Rightarrow> tool_env \<Rightarrow> string list \<Rightarrow> dump \<Rightarrow> (int \<times> dump) option" where
  "vf_main hw env argv s =
    (if length argv \<noteq> 4 then Some (-1, say (Text ''usage : ./a.out 0x10000000 0x1'') s)
     else
       (let bar0_base = word_of_int (strtol16 (argv ! 1)) :: u64;
            ch = c_int (strtol16 (argv ! 2));
            s = say (Title ''pcie bar0, ch num'' [uint bar0_base, ch]) s in
        if \<not> open_ok env then Some (-1, say (Text ''open'') s)
        else
          (let mp = mmap_mem env 4096 bar0_base; ch_base = 0x3000 in do {
             s \<leftarrow> vf_print_channel_reg_rd hw mp ch_base ch s;
             s \<leftarrow> vf_print_channel_reg_wr hw mp ch_base ch s;
             Some (0, s) })))"

section \<open>Descriptors\<close>

text \<open>The fields \<open>print_desc\<close> prints of \<open>struct mtdma_desc\<close>: the label, the word, the bits.\<close>

definition desc_fields_shown :: "(string \<times> int \<times> (u32 \<Rightarrow> u32)) list" where
  "desc_fields_shown =
    [(''word0->lba_type_en'', 0, \<lambda>w. w AND 1),
     (''word0->nxt_lb_desc_acnt'', 0, \<lambda>w. drop_bit 16 w),
     (''word1->tr_data_acnt'', 4, id),
     (''word2->src_addr_l'', 8, id),
     (''word3->src_addr_h'', 12, id),
     (''word4->dst_addr_l'', 16, id),
     (''word5->dst_addr_h'', 20, id),
     (''word6->lb_addr_l'', 24, \<lambda>w. drop_bit 6 w),
     (''word7->dst_addr_h'', 28, id)]"

definition print_desc :: "hardware \<Rightarrow> mapping \<Rightarrow> int \<Rightarrow> int \<Rightarrow> int \<Rightarrow> dump \<Rightarrow> dump option" where
  "print_desc hw mp pdesc ch desc_num =
    each (\<lambda>i. each (\<lambda>(label, x, bits) s. do {
        (v, s) \<leftarrow> peek hw mp (pdesc + 32 * int i + x) s;
        Some (say (Item label ch (bits v)) s) }) desc_fields_shown) [0..<nat desc_num]"

text \<open>Where the tool looks for the descriptors of a channel, for writing and for reading.\<close>

definition pdesc_ch :: "int \<Rightarrow> (int \<times> int) option" where
  "pdesc_ch ch = do {
     x \<leftarrow> c_mul ch 65535;
     x \<leftarrow> c_mul x 32;
     pdesc_ch_wr \<leftarrow> c_mul x 2;
     Some (pdesc_ch_wr, pdesc_ch_wr + 65535 * 32) }"

definition desc_main :: "hardware \<Rightarrow> tool_env \<Rightarrow> string list \<Rightarrow> dump \<Rightarrow> (int \<times> dump) option" where
  "desc_main hw env argv s =
    (if length argv \<noteq> 4 then Some (-1, say (Text ''usage : ./desc_dump 0x10000000 0x1 0x1'') s)
     else
       (let bar2_base = word_of_int (strtol16 (argv ! 1)) :: u64;
            ch = c_int (strtol16 (argv ! 2));
            desc_num = c_int (strtol16 (argv ! 3));
            s = say (Title ''pcie bar2, ch, desc_num'' [uint bar2_base, ch, desc_num]) s in
        if \<not> open_ok env then Some (-1, say (Text ''open'') s)
        else
          (let bar2_base = bar2_base + 0x80000000;
               mp = mmap_mem env 0x20000000 bar2_base in do {
             (pdesc_ch_wr, pdesc_ch_rd) \<leftarrow> pdesc_ch ch;
             s \<leftarrow> print_desc hw mp pdesc_ch_wr ch desc_num s;
             s \<leftarrow> print_desc hw mp pdesc_ch_rd ch desc_num s;
             Some (0, s) })))"

section \<open>Words of physical memory\<close>

definition devmem_usage :: string where
  "devmem_usage = ''usage: linuxrw -r 0x10000000 linuxrw -w 0x10000000 0x20000000''"

definition devmem_main :: "hardware \<Rightarrow> tool_env \<Rightarrow> string list \<Rightarrow> dump \<Rightarrow> (int \<times> dump) option" where
  "devmem_main hw env argv s =
    (if \<not> (length argv = 3 \<and> argv ! 1 = ''-r'' \<or> length argv = 4 \<and> argv ! 1 = ''-w'') then Some (-1, say (Text devmem_usage) s)
     else
       (let reg = word_of_int (strtol16 (argv ! 2)) :: u64; s = say (Title ''addr'' [uint reg]) s in
        if \<not> open_ok env then Some (-1, say (Text ''open'') s)
        else
          (let mp = mmap_mem env 4096 reg; virt_addr = uint (reg AND 4095) in do {
             s \<leftarrow> (if length argv = 3
                  then each (\<lambda>i s. do { (v, s) \<leftarrow> peek hw mp (virt_addr + 4 * int i) s; Some (say (Item ''i'' (int i) v) s) }) [0..<64] s
                  else
                    (let value = word_of_int (strtol16 (argv ! 3)) in
                     each (\<lambda>i s. do { s \<leftarrow> poke mp value (virt_addr + 4 * int i) s;
                                     (v, s) \<leftarrow> peek hw mp (virt_addr + 4 * int i) s; Some (say (Item ''i'' (int i) v) s) }) [0..<64] s));
             Some (0, s) })))"

end
