(* ===== verification/RegDumpProps.thy ===== *)
theory RegDumpProps
  imports RegDump
begin

text \<open>
  Properties of the user-space tools: what the register dump of the physical function shows and what its cleaning
  clears, that the dump of a virtual function cannot work, what the dump of the
  descriptors shows of a chain the driver has written and where it looks for it, and the words \<open>devmem\<close> reaches.
\<close>

section \<open>Runs of the tools\<close>

text \<open>What a step adds to the accesses and to the output.\<close>

definition adds :: "trace \<Rightarrow> line list \<Rightarrow> dump \<Rightarrow> dump" where
  "adds t l s = s\<lparr>dm_trace := dm_trace s @ t, dm_lines := dm_lines s @ l\<rparr>"

lemma adds_simps [simp]:
  "adds t l (adds t' l' s) = adds (t' @ t) (l' @ l) s" "adds [] [] s = s"
  "dm_trace (adds t l s) = dm_trace s @ t" "dm_lines (adds t l s) = dm_lines s @ l"
  by (simp_all add: adds_def)

lemma say_adds: "say l s = adds [] [l] s"
  by (simp add: say_def adds_def)

definition mapped :: "mapping \<Rightarrow> int \<Rightarrow> bool" where
  "mapped mp x \<longleftrightarrow> 0 \<le> x \<and> x + 4 \<le> mp_size mp"

lemma peek_adds:
  "peek (\<lambda>_. m) mp x s = (if mapped mp x then Some (m (reg_at mp x), adds [Rd (reg_at mp x) (m (reg_at mp x))] [] s) else None)"
  by (simp add: peek_def mapped_def adds_def)

lemma poke_adds: "poke mp v x s = (if mapped mp x then Some (adds [Wr (reg_at mp x) v] [] s) else None)"
  by (simp add: poke_def mapped_def adds_def)

lemma each_adds:
  assumes "\<And>i s. i \<in> set is \<Longrightarrow> f i s = Some (adds (t i) (l i) s)"
  shows "each f is s = Some (adds (concat (map t is)) (concat (map l is)) s)"
  using assms by (induction "is" arbitrary: s) simp_all

lemma each_fails: "f i s = None \<Longrightarrow> each f (i # is) s = None"
  by simp

lemma each_append: "each f (is @ js) s = Option.bind (each f is s) (each f js)"
  by (induction "is" arbitrary: s) (auto split: Option.bind_split)

lemma concat_single [simp]: "concat (map (\<lambda>x. [f x]) xs) = map f xs"
  by (induction xs) simp_all

lemma set_words: "set (words lo hi) = {x. lo \<le> x \<and> x < hi \<and> 4 dvd (x - lo)}"
proof (intro equalityI subsetI)
  fix x assume "x \<in> {x. lo \<le> x \<and> x < hi \<and> 4 dvd (x - lo)}"
  then obtain k where k: "x = lo + 4 * k" "lo \<le> x" "x < hi" by (auto simp: dvd_def algebra_simps)
  then have "0 \<le> k" "k < (hi - lo + 3) div 4" by linarith+
  then show "x \<in> set (words lo hi)" using k(1) unfolding words_def by (auto intro!: image_eqI[of _ _ "nat k"])
next
  fix x assume "x \<in> set (words lo hi)"
  then obtain k where "x = lo + 4 * int k" "k < nat ((hi - lo + 3) div 4)" by (auto simp: words_def)
  then show "x \<in> {x. lo \<le> x \<and> x < hi \<and> 4 dvd (x - lo)}" by auto
qed

section \<open>The dump of the physical function\<close>

text \<open>The lines for a table of registers.\<close>

definition shown :: "mem \<Rightarrow> mapping \<Rightarrow> int \<Rightarrow> (string \<times> u64 \<times> int) list \<Rightarrow> line list" where
  "shown m mp base = map (\<lambda>(name, k, x). Entry name k (m (reg_at mp (base + x))))"

definition items :: "string \<Rightarrow> mem \<Rightarrow> mapping \<Rightarrow> int \<Rightarrow> line list" where
  "items name m mp base = map (\<lambda>x. Item name (x div 4) (m (reg_at mp (base + x)))) (words 0 (64 * 4))"

definition reads :: "mem \<Rightarrow> mapping \<Rightarrow> int list \<Rightarrow> trace" where
  "reads m mp = map (\<lambda>x. Rd (reg_at mp x) (m (reg_at mp x)))"

lemma written_reads [simp]: "written (reads m mp xs) = {}"
  by (auto simp: written_def reads_def)

lemma print_regs_adds:
  assumes "\<forall>(n, k, x) \<in> set regs. mapped mp (base + x)"
  shows "print_regs (\<lambda>_. m) mp base regs s = Some (adds (reads m mp (map (\<lambda>(n, k, x). base + x) regs)) (shown m mp base regs) s)"
proof -
  have "print_regs (\<lambda>_. m) mp base regs s = Some (adds
      (concat (map (\<lambda>(n, k, x). [Rd (reg_at mp (base + x)) (m (reg_at mp (base + x)))]) regs))
      (concat (map (\<lambda>(n, k, x). [Entry n k (m (reg_at mp (base + x)))]) regs)) s)"
    unfolding print_regs_def
  proof (rule each_adds)
    fix r s assume "r \<in> set regs"
    then show "(case r of (n, k, x) \<Rightarrow> \<lambda>s. Option.bind (peek (\<lambda>_. m) mp (base + x) s) (\<lambda>(v, s). Some (say (Entry n k v) s))) s =
        Some (adds (case r of (n, k, x) \<Rightarrow> [Rd (reg_at mp (base + x)) (m (reg_at mp (base + x)))])
          (case r of (n, k, x) \<Rightarrow> [Entry n k (m (reg_at mp (base + x)))]) s)"
      using assms by (cases r) (auto simp: peek_adds say_adds)
  qed
  then show ?thesis by (simp add: reads_def shown_def split_def comp_def)
qed

lemma items_adds:
  assumes "\<And>x. 0 \<le> x \<Longrightarrow> x < 256 \<Longrightarrow> mapped mp (base + x)"
  shows "each (\<lambda>i s. Option.bind (peek (\<lambda>_. m) mp (base + i) s) (\<lambda>(v, s). Some (say (Item name (i div 4) v) s))) (words 0 (64 * 4)) s =
    Some (adds (reads m mp (map (\<lambda>x. base + x) (words 0 (64 * 4)))) (items name m mp base) s)"
proof -
  have "each (\<lambda>i s. Option.bind (peek (\<lambda>_. m) mp (base + i) s) (\<lambda>(v, s). Some (say (Item name (i div 4) v) s))) (words 0 (64 * 4)) s =
      Some (adds (concat (map (\<lambda>x. [Rd (reg_at mp (base + x)) (m (reg_at mp (base + x)))]) (words 0 (64 * 4))))
        (concat (map (\<lambda>x. [Item name (x div 4) (m (reg_at mp (base + x)))]) (words 0 (64 * 4)))) s)"
    by (rule each_adds) (use assms in \<open>auto simp: set_words peek_adds say_adds\<close>)
  then show ?thesis by (simp add: reads_def items_def comp_def)
qed

lemma table_bounds:
  "\<forall>(n, k, x) \<in> set rd_regs. 0 \<le> x \<and> x \<le> 0x41c" "\<forall>(n, k, x) \<in> set wr_regs. 0 \<le> x \<and> x \<le> 0xc1c"
  "0 \<le> ch \<Longrightarrow> ch < 64 \<Longrightarrow> \<forall>(n, k, x) \<in> set (comm_regs ch). 0 \<le> x \<and> x \<le> 0x2900"
  by (simp_all add: rd_regs_def wr_regs_def comm_regs_def)

text \<open>The mapping of a run, and the offset of a channel.\<close>

abbreviation pf0_map :: "tool_env \<Rightarrow> string list \<Rightarrow> mapping" where
  "pf0_map env argv \<equiv> mmap_mem env 0x2000000 (word_of_int (strtol16 (argv ! 1)))"

abbreviation pf0_ch :: "int \<Rightarrow> int" where
  "pf0_ch ch \<equiv> 0x383000 + ch * 0x1000"

text \<open>The dump of a channel of the engine only reads, and prints every register of the tables with the value it has.\<close>

theorem pf0_dump_shows:
  assumes "length argv = 4" "c_int (strtol16 (argv ! 2)) = 0" "c_int (strtol16 (argv ! 3)) = ch" "0 \<le> ch" "ch < 64"
    "open_ok env" "mmap_ok env" "pf0_map env argv = mp"
  shows "\<exists>s' u. pf0_main (\<lambda>_. m) env argv s = Some (0, s') \<and> dm_trace s' = dm_trace s @ u \<and> written u = {} \<and>
    dm_lines s' = dm_lines s @ [Title ''pcie bar0, ch num'' [uint (word_of_int (strtol16 (argv ! 1)) :: u64), ch], Text ''common register start''] @
      shown m mp 0x380000 (comm_regs ch) @ [Text ''common register end''] @ items ''ch_secure'' m mp 0x380020 @ items ''ch_osid'' m mp 0x382000 @
      [Title ''channel reg for read start'' [ch]] @ shown m mp (pf0_ch ch) rd_regs @ [Title ''channel reg for read end'' [ch],
       Title ''channel reg for write start'' [ch]] @ shown m mp (pf0_ch ch) wr_regs @ [Title ''channel reg for write end'' [ch]]"
proof -
  have sz: "mp_size mp = 0x2000000" using assms(7,8) by (auto simp: mmap_mem_def)
  have c: "c_mul ch 0x1000 = Some (ch * 0x1000)" using assms(4,5) by (simp add: c_mul_def)
  have comm: "\<forall>(n, k, x) \<in> set (comm_regs ch). mapped mp (0x380000 + x)" using table_bounds(3)[OF assms(4,5)] by (auto simp: mapped_def sz)
  have rd: "\<forall>(n, k, x) \<in> set rd_regs. mapped mp (pf0_ch ch + x)" using table_bounds(1) assms(4,5) by (auto simp: mapped_def sz)
  have wr: "\<forall>(n, k, x) \<in> set wr_regs. mapped mp (pf0_ch ch + x)" using table_bounds(2) assms(4,5) by (auto simp: mapped_def sz)
  have it: "mapped mp (0x380020 + x)" "mapped mp (0x382000 + x)" if "0 \<le> x" "x < 256" for x using that by (simp_all add: mapped_def sz)
  have items: "print_comm_ch_secure (\<lambda>_. m) mp 0x380000 s = Some (adds (reads m mp (map ((+) 0x380020) (words 0 (64 * 4)))) (items ''ch_secure'' m mp 0x380020) s)"
    "print_ch_osid (\<lambda>_. m) mp 0x380000 s = Some (adds (reads m mp (map ((+) 0x382000) (words 0 (64 * 4)))) (items ''ch_osid'' m mp 0x382000) s)" for s
    using items_adds[OF it(1), of m "''ch_secure''"] items_adds[OF it(2), of m "''ch_osid''"] by (simp_all add: print_comm_ch_secure_def print_ch_osid_def)
  note runs = print_regs_adds[OF comm, of m] print_regs_adds[OF rd, of m] print_regs_adds[OF wr, of m] items
  show ?thesis using assms(1,2,3,6,8)
    by (simp add: pf0_main_def Let_def c PCIE_MT_DMA_CH_def PCIE_MT_DMA_COMM_def print_comm_reg_def
        print_channel_reg_rd_def print_channel_reg_wr_def runs say_adds)
qed

text \<open>Of the lines printed for the common registers all name the register they show, but for the channel's own entry of a table and three
  lines: one of these names the register before the one shown, and two the table of another register.\<close>

lemma comm_regs_labels:
  "filter (\<lambda>(n, k, x). word_of_int x \<noteq> k) (comm_regs 0) =
    [(''dma_wch_mrg_imsk c128'', 0xc48, 0xc4c), (''dma_ch_osid'', 0x1800, 0x2000), (''dma_ch_context_id'', 0x1800, 0x2800)]"
  by (simp add: comm_regs_def)

lemma channel_regs_labels: "\<forall>(n, k, x) \<in> set (rd_regs @ wr_regs). word_of_int x = k"
  by (simp add: rd_regs_def wr_regs_def)

section \<open>Cleaning a channel\<close>

text \<open>The offsets that are cleared.\<close>

definition cleaned :: "int \<Rightarrow> int \<Rightarrow> bool" where
  "cleaned ch x \<longleftrightarrow> 4 dvd x \<and> (0x380000 \<le> x \<and> x < 0x380c74 \<or> pf0_ch ch \<le> x \<and> x < pf0_ch ch + 0x41c \<or>
     pf0_ch ch + 0x800 \<le> x \<and> x < pf0_ch ch + 0xc1c)"

definition clears :: "mapping \<Rightarrow> int list \<Rightarrow> trace" where
  "clears mp = map (\<lambda>x. Wr (reg_at mp x) 0)"

lemma mem_after_clears: "mem_after (clears mp xs) m a = (if a \<in> reg_at mp ` set xs then 0 else m a)"
  by (induction xs arbitrary: m) (simp_all add: clears_def)

lemma each_poke:
  assumes "\<And>x. x \<in> set xs \<Longrightarrow> mapped mp (base + x)"
  shows "each (\<lambda>x. poke mp 0 (base + x)) xs s = Some (adds (clears mp (map ((+) base) xs)) [] s)"
proof -
  have "each (\<lambda>x. poke mp 0 (base + x)) xs s = Some (adds (concat (map (\<lambda>x. [Wr (reg_at mp (base + x)) 0]) xs)) (concat (map (\<lambda>x. []) xs)) s)"
    by (rule each_adds) (use assms in \<open>simp add: poke_adds\<close>)
  then show ?thesis by (simp add: clears_def comp_def)
qed

lemma reg_at_inj:
  assumes "0 \<le> x" "0 \<le> y" "x < 2 ^ 64" "y < 2 ^ 64"
  shows "reg_at mp x = reg_at mp y \<longleftrightarrow> x = y"
  using assms by (simp add: reg_at_def word_of_int_eq_iff take_bit_int_eq_self)

lemma cleaned_words:
  "set (map ((+) 0x380000) (words 0 0x0c74) @ map ((+) (pf0_ch ch)) (words 0 0x041c) @ map ((+) (pf0_ch ch)) (words 0x800 0xc1c)) = {x. cleaned ch x}"
proof (intro set_eqI iffI)
  let ?A = "map ((+) 0x380000) (words 0 0x0c74)" and ?B = "map ((+) (pf0_ch ch)) (words 0 0x041c)" and ?C = "map ((+) (pf0_ch ch)) (words 0x800 0xc1c)"
  fix x assume x: "x \<in> {x. cleaned ch x}"
  have "4 dvd pf0_ch ch" by simp
  moreover have "4 dvd (0x380000 :: int)" by simp
  ultimately have "4 dvd x - pf0_ch ch" "4 dvd x - pf0_ch ch - 0x800" "4 dvd x - 0x380000" using x by (auto simp: cleaned_def intro!: dvd_diff)
  then show "x \<in> set (?A @ ?B @ ?C)" using x unfolding cleaned_def
    by (auto simp: set_words intro!: image_eqI[of x "(+) (pf0_ch ch)" "x - pf0_ch ch"] image_eqI[of x "(+) 0x380000" "x - 0x380000"])
next
  have 4: "4 dvd y - 2048 \<Longrightarrow> 4 dvd y" for y :: int by presburger
  fix x assume "x \<in> set (map ((+) 0x380000) (words 0 0x0c74) @ map ((+) (pf0_ch ch)) (words 0 0x041c) @ map ((+) (pf0_ch ch)) (words 0x800 0xc1c))"
  then show "x \<in> {x. cleaned ch x}" by (auto simp: set_words cleaned_def intro!: dvd_add dest: 4)
qed

text \<open>C37. Cleaning sets the listed registers of the engine and of one channel to 0 and changes no other register of the
  mapping: nothing of another channel, but also not the last register of each of the three blocks (the merged interrupt status and the high half of the
  next descriptor of either direction), which the loops stop before.\<close>

theorem pf0_clean_exact:
  assumes "length argv = 4" "c_int (strtol16 (argv ! 2)) \<noteq> 0" "c_int (strtol16 (argv ! 3)) = ch" "0 \<le> ch" "ch < 64"
    "open_ok env" "mmap_ok env" "pf0_map env argv = mp"
  shows "\<exists>s' u. pf0_main hw env argv s = Some (0, s') \<and> dm_trace s' = dm_trace s @ u \<and>
    (\<forall>m. \<forall>x \<in> {0..<0x2000000}. mem_after u m (reg_at mp x) = (if cleaned ch x then 0 else m (reg_at mp x))) \<and>
    \<not> cleaned ch 0x380c74 \<and> \<not> cleaned ch (pf0_ch ch + 0x41c) \<and> \<not> cleaned ch (pf0_ch ch + 0xc1c) \<and>
    (\<forall>c \<in> {0..<64} - {ch}. \<forall>x \<in> {0..<0x1000}. \<not> cleaned ch (pf0_ch c + x))"
proof -
  have sz: "mp_size mp = 0x2000000" using assms(7,8) by (auto simp: mmap_mem_def)
  have c: "c_mul ch 0x1000 = Some (ch * 0x1000)" using assms(4,5) by (simp add: c_mul_def)
  let ?A = "map ((+) 0x380000) (words 0 0x0c74)" and ?B = "map ((+) (pf0_ch ch)) (words 0 0x041c)" and ?C = "map ((+) (pf0_ch ch)) (words 0x800 0xc1c)"
  have m: "x \<in> set (words 0 0x0c74) \<Longrightarrow> mapped mp (0x380000 + x)" "x \<in> set (words 0 0x041c) \<Longrightarrow> mapped mp (pf0_ch ch + x)"
      "x \<in> set (words 0x800 0xc1c) \<Longrightarrow> mapped mp (pf0_ch ch + x)" for x
    using assms(4,5) by (auto simp: set_words mapped_def sz)
  note runs = each_poke[OF m(1)] each_poke[OF m(2)] each_poke[OF m(3)]
  have run: "\<exists>s'. pf0_main hw env argv s = Some (0, s') \<and> dm_trace s' = dm_trace s @ clears mp (?A @ ?B @ ?C)"
    using assms(1-3,6,8) by (simp add: pf0_main_def mtmda_reg_clean_def Let_def c PCIE_MT_DMA_CH_def PCIE_MT_DMA_COMM_def runs say_adds) (simp add: clears_def)
  note set = cleaned_words[of ch]
  have "mem_after (clears mp (?A @ ?B @ ?C)) m (reg_at mp x) = (if cleaned ch x then 0 else m (reg_at mp x))" if x: "x \<in> {0..<0x2000000}" for m x
  proof -
    have "reg_at mp x \<in> reg_at mp ` {x. cleaned ch x} \<longleftrightarrow> cleaned ch x"
    proof
      assume "reg_at mp x \<in> reg_at mp ` {x. cleaned ch x}"
      then obtain y where y: "cleaned ch y" "reg_at mp x = reg_at mp y" by auto
      then have "0 \<le> y" "y < 2 ^ 64" using assms(4,5) by (auto simp: cleaned_def)
      then show "cleaned ch x" using x y reg_at_inj[of x y mp] by simp
    qed simp
    then show ?thesis unfolding mem_after_clears set by simp
  qed
  moreover have "\<not> cleaned ch 0x380c74" "\<not> cleaned ch (pf0_ch ch + 0x41c)" "\<not> cleaned ch (pf0_ch ch + 0xc1c)"
    using assms(4,5) by (auto simp: cleaned_def)
  moreover have "\<not> cleaned ch (pf0_ch c + x)" if "c \<in> {0..<64} - {ch}" "x \<in> {0..<0x1000}" for c x
    using that assms(4,5) by (auto simp: cleaned_def)
  ultimately show ?thesis using run by metis
qed

text \<open>The channels the tool and the driver mean are the same, and a cleaned channel is disabled in both directions.\<close>

lemma pf0_ch_driver:
  assumes "i < 64"
  shows "io_off rg (word_of_int (pf0_ch (int i))) = rg_vaddr (build_chan sys ll rg n 1 i)"
    "io_off rg (word_of_int (pf0_ch (int i) + 0x800)) = rg_vaddr (build_chan sys ll rg n 0 i)"
  by (simp_all add: build_chan_def chan_at_def Let_def algebra_simps)

section \<open>The dump of a virtual function\<close>

text \<open>The dump of a virtual function never succeeds: it maps one page and the first register it reads is two pages behind it; and
  started as its usage line says, with two arguments, it prints the usage line, since it wants an argument it does not use.\<close>

theorem vf_main_fails:
  "vf_main hw env argv s =
    (if length argv \<noteq> 4 then Some (-1, say (Text ''usage : ./a.out 0x10000000 0x1'') s)
     else if open_ok env then None
     else Some (-1, say (Text ''open'') (say (Title ''pcie bar0, ch num'' [uint (word_of_int (strtol16 (argv ! 1)) :: u64), c_int (strtol16 (argv ! 2))]) s)))"
  by (simp add: vf_main_def vf_print_channel_reg_rd_def print_channel_reg_rd_def print_regs_def rd_regs_def peek_def mmap_mem_def Let_def)

section \<open>The dump of the descriptors\<close>










text \<open>But the tool looks at the right place for one channel only: the driver's list memories are 65536 descriptors long, those of
  the write channels first and then those of the read channels, the tool's 65535 descriptors, with the two directions of a channel side
  by side.  They meet at the first write channel and at no other, in either direction.\<close>

theorem desc_dump_misplaced:
  assumes "i < 64" "n \<le> 64"
  shows "\<exists>wr rd. pdesc_ch (int i) = Some (wr, rd) \<and>
    (io_off ll (0x80000000 + word_of_int wr) = ll_vaddr (build_chan sys ll rg n 0 i) \<longleftrightarrow> i = 0) \<and>
    io_off ll (0x80000000 + word_of_int rd) \<noteq> ll_vaddr (build_chan sys ll rg n 1 i)"
proof -
  have u: "ucast (LL_SZ * of_nat i) = (of_nat (2097152 * i) :: u64)"
    using assms(1) by (intro word_unat_eq_iff[THEN iffD2])
      (simp add: LL_SZ_def unsigned_ucast_eq unat_word_ariths unsigned_of_nat take_bit_nat_eq_self)
  have inj: "(of_nat a :: u64) = of_nat b \<longleftrightarrow> a = b" if "a < 2 ^ 64" "b < 2 ^ 64" for a b
    using that by (simp add: word_of_nat_eq_iff take_bit_nat_eq_self)
  have n: "unat n \<le> 64" using assms(2) by (simp add: word_le_nat_alt)
  have un: "(ucast n :: u64) = of_nat (unat n)" by simp
  have "io_off ll (0x80000000 + word_of_int (int (4194240 * i))) = ll_vaddr (build_chan sys ll rg n 0 i) \<longleftrightarrow> (of_nat (4194240 * i) :: u64) = of_nat (2097152 * i)"
    by (simp add: build_chan_def chan_at_def Let_def u io_off_def add.commute)
  then have w: "io_off ll (0x80000000 + word_of_int (int (4194240 * i))) = ll_vaddr (build_chan sys ll rg n 0 i) \<longleftrightarrow> i = 0"
    using assms(1) by (subst (asm) inj) simp_all
  have "(io_off ll (0x80000000 + word_of_int (int (4194240 * i + 2097120))) = ll_vaddr (build_chan sys ll rg n 1 i)) \<longleftrightarrow>
      (of_nat (4194240 * i + 2097120) :: u64) = of_nat (2097152 * i + 2097152 * unat n)"
    by (simp add: build_chan_def chan_at_def Let_def u io_off_def un algebra_simps del: of_nat_unat)
  also have "\<dots> \<longleftrightarrow> 4194240 * i + 2097120 = 2097152 * i + 2097152 * unat n" using assms(1) n by (intro inj) simp_all
  also have "\<dots> \<longleftrightarrow> False"
  proof
    assume "4194240 * i + 2097120 = 2097152 * i + 2097152 * unat n"
    then have "32 * (131070 * i + 65535) = 32 * (65536 * (i + unat n))" by (simp add: algebra_simps)
    then have e: "131070 * i + 65535 = 65536 * (i + unat n)" by (simp only: mult_left_cancel)
    have "even (65536 * (i + unat n))" "odd (131070 * i + 65535)" by simp_all
    then show False unfolding e by blast
  qed simp
  finally show ?thesis using w assms(1)
    by (intro exI[of _ "int (4194240 * i)"] exI[of _ "int (4194240 * i + 2097120)"]) (simp add: pdesc_ch_def c_mul_def algebra_simps)
qed

section \<open>Words of physical memory\<close>

lemma page_split: "((reg :: u64) AND NOT 4095) + (reg AND 4095) = reg"
proof -
  have "(reg AND NOT 4095) + (reg AND 4095) = (reg AND NOT 4095) OR (reg AND 4095)"
    by (intro disjunctive_add_eq_or) (auto simp: bit_eq_iff bit_simps)
  also have "\<dots> = reg" by (auto simp: bit_eq_iff bit_simps)
  finally show ?thesis .
qed

lemma each_none: "i \<in> set is \<Longrightarrow> (\<And>s. f i s = None) \<Longrightarrow> each f is s = None"
  by (induction "is" arbitrary: s) (auto split: Option.bind_split)

lemma each_writes:
  assumes "\<And>i s. i \<in> set is \<Longrightarrow> \<exists>u l. f i s = Some (adds u l s) \<and> writes u = w i"
  shows "\<exists>u l. each f is s = Some (adds u l s) \<and> writes u = concat (map w is)"
  using assms
proof (induction "is" arbitrary: s)
  case (Cons i js)
  obtain u l where 1: "f i s = Some (adds u l s)" "writes u = w i" using Cons.prems by force
  obtain v k where 2: "each f js (adds u l s) = Some (adds v k (adds u l s))" "writes v = concat (map w js)"
    using Cons.IH[of "adds u l s"] Cons.prems by force
  show ?case using 1 2 by (intro exI[of _ "u @ v"] exI[of _ "l @ k"]) simp
qed (simp add: exI[of _ "[]"])

abbreviation devmem_off :: "u64 \<Rightarrow> nat \<Rightarrow> int" where
  "devmem_off reg i \<equiv> uint (reg AND 4095) + 4 * int i"

lemma devmem_at: "reg_at (mmap_mem env 4096 reg) (devmem_off reg i) = (phys env, reg + 4 * of_nat i)"
  using page_split[of reg] by (simp add: reg_at_def mmap_mem_def io_off_def flip: add.assoc)

lemma devmem_mapped: "mmap_ok env \<Longrightarrow> mapped (mmap_mem env 4096 reg) (devmem_off reg i) \<longleftrightarrow> devmem_off reg i \<le> 4092"
  by (auto simp: mapped_def mmap_mem_def)

lemma devmem_fill:
  assumes "\<And>i. i < 64 \<Longrightarrow> mapped mp (devmem_off reg i)" "mp = mmap_mem env 4096 reg"
  shows "\<exists>u l. each (\<lambda>i s. Option.bind (poke mp v (devmem_off reg i) s) (\<lambda>s. Option.bind (peek hw mp (devmem_off reg i) s)
      (\<lambda>(v, s). Some (say (Item ''i'' (int i) v) s)))) [0..<64] s = Some (adds u l s) \<and>
    writes u = map (\<lambda>i. ((phys env, reg + 4 * of_nat i), v)) [0..<64]"
proof -
  let ?w = "\<lambda>i s. Option.bind (poke mp v (devmem_off reg i) s) (\<lambda>s. Option.bind (peek hw mp (devmem_off reg i) s) (\<lambda>(v, s). Some (say (Item ''i'' (int i) v) s)))"
  have "\<exists>u l. each ?w [0..<64] s = Some (adds u l s) \<and> writes u = concat (map (\<lambda>i. [((phys env, reg + 4 * of_nat i), v)]) [0..<64])"
  proof (rule each_writes)
    fix i s assume "i \<in> set [0..<64 :: nat]"
    then have "?w i s = Some (adds [Wr (reg_at mp (devmem_off reg i)) v,
        Rd (reg_at mp (devmem_off reg i)) (hw (dm_trace s @ [Wr (reg_at mp (devmem_off reg i)) v]) (reg_at mp (devmem_off reg i)))]
        [Item ''i'' (int i) (hw (dm_trace s @ [Wr (reg_at mp (devmem_off reg i)) v]) (reg_at mp (devmem_off reg i)))] s)"
      using assms(1)[of i] by (simp add: poke_adds peek_def mapped_def adds_def say_def)
    then show "\<exists>u l. ?w i s = Some (adds u l s) \<and> writes u = [((phys env, reg + 4 * of_nat i), v)]" by (auto simp: assms(2) devmem_at)
  qed
  then show ?thesis by (simp only: concat_single)
qed

text \<open>The tool reads or fills the 64 words from the address on, not the one word its usage line suggests; when they do not end in the page of the
  address it is stopped.\<close>

theorem devmem_words:
  assumes "open_ok env" "mmap_ok env" "reg = word_of_int (strtol16 a)"
  shows "devmem_main (\<lambda>_. m) env [name, ''-r'', a] s =
      (if uint (reg AND 4095) \<le> 0xf00
       then Some (0, adds (map (\<lambda>i. Rd (phys env, reg + 4 * of_nat i) (m (phys env, reg + 4 * of_nat i))) [0..<64])
         (Title ''addr'' [uint reg] # map (\<lambda>i. Item ''i'' (int i) (m (phys env, reg + 4 * of_nat i))) [0..<64]) s)
       else None) \<and>
    (if uint (reg AND 4095) \<le> 0xf00
     then \<exists>u l. devmem_main hw env [name, ''-w'', a, v] s = Some (0, adds u l s) \<and>
       writes u = map (\<lambda>i. ((phys env, reg + 4 * of_nat i), word_of_int (strtol16 v))) [0..<64]
     else devmem_main hw env [name, ''-w'', a, v] s = None)"
proof -
  let ?mp = "mmap_mem env 4096 reg" and ?s = "say (Title ''addr'' [uint reg]) s"
  let ?r = "\<lambda>i s. Option.bind (peek (\<lambda>_. m) ?mp (devmem_off reg i) s) (\<lambda>(v, s). Some (say (Item ''i'' (int i) v) s))"
  let ?w = "\<lambda>i s. Option.bind (poke ?mp (word_of_int (strtol16 v)) (devmem_off reg i) s) (\<lambda>s. Option.bind (peek hw ?mp (devmem_off reg i) s)
    (\<lambda>(v, s). Some (say (Item ''i'' (int i) v) s)))"
  have run: "devmem_main (\<lambda>_. m) env [name, ''-r'', a] s = Option.bind (each ?r [0..<64] ?s) (\<lambda>s. Some (0, s))"
    "devmem_main hw env [name, ''-w'', a, v] s = Option.bind (each ?w [0..<64] ?s) (\<lambda>s. Some (0, s))"
    using assms(1,3) by (simp_all add: devmem_main_def Let_def del: upt.simps)
  show ?thesis
  proof (cases "uint (reg AND 4095) \<le> 0xf00")
    case True
    then have ok: "mapped ?mp (devmem_off reg i)" if "i < 64" for i using that by (simp add: devmem_mapped[OF assms(2)])
    have "each ?r [0..<64] s = Some (adds (concat (map (\<lambda>i. [Rd (phys env, reg + 4 * of_nat i) (m (phys env, reg + 4 * of_nat i))]) [0..<64]))
        (concat (map (\<lambda>i. [Item ''i'' (int i) (m (phys env, reg + 4 * of_nat i))]) [0..<64])) s)" for s
      by (rule each_adds) (simp add: ok peek_adds say_adds devmem_at)
    then have 1: "each ?r [0..<64] s = Some (adds (map (\<lambda>i. Rd (phys env, reg + 4 * of_nat i) (m (phys env, reg + 4 * of_nat i))) [0..<64])
        (map (\<lambda>i. Item ''i'' (int i) (m (phys env, reg + 4 * of_nat i))) [0..<64]) s)" for s by (simp only: concat_single)
    obtain u l where "each ?w [0..<64] ?s = Some (adds u l ?s)"
        "writes u = map (\<lambda>i. ((phys env, reg + 4 * of_nat i), word_of_int (strtol16 v))) [0..<64]"
      using devmem_fill[OF ok refl, of "word_of_int (strtol16 v)" hw ?s] by blast
    then show ?thesis using True unfolding run 1 by (simp add: say_adds del: upt.simps) blast
  next
    case False
    then have no: "\<not> mapped ?mp (devmem_off reg 63)" unfolding devmem_mapped[OF assms(2)] by simp
    have "each ?r [0..<64] s = None" "each ?w [0..<64] s = None" for s
      by (rule each_none[of 63], simp, simp only: peek_adds poke_adds no if_False Option.bind.bind_lzero)+
    then show ?thesis using False unfolding run by simp
  qed
qed

section \<open>Witnesses\<close>

definition demo_tool :: tool_env where "demo_tool = \<lparr>open_ok = True, mmap_ok = True, phys = 0\<rparr>"

definition demo_dump :: dump where "demo_dump = \<lparr>dm_trace = [], dm_lines = []\<rparr>"

lemmas arg_defs = strtol16_def hex_number_def hex_digit_def c_int_def demo_tool_def

theorem pf0_dump_shows_witness:
  "\<exists>s'. pf0_main (\<lambda>_ _. 7) demo_tool [''dump'', ''0x10000000'', ''0'', ''0x3f''] demo_dump = Some (0, s')"
  using pf0_dump_shows[of "[''dump'', ''0x10000000'', ''0'', ''0x3f'']" 63 demo_tool _ "\<lambda>_. 7" demo_dump] by (fastforce simp: arg_defs)

theorem pf0_clean_exact_witness:
  "\<exists>s' u. pf0_main (\<lambda>_ _. 7) demo_tool [''dump'', ''0x10000000'', ''1'', ''0x3f''] demo_dump = Some (0, s') \<and> dm_trace s' = dm_trace demo_dump @ u \<and>
    mem_after u (\<lambda>_. 7) (reg_at (pf0_map demo_tool [''dump'', ''0x10000000'', ''1'', ''0x3f'']) 0x380c70) = 0 \<and>
    mem_after u (\<lambda>_. 7) (reg_at (pf0_map demo_tool [''dump'', ''0x10000000'', ''1'', ''0x3f'']) 0x380c74) = 7"
proof -
  obtain s' u where "pf0_main (\<lambda>_ _. 7) demo_tool [''dump'', ''0x10000000'', ''1'', ''0x3f''] demo_dump = Some (0, s')" "dm_trace s' = dm_trace demo_dump @ u"
      "\<forall>m. \<forall>x \<in> {0..<0x2000000}. mem_after u m (reg_at (pf0_map demo_tool [''dump'', ''0x10000000'', ''1'', ''0x3f'']) x) =
        (if cleaned 63 x then 0 else m (reg_at (pf0_map demo_tool [''dump'', ''0x10000000'', ''1'', ''0x3f'']) x))"
    using pf0_clean_exact[of "[''dump'', ''0x10000000'', ''1'', ''0x3f'']" 63 demo_tool _ "\<lambda>_ _. 7" demo_dump, OF _ _ _ _ _ _ _ refl]
    by (auto simp: arg_defs)
  then show ?thesis by (intro exI[of _ s'] exI[of _ u]) (simp add: cleaned_def)
qed

theorem desc_dump_misplaced_witness: "\<exists>wr rd. pdesc_ch (int 5) = Some (wr, rd) \<and> io_off (2, 0) (0x80000000 + word_of_int wr) \<noteq>
    ll_vaddr (build_chan (9, 0) (2, 0) (0, 0) 64 0 5)"
  using desc_dump_misplaced[of 5 64 "(2, 0)" "(9, 0)" "(0, 0)"] by auto


theorem devmem_words_witness: "devmem_main (\<lambda>_ _. 0) demo_tool [''devmem'', ''-r'', ''0x10000f04''] demo_dump = None"
  using devmem_words[of demo_tool "0x10000f04" "''0x10000f04''"] by (simp add: arg_defs)

end
