(* ===== verification/AddrMap.thy ===== *)
theory AddrMap
  imports Prelude
begin

text \<open>
  The address map of the chip in \<open>src/driver/comm_define.h\<close>.  It gives every module a first address
  \<open>M_BASE\<close> and a limit \<open>M_LIMIT\<close>; a module is named here as there, without the suffix, and a number in
  the name is an argument of the constructor.  Macros with an index select one of several
  modules of a kind.  The map is the list of lines 28 to 629 of the header; the pairs of a base and
  a limit that it declares elsewhere, for the memory and as second names of the graphics cores, are \<open>DDR\<close> and \<open>second_names\<close>.
  \<open>CE_CFG\<close> and \<open>BASE_ADDR_UART\<close> have the macro for the base only.  \<open>WAVE517_CFG_LIMIT\<close> has a
  closing parenthesis too many and \<open>LINK_WRAP_CFG_LIMIT\<close> lacks its parameter; both are modelled as if they were well formed.
\<close>

section \<open>The regions\<close>

text \<open>The base and the limit; \<open>REG_BASE\<close>, to which most are relative, is 0.\<close>

type_synonym region = "int \<times> int"

text \<open>The front end, the system manager and the clocks.\<close>

datatype soc_module =
  ROM | FE_GIC_CFG | FE_UART_CFG | FE_SS_CFG_AUD | FE_SS_CFG_NS | FE_SS_CFG_S | FE_CRG_CFG | FE_TZC_CFG | FE_AMT_CFG | FE_TS_CFG | FE_TS_CFG_RO
  | FE_TIMER_CFG | PWM_CFG_NS | SM_UART_CFG | BIF_CFG | EFUSE_CFG | SM_DMAC_CFG | PMU_CFG | SM_TIMER_CFG | I2C_MST_CFG nat | TE_CFG | SM_GIC_CFG
  | SM_CRG_CFG | SM_TS_CFG | PWM_CFG_S | SM_TZC_CFG | SM_AMT_CFG | PADC_CFG | INTD_CFG | I2C_SLV_CFG | PVT_CFG | NOC_CRG_CFG | GPU_CRG_CFG nat
  | DDR_CRG_CFG nat | NOC_PMU_CFG

definition soc_map :: "(soc_module \<times> region) list" where
  "soc_map =
    [(ROM, 0x0, 0x20000), (FE_GIC_CFG, 0x20000, 0x28000), (FE_UART_CFG, 0x28000, 0x29000),
     (FE_SS_CFG_AUD, 0x29000, 0x29400), (FE_SS_CFG_NS, 0x29400, 0x29800), (FE_SS_CFG_S, 0x29800, 0x2a000),
     (FE_CRG_CFG, 0x2a000, 0x2b000), (FE_TZC_CFG, 0x2b000, 0x2c000), (FE_AMT_CFG, 0x2c000, 0x2d000),
     (FE_TS_CFG, 0x2d000, 0x2e000), (FE_TS_CFG_RO, 0x2e000, 0x2f000), (FE_TIMER_CFG, 0x2f000, 0x30000),
     (PWM_CFG_NS, 0x30000, 0x31000), (SM_UART_CFG, 0x80000, 0x80400), (BIF_CFG, 0x80400, 0x80800),
     (EFUSE_CFG, 0x80800, 0x81000), (SM_DMAC_CFG, 0x81000, 0x81400), (PMU_CFG, 0x81400, 0x81800),
     (SM_TIMER_CFG, 0x81800, 0x81c00), (I2C_MST_CFG 0, 0x82000, 0x82400), (I2C_MST_CFG 1, 0x83000, 0x83400),
     (TE_CFG, 0x84000, 0x88000), (SM_GIC_CFG, 0x88000, 0x90000), (SM_CRG_CFG, 0x90000, 0x91000),
     (SM_TS_CFG, 0x91000, 0x92000), (PWM_CFG_S, 0x92000, 0x93000), (SM_TZC_CFG, 0x93000, 0x94000),
     (SM_AMT_CFG, 0x94000, 0x95000), (PADC_CFG, 0x95000, 0x96000), (INTD_CFG, 0x97000, 0x98000),
     (I2C_SLV_CFG, 0x98000, 0x98400), (PVT_CFG, 0x99000, 0x9b000), (NOC_CRG_CFG, 0xb0000, 0xb1000),
     (GPU_CRG_CFG 0, 0xb1000, 0xb1400), (GPU_CRG_CFG 1, 0xb1400, 0xb1800), (GPU_CRG_CFG 2, 0xb1800, 0xb1c00),
     (GPU_CRG_CFG 3, 0xb1c00, 0xb2000), (DDR_CRG_CFG 0, 0xb2000, 0xb3000), (DDR_CRG_CFG 1, 0xb3000, 0xb4000),
     (NOC_PMU_CFG, 0xc1000, 0xc2000)]"

text \<open>The display.\<close>

datatype disp_module =
  DPTX_CTRL_CFG nat | DPTX_PHY_CFG nat | DE_CFG nat | DISP_CRG_CFG | DP_CRG_CFG | TRNG_CFG nat | HDCP_CFG nat | DPTX_CUST_CFG nat | DSC_CFG nat
  | I2S_CFG nat | DISP_SS_TZC_CFG | DISP_SS_AMT_CFG

definition disp_map :: "(disp_module \<times> region) list" where
  "disp_map =
    [(DPTX_CTRL_CFG 0, 0x100000, 0x110000), (DPTX_CTRL_CFG 1, 0x110000, 0x120000),
     (DPTX_CTRL_CFG 2, 0x120000, 0x130000), (DPTX_CTRL_CFG 3, 0x130000, 0x140000),
     (DPTX_PHY_CFG 0, 0x140000, 0x150000), (DPTX_PHY_CFG 1, 0x150000, 0x160000), (DPTX_PHY_CFG 2, 0x160000, 0x170000),
     (DPTX_PHY_CFG 3, 0x170000, 0x180000), (DE_CFG 0, 0x180000, 0x181000), (DE_CFG 1, 0x181000, 0x182000),
     (DE_CFG 2, 0x182000, 0x183000), (DE_CFG 3, 0x183000, 0x184000), (DISP_CRG_CFG, 0x184800, 0x184c00),
     (DP_CRG_CFG, 0x184c00, 0x185000), (TRNG_CFG 0, 0x185000, 0x185400), (TRNG_CFG 1, 0x185400, 0x185800),
     (TRNG_CFG 2, 0x185800, 0x185c00), (TRNG_CFG 3, 0x185c00, 0x186000), (HDCP_CFG 0, 0x186000, 0x186200),
     (HDCP_CFG 1, 0x186200, 0x186400), (HDCP_CFG 2, 0x186400, 0x186600), (HDCP_CFG 3, 0x186600, 0x186800),
     (DPTX_CUST_CFG 0, 0x186800, 0x186a00), (DPTX_CUST_CFG 1, 0x186a00, 0x186c00),
     (DPTX_CUST_CFG 2, 0x186c00, 0x186e00), (DPTX_CUST_CFG 3, 0x186e00, 0x187000), (DSC_CFG 0, 0x187000, 0x187100),
     (DSC_CFG 1, 0x187400, 0x187500), (DSC_CFG 2, 0x187800, 0x187900), (DSC_CFG 3, 0x187c00, 0x187d00),
     (I2S_CFG 0, 0x188000, 0x188400), (I2S_CFG 1, 0x188400, 0x188800), (I2S_CFG 2, 0x188800, 0x188c00),
     (I2S_CFG 3, 0x188c00, 0x189000), (DISP_SS_TZC_CFG, 0x189000, 0x18a000), (DISP_SS_AMT_CFG, 0x18a000, 0x18b000)]"

text \<open>PCIe and video.\<close>

datatype vid_module =
  PCIE_CTRL_CFG | PCIE_PLIC_CFG | PCIE_PHY_CFG | PCIE_SS_CFG | PCIE_SS_TZC_CFG | PCIE_SS_AMT_CFG | PCIE_DMAC_CFG | PCIE_DMA_EATA_TF_CFG
  | PCIE_DMA_EATA_GC_CFG | PCIE_DMA_EATA_DS_CFG | BODA955_CFG | WAVE517_CFG nat | WAVE627_CFG nat | JPEG_CFG nat | VID_SS_CFG | VID_CRG_CFG
  | VID_PMU_CFG | VID_SS_AMT_CFG nat | VID_SS_TZC_CFG nat | VID_SS_EATA_TF_CFG nat | VID_SS_EATA_GC_CFG nat | VID_SS_EATA_DS_CFG nat
  | VID_SS_VM_W517_CFG | VID_SS_VM_W627_CFG

definition vid_map :: "(vid_module \<times> region) list" where
  "vid_map =
    [(PCIE_CTRL_CFG, 0x200000, 0x400000), (PCIE_PLIC_CFG, 0x400000, 0x700000), (PCIE_PHY_CFG, 0x700000, 0x7c0000),
     (PCIE_SS_CFG, 0x7c0000, 0x7fd000), (PCIE_SS_TZC_CFG, 0x7fe000, 0x7ff000), (PCIE_SS_AMT_CFG, 0x7ff000, 0x800000),
     (PCIE_DMAC_CFG, 0x800000, 0x880000), (PCIE_DMA_EATA_TF_CFG, 0x880000, 0x881000),
     (PCIE_DMA_EATA_GC_CFG, 0x881000, 0x881800), (PCIE_DMA_EATA_DS_CFG, 0x884000, 0x888000),
     (BODA955_CFG, 0xa00000, 0xa04000), (WAVE517_CFG 0, 0xa04000, 0xa08000), (WAVE517_CFG 1, 0xa08000, 0xa0c000),
     (WAVE517_CFG 2, 0xa0c000, 0xa10000), (WAVE517_CFG 3, 0xa10000, 0xa14000), (WAVE517_CFG 4, 0xa14000, 0xa18000),
     (WAVE517_CFG 5, 0xa18000, 0xa1c000), (WAVE627_CFG 0, 0xa1c000, 0xa20000), (WAVE627_CFG 1, 0xa20000, 0xa24000),
     (WAVE627_CFG 2, 0xa24000, 0xa28000), (WAVE627_CFG 3, 0xa28000, 0xa2c000), (JPEG_CFG 0, 0xa2c000, 0xa2d000),
     (JPEG_CFG 1, 0xa2d000, 0xa2e000), (JPEG_CFG 2, 0xa2e000, 0xa2f000), (JPEG_CFG 3, 0xa2f000, 0xa30000),
     (VID_SS_CFG, 0xa35000, 0xa36000), (VID_CRG_CFG, 0xa36000, 0xa37000), (VID_PMU_CFG, 0xa37000, 0xa38000),
     (VID_SS_AMT_CFG 0, 0xa38000, 0xa39000), (VID_SS_TZC_CFG 0, 0xa39000, 0xa3a000),
     (VID_SS_EATA_TF_CFG 0, 0xa3a000, 0xa3b000), (VID_SS_EATA_GC_CFG 0, 0xa3b000, 0xa3b800),
     (VID_SS_EATA_DS_CFG 0, 0xa3c000, 0xa40000), (VID_SS_AMT_CFG 1, 0xa40000, 0xa41000),
     (VID_SS_TZC_CFG 1, 0xa41000, 0xa42000), (VID_SS_EATA_TF_CFG 1, 0xa42000, 0xa43000),
     (VID_SS_EATA_GC_CFG 1, 0xa43000, 0xa43800), (VID_SS_EATA_DS_CFG 1, 0xa44000, 0xa48000),
     (VID_SS_VM_W517_CFG, 0xa80000, 0xac0000), (VID_SS_VM_W627_CFG, 0xac0000, 0xb00000)]"

text \<open>The graphics cores and the interconnect.\<close>

datatype gpu_module =
  GPU_AMT_CFG nat | GPU_TZC_CFG nat | GPU_EATA_TF_CFG nat | GPU_EATA_GC_CFG nat | GPU_EATA_DS_CFG nat | GPU_CFG nat | GPU_SS_CFG_NS
  | GPU_SS_CFG_S | FLASH_NS | MAIN_NOC_CFG | PCIE_SS_NOC_CFG | SIDE_NOC_CFG | SM_SS_NOC_CFG | FE_SS_NOC_CFG | VID_SS_NOC_CFG | DISP_SS_NOC_CFG

definition gpu_map :: "(gpu_module \<times> region) list" where
  "gpu_map =
    [(GPU_AMT_CFG 0, 0xb00000, 0xb01000), (GPU_TZC_CFG 0, 0xb01000, 0xb02000),
     (GPU_EATA_TF_CFG 0, 0xb02000, 0xb03000), (GPU_EATA_GC_CFG 0, 0xb03000, 0xb03800),
     (GPU_EATA_DS_CFG 0, 0xb03800, 0xb04000), (GPU_AMT_CFG 1, 0xb08000, 0xb09000),
     (GPU_TZC_CFG 1, 0xb09000, 0xb0a000), (GPU_EATA_TF_CFG 1, 0xb0a000, 0xb0b000),
     (GPU_EATA_GC_CFG 1, 0xb0b000, 0xb0b800), (GPU_EATA_DS_CFG 1, 0xb0b800, 0xb0c000),
     (GPU_AMT_CFG 2, 0xb10000, 0xb11000), (GPU_TZC_CFG 2, 0xb11000, 0xb12000),
     (GPU_EATA_TF_CFG 2, 0xb12000, 0xb13000), (GPU_EATA_GC_CFG 2, 0xb13000, 0xb13800),
     (GPU_EATA_DS_CFG 2, 0xb13800, 0xb14000), (GPU_AMT_CFG 3, 0xb18000, 0xb19000),
     (GPU_TZC_CFG 3, 0xb19000, 0xb1a000), (GPU_EATA_TF_CFG 3, 0xb1a000, 0xb1b000),
     (GPU_EATA_GC_CFG 3, 0xb1b000, 0xb1b800), (GPU_EATA_DS_CFG 3, 0xb1b800, 0xb1c000),
     (GPU_AMT_CFG 4, 0xb20000, 0xb21000), (GPU_TZC_CFG 4, 0xb21000, 0xb22000),
     (GPU_EATA_TF_CFG 4, 0xb22000, 0xb23000), (GPU_EATA_GC_CFG 4, 0xb23000, 0xb23800),
     (GPU_EATA_DS_CFG 4, 0xb23800, 0xb24000), (GPU_AMT_CFG 5, 0xb28000, 0xb29000),
     (GPU_TZC_CFG 5, 0xb29000, 0xb2a000), (GPU_EATA_TF_CFG 5, 0xb2a000, 0xb2b000),
     (GPU_EATA_GC_CFG 5, 0xb2b000, 0xb2b800), (GPU_EATA_DS_CFG 5, 0xb2b800, 0xb2c000),
     (GPU_AMT_CFG 6, 0xb30000, 0xb31000), (GPU_TZC_CFG 6, 0xb31000, 0xb32000),
     (GPU_EATA_TF_CFG 6, 0xb32000, 0xb33000), (GPU_EATA_GC_CFG 6, 0xb33000, 0xb33800),
     (GPU_EATA_DS_CFG 6, 0xb33800, 0xb34000), (GPU_AMT_CFG 7, 0xb38000, 0xb39000),
     (GPU_TZC_CFG 7, 0xb39000, 0xb3a000), (GPU_EATA_TF_CFG 7, 0xb3a000, 0xb3b000),
     (GPU_EATA_GC_CFG 7, 0xb3b000, 0xb3b800), (GPU_EATA_DS_CFG 7, 0xb3b800, 0xb3c000),
     (GPU_CFG 0, 0xc00000, 0xd00000), (GPU_CFG 1, 0xd00000, 0xe00000), (GPU_CFG 2, 0xe00000, 0xf00000),
     (GPU_CFG 3, 0xf00000, 0x1000000), (GPU_CFG 4, 0x1000000, 0x1100000), (GPU_CFG 5, 0x1100000, 0x1200000),
     (GPU_CFG 6, 0x1200000, 0x1300000), (GPU_CFG 7, 0x1300000, 0x1400000), (GPU_SS_CFG_NS, 0x1400000, 0x1500000),
     (GPU_SS_CFG_S, 0x1500000, 0x1600000), (FLASH_NS, 0x1600000, 0x1800000), (MAIN_NOC_CFG, 0x1800000, 0x1810000),
     (PCIE_SS_NOC_CFG, 0x1810000, 0x1820000), (SIDE_NOC_CFG, 0x1820000, 0x1830000),
     (SM_SS_NOC_CFG, 0x1830000, 0x1840000), (FE_SS_NOC_CFG, 0x1840000, 0x1850000),
     (VID_SS_NOC_CFG, 0x1850000, 0x1860000), (DISP_SS_NOC_CFG, 0x1860000, 0x1870000)]"

text \<open>The last-level cache.\<close>

datatype llc_module =
  LLC_WARP_CFG nat nat | LLC_WRAP_CFG nat nat

definition llc_map :: "(llc_module \<times> region) list" where
  "llc_map =
    [(LLC_WARP_CFG 0 0, 0x1870000, 0x1871000), (LLC_WRAP_CFG 0 1, 0x1871000, 0x1872000),
     (LLC_WRAP_CFG 1 0, 0x1872000, 0x1873000), (LLC_WRAP_CFG 1 1, 0x1873000, 0x1874000),
     (LLC_WRAP_CFG 2 0, 0x1874000, 0x1875000), (LLC_WRAP_CFG 2 1, 0x1875000, 0x1876000),
     (LLC_WRAP_CFG 3 0, 0x1876000, 0x1877000), (LLC_WRAP_CFG 3 1, 0x1877000, 0x1878000),
     (LLC_WRAP_CFG 4 0, 0x1878000, 0x1879000), (LLC_WRAP_CFG 4 1, 0x1879000, 0x187a000),
     (LLC_WRAP_CFG 5 0, 0x187a000, 0x187b000), (LLC_WRAP_CFG 5 1, 0x187b000, 0x187c000),
     (LLC_WRAP_CFG 6 0, 0x187c000, 0x187d000), (LLC_WRAP_CFG 6 1, 0x187d000, 0x187e000),
     (LLC_WRAP_CFG 7 0, 0x187e000, 0x187f000), (LLC_WRAP_CFG 7 1, 0x187f000, 0x1880000),
     (LLC_WRAP_CFG 8 0, 0x1880000, 0x1881000), (LLC_WRAP_CFG 8 1, 0x1881000, 0x1882000),
     (LLC_WRAP_CFG 9 0, 0x1882000, 0x1883000), (LLC_WRAP_CFG 9 1, 0x1883000, 0x1884000),
     (LLC_WRAP_CFG 10 0, 0x1884000, 0x1885000), (LLC_WRAP_CFG 10 1, 0x1885000, 0x1886000),
     (LLC_WRAP_CFG 11 0, 0x1886000, 0x1887000), (LLC_WRAP_CFG 11 1, 0x1887000, 0x1888000),
     (LLC_WRAP_CFG 12 0, 0x1888000, 0x1889000), (LLC_WRAP_CFG 12 1, 0x1889000, 0x188a000),
     (LLC_WRAP_CFG 13 0, 0x188a000, 0x188b000), (LLC_WRAP_CFG 13 1, 0x188b000, 0x188c000),
     (LLC_WRAP_CFG 14 0, 0x188c000, 0x188d000), (LLC_WRAP_CFG 14 1, 0x188d000, 0x188e000),
     (LLC_WRAP_CFG 15 0, 0x188e000, 0x188f000), (LLC_WRAP_CFG 15 1, 0x188f000, 0x1890000),
     (LLC_WRAP_CFG 16 0, 0x1890000, 0x1891000), (LLC_WRAP_CFG 16 1, 0x1891000, 0x1892000),
     (LLC_WRAP_CFG 17 0, 0x1892000, 0x1893000), (LLC_WRAP_CFG 17 1, 0x1893000, 0x1894000),
     (LLC_WRAP_CFG 18 0, 0x1894000, 0x1895000), (LLC_WRAP_CFG 18 1, 0x1895000, 0x1896000),
     (LLC_WRAP_CFG 19 0, 0x1896000, 0x1897000), (LLC_WRAP_CFG 19 1, 0x1897000, 0x1898000),
     (LLC_WRAP_CFG 20 0, 0x1898000, 0x1899000), (LLC_WRAP_CFG 20 1, 0x1899000, 0x189a000),
     (LLC_WRAP_CFG 21 0, 0x189a000, 0x189b000), (LLC_WRAP_CFG 21 1, 0x189b000, 0x189c000),
     (LLC_WRAP_CFG 22 0, 0x189c000, 0x189d000), (LLC_WRAP_CFG 22 1, 0x189d000, 0x189e000),
     (LLC_WRAP_CFG 23 0, 0x189e000, 0x189f000), (LLC_WRAP_CFG 23 1, 0x189f000, 0x18a0000)]"

text \<open>The chip-to-chip links and the SRAMs.\<close>

datatype link_module =
  LINK_SRD_CFG nat | LINK_ITR_CFG nat | LINK_TZC_CFG nat | LINK_AMT_CFG nat | LINK_WRAP_CFG nat | LINK_WRAP_H_CFG nat | LINK_NOC_CFG nat
  | SMC_SRAM | SRAM | FEC_SRAM

definition link_map :: "(link_module \<times> region) list" where
  "link_map =
    [(LINK_SRD_CFG 0, 0x1900000, 0x1914000), (LINK_ITR_CFG 0, 0x1914000, 0x1915000),
     (LINK_TZC_CFG 0, 0x1915000, 0x1916000), (LINK_AMT_CFG 0, 0x1916000, 0x1917000),
     (LINK_WRAP_CFG 0, 0x1917000, 0x1918000), (LINK_WRAP_H_CFG 0, 0x1918000, 0x1919000),
     (LINK_NOC_CFG 0, 0x1919000, 0x191b000), (LINK_SRD_CFG 1, 0x1920000, 0x1934000),
     (LINK_ITR_CFG 1, 0x1934000, 0x1935000), (LINK_TZC_CFG 1, 0x1935000, 0x1936000),
     (LINK_AMT_CFG 1, 0x1936000, 0x1937000), (LINK_WRAP_CFG 1, 0x1937000, 0x1938000),
     (LINK_WRAP_H_CFG 1, 0x1938000, 0x1939000), (LINK_NOC_CFG 1, 0x1939000, 0x193b000),
     (LINK_SRD_CFG 2, 0x1940000, 0x1954000), (LINK_ITR_CFG 2, 0x1954000, 0x1955000),
     (LINK_TZC_CFG 2, 0x1955000, 0x1956000), (LINK_AMT_CFG 2, 0x1956000, 0x1957000),
     (LINK_WRAP_CFG 2, 0x1957000, 0x1958000), (LINK_WRAP_H_CFG 2, 0x1958000, 0x1959000),
     (LINK_NOC_CFG 2, 0x1959000, 0x195b000), (LINK_SRD_CFG 3, 0x1960000, 0x1974000),
     (LINK_ITR_CFG 3, 0x1974000, 0x1975000), (LINK_TZC_CFG 3, 0x1975000, 0x1976000),
     (LINK_AMT_CFG 3, 0x1976000, 0x1977000), (LINK_WRAP_CFG 3, 0x1977000, 0x1978000),
     (LINK_WRAP_H_CFG 3, 0x1978000, 0x1979000), (LINK_NOC_CFG 3, 0x1979000, 0x197b000),
     (SMC_SRAM, 0x1e00000, 0x1e20000), (SRAM, 0x1e20000, 0x1e40000), (FEC_SRAM, 0x1e40000, 0x1e50000)]"

text \<open>The memory controllers.\<close>

datatype ddr_module =
  DDR_CTRL_CFG nat | DDR_PHY_CFG nat | DDR_MISC_CFG nat

definition ddr_map :: "(ddr_module \<times> region) list" where
  "ddr_map =
    [(DDR_CTRL_CFG 0, 0x2000000, 0x2100000), (DDR_PHY_CFG 0, 0x2100000, 0x2200000),
     (DDR_MISC_CFG 0, 0x2200000, 0x2400000), (DDR_CTRL_CFG 1, 0x2400000, 0x2500000),
     (DDR_PHY_CFG 1, 0x2500000, 0x2600000), (DDR_MISC_CFG 1, 0x2600000, 0x2800000),
     (DDR_CTRL_CFG 2, 0x2800000, 0x2900000), (DDR_PHY_CFG 2, 0x2900000, 0x2a00000),
     (DDR_MISC_CFG 2, 0x2a00000, 0x2c00000), (DDR_CTRL_CFG 3, 0x2c00000, 0x2d00000),
     (DDR_PHY_CFG 3, 0x2d00000, 0x2e00000), (DDR_MISC_CFG 3, 0x2e00000, 0x3000000),
     (DDR_CTRL_CFG 4, 0x3000000, 0x3100000), (DDR_PHY_CFG 4, 0x3100000, 0x3200000),
     (DDR_MISC_CFG 4, 0x3200000, 0x3400000), (DDR_CTRL_CFG 5, 0x3400000, 0x3500000),
     (DDR_PHY_CFG 5, 0x3500000, 0x3600000), (DDR_MISC_CFG 5, 0x3600000, 0x3800000),
     (DDR_CTRL_CFG 6, 0x3800000, 0x3900000), (DDR_PHY_CFG 6, 0x3900000, 0x3a00000),
     (DDR_MISC_CFG 6, 0x3a00000, 0x3c00000), (DDR_CTRL_CFG 7, 0x3c00000, 0x3d00000),
     (DDR_PHY_CFG 7, 0x3d00000, 0x3e00000), (DDR_MISC_CFG 7, 0x3e00000, 0x4000000),
     (DDR_CTRL_CFG 8, 0x4000000, 0x4100000), (DDR_PHY_CFG 8, 0x4100000, 0x4200000),
     (DDR_MISC_CFG 8, 0x4200000, 0x4400000), (DDR_CTRL_CFG 9, 0x4400000, 0x4500000),
     (DDR_PHY_CFG 9, 0x4500000, 0x4600000), (DDR_MISC_CFG 9, 0x4600000, 0x4800000),
     (DDR_CTRL_CFG 10, 0x4800000, 0x4900000), (DDR_PHY_CFG 10, 0x4900000, 0x4a00000),
     (DDR_MISC_CFG 10, 0x4a00000, 0x4c00000), (DDR_CTRL_CFG 11, 0x4c00000, 0x4d00000),
     (DDR_PHY_CFG 11, 0x4d00000, 0x4e00000), (DDR_MISC_CFG 11, 0x4e00000, 0x5000000)]"

text \<open>The command engines, flash, debug and memory windows.\<close>

datatype mem_module =
  CE_FE | CE_PCIE | STM | FLASH_S | QSPI_CFG | QSPI_XIP_CFG | CS_CFG | SYS_MEM | LINK_MEM nat | LINK_MEM_CFG nat

definition mem_map :: "(mem_module \<times> region) list" where
  "mem_map =
    [(CE_FE, 0x5e00000, 0x5f00000), (CE_PCIE, 0x5f00000, 0x6000000), (STM, 0x6000000, 0x7000000),
     (FLASH_S, 0x7000000, 0x8000000), (QSPI_CFG, 0x7000000, 0x7000100), (QSPI_XIP_CFG, 0x8000000, 0x8000100),
     (CS_CFG, 0x40000000, 0x41000000), (SYS_MEM, 0x4000000000, 0x10000000000),
     (LINK_MEM 0, 0x20000000000, 0x24000000000), (LINK_MEM 1, 0x24000000000, 0x28000000000),
     (LINK_MEM 2, 0x28000000000, 0x2c000000000), (LINK_MEM 3, 0x2c000000000, 0x30000000000)]"

datatype chip_module =
  Soc soc_module | Disp disp_module | Vid vid_module | Gpu gpu_module | Llc llc_module | Link link_module | Ddr ddr_module | Mem mem_module

definition memory_map :: "(chip_module \<times> region) list" where
  "memory_map = map (apfst Soc) soc_map @ map (apfst Disp) disp_map @ map (apfst Vid) vid_map @ map (apfst Gpu) gpu_map @
     map (apfst Llc) llc_map @ map (apfst Link) link_map @ map (apfst Ddr) ddr_map @ map (apfst Mem) mem_map"

text \<open>\<open>None\<close>: no such name is declared.\<close>

definition region_of :: "chip_module \<Rightarrow> region option" where
  "region_of m = (case m of
     Soc n \<Rightarrow> map_of soc_map n | Disp n \<Rightarrow> map_of disp_map n | Vid n \<Rightarrow> map_of vid_map n | Gpu n \<Rightarrow> map_of gpu_map n
   | Llc n \<Rightarrow> map_of llc_map n | Link n \<Rightarrow> map_of link_map n | Ddr n \<Rightarrow> map_of ddr_map n | Mem n \<Rightarrow> map_of mem_map n)"

text \<open>The modules an address belongs to.\<close>

definition in_region :: "int \<Rightarrow> region \<Rightarrow> bool" where
  "in_region a r \<longleftrightarrow> fst r \<le> a \<and> a < snd r"

definition regions_at :: "int \<Rightarrow> (chip_module \<times> region) list" where
  "regions_at a = filter (\<lambda>r. in_region a (snd r)) memory_map"

definition modules_at :: "int \<Rightarrow> chip_module list" where
  "modules_at a = map fst (regions_at a)"

text \<open>The header declares further pairs of a base and a limit outside this list: the range of the memory, and near its end second names for
  the modules of the graphics cores, with the number of the core, and for the two regions the cores share.  They are listed for the eight cores;
  \<open>denotes\<close> tells the module each stands for.\<close>

definition DDR :: region where "DDR = (0x0, 0xc00000000)"

datatype second_name =
  AMF_MC nat | TZC_MC nat | EATA_TF_CFG_MC nat | EATA_CFG_MC nat | EATA_DESC_MC nat | MC_CFG nat | GPU_SS_NS | GPU_SS_S

definition core_names :: "nat \<Rightarrow> (second_name \<times> region) list" where
  "core_names i =
    [(AMF_MC i, 0xb00000 + 0x8000 * int i, 0xb01000 + 0x8000 * int i), (TZC_MC i, 0xb01000 + 0x8000 * int i, 0xb02000 + 0x8000 * int i),
     (EATA_TF_CFG_MC i, 0xb02000 + 0x8000 * int i, 0xb03000 + 0x8000 * int i), (EATA_CFG_MC i, 0xb03000 + 0x8000 * int i, 0xb03800 + 0x8000 * int i),
     (EATA_DESC_MC i, 0xb03800 + 0x8000 * int i, 0xb04000 + 0x8000 * int i)]"

definition second_names :: "(second_name \<times> region) list" where
  "second_names = concat (map core_names [0..<8]) @ map (\<lambda>i. (MC_CFG i, 0xc00000 + 0x100000 * int i, 0xd00000 + 0x100000 * int i)) [0..<8] @
     [(GPU_SS_NS, 0x1400000, 0x1500000), (GPU_SS_S, 0x1500000, 0x1600000)]"

fun denotes :: "second_name \<Rightarrow> chip_module" where
  "denotes (AMF_MC i) = Gpu (GPU_AMT_CFG i)"
| "denotes (TZC_MC i) = Gpu (GPU_TZC_CFG i)"
| "denotes (EATA_TF_CFG_MC i) = Gpu (GPU_EATA_TF_CFG i)"
| "denotes (EATA_CFG_MC i) = Gpu (GPU_EATA_GC_CFG i)"
| "denotes (EATA_DESC_MC i) = Gpu (GPU_EATA_DS_CFG i)"
| "denotes (MC_CFG i) = Gpu (GPU_CFG i)"
| "denotes GPU_SS_NS = Gpu GPU_SS_CFG_NS"
| "denotes GPU_SS_S = Gpu GPU_SS_CFG_S"

definition second_at :: "int \<Rightarrow> (second_name \<times> region) list" where
  "second_at a = filter (\<lambda>r. in_region a (snd r)) second_names"

definition above_ddr :: "chip_module list" where
  "above_ddr = map Mem [SYS_MEM, LINK_MEM 0, LINK_MEM 1, LINK_MEM 2, LINK_MEM 3]"

section \<open>Selection by an index\<close>

text \<open>A macro \<open>M(i)\<close> is a chain of conditional expressions \<open>(i == 0) ? A : (i == 1) ? B : C\<close>: the last
  choice is taken for every other index.  A choice is a module or, \<open>None\<close>, the number 0.  The pair of macros
  \<open>M_BASE(i)\<close> and \<open>M_LIMIT(i)\<close> has the same choices.\<close>

type_synonym choice = "chip_module option"

definition select :: "choice list \<Rightarrow> int \<Rightarrow> choice" where
  "select cs i = (if 0 \<le> i \<and> i < int (length cs) then cs ! nat i else last cs)"

text \<open>What the pair of macros gives: an undeclared name does not compile.\<close>

definition choice_region :: "choice \<Rightarrow> region option" where
  "choice_region c = (case c of None \<Rightarrow> Some (0, 0) | Some m \<Rightarrow> region_of m)"

definition module_macros :: "(string \<times> choice list) list" where
  "module_macros =
    [(''CE_CFG'', [Some (Mem CE_FE), Some (Mem CE_PCIE)]),
     (''I2C_MST_CFG'', [Some (Soc (I2C_MST_CFG 0)), Some (Soc (I2C_MST_CFG 1))]),
     (''GPU_CRG_CFG'', map (\<lambda>i. Some (Soc (GPU_CRG_CFG i))) [0..<4]),
     (''DDR_CRG_CFG'', [Some (Soc (DDR_CRG_CFG 0)), Some (Soc (DDR_CRG_CFG 1)), None]),
     (''DPTX_CTRL_CFG'', map (\<lambda>i. Some (Disp (DPTX_CTRL_CFG i))) [0..<4]),
     (''DPTX_PHY_CFG'', map (\<lambda>i. Some (Disp (DPTX_PHY_CFG i))) [0..<4]),
     (''DE_CFG'', map (\<lambda>i. Some (Disp (DE_CFG i))) [0..<4]),
     (''TRNG_CFG'', map (\<lambda>i. Some (Disp (TRNG_CFG i))) [0..<4]),
     (''HDCP_CFG'', map (\<lambda>i. Some (Disp (HDCP_CFG i))) [0..<4]),
     (''DPTX_CUST_CFG'', map (\<lambda>i. Some (Disp (DPTX_CUST_CFG i))) [0..<4]),
     (''DSC_CFG'', map (\<lambda>i. Some (Disp (DSC_CFG i))) [0..<4]),
     (''I2S_CFG'', map (\<lambda>i. Some (Disp (I2S_CFG i))) [0..<4]),
     (''WAVE517_CFG'', map (\<lambda>i. Some (Vid (WAVE517_CFG i))) [0..<6]),
     (''JPEG_CFG'', map (\<lambda>i. Some (Vid (JPEG_CFG i))) [0..<4]),
     (''WAVE627_CFG'', map (\<lambda>i. Some (Vid (WAVE627_CFG i))) [0..<4]),
     (''VID_SS_AMT_CFG'', [Some (Vid (VID_SS_AMT_CFG 0)), Some (Vid (VID_SS_AMT_CFG 1)), None]),
     (''VID_SS_TZC_CFG'', [Some (Vid (VID_SS_TZC_CFG 0)), Some (Vid (VID_SS_TZC_CFG 1)), None]),
     (''VID_SS_EATA_TF_CFG'', [Some (Vid (VID_SS_EATA_TF_CFG 0)), Some (Vid (VID_SS_EATA_TF_CFG 1)), None]),
     (''VID_SS_EATA_GC_CFG'', [Some (Vid (VID_SS_EATA_GC_CFG 0)), Some (Vid (VID_SS_EATA_GC_CFG 1)), None]),
     (''VID_SS_EATA_DS_CFG'', [Some (Vid (VID_SS_EATA_DS_CFG 0)), Some (Vid (VID_SS_EATA_DS_CFG 1)), None]),
     (''GPU_AMT_CFG'', map (\<lambda>i. Some (Gpu (GPU_AMT_CFG i))) [0..<8]),
     (''GPU_TZC_CFG'', map (\<lambda>i. Some (Gpu (GPU_TZC_CFG i))) [0..<8]),
     (''GPU_EATA_TF_CFG'', map (\<lambda>i. Some (Gpu (GPU_EATA_TF_CFG i))) [0..<8]),
     (''GPU_EATA_GC_CFG'', map (\<lambda>i. Some (Gpu (GPU_EATA_GC_CFG i))) [0..<8]),
     (''GPU_EATA_DS_CFG'', map (\<lambda>i. Some (Gpu (GPU_EATA_DS_CFG i))) [0..<8])]"

definition link_macros :: "(string \<times> choice list) list" where
  "link_macros =
    [(''LINK_SRD_CFG'', map (\<lambda>i. Some (Link (LINK_SRD_CFG i))) [0..<4] @ [None, None]),
     (''LINK_ITR_CFG'', map (\<lambda>i. Some (Link (LINK_ITR_CFG i))) [0..<4] @ [None, None]),
     (''LINK_TZC_CFG'', map (\<lambda>i. Some (Link (LINK_TZC_CFG i))) [0..<4] @ [None, None]),
     (''LINK_AMT_CFG'', map (\<lambda>i. Some (Link (LINK_AMT_CFG i))) [0..<4] @ [None, None]),
     (''LINK_WRAP_CFG'', map (\<lambda>i. Some (Link (LINK_WRAP_CFG i))) [0..<4] @ [None, None]),
     (''LINK_MEM_CFG'', map (\<lambda>i. Some (Mem (LINK_MEM_CFG i))) [0..<4] @ [None, None]),
     (''LINK_NOC_CFG'', map (\<lambda>i. Some (Link (LINK_NOC_CFG i))) [0..<4] @ [None, None]),
     (''LINK_WRAP_H_CFG'', map (\<lambda>i. Some (Link (LINK_WRAP_H_CFG i))) [0..<4] @ [None, None])]"

definition ddr_macros :: "(string \<times> choice list) list" where
  "ddr_macros =
    [(''DDR_CTRL_CFG'', map (\<lambda>i. Some (Ddr (DDR_CTRL_CFG i))) [0..<12]),
     (''DDR_PHY_CFG'', map (\<lambda>i. Some (Ddr (DDR_PHY_CFG i))) [0..<12]),
     (''DDR_MISC_CFG'', map (\<lambda>i. Some (Ddr (DDR_MISC_CFG i))) [0..<12])]"

definition uart_macros :: "(string \<times> choice list) list" where
  "uart_macros =
    [(''BASE_ADDR_UART'', [Some (Soc SM_UART_CFG), Some (Soc FE_UART_CFG)])]"

text \<open>\<open>LLC_WRAP_CFG_BASE(i,j)\<close> and its limit compare both indices.\<close>

definition llc_macro :: "int \<Rightarrow> int \<Rightarrow> choice" where
  "llc_macro i j =
    (if 0 \<le> i \<and> i < 24 \<and> (j = 0 \<or> j = 1) then Some (Llc (LLC_WRAP_CFG (nat i) (nat j))) else Some (Llc (LLC_WRAP_CFG 23 1)))"

text \<open>A second macro for the same modules, with one index.\<close>

definition LLC_CFG_BASE :: "int \<Rightarrow> int" where "LLC_CFG_BASE i = 0x01870000 + i * 0x1000"

definition index_macros :: "(string \<times> choice list) list" where
  "index_macros = module_macros @ link_macros @ ddr_macros @ uart_macros"

section \<open>The map\<close>

fun ascending :: "region list \<Rightarrow> bool" where
  "ascending [] = True"
| "ascending [(b, l)] = (b < l)"
| "ascending ((b, l) # (b', l') # rs) = (b < l \<and> l \<le> b' \<and> ascending ((b', l') # rs))"

lemma ascending_Cons: "ascending ((b, l) # rs) \<Longrightarrow> b < l \<and> ascending rs \<and> (\<forall>(b', l') \<in> set rs. l \<le> b' \<and> b' < l')"
proof (induction rs arbitrary: b l)
  case (Cons r rs)
  obtain b' l' where r: "r = (b', l')" by (cases r)
  then have "b < l" "l \<le> b'" "ascending ((b', l') # rs)" using Cons.prems by simp_all
  then show ?case using Cons.IH[of b' l'] r by fastforce
qed simp

lemma ascending_unique:
  assumes "ascending (map snd rs)"
  shows "length (filter (\<lambda>(n, b, l). b \<le> a \<and> a < l) rs) \<le> 1"
  using assms
proof (induction rs)
  case (Cons r rs)
  obtain n b l where r: "r = (n, b, l)" by (cases r)
  then have a: "ascending (map snd rs)" "\<forall>(b', l') \<in> set (map snd rs). l \<le> b'" using Cons.prems ascending_Cons[of b l "map snd rs"] by auto
  show ?case
  proof (cases "b \<le> a \<and> a < l")
    case True
    then have "filter (\<lambda>(n, b, l). b \<le> a \<and> a < l) rs = []" using a(2) by (fastforce simp: filter_empty_conv)
    then show ?thesis using r by simp
  qed (use Cons.IH[OF a(1)] r in auto)
qed simp

lemmas map_defs = soc_map_def disp_map_def vid_map_def gpu_map_def llc_map_def link_map_def ddr_map_def mem_map_def

lemma map_ascending: "ascending (map snd (filter (\<lambda>r. fst r \<noteq> Mem QSPI_CFG) memory_map))"
  by code_simp

lemma memory_map_length:
  assumes "a \<notin> {0x7000000..<0x7000100}"
  shows "length (modules_at a) \<le> 1"
proof -
  have q: "\<forall>r \<in> set memory_map. fst r = Mem QSPI_CFG \<longrightarrow> snd r = (0x7000000, 0x7000100)"
    by code_simp
  have "filter (\<lambda>(n, b, l). b \<le> a \<and> a < l) memory_map =
      filter (\<lambda>(n, b, l). b \<le> a \<and> a < l) (filter (\<lambda>r. fst r \<noteq> Mem QSPI_CFG) memory_map)"
    unfolding filter_filter by (rule filter_cong) (use q assms in auto)
  then show ?thesis using ascending_unique[OF map_ascending, of a] by (simp add: modules_at_def regions_at_def in_region_def case_prod_unfold)
qed

text \<open>The registers of the flash controller.\<close>

lemma flash_twice:
  assumes "a \<in> {0x7000000..<0x7000100}"
  shows "modules_at a = [Mem FLASH_S, Mem QSPI_CFG]"
proof -
  have q: "list_all (\<lambda>(m, b, l). m = Mem FLASH_S \<or> m = Mem QSPI_CFG \<or> l \<le> 0x7000000 \<or> 0x7000100 \<le> b) memory_map"
    and two: "filter (\<lambda>(m, b, l). m = Mem FLASH_S \<or> m = Mem QSPI_CFG) memory_map = [(Mem FLASH_S, 0x7000000, 0x8000000), (Mem QSPI_CFG, 0x7000000, 0x7000100)]"
    by code_simp+
  have "filter (\<lambda>(n, b, l). b \<le> a \<and> a < l) memory_map =
      filter (\<lambda>(n, b, l). b \<le> a \<and> a < l) (filter (\<lambda>(m, b, l). m = Mem FLASH_S \<or> m = Mem QSPI_CFG) memory_map)"
    unfolding filter_filter by (rule filter_cong) (use q assms in \<open>auto simp: list_all_iff\<close>)
  also have "\<dots> = [(Mem FLASH_S, 0x7000000, 0x8000000), (Mem QSPI_CFG, 0x7000000, 0x7000100)]" unfolding two using assms by simp
  finally show ?thesis by (simp add: modules_at_def regions_at_def in_region_def case_prod_unfold)
qed

text \<open>Every second name gives a region of the map, with the same base and limit.\<close>

lemma second_names_same: "map (apfst denotes) second_names = map (apfst Gpu) (take 50 gpu_map)"
  by code_simp

lemma second_names_in_map: "(n, r) \<in> set second_names \<Longrightarrow> (denotes n, r) \<in> set memory_map"
proof -
  assume "(n, r) \<in> set second_names"
  then have "apfst denotes (n, r) \<in> set (map (apfst Gpu) (take 50 gpu_map))" unfolding second_names_same[symmetric] set_map by (rule imageI)
  then show ?thesis by (auto simp: memory_map_def dest: in_set_takeD)
qed

lemma second_names_ascending: "ascending (map snd second_names)"
  by code_simp

lemma ddr_window_splits: "list_all (\<lambda>(m, b, l). if m \<in> set above_ddr then snd DDR \<le> b else fst DDR \<le> b \<and> l \<le> snd DDR) memory_map"
  by code_simp

lemma modules_at_window: "in_region a DDR \<Longrightarrow> set (modules_at a) \<inter> set above_ddr = {}" "\<not> in_region a DDR \<Longrightarrow> set (modules_at a) \<subseteq> set above_ddr"
  using ddr_window_splits by (fastforce simp: modules_at_def regions_at_def in_region_def list_all_iff split: if_splits)+

text \<open>C33. The addresses that the header declares are unambiguous.  Every address belongs to at most one module of the map, but for the 256 bytes of the
  flash controller's registers, which lie at the start of the region of the flash and belong to both.  The names that the header declares a second time,
  for the eight graphics cores, give nothing new: at most one of them covers an address, and it is the module that it stands for, with the same base
  and the same limit.  The range of the memory (\<open>DDR_BASE\<close> to \<open>DDR_LIMIT\<close>) is the one region that overlaps others: it covers every module but the
  window to the system's memory and those to the memory of the linked chips, which lie above it.\<close>

theorem memory_map_unambiguous:
  "(length (modules_at a) \<le> 1 \<or> a \<in> {0x7000000..<0x7000100} \<and> modules_at a = [Mem FLASH_S, Mem QSPI_CFG]) \<and>
   length (second_at a) \<le> 1 \<and> set (map (apfst denotes) (second_at a)) \<subseteq> set (regions_at a) \<and>
   (if in_region a DDR then set (modules_at a) \<inter> set above_ddr = {} else set (modules_at a) \<subseteq> set above_ddr)"
proof (intro conjI)
  show "length (modules_at a) \<le> 1 \<or> a \<in> {0x7000000..<0x7000100} \<and> modules_at a = [Mem FLASH_S, Mem QSPI_CFG]"
    using memory_map_length[of a] flash_twice[of a] by blast
  show "length (second_at a) \<le> 1" using ascending_unique[OF second_names_ascending, of a] by (simp add: second_at_def in_region_def case_prod_unfold)
  show "set (map (apfst denotes) (second_at a)) \<subseteq> set (regions_at a)"
    using second_names_in_map by (fastforce simp: second_at_def regions_at_def)
  show "if in_region a DDR then set (modules_at a) \<inter> set above_ddr = {} else set (modules_at a) \<subseteq> set above_ddr"
    using modules_at_window[of a] by simp
qed

section \<open>The macros\<close>

definition apart_list :: "region list \<Rightarrow> bool" where
  "apart_list = sorted_wrt (\<lambda>(b, l) (b', l'). b < l \<and> b' < l' \<and> (l \<le> b' \<or> l' \<le> b))"

lemma apart_listD:
  assumes "apart_list rs" "i < length rs" "j < length rs" "i \<noteq> j" "rs ! i = (b, l)" "rs ! j = (b', l')"
  shows "b < l \<and> b' < l' \<and> (l \<le> b' \<or> l' \<le> b)"
proof (cases "i < j")
  case True
  then show ?thesis using assms by (fastforce simp: apart_list_def sorted_wrt_iff_nth_less)
next
  case False
  then have "j < i" using assms(4) by simp
  then show ?thesis using assms by (fastforce simp: apart_list_def sorted_wrt_iff_nth_less)
qed

text \<open>The modules a macro can select come first, are declared, and do not overlap.\<close>

definition macro_ok :: "choice list \<Rightarrow> bool" where
  "macro_ok cs \<longleftrightarrow> (let ms = filter (\<lambda>c. c \<noteq> None) cs in
     take (length ms) cs = ms \<and> list_all (\<lambda>c. choice_region c \<noteq> None) ms \<and> apart_list (map (\<lambda>c. the (choice_region c)) ms))"

lemmas macro_simps = upt_rec macro_ok_def choice_region_def region_of_def apart_list_def Let_def map_defs

lemma module_macros_ok: "list_all (\<lambda>(f, cs). macro_ok cs) module_macros"
  by code_simp

lemma ddr_macros_ok: "list_all (\<lambda>(f, cs). macro_ok cs) ddr_macros"
  by code_simp

lemma link_macros_ok: "list_all (\<lambda>(f, cs). f = ''LINK_MEM_CFG'' \<or> macro_ok cs) link_macros"
  by code_simp

lemma uart_macros_ok: "list_all (\<lambda>(f, cs). macro_ok cs) uart_macros"
  by code_simp

lemma macro_ok_apart:
  assumes "macro_ok cs" "0 \<le> i" "0 \<le> j" "i \<noteq> j" "i < int (length cs)" "j < int (length cs)" "select cs i = Some m" "select cs j = Some m'"
  shows "\<exists>b l b' l'. region_of m = Some (b, l) \<and> region_of m' = Some (b', l') \<and> b < l \<and> b' < l' \<and> (l \<le> b' \<or> l' \<le> b)"
proof -
  let ?ms = "filter (\<lambda>c. c \<noteq> None) cs" and ?r = "\<lambda>c. the (choice_region c)"
  have t: "take (length ?ms) cs = ?ms" and d: "\<And>c. c \<in> set ?ms \<Longrightarrow> choice_region c \<noteq> None" and a: "apart_list (map ?r ?ms)"
    using assms(1) by (simp_all add: macro_ok_def Let_def list_all_iff)
  have cs: "cs ! nat i = Some m" "cs ! nat j = Some m'" using assms by (simp_all add: select_def)
  have short: "nat k < length ?ms" if "cs ! nat k \<noteq> None" "nat k < length cs" for k
  proof (rule ccontr)
    assume "\<not> nat k < length ?ms"
    then have "cs ! nat k \<in> set (drop (length ?ms) cs)" using that(2) by (auto simp: in_set_conv_nth intro!: exI[of _ "nat k - length ?ms"])
    moreover have "filter (\<lambda>c. c \<noteq> None) (drop (length ?ms) cs) = []"
    proof -
      have "length (filter (\<lambda>c. c \<noteq> None) (take (length ?ms) cs @ drop (length ?ms) cs)) = length ?ms" by (simp only: append_take_drop_id)
      then show ?thesis unfolding filter_append t filter_filter by simp
    qed
    ultimately show False using that(1) by (simp only: filter_empty_conv)
  qed
  have i: "nat i < length ?ms" and j: "nat j < length ?ms" using short[of i] short[of j] cs assms(2-6) by simp_all
  have nth: "?ms ! k = cs ! k" if "k < length ?ms" for k using nth_take[OF that, of cs] unfolding t .
  note i = i nth[OF i, unfolded cs] and j = j nth[OF j, unfolded cs]
  obtain r r' where "region_of m = Some r" "region_of m' = Some r'"
    using d[OF nth_mem[OF i(1)]] d[OF nth_mem[OF j(1)]] i(2) j(2) by (auto simp: choice_region_def)
  moreover have "nat i \<noteq> nat j" using assms(2-4) by simp
  ultimately show ?thesis using apart_listD[OF a, of "nat i" "nat j" "fst r" "snd r" "fst r'" "snd r'"] i j
    by (intro exI[of _ "fst r"] exI[of _ "snd r"] exI[of _ "fst r'"] exI[of _ "snd r'"]) (simp add: choice_region_def)
qed

text \<open>Different indices select different modules: of every pair of macros with an index but one, two indices for which there is a
  module give regions that are not empty and do not overlap.\<close>

theorem index_macros_apart:
  assumes "(f, cs) \<in> set index_macros" "f \<noteq> ''LINK_MEM_CFG''" "0 \<le> i" "0 \<le> j" "i \<noteq> j" "i < int (length cs)" "j < int (length cs)"
    "select cs i = Some m" "select cs j = Some m'"
  shows "\<exists>b l b' l'. region_of m = Some (b, l) \<and> region_of m' = Some (b', l') \<and> b < l \<and> b' < l' \<and> (l \<le> b' \<or> l' \<le> b)"
proof -
  have "macro_ok cs" using assms(1,2) module_macros_ok ddr_macros_ok link_macros_ok uart_macros_ok
    by (auto simp: index_macros_def list_all_iff)
  then show ?thesis using assms(3-) by (rule macro_ok_apart)
qed

text \<open>The macros for the links' memory name modules that are not declared, whatever the index below 4; elsewhere they give 0.\<close>

lemma link_mem_undeclared: "map (\<lambda>i. choice_region (select (the (map_of link_macros ''LINK_MEM_CFG'')) i)) [0, 1, 2, 3, 4, 5] =
    [None, None, None, None, Some (0, 0), Some (0, 0)]"
  by code_simp

text \<open>The two ways to address a slice of the last-level cache agree, but for the first slice, which the header declares under a
  misspelt name: the macro with two indices does not compile.\<close>

lemma llc_table:
  "list_all (\<lambda>(i, j). choice_region (llc_macro (int i) (int j)) =
    (if i = 0 \<and> j = 0 then None else Some (LLC_CFG_BASE (int (2 * i + j)), LLC_CFG_BASE (int (2 * i + j)) + 0x1000))) (List.product [0..<24] [0, 1])"
  by code_simp

theorem llc_macros_agree:
  assumes "0 \<le> i" "i < 24" "j = 0 \<or> j = 1"
  shows "choice_region (llc_macro i j) = (if i = 0 \<and> j = 0 then None else Some (LLC_CFG_BASE (2 * i + j), LLC_CFG_BASE (2 * i + j) + 0x1000))"
proof -
  obtain a b where ab: "i = int a" "j = int b" "a < 24" "b \<in> {0, 1}" using assms nonneg_int_cases[of i] nonneg_int_cases[of j] by fastforce
  then have "(a, b) \<in> set (List.product [0..<24] [0, 1])" by simp
  then have "choice_region (llc_macro (int a) (int b)) =
      (if a = 0 \<and> b = 0 then None else Some (LLC_CFG_BASE (int (2 * a + b)), LLC_CFG_BASE (int (2 * a + b)) + 0x1000))"
    using llc_table unfolding list_all_iff by fastforce
  then show ?thesis using ab by simp
qed

lemma llc_misspelt: "region_of (Llc (LLC_WARP_CFG 0 0)) = Some (LLC_CFG_BASE 0, LLC_CFG_BASE 0 + 0x1000)"
  by code_simp

text \<open>An index out of range selects the last module, or address 0, without notice.\<close>

lemma select_out_of_range: "int (length cs) \<le> i \<or> i < 0 \<Longrightarrow> select cs i = last cs"
  by (auto simp: select_def)

end
