(* ===== verification/CoreWindows.thy ===== *)
theory CoreWindows
  imports PcieProps AddrMap
begin

text \<open>
  The windows of the PCIe core in \<open>src/driver/module_reg.h\<close>: macros that pack the number of a function and a register into an
  address.  The lemmas show where the packing is one to one and where two of the windows meet, and that the
  addresses which the components use are those of the address map.
\<close>

section \<open>The macros\<close>

definition REG_PCIE_IP_CDM :: "u64 \<Rightarrow> u64 \<Rightarrow> u64 \<Rightarrow> u64 \<Rightarrow> u64 \<Rightarrow> u64" where
  "REG_PCIE_IP_CDM cs2 vf vf_act pf addr =
    PCIE_CTRL_CFG_BASE + 0x0 + (push_bit 20 cs2 OR push_bit 14 vf OR push_bit 13 vf_act OR push_bit 12 pf OR addr)"

definition REG_PCIE_IP_DMA :: "u64 \<Rightarrow> u64" where "REG_PCIE_IP_DMA addr = PCIE_CTRL_CFG_BASE + 0x140000 + addr"

definition REG_PCIE_IP_MSIX_TABLE :: "u64 \<Rightarrow> u64 \<Rightarrow> u64 \<Rightarrow> u64 \<Rightarrow> u64 \<Rightarrow> u64" where
  "REG_PCIE_IP_MSIX_TABLE cs2 vf vf_act pf addr =
    PCIE_CTRL_CFG_BASE + 0x180000 + (push_bit 13 vf OR push_bit 12 vf_act OR push_bit 11 pf OR addr)"

definition REG_PCIE_IP_MSIX_PBA :: "u64 \<Rightarrow> u64 \<Rightarrow> u64 \<Rightarrow> u64 \<Rightarrow> u64 \<Rightarrow> u64" where
  "REG_PCIE_IP_MSIX_PBA cs2 vf vf_act pf addr =
    PCIE_CTRL_CFG_BASE + 0x1c0000 + (push_bit 13 vf OR push_bit 12 vf_act OR push_bit 11 pf OR addr)"

definition REG_PCIE_IP_CDM_PF_DBI0 :: "u64 \<Rightarrow> u64 \<Rightarrow> u64" where "REG_PCIE_IP_CDM_PF_DBI0 pf addr = REG_PCIE_IP_CDM 0 0 0 pf addr"
definition REG_PCIE_IP_CDM_PF_DBI2 :: "u64 \<Rightarrow> u64 \<Rightarrow> u64" where "REG_PCIE_IP_CDM_PF_DBI2 pf addr = REG_PCIE_IP_CDM 1 0 0 pf addr"
definition REG_PCIE_IP_CDM_DBI0 :: "u64 \<Rightarrow> u64" where "REG_PCIE_IP_CDM_DBI0 addr = REG_PCIE_IP_CDM 0 0 0 0 addr"
definition REG_PCIE_IP_CDM_DBI2 :: "u64 \<Rightarrow> u64" where "REG_PCIE_IP_CDM_DBI2 addr = REG_PCIE_IP_CDM 1 0 0 0 addr"
definition REG_PCIE_SRIOV_BASE :: u64 where "REG_PCIE_SRIOV_BASE = REG_PCIE_IP_CDM_PF_DBI0 0 0x230"
definition REG_PCIE_SRIOV :: "u64 \<Rightarrow> u64" where "REG_PCIE_SRIOV x = REG_PCIE_SRIOV_BASE + x"

definition GPU_REG_BASE :: u64 where "GPU_REG_BASE = 0x7f00000000"
definition BAR2GPU :: "u64 \<Rightarrow> u64" where "BAR2GPU x = GPU_REG_BASE + x"
definition GPU2BAR :: "u64 \<Rightarrow> u64" where "GPU2BAR x = x - GPU_REG_BASE"

lemma bar_gpu [simp]: "GPU2BAR (BAR2GPU x) = x" "BAR2GPU (GPU2BAR x) = x"
  by (simp_all add: BAR2GPU_def GPU2BAR_def)

section \<open>Packing\<close>

text \<open>Fields within their widths: the sum of their places.\<close>

lemma field_or:
  fixes w a :: u64
  assumes "uint a < 2 ^ n" "uint w < 2 ^ k" "n + k \<le> 32"
  shows "push_bit n w OR a = push_bit n w + a" "uint (push_bit n w + a) = uint w * 2 ^ n + uint a" "uint (push_bit n w + a) < 2 ^ (n + k)"
proof -
  have "uint w * 2 ^ n < 2 ^ k * 2 ^ n" using assms(2) by simp
  then have "uint w + 1 \<le> 2 ^ k" using assms(2) by simp
  then have "(uint w + 1) * 2 ^ n \<le> 2 ^ k * 2 ^ n" by (intro mult_right_mono) simp_all
  then have b: "uint w * 2 ^ n + uint a < 2 ^ (n + k)" using assms(1) by (simp add: power_add algebra_simps)
  moreover have "(2 :: int) ^ (n + k) \<le> 2 ^ 32" using assms(3) by (intro power_increasing) simp_all
  ultimately have "uint w * 2 ^ n + uint a < 2 ^ 64" by simp
  then have "uint (word_of_int (uint w * 2 ^ n + uint a) :: u64) = uint w * 2 ^ n + uint a" by (intro uint_of_int_small) simp_all
  moreover have "push_bit n w + a = word_of_int (uint w * 2 ^ n + uint a)" by (simp add: push_bit_eq_mult)
  ultimately show e: "uint (push_bit n w + a) = uint w * 2 ^ n + uint a" by (simp only:)
  show "uint (push_bit n w + a) < 2 ^ (n + k)" unfolding e by (rule b)
  show "push_bit n w OR a = push_bit n w + a" by (rule or_is_plus[OF assms(1)])
qed

text \<open>The three fields of a function above \<open>n\<close> bits of a register.\<close>

lemma function_fields:
  fixes a :: u64
  assumes "vf < 64" "va < 2" "pf < 2" "uint a < 2 ^ n" "n \<le> 16"
  shows "push_bit (n + 2) vf OR push_bit (n + 1) va OR push_bit n pf OR a = push_bit (n + 2) vf + (push_bit (n + 1) va + (push_bit n pf + a))"
    "uint (push_bit (n + 2) vf + (push_bit (n + 1) va + (push_bit n pf + a))) = uint vf * 2 ^ (n + 2) + uint va * 2 ^ (n + 1) + uint pf * 2 ^ n + uint a"
    "uint (push_bit (n + 2) vf + (push_bit (n + 1) va + (push_bit n pf + a))) < 2 ^ (n + 8)"
proof -
  have u: "uint vf < 2 ^ 6" "uint va < 2 ^ 1" "uint pf < 2 ^ 1" using assms(1-3) by (simp_all add: word_less_def)
  note 1 = field_or[OF assms(4) u(3)]
  have l: "uint (push_bit n pf + a) < 2 ^ (n + 1)" using 1(3) assms(5) by simp
  note 2 = field_or[OF l u(2)]
  have l': "uint (push_bit (n + 1) va + (push_bit n pf + a)) < 2 ^ (n + 2)" using 2(3) assms(5) by simp
  note 3 = field_or[OF l' u(1)]
  show "push_bit (n + 2) vf OR push_bit (n + 1) va OR push_bit n pf OR a = push_bit (n + 2) vf + (push_bit (n + 1) va + (push_bit n pf + a))"
    using 1(1) 2(1) 3(1) assms(5) by (simp add: or.assoc)
  show "uint (push_bit (n + 2) vf + (push_bit (n + 1) va + (push_bit n pf + a))) = uint vf * 2 ^ (n + 2) + uint va * 2 ^ (n + 1) + uint pf * 2 ^ n + uint a"
    using 1(2) 2(2) 3(2) assms(5) by simp
  show "uint (push_bit (n + 2) vf + (push_bit (n + 1) va + (push_bit n pf + a))) < 2 ^ (n + 8)" using 3(3) assms(5) by (simp add: add.commute)
qed

lemma uint_cdm:
  assumes "cs2 < 2" "vf < 64" "va < 2" "pf < 2" "a < 0x1000"
  shows "uint (REG_PCIE_IP_CDM cs2 vf va pf a) = 0x200000 + uint cs2 * 2 ^ 20 + uint vf * 2 ^ 14 + uint va * 2 ^ 13 + uint pf * 2 ^ 12 + uint a"
proof -
  have a: "uint a < 2 ^ 12" and c: "uint cs2 < 2 ^ 1" using assms(1,5) by (simp_all add: word_less_def)
  note f = function_fields[OF assms(2-4) a, simplified]
  note g = field_or[OF _ c, of "push_bit 14 vf + (push_bit 13 va + (push_bit 12 pf + a))" 20, simplified, OF f(3)]
  have "REG_PCIE_IP_CDM cs2 vf va pf a = 0x200000 + (push_bit 20 cs2 + (push_bit 14 vf + (push_bit 13 va + (push_bit 12 pf + a))))"
    using f(1) g(1) by (simp add: REG_PCIE_IP_CDM_def PCIE_CTRL_CFG_BASE_def or.assoc)
  moreover have "uint (0x200000 + (push_bit 20 cs2 + (push_bit 14 vf + (push_bit 13 va + (push_bit 12 pf + a))))) =
      0x200000 + uint (push_bit 20 cs2 + (push_bit 14 vf + (push_bit 13 va + (push_bit 12 pf + a))))"
    using g(3) by (subst uint_add_bounded) simp_all
  ultimately show ?thesis using g(2) f(2) by simp
qed

lemma cdm_digits:
  fixes c v w p a :: int
  assumes "0 \<le> v" "v < 64" "0 \<le> w" "w < 2" "0 \<le> p" "p < 2" "0 \<le> a" "a < 4096"
    "n = c * 1048576 + v * 16384 + w * 8192 + p * 4096 + a"
  shows "n div 1048576 = c" "n div 16384 mod 64 = v" "n div 8192 mod 2 = w" "n div 4096 mod 2 = p" "n mod 4096 = a"
proof -
  have digit: "(x * m + y) div m = x" "(x * m + y) mod m = y" if "0 \<le> y" "y < m" for x y m :: int
    using that by simp_all
  have n: "n = (((c * 64 + v) * 2 + w) * 2 + p) * 4096 + a" using assms(9) by simp
  show "n mod 4096 = a" unfolding n by (rule digit) (use assms in simp_all)
  have 1: "n div 4096 = ((c * 64 + v) * 2 + w) * 2 + p" unfolding n by (rule digit) (use assms in simp_all)
  show "n div 4096 mod 2 = p" unfolding 1 by (rule digit) (use assms in simp_all)
  have "n div 8192 = n div 4096 div 2" using zdiv_zmult2_eq[of 2 n 4096] by simp
  then have 2: "n div 8192 = (c * 64 + v) * 2 + w" unfolding 1 using digit(1)[of p 2] assms by simp
  show "n div 8192 mod 2 = w" unfolding 2 by (rule digit) (use assms in simp_all)
  have "n div 16384 = n div 8192 div 2" using zdiv_zmult2_eq[of 2 n 8192] by simp
  then have 3: "n div 16384 = c * 64 + v" unfolding 2 using digit(1)[of w 2] assms by simp
  show "n div 16384 mod 64 = v" unfolding 3 by (rule digit) (use assms in simp_all)
  have "n div 1048576 = n div 16384 div 64" using zdiv_zmult2_eq[of 64 n 16384] by simp
  then show "n div 1048576 = c" unfolding 3 using digit(1)[of v 64] assms by simp
qed

text \<open>The address of a register of a function's configuration space determines the function and the register.\<close>

theorem cdm_roundtrip:
  assumes "cs2 < 2" "vf < 64" "va < 2" "pf < 2" "a < 0x1000" "x = REG_PCIE_IP_CDM cs2 vf va pf a - PCIE_CTRL_CFG_BASE"
  shows "(drop_bit 20 x, take_bit 6 (drop_bit 14 x), take_bit 1 (drop_bit 13 x), take_bit 1 (drop_bit 12 x), take_bit 12 x) = (cs2, vf, va, pf, a)"
proof -
  let ?n = "uint cs2 * 2 ^ 20 + uint vf * 2 ^ 14 + uint va * 2 ^ 13 + uint pf * 2 ^ 12 + uint a"
  have u: "uint cs2 < 2" "uint vf < 64" "uint va < 2" "uint pf < 2" "uint a < 0x1000" using assms(1-5) by (simp_all add: word_less_def)
  have sub: "(word_of_int (0x200000 + m) :: u64) - 0x200000 = word_of_int m" for m by simp
  have "uint (REG_PCIE_IP_CDM cs2 vf va pf a) = 0x200000 + ?n" using uint_cdm[OF assms(1-5)] by (simp only: add.assoc)
  then have "x = word_of_int ?n" unfolding assms(6) PCIE_CTRL_CFG_BASE_def by (metis sub word_of_int_uint)
  moreover have "0 \<le> ?n" by simp
  moreover have "?n < 2 ^ 64" using u by simp
  ultimately have x: "uint x = ?n" using uint_of_int_small[of ?n, where ?'a = 64] by simp
  have small: "uint x mod 18446744073709551616 = uint x" using unsigned_less[of x, where ?'a = int] by (intro mod_pos_pos_trivial) simp_all
  have d: "uint (drop_bit 20 x) = uint x div 1048576" "uint (take_bit 6 (drop_bit 14 x)) = uint x div 16384 mod 64"
    "uint (take_bit 1 (drop_bit 13 x)) = uint x div 8192 mod 2" "uint (take_bit 1 (drop_bit 12 x)) = uint x div 4096 mod 2"
    "uint (take_bit 12 x) = uint x mod 4096"
    unfolding unsigned_drop_bit_eq unsigned_take_bit_eq using small by (simp_all add: drop_bit_eq_div take_bit_eq_mod)
  have "uint x = uint cs2 * 1048576 + uint vf * 16384 + uint va * 8192 + uint pf * 4096 + uint a" using x by simp
  then have "uint (drop_bit 20 x) = uint cs2" "uint (take_bit 6 (drop_bit 14 x)) = uint vf" "uint (take_bit 1 (drop_bit 13 x)) = uint va"
    "uint (take_bit 1 (drop_bit 12 x)) = uint pf" "uint (take_bit 12 x) = uint a"
    unfolding d using u by (intro cdm_digits; simp)+
  then show ?thesis by (simp only: word_uint_eq_iff prod.inject simp_thms)
qed

section \<open>Windows that meet\<close>

text \<open>The window of the interrupt tables holds 32 virtual functions and that of the pending bits 16, and the driver has 60: from function 32 on a table is at
  the address of the pending bits of the function 32 before, and from 16 on the pending bits are in the window of the translation unit.\<close>

lemma msix_windows_meet:
  "vf < 28 \<Longrightarrow> va < 2 \<Longrightarrow> pf < 2 \<Longrightarrow> addr < 0x800 \<Longrightarrow> REG_PCIE_IP_MSIX_TABLE cs2 (vf + 32) va pf addr = REG_PCIE_IP_MSIX_PBA cs2 vf va pf addr"
  "addr < 0x100 \<Longrightarrow> REG_PCIE_IP_MSIX_PBA cs2 16 0 0 addr = REG_PCIE_IP_IATU 0 0 addr"
proof -
  assume r: "vf < 28" "va < 2" "pf < 2" "addr < 0x800"
  then have v: "uint (vf + 32) = uint vf + 32" by (subst uint_add_bounded) (simp_all add: word_less_def)
  have a: "uint addr < 2 ^ 11" "vf < 64" "vf + 32 < 64" using r v by (simp_all add: word_less_def)
  note f = function_fields[OF a(2) r(2,3) a(1), simplified] function_fields[OF a(3) r(2,3) a(1), simplified]
  have "push_bit 13 (vf + 32) = push_bit 13 vf + 0x40000" by (simp add: push_bit_eq_mult)
  then show "REG_PCIE_IP_MSIX_TABLE cs2 (vf + 32) va pf addr = REG_PCIE_IP_MSIX_PBA cs2 vf va pf addr"
    using f(1,4) by (simp add: REG_PCIE_IP_MSIX_TABLE_def REG_PCIE_IP_MSIX_PBA_def)
next
  assume "addr < 0x100"
  then have "uint addr < 2 ^ 13" by (simp add: word_less_def)
  then have "push_bit 13 16 OR addr = 0x20000 + addr" using or_is_plus[of addr 13 16] by simp
  then show "REG_PCIE_IP_MSIX_PBA cs2 16 0 0 addr = REG_PCIE_IP_IATU 0 0 addr"
    by (simp add: REG_PCIE_IP_MSIX_PBA_def REG_PCIE_IP_IATU_def)
qed

section \<open>Stores to a module\<close>

text \<open>A place of BAR 0 that belongs to one of the modules and to no other.\<close>

definition in_modules :: "emu_pcie \<Rightarrow> chip_module set \<Rightarrow> ioaddr \<Rightarrow> bool" where
  "in_modules ep ms a \<longleftrightarrow> (\<exists>x m. a = io_off (bar_addr ep 0) (word_of_int x) \<and> m \<in> ms \<and> modules_at x = [m])"

text \<open>Every store of a program satisfies \<open>P\<close>.\<close>

definition within :: "(ioaddr \<Rightarrow> bool) \<Rightarrow> 'a io \<Rightarrow> bool" where
  "within P prog \<longleftrightarrow> (\<forall>t. \<exists>ws. writes (exec prog t) = writes t @ ws \<and> (\<forall>(a, v) \<in> set ws. P a))"

named_theorems within_intros \<open>stores of a program, by its structure\<close>

lemma within_bind [within_intros]:
  assumes "within P prog" "\<And>x. within P (f x)"
  shows "within P (State_Monad.bind prog f)"
  unfolding within_def
proof
  fix t
  obtain ws vs where "writes (exec prog t) = writes t @ ws" "\<forall>(a, v) \<in> set ws. P a"
      "writes (exec (f (result_of prog t)) (exec prog t)) = writes (exec prog t) @ vs" "\<forall>(a, v) \<in> set vs. P a"
    using assms unfolding within_def by metis
  then show "\<exists>ws. writes (exec (State_Monad.bind prog f) t) = writes t @ ws \<and> (\<forall>(a, v) \<in> set ws. P a)"
    by (intro exI[of _ "ws @ vs"]) (auto simp: run_steps)
qed

lemma within_return [within_intros]: "within P (State_Monad.return x)"
  by (simp add: within_def run_steps)

lemma within_sreg [within_intros]: "P (io_off (bar_addr ep 0) a) \<Longrightarrow> within P (sreg_u32 ep a v)"
  by (simp add: within_def sreg_u32_def run_steps)

lemma within_greg [within_intros]: "within P (greg_u32 hw ep a)"
  by (simp add: within_def greg_u32_def run_steps)

lemma within_for [within_intros]: "(\<And>i. i \<in> set is \<Longrightarrow> within P (f i)) \<Longrightarrow> within P (for_io is f)"
proof (induction "is")
  case (Cons i js)
  then show ?case by (auto intro!: within_bind)
qed (simp add: within_return)

lemma map_of_apfst: "map_of xs n = Some r \<Longrightarrow> (C n, r) \<in> set (map (apfst C) xs)"
  by (drule map_of_SomeD) (force simp: apfst_def)

lemma region_entry: "region_of m = Some r \<Longrightarrow> (m, r) \<in> set memory_map"
  unfolding region_of_def memory_map_def set_append Un_iff by (cases m) (simp_all only: chip_module.case map_of_apfst simp_thms)

lemma in_modulesI:
  assumes "region_of m = Some (uint base, l)" "l \<le> 0x7000000" "uint base + uint k < l" "m \<in> ms"
  shows "in_modules ep ms (io_off (bar_addr ep 0) (base + k))"
proof -
  have "m \<in> set (modules_at (uint base + uint k))"
    unfolding modules_at_def regions_at_def in_region_def using region_entry[OF assms(1)] assms(3) by (auto intro!: image_eqI[of m fst "(m, uint base, l)"])
  moreover have "length (modules_at (uint base + uint k)) \<le> 1"
    using ascending_unique[OF map_ascending, of "uint base + uint k"] memory_map_length[of "uint base + uint k"] assms(2,3) by simp
  ultimately have "modules_at (uint base + uint k) = [m]" by (cases "modules_at (uint base + uint k)") simp_all
  moreover have "base + k = word_of_int (uint base + uint k)" by simp
  ultimately show ?thesis unfolding in_modules_def using assms(4) by metis
qed

text \<open>The three parts of the initialisation of a translation unit stay in the three modules of the unit.\<close>

lemma within_tzc:
  assumes "region_of m = Some (uint base, l)" "l \<le> 0x7000000" "uint base + 0x124 \<le> l" "m \<in> ms"
  shows "within (in_modules ep ms) (eata_tzc_init ep base)"
  unfolding eata_tzc_init_def using assms(3) by (intro within_intros in_modulesI[OF assms(1,2) _ assms(4)]) simp_all

lemma within_common:
  assumes "region_of m = Some (uint base, l)" "l \<le> 0x7000000" "uint base + 0x28 \<le> l" "m \<in> ms"
  shows "within (in_modules ep ms) (eata_common_init ep base)"
  unfolding eata_common_init_def using assms(3) by (intro within_intros in_modulesI[OF assms(1,2) _ assms(4)]) simp_all

lemma uint_small_nat: "n < 2 ^ 64 \<Longrightarrow> uint (of_nat n :: u64) = int n"
  by (simp add: unsigned_of_nat take_bit_nat_eq_self)

lemma within_desc:
  assumes "region_of m = Some (uint base, l)" "l \<le> 0x7000000" "uint base + int vfs * 0x100 \<le> l" "m \<in> ms"
  shows "within (in_modules ep ms) (eata_desc_init ep base vfs)"
  unfolding eata_desc_init_def
proof (intro within_intros)
  fix x y assume "x \<in> set [0..<vfs]" "y \<in> set [0..<EATA_DESC_NUM]"
  then have xy: "x < vfs" "y < 48" by (simp_all add: EATA_DESC_NUM_def)
  have e: "EATA_REG_OF_DESCx_VMn base x + 0x004 * of_nat y = base + of_nat (x * 0x100 + 4 * y)"
    by (simp add: EATA_REG_OF_DESCx_VMn_def)
  have "int x * 0x100 + 4 * int y < int vfs * 0x100" using xy by linarith
  moreover from this have "int x * 0x100 + 4 * int y < 0x7000000" using assms(2,3) uint_ge_0[of base] by linarith
  then have "int (x * 0x100 + 4 * y) < int (2 ^ 64)" by simp
  then have "x * 0x100 + 4 * y < 2 ^ 64" by (simp only: of_nat_less_iff)
  ultimately show "in_modules ep ms (io_off (bar_addr ep 0) (EATA_REG_OF_DESCx_VMn base x + 0x004 * of_nat y))"
    unfolding e using assms(3) uint_small_nat[of "x * 0x100 + 4 * y"] by (intro in_modulesI[OF assms(1,2) _ assms(4)]) simp
qed

lemma unit_regions:
  "list_all (\<lambda>i. region_of (Gpu (GPU_EATA_TF_CFG (nat i))) = Some (uint (GPU_EATA_TF_CFG_BASE i), uint (GPU_EATA_TF_CFG_BASE i) + 0x1000) \<and>
     region_of (Gpu (GPU_EATA_GC_CFG (nat i))) = Some (uint (GPU_EATA_GC_CFG_BASE i), uint (GPU_EATA_GC_CFG_BASE i) + 0x800) \<and>
     region_of (Gpu (GPU_EATA_DS_CFG (nat i))) = Some (uint (GPU_EATA_DS_CFG_BASE i), uint (GPU_EATA_DS_CFG_BASE i) + 0x800) \<and>
     uint (GPU_EATA_TF_CFG_BASE i) < 0x1000000 \<and> uint (GPU_EATA_GC_CFG_BASE i) < 0x1000000 \<and> uint (GPU_EATA_DS_CFG_BASE i) < 0x1000000)
     [0, 1, 2, 3, 4, 5, 6, 7]"
  "list_all (\<lambda>i. region_of (Vid (VID_SS_EATA_TF_CFG (nat i))) = Some (uint (VID_SS_EATA_TF_CFG_BASE i), uint (VID_SS_EATA_TF_CFG_BASE i) + 0x1000) \<and>
     region_of (Vid (VID_SS_EATA_GC_CFG (nat i))) = Some (uint (VID_SS_EATA_GC_CFG_BASE i), uint (VID_SS_EATA_GC_CFG_BASE i) + 0x800) \<and>
     region_of (Vid (VID_SS_EATA_DS_CFG (nat i))) = Some (uint (VID_SS_EATA_DS_CFG_BASE i), uint (VID_SS_EATA_DS_CFG_BASE i) + 0x4000) \<and>
     uint (VID_SS_EATA_TF_CFG_BASE i) < 0x1000000 \<and> uint (VID_SS_EATA_GC_CFG_BASE i) < 0x1000000 \<and> uint (VID_SS_EATA_DS_CFG_BASE i) < 0x1000000)
     [0, 1]"
  "region_of (Vid PCIE_DMA_EATA_TF_CFG) = Some (uint PCIE_DMA_EATA_TF_CFG_BASE, 0x881000)"
  "region_of (Vid PCIE_DMA_EATA_GC_CFG) = Some (uint PCIE_DMA_EATA_GC_CFG_BASE, 0x881800)"
  "region_of (Vid PCIE_DMA_EATA_DS_CFG) = Some (uint PCIE_DMA_EATA_DS_CFG_BASE, 0x888000)"
  "region_of (Vid PCIE_CTRL_CFG) = Some (uint PCIE_CTRL_CFG_BASE, 0x400000)"
  by code_simp+

lemma within_atu:
  assumes "Vid PCIE_CTRL_CFG \<in> ms" "z < 2" "b < 0x100"
  shows "in_modules ep ms (io_off (bar_addr ep 0) (REG_PCIE_IP_IATU j z b))"
proof -
  have "uint (REG_PCIE_IP_IATU j z b) = 0x3e0000 + uint j * 512 + uint z * 256 + uint b" by (rule uint_iatu[OF assms(2,3)])
  moreover have "uint j < 256" "uint z < 2" "uint b < 256" using assms(2,3) unsigned_less[of j, where ?'a = int] by (simp_all add: word_less_def)
  ultimately have "0x200000 \<le> uint (REG_PCIE_IP_IATU j z b)" "uint (REG_PCIE_IP_IATU j z b) < 0x400000" using uint_ge_0[of j] uint_ge_0[of z] uint_ge_0[of b] by linarith+
  moreover from this have "uint (REG_PCIE_IP_IATU j z b - 0x200000) = uint (REG_PCIE_IP_IATU j z b) - 0x200000"
    by (subst uint_sub_lem[THEN iffD1]) simp_all
  ultimately show ?thesis
    using in_modulesI[OF unit_regions(6) _ _ assms(1), of "REG_PCIE_IP_IATU j z b - 0x200000" ep] by (simp add: PCIE_CTRL_CFG_BASE_def)
qed

abbreviation gpu_unit :: "int \<Rightarrow> chip_module set" where
  "gpu_unit g \<equiv> {Gpu (GPU_EATA_TF_CFG (nat g)), Gpu (GPU_EATA_GC_CFG (nat g)), Gpu (GPU_EATA_DS_CFG (nat g))}"

abbreviation vid_unit :: "int \<Rightarrow> chip_module set" where
  "vid_unit v \<equiv> {Vid (VID_SS_EATA_TF_CFG (nat v)), Vid (VID_SS_EATA_GC_CFG (nat v)), Vid (VID_SS_EATA_DS_CFG (nat v))}"

abbreviation dma_unit :: "chip_module set" where
  "dma_unit \<equiv> {Vid PCIE_DMA_EATA_TF_CFG, Vid PCIE_DMA_EATA_GC_CFG, Vid PCIE_DMA_EATA_DS_CFG}"

lemma within_gpu:
  assumes "0 \<le> g" "g < 8"
  shows "within (in_modules ep (gpu_unit g)) (gpu_eata_init ep g)"
proof -
  have "g \<in> set [0, 1, 2, 3, 4, 5, 6, 7]" using assms by auto
  note G = unit_regions(1)[unfolded list_all_iff, rule_format, OF this]
  have vm: "in_modules ep (gpu_unit g) (io_off (bar_addr ep 0) (GPU_EATA_GC_CFG_BASE g + (0x038 + of_nat x * 4)))" if "x < 6" for x
  proof -
    have "uint (of_nat (0x038 + x * 4) :: u64) = int (0x038 + x * 4)" by (rule uint_small_nat) (use that in simp)
    then have "uint (0x038 + of_nat x * 4 :: u64) < 0x800" using that by simp
    then show ?thesis using G by (intro in_modulesI[of "Gpu (GPU_EATA_GC_CFG (nat g))"]) auto
  qed
  have one: "in_modules ep (gpu_unit g) (io_off (bar_addr ep 0) (GPU_EATA_GC_CFG_BASE g + 0x034))"
    using G by (intro in_modulesI[of "Gpu (GPU_EATA_GC_CFG (nat g))"]) auto
  show ?thesis unfolding gpu_eata_init_def gpu_eata_common_init_def gpu_eata_tzc_init_def gpu_eata_desc_init_def add.assoc
    using G vm one by (intro within_intros within_tzc[of "Gpu (GPU_EATA_TF_CFG (nat g))"] within_common[of "Gpu (GPU_EATA_GC_CFG (nat g))"]
        within_desc[of "Gpu (GPU_EATA_DS_CFG (nat g))"]) (auto simp: EATA_VF_NUM_PER_GPU_def)
qed

lemma within_vid:
  assumes "0 \<le> v" "v < 2"
  shows "within (in_modules ep (vid_unit v)) (vid_eata_init ep v)"
proof -
  have "v \<in> set [0, 1]" using assms by auto
  note V = unit_regions(2)[unfolded list_all_iff, rule_format, OF this]
  show ?thesis unfolding vid_eata_init_def vid_eata_common_init_def vid_eata_tzc_init_def vid_eata_desc_init_def
    using V by (intro within_intros within_tzc[of "Vid (VID_SS_EATA_TF_CFG (nat v))"] within_common[of "Vid (VID_SS_EATA_GC_CFG (nat v))"]
        within_desc[of "Vid (VID_SS_EATA_DS_CFG (nat v))"]) (auto simp: EATA_VF_NUM_def)
qed

lemma within_dma: "within (in_modules ep dma_unit) (mtdma_eata_init ep)"
  unfolding mtdma_eata_init_def mtdma_eata_common_init_def mtdma_eata_tzc_init_def mtdma_eata_desc_init_def
  by (intro within_intros within_tzc[OF unit_regions(3)] within_common[OF unit_regions(4)] within_desc[OF unit_regions(5)])
    (simp_all add: EATA_VF_NUM_def PCIE_DMA_EATA_TF_CFG_BASE_def PCIE_DMA_EATA_GC_CFG_BASE_def PCIE_DMA_EATA_DS_CFG_BASE_def)

lemma within_map: "within (in_modules ep {Vid PCIE_CTRL_CFG, Vid PCIE_DMA_EATA_DS_CFG}) (iatu_init hw ep)"
proof -
  let ?P = "in_modules ep {Vid PCIE_CTRL_CFG, Vid PCIE_DMA_EATA_DS_CFG}"
  note atu = within_atu[where ms = "{Vid PCIE_CTRL_CFG, Vid PCIE_DMA_EATA_DS_CFG}"]
  have 1: "within ?P (pcie_prog_inbound_atu hw ep j f b l)" "within ?P (pcie_prog_inbound_atu_vf hw ep j f b l)"
      "within ?P (pcie_prog_outbound_atu hw ep j f x y z)" for j f b l x y z
    unfolding pcie_prog_inbound_atu_def pcie_prog_inbound_atu_vf_def pcie_prog_outbound_atu_def Let_def
    by (intro within_intros atu; simp add: atu_regs)+
  have 2: "within ?P (mtdma_eata_desc_init ep)"
    unfolding mtdma_eata_desc_init_def by (intro within_desc[OF unit_regions(5)]) (simp_all add: EATA_VF_NUM_def PCIE_DMA_EATA_DS_CFG_BASE_def)
  have 3: "within ?P (mtdma_eata_desc_en ep i 0 d)" if "i < VF_NUM" for i d
  proof -
    have "uint (of_nat (i * 0x100) :: u64) = int (i * 0x100)" by (rule uint_small_nat) (use that in \<open>simp add: VF_NUM_def\<close>)
    then have "uint PCIE_DMA_EATA_DS_CFG_BASE + uint (of_nat i * 0x100 :: u64) < 0x888000"
      using that by (simp add: VF_NUM_def PCIE_DMA_EATA_DS_CFG_BASE_def)
    then show ?thesis unfolding mtdma_eata_desc_en_def eata_desc_en_def
      by (intro within_sreg) (auto simp: EATA_REG_OF_DESCx_VMn_def EATA_DESC_IDX_def intro!: in_modulesI[OF unit_regions(5)])
  qed
  show ?thesis unfolding iatu_init_def by (intro within_intros 1 2 3) simp
qed

text \<open>C32. Programming address translation touches no other module: the initialisation of a graphics or video unit or of the DMA
  engine stores only into the three modules of that unit, and that of the device's memory map only into the PCIe core and the table of the DMA
  engine, as the address map has them.\<close>

theorem translation_stays_in_modules:
  assumes "0 \<le> g" "g < 8" "0 \<le> v" "v < 2"
  shows "within (in_modules ep (gpu_unit g)) (gpu_eata_init ep g) \<and> within (in_modules ep (vid_unit v)) (vid_eata_init ep v) \<and>
    within (in_modules ep dma_unit) (mtdma_eata_init ep) \<and> within (in_modules ep {Vid PCIE_CTRL_CFG, Vid PCIE_DMA_EATA_DS_CFG}) (iatu_init hw ep)"
  using within_gpu[OF assms(1,2)] within_vid[OF assms(3,4)] within_dma within_map by blast

theorem translation_stays_in_modules_witness:
  "within (in_modules demo_pcie (gpu_unit 7)) (gpu_eata_init demo_pcie 7)"
  by (rule conjunct1[OF translation_stays_in_modules[of 7 0]]) simp_all

theorem cdm_roundtrip_witness: "drop_bit 20 (REG_PCIE_IP_CDM 1 47 1 0 0x230 - PCIE_CTRL_CFG_BASE) = 1"
  using cdm_roundtrip[of 1 47 1 0 "0x230" "REG_PCIE_IP_CDM 1 47 1 0 0x230 - PCIE_CTRL_CFG_BASE", OF _ _ _ _ _ refl] by simp

text \<open>A video unit with a number the header does not know is at address 0, in the boot ROM.\<close>

lemma vid_unit_unknown: "2 \<le> v \<Longrightarrow> VID_SS_EATA_TF_CFG_BASE v = 0 \<and> modules_at 0 = [Soc ROM]"
  by (rule conjI, simp add: VID_SS_EATA_TF_CFG_BASE_def, code_simp)

end
