(* ===== verification/PcieSs.thy ===== *)
theory PcieSs
  imports AddrMap Pcie
begin

text \<open>
  The registers of the PCIe subsystem in \<open>reg_define.h\<close>: those of the core, of the application logic with the physical
  functions, and a block of registers for each virtual function (its table of MSI-X messages, pending bits, interrupt masks and statuses).  The
  header names every register of every block one by one; the specification is the layout by which the address of a register follows from the number of the
  function.  All addresses are offsets from \<open>PCIE_SS_CFG_BASE\<close>.
\<close>

section \<open>The tables\<close>

text \<open>The registers whose names begin with \<open>REG_PCIESS_CTRL_\<close>, and the names that the beginning of the header gives to some of them.\<close>

definition pciess_core :: "(string \<times> int) list" where
  "pciess_core =
    [(''APP_SRIS_MODE'', 0x0), (''APP_LTSSM_ENABLE'', 0x4), (''APP_HOLD_PHY_RST'', 0x8), (''APP_CLK_REQ_N'', 0xc), (''APP_CLK_PM_EN'', 0x10),
     (''APP_INIT_RST'', 0x14), (''APP_REQ_ENTR_L1'', 0x18), (''APP_READY_ENTR_L23'', 0x1c), (''APP_REQ_EXIT_L1'', 0x20),
     (''APP_EXP_ROM_VALIDATION_STATUS_STROBE'', 0x28), (''APP_EXP_ROM_VALIDATION_STATUS'', 0x2c),
     (''APP_EXP_ROM_VALIDATION_DETAILS_STROBE'', 0x30), (''APP_EXP_ROM_VALIDATION_DETAILS'', 0x34), (''APP_REQ_RETRY_EN'', 0x38),
     (''APP_PF_REQ_RETRY_EN'', 0x3c), (''APP_VF_REQ_RETRY_EN_0_31'', 0x40), (''APP_VF_REQ_RETRY_EN_32_47'', 0x44),
     (''APP_CFG_HP_SLOT_CTRL_ACCESS'', 0x48), (''APP_CFG_HW_AUTO_SP_DIS'', 0x4c), (''APP_RADM_TRGT1_VC'', 0x50),
     (''APP_DBI_RO_WR_DISABLE'', 0x54), (''APP_CFG_VF_BME_0_31'', 0x58), (''APP_CFG_VF_BME_32_47'', 0x5c), (''APP_CFG_VF_EN'', 0x60),
     (''APP_CFG_NUM_VF'', 0x64), (''APP_FLR_PF_DONE'', 0x68), (''APP_CFG_FLR_PF_ACTIVE'', 0x6c), (''APP_FLR_VF_DONE_0_31'', 0x70),
     (''APP_FLR_VF_DONE_32_47'', 0x74), (''APP_CFG_FLR_VF_ACTIVE_0_31'', 0x78), (''APP_CFG_FLR_VF_ACTIVE_32_47'', 0x7c),
     (''APP_RX_LANE_FLIP_EN'', 0x80), (''APP_TX_LANE_FLIP_EN'', 0x84), (''APP_APPS_PM_XMT_PME'', 0x88), (''APP_PM_CURNT_STATE'', 0x8c),
     (''APP_SMLH_LTSSM_STATE'', 0x90), (''APP_PM_DSTATE'', 0x94), (''APP_PM_PME_EN'', 0x98), (''APP_PM_LINKST_IN'', 0x9c),
     (''APP_PM_MASTER_STATE'', 0xa0), (''APP_PM_SLAVE_STATE'', 0xa4), (''APP_PM_STATUS'', 0xa8), (''APP_AUX_PM_EN'', 0xac),
     (''APP_ERR_ADVISORY'', 0xb0), (''APP_ERR_BUS'', 0xb4), (''APP_ERR_FUNC_NUM'', 0xb8), (''APP_ERR_VFUNC_ACTIVE'', 0xbc),
     (''APP_ERR_VFUNC_NUM'', 0xc0), (''APP_HDR_LOG_0'', 0xc4), (''APP_HDR_LOG_1'', 0xc8), (''APP_HDR_LOG_2'', 0xcc), (''APP_HDR_LOG_3'', 0xd0),
     (''APP_HDR_VALID'', 0xd4), (''APP_MARGINING_READY'', 0xd8), (''APP_MARGINING_SOFTWARE_READY'', 0xdc), (''APP_OUTBAND_PWRUP_CMD'', 0xe0),
     (''APP_SYS_AUX_PWR_DET'', 0xe4), (''APP_VEN_MSI_TC'', 0xe8), (''APP_PHY_MAC_PHYSTATUS'', 0xec), (''APP_DIAG_CTRL_BUS'', 0xf0),
     (''APP_SLV_ARMISC'', 0xf4), (''APP_SLV_AWMISC'', 0xf8), (''APP_SLV_AWMISC_INFO_HDR_LOW'', 0xfc), (''APP_SLV_AWMISC_INFO_HDR_HIGH'', 0x100),
     (''APP_SLV_AWMISC_INFO_P'', 0x104), (''APP_SLV_WMISC_INFO'', 0x108), (''APP_SLV_BMISC'', 0x10c), (''APP_SLV_RMISC'', 0x110),
     (''APP_MSTR_ARMISC_INFO_LOW'', 0x114), (''APP_MSTR_ARMISC_INFO_HIGH'', 0x118), (''APP_MSTR_ARMISC_INFO'', 0x11c),
     (''APP_MSTR_AWMISC_INFO_LOW'', 0x120), (''APP_MSTR_AWMISC_INFO_HIGH'', 0x124), (''APP_MSTR_AWMISC_INFO'', 0x128),
     (''APP_MSTR_AWMISC_INFO_HDR_LOW'', 0x12c), (''APP_MSTR_AWMISC_INFO_HDR_HIGH'', 0x130), (''APP_MSTR_BMISC_INFO'', 0x134),
     (''APP_MSTR_RMISC'', 0x138), (''APP_RBAR_CTRL_UPDATE'', 0x13c), (''APP_XFER_PENDING'', 0x140), (''APP_CXPL_DEBUG_INFO'', 0x144),
     (''APP_CXPL_DEBUG_INFO_0_31'', 0x148), (''APP_CXPL_DEBUG_INFO_32_63'', 0x14c), (''APP_RADM_TIMEOUT_CPL'', 0x150),
     (''APP_RADM_TIMEOUT'', 0x154), (''APP_TRGT_TIMEOUT'', 0x15c), (''APP_TRGT_TIMEOUT_CPL'', 0x160), (''APP_RAS_DES'', 0x164),
     (''APP_CFG_SEND'', 0x168), (''APP_RADM_Q'', 0x16c), (''APP_RADM_TRGT1_ATU_CBUF_ERR_0_31'', 0x170),
     (''APP_RADM_TRGT1_ATU_CBUF_ERR_32_33'', 0x174), (''APP_LINK_UP'', 0x178), (''APP_DIAG_STATUS_0_31'', 0x17c),
     (''APP_DIAG_STATUS_32_63'', 0x180), (''APP_DIAG_STATUS_64_95'', 0x184), (''APP_DIAG_STATUS_96_127'', 0x188),
     (''APP_DIAG_STATUS_128_159'', 0x18c), (''APP_DIAG_STATUS_160_191'', 0x190), (''APP_DIAG_STATUS_192_223'', 0x194),
     (''APP_DIAG_STATUS_224_255'', 0x198), (''APP_DIAG_STATUS_256_287'', 0x19c), (''APP_DIAG_STATUS_288_319'', 0x1a0),
     (''APP_DIAG_STATUS_320_351'', 0x1a4), (''APP_DIAG_STATUS_352_383'', 0x1a8), (''APP_DIAG_STATUS_384_415'', 0x1ac),
     (''APP_DIAG_STATUS_416_447'', 0x1b0), (''APP_DIAG_STATUS_448_479'', 0x1b4), (''APP_DIAG_STATUS_480_511'', 0x1b8),
     (''APP_DIAG_STATUS_512_543'', 0x1bc), (''APP_DIAG_STATUS_544_575'', 0x1c0), (''APP_DIAG_STATUS_576_607'', 0x1c4),
     (''APP_DIAG_STATUS_608_639'', 0x1c8), (''APP_DIAG_STATUS_640_671'', 0x1cc), (''APP_DIAG_STATUS_672_703'', 0x1d0),
     (''APP_DIAG_STATUS_704_735'', 0x1d4), (''APP_DIAG_STATUS_736_767'', 0x1d8), (''APP_DIAG_STATUS_768_799'', 0x1dc),
     (''APP_DIAG_STATUS_800_831'', 0x1e0), (''APP_DIAG_STATUS_832_863'', 0x1e4), (''APP_DIAG_STATUS_864_895'', 0x1e8),
     (''APP_DIAG_STATUS_896_927'', 0x1ec), (''APP_DIAG_STATUS_928_959'', 0x1f0), (''APP_DIAG_STATUS_960_991'', 0x1f4),
     (''APP_DIAG_STATUS_992_1023'', 0x1f8), (''APP_DIAG_STATUS_1024_1055'', 0x1fc), (''APP_DIAG_STATUS_1056_1087'', 0x200),
     (''APP_DIAG_STATUS_1088_1119'', 0x204), (''APP_DIAG_STATUS_1120_1151'', 0x208), (''APP_DIAG_STATUS_1152_1183'', 0x20c),
     (''APP_DIAG_STATUS_1184_1215'', 0x210), (''APP_DIAG_STATUS_1216_1247'', 0x214), (''APP_DIAG_STATUS_1248_1279'', 0x218),
     (''APP_DIAG_STATUS_1280_1311'', 0x21c), (''APP_DIAG_STATUS_1312_1343'', 0x220), (''APP_DIAG_STATUS_1344_1375'', 0x224),
     (''APP_DIAG_STATUS_1376_1407'', 0x228), (''APP_DIAG_STATUS_1408_1439'', 0x22c), (''APP_DIAG_STATUS_1440_1471'', 0x230),
     (''APP_DIAG_STATUS_1472_1503'', 0x234), (''APP_DIAG_STATUS_1504_1535'', 0x238), (''APP_DIAG_STATUS_1536_1567'', 0x23c),
     (''APP_DIAG_STATUS_1568_1599'', 0x240), (''APP_DIAG_STATUS_1600_1631'', 0x244)]"

definition pciess_app :: "(string \<times> int) list" where
  "pciess_app =
    [(''APP_DIAG_STATUS_1632_1663'', 0x248), (''APP_DIAG_STATUS_1664_1695'', 0x24c), (''APP_DIAG_STATUS_1696_1727'', 0x250),
     (''APP_DIAG_STATUS_1728_1759'', 0x254), (''APP_DIAG_STATUS_1760_1791'', 0x258), (''APP_DIAG_STATUS_1792_1823'', 0x25c),
     (''APP_DIAG_STATUS_1824_1855'', 0x260), (''APP_DIAG_STATUS_1856_1887'', 0x264), (''APP_DIAG_STATUS_1888_1919'', 0x268),
     (''APP_DIAG_STATUS_1920_1951'', 0x26c), (''APP_DIAG_STATUS_1952_1983'', 0x270), (''APP_DIAG_STATUS_1984_2015'', 0x274),
     (''APP_DIAG_STATUS_2016_2047'', 0x278), (''APP_DIAG_STATUS_2048_2079'', 0x27c), (''APP_DIAG_STATUS_2080_2111'', 0x280),
     (''APP_DIAG_STATUS_2112_2143'', 0x284), (''APP_DIAG_STATUS_2144_2175'', 0x288), (''APP_DIAG_STATUS_2176_2207'', 0x28c),
     (''APP_DIAG_STATUS_2208_2239'', 0x290), (''APP_DIAG_STATUS_2240_2271'', 0x294), (''APP_DIAG_STATUS_2272_2303'', 0x298),
     (''APP_DIAG_STATUS_2304_2335'', 0x29c), (''APP_DIAG_STATUS_2336_2367'', 0x2a0), (''APP_DIAG_STATUS_2368_2399'', 0x2a4),
     (''APP_DIAG_STATUS_2400_2431'', 0x2a8), (''APP_DIAG_STATUS_2432_2463'', 0x2ac), (''APP_DIAG_STATUS_2464_2495'', 0x2b0),
     (''APP_DIAG_STATUS_2496_2527'', 0x2b4), (''APP_DIAG_STATUS_2528_2559'', 0x2b8), (''APP_DIAG_STATUS_2560_2591'', 0x2bc),
     (''APP_DIAG_STATUS_2592_2623'', 0x2c0), (''APP_DIAG_STATUS_2624_2655'', 0x2c4), (''APP_DIAG_STATUS_2656_2687'', 0x2c8),
     (''APP_DIAG_STATUS_2688_2719'', 0x2cc), (''APP_DIAG_STATUS_2720_2751'', 0x2d0), (''APP_DIAG_STATUS_2752_2769'', 0x2d4),
     (''APP_DEVICE_TYPE'', 0x2d8), (''APP_BUS_NUM'', 0x2dc), (''APP_DEV_NUM'', 0x2e0), (''APP_MESSAGE'', 0x2e4), (''APP_HOT_PLUG'', 0x2e8),
     (''APP_CORE_IN_DPC'', 0x2ec), (''APP_RTLH_RFC'', 0x2f0), (''APP_RTLH_RFC_DATA_0'', 0x2f4), (''APP_RTLH_RFC_DATA_1'', 0x2f8),
     (''APP_RTLH_RFC_DATA_2'', 0x2fc), (''APP_RTLH_RFC_DATA_3'', 0x300), (''APP_RTLH_RFC_DATA_4'', 0x304), (''APP_RTLH_RFC_DATA_5'', 0x308),
     (''APP_RTLH_RFC_DATA_6'', 0x30c), (''APP_RTLH_RFC_DATA_7'', 0x310), (''APP_MSI_CTRL_INT'', 0x314), (''APP_IATU_SETTING'', 0x318),
     (''PF0_BAR0_OFFSET'', 0x3f4), (''PF1_BAR0_OFFSET'', 0x3f8), (''APP_SOFT_INT'', 0x1000), (''APP_CPL_TIMEOUT'', 0x1004),
     (''APP_RADM'', 0x1008), (''APP_PARITY'', 0x100c), (''APP_SMLH_REQ_RST'', 0x1010), (''APP_LINK_UP_INT'', 0x1014), (''APP_CFG_PME'', 0x1018),
     (''APP_CFG_AER_RC_ERR'', 0x101c), (''APP_CFG_LINK_AUTO_BW'', 0x1020), (''APP_CFG_BW_MGT'', 0x1024), (''APP_DPC'', 0x1028),
     (''APP_HP'', 0x102c), (''APP_CPL_TIMEOUT_MASK'', 0x1030), (''APP_LINK_EQ_REQ_INT_MASK'', 0x1034),
     (''APP_USP_EQ_REDO_EXECUTED_INT_MASK'', 0x1038), (''APP_UNCOR_ERR_MASK'', 0x103c), (''APP_CORRECTED_ERR_MASK'', 0x1040),
     (''APP_RADM_QOVERFLOW_MASK'', 0x1044), (''APP_APP_PARITY_ERRS_MASK'', 0x1048), (''APP_LINK_REQ_RST_NOT_MASK'', 0x104c),
     (''APP_PCIE_SS_INT_ENABLE_0'', 0x1050), (''APP_PCIE_SS_INT_STATUS_0'', 0x1054), (''APP_PCIE_SS_INT_ENABLE_1'', 0x1058),
     (''APP_PCIE_SS_INT_STATUS_1'', 0x105c), (''APP_OSID'', 0x1060), (''APP_FLR_FLUSH_CFG'', 0x1064), (''APP_FLR_FLUSH_RDATA'', 0x1068),
     (''APP_FLR_FLUSH_PEND'', 0x106c), (''APP_PF_DONE'', 0x1070), (''APP_VF_DONE0'', 0x1074), (''APP_VF_DONE1'', 0x1078),
     (''APP_VF_DONE2'', 0x107c), (''APP_VF_DONE3'', 0x1080), (''APP_VF_DONE4'', 0x1084), (''APP_VF_DONE5'', 0x1088),
     (''APP_SOFT_MSI_CLR'', 0x108c), (''APP_PF_MONITOR_INT_NUM'', 0x1090), (''APP_PF_INT_NUM'', 0x1094), (''APP_VF0_GPU_INT_SET_H'', 0x1098),
     (''APP_VF0_GPU_INT_SET_L'', 0x109c), (''APP_PF0_MSIX_VEC0_DW0'', 0x4000), (''APP_PF0_MSIX_VEC0_DW1'', 0x4004),
     (''APP_PF0_MSIX_VEC0_DW2'', 0x4008), (''APP_PF0_MSIX_VEC0_DW3'', 0x400c), (''APP_PF0_MSIX_VEC1_DW0'', 0x4010),
     (''APP_PF0_MSIX_VEC1_DW1'', 0x4014), (''APP_PF0_MSIX_VEC1_DW2'', 0x4018), (''APP_PF0_MSIX_VEC1_DW3'', 0x401c),
     (''APP_PF0_MSIX_VEC2_DW0'', 0x4020), (''APP_PF0_MSIX_VEC2_DW1'', 0x4024), (''APP_PF0_MSIX_VEC2_DW2'', 0x4028),
     (''APP_PF0_MSIX_VEC2_DW3'', 0x402c), (''APP_PF0_MSIX_VEC3_DW0'', 0x4030), (''APP_PF0_MSIX_VEC3_DW1'', 0x4034),
     (''APP_PF0_MSIX_VEC3_DW2'', 0x4038), (''APP_PF0_MSIX_VEC3_DW3'', 0x403c), (''APP_PF0_MSIX_VEC4_DW0'', 0x4040),
     (''APP_PF0_MSIX_VEC4_DW1'', 0x4044), (''APP_PF0_MSIX_VEC4_DW2'', 0x4048), (''APP_PF0_MSIX_VEC4_DW3'', 0x404c),
     (''APP_PF0_MSIX_VEC5_DW0'', 0x4050), (''APP_PF0_MSIX_VEC5_DW1'', 0x4054), (''APP_PF0_MSIX_VEC5_DW2'', 0x4058),
     (''APP_PF0_MSIX_VEC5_DW3'', 0x405c), (''APP_PF0_MSIX_VEC6_DW0'', 0x4060), (''APP_PF0_MSIX_VEC6_DW1'', 0x4064),
     (''APP_PF0_MSIX_VEC6_DW2'', 0x4068), (''APP_PF0_MSIX_VEC6_DW3'', 0x406c), (''APP_PF0_MSIX_VEC7_DW0'', 0x4070),
     (''APP_PF0_MSIX_VEC7_DW1'', 0x4074), (''APP_PF0_MSIX_VEC7_DW2'', 0x4078), (''APP_PF0_MSIX_VEC7_DW3'', 0x407c),
     (''APP_PF0_LEGACY_NUM'', 0x4080), (''APP_PF0_VEC0_MSI_NUM'', 0x4084), (''APP_PF0_VEC1_MSI_NUM'', 0x4088),
     (''APP_PF0_VEC2_MSI_NUM'', 0x408c), (''APP_PF0_VEC3_MSI_NUM'', 0x4090), (''APP_PF0_VEC4_MSI_NUM'', 0x4094),
     (''APP_PF0_VEC5_MSI_NUM'', 0x4098), (''APP_PF0_VEC6_MSI_NUM'', 0x409c), (''APP_PF0_VEC7_MSI_NUM'', 0x40a0), (''APP_PF0_PBA_32_63'', 0x5000),
     (''APP_PF0_PBA_0_31'', 0x5004), (''APP_PF1_MSIX_VEC0_DW0'', 0x6000), (''APP_PF1_MSIX_VEC0_DW1'', 0x6004),
     (''APP_PF1_MSIX_VEC0_DW2'', 0x6008), (''APP_PF1_MSIX_VEC0_DW3'', 0x600c), (''APP_PF1_LEGACY_NUM'', 0x6010),
     (''APP_PF1_VEC0_MSI_NUM'', 0x6014), (''APP_PF1_PBA_32_63'', 0x7000), (''APP_PF1_PBA_0_31'', 0x7004)]"

definition pciess_names :: "(string \<times> int) list" where
  "pciess_names =
    [(''PCIE_SS_APP_CORE_INIT_RST_REG'', 0x14), (''PCIE_SS_INT_ENABLE_0_REG'', 0x1050), (''PCIE_SS_INT_STATUS_0_REG'', 0x1054),
     (''PCIE_SS_INT_ENABLE_1_REG'', 0x1058), (''PCIE_SS_INT_STATUS_1_REG'', 0x105c)]"

text \<open>The registers of a virtual function, \<open>REG_PCIESS_CTRL_APP_VF<n>_...\<close>: word \<open>d\<close> of the MSI-X entry of a vector, the pending bits from bit 32 or 0, and so
  on.  The status of the software interrupt has its name for function 0 only; for the others the header has \<open>REG_PCIESS_CTRL_APP_VF<n>\<close> at this place, and the three
  registers that test, set and clear interrupts are declared for function 0 alone.\<close>

datatype vf_reg =
  MSIX_VEC nat nat | VF_PBA nat | SOFT_INT_STATUS | GPU_INT_MASK | DMA_WCH_INT_MASK | DMA_RCH_INT_MASK | WAVE517_INT_MASK | WAVE627_INT_MASK | INT_MASK
  | MONITOR_INT_NUM | INT_NUM | VEC_MSI_NUM nat | INT_STATUS | HW_INT_TEST | SOFT_INT_SET | SOFT_INT_CLR

definition pciess_vf0 :: "(nat \<times> vf_reg \<times> int) list" where
  "pciess_vf0 =
    [(0, MSIX_VEC 0 0, 0x8000), (0, MSIX_VEC 0 1, 0x8004), (0, MSIX_VEC 0 2, 0x8008), (0, MSIX_VEC 0 3, 0x800c), (0, MSIX_VEC 1 0, 0x8010),
     (0, MSIX_VEC 1 1, 0x8014), (0, MSIX_VEC 1 2, 0x8018), (0, MSIX_VEC 1 3, 0x801c), (0, MSIX_VEC 2 0, 0x8020), (0, MSIX_VEC 2 1, 0x8024),
     (0, MSIX_VEC 2 2, 0x8028), (0, MSIX_VEC 2 3, 0x802c), (0, MSIX_VEC 3 0, 0x8030), (0, MSIX_VEC 3 1, 0x8034), (0, MSIX_VEC 3 2, 0x8038),
     (0, MSIX_VEC 3 3, 0x803c), (0, MSIX_VEC 4 0, 0x8040), (0, MSIX_VEC 4 1, 0x8044), (0, MSIX_VEC 4 2, 0x8048), (0, MSIX_VEC 4 3, 0x804c),
     (0, MSIX_VEC 5 0, 0x8050), (0, MSIX_VEC 5 1, 0x8054), (0, MSIX_VEC 5 2, 0x8058), (0, MSIX_VEC 5 3, 0x805c), (0, MSIX_VEC 6 0, 0x8060),
     (0, MSIX_VEC 6 1, 0x8064), (0, MSIX_VEC 6 2, 0x8068), (0, MSIX_VEC 6 3, 0x806c), (0, MSIX_VEC 7 0, 0x8070), (0, MSIX_VEC 7 1, 0x8074),
     (0, MSIX_VEC 7 2, 0x8078), (0, MSIX_VEC 7 3, 0x807c), (0, VF_PBA 32, 0x8080), (0, VF_PBA 0, 0x8084), (0, SOFT_INT_STATUS, 0x8088),
     (0, GPU_INT_MASK, 0x808c), (0, DMA_WCH_INT_MASK, 0x8090), (0, DMA_RCH_INT_MASK, 0x8094), (0, WAVE517_INT_MASK, 0x8098),
     (0, WAVE627_INT_MASK, 0x809c), (0, INT_MASK, 0x80a0), (0, MONITOR_INT_NUM, 0x80a4), (0, INT_NUM, 0x80a8), (0, VEC_MSI_NUM 0, 0x80ac),
     (0, VEC_MSI_NUM 1, 0x80b0), (0, VEC_MSI_NUM 2, 0x80b4), (0, VEC_MSI_NUM 3, 0x80b8), (0, VEC_MSI_NUM 4, 0x80bc), (0, VEC_MSI_NUM 5, 0x80c0),
     (0, VEC_MSI_NUM 6, 0x80c4), (0, VEC_MSI_NUM 7, 0x80c8), (0, INT_STATUS, 0x80cc), (0, HW_INT_TEST, 0x80d0), (0, SOFT_INT_SET, 0x80d4),
     (0, SOFT_INT_CLR, 0x80d8), (1, MSIX_VEC 0 0, 0x8200), (1, MSIX_VEC 0 1, 0x8204), (1, MSIX_VEC 0 2, 0x8208), (1, MSIX_VEC 0 3, 0x820c),
     (1, MSIX_VEC 1 0, 0x8210), (1, MSIX_VEC 1 1, 0x8214), (1, MSIX_VEC 1 2, 0x8218), (1, MSIX_VEC 1 3, 0x821c), (1, MSIX_VEC 2 0, 0x8220),
     (1, MSIX_VEC 2 1, 0x8224), (1, MSIX_VEC 2 2, 0x8228), (1, MSIX_VEC 2 3, 0x822c), (1, MSIX_VEC 3 0, 0x8230), (1, MSIX_VEC 3 1, 0x8234),
     (1, MSIX_VEC 3 2, 0x8238), (1, MSIX_VEC 3 3, 0x823c), (1, MSIX_VEC 4 0, 0x8240), (1, MSIX_VEC 4 1, 0x8244), (1, MSIX_VEC 4 2, 0x8248),
     (1, MSIX_VEC 4 3, 0x824c), (1, MSIX_VEC 5 0, 0x8250), (1, MSIX_VEC 5 1, 0x8254), (1, MSIX_VEC 5 2, 0x8258), (1, MSIX_VEC 5 3, 0x825c),
     (1, MSIX_VEC 6 0, 0x8260), (1, MSIX_VEC 6 1, 0x8264), (1, MSIX_VEC 6 2, 0x8268), (1, MSIX_VEC 6 3, 0x826c), (1, MSIX_VEC 7 0, 0x8270),
     (1, MSIX_VEC 7 1, 0x8274), (1, MSIX_VEC 7 2, 0x8278), (1, MSIX_VEC 7 3, 0x827c), (1, VF_PBA 32, 0x8280), (1, VF_PBA 0, 0x8284),
     (1, SOFT_INT_STATUS, 0x8288), (1, GPU_INT_MASK, 0x828c), (1, DMA_WCH_INT_MASK, 0x8290), (1, DMA_RCH_INT_MASK, 0x8294),
     (1, WAVE517_INT_MASK, 0x8298), (1, WAVE627_INT_MASK, 0x829c), (1, INT_MASK, 0x82a0), (1, MONITOR_INT_NUM, 0x82a4), (1, INT_NUM, 0x82a8),
     (1, VEC_MSI_NUM 0, 0x82ac), (1, VEC_MSI_NUM 1, 0x82b0), (1, VEC_MSI_NUM 2, 0x82b4), (1, VEC_MSI_NUM 3, 0x82b8), (1, VEC_MSI_NUM 4, 0x82bc),
     (1, VEC_MSI_NUM 5, 0x82c0), (1, VEC_MSI_NUM 6, 0x82c4), (1, VEC_MSI_NUM 7, 0x82c8), (1, INT_STATUS, 0x82cc)]"

definition pciess_vf2 :: "(nat \<times> vf_reg \<times> int) list" where
  "pciess_vf2 =
    [(2, MSIX_VEC 0 0, 0x8400), (2, MSIX_VEC 0 1, 0x8404), (2, MSIX_VEC 0 2, 0x8408), (2, MSIX_VEC 0 3, 0x840c), (2, MSIX_VEC 1 0, 0x8410),
     (2, MSIX_VEC 1 1, 0x8414), (2, MSIX_VEC 1 2, 0x8418), (2, MSIX_VEC 1 3, 0x841c), (2, MSIX_VEC 2 0, 0x8420), (2, MSIX_VEC 2 1, 0x8424),
     (2, MSIX_VEC 2 2, 0x8428), (2, MSIX_VEC 2 3, 0x842c), (2, MSIX_VEC 3 0, 0x8430), (2, MSIX_VEC 3 1, 0x8434), (2, MSIX_VEC 3 2, 0x8438),
     (2, MSIX_VEC 3 3, 0x843c), (2, MSIX_VEC 4 0, 0x8440), (2, MSIX_VEC 4 1, 0x8444), (2, MSIX_VEC 4 2, 0x8448), (2, MSIX_VEC 4 3, 0x844c),
     (2, MSIX_VEC 5 0, 0x8450), (2, MSIX_VEC 5 1, 0x8454), (2, MSIX_VEC 5 2, 0x8458), (2, MSIX_VEC 5 3, 0x845c), (2, MSIX_VEC 6 0, 0x8460),
     (2, MSIX_VEC 6 1, 0x8464), (2, MSIX_VEC 6 2, 0x8468), (2, MSIX_VEC 6 3, 0x846c), (2, MSIX_VEC 7 0, 0x8470), (2, MSIX_VEC 7 1, 0x8474),
     (2, MSIX_VEC 7 2, 0x8478), (2, MSIX_VEC 7 3, 0x847c), (2, VF_PBA 32, 0x8480), (2, VF_PBA 0, 0x8484), (2, SOFT_INT_STATUS, 0x8488),
     (2, GPU_INT_MASK, 0x848c), (2, DMA_WCH_INT_MASK, 0x8490), (2, DMA_RCH_INT_MASK, 0x8494), (2, WAVE517_INT_MASK, 0x8498),
     (2, WAVE627_INT_MASK, 0x849c), (2, INT_MASK, 0x84a0), (2, MONITOR_INT_NUM, 0x84a4), (2, INT_NUM, 0x84a8), (2, VEC_MSI_NUM 0, 0x84ac),
     (2, VEC_MSI_NUM 1, 0x84b0), (2, VEC_MSI_NUM 2, 0x84b4), (2, VEC_MSI_NUM 3, 0x84b8), (2, VEC_MSI_NUM 4, 0x84bc), (2, VEC_MSI_NUM 5, 0x84c0),
     (2, VEC_MSI_NUM 6, 0x84c4), (2, VEC_MSI_NUM 7, 0x84c8), (2, INT_STATUS, 0x84cc), (3, MSIX_VEC 0 0, 0x8600), (3, MSIX_VEC 0 1, 0x8604),
     (3, MSIX_VEC 0 2, 0x8608), (3, MSIX_VEC 0 3, 0x860c), (3, MSIX_VEC 1 0, 0x8610), (3, MSIX_VEC 1 1, 0x8614), (3, MSIX_VEC 1 2, 0x8618),
     (3, MSIX_VEC 1 3, 0x861c), (3, MSIX_VEC 2 0, 0x8620), (3, MSIX_VEC 2 1, 0x8624), (3, MSIX_VEC 2 2, 0x8628), (3, MSIX_VEC 2 3, 0x862c),
     (3, MSIX_VEC 3 0, 0x8630), (3, MSIX_VEC 3 1, 0x8634), (3, MSIX_VEC 3 2, 0x8638), (3, MSIX_VEC 3 3, 0x863c), (3, MSIX_VEC 4 0, 0x8640),
     (3, MSIX_VEC 4 1, 0x8644), (3, MSIX_VEC 4 2, 0x8648), (3, MSIX_VEC 4 3, 0x864c), (3, MSIX_VEC 5 0, 0x8650), (3, MSIX_VEC 5 1, 0x8654),
     (3, MSIX_VEC 5 2, 0x8658), (3, MSIX_VEC 5 3, 0x865c), (3, MSIX_VEC 6 0, 0x8660), (3, MSIX_VEC 6 1, 0x8664), (3, MSIX_VEC 6 2, 0x8668),
     (3, MSIX_VEC 6 3, 0x866c), (3, MSIX_VEC 7 0, 0x8670), (3, MSIX_VEC 7 1, 0x8674), (3, MSIX_VEC 7 2, 0x8678), (3, MSIX_VEC 7 3, 0x867c),
     (3, VF_PBA 32, 0x8680), (3, VF_PBA 0, 0x8684), (3, SOFT_INT_STATUS, 0x8688), (3, GPU_INT_MASK, 0x868c), (3, DMA_WCH_INT_MASK, 0x8690),
     (3, DMA_RCH_INT_MASK, 0x8694), (3, WAVE517_INT_MASK, 0x8698), (3, WAVE627_INT_MASK, 0x869c), (3, INT_MASK, 0x86a0),
     (3, MONITOR_INT_NUM, 0x86a4), (3, INT_NUM, 0x86a8), (3, VEC_MSI_NUM 0, 0x86ac), (3, VEC_MSI_NUM 1, 0x86b0), (3, VEC_MSI_NUM 2, 0x86b4),
     (3, VEC_MSI_NUM 3, 0x86b8), (3, VEC_MSI_NUM 4, 0x86bc), (3, VEC_MSI_NUM 5, 0x86c0), (3, VEC_MSI_NUM 6, 0x86c4), (3, VEC_MSI_NUM 7, 0x86c8),
     (3, INT_STATUS, 0x86cc)]"

definition pciess_vf4 :: "(nat \<times> vf_reg \<times> int) list" where
  "pciess_vf4 =
    [(4, MSIX_VEC 0 0, 0x8800), (4, MSIX_VEC 0 1, 0x8804), (4, MSIX_VEC 0 2, 0x8808), (4, MSIX_VEC 0 3, 0x880c), (4, MSIX_VEC 1 0, 0x8810),
     (4, MSIX_VEC 1 1, 0x8814), (4, MSIX_VEC 1 2, 0x8818), (4, MSIX_VEC 1 3, 0x881c), (4, MSIX_VEC 2 0, 0x8820), (4, MSIX_VEC 2 1, 0x8824),
     (4, MSIX_VEC 2 2, 0x8828), (4, MSIX_VEC 2 3, 0x882c), (4, MSIX_VEC 3 0, 0x8830), (4, MSIX_VEC 3 1, 0x8834), (4, MSIX_VEC 3 2, 0x8838),
     (4, MSIX_VEC 3 3, 0x883c), (4, MSIX_VEC 4 0, 0x8840), (4, MSIX_VEC 4 1, 0x8844), (4, MSIX_VEC 4 2, 0x8848), (4, MSIX_VEC 4 3, 0x884c),
     (4, MSIX_VEC 5 0, 0x8850), (4, MSIX_VEC 5 1, 0x8854), (4, MSIX_VEC 5 2, 0x8858), (4, MSIX_VEC 5 3, 0x885c), (4, MSIX_VEC 6 0, 0x8860),
     (4, MSIX_VEC 6 1, 0x8864), (4, MSIX_VEC 6 2, 0x8868), (4, MSIX_VEC 6 3, 0x886c), (4, MSIX_VEC 7 0, 0x8870), (4, MSIX_VEC 7 1, 0x8874),
     (4, MSIX_VEC 7 2, 0x8878), (4, MSIX_VEC 7 3, 0x887c), (4, VF_PBA 32, 0x8880), (4, VF_PBA 0, 0x8884), (4, SOFT_INT_STATUS, 0x8888),
     (4, GPU_INT_MASK, 0x888c), (4, DMA_WCH_INT_MASK, 0x8890), (4, DMA_RCH_INT_MASK, 0x8894), (4, WAVE517_INT_MASK, 0x8898),
     (4, WAVE627_INT_MASK, 0x889c), (4, INT_MASK, 0x88a0), (4, MONITOR_INT_NUM, 0x88a4), (4, INT_NUM, 0x88a8), (4, VEC_MSI_NUM 0, 0x88ac),
     (4, VEC_MSI_NUM 1, 0x88b0), (4, VEC_MSI_NUM 2, 0x88b4), (4, VEC_MSI_NUM 3, 0x88b8), (4, VEC_MSI_NUM 4, 0x88bc), (4, VEC_MSI_NUM 5, 0x88c0),
     (4, VEC_MSI_NUM 6, 0x88c4), (4, VEC_MSI_NUM 7, 0x88c8), (4, INT_STATUS, 0x88cc), (5, MSIX_VEC 0 0, 0x8a00), (5, MSIX_VEC 0 1, 0x8a04),
     (5, MSIX_VEC 0 2, 0x8a08), (5, MSIX_VEC 0 3, 0x8a0c), (5, MSIX_VEC 1 0, 0x8a10), (5, MSIX_VEC 1 1, 0x8a14), (5, MSIX_VEC 1 2, 0x8a18),
     (5, MSIX_VEC 1 3, 0x8a1c), (5, MSIX_VEC 2 0, 0x8a20), (5, MSIX_VEC 2 1, 0x8a24), (5, MSIX_VEC 2 2, 0x8a28), (5, MSIX_VEC 2 3, 0x8a2c),
     (5, MSIX_VEC 3 0, 0x8a30), (5, MSIX_VEC 3 1, 0x8a34), (5, MSIX_VEC 3 2, 0x8a38), (5, MSIX_VEC 3 3, 0x8a3c), (5, MSIX_VEC 4 0, 0x8a40),
     (5, MSIX_VEC 4 1, 0x8a44), (5, MSIX_VEC 4 2, 0x8a48), (5, MSIX_VEC 4 3, 0x8a4c), (5, MSIX_VEC 5 0, 0x8a50), (5, MSIX_VEC 5 1, 0x8a54),
     (5, MSIX_VEC 5 2, 0x8a58), (5, MSIX_VEC 5 3, 0x8a5c), (5, MSIX_VEC 6 0, 0x8a60), (5, MSIX_VEC 6 1, 0x8a64), (5, MSIX_VEC 6 2, 0x8a68),
     (5, MSIX_VEC 6 3, 0x8a6c), (5, MSIX_VEC 7 0, 0x8a70), (5, MSIX_VEC 7 1, 0x8a74), (5, MSIX_VEC 7 2, 0x8a78), (5, MSIX_VEC 7 3, 0x8a7c),
     (5, VF_PBA 32, 0x8a80), (5, VF_PBA 0, 0x8a84), (5, SOFT_INT_STATUS, 0x8a88), (5, GPU_INT_MASK, 0x8a8c), (5, DMA_WCH_INT_MASK, 0x8a90),
     (5, DMA_RCH_INT_MASK, 0x8a94), (5, WAVE517_INT_MASK, 0x8a98), (5, WAVE627_INT_MASK, 0x8a9c), (5, INT_MASK, 0x8aa0),
     (5, MONITOR_INT_NUM, 0x8aa4), (5, INT_NUM, 0x8aa8), (5, VEC_MSI_NUM 0, 0x8aac), (5, VEC_MSI_NUM 1, 0x8ab0), (5, VEC_MSI_NUM 2, 0x8ab4),
     (5, VEC_MSI_NUM 3, 0x8ab8), (5, VEC_MSI_NUM 4, 0x8abc), (5, VEC_MSI_NUM 5, 0x8ac0), (5, VEC_MSI_NUM 6, 0x8ac4), (5, VEC_MSI_NUM 7, 0x8ac8),
     (5, INT_STATUS, 0x8acc)]"

definition pciess_vf6 :: "(nat \<times> vf_reg \<times> int) list" where
  "pciess_vf6 =
    [(6, MSIX_VEC 0 0, 0x8c00), (6, MSIX_VEC 0 1, 0x8c04), (6, MSIX_VEC 0 2, 0x8c08), (6, MSIX_VEC 0 3, 0x8c0c), (6, MSIX_VEC 1 0, 0x8c10),
     (6, MSIX_VEC 1 1, 0x8c14), (6, MSIX_VEC 1 2, 0x8c18), (6, MSIX_VEC 1 3, 0x8c1c), (6, MSIX_VEC 2 0, 0x8c20), (6, MSIX_VEC 2 1, 0x8c24),
     (6, MSIX_VEC 2 2, 0x8c28), (6, MSIX_VEC 2 3, 0x8c2c), (6, MSIX_VEC 3 0, 0x8c30), (6, MSIX_VEC 3 1, 0x8c34), (6, MSIX_VEC 3 2, 0x8c38),
     (6, MSIX_VEC 3 3, 0x8c3c), (6, MSIX_VEC 4 0, 0x8c40), (6, MSIX_VEC 4 1, 0x8c44), (6, MSIX_VEC 4 2, 0x8c48), (6, MSIX_VEC 4 3, 0x8c4c),
     (6, MSIX_VEC 5 0, 0x8c50), (6, MSIX_VEC 5 1, 0x8c54), (6, MSIX_VEC 5 2, 0x8c58), (6, MSIX_VEC 5 3, 0x8c5c), (6, MSIX_VEC 6 0, 0x8c60),
     (6, MSIX_VEC 6 1, 0x8c64), (6, MSIX_VEC 6 2, 0x8c68), (6, MSIX_VEC 6 3, 0x8c6c), (6, MSIX_VEC 7 0, 0x8c70), (6, MSIX_VEC 7 1, 0x8c74),
     (6, MSIX_VEC 7 2, 0x8c78), (6, MSIX_VEC 7 3, 0x8c7c), (6, VF_PBA 32, 0x8c80), (6, VF_PBA 0, 0x8c84), (6, SOFT_INT_STATUS, 0x8c88),
     (6, GPU_INT_MASK, 0x8c8c), (6, DMA_WCH_INT_MASK, 0x8c90), (6, DMA_RCH_INT_MASK, 0x8c94), (6, WAVE517_INT_MASK, 0x8c98),
     (6, WAVE627_INT_MASK, 0x8c9c), (6, INT_MASK, 0x8ca0), (6, MONITOR_INT_NUM, 0x8ca4), (6, INT_NUM, 0x8ca8), (6, VEC_MSI_NUM 0, 0x8cac),
     (6, VEC_MSI_NUM 1, 0x8cb0), (6, VEC_MSI_NUM 2, 0x8cb4), (6, VEC_MSI_NUM 3, 0x8cb8), (6, VEC_MSI_NUM 4, 0x8cbc), (6, VEC_MSI_NUM 5, 0x8cc0),
     (6, VEC_MSI_NUM 6, 0x8cc4), (6, VEC_MSI_NUM 7, 0x8cc8), (6, INT_STATUS, 0x8ccc), (7, MSIX_VEC 0 0, 0x8e00), (7, MSIX_VEC 0 1, 0x8e04),
     (7, MSIX_VEC 0 2, 0x8e08), (7, MSIX_VEC 0 3, 0x8e0c), (7, MSIX_VEC 1 0, 0x8e10), (7, MSIX_VEC 1 1, 0x8e14), (7, MSIX_VEC 1 2, 0x8e18),
     (7, MSIX_VEC 1 3, 0x8e1c), (7, MSIX_VEC 2 0, 0x8e20), (7, MSIX_VEC 2 1, 0x8e24), (7, MSIX_VEC 2 2, 0x8e28), (7, MSIX_VEC 2 3, 0x8e2c),
     (7, MSIX_VEC 3 0, 0x8e30), (7, MSIX_VEC 3 1, 0x8e34), (7, MSIX_VEC 3 2, 0x8e38), (7, MSIX_VEC 3 3, 0x8e3c), (7, MSIX_VEC 4 0, 0x8e40),
     (7, MSIX_VEC 4 1, 0x8e44), (7, MSIX_VEC 4 2, 0x8e48), (7, MSIX_VEC 4 3, 0x8e4c), (7, MSIX_VEC 5 0, 0x8e50), (7, MSIX_VEC 5 1, 0x8e54),
     (7, MSIX_VEC 5 2, 0x8e58), (7, MSIX_VEC 5 3, 0x8e5c), (7, MSIX_VEC 6 0, 0x8e60), (7, MSIX_VEC 6 1, 0x8e64), (7, MSIX_VEC 6 2, 0x8e68),
     (7, MSIX_VEC 6 3, 0x8e6c), (7, MSIX_VEC 7 0, 0x8e70), (7, MSIX_VEC 7 1, 0x8e74), (7, MSIX_VEC 7 2, 0x8e78), (7, MSIX_VEC 7 3, 0x8e7c),
     (7, VF_PBA 32, 0x8e80), (7, VF_PBA 0, 0x8e84), (7, SOFT_INT_STATUS, 0x8e88), (7, GPU_INT_MASK, 0x8e8c), (7, DMA_WCH_INT_MASK, 0x8e90),
     (7, DMA_RCH_INT_MASK, 0x8e94), (7, WAVE517_INT_MASK, 0x8e98), (7, WAVE627_INT_MASK, 0x8e9c), (7, INT_MASK, 0x8ea0),
     (7, MONITOR_INT_NUM, 0x8ea4), (7, INT_NUM, 0x8ea8), (7, VEC_MSI_NUM 0, 0x8eac), (7, VEC_MSI_NUM 1, 0x8eb0), (7, VEC_MSI_NUM 2, 0x8eb4),
     (7, VEC_MSI_NUM 3, 0x8eb8), (7, VEC_MSI_NUM 4, 0x8ebc), (7, VEC_MSI_NUM 5, 0x8ec0), (7, VEC_MSI_NUM 6, 0x8ec4), (7, VEC_MSI_NUM 7, 0x8ec8),
     (7, INT_STATUS, 0x8ecc)]"

definition pciess_vf8 :: "(nat \<times> vf_reg \<times> int) list" where
  "pciess_vf8 =
    [(8, MSIX_VEC 0 0, 0x9000), (8, MSIX_VEC 0 1, 0x9004), (8, MSIX_VEC 0 2, 0x9008), (8, MSIX_VEC 0 3, 0x900c), (8, MSIX_VEC 1 0, 0x9010),
     (8, MSIX_VEC 1 1, 0x9014), (8, MSIX_VEC 1 2, 0x9018), (8, MSIX_VEC 1 3, 0x901c), (8, MSIX_VEC 2 0, 0x9020), (8, MSIX_VEC 2 1, 0x9024),
     (8, MSIX_VEC 2 2, 0x9028), (8, MSIX_VEC 2 3, 0x902c), (8, MSIX_VEC 3 0, 0x9030), (8, MSIX_VEC 3 1, 0x9034), (8, MSIX_VEC 3 2, 0x9038),
     (8, MSIX_VEC 3 3, 0x903c), (8, MSIX_VEC 4 0, 0x9040), (8, MSIX_VEC 4 1, 0x9044), (8, MSIX_VEC 4 2, 0x9048), (8, MSIX_VEC 4 3, 0x904c),
     (8, MSIX_VEC 5 0, 0x9050), (8, MSIX_VEC 5 1, 0x9054), (8, MSIX_VEC 5 2, 0x9058), (8, MSIX_VEC 5 3, 0x905c), (8, MSIX_VEC 6 0, 0x9060),
     (8, MSIX_VEC 6 1, 0x9064), (8, MSIX_VEC 6 2, 0x9068), (8, MSIX_VEC 6 3, 0x906c), (8, MSIX_VEC 7 0, 0x9070), (8, MSIX_VEC 7 1, 0x9074),
     (8, MSIX_VEC 7 2, 0x9078), (8, MSIX_VEC 7 3, 0x907c), (8, VF_PBA 32, 0x9080), (8, VF_PBA 0, 0x9084), (8, SOFT_INT_STATUS, 0x9088),
     (8, GPU_INT_MASK, 0x908c), (8, DMA_WCH_INT_MASK, 0x9090), (8, DMA_RCH_INT_MASK, 0x9094), (8, WAVE517_INT_MASK, 0x9098),
     (8, WAVE627_INT_MASK, 0x909c), (8, INT_MASK, 0x90a0), (8, MONITOR_INT_NUM, 0x90a4), (8, INT_NUM, 0x90a8), (8, VEC_MSI_NUM 0, 0x90ac),
     (8, VEC_MSI_NUM 1, 0x90b0), (8, VEC_MSI_NUM 2, 0x90b4), (8, VEC_MSI_NUM 3, 0x90b8), (8, VEC_MSI_NUM 4, 0x90bc), (8, VEC_MSI_NUM 5, 0x90c0),
     (8, VEC_MSI_NUM 6, 0x90c4), (8, VEC_MSI_NUM 7, 0x90c8), (8, INT_STATUS, 0x90cc), (9, MSIX_VEC 0 0, 0x9200), (9, MSIX_VEC 0 1, 0x9204),
     (9, MSIX_VEC 0 2, 0x9208), (9, MSIX_VEC 0 3, 0x920c), (9, MSIX_VEC 1 0, 0x9210), (9, MSIX_VEC 1 1, 0x9214), (9, MSIX_VEC 1 2, 0x9218),
     (9, MSIX_VEC 1 3, 0x921c), (9, MSIX_VEC 2 0, 0x9220), (9, MSIX_VEC 2 1, 0x9224), (9, MSIX_VEC 2 2, 0x9228), (9, MSIX_VEC 2 3, 0x922c),
     (9, MSIX_VEC 3 0, 0x9230), (9, MSIX_VEC 3 1, 0x9234), (9, MSIX_VEC 3 2, 0x9238), (9, MSIX_VEC 3 3, 0x923c), (9, MSIX_VEC 4 0, 0x9240),
     (9, MSIX_VEC 4 1, 0x9244), (9, MSIX_VEC 4 2, 0x9248), (9, MSIX_VEC 4 3, 0x924c), (9, MSIX_VEC 5 0, 0x9250), (9, MSIX_VEC 5 1, 0x9254),
     (9, MSIX_VEC 5 2, 0x9258), (9, MSIX_VEC 5 3, 0x925c), (9, MSIX_VEC 6 0, 0x9260), (9, MSIX_VEC 6 1, 0x9264), (9, MSIX_VEC 6 2, 0x9268),
     (9, MSIX_VEC 6 3, 0x926c), (9, MSIX_VEC 7 0, 0x9270), (9, MSIX_VEC 7 1, 0x9274), (9, MSIX_VEC 7 2, 0x9278), (9, MSIX_VEC 7 3, 0x927c),
     (9, VF_PBA 32, 0x9280), (9, VF_PBA 0, 0x9284), (9, SOFT_INT_STATUS, 0x9288), (9, GPU_INT_MASK, 0x928c), (9, DMA_WCH_INT_MASK, 0x9290),
     (9, DMA_RCH_INT_MASK, 0x9294), (9, WAVE517_INT_MASK, 0x9298), (9, WAVE627_INT_MASK, 0x929c), (9, INT_MASK, 0x92a0),
     (9, MONITOR_INT_NUM, 0x92a4), (9, INT_NUM, 0x92a8), (9, VEC_MSI_NUM 0, 0x92ac), (9, VEC_MSI_NUM 1, 0x92b0), (9, VEC_MSI_NUM 2, 0x92b4),
     (9, VEC_MSI_NUM 3, 0x92b8), (9, VEC_MSI_NUM 4, 0x92bc), (9, VEC_MSI_NUM 5, 0x92c0), (9, VEC_MSI_NUM 6, 0x92c4), (9, VEC_MSI_NUM 7, 0x92c8),
     (9, INT_STATUS, 0x92cc)]"

definition pciess_vf10 :: "(nat \<times> vf_reg \<times> int) list" where
  "pciess_vf10 =
    [(10, MSIX_VEC 0 0, 0x9400), (10, MSIX_VEC 0 1, 0x9404), (10, MSIX_VEC 0 2, 0x9408), (10, MSIX_VEC 0 3, 0x940c), (10, MSIX_VEC 1 0, 0x9410),
     (10, MSIX_VEC 1 1, 0x9414), (10, MSIX_VEC 1 2, 0x9418), (10, MSIX_VEC 1 3, 0x941c), (10, MSIX_VEC 2 0, 0x9420), (10, MSIX_VEC 2 1, 0x9424),
     (10, MSIX_VEC 2 2, 0x9428), (10, MSIX_VEC 2 3, 0x942c), (10, MSIX_VEC 3 0, 0x9430), (10, MSIX_VEC 3 1, 0x9434), (10, MSIX_VEC 3 2, 0x9438),
     (10, MSIX_VEC 3 3, 0x943c), (10, MSIX_VEC 4 0, 0x9440), (10, MSIX_VEC 4 1, 0x9444), (10, MSIX_VEC 4 2, 0x9448), (10, MSIX_VEC 4 3, 0x944c),
     (10, MSIX_VEC 5 0, 0x9450), (10, MSIX_VEC 5 1, 0x9454), (10, MSIX_VEC 5 2, 0x9458), (10, MSIX_VEC 5 3, 0x945c), (10, MSIX_VEC 6 0, 0x9460),
     (10, MSIX_VEC 6 1, 0x9464), (10, MSIX_VEC 6 2, 0x9468), (10, MSIX_VEC 6 3, 0x946c), (10, MSIX_VEC 7 0, 0x9470), (10, MSIX_VEC 7 1, 0x9474),
     (10, MSIX_VEC 7 2, 0x9478), (10, MSIX_VEC 7 3, 0x947c), (10, VF_PBA 32, 0x9480), (10, VF_PBA 0, 0x9484), (10, SOFT_INT_STATUS, 0x9488),
     (10, GPU_INT_MASK, 0x948c), (10, DMA_WCH_INT_MASK, 0x9490), (10, DMA_RCH_INT_MASK, 0x9494), (10, WAVE517_INT_MASK, 0x9498),
     (10, WAVE627_INT_MASK, 0x949c), (10, INT_MASK, 0x94a0), (10, MONITOR_INT_NUM, 0x94a4), (10, INT_NUM, 0x94a8), (10, VEC_MSI_NUM 0, 0x94ac),
     (10, VEC_MSI_NUM 1, 0x94b0), (10, VEC_MSI_NUM 2, 0x94b4), (10, VEC_MSI_NUM 3, 0x94b8), (10, VEC_MSI_NUM 4, 0x94bc),
     (10, VEC_MSI_NUM 5, 0x94c0), (10, VEC_MSI_NUM 6, 0x94c4), (10, VEC_MSI_NUM 7, 0x94c8), (10, INT_STATUS, 0x94cc), (11, MSIX_VEC 0 0, 0x9600),
     (11, MSIX_VEC 0 1, 0x9604), (11, MSIX_VEC 0 2, 0x9608), (11, MSIX_VEC 0 3, 0x960c), (11, MSIX_VEC 1 0, 0x9610), (11, MSIX_VEC 1 1, 0x9614),
     (11, MSIX_VEC 1 2, 0x9618), (11, MSIX_VEC 1 3, 0x961c), (11, MSIX_VEC 2 0, 0x9620), (11, MSIX_VEC 2 1, 0x9624), (11, MSIX_VEC 2 2, 0x9628),
     (11, MSIX_VEC 2 3, 0x962c), (11, MSIX_VEC 3 0, 0x9630), (11, MSIX_VEC 3 1, 0x9634), (11, MSIX_VEC 3 2, 0x9638), (11, MSIX_VEC 3 3, 0x963c),
     (11, MSIX_VEC 4 0, 0x9640), (11, MSIX_VEC 4 1, 0x9644), (11, MSIX_VEC 4 2, 0x9648), (11, MSIX_VEC 4 3, 0x964c), (11, MSIX_VEC 5 0, 0x9650),
     (11, MSIX_VEC 5 1, 0x9654), (11, MSIX_VEC 5 2, 0x9658), (11, MSIX_VEC 5 3, 0x965c), (11, MSIX_VEC 6 0, 0x9660), (11, MSIX_VEC 6 1, 0x9664),
     (11, MSIX_VEC 6 2, 0x9668), (11, MSIX_VEC 6 3, 0x966c), (11, MSIX_VEC 7 0, 0x9670), (11, MSIX_VEC 7 1, 0x9674), (11, MSIX_VEC 7 2, 0x9678),
     (11, MSIX_VEC 7 3, 0x967c), (11, VF_PBA 32, 0x9680), (11, VF_PBA 0, 0x9684), (11, SOFT_INT_STATUS, 0x9688), (11, GPU_INT_MASK, 0x968c),
     (11, DMA_WCH_INT_MASK, 0x9690), (11, DMA_RCH_INT_MASK, 0x9694), (11, WAVE517_INT_MASK, 0x9698), (11, WAVE627_INT_MASK, 0x969c),
     (11, INT_MASK, 0x96a0), (11, MONITOR_INT_NUM, 0x96a4), (11, INT_NUM, 0x96a8), (11, VEC_MSI_NUM 0, 0x96ac), (11, VEC_MSI_NUM 1, 0x96b0),
     (11, VEC_MSI_NUM 2, 0x96b4), (11, VEC_MSI_NUM 3, 0x96b8), (11, VEC_MSI_NUM 4, 0x96bc), (11, VEC_MSI_NUM 5, 0x96c0),
     (11, VEC_MSI_NUM 6, 0x96c4), (11, VEC_MSI_NUM 7, 0x96c8), (11, INT_STATUS, 0x96cc)]"

definition pciess_vf12 :: "(nat \<times> vf_reg \<times> int) list" where
  "pciess_vf12 =
    [(12, MSIX_VEC 0 0, 0x9800), (12, MSIX_VEC 0 1, 0x9804), (12, MSIX_VEC 0 2, 0x9808), (12, MSIX_VEC 0 3, 0x980c), (12, MSIX_VEC 1 0, 0x9810),
     (12, MSIX_VEC 1 1, 0x9814), (12, MSIX_VEC 1 2, 0x9818), (12, MSIX_VEC 1 3, 0x981c), (12, MSIX_VEC 2 0, 0x9820), (12, MSIX_VEC 2 1, 0x9824),
     (12, MSIX_VEC 2 2, 0x9828), (12, MSIX_VEC 2 3, 0x982c), (12, MSIX_VEC 3 0, 0x9830), (12, MSIX_VEC 3 1, 0x9834), (12, MSIX_VEC 3 2, 0x9838),
     (12, MSIX_VEC 3 3, 0x983c), (12, MSIX_VEC 4 0, 0x9840), (12, MSIX_VEC 4 1, 0x9844), (12, MSIX_VEC 4 2, 0x9848), (12, MSIX_VEC 4 3, 0x984c),
     (12, MSIX_VEC 5 0, 0x9850), (12, MSIX_VEC 5 1, 0x9854), (12, MSIX_VEC 5 2, 0x9858), (12, MSIX_VEC 5 3, 0x985c), (12, MSIX_VEC 6 0, 0x9860),
     (12, MSIX_VEC 6 1, 0x9864), (12, MSIX_VEC 6 2, 0x9868), (12, MSIX_VEC 6 3, 0x986c), (12, MSIX_VEC 7 0, 0x9870), (12, MSIX_VEC 7 1, 0x9874),
     (12, MSIX_VEC 7 2, 0x9878), (12, MSIX_VEC 7 3, 0x987c), (12, VF_PBA 32, 0x9880), (12, VF_PBA 0, 0x9884), (12, SOFT_INT_STATUS, 0x9888),
     (12, GPU_INT_MASK, 0x988c), (12, DMA_WCH_INT_MASK, 0x9890), (12, DMA_RCH_INT_MASK, 0x9894), (12, WAVE517_INT_MASK, 0x9898),
     (12, WAVE627_INT_MASK, 0x989c), (12, INT_MASK, 0x98a0), (12, MONITOR_INT_NUM, 0x98a4), (12, INT_NUM, 0x98a8), (12, VEC_MSI_NUM 0, 0x98ac),
     (12, VEC_MSI_NUM 1, 0x98b0), (12, VEC_MSI_NUM 2, 0x98b4), (12, VEC_MSI_NUM 3, 0x98b8), (12, VEC_MSI_NUM 4, 0x98bc),
     (12, VEC_MSI_NUM 5, 0x98c0), (12, VEC_MSI_NUM 6, 0x98c4), (12, VEC_MSI_NUM 7, 0x98c8), (12, INT_STATUS, 0x98cc), (13, MSIX_VEC 0 0, 0x9a00),
     (13, MSIX_VEC 0 1, 0x9a04), (13, MSIX_VEC 0 2, 0x9a08), (13, MSIX_VEC 0 3, 0x9a0c), (13, MSIX_VEC 1 0, 0x9a10), (13, MSIX_VEC 1 1, 0x9a14),
     (13, MSIX_VEC 1 2, 0x9a18), (13, MSIX_VEC 1 3, 0x9a1c), (13, MSIX_VEC 2 0, 0x9a20), (13, MSIX_VEC 2 1, 0x9a24), (13, MSIX_VEC 2 2, 0x9a28),
     (13, MSIX_VEC 2 3, 0x9a2c), (13, MSIX_VEC 3 0, 0x9a30), (13, MSIX_VEC 3 1, 0x9a34), (13, MSIX_VEC 3 2, 0x9a38), (13, MSIX_VEC 3 3, 0x9a3c),
     (13, MSIX_VEC 4 0, 0x9a40), (13, MSIX_VEC 4 1, 0x9a44), (13, MSIX_VEC 4 2, 0x9a48), (13, MSIX_VEC 4 3, 0x9a4c), (13, MSIX_VEC 5 0, 0x9a50),
     (13, MSIX_VEC 5 1, 0x9a54), (13, MSIX_VEC 5 2, 0x9a58), (13, MSIX_VEC 5 3, 0x9a5c), (13, MSIX_VEC 6 0, 0x9a60), (13, MSIX_VEC 6 1, 0x9a64),
     (13, MSIX_VEC 6 2, 0x9a68), (13, MSIX_VEC 6 3, 0x9a6c), (13, MSIX_VEC 7 0, 0x9a70), (13, MSIX_VEC 7 1, 0x9a74), (13, MSIX_VEC 7 2, 0x9a78),
     (13, MSIX_VEC 7 3, 0x9a7c), (13, VF_PBA 32, 0x9a80), (13, VF_PBA 0, 0x9a84), (13, SOFT_INT_STATUS, 0x9a88), (13, GPU_INT_MASK, 0x9a8c),
     (13, DMA_WCH_INT_MASK, 0x9a90), (13, DMA_RCH_INT_MASK, 0x9a94), (13, WAVE517_INT_MASK, 0x9a98), (13, WAVE627_INT_MASK, 0x9a9c),
     (13, INT_MASK, 0x9aa0), (13, MONITOR_INT_NUM, 0x9aa4), (13, INT_NUM, 0x9aa8), (13, VEC_MSI_NUM 0, 0x9aac), (13, VEC_MSI_NUM 1, 0x9ab0),
     (13, VEC_MSI_NUM 2, 0x9ab4), (13, VEC_MSI_NUM 3, 0x9ab8), (13, VEC_MSI_NUM 4, 0x9abc), (13, VEC_MSI_NUM 5, 0x9ac0),
     (13, VEC_MSI_NUM 6, 0x9ac4), (13, VEC_MSI_NUM 7, 0x9ac8), (13, INT_STATUS, 0x9acc)]"

definition pciess_vf14 :: "(nat \<times> vf_reg \<times> int) list" where
  "pciess_vf14 =
    [(14, MSIX_VEC 0 0, 0x9c00), (14, MSIX_VEC 0 1, 0x9c04), (14, MSIX_VEC 0 2, 0x9c08), (14, MSIX_VEC 0 3, 0x9c0c), (14, MSIX_VEC 1 0, 0x9c10),
     (14, MSIX_VEC 1 1, 0x9c14), (14, MSIX_VEC 1 2, 0x9c18), (14, MSIX_VEC 1 3, 0x9c1c), (14, MSIX_VEC 2 0, 0x9c20), (14, MSIX_VEC 2 1, 0x9c24),
     (14, MSIX_VEC 2 2, 0x9c28), (14, MSIX_VEC 2 3, 0x9c2c), (14, MSIX_VEC 3 0, 0x9c30), (14, MSIX_VEC 3 1, 0x9c34), (14, MSIX_VEC 3 2, 0x9c38),
     (14, MSIX_VEC 3 3, 0x9c3c), (14, MSIX_VEC 4 0, 0x9c40), (14, MSIX_VEC 4 1, 0x9c44), (14, MSIX_VEC 4 2, 0x9c48), (14, MSIX_VEC 4 3, 0x9c4c),
     (14, MSIX_VEC 5 0, 0x9c50), (14, MSIX_VEC 5 1, 0x9c54), (14, MSIX_VEC 5 2, 0x9c58), (14, MSIX_VEC 5 3, 0x9c5c), (14, MSIX_VEC 6 0, 0x9c60),
     (14, MSIX_VEC 6 1, 0x9c64), (14, MSIX_VEC 6 2, 0x9c68), (14, MSIX_VEC 6 3, 0x9c6c), (14, MSIX_VEC 7 0, 0x9c70), (14, MSIX_VEC 7 1, 0x9c74),
     (14, MSIX_VEC 7 2, 0x9c78), (14, MSIX_VEC 7 3, 0x9c7c), (14, VF_PBA 32, 0x9c80), (14, VF_PBA 0, 0x9c84), (14, SOFT_INT_STATUS, 0x9c88),
     (14, GPU_INT_MASK, 0x9c8c), (14, DMA_WCH_INT_MASK, 0x9c90), (14, DMA_RCH_INT_MASK, 0x9c94), (14, WAVE517_INT_MASK, 0x9c98),
     (14, WAVE627_INT_MASK, 0x9c9c), (14, INT_MASK, 0x9ca0), (14, MONITOR_INT_NUM, 0x9ca4), (14, INT_NUM, 0x9ca8), (14, VEC_MSI_NUM 0, 0x9cac),
     (14, VEC_MSI_NUM 1, 0x9cb0), (14, VEC_MSI_NUM 2, 0x9cb4), (14, VEC_MSI_NUM 3, 0x9cb8), (14, VEC_MSI_NUM 4, 0x9cbc),
     (14, VEC_MSI_NUM 5, 0x9cc0), (14, VEC_MSI_NUM 6, 0x9cc4), (14, VEC_MSI_NUM 7, 0x9cc8), (14, INT_STATUS, 0x9ccc), (15, MSIX_VEC 0 0, 0x9e00),
     (15, MSIX_VEC 0 1, 0x9e04), (15, MSIX_VEC 0 2, 0x9e08), (15, MSIX_VEC 0 3, 0x9e0c), (15, MSIX_VEC 1 0, 0x9e10), (15, MSIX_VEC 1 1, 0x9e14),
     (15, MSIX_VEC 1 2, 0x9e18), (15, MSIX_VEC 1 3, 0x9e1c), (15, MSIX_VEC 2 0, 0x9e20), (15, MSIX_VEC 2 1, 0x9e24), (15, MSIX_VEC 2 2, 0x9e28),
     (15, MSIX_VEC 2 3, 0x9e2c), (15, MSIX_VEC 3 0, 0x9e30), (15, MSIX_VEC 3 1, 0x9e34), (15, MSIX_VEC 3 2, 0x9e38), (15, MSIX_VEC 3 3, 0x9e3c),
     (15, MSIX_VEC 4 0, 0x9e40), (15, MSIX_VEC 4 1, 0x9e44), (15, MSIX_VEC 4 2, 0x9e48), (15, MSIX_VEC 4 3, 0x9e4c), (15, MSIX_VEC 5 0, 0x9e50),
     (15, MSIX_VEC 5 1, 0x9e54), (15, MSIX_VEC 5 2, 0x9e58), (15, MSIX_VEC 5 3, 0x9e5c), (15, MSIX_VEC 6 0, 0x9e60), (15, MSIX_VEC 6 1, 0x9e64),
     (15, MSIX_VEC 6 2, 0x9e68), (15, MSIX_VEC 6 3, 0x9e6c), (15, MSIX_VEC 7 0, 0x9e70), (15, MSIX_VEC 7 1, 0x9e74), (15, MSIX_VEC 7 2, 0x9e78),
     (15, MSIX_VEC 7 3, 0x9e7c), (15, VF_PBA 32, 0x9e80), (15, VF_PBA 0, 0x9e84), (15, SOFT_INT_STATUS, 0x9e88), (15, GPU_INT_MASK, 0x9e8c),
     (15, DMA_WCH_INT_MASK, 0x9e90), (15, DMA_RCH_INT_MASK, 0x9e94), (15, WAVE517_INT_MASK, 0x9e98), (15, WAVE627_INT_MASK, 0x9e9c),
     (15, INT_MASK, 0x9ea0), (15, MONITOR_INT_NUM, 0x9ea4), (15, INT_NUM, 0x9ea8), (15, VEC_MSI_NUM 0, 0x9eac), (15, VEC_MSI_NUM 1, 0x9eb0),
     (15, VEC_MSI_NUM 2, 0x9eb4), (15, VEC_MSI_NUM 3, 0x9eb8), (15, VEC_MSI_NUM 4, 0x9ebc), (15, VEC_MSI_NUM 5, 0x9ec0),
     (15, VEC_MSI_NUM 6, 0x9ec4), (15, VEC_MSI_NUM 7, 0x9ec8), (15, INT_STATUS, 0x9ecc)]"

definition pciess_vf16 :: "(nat \<times> vf_reg \<times> int) list" where
  "pciess_vf16 =
    [(16, MSIX_VEC 0 0, 0xa000), (16, MSIX_VEC 0 1, 0xa004), (16, MSIX_VEC 0 2, 0xa008), (16, MSIX_VEC 0 3, 0xa00c), (16, MSIX_VEC 1 0, 0xa010),
     (16, MSIX_VEC 1 1, 0xa014), (16, MSIX_VEC 1 2, 0xa018), (16, MSIX_VEC 1 3, 0xa01c), (16, MSIX_VEC 2 0, 0xa020), (16, MSIX_VEC 2 1, 0xa024),
     (16, MSIX_VEC 2 2, 0xa028), (16, MSIX_VEC 2 3, 0xa02c), (16, MSIX_VEC 3 0, 0xa030), (16, MSIX_VEC 3 1, 0xa034), (16, MSIX_VEC 3 2, 0xa038),
     (16, MSIX_VEC 3 3, 0xa03c), (16, MSIX_VEC 4 0, 0xa040), (16, MSIX_VEC 4 1, 0xa044), (16, MSIX_VEC 4 2, 0xa048), (16, MSIX_VEC 4 3, 0xa04c),
     (16, MSIX_VEC 5 0, 0xa050), (16, MSIX_VEC 5 1, 0xa054), (16, MSIX_VEC 5 2, 0xa058), (16, MSIX_VEC 5 3, 0xa05c), (16, MSIX_VEC 6 0, 0xa060),
     (16, MSIX_VEC 6 1, 0xa064), (16, MSIX_VEC 6 2, 0xa068), (16, MSIX_VEC 6 3, 0xa06c), (16, MSIX_VEC 7 0, 0xa070), (16, MSIX_VEC 7 1, 0xa074),
     (16, MSIX_VEC 7 2, 0xa078), (16, MSIX_VEC 7 3, 0xa07c), (16, VF_PBA 32, 0xa080), (16, VF_PBA 0, 0xa084), (16, SOFT_INT_STATUS, 0xa088),
     (16, GPU_INT_MASK, 0xa08c), (16, DMA_WCH_INT_MASK, 0xa090), (16, DMA_RCH_INT_MASK, 0xa094), (16, WAVE517_INT_MASK, 0xa098),
     (16, WAVE627_INT_MASK, 0xa09c), (16, INT_MASK, 0xa0a0), (16, MONITOR_INT_NUM, 0xa0a4), (16, INT_NUM, 0xa0a8), (16, VEC_MSI_NUM 0, 0xa0ac),
     (16, VEC_MSI_NUM 1, 0xa0b0), (16, VEC_MSI_NUM 2, 0xa0b4), (16, VEC_MSI_NUM 3, 0xa0b8), (16, VEC_MSI_NUM 4, 0xa0bc),
     (16, VEC_MSI_NUM 5, 0xa0c0), (16, VEC_MSI_NUM 6, 0xa0c4), (16, VEC_MSI_NUM 7, 0xa0c8), (16, INT_STATUS, 0xa0cc), (17, MSIX_VEC 0 0, 0xa200),
     (17, MSIX_VEC 0 1, 0xa204), (17, MSIX_VEC 0 2, 0xa208), (17, MSIX_VEC 0 3, 0xa20c), (17, MSIX_VEC 1 0, 0xa210), (17, MSIX_VEC 1 1, 0xa214),
     (17, MSIX_VEC 1 2, 0xa218), (17, MSIX_VEC 1 3, 0xa21c), (17, MSIX_VEC 2 0, 0xa220), (17, MSIX_VEC 2 1, 0xa224), (17, MSIX_VEC 2 2, 0xa228),
     (17, MSIX_VEC 2 3, 0xa22c), (17, MSIX_VEC 3 0, 0xa230), (17, MSIX_VEC 3 1, 0xa234), (17, MSIX_VEC 3 2, 0xa238), (17, MSIX_VEC 3 3, 0xa23c),
     (17, MSIX_VEC 4 0, 0xa240), (17, MSIX_VEC 4 1, 0xa244), (17, MSIX_VEC 4 2, 0xa248), (17, MSIX_VEC 4 3, 0xa24c), (17, MSIX_VEC 5 0, 0xa250),
     (17, MSIX_VEC 5 1, 0xa254), (17, MSIX_VEC 5 2, 0xa258), (17, MSIX_VEC 5 3, 0xa25c), (17, MSIX_VEC 6 0, 0xa260), (17, MSIX_VEC 6 1, 0xa264),
     (17, MSIX_VEC 6 2, 0xa268), (17, MSIX_VEC 6 3, 0xa26c), (17, MSIX_VEC 7 0, 0xa270), (17, MSIX_VEC 7 1, 0xa274), (17, MSIX_VEC 7 2, 0xa278),
     (17, MSIX_VEC 7 3, 0xa27c), (17, VF_PBA 32, 0xa280), (17, VF_PBA 0, 0xa284), (17, SOFT_INT_STATUS, 0xa288), (17, GPU_INT_MASK, 0xa28c),
     (17, DMA_WCH_INT_MASK, 0xa290), (17, DMA_RCH_INT_MASK, 0xa294), (17, WAVE517_INT_MASK, 0xa298), (17, WAVE627_INT_MASK, 0xa29c),
     (17, INT_MASK, 0xa2a0), (17, MONITOR_INT_NUM, 0xa2a4), (17, INT_NUM, 0xa2a8), (17, VEC_MSI_NUM 0, 0xa2ac), (17, VEC_MSI_NUM 1, 0xa2b0),
     (17, VEC_MSI_NUM 2, 0xa2b4), (17, VEC_MSI_NUM 3, 0xa2b8), (17, VEC_MSI_NUM 4, 0xa2bc), (17, VEC_MSI_NUM 5, 0xa2c0),
     (17, VEC_MSI_NUM 6, 0xa2c4), (17, VEC_MSI_NUM 7, 0xa2c8), (17, INT_STATUS, 0xa2cc)]"

definition pciess_vf18 :: "(nat \<times> vf_reg \<times> int) list" where
  "pciess_vf18 =
    [(18, MSIX_VEC 0 0, 0xa400), (18, MSIX_VEC 0 1, 0xa404), (18, MSIX_VEC 0 2, 0xa408), (18, MSIX_VEC 0 3, 0xa40c), (18, MSIX_VEC 1 0, 0xa410),
     (18, MSIX_VEC 1 1, 0xa414), (18, MSIX_VEC 1 2, 0xa418), (18, MSIX_VEC 1 3, 0xa41c), (18, MSIX_VEC 2 0, 0xa420), (18, MSIX_VEC 2 1, 0xa424),
     (18, MSIX_VEC 2 2, 0xa428), (18, MSIX_VEC 2 3, 0xa42c), (18, MSIX_VEC 3 0, 0xa430), (18, MSIX_VEC 3 1, 0xa434), (18, MSIX_VEC 3 2, 0xa438),
     (18, MSIX_VEC 3 3, 0xa43c), (18, MSIX_VEC 4 0, 0xa440), (18, MSIX_VEC 4 1, 0xa444), (18, MSIX_VEC 4 2, 0xa448), (18, MSIX_VEC 4 3, 0xa44c),
     (18, MSIX_VEC 5 0, 0xa450), (18, MSIX_VEC 5 1, 0xa454), (18, MSIX_VEC 5 2, 0xa458), (18, MSIX_VEC 5 3, 0xa45c), (18, MSIX_VEC 6 0, 0xa460),
     (18, MSIX_VEC 6 1, 0xa464), (18, MSIX_VEC 6 2, 0xa468), (18, MSIX_VEC 6 3, 0xa46c), (18, MSIX_VEC 7 0, 0xa470), (18, MSIX_VEC 7 1, 0xa474),
     (18, MSIX_VEC 7 2, 0xa478), (18, MSIX_VEC 7 3, 0xa47c), (18, VF_PBA 32, 0xa480), (18, VF_PBA 0, 0xa484), (18, SOFT_INT_STATUS, 0xa488),
     (18, GPU_INT_MASK, 0xa48c), (18, DMA_WCH_INT_MASK, 0xa490), (18, DMA_RCH_INT_MASK, 0xa494), (18, WAVE517_INT_MASK, 0xa498),
     (18, WAVE627_INT_MASK, 0xa49c), (18, INT_MASK, 0xa4a0), (18, MONITOR_INT_NUM, 0xa4a4), (18, INT_NUM, 0xa4a8), (18, VEC_MSI_NUM 0, 0xa4ac),
     (18, VEC_MSI_NUM 1, 0xa4b0), (18, VEC_MSI_NUM 2, 0xa4b4), (18, VEC_MSI_NUM 3, 0xa4b8), (18, VEC_MSI_NUM 4, 0xa4bc),
     (18, VEC_MSI_NUM 5, 0xa4c0), (18, VEC_MSI_NUM 6, 0xa4c4), (18, VEC_MSI_NUM 7, 0xa4c8), (18, INT_STATUS, 0xa4cc), (19, MSIX_VEC 0 0, 0xa600),
     (19, MSIX_VEC 0 1, 0xa604), (19, MSIX_VEC 0 2, 0xa608), (19, MSIX_VEC 0 3, 0xa60c), (19, MSIX_VEC 1 0, 0xa610), (19, MSIX_VEC 1 1, 0xa614),
     (19, MSIX_VEC 1 2, 0xa618), (19, MSIX_VEC 1 3, 0xa61c), (19, MSIX_VEC 2 0, 0xa620), (19, MSIX_VEC 2 1, 0xa624), (19, MSIX_VEC 2 2, 0xa628),
     (19, MSIX_VEC 2 3, 0xa62c), (19, MSIX_VEC 3 0, 0xa630), (19, MSIX_VEC 3 1, 0xa634), (19, MSIX_VEC 3 2, 0xa638), (19, MSIX_VEC 3 3, 0xa63c),
     (19, MSIX_VEC 4 0, 0xa640), (19, MSIX_VEC 4 1, 0xa644), (19, MSIX_VEC 4 2, 0xa648), (19, MSIX_VEC 4 3, 0xa64c), (19, MSIX_VEC 5 0, 0xa650),
     (19, MSIX_VEC 5 1, 0xa654), (19, MSIX_VEC 5 2, 0xa658), (19, MSIX_VEC 5 3, 0xa65c), (19, MSIX_VEC 6 0, 0xa660), (19, MSIX_VEC 6 1, 0xa664),
     (19, MSIX_VEC 6 2, 0xa668), (19, MSIX_VEC 6 3, 0xa66c), (19, MSIX_VEC 7 0, 0xa670), (19, MSIX_VEC 7 1, 0xa674), (19, MSIX_VEC 7 2, 0xa678),
     (19, MSIX_VEC 7 3, 0xa67c), (19, VF_PBA 32, 0xa680), (19, VF_PBA 0, 0xa684), (19, SOFT_INT_STATUS, 0xa688), (19, GPU_INT_MASK, 0xa68c),
     (19, DMA_WCH_INT_MASK, 0xa690), (19, DMA_RCH_INT_MASK, 0xa694), (19, WAVE517_INT_MASK, 0xa698), (19, WAVE627_INT_MASK, 0xa69c),
     (19, INT_MASK, 0xa6a0), (19, MONITOR_INT_NUM, 0xa6a4), (19, INT_NUM, 0xa6a8), (19, VEC_MSI_NUM 0, 0xa6ac), (19, VEC_MSI_NUM 1, 0xa6b0),
     (19, VEC_MSI_NUM 2, 0xa6b4), (19, VEC_MSI_NUM 3, 0xa6b8), (19, VEC_MSI_NUM 4, 0xa6bc), (19, VEC_MSI_NUM 5, 0xa6c0),
     (19, VEC_MSI_NUM 6, 0xa6c4), (19, VEC_MSI_NUM 7, 0xa6c8), (19, INT_STATUS, 0xa6cc)]"

definition pciess_vf20 :: "(nat \<times> vf_reg \<times> int) list" where
  "pciess_vf20 =
    [(20, MSIX_VEC 0 0, 0xa800), (20, MSIX_VEC 0 1, 0xa804), (20, MSIX_VEC 0 2, 0xa808), (20, MSIX_VEC 0 3, 0xa80c), (20, MSIX_VEC 1 0, 0xa810),
     (20, MSIX_VEC 1 1, 0xa814), (20, MSIX_VEC 1 2, 0xa818), (20, MSIX_VEC 1 3, 0xa81c), (20, MSIX_VEC 2 0, 0xa820), (20, MSIX_VEC 2 1, 0xa824),
     (20, MSIX_VEC 2 2, 0xa828), (20, MSIX_VEC 2 3, 0xa82c), (20, MSIX_VEC 3 0, 0xa830), (20, MSIX_VEC 3 1, 0xa834), (20, MSIX_VEC 3 2, 0xa838),
     (20, MSIX_VEC 3 3, 0xa83c), (20, MSIX_VEC 4 0, 0xa840), (20, MSIX_VEC 4 1, 0xa844), (20, MSIX_VEC 4 2, 0xa848), (20, MSIX_VEC 4 3, 0xa84c),
     (20, MSIX_VEC 5 0, 0xa850), (20, MSIX_VEC 5 1, 0xa854), (20, MSIX_VEC 5 2, 0xa858), (20, MSIX_VEC 5 3, 0xa85c), (20, MSIX_VEC 6 0, 0xa860),
     (20, MSIX_VEC 6 1, 0xa864), (20, MSIX_VEC 6 2, 0xa868), (20, MSIX_VEC 6 3, 0xa86c), (20, MSIX_VEC 7 0, 0xa870), (20, MSIX_VEC 7 1, 0xa874),
     (20, MSIX_VEC 7 2, 0xa878), (20, MSIX_VEC 7 3, 0xa87c), (20, VF_PBA 32, 0xa880), (20, VF_PBA 0, 0xa884), (20, SOFT_INT_STATUS, 0xa888),
     (20, GPU_INT_MASK, 0xa88c), (20, DMA_WCH_INT_MASK, 0xa890), (20, DMA_RCH_INT_MASK, 0xa894), (20, WAVE517_INT_MASK, 0xa898),
     (20, WAVE627_INT_MASK, 0xa89c), (20, INT_MASK, 0xa8a0), (20, MONITOR_INT_NUM, 0xa8a4), (20, INT_NUM, 0xa8a8), (20, VEC_MSI_NUM 0, 0xa8ac),
     (20, VEC_MSI_NUM 1, 0xa8b0), (20, VEC_MSI_NUM 2, 0xa8b4), (20, VEC_MSI_NUM 3, 0xa8b8), (20, VEC_MSI_NUM 4, 0xa8bc),
     (20, VEC_MSI_NUM 5, 0xa8c0), (20, VEC_MSI_NUM 6, 0xa8c4), (20, VEC_MSI_NUM 7, 0xa8c8), (20, INT_STATUS, 0xa8cc), (21, MSIX_VEC 0 0, 0xaa00),
     (21, MSIX_VEC 0 1, 0xaa04), (21, MSIX_VEC 0 2, 0xaa08), (21, MSIX_VEC 0 3, 0xaa0c), (21, MSIX_VEC 1 0, 0xaa10), (21, MSIX_VEC 1 1, 0xaa14),
     (21, MSIX_VEC 1 2, 0xaa18), (21, MSIX_VEC 1 3, 0xaa1c), (21, MSIX_VEC 2 0, 0xaa20), (21, MSIX_VEC 2 1, 0xaa24), (21, MSIX_VEC 2 2, 0xaa28),
     (21, MSIX_VEC 2 3, 0xaa2c), (21, MSIX_VEC 3 0, 0xaa30), (21, MSIX_VEC 3 1, 0xaa34), (21, MSIX_VEC 3 2, 0xaa38), (21, MSIX_VEC 3 3, 0xaa3c),
     (21, MSIX_VEC 4 0, 0xaa40), (21, MSIX_VEC 4 1, 0xaa44), (21, MSIX_VEC 4 2, 0xaa48), (21, MSIX_VEC 4 3, 0xaa4c), (21, MSIX_VEC 5 0, 0xaa50),
     (21, MSIX_VEC 5 1, 0xaa54), (21, MSIX_VEC 5 2, 0xaa58), (21, MSIX_VEC 5 3, 0xaa5c), (21, MSIX_VEC 6 0, 0xaa60), (21, MSIX_VEC 6 1, 0xaa64),
     (21, MSIX_VEC 6 2, 0xaa68), (21, MSIX_VEC 6 3, 0xaa6c), (21, MSIX_VEC 7 0, 0xaa70), (21, MSIX_VEC 7 1, 0xaa74), (21, MSIX_VEC 7 2, 0xaa78),
     (21, MSIX_VEC 7 3, 0xaa7c), (21, VF_PBA 32, 0xaa80), (21, VF_PBA 0, 0xaa84), (21, SOFT_INT_STATUS, 0xaa88), (21, GPU_INT_MASK, 0xaa8c),
     (21, DMA_WCH_INT_MASK, 0xaa90), (21, DMA_RCH_INT_MASK, 0xaa94), (21, WAVE517_INT_MASK, 0xaa98), (21, WAVE627_INT_MASK, 0xaa9c),
     (21, INT_MASK, 0xaaa0), (21, MONITOR_INT_NUM, 0xaaa4), (21, INT_NUM, 0xaaa8), (21, VEC_MSI_NUM 0, 0xaaac), (21, VEC_MSI_NUM 1, 0xaab0),
     (21, VEC_MSI_NUM 2, 0xaab4), (21, VEC_MSI_NUM 3, 0xaab8), (21, VEC_MSI_NUM 4, 0xaabc), (21, VEC_MSI_NUM 5, 0xaac0),
     (21, VEC_MSI_NUM 6, 0xaac4), (21, VEC_MSI_NUM 7, 0xaac8), (21, INT_STATUS, 0xaacc)]"

definition pciess_vf22 :: "(nat \<times> vf_reg \<times> int) list" where
  "pciess_vf22 =
    [(22, MSIX_VEC 0 0, 0xac00), (22, MSIX_VEC 0 1, 0xac04), (22, MSIX_VEC 0 2, 0xac08), (22, MSIX_VEC 0 3, 0xac0c), (22, MSIX_VEC 1 0, 0xac10),
     (22, MSIX_VEC 1 1, 0xac14), (22, MSIX_VEC 1 2, 0xac18), (22, MSIX_VEC 1 3, 0xac1c), (22, MSIX_VEC 2 0, 0xac20), (22, MSIX_VEC 2 1, 0xac24),
     (22, MSIX_VEC 2 2, 0xac28), (22, MSIX_VEC 2 3, 0xac2c), (22, MSIX_VEC 3 0, 0xac30), (22, MSIX_VEC 3 1, 0xac34), (22, MSIX_VEC 3 2, 0xac38),
     (22, MSIX_VEC 3 3, 0xac3c), (22, MSIX_VEC 4 0, 0xac40), (22, MSIX_VEC 4 1, 0xac44), (22, MSIX_VEC 4 2, 0xac48), (22, MSIX_VEC 4 3, 0xac4c),
     (22, MSIX_VEC 5 0, 0xac50), (22, MSIX_VEC 5 1, 0xac54), (22, MSIX_VEC 5 2, 0xac58), (22, MSIX_VEC 5 3, 0xac5c), (22, MSIX_VEC 6 0, 0xac60),
     (22, MSIX_VEC 6 1, 0xac64), (22, MSIX_VEC 6 2, 0xac68), (22, MSIX_VEC 6 3, 0xac6c), (22, MSIX_VEC 7 0, 0xac70), (22, MSIX_VEC 7 1, 0xac74),
     (22, MSIX_VEC 7 2, 0xac78), (22, MSIX_VEC 7 3, 0xac7c), (22, VF_PBA 32, 0xac80), (22, VF_PBA 0, 0xac84), (22, SOFT_INT_STATUS, 0xac88),
     (22, GPU_INT_MASK, 0xac8c), (22, DMA_WCH_INT_MASK, 0xac90), (22, DMA_RCH_INT_MASK, 0xac94), (22, WAVE517_INT_MASK, 0xac98),
     (22, WAVE627_INT_MASK, 0xac9c), (22, INT_MASK, 0xaca0), (22, MONITOR_INT_NUM, 0xaca4), (22, INT_NUM, 0xaca8), (22, VEC_MSI_NUM 0, 0xacac),
     (22, VEC_MSI_NUM 1, 0xacb0), (22, VEC_MSI_NUM 2, 0xacb4), (22, VEC_MSI_NUM 3, 0xacb8), (22, VEC_MSI_NUM 4, 0xacbc),
     (22, VEC_MSI_NUM 5, 0xacc0), (22, VEC_MSI_NUM 6, 0xacc4), (22, VEC_MSI_NUM 7, 0xacc8), (22, INT_STATUS, 0xaccc), (23, MSIX_VEC 0 0, 0xae00),
     (23, MSIX_VEC 0 1, 0xae04), (23, MSIX_VEC 0 2, 0xae08), (23, MSIX_VEC 0 3, 0xae0c), (23, MSIX_VEC 1 0, 0xae10), (23, MSIX_VEC 1 1, 0xae14),
     (23, MSIX_VEC 1 2, 0xae18), (23, MSIX_VEC 1 3, 0xae1c), (23, MSIX_VEC 2 0, 0xae20), (23, MSIX_VEC 2 1, 0xae24), (23, MSIX_VEC 2 2, 0xae28),
     (23, MSIX_VEC 2 3, 0xae2c), (23, MSIX_VEC 3 0, 0xae30), (23, MSIX_VEC 3 1, 0xae34), (23, MSIX_VEC 3 2, 0xae38), (23, MSIX_VEC 3 3, 0xae3c),
     (23, MSIX_VEC 4 0, 0xae40), (23, MSIX_VEC 4 1, 0xae44), (23, MSIX_VEC 4 2, 0xae48), (23, MSIX_VEC 4 3, 0xae4c), (23, MSIX_VEC 5 0, 0xae50),
     (23, MSIX_VEC 5 1, 0xae54), (23, MSIX_VEC 5 2, 0xae58), (23, MSIX_VEC 5 3, 0xae5c), (23, MSIX_VEC 6 0, 0xae60), (23, MSIX_VEC 6 1, 0xae64),
     (23, MSIX_VEC 6 2, 0xae68), (23, MSIX_VEC 6 3, 0xae6c), (23, MSIX_VEC 7 0, 0xae70), (23, MSIX_VEC 7 1, 0xae74), (23, MSIX_VEC 7 2, 0xae78),
     (23, MSIX_VEC 7 3, 0xae7c), (23, VF_PBA 32, 0xae80), (23, VF_PBA 0, 0xae84), (23, SOFT_INT_STATUS, 0xae88), (23, GPU_INT_MASK, 0xae8c),
     (23, DMA_WCH_INT_MASK, 0xae90), (23, DMA_RCH_INT_MASK, 0xae94), (23, WAVE517_INT_MASK, 0xae98), (23, WAVE627_INT_MASK, 0xae9c),
     (23, INT_MASK, 0xaea0), (23, MONITOR_INT_NUM, 0xaea4), (23, INT_NUM, 0xaea8), (23, VEC_MSI_NUM 0, 0xaeac), (23, VEC_MSI_NUM 1, 0xaeb0),
     (23, VEC_MSI_NUM 2, 0xaeb4), (23, VEC_MSI_NUM 3, 0xaeb8), (23, VEC_MSI_NUM 4, 0xaebc), (23, VEC_MSI_NUM 5, 0xaec0),
     (23, VEC_MSI_NUM 6, 0xaec4), (23, VEC_MSI_NUM 7, 0xaec8), (23, INT_STATUS, 0xaecc)]"

definition pciess_vf24 :: "(nat \<times> vf_reg \<times> int) list" where
  "pciess_vf24 =
    [(24, MSIX_VEC 0 0, 0xb000), (24, MSIX_VEC 0 1, 0xb004), (24, MSIX_VEC 0 2, 0xb008), (24, MSIX_VEC 0 3, 0xb00c), (24, MSIX_VEC 1 0, 0xb010),
     (24, MSIX_VEC 1 1, 0xb014), (24, MSIX_VEC 1 2, 0xb018), (24, MSIX_VEC 1 3, 0xb01c), (24, MSIX_VEC 2 0, 0xb020), (24, MSIX_VEC 2 1, 0xb024),
     (24, MSIX_VEC 2 2, 0xb028), (24, MSIX_VEC 2 3, 0xb02c), (24, MSIX_VEC 3 0, 0xb030), (24, MSIX_VEC 3 1, 0xb034), (24, MSIX_VEC 3 2, 0xb038),
     (24, MSIX_VEC 3 3, 0xb03c), (24, MSIX_VEC 4 0, 0xb040), (24, MSIX_VEC 4 1, 0xb044), (24, MSIX_VEC 4 2, 0xb048), (24, MSIX_VEC 4 3, 0xb04c),
     (24, MSIX_VEC 5 0, 0xb050), (24, MSIX_VEC 5 1, 0xb054), (24, MSIX_VEC 5 2, 0xb058), (24, MSIX_VEC 5 3, 0xb05c), (24, MSIX_VEC 6 0, 0xb060),
     (24, MSIX_VEC 6 1, 0xb064), (24, MSIX_VEC 6 2, 0xb068), (24, MSIX_VEC 6 3, 0xb06c), (24, MSIX_VEC 7 0, 0xb070), (24, MSIX_VEC 7 1, 0xb074),
     (24, MSIX_VEC 7 2, 0xb078), (24, MSIX_VEC 7 3, 0xb07c), (24, VF_PBA 32, 0xb080), (24, VF_PBA 0, 0xb084), (24, SOFT_INT_STATUS, 0xb088),
     (24, GPU_INT_MASK, 0xb08c), (24, DMA_WCH_INT_MASK, 0xb090), (24, DMA_RCH_INT_MASK, 0xb094), (24, WAVE517_INT_MASK, 0xb098),
     (24, WAVE627_INT_MASK, 0xb09c), (24, INT_MASK, 0xb0a0), (24, MONITOR_INT_NUM, 0xb0a4), (24, INT_NUM, 0xb0a8), (24, VEC_MSI_NUM 0, 0xb0ac),
     (24, VEC_MSI_NUM 1, 0xb0b0), (24, VEC_MSI_NUM 2, 0xb0b4), (24, VEC_MSI_NUM 3, 0xb0b8), (24, VEC_MSI_NUM 4, 0xb0bc),
     (24, VEC_MSI_NUM 5, 0xb0c0), (24, VEC_MSI_NUM 6, 0xb0c4), (24, VEC_MSI_NUM 7, 0xb0c8), (24, INT_STATUS, 0xb0cc), (25, MSIX_VEC 0 0, 0xb200),
     (25, MSIX_VEC 0 1, 0xb204), (25, MSIX_VEC 0 2, 0xb208), (25, MSIX_VEC 0 3, 0xb20c), (25, MSIX_VEC 1 0, 0xb210), (25, MSIX_VEC 1 1, 0xb214),
     (25, MSIX_VEC 1 2, 0xb218), (25, MSIX_VEC 1 3, 0xb21c), (25, MSIX_VEC 2 0, 0xb220), (25, MSIX_VEC 2 1, 0xb224), (25, MSIX_VEC 2 2, 0xb228),
     (25, MSIX_VEC 2 3, 0xb22c), (25, MSIX_VEC 3 0, 0xb230), (25, MSIX_VEC 3 1, 0xb234), (25, MSIX_VEC 3 2, 0xb238), (25, MSIX_VEC 3 3, 0xb23c),
     (25, MSIX_VEC 4 0, 0xb240), (25, MSIX_VEC 4 1, 0xb244), (25, MSIX_VEC 4 2, 0xb248), (25, MSIX_VEC 4 3, 0xb24c), (25, MSIX_VEC 5 0, 0xb250),
     (25, MSIX_VEC 5 1, 0xb254), (25, MSIX_VEC 5 2, 0xb258), (25, MSIX_VEC 5 3, 0xb25c), (25, MSIX_VEC 6 0, 0xb260), (25, MSIX_VEC 6 1, 0xb264),
     (25, MSIX_VEC 6 2, 0xb268), (25, MSIX_VEC 6 3, 0xb26c), (25, MSIX_VEC 7 0, 0xb270), (25, MSIX_VEC 7 1, 0xb274), (25, MSIX_VEC 7 2, 0xb278),
     (25, MSIX_VEC 7 3, 0xb27c), (25, VF_PBA 32, 0xb280), (25, VF_PBA 0, 0xb284), (25, SOFT_INT_STATUS, 0xb288), (25, GPU_INT_MASK, 0xb28c),
     (25, DMA_WCH_INT_MASK, 0xb290), (25, DMA_RCH_INT_MASK, 0xb294), (25, WAVE517_INT_MASK, 0xb298), (25, WAVE627_INT_MASK, 0xb29c),
     (25, INT_MASK, 0xb2a0), (25, MONITOR_INT_NUM, 0xb2a4), (25, INT_NUM, 0xb2a8), (25, VEC_MSI_NUM 0, 0xb2ac), (25, VEC_MSI_NUM 1, 0xb2b0),
     (25, VEC_MSI_NUM 2, 0xb2b4), (25, VEC_MSI_NUM 3, 0xb2b8), (25, VEC_MSI_NUM 4, 0xb2bc), (25, VEC_MSI_NUM 5, 0xb2c0),
     (25, VEC_MSI_NUM 6, 0xb2c4), (25, VEC_MSI_NUM 7, 0xb2c8), (25, INT_STATUS, 0xb2cc)]"

definition pciess_vf26 :: "(nat \<times> vf_reg \<times> int) list" where
  "pciess_vf26 =
    [(26, MSIX_VEC 0 0, 0xb400), (26, MSIX_VEC 0 1, 0xb404), (26, MSIX_VEC 0 2, 0xb408), (26, MSIX_VEC 0 3, 0xb40c), (26, MSIX_VEC 1 0, 0xb410),
     (26, MSIX_VEC 1 1, 0xb414), (26, MSIX_VEC 1 2, 0xb418), (26, MSIX_VEC 1 3, 0xb41c), (26, MSIX_VEC 2 0, 0xb420), (26, MSIX_VEC 2 1, 0xb424),
     (26, MSIX_VEC 2 2, 0xb428), (26, MSIX_VEC 2 3, 0xb42c), (26, MSIX_VEC 3 0, 0xb430), (26, MSIX_VEC 3 1, 0xb434), (26, MSIX_VEC 3 2, 0xb438),
     (26, MSIX_VEC 3 3, 0xb43c), (26, MSIX_VEC 4 0, 0xb440), (26, MSIX_VEC 4 1, 0xb444), (26, MSIX_VEC 4 2, 0xb448), (26, MSIX_VEC 4 3, 0xb44c),
     (26, MSIX_VEC 5 0, 0xb450), (26, MSIX_VEC 5 1, 0xb454), (26, MSIX_VEC 5 2, 0xb458), (26, MSIX_VEC 5 3, 0xb45c), (26, MSIX_VEC 6 0, 0xb460),
     (26, MSIX_VEC 6 1, 0xb464), (26, MSIX_VEC 6 2, 0xb468), (26, MSIX_VEC 6 3, 0xb46c), (26, MSIX_VEC 7 0, 0xb470), (26, MSIX_VEC 7 1, 0xb474),
     (26, MSIX_VEC 7 2, 0xb478), (26, MSIX_VEC 7 3, 0xb47c), (26, VF_PBA 32, 0xb480), (26, VF_PBA 0, 0xb484), (26, SOFT_INT_STATUS, 0xb488),
     (26, GPU_INT_MASK, 0xb48c), (26, DMA_WCH_INT_MASK, 0xb490), (26, DMA_RCH_INT_MASK, 0xb494), (26, WAVE517_INT_MASK, 0xb498),
     (26, WAVE627_INT_MASK, 0xb49c), (26, INT_MASK, 0xb4a0), (26, MONITOR_INT_NUM, 0xb4a4), (26, INT_NUM, 0xb4a8), (26, VEC_MSI_NUM 0, 0xb4ac),
     (26, VEC_MSI_NUM 1, 0xb4b0), (26, VEC_MSI_NUM 2, 0xb4b4), (26, VEC_MSI_NUM 3, 0xb4b8), (26, VEC_MSI_NUM 4, 0xb4bc),
     (26, VEC_MSI_NUM 5, 0xb4c0), (26, VEC_MSI_NUM 6, 0xb4c4), (26, VEC_MSI_NUM 7, 0xb4c8), (26, INT_STATUS, 0xb4cc), (27, MSIX_VEC 0 0, 0xb600),
     (27, MSIX_VEC 0 1, 0xb604), (27, MSIX_VEC 0 2, 0xb608), (27, MSIX_VEC 0 3, 0xb60c), (27, MSIX_VEC 1 0, 0xb610), (27, MSIX_VEC 1 1, 0xb614),
     (27, MSIX_VEC 1 2, 0xb618), (27, MSIX_VEC 1 3, 0xb61c), (27, MSIX_VEC 2 0, 0xb620), (27, MSIX_VEC 2 1, 0xb624), (27, MSIX_VEC 2 2, 0xb628),
     (27, MSIX_VEC 2 3, 0xb62c), (27, MSIX_VEC 3 0, 0xb630), (27, MSIX_VEC 3 1, 0xb634), (27, MSIX_VEC 3 2, 0xb638), (27, MSIX_VEC 3 3, 0xb63c),
     (27, MSIX_VEC 4 0, 0xb640), (27, MSIX_VEC 4 1, 0xb644), (27, MSIX_VEC 4 2, 0xb648), (27, MSIX_VEC 4 3, 0xb64c), (27, MSIX_VEC 5 0, 0xb650),
     (27, MSIX_VEC 5 1, 0xb654), (27, MSIX_VEC 5 2, 0xb658), (27, MSIX_VEC 5 3, 0xb65c), (27, MSIX_VEC 6 0, 0xb660), (27, MSIX_VEC 6 1, 0xb664),
     (27, MSIX_VEC 6 2, 0xb668), (27, MSIX_VEC 6 3, 0xb66c), (27, MSIX_VEC 7 0, 0xb670), (27, MSIX_VEC 7 1, 0xb674), (27, MSIX_VEC 7 2, 0xb678),
     (27, MSIX_VEC 7 3, 0xb67c), (27, VF_PBA 32, 0xb680), (27, VF_PBA 0, 0xb684), (27, SOFT_INT_STATUS, 0xb688), (27, GPU_INT_MASK, 0xb68c),
     (27, DMA_WCH_INT_MASK, 0xb690), (27, DMA_RCH_INT_MASK, 0xb694), (27, WAVE517_INT_MASK, 0xb698), (27, WAVE627_INT_MASK, 0xb69c),
     (27, INT_MASK, 0xb6a0), (27, MONITOR_INT_NUM, 0xb6a4), (27, INT_NUM, 0xb6a8), (27, VEC_MSI_NUM 0, 0xb6ac), (27, VEC_MSI_NUM 1, 0xb6b0),
     (27, VEC_MSI_NUM 2, 0xb6b4), (27, VEC_MSI_NUM 3, 0xb6b8), (27, VEC_MSI_NUM 4, 0xb6bc), (27, VEC_MSI_NUM 5, 0xb6c0),
     (27, VEC_MSI_NUM 6, 0xb6c4), (27, VEC_MSI_NUM 7, 0xb6c8), (27, INT_STATUS, 0xb6cc)]"

definition pciess_vf28 :: "(nat \<times> vf_reg \<times> int) list" where
  "pciess_vf28 =
    [(28, MSIX_VEC 0 0, 0xb800), (28, MSIX_VEC 0 1, 0xb804), (28, MSIX_VEC 0 2, 0xb808), (28, MSIX_VEC 0 3, 0xb80c), (28, MSIX_VEC 1 0, 0xb810),
     (28, MSIX_VEC 1 1, 0xb814), (28, MSIX_VEC 1 2, 0xb818), (28, MSIX_VEC 1 3, 0xb81c), (28, MSIX_VEC 2 0, 0xb820), (28, MSIX_VEC 2 1, 0xb824),
     (28, MSIX_VEC 2 2, 0xb828), (28, MSIX_VEC 2 3, 0xb82c), (28, MSIX_VEC 3 0, 0xb830), (28, MSIX_VEC 3 1, 0xb834), (28, MSIX_VEC 3 2, 0xb838),
     (28, MSIX_VEC 3 3, 0xb83c), (28, MSIX_VEC 4 0, 0xb840), (28, MSIX_VEC 4 1, 0xb844), (28, MSIX_VEC 4 2, 0xb848), (28, MSIX_VEC 4 3, 0xb84c),
     (28, MSIX_VEC 5 0, 0xb850), (28, MSIX_VEC 5 1, 0xb854), (28, MSIX_VEC 5 2, 0xb858), (28, MSIX_VEC 5 3, 0xb85c), (28, MSIX_VEC 6 0, 0xb860),
     (28, MSIX_VEC 6 1, 0xb864), (28, MSIX_VEC 6 2, 0xb868), (28, MSIX_VEC 6 3, 0xb86c), (28, MSIX_VEC 7 0, 0xb870), (28, MSIX_VEC 7 1, 0xb874),
     (28, MSIX_VEC 7 2, 0xb878), (28, MSIX_VEC 7 3, 0xb87c), (28, VF_PBA 32, 0xb880), (28, VF_PBA 0, 0xb884), (28, SOFT_INT_STATUS, 0xb888),
     (28, GPU_INT_MASK, 0xb88c), (28, DMA_WCH_INT_MASK, 0xb890), (28, DMA_RCH_INT_MASK, 0xb894), (28, WAVE517_INT_MASK, 0xb898),
     (28, WAVE627_INT_MASK, 0xb89c), (28, INT_MASK, 0xb8a0), (28, MONITOR_INT_NUM, 0xb8a4), (28, INT_NUM, 0xb8a8), (28, VEC_MSI_NUM 0, 0xb8ac),
     (28, VEC_MSI_NUM 1, 0xb8b0), (28, VEC_MSI_NUM 2, 0xb8b4), (28, VEC_MSI_NUM 3, 0xb8b8), (28, VEC_MSI_NUM 4, 0xb8bc),
     (28, VEC_MSI_NUM 5, 0xb8c0), (28, VEC_MSI_NUM 6, 0xb8c4), (28, VEC_MSI_NUM 7, 0xb8c8), (28, INT_STATUS, 0xb8cc), (29, MSIX_VEC 0 0, 0xba00),
     (29, MSIX_VEC 0 1, 0xba04), (29, MSIX_VEC 0 2, 0xba08), (29, MSIX_VEC 0 3, 0xba0c), (29, MSIX_VEC 1 0, 0xba10), (29, MSIX_VEC 1 1, 0xba14),
     (29, MSIX_VEC 1 2, 0xba18), (29, MSIX_VEC 1 3, 0xba1c), (29, MSIX_VEC 2 0, 0xba20), (29, MSIX_VEC 2 1, 0xba24), (29, MSIX_VEC 2 2, 0xba28),
     (29, MSIX_VEC 2 3, 0xba2c), (29, MSIX_VEC 3 0, 0xba30), (29, MSIX_VEC 3 1, 0xba34), (29, MSIX_VEC 3 2, 0xba38), (29, MSIX_VEC 3 3, 0xba3c),
     (29, MSIX_VEC 4 0, 0xba40), (29, MSIX_VEC 4 1, 0xba44), (29, MSIX_VEC 4 2, 0xba48), (29, MSIX_VEC 4 3, 0xba4c), (29, MSIX_VEC 5 0, 0xba50),
     (29, MSIX_VEC 5 1, 0xba54), (29, MSIX_VEC 5 2, 0xba58), (29, MSIX_VEC 5 3, 0xba5c), (29, MSIX_VEC 6 0, 0xba60), (29, MSIX_VEC 6 1, 0xba64),
     (29, MSIX_VEC 6 2, 0xba68), (29, MSIX_VEC 6 3, 0xba6c), (29, MSIX_VEC 7 0, 0xba70), (29, MSIX_VEC 7 1, 0xba74), (29, MSIX_VEC 7 2, 0xba78),
     (29, MSIX_VEC 7 3, 0xba7c), (29, VF_PBA 32, 0xba80), (29, VF_PBA 0, 0xba84), (29, SOFT_INT_STATUS, 0xba88), (29, GPU_INT_MASK, 0xba8c),
     (29, DMA_WCH_INT_MASK, 0xba90), (29, DMA_RCH_INT_MASK, 0xba94), (29, WAVE517_INT_MASK, 0xba98), (29, WAVE627_INT_MASK, 0xba9c),
     (29, INT_MASK, 0xbaa0), (29, MONITOR_INT_NUM, 0xbaa4), (29, INT_NUM, 0xbaa8), (29, VEC_MSI_NUM 0, 0xbaac), (29, VEC_MSI_NUM 1, 0xbab0),
     (29, VEC_MSI_NUM 2, 0xbab4), (29, VEC_MSI_NUM 3, 0xbab8), (29, VEC_MSI_NUM 4, 0xbabc), (29, VEC_MSI_NUM 5, 0xbac0),
     (29, VEC_MSI_NUM 6, 0xbac4), (29, VEC_MSI_NUM 7, 0xbac8), (29, INT_STATUS, 0xbacc)]"

definition pciess_vf30 :: "(nat \<times> vf_reg \<times> int) list" where
  "pciess_vf30 =
    [(30, MSIX_VEC 0 0, 0xbc00), (30, MSIX_VEC 0 1, 0xbc04), (30, MSIX_VEC 0 2, 0xbc08), (30, MSIX_VEC 0 3, 0xbc0c), (30, MSIX_VEC 1 0, 0xbc10),
     (30, MSIX_VEC 1 1, 0xbc14), (30, MSIX_VEC 1 2, 0xbc18), (30, MSIX_VEC 1 3, 0xbc1c), (30, MSIX_VEC 2 0, 0xbc20), (30, MSIX_VEC 2 1, 0xbc24),
     (30, MSIX_VEC 2 2, 0xbc28), (30, MSIX_VEC 2 3, 0xbc2c), (30, MSIX_VEC 3 0, 0xbc30), (30, MSIX_VEC 3 1, 0xbc34), (30, MSIX_VEC 3 2, 0xbc38),
     (30, MSIX_VEC 3 3, 0xbc3c), (30, MSIX_VEC 4 0, 0xbc40), (30, MSIX_VEC 4 1, 0xbc44), (30, MSIX_VEC 4 2, 0xbc48), (30, MSIX_VEC 4 3, 0xbc4c),
     (30, MSIX_VEC 5 0, 0xbc50), (30, MSIX_VEC 5 1, 0xbc54), (30, MSIX_VEC 5 2, 0xbc58), (30, MSIX_VEC 5 3, 0xbc5c), (30, MSIX_VEC 6 0, 0xbc60),
     (30, MSIX_VEC 6 1, 0xbc64), (30, MSIX_VEC 6 2, 0xbc68), (30, MSIX_VEC 6 3, 0xbc6c), (30, MSIX_VEC 7 0, 0xbc70), (30, MSIX_VEC 7 1, 0xbc74),
     (30, MSIX_VEC 7 2, 0xbc78), (30, MSIX_VEC 7 3, 0xbc7c), (30, VF_PBA 32, 0xbc80), (30, VF_PBA 0, 0xbc84), (30, SOFT_INT_STATUS, 0xbc88),
     (30, GPU_INT_MASK, 0xbc8c), (30, DMA_WCH_INT_MASK, 0xbc90), (30, DMA_RCH_INT_MASK, 0xbc94), (30, WAVE517_INT_MASK, 0xbc98),
     (30, WAVE627_INT_MASK, 0xbc9c), (30, INT_MASK, 0xbca0), (30, MONITOR_INT_NUM, 0xbca4), (30, INT_NUM, 0xbca8), (30, VEC_MSI_NUM 0, 0xbcac),
     (30, VEC_MSI_NUM 1, 0xbcb0), (30, VEC_MSI_NUM 2, 0xbcb4), (30, VEC_MSI_NUM 3, 0xbcb8), (30, VEC_MSI_NUM 4, 0xbcbc),
     (30, VEC_MSI_NUM 5, 0xbcc0), (30, VEC_MSI_NUM 6, 0xbcc4), (30, VEC_MSI_NUM 7, 0xbcc8), (30, INT_STATUS, 0xbccc), (31, MSIX_VEC 0 0, 0xbe00),
     (31, MSIX_VEC 0 1, 0xbe04), (31, MSIX_VEC 0 2, 0xbe08), (31, MSIX_VEC 0 3, 0xbe0c), (31, MSIX_VEC 1 0, 0xbe10), (31, MSIX_VEC 1 1, 0xbe14),
     (31, MSIX_VEC 1 2, 0xbe18), (31, MSIX_VEC 1 3, 0xbe1c), (31, MSIX_VEC 2 0, 0xbe20), (31, MSIX_VEC 2 1, 0xbe24), (31, MSIX_VEC 2 2, 0xbe28),
     (31, MSIX_VEC 2 3, 0xbe2c), (31, MSIX_VEC 3 0, 0xbe30), (31, MSIX_VEC 3 1, 0xbe34), (31, MSIX_VEC 3 2, 0xbe38), (31, MSIX_VEC 3 3, 0xbe3c),
     (31, MSIX_VEC 4 0, 0xbe40), (31, MSIX_VEC 4 1, 0xbe44), (31, MSIX_VEC 4 2, 0xbe48), (31, MSIX_VEC 4 3, 0xbe4c), (31, MSIX_VEC 5 0, 0xbe50),
     (31, MSIX_VEC 5 1, 0xbe54), (31, MSIX_VEC 5 2, 0xbe58), (31, MSIX_VEC 5 3, 0xbe5c), (31, MSIX_VEC 6 0, 0xbe60), (31, MSIX_VEC 6 1, 0xbe64),
     (31, MSIX_VEC 6 2, 0xbe68), (31, MSIX_VEC 6 3, 0xbe6c), (31, MSIX_VEC 7 0, 0xbe70), (31, MSIX_VEC 7 1, 0xbe74), (31, MSIX_VEC 7 2, 0xbe78),
     (31, MSIX_VEC 7 3, 0xbe7c), (31, VF_PBA 32, 0xbe80), (31, VF_PBA 0, 0xbe84), (31, SOFT_INT_STATUS, 0xbe88), (31, GPU_INT_MASK, 0xbe8c),
     (31, DMA_WCH_INT_MASK, 0xbe90), (31, DMA_RCH_INT_MASK, 0xbe94), (31, WAVE517_INT_MASK, 0xbe98), (31, WAVE627_INT_MASK, 0xbe9c),
     (31, INT_MASK, 0xbea0), (31, MONITOR_INT_NUM, 0xbea4), (31, INT_NUM, 0xbea8), (31, VEC_MSI_NUM 0, 0xbeac), (31, VEC_MSI_NUM 1, 0xbeb0),
     (31, VEC_MSI_NUM 2, 0xbeb4), (31, VEC_MSI_NUM 3, 0xbeb8), (31, VEC_MSI_NUM 4, 0xbebc), (31, VEC_MSI_NUM 5, 0xbec0),
     (31, VEC_MSI_NUM 6, 0xbec4), (31, VEC_MSI_NUM 7, 0xbec8), (31, INT_STATUS, 0xbecc)]"

definition pciess_vf32 :: "(nat \<times> vf_reg \<times> int) list" where
  "pciess_vf32 =
    [(32, MSIX_VEC 0 0, 0xc000), (32, MSIX_VEC 0 1, 0xc004), (32, MSIX_VEC 0 2, 0xc008), (32, MSIX_VEC 0 3, 0xc00c), (32, MSIX_VEC 1 0, 0xc010),
     (32, MSIX_VEC 1 1, 0xc014), (32, MSIX_VEC 1 2, 0xc018), (32, MSIX_VEC 1 3, 0xc01c), (32, MSIX_VEC 2 0, 0xc020), (32, MSIX_VEC 2 1, 0xc024),
     (32, MSIX_VEC 2 2, 0xc028), (32, MSIX_VEC 2 3, 0xc02c), (32, MSIX_VEC 3 0, 0xc030), (32, MSIX_VEC 3 1, 0xc034), (32, MSIX_VEC 3 2, 0xc038),
     (32, MSIX_VEC 3 3, 0xc03c), (32, MSIX_VEC 4 0, 0xc040), (32, MSIX_VEC 4 1, 0xc044), (32, MSIX_VEC 4 2, 0xc048), (32, MSIX_VEC 4 3, 0xc04c),
     (32, MSIX_VEC 5 0, 0xc050), (32, MSIX_VEC 5 1, 0xc054), (32, MSIX_VEC 5 2, 0xc058), (32, MSIX_VEC 5 3, 0xc05c), (32, MSIX_VEC 6 0, 0xc060),
     (32, MSIX_VEC 6 1, 0xc064), (32, MSIX_VEC 6 2, 0xc068), (32, MSIX_VEC 6 3, 0xc06c), (32, MSIX_VEC 7 0, 0xc070), (32, MSIX_VEC 7 1, 0xc074),
     (32, MSIX_VEC 7 2, 0xc078), (32, MSIX_VEC 7 3, 0xc07c), (32, VF_PBA 32, 0xc080), (32, VF_PBA 0, 0xc084), (32, SOFT_INT_STATUS, 0xc088),
     (32, GPU_INT_MASK, 0xc08c), (32, DMA_WCH_INT_MASK, 0xc090), (32, DMA_RCH_INT_MASK, 0xc094), (32, WAVE517_INT_MASK, 0xc098),
     (32, WAVE627_INT_MASK, 0xc09c), (32, INT_MASK, 0xc0a0), (32, MONITOR_INT_NUM, 0xc0a4), (32, INT_NUM, 0xc0a8), (32, VEC_MSI_NUM 0, 0xc0ac),
     (32, VEC_MSI_NUM 1, 0xc0b0), (32, VEC_MSI_NUM 2, 0xc0b4), (32, VEC_MSI_NUM 3, 0xc0b8), (32, VEC_MSI_NUM 4, 0xc0bc),
     (32, VEC_MSI_NUM 5, 0xc0c0), (32, VEC_MSI_NUM 6, 0xc0c4), (32, VEC_MSI_NUM 7, 0xc0c8), (32, INT_STATUS, 0xc0cc), (33, MSIX_VEC 0 0, 0xc200),
     (33, MSIX_VEC 0 1, 0xc204), (33, MSIX_VEC 0 2, 0xc208), (33, MSIX_VEC 0 3, 0xc20c), (33, MSIX_VEC 1 0, 0xc210), (33, MSIX_VEC 1 1, 0xc214),
     (33, MSIX_VEC 1 2, 0xc218), (33, MSIX_VEC 1 3, 0xc21c), (33, MSIX_VEC 2 0, 0xc220), (33, MSIX_VEC 2 1, 0xc224), (33, MSIX_VEC 2 2, 0xc228),
     (33, MSIX_VEC 2 3, 0xc22c), (33, MSIX_VEC 3 0, 0xc230), (33, MSIX_VEC 3 1, 0xc234), (33, MSIX_VEC 3 2, 0xc238), (33, MSIX_VEC 3 3, 0xc23c),
     (33, MSIX_VEC 4 0, 0xc240), (33, MSIX_VEC 4 1, 0xc244), (33, MSIX_VEC 4 2, 0xc248), (33, MSIX_VEC 4 3, 0xc24c), (33, MSIX_VEC 5 0, 0xc250),
     (33, MSIX_VEC 5 1, 0xc254), (33, MSIX_VEC 5 2, 0xc258), (33, MSIX_VEC 5 3, 0xc25c), (33, MSIX_VEC 6 0, 0xc260), (33, MSIX_VEC 6 1, 0xc264),
     (33, MSIX_VEC 6 2, 0xc268), (33, MSIX_VEC 6 3, 0xc26c), (33, MSIX_VEC 7 0, 0xc270), (33, MSIX_VEC 7 1, 0xc274), (33, MSIX_VEC 7 2, 0xc278),
     (33, MSIX_VEC 7 3, 0xc27c), (33, VF_PBA 32, 0xc280), (33, VF_PBA 0, 0xc284), (33, SOFT_INT_STATUS, 0xc288), (33, GPU_INT_MASK, 0xc28c),
     (33, DMA_WCH_INT_MASK, 0xc290), (33, DMA_RCH_INT_MASK, 0xc294), (33, WAVE517_INT_MASK, 0xc298), (33, WAVE627_INT_MASK, 0xc29c),
     (33, INT_MASK, 0xc2a0), (33, MONITOR_INT_NUM, 0xc2a4), (33, INT_NUM, 0xc2a8), (33, VEC_MSI_NUM 0, 0xc2ac), (33, VEC_MSI_NUM 1, 0xc2b0),
     (33, VEC_MSI_NUM 2, 0xc2b4), (33, VEC_MSI_NUM 3, 0xc2b8), (33, VEC_MSI_NUM 4, 0xc2bc), (33, VEC_MSI_NUM 5, 0xc2c0),
     (33, VEC_MSI_NUM 6, 0xc2c4), (33, VEC_MSI_NUM 7, 0xc2c8), (33, INT_STATUS, 0xc2cc)]"

definition pciess_vf34 :: "(nat \<times> vf_reg \<times> int) list" where
  "pciess_vf34 =
    [(34, MSIX_VEC 0 0, 0xc400), (34, MSIX_VEC 0 1, 0xc404), (34, MSIX_VEC 0 2, 0xc408), (34, MSIX_VEC 0 3, 0xc40c), (34, MSIX_VEC 1 0, 0xc410),
     (34, MSIX_VEC 1 1, 0xc414), (34, MSIX_VEC 1 2, 0xc418), (34, MSIX_VEC 1 3, 0xc41c), (34, MSIX_VEC 2 0, 0xc420), (34, MSIX_VEC 2 1, 0xc424),
     (34, MSIX_VEC 2 2, 0xc428), (34, MSIX_VEC 2 3, 0xc42c), (34, MSIX_VEC 3 0, 0xc430), (34, MSIX_VEC 3 1, 0xc434), (34, MSIX_VEC 3 2, 0xc438),
     (34, MSIX_VEC 3 3, 0xc43c), (34, MSIX_VEC 4 0, 0xc440), (34, MSIX_VEC 4 1, 0xc444), (34, MSIX_VEC 4 2, 0xc448), (34, MSIX_VEC 4 3, 0xc44c),
     (34, MSIX_VEC 5 0, 0xc450), (34, MSIX_VEC 5 1, 0xc454), (34, MSIX_VEC 5 2, 0xc458), (34, MSIX_VEC 5 3, 0xc45c), (34, MSIX_VEC 6 0, 0xc460),
     (34, MSIX_VEC 6 1, 0xc464), (34, MSIX_VEC 6 2, 0xc468), (34, MSIX_VEC 6 3, 0xc46c), (34, MSIX_VEC 7 0, 0xc470), (34, MSIX_VEC 7 1, 0xc474),
     (34, MSIX_VEC 7 2, 0xc478), (34, MSIX_VEC 7 3, 0xc47c), (34, VF_PBA 32, 0xc480), (34, VF_PBA 0, 0xc484), (34, SOFT_INT_STATUS, 0xc488),
     (34, GPU_INT_MASK, 0xc48c), (34, DMA_WCH_INT_MASK, 0xc490), (34, DMA_RCH_INT_MASK, 0xc494), (34, WAVE517_INT_MASK, 0xc498),
     (34, WAVE627_INT_MASK, 0xc49c), (34, INT_MASK, 0xc4a0), (34, MONITOR_INT_NUM, 0xc4a4), (34, INT_NUM, 0xc4a8), (34, VEC_MSI_NUM 0, 0xc4ac),
     (34, VEC_MSI_NUM 1, 0xc4b0), (34, VEC_MSI_NUM 2, 0xc4b4), (34, VEC_MSI_NUM 3, 0xc4b8), (34, VEC_MSI_NUM 4, 0xc4bc),
     (34, VEC_MSI_NUM 5, 0xc4c0), (34, VEC_MSI_NUM 6, 0xc4c4), (34, VEC_MSI_NUM 7, 0xc4c8), (34, INT_STATUS, 0xc4cc), (35, MSIX_VEC 0 0, 0xc600),
     (35, MSIX_VEC 0 1, 0xc604), (35, MSIX_VEC 0 2, 0xc608), (35, MSIX_VEC 0 3, 0xc60c), (35, MSIX_VEC 1 0, 0xc610), (35, MSIX_VEC 1 1, 0xc614),
     (35, MSIX_VEC 1 2, 0xc618), (35, MSIX_VEC 1 3, 0xc61c), (35, MSIX_VEC 2 0, 0xc620), (35, MSIX_VEC 2 1, 0xc624), (35, MSIX_VEC 2 2, 0xc628),
     (35, MSIX_VEC 2 3, 0xc62c), (35, MSIX_VEC 3 0, 0xc630), (35, MSIX_VEC 3 1, 0xc634), (35, MSIX_VEC 3 2, 0xc638), (35, MSIX_VEC 3 3, 0xc63c),
     (35, MSIX_VEC 4 0, 0xc640), (35, MSIX_VEC 4 1, 0xc644), (35, MSIX_VEC 4 2, 0xc648), (35, MSIX_VEC 4 3, 0xc64c), (35, MSIX_VEC 5 0, 0xc650),
     (35, MSIX_VEC 5 1, 0xc654), (35, MSIX_VEC 5 2, 0xc658), (35, MSIX_VEC 5 3, 0xc65c), (35, MSIX_VEC 6 0, 0xc660), (35, MSIX_VEC 6 1, 0xc664),
     (35, MSIX_VEC 6 2, 0xc668), (35, MSIX_VEC 6 3, 0xc66c), (35, MSIX_VEC 7 0, 0xc670), (35, MSIX_VEC 7 1, 0xc674), (35, MSIX_VEC 7 2, 0xc678),
     (35, MSIX_VEC 7 3, 0xc67c), (35, VF_PBA 32, 0xc680), (35, VF_PBA 0, 0xc684), (35, SOFT_INT_STATUS, 0xc688), (35, GPU_INT_MASK, 0xc68c),
     (35, DMA_WCH_INT_MASK, 0xc690), (35, DMA_RCH_INT_MASK, 0xc694), (35, WAVE517_INT_MASK, 0xc698), (35, WAVE627_INT_MASK, 0xc69c),
     (35, INT_MASK, 0xc6a0), (35, MONITOR_INT_NUM, 0xc6a4), (35, INT_NUM, 0xc6a8), (35, VEC_MSI_NUM 0, 0xc6ac), (35, VEC_MSI_NUM 1, 0xc6b0),
     (35, VEC_MSI_NUM 2, 0xc6b4), (35, VEC_MSI_NUM 3, 0xc6b8), (35, VEC_MSI_NUM 4, 0xc6bc), (35, VEC_MSI_NUM 5, 0xc6c0),
     (35, VEC_MSI_NUM 6, 0xc6c4), (35, VEC_MSI_NUM 7, 0xc6c8), (35, INT_STATUS, 0xc6cc)]"

definition pciess_vf36 :: "(nat \<times> vf_reg \<times> int) list" where
  "pciess_vf36 =
    [(36, MSIX_VEC 0 0, 0xc800), (36, MSIX_VEC 0 1, 0xc804), (36, MSIX_VEC 0 2, 0xc808), (36, MSIX_VEC 0 3, 0xc80c), (36, MSIX_VEC 1 0, 0xc810),
     (36, MSIX_VEC 1 1, 0xc814), (36, MSIX_VEC 1 2, 0xc818), (36, MSIX_VEC 1 3, 0xc81c), (36, MSIX_VEC 2 0, 0xc820), (36, MSIX_VEC 2 1, 0xc824),
     (36, MSIX_VEC 2 2, 0xc828), (36, MSIX_VEC 2 3, 0xc82c), (36, MSIX_VEC 3 0, 0xc830), (36, MSIX_VEC 3 1, 0xc834), (36, MSIX_VEC 3 2, 0xc838),
     (36, MSIX_VEC 3 3, 0xc83c), (36, MSIX_VEC 4 0, 0xc840), (36, MSIX_VEC 4 1, 0xc844), (36, MSIX_VEC 4 2, 0xc848), (36, MSIX_VEC 4 3, 0xc84c),
     (36, MSIX_VEC 5 0, 0xc850), (36, MSIX_VEC 5 1, 0xc854), (36, MSIX_VEC 5 2, 0xc858), (36, MSIX_VEC 5 3, 0xc85c), (36, MSIX_VEC 6 0, 0xc860),
     (36, MSIX_VEC 6 1, 0xc864), (36, MSIX_VEC 6 2, 0xc868), (36, MSIX_VEC 6 3, 0xc86c), (36, MSIX_VEC 7 0, 0xc870), (36, MSIX_VEC 7 1, 0xc874),
     (36, MSIX_VEC 7 2, 0xc878), (36, MSIX_VEC 7 3, 0xc87c), (36, VF_PBA 32, 0xc880), (36, VF_PBA 0, 0xc884), (36, SOFT_INT_STATUS, 0xc888),
     (36, GPU_INT_MASK, 0xc88c), (36, DMA_WCH_INT_MASK, 0xc890), (36, DMA_RCH_INT_MASK, 0xc894), (36, WAVE517_INT_MASK, 0xc898),
     (36, WAVE627_INT_MASK, 0xc89c), (36, INT_MASK, 0xc8a0), (36, MONITOR_INT_NUM, 0xc8a4), (36, INT_NUM, 0xc8a8), (36, VEC_MSI_NUM 0, 0xc8ac),
     (36, VEC_MSI_NUM 1, 0xc8b0), (36, VEC_MSI_NUM 2, 0xc8b4), (36, VEC_MSI_NUM 3, 0xc8b8), (36, VEC_MSI_NUM 4, 0xc8bc),
     (36, VEC_MSI_NUM 5, 0xc8c0), (36, VEC_MSI_NUM 6, 0xc8c4), (36, VEC_MSI_NUM 7, 0xc8c8), (36, INT_STATUS, 0xc8cc), (37, MSIX_VEC 0 0, 0xca00),
     (37, MSIX_VEC 0 1, 0xca04), (37, MSIX_VEC 0 2, 0xca08), (37, MSIX_VEC 0 3, 0xca0c), (37, MSIX_VEC 1 0, 0xca10), (37, MSIX_VEC 1 1, 0xca14),
     (37, MSIX_VEC 1 2, 0xca18), (37, MSIX_VEC 1 3, 0xca1c), (37, MSIX_VEC 2 0, 0xca20), (37, MSIX_VEC 2 1, 0xca24), (37, MSIX_VEC 2 2, 0xca28),
     (37, MSIX_VEC 2 3, 0xca2c), (37, MSIX_VEC 3 0, 0xca30), (37, MSIX_VEC 3 1, 0xca34), (37, MSIX_VEC 3 2, 0xca38), (37, MSIX_VEC 3 3, 0xca3c),
     (37, MSIX_VEC 4 0, 0xca40), (37, MSIX_VEC 4 1, 0xca44), (37, MSIX_VEC 4 2, 0xca48), (37, MSIX_VEC 4 3, 0xca4c), (37, MSIX_VEC 5 0, 0xca50),
     (37, MSIX_VEC 5 1, 0xca54), (37, MSIX_VEC 5 2, 0xca58), (37, MSIX_VEC 5 3, 0xca5c), (37, MSIX_VEC 6 0, 0xca60), (37, MSIX_VEC 6 1, 0xca64),
     (37, MSIX_VEC 6 2, 0xca68), (37, MSIX_VEC 6 3, 0xca6c), (37, MSIX_VEC 7 0, 0xca70), (37, MSIX_VEC 7 1, 0xca74), (37, MSIX_VEC 7 2, 0xca78),
     (37, MSIX_VEC 7 3, 0xca7c), (37, VF_PBA 32, 0xca80), (37, VF_PBA 0, 0xca84), (37, SOFT_INT_STATUS, 0xca88), (37, GPU_INT_MASK, 0xca8c),
     (37, DMA_WCH_INT_MASK, 0xca90), (37, DMA_RCH_INT_MASK, 0xca94), (37, WAVE517_INT_MASK, 0xca98), (37, WAVE627_INT_MASK, 0xca9c),
     (37, INT_MASK, 0xcaa0), (37, MONITOR_INT_NUM, 0xcaa4), (37, INT_NUM, 0xcaa8), (37, VEC_MSI_NUM 0, 0xcaac), (37, VEC_MSI_NUM 1, 0xcab0),
     (37, VEC_MSI_NUM 2, 0xcab4), (37, VEC_MSI_NUM 3, 0xcab8), (37, VEC_MSI_NUM 4, 0xcabc), (37, VEC_MSI_NUM 5, 0xcac0),
     (37, VEC_MSI_NUM 6, 0xcac4), (37, VEC_MSI_NUM 7, 0xcac8), (37, INT_STATUS, 0xcacc)]"

definition pciess_vf38 :: "(nat \<times> vf_reg \<times> int) list" where
  "pciess_vf38 =
    [(38, MSIX_VEC 0 0, 0xcc00), (38, MSIX_VEC 0 1, 0xcc04), (38, MSIX_VEC 0 2, 0xcc08), (38, MSIX_VEC 0 3, 0xcc0c), (38, MSIX_VEC 1 0, 0xcc10),
     (38, MSIX_VEC 1 1, 0xcc14), (38, MSIX_VEC 1 2, 0xcc18), (38, MSIX_VEC 1 3, 0xcc1c), (38, MSIX_VEC 2 0, 0xcc20), (38, MSIX_VEC 2 1, 0xcc24),
     (38, MSIX_VEC 2 2, 0xcc28), (38, MSIX_VEC 2 3, 0xcc2c), (38, MSIX_VEC 3 0, 0xcc30), (38, MSIX_VEC 3 1, 0xcc34), (38, MSIX_VEC 3 2, 0xcc38),
     (38, MSIX_VEC 3 3, 0xcc3c), (38, MSIX_VEC 4 0, 0xcc40), (38, MSIX_VEC 4 1, 0xcc44), (38, MSIX_VEC 4 2, 0xcc48), (38, MSIX_VEC 4 3, 0xcc4c),
     (38, MSIX_VEC 5 0, 0xcc50), (38, MSIX_VEC 5 1, 0xcc54), (38, MSIX_VEC 5 2, 0xcc58), (38, MSIX_VEC 5 3, 0xcc5c), (38, MSIX_VEC 6 0, 0xcc60),
     (38, MSIX_VEC 6 1, 0xcc64), (38, MSIX_VEC 6 2, 0xcc68), (38, MSIX_VEC 6 3, 0xcc6c), (38, MSIX_VEC 7 0, 0xcc70), (38, MSIX_VEC 7 1, 0xcc74),
     (38, MSIX_VEC 7 2, 0xcc78), (38, MSIX_VEC 7 3, 0xcc7c), (38, VF_PBA 32, 0xcc80), (38, VF_PBA 0, 0xcc84), (38, SOFT_INT_STATUS, 0xcc88),
     (38, GPU_INT_MASK, 0xcc8c), (38, DMA_WCH_INT_MASK, 0xcc90), (38, DMA_RCH_INT_MASK, 0xcc94), (38, WAVE517_INT_MASK, 0xcc98),
     (38, WAVE627_INT_MASK, 0xcc9c), (38, INT_MASK, 0xcca0), (38, MONITOR_INT_NUM, 0xcca4), (38, INT_NUM, 0xcca8), (38, VEC_MSI_NUM 0, 0xccac),
     (38, VEC_MSI_NUM 1, 0xccb0), (38, VEC_MSI_NUM 2, 0xccb4), (38, VEC_MSI_NUM 3, 0xccb8), (38, VEC_MSI_NUM 4, 0xccbc),
     (38, VEC_MSI_NUM 5, 0xccc0), (38, VEC_MSI_NUM 6, 0xccc4), (38, VEC_MSI_NUM 7, 0xccc8), (38, INT_STATUS, 0xcccc), (39, MSIX_VEC 0 0, 0xce00),
     (39, MSIX_VEC 0 1, 0xce04), (39, MSIX_VEC 0 2, 0xce08), (39, MSIX_VEC 0 3, 0xce0c), (39, MSIX_VEC 1 0, 0xce10), (39, MSIX_VEC 1 1, 0xce14),
     (39, MSIX_VEC 1 2, 0xce18), (39, MSIX_VEC 1 3, 0xce1c), (39, MSIX_VEC 2 0, 0xce20), (39, MSIX_VEC 2 1, 0xce24), (39, MSIX_VEC 2 2, 0xce28),
     (39, MSIX_VEC 2 3, 0xce2c), (39, MSIX_VEC 3 0, 0xce30), (39, MSIX_VEC 3 1, 0xce34), (39, MSIX_VEC 3 2, 0xce38), (39, MSIX_VEC 3 3, 0xce3c),
     (39, MSIX_VEC 4 0, 0xce40), (39, MSIX_VEC 4 1, 0xce44), (39, MSIX_VEC 4 2, 0xce48), (39, MSIX_VEC 4 3, 0xce4c), (39, MSIX_VEC 5 0, 0xce50),
     (39, MSIX_VEC 5 1, 0xce54), (39, MSIX_VEC 5 2, 0xce58), (39, MSIX_VEC 5 3, 0xce5c), (39, MSIX_VEC 6 0, 0xce60), (39, MSIX_VEC 6 1, 0xce64),
     (39, MSIX_VEC 6 2, 0xce68), (39, MSIX_VEC 6 3, 0xce6c), (39, MSIX_VEC 7 0, 0xce70), (39, MSIX_VEC 7 1, 0xce74), (39, MSIX_VEC 7 2, 0xce78),
     (39, MSIX_VEC 7 3, 0xce7c), (39, VF_PBA 32, 0xce80), (39, VF_PBA 0, 0xce84), (39, SOFT_INT_STATUS, 0xce88), (39, GPU_INT_MASK, 0xce8c),
     (39, DMA_WCH_INT_MASK, 0xce90), (39, DMA_RCH_INT_MASK, 0xce94), (39, WAVE517_INT_MASK, 0xce98), (39, WAVE627_INT_MASK, 0xce9c),
     (39, INT_MASK, 0xcea0), (39, MONITOR_INT_NUM, 0xcea4), (39, INT_NUM, 0xcea8), (39, VEC_MSI_NUM 0, 0xceac), (39, VEC_MSI_NUM 1, 0xceb0),
     (39, VEC_MSI_NUM 2, 0xceb4), (39, VEC_MSI_NUM 3, 0xceb8), (39, VEC_MSI_NUM 4, 0xcebc), (39, VEC_MSI_NUM 5, 0xcec0),
     (39, VEC_MSI_NUM 6, 0xcec4), (39, VEC_MSI_NUM 7, 0xcec8), (39, INT_STATUS, 0xcecc)]"

definition pciess_vf40 :: "(nat \<times> vf_reg \<times> int) list" where
  "pciess_vf40 =
    [(40, MSIX_VEC 0 0, 0xd000), (40, MSIX_VEC 0 1, 0xd004), (40, MSIX_VEC 0 2, 0xd008), (40, MSIX_VEC 0 3, 0xd00c), (40, MSIX_VEC 1 0, 0xd010),
     (40, MSIX_VEC 1 1, 0xd014), (40, MSIX_VEC 1 2, 0xd018), (40, MSIX_VEC 1 3, 0xd01c), (40, MSIX_VEC 2 0, 0xd020), (40, MSIX_VEC 2 1, 0xd024),
     (40, MSIX_VEC 2 2, 0xd028), (40, MSIX_VEC 2 3, 0xd02c), (40, MSIX_VEC 3 0, 0xd030), (40, MSIX_VEC 3 1, 0xd034), (40, MSIX_VEC 3 2, 0xd038),
     (40, MSIX_VEC 3 3, 0xd03c), (40, MSIX_VEC 4 0, 0xd040), (40, MSIX_VEC 4 1, 0xd044), (40, MSIX_VEC 4 2, 0xd048), (40, MSIX_VEC 4 3, 0xd04c),
     (40, MSIX_VEC 5 0, 0xd050), (40, MSIX_VEC 5 1, 0xd054), (40, MSIX_VEC 5 2, 0xd058), (40, MSIX_VEC 5 3, 0xd05c), (40, MSIX_VEC 6 0, 0xd060),
     (40, MSIX_VEC 6 1, 0xd064), (40, MSIX_VEC 6 2, 0xd068), (40, MSIX_VEC 6 3, 0xd06c), (40, MSIX_VEC 7 0, 0xd070), (40, MSIX_VEC 7 1, 0xd074),
     (40, MSIX_VEC 7 2, 0xd078), (40, MSIX_VEC 7 3, 0xd07c), (40, VF_PBA 32, 0xd080), (40, VF_PBA 0, 0xd084), (40, SOFT_INT_STATUS, 0xd088),
     (40, GPU_INT_MASK, 0xd08c), (40, DMA_WCH_INT_MASK, 0xd090), (40, DMA_RCH_INT_MASK, 0xd094), (40, WAVE517_INT_MASK, 0xd098),
     (40, WAVE627_INT_MASK, 0xd09c), (40, INT_MASK, 0xd0a0), (40, MONITOR_INT_NUM, 0xd0a4), (40, INT_NUM, 0xd0a8), (40, VEC_MSI_NUM 0, 0xd0ac),
     (40, VEC_MSI_NUM 1, 0xd0b0), (40, VEC_MSI_NUM 2, 0xd0b4), (40, VEC_MSI_NUM 3, 0xd0b8), (40, VEC_MSI_NUM 4, 0xd0bc),
     (40, VEC_MSI_NUM 5, 0xd0c0), (40, VEC_MSI_NUM 6, 0xd0c4), (40, VEC_MSI_NUM 7, 0xd0c8), (40, INT_STATUS, 0xd0cc), (41, MSIX_VEC 0 0, 0xd200),
     (41, MSIX_VEC 0 1, 0xd204), (41, MSIX_VEC 0 2, 0xd208), (41, MSIX_VEC 0 3, 0xd20c), (41, MSIX_VEC 1 0, 0xd210), (41, MSIX_VEC 1 1, 0xd214),
     (41, MSIX_VEC 1 2, 0xd218), (41, MSIX_VEC 1 3, 0xd21c), (41, MSIX_VEC 2 0, 0xd220), (41, MSIX_VEC 2 1, 0xd224), (41, MSIX_VEC 2 2, 0xd228),
     (41, MSIX_VEC 2 3, 0xd22c), (41, MSIX_VEC 3 0, 0xd230), (41, MSIX_VEC 3 1, 0xd234), (41, MSIX_VEC 3 2, 0xd238), (41, MSIX_VEC 3 3, 0xd23c),
     (41, MSIX_VEC 4 0, 0xd240), (41, MSIX_VEC 4 1, 0xd244), (41, MSIX_VEC 4 2, 0xd248), (41, MSIX_VEC 4 3, 0xd24c), (41, MSIX_VEC 5 0, 0xd250),
     (41, MSIX_VEC 5 1, 0xd254), (41, MSIX_VEC 5 2, 0xd258), (41, MSIX_VEC 5 3, 0xd25c), (41, MSIX_VEC 6 0, 0xd260), (41, MSIX_VEC 6 1, 0xd264),
     (41, MSIX_VEC 6 2, 0xd268), (41, MSIX_VEC 6 3, 0xd26c), (41, MSIX_VEC 7 0, 0xd270), (41, MSIX_VEC 7 1, 0xd274), (41, MSIX_VEC 7 2, 0xd278),
     (41, MSIX_VEC 7 3, 0xd27c), (41, VF_PBA 32, 0xd280), (41, VF_PBA 0, 0xd284), (41, SOFT_INT_STATUS, 0xd288), (41, GPU_INT_MASK, 0xd28c),
     (41, DMA_WCH_INT_MASK, 0xd290), (41, DMA_RCH_INT_MASK, 0xd294), (41, WAVE517_INT_MASK, 0xd298), (41, WAVE627_INT_MASK, 0xd29c),
     (41, INT_MASK, 0xd2a0), (41, MONITOR_INT_NUM, 0xd2a4), (41, INT_NUM, 0xd2a8), (41, VEC_MSI_NUM 0, 0xd2ac), (41, VEC_MSI_NUM 1, 0xd2b0),
     (41, VEC_MSI_NUM 2, 0xd2b4), (41, VEC_MSI_NUM 3, 0xd2b8), (41, VEC_MSI_NUM 4, 0xd2bc), (41, VEC_MSI_NUM 5, 0xd2c0),
     (41, VEC_MSI_NUM 6, 0xd2c4), (41, VEC_MSI_NUM 7, 0xd2c8), (41, INT_STATUS, 0xd2cc)]"

definition pciess_vf42 :: "(nat \<times> vf_reg \<times> int) list" where
  "pciess_vf42 =
    [(42, MSIX_VEC 0 0, 0xd400), (42, MSIX_VEC 0 1, 0xd404), (42, MSIX_VEC 0 2, 0xd408), (42, MSIX_VEC 0 3, 0xd40c), (42, MSIX_VEC 1 0, 0xd410),
     (42, MSIX_VEC 1 1, 0xd414), (42, MSIX_VEC 1 2, 0xd418), (42, MSIX_VEC 1 3, 0xd41c), (42, MSIX_VEC 2 0, 0xd420), (42, MSIX_VEC 2 1, 0xd424),
     (42, MSIX_VEC 2 2, 0xd428), (42, MSIX_VEC 2 3, 0xd42c), (42, MSIX_VEC 3 0, 0xd430), (42, MSIX_VEC 3 1, 0xd434), (42, MSIX_VEC 3 2, 0xd438),
     (42, MSIX_VEC 3 3, 0xd43c), (42, MSIX_VEC 4 0, 0xd440), (42, MSIX_VEC 4 1, 0xd444), (42, MSIX_VEC 4 2, 0xd448), (42, MSIX_VEC 4 3, 0xd44c),
     (42, MSIX_VEC 5 0, 0xd450), (42, MSIX_VEC 5 1, 0xd454), (42, MSIX_VEC 5 2, 0xd458), (42, MSIX_VEC 5 3, 0xd45c), (42, MSIX_VEC 6 0, 0xd460),
     (42, MSIX_VEC 6 1, 0xd464), (42, MSIX_VEC 6 2, 0xd468), (42, MSIX_VEC 6 3, 0xd46c), (42, MSIX_VEC 7 0, 0xd470), (42, MSIX_VEC 7 1, 0xd474),
     (42, MSIX_VEC 7 2, 0xd478), (42, MSIX_VEC 7 3, 0xd47c), (42, VF_PBA 32, 0xd480), (42, VF_PBA 0, 0xd484), (42, SOFT_INT_STATUS, 0xd488),
     (42, GPU_INT_MASK, 0xd48c), (42, DMA_WCH_INT_MASK, 0xd490), (42, DMA_RCH_INT_MASK, 0xd494), (42, WAVE517_INT_MASK, 0xd498),
     (42, WAVE627_INT_MASK, 0xd49c), (42, INT_MASK, 0xd4a0), (42, MONITOR_INT_NUM, 0xd4a4), (42, INT_NUM, 0xd4a8), (42, VEC_MSI_NUM 0, 0xd4ac),
     (42, VEC_MSI_NUM 1, 0xd4b0), (42, VEC_MSI_NUM 2, 0xd4b4), (42, VEC_MSI_NUM 3, 0xd4b8), (42, VEC_MSI_NUM 4, 0xd4bc),
     (42, VEC_MSI_NUM 5, 0xd4c0), (42, VEC_MSI_NUM 6, 0xd4c4), (42, VEC_MSI_NUM 7, 0xd4c8), (42, INT_STATUS, 0xd4cc), (43, MSIX_VEC 0 0, 0xd600),
     (43, MSIX_VEC 0 1, 0xd604), (43, MSIX_VEC 0 2, 0xd608), (43, MSIX_VEC 0 3, 0xd60c), (43, MSIX_VEC 1 0, 0xd610), (43, MSIX_VEC 1 1, 0xd614),
     (43, MSIX_VEC 1 2, 0xd618), (43, MSIX_VEC 1 3, 0xd61c), (43, MSIX_VEC 2 0, 0xd620), (43, MSIX_VEC 2 1, 0xd624), (43, MSIX_VEC 2 2, 0xd628),
     (43, MSIX_VEC 2 3, 0xd62c), (43, MSIX_VEC 3 0, 0xd630), (43, MSIX_VEC 3 1, 0xd634), (43, MSIX_VEC 3 2, 0xd638), (43, MSIX_VEC 3 3, 0xd63c),
     (43, MSIX_VEC 4 0, 0xd640), (43, MSIX_VEC 4 1, 0xd644), (43, MSIX_VEC 4 2, 0xd648), (43, MSIX_VEC 4 3, 0xd64c), (43, MSIX_VEC 5 0, 0xd650),
     (43, MSIX_VEC 5 1, 0xd654), (43, MSIX_VEC 5 2, 0xd658), (43, MSIX_VEC 5 3, 0xd65c), (43, MSIX_VEC 6 0, 0xd660), (43, MSIX_VEC 6 1, 0xd664),
     (43, MSIX_VEC 6 2, 0xd668), (43, MSIX_VEC 6 3, 0xd66c), (43, MSIX_VEC 7 0, 0xd670), (43, MSIX_VEC 7 1, 0xd674), (43, MSIX_VEC 7 2, 0xd678),
     (43, MSIX_VEC 7 3, 0xd67c), (43, VF_PBA 32, 0xd680), (43, VF_PBA 0, 0xd684), (43, SOFT_INT_STATUS, 0xd688), (43, GPU_INT_MASK, 0xd68c),
     (43, DMA_WCH_INT_MASK, 0xd690), (43, DMA_RCH_INT_MASK, 0xd694), (43, WAVE517_INT_MASK, 0xd698), (43, WAVE627_INT_MASK, 0xd69c),
     (43, INT_MASK, 0xd6a0), (43, MONITOR_INT_NUM, 0xd6a4), (43, INT_NUM, 0xd6a8), (43, VEC_MSI_NUM 0, 0xd6ac), (43, VEC_MSI_NUM 1, 0xd6b0),
     (43, VEC_MSI_NUM 2, 0xd6b4), (43, VEC_MSI_NUM 3, 0xd6b8), (43, VEC_MSI_NUM 4, 0xd6bc), (43, VEC_MSI_NUM 5, 0xd6c0),
     (43, VEC_MSI_NUM 6, 0xd6c4), (43, VEC_MSI_NUM 7, 0xd6c8), (43, INT_STATUS, 0xd6cc)]"

definition pciess_vf44 :: "(nat \<times> vf_reg \<times> int) list" where
  "pciess_vf44 =
    [(44, MSIX_VEC 0 0, 0xd800), (44, MSIX_VEC 0 1, 0xd804), (44, MSIX_VEC 0 2, 0xd808), (44, MSIX_VEC 0 3, 0xd80c), (44, MSIX_VEC 1 0, 0xd810),
     (44, MSIX_VEC 1 1, 0xd814), (44, MSIX_VEC 1 2, 0xd818), (44, MSIX_VEC 1 3, 0xd81c), (44, MSIX_VEC 2 0, 0xd820), (44, MSIX_VEC 2 1, 0xd824),
     (44, MSIX_VEC 2 2, 0xd828), (44, MSIX_VEC 2 3, 0xd82c), (44, MSIX_VEC 3 0, 0xd830), (44, MSIX_VEC 3 1, 0xd834), (44, MSIX_VEC 3 2, 0xd838),
     (44, MSIX_VEC 3 3, 0xd83c), (44, MSIX_VEC 4 0, 0xd840), (44, MSIX_VEC 4 1, 0xd844), (44, MSIX_VEC 4 2, 0xd848), (44, MSIX_VEC 4 3, 0xd84c),
     (44, MSIX_VEC 5 0, 0xd850), (44, MSIX_VEC 5 1, 0xd854), (44, MSIX_VEC 5 2, 0xd858), (44, MSIX_VEC 5 3, 0xd85c), (44, MSIX_VEC 6 0, 0xd860),
     (44, MSIX_VEC 6 1, 0xd864), (44, MSIX_VEC 6 2, 0xd868), (44, MSIX_VEC 6 3, 0xd86c), (44, MSIX_VEC 7 0, 0xd870), (44, MSIX_VEC 7 1, 0xd874),
     (44, MSIX_VEC 7 2, 0xd878), (44, MSIX_VEC 7 3, 0xd87c), (44, VF_PBA 32, 0xd880), (44, VF_PBA 0, 0xd884), (44, SOFT_INT_STATUS, 0xd888),
     (44, GPU_INT_MASK, 0xd88c), (44, DMA_WCH_INT_MASK, 0xd890), (44, DMA_RCH_INT_MASK, 0xd894), (44, WAVE517_INT_MASK, 0xd898),
     (44, WAVE627_INT_MASK, 0xd89c), (44, INT_MASK, 0xd8a0), (44, MONITOR_INT_NUM, 0xd8a4), (44, INT_NUM, 0xd8a8), (44, VEC_MSI_NUM 0, 0xd8ac),
     (44, VEC_MSI_NUM 1, 0xd8b0), (44, VEC_MSI_NUM 2, 0xd8b4), (44, VEC_MSI_NUM 3, 0xd8b8), (44, VEC_MSI_NUM 4, 0xd8bc),
     (44, VEC_MSI_NUM 5, 0xd8c0), (44, VEC_MSI_NUM 6, 0xd8c4), (44, VEC_MSI_NUM 7, 0xd8c8), (44, INT_STATUS, 0xd8cc), (45, MSIX_VEC 0 0, 0xda00),
     (45, MSIX_VEC 0 1, 0xda04), (45, MSIX_VEC 0 2, 0xda08), (45, MSIX_VEC 0 3, 0xda0c), (45, MSIX_VEC 1 0, 0xda10), (45, MSIX_VEC 1 1, 0xda14),
     (45, MSIX_VEC 1 2, 0xda18), (45, MSIX_VEC 1 3, 0xda1c), (45, MSIX_VEC 2 0, 0xda20), (45, MSIX_VEC 2 1, 0xda24), (45, MSIX_VEC 2 2, 0xda28),
     (45, MSIX_VEC 2 3, 0xda2c), (45, MSIX_VEC 3 0, 0xda30), (45, MSIX_VEC 3 1, 0xda34), (45, MSIX_VEC 3 2, 0xda38), (45, MSIX_VEC 3 3, 0xda3c),
     (45, MSIX_VEC 4 0, 0xda40), (45, MSIX_VEC 4 1, 0xda44), (45, MSIX_VEC 4 2, 0xda48), (45, MSIX_VEC 4 3, 0xda4c), (45, MSIX_VEC 5 0, 0xda50),
     (45, MSIX_VEC 5 1, 0xda54), (45, MSIX_VEC 5 2, 0xda58), (45, MSIX_VEC 5 3, 0xda5c), (45, MSIX_VEC 6 0, 0xda60), (45, MSIX_VEC 6 1, 0xda64),
     (45, MSIX_VEC 6 2, 0xda68), (45, MSIX_VEC 6 3, 0xda6c), (45, MSIX_VEC 7 0, 0xda70), (45, MSIX_VEC 7 1, 0xda74), (45, MSIX_VEC 7 2, 0xda78),
     (45, MSIX_VEC 7 3, 0xda7c), (45, VF_PBA 32, 0xda80), (45, VF_PBA 0, 0xda84), (45, SOFT_INT_STATUS, 0xda88), (45, GPU_INT_MASK, 0xda8c),
     (45, DMA_WCH_INT_MASK, 0xda90), (45, DMA_RCH_INT_MASK, 0xda94), (45, WAVE517_INT_MASK, 0xda98), (45, WAVE627_INT_MASK, 0xda9c),
     (45, INT_MASK, 0xdaa0), (45, MONITOR_INT_NUM, 0xdaa4), (45, INT_NUM, 0xdaa8), (45, VEC_MSI_NUM 0, 0xdaac), (45, VEC_MSI_NUM 1, 0xdab0),
     (45, VEC_MSI_NUM 2, 0xdab4), (45, VEC_MSI_NUM 3, 0xdab8), (45, VEC_MSI_NUM 4, 0xdabc), (45, VEC_MSI_NUM 5, 0xdac0),
     (45, VEC_MSI_NUM 6, 0xdac4), (45, VEC_MSI_NUM 7, 0xdac8), (45, INT_STATUS, 0xdacc)]"

definition pciess_vf46 :: "(nat \<times> vf_reg \<times> int) list" where
  "pciess_vf46 =
    [(46, MSIX_VEC 0 0, 0xdc00), (46, MSIX_VEC 0 1, 0xdc04), (46, MSIX_VEC 0 2, 0xdc08), (46, MSIX_VEC 0 3, 0xdc0c), (46, MSIX_VEC 1 0, 0xdc10),
     (46, MSIX_VEC 1 1, 0xdc14), (46, MSIX_VEC 1 2, 0xdc18), (46, MSIX_VEC 1 3, 0xdc1c), (46, MSIX_VEC 2 0, 0xdc20), (46, MSIX_VEC 2 1, 0xdc24),
     (46, MSIX_VEC 2 2, 0xdc28), (46, MSIX_VEC 2 3, 0xdc2c), (46, MSIX_VEC 3 0, 0xdc30), (46, MSIX_VEC 3 1, 0xdc34), (46, MSIX_VEC 3 2, 0xdc38),
     (46, MSIX_VEC 3 3, 0xdc3c), (46, MSIX_VEC 4 0, 0xdc40), (46, MSIX_VEC 4 1, 0xdc44), (46, MSIX_VEC 4 2, 0xdc48), (46, MSIX_VEC 4 3, 0xdc4c),
     (46, MSIX_VEC 5 0, 0xdc50), (46, MSIX_VEC 5 1, 0xdc54), (46, MSIX_VEC 5 2, 0xdc58), (46, MSIX_VEC 5 3, 0xdc5c), (46, MSIX_VEC 6 0, 0xdc60),
     (46, MSIX_VEC 6 1, 0xdc64), (46, MSIX_VEC 6 2, 0xdc68), (46, MSIX_VEC 6 3, 0xdc6c), (46, MSIX_VEC 7 0, 0xdc70), (46, MSIX_VEC 7 1, 0xdc74),
     (46, MSIX_VEC 7 2, 0xdc78), (46, MSIX_VEC 7 3, 0xdc7c), (46, VF_PBA 32, 0xdc80), (46, VF_PBA 0, 0xdc84), (46, SOFT_INT_STATUS, 0xdc88),
     (46, GPU_INT_MASK, 0xdc8c), (46, DMA_WCH_INT_MASK, 0xdc90), (46, DMA_RCH_INT_MASK, 0xdc94), (46, WAVE517_INT_MASK, 0xdc98),
     (46, WAVE627_INT_MASK, 0xdc9c), (46, INT_MASK, 0xdca0), (46, MONITOR_INT_NUM, 0xdca4), (46, INT_NUM, 0xdca8), (46, VEC_MSI_NUM 0, 0xdcac),
     (46, VEC_MSI_NUM 1, 0xdcb0), (46, VEC_MSI_NUM 2, 0xdcb4), (46, VEC_MSI_NUM 3, 0xdcb8), (46, VEC_MSI_NUM 4, 0xdcbc),
     (46, VEC_MSI_NUM 5, 0xdcc0), (46, VEC_MSI_NUM 6, 0xdcc4), (46, VEC_MSI_NUM 7, 0xdcc8), (46, INT_STATUS, 0xdccc), (47, MSIX_VEC 0 0, 0xde00),
     (47, MSIX_VEC 0 1, 0xde04), (47, MSIX_VEC 0 2, 0xde08), (47, MSIX_VEC 0 3, 0xde0c), (47, MSIX_VEC 1 0, 0xde10), (47, MSIX_VEC 1 1, 0xde14),
     (47, MSIX_VEC 1 2, 0xde18), (47, MSIX_VEC 1 3, 0xde1c), (47, MSIX_VEC 2 0, 0xde20), (47, MSIX_VEC 2 1, 0xde24), (47, MSIX_VEC 2 2, 0xde28),
     (47, MSIX_VEC 2 3, 0xde2c), (47, MSIX_VEC 3 0, 0xde30), (47, MSIX_VEC 3 1, 0xde34), (47, MSIX_VEC 3 2, 0xde38), (47, MSIX_VEC 3 3, 0xde3c),
     (47, MSIX_VEC 4 0, 0xde40), (47, MSIX_VEC 4 1, 0xde44), (47, MSIX_VEC 4 2, 0xde48), (47, MSIX_VEC 4 3, 0xde4c), (47, MSIX_VEC 5 0, 0xde50),
     (47, MSIX_VEC 5 1, 0xde54), (47, MSIX_VEC 5 2, 0xde58), (47, MSIX_VEC 5 3, 0xde5c), (47, MSIX_VEC 6 0, 0xde60), (47, MSIX_VEC 6 1, 0xde64),
     (47, MSIX_VEC 6 2, 0xde68), (47, MSIX_VEC 6 3, 0xde6c), (47, MSIX_VEC 7 0, 0xde70), (47, MSIX_VEC 7 1, 0xde74), (47, MSIX_VEC 7 2, 0xde78),
     (47, MSIX_VEC 7 3, 0xde7c), (47, VF_PBA 32, 0xde80), (47, VF_PBA 0, 0xde84), (47, SOFT_INT_STATUS, 0xde88), (47, GPU_INT_MASK, 0xde8c),
     (47, DMA_WCH_INT_MASK, 0xde90), (47, DMA_RCH_INT_MASK, 0xde94), (47, WAVE517_INT_MASK, 0xde98), (47, WAVE627_INT_MASK, 0xde9c),
     (47, INT_MASK, 0xdea0), (47, MONITOR_INT_NUM, 0xdea4), (47, INT_NUM, 0xdea8), (47, VEC_MSI_NUM 0, 0xdeac), (47, VEC_MSI_NUM 1, 0xdeb0),
     (47, VEC_MSI_NUM 2, 0xdeb4), (47, VEC_MSI_NUM 3, 0xdeb8), (47, VEC_MSI_NUM 4, 0xdebc), (47, VEC_MSI_NUM 5, 0xdec0),
     (47, VEC_MSI_NUM 6, 0xdec4), (47, VEC_MSI_NUM 7, 0xdec8), (47, INT_STATUS, 0xdecc)]"

definition pciess_vf :: "(nat \<times> vf_reg \<times> int) list" where
  "pciess_vf =
    pciess_vf0 @ pciess_vf2 @ pciess_vf4 @ pciess_vf6 @ pciess_vf8 @ pciess_vf10 @ pciess_vf12 @ pciess_vf14 @ pciess_vf16 @ pciess_vf18 @ pciess_vf20 @
    pciess_vf22 @ pciess_vf24 @ pciess_vf26 @ pciess_vf28 @ pciess_vf30 @ pciess_vf32 @ pciess_vf34 @ pciess_vf36 @ pciess_vf38 @ pciess_vf40 @
    pciess_vf42 @ pciess_vf44 @ pciess_vf46"

text \<open>The interrupt that a virtual function \<open>i\<close> raises for the graphics core, and a register of the block of virtual function 0 as the function sees it in its
  own BAR.\<close>

definition VF_GPU_INT_SET_H :: "int \<Rightarrow> int" where "VF_GPU_INT_SET_H i = 0x1098 + i * 8"
definition VF_GPU_INT_SET_L :: "int \<Rightarrow> int" where "VF_GPU_INT_SET_L i = 0x109c + i * 8"

definition PF_VF_REG_PCIE_STEP :: int where "PF_VF_REG_PCIE_STEP = 0x200"

definition VF_REG_BASE_GPU :: int where "VF_REG_BASE_GPU = 0x0"
definition VF_REG_BASE_MTDMA :: int where "VF_REG_BASE_MTDMA = VF_REG_BASE_GPU + 0x10000 + 4 * 1024 * 2"
definition VF_REG_BASE_MTDMA_RCH :: int where "VF_REG_BASE_MTDMA_RCH = VF_REG_BASE_MTDMA"
definition VF_REG_BASE_MTDMA_WCH :: int where "VF_REG_BASE_MTDMA_WCH = VF_REG_BASE_MTDMA + 0x800"
definition VF_REG_BASE_W517 :: int where "VF_REG_BASE_W517 = VF_REG_BASE_MTDMA + 4 * 1024"
definition VF_REG_BASE_W627 :: int where "VF_REG_BASE_W627 = VF_REG_BASE_W517 + 4 * 1024"
definition VF_REG_BASE_PCIE :: int where "VF_REG_BASE_PCIE = VF_REG_BASE_W627 + 4 * 1024"
definition VF_REG_PCIE :: "int \<Rightarrow> int" where "VF_REG_PCIE x = x - 0x8088 + VF_REG_BASE_PCIE"

definition PCIE_SS_CFG_GPUADDR_BASE :: int where "PCIE_SS_CFG_GPUADDR_BASE = 0x7e0000"
definition REG_PCIESS_GPUADDR :: "int \<Rightarrow> int" where "REG_PCIESS_GPUADDR i = PCIE_SS_CFG_GPUADDR_BASE + i * 4"
definition PCIE_SS_CFG_VF_DMA_BASE :: int where "PCIE_SS_CFG_VF_DMA_BASE = PCIE_SS_CFG_GPUADDR_BASE + 0x100"
definition PCIE_SS_CFG_VF_517_BASE :: int where "PCIE_SS_CFG_VF_517_BASE = PCIE_SS_CFG_GPUADDR_BASE + 0x200"
definition PCIE_SS_CFG_VF_627_BASE :: int where "PCIE_SS_CFG_VF_627_BASE = PCIE_SS_CFG_GPUADDR_BASE + 0x300"

section \<open>The layout\<close>

text \<open>The place of a register in the block of its function, and the registers that the header declares for a function.\<close>

fun vf_offset :: "vf_reg \<Rightarrow> int" where
  "vf_offset (MSIX_VEC v d) = 16 * int v + 4 * int d"
| "vf_offset (VF_PBA b) = (if b = 0 then 0x84 else 0x80)"
| "vf_offset SOFT_INT_STATUS = 0x88"
| "vf_offset GPU_INT_MASK = 0x8c"
| "vf_offset DMA_WCH_INT_MASK = 0x90"
| "vf_offset DMA_RCH_INT_MASK = 0x94"
| "vf_offset WAVE517_INT_MASK = 0x98"
| "vf_offset WAVE627_INT_MASK = 0x9c"
| "vf_offset INT_MASK = 0xa0"
| "vf_offset MONITOR_INT_NUM = 0xa4"
| "vf_offset INT_NUM = 0xa8"
| "vf_offset (VEC_MSI_NUM v) = 0xac + 4 * int v"
| "vf_offset INT_STATUS = 0xcc"
| "vf_offset HW_INT_TEST = 0xd0"
| "vf_offset SOFT_INT_SET = 0xd4"
| "vf_offset SOFT_INT_CLR = 0xd8"

definition vf_regs :: "nat \<Rightarrow> vf_reg list" where
  "vf_regs n = [MSIX_VEC v d. v \<leftarrow> [0..<8], d \<leftarrow> [0..<4]] @
    [VF_PBA 32, VF_PBA 0, SOFT_INT_STATUS, GPU_INT_MASK, DMA_WCH_INT_MASK, DMA_RCH_INT_MASK, WAVE517_INT_MASK, WAVE627_INT_MASK, INT_MASK, MONITOR_INT_NUM, INT_NUM] @
    map VEC_MSI_NUM [0..<8] @ INT_STATUS # (if n = 0 then [HW_INT_TEST, SOFT_INT_SET, SOFT_INT_CLR] else [])"

definition vf_addr :: "nat \<Rightarrow> vf_reg \<Rightarrow> int" where
  "vf_addr n r = 0x8000 + PF_VF_REG_PCIE_STEP * int n + vf_offset r"

definition vf_block :: "nat \<Rightarrow> (nat \<times> vf_reg \<times> int) list" where
  "vf_block n = map (\<lambda>r. (n, r, vf_addr n r)) (vf_regs n)"

text \<open>Every table is that of the two functions it is for.\<close>

lemma vf_tables:
  "pciess_vf0 = vf_block 0 @ vf_block 1"
  "pciess_vf2 = vf_block 2 @ vf_block 3"
  "pciess_vf4 = vf_block 4 @ vf_block 5"
  "pciess_vf6 = vf_block 6 @ vf_block 7"
  "pciess_vf8 = vf_block 8 @ vf_block 9"
  "pciess_vf10 = vf_block 10 @ vf_block 11"
  "pciess_vf12 = vf_block 12 @ vf_block 13"
  "pciess_vf14 = vf_block 14 @ vf_block 15"
  "pciess_vf16 = vf_block 16 @ vf_block 17"
  "pciess_vf18 = vf_block 18 @ vf_block 19"
  "pciess_vf20 = vf_block 20 @ vf_block 21"
  "pciess_vf22 = vf_block 22 @ vf_block 23"
  "pciess_vf24 = vf_block 24 @ vf_block 25"
  "pciess_vf26 = vf_block 26 @ vf_block 27"
  "pciess_vf28 = vf_block 28 @ vf_block 29"
  "pciess_vf30 = vf_block 30 @ vf_block 31"
  "pciess_vf32 = vf_block 32 @ vf_block 33"
  "pciess_vf34 = vf_block 34 @ vf_block 35"
  "pciess_vf36 = vf_block 36 @ vf_block 37"
  "pciess_vf38 = vf_block 38 @ vf_block 39"
  "pciess_vf40 = vf_block 40 @ vf_block 41"
  "pciess_vf42 = vf_block 42 @ vf_block 43"
  "pciess_vf44 = vf_block 44 @ vf_block 45"
  "pciess_vf46 = vf_block 46 @ vf_block 47"
  by code_simp+

lemma pciess_vf_blocks: "pciess_vf = concat (map vf_block [0..<48])"
proof -
  have u: "[0..<48] = [0, 1, 2, 3, 4, 5, 6, 7, 8, 9, 10, 11, 12, 13, 14, 15, 16, 17, 18, 19, 20, 21, 22, 23, 24, 25, 26, 27, 28, 29, 30, 31, 32, 33, 34, 35, 36, 37, 38, 39,
      40, 41, 42, 43, 44, 45, 46, 47 :: nat]" by code_simp
  show ?thesis unfolding u by (simp only: pciess_vf_def list.map concat.simps append_Nil2 append_assoc vf_tables)
qed

lemma offsets_increase: "sorted_wrt (<) (map vf_offset (vf_regs 0))" "sorted_wrt (<) (map vf_offset (vf_regs 1))"
  by code_simp+

lemma vf_regs_cases: "vf_regs n = (if n = 0 then vf_regs 0 else vf_regs 1)"
  by (simp add: vf_regs_def)

lemma offsets_small: "list_all (\<lambda>r. 0 \<le> vf_offset r \<and> vf_offset r < 0xdc \<and> 4 dvd vf_offset r) (vf_regs 0)"
  "list_all (\<lambda>r. 0 \<le> vf_offset r \<and> vf_offset r < 0xdc \<and> 4 dvd vf_offset r) (vf_regs 1)"
  by code_simp+

lemma vf_offset_bounds: "r \<in> set (vf_regs n) \<Longrightarrow> 0 \<le> vf_offset r \<and> vf_offset r < 0xdc \<and> 4 dvd vf_offset r"
  using offsets_small[unfolded list_all_iff] vf_regs_cases[of n] by (auto split: if_splits)

lemma distinct_offsets: "distinct (map vf_offset (vf_regs n))"
  using offsets_increase vf_regs_cases[of n] unfolding strict_sorted_iff by metis

lemma vf_block_addrs: "set (map (snd \<circ> snd) (vf_block n)) \<subseteq> {0x8000 + 0x200 * int n..<0x8000 + 0x200 * int n + 0xdc}"
  using vf_offset_bounds by (fastforce simp: vf_block_def vf_addr_def PF_VF_REG_PCIE_STEP_def)

lemma distinct_block: "distinct (map (snd \<circ> snd) (vf_block n))"
  using distinct_offsets[of n] by (simp add: vf_block_def comp_def distinct_map inj_on_def vf_addr_def)

text \<open>The blocks of the first functions, one after the other.\<close>

lemma blocks_apart:
  "distinct (map (snd \<circ> snd) (concat (map vf_block [0..<n]))) \<and>
    set (map (snd \<circ> snd) (concat (map vf_block [0..<n]))) \<subseteq> {0x8000..<0x8000 + 0x200 * int n}"
proof (induction n)
  case (Suc n)
  have "set (map (snd \<circ> snd) (concat (map vf_block [0..<n]))) \<inter> set (map (snd \<circ> snd) (vf_block n)) = {}"
    using Suc vf_block_addrs[of n] by fastforce
  moreover have "set (map (snd \<circ> snd) (vf_block n)) \<subseteq> {0x8000..<0x8000 + 0x200 * int (Suc n)}"
    using vf_block_addrs[of n] by fastforce
  moreover have "{0x8000..<0x8000 + 0x200 * int n} \<subseteq> {0x8000..<0x8000 + 0x200 * int (Suc n)}" by auto
  ultimately show ?case using Suc distinct_block[of n] by (simp only: upt_Suc_append map_append concat_append list.map concat.simps append_Nil2 distinct_append set_append) blast
qed simp

lemma core_apart:
  "successively (<) (map snd (pciess_core @ pciess_app))" "list_all (\<lambda>a. 0 \<le> a \<and> a < 0x8000 \<and> 4 dvd a) (map snd (pciess_core @ pciess_app))"
  by code_simp+

section \<open>Properties\<close>

text \<open>The tables are a regular layout: what the header writes out for the 48 virtual functions, register by register, is a block of \<open>PF_VF_REG_PCIE_STEP\<close> bytes for
  each, with a register at the same place in every block; the block of function 0 has three registers more than the others; no two registers of the subsystem share an address, and all lie in its module, below the window of the addresses for
  the graphics core; the second names are those of declared registers.\<close>

lemma pciess_layout:
  "pciess_vf = concat (map vf_block [0..<48]) \<and> distinct (map snd (pciess_core @ pciess_app) @ map (snd \<circ> snd) pciess_vf) \<and>
    (\<exists>b l. map_of vid_map PCIE_SS_CFG = Some (b, l) \<and> PCIE_SS_CFG_GPUADDR_BASE < l \<and>
      (\<lambda>a. b + a) ` (snd ` set (pciess_core @ pciess_app) \<union> (snd \<circ> snd) ` set pciess_vf) \<subseteq> {b..<PCIE_SS_CFG_GPUADDR_BASE}) \<and>
    snd ` set pciess_names \<subseteq> snd ` set (pciess_core @ pciess_app)"
proof -
  let ?a = "map snd (pciess_core @ pciess_app)" and ?v = "map (snd \<circ> snd) pciess_vf"
  have v: "distinct ?v \<and> set ?v \<subseteq> {0x8000..<0xe000}" using blocks_apart[of 48] by (simp add: pciess_vf_blocks)
  have a: "distinct ?a" "set ?a \<subseteq> {0..<0x8000}" using core_apart
    by (simp_all add: successively_conv_sorted_wrt[OF transp_on_less] strict_sorted_iff list_all_iff subset_iff)
  have m: "map_of vid_map PCIE_SS_CFG = Some (0x7c0000, 0x7fd000)" by code_simp
  have n: "snd ` set pciess_names \<subseteq> snd ` set (pciess_core @ pciess_app)" by code_simp
  have "set ?a \<inter> set ?v = {}" using a(2) v by fastforce
  then have d: "distinct (?a @ ?v)" using a(1) v by (simp only: distinct_append)
  have "(\<lambda>a. 0x7c0000 + a) ` (set ?a \<union> set ?v) \<subseteq> {0x7c0000..<PCIE_SS_CFG_GPUADDR_BASE}"
    using a(2) v by (fastforce simp: PCIE_SS_CFG_GPUADDR_BASE_def)
  then show ?thesis using pciess_vf_blocks d m n by (simp only: set_map) (simp add: PCIE_SS_CFG_GPUADDR_BASE_def)
qed

text \<open>What a virtual function sees of its block: the interrupt registers, in a page of their own behind those of the other modules.  The registers before them, the
  table of messages, would fall into the page of another module.\<close>

lemma vf_window:
  assumes "r \<in> set (vf_regs 0)"
  shows "VF_REG_PCIE (vf_addr 0 r) \<in> {VF_REG_BASE_PCIE..<VF_REG_BASE_PCIE + 4 * 1024} \<longleftrightarrow> vf_offset SOFT_INT_STATUS \<le> vf_offset r"
  using vf_offset_bounds[OF assms] by (auto simp: VF_REG_PCIE_def vf_addr_def PF_VF_REG_PCIE_STEP_def)

end
