(* ===== verification/Crc.thy ===== *)
theory Crc
  imports Prelude
begin

text \<open>
  The checksum of the client library, \<open>make_crc32_table\<close> and \<open>make_crc\<close> of
  \<open>src/test/lib/mt_pcie_f.c\<close>, which the tests compare with the one the chip computes.  The lemmas show that the
  table-driven loop is the shift register that takes the message bit by bit, and which changes of a message
  always change its checksum.
\<close>

section \<open>The code\<close>

text \<open>The body of the inner loop of \<open>make_crc32_table\<close>.\<close>

definition crc_bit :: "u32 \<Rightarrow> u32" where
  "crc_bit c = (if c AND 1 \<noteq> 0 then drop_bit 1 c XOR 0xEDB88320 else drop_bit 1 c)"

definition make_crc32_table :: "u32 list" where
  "make_crc32_table = map (\<lambda>i. (crc_bit ^^ 8) (of_nat i)) [0..<256]"

text \<open>\<open>make_crc\<close> on the bytes from \<open>string\<close> on; the table is all 0 before \<open>pcief_init\<close>.\<close>

fun make_crc :: "u32 list \<Rightarrow> u32 \<Rightarrow> u8 list \<Rightarrow> u32" where
  "make_crc tbl crc [] = crc"
| "make_crc tbl crc (b # bs) = make_crc tbl (drop_bit 8 crc XOR tbl ! unat ((crc XOR ucast b) AND 0xff)) bs"

section \<open>The shift register\<close>

text \<open>One bit of the message goes into the register: the bits of a byte from the lowest on.\<close>

definition shift_in :: "u32 \<Rightarrow> bool \<Rightarrow> u32" where
  "shift_in c x = (if bit c 0 \<noteq> x then drop_bit 1 c XOR 0xEDB88320 else drop_bit 1 c)"

definition byte_bits :: "u8 \<Rightarrow> bool list" where
  "byte_bits b = map (bit b) [0..<8]"

lemma crc_bit_shift: "crc_bit (c XOR (if x then 1 else 0)) = shift_in c x"
proof -
  have "drop_bit 1 (c XOR 1) = drop_bit 1 c" by (simp add: drop_bit_xor)
  moreover have "(d AND 1 \<noteq> 0) = bit d 0" for d :: u32 by (simp add: and_one_eq mod_2_eq_odd bit_0)
  ultimately show ?thesis by (auto simp: crc_bit_def shift_in_def bit_simps)
qed

lemma crc_bit_xor: "crc_bit (a XOR b) = crc_bit a XOR crc_bit b"
proof -
  have o: "(d AND 1 \<noteq> 0) = bit d 0" for d :: u32 by (simp add: and_one_eq mod_2_eq_odd bit_0)
  show ?thesis unfolding crc_bit_def o drop_bit_xor bit_xor_iff
    by (cases "bit a 0"; cases "bit b 0") (simp_all add: ac_simps flip: xor.assoc)
qed

lemma crc_bits_xor: "(crc_bit ^^ n) (a XOR b) = (crc_bit ^^ n) a XOR (crc_bit ^^ n) b"
  by (induction n) (simp_all add: crc_bit_xor)

lemma crc_bits_push: "take_bit (32 - n) y = y \<Longrightarrow> n \<le> 32 \<Longrightarrow> (crc_bit ^^ n) (push_bit n y) = y"
proof (induction n)
  case (Suc n)
  have b: "\<not> bit y k" if "32 - Suc n \<le> k" for k using Suc.prems(1) that by (metis bit_take_bit_iff linorder_not_less)
  have "take_bit (32 - n) y = y"
  proof (rule bit_eqI)
    show "bit (take_bit (32 - n) y) k = bit y k" for k using b[of k] by (cases "32 - n \<le> k") (auto simp: bit_take_bit_iff)
  qed
  moreover have "crc_bit (push_bit (Suc n) y) = push_bit n y"
  proof -
    have "push_bit (Suc n) y AND 1 = 0" by (rule bit_eqI) (auto simp only: bit_and_iff bit_1_iff bit_push_bit_iff zero_less_Suc bit_0_eq)
    moreover have "drop_bit 1 (push_bit (Suc n) y) = push_bit n y"
    proof (rule bit_eqI)
      fix k assume "possible_bit TYPE(32 word) k"
      then have k: "k < 32" by simp
      show "bit (drop_bit 1 (push_bit (Suc n) y)) k = bit (push_bit n y) k"
        using b[of "k - n"] k by (cases "k = 31") (auto simp: bit_drop_bit_eq bit_push_bit_iff simp del: push_bit_Suc)
    qed
    ultimately show ?thesis by (simp add: crc_bit_def)
  qed
  ultimately show ?case using Suc by (simp add: funpow_Suc_right del: funpow.simps)
qed simp

text \<open>A message of at most 32 bits can as well be put into the register at once.\<close>

abbreviation bits_word :: "bool list \<Rightarrow> u32" where
  "bits_word \<equiv> horner_sum of_bool 2"

lemma bit_bits_word: "bit (bits_word xs) k \<longleftrightarrow> k < 32 \<and> k < length xs \<and> xs ! k"
  by (simp add: bit_horner_sum_bit_iff)

lemma shift_in_bits:
  "length xs \<le> 32 \<Longrightarrow> foldl shift_in c xs = (crc_bit ^^ length xs) (c XOR bits_word xs)"
proof (induction xs rule: rev_induct)
  case (snoc x xs)
  let ?n = "length xs" let ?x = "if x then 1 else 0 :: u32"
  have "bits_word (xs @ [x]) = bits_word xs XOR push_bit ?n ?x"
    by (rule bit_eqI) (auto simp: bit_bits_word bit_simps nth_append less_Suc_eq)
  moreover have "(crc_bit ^^ ?n) (push_bit ?n ?x) = ?x" using snoc.prems by (intro crc_bits_push) (auto simp: take_bit_of_1)
  ultimately have "(crc_bit ^^ Suc ?n) (c XOR bits_word (xs @ [x])) = crc_bit ((crc_bit ^^ ?n) (c XOR bits_word xs) XOR ?x)"
    by (simp add: crc_bits_xor xor.assoc)
  then show ?case using snoc by (simp add: crc_bit_shift)
qed simp

lemma bits_word_byte: "bits_word (byte_bits b) = ucast b"
  by (rule bit_eqI) (use bit_imp_le_length[where w = b] in \<open>auto simp: bit_bits_word byte_bits_def bit_ucast_iff\<close>)

lemma crc_byte: "drop_bit 8 c XOR make_crc32_table ! unat ((c XOR ucast b) AND 0xff) = foldl shift_in c (byte_bits b)"
proof -
  let ?x = "c XOR ucast b"
  have m: "?x AND 0xff = take_bit 8 ?x" by (simp add: take_bit_eq_mask mask_eq_exp_minus_1)
  have lt: "unat (take_bit 8 v) < 256" for v :: u32 using take_bit_nat_less_exp[of 8 "unat v"] by (simp add: unsigned_take_bit_eq)
  have t: "make_crc32_table ! unat (?x AND 0xff) = (crc_bit ^^ 8) (take_bit 8 ?x)" using lt[of ?x] unfolding make_crc32_table_def m by (simp only: length_map length_upt nth_map nth_upt diff_zero add_0 of_nat_unat ucast_id)
  have d: "drop_bit 8 ?x = drop_bit 8 c" using bit_imp_le_length[where w = b] by (intro bit_eqI) (auto simp: bit_simps)
  have "(crc_bit ^^ 8) (push_bit 8 (drop_bit 8 c)) = drop_bit 8 c" by (intro crc_bits_push bit_eqI) (auto simp: bit_simps dest: bit_imp_le_length)
  moreover have "?x = take_bit 8 ?x XOR push_bit 8 (drop_bit 8 c)"
  proof (rule bit_eqI)
    show "bit ?x n = bit (take_bit 8 ?x XOR push_bit 8 (drop_bit 8 c)) n" for n
      unfolding d[symmetric] by (cases "n < 8") (auto simp: bit_simps dest: bit_imp_le_length)
  qed
  ultimately have "(crc_bit ^^ 8) ?x = (crc_bit ^^ 8) (take_bit 8 ?x) XOR drop_bit 8 c" by (metis crc_bits_xor)
  moreover have "foldl shift_in c (byte_bits b) = (crc_bit ^^ 8) ?x"
    using shift_in_bits[of "byte_bits b" c] by (simp add: bits_word_byte) (simp add: byte_bits_def)
  ultimately show ?thesis unfolding t by (simp add: xor.commute)
qed

text \<open>C31. The checksum of the library is that of the shift register.\<close>

theorem make_crc_shift_register:
  "make_crc make_crc32_table crc bs = foldl shift_in crc (concat (map byte_bits bs))"
  by (induction bs arbitrary: crc) (simp_all add: crc_byte)

section \<open>Detected changes\<close>

lemma xor_cancel: "c XOR a = c XOR b \<longleftrightarrow> a = b" for a :: u32
proof
  assume "c XOR a = c XOR b"
  then have "c XOR (c XOR a) = c XOR (c XOR b)" by simp
  then show "a = b" by (simp flip: xor.assoc)
qed simp

lemma xor_zero: "a XOR b = 0 \<longleftrightarrow> a = b" for a :: u32
  using xor_cancel[of a b a] by auto

lemma crc_bit_zero: "crc_bit d = 0 \<Longrightarrow> d = 0"
proof -
  assume z: "crc_bit d = 0"
  have o: "(d AND 1 \<noteq> 0) = bit d 0" by (simp add: and_one_eq mod_2_eq_odd bit_0)
  have top: "bit (0xEDB88320 :: u32) 31" by simp
  have "\<not> bit d 0"
  proof
    assume "bit d 0"
    then have "drop_bit 1 d = 0xEDB88320" using z unfolding crc_bit_def o by (simp add: xor_zero)
    then have "bit (drop_bit 1 d) 31" using top by simp
    then show False using bit_imp_le_length[of d 32] by (simp add: bit_drop_bit_eq)
  qed
  then have "drop_bit 1 d = 0" using z unfolding crc_bit_def o by simp
  then have "\<not> bit (drop_bit 1 d) k" for k by simp
  then have "\<not> bit d (Suc k)" for k by (simp add: bit_drop_bit_eq)
  then have "\<not> bit d k" for k using \<open>\<not> bit d 0\<close> by (cases k) auto
  then show ?thesis by (intro bit_eqI) simp
qed

lemma crc_bits_inj: "(crc_bit ^^ n) a = (crc_bit ^^ n) b \<Longrightarrow> a = b"
proof (induction n arbitrary: a b)
  case (Suc n)
  have "crc_bit ((crc_bit ^^ n) a XOR (crc_bit ^^ n) b) = 0" using Suc.prems by (simp add: crc_bit_xor)
  then have "(crc_bit ^^ n) a = (crc_bit ^^ n) b" using crc_bit_zero xor_zero by blast
  then show ?case by (rule Suc.IH)
qed simp

lemma shift_in_inj: "foldl shift_in a xs = foldl shift_in b xs \<Longrightarrow> a = b"
proof (induction xs arbitrary: a b)
  case (Cons x xs)
  then have "crc_bit (a XOR (if x then 1 else 0)) = crc_bit (b XOR (if x then 1 else 0))" unfolding crc_bit_shift by simp
  then have "a XOR (if x then 1 else 0) = b XOR (if x then 1 else 0)" using crc_bits_inj[where n = 1] by simp
  then have "(if x then 1 else 0) XOR a = (if x then 1 else 0) XOR b" by (simp only: xor.commute)
  then show ?case by (simp only: xor_cancel)
qed simp

text \<open>A change within 32 consecutive bits, and nowhere else, always changes the checksum, whatever the message and the start value.\<close>

theorem crc_detects_burst:
  assumes "concat (map byte_bits m) = p @ x @ s" "concat (map byte_bits m') = p @ y @ s"
    "length x = length y" "length x \<le> 32" "x \<noteq> y"
  shows "make_crc make_crc32_table crc m \<noteq> make_crc make_crc32_table crc m'"
proof
  let ?c = "foldl shift_in crc p"
  assume "make_crc make_crc32_table crc m = make_crc make_crc32_table crc m'"
  then have "foldl shift_in (foldl shift_in ?c x) s = foldl shift_in (foldl shift_in ?c y) s"
    unfolding make_crc_shift_register assms(1,2) by simp
  then have "foldl shift_in ?c x = foldl shift_in ?c y" by (rule shift_in_inj)
  then have "(crc_bit ^^ length x) (?c XOR bits_word x) = (crc_bit ^^ length x) (?c XOR bits_word y)"
    using shift_in_bits[where c = ?c, of x] shift_in_bits[where c = ?c, of y] assms(3,4) by simp
  then have "?c XOR bits_word x = ?c XOR bits_word y" by (rule crc_bits_inj)
  then have w: "bits_word x = bits_word y" by (simp only: xor_cancel)
  have "x ! k = y ! k" if "k < length x" for k
    using arg_cong[OF w, of "\<lambda>v. bit v k"] that assms(3,4) by (simp add: bit_bits_word)
  then show False using assms(3,5) by (auto intro: nth_equalityI)
qed

text \<open>Without the table, which \<open>pcief_init\<close> fills, every message of four bytes or more has the checksum 0.\<close>

lemma crc_without_table: "4 \<le> length bs \<Longrightarrow> make_crc (replicate 256 0) crc bs = 0"
proof -
  have z: "unat ((c XOR d) AND 0xff) < 256" for c d :: u32
    using word_and_le1[where a = "0xff :: u32" and y = "c XOR d"] by (simp add: word_le_nat_alt and.commute)
  have t: "make_crc (replicate 256 0) c bs = drop_bit (8 * length bs) c" for c bs
    by (induction bs arbitrary: c) (simp_all add: z drop_bit_drop_bit add.commute)
  assume "4 \<le> length bs"
  then show ?thesis unfolding t by (intro bit_eqI) (auto simp: bit_simps)
qed

theorem crc_detects_burst_witness:
  "make_crc make_crc32_table 0xffffffff [1, 2, 3, 4, 5, 6] \<noteq> make_crc make_crc32_table 0xffffffff [1, 130, 3, 4, 7, 6]"
  by (rule crc_detects_burst[where p = "byte_bits 1" and s = "byte_bits 6" and x = "concat (map byte_bits [2, 3, 4, 5])" and
      y = "concat (map byte_bits [130, 3, 4, 7])"]) (simp_all add: byte_bits_def upt_rec)

end
