(* ===== verification/ClientBuf.thy ===== *)
theory ClientBuf
  imports Prelude
begin

text \<open>
  The allocator of the client library for the DMA buffer, \<open>pcief_dmabuf_malloc\<close> and \<open>pcief_dmabuf_free\<close> of
  \<open>src/test/lib/mt_pcie_f.c\<close>: a bit for every block of 4096 bytes and a list of the buffers given out.  The
  specification is the set of blocks in use.  A buffer is the first gap that is large enough, live buffers never
  overlap, and freeing one gives back its blocks; but when no gap is large enough the
  caller gets the free blocks at the end of the pool as if they were enough.
\<close>

section \<open>The code\<close>

text \<open>The words of bits, and the items of the list in their order: the first block and the number of blocks.  The array has
  \<open>MTDMA_BUF_BLK_WORDS\<close> words; the loops run to the length of the list here.\<close>

record dmabuf_pool =
  buf_bits :: "u32 list"
  buf_items :: "(u32 \<times> u32) list"

definition MTDMA_BUF_BLK_SIZE :: u64 where "MTDMA_BUF_BLK_SIZE = 4 * 1024"
definition MTDMA_BUF_LIMIT :: u64 where "MTDMA_BUF_LIMIT = 0x800000000"
definition MTDMA_BUF_BLK_WORDS :: nat where "MTDMA_BUF_BLK_WORDS = 0x40000"

definition empty_pool :: dmabuf_pool where
  "empty_pool = \<lparr>buf_bits = replicate MTDMA_BUF_BLK_WORDS 0, buf_items = []\<rparr>"

text \<open>The two loops of the search, with the variables \<open>start\<close> and \<open>size\<close>.\<close>

fun scan_bits :: "nat \<Rightarrow> u32 \<Rightarrow> nat \<Rightarrow> nat list \<Rightarrow> int \<times> nat \<Rightarrow> int \<times> nat" where
  "scan_bits n w i [] st = st"
| "scan_bits n w i (j # js) (start, sz) =
    (let (start, sz) = (if \<not> bit w j then (if sz = 0 then int (i * 32 + j) else start, sz + 1) else (-1, 0)) in
     if n \<le> sz then (start, sz) else scan_bits n w i js (start, sz))"

fun scan_words :: "nat \<Rightarrow> u32 list \<Rightarrow> nat \<Rightarrow> int \<times> nat \<Rightarrow> int \<times> nat" where
  "scan_words n [] i st = st"
| "scan_words n (w # ws) i st =
    (let st = scan_bits n w i [0..<32] st in if n \<le> snd st then st else scan_words n ws (Suc i) st)"

definition set_block :: "nat \<Rightarrow> u32 list \<Rightarrow> u32 list" where
  "set_block k ws = ws[k div 32 := ws ! (k div 32) OR push_bit (k mod 32) 1]"

definition clear_block :: "nat \<Rightarrow> u32 list \<Rightarrow> u32 list" where
  "clear_block k ws = ws[k div 32 := ws ! (k div 32) AND NOT (push_bit (k mod 32) 1)]"

text \<open>\<open>None\<close>: the C library has no memory for the list item, which is then accessed.\<close>

definition pcief_dmabuf_malloc :: "bool \<Rightarrow> u64 \<Rightarrow> dmabuf_pool \<Rightarrow> (int \<times> dmabuf_pool) option" where
  "pcief_dmabuf_malloc item_ok len s =
    (let len = (len + (MTDMA_BUF_BLK_SIZE - 1)) div MTDMA_BUF_BLK_SIZE in
     if MTDMA_BUF_LIMIT < len \<or> len = 0 then Some (-1, s)
     else
       (let (start, sz) = scan_words (unat len) (buf_bits s) 0 (-1, 0);
            bits = fold set_block (map nat [start..start + int sz - 1]) (buf_bits s) in
        if \<not> item_ok then None
        else Some (if 0 < start then start * 4096 else start,
                   \<lparr>buf_bits = bits, buf_items = buf_items s @ [(word_of_int start, of_nat sz)]\<rparr>)))"

fun take_item :: "int \<Rightarrow> (u32 \<times> u32) list \<Rightarrow> ((u32 \<times> u32) \<times> (u32 \<times> u32) list) option" where
  "take_item a [] = None"
| "take_item a ((b, z) # xs) = (if uint b = a then Some ((b, z), xs) else map_option (apsnd (Cons (b, z))) (take_item a xs))"

definition pcief_dmabuf_free :: "int \<Rightarrow> dmabuf_pool \<Rightarrow> dmabuf_pool" where
  "pcief_dmabuf_free addr s =
    (if addr < 0 then s
     else (case take_item (addr div 4096) (buf_items s) of
             None \<Rightarrow> s
           | Some ((b, z), xs) \<Rightarrow> \<lparr>buf_bits = fold clear_block [unat b..<unat b + unat z] (buf_bits s), buf_items = xs\<rparr>))"

section \<open>Blocks in use\<close>

definition in_use :: "u32 list \<Rightarrow> nat set" where
  "in_use ws = {k. k < 32 * length ws \<and> bit (ws ! (k div 32)) (k mod 32)}"

lemma length_mark [simp]: "length (set_block k ws) = length ws" "length (clear_block k ws) = length ws"
  by (simp_all add: set_block_def clear_block_def)

lemma block_eq: "j div 32 = k div 32 \<Longrightarrow> j mod 32 = k mod 32 \<longleftrightarrow> j = k" for j k :: nat
  by (metis div_mult_mod_eq)

lemma bit_list_update:
  assumes "k < 32 * length ws"
  shows "bit (ws[j div 32 := f (ws ! (j div 32))] ! (k div 32)) (k mod 32) =
    bit (if j div 32 = k div 32 then f (ws ! (k div 32)) else ws ! (k div 32)) (k mod 32)"
  using assms by (auto simp: nth_list_update less_mult_imp_div_less mult.commute)

lemma in_use_mark: "k < 32 * length ws \<Longrightarrow> in_use (set_block k ws) = insert k (in_use ws)"
proof (rule set_eqI)
  fix i assume k: "k < 32 * length ws"
  show "i \<in> in_use (set_block k ws) \<longleftrightarrow> i \<in> insert k (in_use ws)"
  proof (cases "i < 32 * length ws")
    case True
    have "bit (set_block k ws ! (i div 32)) (i mod 32) \<longleftrightarrow> i = k \<or> bit (ws ! (i div 32)) (i mod 32)"
      unfolding set_block_def bit_list_update[OF True, of k "\<lambda>w. w OR push_bit (k mod 32) 1"]
      using block_eq[of i k] by (auto simp: bit_or_iff bit_push_bit_iff bit_1_iff bit_exp_iff)
    then show ?thesis using True k by (auto simp: in_use_def)
  qed (use k in \<open>auto simp: in_use_def\<close>)
qed

lemma in_use_clear: "in_use (clear_block k ws) = in_use ws - {k}"
proof (rule set_eqI)
  fix i
  show "i \<in> in_use (clear_block k ws) \<longleftrightarrow> i \<in> in_use ws - {k}"
  proof (cases "i < 32 * length ws")
    case True
    have "bit (clear_block k ws ! (i div 32)) (i mod 32) \<longleftrightarrow> i \<noteq> k \<and> bit (ws ! (i div 32)) (i mod 32)"
      unfolding clear_block_def bit_list_update[OF True, of k "\<lambda>w. w AND NOT (push_bit (k mod 32) 1)"]
      using block_eq[of i k] by (auto simp: bit_and_iff bit_not_iff bit_push_bit_iff bit_1_iff bit_exp_iff)
    then show ?thesis using True by (auto simp: in_use_def)
  qed (auto simp: in_use_def)
qed

lemma in_use_marks:
  "(\<And>k. k \<in> set ks \<Longrightarrow> k < 32 * length ws) \<Longrightarrow> in_use (fold set_block ks ws) = in_use ws \<union> set ks \<and> length (fold set_block ks ws) = length ws"
  by (induction ks arbitrary: ws) (auto simp: in_use_mark)

lemma in_use_clears: "in_use (fold clear_block ks ws) = in_use ws - set ks \<and> length (fold clear_block ks ws) = length ws"
  by (induction ks arbitrary: ws) (auto simp: in_use_clear)

section \<open>The search\<close>

text \<open>The two loops are one over the blocks.\<close>

fun scan_list :: "nat \<Rightarrow> nat set \<Rightarrow> nat list \<Rightarrow> int \<times> nat \<Rightarrow> int \<times> nat" where
  "scan_list n u [] st = st"
| "scan_list n u (k # ks) (start, sz) =
    (let (start, sz) = (if k \<notin> u then (if sz = 0 then int k else start, sz + 1) else (-1, 0)) in
     if n \<le> sz then (start, sz) else scan_list n u ks (start, sz))"

lemma scan_list_append:
  "snd st < n \<Longrightarrow> scan_list n u (xs @ ys) st = (let st = scan_list n u xs st in if n \<le> snd st then st else scan_list n u ys st)"
proof (induction xs arbitrary: st)
  case (Cons k xs)
  obtain start sz where st: "st = (start, sz)" by (cases st)
  show ?case using Cons.IH[of "(int k, 1)"] Cons.IH[of "(start, sz + 1)"] Cons.IH[of "(-1, 0)"] Cons.prems by (simp add: st Let_def)
qed simp

lemma scan_bits_list:
  assumes "i < length ws" "set js \<subseteq> {..<32}"
  shows "scan_bits n (ws ! i) i js st = scan_list n (in_use ws) (map ((+) (32 * i)) js) st"
  using assms(2)
proof (induction js arbitrary: st)
  case (Cons j js)
  have "32 * i + j \<in> in_use ws \<longleftrightarrow> bit (ws ! i) j" using assms(1) Cons.prems by (auto simp: in_use_def)
  then show ?case using Cons by (cases st) (simp add: Let_def mult.commute[of i])
qed simp

lemma scan_words_list:
  "i \<le> length ws \<Longrightarrow> snd st < n \<Longrightarrow> scan_words n (drop i ws) i st = scan_list n (in_use ws) [32 * i..<32 * length ws] st"
proof (induction "length ws - i" arbitrary: i st)
  case (Suc d)
  then have i: "i < length ws" by simp
  have m: "map ((+) (32 * i)) [0..<32] = [32 * i..<32 * Suc i]" 
  proof -
    have "(+) (32 * i) = (\<lambda>j. j + 32 * i)" by (rule ext) simp
    then show ?thesis by (simp only: map_add_upt) (simp add: add.commute)
  qed
  have sb: "scan_bits n (ws ! i) i [0..<32] st = scan_list n (in_use ws) [32 * i..<32 * Suc i] st"
    unfolding m[symmetric] by (rule scan_bits_list[OF i]) auto
  have sp: "[32 * i..<32 * length ws] = [32 * i..<32 * Suc i] @ [32 * Suc i..<32 * length ws]"
    using i upt_add_eq_append[of "32 * i" "32 * Suc i" "32 * length ws - 32 * Suc i"] by simp
  have "scan_words n (drop (Suc i) ws) (Suc i) st' = scan_list n (in_use ws) [32 * Suc i..<32 * length ws] st'" if "snd st' < n" for st'
    using Suc.hyps(2) i that by (intro Suc.hyps(1)) simp_all
  then show ?case unfolding sp scan_list_append[OF Suc.prems(2)]
    by (simp add: Cons_nth_drop_Suc[OF i, symmetric] sb Let_def not_le del: upt_Suc mult_Suc_right)
qed simp

text \<open>What the variables say after the first \<open>k\<close> blocks.\<close>

definition scanned :: "nat \<Rightarrow> nat set \<Rightarrow> nat \<Rightarrow> int \<times> nat \<Rightarrow> bool" where
  "scanned n u k st \<longleftrightarrow> (case st of (start, sz) \<Rightarrow>
     sz < n \<and> sz \<le> k \<and> {k - sz..<k} \<inter> u = {} \<and> (sz < k \<longrightarrow> k - sz - 1 \<in> u) \<and> start = (if sz = 0 then -1 else int (k - sz)) \<and>
     (\<forall>t. t + n \<le> k \<longrightarrow> {t..<t + n} \<inter> u \<noteq> {}))"

definition found :: "nat \<Rightarrow> nat set \<Rightarrow> nat \<Rightarrow> int \<times> nat \<Rightarrow> bool" where
  "found n u N st \<longleftrightarrow> (\<exists>s. st = (int s, n) \<and> s + n \<le> N \<and> {s..<s + n} \<inter> u = {} \<and> (\<forall>t < s. {t..<t + n} \<inter> u \<noteq> {}))"

lemma scan_step:
  assumes "scanned n u k (start, sz)" "k \<notin> u"
  shows "if n \<le> sz + 1 then found n u (k + 1) (if sz = 0 then int k else start, sz + 1) else scanned n u (k + 1) (if sz = 0 then int k else start, sz + 1)"
proof -
  have f: "{k - sz..<k + 1} \<inter> u = {}" using assms by (auto simp: scanned_def less_Suc_eq)
  note a = assms(1)[unfolded scanned_def prod.case]
  show ?thesis
  proof (cases "n \<le> sz + 1")
    case True
    then have n: "n = sz + 1" using a by simp
    then have "(if sz = 0 then int k else start, sz + 1) = (int (k - sz), n)" using a by auto
    moreover have "{t..<t + n} \<inter> u \<noteq> {}" if "t < k - sz" for t using a that n by simp
    ultimately show ?thesis using True f a n by (auto simp: found_def intro!: exI[of _ "k - sz"])
  next
    case False
    have "{t..<t + n} \<inter> u \<noteq> {}" if t: "t + n \<le> k + 1" for t
    proof (cases "t + n \<le> k")
      case tk: False
      then have "t + n = k + 1" using t by simp
      moreover have "sz < k" using calculation False a by linarith
      ultimately have "k - sz - 1 \<in> {t..<t + n} \<inter> u" using False a by auto
      then show ?thesis by blast
    qed (use a in blast)
    then show ?thesis using False f a by (auto simp: scanned_def)
  qed
qed

lemma scan_blocked: "scanned n u k (start, sz) \<Longrightarrow> k \<in> u \<Longrightarrow> scanned n u (k + 1) (-1, 0)"
proof -
  assume a: "scanned n u k (start, sz)" and k: "k \<in> u"
  have n: "0 < n" using a by (auto simp: scanned_def)
  have "{t..<t + n} \<inter> u \<noteq> {}" if t: "t + n \<le> k + 1" for t
  proof (cases "t + n \<le> k")
    case False
    then have "k \<in> {t..<t + n} \<inter> u" using t n k by auto
    then show ?thesis by blast
  qed (use a in \<open>auto simp: scanned_def\<close>)
  then show ?thesis using n k by (auto simp: scanned_def)
qed

lemma scan_result:
  "scanned n u k st \<Longrightarrow> k \<le> N \<Longrightarrow> found n u N (scan_list n u [k..<N] st) \<or> scanned n u N (scan_list n u [k..<N] st)"
proof (induction "N - k" arbitrary: k st)
  case (Suc d)
  obtain start sz where st: "st = (start, sz)" by (cases st)
  have up: "[k..<N] = k # [k + 1..<N]" using Suc.hyps(2) by (simp add: upt_conv_Cons)
  have later: "found n u (k + 1) r \<Longrightarrow> found n u N r" for r using Suc.hyps(2) by (auto simp: found_def)
  have sz: "0 < n" using Suc.prems(1) st by (auto simp: scanned_def)
  note IH = Suc.hyps(1)[of "k + 1"]
  show ?case
  proof (cases "k \<in> u")
    case True
    then show ?thesis using IH[OF _ scan_blocked] Suc.hyps(2) Suc.prems(1) sz by (simp add: up st)
  next
    case False
    note step = scan_step[OF Suc.prems(1)[unfolded st] False]
    show ?thesis
    proof (cases "n \<le> sz + 1")
      case True
      then show ?thesis using step later False by (simp add: up st)
    next
      case short: False
      then show ?thesis using step IH Suc.hyps(2) False by (simp add: up st)
    qed
  qed
qed simp

lemma search_result:
  assumes "0 < n" "scan_words n ws 0 (-1, 0) = st"
  shows "found n (in_use ws) (32 * length ws) st \<or> scanned n (in_use ws) (32 * length ws) st"
proof -
  have "scanned n (in_use ws) 0 (-1, 0)" using assms(1) by (auto simp: scanned_def)
  then show ?thesis using scan_result[of n "in_use ws" 0 "(-1, 0)" "32 * length ws"] scan_words_list[of 0 ws "(-1, 0)" n] assms by simp
qed

section \<open>The pool\<close>

definition item_blocks :: "u32 \<times> u32 \<Rightarrow> nat set" where
  "item_blocks x = {unat (fst x)..<unat (fst x) + unat (snd x)}"

text \<open>The bits are those of the items, no two items share a block, and an item without blocks is that of a failed call.\<close>

definition pool_ok :: "dmabuf_pool \<Rightarrow> bool" where
  "pool_ok s \<longleftrightarrow> 32 * length (buf_bits s) < 2 ^ 32 \<and> in_use (buf_bits s) = \<Union> (item_blocks ` set (buf_items s)) \<and>
     sorted_wrt (\<lambda>x y. item_blocks x \<inter> item_blocks y = {}) (buf_items s) \<and>
     (\<forall>x \<in> set (buf_items s). if snd x = 0 then fst x = -1 else unat (fst x) + unat (snd x) \<le> 32 * length (buf_bits s))"

abbreviation pool_blocks :: "dmabuf_pool \<Rightarrow> nat" where
  "pool_blocks s \<equiv> 32 * length (buf_bits s)"

text \<open>The blocks a request needs.\<close>

definition blocks_for :: "u64 \<Rightarrow> nat" where
  "blocks_for len = (unat len + 4095) div 4096"

lemma blocks_for_word:
  assumes "unat len + 4095 < 2 ^ 64"
  shows "unat ((len + (MTDMA_BUF_BLK_SIZE - 1)) div MTDMA_BUF_BLK_SIZE) = blocks_for len"
  using assms by (simp add: blocks_for_def MTDMA_BUF_BLK_SIZE_def unat_div_distrib unat_add_lem[THEN iffD1])

text \<open>One step of the allocator, for any outcome of the search.\<close>

lemma take_blocks:
  assumes ok: "pool_ok s" and st: "sz = 0 \<and> start = -1 \<or> 0 < sz \<and> start = int b" "b + sz \<le> pool_blocks s" "{b..<b + sz} \<inter> in_use (buf_bits s) = {}"
    and s': "s' = \<lparr>buf_bits = fold set_block (map nat [start..start + int sz - 1]) (buf_bits s), buf_items = buf_items s @ [(word_of_int start, of_nat sz)]\<rparr>"
  shows "pool_ok s'" "in_use (buf_bits s') = in_use (buf_bits s) \<union> {b..<b + sz}" "pool_blocks s' = pool_blocks s"
    "0 < sz \<Longrightarrow> item_blocks (word_of_int start, of_nat sz) = {b..<b + sz}"
proof -
  let ?x = "(word_of_int start, of_nat sz) :: u32 \<times> u32"
  have small: "pool_blocks s < 2 ^ 32" using ok by (simp add: pool_ok_def)
  have w: "unat (of_nat k :: u32) = k" if "k < 2 ^ 32" for k using that by (simp add: unsigned_of_nat take_bit_nat_eq_self)
  have z: "unat (of_nat sz :: u32) = sz" using small st(2) by (intro w) simp
  have b: "0 < sz \<Longrightarrow> unat (word_of_int start :: u32) = b" using small st(1,2) w[of b] by auto
  have x: "item_blocks ?x = {b..<b + sz}" using z b by (cases "sz = 0") (simp_all add: item_blocks_def)
  then show "0 < sz \<Longrightarrow> item_blocks ?x = {b..<b + sz}" by simp
  have ks: "set (map nat [start..start + int sz - 1]) = {b..<b + sz}"
  proof (cases "sz = 0")
    case False
    then have "start = int b" using st(1) by simp
    then have "set (map nat [start..start + int sz - 1]) = nat ` {int b..int (b + sz) - 1}" by simp
    also have "\<dots> = {b..<b + sz}" by (auto simp: image_iff nat_le_iff intro!: bexI[of _ "int _"])
    finally show ?thesis .
  qed (use st(1) in simp)
  have m: "in_use (buf_bits s') = in_use (buf_bits s) \<union> {b..<b + sz} \<and> length (buf_bits s') = length (buf_bits s)"
    using in_use_marks[of "map nat [start..start + int sz - 1]" "buf_bits s"] ks st(2) by (simp add: s')
  then show u: "in_use (buf_bits s') = in_use (buf_bits s) \<union> {b..<b + sz}" and l: "pool_blocks s' = pool_blocks s" by simp_all
  have "item_blocks y \<inter> item_blocks ?x = {}" if "y \<in> set (buf_items s)" for y
    using that st(3) ok unfolding x by (auto simp: pool_ok_def)
  moreover have "(of_nat sz :: u32) = 0 \<longleftrightarrow> sz = 0" unfolding unat_eq_zero[symmetric] z ..
  then have "((of_nat sz :: u32) = 0 \<longrightarrow> (word_of_int start :: u32) = -1) \<and>
      ((of_nat sz :: u32) \<noteq> 0 \<longrightarrow> unat (word_of_int start :: u32) + unat (of_nat sz :: u32) \<le> pool_blocks s)"
    using z b st(1,2) by auto
  ultimately show "pool_ok s'" using ok u l x unfolding pool_ok_def by (simp add: s' sorted_wrt_append Un_commute) 
qed

lemma malloc_step:
  assumes "pool_ok s" "pcief_dmabuf_malloc item_ok len s = Some (r, s')"
  shows "s' = s \<and> r = -1 \<or>
    (\<exists>b sz. pool_ok s' \<and> pool_blocks s' = pool_blocks s \<and> b + sz \<le> pool_blocks s \<and> {b..<b + sz} \<inter> in_use (buf_bits s) = {} \<and>
       in_use (buf_bits s') = in_use (buf_bits s) \<union> {b..<b + sz} \<and> r = (if sz = 0 then -1 else 4096 * int b) \<and>
       (\<exists>x. buf_items s' = buf_items s @ [x] \<and> item_blocks x = {b..<b + sz}))"
proof -
  let ?n = "unat ((len + (MTDMA_BUF_BLK_SIZE - 1)) div MTDMA_BUF_BLK_SIZE)"
  obtain start sz where st: "scan_words ?n (buf_bits s) 0 (-1, 0) = (start, sz)" by (cases "scan_words ?n (buf_bits s) 0 (-1, 0)")
  show ?thesis
  proof (cases "MTDMA_BUF_LIMIT < (len + (MTDMA_BUF_BLK_SIZE - 1)) div MTDMA_BUF_BLK_SIZE \<or> (len + (MTDMA_BUF_BLK_SIZE - 1)) div MTDMA_BUF_BLK_SIZE = 0")
    case False
    then have n: "0 < ?n" by (simp add: unat_gt_0)
    define s2 where "s2 = \<lparr>buf_bits = fold set_block (map nat [start..start + int sz - 1]) (buf_bits s), buf_items = buf_items s @ [(word_of_int start, of_nat sz)]\<rparr>"
    have r: "s' = s2" "r = (if 0 < start then start * 4096 else start)"
      using assms(2) False st by (auto simp: pcief_dmabuf_malloc_def Let_def s2_def split: if_splits)
    have "\<exists>b. (sz = 0 \<and> start = -1 \<or> 0 < sz \<and> start = int b) \<and> b + sz \<le> pool_blocks s \<and> {b..<b + sz} \<inter> in_use (buf_bits s) = {}"
      using search_result[OF n st]
    proof
      assume "found ?n (in_use (buf_bits s)) (pool_blocks s) (start, sz)"
      then show ?thesis using n by (auto simp: found_def)
    next
      assume "scanned ?n (in_use (buf_bits s)) (pool_blocks s) (start, sz)"
      then show ?thesis by (intro exI[of _ "pool_blocks s - sz"]) (auto simp: scanned_def)
    qed
    then obtain b where b: "sz = 0 \<and> start = -1 \<or> 0 < sz \<and> start = int b" "b + sz \<le> pool_blocks s" "{b..<b + sz} \<inter> in_use (buf_bits s) = {}"
      by blast
    note t = take_blocks[OF assms(1) b s2_def]
    have "item_blocks (word_of_int start, of_nat sz) = {b..<b + sz}" using t(4) b(1) by (cases "sz = 0") (simp_all add: item_blocks_def)
    moreover have "r = (if sz = 0 then -1 else 4096 * int b)" using r(2) b(1) by auto
    ultimately show ?thesis using t(1-3) b(2,3) unfolding r(1) by (intro disjI2 exI[of _ b] exI[of _ sz]) (simp add: s2_def)
  qed (use assms(2) in \<open>auto simp: pcief_dmabuf_malloc_def Let_def\<close>)
qed

text \<open>Freeing takes the first item that begins at the address.\<close>

lemma take_item_split:
  "take_item a xs = Some (x, ys) \<Longrightarrow> \<exists>p q. xs = p @ x # q \<and> ys = p @ q \<and> uint (fst x) = a"
proof (induction xs arbitrary: ys)
  case (Cons y xs)
  show ?case
  proof (cases "uint (fst y) = a")
    case True
    then show ?thesis using Cons.prems by (cases y) (rule exI[of _ "[]"], rule exI[of _ ys], auto)
  next
    case False
    then obtain zs where "take_item a xs = Some (x, zs)" "ys = y # zs" using Cons.prems by (cases y) auto
    then show ?thesis using Cons.IH[of zs] by (metis append_Cons)
  qed
qed simp

lemma take_item_last: "(\<And>y. y \<in> set xs \<Longrightarrow> uint (fst y) \<noteq> uint (fst x)) \<Longrightarrow> take_item (uint (fst x)) (xs @ [x]) = Some (x, xs)"
proof (induction xs)
  case (Cons y ys)
  have "uint (fst y) \<noteq> uint (fst x)" using Cons.prems by simp
  then show ?case using Cons by (cases y) simp
qed (cases x, simp)

lemma free_item:
  assumes "pool_ok s" "buf_items s = p @ x # q" "s' = \<lparr>buf_bits = fold clear_block [unat (fst x)..<unat (fst x) + unat (snd x)] (buf_bits s), buf_items = p @ q\<rparr>"
  shows "pool_ok s'" "in_use (buf_bits s') = in_use (buf_bits s) - item_blocks x" "pool_blocks s' = pool_blocks s"
proof -
  have c: "in_use (buf_bits s') = in_use (buf_bits s) - item_blocks x \<and> length (buf_bits s') = length (buf_bits s)"
    using in_use_clears[of "[unat (fst x)..<unat (fst x) + unat (snd x)]" "buf_bits s"] by (simp add: assms(3) item_blocks_def)
  then show "in_use (buf_bits s') = in_use (buf_bits s) - item_blocks x" "pool_blocks s' = pool_blocks s" by simp_all
  have "in_use (buf_bits s') = \<Union> (item_blocks ` set (p @ q))"
    using c assms(1) unfolding pool_ok_def assms(2) by (auto simp: sorted_wrt_append)
  then show "pool_ok s'" using c assms(1,2) unfolding pool_ok_def by (simp add: assms(3) sorted_wrt_append)
qed

lemma free_step:
  assumes "pool_ok s"
  shows "pcief_dmabuf_free a s = s \<or>
    (\<exists>p x q. buf_items s = p @ x # q \<and> buf_items (pcief_dmabuf_free a s) = p @ q \<and> uint (fst x) = a div 4096 \<and> pool_ok (pcief_dmabuf_free a s) \<and>
       pool_blocks (pcief_dmabuf_free a s) = pool_blocks s \<and> in_use (buf_bits (pcief_dmabuf_free a s)) = in_use (buf_bits s) - item_blocks x)"
proof (cases "a < 0 \<or> take_item (a div 4096) (buf_items s) = None")
  case False
  then obtain x ys where t: "take_item (a div 4096) (buf_items s) = Some (x, ys)" by fastforce
  then obtain p q where pq: "buf_items s = p @ x # q" "ys = p @ q" "uint (fst x) = a div 4096" using take_item_split by metis
  have e: "pcief_dmabuf_free a s = \<lparr>buf_bits = fold clear_block [unat (fst x)..<unat (fst x) + unat (snd x)] (buf_bits s), buf_items = p @ q\<rparr>"
    using False t pq(2) by (simp add: pcief_dmabuf_free_def case_prod_unfold)
  note f = free_item[OF assms pq(1) e]
  show ?thesis using f pq e by (intro disjI2 exI[of _ p] exI[of _ x] exI[of _ q]) simp
qed (auto simp: pcief_dmabuf_free_def)

section \<open>Properties\<close>

text \<open>Any sequence of calls from the empty pool.\<close>

inductive pool_run :: "dmabuf_pool \<Rightarrow> bool" where
  start: "pool_run empty_pool"
| malloc: "pool_run s \<Longrightarrow> pcief_dmabuf_malloc True len s = Some (r, s') \<Longrightarrow> pool_run s'"
| free: "pool_run s \<Longrightarrow> pool_run (pcief_dmabuf_free a s)"

lemma empty_pool_ok: "pool_ok empty_pool"
proof -
  have "in_use (buf_bits empty_pool) = {}" by (auto simp: in_use_def empty_pool_def less_mult_imp_div_less mult.commute)
  then show ?thesis unfolding pool_ok_def by (simp add: empty_pool_def MTDMA_BUF_BLK_WORDS_def)
qed

text \<open>C27. Whatever sequence of requests and releases, with any sizes and addresses: the buffers that are out lie in the pool and do not overlap, and the bits are
  set for their blocks and no others.\<close>

theorem dmabuf_buffers_apart:
  assumes "pool_run s"
  shows "in_use (buf_bits s) = \<Union> (item_blocks ` set (buf_items s)) \<and> in_use (buf_bits s) \<subseteq> {..<0x800000} \<and>
    (\<forall>j < length (buf_items s). \<forall>i < j. item_blocks (buf_items s ! i) \<inter> item_blocks (buf_items s ! j) = {})"
proof -
  have "pool_ok s \<and> pool_blocks s = 0x800000"
    using assms
  proof induction
    case start
    then show ?case using empty_pool_ok by (simp add: empty_pool_def MTDMA_BUF_BLK_WORDS_def)
  next
    case (malloc s len r s')
    then show ?case using malloc_step[of s True len r s'] by auto
  next
    case (free s a)
    then show ?case using free_step[of s a] by auto
  qed
  moreover have "in_use (buf_bits s) \<subseteq> {..<pool_blocks s}" by (auto simp: in_use_def)
  ultimately show ?thesis by (auto simp: pool_ok_def sorted_wrt_iff_nth_less)
qed

text \<open>A request for which there is a gap gets the first one, and exactly the blocks it needs.\<close>

theorem dmabuf_first_fit:
  assumes "pool_ok s" "0 < unat len" "unat len + 4095 < 2 ^ 64" "t + blocks_for len \<le> pool_blocks s"
    "{t..<t + blocks_for len} \<inter> in_use (buf_bits s) = {}"
  shows "\<exists>b s'. pcief_dmabuf_malloc True len s = Some (4096 * int b, s') \<and> b \<le> t \<and> b + blocks_for len \<le> pool_blocks s \<and>
    {b..<b + blocks_for len} \<inter> in_use (buf_bits s) = {} \<and> in_use (buf_bits s') = in_use (buf_bits s) \<union> {b..<b + blocks_for len} \<and> pool_ok s'"
proof -
  let ?n = "blocks_for len" and ?l = "(len + (MTDMA_BUF_BLK_SIZE - 1)) div MTDMA_BUF_BLK_SIZE"
  have l: "unat ?l = ?n" by (rule blocks_for_word[OF assms(3)])
  have n: "0 < ?n" using assms(2) by (simp add: blocks_for_def)
  have lim: "\<not> (MTDMA_BUF_LIMIT < ?l \<or> ?l = 0)"
    using l n assms(1,4) by (auto simp: word_less_nat_alt MTDMA_BUF_LIMIT_def pool_ok_def)
  obtain start sz where st: "scan_words ?n (buf_bits s) 0 (-1, 0) = (start, sz)" by (cases "scan_words ?n (buf_bits s) 0 (-1, 0)")
  have "found ?n (in_use (buf_bits s)) (pool_blocks s) (start, sz)"
    using search_result[OF n st] assms(4,5) by (auto simp: scanned_def)
  then obtain b where b: "start = int b" "sz = ?n" "b + ?n \<le> pool_blocks s" "{b..<b + ?n} \<inter> in_use (buf_bits s) = {}"
      "\<forall>u < b. {u..<u + ?n} \<inter> in_use (buf_bits s) \<noteq> {}" by (auto simp: found_def)
  let ?s' = "\<lparr>buf_bits = fold set_block (map nat [start..start + int sz - 1]) (buf_bits s), buf_items = buf_items s @ [(word_of_int start, of_nat sz)]\<rparr>"
  have "pcief_dmabuf_malloc True len s = Some (if 0 < start then start * 4096 else start, ?s')"
    using lim by (simp only: pcief_dmabuf_malloc_def Let_def l st prod.case if_False simp_thms)
  moreover have "(if 0 < start then start * 4096 else start) = 4096 * int b" using b(1) by simp
  moreover have "b \<le> t" using b(5) assms(5) not_less by blast
  moreover have "0 < sz \<and> start = int b" using b(1,2) n by simp
  ultimately show ?thesis using take_blocks[OF assms(1), of sz start b ?s'] b(2-4) by (intro exI[of _ b] exI[of _ ?s']) simp
qed

text \<open>When there is no gap, the free blocks at the end of the pool, however few, are given out: the caller gets an address, and a buffer smaller than
  what was asked for.\<close>

theorem dmabuf_short_buffer:
  assumes "pool_ok s" "0 < unat len" "unat len \<le> 0x800000000" "0 < k" "k \<le> pool_blocks s" "k < pool_blocks s \<longrightarrow> pool_blocks s - k - 1 \<in> in_use (buf_bits s)"
    "{pool_blocks s - k..<pool_blocks s} \<inter> in_use (buf_bits s) = {}"
    "\<And>t. t + blocks_for len \<le> pool_blocks s \<Longrightarrow> {t..<t + blocks_for len} \<inter> in_use (buf_bits s) \<noteq> {}"
  shows "\<exists>s'. pcief_dmabuf_malloc True len s = Some (4096 * int (pool_blocks s - k), s') \<and> k < blocks_for len \<and>
    in_use (buf_bits s') = in_use (buf_bits s) \<union> {pool_blocks s - k..<pool_blocks s}"
proof -
  let ?n = "blocks_for len" and ?l = "(len + (MTDMA_BUF_BLK_SIZE - 1)) div MTDMA_BUF_BLK_SIZE" and ?N = "pool_blocks s"
  have l: "unat ?l = ?n" by (rule blocks_for_word) (use assms(3) in simp)
  have n: "0 < ?n" "?n \<le> 0x800000" using assms(2,3) by (simp_all add: blocks_for_def)
  have lim: "\<not> (MTDMA_BUF_LIMIT < ?l \<or> ?l = 0)" using l n by (auto simp: word_less_nat_alt MTDMA_BUF_LIMIT_def)
  obtain start sz where st: "scan_words ?n (buf_bits s) 0 (-1, 0) = (start, sz)" by (cases "scan_words ?n (buf_bits s) 0 (-1, 0)")
  have sc: "scanned ?n (in_use (buf_bits s)) ?N (start, sz)" using search_result[OF n(1) st] assms(8) by (auto simp: found_def)
  have "sz = k"
  proof (rule linorder_cases[of sz k])
    assume "sz < k"
    then have "?N - sz - 1 \<in> in_use (buf_bits s)" "?N - sz - 1 \<in> {?N - k..<?N}" using sc assms(5) by (auto simp: scanned_def)
    then show ?thesis using assms(7) by blast
  next
    assume "k < sz"
    then have "?N - k - 1 \<in> in_use (buf_bits s)" "?N - k - 1 \<in> {?N - sz..<?N}" using sc assms(4-6) by (auto simp: scanned_def)
    then show ?thesis using sc unfolding scanned_def by blast
  qed
  then have b: "0 < sz \<and> start = int (?N - k)" "sz = k" "k < ?n" using sc assms(4) by (auto simp: scanned_def)
  let ?s' = "\<lparr>buf_bits = fold set_block (map nat [start..start + int sz - 1]) (buf_bits s), buf_items = buf_items s @ [(word_of_int start, of_nat sz)]\<rparr>"
  have "pcief_dmabuf_malloc True len s = Some (if 0 < start then start * 4096 else start, ?s')"
    using lim by (simp only: pcief_dmabuf_malloc_def Let_def l st prod.case if_False simp_thms)
  moreover have "(if 0 < start then start * 4096 else start) = 4096 * int (?N - k)" using b(1) by simp
  ultimately show ?thesis using take_blocks[OF assms(1), of sz start "?N - k" ?s'] b assms(5,7) by (intro exI[of _ ?s']) simp
qed

text \<open>Freeing what was just allocated restores the pool.\<close>

theorem dmabuf_malloc_free:
  assumes "pool_ok s" "pcief_dmabuf_malloc True len s = Some (r, s')" "0 \<le> r"
  shows "in_use (buf_bits (pcief_dmabuf_free r s')) = in_use (buf_bits s) \<and> buf_items (pcief_dmabuf_free r s') = buf_items s"
proof -
  obtain b sz x where m: "pool_ok s'" "b + sz \<le> pool_blocks s" "{b..<b + sz} \<inter> in_use (buf_bits s) = {}"
      "in_use (buf_bits s') = in_use (buf_bits s) \<union> {b..<b + sz}" "r = 4096 * int b" "0 < sz" "buf_items s' = buf_items s @ [x]" "item_blocks x = {b..<b + sz}"
    using malloc_step[OF assms(1,2)] assms(3) by (auto split: if_splits)
  have small: "pool_blocks s < 2 ^ 32" using assms(1) by (simp add: pool_ok_def)
  have bx: "b \<in> item_blocks x" using m(6,8) by simp
  then have "unat (fst x) \<in> item_blocks x" by (auto simp: item_blocks_def)
  then have "b \<le> unat (fst x)" unfolding m(8) by simp
  then have x: "unat (fst x) = b" using bx by (auto simp: item_blocks_def)
  have xi: "uint (fst x) = int b" unfolding x[symmetric] by simp
  have "uint (fst y) \<noteq> uint (fst x)" if y: "y \<in> set (buf_items s)" for y
  proof
    assume "uint (fst y) = uint (fst x)"
    then have f: "fst y = fst x" by (simp only: word_uint_eq_iff)
    show False
    proof (cases "snd y = 0")
      case True
      then have "fst x = -1" using assms(1) y f by (auto simp: pool_ok_def)
      then have "unat (-1 :: u32) = b" using x by simp
      moreover have "unat (-1 :: u32) = 0xffffffff" by (simp add: unsigned_minus_1_eq_mask mask_eq_exp_minus_1)
      ultimately show False using m(2,6) small by simp
    next
      case False
      then have "b \<in> item_blocks y" using x f by (simp add: item_blocks_def unat_gt_0)
      then have "b \<in> in_use (buf_bits s)" using assms(1) y by (auto simp: pool_ok_def)
      moreover have "b \<in> {b..<b + sz}" using m(6) by simp
      ultimately show False using m(3) by blast
    qed
  qed
  then have "take_item (r div 4096) (buf_items s') = Some (x, buf_items s)" using take_item_last[of "buf_items s" x] m(5,7)
    unfolding xi by simp
  then have e: "pcief_dmabuf_free r s' = \<lparr>buf_bits = fold clear_block [unat (fst x)..<unat (fst x) + unat (snd x)] (buf_bits s'), buf_items = buf_items s @ []\<rparr>"
    using assms(3) by (simp add: pcief_dmabuf_free_def case_prod_unfold)
  show ?thesis using free_item(2)[OF m(1,7) e] m(3,4,8) by (auto simp: e)
qed

section \<open>Witnesses\<close>

definition demo_pool :: dmabuf_pool where
  "demo_pool = \<lparr>buf_bits = [0, 0], buf_items = []\<rparr>"

lemma demo_pool_ok: "pool_ok demo_pool" "in_use (buf_bits demo_pool) = {}" "pool_blocks demo_pool = 64"
proof -
  have "[0, 0 :: u32] ! k = 0" if "k < 2" for k using that by (auto simp: less_2_cases_iff)
  then show e: "in_use (buf_bits demo_pool) = {}" by (auto simp: in_use_def demo_pool_def less_mult_imp_div_less)
  show "pool_ok demo_pool" using e by (simp add: pool_ok_def) (simp add: demo_pool_def)
qed (simp add: demo_pool_def)

theorem dmabuf_buffers_apart_witness:
  "\<exists>r s. pcief_dmabuf_malloc True 5000 empty_pool = Some (r, s) \<and> in_use (buf_bits s) \<subseteq> {..<0x800000}"
proof -
  obtain r s where m: "pcief_dmabuf_malloc True 5000 empty_pool = Some (r, s)"
    by (cases "pcief_dmabuf_malloc True 5000 empty_pool") (auto simp: pcief_dmabuf_malloc_def Let_def case_prod_unfold split: if_splits)
  have "pool_run s" by (rule pool_run.malloc[OF pool_run.start m])
  from dmabuf_buffers_apart[OF this] m show ?thesis by blast
qed

theorem dmabuf_first_fit_witness:
  "\<exists>b s. pcief_dmabuf_malloc True 8192 demo_pool = Some (4096 * int b, s) \<and> b \<le> 5 \<and> in_use (buf_bits s) = {b..<b + 2}"
  using dmabuf_first_fit[of demo_pool 8192 5] demo_pool_ok by (auto simp: blocks_for_def)

theorem dmabuf_short_buffer_witness:
  "\<exists>s. pcief_dmabuf_malloc True 266240 demo_pool = Some (0, s) \<and> in_use (buf_bits s) = {..<64}"
  using dmabuf_short_buffer[of demo_pool 266240 64] demo_pool_ok by (auto simp: blocks_for_def)

theorem dmabuf_malloc_free_witness:
  "in_use (buf_bits (pcief_dmabuf_free 0 \<lparr>buf_bits = [3, 0], buf_items = [(0, 2)]\<rparr>)) = {}"
proof -
  have "pcief_dmabuf_malloc True 8192 demo_pool = Some (0, \<lparr>buf_bits = [3, 0], buf_items = [(0, 2)]\<rparr>)" by code_simp
  from dmabuf_malloc_free[OF demo_pool_ok(1) this] demo_pool_ok(2) show ?thesis by simp
qed

end
