(* ===== verification/ClientLib.thy ===== *)
theory ClientLib
  imports RegDump Ioctl Probe
begin

text \<open>
  The client library of the tests, \<open>src/test/lib/mt_pcie_f.c\<close>, as far as it talks to the driver: how it finds
  the device files, learns the regions of a function from the driver's attributes and maps them
  (\<open>pcief_get_instance\<close>), and how it reads and writes mapped memory (\<open>pcief_read\<close>, \<open>pcief_write\<close>).  The attributes
  themselves, \<open>show_bar\<close> and the others of the three drivers, are here as well: they are the other end.
\<close>

section \<open>Numbers as text\<close>

text \<open>The conversions \<open>%llx\<close> and \<open>%d\<close> of \<open>sprintf\<close>, the second for values that are not negative.\<close>

definition digit_char :: "nat \<Rightarrow> char" where
  "digit_char d = (if d < 10 then char_of (48 + d) else char_of (87 + d))"

fun text_of :: "nat \<Rightarrow> nat \<Rightarrow> string" where
  "text_of b n = (if b < 2 \<or> n < b then [digit_char n] else text_of b (n div b) @ [digit_char (n mod b)])"

declare text_of.simps [simp del]

text \<open>The conversion \<open>%llx\<close> of \<open>sscanf\<close>: white space, a sign, an optional \<open>0x\<close>, digits; a value that is too large is cut.  The value and
  the rest of the input, or \<open>None\<close> without a digit.\<close>

definition skip_0x :: "string \<Rightarrow> string" where
  "skip_0x s = (case s of
     c # x # d # _ \<Rightarrow> if c = CHR ''0'' \<and> (x = CHR ''x'' \<or> x = CHR ''X'') \<and> hex_digit d \<noteq> None then drop 2 s else s
   | _ \<Rightarrow> s)"

definition scan_hex :: "string \<Rightarrow> (u64 \<times> string) option" where
  "scan_hex s =
    (let s = dropWhile (\<lambda>c. of_char c \<in> {9, 10, 11, 12, 13, 32 :: nat}) s;
         neg = (s \<noteq> [] \<and> hd s = CHR ''-'');
         s = (if s \<noteq> [] \<and> (hd s = CHR ''-'' \<or> hd s = CHR ''+'') then tl s else s);
         s = skip_0x s;
         ds = takeWhile (\<lambda>c. hex_digit c \<noteq> None) s; v = min (2 ^ 64 - 1) (hex_digits ds 0) in
     if ds = [] then None else Some (word_of_int (if neg then - v else v), drop (length ds) s))"

text \<open>\<open>sscanf(buf, "%llx:%llx:%llx", ...)\<close>: what is not matched keeps its value.\<close>

definition scan_region :: "string \<Rightarrow> u64 \<times> u64 \<times> u64 \<Rightarrow> u64 \<times> u64 \<times> u64" where
  "scan_region buf old = (case old of (p, v, z) \<Rightarrow>
     (case scan_hex buf of
        None \<Rightarrow> (p, v, z)
      | Some (p, s) \<Rightarrow> if s = [] \<or> hd s \<noteq> CHR '':'' then (p, v, z) else
         (case scan_hex (tl s) of
            None \<Rightarrow> (p, v, z)
          | Some (v, s) \<Rightarrow> if s = [] \<or> hd s \<noteq> CHR '':'' then (p, v, z) else
             (case scan_hex (tl s) of None \<Rightarrow> (p, v, z) | Some (z, s) \<Rightarrow> (p, v, z)))))"

section \<open>The attributes of the drivers\<close>

text \<open>\<open>show_bar\<close>, the same text in all three drivers.  \<open>None\<close>: there is no driver data, and \<open>BUG_ON\<close> stops; or the region is
  none of the seven.  \<open>kva\<close> is the virtual address at which a region is mapped in the kernel.\<close>

definition newline :: string where "newline = [CHR 0x0A]"

definition region_text :: "u64 \<Rightarrow> u64 \<Rightarrow> u64 \<Rightarrow> string" where
  "region_text p v z = text_of 16 (unat p) @ '':'' @ text_of 16 (unat v) @ '':'' @ text_of 16 (unat z) @ newline"

definition kernel_addr :: "(nat \<Rightarrow> u64) \<Rightarrow> ioaddr \<Rightarrow> u64" where
  "kernel_addr kva a = kva (fst a) + snd a"

definition show_bar :: "(nat \<Rightarrow> u64) \<Rightarrow> emu_pcie option \<Rightarrow> nat \<Rightarrow> string option" where
  "show_bar kva drvdata bar = (case drvdata of None \<Rightarrow> None | Some ep \<Rightarrow>
     if bar < length (region ep)
     then (let r = region ep ! bar in Some (region_text (rg_paddr r) (kernel_addr kva (rg_base r)) (rg_size r)))
     else None)"

definition show_vf :: string where
  "show_vf = text_of 10 VF_NUM @ newline"

definition gpu_show_version :: string where "gpu_show_version = ''3.0.1'' @ newline"
definition apu_show_version :: string where "apu_show_version = ''1.0.1'' @ newline"
definition vgpu_show_version :: string where "vgpu_show_version = ''1.0.1'' @ newline"

text \<open>The files of a device in \<open>sysfs\<close> and what reading them gives.\<close>

type_synonym attrs = "(string \<times> string option) list"

definition gpu_attrs :: "(nat \<Rightarrow> u64) \<Rightarrow> emu_pcie option \<Rightarrow> attrs" where
  "gpu_attrs kva d =
    [(''version'', Some gpu_show_version), (''bar0'', show_bar kva d 0), (''bar2'', show_bar kva d 2), (''bar4'', show_bar kva d 4),
     (''bar6'', show_bar kva d 6), (''vf'', Some show_vf)]"

definition apu_attrs :: "(nat \<Rightarrow> u64) \<Rightarrow> emu_pcie option \<Rightarrow> attrs" where
  "apu_attrs kva d = [(''version'', Some apu_show_version), (''bar0'', show_bar kva d 0), (''bar2'', show_bar kva d 2)]"

definition vgpu_attrs :: "(nat \<Rightarrow> u64) \<Rightarrow> emu_pcie option \<Rightarrow> attrs" where
  "vgpu_attrs kva d = [(''version'', Some vgpu_show_version), (''bar0'', show_bar kva d 0), (''bar2'', show_bar kva d 2)]"

definition dmabuf_attrs :: "u64 \<Rightarrow> emu_dmabuf option \<Rightarrow> attrs" where
  "dmabuf_attrs va d = [(''version'', Some vgpu_show_version),
     (''bar0'', map_option (\<lambda>db. region_text (db_paddr db) va (db_size db)) d)]"

section \<open>Device files\<close>

definition MT_GPU_NAME :: string where "MT_GPU_NAME = ''mt_emu_gpu''"
definition MT_APU_NAME :: string where "MT_APU_NAME = ''mt_emu_apu''"
definition MT_VGPU_NAME :: string where "MT_VGPU_NAME = ''mt_emu_vgpu''"
definition MT_MTDMA_NAME :: string where "MT_MTDMA_NAME = ''mt_emu_dmabuf''"

text \<open>The name under which a virtual function registers, and its minor number.\<close>

definition misc_dev_name :: "nat \<Rightarrow> string" where "misc_dev_name fn = MT_VGPU_NAME @ text_of 10 fn"
definition VGPU_STATIC_MINOR_START :: nat where "VGPU_STATIC_MINOR_START = 100"
definition vgpu_minor :: "nat \<Rightarrow> nat" where "vgpu_minor fn = VGPU_STATIC_MINOR_START + fn"

definition F_GPU :: nat where "F_GPU = 0"
definition F_MTDMA :: nat where "F_MTDMA = VF_NUM + 2"
definition F_BAR_MAX :: nat where "F_BAR_MAX = 7"

text \<open>The file that \<open>pcief_open\<close> opens, and the one \<open>pcief_misc_open\<close> opens for an attribute; \<open>None\<close> is the result -1.\<close>

definition pcief_open :: "nat \<Rightarrow> string option" where
  "pcief_open f =
    (if f = F_GPU then Some (''/dev/'' @ MT_GPU_NAME)
     else if f = F_MTDMA then Some (''/dev/'' @ MT_MTDMA_NAME)
     else if 2 \<le> f \<and> f < VF_NUM + 2 then Some (''/dev/'' @ MT_VGPU_NAME @ text_of 10 f)
     else None)"

definition pcief_misc_open :: "nat \<Rightarrow> string \<Rightarrow> string option" where
  "pcief_misc_open f name =
    (if f = F_GPU then Some (''/sys/class/misc/'' @ MT_GPU_NAME @ ''/'' @ name)
     else if f = F_MTDMA then Some (''/sys/class/misc/'' @ MT_MTDMA_NAME @ ''/'' @ name)
     else if 2 \<le> f \<and> f < VF_NUM + 2 then Some (''/sys/class/misc/'' @ MT_VGPU_NAME @ text_of 10 f @ ''/'' @ name)
     else None)"

section \<open>Finding the regions\<close>

record pcief_bar =
  bar_paddr :: u64
  bar_vaddr :: u64
  bar_size :: u64
  bar_map_addr :: u64

definition no_bar :: pcief_bar where
  "no_bar = \<lparr>bar_paddr = 0, bar_vaddr = 0, bar_size = 0, bar_map_addr = 0\<rparr>"

text \<open>The loop of \<open>pcief_get_instance\<close> over the regions.  \<open>rd\<close> reads an attribute: at most 254 bytes of it, and \<open>None\<close> when the file cannot be
  opened (the descriptor -1 is not noticed, but reading from it fails) or read.  \<open>junk\<close> are the two uninitialised variables.  \<open>mm\<close> maps a region of
  that size and gives the address, or \<open>None\<close> for \<open>MAP_FAILED\<close>.\<close>

definition get_bar :: "(string \<Rightarrow> string option) \<Rightarrow> (nat \<Rightarrow> u64 \<Rightarrow> u64 option) \<Rightarrow> u64 \<times> u64 \<Rightarrow> nat \<Rightarrow> pcief_bar" where
  "get_bar rd mm junk i =
    (let (p, v, z) = (case rd (''bar'' @ text_of 10 i) of
           None \<Rightarrow> (fst junk, snd junk, 0)
         | Some txt \<Rightarrow> scan_region (take 254 txt) (fst junk, snd junk, 0)) in
     if 0 < z
     then (case mm i z of None \<Rightarrow> no_bar | Some a \<Rightarrow> \<lparr>bar_paddr = p, bar_vaddr = v, bar_size = z, bar_map_addr = a\<rparr>)
     else no_bar)"

definition pcief_get_instance :: "(string \<Rightarrow> string option) \<Rightarrow> (nat \<Rightarrow> u64 \<Rightarrow> u64 option) \<Rightarrow> u64 \<times> u64 \<Rightarrow> pcief_bar list" where
  "pcief_get_instance rd mm junk = map (get_bar rd mm junk) [0..<F_BAR_MAX]"

text \<open>Reading an attribute of a device, and mapping region \<open>i\<close> of a function: the kernel finds the place \<open>ma i\<close>, rounds the size up to pages and
  asks the driver; the mapping itself may fail.\<close>

definition attr_read :: "attrs \<Rightarrow> string \<Rightarrow> string option" where
  "attr_read as name = Option.bind (map_of as name) id"

definition dev_mmap :: "emu_pcie \<Rightarrow> (nat \<Rightarrow> u64) \<Rightarrow> (nat \<Rightarrow> bool) \<Rightarrow> nat \<Rightarrow> u64 \<Rightarrow> u64 option" where
  "dev_mmap ep ma remap_ok i z =
    (case mt_test_mmap ep i (ma i) (ma i + ((z + 4095) AND NOT 4095)) of
       Inl _ \<Rightarrow> None
     | Inr _ \<Rightarrow> if remap_ok i then Some (ma i) else None)"

section \<open>Mapped memory\<close>

text \<open>The width and the index of every access of a transfer, in order: as many 8-byte accesses as possible, then at most one of each smaller
  width.\<close>

definition xfer_plan :: "nat \<Rightarrow> (nat \<times> nat) list" where
  "xfer_plan len =
    (let i = len div 8 * 8; q = map (\<lambda>k. (8, 8 * k)) [0..<len div 8];
         (d, i) = (if i < len div 4 * 4 then ([(4, i)], i + 4) else ([], i));
         (w, i) = (if i < len div 2 * 2 then ([(2, i)], i + 2) else ([], i));
         b = (if i < len then [(1, i)] else [])
     in q @ d @ w @ b)"

text \<open>An access copies its bytes.  Memory is a function from addresses; the buffer of the caller has \<open>len\<close> bytes.\<close>

type_synonym memory = "u64 \<Rightarrow> u8"

definition move_bytes :: "nat \<times> nat \<Rightarrow> (nat \<Rightarrow> u64) \<Rightarrow> (nat \<Rightarrow> u64) \<Rightarrow> memory \<Rightarrow> memory \<Rightarrow> memory" where
  "move_bytes wi src dst from to = (case wi of (w, i) \<Rightarrow> fold (\<lambda>k m. m(dst (i + k) := from (src (i + k)))) [0..<w] to)"

text \<open>\<open>offset + len\<close> is 64 bits wide.  \<open>None\<close>: the variable \<open>i\<close> of type \<open>int\<close> overflows.\<close>

definition pcief_write :: "pcief_bar \<Rightarrow> u64 \<Rightarrow> u32 \<Rightarrow> u64 \<Rightarrow> memory \<Rightarrow> memory \<Rightarrow> (int \<times> memory) option" where
  "pcief_write bar offset len data user dev =
    (if bar_size bar < offset + ucast len then Some (-1, dev)
     else if 2 ^ 31 \<le> unat len then None
     else Some (0, fold (\<lambda>wi. move_bytes wi (\<lambda>j. data + of_nat j) (\<lambda>j. bar_map_addr bar + offset + of_nat j) user) (xfer_plan (unat len)) dev))"

definition pcief_read :: "pcief_bar \<Rightarrow> u64 \<Rightarrow> u32 \<Rightarrow> u64 \<Rightarrow> memory \<Rightarrow> memory \<Rightarrow> (int \<times> memory) option" where
  "pcief_read bar offset len data dev user =
    (if bar_size bar < offset + ucast len then Some (-1, user)
     else if 2 ^ 31 \<le> unat len then None
     else Some (0, fold (\<lambda>wi. move_bytes wi (\<lambda>j. bar_map_addr bar + offset + of_nat j) (\<lambda>j. data + of_nat j) dev) (xfer_plan (unat len)) user))"

end
