(* ===== verification/ClientCalls.thy ===== *)
theory ClientCalls
  imports IoctlProps ClientLib
begin

text \<open>
  The calls of the client library that end in \<open>ioctl\<close> on the device file, in \<open>src/test/lib/mt_pcie_f.c\<close>, on
  top of the model of \<open>mt_test_ioctl\<close>.  The C library turns a negative result of the kernel into -1.  \<open>ks\<close> holds the answers of the kernel to each call,
  \<open>p\<close> the fields of the parameter that a function does not set, and \<open>ret0\<close> its uninitialised variable \<open>ret\<close>.
  The main result is that a transfer of any size through the driver, in pieces, arrives and is read back.
\<close>

section \<open>Calling the driver\<close>

definition libc_result :: "int \<Rightarrow> int" where
  "libc_result r = (if r < 0 then -1 else r)"

text \<open>What the driver has copied back last: the parameter, and the data behind it.\<close>

fun last_param :: "mt_emu_param \<Rightarrow> kev list \<Rightarrow> mt_emu_param" where
  "last_param p [] = p"
| "last_param p (e # es) = last_param (case e of Kc (CopyParam q) \<Rightarrow> q | _ \<Rightarrow> p) es"

fun last_data :: "u8 list \<Rightarrow> kev list \<Rightarrow> u8 list" where
  "last_data d [] = d"
| "last_data d (e # es) = last_data (case e of Kc (CopyData c) \<Rightarrow> c | _ \<Rightarrow> d) es"

text \<open>A call: its result, the buffer of the caller after it (the parameter, and the data behind it, which begins as \<open>d\<close>), and the device.  When the
  result is not 0 the callers do not look at the buffer.\<close>

definition dev_ioctl :: "kenv \<Rightarrow> ioctl_cmd \<Rightarrow> u64 \<Rightarrow> mt_emu_param \<Rightarrow> u8 list \<Rightarrow> mt_dev \<Rightarrow> (int \<times> mt_emu_param \<times> u8 list \<times> mt_dev) option kio" where
  "dev_ioctl k cmd arg p d dv = State (\<lambda>l.
     let (r, l') = run_state (mt_test_ioctl k cmd arg p dv) l; es = drop (length l) l' in
     (map_option (\<lambda>(ret, dv). (libc_result ret, last_param p es, last_data d es, dv)) r, l'))"

section \<open>Transfers through the driver\<close>

text \<open>The pieces of \<open>pcief_io_write\<close> and \<open>pcief_io_read\<close>: how many there are, and the size of each.  The products \<open>n*QY_MAX_RW\<close>
  are of type \<open>int\<close> and overflow from \<open>n = 1024\<close> on.\<close>

definition io_count :: "u32 \<Rightarrow> nat" where
  "io_count len = unat ((len + QY_MAX_RW - 1) div QY_MAX_RW)"

definition io_piece :: "u32 \<Rightarrow> nat \<Rightarrow> u32" where
  "io_piece len n = (let sz = len - of_nat n * QY_MAX_RW in if QY_MAX_RW < sz then QY_MAX_RW else sz)"

definition io_param :: "mt_emu_param \<Rightarrow> u64 \<Rightarrow> u32 \<Rightarrow> nat \<Rightarrow> mt_emu_param" where
  "io_param p offset len n = p\<lparr>p_d0 := io_piece len n, p_l0 := offset + of_nat n * ucast QY_MAX_RW\<rparr>"

definition io_pos :: "nat \<Rightarrow> nat" where
  "io_pos n = n * unat QY_MAX_RW"

fun io_write_loop :: "(nat \<Rightarrow> kenv) \<Rightarrow> u64 \<Rightarrow> mt_emu_param \<Rightarrow> u64 \<Rightarrow> u32 \<Rightarrow> (nat \<Rightarrow> u8) \<Rightarrow> nat list \<Rightarrow> int \<Rightarrow> mt_dev \<Rightarrow> (int \<times> mt_dev) option kio" where
  "io_write_loop ks arg p offset len data [] ret dv = State_Monad.return (Some (ret, dv))"
| "io_write_loop ks arg p offset len data (n # ns) ret dv =
    (if 1024 \<le> n then State_Monad.return None
     else do {
       r \<leftarrow> dev_ioctl ((ks n)\<lparr>user_byte := \<lambda>i. data (io_pos n + i)\<rparr>) MT_IOCTL_BAR_RW arg (io_param p offset len n) [] dv;
       (case r of
          None \<Rightarrow> State_Monad.return None
        | Some (ret, _, _, dv) \<Rightarrow> if ret \<noteq> 0 then State_Monad.return (Some (ret, dv)) else io_write_loop ks arg p offset len data ns ret dv) })"

definition pcief_io_write :: "(nat \<Rightarrow> kenv) \<Rightarrow> u64 \<Rightarrow> mt_emu_param \<Rightarrow> int \<Rightarrow> u8 \<Rightarrow> u64 \<Rightarrow> u32 \<Rightarrow> (nat \<Rightarrow> u8) \<Rightarrow> mt_dev \<Rightarrow> (int \<times> mt_dev) option kio" where
  "pcief_io_write ks arg p ret0 bar offset len data dv =
    io_write_loop ks arg (p\<lparr>p_b0 := bar, p_b1 := 0\<rparr>) offset len data [0..<io_count len] ret0 dv"

text \<open>\<open>out\<close> is the buffer of the caller, into which each piece is copied.\<close>

definition put_piece :: "nat \<Rightarrow> nat \<Rightarrow> u8 list \<Rightarrow> (nat \<Rightarrow> u8) \<Rightarrow> nat \<Rightarrow> u8" where
  "put_piece pos sz d out = (\<lambda>i. if pos \<le> i \<and> i < pos + sz then d ! (i - pos) else out i)"

fun io_read_loop :: "(nat \<Rightarrow> kenv) \<Rightarrow> u64 \<Rightarrow> mt_emu_param \<Rightarrow> u64 \<Rightarrow> u32 \<Rightarrow> nat list \<Rightarrow> int \<Rightarrow> u8 list \<Rightarrow> (nat \<Rightarrow> u8) \<Rightarrow> mt_dev \<Rightarrow>
    (int \<times> (nat \<Rightarrow> u8) \<times> mt_dev) option kio" where
  "io_read_loop ks arg p offset len [] ret d out dv = State_Monad.return (Some (ret, out, dv))"
| "io_read_loop ks arg p offset len (n # ns) ret d out dv =
    (if 1024 \<le> n then State_Monad.return None
     else do {
       r \<leftarrow> dev_ioctl (ks n) MT_IOCTL_BAR_RW arg (io_param p offset len n) d dv;
       (case r of
          None \<Rightarrow> State_Monad.return None
        | Some (ret, _, d, dv) \<Rightarrow>
            if ret \<noteq> 0 then State_Monad.return (Some (ret, out, dv))
            else io_read_loop ks arg p offset len ns ret d (put_piece (io_pos n) (unat (io_piece len n)) d out) dv) })"

definition pcief_io_read :: "(nat \<Rightarrow> kenv) \<Rightarrow> u64 \<Rightarrow> mt_emu_param \<Rightarrow> int \<Rightarrow> u8 list \<Rightarrow> u8 \<Rightarrow> u64 \<Rightarrow> u32 \<Rightarrow> (nat \<Rightarrow> u8) \<Rightarrow> mt_dev \<Rightarrow>
    (int \<times> (nat \<Rightarrow> u8) \<times> mt_dev) option kio" where
  "pcief_io_read ks arg p ret0 d bar offset len out dv =
    io_read_loop ks arg (p\<lparr>p_b0 := bar, p_b1 := BAR_RD\<rparr>) offset len [0..<io_count len] ret0 d out dv"

section \<open>Configuration space and the ROM\<close>

definition cfg_param :: "mt_emu_param \<Rightarrow> u8 \<Rightarrow> u32 \<Rightarrow> u32 \<Rightarrow> mt_emu_param" where
  "cfg_param p rw offset len = p\<lparr>p_b1 := rw, p_d0 := if QY_MAX_RW < len then QY_MAX_RW else len, p_l0 := ucast offset\<rparr>"

definition pcief_cfg_write :: "kenv \<Rightarrow> u64 \<Rightarrow> mt_emu_param \<Rightarrow> u32 \<Rightarrow> u32 \<Rightarrow> (nat \<Rightarrow> u8) \<Rightarrow> mt_dev \<Rightarrow> (int \<times> mt_dev) option kio" where
  "pcief_cfg_write k arg p offset len data dv = do {
     r \<leftarrow> dev_ioctl (k\<lparr>user_byte := data\<rparr>) MT_IOCTL_CFG_RW arg (cfg_param p 0 offset len) [] dv;
     State_Monad.return (map_option (\<lambda>(ret, _, _, dv). (ret, dv)) r) }"

definition pcief_cfg_read :: "kenv \<Rightarrow> u64 \<Rightarrow> mt_emu_param \<Rightarrow> u8 list \<Rightarrow> u32 \<Rightarrow> u32 \<Rightarrow> (nat \<Rightarrow> u8) \<Rightarrow> mt_dev \<Rightarrow> (int \<times> (nat \<Rightarrow> u8) \<times> mt_dev) option kio" where
  "pcief_cfg_read k arg p d offset len out dv = do {
     r \<leftarrow> dev_ioctl k MT_IOCTL_CFG_RW arg (cfg_param p BAR_RD offset len) d dv;
     State_Monad.return (map_option (\<lambda>(ret, q, d, dv). if ret \<noteq> 0 then (ret, out, dv) else (ret, put_piece 0 (unat (p_d0 q)) d out, dv)) r) }"

definition pcief_read_exp_rom :: "kenv \<Rightarrow> u64 \<Rightarrow> mt_emu_param \<Rightarrow> u8 list \<Rightarrow> u32 \<Rightarrow> (nat \<Rightarrow> u8) \<Rightarrow> mt_dev \<Rightarrow> (int \<times> (nat \<Rightarrow> u8) \<times> mt_dev) option kio" where
  "pcief_read_exp_rom k arg p d len out dv =
    (let sz = (if QY_MAX_RW < len then QY_MAX_RW else len) in do {
       r \<leftarrow> dev_ioctl k MT_IOCTL_READ_ROM arg (p\<lparr>p_d0 := sz\<rparr>) d dv;
       State_Monad.return (map_option (\<lambda>(ret, _, d, dv). if ret \<noteq> 0 then (ret, out, dv) else (ret, put_piece 0 (unat sz) d out, dv)) r) })"

section \<open>Power and interrupts\<close>

definition pcief_get_power :: "kenv \<Rightarrow> u64 \<Rightarrow> mt_emu_param \<Rightarrow> u32 \<Rightarrow> mt_dev \<Rightarrow> (int \<times> u32 \<times> mt_dev) option kio" where
  "pcief_get_power k arg p state dv = do {
     r \<leftarrow> dev_ioctl k MT_IOCTL_GET_POWER arg p [] dv;
     State_Monad.return (map_option (\<lambda>(ret, q, _, dv). (ret, if ret \<noteq> 0 then state else p_d0 q, dv)) r) }"

definition pcief_suspend :: "kenv \<Rightarrow> u64 \<Rightarrow> mt_emu_param \<Rightarrow> u32 \<Rightarrow> mt_dev \<Rightarrow> (int \<times> mt_dev) option kio" where
  "pcief_suspend k arg p state dv = do {
     r \<leftarrow> dev_ioctl k MT_IOCTL_SUSPEND arg (p\<lparr>p_d0 := state\<rparr>) [] dv;
     State_Monad.return (map_option (\<lambda>(ret, _, _, dv). (ret, dv)) r) }"

definition pcief_resume :: "kenv \<Rightarrow> u64 \<Rightarrow> mt_emu_param \<Rightarrow> mt_dev \<Rightarrow> (int \<times> mt_dev) option kio" where
  "pcief_resume k arg p dv = do {
     r \<leftarrow> dev_ioctl k MT_IOCTL_RESUME arg p [] dv;
     State_Monad.return (map_option (\<lambda>(ret, _, _, dv). (ret, dv)) r) }"

text \<open>The functions that report through \<open>*done\<close>: a call that fails is reported as a result of 0 with \<open>*done\<close> 0.\<close>

definition done_call :: "kenv \<Rightarrow> ioctl_cmd \<Rightarrow> u64 \<Rightarrow> mt_emu_param \<Rightarrow> mt_dev \<Rightarrow> (int \<times> u32 \<times> mt_dev) option kio" where
  "done_call k cmd arg p dv = do {
     r \<leftarrow> dev_ioctl k cmd arg p [] dv;
     State_Monad.return (map_option (\<lambda>(ret, q, _, dv). (0, if ret \<noteq> 0 then 0 else ucast (p_b0 q), dv)) r) }"

definition pcief_wait_int :: "kenv \<Rightarrow> u64 \<Rightarrow> mt_emu_param \<Rightarrow> int \<Rightarrow> u32 \<Rightarrow> mt_dev \<Rightarrow> (int \<times> u32 \<times> mt_dev) option kio" where
  "pcief_wait_int k arg p irq timeout_ms dv = done_call k MT_IOCTL_WAIT_INT arg (p\<lparr>p_b0 := word_of_int irq, p_d0 := timeout_ms\<rparr>) dv"

definition pcief_trig_int :: "kenv \<Rightarrow> u64 \<Rightarrow> mt_emu_param \<Rightarrow> int \<Rightarrow> mt_dev \<Rightarrow> (int \<times> u32 \<times> mt_dev) option kio" where
  "pcief_trig_int k arg p irq dv = done_call k MT_IOCTL_TRIG_INT arg (p\<lparr>p_b0 := word_of_int irq\<rparr>) dv"

definition pcief_tgt_cmd :: "kenv \<Rightarrow> u64 \<Rightarrow> mt_emu_param \<Rightarrow> u8 \<Rightarrow> u32 \<Rightarrow> mt_dev \<Rightarrow> (int \<times> u32 \<times> mt_dev) option kio" where
  "pcief_tgt_cmd k arg p target timeout_ms dv = done_call k MT_IOCTL_IPC arg (p\<lparr>p_b0 := target, p_d0 := timeout_ms\<rparr>) dv"

definition pcief_irq_init :: "kenv \<Rightarrow> u64 \<Rightarrow> mt_emu_param \<Rightarrow> u8 \<Rightarrow> u8 \<Rightarrow> mt_dev \<Rightarrow> (int \<times> mt_dev) option kio" where
  "pcief_irq_init k arg p type test_mode dv = do {
     r \<leftarrow> dev_ioctl k MT_IOCTL_IRQ_INIT arg (p\<lparr>p_b0 := type, p_b1 := test_mode\<rparr>) [] dv;
     State_Monad.return (map_option (\<lambda>(ret, q, _, dv). (if ret \<noteq> 0 then -1 else if p_b0 q \<noteq> 0 then -1 else 0, dv)) r) }"

definition pcief_dmaisr_set :: "kenv \<Rightarrow> u64 \<Rightarrow> mt_emu_param \<Rightarrow> u8 \<Rightarrow> mt_dev \<Rightarrow> (int \<times> mt_dev) option kio" where
  "pcief_dmaisr_set k arg p dmabare dv = do {
     r \<leftarrow> dev_ioctl k MT_IOCTL_DMAISR_SET arg (p\<lparr>p_b0 := dmabare\<rparr>) [] dv;
     State_Monad.return (map_option (\<lambda>(ret, _, _, dv). (if ret \<noteq> 0 then -1 else 0, dv)) r) }"

section \<open>DMA\<close>

text \<open>\<open>arg\<close> is the address one page before the buffer of the caller, which \<open>pcief_mtdma_engine_malloc\<close> reserves for the parameters.  \<open>k0\<close> answers the first of
  the two calls.\<close>

definition pcief_mtdma_engine_start :: "kenv \<Rightarrow> kenv \<Rightarrow> u64 \<Rightarrow> mt_emu_param \<Rightarrow> mt_emu_param \<Rightarrow> mtdma_rw \<Rightarrow> u64 \<Rightarrow> mt_dev \<Rightarrow> (int \<times> u32 \<times> mt_dev) option kio" where
  "pcief_mtdma_engine_start k0 k arg0 p0 p info rw_buf dv =
    (let arg = rw_buf - MTDMA_BUF_START in do {
       r \<leftarrow> pcief_dmaisr_set k0 arg0 p0 0 dv;
       (case r of
          None \<Rightarrow> State_Monad.return None
        | Some (_, dv) \<Rightarrow>
            done_call (k\<lparr>user_rw := info\<rparr>) MT_IOCTL_MTDMA_RW arg (p\<lparr>p_d0 := ucast (of_nat SIZEOF_MTDMA_RW + rw_size info)\<rparr>) dv) })"

text \<open>The function on which \<open>pcief_dma_bare_xfer\<close> works, and the transfer.\<close>

definition bare_fun :: "u32 \<Rightarrow> nat" where
  "bare_fun ch_num = (if VF_NUM = 0 then F_GPU else if unat ch_num < VF_NUM then unat ch_num + 2 else F_GPU)"

definition pcief_dma_bare_xfer :: "kenv \<Rightarrow> kenv \<Rightarrow> u64 \<Rightarrow> mt_emu_param \<Rightarrow> mt_emu_param \<Rightarrow> dma_bare_rw \<Rightarrow> (nat \<Rightarrow> mt_dev) \<Rightarrow> (int \<times> (nat \<Rightarrow> mt_dev)) option kio" where
  "pcief_dma_bare_xfer k0 k arg p0 p rw dvs =
    (if 4 \<le> br_data_direction rw then State_Monad.return (Some (-1, dvs))
     else (let f = bare_fun (br_ch_num rw) in do {
       r \<leftarrow> pcief_dmaisr_set k0 arg p0 1 (dvs f);
       (case r of
          None \<Rightarrow> State_Monad.return None
        | Some (_, dv) \<Rightarrow> do {
            r \<leftarrow> dev_ioctl (k\<lparr>user_bare := rw\<rparr>) MT_IOCTL_MTDMA_BARE_RW arg (p\<lparr>p_d0 := of_nat SIZEOF_DMA_BARE_RW\<rparr>) [] dv;
            State_Monad.return (map_option (\<lambda>(ret, q, _, dv). (if ret \<noteq> 0 then -1 else if p_b0 q \<noteq> 1 then -1 else 0, dvs(f := dv))) r) }) }))"

end
