(* ===== verification/ClientLibProps.thy ===== *)
theory ClientLibProps
  imports ClientLib
begin

text \<open>
  Properties of the client library: the text of an attribute is read back as the numbers that were printed, so that the client
  knows of every region exactly what the driver recorded at the probe; every function has a device file of its own; and the transfers through
  mapped memory move every byte once.
\<close>

section \<open>Numbers as text\<close>

lemma of_char_int: "(of_char (char_of n) :: int) = int (n mod 256)"
  by (metis of_char_of of_nat_of_char)

lemma hex_digit_char: "d < 16 \<Longrightarrow> hex_digit (digit_char d) = Some (int d)"
  by (simp add: hex_digit_def digit_char_def Let_def of_char_int)

definition digits_value :: "nat \<Rightarrow> string \<Rightarrow> nat" where
  "digits_value b s = foldl (\<lambda>a c. b * a + nat (the (hex_digit c))) 0 s"

lemma text_of_digits:
  assumes "2 \<le> b" "b \<le> 16"
  shows "digits_value b (text_of b n) = n \<and> text_of b n \<noteq> [] \<and> (\<forall>c \<in> set (text_of b n). hex_digit c \<noteq> None)"
proof (induction n rule: less_induct)
  case (less n)
  show ?case
  proof (cases "n < b")
    case True
    then show ?thesis using assms hex_digit_char[of n] by (subst (1 2 3) text_of.simps) (simp add: digits_value_def)
  next
    case False
    then have "n div b < n" using assms(1) by (intro div_less_dividend) simp_all
    moreover have "n mod b < 16" using assms by (meson dual_order.strict_trans2 le_trans mod_less_divisor not_less less_le_trans zero_less_numeral)
    moreover have "text_of b n = text_of b (n div b) @ [digit_char (n mod b)]" using False assms(1) by (subst text_of.simps) simp
    ultimately show ?thesis using less.IH[of "n div b"] hex_digit_char[of "n mod b"] by (simp add: digits_value_def)
  qed
qed

lemma text_of_inj: "2 \<le> b \<Longrightarrow> b \<le> 16 \<Longrightarrow> text_of b m = text_of b n \<longleftrightarrow> m = n"
  by (metis text_of_digits)

lemma hex_digits_value:
  "\<forall>c \<in> set s. hex_digit c \<noteq> None \<Longrightarrow> hex_digits s (int a) = int (foldl (\<lambda>a c. 16 * a + nat (the (hex_digit c))) a s)"
proof (induction s arbitrary: a)
  case (Cons c s)
  obtain d where d: "hex_digit c = Some d" using Cons.prems by auto
  then have "0 \<le> d" by (auto simp: hex_digit_def Let_def split: if_splits)
  then have "16 * int a + d = int (16 * a + nat d)" by simp
  then show ?case using Cons.IH[of "16 * a + nat d"] Cons.prems d by simp
qed simp

lemma text_of_length: "n < 16 ^ k \<Longrightarrow> 0 < k \<Longrightarrow> length (text_of 16 n) \<le> k"
proof (induction k arbitrary: n)
  case (Suc k)
  show ?case
  proof (cases "n < 16")
    case False
    then have k: "0 < k" using Suc.prems(1) by (cases k) auto
    have "n div 16 < 16 ^ k" using Suc.prems(1) by (simp add: less_mult_imp_div_less mult.commute)
    then have "length (text_of 16 (n div 16)) \<le> k" using Suc.IH k by simp
    then show ?thesis using False by (subst text_of.simps) simp
  qed (subst text_of.simps, simp)
qed simp

lemma scan_hex_text:
  assumes "n < 2 ^ 64" "hex_digit c = None" "c \<noteq> CHR ''x''" "c \<noteq> CHR ''X''"
  shows "scan_hex (text_of 16 n @ c # s) = Some (of_nat n, c # s)"
proof -
  define t where "t = text_of 16 n"
  have t: "digits_value 16 t = n" "t \<noteq> []" and dig: "\<forall>c \<in> set t. hex_digit c \<noteq> None" using text_of_digits[of 16 n] by (simp_all add: t_def)
  obtain h r where h: "t = h # r" using t(2) by (cases t) auto
  have hd: "hex_digit h \<noteq> None" using dig h by simp
  then have w: "of_char h \<notin> {9, 10, 11, 12, 13, 32 :: nat}" "h \<noteq> CHR ''-''" "h \<noteq> CHR ''+''"
    unfolding hex_digit_def Let_def of_nat_of_char[of h, where 'a = int, symmetric] by (auto split: if_splits)
  have x: "hex_digit (CHR ''x'') = None" "hex_digit (CHR ''X'') = None" by (simp_all add: hex_digit_def)
  have nx: "skip_0x (t @ c # s) = t @ c # s"
    using dig x assms(3,4) h by (cases r) (auto simp: skip_0x_def split: list.splits)
  have dw: "dropWhile (\<lambda>c. of_char c \<in> {9, 10, 11, 12, 13, 32 :: nat}) (t @ c # s) = t @ c # s" using w(1) h by simp
  have tw: "takeWhile (\<lambda>c. hex_digit c \<noteq> None) (t @ c # s) = t" using dig assms(2) by (simp add: takeWhile_append)
  have v: "hex_digits t 0 = int n" using hex_digits_value[OF dig, of 0] t(1) by (simp add: digits_value_def)
  have m: "min 18446744073709551615 (int n) = int n" using assms(1) by simp
  have hd: "hd t \<noteq> CHR ''-''" "hd t \<noteq> CHR ''+''" using w(2,3) h by simp_all
  have "scan_hex (t @ c # s) = Some (word_of_int (int n), c # s)"
    unfolding scan_hex_def Let_def dw using t(2) by (simp add: hd nx tw v m del: not_None_eq)
  then show ?thesis by (simp add: t_def)
qed

lemma scan_region_text: "scan_region (take 254 (region_text p v z)) old = (p, v, z)"
proof -
  have len: "length (text_of 16 (unat w)) \<le> 16" for w :: u64 using unsigned_less[of w] by (intro text_of_length) simp_all
  have "length (region_text p v z) \<le> 254" using len[of p] len[of v] len[of z] by (simp add: region_text_def newline_def)
  then have t: "take 254 (region_text p v z) = text_of 16 (unat p) @ CHR '':'' # text_of 16 (unat v) @ CHR '':'' # text_of 16 (unat z) @ CHR 0x0A # []"
    by (simp add: region_text_def newline_def)
  have lt: "unat w < 2 ^ 64" for w :: u64 using unsigned_less[of w] by simp
  have c: "hex_digit (CHR '':'') = None" "hex_digit (CHR 0x0A) = None" by (simp_all add: hex_digit_def of_char_int)
  note sc = scan_hex_text[OF lt c(1)] scan_hex_text[OF lt c(2)]
  show ?thesis unfolding t scan_region_def by (cases old) (simp add: sc)
qed

section \<open>Device files\<close>

text \<open>Every function the library knows has a device file of its own, and for a virtual function it is the one the driver registers under the
  function's number; its minor number is fixed, and not the one that asks for any free number.\<close>

theorem client_opens_own_device:
  assumes "pcief_open f = Some path"
  shows "(pcief_open g = Some path \<longleftrightarrow> g = f) \<and>
    (2 \<le> f \<and> f < VF_NUM + 2 \<longrightarrow> path = ''/dev/'' @ misc_dev_name f \<and> vgpu_minor f < 255) \<and> (f = 1 \<longrightarrow> False)"
proof -
  have "pcief_open g = Some path \<longleftrightarrow> g = f"
    using assms text_of_inj[of 10 f g]
    by (auto simp: pcief_open_def F_GPU_def F_MTDMA_def VF_NUM_def MT_GPU_NAME_def MT_VGPU_NAME_def MT_MTDMA_NAME_def split: if_splits)
  then show ?thesis using assms
    by (auto simp: pcief_open_def F_GPU_def F_MTDMA_def VF_NUM_def misc_dev_name_def vgpu_minor_def VGPU_STATIC_MINOR_START_def split: if_splits)
qed

section \<open>Finding the regions\<close>

lemma page_up:
  assumes "0 < z" "unat (z :: u64) + 4095 < 2 ^ 64"
  shows "drop_bit 12 ((z + 4095) AND NOT 4095) = drop_bit 12 (z + 4096 - 1)"
proof -
  have "drop_bit 12 (w AND NOT 4095) = drop_bit 12 w" for w :: u64
  proof (rule bit_eqI)
    fix k
    have "\<not> bit (4095 :: u64) (12 + k)"
    proof -
      have m: "(4095 :: u64) = mask 12" by (simp add: mask_eq_exp_minus_1)
      show ?thesis unfolding m bit_mask_iff by simp
    qed
    then show "bit (drop_bit 12 (w AND NOT 4095)) k = bit (drop_bit 12 w) k"
      unfolding bit_drop_bit_eq comp_apply bit_and_iff bit_not_iff by (auto dest: bit_imp_possible_bit)
  qed
  then show ?thesis by (simp add: add.commute)
qed

text \<open>A region as the client should get it: with the bus address, the address in the kernel, the size, and the place where the kernel has mapped it.\<close>

definition client_bar :: "(nat \<Rightarrow> u64) \<Rightarrow> (nat \<Rightarrow> u64) \<Rightarrow> emu_pcie \<Rightarrow> nat set \<Rightarrow> nat \<Rightarrow> pcief_bar" where
  "client_bar kva ma ep shown i =
    (let r = region ep ! i in
     if i \<in> shown \<and> 0 < rg_size r
     then \<lparr>bar_paddr = rg_paddr r, bar_vaddr = kernel_addr kva (rg_base r), bar_size = rg_size r, bar_map_addr = ma i\<rparr> else no_bar)"

lemma bar_names:
  "''bar'' @ text_of 10 0 = ''bar0''" "''bar'' @ text_of 10 1 = ''bar1''" "''bar'' @ text_of 10 2 = ''bar2''" "''bar'' @ text_of 10 3 = ''bar3''"
  "''bar'' @ text_of 10 4 = ''bar4''" "''bar'' @ text_of 10 5 = ''bar5''" "''bar'' @ text_of 10 6 = ''bar6''"
  by code_simp+

lemma get_bar_shown:
  assumes "rd (''bar'' @ text_of 10 i) = show_bar kva (Some ep) i" "i < length (region ep)" "i \<in> {0, 2, 4, 6}" "unat (rg_size (region ep ! i)) + 4095 < 2 ^ 64" "remap_ok i"
    "i \<in> shown"
  shows "get_bar rd (dev_mmap ep ma remap_ok) junk i = client_bar kva ma ep shown i"
proof -
  let ?r = "region ep ! i"
  have t: "rd (''bar'' @ text_of 10 i) = Some (region_text (rg_paddr ?r) (kernel_addr kva (rg_base ?r)) (rg_size ?r))"
    using assms(1,2) by (simp add: show_bar_def Let_def)
  have "dev_mmap ep ma remap_ok i (rg_size ?r) = Some (ma i)" if z: "0 < rg_size ?r"
    using assms(3,5) page_up[OF z assms(4)] by (auto simp: dev_mmap_def mt_test_mmap_def Let_def)
  then show ?thesis using assms(6) unfolding get_bar_def t option.case scan_region_text
    by (simp add: client_bar_def Let_def)
qed

lemma get_bar_hidden: "rd (''bar'' @ text_of 10 i) = None \<Longrightarrow> i \<notin> shown \<Longrightarrow> get_bar rd mm junk i = client_bar kva ma ep shown i"
  by (simp add: get_bar_def client_bar_def)

lemma regions_found:
  assumes "length (region ep) = 7" "\<forall>i \<in> {0, 2, 4, 6}. unat (rg_size (region ep ! i)) + 4095 < 2 ^ 64 \<and> remap_ok i"
  shows "pcief_get_instance (attr_read (gpu_attrs kva (Some ep))) (dev_mmap ep ma remap_ok) junk = map (client_bar kva ma ep {0, 2, 4, 6}) [0..<7]"
    "pcief_get_instance (attr_read (vgpu_attrs kva (Some ep))) (dev_mmap ep ma remap_ok) junk = map (client_bar kva ma ep {0, 2}) [0..<7]"
proof -
  let ?g = "attr_read (gpu_attrs kva (Some ep))" and ?v = "attr_read (vgpu_attrs kva (Some ep))"
  have g: "?g ''bar0'' = show_bar kva (Some ep) 0" "?g ''bar1'' = None" "?g ''bar2'' = show_bar kva (Some ep) 2" "?g ''bar3'' = None"
      "?g ''bar4'' = show_bar kva (Some ep) 4" "?g ''bar5'' = None" "?g ''bar6'' = show_bar kva (Some ep) 6"
    and v: "?v ''bar0'' = show_bar kva (Some ep) 0" "?v ''bar1'' = None" "?v ''bar2'' = show_bar kva (Some ep) 2" "?v ''bar3'' = None"
      "?v ''bar4'' = None" "?v ''bar5'' = None" "?v ''bar6'' = None"
    by (simp_all add: attr_read_def gpu_attrs_def vgpu_attrs_def)
  have ok: "i < length (region ep)" "unat (rg_size (region ep ! i)) + 4095 < 2 ^ 64" "remap_ok i" if "i \<in> {0, 2, 4, 6}" for i
    using assms that by auto
  have shown: "get_bar rd (dev_mmap ep ma remap_ok) junk i = client_bar kva ma ep S i"
    if "rd (''bar'' @ text_of 10 i) = show_bar kva (Some ep) i" "i \<in> {0, 2, 4, 6}" "i \<in> S" for rd i S
    using that ok[OF that(2)] by (intro get_bar_shown) simp_all
  have odd: "i \<in> {1, 3, 5}" if "i < 7" "i \<notin> {0, 2, 4, 6}" for i :: nat using that by simp presburger
  have gs: "?g (''bar'' @ text_of 10 i) = show_bar kva (Some ep) i" if "i \<in> {0, 2, 4, 6}" for i
    using that by (elim insertE emptyE; simp only: bar_names g)
  have gh: "?g (''bar'' @ text_of 10 i) = None" if "i \<in> {1, 3, 5}" for i
    using that by (elim insertE emptyE; simp only: bar_names g)
  show "pcief_get_instance ?g (dev_mmap ep ma remap_ok) junk = map (client_bar kva ma ep {0, 2, 4, 6}) [0..<7]"
    unfolding pcief_get_instance_def F_BAR_MAX_def
  proof (rule map_cong[OF refl])
    fix i assume "i \<in> set [0..<7 :: nat]"
    then show "get_bar ?g (dev_mmap ep ma remap_ok) junk i = client_bar kva ma ep {0, 2, 4, 6} i"
      using odd[of i] shown[of ?g i "{0, 2, 4, 6}"] gs[of i] get_bar_hidden[of ?g i "{0, 2, 4, 6}" "dev_mmap ep ma remap_ok" junk kva ma ep] gh[of i]
      by (cases "i \<in> {0, 2, 4, 6}") auto
  qed
  have vs: "?v (''bar'' @ text_of 10 i) = show_bar kva (Some ep) i" if "i \<in> {0, 2}" for i
    using that by (elim insertE emptyE; simp only: bar_names v)
  have vh: "?v (''bar'' @ text_of 10 i) = None" if "i \<in> {1, 3, 4, 5, 6}" for i
    using that by (elim insertE emptyE; simp only: bar_names v)
  show "pcief_get_instance ?v (dev_mmap ep ma remap_ok) junk = map (client_bar kva ma ep {0, 2}) [0..<7]"
    unfolding pcief_get_instance_def F_BAR_MAX_def
  proof (rule map_cong[OF refl])
    fix i assume i: "i \<in> set [0..<7 :: nat]"
    then have "i \<in> {1, 3, 4, 5, 6}" if "i \<notin> {0, 2}" using odd[of i] that by auto
    then show "get_bar ?v (dev_mmap ep ma remap_ok) junk i = client_bar kva ma ep {0, 2} i"
      using shown[of ?v i "{0, 2}"] vs[of i] get_bar_hidden[of ?v i "{0, 2}" "dev_mmap ep ma remap_ok" junk kva ma ep] vh[of i] by (cases "i \<in> {0, 2}") auto
  qed
qed

text \<open>C22. The client gets every region that a probe recorded and that has an attribute exactly as the driver knows it: for the graphics function regions 0, 2, 4
  and 6, for a virtual function 0 and 2; those that are empty or have no attribute are absent for it, whatever its uninitialised variables hold.\<close>

theorem client_sees_regions:
  assumes "length (region ep) = 7" "\<forall>i \<in> {0, 2, 4, 6}. unat (rg_size (region ep ! i)) + 4095 < 2 ^ 64 \<and> remap_ok i"
  shows "pcief_get_instance (attr_read (gpu_attrs kva (Some ep))) (dev_mmap ep ma remap_ok) junk = map (client_bar kva ma ep {0, 2, 4, 6}) [0..<7] \<and>
    pcief_get_instance (attr_read (vgpu_attrs kva (Some ep))) (dev_mmap ep ma remap_ok) junk = map (client_bar kva ma ep {0, 2}) [0..<7]"
  using regions_found[OF assms] by blast

section \<open>Mapped memory\<close>

definition covers :: "nat \<times> nat \<Rightarrow> nat list" where
  "covers wi = [snd wi..<snd wi + fst wi]"

lemma upto_join: "a \<le> b \<Longrightarrow> b \<le> c \<Longrightarrow> [a..<b] @ [b..<c] = [a..<c]"
  using upt_add_eq_append[of a b "c - b"] by simp

lemma covers_quads: "concat (map covers (map (\<lambda>k. (8, 8 * k)) [0..<n])) = [0..<8 * n]"
  by (induction n) (simp_all add: covers_def upto_join[of 0] add.commute)

lemma unat_bound: "unat (w :: 'a::len word) < 2 ^ LENGTH('a)"
  by (rule unsigned_less)

lemma unat_len: "unat (ucast len :: u64) = unat (len :: u32)"
  using unat_bound[of len] by (simp add: unsigned_ucast_eq take_bit_nat_eq_self)

text \<open>The accesses move every byte once, from the first to the last, and each is aligned to its width.\<close>

lemma plan_covers:
  "concat (map covers (xfer_plan len)) = [0..<len] \<and> (\<forall>(w, i) \<in> set (xfer_plan len). w dvd i \<and> w \<in> {1, 2, 4, 8})"
proof -
  define q where "q = len div 8"
  define d where "d = (if 8 * q + 4 \<le> len then 8 * q + 4 else 8 * q)"
  define w where "w = (if d + 2 \<le> len then d + 2 else d)"
  have len: "8 * q \<le> d" "d \<le> w" "w \<le> len" "len \<le> w + 1" "len < 8 * q + 8"
    unfolding d_def w_def q_def by (auto split: if_splits)
  have c4: "len div 8 * 8 < len div 4 * 4 \<longleftrightarrow> 8 * q + 4 \<le> len" unfolding q_def by presburger
  have c2: "d < len div 2 * 2 \<longleftrightarrow> d + 2 \<le> len" unfolding d_def q_def by (auto split: if_splits) presburger+
  have p: "xfer_plan len = map (\<lambda>k. (8, 8 * k)) [0..<q] @ (if 8 * q < d then [(4, 8 * q)] else []) @ (if d < w then [(2, d)] else []) @ (if w < len then [(1, w)] else [])"
    unfolding xfer_plan_def Let_def c4 using c2 by (auto simp: q_def[symmetric] d_def w_def mult.commute)
  have "concat (map covers (xfer_plan len)) = [0..<8 * q] @ [8 * q..<d] @ [d..<w] @ [w..<len]"
    unfolding p map_append concat_append covers_quads using len by (auto simp: covers_def d_def w_def not_less upt_rec)
  also have "\<dots> = [0..<len]" using len by (simp add: upto_join)
  finally show ?thesis unfolding p by (auto simp: d_def w_def split: if_splits)
qed

lemma move_plan:
  "fold (\<lambda>wi. move_bytes wi src dst from) plan to = fold (\<lambda>j m. m(dst j := from (src j))) (concat (map covers plan)) to"
proof (induction plan arbitrary: to)
  case (Cons wi plan)
  have "move_bytes wi src dst from to = fold (\<lambda>j m. m(dst j := from (src j))) (covers wi) to"
    unfolding move_bytes_def covers_def using fold_map[of "\<lambda>j m. m(dst j := from (src j))" "\<lambda>k. snd wi + k" "[0..<fst wi]"]
    by (simp add: case_prod_unfold comp_def add.commute[of "snd wi"] map_add_upt)
  then show ?case by (simp only: fold_Cons o_apply list.map concat.simps fold_append Cons.IH)
qed simp

lemma moved_bytes:
  "inj_on dst (set js) \<Longrightarrow> distinct js \<Longrightarrow>
    (\<forall>j \<in> set js. fold (\<lambda>j m. m(dst j := from (src j))) js to (dst j) = from (src j)) \<and>
    (\<forall>a. a \<notin> dst ` set js \<longrightarrow> fold (\<lambda>j m. m(dst j := from (src j))) js to a = to a)"
proof (induction js arbitrary: to)
  case (Cons j js)
  have "dst j \<notin> dst ` set js" using Cons.prems by (auto dest: inj_onD)
  then show ?case using Cons by auto
qed simp

lemma bytes_inj: "n \<le> 2 ^ 64 \<Longrightarrow> inj_on (\<lambda>j. a + of_nat j :: u64) {..<n}"
  by (rule inj_onI) (simp add: word_of_nat_eq_iff take_bit_nat_eq_self)

lemma plan_result:
  assumes "m = fold (\<lambda>wi. move_bytes wi (\<lambda>j. s + of_nat j) (\<lambda>j. d + of_nat j) from) (xfer_plan (unat (len :: u32))) to"
  shows "j < unat len \<Longrightarrow> m (d + of_nat j) = from (s + of_nat j)" "a \<notin> (\<lambda>j. d + of_nat j) ` {..<unat len} \<Longrightarrow> m a = to a"
proof -
  have l: "unat len \<le> 2 ^ 64" using unat_bound[of len] by simp
  have e: "m = fold (\<lambda>j m. m(d + of_nat j := from (s + of_nat j))) [0..<unat len] to"
    unfolding assms move_plan using conjunct1[OF plan_covers] by simp
  note r = moved_bytes[of "\<lambda>j. d + of_nat j" "[0..<unat len]" "from" "\<lambda>j. s + of_nat j" to]
  have i: "inj_on (\<lambda>j. d + of_nat j) (set [0..<unat len])" using bytes_inj[OF l, of d] by (simp add: lessThan_atLeast0)
  show "j < unat len \<Longrightarrow> m (d + of_nat j) = from (s + of_nat j)" "a \<notin> (\<lambda>j. d + of_nat j) ` {..<unat len} \<Longrightarrow> m a = to a"
    using r[OF i distinct_upt] unfolding e by (simp_all add: lessThan_atLeast0)
qed

text \<open>A write within the region changes the bytes it is for and no others, and reading them again, into another place, gives what was written.\<close>

theorem client_write_read:
  assumes "unat offset + unat len \<le> unat (bar_size bar)" "unat len < 2 ^ 31"
  shows "\<exists>dev'. pcief_write bar offset len data user dev = Some (0, dev') \<and>
    (\<forall>j < unat len. dev' (bar_map_addr bar + offset + of_nat j) = user (data + of_nat j)) \<and>
    (\<forall>a. a \<notin> (\<lambda>j. bar_map_addr bar + offset + of_nat j) ` {..<unat len} \<longrightarrow> dev' a = dev a) \<and>
    (\<exists>user'. pcief_read bar offset len data2 dev' user2 = Some (0, user') \<and> (\<forall>j < unat len. user' (data2 + of_nat j) = user (data + of_nat j)))"
proof -
  have "unat (offset + ucast len) = unat offset + unat len"
    using assms(1) unat_bound[of "bar_size bar"] by (subst unat_add_lem[THEN iffD1]) (simp_all add: unat_len)
  then have ok: "\<not> bar_size bar < offset + ucast len" using assms(1) by (simp add: word_less_nat_alt)
  define dev' where "dev' = fold (\<lambda>wi. move_bytes wi (\<lambda>j. data + of_nat j) (\<lambda>j. bar_map_addr bar + offset + of_nat j) user) (xfer_plan (unat len)) dev"
  define user' where "user' = fold (\<lambda>wi. move_bytes wi (\<lambda>j. bar_map_addr bar + offset + of_nat j) (\<lambda>j. data2 + of_nat j) dev') (xfer_plan (unat len)) user2"
  have "pcief_write bar offset len data user dev = Some (0, dev')" "pcief_read bar offset len data2 dev' user2 = Some (0, user')"
    using ok assms(2) by (simp_all add: pcief_write_def pcief_read_def dev'_def user'_def)
  then show ?thesis using plan_result[OF dev'_def] plan_result(1)[OF user'_def] by auto
qed

text \<open>But the check of the bounds is made modulo \<open>2\<^sup>6\<^sup>4\<close>: an offset so large that the end of the transfer wraps around is accepted, and the accesses go
  to addresses below the mapping.\<close>

theorem client_bound_wraps:
  assumes "2 ^ 64 \<le> unat offset + unat len" "unat offset + unat len - 2 ^ 64 \<le> unat (bar_size bar)" "unat len < 2 ^ 31"
  shows "\<exists>dev'. pcief_write bar offset len data user dev = Some (0, dev') \<and>
    (\<forall>j < unat len. dev' (bar_map_addr bar + offset + of_nat j) = user (data + of_nat j)) \<and> unat (bar_map_addr bar + offset) = (unat (bar_map_addr bar) + unat offset) mod 2 ^ 64"
proof -
  have "unat (offset + ucast len) = (unat offset + unat len) mod 2 ^ 64" by (simp add: unat_word_ariths unat_len)
  also have "\<dots> = unat offset + unat len - 2 ^ 64"
    using assms(1) unat_bound[of offset] unat_bound[of len] by (simp add: le_mod_geq)
  finally have ok: "\<not> bar_size bar < offset + ucast len" using assms(2) by (simp add: word_less_nat_alt)
  define dev' where "dev' = fold (\<lambda>wi. move_bytes wi (\<lambda>j. data + of_nat j) (\<lambda>j. bar_map_addr bar + offset + of_nat j) user) (xfer_plan (unat len)) dev"
  have "pcief_write bar offset len data user dev = Some (0, dev')" using ok assms(3) by (simp add: pcief_write_def dev'_def)
  then show ?thesis using plan_result(1)[OF dev'_def] by (auto simp: unat_word_ariths)
qed

section \<open>Witnesses\<close>

definition demo_ep :: emu_pcie where
  "demo_ep = (new_ep MT_EMU_TYPE_GPU 0)\<lparr>region := replicate 6 \<lparr>rg_paddr = 0x10000000, rg_base = (0, 0), rg_size = 0x2000\<rparr> @
     [\<lparr>rg_paddr = 0, rg_base = (0, 0), rg_size = 0\<rparr>]\<rparr>"

definition demo_client :: pcief_bar where
  "demo_client = \<lparr>bar_paddr = 0x10000000, bar_vaddr = 0xff00, bar_size = 0x2000, bar_map_addr = 0x7000\<rparr>"

theorem client_opens_own_device_witness: "pcief_open 7 = Some ''/dev/mt_emu_vgpu7'' \<and> pcief_open 8 \<noteq> Some ''/dev/mt_emu_vgpu7''"
proof -
  have p: "pcief_open 7 = Some ''/dev/mt_emu_vgpu7''" by code_simp
  from client_opens_own_device[OF p, of 8] p show ?thesis by simp
qed

theorem client_sees_regions_witness:
  "pcief_get_instance (attr_read (gpu_attrs (\<lambda>_. 0xff00) (Some demo_ep))) (dev_mmap demo_ep (\<lambda>_. 0x7000) (\<lambda>_. True)) (1, 2) ! 2 = demo_client \<and>
    pcief_get_instance (attr_read (gpu_attrs (\<lambda>_. 0xff00) (Some demo_ep))) (dev_mmap demo_ep (\<lambda>_. 0x7000) (\<lambda>_. True)) (1, 2) ! 6 = no_bar"
proof -
  have h: "length (region demo_ep) = 7" "\<forall>i \<in> {0, 2, 4, 6}. unat (rg_size (region demo_ep ! i)) + 4095 < 2 ^ 64 \<and> (\<lambda>_. True) i"
    by (simp_all add: demo_ep_def nth_append)
  have r: "region demo_ep ! 2 = \<lparr>rg_paddr = 0x10000000, rg_base = (0, 0), rg_size = 0x2000\<rparr>"
    "region demo_ep ! 6 = \<lparr>rg_paddr = 0, rg_base = (0, 0), rg_size = 0\<rparr>" by (simp_all add: demo_ep_def nth_append)
  have n: "map f [0..<7] ! 2 = f 2" "map f [0..<7] ! 6 = f 6" for f :: "nat \<Rightarrow> pcief_bar" by (simp_all add: numeral_eq_Suc)
  show ?thesis
    unfolding n conjunct1[OF client_sees_regions[OF h, of "\<lambda>_. 0xff00" "\<lambda>_. 0x7000" "(1, 2)"]]
    by (simp add: client_bar_def r demo_client_def kernel_addr_def Let_def)
qed

theorem client_write_read_witness:
  "\<exists>dev. pcief_write demo_client 0x10 7 0x100 (\<lambda>a. ucast a) (\<lambda>_. 0) = Some (0, dev) \<and> dev 0x7016 = 6"
proof -
  have h: "unat (0x10 :: u64) + unat (7 :: u32) \<le> unat (bar_size demo_client)" "unat (7 :: u32) < 2 ^ 31" by (simp_all add: demo_client_def)
  obtain dev where d: "pcief_write demo_client 0x10 7 0x100 (\<lambda>a. ucast a) (\<lambda>_. 0) = Some (0, dev)"
      "\<forall>j < unat (7 :: u32). dev (bar_map_addr demo_client + 0x10 + of_nat j) = ucast (0x100 + of_nat j :: u64)"
    using client_write_read[OF h, of "0x100" "\<lambda>a. ucast a" "\<lambda>_. 0"] by blast
  from d(2)[rule_format, of 6] have "dev 0x7016 = 6" by (simp add: demo_client_def)
  then show ?thesis using d(1) by blast
qed

theorem client_bound_wraps_witness:
  "\<exists>dev. pcief_write demo_client 0xfffffffffffffffc 8 0x100 (\<lambda>a. ucast a) (\<lambda>_. 0) = Some (0, dev) \<and> dev 0x6ffc = 0"
proof -
  have h: "2 ^ 64 \<le> unat (0xfffffffffffffffc :: u64) + unat (8 :: u32)" "unat (0xfffffffffffffffc :: u64) + unat (8 :: u32) - 2 ^ 64 \<le> unat (bar_size demo_client)"
    "unat (8 :: u32) < 2 ^ 31" by (simp_all add: demo_client_def)
  obtain dev where d: "pcief_write demo_client 0xfffffffffffffffc 8 0x100 (\<lambda>a. ucast a) (\<lambda>_. 0) = Some (0, dev)"
      "\<forall>j < unat (8 :: u32). dev (bar_map_addr demo_client + 0xfffffffffffffffc + of_nat j) = ucast (0x100 + of_nat j :: u64)"
    using client_bound_wraps[OF h, of "0x100" "\<lambda>a. ucast a" "\<lambda>_. 0"] by blast
  have a: "(0x7000 + 0xfffffffffffffffc :: u64) = 0x6ffc" by simp
  have "dev (0x7000 + 0xfffffffffffffffc) = ucast (0x100 :: u64)" using d(2)[rule_format, of 0] by (simp only: demo_client_def pcief_bar.simps) simp
  then have "dev 0x6ffc = 0" unfolding a by simp
  then show ?thesis using d(1) by blast
qed

end
