(* ===== verification/ClientCallsProps.thy ===== *)
theory ClientCallsProps
  imports ClientCalls ClientLibProps
begin

text \<open>
  Properties of the calls of the client library: a transfer of any size, cut into the pieces that the driver accepts, stores every word
  once and is read back as it was written; what the library reports of a DMA transfer is what the driver did; and reading the
  ROM gives the caller nothing of it.
\<close>

section \<open>Pieces\<close>

text \<open>A piece holds at most \<open>0x80000\<close> words; \<open>piece_words\<close> are those of piece \<open>n\<close> of \<open>N\<close> words.\<close>

definition piece_words :: "nat \<Rightarrow> nat \<Rightarrow> nat" where
  "piece_words N n = min 0x80000 (N - n * 0x80000)"

lemma max_rw: "unat QY_MAX_RW = 0x200000" "QY_MAX_RW = 0x200000" "io_pos n = 0x200000 * n"
  by (simp_all add: QY_MAX_RW_def io_pos_def)

lemma pieces:
  assumes "unat (len :: u32) = 4 * N" "N \<le> 0x20000000"
  shows "io_count len = (N + 0x7ffff) div 0x80000" "n < io_count len \<Longrightarrow> unat (io_piece len n) = 4 * piece_words N n \<and> 0 < piece_words N n \<and> n < 1024"
proof -
  have len: "len = of_nat (4 * N)" by (simp flip: assms(1))
  have "len + QY_MAX_RW - 1 = of_nat (4 * N + 0x1fffff)" by (simp add: len max_rw(2))
  then have "unat (len + QY_MAX_RW - 1) = 4 * N + 0x1fffff"
    using assms(2) by (simp add: unsigned_of_nat take_bit_nat_eq_self del: of_nat_add of_nat_mult)
  moreover have "(4 * N + 0x1fffff) div 0x200000 = (4 * N + 0x1fffff) div 4 div 0x80000" by (simp flip: div_mult2_eq)
  moreover have "(4 * N + 0x1fffff) div 4 = N + 0x7ffff" by simp
  ultimately show c: "io_count len = (N + 0x7ffff) div 0x80000" unfolding io_count_def unat_div max_rw(1) by metis
  assume n: "n < io_count len"
  then have b: "n * 0x80000 < N" unfolding c by (simp add: Suc_le_eq[symmetric] less_eq_div_iff_mult_less_eq)
  have "len - of_nat n * QY_MAX_RW = of_nat (4 * (N - n * 0x80000))"
    using b by (simp add: len max_rw(2) algebra_simps of_nat_diff)
  then have d: "unat (len - of_nat n * QY_MAX_RW) = 4 * (N - n * 0x80000)"
    using assms(2) by (simp add: unsigned_of_nat take_bit_nat_eq_self del: of_nat_diff of_nat_mult)
  show "unat (io_piece len n) = 4 * piece_words N n \<and> 0 < piece_words N n \<and> n < 1024"
    using b assms(2) d by (auto simp: io_piece_def piece_words_def Let_def word_less_nat_alt max_rw(1))
qed

lemma io_count_covers: "unat (len :: u32) = 4 * N \<Longrightarrow> N \<le> 0x20000000 \<Longrightarrow> N \<le> io_count len * 0x80000"
proof -
  assume a: "unat len = 4 * N" "N \<le> 0x20000000"
  have "(N + 0x7ffff) div 0x80000 * 0x80000 + (N + 0x7ffff) mod 0x80000 = N + 0x7ffff" by (rule div_mult_mod_eq)
  moreover have "(N + 0x7ffff) mod 0x80000 < 0x80000" by simp
  ultimately show ?thesis unfolding pieces(1)[OF a] by linarith
qed

text \<open>The words of the pieces, one after the other.\<close>

lemma piece_join:
  assumes "n * 0x80000 < N"
  shows "map f [n * 0x80000..<N] = map (\<lambda>j. f (n * 0x80000 + j)) [0..<piece_words N n] @ map f [Suc n * 0x80000..<N]"
proof (cases "Suc n * 0x80000 \<le> N")
  case True
  then have "[n * 0x80000..<N] = [n * 0x80000..<n * 0x80000 + 0x80000] @ [Suc n * 0x80000..<N]"
    using upto_join[of "n * 0x80000" "Suc n * 0x80000" N] by (simp add: add.commute)
  moreover have "piece_words N n = 0x80000" using True by (simp add: piece_words_def)
  ultimately show ?thesis by (simp add: map_add_upt[symmetric] add.commute comp_def)
next
  case False
  then have w: "piece_words N n = N - n * 0x80000" "[Suc n * 0x80000..<N] = []" by (simp_all add: piece_words_def)
  have "[n * 0x80000..<N] = map (\<lambda>j. j + n * 0x80000) [0..<N - n * 0x80000]" using assms map_add_upt[of "n * 0x80000" "N - n * 0x80000"] by simp
  then show ?thesis unfolding w by (simp add: comp_def add.commute)
qed

lemma word_at_piece:
  "word_at (bar_base ep bar (offset + of_nat n * ucast QY_MAX_RW)) j = word_at (bar_base ep bar offset) (n * 0x80000 + j)"
proof -
  have "(of_nat n * ucast QY_MAX_RW + of_nat (4 * j) :: u64) = of_nat (4 * (n * 0x80000 + j))" by (simp add: max_rw(2))
  then show ?thesis by (simp only: word_at_def bar_base_def io_off_def fst_conv snd_conv add.assoc)
qed

lemma word_at_inj: "i < 2 ^ 62 \<Longrightarrow> j < 2 ^ 62 \<Longrightarrow> word_at b i = word_at b j \<longleftrightarrow> i = j"
proof -
  assume "i < 2 ^ 62" "j < 2 ^ 62"
  then have "(of_nat (4 * i) :: u64) = of_nat (4 * j) \<longleftrightarrow> 4 * i = 4 * j"
    by (simp add: word_unat_eq_iff unsigned_of_nat take_bit_nat_eq_self del: of_nat_mult)
  then show ?thesis by (simp add: word_at_def io_off_def del: of_nat_mult)
qed

section \<open>One piece\<close>

abbreviation kernel_fine :: "kenv \<Rightarrow> bool" where
  "kernel_fine k \<equiv> \<not> param_fails k \<and> \<not> data_fails k \<and> kmalloc_ok k \<and> param_left k = 0 \<and> data_left k = 0"

abbreviation bar_words :: "(nat \<Rightarrow> u8) \<Rightarrow> nat \<Rightarrow> u32" where
  "bar_words f j \<equiv> of_le (map f [4 * j..<4 * j + 4])"

lemma run_bar_call:
  assumes "\<not> param_fails k" "run_state (ioctl_bar_rw k (d_ep dv) (p_b0 p) (p_b1 p) (p_l0 p) (p_d0 p) p) (l @ [Kc CopyParamIn]) = (Some ret, (l @ [Kc CopyParamIn]) @ es)"
  shows "run_state (dev_ioctl k MT_IOCTL_BAR_RW arg p d dv) l = (Some (libc_result ret, last_param p es, last_data d es, dv), l @ Kc CopyParamIn # es)"
  using assms by (simp add: dev_ioctl_def mt_test_ioctl_def mmio_simps Let_def)

lemma last_data_append [simp]: "last_data d (xs @ ys) = last_data (last_data d xs) ys"
  by (induction xs arbitrary: d) simp_all

lemma last_data_accesses [simp]: "last_data d (map (\<lambda>j. Acc (g j)) js) = d"
  by (induction js) simp_all

lemma accs_accesses [simp]: "accs (map (\<lambda>j. Acc (g j)) js) = map g js"
  by (induction js) simp_all

lemma piece_written:
  assumes "kernel_fine k" "p_b0 p = 0 \<or> p_b0 p = 2" "p_b1 p = 0" "unat (p_d0 p) = 4 * n" "0 < n" "n \<le> 0x80000"
  shows "\<exists>q d' es. run_state (dev_ioctl k MT_IOCTL_BAR_RW arg p d dv) l = (Some (0, q, d', dv), l @ es) \<and>
    accs es = map (\<lambda>j. Wr (word_at (bar_base (d_ep dv) (p_b0 p) (p_l0 p)) j) (bar_words (user_byte k) j)) [0..<n]"
proof -
  have a: "rw_args k (p_d0 p)" using assms by (auto simp: rw_args_def max_rw word_le_nat_alt)
  have "p_b1 p \<noteq> BAR_RD" using assms(3) by (simp add: BAR_RD_def)
  note w = run_bar_write[OF a assms(4,2) this, of "d_ep dv" "p_l0 p" p "l @ [Kc CopyParamIn]"]
  show ?thesis using run_bar_call[OF _ w, of arg d] assms(1) by (simp add: libc_result_def)
qed

lemma piece_read:
  assumes "kernel_fine k" "p_b0 p = 0 \<or> p_b0 p = 2" "p_b1 p = BAR_RD" "unat (p_d0 p) = 4 * n" "0 < n" "n \<le> 0x80000" "stable (k_hw k) (accs l) v"
  shows "\<exists>q es. run_state (dev_ioctl k MT_IOCTL_BAR_RW arg p d dv) l =
      (Some (0, q, concat (map (\<lambda>j. le_bytes 4 (v (word_at (bar_base (d_ep dv) (p_b0 p) (p_l0 p)) j))) [0..<n]), dv), l @ es) \<and>
    (\<forall>x \<in> set (accs es). \<exists>a c. x = Rd a c)"
proof -
  have a: "rw_args k (p_d0 p)" using assms by (auto simp: rw_args_def max_rw word_le_nat_alt)
  have "stable (k_hw k) (accs (l @ [Kc CopyParamIn])) v" using assms(7) by simp
  note r = run_bar_read[OF a assms(4,2) this, of "d_ep dv" "p_l0 p" p]
  show ?thesis using run_bar_call[OF _ r[folded assms(3)], of arg d] assms(1) by (simp add: libc_result_def)
qed

section \<open>All pieces\<close>

lemma upt_first: "a < n \<Longrightarrow> [a..<n] = a # [Suc a..<n]"
  by (rule upt_conv_Cons)

lemma pieces_written:
  assumes "unat len = 4 * N" "N \<le> 0x20000000" "\<And>n. kernel_fine (ks n)" "p_b0 p = 0 \<or> p_b0 p = 2" "p_b1 p = 0" "a \<le> io_count len"
  shows "\<exists>es. run_state (io_write_loop ks arg p offset len data [a..<io_count len] ret dv) l = (Some (if a < io_count len then 0 else ret, dv), l @ es) \<and>
    accs es = map (\<lambda>j. Wr (word_at (bar_base (d_ep dv) (p_b0 p) offset) j) (bar_words data j)) [a * 0x80000..<N]"
  using assms(6)
proof (induction "io_count len - a" arbitrary: a ret l)
  case 0
  then have "N \<le> a * 0x80000" using io_count_covers[OF assms(1,2)] by simp
  then show ?case using 0 by (simp add: run_state_return)
next
  case (Suc m)
  then have a: "a < io_count len" and m: "m = io_count len - Suc a" by simp_all
  note pc = pieces(2)[OF assms(1,2) a]
  let ?k = "(ks a)\<lparr>user_byte := \<lambda>i. data (io_pos a + i)\<rparr>" and ?p = "io_param p offset len a" and ?n = "piece_words N a"
  let ?W = "\<lambda>j. Wr (word_at (bar_base (d_ep dv) (p_b0 p) offset) j) (bar_words data j)"
  have "kernel_fine ?k" "p_b0 ?p = 0 \<or> p_b0 ?p = 2" "p_b1 ?p = 0" "unat (p_d0 ?p) = 4 * ?n" "0 < ?n" "?n \<le> 0x80000"
    using assms(3)[of a] assms(4,5) pc by (auto simp: io_param_def piece_words_def)
  from piece_written[OF this, of arg "[]" dv l] obtain q d' es
    where r: "run_state (dev_ioctl ?k MT_IOCTL_BAR_RW arg ?p [] dv) l = (Some (0, q, d', dv), l @ es)"
      "accs es = map (\<lambda>j. Wr (word_at (bar_base (d_ep dv) (p_b0 ?p) (p_l0 ?p)) j) (bar_words (user_byte ?k) j)) [0..<?n]" by blast
  have "bar_words (user_byte ?k) j = bar_words data (a * 0x80000 + j)" for j
    using map_add_upt[of "4 * (a * 0x80000)" "4"] by (simp add: max_rw(3) upt_rec add.assoc)
  then have es: "accs es = map (\<lambda>j. ?W (a * 0x80000 + j)) [0..<?n]"
    unfolding r(2) by (simp add: io_param_def word_at_piece)
  obtain es' where r': "run_state (io_write_loop ks arg p offset len data [Suc a..<io_count len] 0 dv) (l @ es) = (Some (0, dv), (l @ es) @ es')"
      "accs es' = map ?W [Suc a * 0x80000..<N]"
    using Suc.hyps(1)[OF m, of 0 "l @ es"] a by auto
  have "a * 0x80000 < N" using pc unfolding piece_words_def by simp
  from piece_join[OF this, of ?W] show ?case
    using pc a r(1) r' es by (intro exI[of _ "es @ es'"]) (simp add: upt_first mmio_simps)
qed

lemma bytes_nth: "i < 4 * n \<Longrightarrow> concat (map (\<lambda>j. le_bytes 4 (bar_words f j)) [0..<n]) ! i = f i"
  unfolding bytes_of_words by simp

lemma stable_reads: "stable hw t v \<Longrightarrow> \<forall>x \<in> set rs. \<exists>a c. x = Rd a c \<Longrightarrow> stable hw (t @ rs) v"
proof (induction rs arbitrary: t)
  case (Cons r rs)
  then obtain a c where "r = Rd a c" by auto
  then show ?case using Cons.IH[of "t @ [r]"] stable_read[OF Cons.prems(1), of a c] Cons.prems(2) by simp
qed simp

lemma pieces_read:
  assumes "unat len = 4 * N" "N \<le> 0x20000000" "\<And>n. kernel_fine (ks n)" "p_b0 p = 0 \<or> p_b0 p = 2" "p_b1 p = BAR_RD" "a \<le> io_count len"
    "\<And>n. stable (k_hw (ks n)) (accs l) v" "\<And>j. j < N \<Longrightarrow> v (word_at (bar_base (d_ep dv) (p_b0 p) offset) j) = bar_words data j"
  shows "\<exists>es out'. run_state (io_read_loop ks arg p offset len [a..<io_count len] ret d out dv) l =
      (Some (if a < io_count len then 0 else ret, out', dv), l @ es) \<and>
    (\<forall>i. out' i = (if a * 0x200000 \<le> i \<and> i < 4 * N then data i else out i))"
  using assms(6,7)
proof (induction "io_count len - a" arbitrary: a ret l d out)
  case 0
  then have "N \<le> a * 0x80000" using io_count_covers[OF assms(1,2)] by simp
  then show ?case using 0 by (auto simp: run_state_return)
next
  case (Suc m)
  then have a: "a < io_count len" and m: "m = io_count len - Suc a" by simp_all
  note pc = pieces(2)[OF assms(1,2) a]
  let ?p = "io_param p offset len a" and ?n = "piece_words N a"
  let ?d = "concat (map (\<lambda>j. le_bytes 4 (bar_words (\<lambda>i. data (io_pos a + i)) j)) [0..<?n])"
  have h: "p_b0 ?p = 0 \<or> p_b0 ?p = 2" "p_b1 ?p = BAR_RD" "unat (p_d0 ?p) = 4 * ?n" "0 < ?n" "?n \<le> 0x80000"
    using assms(4,5) pc by (auto simp: io_param_def piece_words_def)
  from piece_read[OF assms(3) h Suc.prems(2), where arg = arg and d = d and dv = dv] obtain q es
    where r: "run_state (dev_ioctl (ks a) MT_IOCTL_BAR_RW arg ?p d dv) l =
        (Some (0, q, concat (map (\<lambda>j. le_bytes 4 (v (word_at (bar_base (d_ep dv) (p_b0 ?p) (p_l0 ?p)) j))) [0..<?n]), dv), l @ es)"
      and es: "\<forall>x \<in> set (accs es). \<exists>a c. x = Rd a c" by blast
  have le: "a * 0x80000 + ?n \<le> N" using pc by (auto simp: piece_words_def)
  have "bar_words (\<lambda>i. data (io_pos a + i)) j = bar_words data (a * 0x80000 + j)" for j
    by (simp add: max_rw(3) upt_rec add.assoc)
  then have v: "v (word_at (bar_base (d_ep dv) (p_b0 ?p) (p_l0 ?p)) j) = bar_words (\<lambda>i. data (io_pos a + i)) j" if "j < ?n" for j
    using that le assms(8)[of "a * 0x80000 + j"] by (simp add: io_param_def word_at_piece)
  have d: "concat (map (\<lambda>j. le_bytes 4 (v (word_at (bar_base (d_ep dv) (p_b0 ?p) (p_l0 ?p)) j))) [0..<?n]) = ?d"
    by (rule arg_cong[where f = concat], rule map_cong[OF refl]) (simp add: v)
  let ?out = "put_piece (io_pos a) (unat (io_piece len a)) ?d out"
  have st: "stable (k_hw (ks n)) (accs (l @ es)) v" for n using stable_reads[OF Suc.prems(2) es] by simp
  obtain es' out' where r': "run_state (io_read_loop ks arg p offset len [Suc a..<io_count len] 0 ?d ?out dv) (l @ es) = (Some (0, out', dv), (l @ es) @ es')"
      "\<forall>i. out' i = (if Suc a * 0x200000 \<le> i \<and> i < 4 * N then data i else ?out i)"
    using Suc.hyps(1)[OF m _ st, of 0 ?d ?out] a by auto
  have "out' i = (if a * 0x200000 \<le> i \<and> i < 4 * N then data i else out i)" for i
    using r'(2)[rule_format, of i] bytes_nth[of "i - 0x200000 * a" ?n "\<lambda>i. data (io_pos a + i)"] pc
    by (auto simp: put_piece_def max_rw(3) piece_words_def)
  then show ?case using pc a r r'(1) unfolding d by (intro exI[of _ "es @ es'"] exI[of _ out']) (simp add: upt_first mmio_simps)
qed

section \<open>Properties\<close>

text \<open>C21. Whatever the client writes through the driver, any multiple of 4 bytes up to 2 GB, it reads back: the writing stores each word of the data
  once, in the order of the addresses, and reading on a device that keeps what was stored gives the caller all of it and leaves the rest of its buffer
  alone.\<close>

theorem client_io_roundtrip:
  assumes "unat len = 4 * N" "0 < N" "N \<le> 0x20000000" "bar = 0 \<or> bar = 2" "\<forall>n. kernel_fine (ks n)" "\<forall>n t. k_hw (ks n) t = mem_after t m"
  shows "\<exists>l1 l2 out'. run_state (pcief_io_write ks arg p r0 bar offset len data dv) l = (Some (0, dv), l1) \<and>
    accs l1 = accs l @ map (\<lambda>j. Wr (word_at (bar_base (d_ep dv) bar offset) j) (bar_words data j)) [0..<N] \<and>
    run_state (pcief_io_read ks arg p r0 d bar offset len out dv) l1 = (Some (0, out', dv), l2) \<and>
    (\<forall>i. out' i = (if i < unat len then data i else out i))"
proof -
  have fine: "kernel_fine (ks n)" for n using assms(5) by blast
  have c: "0 < io_count len" using assms(2) io_count_covers[OF assms(1,3)] by (cases "io_count len") auto
  let ?b = "bar_base (d_ep dv) bar offset"
  let ?ws = "map (\<lambda>j. Wr (word_at ?b j) (bar_words data j)) [0..<N]"
  obtain es where w: "run_state (pcief_io_write ks arg p r0 bar offset len data dv) l = (Some (0, dv), l @ es)" "accs es = ?ws"
    using pieces_written[where ks = ks, OF assms(1,3) fine, where p = "p\<lparr>p_b0 := bar, p_b1 := 0\<rparr>" and a = 0 and arg = arg and offset = offset and data = data and ret = r0 and dv = dv and l = l] assms(4) c
    by (auto simp: pcief_io_write_def)
  define v where "v = mem_after (accs (l @ es)) m"
  have reads: "mem_after rs m' = m'" if "\<forall>x \<in> set rs. \<exists>a c. x = Rd a c" for rs m'
    using that by (induction rs) auto
  have st: "stable (k_hw (ks n)) (accs (l @ es)) v" for n using reads assms(6) unfolding stable_def v_def by simp
  have "v (word_at ?b j) = bar_words data j" if "j < N" for j
  proof -
    have "mem_after (map (\<lambda>j. Wr (word_at ?b j) (bar_words data j)) [0..<k]) m' (word_at ?b j) = bar_words data j" if "j < k" "k \<le> N" for k m'
      using that
    proof (induction k)
      case (Suc k)
      then show ?case using word_at_inj[of j k ?b] assms(3) by (auto simp: less_Suc_eq)
    qed simp
    then show ?thesis using that unfolding v_def by (simp add: w(2))
  qed
  then obtain l2 out' where "run_state (pcief_io_read ks arg p r0 d bar offset len out dv) (l @ es) = (Some (0, out', dv), l2)"
      "\<forall>i. out' i = (if i < 4 * N then data i else out i)"
    using pieces_read[where ks = ks, OF assms(1,3) fine, where p = "p\<lparr>p_b0 := bar, p_b1 := BAR_RD\<rparr>" and a = 0 and l = "l @ es" and v = v and dv = dv and offset = offset and
        data = data and arg = arg and ret = r0 and d = d and out = out] st assms(4) c
    by (auto simp: pcief_io_read_def)
  then show ?thesis using w assms(1) by (intro exI[of _ "l @ es"] exI[of _ l2] exI[of _ out']) simp
qed

lemma low_word: "unat (w :: u64) < 2 ^ 32 \<Longrightarrow> unat (ucast w :: u32) = unat w"
  by (simp add: unsigned_ucast_eq unsigned_take_bit_eq take_bit_nat_eq_self)

text \<open>Starting a transfer on the DMA engine first sends the completion interrupts to the engine; then the driver gets the description of the transfer and
  the buffer of the caller, one page behind the parameters, and \<open>*done\<close> is 1 exactly when the transfer of the driver returned 0.\<close>

theorem client_dma_reports:
  assumes "\<not> param_fails k0" "\<not> param_fails k" "\<not> data_fails k" "param_left k = 0" "unat (rw_size info) + 32 < 2 ^ 32"
    "emu_dma_rw (k_hw k) (k_rw k) info rw_buf (d_em dv) = Some (rc, em', es)"
  shows "\<exists>q. run_state (pcief_mtdma_engine_start k0 k arg0 p0 p info rw_buf dv) l =
    (Some (0, if rc = 0 then 1 else 0, dv\<lparr>d_ep := (d_ep dv)\<lparr>isr_dmabare := False\<rparr>, d_em := em'\<rparr>), l @ [Kc CopyParamIn, Kc CopyParamIn, Kc CopyDataIn] @ map DmaEv es @ [Kc (CopyParam q)])"
proof -
  let ?sz = "of_nat SIZEOF_MTDMA_RW + rw_size info"
  have sz: "unat ?sz = 32 + unat (rw_size info)"
    using assms(5) by (simp add: SIZEOF_MTDMA_RW_def) (subst unat_add_lem[THEN iffD1], simp_all)
  have u: "unat (ucast ?sz :: u32) = 32 + unat (rw_size info)" "ucast (ucast ?sz :: u32) = ?sz"
    using low_word[of ?sz] sz assms(5) by (simp_all add: word_unat_eq_iff unat_len)
  have last: "last_param q (map DmaEv es @ [Kc (CopyParam q')]) = q'" for q q'
    by (induction es arbitrary: q) simp_all
  have b: "rw_buf - MTDMA_BUF_START + MTDMA_BUF_START = rw_buf" by simp
  show ?thesis
    using assms(1-4,6) u sz unfolding pcief_mtdma_engine_start_def pcief_dmaisr_set_def done_call_def dev_ioctl_def mt_test_ioctl_def ioctl_mtdma_rw_def
    by (simp add: mmio_simps Let_def libc_result_def SIZEOF_MTDMA_RW_def last)
qed

text \<open>A description of 4 GB or more does not fit the parameter: nothing is transferred and the caller is told 0.\<close>

lemma client_dma_too_large:
  assumes "\<not> param_fails k0" "\<not> param_fails k" "2 ^ 32 \<le> unat (rw_size info) + 32" "unat (rw_size info) + 32 < 2 ^ 64"
  shows "\<exists>es. run_state (pcief_mtdma_engine_start k0 k arg0 p0 p info rw_buf dv) l = (Some (0, 0, dv\<lparr>d_ep := (d_ep dv)\<lparr>isr_dmabare := False\<rparr>\<rparr>), l @ es) \<and>
    set es = {Kc CopyParamIn} \<union> (if unat (ucast (of_nat SIZEOF_MTDMA_RW + rw_size info) :: u32) < SIZEOF_MTDMA_RW then {} else {Kc CopyDataIn})"
proof -
  let ?sz = "of_nat SIZEOF_MTDMA_RW + rw_size info"
  have sz: "unat ?sz = 32 + unat (rw_size info)"
    using assms(4) by (simp add: SIZEOF_MTDMA_RW_def) (subst unat_add_lem[THEN iffD1], simp_all)
  have "ucast (ucast ?sz :: u32) \<noteq> ?sz"
  proof
    assume "ucast (ucast ?sz :: u32) = ?sz"
    then have "unat ?sz = unat (ucast ?sz :: u32)" using unat_len[of "ucast ?sz"] by simp
    moreover have "unat (ucast ?sz :: u32) < 2 ^ 32" using unat_bound[of "ucast ?sz :: u32"] by simp
    ultimately have "unat ?sz < 2 ^ 32" by simp
    then show False using sz assms(3) by simp
  qed
  then show ?thesis
    using assms(1,2) unfolding pcief_mtdma_engine_start_def pcief_dmaisr_set_def done_call_def dev_ioctl_def mt_test_ioctl_def ioctl_mtdma_rw_def
    by (auto simp: mmio_simps Let_def libc_result_def EFAULT_def)
qed

text \<open>Reading the ROM succeeds without copying anything: the driver maps and unmaps it, and the caller gets what its own stack held.\<close>

theorem client_rom_reads_nothing:
  assumes "\<not> param_fails k" "rom_len k \<noteq> 0" "rom_enable k = 0" "rom_mapped k"
  shows "\<exists>l'. run_state (pcief_read_exp_rom k arg p d len out dv) l = (Some (0, put_piece 0 (min (unat len) 0x200000) d out, dv), l') \<and>
    accs l' = accs l"
  using assms
  by (auto simp: pcief_read_exp_rom_def dev_ioctl_def mt_test_ioctl_def with_ret_def ioctl_read_rom_def map_exp_rom_def unmap_exp_rom_def mmio_simps Let_def
      libc_result_def max_rw word_less_nat_alt min_def)

section \<open>Witnesses\<close>

definition demo_dv :: mt_dev where
  "demo_dv = \<lparr>d_ep = demo_fn, d_em = demo_em\<rparr>"

theorem client_io_roundtrip_witness:
  "\<exists>l1 l2 out'. run_state (pcief_io_write (\<lambda>_. demo_k) 0x1000 demo_p 7 2 0x100 12 of_nat demo_dv) [] = (Some (0, demo_dv), l1) \<and>
    run_state (pcief_io_read (\<lambda>_. demo_k) 0x1000 demo_p 7 [] 2 0x100 12 (\<lambda>_. 9) demo_dv) l1 = (Some (0, out', demo_dv), l2) \<and> out' 11 = 11 \<and> out' 12 = 9"
proof -
  have h: "unat (12 :: u32) = 4 * 3" "(0 :: nat) < 3" "(3 :: nat) \<le> 0x20000000" "(2 :: u8) = 0 \<or> (2 :: u8) = 2"
    "\<forall>n. kernel_fine ((\<lambda>_. demo_k) n)" "\<forall>n t. k_hw ((\<lambda>_. demo_k) n) t = mem_after t (\<lambda>a. 0)"
    by (simp_all add: demo_k_def)
  from client_io_roundtrip[OF h, where arg = "0x1000" and p = demo_p and ?r0.0 = 7 and offset = "0x100" and data = of_nat and dv = demo_dv and l = "[]" and d = "[]"
      and out = "\<lambda>_. 9"]
  show ?thesis by fastforce
qed

theorem client_dma_reports_witness:
  "\<exists>l'. run_state (pcief_mtdma_engine_start demo_k (demo_k\<lparr>k_hw := \<lambda>t a. 1, k_rw := DmaTestProps.demo_env\<lparr>map_ret := \<lambda>n. 0\<rparr>\<rparr>) 0 demo_p demo_p demo_rw 0x1000 demo_dv) [] =
    (Some (0, 1, demo_dv\<lparr>d_ep := (d_ep demo_dv)\<lparr>isr_dmabare := False\<rparr>\<rparr>), l')"
proof -
  let ?k = "demo_k\<lparr>k_hw := \<lambda>t a. 1, k_rw := DmaTestProps.demo_env\<lparr>map_ret := \<lambda>n. 0\<rparr>\<rparr>"
  have k: "\<not> param_fails demo_k" "\<not> param_fails ?k" "\<not> data_fails ?k" "param_left ?k = 0" "unat (rw_size demo_rw) + 32 < 2 ^ 32"
    by (simp_all add: demo_k_def demo_rw_def)
  have e: "k_hw ?k = (\<lambda>t a. 1)" "k_rw ?k = DmaTestProps.demo_env\<lparr>map_ret := \<lambda>n. 0\<rparr>" "d_em demo_dv = demo_em" by (simp_all add: demo_dv_def)
  have "emu_dma_rw (k_hw ?k) (k_rw ?k) demo_rw 0x1000 (d_em demo_dv) =
      Some (0, demo_em, [ReqChan, AllocPages, PinPages (unat (4 :: u64)), AllocTable, FreeTable, FreePages, ReleaseChan])"
    unfolding e by (rule dma_rw_map_failure_is_success) (simp_all add: demo_em_def demo_rw_def DmaTestProps.demo_env_def TEST_CH_NUM_def sg_count_def)
  from client_dma_reports[OF k this, where ?arg0.0 = 0 and ?p0.0 = demo_p and p = demo_p and l = "[]"]
  show ?thesis by (fastforce simp: demo_dv_def)
qed

theorem client_rom_reads_nothing_witness:
  "\<exists>l. run_state (pcief_read_exp_rom (demo_k\<lparr>rom_len := 64, rom_mapped := True\<rparr>) 0 demo_p [1, 2] 1 (\<lambda>_. 9) demo_dv) [] = (Some (0, put_piece 0 1 [1, 2] (\<lambda>_. 9), demo_dv), l)"
  using client_rom_reads_nothing[of "demo_k\<lparr>rom_len := 64, rom_mapped := True\<rparr>" 0 demo_p "[1, 2]" 1 "\<lambda>_. 9" demo_dv "[]"] by (auto simp: demo_k_def)

end
