(* ===== verification/TargetCmd.thy ===== *)
theory TargetCmd
  imports ClientLibProps Intr
begin

text \<open>
  The commands of the client library to the processors of the chip, in \<open>src/test/lib/mt_pcie_f.c\<close>: a command is
  written to a slot of shared memory behind BAR 0, the processor is interrupted and answers in a second slot, and the data of a transfer pass through a
  window of 2 KB.  The program of the processors is not part of the repository.  It is the parameter \<open>fw\<close>: what the wait for the answer
  reports, and what the processor has done to the shared memory and to its own.
\<close>

section \<open>Slots\<close>

definition EMU_DBG_BASE :: u64 where "EMU_DBG_BASE = REG_BASE + 0x01e50000 - 0x1000"
definition PCIEF_DATA_ADDR :: u64 where "PCIEF_DATA_ADDR = EMU_DBG_BASE + 0x800"
definition PCIEF_CMD_RES_ADDR :: u64 where "PCIEF_CMD_RES_ADDR = EMU_DBG_BASE + 0x400"
definition PCIEF_SMC_CMD_ADDR :: u64 where "PCIEF_SMC_CMD_ADDR = PCIEF_CMD_RES_ADDR + 0x00"
definition PCIEF_SMC_RES_ADDR :: u64 where "PCIEF_SMC_RES_ADDR = PCIEF_CMD_RES_ADDR + 0x20"
definition PCIEF_FEC_CMD_ADDR :: u64 where "PCIEF_FEC_CMD_ADDR = PCIEF_CMD_RES_ADDR + 0x40"
definition PCIEF_FEC_RES_ADDR :: u64 where "PCIEF_FEC_RES_ADDR = PCIEF_CMD_RES_ADDR + 0x60"
definition PCIEF_DSP_CMD_ADDR :: u64 where "PCIEF_DSP_CMD_ADDR = PCIEF_CMD_RES_ADDR + 0x80"
definition PCIEF_DSP_RES_ADDR :: u64 where "PCIEF_DSP_RES_ADDR = PCIEF_CMD_RES_ADDR + 0xa0"

definition PCIEF_CMD_SIZE :: u32 where "PCIEF_CMD_SIZE = 0x800"
definition PCIEF_CMD_TAG :: u8 where "PCIEF_CMD_TAG = 0x55"
definition PCIEF_RES_TAG :: u8 where "PCIEF_RES_TAG = 0xaa"
definition PCIEF_CMD_RD32 :: u8 where "PCIEF_CMD_RD32 = 1"
definition PCIEF_CMD_WR32 :: u8 where "PCIEF_CMD_WR32 = 2"
definition PCIEF_CMD_RD :: u8 where "PCIEF_CMD_RD = 3"
definition PCIEF_CMD_WR :: u8 where "PCIEF_CMD_WR = 4"
definition PCIEF_CMD_WR_RAND :: u8 where "PCIEF_CMD_WR_RAND = 5"
definition PCIEF_CMD_CRC :: u8 where "PCIEF_CMD_CRC = 6"
definition PCIEF_CMD_OUTB_DMA :: u8 where "PCIEF_CMD_OUTB_DMA = 7"
definition PCIEF_CMD_CACHE :: u8 where "PCIEF_CMD_CACHE = 8"
definition PCIEF_CMD_MTDMA_RESET :: u8 where "PCIEF_CMD_MTDMA_RESET = 9"
definition PCIEF_CMD_NORES_BIT :: u8 where "PCIEF_CMD_NORES_BIT = 0x80"

lemmas slot_defs = EMU_DBG_BASE_def PCIEF_DATA_ADDR_def PCIEF_CMD_RES_ADDR_def PCIEF_SMC_CMD_ADDR_def PCIEF_SMC_RES_ADDR_def
  PCIEF_FEC_CMD_ADDR_def PCIEF_FEC_RES_ADDR_def PCIEF_DSP_CMD_ADDR_def PCIEF_DSP_RES_ADDR_def REG_BASE_def

text \<open>\<open>struct pcief_tgt_cmd_res\<close>: \<open>val\<close> is another name of \<open>para0\<close>, \<open>addr\<close> of \<open>para1\<close>.\<close>

record tgt_cmd =
  tc_cmd :: u8
  tc_tag :: u8
  tc_other :: u16
  tc_para0 :: u32
  tc_para1 :: u64
  tc_para2 :: u64
  tc_para3 :: u64

definition zero_cmd :: tgt_cmd where
  "zero_cmd = \<lparr>tc_cmd = 0, tc_tag = 0, tc_other = 0, tc_para0 = 0, tc_para1 = 0, tc_para2 = 0, tc_para3 = 0\<rparr>"

text \<open>The fields in memory, the lowest byte first.\<close>

definition le :: "nat \<Rightarrow> 'a::len word \<Rightarrow> u8 list" where
  "le n v = map (\<lambda>k. ucast (drop_bit (8 * k) v)) [0..<n]"

fun unle :: "u8 list \<Rightarrow> 'a::len word" where
  "unle [] = 0"
| "unle (b # bs) = ucast b OR push_bit 8 (unle bs)"

definition tgt_bytes :: "tgt_cmd \<Rightarrow> u8 list" where
  "tgt_bytes c = le 1 (tc_cmd c) @ le 1 (tc_tag c) @ le 2 (tc_other c) @ le 4 (tc_para0 c) @ le 8 (tc_para1 c) @ le 8 (tc_para2 c) @ le 8 (tc_para3 c)"

definition tgt_parse :: "u8 list \<Rightarrow> tgt_cmd" where
  "tgt_parse bs = \<lparr>tc_cmd = unle (take 1 bs), tc_tag = unle (take 1 (drop 1 bs)), tc_other = unle (take 2 (drop 2 bs)), tc_para0 = unle (take 4 (drop 4 bs)),
     tc_para1 = unle (take 8 (drop 8 bs)), tc_para2 = unle (take 8 (drop 16 bs)), tc_para3 = unle (take 8 (drop 24 bs))\<rparr>"

text \<open>A structure on the stack of the caller, at address 0; and the structure at an address.\<close>

definition stack_of :: "u8 list \<Rightarrow> memory" where
  "stack_of bs = (\<lambda>a. if unat a < length bs then bs ! unat a else 0)"

definition tgt_at :: "memory \<Rightarrow> u64 \<Rightarrow> tgt_cmd" where
  "tgt_at m a = tgt_parse (map (\<lambda>j. m (a + of_nat j)) [0..<32])"

section \<open>A command\<close>

definition tgt_slots :: "u8 \<Rightarrow> (u64 \<times> u64) option" where
  "tgt_slots target =
    (if target = PCIEF_TGT_SMC then Some (PCIEF_SMC_CMD_ADDR, PCIEF_SMC_RES_ADDR)
     else if target = PCIEF_TGT_FEC then Some (PCIEF_FEC_CMD_ADDR, PCIEF_FEC_RES_ADDR)
     else if target = PCIEF_TGT_DSP then Some (PCIEF_DSP_CMD_ADDR, PCIEF_DSP_RES_ADDR)
     else None)"

type_synonym 'm firmware = "u8 \<Rightarrow> memory \<Rightarrow> 'm \<Rightarrow> u32 \<times> memory \<times> 'm"

definition pcief_send_tgt_cmd :: "'m firmware \<Rightarrow> pcief_bar \<Rightarrow> u8 \<Rightarrow> tgt_cmd \<Rightarrow> tgt_cmd \<Rightarrow> memory \<times> 'm \<Rightarrow> (int \<times> tgt_cmd \<times> memory \<times> 'm) option" where
  "pcief_send_tgt_cmd fw bar target cmd res st =
    (case tgt_slots target of
       None \<Rightarrow> Some (-1, res, st)
     | Some (cmd_addr, res_addr) \<Rightarrow> do {
         (_, dev) \<leftarrow> pcief_write bar cmd_addr 32 0 (stack_of (tgt_bytes cmd)) (fst st);
         let (sts, dev, m) = fw target dev (snd st);
         if sts \<noteq> 1 then Some (-1, res, dev, m)
         else do {
           (_, u) \<leftarrow> pcief_read bar res_addr 32 0 dev (stack_of (tgt_bytes res));
           let res = tgt_at u 0;
           Some (if tc_tag res \<noteq> PCIEF_RES_TAG \<or> tc_cmd res \<noteq> tc_cmd cmd then -1 else 0, res, dev, m) } })"

text \<open>A command without an answer is only written; the processor is not told.\<close>

definition pcief_send_tgt_cmd_nores :: "pcief_bar \<Rightarrow> u8 \<Rightarrow> tgt_cmd \<Rightarrow> memory \<Rightarrow> (int \<times> memory) option" where
  "pcief_send_tgt_cmd_nores bar target cmd dev =
    (case tgt_slots target of
       None \<Rightarrow> Some (-1, dev)
     | Some (cmd_addr, _) \<Rightarrow>
         map_option (\<lambda>(_, dev). (0, dev))
           (pcief_write bar cmd_addr 32 0 (stack_of (tgt_bytes (cmd\<lparr>tc_cmd := tc_cmd cmd OR PCIEF_CMD_NORES_BIT\<rparr>))) dev))"

section \<open>The commands\<close>

text \<open>The commands that only report success or failure.\<close>

definition tgt_call :: "'m firmware \<Rightarrow> pcief_bar \<Rightarrow> u8 \<Rightarrow> tgt_cmd \<Rightarrow> memory \<times> 'm \<Rightarrow> (int \<times> memory \<times> 'm) option" where
  "tgt_call fw bar target cmd st = map_option (\<lambda>(r, _, st). (if r \<noteq> 0 then -1 else 0, st)) (pcief_send_tgt_cmd fw bar target cmd zero_cmd st)"

text \<open>Those that also return a value; \<open>*val\<close> is \<open>old\<close> before the call.\<close>

definition tgt_value :: "'m firmware \<Rightarrow> pcief_bar \<Rightarrow> u8 \<Rightarrow> tgt_cmd \<Rightarrow> u32 \<Rightarrow> memory \<times> 'm \<Rightarrow> (int \<times> u32 \<times> memory \<times> 'm) option" where
  "tgt_value fw bar target cmd old st =
    map_option (\<lambda>(r, res, st). if r \<noteq> 0 then (-1, old, st) else (0, tc_para0 res, st)) (pcief_send_tgt_cmd fw bar target cmd zero_cmd st)"

definition pcief_tgt_sreg_u32 :: "'m firmware \<Rightarrow> pcief_bar \<Rightarrow> u8 \<Rightarrow> u64 \<Rightarrow> u32 \<Rightarrow> memory \<times> 'm \<Rightarrow> (int \<times> memory \<times> 'm) option" where
  "pcief_tgt_sreg_u32 fw bar target address val st =
    tgt_call fw bar target (zero_cmd\<lparr>tc_cmd := PCIEF_CMD_WR32, tc_tag := PCIEF_CMD_TAG, tc_para0 := val, tc_para1 := address\<rparr>) st"

definition pcief_tgt_post_sreg_u32 :: "pcief_bar \<Rightarrow> u8 \<Rightarrow> u64 \<Rightarrow> u32 \<Rightarrow> memory \<Rightarrow> (int \<times> memory) option" where
  "pcief_tgt_post_sreg_u32 bar target address val dev =
    pcief_send_tgt_cmd_nores bar target (zero_cmd\<lparr>tc_cmd := PCIEF_CMD_WR32, tc_tag := PCIEF_CMD_TAG, tc_para0 := val, tc_para1 := address\<rparr>) dev"

definition pcief_tgt_greg_u32 :: "'m firmware \<Rightarrow> pcief_bar \<Rightarrow> u8 \<Rightarrow> u64 \<Rightarrow> u32 \<Rightarrow> memory \<times> 'm \<Rightarrow> (int \<times> u32 \<times> memory \<times> 'm) option" where
  "pcief_tgt_greg_u32 fw bar target address old st =
    tgt_value fw bar target (zero_cmd\<lparr>tc_cmd := PCIEF_CMD_RD32, tc_tag := PCIEF_CMD_TAG, tc_para1 := address\<rparr>) old st"

definition pcief_tgt_wr_rand :: "'m firmware \<Rightarrow> pcief_bar \<Rightarrow> u8 \<Rightarrow> u64 \<Rightarrow> u32 \<Rightarrow> memory \<times> 'm \<Rightarrow> (int \<times> memory \<times> 'm) option" where
  "pcief_tgt_wr_rand fw bar target address sz st =
    tgt_call fw bar target (zero_cmd\<lparr>tc_cmd := PCIEF_CMD_WR_RAND, tc_tag := PCIEF_CMD_TAG, tc_para0 := sz, tc_para1 := address\<rparr>) st"

definition pcief_tgt_crc :: "'m firmware \<Rightarrow> pcief_bar \<Rightarrow> u8 \<Rightarrow> u64 \<Rightarrow> u32 \<Rightarrow> u32 \<Rightarrow> memory \<times> 'm \<Rightarrow> (int \<times> u32 \<times> memory \<times> 'm) option" where
  "pcief_tgt_crc fw bar target address sz old st =
    tgt_value fw bar target (zero_cmd\<lparr>tc_cmd := PCIEF_CMD_CRC, tc_tag := PCIEF_CMD_TAG, tc_para0 := sz, tc_para1 := address\<rparr>) old st"

definition pcief_tgt_dma :: "'m firmware \<Rightarrow> pcief_bar \<Rightarrow> u8 \<Rightarrow> u8 \<Rightarrow> u8 \<Rightarrow> u64 \<Rightarrow> u64 \<Rightarrow> u32 \<Rightarrow> memory \<times> 'm \<Rightarrow> (int \<times> memory \<times> 'm) option" where
  "pcief_tgt_dma fw bar target idx ch src dst sz st =
    tgt_call fw bar target (zero_cmd\<lparr>tc_cmd := PCIEF_CMD_OUTB_DMA, tc_tag := PCIEF_CMD_TAG, tc_other := ucast idx OR push_bit 8 (ucast ch), tc_para0 := sz,
      tc_para1 := src, tc_para2 := dst\<rparr>) st"

definition pcief_tgt_cache :: "'m firmware \<Rightarrow> pcief_bar \<Rightarrow> u8 \<Rightarrow> u32 \<Rightarrow> u64 \<Rightarrow> u64 \<Rightarrow> memory \<times> 'm \<Rightarrow> (int \<times> memory \<times> 'm) option" where
  "pcief_tgt_cache fw bar target op start sz st =
    tgt_call fw bar target (zero_cmd\<lparr>tc_cmd := PCIEF_CMD_CACHE, tc_tag := PCIEF_CMD_TAG, tc_para0 := op, tc_para1 := start, tc_para2 := sz\<rparr>) st"

definition pcief_tgt_mtdma_reset :: "'m firmware \<Rightarrow> pcief_bar \<Rightarrow> u8 \<Rightarrow> memory \<times> 'm \<Rightarrow> (int \<times> memory \<times> 'm) option" where
  "pcief_tgt_mtdma_reset fw bar target st = tgt_call fw bar target (zero_cmd\<lparr>tc_cmd := PCIEF_CMD_MTDMA_RESET, tc_tag := PCIEF_CMD_TAG\<rparr>) st"

definition pcief_reg_mode :: "'m firmware \<Rightarrow> pcief_bar \<Rightarrow> u8 \<Rightarrow> memory \<times> 'm \<Rightarrow> (int \<times> memory \<times> 'm) option" where
  "pcief_reg_mode fw bar bypass_secure st = do {
     let v = (if bypass_secure \<noteq> 0 then 1 else 0);
     (r, st) \<leftarrow> pcief_tgt_sreg_u32 fw bar PCIEF_TGT_SMC 0x7f007ff054 v st;
     if r \<noteq> 0 then Some (-1, st)
     else do {
       (r, st) \<leftarrow> pcief_tgt_sreg_u32 fw bar PCIEF_TGT_SMC 0x7f007ff05c v st;
       Some (if r \<noteq> 0 then -1 else 0, st) } }"

section \<open>Transfers through the window\<close>

definition piece_cmd :: "u8 \<Rightarrow> u32 \<Rightarrow> u64 \<Rightarrow> tgt_cmd" where
  "piece_cmd cmd len address = zero_cmd\<lparr>tc_cmd := cmd, tc_tag := PCIEF_CMD_TAG, tc_para0 := len, tc_para1 := address\<rparr>"

definition piece_len :: "u32 \<Rightarrow> u32" where
  "piece_len sz = (if PCIEF_CMD_SIZE < sz then PCIEF_CMD_SIZE else sz)"

lemma unat_piece [simp]: "unat (piece_len sz) = min 0x800 (unat sz)"
  by (simp add: piece_len_def PCIEF_CMD_SIZE_def word_less_nat_alt min_def)

lemma piece_le: "piece_len sz \<le> sz"
  by (simp add: word_le_nat_alt)

lemma piece_rest [simp]: "unat (sz - piece_len sz) = unat sz - min 0x800 (unat sz)"
  using unat_sub[OF piece_le[of sz]] by simp

lemma piece_len_less: "sz \<noteq> 0 \<Longrightarrow> unat (sz - piece_len sz) < unat sz"
  by (simp add: unat_gt_0)

function tgt_wr_loop :: "'m firmware \<Rightarrow> pcief_bar \<Rightarrow> u8 \<Rightarrow> u64 \<Rightarrow> u64 \<Rightarrow> u32 \<Rightarrow> u32 \<Rightarrow> memory \<Rightarrow> memory \<times> 'm \<Rightarrow> (int \<times> memory \<times> 'm) option" where
  "tgt_wr_loop fw bar target address data pos sz user st =
    (if sz = 0 then Some (0, st)
     else do {
       let len = piece_len sz;
       (_, dev) \<leftarrow> pcief_write bar PCIEF_DATA_ADDR len data user (fst st);
       (r, _, st) \<leftarrow> pcief_send_tgt_cmd fw bar target (piece_cmd PCIEF_CMD_WR len (address + ucast pos)) zero_cmd (dev, snd st);
       if r \<noteq> 0 then Some (-1, st)
       else tgt_wr_loop fw bar target address (data + ucast len) (pos + len) (sz - len) user st })"
  by pat_completeness auto
termination by (relation "measure (\<lambda>(_, _, _, _, _, _, sz, _, _). unat sz)") (simp_all add: piece_len_less del: piece_rest)

definition pcief_tgt_wr :: "'m firmware \<Rightarrow> pcief_bar \<Rightarrow> u8 \<Rightarrow> u64 \<Rightarrow> u64 \<Rightarrow> u32 \<Rightarrow> memory \<Rightarrow> memory \<times> 'm \<Rightarrow> (int \<times> memory \<times> 'm) option" where
  "pcief_tgt_wr fw bar target address data sz user st = tgt_wr_loop fw bar target address data 0 sz user st"

function tgt_rd_loop :: "'m firmware \<Rightarrow> pcief_bar \<Rightarrow> u8 \<Rightarrow> u64 \<Rightarrow> u64 \<Rightarrow> u32 \<Rightarrow> u32 \<Rightarrow> memory \<Rightarrow> memory \<times> 'm \<Rightarrow> (int \<times> memory \<times> memory \<times> 'm) option" where
  "tgt_rd_loop fw bar target address data pos sz user st =
    (if sz = 0 then Some (0, user, st)
     else do {
       let len = piece_len sz;
       (r, _, st) \<leftarrow> pcief_send_tgt_cmd fw bar target (piece_cmd PCIEF_CMD_RD len (address + ucast pos)) zero_cmd st;
       if r \<noteq> 0 then Some (-1, user, st)
       else do {
         (_, user) \<leftarrow> pcief_read bar PCIEF_DATA_ADDR len data (fst st) user;
         tgt_rd_loop fw bar target address (data + ucast len) (pos + len) (sz - len) user st } })"
  by pat_completeness auto
termination by (relation "measure (\<lambda>(_, _, _, _, _, _, sz, _, _). unat sz)") (simp_all add: piece_len_less del: piece_rest)

definition pcief_tgt_rd :: "'m firmware \<Rightarrow> pcief_bar \<Rightarrow> u8 \<Rightarrow> u64 \<Rightarrow> u64 \<Rightarrow> u32 \<Rightarrow> memory \<Rightarrow> memory \<times> 'm \<Rightarrow> (int \<times> memory \<times> memory \<times> 'm) option" where
  "pcief_tgt_rd fw bar target address data sz user st = tgt_rd_loop fw bar target address data 0 sz user st"

declare tgt_wr_loop.simps [simp del] tgt_rd_loop.simps [simp del]

section \<open>The memory of a virtual function, as the client computes it\<close>

text \<open>\<open>n\<close> is the number of virtual functions that the client has read from the driver.\<close>

definition pcief_vf_base_addr :: "u32 \<Rightarrow> u32 \<Rightarrow> u64" where
  "pcief_vf_base_addr n vf =
    (if 0 < sint n then DDR_SZ - DDR_SZ_RESV - SIZE_VGPU_DDR * scast n + SIZE_VGPU_DDR * scast vf else 0)"

definition pcief_mtdma_pf_ch_num :: "u32 \<Rightarrow> int" where
  "pcief_mtdma_pf_ch_num n = sint (of_nat PCIE_DMA_CH_NUM - n)"

end
