(* ===== verification/TargetCmdProps.thy ===== *)
theory TargetCmdProps
  imports TargetCmd
begin

text \<open>
  Properties of the commands to the processors: the structure is read back as it was written, a command is a success exactly if the
  processor answered it, and data of any size arrive in the memory of a processor that obeys, and come back.
\<close>

section \<open>Bytes\<close>

lemma length_le [simp]: "length (le n v) = n"
  by (simp add: le_def)

lemma le_Suc: "le (Suc n) (v :: 'a::len word) = ucast v # le n (drop_bit 8 v)"
  by (simp add: le_def map_upt_Suc drop_bit_drop_bit add.commute del: upt_Suc)

lemma unle_le: "unle (le n (v :: 'a::len word)) = take_bit (8 * n) v"
proof (induction n arbitrary: v)
  case (Suc n)
  show ?case unfolding le_Suc unle.simps Suc.IH
    by (rule bit_word_eqI) (auto simp: bit_simps)
qed (simp add: le_def)

lemma unle_whole [simp]: "LENGTH('a) \<le> 8 * n \<Longrightarrow> unle (le n (v :: 'a::len word)) = v"
  by (simp add: unle_le take_bit_word_eq_self)

lemma length_tgt_bytes [simp]: "length (tgt_bytes c) = 32"
  by (simp add: tgt_bytes_def)

lemma parse_bytes [simp]: "tgt_parse (tgt_bytes c) = c"
  by (cases c) (simp add: tgt_parse_def tgt_bytes_def)

section \<open>Memory\<close>

text \<open>A range of memory replaced.\<close>

definition put :: "memory \<Rightarrow> u64 \<Rightarrow> nat \<Rightarrow> (u64 \<Rightarrow> u8) \<Rightarrow> memory" where
  "put m a n f = (\<lambda>x. if unat (x - a) < n then f (x - a) else m x)"

lemma put_at: "j < n \<Longrightarrow> n \<le> 2 ^ 64 \<Longrightarrow> put m a n f (a + of_nat j) = f (of_nat j)"
  by (simp add: put_def unsigned_of_nat take_bit_nat_eq_self)

lemma put_more:
  assumes "n + k \<le> 2 ^ 64"
  shows "put (put m a n f) (a + of_nat n) k (\<lambda>i. f (of_nat n + i)) = put m a (n + k) f"
proof
  fix x :: u64
  let ?i = "x - a"
  have e: "x - (a + of_nat n) = ?i - of_nat n" by simp
  have b: "unat ?i < 2 ^ 64" using unat_bound[of ?i] by simp
  show "put (put m a n f) (a + of_nat n) k (\<lambda>i. f (of_nat n + i)) x = put m a (n + k) f x"
  proof (cases "n \<le> unat ?i")
    case True
    then have "n < 2 ^ 64" using b by simp
    then have "unat (of_nat n :: u64) = n" by (simp add: unsigned_of_nat take_bit_nat_eq_self)
    then have "unat (?i - of_nat n) = unat ?i - n" using True by (subst unat_sub) (simp_all add: word_le_nat_alt)
    then show ?thesis using True unfolding put_def e by auto
  next
    case False
    define q where "q = unat (?i - of_nat n)"
    have iq: "?i = of_nat (q + n)" by (simp add: q_def)
    have "\<not> q < k"
    proof
      assume "q < k"
      then have "q + n < 2 ^ LENGTH(64)" using assms by simp
      then have "unat (of_nat (q + n) :: u64) = q + n" unfolding unsigned_of_nat of_nat_id by (rule take_bit_nat_eq_self)
      then show False using False unfolding iq by simp
    qed
    then have "\<not> unat (?i - of_nat n) < k" by (simp add: q_def)
    then show ?thesis using False unfolding put_def e by auto
  qed
qed

lemma put_none [simp]: "put m a 0 f = m"
  by (simp add: put_def)

text \<open>A transfer of the client replaces a range.\<close>

lemma plan_put:
  "fold (\<lambda>wi. move_bytes wi (\<lambda>j. s + of_nat j) (\<lambda>j. d + of_nat j) from) (xfer_plan (unat (len :: u32))) to = put to d (unat len) (\<lambda>i. from (s + i))"
    (is "?m = _")
proof
  fix x :: u64
  show "?m x = put to d (unat len) (\<lambda>i. from (s + i)) x"
  proof (cases "unat (x - d) < unat len")
    case True
    then show ?thesis using plan_result(1)[OF refl, of "unat (x - d)" len s d "from" to] by (simp add: put_def)
  next
    case False
    have "unat len \<le> 2 ^ LENGTH(64)" using unat_bound[of len] by simp
    then have "x \<notin> (\<lambda>j. d + of_nat j) ` {..<unat len}"
      using False by (auto simp: unsigned_of_nat take_bit_nat_eq_self)
    then show ?thesis using plan_result(2)[OF refl, of x d len s "from" to] False by (simp add: put_def)
  qed
qed

lemma write_put:
  "pcief_write bar off len data user dev =
    (if bar_size bar < off + ucast len then Some (-1, dev) else if 2 ^ 31 \<le> unat len then None
     else Some (0, put dev (bar_map_addr bar + off) (unat len) (\<lambda>i. user (data + i))))"
  "pcief_read bar off len data dev user =
    (if bar_size bar < off + ucast len then Some (-1, user) else if 2 ^ 31 \<le> unat len then None
     else Some (0, put user data (unat len) (\<lambda>i. dev (bar_map_addr bar + off + i))))"
  by (simp_all only: pcief_write_def pcief_read_def plan_put)

lemma tgt_at_put:
  assumes "\<And>j. j < 32 \<Longrightarrow> f (of_nat j) = tgt_bytes c ! j"
  shows "tgt_at (put m a 32 f) a = c"
proof -
  have "map (\<lambda>j. put m a 32 f (a + of_nat j)) [0..<32] = tgt_bytes c"
    using assms by (intro nth_equalityI) (simp_all add: put_at)
  then show ?thesis by (simp add: tgt_at_def)
qed

lemma stack_bytes: "j < 32 \<Longrightarrow> stack_of (tgt_bytes c) (of_nat j) = tgt_bytes c ! j"
  by (simp add: stack_of_def unsigned_of_nat take_bit_nat_eq_self)

lemma tgt_at_copy: "tgt_at (put m 0 32 (\<lambda>i. dev (a + i))) 0 = tgt_at dev a"
  unfolding tgt_at_def by (intro arg_cong[where f = tgt_parse] map_cong refl) (simp add: put_at[of _ _ _ 0, simplified])

section \<open>Commands\<close>

text \<open>The shared memory of the processors is inside the region that the client has mapped.\<close>

definition maps_slots :: "pcief_bar \<Rightarrow> bool" where
  "maps_slots bar \<longleftrightarrow> EMU_DBG_BASE + 0x1000 \<le> bar_size bar"

lemma slots_inside:
  assumes "maps_slots bar" "tgt_slots target = Some (ca, ra)"
  shows "\<not> bar_size bar < ca + 32" "\<not> bar_size bar < ra + 32"
  using assms by (auto simp: maps_slots_def tgt_slots_def slot_defs word_le_nat_alt word_less_nat_alt split: if_splits)

lemma window_inside: "maps_slots bar \<Longrightarrow> unat len \<le> 0x800 \<Longrightarrow> \<not> bar_size bar < PCIEF_DATA_ADDR + ucast (len :: u32)"
  by (simp add: maps_slots_def slot_defs word_le_nat_alt word_less_nat_alt unat_word_ariths unsigned_ucast_eq take_bit_nat_eq_self)

lemma send_put:
  assumes "maps_slots bar" "tgt_slots target = Some (ca, ra)"
  shows "pcief_send_tgt_cmd fw bar target cmd res (dev, m) =
    (let (sts, dev, m) = fw target (put dev (bar_map_addr bar + ca) 32 (stack_of (tgt_bytes cmd))) m in
     if sts \<noteq> 1 then Some (-1, res, dev, m)
     else let r = tgt_at dev (bar_map_addr bar + ra) in
       Some (if tc_tag r \<noteq> PCIEF_RES_TAG \<or> tc_cmd r \<noteq> tc_cmd cmd then -1 else 0, r, dev, m))"
  using slots_inside[OF assms] assms(2)
  by (simp add: pcief_send_tgt_cmd_def write_put tgt_at_copy Let_def split: prod.split)

section \<open>Transfers\<close>

text \<open>A processor obeys the commands of a transfer: it copies between the window and its memory, changes nothing else of
  its memory, and answers with the command and the tag of an answer.\<close>

definition obeys :: "memory firmware \<Rightarrow> pcief_bar \<Rightarrow> u8 \<Rightarrow> u64 \<Rightarrow> u64 \<Rightarrow> bool" where
  "obeys fw bar target ca ra \<longleftrightarrow> (\<forall>dev m dev' m' sts. let b = bar_map_addr bar; c = tgt_at dev (b + ca); n = unat (tc_para0 c) in
     fw target dev m = (sts, dev', m') \<longrightarrow> tc_tag c = PCIEF_CMD_TAG \<longrightarrow> n \<le> 0x800 \<longrightarrow> tc_cmd c = PCIEF_CMD_WR \<or> tc_cmd c = PCIEF_CMD_RD \<longrightarrow>
       sts = 1 \<and> tc_cmd (tgt_at dev' (b + ra)) = tc_cmd c \<and> tc_tag (tgt_at dev' (b + ra)) = PCIEF_RES_TAG \<and>
       (tc_cmd c = PCIEF_CMD_WR \<longrightarrow> m' = put m (tc_para1 c) n (\<lambda>i. dev (b + PCIEF_DATA_ADDR + i))) \<and>
       (tc_cmd c = PCIEF_CMD_RD \<longrightarrow> m' = m \<and> (\<forall>j < n. dev' (b + PCIEF_DATA_ADDR + of_nat j) = m (tc_para1 c + of_nat j))))"

lemma commands_differ [simp]: "PCIEF_CMD_WR \<noteq> PCIEF_CMD_RD" "PCIEF_CMD_RD \<noteq> PCIEF_CMD_WR"
  by (simp_all add: PCIEF_CMD_WR_def PCIEF_CMD_RD_def)

lemma tgt_at_cmd: "tgt_at (put dev a 32 (stack_of (tgt_bytes c))) a = c"
  by (rule tgt_at_put) (rule stack_bytes)

text \<open>One piece: the command leaves the window as it was.\<close>

lemma below_window:
  assumes "32 \<le> unat (PCIEF_DATA_ADDR - s)" "unat (PCIEF_DATA_ADDR - s) \<le> 0x400" "unat i < 0x800"
  shows "put dev (b + s) 32 f (b + PCIEF_DATA_ADDR + i) = dev (b + PCIEF_DATA_ADDR + i)"
proof -
  have "unat (b + PCIEF_DATA_ADDR + i - (b + s)) = unat (PCIEF_DATA_ADDR - s + i)" by (simp add: algebra_simps)
  also have "\<dots> = unat (PCIEF_DATA_ADDR - s) + unat i"
    using assms(2,3) by (subst unat_add_lem[THEN iffD1]) simp_all
  finally show ?thesis using assms(1) by (simp add: put_def)
qed

lemma slots_apart_window:
  assumes "tgt_slots target = Some (ca, ra)" "unat i < 0x800"
  shows "put dev (b + ca) 32 f (b + PCIEF_DATA_ADDR + i) = dev (b + PCIEF_DATA_ADDR + i)"
proof -
  have "PCIEF_DATA_ADDR - ca \<in> {0x400, 0x3c0, 0x380}" using assms(1) by (auto simp: tgt_slots_def slot_defs split: if_splits)
  then have "unat (PCIEF_DATA_ADDR - ca) \<in> {0x400, 0x3c0, 0x380}" by auto
  then show ?thesis using assms(2) by (intro below_window) auto
qed

lemma wr_piece:
  assumes "maps_slots bar" "tgt_slots target = Some (ca, ra)" "obeys fw bar target ca ra" "unat len \<le> 0x800"
  shows "\<exists>dev' res. pcief_send_tgt_cmd fw bar target (piece_cmd PCIEF_CMD_WR len a) zero_cmd (put dev (bar_map_addr bar + PCIEF_DATA_ADDR) (unat len) f, m) =
    Some (0, res, dev', put m a (unat len) f)"
proof -
  let ?b = "bar_map_addr bar" and ?c = "piece_cmd PCIEF_CMD_WR len a"
  let ?dev = "put (put dev (?b + PCIEF_DATA_ADDR) (unat len) f) (?b + ca) 32 (stack_of (tgt_bytes ?c))"
  obtain sts dev' m' where r: "fw target ?dev m = (sts, dev', m')" by (cases "fw target ?dev m")
  have c: "tgt_at ?dev (?b + ca) = ?c" by (rule tgt_at_cmd)
  have w: "put m a (unat len) (\<lambda>i. ?dev (?b + PCIEF_DATA_ADDR + i)) = put m a (unat len) f"
    unfolding put_def[of m] using slots_apart_window[OF assms(2)] assms(4) by (auto simp: fun_eq_iff put_def[of dev])
  have "sts = 1" "tc_cmd (tgt_at dev' (?b + ra)) = PCIEF_CMD_WR" "tc_tag (tgt_at dev' (?b + ra)) = PCIEF_RES_TAG" "m' = put m a (unat len) f"
    using assms(3)[unfolded obeys_def Let_def, rule_format, OF r] assms(4) w unfolding c by (simp_all add: piece_cmd_def)
  then show ?thesis unfolding send_put[OF assms(1,2)] r by (simp add: Let_def piece_cmd_def)
qed

lemma rd_piece:
  assumes "maps_slots bar" "tgt_slots target = Some (ca, ra)" "obeys fw bar target ca ra" "unat len \<le> 0x800"
  shows "\<exists>dev' res. pcief_send_tgt_cmd fw bar target (piece_cmd PCIEF_CMD_RD len a) zero_cmd (dev, m) = Some (0, res, dev', m) \<and>
    (\<forall>j < unat len. dev' (bar_map_addr bar + PCIEF_DATA_ADDR + of_nat j) = m (a + of_nat j))"
proof -
  let ?b = "bar_map_addr bar" and ?c = "piece_cmd PCIEF_CMD_RD len a"
  let ?dev = "put dev (?b + ca) 32 (stack_of (tgt_bytes ?c))"
  obtain sts dev' m' where r: "fw target ?dev m = (sts, dev', m')" by (cases "fw target ?dev m")
  have c: "tgt_at ?dev (?b + ca) = ?c" by (rule tgt_at_cmd)
  have "sts = 1" "tc_cmd (tgt_at dev' (?b + ra)) = PCIEF_CMD_RD" "tc_tag (tgt_at dev' (?b + ra)) = PCIEF_RES_TAG" "m' = m"
      "\<forall>j < unat len. dev' (?b + PCIEF_DATA_ADDR + of_nat j) = m (a + of_nat j)"
    using assms(3)[unfolded obeys_def Let_def, rule_format, OF r] assms(4) unfolding c by (simp_all add: piece_cmd_def)
  then show ?thesis unfolding send_put[OF assms(1,2)] r by (simp add: Let_def piece_cmd_def)
qed

lemma ucast_of_unat: "(ucast (x :: u32) :: u64) = of_nat (unat x)"
  by simp

text \<open>The position moves on by a piece.\<close>

lemma next_piece:
  assumes "unat pos + unat (sz :: u32) < 2 ^ 32"
  shows "a + (ucast (pos + piece_len sz) :: u64) = (a + ucast pos) + of_nat (unat (piece_len sz))"
    "unat (pos + piece_len sz) + unat (sz - piece_len sz) < 2 ^ 32"
proof -
  have u: "unat (pos + piece_len sz) = unat pos + unat (piece_len sz)"
    using assms by (subst unat_add_lem[THEN iffD1]) simp_all
  have "(ucast (pos + piece_len sz) :: u64) = of_nat (unat (pos + piece_len sz))" by simp
  also have "\<dots> = ucast pos + of_nat (unat (piece_len sz))" unfolding u by simp
  finally show "a + (ucast (pos + piece_len sz) :: u64) = (a + ucast pos) + of_nat (unat (piece_len sz))" by simp
  show "unat (pos + piece_len sz) + unat (sz - piece_len sz) < 2 ^ 32" using assms unfolding u by simp
qed

lemma put_pieces:
  assumes "unat pos + unat (sz :: u32) < 2 ^ 32"
  shows "put (put m (a + ucast pos) (unat (piece_len sz)) (\<lambda>i. g (d + i))) (a + ucast (pos + piece_len sz)) (unat (sz - piece_len sz))
      (\<lambda>i. g (d + ucast (piece_len sz) + i)) = put m (a + ucast pos) (unat sz) (\<lambda>i. g (d + i))"
proof -
  have b: "unat sz \<le> 2 ^ 64" using unat_bound[of sz] by simp
  note e = ucast_of_unat[of "piece_len sz"]
  have "unat (piece_len sz) + unat (sz - piece_len sz) = unat sz" by simp
  then show ?thesis unfolding next_piece(1)[OF assms] e
    using put_more[of "unat (piece_len sz)" "unat (sz - piece_len sz)" m "a + ucast pos" "\<lambda>i. g (d + i)"] b
    by (simp only: add.assoc)
qed

lemma wr_loop:
  assumes "maps_slots bar" "tgt_slots target = Some (ca, ra)" "obeys fw bar target ca ra" "unat pos + unat sz < 2 ^ 32"
  shows "\<exists>dev'. tgt_wr_loop fw bar target a data pos sz user (dev, m) = Some (0, dev', put m (a + ucast pos) (unat sz) (\<lambda>i. user (data + i)))"
  using assms(4)
proof (induction "unat sz" arbitrary: data pos sz dev m rule: less_induct)
  case less
  show ?case
  proof (cases "sz = 0")
    case True
    then show ?thesis by (simp add: tgt_wr_loop.simps)
  next
    case False
    let ?len = "piece_len sz" and ?b = "bar_map_addr bar"
    have l: "unat ?len \<le> 0x800" by simp
    have w: "pcief_write bar PCIEF_DATA_ADDR ?len data user dev = Some (0, put dev (?b + PCIEF_DATA_ADDR) (unat ?len) (\<lambda>i. user (data + i)))"
      using window_inside[OF assms(1) l] l by (simp add: write_put)
    obtain dev1 res where s: "pcief_send_tgt_cmd fw bar target (piece_cmd PCIEF_CMD_WR ?len (a + ucast pos)) zero_cmd
        (put dev (?b + PCIEF_DATA_ADDR) (unat ?len) (\<lambda>i. user (data + i)), m) =
        Some (0, res, dev1, put m (a + ucast pos) (unat ?len) (\<lambda>i. user (data + i)))"
      using wr_piece[OF assms(1-3) l] by blast
    let ?m1 = "put m (a + ucast pos) (unat ?len) (\<lambda>i. user (data + i))"
    obtain dev2 where I: "tgt_wr_loop fw bar target a (data + ucast ?len) (pos + ?len) (sz - ?len) user (dev1, ?m1) =
        Some (0, dev2, put ?m1 (a + ucast (pos + ?len)) (unat (sz - ?len)) (\<lambda>i. user (data + ucast ?len + i)))"
      using less(1)[OF piece_len_less[OF False] next_piece(2)[OF less(2)]] by blast
    show ?thesis
      by (subst tgt_wr_loop.simps) (simp only: False if_False Let_def fst_conv snd_conv w s bind.bind_lunit prod.case put_pieces[OF less(2)] I, simp)
  qed
qed

lemma rd_loop:
  assumes "maps_slots bar" "tgt_slots target = Some (ca, ra)" "obeys fw bar target ca ra" "unat pos + unat sz < 2 ^ 32"
  shows "\<exists>dev'. tgt_rd_loop fw bar target a data pos sz user (dev, m) = Some (0, put user data (unat sz) (\<lambda>i. m (a + ucast pos + i)), dev', m)"
  using assms(4)
proof (induction "unat sz" arbitrary: data pos sz dev user rule: less_induct)
  case less
  show ?case
  proof (cases "sz = 0")
    case True
    then show ?thesis by (simp add: tgt_rd_loop.simps)
  next
    case False
    let ?len = "piece_len sz" and ?b = "bar_map_addr bar"
    have l: "unat ?len \<le> 0x800" by simp
    obtain dev1 res where s: "pcief_send_tgt_cmd fw bar target (piece_cmd PCIEF_CMD_RD ?len (a + ucast pos)) zero_cmd (dev, m) = Some (0, res, dev1, m)"
        "\<forall>j < unat ?len. dev1 (?b + PCIEF_DATA_ADDR + of_nat j) = m (a + ucast pos + of_nat j)"
      using rd_piece[OF assms(1-3) l] by blast
    have "put user data (unat ?len) (\<lambda>i. dev1 (?b + PCIEF_DATA_ADDR + i)) = put user data (unat ?len) (\<lambda>i. m (a + ucast pos + i))"
      using s(2)[rule_format, of "unat (x - data)" for x] by (simp add: put_def fun_eq_iff)
    then have r: "pcief_read bar PCIEF_DATA_ADDR ?len data dev1 user = Some (0, put user data (unat ?len) (\<lambda>i. m (a + ucast pos + i)))"
      using window_inside[OF assms(1) l] l by (simp add: write_put)
    let ?u1 = "put user data (unat ?len) (\<lambda>i. m (a + ucast pos + i))"
    obtain dev2 where I: "tgt_rd_loop fw bar target a (data + ucast ?len) (pos + ?len) (sz - ?len) ?u1 (dev1, m) =
        Some (0, put ?u1 (data + ucast ?len) (unat (sz - ?len)) (\<lambda>i. m (a + ucast (pos + ?len) + i)), dev2, m)"
      using less(1)[OF piece_len_less[OF False] next_piece(2)[OF less(2)]] by blast
    have b: "unat ?len + unat (sz - ?len) = unat sz" "unat sz \<le> 2 ^ 64" using unat_bound[of sz] by simp_all
    note e = ucast_of_unat[of ?len]
    have "put ?u1 (data + ucast ?len) (unat (sz - ?len)) (\<lambda>i. m (a + ucast (pos + ?len) + i)) = put user data (unat sz) (\<lambda>i. m (a + ucast pos + i))"
      unfolding next_piece(1)[OF less(2)] e using put_more[of "unat ?len" "unat (sz - ?len)" user data "\<lambda>i. m (a + ucast pos + i)"] b by (simp only: add.assoc)
    then show ?thesis using I
      by (subst tgt_rd_loop.simps) (simp only: False if_False Let_def fst_conv snd_conv r s(1) bind.bind_lunit prod.case, simp)
  qed
qed

section \<open>Properties\<close>

text \<open>C30. Data of any size reach a processor that obeys, and come back: \<open>pcief_tgt_wr\<close> stores every byte at its address in the memory of the
  processor and changes no other byte there, and \<open>pcief_tgt_rd\<close> then returns the same bytes and leaves the memory as it is.\<close>

theorem target_roundtrip:
  assumes "maps_slots bar" "tgt_slots target = Some (ca, ra)" "obeys fw bar target ca ra"
  shows "\<exists>dev' m'. pcief_tgt_wr fw bar target a data sz user (dev, m) = Some (0, dev', m') \<and>
    (\<forall>j < unat sz. m' (a + of_nat j) = user (data + of_nat j)) \<and> (\<forall>x. unat sz \<le> unat (x - a) \<longrightarrow> m' x = m x) \<and>
    (\<exists>user' dev''. pcief_tgt_rd fw bar target a data2 sz user2 (dev', m') = Some (0, user', dev'', m') \<and>
      (\<forall>j < unat sz. user' (data2 + of_nat j) = user (data + of_nat j)))"
proof -
  have z: "unat (0 :: u32) + unat sz < 2 ^ 32" using unat_bound[of sz] by simp
  have n: "unat sz \<le> 2 ^ 64" using unat_bound[of sz] by simp
  let ?m = "put m a (unat sz) (\<lambda>i. user (data + i))" and ?u = "put user2 data2 (unat sz) (\<lambda>i. put m a (unat sz) (\<lambda>i. user (data + i)) (a + i))"
  obtain dev' where w: "pcief_tgt_wr fw bar target a data sz user (dev, m) = Some (0, dev', ?m)"
    using wr_loop[OF assms z, of a data user dev m] by (auto simp: pcief_tgt_wr_def)
  obtain dev'' where r: "pcief_tgt_rd fw bar target a data2 sz user2 (dev', ?m) = Some (0, ?u, dev'', ?m)"
    using rd_loop[OF assms z, of a data2 user2 dev' ?m] by (auto simp: pcief_tgt_rd_def)
  have b: "?m (a + of_nat j) = user (data + of_nat j)" "?u (data2 + of_nat j) = user (data + of_nat j)" if "j < unat sz" for j
    using put_at[OF that n] by simp_all
  have o: "\<forall>x. unat sz \<le> unat (x - a) \<longrightarrow> ?m x = m x" by (simp add: put_def)
  show ?thesis using w r b o by blast
qed

text \<open>The memory of a virtual function is not where the client says it is: its formula puts the functions below the top of 47 GB of memory,
  the driver gives function \<open>vf\<close> the memory from \<open>vf\<close> GB on.  The two agree only for 47 functions; with the 60 functions of the driver the
  address of the client wraps around.\<close>

lemma client_vf_address:
  assumes "0 < sint n"
  shows "pcief_vf_base_addr n (of_nat vf) = SIZE_VGPU_DDR * scast (of_nat vf :: u32) \<longleftrightarrow> n = 47"
proof
  assume "pcief_vf_base_addr n (of_nat vf) = SIZE_VGPU_DDR * scast (of_nat vf :: u32)"
  then have e: "(0x40000000 :: u64) * scast n = 0xbc0000000"
    using assms by (simp add: pcief_vf_base_addr_def DDR_SZ_def DDR_SZ_RESV_def SIZE_VGPU_DDR_def)
  have lt: "sint n < 2 ^ 31" using sint_lt[of n] by simp
  have "uint (scast n :: u64) = take_bit 64 (sint n)" unfolding scast_eq uint_word_of_int_eq by simp
  also have "\<dots> = sint n" using assms lt by (intro take_bit_int_eq_self) simp_all
  finally have "uint (0x40000000 * scast n :: u64) = 0x40000000 * sint n"
    using assms lt by (simp add: uint_word_ariths)
  then have "0x40000000 * sint n = 0xbc0000000" unfolding e by simp
  then have "sint n = sint (47 :: u32)" by simp
  then show "n = 47" by (simp only: sint_word_ariths signed_word_eqI)
next
  assume "n = 47"
  then show "pcief_vf_base_addr n (of_nat vf) = SIZE_VGPU_DDR * scast (of_nat vf :: u32)"
    by (simp add: pcief_vf_base_addr_def DDR_SZ_def DDR_SZ_RESV_def SIZE_VGPU_DDR_def)
qed

lemma client_address_60: "pcief_vf_base_addr 60 (of_nat vf) \<noteq> SIZE_VGPU_DDR * scast (of_nat vf :: u32)"
  using client_vf_address[of 60 vf] by simp

section \<open>Witness\<close>

text \<open>A system processor that does what it is told.\<close>

definition demo_window :: pcief_bar where
  "demo_window = \<lparr>bar_paddr = 0x10000000, bar_vaddr = 0xff00, bar_size = 0x2000000, bar_map_addr = 0x7f000000\<rparr>"

definition demo_fw :: "memory firmware" where
  "demo_fw target dev m =
    (let b = bar_map_addr demo_window; c = tgt_at dev (b + PCIEF_SMC_CMD_ADDR); n = unat (tc_para0 c); w = b + PCIEF_DATA_ADDR;
         answer = (\<lambda>dev. put dev (b + PCIEF_SMC_RES_ADDR) 32 (stack_of (tgt_bytes (zero_cmd\<lparr>tc_cmd := tc_cmd c, tc_tag := PCIEF_RES_TAG\<rparr>)))) in
     if tc_cmd c = PCIEF_CMD_WR then (1, answer dev, put m (tc_para1 c) n (\<lambda>i. dev (w + i)))
     else (1, answer (put dev w n (\<lambda>i. m (tc_para1 c + i))), m))"

lemma demo_obeys: "obeys demo_fw demo_window PCIEF_TGT_SMC PCIEF_SMC_CMD_ADDR PCIEF_SMC_RES_ADDR"
proof -
  have "unat (PCIEF_DATA_ADDR - PCIEF_SMC_RES_ADDR) = 0x3e0" by (simp add: slot_defs)
  then have "put dev (b + PCIEF_SMC_RES_ADDR) 32 f (b + PCIEF_DATA_ADDR + of_nat j) = dev (b + PCIEF_DATA_ADDR + of_nat j)" if "j < 0x800" for dev b f j
    using that by (intro below_window) (simp_all add: unsigned_of_nat take_bit_nat_eq_self)
  then show ?thesis
    unfolding obeys_def demo_fw_def Let_def by (auto simp: tgt_at_cmd put_at)
qed

theorem target_roundtrip_witness:
  "\<exists>dev' m'. pcief_tgt_wr demo_fw demo_window PCIEF_TGT_SMC 0x100 0x8000 5000 (\<lambda>x. ucast x) (\<lambda>_. 0, \<lambda>_. 0) = Some (0, dev', m') \<and> m' (0x100 + of_nat 4999) = ucast (0x8000 + of_nat 4999 :: u64)"
proof -
  have "maps_slots demo_window" by (simp add: maps_slots_def demo_window_def slot_defs)
  moreover have "tgt_slots PCIEF_TGT_SMC = Some (PCIEF_SMC_CMD_ADDR, PCIEF_SMC_RES_ADDR)" by (simp add: tgt_slots_def)
  ultimately obtain dev' m' where w: "pcief_tgt_wr demo_fw demo_window PCIEF_TGT_SMC 0x100 0x8000 5000 (\<lambda>x. ucast x) (\<lambda>_. 0, \<lambda>_. 0) = Some (0, dev', m')"
      and b: "\<forall>j < unat (5000 :: u32). m' (0x100 + of_nat j) = ucast (0x8000 + of_nat j :: u64)"
    using target_roundtrip[OF _ _ demo_obeys] by blast
  have "m' (0x100 + of_nat 4999) = ucast (0x8000 + of_nat 4999 :: u64)" using b by (rule allE[of _ 4999]) simp
  then show ?thesis using w by blast
qed

end
