(* ===== verification/ClientState.thy ===== *)
theory ClientState
  imports TargetCmdProps
begin

text \<open>
  The state of the client library, \<open>struct pcie_f\<close> in \<open>src/test/lib/mt_pcie_f.c\<close>: which device files are open and
  what \<open>pcief_init\<close> has learned of their regions.  What \<open>open\<close>, the attributes and \<open>mmap\<close> answer is a record of parameters.  A
  function is opened once; a failure of \<open>open\<close> is recorded as a success; and the number of virtual functions that the client learns from the driver leads it to
  memory that the driver has not given them.
\<close>

section \<open>State\<close>

definition F_NUM :: nat where "F_NUM = F_MTDMA + 1"

record pcie_f =
  pf_init :: bool
  pf_vf_num :: u32
  pf_fun :: "nat \<Rightarrow> int \<times> pcief_bar list"

definition g_pcief :: pcie_f where
  "g_pcief = \<lparr>pf_init = False, pf_vf_num = 0, pf_fun = (\<lambda>_. (0, replicate F_BAR_MAX no_bar))\<rparr>"

record client_env =
  ce_open :: "nat \<Rightarrow> int"
  ce_read :: "nat \<Rightarrow> string \<Rightarrow> string option"
  ce_mmap :: "nat \<Rightarrow> int \<Rightarrow> nat \<Rightarrow> u64 \<Rightarrow> u64 option"
  ce_junk :: "u64 \<times> u64"

text \<open>\<open>%d\<close>: the variable keeps its value 0 when there is no number.\<close>

definition dec_digit :: "char \<Rightarrow> bool" where
  "dec_digit c \<longleftrightarrow> 48 \<le> (of_char c :: nat) \<and> (of_char c :: nat) \<le> 57"

definition scan_dec :: "string \<Rightarrow> u32" where
  "scan_dec s =
    (let s = dropWhile (\<lambda>c. of_char c \<in> {9, 10, 11, 12, 13, 32 :: nat}) s;
         neg = (s \<noteq> [] \<and> hd s = CHR ''-'');
         s = (if s \<noteq> [] \<and> (hd s = CHR ''-'' \<or> hd s = CHR ''+'') then tl s else s);
         v = foldl (\<lambda>v c. 10 * v + (of_char c - 48)) (0 :: nat) (takeWhile dec_digit s)
     in word_of_int (if neg then - int v else int v))"

section \<open>Operations\<close>

text \<open>\<open>pcief_get_instance\<close> as an operation on the state.  \<open>None\<close>: the null pointer.  A descriptor that is 0 counts as not open.\<close>

definition pcief_instance :: "client_env \<Rightarrow> nat \<Rightarrow> pcie_f \<Rightarrow> (int \<times> pcief_bar list) option \<times> pcie_f" where
  "pcief_instance env fun st =
    (if \<not> pf_init st \<or> F_NUM \<le> fun then (None, st)
     else if fst (pf_fun st fun) \<noteq> 0 then (Some (pf_fun st fun), st)
     else
       (let f = ce_open env fun in
        if f = 0 then (Some (pf_fun st fun), st)
        else
          (let bars = pcief_get_instance (ce_read env fun) (ce_mmap env fun f) (ce_junk env);
               st = (if fun = F_GPU
                     then (case ce_read env fun ''vf'' of None \<Rightarrow> st | Some txt \<Rightarrow> st\<lparr>pf_vf_num := scan_dec (take 19 txt)\<rparr>)
                     else st);
               st = st\<lparr>pf_fun := (pf_fun st)(fun := (f, bars))\<rparr>
           in (Some (f, bars), st))))"

definition pcief_init :: "client_env \<Rightarrow> pcie_f \<Rightarrow> pcie_f" where
  "pcief_init env st = fold (\<lambda>i st. snd (pcief_instance env i st)) [0..<F_NUM] (st\<lparr>pf_init := True\<rparr>)"

text \<open>\<open>pcief_get_barinfo\<close>: \<open>None\<close> when the null pointer is used, or the region is not one of the array.\<close>

definition pcief_get_barinfo :: "client_env \<Rightarrow> nat \<Rightarrow> nat \<Rightarrow> pcie_f \<Rightarrow> (pcief_bar \<times> pcie_f) option" where
  "pcief_get_barinfo env fun bar st =
    (case pcief_instance env fun st of
       (None, _) \<Rightarrow> None
     | (Some (_, bars), st) \<Rightarrow> if bar < F_BAR_MAX then Some (bars ! bar, st) else None)"

definition pcief_get_vf_num :: "pcie_f \<Rightarrow> u32" where
  "pcief_get_vf_num st = pf_vf_num st"

section \<open>Properties\<close>

text \<open>What \<open>pcief_init\<close> learns of a function.\<close>

definition learned :: "client_env \<Rightarrow> nat \<Rightarrow> int \<times> pcief_bar list" where
  "learned env fun = (ce_open env fun, pcief_get_instance (ce_read env fun) (ce_mmap env fun (ce_open env fun)) (ce_junk env))"

lemma instance_opens:
  assumes "pf_init st" "fun < F_NUM" "fst (pf_fun st fun) = 0" "ce_open env fun \<noteq> 0"
  shows "snd (pcief_instance env fun st) = st\<lparr>pf_fun := (pf_fun st)(fun := learned env fun),
    pf_vf_num := (if fun = F_GPU then case ce_read env fun ''vf'' of None \<Rightarrow> pf_vf_num st | Some txt \<Rightarrow> scan_dec (take 19 txt) else pf_vf_num st)\<rparr>"
  using assms by (simp add: pcief_instance_def learned_def Let_def split: option.split)

lemma init_opens:
  assumes "n \<le> F_NUM" "\<forall>i < n. ce_open env i \<noteq> 0"
  shows "fold (\<lambda>i st. snd (pcief_instance env i st)) [0..<n] (g_pcief\<lparr>pf_init := True\<rparr>) =
    \<lparr>pf_init = True, pf_vf_num = (if n = 0 then 0 else case ce_read env F_GPU ''vf'' of None \<Rightarrow> 0 | Some txt \<Rightarrow> scan_dec (take 19 txt)),
     pf_fun = (\<lambda>i. if i < n then learned env i else (0, replicate F_BAR_MAX no_bar))\<rparr>"
  using assms
proof (induction n)
  case (Suc n)
  then have IH: "fold (\<lambda>i st. snd (pcief_instance env i st)) [0..<n] (g_pcief\<lparr>pf_init := True\<rparr>) =
    \<lparr>pf_init = True, pf_vf_num = (if n = 0 then 0 else case ce_read env F_GPU ''vf'' of None \<Rightarrow> 0 | Some txt \<Rightarrow> scan_dec (take 19 txt)),
     pf_fun = (\<lambda>i. if i < n then learned env i else (0, replicate F_BAR_MAX no_bar))\<rparr>" by simp
  show ?case using Suc.prems
    by (simp add: IH instance_opens fun_eq_iff F_GPU_def split: option.split)
qed (simp add: g_pcief_def)

text \<open>After \<open>pcief_init\<close> every function is what the first attempt to open it gave, and no later call tries again; so a function whose
  file could not be opened (the descriptor is -1) stays like that.\<close>

theorem client_opens_once:
  assumes "\<forall>i < F_NUM. ce_open env i \<noteq> 0" "fun < F_NUM"
  shows "pf_fun (pcief_init env g_pcief) fun = learned env fun \<and>
    pcief_instance env' fun (pcief_init env g_pcief) = (Some (learned env fun), pcief_init env g_pcief)"
  using assms init_opens[OF order_refl assms(1)]
  by (simp add: pcief_init_def pcief_instance_def learned_def)

theorem client_opens_once_witness:
  "fst (pcief_instance \<lparr>ce_open = (\<lambda>_. 3), ce_read = (\<lambda>_ _. None), ce_mmap = (\<lambda>_ _ _ _. None), ce_junk = (0, 0)\<rparr> 5
     (pcief_init \<lparr>ce_open = (\<lambda>_. -1), ce_read = (\<lambda>_ _. None), ce_mmap = (\<lambda>_ _ _ _. None), ce_junk = (0, 0)\<rparr> g_pcief)) \<noteq> None \<and>
   fst (pf_fun (pcief_init \<lparr>ce_open = (\<lambda>_. -1), ce_read = (\<lambda>_ _. None), ce_mmap = (\<lambda>_ _ _ _. None), ce_junk = (0, 0)\<rparr> g_pcief) 5) = -1"
proof -
  let ?e = "\<lparr>ce_open = (\<lambda>_. -1), ce_read = (\<lambda>_ _. None), ce_mmap = (\<lambda>_ _ _ _. None), ce_junk = (0, 0)\<rparr>"
  have "5 < F_NUM" by (simp add: F_NUM_def F_MTDMA_def VF_NUM_def)
  from client_opens_once[of ?e 5, OF _ this] show ?thesis by (simp add: learned_def)
qed

lemma vf_text: "scan_dec (take 19 show_vf) = 60"
  by code_simp

text \<open>C40. The client and the driver do not agree on the memory of the virtual functions: the client asks the driver how many functions there are, and
  from the answer computes, for every one of them, an address that is not the one to which the driver translates the memory of that function.\<close>

theorem client_vf_memory_elsewhere:
  assumes "\<forall>i < F_NUM. ce_open env i \<noteq> 0" "ce_read env F_GPU = attr_read (gpu_attrs kva d)" "vf < VF_NUM"
  shows "pcief_get_vf_num (pcief_init env g_pcief) = of_nat VF_NUM \<and>
    pcief_vf_base_addr (pcief_get_vf_num (pcief_init env g_pcief)) (of_nat vf) \<noteq> LADDR_VGPU vf"
proof -
  have "attr_read (gpu_attrs kva d) ''vf'' = Some show_vf" by (simp add: attr_read_def gpu_attrs_def)
  then have n: "pcief_get_vf_num (pcief_init env g_pcief) = 60"
    using init_opens[OF order_refl assms(1)] assms(2) by (simp add: pcief_get_vf_num_def pcief_init_def F_NUM_def vf_text)
  have "(scast (of_nat vf :: u32) :: u64) = of_nat vf"
  proof -
    have "sint (of_nat vf :: u32) = int vf" using assms(3) by (simp add: VF_NUM_def signed_of_nat signed_take_bit_int_eq_self)
    then show ?thesis unfolding scast_eq by simp
  qed
  then have "pcief_vf_base_addr 60 (of_nat vf) \<noteq> LADDR_VGPU vf"
    using client_address_60[of vf] by (simp add: LADDR_VGPU_def LADDR_VGPU_BASE_def)
  then show ?thesis unfolding n by (simp add: VF_NUM_def)
qed

theorem client_vf_memory_elsewhere_witness:
  "pcief_vf_base_addr (pcief_get_vf_num (pcief_init \<lparr>ce_open = (\<lambda>_. 3), ce_read = (\<lambda>_. attr_read (gpu_attrs (\<lambda>_. 0) (Some demo_ep))),
     ce_mmap = (\<lambda>_ _ _ _. None), ce_junk = (0, 0)\<rparr> g_pcief)) (of_nat 3) \<noteq> LADDR_VGPU 3"
  by (rule conjunct2[OF client_vf_memory_elsewhere[where kva = "\<lambda>_. 0" and d = "Some demo_ep"]]) (simp_all add: VF_NUM_def)

end
