(* ===== verification/ClientWidth.thy ===== *)
theory ClientWidth
  imports ClientLibProps
begin

text \<open>
  \<open>pcief_write_s\<close> and \<open>pcief_read_s\<close> of \<open>src/test/lib/mt_pcie_f.c\<close>, the transfers whose caller chooses the largest width of an
  access.  For width 8 they are \<open>pcief_write\<close> and \<open>pcief_read\<close>; for the other widths their index is
  not initialised, and what they move depends on what was on the stack, the parameter \<open>start\<close>.
\<close>

section \<open>The accesses\<close>

text \<open>The loop over the accesses of one width, and the index after it.  The index is compared as an unsigned number.\<close>

function width_loop :: "nat \<Rightarrow> nat \<Rightarrow> nat \<Rightarrow> (nat \<times> nat) list \<times> nat" where
  "width_loop w i e = (if i < e \<and> 0 < w then (let (p, i') = width_loop w (i + w) e in ((w, i) # p, i')) else ([], i))"
  by pat_completeness auto
termination by (relation "measure (\<lambda>(w, i, e). e - i)") auto

declare width_loop.simps [simp del]

definition width_plan :: "u32 \<Rightarrow> u32 \<Rightarrow> nat \<Rightarrow> (nat \<times> nat) list" where
  "width_plan type start len =
    (let (q, i) = (if type = 8 then width_loop 8 0 (len div 8 * 8) else ([], unat start));
         (d, i) = (if type = 8 \<or> type = 4 then width_loop 4 i (len div 4 * 4) else ([], i));
         (w, i) = (if type = 8 \<or> type = 4 \<or> type = 2 then width_loop 2 i (len div 2 * 2) else ([], i));
         (b, i) = (if type = 8 \<or> type = 4 \<or> type = 2 \<or> type = 1 then width_loop 1 i len else ([], i))
     in q @ d @ w @ b)"

definition pcief_write_s :: "pcief_bar \<Rightarrow> u64 \<Rightarrow> u32 \<Rightarrow> u64 \<Rightarrow> u32 \<Rightarrow> u32 \<Rightarrow> memory \<Rightarrow> memory \<Rightarrow> (int \<times> memory) option" where
  "pcief_write_s bar offset len data type start user dev =
    (if bar_size bar < offset + ucast len then Some (-1, dev)
     else if 2 ^ 31 \<le> unat len then None
     else Some (0, fold (\<lambda>wi. move_bytes wi (\<lambda>j. data + of_nat j) (\<lambda>j. bar_map_addr bar + offset + of_nat j) user) (width_plan type start (unat len)) dev))"

definition pcief_read_s :: "pcief_bar \<Rightarrow> u64 \<Rightarrow> u32 \<Rightarrow> u64 \<Rightarrow> u32 \<Rightarrow> u32 \<Rightarrow> memory \<Rightarrow> memory \<Rightarrow> (int \<times> memory) option" where
  "pcief_read_s bar offset len data type start dev user =
    (if bar_size bar < offset + ucast len then Some (-1, user)
     else if 2 ^ 31 \<le> unat len then None
     else Some (0, fold (\<lambda>wi. move_bytes wi (\<lambda>j. bar_map_addr bar + offset + of_nat j) (\<lambda>j. data + of_nat j) dev) (width_plan type start (unat len)) user))"

section \<open>Properties\<close>

lemma width_loop_none: "e \<le> i \<Longrightarrow> width_loop w i e = ([], i)"
  by (simp add: width_loop.simps)

lemma width_loop_steps: "0 < w \<Longrightarrow> width_loop w i (i + n * w) = (map (\<lambda>k. (w, i + w * k)) [0..<n], i + n * w)"
proof (induction n arbitrary: i)
  case (Suc n)
  have "width_loop w (i + w) (i + w + n * w) = (map (\<lambda>k. (w, i + w + w * k)) [0..<n], i + w + n * w)" using Suc by blast
  then have "width_loop w i (i + Suc n * w) = ((w, i) # map (\<lambda>k. (w, i + w + w * k)) [0..<n], i + Suc n * w)"
    using Suc.prems by (subst width_loop.simps) (simp add: add.assoc)
  then show ?case by (simp add: map_upt_Suc algebra_simps del: upt_Suc)
qed (simp add: width_loop_none)

text \<open>One more access of the smaller width, if there is room for it.\<close>

lemma width_loop_once: "0 < w \<Longrightarrow> i \<le> e \<Longrightarrow> e < i + 2 * w \<Longrightarrow> w dvd (e - i) \<Longrightarrow> width_loop w i e = (if i < e then ([(w, i)], i + w) else ([], i))"
proof -
  assume a: "0 < w" "i \<le> e" "e < i + 2 * w" "w dvd (e - i)"
  then obtain k where k: "e - i = w * k" by (auto elim: dvdE)
  then have "w * k < w * 2" using a(2,3) by linarith
  then have "k = 0 \<or> k = 1" using a(1) by auto
  then have e: "e = i + (if i < e then 1 else 0) * w" using k a(1,2) by auto
  show ?thesis
  proof (cases "i < e")
    case True
    then show ?thesis using width_loop_steps[OF a(1), of i 1] e by simp
  next
    case False
    then show ?thesis using a(2) by (simp add: width_loop_none)
  qed
qed

lemma width_parts:
  fixes m n :: nat
  assumes "0 < m"
  shows "n div m * m = n div (2 * m) * (2 * m) + n div m mod 2 * m"
proof -
  have "n div (2 * m) = n div m div 2" by (metis div_mult2_eq mult.commute)
  then have "n div (2 * m) * (2 * m) = n div m div 2 * 2 * m" by simp
  then show ?thesis by (metis add_mult_distrib div_mult_mod_eq)
qed

lemma width_loop_half:
  assumes "0 < m" and "d = n div (2 * m) * (2 * m)" and "e = n div m * m"
  shows "width_loop m d e = (if d < e then ([(m, d)], d + m) else ([], d))" and "(if d < e then d + m else d) = e"
proof -
  have e: "e = d + n div m mod 2 * m" using width_parts[OF assms(1)] assms(2,3) by simp
  have two: "n div m mod 2 = 0 \<or> n div m mod 2 = 1" by auto
  show "width_loop m d e = (if d < e then ([(m, d)], d + m) else ([], d))"
    by (rule width_loop_once) (use e two assms(1) in auto)
  show "(if d < e then d + m else d) = e" using e two assms(1) by auto
qed

lemma width_plan_8: "width_plan 8 start len = xfer_plan len"
proof -
  let ?q = "len div 8 * 8" and ?d = "len div 4 * 4" and ?w = "len div 2 * 2"
  have q: "width_loop 8 0 ?q = (map (\<lambda>k. (8, 8 * k)) [0..<len div 8], ?q)" using width_loop_steps[of 8 0 "len div 8"] by simp
  have d: "width_loop 4 ?q ?d = (if ?q < ?d then ([(4, ?q)], ?q + 4) else ([], ?q))" and d': "(if ?q < ?d then ?q + 4 else ?q) = ?d"
    using width_loop_half[of 4 ?q len ?d] by simp_all
  have w: "width_loop 2 ?d ?w = (if ?d < ?w then ([(2, ?d)], ?d + 2) else ([], ?d))" and w': "(if ?d < ?w then ?d + 2 else ?d) = ?w"
    using width_loop_half[of 2 ?d len ?w] by simp_all
  have b: "width_loop 1 ?w len = (if ?w < len then ([(1, ?w)], ?w + 1) else ([], ?w))"
    using width_loop_half(1)[of 1 ?w len len] by simp
  have x: "(if ?q < ?d then ([(4, ?q)], ?q + 4) else ([], ?q)) = (if ?q < ?d then [(4, ?q)] else [], ?d)" using d' by auto
  have y: "(if ?d < ?w then ([(2, ?d)], ?d + 2) else ([], ?d)) = (if ?d < ?w then [(2, ?d)] else [], ?w)" using w' by auto
  have z: "(if ?w < len then ([(1, ?w)], ?w + 1) else ([], ?w)) = (if ?w < len then [(1, ?w)] else [], if ?w < len then ?w + 1 else ?w)" by simp
  show ?thesis unfolding width_plan_def xfer_plan_def Let_def
    by (simp only: q d w b x y z prod.case simp_thms if_True)
qed

text \<open>With width 8 the transfers are those of \<open>pcief_write\<close> and \<open>pcief_read\<close>.  With a smaller width the bytes that are moved depend on
  the uninitialised index: when it is not below the length, seen as an unsigned number, nothing is moved at all, and the result is 0, success.\<close>

theorem client_width:
  "pcief_write_s bar offset len data 8 start user dev = pcief_write bar offset len data user dev \<and>
   pcief_read_s bar offset len data 8 start dev user = pcief_read bar offset len data dev user \<and>
   (type \<noteq> 8 \<and> len \<le> start \<and> offset + ucast len \<le> bar_size bar \<and> unat len < 2 ^ 31 \<longrightarrow>
     pcief_write_s bar offset len data type start user dev = Some (0, dev) \<and> pcief_read_s bar offset len data type start dev user = Some (0, user))"
proof (intro conjI impI)
  show "pcief_write_s bar offset len data 8 start user dev = pcief_write bar offset len data user dev"
    "pcief_read_s bar offset len data 8 start dev user = pcief_read bar offset len data dev user"
    by (simp_all add: pcief_write_s_def pcief_write_def pcief_read_s_def pcief_read_def width_plan_8)
next
  assume a: "type \<noteq> 8 \<and> len \<le> start \<and> offset + ucast len \<le> bar_size bar \<and> unat len < 2 ^ 31"
  have "unat len div n * n \<le> unat start" for n
    using order_trans[OF div_times_less_eq_dividend, of "unat len" "unat start"] a by (simp add: word_le_nat_alt)
  then have "width_plan type start (unat len) = []"
    using a unfolding width_plan_def by (auto simp: width_loop_none word_le_nat_alt Let_def)
  then show "pcief_write_s bar offset len data type start user dev = Some (0, dev)" "pcief_read_s bar offset len data type start dev user = Some (0, user)"
    using a by (simp_all add: pcief_write_s_def pcief_read_s_def not_less[symmetric])
qed

theorem client_width_witness:
  "pcief_write_s demo_client 0x10 8 0x100 4 0x7fff (\<lambda>a. 7) (\<lambda>_. 0) = Some (0, \<lambda>_. 0)"
  using client_width[where type = 4 and len = 8 and start = "0x7fff" and offset = "0x10" and bar = demo_client and data = "0x100" and user = "\<lambda>a. 7" and dev = "\<lambda>_. 0"]
  by (simp add: demo_client_def)

end
