(* ===== verification/IntSources.thy ===== *)
theory IntSources
  imports IntrProps
begin

text \<open>
  The interrupt sources of \<open>qy_intd_def.h\<close>: software interrupts and the lines of the hardware with their numbers at the
  distributor, and the events of the PCIe subsystem behind its lines.  The lemmas connect them with the accessors of
  \<open>qy_intd.h\<close>: every source has a control register of its own, and a number of its own at the controller.
\<close>

section \<open>Sources and their numbers\<close>

text \<open>Families of lines have an index.  Numbers 137 and 138 are reserved.\<close>

datatype sgi =
  SGI_PF0_TEST | SGI_PF1_TEST | SGI_DSP_CMD | SGI_DSP_RES | SGI_FEC_CMD | SGI_FEC_RES | SGI_SMC_CMD | SGI_SMC_RES

definition sgi_map :: "(sgi \<times> nat) list" where
  "sgi_map =
    [(SGI_PF0_TEST, 0), (SGI_PF1_TEST, 1), (SGI_DSP_CMD, 2), (SGI_DSP_RES, 3), (SGI_FEC_CMD, 4), (SGI_FEC_RES, 5), (SGI_SMC_CMD, 6), (SGI_SMC_RES, 7)]"

datatype spi =
  SPI_DMA_INT | SPI_BIF_INT_O | SPI_SPI_BOOT_INTR | SPI_I2C_INT nat | SPI_I2CS_INT | SPI_UART_INTR nat | SPI_PAD_INTC_INT | SPI_TIMER_INTC_INT nat |
  SPI_PWM_S_INTC_INT | SPI_PMU_GPIO_INT | SPI_CLKREQ_IRQ | SPI_TE_S_INT | SPI_TE_NS_INT | SPI_PWM_NS_INTC_INT | SPI_FE_DMA_CH_MRG_INTR |
  SPI_FE_DMA_COMM_ALARM_INTR | SPI_FE_SS_IRQ | SPI_FE_TIMER_INTC_INT nat | SPI_FE_WDOG_RST_INT | SPI_AUD_IRQ | SPI_DPC_IRQ nat |
  SPI_DISP_SS_OTHER_I2S_IRQ nat | SPI_DSC_INTR nat | SPI_GPU_IRQ nat | SPI_IRQ_MSS_LLC nat | SPI_DPTX_DP nat | SPI_DPTX_TRNG nat | SPI_DPTX_HPI nat |
  SPI_PCIE_INT nat | SPI_SM_PLL_OUT_LOCK_INT | SPI_SM_PLL_IN_LOCK_INT | SPI_BODA955_INTR | SPI_WAVE517_VPU_INTR nat | SPI_WAVE627_VPU_INTR nat |
  SPI_JPEG_INTR nat | SPI_GPU_EATA_INT nat | SPI_GPU_TZC_INT nat | SPI_FEC_TZCINT | SPI_VID_NOC_TZCINT nat | SPI_VID_NOC_EATA_INT nat |
  SPI_SM_TZCINT | SPI_PCIE_DMAC_EATA_INT | SPI_PCIE_TZCINT | SPI_DISP_TZCINT | SPI_QSPI_S_T_MAIN_TIMEOUT | SPI_CONNECT_SUBM_PVTC_IRQ |
  SPI_MTLINK_SS_INT nat nat | SPI_FE_TO_SMC_SGI | SPI_FE_TO_PCIE_SGI | SPI_MTLINK_TZCINT nat

definition spi_map :: "(spi \<times> nat) list" where
  "spi_map =
    [(SPI_DMA_INT, 0), (SPI_BIF_INT_O, 1), (SPI_SPI_BOOT_INTR, 2), (SPI_I2C_INT 0, 3), (SPI_I2C_INT 1, 4), (SPI_I2CS_INT, 5), (SPI_UART_INTR 0, 6),
    (SPI_PAD_INTC_INT, 7), (SPI_TIMER_INTC_INT 0, 8), (SPI_TIMER_INTC_INT 1, 9), (SPI_TIMER_INTC_INT 2, 10), (SPI_PWM_S_INTC_INT, 11),
    (SPI_PMU_GPIO_INT, 12), (SPI_CLKREQ_IRQ, 13), (SPI_TE_S_INT, 14), (SPI_TE_NS_INT, 15), (SPI_PWM_NS_INTC_INT, 16), (SPI_FE_DMA_CH_MRG_INTR, 17),
    (SPI_FE_DMA_COMM_ALARM_INTR, 18), (SPI_FE_SS_IRQ, 19), (SPI_UART_INTR 1, 20), (SPI_FE_TIMER_INTC_INT 0, 21), (SPI_FE_TIMER_INTC_INT 1, 22),
    (SPI_FE_TIMER_INTC_INT 2, 23), (SPI_FE_WDOG_RST_INT, 24), (SPI_AUD_IRQ, 25), (SPI_DPC_IRQ 0, 26), (SPI_DPC_IRQ 1, 27), (SPI_DPC_IRQ 2, 28),
    (SPI_DPC_IRQ 3, 29), (SPI_DISP_SS_OTHER_I2S_IRQ 0, 30), (SPI_DISP_SS_OTHER_I2S_IRQ 1, 31), (SPI_DISP_SS_OTHER_I2S_IRQ 2, 32),
    (SPI_DISP_SS_OTHER_I2S_IRQ 3, 33), (SPI_DSC_INTR 0, 34), (SPI_DSC_INTR 1, 35), (SPI_DSC_INTR 2, 36), (SPI_DSC_INTR 3, 37), (SPI_GPU_IRQ 0, 38),
    (SPI_GPU_IRQ 1, 39), (SPI_GPU_IRQ 2, 40), (SPI_GPU_IRQ 3, 41), (SPI_GPU_IRQ 4, 42), (SPI_GPU_IRQ 5, 43), (SPI_GPU_IRQ 6, 44), (SPI_GPU_IRQ 7, 45),
    (SPI_IRQ_MSS_LLC 0, 46), (SPI_IRQ_MSS_LLC 1, 47), (SPI_IRQ_MSS_LLC 2, 48), (SPI_IRQ_MSS_LLC 3, 49), (SPI_IRQ_MSS_LLC 4, 50),
    (SPI_IRQ_MSS_LLC 5, 51), (SPI_IRQ_MSS_LLC 6, 52), (SPI_IRQ_MSS_LLC 7, 53), (SPI_IRQ_MSS_LLC 8, 54), (SPI_IRQ_MSS_LLC 9, 55),
    (SPI_IRQ_MSS_LLC 10, 56), (SPI_IRQ_MSS_LLC 11, 57), (SPI_IRQ_MSS_LLC 12, 58), (SPI_IRQ_MSS_LLC 13, 59), (SPI_IRQ_MSS_LLC 14, 60),
    (SPI_IRQ_MSS_LLC 15, 61), (SPI_IRQ_MSS_LLC 16, 62), (SPI_IRQ_MSS_LLC 17, 63), (SPI_IRQ_MSS_LLC 18, 64), (SPI_IRQ_MSS_LLC 19, 65),
    (SPI_IRQ_MSS_LLC 20, 66), (SPI_IRQ_MSS_LLC 21, 67), (SPI_IRQ_MSS_LLC 22, 68), (SPI_IRQ_MSS_LLC 23, 69), (SPI_DPTX_DP 0, 70),
    (SPI_DPTX_TRNG 0, 71), (SPI_DPTX_HPI 0, 72), (SPI_DPTX_DP 1, 73), (SPI_DPTX_TRNG 1, 74), (SPI_DPTX_HPI 1, 75), (SPI_DPTX_DP 2, 76),
    (SPI_DPTX_TRNG 2, 77), (SPI_DPTX_HPI 2, 78), (SPI_DPTX_DP 3, 79), (SPI_DPTX_TRNG 3, 80), (SPI_DPTX_HPI 3, 81), (SPI_PCIE_INT 1, 82),
    (SPI_PCIE_INT 2, 83), (SPI_PCIE_INT 3, 84), (SPI_PCIE_INT 4, 85), (SPI_PCIE_INT 5, 86), (SPI_PCIE_INT 6, 87), (SPI_PCIE_INT 7, 88),
    (SPI_PCIE_INT 8, 89), (SPI_PCIE_INT 9, 90), (SPI_PCIE_INT 10, 91), (SPI_PCIE_INT 11, 92), (SPI_PCIE_INT 12, 93), (SPI_PCIE_INT 13, 94),
    (SPI_PCIE_INT 14, 95), (SPI_SM_PLL_OUT_LOCK_INT, 96), (SPI_SM_PLL_IN_LOCK_INT, 97), (SPI_BODA955_INTR, 98), (SPI_WAVE517_VPU_INTR 0, 99),
    (SPI_WAVE517_VPU_INTR 1, 100), (SPI_WAVE517_VPU_INTR 2, 101), (SPI_WAVE517_VPU_INTR 3, 102), (SPI_WAVE517_VPU_INTR 4, 103),
    (SPI_WAVE517_VPU_INTR 5, 104), (SPI_WAVE627_VPU_INTR 0, 105), (SPI_WAVE627_VPU_INTR 1, 106), (SPI_WAVE627_VPU_INTR 2, 107),
    (SPI_WAVE627_VPU_INTR 3, 108), (SPI_JPEG_INTR 0, 109), (SPI_JPEG_INTR 1, 110), (SPI_JPEG_INTR 2, 111), (SPI_JPEG_INTR 3, 112),
    (SPI_GPU_EATA_INT 0, 113), (SPI_GPU_TZC_INT 0, 114), (SPI_GPU_EATA_INT 1, 115), (SPI_GPU_TZC_INT 1, 116), (SPI_GPU_EATA_INT 2, 117),
    (SPI_GPU_TZC_INT 2, 118), (SPI_GPU_EATA_INT 3, 119), (SPI_GPU_TZC_INT 3, 120), (SPI_GPU_EATA_INT 4, 121), (SPI_GPU_TZC_INT 4, 122),
    (SPI_GPU_EATA_INT 5, 123), (SPI_GPU_TZC_INT 5, 124), (SPI_GPU_EATA_INT 6, 125), (SPI_GPU_TZC_INT 6, 126), (SPI_GPU_EATA_INT 7, 127),
    (SPI_GPU_TZC_INT 7, 128), (SPI_FEC_TZCINT, 129), (SPI_VID_NOC_TZCINT 0, 130), (SPI_VID_NOC_EATA_INT 0, 131), (SPI_SM_TZCINT, 132),
    (SPI_PCIE_DMAC_EATA_INT, 133), (SPI_PCIE_TZCINT, 134), (SPI_DISP_TZCINT, 135), (SPI_QSPI_S_T_MAIN_TIMEOUT, 136), (SPI_CONNECT_SUBM_PVTC_IRQ, 139),
    (SPI_MTLINK_SS_INT 0 1, 140), (SPI_MTLINK_SS_INT 0 2, 141), (SPI_MTLINK_SS_INT 0 3, 142), (SPI_MTLINK_SS_INT 1 1, 143),
    (SPI_MTLINK_SS_INT 1 2, 144), (SPI_MTLINK_SS_INT 1 3, 145), (SPI_MTLINK_SS_INT 2 1, 146), (SPI_MTLINK_SS_INT 2 2, 147),
    (SPI_MTLINK_SS_INT 2 3, 148), (SPI_MTLINK_SS_INT 3 1, 149), (SPI_MTLINK_SS_INT 3 2, 150), (SPI_MTLINK_SS_INT 3 3, 151),
    (SPI_MTLINK_SS_INT 4 1, 152), (SPI_MTLINK_SS_INT 4 2, 153), (SPI_MTLINK_SS_INT 4 3, 154), (SPI_MTLINK_SS_INT 5 1, 155),
    (SPI_MTLINK_SS_INT 5 2, 156), (SPI_MTLINK_SS_INT 5 3, 157), (SPI_FE_TO_SMC_SGI, 158), (SPI_FE_TO_PCIE_SGI, 159), (SPI_PCIE_INT 15, 160),
    (SPI_PCIE_INT 16, 161), (SPI_PCIE_INT 17, 162), (SPI_PCIE_INT 18, 163), (SPI_MTLINK_TZCINT 0, 164), (SPI_MTLINK_TZCINT 1, 165),
    (SPI_MTLINK_TZCINT 2, 166), (SPI_MTLINK_TZCINT 3, 167), (SPI_MTLINK_TZCINT 4, 168), (SPI_MTLINK_TZCINT 5, 169), (SPI_VID_NOC_TZCINT 1, 170),
    (SPI_VID_NOC_EATA_INT 1, 171), (SPI_VID_NOC_TZCINT 2, 172), (SPI_VID_NOC_EATA_INT 2, 173)]"

definition INTD_ERR :: nat where "INTD_ERR = 1"
definition INTD_SGI_BASE :: nat where "INTD_SGI_BASE = 2"
definition INTD_SPI_BASE :: nat where "INTD_SPI_BASE = 10"
definition INTD_SGI :: "nat \<Rightarrow> nat" where "INTD_SGI i = INTD_SGI_BASE + i"
definition INTD_SPI :: "nat \<Rightarrow> nat" where "INTD_SPI i = INTD_SPI_BASE + i"

definition INTD_SPI_RES_NUM :: nat where "INTD_SPI_RES_NUM = 5"
definition INTD_SPI_INT_NUM :: nat where "INTD_SPI_INT_NUM = 172"
definition INTD_SPI_NUM :: nat where "INTD_SPI_NUM = INTD_SPI_INT_NUM + INTD_SPI_RES_NUM"
definition INTD_SGI_NUM :: nat where "INTD_SGI_NUM = 8"
definition INTD_RES_ERR_NUM :: nat where "INTD_RES_ERR_NUM = 1"
definition INTD_INTS_NUM :: nat where "INTD_INTS_NUM = INTD_SPI_NUM + INTD_SGI_NUM + INTD_RES_ERR_NUM"

definition INTD_TARGET :: "nat \<Rightarrow> u8" where "INTD_TARGET x = push_bit x 1"

text \<open>The processors an interrupt can be sent to, with the number of the target.\<close>

datatype intd_target = TARGET_SMC | TARGET_FEC | TARGET_PCIE | TARGET_DSP

definition intd_target_of :: "intd_target \<Rightarrow> u8" where
  "intd_target_of t = INTD_TARGET (case t of TARGET_SMC \<Rightarrow> 0 | TARGET_FEC \<Rightarrow> 1 | TARGET_PCIE \<Rightarrow> 2 | TARGET_DSP \<Rightarrow> 3)"

text \<open>A source, its number at the controller, and its control register at the distributor.\<close>

datatype int_source = ErrInt | Sgi sgi | Spi spi

definition source_no :: "int_source \<Rightarrow> nat option" where
  "source_no s = (case s of ErrInt \<Rightarrow> Some INTD_ERR | Sgi i \<Rightarrow> map_option INTD_SGI (map_of sgi_map i) | Spi i \<Rightarrow> map_option INTD_SPI (map_of spi_map i))"

definition source_control :: "int_source \<Rightarrow> u64 option" where
  "source_control s = (case s of ErrInt \<Rightarrow> Some REG_INTD_ERRC | Sgi i \<Rightarrow> map_option (\<lambda>n. REG_INTD_SGIC (int n)) (map_of sgi_map i)
     | Spi i \<Rightarrow> map_option (\<lambda>n. REG_INTD_SPIC (int n)) (map_of spi_map i))"

section \<open>The events of the PCIe subsystem\<close>

text \<open>The register of enable and status bits, the line, the name and the bit of an event.\<close>

type_synonym pcie_event = "nat \<times> nat \<times> string \<times> nat"

definition pcie_events :: "pcie_event list" where
  "pcie_events =
    [(0, 3, ''CFG_UNCOR_ERR'', 0), (0, 3, ''RADM_QOVERFLOW_ERR'', 1), (0, 3, ''APP_PARITY_ERR'', 2), (0, 1, ''CFG_LINK_EQ'', 3),
    (0, 1, ''CFG_COR_ERR'', 4), (0, 1, ''CFG_RES0'', 5), (0, 5, ''REQ_RST'', 6), (0, 5, ''LINK_UP'', 7), (0, 10, ''PF0_PWR_IND'', 8),
    (0, 10, ''PF1_PWR_IND'', 9), (0, 10, ''PF0_ATTN_IND'', 10), (0, 10, ''PF1_ATTN_IND'', 11), (0, 10, ''PF0_PWR_CTRL'', 12),
    (0, 10, ''PF1_PWR_CTRL'', 13), (0, 10, ''PF0_EML_CTRL'', 14), (0, 10, ''PF1_EML_CTRL'', 15), (1, 2, ''DMA_PF0'', 0), (1, 2, ''DMA_COMM'', 1),
    (1, 9, ''CFG_PME_INT0'', 2), (1, 9, ''CFG_PME_INT1'', 3), (1, 9, ''CFG_PME_MSI0'', 4), (1, 9, ''CFG_PME_MSI1'', 5), (1, 9, ''MSI_CTRL'', 6),
    (1, 9, ''AER_RC_ERR0'', 7), (1, 9, ''AER_RC_ERR1'', 8), (1, 9, ''AER_RC_MSI0'', 9), (1, 9, ''AER_RC_MSI1'', 10), (1, 9, ''LINK_AUTO_BW_INT'', 11),
    (1, 9, ''BW_MGT_INT'', 12), (1, 9, ''LINK_AUTO_BW_MSI'', 13), (1, 9, ''BW_MGT_MSI'', 14), (1, 9, ''DPC_INT'', 15), (1, 9, ''DPC_MSI'', 16),
    (1, 9, ''HP_INT0'', 17), (1, 9, ''HP_INT1'', 18), (1, 9, ''HP_MSI0'', 19), (1, 9, ''HP_MSI1'', 20), (1, 9, ''HP_PME0'', 21),
    (1, 9, ''HP_PME1'', 22), (1, 9, ''INTA'', 23), (1, 9, ''INTB'', 24), (1, 9, ''INTC'', 25), (1, 9, ''INTD'', 26), (1, 19, ''DMA_PF1'', 27)]"

section \<open>Properties\<close>

lemma sgi_numbers: "distinct (map fst sgi_map)" "map snd sgi_map = [0..<INTD_SGI_NUM]"
  by code_simp+

lemma spi_numbers:
  "distinct (map fst spi_map)" "map snd spi_map = [0..<137] @ [139..<174]" "length spi_map = INTD_SPI_INT_NUM"
  by code_simp+

lemma numbers_below:
  "map_of sgi_map i = Some n \<Longrightarrow> n < 8" "map_of spi_map j = Some n \<Longrightarrow> n < 174"
proof -
  assume "map_of sgi_map i = Some n"
  then have "n \<in> set (map snd sgi_map)" by (force dest: map_of_SomeD)
  then show "n < 8" by (simp add: sgi_numbers INTD_SGI_NUM_def)
next
  assume "map_of spi_map j = Some n"
  then have "n \<in> set (map snd spi_map)" by (force dest: map_of_SomeD)
  then show "n < 174" by (auto simp: spi_numbers)
qed

lemma map_of_inj: "distinct (map snd m) \<Longrightarrow> map_of m x = Some n \<Longrightarrow> map_of m y = Some n \<Longrightarrow> x = y"
  by (metis distinct_map fst_conv inj_onD map_of_SomeD snd_conv)

lemma numbers_inj:
  "map_of sgi_map i = Some n \<Longrightarrow> map_of sgi_map j = Some n \<Longrightarrow> i = j"
  "map_of spi_map k = Some n \<Longrightarrow> map_of spi_map l = Some n \<Longrightarrow> k = l"
  by (rule map_of_inj[rotated], assumption, assumption, simp add: sgi_numbers)
    (rule map_of_inj[rotated], assumption, assumption, simp add: spi_numbers)

text \<open>No two sources have the same number, and the numbers are below the number of interrupts the headers declare, and below 1024, the
  limit of the enable words of the controller.\<close>

lemma source_numbers:
  assumes "source_no x = Some n"
  shows "0 < n \<and> n < INTD_INTS_NUM \<and> n < 1024" "source_no y = Some n \<Longrightarrow> x = y"
  using assms numbers_below numbers_inj
  by (cases x; cases y; fastforce simp: source_no_def INTD_INTS_NUM_def INTD_SPI_NUM_def INTD_SPI_INT_NUM_def INTD_SPI_RES_NUM_def INTD_SGI_NUM_def
      INTD_RES_ERR_NUM_def INTD_ERR_def INTD_SGI_def INTD_SPI_def INTD_SGI_BASE_def INTD_SPI_BASE_def)+

text \<open>The place of a control register in the block of the distributor.\<close>

lemma control_at:
  "n < 8 \<Longrightarrow> unat (REG_INTD_SGIC (int n)) = 0x97200 + 4 * n" "n < 174 \<Longrightarrow> unat (REG_INTD_SPIC (int n)) = 0x97220 + 4 * n"
  "unat REG_INTD_ERRC = 0x971fc"
  by (simp_all add: REG_INTD_SGIC_def REG_INTD_SPIC_def REG_INTD_ERRC_def INTD_CFG_BASE_def REG_BASE_def unat_word_ariths unsigned_of_nat take_bit_nat_eq_self)

lemma controls_apart:
  assumes "source_control x = Some r" "source_control y = Some r'" "x \<noteq> y"
  shows "r \<noteq> r'"
proof
  assume "r = r'"
  then have "unat r = unat r'" by simp
  with assms show False
    using numbers_below numbers_inj by (cases x; cases y; fastforce simp: source_control_def control_at)
qed

text \<open>C34. Configuring a source, as a software interrupt or a line of the hardware, stores its word in its own register, and leaves the
  control registers of all other sources as they are.\<close>

theorem source_configuration_isolated:
  assumes "source_control y = Some r" "map_of sgi_map i = Some n" "map_of spi_map j = Some k"
  shows "mem_after (exec (intd_set_sgi hw base (int n) lock key_p key plc target event en) t) m (io_off base r) =
      (if y = Sgi i then intd_word lock key_p key plc target OR push_bit 1 (ucast event) OR ucast en else mem_after t m (io_off base r)) \<and>
    mem_after (exec (intd_set_spi base (int k) lock key_p key plc target en) t) m (io_off base r) =
      (if y = Spi j then intd_word lock key_p key plc target OR ucast en else mem_after t m (io_off base r))"
proof -
  have s: "source_control (Sgi i) = Some (REG_INTD_SGIC (int n))" "source_control (Spi j) = Some (REG_INTD_SPIC (int k))"
    using assms(2,3) by (simp_all add: source_control_def)
  have "y \<noteq> Sgi i \<Longrightarrow> r \<noteq> REG_INTD_SGIC (int n)" "y \<noteq> Spi j \<Longrightarrow> r \<noteq> REG_INTD_SPIC (int k)"
    using controls_apart[OF assms(1)] s by blast+
  moreover have "y = Sgi i \<Longrightarrow> r = REG_INTD_SGIC (int n)" "y = Spi j \<Longrightarrow> r = REG_INTD_SPIC (int k)"
    using s assms(1) by auto
  ultimately show ?thesis
    by (auto simp: intd_set_sgi_def intd_set_spi_def run_steps io_off_def)
qed

theorem source_configuration_isolated_witness:
  "mem_after (exec (intd_set_spi (0, 0) 0 0 0 0 4 1 1) []) (\<lambda>_. 7) (io_off (0, 0) (REG_INTD_SPIC 173)) = 7"
proof -
  have "source_control (Spi (SPI_VID_NOC_EATA_INT 2)) = Some (REG_INTD_SPIC (int 173))" "map_of sgi_map SGI_PF0_TEST = Some 0"
      "map_of spi_map SPI_DMA_INT = Some 0"
    by (code_simp)+
  from source_configuration_isolated[OF this, of "\<lambda>_ _. 0" "(0, 0)" 0 0 0 4 1 0 1 "[]" "\<lambda>_. 7"] show ?thesis by simp
qed

text \<open>Every event of the PCIe subsystem has a bit of its own in its register, and a line at the distributor, but for the transfers of the second
  function: their line 19 is not among the sources.\<close>

lemma pcie_events_have_lines:
  "distinct (map (\<lambda>(r, _, _, b). (r, b)) pcie_events) \<and> list_all (\<lambda>(r, _, _, b). r < 2 \<and> b < 32) pcie_events \<and>
   filter (\<lambda>(_, l, _, _). source_no (Spi (SPI_PCIE_INT l)) = None) pcie_events = [(1, 19, ''DMA_PF1'', 27)]"
  by code_simp

end
