(* ===== verification/Rendezvous.thy ===== *)
theory Rendezvous
  imports IoctlProps
begin

text \<open>
  How a call and the interrupt that answers it meet.  Two routines send a request to the device and wait for a
  completion: the command to a processor of the chip (\<open>MT_IOCTL_IPC\<close> in \<open>mt-emu-ioctl.c\<close>) and a transfer on a bare channel
  (\<open>dma_bare_xfer\<close> in \<open>mt-emu-mtdma-bare.c\<close>).  Elsewhere an operation is one step; here it is the sequence of its atomic
  actions, any number of calls run at the same time, and the interrupt comes at any moment.  The transfer resets the
  completion before it starts the device and never misses its answer; the command resets it afterwards, and loses an answer
  that comes early.
\<close>

section \<open>Actions, calls and steps\<close>

text \<open>Sending the request, taking and releasing the mutex, \<open>reinit_completion\<close> and \<open>wait_for_completion_timeout\<close>.\<close>

datatype sync_act = Ask | Acquire | Reinit | Await | Release

definition ipc_acts :: "sync_act list" where
  "ipc_acts = [Ask, Acquire, Reinit, Await, Release]"

definition bare_enter :: "sync_act list" where
  "bare_enter = [Acquire, Reinit]"

definition bare_wait :: "sync_act list" where
  "bare_wait = [Ask, Await, Release]"

definition bare_acts :: "sync_act list" where
  "bare_acts = bare_enter @ bare_wait"

lemma bare_acts_list: "bare_acts = [Acquire, Reinit, Ask, Await, Release]"
  by (simp add: bare_acts_def bare_enter_def bare_wait_def)

text \<open>What is left of every call, who holds the mutex, the counter of the completion, the requests the device has not answered, and what each
  wait of a call returned.\<close>

record sync =
  sy_rest :: "nat \<Rightarrow> sync_act list"
  sy_holder :: "nat option"
  sy_done :: nat
  sy_asked :: nat
  sy_result :: "nat \<Rightarrow> bool list"

definition sync_start :: "(nat \<Rightarrow> sync_act list) \<Rightarrow> sync" where
  "sync_start p = \<lparr>sy_rest = p, sy_holder = None, sy_done = 0, sy_asked = 0, sy_result = (\<lambda>_. [])\<rparr>"

text \<open>A step of call \<open>c\<close>, or the interrupt, whose handler calls \<open>complete\<close>.  A wait ends by taking a completion, or by the timeout when there is none.\<close>

datatype sync_event = Did nat sync_act | Answer

inductive sync_step :: "sync \<Rightarrow> sync_event \<Rightarrow> sync \<Rightarrow> bool" where
  ask: "sy_rest s c = Ask # r \<Longrightarrow> sync_step s (Did c Ask) (s\<lparr>sy_rest := (sy_rest s)(c := r), sy_asked := Suc (sy_asked s)\<rparr>)"
| acquire: "sy_rest s c = Acquire # r \<Longrightarrow> sy_holder s = None \<Longrightarrow>
    sync_step s (Did c Acquire) (s\<lparr>sy_rest := (sy_rest s)(c := r), sy_holder := Some c\<rparr>)"
| reinit: "sy_rest s c = Reinit # r \<Longrightarrow> sync_step s (Did c Reinit) (s\<lparr>sy_rest := (sy_rest s)(c := r), sy_done := 0\<rparr>)"
| wake: "sy_rest s c = Await # r \<Longrightarrow> 0 < sy_done s \<Longrightarrow>
    sync_step s (Did c Await) (s\<lparr>sy_rest := (sy_rest s)(c := r), sy_done := sy_done s - 1, sy_result := (sy_result s)(c := sy_result s c @ [True])\<rparr>)"
| timeout: "sy_rest s c = Await # r \<Longrightarrow> sy_done s = 0 \<Longrightarrow>
    sync_step s (Did c Await) (s\<lparr>sy_rest := (sy_rest s)(c := r), sy_result := (sy_result s)(c := sy_result s c @ [False])\<rparr>)"
| release: "sy_rest s c = Release # r \<Longrightarrow> sync_step s (Did c Release) (s\<lparr>sy_rest := (sy_rest s)(c := r), sy_holder := None\<rparr>)"
| answer: "0 < sy_asked s \<Longrightarrow> sync_step s Answer (s\<lparr>sy_asked := sy_asked s - 1, sy_done := Suc (sy_done s)\<rparr>)"

inductive_cases sync_stepE: "sync_step s e s'"

inductive sync_run :: "sync \<Rightarrow> sync_event list \<Rightarrow> sync \<Rightarrow> bool" for s where
  start: "sync_run s [] s"
| step: "sync_run s tr t \<Longrightarrow> sync_step t e u \<Longrightarrow> sync_run s (tr @ [e]) u"

text \<open>What every step keeps, a run keeps.\<close>

lemma sync_run_invariant:
  assumes "sync_run s tr t" "I s" "\<And>t e u. sync_step t e u \<Longrightarrow> I t \<Longrightarrow> I u"
  shows "I t"
  using assms by (induction rule: sync_run.induct) blast+

text \<open>The steps as a function, to run a given interleaving.\<close>

fun sync_next :: "sync \<Rightarrow> sync_event \<Rightarrow> sync option" where
  "sync_next s Answer = (if 0 < sy_asked s then Some (s\<lparr>sy_asked := sy_asked s - 1, sy_done := Suc (sy_done s)\<rparr>) else None)"
| "sync_next s (Did c a) = (case sy_rest s c of [] \<Rightarrow> None | b # r \<Rightarrow>
     if b \<noteq> a \<or> a = Acquire \<and> sy_holder s \<noteq> None then None
     else let t = s\<lparr>sy_rest := (sy_rest s)(c := r)\<rparr> in Some (case a of
         Ask \<Rightarrow> t\<lparr>sy_asked := Suc (sy_asked s)\<rparr> | Acquire \<Rightarrow> t\<lparr>sy_holder := Some c\<rparr> | Reinit \<Rightarrow> t\<lparr>sy_done := 0\<rparr>
       | Await \<Rightarrow> (if 0 < sy_done s then t\<lparr>sy_done := sy_done s - 1, sy_result := (sy_result s)(c := sy_result s c @ [True])\<rparr>
           else t\<lparr>sy_result := (sy_result s)(c := sy_result s c @ [False])\<rparr>)
       | Release \<Rightarrow> t\<lparr>sy_holder := None\<rparr>))"

lemma sync_next_step: "sync_next s e = Some s' \<longleftrightarrow> sync_step s e s'"
proof
  assume "sync_next s e = Some s'"
  then show "sync_step s e s'"
  proof (cases e)
    case (Did c a)
    then obtain r where r: "sy_rest s c = a # r" "a = Acquire \<longrightarrow> sy_holder s = None"
      using \<open>sync_next s e = Some s'\<close> by (auto split: list.splits if_splits)
    then show ?thesis using \<open>sync_next s e = Some s'\<close> Did sync_step.wake[of s c r]
      by (cases a; cases "0 < sy_done s") (auto simp: Let_def intro: sync_step.intros)
  next
    case Answer
    then show ?thesis using \<open>sync_next s e = Some s'\<close> sync_step.answer[of s] by (simp split: if_splits)
  qed
next
  assume "sync_step s e s'"
  then show "sync_next s e = Some s'" by cases (simp_all add: Let_def)
qed

fun sync_exec :: "sync \<Rightarrow> sync_event list \<Rightarrow> sync option" where
  "sync_exec s [] = Some s"
| "sync_exec s (e # es) = Option.bind (sync_next s e) (\<lambda>t. sync_exec t es)"

lemma sync_run_more: "sync_run s tr t \<Longrightarrow> sync_exec t es = Some u \<Longrightarrow> sync_run s (tr @ es) u"
proof (induction es arbitrary: tr t)
  case (Cons e es)
  then obtain v where "sync_next t e = Some v" "sync_exec v es = Some u" by (auto simp: bind_eq_Some_conv)
  then show ?case using Cons.IH[OF sync_run.step[OF Cons.prems(1)]] by (simp add: sync_next_step)
qed simp

lemma sync_exec_run: "sync_exec s es = Some u \<Longrightarrow> sync_run s es u"
  using sync_run_more[OF sync_run.start] by simp

section \<open>The order of the actions in the code\<close>

text \<open>The actions in the log of a system call.\<close>

fun acts_of :: "kev list \<Rightarrow> sync_act list" where
  "acts_of [] = []"
| "acts_of (e # es) = (case e of
     Acc (Wr _ _) \<Rightarrow> [Ask] | Kc (Lock (IntMutex _)) \<Rightarrow> [Acquire] | Kc (Unlock (IntMutex _)) \<Rightarrow> [Release]
   | Acc (MutexLock _) \<Rightarrow> [Acquire] | Acc (MutexUnlock _) \<Rightarrow> [Release]
   | Kc (ReinitDone _) \<Rightarrow> [Reinit] | Kc (WaitDone _ _) \<Rightarrow> [Await] | _ \<Rightarrow> []) @ acts_of es"

text \<open>The model of the command performs the actions in this order.\<close>

lemma ipc_order:
  assumes "bar = PCIEF_TGT_SMC \<or> bar = PCIEF_TGT_FEC"
  shows "\<exists>es. snd (run_state (ioctl_ipc k bar sz p ep) l) = l @ es \<and> acts_of es = ipc_acts"
  using assms
  by (auto simp: ioctl_ipc_def ipc_target_def PCIEF_TGT_SMC_def PCIEF_TGT_FEC_def wl_def mmio_simps Let_def ipc_acts_def
      word_le_nat_alt split: prod.split)

text \<open>To the signal processor nothing is sent: in the build with the mailbox the command only waits.\<close>

lemma dsp_order:
  assumes "bar < 3" "bar \<noteq> PCIEF_TGT_SMC" "bar \<noteq> PCIEF_TGT_FEC"
  shows "\<exists>es. snd (run_state (ioctl_ipc k bar sz p ep) l) = l @ es \<and> acts_of es = drop 1 ipc_acts"
  using assms
  by (auto simp: ioctl_ipc_def ipc_target_def mmio_simps Let_def ipc_acts_def split: prod.split)

section \<open>Transfers hold the mutex\<close>

text \<open>One transfer at a time is inside, and when it waits its request is on the way or answered.\<close>

definition inside :: "sync_act list \<Rightarrow> bool" where
  "inside p \<longleftrightarrow> p \<in> {[Reinit, Ask, Await, Release], [Ask, Await, Release], [Await, Release], [Release]}"

definition sync_ok :: "sync \<Rightarrow> bool" where
  "sync_ok s \<longleftrightarrow> (\<forall>c. sy_holder s \<noteq> Some c \<longrightarrow> sy_rest s c = [] \<or> sy_rest s c = bare_acts) \<and>
    (\<forall>c. sy_holder s = Some c \<longrightarrow> inside (sy_rest s c) \<and> (sy_rest s c = [Await, Release] \<longrightarrow> 0 < sy_done s + sy_asked s))"

lemma sync_ok_start: "(\<And>c. p c = [] \<or> p c = bare_acts) \<Longrightarrow> sync_ok (sync_start p)"
  by (simp add: sync_ok_def sync_start_def)

lemma step_holder:
  assumes "sync_ok s" "sync_step s (Did c a) s'" "a \<noteq> Acquire"
  shows "sy_holder s = Some c"
proof (rule ccontr)
  assume "sy_holder s \<noteq> Some c"
  then have "sy_rest s c = [] \<or> sy_rest s c = bare_acts" using assms(1) by (simp add: sync_ok_def)
  moreover have "\<exists>r. sy_rest s c = a # r" using assms(2) by (auto elim: sync_stepE)
  ultimately show False using assms(3) by (auto simp: bare_acts_list)
qed

text \<open>Where the holder stands when it acts.\<close>

lemma step_inside:
  assumes "sync_ok s" "sync_step s (Did c a) s'" "a \<noteq> Acquire" "sy_rest s c = a # r"
  shows "sy_holder s = Some c" "inside (a # r)" "a = Await \<Longrightarrow> 0 < sy_done s + sy_asked s"
  using step_holder[OF assms(1-3)] assms(1,4) by (auto simp: sync_ok_def inside_def)

lemma sync_ok_step:
  assumes "sync_step s e s'" "sync_ok s"
  shows "sync_ok s'"
proof (cases e)
  case (Did c a)
  note st = assms(1)[unfolded Did]
  show ?thesis
  proof (cases "a = Acquire")
    case True
    then obtain r where a: "sy_rest s c = Acquire # r" "sy_holder s = None" "s' = s\<lparr>sy_rest := (sy_rest s)(c := r), sy_holder := Some c\<rparr>"
      using st by (auto elim: sync_stepE)
    then have free: "sy_rest s x = [] \<or> sy_rest s x = bare_acts" for x using assms(2) by (simp add: sync_ok_def)
    have "r = [Reinit, Ask, Await, Release]" using free[of c] a(1) by (simp add: bare_acts_list)
    then show ?thesis using free by (simp add: a(3) sync_ok_def inside_def)
  next
    case False
    obtain r where r: "sy_rest s c = a # r" using st by (auto elim: sync_stepE)
    note i = step_inside[OF assms(2) st False r]
    have "\<forall>x. x \<noteq> c \<longrightarrow> sy_rest s x = [] \<or> sy_rest s x = bare_acts" using assms(2) i(1) by (simp add: sync_ok_def)
    then show ?thesis using st i(1,2) r by (auto elim!: sync_stepE simp: sync_ok_def inside_def) blast
  qed
next
  case Answer
  then show ?thesis using assms by (auto elim!: sync_stepE simp: sync_ok_def)
qed

lemma transfers_ok:
  assumes "sync_run (sync_start p) tr s" "\<forall>c. p c = [] \<or> p c = bare_acts"
  shows "sync_ok s"
  using sync_run_invariant[where I = sync_ok, OF assms(1) sync_ok_start] assms(2) sync_ok_step by blast

text \<open>As long as no wait has timed out, an answer belongs to the transfer that waits for it.\<close>

definition sync_exact :: "sync \<Rightarrow> bool" where
  "sync_exact s \<longleftrightarrow> sync_ok s \<and> ((\<forall>c. False \<notin> set (sy_result s c)) \<longrightarrow>
    sy_asked s + sy_done s = (if \<exists>c. sy_holder s = Some c \<and> sy_rest s c = [Await, Release] then 1 else 0))"

lemma sync_exact_step:
  assumes "sync_step s e s'" "sync_exact s"
  shows "sync_exact s'"
proof -
  have ok: "sync_ok s" "sync_ok s'" using assms sync_ok_step by (auto simp: sync_exact_def)
  show ?thesis
  proof (cases "\<forall>x. False \<notin> set (sy_result s' x)")
    case True
    then have old: "\<forall>x. False \<notin> set (sy_result s x)" using assms(1) by (auto elim!: sync_stepE split: if_splits) (metis UnI1)+
    have new: "False \<notin> set (sy_result s' x)" for x using True by blast
    show ?thesis
    proof (cases e)
      case (Did c a)
      note st = assms(1)[unfolded Did]
      show ?thesis
      proof (cases "a = Acquire")
        case True
        then show ?thesis using st ok old assms(2) by (auto elim!: sync_stepE simp: sync_exact_def sync_ok_def inside_def)
      next
        case False
        obtain r where r: "sy_rest s c = a # r" using st by (auto elim: sync_stepE)
        note i = step_inside[OF ok(1) st False r]
        show ?thesis using st i r ok(2) old new[of c] assms(2) by (auto elim!: sync_stepE simp: sync_exact_def inside_def)
      qed
    next
      case Answer
      then have s': "s' = s\<lparr>sy_asked := sy_asked s - 1, sy_done := Suc (sy_done s)\<rparr>" "0 < sy_asked s"
        using assms(1) by (auto elim: sync_stepE)
      then have eq: "sy_holder s' = sy_holder s" "sy_rest s' = sy_rest s" "sy_result s' = sy_result s" "sy_asked s' + sy_done s' = sy_asked s + sy_done s"
        by simp_all
      show ?thesis using assms(2) ok(2) unfolding sync_exact_def eq by blast
    qed
  qed (auto simp: sync_exact_def ok)
qed

section \<open>Properties of the transfers\<close>

text \<open>C26. Transfers never miss their answer: in any interleaving of any number of transfers on a channel with the interrupts of the device, a transfer that waits
  holds the mutex, and its wait times out only if at that moment the device has not answered a request.  And as long as no
  transfer has timed out, what a transfer is told is what happened: its wait returns a completion exactly if the device has
  answered the one request there is, its own.\<close>

theorem transfer_result_exact:
  assumes "sync_run (sync_start p) tr s" "\<forall>c. p c = [] \<or> p c = bare_acts" "sync_step s (Did c Await) s'"
  shows "sy_holder s = Some c \<and> (sy_result s' c = sy_result s c @ [False] \<longrightarrow> 0 < sy_asked s) \<and>
    ((\<forall>x. False \<notin> set (sy_result s x)) \<longrightarrow> sy_asked s + sy_done s = 1 \<and> sy_result s' c = sy_result s c @ [sy_asked s = 0])"
proof -
  have "sync_exact (sync_start p)" using sync_ok_start assms(2) by (simp add: sync_exact_def) (simp add: sync_start_def)
  then have ex: "sync_exact s" using sync_run_invariant[where I = sync_exact, OF assms(1)] sync_exact_step by blast
  obtain r where r: "sy_rest s c = Await # r" using assms(3) by (auto elim: sync_stepE)
  have "sync_ok s" using ex by (simp add: sync_exact_def)
  note i = step_inside[OF this assms(3) _ r]
  have "sy_rest s c = [Await, Release]" using i(2) r by (simp add: inside_def)
  then show ?thesis using assms(3) i ex by (auto elim!: sync_stepE simp: sync_exact_def)
qed

text \<open>Two transfers on one channel: the first is answered; the second enters when the first has left, and is answered too.\<close>

theorem transfer_result_exact_witness:
  "\<exists>s s'. sync_run (sync_start (\<lambda>c. if c < 2 then bare_acts else []))
     [Did 0 Acquire, Did 0 Reinit, Did 0 Ask, Answer, Did 0 Await, Did 0 Release, Did 1 Acquire, Did 1 Reinit, Did 1 Ask, Answer] s \<and>
     sync_step s (Did 1 Await) s' \<and> sy_result s' 1 = [True]"
proof -
  let ?p = "\<lambda>c :: nat. if c < 2 then bare_acts else []"
  let ?tr = "[Did 0 Acquire, Did 0 Reinit, Did 0 Ask, Answer, Did 0 Await, Did 0 Release, Did 1 Acquire, Did 1 Reinit, Did 1 Ask, Answer]"
  define s where "s = the (sync_exec (sync_start ?p) ?tr)"
  define s' where "s' = the (sync_next s (Did 1 Await))"
  note d = s_def sync_start_def bare_acts_list
  have r: "sync_run (sync_start ?p) ?tr s" by (rule sync_exec_run) (simp add: d)
  have st: "sync_step s (Did 1 Await) s'" unfolding sync_next_step[symmetric] by (simp add: s'_def d)
  have "\<forall>x. False \<notin> set (sy_result s x)" by (simp add: d)
  then have "sy_result s' 1 = sy_result s 1 @ [sy_asked s = 0]" using transfer_result_exact[OF r _ st] by simp
  also have "\<dots> = [True]" by (simp add: d)
  finally show ?thesis using r st by blast
qed

text \<open>After a timeout the answers are no longer told apart: the first transfer times out, and its late answer is taken for that of the second.\<close>

lemma transfer_takes_late_answer:
  "\<exists>s. sync_run (sync_start (\<lambda>c. if c < 2 then bare_acts else []))
     [Did 0 Acquire, Did 0 Reinit, Did 0 Ask, Did 0 Await, Did 0 Release, Did 1 Acquire, Did 1 Reinit, Did 1 Ask, Answer, Did 1 Await, Did 1 Release] s \<and>
     sy_result s 0 = [False] \<and> sy_result s 1 = [True] \<and> sy_asked s = 1"
proof -
  let ?p = "\<lambda>c :: nat. if c < 2 then bare_acts else []"
  let ?tr = "[Did 0 Acquire, Did 0 Reinit, Did 0 Ask, Did 0 Await, Did 0 Release, Did 1 Acquire, Did 1 Reinit, Did 1 Ask, Answer, Did 1 Await, Did 1 Release]"
  have "sync_run (sync_start ?p) ?tr (the (sync_exec (sync_start ?p) ?tr))" by (rule sync_exec_run) (simp add: sync_start_def bare_acts_list)
  then show ?thesis by (intro exI conjI) (assumption, simp_all add: sync_start_def bare_acts_list)
qed

section \<open>The command that resets too late\<close>

text \<open>What happens between the reset of the completion and the end of the wait.\<close>

definition sync_window :: "nat \<Rightarrow> sync_event list \<Rightarrow> sync_event list" where
  "sync_window c tr = takeWhile (\<lambda>e. e \<noteq> Did c Await) (dropWhile (\<lambda>e. e \<noteq> Did c Reinit) tr)"

lemma window_before:
  assumes "Did c Reinit \<notin> set tr"
  shows "sync_window c (tr @ [e]) = (if e = Did c Reinit then [e] else [])"
proof -
  have "dropWhile (\<lambda>e. e \<noteq> Did c Reinit) (tr @ [e]) = dropWhile (\<lambda>e. e \<noteq> Did c Reinit) [e]"
    using assms by (intro dropWhile_append2) auto
  then show ?thesis by (simp add: sync_window_def)
qed

lemma window_grows:
  assumes "Did c Reinit \<in> set tr"
  shows "dropWhile (\<lambda>e. e \<noteq> Did c Reinit) (tr @ [e]) = dropWhile (\<lambda>e. e \<noteq> Did c Reinit) tr @ [e]"
  by (rule dropWhile_append1[OF assms]) simp

lemma window_open:
  assumes "Did c Reinit \<in> set tr" "Did c Await \<notin> set tr"
  shows "sync_window c (tr @ [e]) = (if e = Did c Await then sync_window c tr else sync_window c tr @ [e])"
proof -
  have "Did c Await \<notin> set (dropWhile (\<lambda>e. e \<noteq> Did c Reinit) tr)" using assms(2) set_dropWhileD by metis
  then have t: "\<forall>x \<in> set (dropWhile (\<lambda>e. e \<noteq> Did c Reinit) tr). x \<noteq> Did c Await" by auto
  have d1: "takeWhile (\<lambda>e. e \<noteq> Did c Await) (dropWhile (\<lambda>e. e \<noteq> Did c Reinit) tr @ [e]) =
    dropWhile (\<lambda>e. e \<noteq> Did c Reinit) tr @ takeWhile (\<lambda>e. e \<noteq> Did c Await) [e]"
    using t by (intro takeWhile_append2) auto
  have d2: "takeWhile (\<lambda>e. e \<noteq> Did c Await) (dropWhile (\<lambda>e. e \<noteq> Did c Reinit) tr) = dropWhile (\<lambda>e. e \<noteq> Did c Reinit) tr"
    using t by (intro iffD2[OF takeWhile_eq_all_conv])
  show ?thesis unfolding sync_window_def window_grows[OF assms(1)] d1 d2 by simp
qed

lemma window_begun:
  assumes "Did c Await \<in> set (dropWhile (\<lambda>e. e \<noteq> Did c Reinit) tr)"
  shows "Did c Reinit \<in> set tr"
proof (rule ccontr)
  assume "Did c Reinit \<notin> set tr"
  then have "\<forall>x \<in> set tr. x \<noteq> Did c Reinit" by auto
  then have d: "dropWhile (\<lambda>e. e \<noteq> Did c Reinit) tr = []" by (intro iffD2[OF dropWhile_eq_Nil_conv])
  show False using assms unfolding d by simp
qed

lemma window_closed:
  assumes "Did c Await \<in> set (dropWhile (\<lambda>e. e \<noteq> Did c Reinit) tr)"
  shows "sync_window c (tr @ [e]) = sync_window c tr"
proof -
  have "takeWhile (\<lambda>e. e \<noteq> Did c Await) (dropWhile (\<lambda>e. e \<noteq> Did c Reinit) tr @ [e]) =
      takeWhile (\<lambda>e. e \<noteq> Did c Await) (dropWhile (\<lambda>e. e \<noteq> Did c Reinit) tr)"
    by (rule takeWhile_append1[OF assms]) simp
  then show ?thesis by (simp add: sync_window_def window_grows[OF window_begun[OF assms]])
qed

text \<open>The stages of a command among others: it has not entered yet, it holds the mutex, or it has left.  \<open>waited\<close>: its result
  tells whether an answer came in its window.\<close>

definition untouched :: "nat \<Rightarrow> sync_event list \<Rightarrow> sync \<Rightarrow> bool" where
  "untouched c tr s \<longleftrightarrow> Did c Reinit \<notin> set tr \<and> Did c Await \<notin> set tr \<and> sy_result s c = []"

definition waited :: "nat \<Rightarrow> sync_event list \<Rightarrow> sync \<Rightarrow> bool" where
  "waited c tr s \<longleftrightarrow> Did c Await \<in> set (dropWhile (\<lambda>e. e \<noteq> Did c Reinit) tr) \<and> sy_result s c = [Answer \<in> set (sync_window c tr)]"

definition outside_stage :: "sync_act list \<Rightarrow> nat \<Rightarrow> sync_event list \<Rightarrow> sync \<Rightarrow> bool" where
  "outside_stage p c tr s \<longleftrightarrow> (sy_rest s c = ipc_acts \<or> sy_rest s c = drop 1 ipc_acts) \<and> untouched c tr s \<or>
     sy_rest s c = [] \<and> (waited c tr s \<or> p = [])"

definition inside_stage :: "nat \<Rightarrow> sync_event list \<Rightarrow> sync \<Rightarrow> bool" where
  "inside_stage c tr s \<longleftrightarrow> sy_rest s c = drop 2 ipc_acts \<and> untouched c tr s \<or>
     sy_rest s c = drop 3 ipc_acts \<and> Did c Reinit \<in> set tr \<and> Did c Await \<notin> set tr \<and> sy_result s c = [] \<and>
       (0 < sy_done s \<longleftrightarrow> Answer \<in> set (sync_window c tr)) \<or>
     sy_rest s c = drop 4 ipc_acts \<and> waited c tr s"

definition commands_ok :: "(nat \<Rightarrow> sync_act list) \<Rightarrow> sync_event list \<Rightarrow> sync \<Rightarrow> bool" where
  "commands_ok p tr s \<longleftrightarrow> (\<forall>c. if sy_holder s = Some c then inside_stage c tr s else outside_stage (p c) c tr s)"

lemmas ipc_stages = ipc_acts_def numeral_3_eq_3 numeral_2_eq_2 eval_nat_numeral

lemma waited_more: "waited c tr s \<Longrightarrow> sy_result s' c = sy_result s c \<Longrightarrow> waited c (tr @ [e]) s'"
  by (auto simp: waited_def window_closed window_grows window_begun)

text \<open>An event of another call, or an answer, that leaves the rest, the results and the mutex of \<open>c\<close> as they are.\<close>

lemma outside_other:
  assumes "outside_stage p c tr s" "sy_rest s' c = sy_rest s c" "sy_result s' c = sy_result s c" "e \<noteq> Did c Reinit" "e \<noteq> Did c Await"
  shows "outside_stage p c (tr @ [e]) s'"
  using assms waited_more[of c tr s s' e] by (auto simp: outside_stage_def untouched_def)

lemma inside_other:
  assumes "inside_stage c tr s" "sy_rest s' c = sy_rest s c" "sy_result s' c = sy_result s c"
    "e = Answer \<and> sy_done s' = Suc (sy_done s) \<or> (\<exists>x. e = Did x Ask \<and> sy_done s' = sy_done s)"
  shows "inside_stage c (tr @ [e]) s'"
proof -
  have "e \<noteq> Did c Reinit" "e \<noteq> Did c Await" using assms(4) by auto
  then show ?thesis using assms waited_more[of c tr s s' e] by (auto simp: inside_stage_def untouched_def window_open)
qed

text \<open>Its own steps.\<close>

lemma outside_enters:
  assumes "outside_stage p c tr s" "sy_rest s c = Acquire # r" "sy_rest s' c = r" "sy_result s' c = sy_result s c"
  shows "inside_stage c (tr @ [Did c Acquire]) s'"
  using assms by (auto simp: outside_stage_def inside_stage_def untouched_def ipc_stages)

lemma outside_asks:
  assumes "outside_stage p c tr s" "sy_rest s c = Ask # r" "sy_rest s' c = r" "sy_result s' c = sy_result s c"
  shows "outside_stage p c (tr @ [Did c Ask]) s'"
  using assms by (auto simp: outside_stage_def untouched_def ipc_stages)

lemma outside_acts:
  assumes "outside_stage p c tr s" "sy_rest s c = a # r"
  shows "a = Ask \<or> a = Acquire"
  using assms by (auto simp: outside_stage_def ipc_stages)

lemma inside_resets:
  assumes "inside_stage c tr s" "sy_rest s c = Reinit # r"
  shows "inside_stage c (tr @ [Did c Reinit]) (s\<lparr>sy_rest := (sy_rest s)(c := r), sy_done := 0\<rparr>)"
  using assms by (auto simp: inside_stage_def untouched_def ipc_stages window_before)

lemma inside_waits:
  assumes "inside_stage c tr s" "sy_rest s c = Await # r" "sy_rest s' c = r" "sy_result s' c = sy_result s c @ [0 < sy_done s]"
  shows "inside_stage c (tr @ [Did c Await]) s'"
  using assms by (auto simp: inside_stage_def waited_def ipc_stages window_open window_grows)

lemma inside_leaves:
  assumes "inside_stage c tr s" "sy_rest s c = Release # r" "sy_rest s' c = r" "sy_result s' c = sy_result s c"
  shows "outside_stage p c (tr @ [Did c Release]) s'"
  using assms waited_more[of c tr s s'] by (auto simp: inside_stage_def outside_stage_def ipc_stages)

lemma inside_acts:
  assumes "inside_stage c tr s" "sy_rest s c = a # r"
  shows "a = Reinit \<or> a = Await \<or> a = Release"
  using assms by (auto simp: inside_stage_def ipc_stages)

lemma commandsD:
  assumes "commands_ok p tr s"
  shows "sy_holder s = Some c \<Longrightarrow> inside_stage c tr s" "sy_holder s \<noteq> Some c \<Longrightarrow> outside_stage (p c) c tr s"
  using assms[unfolded commands_ok_def, rule_format, of c] by auto

lemma commands_inside_step:
  assumes "commands_ok p tr s" "sync_step s (Did c a) s'" "sy_holder s = Some c"
  shows "commands_ok p (tr @ [Did c a]) s'"
proof -
  note i = commandsD(1)[OF assms(1,3)]
  obtain r where r: "sy_rest s c = a # r" using assms(2) by (auto elim: sync_stepE)
  have others: "outside_stage (p x) x (tr @ [Did c a]) s'" if "x \<noteq> c" for x
    using outside_other[OF commandsD(2)[OF assms(1), of x]] that assms(2,3) by (auto elim!: sync_stepE)
  consider "a = Reinit" | "a = Await" | "a = Release" using inside_acts[OF i r] by blast
  then have "if sy_holder s' = Some c then inside_stage c (tr @ [Did c a]) s' else outside_stage (p c) c (tr @ [Did c a]) s'"
  proof cases
    case 1
    then show ?thesis using assms(2,3) inside_resets[OF i] r by (auto elim!: sync_stepE)
  next
    case 2
    then show ?thesis using assms(2,3) inside_waits[OF i] r by (auto elim!: sync_stepE)
  next
    case 3
    then show ?thesis using assms(2) inside_leaves[OF i] r by (auto elim!: sync_stepE)
  qed
  moreover have "sy_holder s' = Some c \<or> sy_holder s' = None" using assms(2,3) by (auto elim!: sync_stepE)
  ultimately have "if sy_holder s' = Some x then inside_stage x (tr @ [Did c a]) s' else outside_stage (p x) x (tr @ [Did c a]) s'" for x
    using others by (cases "x = c") auto
  then show ?thesis unfolding commands_ok_def by blast
qed

lemma commands_outside_step:
  assumes "commands_ok p tr s" "sync_step s (Did c a) s'" "sy_holder s \<noteq> Some c"
  shows "commands_ok p (tr @ [Did c a]) s'"
proof -
  note o = commandsD(2)[OF assms(1,3)]
  obtain r where r: "sy_rest s c = a # r" using assms(2) by (auto elim: sync_stepE)
  consider "a = Ask" | "a = Acquire" using outside_acts[OF o r] by blast
  then show ?thesis
  proof cases
    case 1
    then have s': "s' = s\<lparr>sy_rest := (sy_rest s)(c := r), sy_asked := Suc (sy_asked s)\<rparr>" using assms(2) r by (auto elim!: sync_stepE)
    have "inside_stage x (tr @ [Did c a]) s'" if "sy_holder s = Some x" for x
      using inside_other[OF commandsD(1)[OF assms(1) that], of s' "Did c a"] that assms(3) 1 by (auto simp: s')
    moreover have "outside_stage (p x) x (tr @ [Did c a]) s'" if "sy_holder s \<noteq> Some x" for x
      using outside_asks[OF o] outside_other[OF commandsD(2)[OF assms(1) that], of s' "Did c a"] r 1 by (cases "x = c") (auto simp: s')
    ultimately show ?thesis by (simp add: commands_ok_def s')
  next
    case 2
    then have s': "s' = s\<lparr>sy_rest := (sy_rest s)(c := r), sy_holder := Some c\<rparr>" "sy_holder s = None" using assms(2) r by (auto elim!: sync_stepE)
    have "outside_stage (p x) x (tr @ [Did c a]) s'" if "x \<noteq> c" for x
      using outside_other[OF commandsD(2)[OF assms(1)], of x s' "Did c a"] that 2 by (auto simp: s')
    moreover have "inside_stage c (tr @ [Did c a]) s'" using outside_enters[OF o] r 2 by (simp add: s')
    ultimately show ?thesis by (simp add: commands_ok_def s')
  qed
qed

lemma commands_answer:
  assumes "commands_ok p tr s" "sync_step s Answer s'"
  shows "commands_ok p (tr @ [Answer]) s'"
proof -
  have s': "s' = s\<lparr>sy_asked := sy_asked s - 1, sy_done := Suc (sy_done s)\<rparr>" using assms(2) by (auto elim: sync_stepE)
  have "inside_stage x (tr @ [Answer]) s'" if "sy_holder s = Some x" for x
    using inside_other[OF commandsD(1)[OF assms(1) that], of s' Answer] by (simp add: s')
  moreover have "outside_stage (p x) x (tr @ [Answer]) s'" if "sy_holder s \<noteq> Some x" for x
    using outside_other[OF commandsD(2)[OF assms(1) that], of s' Answer] by (simp add: s')
  ultimately show ?thesis by (simp add: commands_ok_def s')
qed

lemma commands_run:
  assumes "sync_run (sync_start p) tr s" "\<And>x. p x = [] \<or> p x = ipc_acts \<or> p x = drop 1 ipc_acts"
  shows "commands_ok p tr s"
  using assms(1)
proof (induction rule: sync_run.induct)
  case start
  then show ?case using assms(2) by (auto simp: commands_ok_def outside_stage_def untouched_def sync_start_def)
next
  case (step tr t e u)
  then show ?case using commands_inside_step commands_outside_step commands_answer by (cases e) blast+
qed

text \<open>What a call of \<open>MT_IOCTL_IPC\<close> for the processor \<open>bar\<close> does, in any state and whatever the kernel answers.\<close>

definition ipc_program :: "u8 \<Rightarrow> sync_act list \<Rightarrow> bool" where
  "ipc_program bar a \<longleftrightarrow> (\<exists>k sz q ep. a = acts_of (snd (run_state (ioctl_ipc k bar sz q ep) [])))"

lemma ipc_programs: "bar < 3 \<Longrightarrow> ipc_program bar a \<Longrightarrow> a = ipc_acts \<or> a = drop 1 ipc_acts"
  using ipc_order[of bar _ _ _ _ "[]"] dsp_order[of bar _ _ _ _ "[]"] unfolding ipc_program_def by fastforce

text \<open>C38. Commands are different from transfers.  Any number of commands to one of the processors runs at the same time, in any interleaving with each
  other and with the interrupts of the processor: when a command has returned, its result says whether an interrupt came between its own reset of the
  completion and the end of its wait, whichever command the processor was answering.  An answer that comes before, while the command waits for
  the mutex or has just taken it, is lost, and the command reports a timeout.  (\<open>MT_IOCTL_WAIT_INT\<close>, which takes the completion without the mutex, is
  not among the calls.)\<close>

theorem ipc_result_by_order:
  assumes "bar < 3" "\<forall>x. p x = [] \<or> ipc_program bar (p x)" "sync_run (sync_start p) tr s" "ipc_program bar (p c)" "sy_rest s c = []"
  shows "sy_result s c = [Answer \<in> set (sync_window c tr)]"
proof -
  have "commands_ok p tr s" using commands_run[OF assms(3)] ipc_programs[OF assms(1)] assms(2) by blast
  moreover have "p c \<noteq> []" using ipc_programs[OF assms(1,4)] by (auto simp: ipc_acts_def)
  ultimately have "waited c tr s" using assms(5) commandsD[of p tr s c]
    by (cases "sy_holder s = Some c") (auto simp: outside_stage_def inside_stage_def ipc_stages)
  then show ?thesis by (simp add: waited_def)
qed

text \<open>Two commands to the system manager.  Its answer to the first comes while the first takes the mutex and is lost; its answer to the second comes while the
  first waits, and the first takes it for its own; the second times out.\<close>

theorem ipc_result_by_order_witness:
  "\<exists>s. sync_run (sync_start (\<lambda>c. if c < 2 then ipc_acts else []))
      [Did 0 Ask, Answer, Did 0 Acquire, Did 0 Reinit, Did 1 Ask, Answer, Did 0 Await, Did 0 Release, Did 1 Acquire, Did 1 Reinit, Did 1 Await, Did 1 Release] s \<and>
    sy_result s 0 = [True] \<and> sy_result s 1 = [False]"
proof -
  let ?p = "\<lambda>c :: nat. if c < 2 then ipc_acts else []"
  let ?tr = "[Did 0 Ask, Answer, Did 0 Acquire, Did 0 Reinit, Did 1 Ask, Answer, Did 0 Await, Did 0 Release, Did 1 Acquire, Did 1 Reinit, Did 1 Await, Did 1 Release]"
  let ?s = "the (sync_exec (sync_start ?p) ?tr)"
  have "ipc_program PCIEF_TGT_SMC ipc_acts"
    using ipc_order[of PCIEF_TGT_SMC demo_k 100 demo_p demo_fn "[]"] unfolding ipc_program_def append_Nil by metis
  then have p: "PCIEF_TGT_SMC < 3" "\<forall>x. ?p x = [] \<or> ipc_program PCIEF_TGT_SMC (?p x)" "ipc_program PCIEF_TGT_SMC (?p 0)" "ipc_program PCIEF_TGT_SMC (?p 1)"
    by (simp_all add: PCIEF_TGT_SMC_def)
  have r: "sync_run (sync_start ?p) ?tr ?s" by (rule sync_exec_run) (simp add: sync_start_def ipc_acts_def)
  have e: "sy_rest ?s 0 = []" "sy_rest ?s 1 = []" by (simp_all add: sync_start_def ipc_acts_def)
  show ?thesis using r ipc_result_by_order[OF p(1,2) r p(3) e(1)] ipc_result_by_order[OF p(1,2) r p(4) e(2)]
    by (intro exI[of _ ?s]) (simp add: sync_window_def)
qed

end
