(* ===== verification/LateAnswer.thy ===== *)
theory LateAnswer
  imports DmaTestProps
begin

text \<open>
  The DMA test after a timeout.  \<open>mtdma_device_terminate_all\<close> does not stop a channel that is at work: it only asks the next interrupt to
  give up the transfer.  Here the rounds of \<open>emu_dma_rw\<close> are followed through a timeout on a busy device: the interrupt of the round that was given up
  completes its descriptor and so ends the wait of the next round, whose own transfer was never started.
\<close>

section \<open>A round that times out\<close>

text \<open>The device is at work whenever the driver asks.\<close>

definition reports_busy :: "hardware \<Rightarrow> mtdma_chan_info \<Rightarrow> bool" where
  "reports_busy hw info \<longleftrightarrow> (\<forall>t. hw t (io_off (rg_vaddr info) REG_DMA_CH_STATUS) AND DMA_CH_STATUS_BUSY \<noteq> 0)"

text \<open>The only descriptor is with the hardware, and is to be given up.\<close>

definition stopping :: "nat \<Rightarrow> nat \<Rightarrow> mtdma_chan_info \<Rightarrow> mtdma_chan \<Rightarrow> bool" where
  "stopping p d info ch \<longleftrightarrow> chan_inv ch \<and> ch_info ch = info \<and> all_descs ch = [d] \<and> desc_issued ch = [d] \<and>
     test_desc p d (virt_dma_chan.truncate ch) \<and> ch_request ch = MTDMA_REQ_STOP \<and> ch_status ch = MTDMA_ST_BUSY"

lemma status_busy:
  assumes "reports_busy hw (ch_info ch)"
  shows "mtdma_v0_core_ch_status hw ch = (DMA_IN_PROGRESS, ch\<lparr>ch_trace := ch_trace ch @
    [Rd (io_off (rg_vaddr (ch_info ch)) REG_DMA_CH_STATUS) (hw (ch_trace ch) (io_off (rg_vaddr (ch_info ch)) REG_DMA_CH_STATUS))]\<rparr>)"
  using assms by (simp add: mtdma_v0_core_ch_status_def reports_busy_def ch_do_def mmio_simps)

lemma terminate_busy:
  assumes "ch_configured ch" "ch_status ch = MTDMA_ST_BUSY" "reports_busy hw (ch_info ch)"
  shows "\<exists>v. snd (mtdma_device_terminate_all hw ch) =
    ch\<lparr>ch_trace := ch_trace ch @ [Rd (io_off (rg_vaddr (ch_info ch)) REG_DMA_CH_STATUS) v], ch_request := MTDMA_REQ_STOP\<rparr>"
  using assms by (cases "ch_request ch") (auto simp: mtdma_device_terminate_all_def status_busy request_level_def)

text \<open>A transfer of the test is prepared and submitted; what remains is to issue it.\<close>

definition submitted :: "nat \<Rightarrow> nat \<Rightarrow> mtdma_chan \<Rightarrow> mtdma_chan \<Rightarrow> bool" where
  "submitted p d ch ch' \<longleftrightarrow> chan_inv ch' \<and> ch_info ch' = ch_info ch \<and> ch_dir ch' = ch_dir ch \<and> ch_trace ch' = ch_trace ch \<and> ch_configured ch' \<and>
     ch_request ch' = ch_request ch \<and> ch_status ch' = ch_status ch \<and> called ch' = called ch \<and> cyclic ch' = cyclic ch \<and>
     task_scheduled ch' = task_scheduled ch \<and> desc_submitted ch' = desc_submitted ch @ [d] \<and> desc_issued ch' = desc_issued ch \<and>
     desc_allocated ch' = desc_allocated ch \<and> desc_completed ch' = desc_completed ch \<and> desc_terminated ch' = desc_terminated ch \<and>
     (\<forall>x. x \<noteq> d \<longrightarrow> vd_store ch' x = vd_store ch x) \<and> cb_callback (tx_cb (vd_store ch' d)) = Some TEST_CALLBACK \<and>
     cb_callback_result (tx_cb (vd_store ch' d)) = None \<and> cb_param (tx_cb (vd_store ch' d)) = Some p \<and> DMA_CTRL_REUSE \<notin> tx_flags (vd_store ch' d)"

lemma xfer_submits:
  assumes "chan_inv ch" "d \<notin> set (all_descs ch)" "sgl \<noteq> []" "length sgl < 2 ^ 32" "\<And>n. mem n"
  shows "\<exists>ch'. submitted p d ch ch' \<and>
    mtdma_xfer hw mem d junk p dir laddr sgl ch = map_option (\<lambda>c. (0, c)) (mtdma_device_issue_pending hw ch')"
proof -
  define ch0 where "ch0 = snd (if dir = 2 then mtdma_device_config laddr junk ch else mtdma_device_config junk laddr ch)"
  have ch0: "chan_inv ch0" "d \<notin> set (all_descs ch0)" "ch_configured ch0"
    using assms(1,2) by (auto simp: ch0_def mtdma_device_config_def all_descs_def)
  have "unat (of_nat (length sgl) :: u32) = length sgl" using assms(4) by (simp add: unsigned_of_nat take_bit_nat_eq_self)
  then have nz: "(of_nat (length sgl) :: u32) \<noteq> 0" using assms(3) by (metis length_0_conv unsigned_0)
  have pos: "0 < ll_max (ch_info ch0)" using ch0(1) by (simp add: chan_inv_def)
  define ch1 where "ch1 = (\<lambda>desc. vchan_tx_prep d {DMA_PREP_INTERRUPT} (ch0\<lparr>ch_descs := (ch_descs ch0)(d := desc),
      ch_live := ch_live ch0 + desc_size desc, vd_store := (vd_store ch0)(d := empty_desc)\<rparr>))"
  obtain desc where t: "mtdma_device_transfer mem d sgl (of_nat (length sgl)) {DMA_PREP_INTERRUPT} ch0 = Some (Some d, ch1 desc)" "desc_ok desc"
    using prep_succeeds[OF ch0(3) nz _ pos assms(3), of mem d "{DMA_PREP_INTERRUPT}"] assms(5) by (auto simp: ch1_def)
  have inv1: "chan_inv (ch1 desc)" using prepared_inv[OF ch0(1,2) t(2) refl] by (simp add: ch1_def)
  define ch2 where "ch2 = vd_update d (\<lambda>v. v\<lparr>tx_cb := (tx_cb v)\<lparr>cb_callback := Some TEST_CALLBACK, cb_param := Some p\<rparr>\<rparr>) (ch1 desc)"
  have inv2: "chan_inv ch2" using inv1 by (auto simp: ch2_def vd_update_def chan_inv_def live_descs_def vchan_inv_def all_descs_def pending_def)
  have a2: "d \<in> set (desc_allocated ch2)" by (simp add: ch2_def ch1_def vchan_tx_prep_def vd_update_def Let_def)
  define ch3 where "ch3 = snd (vchan_tx_submit d ch2)"
  have inv3: "chan_inv ch3" unfolding ch3_def by (rule submit_ok[OF inv2 a2])
  have ck: "0 \<le> sint (fst (vchan_tx_submit d ch2))"
    using dma_cookie_assign_positive[of d ch2] by (simp add: vchan_tx_submit_def Let_def split_beta)
  have "d \<notin> set (desc_allocated ch0)" "d \<notin> set (desc_submitted ch0)" "d \<notin> set (desc_issued ch0)" "d \<notin> set (desc_completed ch0)" "d \<notin> set (desc_terminated ch0)"
    using ch0(2) by (auto simp: all_descs_def)
  then have "submitted p d ch ch3" using inv3 unfolding submitted_def
    by (simp add: ch3_def ch2_def ch1_def vchan_defs ch0_def mtdma_device_config_def remove1_id remove1_append empty_desc_def split_beta)
  moreover have "mtdma_xfer hw mem d junk p dir laddr sgl ch = map_option (\<lambda>c. (0, c)) (mtdma_device_issue_pending hw ch3)"
    using t(1) ck unfolding mtdma_xfer_def Let_def mtdma_device_prep_slave_sg_def ch0_def[symmetric]
    by (simp add: ch2_def[symmetric] ch3_def split_beta)
  ultimately show ?thesis by blast
qed

text \<open>On an idle channel the transfer starts.\<close>

lemma start_configured: "mtdma_start_transfer hw ch = Some ch' \<Longrightarrow> ch_configured ch' = ch_configured ch"
  by (auto simp: mtdma_start_transfer_def ch_do_def Let_def split: option.splits list.splits bind_splits)

lemma issue_starts:
  assumes "submitted p d ch ch3" "quiet info ch"
  shows "\<exists>ch'. mtdma_device_issue_pending hw ch3 = Some ch' \<and> stopping p d info (ch'\<lparr>ch_request := MTDMA_REQ_STOP\<rparr>) \<and>
    ch_configured ch' \<and> called ch' = called ch \<and> ch_info ch' = info"
proof -
  note s = assms(1)[unfolded submitted_def] and q = assms(2)[unfolded quiet_def]
  have l: "desc_issued ch3 = []" "desc_submitted ch3 = [d]" "desc_allocated ch3 = []" "desc_completed ch3 = []" "desc_terminated ch3 = []"
    using s q by (simp_all add: all_descs_def)
  let ?ch4 = "(snd (vchan_issue_pending ch3))\<lparr>ch_status := MTDMA_ST_BUSY\<rparr>"
  have "chan_inv ?ch4" using issued_inv[of ch3] s by simp
  then obtain ch5 where c: "mtdma_start_transfer hw ?ch4 = Some ch5" "chan_inv ch5" "same_vchan ?ch4 ch5" "ch_status ch5 = MTDMA_ST_BUSY"
    using start_transfer_ok[of ?ch4 hw] by auto
  have run: "mtdma_device_issue_pending hw ch3 = Some ch5"
    using c(1) l s q by (simp add: mtdma_device_issue_pending_def vchan_issue_pending_def Let_def)
  have tr: "virt_dma_chan.truncate ch5 = virt_dma_chan.truncate ?ch4" "ch_info ch5 = info" using c(3) s q by (simp_all add: same_vchan_def vchan_issue_pending_def Let_def)
  have "ch_configured ch5" using start_configured[OF c(1)] s by (simp add: vchan_issue_pending_def Let_def)
  moreover have "called ch5 = called ch" "all_descs ch5 = [d]" "desc_issued ch5 = [d]"
    using arg_cong[OF tr(1), of called] arg_cong[OF tr(1), of all_descs] arg_cong[OF tr(1), of desc_issued] l s
    by (simp_all add: virt_dma_chan.truncate_def vchan_issue_pending_def Let_def all_descs_def)
  moreover have "test_desc p d (virt_dma_chan.truncate (ch5\<lparr>ch_request := MTDMA_REQ_STOP\<rparr>))"
    using tr(1) s q by (simp add: virt_dma_chan.truncate_def vchan_issue_pending_def Let_def test_desc_def)
  ultimately show ?thesis using run c(2,4) tr(2) by (intro exI[of _ ch5]) (simp add: stopping_def all_descs_def)
qed

lemma stopping_trace [simp]: "stopping p d info (ch\<lparr>ch_trace := t\<rparr>) = stopping p d info ch"
  by (simp add: stopping_def all_descs_def virt_dma_chan.truncate_def)

lemma round_times_out:
  assumes "em_md em = Some md" "i < length (md_chans rd md)" "quiet info (md_chans rd md ! i)" "reports_busy hw info" "counters_ok em"
    "unat (rw_ch ti) < TEST_CH_NUM" "sgl \<noteq> []" "length sgl < 2 ^ 32" "\<And>n. mem_ok env k n" "irq_cnt env k = 0"
  shows "\<exists>em' ch'. rw_round hw env ti rd i sgl k em = Some (-1, em') \<and> em_md em' = Some (set_md_chan rd i ch' md) \<and> counters_ok em' \<and>
    called ch' = called (md_chans rd md ! i) \<and> stopping (done_id (rw_dir ti = 2) (unat (rw_ch ti))) (new_desc env k) info ch'"
proof -
  let ?p = "done_id (rw_dir ti = 2) (unat (rw_ch ti))" and ?ch = "md_chans rd md ! i"
  let ?em = "set_done (rw_dir ti = 2) (unat (rw_ch ti)) 0 em"
  have q: "chan_inv ?ch" "new_desc env k \<notin> set (all_descs ?ch)" using assms(3) by (simp_all add: quiet_def)
  obtain ch3 where x: "submitted ?p (new_desc env k) ?ch ch3"
      "mtdma_xfer hw (mem_ok env k) (new_desc env k) (cfg_junk env) ?p (rw_dir ti) (rw_laddr ti) sgl ?ch =
        map_option (\<lambda>c. (0, c)) (mtdma_device_issue_pending hw ch3)"
    using xfer_submits[OF q assms(7,8), of "mem_ok env k"] assms(9) by blast
  obtain ch4 where i: "mtdma_device_issue_pending hw ch3 = Some ch4" "stopping ?p (new_desc env k) info (ch4\<lparr>ch_request := MTDMA_REQ_STOP\<rparr>)"
      "ch_configured ch4" "called ch4 = called ?ch" "ch_info ch4 = info"
    using issue_starts[OF x(1) assms(3), of hw] by blast
  obtain t where t: "snd (mtdma_device_terminate_all hw ch4) = ch4\<lparr>ch_trace := t, ch_request := MTDMA_REQ_STOP\<rparr>"
    using terminate_busy[OF i(3), of hw] i(2,5) assms(4) by (auto simp: stopping_def)
  have "done_of (rw_dir ti = 2) (unat (rw_ch ti)) ?em = 0"
    using assms(5,6) by (simp add: set_done_def done_of_def counters_ok_def)
  then have "rw_round hw env ti rd i sgl k em = Some (-1, ?em\<lparr>em_md := Some (set_md_chan rd i (ch4\<lparr>ch_trace := t, ch_request := MTDMA_REQ_STOP\<rparr>) md)\<rparr>)"
    using assms(1,2,10) x(2) i(1) t by (simp add: rw_round_def Let_def)
  moreover have "counters_ok ?em" using done_callback(3)[OF assms(5,6)] .
  moreover have "stopping ?p (new_desc env k) info (ch4\<lparr>ch_trace := t, ch_request := MTDMA_REQ_STOP\<rparr>)"
  proof -
    have eq: "ch4\<lparr>ch_trace := t, ch_request := MTDMA_REQ_STOP\<rparr> = (ch4\<lparr>ch_request := MTDMA_REQ_STOP\<rparr>)\<lparr>ch_trace := t\<rparr>" by simp
    show ?thesis unfolding eq stopping_trace by (rule i(2))
  qed
  ultimately show ?thesis using i(4)
    by (intro exI[of _ "?em\<lparr>em_md := Some (set_md_chan rd i (ch4\<lparr>ch_trace := t, ch_request := MTDMA_REQ_STOP\<rparr>) md)\<rparr>"]
        exI[of _ "ch4\<lparr>ch_trace := t, ch_request := MTDMA_REQ_STOP\<rparr>"]) simp
qed

section \<open>The next round\<close>

text \<open>The next transfer is only queued; the interrupt completes the one that was given up.\<close>

lemma issue_waits:
  assumes "submitted p' d' ch ch3" "stopping p d info ch"
  shows "mtdma_device_issue_pending hw ch3 = Some ch3"
  using assms by (simp add: mtdma_device_issue_pending_def submitted_def stopping_def)

text \<open>What is left when the interrupt has been served: the transfer of the round, still queued.\<close>

definition left_over :: "nat \<Rightarrow> mtdma_chan_info \<Rightarrow> mtdma_chan \<Rightarrow> bool" where
  "left_over d info ch \<longleftrightarrow> ch_info ch = info \<and> ch_request ch = MTDMA_REQ_NONE \<and> ch_status ch = MTDMA_ST_IDLE \<and> ch_configured ch \<and>
     all_descs ch = [d] \<and> desc_submitted ch = [d] \<and> \<not> task_scheduled ch"

lemma late_interrupt:
  assumes "submitted p' d' ch ch3" "stopping p d info ch" "d' \<noteq> d" "reports_done hw info"
  shows "\<exists>ch' ch''. mtdma_isr hw ch3 = Some ch' \<and> task_scheduled ch' \<and> called ch' = called ch \<and> vchan_complete vchan_free_desc ch' = Some ch'' \<and>
    left_over d' info ch'' \<and> called ch'' = called ch @ [test_call p] \<and> moved info {} ch ch''"
proof -
  note s = assms(1)[unfolded submitted_def] and f = assms(2)[unfolded stopping_def]
  obtain t where t: "mtdma_isr hw ch3 = mtdma_done_interrupt hw (ch3\<lparr>ch_trace := t\<rparr>)" "moved info {} ch3 (ch3\<lparr>ch_trace := t\<rparr>)"
    using isr_done[of hw ch3] assms(4) s f by auto
  let ?ch = "ch3\<lparr>ch_trace := t\<rparr>"
  have l: "desc_issued ch3 = [d]" "desc_allocated ch3 = []" "desc_submitted ch3 = [d']" "desc_completed ch3 = []" "desc_terminated ch3 = []"
      "ch_request ch3 = MTDMA_REQ_STOP" "ch_info ch3 = info" "ch_configured ch3" "called ch3 = called ch"
    using s f by (auto simp: all_descs_def append_eq_Cons_conv)
  have td: "cb_callback (tx_cb (vd_store ch3 d)) = Some TEST_CALLBACK" "cb_callback_result (tx_cb (vd_store ch3 d)) = None"
      "cb_param (tx_cb (vd_store ch3 d)) = Some p" "DMA_CTRL_REUSE \<notin> tx_flags (vd_store ch3 d)" "cyclic ch3 = None"
    using s f assms(3) by (simp_all add: test_desc_def virt_dma_chan.truncate_def)
  have inv: "chan_inv ?ch" using s by simp
  have n: "vchan_next_desc ?ch = Some d" using l by (simp add: vchan_next_desc_def)
  obtain ch1 where c: "vchan_cookie_complete d (list_del d ?ch) = Some ch1" "chan_inv ch1"
    using finish_chan_inv[OF inv n] n by (auto simp: vchan_finish_next_def)
  let ?c = "ch1\<lparr>ch_request := MTDMA_REQ_NONE, ch_status := MTDMA_ST_IDLE\<rparr>"
  have r: "mtdma_isr hw ch3 = Some ?c" using t(1) n l c by (simp add: mtdma_done_interrupt_def)
  have fields: "desc_allocated ch1 = []" "desc_submitted ch1 = [d']" "desc_issued ch1 = []" "desc_completed ch1 = [d]" "desc_terminated ch1 = []"
      "called ch1 = called ch" "tx_cb (vd_store ch1 d) = tx_cb (vd_store ch3 d)" "tx_flags (vd_store ch1 d) = tx_flags (vd_store ch3 d)"
      "cyclic ch1 = None" "task_scheduled ch1" "ch_info ch1 = info" "ch_configured ch1" "ch_trace ch1 = t" "ch_dir ch1 = ch_dir ch3"
    using c(1) l td(5) assms(3) by (auto simp: vchan_defs split: if_splits)
  obtain ch2 where k: "vchan_complete vchan_free_desc ?c = Some ch2" "tasklet_done ?c ch2" using tasklet_ok[of ?c] c(2) by auto
  then have "left_over d' info ch2" "called ch2 = called ch @ [test_call p]"
    using fields td
    by (simp_all add: left_over_def tasklet_done_def all_descs_def test_call_def
        dmaengine_desc_callback_invoke_def dmaengine_desc_get_callback_def)
  moreover have "moved info {} ch ch2"
  proof -
    have a: "moved info {} ch ch3" using s by (intro moved_nothing) simp_all
    have "moved info {} (ch3\<lparr>ch_trace := t\<rparr>) ch2"
      using fields(13,14) k(2) by (intro moved_nothing) (simp_all add: tasklet_done_def)
    then show ?thesis using moved_trans[OF moved_trans[OF a t(2)]] by fastforce
  qed
  ultimately show ?thesis using r fields k(1) by (intro exI[of _ ?c] exI[of _ ch2]) simp
qed

lemma round_takes_answer:
  assumes "em_md em = Some md" "isr_set md" "i < length (md_chans rd md)" "stopping p d info (md_chans rd md ! i)" "reports_done hw info"
    "counters_ok em" "unat (rw_ch ti) < TEST_CH_NUM" "p = done_id (rw_dir ti = 2) (unat (rw_ch ti))" "new_desc env k \<noteq> d"
    "sgl \<noteq> []" "length sgl < 2 ^ 32" "\<And>n. mem_ok env k n" "irq_cnt env k = 1"
  shows "\<exists>em' ch'. rw_round hw env ti rd i sgl k em = Some (0, em') \<and> em_md em' = Some (set_md_chan rd i ch' md) \<and>
    called ch' = called (md_chans rd md ! i) @ [test_call p] \<and> all_descs ch' = [new_desc env k] \<and> desc_submitted ch' = [new_desc env k] \<and>
    moved info {} (md_chans rd md ! i) ch'"
proof -
  let ?ch = "md_chans rd md ! i" and ?c = "unat (rw_ch ti)" and ?wr = "rw_dir ti = 2"
  let ?em0 = "set_done ?wr ?c 0 em"
  have q: "chan_inv ?ch" "new_desc env k \<notin> set (all_descs ?ch)" using assms(4,9) by (simp_all add: stopping_def)
  obtain ch3 where x: "submitted p (new_desc env k) ?ch ch3"
      "mtdma_xfer hw (mem_ok env k) (new_desc env k) (cfg_junk env) p (rw_dir ti) (rw_laddr ti) sgl ?ch =
        map_option (\<lambda>c. (0, c)) (mtdma_device_issue_pending hw ch3)"
    using xfer_submits[OF q assms(10,11), of "mem_ok env k"] assms(12) by blast
  note x2 = x(2)[unfolded issue_waits[OF x(1) assms(4)], simplified]
  obtain ch4 c5 where c: "mtdma_isr hw ch3 = Some ch4" "task_scheduled ch4" "called ch4 = called ?ch"
      "left_over (new_desc env k) info c5" "called c5 = called ?ch @ [test_call p]"
      "moved info {} ?ch c5" "vchan_complete vchan_free_desc ch4 = Some c5"
    using late_interrupt[OF x(1) assms(4,9,5)] by blast
  let ?md1 = "set_md_chan rd i ch3 md" and ?md2 = "set_md_chan rd i c5 md"
  have "emu_mtdma_isr hw rd i (?em0\<lparr>em_md := Some ?md1\<rparr>) = Some (?em0\<lparr>em_md := Some (set_md_chan rd i ch4 md)\<rparr>)"
    using assms(1-3) c(1) by (simp add: emu_mtdma_isr_def)
  moreover have "run_tasklet rd i (?em0\<lparr>em_md := Some (set_md_chan rd i ch4 md)\<rparr>) = Some ((mtdma_test_callback p ?em0)\<lparr>em_md := Some ?md2\<rparr>)"
    using assms(3) c by (simp add: run_tasklet_def Let_def test_call_def)
  ultimately have w: "wait_irqs hw 1 rd i (?em0\<lparr>em_md := Some ?md1\<rparr>) = Some ((mtdma_test_callback p ?em0)\<lparr>em_md := Some ?md2\<rparr>)"
    by simp
  have dn: "done_of ?wr ?c (mtdma_test_callback p ?em0) = 1" using done_callback(1)[OF assms(6,7), of ?wr 0] assms(8) by simp
  let ?ch5 = "c5\<lparr>ch_configured := False\<rparr>"
  have tm: "snd (mtdma_device_terminate_all hw c5) = ?ch5"
    using c(4) by (simp add: mtdma_device_terminate_all_def left_over_def)
  have "rw_round hw env ti rd i sgl k em =
      Some (0, (set_done ?wr ?c 0 ((mtdma_test_callback p ?em0)\<lparr>em_md := Some ?md2\<rparr>))\<lparr>em_md := Some (set_md_chan rd i ?ch5 md)\<rparr>)"
    using assms(1,3,13) x2 w dn tm by (simp add: rw_round_def Let_def assms(8)[symmetric])
  moreover have "all_descs ?ch5 = all_descs c5" by (simp add: all_descs_def)
  then have "all_descs ?ch5 = [new_desc env k]" "desc_submitted ?ch5 = [new_desc env k]" using c(4) by (simp_all add: left_over_def)
  ultimately show ?thesis using c(5,6)
    by (intro exI[of _ "(set_done ?wr ?c 0 ((mtdma_test_callback p ?em0)\<lparr>em_md := Some ?md2\<rparr>))\<lparr>em_md := Some (set_md_chan rd i ?ch5 md)\<rparr>"] exI[of _ ?ch5]) simp
qed

section \<open>The property\<close>

text \<open>C15. A late answer passes for success: when a round times out while the device is at work, and its interrupt comes during the next
  round, that next round returns 0, as if its data had been moved; but the channel was never started for it.  The device has copied nothing, the
  callback that was counted is that of the first transfer, and the transfer of the round is still queued, for good unless another round issues it.\<close>

theorem late_answer_passes:
  assumes "em_md em = Some md" "isr_set md" "i < length (md_chans rd md)" "quiet info (md_chans rd md ! i)" "reports_busy hw info" "reports_done hw info"
    "counters_ok em" "unat (rw_ch ti) < TEST_CH_NUM" "sgl \<noteq> []" "length sgl < 2 ^ 32" "\<And>k n. mem_ok env k n"
    "irq_cnt env k = 0" "irq_cnt env k' = 1" "new_desc env k' \<noteq> new_desc env k"
  shows "\<exists>em1 ch1 em2 ch2. rw_round hw env ti rd i sgl k em = Some (-1, em1) \<and> em_md em1 = Some (set_md_chan rd i ch1 md) \<and>
    rw_round hw env ti rd i sgl k' em1 = Some (0, em2) \<and> em_md em2 = Some (set_md_chan rd i ch2 md) \<and> moved info {} ch1 ch2 \<and>
    called ch2 = called (md_chans rd md ! i) @ [test_call (done_id (rw_dir ti = 2) (unat (rw_ch ti)))] \<and>
    all_descs ch2 = [new_desc env k'] \<and> desc_submitted ch2 = [new_desc env k']"
proof -
  let ?p = "done_id (rw_dir ti = 2) (unat (rw_ch ti))"
  obtain em1 ch1 where a: "rw_round hw env ti rd i sgl k em = Some (-1, em1)" "em_md em1 = Some (set_md_chan rd i ch1 md)" "counters_ok em1"
      "called ch1 = called (md_chans rd md ! i)" "stopping ?p (new_desc env k) info ch1"
    using round_times_out[OF assms(1,3,4,5,7,8,9,10), of env k] assms(11,12) by blast
  let ?md = "set_md_chan rd i ch1 md"
  have m: "isr_set ?md" "i < length (md_chans rd ?md)" "md_chans rd ?md ! i = ch1" using assms(2,3) by simp_all
  obtain em2 ch2 where b: "rw_round hw env ti rd i sgl k' em1 = Some (0, em2)" "em_md em2 = Some (set_md_chan rd i ch2 ?md)"
      "called ch2 = called ch1 @ [test_call ?p]" "all_descs ch2 = [new_desc env k']" "desc_submitted ch2 = [new_desc env k']" "moved info {} ch1 ch2"
    using round_takes_answer[where k = k' and env = env, OF a(2) m(1,2), unfolded m(3), OF a(5) assms(6) a(3) assms(8) refl assms(14,9,10)]
      assms(11,13) by blast
  show ?thesis using a(1,2,4) b by auto
qed

theorem late_answer_passes_witness:
  "\<exists>em1 em2 ch. rw_round (\<lambda>t a. 1) (demo_env\<lparr>irq_cnt := \<lambda>k. k\<rparr>) demo_rw True 0 [(0x1000, 64)] 0 demo_em = Some (-1, em1) \<and>
     rw_round (\<lambda>t a. 1) (demo_env\<lparr>irq_cnt := \<lambda>k. k\<rparr>) demo_rw True 0 [(0x1000, 64)] 1 em1 = Some (0, em2) \<and>
     em_md em2 = Some (set_md_chan True 0 ch demo_md) \<and> desc_submitted ch = [1]"
proof -
  have "reports_done (\<lambda>t a. 1) demo_info"
    by (simp add: reports_done_def DMA_CH_INTR_BIT_DONE_def ERR_BITS_def DMA_CH_INTR_BIT_ERR_DATA_def DMA_CH_INTR_BIT_ERR_DESC_READ_def DMA_CH_INTR_BIT_ERR_CFG_def)
  moreover have "reports_busy (\<lambda>t a. 1) demo_info" by (simp add: reports_busy_def DMA_CH_STATUS_BUSY_def)
  ultimately show ?thesis
    using late_answer_passes[of demo_em demo_md 0 True demo_info "\<lambda>t a. 1" demo_rw "[(0x1000, 64)]" "demo_env\<lparr>irq_cnt := \<lambda>k. k\<rparr>" 0 1] demo_quiet
    by (fastforce simp: demo_em_def demo_md_def demo_rw_def demo_env_def md_chans_def counters_ok_def TEST_CH_NUM_def)
qed

end
