(* ===== verification/Spec2Isabelle.thy ===== *)
theory Spec2Isabelle
  imports VmemProps DmaEndToEnd MtdmaBareProps MmuProps ProbeProps System IntrProps PciBar RegDumpProps CoreWindows
    PcieSs Crc ClientBuf ClientCallsProps ClientState ClientWidth IntSources Rendezvous LateAnswer
begin

text \<open>
  A verification of the PCIe driver under \<open>src/driver\<close>: a Linux kernel module for a chip with
  three kinds of PCIe function (graphics, audio, and virtual graphics functions), its DMA engine,
  and the allocator of its video memory.

  \<^bold>\<open>The program.\<close>  A probe function (\<open>mt-emu-gpu.c\<close>, \<open>mt-emu-apu.c\<close>, \<open>mt-emu-vgpu.c\<close>) maps the
  regions of a function, programs the address translation (\<open>mt-emu.h\<close>, \<open>eata_api.c\<close>), installs the
  interrupt handlers and registers a device file (\<open>mt-emu-ioctl.c\<close>), a second device file for a
  DMA buffer (\<open>mt-emu-dmabuf.c\<close>) and the DMA controller (\<open>mt-emu-mtdma-core.c\<close>).  A user calls
  \<open>mt_test_ioctl\<close>, whose commands read and write BAR memory and configuration space, trigger and
  wait for interrupts, and start transfers.  There are two DMA drivers for one piece of hardware:
  \<open>mt-emu-mtdma-bare.c\<close> programs a channel directly and waits; \<open>mt-emu-mtdma-test.c\<close> is a client
  of the DMA framework of the kernel, behind which stands \<open>mt-emu-mtdma-core.c\<close> on the virtual
  channels of \<open>virt-dma.c\<close>.  An interrupt enters by the handlers of \<open>mt-emu-ioctl.c\<close>, which
  dispatch it to the channels or complete a waiting system call.  \<open>mm.c\<close> allocates
  pages of video memory with two balanced trees; \<open>mmu_init_pagetable.c\<close> builds the page tables
  of the device; \<open>mt-emu-intr.c\<close>, \<open>qy_intd.h\<close> and \<open>qy_plic.h\<close> program the interrupt controllers.
  The addresses come from \<open>comm_define.h\<close> and \<open>module_reg.h\<close>.  Four programs under \<open>src/scripts\<close> look
  at the registers and the descriptors through \<open>/dev/mem\<close>, and the library of the tests, \<open>src/test/lib/mt_pcie_f.c\<close>, is
  the client of the device files.

  \<^bold>\<open>Conventions.\<close>  A C integer is a word of its width, with the conversions of C written out; an
  \<open>int\<close> that is only compared is an \<open>int\<close>.  A struct is a record, an intrusive list a list of
  names.  \<open>None\<close> as the value of an operation is behaviour the code does not define or does not
  survive: an index beyond an array, a null or uninitialised pointer dereferenced, a failed
  \<open>ASSERT\<close> or \<open>BUG_ON\<close>, a hang.  That an operation returns \<open>Some\<close> is proved wherever a property
  rests on it.  Error codes are values of the operations.  Register accesses are programs of a
  state monad over the trace of accesses (theory \<open>Mmio\<close>): the value of a read is a parameter \<open>hw\<close>
  that may depend on everything done before, so a theorem holds for any device unless it names
  a hypothesis on it, such as a memory that keeps what is stored.  What the kernel answers
  (allocation, registration, mapping, pinned pages, interrupts before a timeout) is a record of
  parameters of the component, and what the driver asks of the kernel is a log; the rules of the kernel on such a
  log are automata (theory \<open>Protocol\<close>).  The loops of the code are bounded and modelled by structural
  recursion or recursion on the bound; no definition uses fuel.  The one search without a bound, \<open>vsec_loop\<close>, is a
  partial function.

  \<^bold>\<open>Theories, in the order of their dependencies.\<close>
  \<^item> \<open>Prelude\<close>: C integer types, shared lemmas on words, lists, options and association lists.
    \<open>Protocol\<close>: the locale of automata over logs, interpreted for the vectors and handlers
    (\<open>IrqProps\<close>), for the locks of a system call (\<open>IoctlProps\<close>), for the resources of a
    device (\<open>Dmabuf\<close>) and for the ROM (\<open>PciBar\<close>).
  \<^item> \<open>Avl\<close>: the height-balanced tree of \<open>mm.c\<close>, routine by routine.  The lemmas show that its
    rebalancing never fails, that heights stay exact, that the tree of any run of insertions and removals is logarithmic, and that the routines act on the in-order list as on a sorted
    list.  The locale \<open>ordered_index\<close> states this contract for the allocator.
  \<^item> \<open>Vmem\<close>, \<open>VmemProps\<close>: \<open>vmem_init\<close>, \<open>vmem_alloc\<close>, \<open>vmem_free\<close>, \<open>vmem_exit\<close>, \<open>vmem_get_info\<close>.
    The abstract state is a tiling of the pages by blocks; allocation splits the best-fitting free block, freeing
    merges with the free neighbours, and every run keeps both trees, the marks of the
    pages and the counters in agreement with the tiling.  The allocation of a tree node may fail; the code then
    dereferences the null pointer, which is the only way a run can end early.
  \<^item> \<open>Mmio\<close>: traces of accesses, \<open>readl\<close>, \<open>writel\<close> and the macros built on them, and the memory
    that a trace leaves behind.  \<open>DmaRegs\<close>: the registers and the descriptor layout of
    \<open>mt-emu-mtdma-bare.h\<close>; what the device fetches when it follows a chain of descriptors.
  \<^item> \<open>VirtDma\<close>: \<open>virt-dma.c\<close>, \<open>virt-dma.h\<close> and the cookies of \<open>dmaengine.h\<close>; descriptors complete
    in the order of submission (locale \<open>desc_queue\<close>).
  \<^item> \<open>MtdmaCore\<close>, \<open>MtdmaProps\<close>: \<open>mt-emu-mtdma-core.c\<close>.  The chain written for a chunk is the list
    of its bursts; a prepared descriptor is the scatter list; no sequence of client calls, interrupts and tasklet runs
    faults or leaks; termination always ends.  Every \<open>kzalloc\<close> may fail, and each is counted in \<open>ch_live\<close> until its \<open>kfree\<close>: the
    properties equate the count with the descriptors, chunks and bursts on the lists of the channel.  The tasklet
    \<open>vchan_complete\<close> runs the routine of the driver that frees a descriptor.  \<open>DmaDevice\<close> is the other side of the registers: which bytes a device copies that
    executes the stores of a trace and follows the chains it finds.
  \<^item> \<open>MtdmaBare\<close>, \<open>MtdmaBareProps\<close>: \<open>mt-emu-mtdma-bare.c\<close>, with the same specification of the
    chain, for as many links as the base register can tell, the links between blocks, and the result of a transfer.
  \<^item> \<open>Pcie\<close>, \<open>PcieProps\<close>: \<open>struct emu_pcie\<close>, the translation units of \<open>mt-emu.h\<close> and the tables of
    \<open>eata_api.c\<close>; regions do not interfere, and the memory of each virtual function is its own.
  \<^item> \<open>Irq\<close>, \<open>IrqProps\<close>: \<open>irq_init\<close>, \<open>qy_free_irq\<close>, the handlers and \<open>emu_dma_isr\<close> of
    \<open>mt-emu-ioctl.c\<close>; the protocol of vectors and handlers, exact dispatch, masking.
  \<^item> \<open>Mmu\<close>, \<open>MmuProps\<close>: \<open>mmu_init_pagetable.c\<close>, and a walk over the tables as the specification; the
    locale \<open>table_level\<close> is one level of the walk.
  \<^item> \<open>DmaTest\<close>, \<open>DmaTestProps\<close>: \<open>mt-emu-mtdma-test.c\<close>; the scatter list covers the user's buffer,
    what is taken is released in reverse order, and a transfer whose interrupts arrive completes.
    \<open>DmaEndToEnd\<close> composes the scatter list, the engine and the device: a successful test has moved exactly
    the bytes of the user's buffer, each to its place, in either direction.
  \<^item> \<open>Ioctl\<close>, \<open>IoctlProps\<close>: all commands of \<open>mt_test_ioctl\<close>, and \<open>mmap\<close>; the transfers through BAR
    memory, the locks, the arguments that are rejected or should be.  The log of a call holds its register accesses, the copies from
    and to the user, the locks and the waits, also those of the transfers it starts: the mutex of a bare channel is
    part of the trace of \<open>MtdmaBare\<close>, the semaphore of the DMA test part of the log of \<open>DmaTest\<close>.
  \<^item> \<open>Dmabuf\<close>: \<open>mt-emu-dmabuf.c\<close> with its properties.  \<open>Probe\<close>, \<open>ProbeProps\<close>: probe, removal and
    error recovery of the three functions, composed of the operations above; what a device owns
    after each.
  \<^item> \<open>System\<close>: system calls and interrupts of a function as the steps of an inductive
    transition relation, in any order; the state stays well formed, and the interrupts on the vectors in use are served.  The number under which
    the kernel delivers a vector is what it gave for it when the handlers were installed, not the position of the vector.
  \<^item> \<open>Intr\<close>, \<open>IntrProps\<close>: \<open>mt-emu-intr.c\<close>, \<open>qy_intd.h\<close>, \<open>qy_plic.h\<close>; the routing writes its registers
    once each, and a source is enabled for a target without touching any other.
  \<^item> \<open>PciBar\<close>: the routines of \<open>mt-emu-gpu.c\<close> for the PCI resources of the function (resizing a BAR,
    the expansion ROM, a vendor capability, the debug buffer), which the probe does not call as configured.
  \<^item> \<open>AddrMap\<close>: the address map of \<open>comm_define.h\<close> and the macros that select a module by an index; an address belongs to one
    module, and the regions that the header declares a second time are those of the modules they stand for.  \<open>CoreWindows\<close>: the windows of the PCIe core in \<open>module_reg.h\<close>, and that the address translation code stores
    only into the modules it is for.
  \<^item> \<open>RegDump\<close>, \<open>RegDumpProps\<close>: \<open>mtdma_reg_dump_pf0.c\<close>, \<open>mtdma_reg_dump_vf.c\<close>, \<open>dump_desc.c\<close> and \<open>devmem.c\<close> of
    \<open>src/scripts\<close>: what they read, print and clear, and where that agrees with the registers and the lists of the driver.
  \<^item> \<open>PcieSs\<close>: the registers of the PCIe subsystem in \<open>reg_define.h\<close>, register by register, and the layout they follow: a block
    for each virtual function, in no place twice.
  \<^item> \<open>ClientLib\<close>, \<open>ClientLibProps\<close>: the attributes of the drivers in \<open>sysfs\<close> and the client library that reads them; the client learns the regions that
    the probe recorded, and its transfers move every byte once.  \<open>ClientBuf\<close>: its allocator for the DMA
    buffer, refined to the set of the blocks in use.  \<open>Crc\<close>: its checksum, equal to a shift register.
    \<open>ClientWidth\<close>: its transfers with a chosen width of the accesses.
  \<^item> \<open>ClientCalls\<close>, \<open>ClientCallsProps\<close>: its functions that call \<open>ioctl\<close>, on top of \<open>mt_test_ioctl\<close>; a transfer of any
    size, cut into pieces, is read back as it was written.
  \<^item> \<open>TargetCmd\<close>, \<open>TargetCmdProps\<close>: its commands to the processors of the chip, through slots and a window of shared memory.
    The program of the processors is a parameter; with one that obeys the commands, data of any size arrive and come back.
    \<open>ClientState\<close>: the state of the library, what it opens and learns when it is initialised, and where it looks
    for the memory of a virtual function.
  \<^item> \<open>Rendezvous\<close>: the calls that wait for an interrupt, action by action, in any interleaving with each other and with the
    interrupts; a transfer never misses its answer; of any number of commands to a processor each is told
    whether an answer came while it waited.  \<open>LateAnswer\<close>: the rounds of the DMA test
    through a timeout.
  \<^item> \<open>IntSources\<close>: the sources of \<open>qy_intd_def.h\<close>, their numbers and their control registers.

  The properties are marked C1, C2, and so on in the theories.  Those that describe a flaw of the code state what the code does, with the condition under
  which it does not happen where there is one.

  \<^bold>\<open>Parameters and bounds.\<close>  The number of virtual functions, of channels and of contexts is that of
  the headers; sizes of user buffers, scatter lists, allocators and traces are arbitrary.  A
  hypothesis on a size says at the theorem from which value on an arithmetic operation of the code would
  wrap.  Build options are those of the source as it stands: \<open>MTDMA_MMU\<close> is 0, \<open>DMA_RESV_MEM\<close> is
  1, \<open>PCIE_USE_MBOX\<close> is set, and code under an option that is off is not modelled.

  \<^bold>\<open>Not modelled.\<close>  The names of the registers of other parts of the chip in \<open>reg_define.h\<close> and the constants of
  \<open>comm_define.h\<close> for their tests, beyond those that modelled code uses: they have no behaviour.
  Log output.  Concurrency within an operation: each operation and each handler is one step, as the locks are meant to achieve, and the
  locks of a system call are in its log; the exception are the calls that wait for an interrupt, in \<open>Rendezvous\<close>.
  Operations that only return 0.  The kernel itself: its services are parameters.
  Of the programs under \<open>src/test\<close>, all but the client library \<open>lib/mt_pcie_f.c\<close>: they are tests, which have no
  contract of their own, and vendored libraries; of the library, its wrappers of functions of the C library.
  The shell and Python scripts, and images.
\<close>

end
